(* ===== verification/Prelude.thy ===== *)
theory Prelude
  imports Complex_Main "HOL-Library.Char_ord" "HOL-Library.List_Lexorder"
    "HOL-Library.Product_Lexorder" "HOL-Library.Multiset"
begin

text \<open>
  Shared vocabulary of the development.

  \<^item> Go values: \<open>time.Time\<close> and \<open>time.Duration\<close> are integers counting nanoseconds
    (a \<open>time.Time\<close> counts from Go's zero time, so \<open>IsZero\<close> is \<open>t = 0\<close>),
    \<open>float64\<close> values that are only compared or linearly combined are reals,
    \<open>map[string]any\<close> is a partial map into \<open>goany\<close>, a nil pointer or nil map is
    \<open>None\<close>, an error return is the left summand of a sum.
  \<^item> SQL tables are lists of rows in insertion order.  \<open>SELECT \<dots> WHERE\<close> is \<open>filter\<close>,
    a primary-key lookup is \<open>List.find\<close>, \<open>UPDATE \<dots> WHERE\<close> is \<open>update_where\<close>,
    \<open>ORDER BY\<close> is \<open>sort_key\<close> (ties keep table order) and \<open>LIMIT\<close> is \<open>take\<close>.
    Text columns are compared bytewise.
  \<^item> A statement may fail for reasons the program does not control (connection, disk).
    A database state carries a list of outcomes, one per statement still to run; \<open>True\<close>
    makes the statement fail without effect, the empty list lets every statement succeed.
\<close>

section \<open>Go values\<close>

type_synonym time = int
type_synonym duration = int

definition Nanosecond :: duration where "Nanosecond = 1"
definition Millisecond :: duration where "Millisecond = 1000000"
definition Second :: duration where "Second = 1000000000"
definition Minute :: duration where "Minute = 60 * Second"
definition Hour :: duration where "Hour = 60 * Minute"

datatype goany =
    ANil
  | ABool bool
  | ANum real
  | AInt int
  | AStr string
  | ATime time
  | AList "goany list"
  | AMap "(string \<times> goany) list"

type_synonym gomap = "string \<rightharpoonup> goany"

definition IsZero :: "time \<Rightarrow> bool" where
  "IsZero t \<longleftrightarrow> t = 0"

text \<open>\<open>strings.TrimSpace\<close> on ASCII text and \<open>strings.Split\<close> on one separator byte.\<close>

definition isSpace :: "char \<Rightarrow> bool" where
  "isSpace ch \<longleftrightarrow> ch \<in> {CHR '' '', CHR 0x09, CHR 0x0A, CHR 0x0B, CHR 0x0C, CHR 0x0D}"

definition TrimSpace :: "string \<Rightarrow> string" where
  "TrimSpace s = rev (dropWhile isSpace (rev (dropWhile isSpace s)))"

fun Split :: "char \<Rightarrow> string \<Rightarrow> string list" where
  "Split sep [] = [[]]"
| "Split sep (ch # s) =
     (if ch = sep then [] # Split sep s
      else case Split sep s of [] \<Rightarrow> [[ch]] | w # ws \<Rightarrow> (ch # w) # ws)"

section \<open>SQL over lists of rows\<close>

definition update_where :: "('r \<Rightarrow> bool) \<Rightarrow> ('r \<Rightarrow> 'r) \<Rightarrow> 'r list \<Rightarrow> 'r list" where
  "update_where P f rows = map (\<lambda>r. if P r then f r else r) rows"

definition NULLIF_empty :: "string \<Rightarrow> string option" where
  "NULLIF_empty s = (if s = [] then None else Some s)"

definition COALESCE_empty :: "string option \<Rightarrow> string" where
  "COALESCE_empty c = (case c of None \<Rightarrow> [] | Some s \<Rightarrow> s)"

definition COALESCE :: "'a option \<Rightarrow> 'a option \<Rightarrow> 'a option" where
  "COALESCE a b = (case a of None \<Rightarrow> b | Some v \<Rightarrow> Some v)"

text \<open>The outcome of the next statement and the outcomes left.\<close>

fun next_fault :: "bool list \<Rightarrow> bool \<times> bool list" where
  "next_fault [] = (False, [])"
| "next_fault (b # bs) = (b, bs)"

section \<open>Collections\<close>

text \<open>Facts about rows under updates, about NULL handling, and distinctness facts.\<close>

named_theorems row_simps

section \<open>Lemmas on tables\<close>

lemma length_update_where [simp]: "length (update_where P f rows) = length rows"
  by (simp add: update_where_def)

lemma update_where_Nil [simp]: "update_where P f [] = []"
  by (simp add: update_where_def)

lemma update_where_Cons [simp]:
  "update_where P f (r # rows) = (if P r then f r else r) # update_where P f rows"
  by (simp add: update_where_def)

lemma update_where_none:
  "(\<And>r. r \<in> set rows \<Longrightarrow> \<not> P r) \<Longrightarrow> update_where P f rows = rows"
  by (induction rows) auto

lemma set_update_where:
  "set (update_where P f rows) = (\<lambda>r. if P r then f r else r) ` set rows"
  by (simp add: update_where_def)

lemma update_where_memE:
  assumes "r \<in> set (update_where P f rows)"
  obtains r0 where "r0 \<in> set rows" "P r0" "r = f r0" | "r \<in> set rows" "\<not> P r"
  using assms by (auto simp: set_update_where split: if_splits)

lemma bex_update_where [row_simps]:
  "(\<exists>s \<in> set (update_where P f rows). Q s) \<longleftrightarrow> (\<exists>r \<in> set rows. Q (if P r then f r else r))"
  by (auto simp: update_where_def)

lemma ball_update_where [row_simps]:
  "(\<forall>s \<in> set (update_where P f rows). Q s) \<longleftrightarrow> (\<forall>r \<in> set rows. Q (if P r then f r else r))"
  by (auto simp: update_where_def)

lemma map_update_where [row_simps]:
  "(\<And>r. g (f r) = g r) \<Longrightarrow> map g (update_where P f rows) = map g rows"
  by (induction rows) auto

lemma image_update_where [row_simps]:
  assumes "\<And>r. g (f r) = g r"
  shows "g ` set (update_where P f rows) = g ` set rows"
proof -
  have "set (map g (update_where P f rows)) = set (map g rows)"
    using assms by (simp only: map_update_where)
  then show ?thesis by simp
qed

lemma find_update_where_same [row_simps]:
  assumes "\<And>r. P (f r) = P r"
  shows "List.find P (update_where P f rows) = map_option f (List.find P rows)"
  using assms by (induction rows) auto

lemma find_update_where_other:
  assumes "\<And>r. Q r \<Longrightarrow> \<not> P r" and "\<And>r. P r \<Longrightarrow> \<not> Q (f r)"
  shows "List.find Q (update_where P f rows) = List.find Q rows"
  using assms by (induction rows) auto

lemma find_snoc:
  "List.find P (rows @ [r]) =
     (case List.find P rows of Some x \<Rightarrow> Some x | None \<Rightarrow> if P r then Some r else None)"
  by (induction rows) auto

lemma find_SomeD: "List.find P rows = Some r \<Longrightarrow> r \<in> set rows \<and> P r"
  by (induction rows) (auto split: if_splits)

lemma find_NoneD: "List.find P rows = None \<Longrightarrow> r \<in> set rows \<Longrightarrow> \<not> P r"
  by (induction rows) (auto split: if_splits)

lemma find_None_snoc: "List.find P rows = None \<Longrightarrow> P r \<Longrightarrow> List.find P (rows @ [r]) = Some r"
  by (simp add: find_snoc)

lemma distinct_key_eq:
  "distinct (map k rows) \<Longrightarrow> r \<in> set rows \<Longrightarrow> s \<in> set rows \<Longrightarrow> k r = k s \<Longrightarrow> r = s"
  by (induction rows) (auto simp: image_iff)

lemma distinct_key_find:
  assumes "distinct (map k rows)" and "r \<in> set rows"
  shows "List.find (\<lambda>x. k x = k r) rows = Some r"
  using assms by (induction rows) auto

lemma find_fresh_snoc:
  assumes "k r \<notin> k ` set rows"
  shows "List.find (\<lambda>x. k x = k r) (rows @ [r]) = Some r"
  using assms by (induction rows) auto

lemma find_key_unique:
  assumes "distinct (map k rows)" and "List.find (\<lambda>r. k r = i) rows = Some r"
    and "s \<in> set rows" and "k s = i"
  shows "s = r"
  using find_SomeD[OF assms(2)] assms(3,4) by (intro distinct_key_eq[OF assms(1)]) simp_all

lemma filter_update_where:
  assumes "\<And>r. r \<in> set rows \<Longrightarrow> P r \<Longrightarrow> \<not> Q r \<and> \<not> Q (f r)"
  shows "filter Q (update_where P f rows) = filter Q rows"
  using assms by (induction rows) auto

text \<open>\<open>EXISTS\<close> tests on one key column and on a pair of key columns.\<close>

lemma list_ex_key [row_simps]: "list_ex (\<lambda>s. k s = v) xs \<longleftrightarrow> v \<in> k ` set xs"
  by (force simp: list_ex_iff)

lemma list_ex_key2 [row_simps]:
  "list_ex (\<lambda>s. k s = v \<and> l s = w) xs \<longleftrightarrow> (v, w) \<in> (\<lambda>s. (k s, l s)) ` set xs"
  by (force simp: list_ex_iff)

section \<open>Transition systems with an invariant\<close>

text \<open>
  The interface every stateful component offers: a step relation and an invariant that its
  steps keep.  What follows for whole runs is proved here once.
\<close>

locale transition_system =
  fixes step :: "'s \<Rightarrow> 's \<Rightarrow> bool" and inv :: "'s \<Rightarrow> bool"
  assumes step_inv: "step s t \<Longrightarrow> inv s \<Longrightarrow> inv t"
begin

lemma run_inv: "step\<^sup>*\<^sup>* s t \<Longrightarrow> inv s \<Longrightarrow> inv t"
  by (induction rule: rtranclp_induct) (auto intro: step_inv)

lemma run_preorder:
  assumes "step\<^sup>*\<^sup>* s t" and "inv s"
    and refl: "\<And>s. R s s" and trans: "\<And>s t u. R s t \<Longrightarrow> R t u \<Longrightarrow> R s u"
    and step: "\<And>s t. step s t \<Longrightarrow> inv s \<Longrightarrow> R s t"
  shows "R s t"
  using assms(1,2)
proof (induction rule: rtranclp_induct)
  case (step t u)
  from step.hyps(1) step.prems have "inv t" by (rule run_inv)
  with step.hyps(2) have "R t u" by (rule assms(5))
  with step.IH[OF step.prems] show ?case by (rule trans)
qed (rule refl)

lemma run_view:
  assumes "step\<^sup>*\<^sup>* s t" and "inv s" and "\<And>s t. step s t \<Longrightarrow> inv s \<Longrightarrow> v t = v s"
  shows "v t = v s"
  by (rule run_preorder[where R = "\<lambda>s t. v t = v s", OF assms(1,2)]) (simp_all add: assms(3))

end

section \<open>NULL columns\<close>

lemma NULLIF_COALESCE [simp]: "COALESCE_empty (NULLIF_empty s) = s"
  by (simp add: COALESCE_empty_def NULLIF_empty_def)

lemma COALESCE_empty_Some [simp]: "COALESCE_empty (Some s) = s"
  by (simp add: COALESCE_empty_def)

lemma COALESCE_empty_None [simp]: "COALESCE_empty None = []"
  by (simp add: COALESCE_empty_def)

lemma COALESCE_simps [simp]: "COALESCE (Some v) b = Some v" "COALESCE None b = b"
  by (simp_all add: COALESCE_def)

section \<open>Machine integers\<close>

text \<open>An \<open>int64\<close> result of Go is the exact result reduced to the 64-bit range.\<close>

definition wrap64 :: "int \<Rightarrow> int" where
  "wrap64 x = (x + 2 ^ 63) mod 2 ^ 64 - 2 ^ 63"

lemma wrap64_id: "- (2 ^ 63) \<le> x \<Longrightarrow> x < 2 ^ 63 \<Longrightarrow> wrap64 x = x"
  by (simp add: wrap64_def)

end
