(* ===== verification/Applications.thy ===== *)
theory Applications
  imports Prelude
begin

text \<open>
  The pure part of \<open>pkg/applications\<close>: the application state machine (\<open>state.go\<close>)
  and the per-candidate autonomy document (\<open>rules.go\<close>).

  \<open>Status\<close> is a Go string type, so a status is any string; the ten named constants are
  the keys of the transition table.  The lemmas show that the table is a finite acyclic
  graph whose sinks are the terminal statuses, that \<open>ValidateTransition\<close> decides its edge
  relation, and that \<open>Rules.Validate\<close> accepts exactly the documents that satisfy the
  documented constraints.
\<close>

section \<open>Statuses and the transition table\<close>

type_synonym Status = string

definition StatusNew :: Status where "StatusNew = ''new''"
definition StatusDismissed :: Status where "StatusDismissed = ''dismissed''"
definition StatusApplying :: Status where "StatusApplying = ''applying''"
definition StatusSubmitted :: Status where "StatusSubmitted = ''submitted''"
definition StatusScreening :: Status where "StatusScreening = ''screening''"
definition StatusInterview :: Status where "StatusInterview = ''interview''"
definition StatusOffer :: Status where "StatusOffer = ''offer''"
definition StatusAccepted :: Status where "StatusAccepted = ''accepted''"
definition StatusRejected :: Status where "StatusRejected = ''rejected''"
definition StatusWithdrawn :: Status where "StatusWithdrawn = ''withdrawn''"

definition transitions :: "Status \<rightharpoonup> Status list" where
  "transitions = map_of
     [(StatusNew, [StatusDismissed, StatusApplying]),
      (StatusApplying, [StatusSubmitted, StatusRejected, StatusWithdrawn]),
      (StatusSubmitted, [StatusScreening, StatusRejected, StatusWithdrawn]),
      (StatusScreening, [StatusInterview, StatusRejected, StatusWithdrawn]),
      (StatusInterview, [StatusOffer, StatusRejected, StatusWithdrawn]),
      (StatusOffer, [StatusAccepted, StatusRejected, StatusWithdrawn]),
      (StatusDismissed, []),
      (StatusAccepted, []),
      (StatusRejected, []),
      (StatusWithdrawn, [])]"

definition terminalSet :: "Status \<rightharpoonup> bool" where
  "terminalSet = map_of
     [(StatusDismissed, True), (StatusAccepted, True),
      (StatusRejected, True), (StatusWithdrawn, True)]"

text \<open>A missing key of a \<open>map[Status]bool\<close> reads as \<open>false\<close>.\<close>

definition IsTerminal :: "Status \<Rightarrow> bool" where
  "IsTerminal s = (case terminalSet s of None \<Rightarrow> False | Some b \<Rightarrow> b)"

definition AllStatuses :: "Status list" where
  "AllStatuses =
     [StatusNew, StatusDismissed, StatusApplying, StatusSubmitted, StatusScreening,
      StatusInterview, StatusOffer, StatusAccepted, StatusRejected, StatusWithdrawn]"

definition AllowedNext :: "Status \<Rightarrow> Status list" where
  "AllowedNext from = (case transitions from of None \<Rightarrow> [] | Some out \<Rightarrow> out)"

record InvalidTransitionError =
  it_From :: Status
  it_To :: Status
  it_Allowed :: "Status list"

fun transition_scan :: "Status list \<Rightarrow> Status \<Rightarrow> bool" where
  "transition_scan [] to = False"
| "transition_scan (s # rest) to = (if s = to then True else transition_scan rest to)"

definition ValidateTransition :: "Status \<Rightarrow> Status \<Rightarrow> InvalidTransitionError option" where
  "ValidateTransition from to =
     (case transitions from of
        None \<Rightarrow> Some \<lparr>it_From = from, it_To = to, it_Allowed = []\<rparr>
      | Some allowed \<Rightarrow>
          if transition_scan allowed to then None
          else Some \<lparr>it_From = from, it_To = to, it_Allowed = allowed\<rparr>)"

text \<open>The edge relation of the table, the reference the code is compared with.\<close>

inductive status_step :: "Status \<Rightarrow> Status \<Rightarrow> bool" where
  dismiss: "status_step StatusNew StatusDismissed"
| start: "status_step StatusNew StatusApplying"
| submit: "status_step StatusApplying StatusSubmitted"
| screen: "status_step StatusSubmitted StatusScreening"
| interview: "status_step StatusScreening StatusInterview"
| offer: "status_step StatusInterview StatusOffer"
| accept: "status_step StatusOffer StatusAccepted"
| reject: "s \<in> {StatusApplying, StatusSubmitted, StatusScreening, StatusInterview, StatusOffer}
    \<Longrightarrow> status_step s StatusRejected"
| withdraw: "s \<in> {StatusApplying, StatusSubmitted, StatusScreening, StatusInterview, StatusOffer}
    \<Longrightarrow> status_step s StatusWithdrawn"

text \<open>A height that falls along every edge: how many transitions are still possible.\<close>

definition status_height :: "Status \<Rightarrow> nat" where
  "status_height s =
     (if s = StatusNew then 6 else if s = StatusApplying then 5
      else if s = StatusSubmitted then 4 else if s = StatusScreening then 3
      else if s = StatusInterview then 2 else if s = StatusOffer then 1 else 0)"

section \<open>The autonomy rules document\<close>

record Blocklist =
  bl_Companies :: "string list"
  bl_Domains :: "string list"

record AutoapplyRules =
  ar_Enabled :: bool
  ar_RequireMinScore :: real
  ar_Kinds :: "string list"

record Rules =
  r_Version :: int
  r_Enabled :: bool
  r_MinScore :: real
  r_DailyCap :: int
  r_WeeklyCap :: int
  r_Kinds :: "string list"
  r_Countries :: "string list"
  r_SalaryFloorUSD :: int
  r_RemoteOnly :: bool
  r_DismissAfterDays :: int
  r_Blocklist :: Blocklist
  r_Autoapply :: AutoapplyRules

definition validKinds :: "string list" where
  "validKinds = [''job'', ''scholarship'', ''funding'', ''tender'', ''deal'']"

definition zeroAutoapply :: AutoapplyRules where
  "zeroAutoapply = \<lparr>ar_Enabled = False, ar_RequireMinScore = 0, ar_Kinds = []\<rparr>"

definition zeroRules :: Rules where
  "zeroRules = \<lparr>r_Version = 0, r_Enabled = False, r_MinScore = 0, r_DailyCap = 0,
     r_WeeklyCap = 0, r_Kinds = [], r_Countries = [], r_SalaryFloorUSD = 0,
     r_RemoteOnly = False, r_DismissAfterDays = 0,
     r_Blocklist = \<lparr>bl_Companies = [], bl_Domains = []\<rparr>, r_Autoapply = zeroAutoapply\<rparr>"

definition DefaultRules :: Rules where
  "DefaultRules = zeroRules\<lparr>r_Version := 1, r_Enabled := True, r_MinScore := 1 / 2,
     r_DailyCap := 25, r_WeeklyCap := 100, r_Kinds := [''job''], r_DismissAfterDays := 14\<rparr>"

datatype rules_error =
    RulesDecode
  | UnsupportedVersion int
  | MinScoreRange real
  | KindsEmpty
  | InvalidKind string
  | DailyCapRange int
  | WeeklyCapRange int
  | DismissAfterDaysRange int
  | SalaryFloorNegative int
  | AutoapplyBelowMinScore real real
  | AutoapplyMinScoreRange real
  | AutoapplyKindNotSubset string

text \<open>The two \<open>range\<close> loops over kinds: the first kind that fails the test, if any.\<close>

fun firstInvalidKind :: "(string \<Rightarrow> bool) \<Rightarrow> string list \<Rightarrow> string option" where
  "firstInvalidKind ok [] = None"
| "firstInvalidKind ok (k # ks) = (if \<not> ok k then Some k else firstInvalidKind ok ks)"

definition ValidateAutoapply :: "Rules \<Rightarrow> rules_error option" where
  "ValidateAutoapply r =
     (let a = r_Autoapply r in
      if \<not> ar_Enabled a then None
      else if ar_RequireMinScore a < r_MinScore r
      then Some (AutoapplyBelowMinScore (ar_RequireMinScore a) (r_MinScore r))
      else if ar_RequireMinScore a > 1 then Some (AutoapplyMinScoreRange (ar_RequireMinScore a))
      else (case firstInvalidKind (\<lambda>k. k \<in> set (r_Kinds r)) (ar_Kinds a) of
              Some k \<Rightarrow> Some (AutoapplyKindNotSubset k)
            | None \<Rightarrow> None))"

definition Validate :: "Rules \<Rightarrow> rules_error option" where
  "Validate r =
     (if r_Version r \<noteq> 1 then Some (UnsupportedVersion (r_Version r))
      else if r_MinScore r < 0 \<or> r_MinScore r > 1 then Some (MinScoreRange (r_MinScore r))
      else if length (r_Kinds r) = 0 then Some KindsEmpty
      else (case firstInvalidKind (\<lambda>k. k \<in> set validKinds) (r_Kinds r) of
        Some k \<Rightarrow> Some (InvalidKind k)
      | None \<Rightarrow>
          if r_DailyCap r \<le> 0 \<or> r_DailyCap r > 1000 then Some (DailyCapRange (r_DailyCap r))
          else if r_WeeklyCap r < r_DailyCap r \<or> r_WeeklyCap r > 5000
          then Some (WeeklyCapRange (r_WeeklyCap r))
          else if r_DismissAfterDays r < 0 \<or> r_DismissAfterDays r > 365
          then Some (DismissAfterDaysRange (r_DismissAfterDays r))
          else if r_SalaryFloorUSD r < 0 then Some (SalaryFloorNegative (r_SalaryFloorUSD r))
          else ValidateAutoapply r))"

text \<open>
  A decoded JSON object: the struct that \<open>dec.Decode\<close> fills (absent keys leave the zero
  value) and whether the two keys that receive defaults were present.  \<open>None\<close> stands
  for text that does not decode or has an unknown field.
\<close>

record rules_document =
  rd_decoded :: Rules
  rd_has_daily_cap :: bool
  rd_has_weekly_cap :: bool

definition ParseRules :: "rules_document option \<Rightarrow> rules_error + Rules" where
  "ParseRules body =
     (case body of
        None \<Rightarrow> Inl RulesDecode
      | Some m \<Rightarrow>
          let r0 = rd_decoded m;
              r1 = (if rd_has_daily_cap m then r0 else r0\<lparr>r_DailyCap := r_DailyCap DefaultRules\<rparr>);
              r2 = (if rd_has_weekly_cap m then r1
                    else r1\<lparr>r_WeeklyCap := r_WeeklyCap DefaultRules\<rparr>)
          in (case Validate r2 of Some e \<Rightarrow> Inl e | None \<Rightarrow> Inr r2))"

text \<open>\<open>json.Marshal\<close> of a \<open>Rules\<close> writes both cap keys (they have no \<open>omitempty\<close>).\<close>

definition MarshalRules :: "Rules \<Rightarrow> rules_error + rules_document" where
  "MarshalRules r =
     (case Validate r of
        Some e \<Rightarrow> Inl e
      | None \<Rightarrow> Inr \<lparr>rd_decoded = r, rd_has_daily_cap = True, rd_has_weekly_cap = True\<rparr>)"

text \<open>The constraints the document promises, stated without an order of checks.\<close>

definition rules_ok :: "Rules \<Rightarrow> bool" where
  "rules_ok r \<longleftrightarrow>
     r_Version r = 1 \<and> 0 \<le> r_MinScore r \<and> r_MinScore r \<le> 1 \<and>
     r_Kinds r \<noteq> [] \<and> set (r_Kinds r) \<subseteq> set validKinds \<and>
     0 < r_DailyCap r \<and> r_DailyCap r \<le> 1000 \<and>
     r_DailyCap r \<le> r_WeeklyCap r \<and> r_WeeklyCap r \<le> 5000 \<and>
     0 \<le> r_DismissAfterDays r \<and> r_DismissAfterDays r \<le> 365 \<and> 0 \<le> r_SalaryFloorUSD r \<and>
     (ar_Enabled (r_Autoapply r) \<longrightarrow>
        r_MinScore r \<le> ar_RequireMinScore (r_Autoapply r) \<and>
        ar_RequireMinScore (r_Autoapply r) \<le> 1 \<and>
        set (ar_Kinds (r_Autoapply r)) \<subseteq> set (r_Kinds r))"

section \<open>Lemmas: the state machine\<close>

lemmas status_defs =
  StatusNew_def StatusDismissed_def StatusApplying_def StatusSubmitted_def
  StatusScreening_def StatusInterview_def StatusOffer_def StatusAccepted_def
  StatusRejected_def StatusWithdrawn_def

lemma transition_scan_iff [simp]: "transition_scan xs to \<longleftrightarrow> to \<in> set xs"
  by (induction xs) auto

lemma dom_transitions: "dom transitions = set AllStatuses"
  by (auto simp: transitions_def AllStatuses_def dom_map_of_conv_image_fst)

lemma step_transitions:
  "status_step from to \<Longrightarrow> \<exists>out. transitions from = Some out \<and> to \<in> set out"
  by (erule status_step.cases) (auto simp: transitions_def status_defs)

lemma transitions_step_intro:
  "transitions from = Some out \<Longrightarrow> to \<in> set out \<Longrightarrow> status_step from to"
  unfolding transitions_def
  by (auto split: if_splits intro: status_step.intros)

lemma transitions_step:
  "status_step from to \<longleftrightarrow> (\<exists>out. transitions from = Some out \<and> to \<in> set out)"
  using step_transitions transitions_step_intro by blast

lemma AllowedNext_step: "to \<in> set (AllowedNext from) \<longleftrightarrow> status_step from to"
  by (cases "transitions from") (auto simp: AllowedNext_def transitions_step)

lemma ValidateTransition_step: "ValidateTransition from to = None \<longleftrightarrow> status_step from to"
  by (cases "transitions from") (auto simp: ValidateTransition_def transitions_step)

lemma ValidateTransition_error:
  "ValidateTransition from to = Some e \<Longrightarrow>
     it_From e = from \<and> it_To e = to \<and> it_Allowed e = AllowedNext from"
  by (auto simp: ValidateTransition_def AllowedNext_def split: option.splits if_splits)

lemma status_step_height: "status_step s t \<Longrightarrow> status_height t < status_height s"
  by (erule status_step.cases) (auto simp: status_height_def status_defs)

lemma status_step_irrefl: "\<not> status_step s s"
  using status_step_height by blast

lemma status_reach_height:
  "status_step\<^sup>*\<^sup>* s t \<Longrightarrow> status_height t \<le> status_height s"
  by (induction rule: rtranclp_induct) (auto dest!: status_step_height)

lemma IsTerminal_iff:
  "IsTerminal s \<longleftrightarrow> s \<in> {StatusDismissed, StatusAccepted, StatusRejected, StatusWithdrawn}"
  by (auto simp: IsTerminal_def terminalSet_def status_defs)

lemma terminal_no_step: "IsTerminal s \<Longrightarrow> \<not> status_step s t"
  by (auto simp: IsTerminal_iff status_defs elim!: status_step.cases)

lemma nonterminal_has_step:
  "s \<in> set AllStatuses \<Longrightarrow> \<not> IsTerminal s \<Longrightarrow> \<exists>t. status_step s t"
  unfolding AllStatuses_def IsTerminal_iff
  by (auto intro: status_step.intros)

lemma status_step_target_known: "status_step s t \<Longrightarrow> t \<in> set AllStatuses"
  by (erule status_step.cases) (auto simp: AllStatuses_def)

lemma status_step_source_known: "status_step s t \<Longrightarrow> s \<in> set AllStatuses"
  by (erule status_step.cases) (auto simp: AllStatuses_def)

lemma terminal_reach: "status_step\<^sup>*\<^sup>* s t \<Longrightarrow> IsTerminal s \<Longrightarrow> t = s"
  by (induction rule: rtranclp_induct) (auto dest: terminal_no_step)

lemma submitted_not_reentered:
  assumes "status_step s t" and "status_step\<^sup>*\<^sup>* t StatusSubmitted"
  shows "s \<noteq> StatusSubmitted"
proof
  assume "s = StatusSubmitted"
  with assms status_step_height[OF assms(1)] status_reach_height[OF assms(2)]
  show False by simp
qed

section \<open>Lemmas: the rules document\<close>

lemma firstInvalidKind_None: "firstInvalidKind ok ks = None \<longleftrightarrow> (\<forall>k \<in> set ks. ok k)"
  by (induction ks) auto

lemma firstInvalidKind_Some: "firstInvalidKind ok ks = Some k \<Longrightarrow> k \<in> set ks \<and> \<not> ok k"
  by (induction ks) (auto split: if_splits)

lemma ValidateAutoapply_None:
  "ValidateAutoapply r = None \<longleftrightarrow>
     (ar_Enabled (r_Autoapply r) \<longrightarrow>
        r_MinScore r \<le> ar_RequireMinScore (r_Autoapply r) \<and>
        ar_RequireMinScore (r_Autoapply r) \<le> 1 \<and>
        set (ar_Kinds (r_Autoapply r)) \<subseteq> set (r_Kinds r))"
  by (auto simp: ValidateAutoapply_def Let_def firstInvalidKind_None split: option.splits
      dest!: firstInvalidKind_Some)

lemma Validate_None: "Validate r = None \<longleftrightarrow> rules_ok r"
proof (cases "firstInvalidKind (\<lambda>k. k \<in> set validKinds) (r_Kinds r)")
  case None
  then have "set (r_Kinds r) \<subseteq> set validKinds" by (auto simp: firstInvalidKind_None)
  with None show ?thesis
    by (simp add: Validate_def rules_ok_def ValidateAutoapply_None not_less not_le)
next
  case (Some k)
  then have "\<not> set (r_Kinds r) \<subseteq> set validKinds" by (auto dest: firstInvalidKind_Some)
  with Some show ?thesis by (simp add: Validate_def rules_ok_def)
qed

section \<open>Properties\<close>

text \<open>
  \<open>ValidateTransition\<close> decides the transition relation: it accepts exactly the edges of
  the lifecycle graph, and every other pair is refused with an error that carries the pair
  and exactly the statuses \<open>AllowedNext\<close> offers.
\<close>

theorem ValidateTransition_decides:
  "ValidateTransition from to =
     (if status_step from to then None
      else Some \<lparr>it_From = from, it_To = to, it_Allowed = AllowedNext from\<rparr>)"
  by (cases "transitions from")
    (auto simp: ValidateTransition_def transitions_step AllowedNext_def)

text \<open>
  The lifecycle ends: there is no infinite chain of accepted transitions, and
  \<open>IsTerminal\<close> marks exactly the known statuses from which no transition is allowed.
\<close>

theorem lifecycle_terminates:
  "wfp (\<lambda>t s. ValidateTransition s t = None) \<and>
   (IsTerminal s \<longleftrightarrow> s \<in> set AllStatuses \<and> AllowedNext s = [])"
proof
  have "wfp (\<lambda>t s. status_height t < status_height s)"
    using wf_measure[of status_height] by (simp add: measure_def inv_image_def wfp_def)
  then show "wfp (\<lambda>t s. ValidateTransition s t = None)"
    by (rule wfp_subset) (auto simp: ValidateTransition_step status_step_height)
  show "IsTerminal s \<longleftrightarrow> s \<in> set AllStatuses \<and> AllowedNext s = []"
  proof
    assume t: "IsTerminal s"
    then have "set (AllowedNext s) = {}"
      by (simp add: set_eq_iff AllowedNext_step terminal_no_step del: set_empty)
    moreover from t have "s \<in> set AllStatuses"
      unfolding IsTerminal_iff AllStatuses_def list.set by blast
    ultimately show "s \<in> set AllStatuses \<and> AllowedNext s = []" by simp
  next
    assume known: "s \<in> set AllStatuses \<and> AllowedNext s = []"
    show "IsTerminal s"
    proof (rule ccontr)
      assume "\<not> IsTerminal s"
      with known obtain t where "status_step s t" using nonterminal_has_step by blast
      then have "t \<in> set (AllowedNext s)" by (simp only: AllowedNext_step)
      with known show False by simp
    qed
  qed
qed

text \<open>
  \<open>Rules.Validate\<close> accepts a document exactly when it satisfies the documented
  constraints, including the two cross-field ones on auto-apply; otherwise it reports an
  error.
\<close>

theorem Validate_accepts_exactly: "Validate r = None \<longleftrightarrow> rules_ok r"
  by (rule Validate_None)

text \<open>
  Serialising and parsing the rules document: what \<open>MarshalRules\<close> writes parses back to
  the same document, and a document \<open>ParseRules\<close> returns satisfies the constraints and can
  be serialised again.
\<close>

theorem rules_roundtrip:
  "(case MarshalRules r of Inl e \<Rightarrow> \<not> rules_ok r | Inr m \<Rightarrow> ParseRules (Some m) = Inr r) \<and>
   (case ParseRules b of Inl e \<Rightarrow> True
    | Inr q \<Rightarrow> rules_ok q \<and> (case MarshalRules q of Inl e \<Rightarrow> False | Inr m \<Rightarrow> rd_decoded m = q))"
  by (auto simp: MarshalRules_def ParseRules_def Let_def simp flip: Validate_None
      split: option.splits)

end
