(* ===== verification/Application_Store.thy ===== *)
theory Application_Store
  imports Applications
begin

text \<open>
  The tables of the applications service and the stores that own them:
  \<open>store.go\<close>, \<open>events_log.go\<close>, \<open>notes_store.go\<close>, \<open>reminders_store.go\<close>,
  \<open>attachments_store.go\<close> and the in-memory blob store of \<open>blob_store.go\<close>, all under
  \<open>pkg/applications\<close>.

  Every operation takes the database state and returns its result and the new state; each
  SQL statement runs through \<open>run_stmt\<close>, which lets it fail without effect.  \<open>now\<close> is
  the reading of the clock that the operation uses.  \<open>appdb_wf\<close> is the invariant the
  table constraints and the operations keep: primary keys are unique and a candidate has
  at most one application per opportunity.
\<close>

section \<open>Rows and structs\<close>

record ApplicationRecord =
  ap_ApplicationID :: string
  ap_CandidateID :: string
  ap_OpportunityID :: string
  ap_MatchID :: string
  ap_Status :: Status
  ap_CurrentStage :: "string option"
  ap_Metadata :: gomap
  ap_SubmittedAt :: "time option"
  ap_LastEventID :: "string option"
  ap_CreatedAt :: time
  ap_UpdatedAt :: time

record Application =
  a_ApplicationID :: string
  a_CandidateID :: string
  a_OpportunityID :: string
  a_MatchID :: string
  a_Status :: Status
  a_CurrentStage :: string
  a_Metadata :: "gomap option"
  a_SubmittedAt :: "time option"
  a_LastEventID :: string
  a_CreatedAt :: time
  a_UpdatedAt :: time

record Note =
  n_NoteID :: string
  n_ApplicationID :: string
  n_Body :: string
  n_DeletedAt :: "time option"
  n_CreatedAt :: time
  n_UpdatedAt :: time

record AttachmentRecord =
  atr_AttachmentID :: string
  atr_ApplicationID :: string
  atr_R2Key :: string
  atr_ContentType :: string
  atr_Bytes :: int
  atr_Filename :: "string option"
  atr_DeletedAt :: "time option"
  atr_CreatedAt :: time

record Attachment =
  at_AttachmentID :: string
  at_ApplicationID :: string
  at_R2Key :: string
  at_ContentType :: string
  at_Bytes :: int
  at_Filename :: string
  at_DeletedAt :: "time option"
  at_CreatedAt :: time

type_synonym ReminderStatus = string

definition ReminderPending :: ReminderStatus where "ReminderPending = ''pending''"
definition ReminderDone :: ReminderStatus where "ReminderDone = ''done''"
definition ReminderCancelled :: ReminderStatus where "ReminderCancelled = ''cancelled''"

record ReminderRecord =
  rmr_ReminderID :: string
  rmr_ApplicationID :: string
  rmr_DueAt :: time
  rmr_Status :: ReminderStatus
  rmr_Note :: "string option"
  rmr_CompletedAt :: "time option"
  rmr_DeletedAt :: "time option"
  rmr_CreatedAt :: time
  rmr_UpdatedAt :: time

record Reminder =
  rm_ReminderID :: string
  rm_ApplicationID :: string
  rm_DueAt :: time
  rm_Status :: ReminderStatus
  rm_Note :: string
  rm_CompletedAt :: "time option"
  rm_DeletedAt :: "time option"
  rm_CreatedAt :: time
  rm_UpdatedAt :: time

type_synonym EventKind = string
type_synonym Actor = string

definition EventKindCreated :: EventKind where "EventKindCreated = ''created''"
definition EventKindStateChanged :: EventKind where "EventKindStateChanged = ''state_changed''"
definition EventKindNoteAdded :: EventKind where "EventKindNoteAdded = ''note_added''"
definition EventKindNoteEdited :: EventKind where "EventKindNoteEdited = ''note_edited''"
definition EventKindNoteDeleted :: EventKind where "EventKindNoteDeleted = ''note_deleted''"
definition EventKindAttachmentAdded :: EventKind where
  "EventKindAttachmentAdded = ''attachment_added''"
definition EventKindAttachmentDeleted :: EventKind where
  "EventKindAttachmentDeleted = ''attachment_deleted''"
definition EventKindReminderSet :: EventKind where "EventKindReminderSet = ''reminder_set''"
definition EventKindReminderDone :: EventKind where "EventKindReminderDone = ''reminder_done''"
definition ActorExtension :: Actor where "ActorExtension = ''extension''"

record EventRecord =
  er_EventID :: string
  er_OccurredAt :: time
  er_ApplicationID :: string
  er_CandidateID :: string
  er_Kind :: EventKind
  er_FromStatus :: "Status option"
  er_ToStatus :: "Status option"
  er_Actor :: Actor
  er_Data :: gomap

record Event =
  ev_EventID :: string
  ev_OccurredAt :: time
  ev_ApplicationID :: string
  ev_CandidateID :: string
  ev_Kind :: EventKind
  ev_FromStatus :: Status
  ev_ToStatus :: Status
  ev_Actor :: Actor
  ev_Data :: "gomap option"

record memoryBlob =
  mb_body :: "char list"
  mb_contentType :: string

record appdb =
  applications :: "ApplicationRecord list"
  application_notes :: "Note list"
  application_attachments :: "AttachmentRecord list"
  application_reminders :: "ReminderRecord list"
  application_events :: "EventRecord list"
  blobs :: "string \<rightharpoonup> memoryBlob"
  io_faults :: "bool list"

datatype app_error =
    ErrNotFound
  | ErrAlreadyExists
  | ErrInvalidTransition InvalidTransitionError
  | ErrCursor
  | ErrBlobNotFound
  | ErrStatement

definition run_stmt :: "(appdb \<Rightarrow> (app_error + 'a) \<times> appdb) \<Rightarrow> appdb \<Rightarrow> (app_error + 'a) \<times> appdb"
where
  "run_stmt q d =
     (let (fail, rest) = next_fault (io_faults d); d' = d\<lparr>io_faults := rest\<rparr>
      in if fail then (Inl ErrStatement, d') else q d')"

section \<open>Store: the applications table\<close>

definition scan_application :: "ApplicationRecord \<Rightarrow> Application" where
  "scan_application r =
     \<lparr>a_ApplicationID = ap_ApplicationID r, a_CandidateID = ap_CandidateID r,
      a_OpportunityID = ap_OpportunityID r, a_MatchID = ap_MatchID r,
      a_Status = ap_Status r, a_CurrentStage = COALESCE_empty (ap_CurrentStage r),
      a_Metadata = Some (ap_Metadata r), a_SubmittedAt = ap_SubmittedAt r,
      a_LastEventID = COALESCE_empty (ap_LastEventID r),
      a_CreatedAt = ap_CreatedAt r, a_UpdatedAt = ap_UpdatedAt r\<rparr>"

definition scanOne :: "(ApplicationRecord \<Rightarrow> bool) \<Rightarrow> appdb \<Rightarrow> (app_error + Application) \<times> appdb" where
  "scanOne P d =
     run_stmt (\<lambda>d. (case List.find P (applications d) of
                      None \<Rightarrow> Inl ErrNotFound
                    | Some r \<Rightarrow> Inr (scan_application r), d)) d"

definition GetByID :: "string \<Rightarrow> appdb \<Rightarrow> (app_error + Application) \<times> appdb" where
  "GetByID applicationID d = scanOne (\<lambda>r. ap_ApplicationID r = applicationID) d"

definition GetByPair :: "string \<Rightarrow> string \<Rightarrow> appdb \<Rightarrow> (app_error + Application) \<times> appdb" where
  "GetByPair candidateID opportunityID d =
     scanOne (\<lambda>r. ap_CandidateID r = candidateID \<and> ap_OpportunityID r = opportunityID) d"

text \<open>
  \<open>createApplicationSQL\<close>: a conflict on (candidate, opportunity) returns no row, a
  duplicate primary key is an error of the statement.
\<close>

definition createApplicationSQL :: "ApplicationRecord \<Rightarrow> appdb \<Rightarrow> (app_error + string option) \<times> appdb"
where
  "createApplicationSQL r d =
     (if list_ex (\<lambda>s. ap_CandidateID s = ap_CandidateID r \<and> ap_OpportunityID s = ap_OpportunityID r)
           (applications d)
      then (Inr None, d)
      else if list_ex (\<lambda>s. ap_ApplicationID s = ap_ApplicationID r) (applications d)
      then (Inl ErrStatement, d)
      else (Inr (Some (ap_ApplicationID r)), d\<lparr>applications := applications d @ [r]\<rparr>))"

definition create_row :: "Application \<Rightarrow> time \<Rightarrow> ApplicationRecord" where
  "create_row a now =
     \<lparr>ap_ApplicationID = a_ApplicationID a, ap_CandidateID = a_CandidateID a,
      ap_OpportunityID = a_OpportunityID a, ap_MatchID = a_MatchID a,
      ap_Status = (if a_Status a = [] then StatusNew else a_Status a),
      ap_CurrentStage = Some (a_CurrentStage a),
      ap_Metadata = (case a_Metadata a of None \<Rightarrow> Map.empty | Some md \<Rightarrow> md),
      ap_SubmittedAt = None, ap_LastEventID = Some (a_LastEventID a),
      ap_CreatedAt = now, ap_UpdatedAt = now\<rparr>"

definition Store_Create :: "Application \<Rightarrow> time \<Rightarrow> appdb \<Rightarrow> (app_error + Application) \<times> appdb" where
  "Store_Create a now d =
     (case run_stmt (createApplicationSQL (create_row a now)) d of
        (Inl e, d1) \<Rightarrow> (Inl e, d1)
      | (Inr None, d1) \<Rightarrow> (Inl ErrAlreadyExists, d1)
      | (Inr (Some returnedID), d1) \<Rightarrow> GetByID returnedID d1)"

record pageCursor =
  pc_CreatedAt :: time
  pc_ApplicationID :: string

text \<open>
  A cursor on the wire: the empty string, the base64/JSON rendering of a cursor, or text
  that does not decode.
\<close>

datatype cursor_token = NoCursor | Malformed | Token pageCursor

definition encodeCursor :: "pageCursor \<Rightarrow> cursor_token" where
  "encodeCursor c = Token c"

definition decodeCursor :: "cursor_token \<Rightarrow> app_error + pageCursor" where
  "decodeCursor s =
     (case s of
        Token c \<Rightarrow> if pc_ApplicationID c = [] \<or> IsZero (pc_CreatedAt c) then Inl ErrCursor else Inr c
      | _ \<Rightarrow> Inl ErrCursor)"

record ListByCandidateParams =
  lp_CandidateID :: string
  lp_Statuses :: "Status list"
  lp_Cursor :: cursor_token
  lp_Limit :: int

record ListByCandidatePage =
  pg_Items :: "Application list"
  pg_NextCursor :: cursor_token
  pg_HasMore :: bool

definition defaultPageLimit :: int where "defaultPageLimit = 50"
definition maxPageLimit :: int where "maxPageLimit = 200"

definition page_limit :: "int \<Rightarrow> int" where
  "page_limit n =
     (let limit = (if n \<le> 0 then defaultPageLimit else n)
      in if limit > maxPageLimit then maxPageLimit else limit)"

text \<open>The order of the listing and the \<open>WHERE\<close> clause of its query.\<close>

definition page_key :: "ApplicationRecord \<Rightarrow> int \<times> string" where
  "page_key r = (- ap_CreatedAt r, ap_ApplicationID r)"

definition page_where :: "ListByCandidateParams \<Rightarrow> ApplicationRecord \<Rightarrow> bool" where
  "page_where p r \<longleftrightarrow>
     ap_CandidateID r = lp_CandidateID p \<and>
     (lp_Statuses p = [] \<or> ap_Status r \<in> set (lp_Statuses p))"

definition after_cursor :: "pageCursor \<Rightarrow> ApplicationRecord \<Rightarrow> bool" where
  "after_cursor cur r \<longleftrightarrow>
     (ap_CreatedAt r, ap_ApplicationID r) < (pc_CreatedAt cur, pc_ApplicationID cur)"

definition list_query :: "ListByCandidateParams \<Rightarrow> pageCursor option \<Rightarrow> appdb \<Rightarrow> ApplicationRecord list"
where
  "list_query p cur d =
     take (nat (page_limit (lp_Limit p) + 1))
       (sort_key page_key
         (filter (\<lambda>r. page_where p r \<and> (case cur of None \<Rightarrow> True | Some c \<Rightarrow> after_cursor c r))
           (applications d)))"

definition make_page :: "int \<Rightarrow> ApplicationRecord list \<Rightarrow> ListByCandidatePage" where
  "make_page limit rows =
     (let out = map scan_application rows;
          hasMore = int (length out) > limit;
          items = (if hasMore then take (nat limit) out else out)
      in \<lparr>pg_Items = items,
          pg_NextCursor =
            (if hasMore
             then encodeCursor \<lparr>pc_CreatedAt = a_CreatedAt (last items),
                                pc_ApplicationID = a_ApplicationID (last items)\<rparr>
             else NoCursor),
          pg_HasMore = hasMore\<rparr>)"

definition ListByCandidate ::
  "ListByCandidateParams \<Rightarrow> appdb \<Rightarrow> (app_error + ListByCandidatePage) \<times> appdb"
where
  "ListByCandidate p d =
     (case (if lp_Cursor p = NoCursor then Inr None
            else case decodeCursor (lp_Cursor p) of Inl e \<Rightarrow> Inl e | Inr c \<Rightarrow> Inr (Some c)) of
        Inl e \<Rightarrow> (Inl e, d)
      | Inr cur \<Rightarrow>
          run_stmt (\<lambda>d. (Inr (make_page (page_limit (lp_Limit p)) (list_query p cur d)), d)) d)"

record Patch =
  p_Status :: "Status option"
  p_CurrentStage :: "string option"
  p_Metadata :: gomap
  p_LastEventID :: string

text \<open>
  \<open>ApplyTransition\<close> reads the row, decides the new column values, and writes them with a
  second statement.  The decision is a function of the row that was read.
\<close>

record transition_update =
  tu_Status :: Status
  tu_CurrentStage :: string
  tu_Metadata :: gomap
  tu_LastEventID :: string
  tu_SubmittedAt :: "time option"

definition plan_transition :: "Application \<Rightarrow> Patch \<Rightarrow> time \<Rightarrow> app_error + transition_update" where
  "plan_transition cur p now =
     (let newStatus = (case p_Status p of None \<Rightarrow> a_Status cur | Some s \<Rightarrow> s);
          md = (case a_Metadata cur of None \<Rightarrow> Map.empty | Some m \<Rightarrow> m)
      in case (if p_Status p \<noteq> None \<and> newStatus \<noteq> a_Status cur
               then ValidateTransition (a_Status cur) newStatus else None) of
           Some e \<Rightarrow> Inl (ErrInvalidTransition e)
         | None \<Rightarrow> Inr
             \<lparr>tu_Status = newStatus,
              tu_CurrentStage =
                (case p_CurrentStage p of None \<Rightarrow> a_CurrentStage cur | Some s \<Rightarrow> s),
              tu_Metadata = md ++ p_Metadata p,
              tu_LastEventID = p_LastEventID p,
              tu_SubmittedAt =
                (if newStatus = StatusSubmitted \<and> a_Status cur \<noteq> StatusSubmitted then Some now
                 else a_SubmittedAt cur)\<rparr>)"

definition update_row :: "transition_update \<Rightarrow> time \<Rightarrow> ApplicationRecord \<Rightarrow> ApplicationRecord" where
  "update_row u now r =
     r\<lparr>ap_Status := tu_Status u, ap_CurrentStage := NULLIF_empty (tu_CurrentStage u),
       ap_Metadata := tu_Metadata u, ap_LastEventID := Some (tu_LastEventID u),
       ap_SubmittedAt := tu_SubmittedAt u, ap_UpdatedAt := now\<rparr>"

definition write_transition ::
  "string \<Rightarrow> transition_update \<Rightarrow> time \<Rightarrow> appdb \<Rightarrow> (app_error + unit) \<times> appdb"
where
  "write_transition applicationID u now d =
     run_stmt (\<lambda>d. (Inr (), d\<lparr>applications :=
       update_where (\<lambda>r. ap_ApplicationID r = applicationID) (update_row u now) (applications d)\<rparr>)) d"

definition ApplyTransition ::
  "string \<Rightarrow> Patch \<Rightarrow> time \<Rightarrow> appdb \<Rightarrow> (app_error + Application) \<times> appdb"
where
  "ApplyTransition applicationID p now d =
     (case GetByID applicationID d of
        (Inl e, d1) \<Rightarrow> (Inl e, d1)
      | (Inr cur, d1) \<Rightarrow>
          (case plan_transition cur p now of
             Inl e \<Rightarrow> (Inl e, d1)
           | Inr u \<Rightarrow>
               (case write_transition applicationID u now d1 of
                  (Inl e, d2) \<Rightarrow> (Inl e, d2)
                | (Inr _, d2) \<Rightarrow> GetByID applicationID d2)))"

section \<open>EventLog: the append-only audit log\<close>

definition event_row :: "Event \<Rightarrow> time \<Rightarrow> EventRecord" where
  "event_row evt now =
     \<lparr>er_EventID = ev_EventID evt,
      er_OccurredAt = (if IsZero (ev_OccurredAt evt) then now else ev_OccurredAt evt),
      er_ApplicationID = ev_ApplicationID evt, er_CandidateID = ev_CandidateID evt,
      er_Kind = ev_Kind evt, er_FromStatus = NULLIF_empty (ev_FromStatus evt),
      er_ToStatus = NULLIF_empty (ev_ToStatus evt), er_Actor = ev_Actor evt,
      er_Data = (case ev_Data evt of None \<Rightarrow> Map.empty | Some m \<Rightarrow> m)\<rparr>"

definition EventLog_Write :: "Event \<Rightarrow> time \<Rightarrow> appdb \<Rightarrow> (app_error + unit) \<times> appdb" where
  "EventLog_Write evt now d =
     run_stmt (\<lambda>d.
       let r = event_row evt now in
       if list_ex (\<lambda>s. er_EventID s = er_EventID r \<and> er_OccurredAt s = er_OccurredAt r)
            (application_events d)
       then (Inr (), d)
       else (Inr (), d\<lparr>application_events := application_events d @ [r]\<rparr>)) d"

definition scan_event :: "EventRecord \<Rightarrow> Event" where
  "scan_event r =
     \<lparr>ev_EventID = er_EventID r, ev_OccurredAt = er_OccurredAt r,
      ev_ApplicationID = er_ApplicationID r, ev_CandidateID = er_CandidateID r,
      ev_Kind = er_Kind r, ev_FromStatus = COALESCE_empty (er_FromStatus r),
      ev_ToStatus = COALESCE_empty (er_ToStatus r), ev_Actor = er_Actor r,
      ev_Data = Some (er_Data r)\<rparr>"

definition EventLog_ListByApplication ::
  "string \<Rightarrow> int \<Rightarrow> appdb \<Rightarrow> (app_error + Event list) \<times> appdb"
where
  "EventLog_ListByApplication applicationID limit d =
     (let n = (if limit \<le> 0 then 200 else limit) in
      run_stmt (\<lambda>d. (Inr (map scan_event (take (nat n)
        (sort_key (\<lambda>r. (- er_OccurredAt r, er_EventID r))
          (filter (\<lambda>r. er_ApplicationID r = applicationID) (application_events d))))), d)) d)"

section \<open>NotesStore\<close>

definition Notes_Get :: "string \<Rightarrow> appdb \<Rightarrow> (app_error + Note) \<times> appdb" where
  "Notes_Get noteID d =
     run_stmt (\<lambda>d. (case List.find (\<lambda>r. n_NoteID r = noteID) (application_notes d) of
                      None \<Rightarrow> Inl ErrNotFound | Some r \<Rightarrow> Inr r, d)) d"

definition Notes_Create :: "Note \<Rightarrow> time \<Rightarrow> appdb \<Rightarrow> (app_error + Note) \<times> appdb" where
  "Notes_Create n now d =
     (case run_stmt (\<lambda>d.
        if list_ex (\<lambda>r. n_NoteID r = n_NoteID n) (application_notes d) then (Inl ErrStatement, d)
        else (Inr (), d\<lparr>application_notes := application_notes d @
          [\<lparr>n_NoteID = n_NoteID n, n_ApplicationID = n_ApplicationID n, n_Body = n_Body n,
            n_DeletedAt = None, n_CreatedAt = now, n_UpdatedAt = now\<rparr>]\<rparr>)) d of
        (Inl e, d1) \<Rightarrow> (Inl e, d1)
      | (Inr _, d1) \<Rightarrow> Notes_Get (n_NoteID n) d1)"

text \<open>\<open>UPDATE \<dots> WHERE note_id = \<dots> AND deleted_at IS NULL\<close>, with the number of rows affected.\<close>

definition live_note :: "string \<Rightarrow> Note \<Rightarrow> bool" where
  "live_note noteID r \<longleftrightarrow> n_NoteID r = noteID \<and> n_DeletedAt r = None"

definition Notes_Update :: "string \<Rightarrow> string \<Rightarrow> time \<Rightarrow> appdb \<Rightarrow> (app_error + Note) \<times> appdb" where
  "Notes_Update noteID body now d =
     (case run_stmt (\<lambda>d.
        (Inr (length (filter (live_note noteID) (application_notes d))),
         d\<lparr>application_notes := update_where (live_note noteID)
             (\<lambda>r. r\<lparr>n_Body := body, n_UpdatedAt := now\<rparr>) (application_notes d)\<rparr>)) d of
        (Inl e, d1) \<Rightarrow> (Inl e, d1)
      | (Inr n, d1) \<Rightarrow> if n = 0 then (Inl ErrNotFound, d1) else Notes_Get noteID d1)"

definition Notes_SoftDelete :: "string \<Rightarrow> time \<Rightarrow> appdb \<Rightarrow> (app_error + unit) \<times> appdb" where
  "Notes_SoftDelete noteID now d =
     (case run_stmt (\<lambda>d.
        (Inr (length (filter (live_note noteID) (application_notes d))),
         d\<lparr>application_notes := update_where (live_note noteID)
             (\<lambda>r. r\<lparr>n_DeletedAt := Some now\<rparr>) (application_notes d)\<rparr>)) d of
        (Inl e, d1) \<Rightarrow> (Inl e, d1)
      | (Inr n, d1) \<Rightarrow> if n = 0 then (Inl ErrNotFound, d1) else (Inr (), d1))"

definition Notes_ListByApplication ::
  "string \<Rightarrow> int \<Rightarrow> appdb \<Rightarrow> (app_error + Note list) \<times> appdb"
where
  "Notes_ListByApplication applicationID limit d =
     (let n = (if limit \<le> 0 then 200 else limit) in
      run_stmt (\<lambda>d. (Inr (take (nat n) (sort_key (\<lambda>r. (- n_CreatedAt r, n_NoteID r))
        (filter (\<lambda>r. n_ApplicationID r = applicationID \<and> n_DeletedAt r = None)
          (application_notes d)))), d)) d)"

section \<open>RemindersStore\<close>

definition scan_reminder :: "ReminderRecord \<Rightarrow> Reminder" where
  "scan_reminder r =
     \<lparr>rm_ReminderID = rmr_ReminderID r, rm_ApplicationID = rmr_ApplicationID r,
      rm_DueAt = rmr_DueAt r, rm_Status = rmr_Status r, rm_Note = COALESCE_empty (rmr_Note r),
      rm_CompletedAt = rmr_CompletedAt r, rm_DeletedAt = rmr_DeletedAt r,
      rm_CreatedAt = rmr_CreatedAt r, rm_UpdatedAt = rmr_UpdatedAt r\<rparr>"

definition Reminders_Get :: "string \<Rightarrow> appdb \<Rightarrow> (app_error + Reminder) \<times> appdb" where
  "Reminders_Get reminderID d =
     run_stmt (\<lambda>d. (case List.find (\<lambda>r. rmr_ReminderID r = reminderID) (application_reminders d) of
                      None \<Rightarrow> Inl ErrNotFound | Some r \<Rightarrow> Inr (scan_reminder r), d)) d"

definition Reminders_Create :: "Reminder \<Rightarrow> time \<Rightarrow> appdb \<Rightarrow> (app_error + Reminder) \<times> appdb" where
  "Reminders_Create r now d =
     (let st = (if rm_Status r = [] then ReminderPending else rm_Status r) in
      case run_stmt (\<lambda>d.
        if list_ex (\<lambda>s. rmr_ReminderID s = rm_ReminderID r) (application_reminders d)
        then (Inl ErrStatement, d)
        else (Inr (), d\<lparr>application_reminders := application_reminders d @
          [\<lparr>rmr_ReminderID = rm_ReminderID r, rmr_ApplicationID = rm_ApplicationID r,
            rmr_DueAt = rm_DueAt r, rmr_Status = st, rmr_Note = NULLIF_empty (rm_Note r),
            rmr_CompletedAt = None, rmr_DeletedAt = None,
            rmr_CreatedAt = now, rmr_UpdatedAt = now\<rparr>]\<rparr>)) d of
        (Inl e, d1) \<Rightarrow> (Inl e, d1)
      | (Inr _, d1) \<Rightarrow> Reminders_Get (rm_ReminderID r) d1)"

record ReminderPatch =
  rp_DueAt :: "time option"
  rp_Status :: "ReminderStatus option"
  rp_Note :: "string option"

definition patch_reminder :: "Reminder \<Rightarrow> ReminderPatch \<Rightarrow> time \<Rightarrow> ReminderRecord \<Rightarrow> ReminderRecord" where
  "patch_reminder cur p now r =
     (let dueAt = (case rp_DueAt p of None \<Rightarrow> rm_DueAt cur | Some t \<Rightarrow> t);
          st = (case rp_Status p of None \<Rightarrow> rm_Status cur | Some s \<Rightarrow> s);
          note = (case rp_Note p of None \<Rightarrow> rm_Note cur | Some n \<Rightarrow> n);
          completedAt = (if st = ReminderDone \<and> rm_Status cur \<noteq> ReminderDone then Some now
                         else rm_CompletedAt cur)
      in r\<lparr>rmr_DueAt := dueAt, rmr_Status := st, rmr_Note := NULLIF_empty note,
           rmr_CompletedAt := completedAt, rmr_UpdatedAt := now\<rparr>)"

definition Reminders_Update ::
  "string \<Rightarrow> ReminderPatch \<Rightarrow> time \<Rightarrow> appdb \<Rightarrow> (app_error + Reminder) \<times> appdb"
where
  "Reminders_Update reminderID p now d =
     (case Reminders_Get reminderID d of
        (Inl e, d1) \<Rightarrow> (Inl e, d1)
      | (Inr cur, d1) \<Rightarrow>
          if rm_DeletedAt cur \<noteq> None then (Inl ErrNotFound, d1)
          else (case run_stmt (\<lambda>d. (Inr (), d\<lparr>application_reminders :=
                  update_where (\<lambda>r. rmr_ReminderID r = reminderID) (patch_reminder cur p now)
                    (application_reminders d)\<rparr>)) d1 of
                  (Inl e, d2) \<Rightarrow> (Inl e, d2)
                | (Inr (_ :: unit), d2) \<Rightarrow> Reminders_Get reminderID d2))"

definition live_reminder :: "string \<Rightarrow> ReminderRecord \<Rightarrow> bool" where
  "live_reminder reminderID r \<longleftrightarrow> rmr_ReminderID r = reminderID \<and> rmr_DeletedAt r = None"

definition Reminders_SoftDelete :: "string \<Rightarrow> time \<Rightarrow> appdb \<Rightarrow> (app_error + unit) \<times> appdb" where
  "Reminders_SoftDelete reminderID now d =
     (case run_stmt (\<lambda>d.
        (Inr (length (filter (live_reminder reminderID) (application_reminders d))),
         d\<lparr>application_reminders := update_where (live_reminder reminderID)
             (\<lambda>r. r\<lparr>rmr_DeletedAt := Some now\<rparr>) (application_reminders d)\<rparr>)) d of
        (Inl e, d1) \<Rightarrow> (Inl e, d1)
      | (Inr n, d1) \<Rightarrow> if n = 0 then (Inl ErrNotFound, d1) else (Inr (), d1))"

definition ListActiveByApplication ::
  "string \<Rightarrow> appdb \<Rightarrow> (app_error + Reminder list) \<times> appdb"
where
  "ListActiveByApplication applicationID d =
     run_stmt (\<lambda>d. (Inr (map scan_reminder (sort_key (\<lambda>r. (rmr_DueAt r, rmr_ReminderID r))
       (filter (\<lambda>r. rmr_ApplicationID r = applicationID \<and> rmr_DeletedAt r = None)
         (application_reminders d)))), d)) d"

section \<open>AttachmentsStore\<close>

definition scan_attachment :: "AttachmentRecord \<Rightarrow> Attachment" where
  "scan_attachment r =
     \<lparr>at_AttachmentID = atr_AttachmentID r, at_ApplicationID = atr_ApplicationID r,
      at_R2Key = atr_R2Key r, at_ContentType = atr_ContentType r, at_Bytes = atr_Bytes r,
      at_Filename = COALESCE_empty (atr_Filename r), at_DeletedAt = atr_DeletedAt r,
      at_CreatedAt = atr_CreatedAt r\<rparr>"

definition Attachments_Get :: "string \<Rightarrow> appdb \<Rightarrow> (app_error + Attachment) \<times> appdb" where
  "Attachments_Get attachmentID d =
     run_stmt (\<lambda>d. (case List.find (\<lambda>r. atr_AttachmentID r = attachmentID)
                           (application_attachments d) of
                      None \<Rightarrow> Inl ErrNotFound | Some r \<Rightarrow> Inr (scan_attachment r), d)) d"

definition Attachments_Create ::
  "Attachment \<Rightarrow> time \<Rightarrow> appdb \<Rightarrow> (app_error + Attachment) \<times> appdb"
where
  "Attachments_Create a now d =
     (case run_stmt (\<lambda>d.
        if list_ex (\<lambda>s. atr_AttachmentID s = at_AttachmentID a) (application_attachments d)
        then (Inl ErrStatement, d)
        else (Inr (), d\<lparr>application_attachments := application_attachments d @
          [\<lparr>atr_AttachmentID = at_AttachmentID a, atr_ApplicationID = at_ApplicationID a,
            atr_R2Key = at_R2Key a, atr_ContentType = at_ContentType a, atr_Bytes = at_Bytes a,
            atr_Filename = NULLIF_empty (at_Filename a), atr_DeletedAt = None,
            atr_CreatedAt = now\<rparr>]\<rparr>)) d of
        (Inl e, d1) \<Rightarrow> (Inl e, d1)
      | (Inr (_ :: unit), d1) \<Rightarrow> Attachments_Get (at_AttachmentID a) d1)"

definition live_attachment :: "string \<Rightarrow> AttachmentRecord \<Rightarrow> bool" where
  "live_attachment attachmentID r \<longleftrightarrow>
     atr_AttachmentID r = attachmentID \<and> atr_DeletedAt r = None"

definition Attachments_SoftDelete :: "string \<Rightarrow> time \<Rightarrow> appdb \<Rightarrow> (app_error + unit) \<times> appdb" where
  "Attachments_SoftDelete attachmentID now d =
     (case run_stmt (\<lambda>d.
        (Inr (length (filter (live_attachment attachmentID) (application_attachments d))),
         d\<lparr>application_attachments := update_where (live_attachment attachmentID)
             (\<lambda>r. r\<lparr>atr_DeletedAt := Some now\<rparr>) (application_attachments d)\<rparr>)) d of
        (Inl e, d1) \<Rightarrow> (Inl e, d1)
      | (Inr n, d1) \<Rightarrow> if n = 0 then (Inl ErrNotFound, d1) else (Inr (), d1))"

definition Attachments_ListByApplication ::
  "string \<Rightarrow> appdb \<Rightarrow> (app_error + Attachment list) \<times> appdb"
where
  "Attachments_ListByApplication applicationID d =
     run_stmt (\<lambda>d. (Inr (map scan_attachment
       (sort_key (\<lambda>r. (- atr_CreatedAt r, atr_AttachmentID r))
         (filter (\<lambda>r. atr_ApplicationID r = applicationID \<and> atr_DeletedAt r = None)
           (application_attachments d)))), d)) d"

section \<open>The blob store\<close>

definition Blob_Put :: "string \<Rightarrow> string \<Rightarrow> char list \<Rightarrow> appdb \<Rightarrow> (app_error + int) \<times> appdb" where
  "Blob_Put key contentType body d =
     run_stmt (\<lambda>d. (Inr (int (length body)),
       d\<lparr>blobs := (blobs d)(key \<mapsto> \<lparr>mb_body = body, mb_contentType = contentType\<rparr>)\<rparr>)) d"

definition Blob_Get :: "string \<Rightarrow> appdb \<Rightarrow> (app_error + char list) \<times> appdb" where
  "Blob_Get key d =
     run_stmt (\<lambda>d. (case blobs d key of None \<Rightarrow> Inl ErrBlobNotFound | Some b \<Rightarrow> Inr (mb_body b), d)) d"

definition Blob_Delete :: "string \<Rightarrow> appdb \<Rightarrow> (app_error + unit) \<times> appdb" where
  "Blob_Delete key d = run_stmt (\<lambda>d. (Inr (), d\<lparr>blobs := (blobs d)(key := None)\<rparr>)) d"

section \<open>The invariant\<close>

text \<open>The contents of the database, without the outcomes of the statements still to run.\<close>

definition tables :: "appdb \<Rightarrow> appdb" where
  "tables d = d\<lparr>io_faults := []\<rparr>"

definition appdb_wf :: "appdb \<Rightarrow> bool" where
  "appdb_wf d \<longleftrightarrow>
     distinct (map ap_ApplicationID (applications d)) \<and>
     distinct (map (\<lambda>r. (ap_CandidateID r, ap_OpportunityID r)) (applications d)) \<and>
     distinct (map n_NoteID (application_notes d)) \<and>
     distinct (map rmr_ReminderID (application_reminders d)) \<and>
     distinct (map atr_AttachmentID (application_attachments d)) \<and>
     distinct (map (\<lambda>r. (er_EventID r, er_OccurredAt r)) (application_events d))"

section \<open>Lemmas: statements and reads\<close>

lemma tables_sel [simp]:
  "applications (tables d) = applications d"
  "application_notes (tables d) = application_notes d"
  "application_attachments (tables d) = application_attachments d"
  "application_reminders (tables d) = application_reminders d"
  "application_events (tables d) = application_events d"
  "blobs (tables d) = blobs d"
  "io_faults (tables d) = []"
  by (simp_all add: tables_def)

lemma tables_idem [simp]: "tables (tables d) = tables d"
  by (simp add: tables_def)

lemma tables_faults [simp]: "tables (d\<lparr>io_faults := f\<rparr>) = tables d"
  by (simp add: tables_def)

lemma tables_eqD:
  assumes "tables d = tables e"
  shows "applications d = applications e" "application_notes d = application_notes e"
    "application_attachments d = application_attachments e"
    "application_reminders d = application_reminders e"
    "application_events d = application_events e" "blobs d = blobs e"
  using assms by (metis tables_sel)+

lemma run_stmt_ok [simp]: "io_faults d = [] \<Longrightarrow> run_stmt q d = q d"
  by (cases d) (simp add: run_stmt_def)

lemma run_stmtE:
  assumes "run_stmt q d = (x, d')"
  obtains (fault) "x = Inl ErrStatement" "tables d' = tables d"
  | (ran) e where "tables e = tables d" "q e = (x, d')"
proof (cases "fst (next_fault (io_faults d))")
  case True
  with assms fault show thesis by (auto simp: run_stmt_def Let_def split: prod.splits)
next
  case False
  with assms have "q (d\<lparr>io_faults := snd (next_fault (io_faults d))\<rparr>) = (x, d')"
    by (simp add: run_stmt_def Let_def split: prod.splits)
  then show thesis by (rule ran[rotated]) simp
qed

lemma run_query:
  assumes "run_stmt (\<lambda>d. (f d, d)) d = (x, d')"
  shows "tables d' = tables d"
  using assms by (rule run_stmtE) auto

lemma GetByID_tables: "GetByID i d = (x, d') \<Longrightarrow> tables d' = tables d"
  unfolding GetByID_def scanOne_def by (rule run_query)

lemma GetByID_Inr:
  assumes "GetByID i d = (Inr a, d')"
  obtains r where "List.find (\<lambda>r. ap_ApplicationID r = i) (applications d) = Some r"
    "a = scan_application r" "tables d' = tables d"
  using assms unfolding GetByID_def scanOne_def
  by (rule run_stmtE) (auto split: option.splits dest: tables_eqD)

lemma GetByID_ok:
  "io_faults d = [] \<Longrightarrow> GetByID i d =
     (case List.find (\<lambda>r. ap_ApplicationID r = i) (applications d) of
        None \<Rightarrow> Inl ErrNotFound | Some r \<Rightarrow> Inr (scan_application r), d)"
  by (simp add: GetByID_def scanOne_def)

lemma Notes_Get_tables: "Notes_Get i d = (x, d') \<Longrightarrow> tables d' = tables d"
  unfolding Notes_Get_def by (rule run_query)

lemma Notes_Get_Inr:
  assumes "Notes_Get i d = (Inr n, d')"
  obtains "List.find (\<lambda>r. n_NoteID r = i) (application_notes d) = Some n" "tables d' = tables d"
  using assms unfolding Notes_Get_def
  by (rule run_stmtE) (auto split: option.splits dest: tables_eqD)

lemma Reminders_Get_tables: "Reminders_Get i d = (x, d') \<Longrightarrow> tables d' = tables d"
  unfolding Reminders_Get_def by (rule run_query)

lemma Reminders_Get_Inr:
  assumes "Reminders_Get i d = (Inr n, d')"
  obtains r where "List.find (\<lambda>r. rmr_ReminderID r = i) (application_reminders d) = Some r"
    "n = scan_reminder r" "tables d' = tables d"
  using assms unfolding Reminders_Get_def
  by (rule run_stmtE) (auto split: option.splits dest: tables_eqD)

lemma Attachments_Get_tables: "Attachments_Get i d = (x, d') \<Longrightarrow> tables d' = tables d"
  unfolding Attachments_Get_def by (rule run_query)

lemma Attachments_Get_Inr:
  assumes "Attachments_Get i d = (Inr n, d')"
  obtains r where "List.find (\<lambda>r. atr_AttachmentID r = i) (application_attachments d) = Some r"
    "n = scan_attachment r" "tables d' = tables d"
  using assms unfolding Attachments_Get_def
  by (rule run_stmtE) (auto split: option.splits dest: tables_eqD)

lemma EventLog_ListByApplication_tables:
  "EventLog_ListByApplication i n d = (x, d') \<Longrightarrow> tables d' = tables d"
  unfolding EventLog_ListByApplication_def Let_def by (rule run_query)

lemma ListActiveByApplication_tables:
  "ListActiveByApplication i d = (x, d') \<Longrightarrow> tables d' = tables d"
  unfolding ListActiveByApplication_def by (rule run_query)

lemma ListByCandidate_tables: "ListByCandidate p d = (x, d') \<Longrightarrow> tables d' = tables d"
  unfolding ListByCandidate_def
  by (auto split: sum.splits if_splits dest: run_query)

lemmas read_tables =
  GetByID_tables Notes_Get_tables Reminders_Get_tables Attachments_Get_tables
  EventLog_ListByApplication_tables ListActiveByApplication_tables ListByCandidate_tables

section \<open>The abstract step relation of one candidate\<close>

text \<open>
  What a request of candidate \<open>c\<close> may do to the tables, independent of handlers, SQL and
  failures.  The handlers are shown to refine the reflexive transitive closure of this
  relation; the invariants of the service are then rule inductions over it.
\<close>

definition owns :: "string \<Rightarrow> appdb \<Rightarrow> string \<Rightarrow> bool" where
  "owns c d i \<longleftrightarrow> (\<exists>r \<in> set (applications d). ap_ApplicationID r = i \<and> ap_CandidateID r = c)"

definition blob_prefix :: "string \<Rightarrow> string" where
  "blob_prefix c = ''applications/'' @ c @ ''/''"

inductive owned_step :: "string \<Rightarrow> appdb \<Rightarrow> appdb \<Rightarrow> bool" for c :: string where
  create: "ap_CandidateID r = c \<Longrightarrow> ap_SubmittedAt r = None \<Longrightarrow>
     ap_ApplicationID r \<notin> ap_ApplicationID ` set (applications d) \<Longrightarrow>
     (ap_CandidateID r, ap_OpportunityID r) \<notin>
       (\<lambda>s. (ap_CandidateID s, ap_OpportunityID s)) ` set (applications d) \<Longrightarrow>
     owned_step c d (d\<lparr>applications := applications d @ [r]\<rparr>)"
| transition: "List.find (\<lambda>r. ap_ApplicationID r = i) (applications d) = Some r \<Longrightarrow>
     ap_CandidateID r = c \<Longrightarrow>
     tu_Status u = ap_Status r \<or> status_step (ap_Status r) (tu_Status u) \<Longrightarrow>
     tu_SubmittedAt u = (if tu_Status u = StatusSubmitted \<and> ap_Status r \<noteq> StatusSubmitted
                         then Some now else ap_SubmittedAt r) \<Longrightarrow>
     owned_step c d (d\<lparr>applications :=
       update_where (\<lambda>r. ap_ApplicationID r = i) (update_row u now) (applications d)\<rparr>)"
| event: "er_CandidateID e = c \<Longrightarrow> owns c d (er_ApplicationID e) \<Longrightarrow>
     (er_EventID e, er_OccurredAt e) \<notin>
       (\<lambda>s. (er_EventID s, er_OccurredAt s)) ` set (application_events d) \<Longrightarrow>
     owned_step c d (d\<lparr>application_events := application_events d @ [e]\<rparr>)"
| note_add: "owns c d (n_ApplicationID n) \<Longrightarrow> n_DeletedAt n = None \<Longrightarrow>
     n_NoteID n \<notin> n_NoteID ` set (application_notes d) \<Longrightarrow>
     owned_step c d (d\<lparr>application_notes := application_notes d @ [n]\<rparr>)"
| note_edit: "List.find (\<lambda>r. n_NoteID r = i) (application_notes d) = Some n \<Longrightarrow>
     owns c d (n_ApplicationID n) \<Longrightarrow>
     owned_step c d (d\<lparr>application_notes := update_where (live_note i)
       (\<lambda>r. r\<lparr>n_Body := body, n_UpdatedAt := now\<rparr>) (application_notes d)\<rparr>)"
| note_delete: "List.find (\<lambda>r. n_NoteID r = i) (application_notes d) = Some n \<Longrightarrow>
     owns c d (n_ApplicationID n) \<Longrightarrow>
     owned_step c d (d\<lparr>application_notes := update_where (live_note i)
       (\<lambda>r. r\<lparr>n_DeletedAt := Some now\<rparr>) (application_notes d)\<rparr>)"
| reminder_add: "owns c d (rmr_ApplicationID r) \<Longrightarrow> rmr_DeletedAt r = None \<Longrightarrow>
     rmr_CompletedAt r = None \<Longrightarrow> rmr_Status r \<noteq> ReminderDone \<Longrightarrow>
     rmr_ReminderID r \<notin> rmr_ReminderID ` set (application_reminders d) \<Longrightarrow>
     owned_step c d (d\<lparr>application_reminders := application_reminders d @ [r]\<rparr>)"
| reminder_patch: "List.find (\<lambda>r. rmr_ReminderID r = i) (application_reminders d) = Some r \<Longrightarrow>
     owns c d (rmr_ApplicationID r) \<Longrightarrow> rmr_DeletedAt r = None \<Longrightarrow>
     owned_step c d (d\<lparr>application_reminders := update_where (\<lambda>r. rmr_ReminderID r = i)
       (patch_reminder (scan_reminder r) p now) (application_reminders d)\<rparr>)"
| reminder_delete: "List.find (\<lambda>r. rmr_ReminderID r = i) (application_reminders d) = Some r \<Longrightarrow>
     owns c d (rmr_ApplicationID r) \<Longrightarrow>
     owned_step c d (d\<lparr>application_reminders := update_where (live_reminder i)
       (\<lambda>r. r\<lparr>rmr_DeletedAt := Some now\<rparr>) (application_reminders d)\<rparr>)"
| attachment_add: "owns c d (atr_ApplicationID r) \<Longrightarrow> atr_DeletedAt r = None \<Longrightarrow>
     take (length (blob_prefix c)) (atr_R2Key r) = blob_prefix c \<Longrightarrow>
     atr_AttachmentID r \<notin> atr_AttachmentID ` set (application_attachments d) \<Longrightarrow>
     owned_step c d (d\<lparr>application_attachments := application_attachments d @ [r]\<rparr>)"
| attachment_delete: "List.find (\<lambda>r. atr_AttachmentID r = i) (application_attachments d) = Some r \<Longrightarrow>
     owns c d (atr_ApplicationID r) \<Longrightarrow>
     owned_step c d (d\<lparr>application_attachments := update_where (live_attachment i)
       (\<lambda>r. r\<lparr>atr_DeletedAt := Some now\<rparr>) (application_attachments d)\<rparr>)"
| blob_put: "take (length (blob_prefix c)) key = blob_prefix c \<Longrightarrow>
     owned_step c d (d\<lparr>blobs := (blobs d)(key \<mapsto> b)\<rparr>)"
| blob_drop: "take (length (blob_prefix c)) key = blob_prefix c \<or>
     (\<exists>r \<in> set (application_attachments d). atr_R2Key r = key \<and> owns c d (atr_ApplicationID r)) \<Longrightarrow>
     owned_step c d (d\<lparr>blobs := (blobs d)(key := None)\<rparr>)"

section \<open>Lemmas: every store operation is a sequence of abstract steps\<close>

lemma tables_upd [simp]:
  "tables (d\<lparr>applications := xs\<rparr>) = (tables d)\<lparr>applications := xs\<rparr>"
  "tables (d\<lparr>application_notes := ns\<rparr>) = (tables d)\<lparr>application_notes := ns\<rparr>"
  "tables (d\<lparr>application_reminders := rs\<rparr>) = (tables d)\<lparr>application_reminders := rs\<rparr>"
  "tables (d\<lparr>application_attachments := as\<rparr>) = (tables d)\<lparr>application_attachments := as\<rparr>"
  "tables (d\<lparr>application_events := es\<rparr>) = (tables d)\<lparr>application_events := es\<rparr>"
  "tables (d\<lparr>blobs := bs\<rparr>) = (tables d)\<lparr>blobs := bs\<rparr>"
  by (simp_all add: tables_def)

lemma owns_tables [simp]: "owns c (tables d) i = owns c d i"
  by (simp add: owns_def)

lemma owns_cong: "tables d = tables e \<Longrightarrow> owns c d i = owns c e i"
  by (metis owns_tables)

lemma find_owns:
  "List.find (\<lambda>r. ap_ApplicationID r = i) (applications d) = Some r \<Longrightarrow> owns (ap_CandidateID r) d i"
  by (auto simp: owns_def dest: find_SomeD)

abbreviation owned_run :: "string \<Rightarrow> appdb \<Rightarrow> appdb \<Rightarrow> bool" where
  "owned_run c d d' \<equiv> (owned_step c)\<^sup>*\<^sup>* (tables d) (tables d')"

lemma owned_run_same: "tables d' = tables d \<Longrightarrow> owned_run c d d'"
  by simp

lemma owned_run_trans: "owned_run c d d1 \<Longrightarrow> owned_run c d1 d2 \<Longrightarrow> owned_run c d d2"
  by (rule rtranclp_trans)

lemma owned_run_step:
  "owned_step c (tables d) (tables d') \<Longrightarrow> owned_run c d d'"
  by (rule r_into_rtranclp)

lemma Store_CreateE:
  assumes "Store_Create a now d = (x, d')"
  obtains (unchanged) "tables d' = tables d" "isl x"
  | (inserted) "ap_ApplicationID (create_row a now) \<notin> ap_ApplicationID ` set (applications d)"
      "(a_CandidateID a, a_OpportunityID a) \<notin>
         (\<lambda>s. (ap_CandidateID s, ap_OpportunityID s)) ` set (applications d)"
      "tables d' = (tables d)\<lparr>applications := applications d @ [create_row a now]\<rparr>"
      "\<And>b. x = Inr b \<Longrightarrow> b = scan_application (create_row a now)"
proof -
  let ?r = "create_row a now"
  obtain y d1 where s: "run_stmt (createApplicationSQL ?r) d = (y, d1)" by fastforce
  from s show thesis
  proof (cases rule: run_stmtE)
    case fault
    with assms s have "x = Inl ErrStatement" "d' = d1" by (simp_all add: Store_Create_def)
    with fault show thesis by (intro unchanged) simp_all
  next
    case (ran e)
    have apps: "applications e = applications d" by (rule tables_eqD(1)[OF ran(1)])
    define dup where "dup \<longleftrightarrow> (ap_CandidateID ?r, ap_OpportunityID ?r) \<in>
           (\<lambda>s. (ap_CandidateID s, ap_OpportunityID s)) ` set (applications d)"
    define pk where "pk \<longleftrightarrow> ap_ApplicationID ?r \<in> ap_ApplicationID ` set (applications d)"
    have conds:
      "list_ex (\<lambda>s. ap_CandidateID s = ap_CandidateID ?r \<and> ap_OpportunityID s = ap_OpportunityID ?r)
         (applications e) = dup"
      "list_ex (\<lambda>s. ap_ApplicationID s = ap_ApplicationID ?r) (applications e) = pk"
      by (simp_all only: dup_def pk_def apps row_simps)
    consider (no) "y = Inl ErrStatement \<or> y = Inr None" "d1 = e"
      | (ins) "y = Inr (Some (ap_ApplicationID ?r))"
        "d1 = e\<lparr>applications := applications e @ [?r]\<rparr>" "\<not> pk" "\<not> dup"
      using ran(2) unfolding createApplicationSQL_def conds
      by (cases dup; cases pk; simp; blast)
    then show thesis
    proof cases
      case no
      with assms s have "isl x" "d' = e" by (auto simp: Store_Create_def)
      with ran(1) show thesis by (intro unchanged) simp_all
    next
      case ins
      have g: "GetByID (ap_ApplicationID ?r) d1 = (x, d')"
        using assms s ins(1) by (simp add: Store_Create_def)
      have f: "List.find (\<lambda>r. ap_ApplicationID r = ap_ApplicationID ?r) (applications d1) = Some ?r"
        using find_fresh_snoc[of ap_ApplicationID ?r "applications d"] ins(2,3) apps
        by (simp add: pk_def)
      have "tables d' = (tables d)\<lparr>applications := applications d @ [?r]\<rparr>"
        using GetByID_tables[OF g] ins(2) ran(1) apps by simp
      moreover have "x = Inr b \<Longrightarrow> b = scan_application ?r" for b
        using g f by (metis GetByID_Inr option.inject)
      ultimately show thesis using ins(3,4) unfolding pk_def dup_def
        by (intro inserted) (simp_all add: create_row_def)
    qed
  qed
qed

lemma Store_Create_run:
  assumes "Store_Create a now d = (x, d')"
  shows "owned_run (a_CandidateID a) d d'"
  using assms
proof (cases rule: Store_CreateE)
  case inserted
  then have "owned_step (a_CandidateID a) (tables d)
      ((tables d)\<lparr>applications := applications (tables d) @ [create_row a now]\<rparr>)"
    by (intro owned_step.create) (auto simp: create_row_def)
  with inserted show ?thesis by (simp add: owned_run_step)
qed simp

lemma plan_transition_Inr:
  assumes "plan_transition cur p now = Inr u"
  shows "(tu_Status u = a_Status cur \<or> status_step (a_Status cur) (tu_Status u)) \<and>
    tu_SubmittedAt u = (if tu_Status u = StatusSubmitted \<and> a_Status cur \<noteq> StatusSubmitted
                        then Some now else a_SubmittedAt cur)"
  using assms
  by (auto simp: plan_transition_def Let_def ValidateTransition_step
      split: option.splits if_splits)

lemma plan_transition_accept:
  assumes "s = (case p_Status p of None \<Rightarrow> a_Status cur | Some s \<Rightarrow> s)"
    and "s = a_Status cur \<or> status_step (a_Status cur) s"
  shows "\<exists>u. plan_transition cur p now = Inr u \<and> tu_Status u = s"
  using assms
  by (cases "p_Status p")
    (auto simp: plan_transition_def Let_def simp flip: ValidateTransition_step split: option.split)

lemma plan_transition_refuse:
  assumes "p_Status p = Some s" and "s \<noteq> a_Status cur" and "\<not> status_step (a_Status cur) s"
  shows "plan_transition cur p now = Inl (ErrInvalidTransition
    \<lparr>it_From = a_Status cur, it_To = s, it_Allowed = AllowedNext (a_Status cur)\<rparr>)"
proof -
  have "ValidateTransition (a_Status cur) s =
      Some \<lparr>it_From = a_Status cur, it_To = s, it_Allowed = AllowedNext (a_Status cur)\<rparr>"
    using assms(3) by (cases "transitions (a_Status cur)")
      (auto simp: ValidateTransition_def transitions_step AllowedNext_def)
  with assms show ?thesis by (simp add: plan_transition_def Let_def)
qed

lemma ApplyTransitionE:
  assumes "ApplyTransition i p now d = (x, d')"
  obtains (unchanged) "tables d' = tables d" "isl x"
  | (written) r u where "List.find (\<lambda>r. ap_ApplicationID r = i) (applications d) = Some r"
      "plan_transition (scan_application r) p now = Inr u"
      "tables d' = (tables d)\<lparr>applications :=
         update_where (\<lambda>r. ap_ApplicationID r = i) (update_row u now) (applications d)\<rparr>"
      "\<And>b. x = Inr b \<Longrightarrow> b = scan_application (update_row u now r)"
proof -
  obtain y d1 where g: "GetByID i d = (y, d1)" by fastforce
  have t1: "tables d1 = tables d" by (rule GetByID_tables[OF g])
  show thesis
  proof (cases y)
    case (Inl e)
    with assms g have "x = Inl e" "d' = d1" by (simp_all add: ApplyTransition_def)
    with t1 show thesis by (intro unchanged) simp_all
  next
    case (Inr cur)
    with g obtain r where r: "List.find (\<lambda>r. ap_ApplicationID r = i) (applications d) = Some r"
      and cur: "cur = scan_application r" by (metis GetByID_Inr)
    show thesis
    proof (cases "plan_transition cur p now")
      case (Inl e)
      with assms g Inr have "x = Inl e" "d' = d1" by (simp_all add: ApplyTransition_def)
      with t1 show thesis by (intro unchanged) simp_all
    next
      case u: (Inr u)
      obtain z d2 where w: "write_transition i u now d1 = (z, d2)" by fastforce
      from w[unfolded write_transition_def] show thesis
      proof (cases rule: run_stmtE)
        case fault
        with assms g Inr u w have "x = Inl ErrStatement" "d' = d2"
          by (simp_all add: ApplyTransition_def)
        with fault t1 show thesis by (intro unchanged) simp_all
      next
        case (ran e)
        then have "z = Inr ()" by simp
        with assms g Inr u w have g2: "GetByID i d2 = (x, d')" by (simp add: ApplyTransition_def)
        have apps: "applications e = applications d"
          by (rule tables_eqD(1)[OF trans[OF ran(1) t1]])
        have d2: "tables d2 = (tables d)\<lparr>applications :=
          update_where (\<lambda>r. ap_ApplicationID r = i) (update_row u now) (applications d)\<rparr>"
          using ran t1 apps by auto
        have "List.find (\<lambda>r. ap_ApplicationID r = i) (applications d2) = Some (update_row u now r)"
          using r arg_cong[OF d2, of applications]
          by (simp add: find_update_where_same update_row_def)
        then have "x = Inr b \<Longrightarrow> b = scan_application (update_row u now r)" for b
          using g2 by (metis GetByID_Inr option.inject)
        with r u cur GetByID_tables[OF g2] d2 show thesis by (intro written) simp_all
      qed
    qed
  qed
qed

lemma ApplyTransition_run:
  assumes "ApplyTransition i p now d = (x, d')"
    and "\<And>r. List.find (\<lambda>r. ap_ApplicationID r = i) (applications d) = Some r \<Longrightarrow> ap_CandidateID r = c"
  shows "owned_run c d d'"
  using assms(1)
proof (cases rule: ApplyTransitionE)
  case (written r u)
  then have "owned_step c (tables d) ((tables d)\<lparr>applications :=
      update_where (\<lambda>r. ap_ApplicationID r = i) (update_row u now) (applications (tables d))\<rparr>)"
    using assms(2) plan_transition_Inr[OF written(2)]
    by (intro owned_step.transition) (auto simp: scan_application_def)
  with written show ?thesis by (simp add: owned_run_step)
qed simp

lemma run_stmtE':
  assumes "run_stmt q d = (x, d')"
  obtains (fault) "x = Inl ErrStatement" "tables d' = tables d"
  | (ran) fs where "q (d\<lparr>io_faults := fs\<rparr>) = (x, d')"
  using assms unfolding run_stmt_def Let_def
  by (cases "next_fault (io_faults d)") (auto split: if_splits)

text \<open>The rules of \<open>owned_step\<close> as single runs from the contents of a database.\<close>

lemmas run_rules =
  owned_step.note_add[where d = "tables d" for d, THEN r_into_rtranclp[of "owned_step c" for c], simplified]
  owned_step.note_edit[where d = "tables d" for d, THEN r_into_rtranclp[of "owned_step c" for c], simplified]
  owned_step.note_delete[where d = "tables d" for d, THEN r_into_rtranclp[of "owned_step c" for c], simplified]
  owned_step.reminder_add[where d = "tables d" for d, THEN r_into_rtranclp[of "owned_step c" for c], simplified]
  owned_step.reminder_patch[where d = "tables d" for d, THEN r_into_rtranclp[of "owned_step c" for c], simplified]
  owned_step.reminder_delete[where d = "tables d" for d, THEN r_into_rtranclp[of "owned_step c" for c], simplified]
  owned_step.attachment_add[where d = "tables d" for d, THEN r_into_rtranclp[of "owned_step c" for c], simplified]
  owned_step.attachment_delete[where d = "tables d" for d, THEN r_into_rtranclp[of "owned_step c" for c], simplified]
  owned_step.blob_put[where d = "tables d" for d, THEN r_into_rtranclp[of "owned_step c" for c], simplified]
  owned_step.blob_drop[where d = "tables d" for d, THEN r_into_rtranclp[of "owned_step c" for c], simplified]

lemma EventLog_Write_run:
  assumes "EventLog_Write evt now d = (x, d')"
    and "ev_CandidateID evt = c" and "owns c d (ev_ApplicationID evt)"
  shows "owned_run c d d'"
  using assms(1)[unfolded EventLog_Write_def]
proof (cases rule: run_stmtE')
  case (ran fs)
  let ?r = "event_row evt now"
  show ?thesis
  proof (cases "(er_EventID ?r, er_OccurredAt ?r) \<in>
      (\<lambda>s. (er_EventID s, er_OccurredAt s)) ` set (application_events d)")
    case True
    with ran have "d' = d\<lparr>io_faults := fs\<rparr>" by (simp add: row_simps Let_def)
    then show ?thesis by simp
  next
    case False
    with ran have "tables d' = (tables d)\<lparr>application_events := application_events (tables d) @ [?r]\<rparr>"
      by (auto simp: row_simps Let_def)
    moreover have "owned_step c (tables d)
        ((tables d)\<lparr>application_events := application_events (tables d) @ [?r]\<rparr>)"
      using assms(2,3) False by (intro owned_step.event) (simp_all add: event_row_def)
    ultimately show ?thesis by simp
  qed
qed simp

lemma Notes_Create_run:
  assumes "Notes_Create n now d = (x, d')" and "owns c d (n_ApplicationID n)"
  shows "owned_run c d d'"
proof -
  let ?q = "\<lambda>d. if list_ex (\<lambda>r. n_NoteID r = n_NoteID n) (application_notes d) then (Inl ErrStatement, d)
        else (Inr (), d\<lparr>application_notes := application_notes d @
          [\<lparr>n_NoteID = n_NoteID n, n_ApplicationID = n_ApplicationID n, n_Body = n_Body n,
            n_DeletedAt = None, n_CreatedAt = now, n_UpdatedAt = now\<rparr>]\<rparr>)"
  obtain y d1 where s: "run_stmt ?q d = (y, d1)" by fastforce
  have "tables d' = tables d1"
    using assms(1) s by (cases y) (auto simp: Notes_Create_def dest: Notes_Get_tables)
  moreover from s have "owned_run c d d1"
  proof (cases rule: run_stmtE')
    case (ran fs)
    then show ?thesis using assms(2)
      by (auto simp: row_simps intro!: run_rules split: if_splits)
  qed simp
  ultimately show ?thesis by simp
qed

lemma Notes_Update_run:
  assumes "Notes_Update i body now d = (x, d')"
    and "List.find (\<lambda>r. n_NoteID r = i) (application_notes d) = Some n"
    and "owns c d (n_ApplicationID n)"
  shows "owned_run c d d'"
proof -
  let ?q = "\<lambda>d. (Inr (length (filter (live_note i) (application_notes d))),
         d\<lparr>application_notes := update_where (live_note i)
             (\<lambda>r. r\<lparr>n_Body := body, n_UpdatedAt := now\<rparr>) (application_notes d)\<rparr>)"
  obtain y d1 where s: "run_stmt ?q d = (y, d1)" by fastforce
  have "tables d' = tables d1" using assms(1) s
    by (cases y) (auto simp: Notes_Update_def dest: Notes_Get_tables split: if_splits)
  moreover from s have "owned_run c d d1"
  proof (cases rule: run_stmtE')
    case (ran fs)
    then show ?thesis using assms(2,3) by (auto intro!: run_rules)
  qed simp
  ultimately show ?thesis by simp
qed

lemma Notes_SoftDelete_run:
  assumes "Notes_SoftDelete i now d = (x, d')"
    and "List.find (\<lambda>r. n_NoteID r = i) (application_notes d) = Some n"
    and "owns c d (n_ApplicationID n)"
  shows "owned_run c d d'"
proof -
  let ?q = "\<lambda>d. (Inr (length (filter (live_note i) (application_notes d))),
         d\<lparr>application_notes := update_where (live_note i)
             (\<lambda>r. r\<lparr>n_DeletedAt := Some now\<rparr>) (application_notes d)\<rparr>)"
  obtain y d1 where s: "run_stmt ?q d = (y, d1)" by fastforce
  have "d' = d1" using assms(1) s by (cases y) (auto simp: Notes_SoftDelete_def split: if_splits)
  moreover from s have "owned_run c d d1"
  proof (cases rule: run_stmtE')
    case (ran fs)
    then show ?thesis using assms(2,3) by (auto intro!: run_rules)
  qed simp
  ultimately show ?thesis by simp
qed

lemma Reminders_Create_run:
  assumes "Reminders_Create r now d = (x, d')" and "owns c d (rm_ApplicationID r)"
    and "rm_Status r \<noteq> ReminderDone"
  shows "owned_run c d d'"
proof -
  let ?q = "\<lambda>d. if list_ex (\<lambda>s. rmr_ReminderID s = rm_ReminderID r) (application_reminders d)
        then (Inl ErrStatement, d)
        else (Inr (), d\<lparr>application_reminders := application_reminders d @
          [\<lparr>rmr_ReminderID = rm_ReminderID r, rmr_ApplicationID = rm_ApplicationID r,
            rmr_DueAt = rm_DueAt r,
            rmr_Status = (if rm_Status r = [] then ReminderPending else rm_Status r),
            rmr_Note = NULLIF_empty (rm_Note r), rmr_CompletedAt = None, rmr_DeletedAt = None,
            rmr_CreatedAt = now, rmr_UpdatedAt = now\<rparr>]\<rparr>)"
  obtain y d1 where s: "run_stmt ?q d = (y, d1)" by fastforce
  have "tables d' = tables d1" using assms(1) s
    by (cases y) (auto simp: Reminders_Create_def Let_def dest: Reminders_Get_tables)
  moreover from s have "owned_run c d d1"
  proof (cases rule: run_stmtE')
    case (ran fs)
    then show ?thesis using assms(2,3)
      by (auto simp: row_simps ReminderPending_def ReminderDone_def
          intro!: run_rules split: if_splits)
  qed simp
  ultimately show ?thesis by simp
qed

lemma Reminders_Update_run:
  assumes "Reminders_Update i p now d = (x, d')"
    and "List.find (\<lambda>r. rmr_ReminderID r = i) (application_reminders d) = Some r"
    and "owns c d (rmr_ApplicationID r)"
  shows "owned_run c d d'"
proof -
  obtain y d1 where g: "Reminders_Get i d = (y, d1)" by fastforce
  have t1: "tables d1 = tables d" by (rule Reminders_Get_tables[OF g])
  show ?thesis
  proof (cases y)
    case (Inl e)
    with assms(1) g t1 show ?thesis by (simp add: Reminders_Update_def)
  next
    case (Inr cur)
    then have cur: "cur = scan_reminder r" using g assms(2) by (metis Reminders_Get_Inr option.inject)
    show ?thesis
    proof (cases "rmr_DeletedAt r")
      case (Some t)
      with assms(1) g t1 Inr cur show ?thesis
        by (simp add: Reminders_Update_def scan_reminder_def)
    next
      case None
      let ?q = "\<lambda>d. (Inr (), d\<lparr>application_reminders :=
                  update_where (\<lambda>r. rmr_ReminderID r = i) (patch_reminder cur p now)
                    (application_reminders d)\<rparr>)"
      obtain z d2 where w: "run_stmt ?q d1 = (z, d2)" by fastforce
      have "tables d' = tables d2" using assms(1) g Inr cur None w
        by (cases z) (auto simp: Reminders_Update_def scan_reminder_def dest: Reminders_Get_tables)
      moreover from w have "owned_run c d1 d2"
      proof (cases rule: run_stmtE')
        case (ran fs)
        have "owns c d1 (rmr_ApplicationID r)" using assms(3) owns_cong[OF t1] by simp
        moreover have "List.find (\<lambda>r. rmr_ReminderID r = i) (application_reminders d1) = Some r"
          using assms(2) tables_eqD(4)[OF t1] by simp
        ultimately show ?thesis using ran cur None by (auto intro!: run_rules)
      qed simp
      ultimately show ?thesis using t1 by simp
    qed
  qed
qed

lemma Reminders_SoftDelete_run:
  assumes "Reminders_SoftDelete i now d = (x, d')"
    and "List.find (\<lambda>r. rmr_ReminderID r = i) (application_reminders d) = Some r"
    and "owns c d (rmr_ApplicationID r)"
  shows "owned_run c d d'"
proof -
  let ?q = "\<lambda>d. (Inr (length (filter (live_reminder i) (application_reminders d))),
         d\<lparr>application_reminders := update_where (live_reminder i)
             (\<lambda>r. r\<lparr>rmr_DeletedAt := Some now\<rparr>) (application_reminders d)\<rparr>)"
  obtain y d1 where s: "run_stmt ?q d = (y, d1)" by fastforce
  have "d' = d1" using assms(1) s
    by (cases y) (auto simp: Reminders_SoftDelete_def split: if_splits)
  moreover from s have "owned_run c d d1"
  proof (cases rule: run_stmtE')
    case (ran fs)
    then show ?thesis using assms(2,3) by (auto intro!: run_rules)
  qed simp
  ultimately show ?thesis by simp
qed

lemma Attachments_Create_run:
  assumes "Attachments_Create a now d = (x, d')" and "owns c d (at_ApplicationID a)"
    and "take (length (blob_prefix c)) (at_R2Key a) = blob_prefix c"
  shows "owned_run c d d'"
proof -
  let ?q = "\<lambda>d. if list_ex (\<lambda>s. atr_AttachmentID s = at_AttachmentID a) (application_attachments d)
        then (Inl ErrStatement, d)
        else (Inr (), d\<lparr>application_attachments := application_attachments d @
          [\<lparr>atr_AttachmentID = at_AttachmentID a, atr_ApplicationID = at_ApplicationID a,
            atr_R2Key = at_R2Key a, atr_ContentType = at_ContentType a, atr_Bytes = at_Bytes a,
            atr_Filename = NULLIF_empty (at_Filename a), atr_DeletedAt = None,
            atr_CreatedAt = now\<rparr>]\<rparr>)"
  obtain y d1 where s: "run_stmt ?q d = (y, d1)" by fastforce
  have "tables d' = tables d1" using assms(1) s
    by (cases y) (auto simp: Attachments_Create_def dest: Attachments_Get_tables)
  moreover from s have "owned_run c d d1"
  proof (cases rule: run_stmtE')
    case (ran fs)
    then show ?thesis using assms(2,3)
      by (auto simp: row_simps intro!: run_rules split: if_splits)
  qed simp
  ultimately show ?thesis by simp
qed

lemma Attachments_SoftDelete_run:
  assumes "Attachments_SoftDelete i now d = (x, d')"
    and "List.find (\<lambda>r. atr_AttachmentID r = i) (application_attachments d) = Some r"
    and "owns c d (atr_ApplicationID r)"
  shows "owned_run c d d'"
proof -
  let ?q = "\<lambda>d. (Inr (length (filter (live_attachment i) (application_attachments d))),
         d\<lparr>application_attachments := update_where (live_attachment i)
             (\<lambda>r. r\<lparr>atr_DeletedAt := Some now\<rparr>) (application_attachments d)\<rparr>)"
  obtain y d1 where s: "run_stmt ?q d = (y, d1)" by fastforce
  have "d' = d1" using assms(1) s
    by (cases y) (auto simp: Attachments_SoftDelete_def split: if_splits)
  moreover from s have "owned_run c d d1"
  proof (cases rule: run_stmtE')
    case (ran fs)
    then show ?thesis using assms(2,3) by (auto intro!: run_rules)
  qed simp
  ultimately show ?thesis by simp
qed

lemma Blob_Put_run:
  assumes "Blob_Put key ct body d = (x, d')"
    and "take (length (blob_prefix c)) key = blob_prefix c"
  shows "owned_run c d d'"
  using assms(1)[unfolded Blob_Put_def]
proof (cases rule: run_stmtE')
  case (ran fs)
  then show ?thesis using assms(2) by (auto intro!: run_rules)
qed simp

lemma Blob_Delete_run:
  assumes "Blob_Delete key d = (x, d')"
    and "take (length (blob_prefix c)) key = blob_prefix c \<or>
      (\<exists>r \<in> set (application_attachments d). atr_R2Key r = key \<and> owns c d (atr_ApplicationID r))"
  shows "owned_run c d d'"
  using assms(1)[unfolded Blob_Delete_def]
proof (cases rule: run_stmtE')
  case (ran fs)
  then have "tables d' = (tables d)\<lparr>blobs := (blobs d)(key := None)\<rparr>" by auto
  then show ?thesis using run_rules(10)[OF assms(2)] by simp
qed simp

end
