(* ===== verification/Application_Spec.thy ===== *)
theory Application_Spec
  imports Application_Store
begin

text \<open>
  Invariants of the applications service, proved once for the abstract step relation
  \<open>owned_step\<close>.

  \<^item> \<open>service_inv\<close>: unique keys, one application per (candidate, opportunity), a submission
    time only on applications that went through \<open>submitted\<close>, and every attachment stored
    under the blob prefix of the candidate who owns its application.
  \<^item> \<open>app_evolves\<close>: rows of \<open>applications\<close> never disappear, keep their identity, move only
    along the transition table, and keep a submission time once it is set.
  \<^item> \<open>foreign_view\<close>: what a database holds for everybody but candidate \<open>c\<close>; no step of
    \<open>c\<close> changes it.
\<close>

section \<open>Definitions\<close>

definition submitted_ok :: "appdb \<Rightarrow> bool" where
  "submitted_ok d \<longleftrightarrow> (\<forall>r \<in> set (applications d).
     ap_SubmittedAt r \<noteq> None \<longrightarrow> status_step\<^sup>*\<^sup>* StatusSubmitted (ap_Status r))"

definition attachments_ok :: "appdb \<Rightarrow> bool" where
  "attachments_ok d \<longleftrightarrow> (\<forall>a \<in> set (application_attachments d). \<exists>r \<in> set (applications d).
     ap_ApplicationID r = atr_ApplicationID a \<and>
     take (length (blob_prefix (ap_CandidateID r))) (atr_R2Key a) = blob_prefix (ap_CandidateID r))"

definition service_inv :: "appdb \<Rightarrow> bool" where
  "service_inv d \<longleftrightarrow> appdb_wf d \<and> submitted_ok d \<and> attachments_ok d"

definition row_evolves :: "ApplicationRecord \<Rightarrow> ApplicationRecord \<Rightarrow> bool" where
  "row_evolves r r' \<longleftrightarrow>
     ap_ApplicationID r' = ap_ApplicationID r \<and> ap_CandidateID r' = ap_CandidateID r \<and>
     ap_OpportunityID r' = ap_OpportunityID r \<and> ap_MatchID r' = ap_MatchID r \<and>
     ap_CreatedAt r' = ap_CreatedAt r \<and> status_step\<^sup>*\<^sup>* (ap_Status r) (ap_Status r') \<and>
     (ap_SubmittedAt r \<noteq> None \<longrightarrow> ap_SubmittedAt r' = ap_SubmittedAt r)"

definition app_evolves :: "appdb \<Rightarrow> appdb \<Rightarrow> bool" where
  "app_evolves d d' \<longleftrightarrow>
     (\<forall>r \<in> set (applications d). \<exists>r' \<in> set (applications d'). row_evolves r r')"

definition foreign :: "string \<Rightarrow> appdb \<Rightarrow> string \<Rightarrow> bool" where
  "foreign c d i \<longleftrightarrow> (\<exists>r \<in> set (applications d). ap_ApplicationID r = i \<and> ap_CandidateID r \<noteq> c)"

definition foreign_view :: "string \<Rightarrow> appdb \<Rightarrow> appdb" where
  "foreign_view c d =
     \<lparr>applications = filter (\<lambda>r. ap_CandidateID r \<noteq> c) (applications d),
      application_notes = filter (\<lambda>n. foreign c d (n_ApplicationID n)) (application_notes d),
      application_attachments =
        filter (\<lambda>a. foreign c d (atr_ApplicationID a)) (application_attachments d),
      application_reminders =
        filter (\<lambda>r. foreign c d (rmr_ApplicationID r)) (application_reminders d),
      application_events = filter (\<lambda>e. er_CandidateID e \<noteq> c) (application_events d),
      blobs = blobs d |` {k. take (length (blob_prefix c)) k \<noteq> blob_prefix c},
      io_faults = []\<rparr>"

section \<open>Fields the updates keep\<close>

lemma update_row_sel [simp]:
  "ap_ApplicationID (update_row u t r) = ap_ApplicationID r"
  "ap_CandidateID (update_row u t r) = ap_CandidateID r"
  "ap_OpportunityID (update_row u t r) = ap_OpportunityID r"
  "ap_MatchID (update_row u t r) = ap_MatchID r"
  "ap_CreatedAt (update_row u t r) = ap_CreatedAt r"
  "ap_Status (update_row u t r) = tu_Status u"
  "ap_SubmittedAt (update_row u t r) = tu_SubmittedAt u"
  by (simp_all add: update_row_def)

lemma update_row_if [simp]:
  "ap_ApplicationID (if b then update_row u t r else r) = ap_ApplicationID r"
  "ap_CandidateID (if b then update_row u t r else r) = ap_CandidateID r"
  by simp_all

lemma patch_reminder_sel [simp]:
  "rmr_ReminderID (patch_reminder c p t r) = rmr_ReminderID r"
  "rmr_ApplicationID (patch_reminder c p t r) = rmr_ApplicationID r"
  "rmr_DeletedAt (patch_reminder c p t r) = rmr_DeletedAt r"
  by (simp_all add: patch_reminder_def Let_def)

section \<open>The invariant is kept\<close>

lemma owned_step_wf: "owned_step c d d' \<Longrightarrow> appdb_wf d \<Longrightarrow> appdb_wf d'"
  by (induction rule: owned_step.induct) (auto simp: appdb_wf_def map_update_where)

lemma owned_step_submitted:
  assumes "owned_step c d d'" and "appdb_wf d" and "submitted_ok d"
  shows "submitted_ok d'"
  using assms(1,2,3)
proof (induction rule: owned_step.induct)
  case (transition i d r u now)
  have "ap_SubmittedAt s \<noteq> None \<longrightarrow> status_step\<^sup>*\<^sup>* StatusSubmitted (ap_Status s)"
    if "s \<in> set (applications d)" for s
    using that transition.prems(2) by (simp add: submitted_ok_def)
  moreover have "s = r" if "s \<in> set (applications d)" "ap_ApplicationID s = i" for s
    using that transition.hyps(1) transition.prems(1)
    by (intro find_key_unique[of ap_ApplicationID]) (simp_all add: appdb_wf_def)
  ultimately show ?case using transition.hyps(3,4)
    by (auto simp: submitted_ok_def ball_update_where split: if_splits
        intro: rtranclp.rtrancl_into_rtrancl)
qed (auto simp: submitted_ok_def)

lemma owned_step_attachments:
  assumes "owned_step c d d'" and "attachments_ok d"
  shows "attachments_ok d'"
  using assms
proof (induction rule: owned_step.induct)
  case (transition i d r u now)
  then show ?case by (simp add: attachments_ok_def bex_update_where del: if_split)
next
  case (attachment_add d r)
  then obtain s where "s \<in> set (applications d)" "ap_ApplicationID s = atr_ApplicationID r"
    "ap_CandidateID s = c" by (auto simp: owns_def)
  with attachment_add show ?case by (auto simp: attachments_ok_def)
next
  case (attachment_delete i d r now)
  then show ?case by (simp add: attachments_ok_def ball_update_where if_distrib)
qed (auto simp: attachments_ok_def)

lemma owned_step_inv: "owned_step c d d' \<Longrightarrow> service_inv d \<Longrightarrow> service_inv d'"
  by (auto simp: service_inv_def intro: owned_step_wf owned_step_submitted owned_step_attachments)

section \<open>Rows evolve along the table\<close>

lemma row_evolves_refl [simp]: "row_evolves r r"
  by (simp add: row_evolves_def)

lemma row_evolves_trans: "row_evolves r s \<Longrightarrow> row_evolves s t \<Longrightarrow> row_evolves r t"
  by (auto simp: row_evolves_def)

lemma app_evolves_refl [simp]: "app_evolves d d"
  unfolding app_evolves_def by (meson row_evolves_refl)

lemma app_evolves_trans: "app_evolves d e \<Longrightarrow> app_evolves e f \<Longrightarrow> app_evolves d f"
  unfolding app_evolves_def by (meson row_evolves_trans)

lemma applying_not_after_submitted:
  assumes "status_step s StatusSubmitted"
  shows "\<not> status_step\<^sup>*\<^sup>* StatusSubmitted s"
  using status_step_height[OF assms] status_reach_height[of StatusSubmitted s] by auto

lemma transition_row_evolves:
  assumes "service_inv d" and "r \<in> set (applications d)"
    and "tu_Status u = ap_Status r \<or> status_step (ap_Status r) (tu_Status u)"
    and "tu_SubmittedAt u = (if tu_Status u = StatusSubmitted \<and> ap_Status r \<noteq> StatusSubmitted
                             then Some now else ap_SubmittedAt r)"
  shows "row_evolves r (update_row u t r)"
proof -
  have "ap_SubmittedAt r \<noteq> None \<longrightarrow> status_step\<^sup>*\<^sup>* StatusSubmitted (ap_Status r)"
    using assms(1,2) by (auto simp: service_inv_def submitted_ok_def)
  with assms(3,4) applying_not_after_submitted[of "ap_Status r"] show ?thesis
    by (auto simp: row_evolves_def split: if_splits)
qed

lemma owned_step_evolves:
  assumes "owned_step c d d'" and "service_inv d"
  shows "app_evolves d d'"
  using assms
proof (induction rule: owned_step.induct)
  case (transition i d r u now)
  have "\<exists>s' \<in> set (update_where (\<lambda>r. ap_ApplicationID r = i) (update_row u now) (applications d)).
      row_evolves s s'" if s: "s \<in> set (applications d)" for s
  proof (cases "ap_ApplicationID s = i")
    case True
    then have "s = r" using transition.hyps(1) transition.prems s
      by (intro find_key_unique[of ap_ApplicationID]) (auto simp: service_inv_def appdb_wf_def)
    then have "row_evolves s (update_row u now s)"
      using transition s by (intro transition_row_evolves) auto
    with True s show ?thesis by (force simp: set_update_where)
  next
    case False
    with s show ?thesis by (force simp: set_update_where)
  qed
  then show ?case by (simp add: app_evolves_def)
qed (auto simp: app_evolves_def intro: row_evolves_refl)

section \<open>Candidates are isolated\<close>

lemma owns_not_foreign: "service_inv d \<Longrightarrow> owns c d i \<Longrightarrow> \<not> foreign c d i"
  unfolding owns_def foreign_def service_inv_def appdb_wf_def
  by (metis distinct_key_eq)

lemma foreign_applications_cong:
  "applications d' = applications d \<Longrightarrow> foreign c d' i = foreign c d i"
  by (simp add: foreign_def)

lemma foreign_transition:
  "foreign c (d\<lparr>applications := update_where P (update_row u t) (applications d)\<rparr>) i = foreign c d i"
  by (simp add: foreign_def bex_update_where del: if_split)

lemma foreign_create:
  "ap_CandidateID r = c \<Longrightarrow> foreign c (d\<lparr>applications := applications d @ [r]\<rparr>) i = foreign c d i"
  by (auto simp: foreign_def)

text \<open>No step of \<open>c\<close> is visible outside what \<open>c\<close> owns.\<close>

lemma owned_step_foreign:
  assumes "owned_step c d d'" and "service_inv d"
  shows "foreign_view c d' = foreign_view c d"
  using assms
proof (induction rule: owned_step.induct)
  case (create r d)
  then show ?case by (simp add: foreign_view_def foreign_create)
next
  case (transition i d r u now)
  have "ap_CandidateID s = c" if "s \<in> set (applications d)" "ap_ApplicationID s = i" for s
    using find_key_unique[of ap_ApplicationID "applications d" i r s] that transition
    by (simp add: service_inv_def appdb_wf_def)
  then have "filter (\<lambda>r. ap_CandidateID r \<noteq> c)
      (update_where (\<lambda>r. ap_ApplicationID r = i) (update_row u now) (applications d)) =
    filter (\<lambda>r. ap_CandidateID r \<noteq> c) (applications d)"
    by (intro filter_update_where) simp
  then show ?case by (simp add: foreign_view_def foreign_transition)
next
  case (event e d)
  then show ?case by (simp add: foreign_view_def foreign_def)
next
  case (note_add d n)
  then show ?case using owns_not_foreign[of d c] by (simp add: foreign_view_def foreign_def)
next
  case (note_edit i d n now body)
  have "\<not> foreign c d (n_ApplicationID s)"
    if "s \<in> set (application_notes d)" "n_NoteID s = i" for s
    using find_key_unique[of n_NoteID "application_notes d" i n s] that note_edit owns_not_foreign[of d c]
    by (simp add: service_inv_def appdb_wf_def)
  then have "filter (\<lambda>n. foreign c d (n_ApplicationID n)) (update_where (live_note i)
      (\<lambda>r. r\<lparr>n_Body := body, n_UpdatedAt := now\<rparr>) (application_notes d)) =
    filter (\<lambda>n. foreign c d (n_ApplicationID n)) (application_notes d)"
    by (intro filter_update_where) (simp add: live_note_def)
  then show ?case by (simp add: foreign_view_def foreign_def)
next
  case (note_delete i d n now)
  have "\<not> foreign c d (n_ApplicationID s)"
    if "s \<in> set (application_notes d)" "n_NoteID s = i" for s
    using find_key_unique[of n_NoteID "application_notes d" i n s] that note_delete owns_not_foreign[of d c]
    by (simp add: service_inv_def appdb_wf_def)
  then have "filter (\<lambda>n. foreign c d (n_ApplicationID n)) (update_where (live_note i)
      (\<lambda>r. r\<lparr>n_DeletedAt := Some now\<rparr>) (application_notes d)) =
    filter (\<lambda>n. foreign c d (n_ApplicationID n)) (application_notes d)"
    by (intro filter_update_where) (simp add: live_note_def)
  then show ?case by (simp add: foreign_view_def foreign_def)
next
  case (reminder_add d r)
  then show ?case using owns_not_foreign[of d c] by (simp add: foreign_view_def foreign_def)
next
  case (reminder_patch i d r p now)
  have "\<not> foreign c d (rmr_ApplicationID s)"
    if "s \<in> set (application_reminders d)" "rmr_ReminderID s = i" for s
    using find_key_unique[of rmr_ReminderID "application_reminders d" i r s] that reminder_patch
      owns_not_foreign[of d c]
    by (simp add: service_inv_def appdb_wf_def)
  then have "filter (\<lambda>n. foreign c d (rmr_ApplicationID n)) (update_where (\<lambda>r. rmr_ReminderID r = i)
      (patch_reminder (scan_reminder r) p now) (application_reminders d)) =
    filter (\<lambda>n. foreign c d (rmr_ApplicationID n)) (application_reminders d)"
    by (intro filter_update_where) simp
  then show ?case by (simp add: foreign_view_def foreign_def)
next
  case (reminder_delete i d r now)
  have "\<not> foreign c d (rmr_ApplicationID s)"
    if "s \<in> set (application_reminders d)" "rmr_ReminderID s = i" for s
    using find_key_unique[of rmr_ReminderID "application_reminders d" i r s] that reminder_delete
      owns_not_foreign[of d c]
    by (simp add: service_inv_def appdb_wf_def)
  then have "filter (\<lambda>n. foreign c d (rmr_ApplicationID n)) (update_where (live_reminder i)
      (\<lambda>r. r\<lparr>rmr_DeletedAt := Some now\<rparr>) (application_reminders d)) =
    filter (\<lambda>n. foreign c d (rmr_ApplicationID n)) (application_reminders d)"
    by (intro filter_update_where) (simp add: live_reminder_def)
  then show ?case by (simp add: foreign_view_def foreign_def)
next
  case (attachment_add d r)
  then show ?case using owns_not_foreign[of d c] by (simp add: foreign_view_def foreign_def)
next
  case (attachment_delete i d r now)
  have "\<not> foreign c d (atr_ApplicationID s)"
    if "s \<in> set (application_attachments d)" "atr_AttachmentID s = i" for s
    using find_key_unique[of atr_AttachmentID "application_attachments d" i r s] that
      attachment_delete owns_not_foreign[of d c]
    by (simp add: service_inv_def appdb_wf_def)
  then have "filter (\<lambda>n. foreign c d (atr_ApplicationID n)) (update_where (live_attachment i)
      (\<lambda>r. r\<lparr>atr_DeletedAt := Some now\<rparr>) (application_attachments d)) =
    filter (\<lambda>n. foreign c d (atr_ApplicationID n)) (application_attachments d)"
    by (intro filter_update_where) (simp add: live_attachment_def)
  then show ?case by (simp add: foreign_view_def foreign_def)
next
  case (blob_put key d b)
  then show ?case by (simp add: foreign_view_def foreign_def restrict_map_def fun_eq_iff)
next
  case (blob_drop key d)
  have "take (length (blob_prefix c)) key = blob_prefix c"
  proof (rule ccontr)
    assume n: "take (length (blob_prefix c)) key \<noteq> blob_prefix c"
    with blob_drop(1) obtain a where a: "a \<in> set (application_attachments d)" "atr_R2Key a = key"
      "owns c d (atr_ApplicationID a)" by blast
    with blob_drop(2) obtain r where "r \<in> set (applications d)"
      "ap_ApplicationID r = atr_ApplicationID a"
      "take (length (blob_prefix (ap_CandidateID r))) key = blob_prefix (ap_CandidateID r)"
      by (auto simp: service_inv_def attachments_ok_def)
    moreover from this n have "ap_CandidateID r \<noteq> c" by auto
    ultimately have "foreign c d (atr_ApplicationID a)" by (auto simp: foreign_def)
    with a owns_not_foreign[OF blob_drop(2)] show False by blast
  qed
  then show ?case by (simp add: foreign_view_def foreign_def restrict_map_def fun_eq_iff)
qed

section \<open>Soft deletion and the audit log\<close>

text \<open>
  A deleted note, reminder or attachment stays deleted with the same content, and the
  events table only grows at its end.
\<close>

definition history_grows :: "appdb \<Rightarrow> appdb \<Rightarrow> bool" where
  "history_grows d d' \<longleftrightarrow>
     (\<forall>n \<in> set (application_notes d). n_DeletedAt n \<noteq> None \<longrightarrow> n \<in> set (application_notes d')) \<and>
     (\<forall>r \<in> set (application_reminders d). rmr_DeletedAt r \<noteq> None \<longrightarrow>
        r \<in> set (application_reminders d')) \<and>
     (\<forall>a \<in> set (application_attachments d). atr_DeletedAt a \<noteq> None \<longrightarrow>
        a \<in> set (application_attachments d')) \<and>
     (\<exists>es. application_events d' = application_events d @ es)"

lemma history_grows_refl: "history_grows d d"
  by (simp add: history_grows_def)

lemma history_grows_trans: "history_grows d e \<Longrightarrow> history_grows e f \<Longrightarrow> history_grows d f"
  by (auto simp: history_grows_def)

lemma update_where_keeps: "s \<in> set rows \<Longrightarrow> \<not> P s \<Longrightarrow> s \<in> set (update_where P f rows)"
  by (force simp: set_update_where)

lemma owned_step_history:
  assumes "owned_step c d d'" and "service_inv d"
  shows "history_grows d d'"
  using assms
proof (induction rule: owned_step.induct)
  case (reminder_patch i d r p now)
  have "rmr_ReminderID s \<noteq> i" if "s \<in> set (application_reminders d)" "rmr_DeletedAt s \<noteq> None" for s
    using find_key_unique[of rmr_ReminderID "application_reminders d" i r s] that reminder_patch
    by (auto simp: service_inv_def appdb_wf_def)
  then show ?case by (auto simp: history_grows_def intro!: update_where_keeps)
qed (auto simp: history_grows_def live_note_def live_reminder_def live_attachment_def
    intro!: update_where_keeps)

section \<open>Runs\<close>

interpretation app: transition_system "owned_step c" service_inv for c
  by unfold_locales (rule owned_step_inv)

lemma service_inv_tables [simp]: "service_inv (tables d) = service_inv d"
  by (simp add: service_inv_def appdb_wf_def submitted_ok_def attachments_ok_def)

lemma app_evolves_tables [simp]: "app_evolves (tables d) (tables d') = app_evolves d d'"
  by (simp add: app_evolves_def)

lemma history_grows_tables [simp]: "history_grows (tables d) (tables d') = history_grows d d'"
  by (simp add: history_grows_def)

lemma foreign_view_tables [simp]: "foreign_view c (tables d) = foreign_view c d"
  by (simp add: foreign_view_def foreign_def)

lemma owned_run_inv: "owned_run c d d' \<Longrightarrow> service_inv d \<Longrightarrow> service_inv d'"
  using app.run_inv[of c "tables d" "tables d'"] by simp

lemma owned_run_evolves: "owned_run c d d' \<Longrightarrow> service_inv d \<Longrightarrow> app_evolves d d'"
  using app.run_preorder[of c "tables d" "tables d'" app_evolves] owned_step_evolves
    app_evolves_refl app_evolves_trans
  by (metis app_evolves_tables service_inv_tables)

lemma owned_run_history: "owned_run c d d' \<Longrightarrow> service_inv d \<Longrightarrow> history_grows d d'"
  using app.run_preorder[of c "tables d" "tables d'" history_grows] owned_step_history
    history_grows_refl history_grows_trans
  by (metis history_grows_tables service_inv_tables)

lemma owned_run_foreign: "owned_run c d d' \<Longrightarrow> service_inv d \<Longrightarrow> foreign_view c d' = foreign_view c d"
  using app.run_view[of c "tables d" "tables d'" "foreign_view c"] owned_step_foreign
  by (metis foreign_view_tables service_inv_tables)

end
