(* ===== verification/Application_Http.thy ===== *)
theory Application_Http
  imports Application_Spec
begin

text \<open>
  The handlers of \<open>apps/applications/service/http/v1\<close> over the stores.

  A handler takes the authenticated candidate, the path values, the decoded request body
  (\<open>None\<close> for a body that does not decode), the identifiers it draws with \<open>newID\<close> in the
  order it draws them, and the clock reading.  It returns the response and the new
  database.  \<open>serve\<close> is the dispatch of \<open>router.go\<close>.  The lemmas show that every request
  of candidate \<open>c\<close>, on every success and failure path, is a run of \<open>owned_step c\<close>.
  The idempotency wrapper that the router puts around some of the handlers is composed with
  \<open>serve\<close> in \<open>Application_Routes\<close>.
\<close>

section \<open>Responses\<close>

record applicationResp =
  xa_ApplicationID :: string
  xa_CandidateID :: string
  xa_OpportunityID :: string
  xa_MatchID :: string
  xa_Status :: string
  xa_CurrentStage :: string
  xa_Metadata :: "gomap option"
  xa_SubmittedAt :: "time option"
  xa_LastEventID :: string
  xa_CreatedAt :: time
  xa_UpdatedAt :: time

definition toAppResp :: "Application \<Rightarrow> applicationResp" where
  "toAppResp a =
     \<lparr>xa_ApplicationID = a_ApplicationID a, xa_CandidateID = a_CandidateID a,
      xa_OpportunityID = a_OpportunityID a, xa_MatchID = a_MatchID a, xa_Status = a_Status a,
      xa_CurrentStage = a_CurrentStage a, xa_Metadata = a_Metadata a,
      xa_SubmittedAt = a_SubmittedAt a, xa_LastEventID = a_LastEventID a,
      xa_CreatedAt = a_CreatedAt a, xa_UpdatedAt = a_UpdatedAt a\<rparr>"

record eventResp =
  xe_EventID :: string
  xe_OccurredAt :: time
  xe_ApplicationID :: string
  xe_CandidateID :: string
  xe_Kind :: string
  xe_FromStatus :: string
  xe_ToStatus :: string
  xe_Actor :: string
  xe_Data :: "gomap option"

definition toEventResp :: "Event \<Rightarrow> eventResp" where
  "toEventResp e =
     \<lparr>xe_EventID = ev_EventID e, xe_OccurredAt = ev_OccurredAt e,
      xe_ApplicationID = ev_ApplicationID e, xe_CandidateID = ev_CandidateID e,
      xe_Kind = ev_Kind e, xe_FromStatus = ev_FromStatus e, xe_ToStatus = ev_ToStatus e,
      xe_Actor = ev_Actor e, xe_Data = ev_Data e\<rparr>"

record noteResp =
  xn_NoteID :: string
  xn_ApplicationID :: string
  xn_Body :: string
  xn_CreatedAt :: time
  xn_UpdatedAt :: time

definition toNoteResp :: "Note \<Rightarrow> noteResp" where
  "toNoteResp n =
     \<lparr>xn_NoteID = n_NoteID n, xn_ApplicationID = n_ApplicationID n, xn_Body = n_Body n,
      xn_CreatedAt = n_CreatedAt n, xn_UpdatedAt = n_UpdatedAt n\<rparr>"

record reminderResp =
  xr_ReminderID :: string
  xr_ApplicationID :: string
  xr_DueAt :: time
  xr_Status :: string
  xr_Note :: string
  xr_CompletedAt :: "time option"
  xr_CreatedAt :: time
  xr_UpdatedAt :: time

definition toReminderResp :: "Reminder \<Rightarrow> reminderResp" where
  "toReminderResp r =
     \<lparr>xr_ReminderID = rm_ReminderID r, xr_ApplicationID = rm_ApplicationID r,
      xr_DueAt = rm_DueAt r, xr_Status = rm_Status r, xr_Note = rm_Note r,
      xr_CompletedAt = rm_CompletedAt r, xr_CreatedAt = rm_CreatedAt r,
      xr_UpdatedAt = rm_UpdatedAt r\<rparr>"

record attachmentResp =
  xt_AttachmentID :: string
  xt_ApplicationID :: string
  xt_Filename :: string
  xt_ContentType :: string
  xt_Bytes :: int
  xt_CreatedAt :: time

definition toAttachmentResp :: "Attachment \<Rightarrow> attachmentResp" where
  "toAttachmentResp a =
     \<lparr>xt_AttachmentID = at_AttachmentID a, xt_ApplicationID = at_ApplicationID a,
      xt_Filename = at_Filename a, xt_ContentType = at_ContentType a,
      xt_Bytes = at_Bytes a, xt_CreatedAt = at_CreatedAt a\<rparr>"

datatype body =
    BApp applicationResp
  | BPage "applicationResp list" cursor_token bool
  | BAppEvents applicationResp "eventResp list"
  | BEvent eventResp
  | BEvents "eventResp list"
  | BNote noteResp
  | BReminder reminderResp
  | BReminders "reminderResp list"
  | BAttachment attachmentResp
  | BDownload string
  | BProblem string
  | BInvalidTransition InvalidTransitionError
  | BEmpty

record response =
  rs_status :: int
  rs_body :: body

definition reply :: "int \<Rightarrow> body \<Rightarrow> response" where
  "reply st b = \<lparr>rs_status = st, rs_body = b\<rparr>"

definition ProblemFromError :: "app_error \<Rightarrow> response" where
  "ProblemFromError e =
     (case e of
        ErrNotFound \<Rightarrow> reply 404 (BProblem ''not_found'')
      | ErrAlreadyExists \<Rightarrow> reply 409 (BProblem ''already_exists'')
      | ErrInvalidTransition ie \<Rightarrow> reply 409 (BInvalidTransition ie)
      | _ \<Rightarrow> reply 500 (BProblem ''internal_error''))"

definition bad_input :: response where
  "bad_input = reply 400 (BProblem ''bad_input'')"

definition not_found :: response where
  "not_found = reply 404 (BProblem ''not_found'')"

section \<open>Application handlers\<close>

record createApplicationReq =
  cr_MatchID :: string
  cr_OpportunityID :: string
  cr_Status :: string
  cr_CurrentStage :: string
  cr_Metadata :: "gomap option"

definition new_application :: "string \<Rightarrow> createApplicationReq \<Rightarrow> string \<Rightarrow> string \<Rightarrow> Application" where
  "new_application cand req appID eventID =
     \<lparr>a_ApplicationID = appID, a_CandidateID = cand, a_OpportunityID = cr_OpportunityID req,
      a_MatchID = cr_MatchID req, a_Status = cr_Status req,
      a_CurrentStage = cr_CurrentStage req, a_Metadata = cr_Metadata req,
      a_SubmittedAt = None, a_LastEventID = eventID, a_CreatedAt = 0, a_UpdatedAt = 0\<rparr>"

definition createApplication ::
  "string \<Rightarrow> createApplicationReq option \<Rightarrow> string \<Rightarrow> string \<Rightarrow> time \<Rightarrow> appdb \<Rightarrow> response \<times> appdb"
where
  "createApplication cand body appID eventID now d =
     (case body of
        None \<Rightarrow> (bad_input, d)
      | Some req \<Rightarrow>
          if cr_MatchID req = [] \<or> cr_OpportunityID req = [] then (bad_input, d)
          else (case Store_Create (new_application cand req appID eventID) now d of
             (Inl e, d1) \<Rightarrow> (ProblemFromError e, d1)
           | (Inr app, d1) \<Rightarrow>
               let (_, d2) = EventLog_Write
                     \<lparr>ev_EventID = eventID, ev_OccurredAt = now,
                      ev_ApplicationID = a_ApplicationID app, ev_CandidateID = cand,
                      ev_Kind = EventKindCreated, ev_FromStatus = [],
                      ev_ToStatus = a_Status app, ev_Actor = ActorExtension,
                      ev_Data = Some [''opportunity_id'' \<mapsto> AStr (a_OpportunityID app),
                                      ''match_id'' \<mapsto> AStr (a_MatchID app)]\<rparr> now d1
               in (reply 201 (BApp (toAppResp app)), d2)))"

text \<open>The \<open>status\<close> query parameter: a comma-separated list, blanks dropped.\<close>

definition parse_statuses :: "string \<Rightarrow> Status list" where
  "parse_statuses s =
     (if s = [] then [] else filter (\<lambda>w. w \<noteq> []) (map TrimSpace (Split (CHR '','') s)))"

definition listApplications ::
  "string \<Rightarrow> string \<Rightarrow> int \<Rightarrow> cursor_token \<Rightarrow> appdb \<Rightarrow> response \<times> appdb"
where
  "listApplications cand status limit cursor d =
     (case ListByCandidate \<lparr>lp_CandidateID = cand, lp_Statuses = parse_statuses status,
                            lp_Cursor = cursor, lp_Limit = limit\<rparr> d of
        (Inl e, d1) \<Rightarrow> (ProblemFromError e, d1)
      | (Inr page, d1) \<Rightarrow>
          (reply 200 (BPage (map toAppResp (pg_Items page)) (pg_NextCursor page) (pg_HasMore page)), d1))"

text \<open>Every other handler first loads the application and hides those of other candidates.\<close>

definition loadOwnedApplication ::
  "string \<Rightarrow> string \<Rightarrow> appdb \<Rightarrow> (response + Application) \<times> appdb"
where
  "loadOwnedApplication cand applicationID d =
     (case GetByID applicationID d of
        (Inl e, d1) \<Rightarrow> (Inl (ProblemFromError e), d1)
      | (Inr app, d1) \<Rightarrow>
          if a_CandidateID app \<noteq> cand then (Inl not_found, d1) else (Inr app, d1))"

definition getApplication :: "string \<Rightarrow> string \<Rightarrow> appdb \<Rightarrow> response \<times> appdb" where
  "getApplication cand applicationID d =
     (case loadOwnedApplication cand applicationID d of
        (Inl r, d1) \<Rightarrow> (r, d1)
      | (Inr app, d1) \<Rightarrow>
          let (evts, d2) = EventLog_ListByApplication (a_ApplicationID app) 10 d1
          in (reply 200 (BAppEvents (toAppResp app)
                (case evts of Inl _ \<Rightarrow> [] | Inr es \<Rightarrow> map toEventResp es)), d2))"

record patchApplicationReq =
  pr_Status :: "string option"
  pr_CurrentStage :: "string option"
  pr_Metadata :: gomap

definition patchApplication ::
  "string \<Rightarrow> string \<Rightarrow> patchApplicationReq option \<Rightarrow> string \<Rightarrow> time \<Rightarrow> appdb \<Rightarrow> response \<times> appdb"
where
  "patchApplication cand applicationID body eventID now d =
     (case loadOwnedApplication cand applicationID d of
        (Inl r, d1) \<Rightarrow> (r, d1)
      | (Inr cur, d1) \<Rightarrow>
          (case body of
             None \<Rightarrow> (bad_input, d1)
           | Some req \<Rightarrow>
               (case ApplyTransition applicationID
                       \<lparr>p_Status = pr_Status req, p_CurrentStage = pr_CurrentStage req,
                        p_Metadata = pr_Metadata req, p_LastEventID = eventID\<rparr> now d1 of
                  (Inl e, d2) \<Rightarrow> (ProblemFromError e, d2)
                | (Inr app, d2) \<Rightarrow>
                    let d3 = (if a_Status app \<noteq> a_Status cur
                      then snd (EventLog_Write
                        \<lparr>ev_EventID = eventID, ev_OccurredAt = now,
                         ev_ApplicationID = applicationID, ev_CandidateID = cand,
                         ev_Kind = EventKindStateChanged, ev_FromStatus = a_Status cur,
                         ev_ToStatus = a_Status app, ev_Actor = ActorExtension,
                         ev_Data = None\<rparr> now d2)
                      else d2)
                    in (reply 200 (BApp (toAppResp app)), d3))))"

record appendEventReq =
  ae_Kind :: string
  ae_Data :: "gomap option"
  ae_Actor :: string

definition appendEvent ::
  "string \<Rightarrow> string \<Rightarrow> appendEventReq option \<Rightarrow> string \<Rightarrow> time \<Rightarrow> appdb \<Rightarrow> response \<times> appdb"
where
  "appendEvent cand applicationID body eventID now d =
     (case loadOwnedApplication cand applicationID d of
        (Inl r, d1) \<Rightarrow> (r, d1)
      | (Inr cur, d1) \<Rightarrow>
          (case body of
             None \<Rightarrow> (bad_input, d1)
           | Some req \<Rightarrow>
               if ae_Kind req = [] then (bad_input, d1)
               else
                 let evt = \<lparr>ev_EventID = eventID, ev_OccurredAt = now,
                       ev_ApplicationID = applicationID, ev_CandidateID = cand,
                       ev_Kind = ae_Kind req, ev_FromStatus = [], ev_ToStatus = [],
                       ev_Actor = (if ae_Actor req = [] then ActorExtension else ae_Actor req),
                       ev_Data = ae_Data req\<rparr>
                 in (case EventLog_Write evt now d1 of
                       (Inl e, d2) \<Rightarrow> (ProblemFromError e, d2)
                     | (Inr _, d2) \<Rightarrow> (reply 201 (BEvent (toEventResp evt)), d2))))"

definition listEvents :: "string \<Rightarrow> string \<Rightarrow> int \<Rightarrow> appdb \<Rightarrow> response \<times> appdb" where
  "listEvents cand applicationID limit d =
     (case loadOwnedApplication cand applicationID d of
        (Inl r, d1) \<Rightarrow> (r, d1)
      | (Inr cur, d1) \<Rightarrow>
          (case EventLog_ListByApplication applicationID limit d1 of
             (Inl e, d2) \<Rightarrow> (ProblemFromError e, d2)
           | (Inr evts, d2) \<Rightarrow> (reply 200 (BEvents (map toEventResp evts)), d2)))"

section \<open>Note handlers\<close>

definition simple_event ::
  "string \<Rightarrow> Application \<Rightarrow> EventKind \<Rightarrow> gomap \<Rightarrow> time \<Rightarrow> Event"
where
  "simple_event eventID app kind dat now =
     \<lparr>ev_EventID = eventID, ev_OccurredAt = now, ev_ApplicationID = a_ApplicationID app,
      ev_CandidateID = a_CandidateID app, ev_Kind = kind, ev_FromStatus = [], ev_ToStatus = [],
      ev_Actor = ActorExtension, ev_Data = Some dat\<rparr>"

definition createNote ::
  "string \<Rightarrow> string \<Rightarrow> string option \<Rightarrow> string \<Rightarrow> string \<Rightarrow> time \<Rightarrow> appdb \<Rightarrow> response \<times> appdb"
where
  "createNote cand applicationID body noteID eventID now d =
     (case loadOwnedApplication cand applicationID d of
        (Inl r, d1) \<Rightarrow> (r, d1)
      | (Inr app, d1) \<Rightarrow>
          (case body of
             None \<Rightarrow> (bad_input, d1)
           | Some tx \<Rightarrow>
               if tx = [] then (bad_input, d1)
               else (case Notes_Create \<lparr>n_NoteID = noteID, n_ApplicationID = a_ApplicationID app,
                       n_Body = tx, n_DeletedAt = None, n_CreatedAt = 0, n_UpdatedAt = 0\<rparr> now d1 of
                  (Inl e, d2) \<Rightarrow> (ProblemFromError e, d2)
                | (Inr n, d2) \<Rightarrow>
                    let (_, d3) = EventLog_Write (simple_event eventID app EventKindNoteAdded
                          [''note_id'' \<mapsto> AStr noteID] now) now d2
                    in (reply 201 (BNote (toNoteResp n)), d3))))"

definition updateNote ::
  "string \<Rightarrow> string \<Rightarrow> string \<Rightarrow> string option \<Rightarrow> string \<Rightarrow> time \<Rightarrow> appdb \<Rightarrow> response \<times> appdb"
where
  "updateNote cand applicationID noteID body eventID now d =
     (case loadOwnedApplication cand applicationID d of
        (Inl r, d1) \<Rightarrow> (r, d1)
      | (Inr app, d1) \<Rightarrow>
          (case body of
             None \<Rightarrow> (bad_input, d1)
           | Some tx \<Rightarrow>
               if tx = [] then (bad_input, d1)
               else (case Notes_Get noteID d1 of
                  (Inl e, d2) \<Rightarrow> (ProblemFromError e, d2)
                | (Inr existing, d2) \<Rightarrow>
                    if n_ApplicationID existing \<noteq> a_ApplicationID app \<or> n_DeletedAt existing \<noteq> None
                    then (not_found, d2)
                    else (case Notes_Update noteID tx now d2 of
                       (Inl e, d3) \<Rightarrow> (ProblemFromError e, d3)
                     | (Inr n, d3) \<Rightarrow>
                         let (_, d4) = EventLog_Write (simple_event eventID app EventKindNoteEdited
                               [''note_id'' \<mapsto> AStr noteID] now) now d3
                         in (reply 200 (BNote (toNoteResp n)), d4)))))"

definition deleteNote ::
  "string \<Rightarrow> string \<Rightarrow> string \<Rightarrow> string \<Rightarrow> time \<Rightarrow> appdb \<Rightarrow> response \<times> appdb"
where
  "deleteNote cand applicationID noteID eventID now d =
     (case loadOwnedApplication cand applicationID d of
        (Inl r, d1) \<Rightarrow> (r, d1)
      | (Inr app, d1) \<Rightarrow>
          (case Notes_Get noteID d1 of
             (Inl e, d2) \<Rightarrow> (ProblemFromError e, d2)
           | (Inr existing, d2) \<Rightarrow>
               if n_ApplicationID existing \<noteq> a_ApplicationID app then (not_found, d2)
               else (case Notes_SoftDelete noteID now d2 of
                  (Inl e, d3) \<Rightarrow> (ProblemFromError e, d3)
                | (Inr _, d3) \<Rightarrow>
                    let (_, d4) = EventLog_Write (simple_event eventID app EventKindNoteDeleted
                          [''note_id'' \<mapsto> AStr noteID] now) now d3
                    in (reply 204 BEmpty, d4))))"

section \<open>Reminder handlers\<close>

record createReminderReq =
  crr_DueAt :: time
  crr_Note :: string

definition createReminder ::
  "string \<Rightarrow> string \<Rightarrow> createReminderReq option \<Rightarrow> string \<Rightarrow> string \<Rightarrow> time \<Rightarrow> appdb \<Rightarrow> response \<times> appdb"
where
  "createReminder cand applicationID body rid eventID now d =
     (case loadOwnedApplication cand applicationID d of
        (Inl r, d1) \<Rightarrow> (r, d1)
      | (Inr app, d1) \<Rightarrow>
          (case body of
             None \<Rightarrow> (bad_input, d1)
           | Some req \<Rightarrow>
               if IsZero (crr_DueAt req) then (bad_input, d1)
               else (case Reminders_Create
                       \<lparr>rm_ReminderID = rid, rm_ApplicationID = a_ApplicationID app,
                        rm_DueAt = crr_DueAt req, rm_Status = ReminderPending,
                        rm_Note = crr_Note req, rm_CompletedAt = None, rm_DeletedAt = None,
                        rm_CreatedAt = 0, rm_UpdatedAt = 0\<rparr> now d1 of
                  (Inl e, d2) \<Rightarrow> (ProblemFromError e, d2)
                | (Inr r, d2) \<Rightarrow>
                    let (_, d3) = EventLog_Write (simple_event eventID app EventKindReminderSet
                          [''reminder_id'' \<mapsto> AStr rid, ''due_at'' \<mapsto> ATime (crr_DueAt req)] now) now d2
                    in (reply 201 (BReminder (toReminderResp r)), d3))))"

definition updateReminder ::
  "string \<Rightarrow> string \<Rightarrow> string \<Rightarrow> ReminderPatch option \<Rightarrow> string \<Rightarrow> time \<Rightarrow> appdb \<Rightarrow> response \<times> appdb"
where
  "updateReminder cand applicationID rid body eventID now d =
     (case loadOwnedApplication cand applicationID d of
        (Inl r, d1) \<Rightarrow> (r, d1)
      | (Inr app, d1) \<Rightarrow>
          (case Reminders_Get rid d1 of
             (Inl e, d2) \<Rightarrow> (ProblemFromError e, d2)
           | (Inr existing, d2) \<Rightarrow>
               if rm_ApplicationID existing \<noteq> a_ApplicationID app \<or> rm_DeletedAt existing \<noteq> None
               then (not_found, d2)
               else (case body of
                  None \<Rightarrow> (bad_input, d2)
                | Some patch \<Rightarrow>
                    (case Reminders_Update rid patch now d2 of
                       (Inl e, d3) \<Rightarrow> (ProblemFromError e, d3)
                     | (Inr updated, d3) \<Rightarrow>
                         let d4 = (if rm_Status updated = ReminderDone \<and> rm_Status existing \<noteq> ReminderDone
                           then snd (EventLog_Write (simple_event eventID app EventKindReminderDone
                                  [''reminder_id'' \<mapsto> AStr rid] now) now d3)
                           else d3)
                         in (reply 200 (BReminder (toReminderResp updated)), d4)))))"

definition deleteReminder :: "string \<Rightarrow> string \<Rightarrow> string \<Rightarrow> time \<Rightarrow> appdb \<Rightarrow> response \<times> appdb" where
  "deleteReminder cand applicationID rid now d =
     (case loadOwnedApplication cand applicationID d of
        (Inl r, d1) \<Rightarrow> (r, d1)
      | (Inr app, d1) \<Rightarrow>
          (case Reminders_Get rid d1 of
             (Inl e, d2) \<Rightarrow> (ProblemFromError e, d2)
           | (Inr existing, d2) \<Rightarrow>
               if rm_ApplicationID existing \<noteq> a_ApplicationID app then (not_found, d2)
               else (case Reminders_SoftDelete rid now d2 of
                  (Inl e, d3) \<Rightarrow> (ProblemFromError e, d3)
                | (Inr _, d3) \<Rightarrow> (reply 204 BEmpty, d3))))"

text \<open>The loop of \<open>listAllReminders\<close> over the applications of the page.\<close>

fun collect_reminders :: "Application list \<Rightarrow> appdb \<Rightarrow> (app_error + reminderResp list) \<times> appdb" where
  "collect_reminders [] d = (Inr [], d)"
| "collect_reminders (app # apps) d =
     (case ListActiveByApplication (a_ApplicationID app) d of
        (Inl e, d1) \<Rightarrow> (Inl e, d1)
      | (Inr rems, d1) \<Rightarrow>
          (case collect_reminders apps d1 of
             (Inl e, d2) \<Rightarrow> (Inl e, d2)
           | (Inr rest, d2) \<Rightarrow> (Inr (map toReminderResp rems @ rest), d2)))"

definition listAllReminders :: "string \<Rightarrow> appdb \<Rightarrow> response \<times> appdb" where
  "listAllReminders cand d =
     (case ListByCandidate \<lparr>lp_CandidateID = cand, lp_Statuses = [], lp_Cursor = NoCursor,
                            lp_Limit = 200\<rparr> d of
        (Inl e, d1) \<Rightarrow> (ProblemFromError e, d1)
      | (Inr page, d1) \<Rightarrow>
          (case collect_reminders (pg_Items page) d1 of
             (Inl e, d2) \<Rightarrow> (ProblemFromError e, d2)
           | (Inr items, d2) \<Rightarrow> (reply 200 (BReminders items), d2)))"

section \<open>Attachment handlers\<close>

text \<open>
  The multipart form: it does not parse or exceeds \<open>maxAttachmentBytes\<close>, has no \<open>file\<close>
  field, or carries a file with its name, content type and bytes.
\<close>

datatype upload = BadForm | NoFile | Upload string string "char list"

definition r2_key :: "Application \<Rightarrow> string \<Rightarrow> string \<Rightarrow> string" where
  "r2_key app attID filename =
     ''applications/'' @ a_CandidateID app @ ''/'' @ a_ApplicationID app @ ''/'' @ attID @ ''-'' @ filename"

definition uploadAttachment ::
  "string \<Rightarrow> string \<Rightarrow> upload \<Rightarrow> string \<Rightarrow> string \<Rightarrow> time \<Rightarrow> appdb \<Rightarrow> response \<times> appdb"
where
  "uploadAttachment cand applicationID form attID eventID now d =
     (case loadOwnedApplication cand applicationID d of
        (Inl r, d1) \<Rightarrow> (r, d1)
      | (Inr app, d1) \<Rightarrow>
          (case form of
             BadForm \<Rightarrow> (bad_input, d1)
           | NoFile \<Rightarrow> (bad_input, d1)
           | Upload filename ct content \<Rightarrow>
               let key = r2_key app attID filename;
                   contentType = (if ct = [] then ''application/octet-stream'' else ct)
               in (case Blob_Put key contentType content d1 of
                     (Inl e, d2) \<Rightarrow> (ProblemFromError e, d2)
                   | (Inr n, d2) \<Rightarrow>
                       (case Attachments_Create
                               \<lparr>at_AttachmentID = attID, at_ApplicationID = a_ApplicationID app,
                                at_R2Key = key, at_ContentType = contentType, at_Bytes = n,
                                at_Filename = filename, at_DeletedAt = None, at_CreatedAt = 0\<rparr> now d2 of
                          (Inl e, d3) \<Rightarrow> (ProblemFromError e, snd (Blob_Delete key d3))
                        | (Inr row, d3) \<Rightarrow>
                            let (_, d4) = EventLog_Write (simple_event eventID app EventKindAttachmentAdded
                                  [''attachment_id'' \<mapsto> AStr attID, ''filename'' \<mapsto> AStr filename,
                                   ''bytes'' \<mapsto> AInt n] now) now d3
                            in (reply 201 (BAttachment (toAttachmentResp row)), d4)))))"

definition deleteAttachment ::
  "string \<Rightarrow> string \<Rightarrow> string \<Rightarrow> string \<Rightarrow> time \<Rightarrow> appdb \<Rightarrow> response \<times> appdb"
where
  "deleteAttachment cand applicationID attID eventID now d =
     (case loadOwnedApplication cand applicationID d of
        (Inl r, d1) \<Rightarrow> (r, d1)
      | (Inr app, d1) \<Rightarrow>
          (case Attachments_Get attID d1 of
             (Inl e, d2) \<Rightarrow> (ProblemFromError e, d2)
           | (Inr existing, d2) \<Rightarrow>
               if at_ApplicationID existing \<noteq> a_ApplicationID app then (not_found, d2)
               else (case Attachments_SoftDelete attID now d2 of
                  (Inl e, d3) \<Rightarrow> (ProblemFromError e, d3)
                | (Inr _, d3) \<Rightarrow>
                    let (_, d4) = Blob_Delete (at_R2Key existing) d3;
                        (_, d5) = EventLog_Write (simple_event eventID app EventKindAttachmentDeleted
                          [''attachment_id'' \<mapsto> AStr attID] now) now d4
                    in (reply 204 BEmpty, d5))))"

text \<open>\<open>presign\<close> is the signing of the blob backend: a key and a lifetime to a URL.\<close>

definition presignAttachment ::
  "(string \<Rightarrow> duration \<Rightarrow> app_error + string) \<Rightarrow> string \<Rightarrow> string \<Rightarrow> appdb \<Rightarrow> response \<times> appdb"
where
  "presignAttachment presign cand attID d =
     (case Attachments_Get attID d of
        (Inl e, d1) \<Rightarrow> (ProblemFromError e, d1)
      | (Inr att, d1) \<Rightarrow>
          if at_DeletedAt att \<noteq> None then (not_found, d1)
          else (case GetByID (at_ApplicationID att) d1 of
             (Inl e, d2) \<Rightarrow> (ProblemFromError e, d2)
           | (Inr app, d2) \<Rightarrow>
               if a_CandidateID app \<noteq> cand then (not_found, d2)
               else (case presign (at_R2Key att) (15 * Minute) of
                  Inl e \<Rightarrow> (ProblemFromError e, d2)
                | Inr url \<Rightarrow> (reply 200 (BDownload url), d2))))"

section \<open>The router\<close>

datatype request =
    PostApplication "createApplicationReq option" string string
  | GetApplications string int cursor_token
  | GetApplication string
  | PatchApplication string "patchApplicationReq option" string
  | GetEvents string int
  | PostEvent string "appendEventReq option" string
  | PostNote string "string option" string string
  | PatchNote string string "string option" string
  | DeleteNote string string string
  | GetReminders
  | PostReminder string "createReminderReq option" string string
  | PatchReminder string string "ReminderPatch option" string
  | DeleteReminder string string
  | PostAttachment string upload string string
  | DeleteAttachment string string string
  | GetAttachment string

fun serve ::
  "(string \<Rightarrow> duration \<Rightarrow> app_error + string) \<Rightarrow> string \<Rightarrow> request \<Rightarrow> time \<Rightarrow> appdb \<Rightarrow> response \<times> appdb"
where
  "serve ps c (PostApplication b i e) t d = createApplication c b i e t d"
| "serve ps c (GetApplications s n k) t d = listApplications c s n k d"
| "serve ps c (GetApplication i) t d = getApplication c i d"
| "serve ps c (PatchApplication i b e) t d = patchApplication c i b e t d"
| "serve ps c (GetEvents i n) t d = listEvents c i n d"
| "serve ps c (PostEvent i b e) t d = appendEvent c i b e t d"
| "serve ps c (PostNote i b n e) t d = createNote c i b n e t d"
| "serve ps c (PatchNote i n b e) t d = updateNote c i n b e t d"
| "serve ps c (DeleteNote i n e) t d = deleteNote c i n e t d"
| "serve ps c GetReminders t d = listAllReminders c d"
| "serve ps c (PostReminder i b r e) t d = createReminder c i b r e t d"
| "serve ps c (PatchReminder i r b e) t d = updateReminder c i r b e t d"
| "serve ps c (DeleteReminder i r) t d = deleteReminder c i r t d"
| "serve ps c (PostAttachment i u a e) t d = uploadAttachment c i u a e t d"
| "serve ps c (DeleteAttachment i a e) t d = deleteAttachment c i a e t d"
| "serve ps c (GetAttachment a) t d = presignAttachment ps c a d"

text \<open>
  A sequence of requests, each with its candidate and clock reading; the reachable
  databases of the service are those such a sequence leads to from empty tables.
\<close>

fun serve_all ::
  "(string \<Rightarrow> duration \<Rightarrow> app_error + string) \<Rightarrow> (string \<times> request \<times> time) list \<Rightarrow> appdb \<Rightarrow> appdb"
where
  "serve_all ps [] d = d"
| "serve_all ps ((c, q, t) # rest) d = serve_all ps rest (snd (serve ps c q t d))"

definition empty_db :: "bool list \<Rightarrow> appdb" where
  "empty_db faults =
     \<lparr>applications = [], application_notes = [], application_attachments = [],
      application_reminders = [], application_events = [], blobs = Map.empty,
      io_faults = faults\<rparr>"

section \<open>Lemmas: every request is a run of the abstract steps\<close>

lemma scan_application_sel [simp]:
  "a_ApplicationID (scan_application r) = ap_ApplicationID r"
  "a_CandidateID (scan_application r) = ap_CandidateID r"
  "a_Status (scan_application r) = ap_Status r"
  "a_CreatedAt (scan_application r) = ap_CreatedAt r"
  by (simp_all add: scan_application_def)

lemma loadOwned_tables: "loadOwnedApplication c i d = (x, d1) \<Longrightarrow> tables d1 = tables d"
  by (auto simp: loadOwnedApplication_def split: prod.splits sum.splits if_splits
      dest: GetByID_tables)

lemma loadOwned_Inr:
  assumes "loadOwnedApplication c i d = (Inr app, d1)"
  obtains r where "List.find (\<lambda>r. ap_ApplicationID r = i) (applications d) = Some r"
    "app = scan_application r" "ap_CandidateID r = c" "ap_ApplicationID r = i"
    "a_ApplicationID app = i" "a_CandidateID app = c" "owns c d1 i" "tables d1 = tables d"
proof -
  from assms have g: "GetByID i d = (Inr app, d1)" and c: "a_CandidateID app = c"
    by (auto simp: loadOwnedApplication_def split: prod.splits sum.splits if_splits)
  from g obtain r where r: "List.find (\<lambda>r. ap_ApplicationID r = i) (applications d) = Some r"
    "app = scan_application r" and t: "tables d1 = tables d" by (rule GetByID_Inr)
  have i: "ap_ApplicationID r = i" using find_SomeD[OF r(1)] by simp
  have "owns c d1 i" using find_owns[OF r(1)] r(2) c owns_cong[OF t] by simp
  with r c i t show thesis by (intro that) simp_all
qed

lemma owned_run_read: "tables d1 = tables d \<Longrightarrow> owned_run c d1 d2 \<Longrightarrow> owned_run c d d2"
  by simp

lemma owns_run:
  assumes "owned_run c d d'" and "owns a d i"
  shows "owns a d' i"
proof -
  have step: "owned_step c s t \<Longrightarrow> owns a s i \<Longrightarrow> owns a t i" for s t
    by (induction rule: owned_step.induct)
      (auto simp: owns_def bex_update_where simp del: if_split)
  have "owns a t i" if "(owned_step c)\<^sup>*\<^sup>* s t" "owns a s i" for s t
    using that by (induction rule: rtranclp_induct) (auto intro: step)
  from this[of "tables d" "tables d'"] assms show ?thesis by simp
qed

text \<open>A best-effort event after a run extends the run.\<close>

lemma run_event:
  assumes "owned_run c d d1" and "EventLog_Write e now d1 = (x, d2)"
    and "ev_CandidateID e = c" and "owns c d (ev_ApplicationID e)"
  shows "owned_run c d d2"
  using assms(1) EventLog_Write_run[OF assms(2,3) owns_run[OF assms(1,4)]]
  by (rule owned_run_trans)

lemma simple_event_sel [simp]:
  "ev_CandidateID (simple_event e app k m now) = a_CandidateID app"
  "ev_ApplicationID (simple_event e app k m now) = a_ApplicationID app"
  by (simp_all add: simple_event_def)

lemma createApplication_run:
  assumes "createApplication c body i e now d = (x, d')"
  shows "owned_run c d d'"
proof (cases "\<exists>req. body = Some req \<and> cr_MatchID req \<noteq> [] \<and> cr_OpportunityID req \<noteq> []")
  case False
  with assms have "d' = d" by (auto simp: createApplication_def split: option.splits if_splits)
  then show ?thesis by simp
next
  case True
  then obtain req where req: "body = Some req" "cr_MatchID req \<noteq> []" "cr_OpportunityID req \<noteq> []"
    by blast
  let ?a = "new_application c req i e"
  obtain y d1 where s: "Store_Create ?a now d = (y, d1)" by fastforce
  have run: "owned_run c d d1" using Store_Create_run[OF s] by (simp add: new_application_def)
  show ?thesis
  proof (cases y)
    case (Inl e)
    with assms req s run show ?thesis by (simp add: createApplication_def)
  next
    case (Inr app)
    from s obtain "app = scan_application (create_row ?a now)"
      and t: "tables d1 = (tables d)\<lparr>applications := applications d @ [create_row ?a now]\<rparr>"
      using Inr by (cases rule: Store_CreateE) auto
    then have app: "a_ApplicationID app = i" by (simp add: create_row_def new_application_def)
    have "owns c d1 i" using arg_cong[OF t, of applications]
      by (simp add: owns_def create_row_def new_application_def)
    moreover obtain z d2 where w: "EventLog_Write
         \<lparr>ev_EventID = e, ev_OccurredAt = now, ev_ApplicationID = a_ApplicationID app,
          ev_CandidateID = c, ev_Kind = EventKindCreated, ev_FromStatus = [],
          ev_ToStatus = a_Status app, ev_Actor = ActorExtension,
          ev_Data = Some [''opportunity_id'' \<mapsto> AStr (a_OpportunityID app),
                          ''match_id'' \<mapsto> AStr (a_MatchID app)]\<rparr> now d1 = (z, d2)"
      by fastforce
    ultimately have "owned_run c d1 d2" using app by (intro EventLog_Write_run[OF w]) simp_all
    with run have "owned_run c d d2" by (rule owned_run_trans)
    moreover have "d' = d2" using assms req s Inr w by (simp add: createApplication_def)
    ultimately show ?thesis by simp
  qed
qed

lemma patchApplication_run:
  assumes "patchApplication c i body e now d = (x, d')"
  shows "owned_run c d d'"
proof -
  obtain y d1 where l: "loadOwnedApplication c i d = (y, d1)" by fastforce
  show ?thesis
  proof (cases "\<exists>app req. y = Inr app \<and> body = Some req")
    case False
    with assms l loadOwned_tables[OF l] show ?thesis
      by (auto simp: patchApplication_def split: sum.splits option.splits)
  next
    case True
    then obtain cur req where y: "y = Inr cur" and b: "body = Some req" by blast
    from l y obtain r where r: "List.find (\<lambda>r. ap_ApplicationID r = i) (applications d) = Some r"
      "ap_CandidateID r = c" "owns c d1 i" and t: "tables d1 = tables d"
      by (metis loadOwned_Inr)
    let ?p = "\<lparr>p_Status = pr_Status req, p_CurrentStage = pr_CurrentStage req,
                        p_Metadata = pr_Metadata req, p_LastEventID = e\<rparr>"
    obtain z d2 where a: "ApplyTransition i ?p now d1 = (z, d2)" by fastforce
    have run: "owned_run c d1 d2"
      using ApplyTransition_run[OF a] r(1,2) tables_eqD(1)[OF t] by simp
    show ?thesis
    proof (cases z)
      case (Inl e')
      with assms l y b a run t show ?thesis by (simp add: patchApplication_def)
    next
      case (Inr app)
      let ?e = "\<lparr>ev_EventID = e, ev_OccurredAt = now, ev_ApplicationID = i, ev_CandidateID = c,
                 ev_Kind = EventKindStateChanged, ev_FromStatus = a_Status cur,
                 ev_ToStatus = a_Status app, ev_Actor = ActorExtension, ev_Data = None\<rparr>"
      obtain w d3 where w: "EventLog_Write ?e now d2 = (w, d3)" by fastforce
      have "owned_run c d1 d3" using run_event[OF run w] r(3) by simp
      moreover have "d' = d2 \<or> d' = d3"
        using assms l y b a Inr w by (auto simp: patchApplication_def Let_def)
      ultimately show ?thesis using run t by auto
    qed
  qed
qed

lemma appendEvent_run:
  assumes "appendEvent c i body e now d = (x, d')"
  shows "owned_run c d d'"
proof -
  obtain y d1 where l: "loadOwnedApplication c i d = (y, d1)" by fastforce
  note t = loadOwned_tables[OF l]
  show ?thesis
  proof (cases "\<exists>app req. y = Inr app \<and> body = Some req \<and> ae_Kind req \<noteq> []")
    case False
    with assms l t show ?thesis
      by (auto simp: appendEvent_def split: sum.splits option.splits if_splits)
  next
    case True
    then obtain app req where y: "y = Inr app" and b: "body = Some req" "ae_Kind req \<noteq> []" by blast
    have o: "owns c d1 i" using l y by (metis loadOwned_Inr)
    let ?e = "\<lparr>ev_EventID = e, ev_OccurredAt = now, ev_ApplicationID = i, ev_CandidateID = c,
               ev_Kind = ae_Kind req, ev_FromStatus = [], ev_ToStatus = [],
               ev_Actor = (if ae_Actor req = [] then ActorExtension else ae_Actor req),
               ev_Data = ae_Data req\<rparr>"
    obtain z d2 where w: "EventLog_Write ?e now d1 = (z, d2)" by fastforce
    have "owned_run c d1 d2" using o by (intro EventLog_Write_run[OF w]) simp_all
    moreover have "d' = d2" using assms l y b w
      by (cases z) (simp_all add: appendEvent_def Let_def)
    ultimately show ?thesis using t by simp
  qed
qed

lemma createNote_run:
  assumes "createNote c i body n e now d = (x, d')"
  shows "owned_run c d d'"
proof -
  obtain y d1 where l: "loadOwnedApplication c i d = (y, d1)" by fastforce
  note t = loadOwned_tables[OF l]
  show ?thesis
  proof (cases "\<exists>app tx. y = Inr app \<and> body = Some tx \<and> tx \<noteq> []")
    case False
    with assms l t show ?thesis
      by (auto simp: createNote_def split: sum.splits option.splits if_splits)
  next
    case True
    then obtain app tx where y: "y = Inr app" and b: "body = Some tx" "tx \<noteq> []" by blast
    from l y have o: "owns c d1 i" and app: "a_ApplicationID app = i" "a_CandidateID app = c"
      by (metis loadOwned_Inr)+
    let ?n = "\<lparr>n_NoteID = n, n_ApplicationID = a_ApplicationID app, n_Body = tx,
               n_DeletedAt = None, n_CreatedAt = 0, n_UpdatedAt = 0\<rparr>"
    obtain z d2 where w: "Notes_Create ?n now d1 = (z, d2)" by fastforce
    have run: "owned_run c d1 d2" using Notes_Create_run[OF w] o app by simp
    let ?e = "simple_event e app EventKindNoteAdded [''note_id'' \<mapsto> AStr n] now"
    obtain v d3 where v: "EventLog_Write ?e now d2 = (v, d3)" by fastforce
    have "owned_run c d1 d3" using run_event[OF run v] o app by simp
    moreover have "d' = d2 \<or> d' = d3" using assms l y b w v
      by (cases z) (auto simp: createNote_def)
    ultimately show ?thesis using run t by auto
  qed
qed

lemma updateNote_run:
  assumes "updateNote c i n body e now d = (x, d')"
  shows "owned_run c d d'"
proof -
  obtain y d1 where l: "loadOwnedApplication c i d = (y, d1)" by fastforce
  note t = loadOwned_tables[OF l]
  obtain g d2 where g: "Notes_Get n d1 = (g, d2)" by fastforce
  note t2 = Notes_Get_tables[OF g]
  show ?thesis
  proof (cases "\<exists>app tx ex. y = Inr app \<and> body = Some tx \<and> tx \<noteq> [] \<and> g = Inr ex \<and>
      n_ApplicationID ex = a_ApplicationID app \<and> n_DeletedAt ex = None")
    case False
    with assms l t g t2 show ?thesis
      by (auto simp: updateNote_def split: sum.splits option.splits if_splits)
  next
    case True
    then obtain app tx ex where y: "y = Inr app" and b: "body = Some tx" "tx \<noteq> []"
      and ex: "g = Inr ex" "n_ApplicationID ex = a_ApplicationID app" "n_DeletedAt ex = None" by blast
    from l y have o: "owns c d1 i" and app: "a_ApplicationID app = i" "a_CandidateID app = c"
      by (metis loadOwned_Inr)+
    have o2: "owns c d2 i" using o owns_cong[OF t2] by simp
    have f: "List.find (\<lambda>r. n_NoteID r = n) (application_notes d2) = Some ex"
      using g ex(1) tables_eqD(2)[OF t2] by (metis Notes_Get_Inr)
    obtain z d3 where w: "Notes_Update n tx now d2 = (z, d3)" by fastforce
    have run: "owned_run c d2 d3" using Notes_Update_run[OF w f] o2 app ex(2) by simp
    let ?e = "simple_event e app EventKindNoteEdited [''note_id'' \<mapsto> AStr n] now"
    obtain v d4 where v: "EventLog_Write ?e now d3 = (v, d4)" by fastforce
    have "owned_run c d2 d4" using run_event[OF run v] o2 app by simp
    moreover have "d' = d3 \<or> d' = d4" using assms l y b g ex w v
      by (cases z) (auto simp: updateNote_def)
    ultimately show ?thesis using run t t2 by auto
  qed
qed

lemma deleteNote_run:
  assumes "deleteNote c i n e now d = (x, d')"
  shows "owned_run c d d'"
proof -
  obtain y d1 where l: "loadOwnedApplication c i d = (y, d1)" by fastforce
  note t = loadOwned_tables[OF l]
  obtain g d2 where g: "Notes_Get n d1 = (g, d2)" by fastforce
  note t2 = Notes_Get_tables[OF g]
  show ?thesis
  proof (cases "\<exists>app ex. y = Inr app \<and> g = Inr ex \<and> n_ApplicationID ex = a_ApplicationID app")
    case False
    with assms l t g t2 show ?thesis
      by (auto simp: deleteNote_def split: sum.splits if_splits)
  next
    case True
    then obtain app ex where y: "y = Inr app"
      and ex: "g = Inr ex" "n_ApplicationID ex = a_ApplicationID app" by blast
    from l y have o: "owns c d1 i" and app: "a_ApplicationID app = i" "a_CandidateID app = c"
      by (metis loadOwned_Inr)+
    have o2: "owns c d2 i" using o owns_cong[OF t2] by simp
    have f: "List.find (\<lambda>r. n_NoteID r = n) (application_notes d2) = Some ex"
      using g ex(1) tables_eqD(2)[OF t2] by (metis Notes_Get_Inr)
    obtain z d3 where w: "Notes_SoftDelete n now d2 = (z, d3)" by fastforce
    have run: "owned_run c d2 d3" using Notes_SoftDelete_run[OF w f] o2 app ex(2) by simp
    let ?e = "simple_event e app EventKindNoteDeleted [''note_id'' \<mapsto> AStr n] now"
    obtain v d4 where v: "EventLog_Write ?e now d3 = (v, d4)" by fastforce
    have "owned_run c d2 d4" using run_event[OF run v] o2 app by simp
    moreover have "d' = d3 \<or> d' = d4" using assms l y g ex w v
      by (cases z) (auto simp: deleteNote_def)
    ultimately show ?thesis using run t t2 by auto
  qed
qed

lemma createReminder_run:
  assumes "createReminder c i body n e now d = (x, d')"
  shows "owned_run c d d'"
proof -
  obtain y d1 where l: "loadOwnedApplication c i d = (y, d1)" by fastforce
  note t = loadOwned_tables[OF l]
  show ?thesis
  proof (cases "\<exists>app req. y = Inr app \<and> body = Some req \<and> \<not> IsZero (crr_DueAt req)")
    case False
    with assms l t show ?thesis
      by (auto simp: createReminder_def split: sum.splits option.splits if_splits)
  next
    case True
    then obtain app req where y: "y = Inr app" and b: "body = Some req" "\<not> IsZero (crr_DueAt req)"
      by blast
    from l y have o: "owns c d1 i" and app: "a_ApplicationID app = i" "a_CandidateID app = c"
      by (metis loadOwned_Inr)+
    let ?n = "\<lparr>rm_ReminderID = n, rm_ApplicationID = a_ApplicationID app,
                rm_DueAt = crr_DueAt req, rm_Status = ReminderPending,
                rm_Note = crr_Note req, rm_CompletedAt = None, rm_DeletedAt = None,
                rm_CreatedAt = 0, rm_UpdatedAt = 0\<rparr>"
    obtain z d2 where w: "Reminders_Create ?n now d1 = (z, d2)" by fastforce
    have run: "owned_run c d1 d2" using Reminders_Create_run[OF w] o app
      by (simp add: ReminderPending_def ReminderDone_def)
    let ?e = "simple_event e app EventKindReminderSet
      [''reminder_id'' \<mapsto> AStr n, ''due_at'' \<mapsto> ATime (crr_DueAt req)] now"
    obtain v d3 where v: "EventLog_Write ?e now d2 = (v, d3)" by fastforce
    have "owned_run c d1 d3" using run_event[OF run v] o app by simp
    moreover have "d' = d2 \<or> d' = d3" using assms l y b w v
      by (cases z) (auto simp: createReminder_def)
    ultimately show ?thesis using run t by auto
  qed
qed

lemma updateReminder_run:
  assumes "updateReminder c i n body e now d = (x, d')"
  shows "owned_run c d d'"
proof -
  obtain y d1 where l: "loadOwnedApplication c i d = (y, d1)" by fastforce
  note t = loadOwned_tables[OF l]
  obtain g d2 where g: "Reminders_Get n d1 = (g, d2)" by fastforce
  note t2 = Reminders_Get_tables[OF g]
  show ?thesis
  proof (cases "\<exists>app p ex. y = Inr app \<and> body = Some p \<and> g = Inr ex \<and>
      rm_ApplicationID ex = a_ApplicationID app \<and> rm_DeletedAt ex = None")
    case False
    with assms l t g t2 show ?thesis
      by (auto simp: updateReminder_def split: sum.splits option.splits if_splits)
  next
    case True
    then obtain app p ex where y: "y = Inr app" and b: "body = Some p"
      and ex: "g = Inr ex" "rm_ApplicationID ex = a_ApplicationID app" "rm_DeletedAt ex = None" by blast
    from l y have o: "owns c d1 i" and app: "a_ApplicationID app = i" "a_CandidateID app = c"
      by (metis loadOwned_Inr)+
    have o2: "owns c d2 i" using o owns_cong[OF t2] by simp
    obtain r where f: "List.find (\<lambda>r. rmr_ReminderID r = n) (application_reminders d2) = Some r"
      and r: "ex = scan_reminder r"
      using g ex(1) tables_eqD(4)[OF t2] by (metis Reminders_Get_Inr)
    obtain z d3 where w: "Reminders_Update n p now d2 = (z, d3)" by fastforce
    have run: "owned_run c d2 d3" using Reminders_Update_run[OF w f] o2 app ex(2) r
      by (simp add: scan_reminder_def)
    let ?e = "simple_event e app EventKindReminderDone [''reminder_id'' \<mapsto> AStr n] now"
    obtain v d4 where v: "EventLog_Write ?e now d3 = (v, d4)" by fastforce
    have "owned_run c d2 d4" using run_event[OF run v] o2 app by simp
    moreover have "d' = d3 \<or> d' = d4" using assms l y b g ex w v
      by (cases z) (auto simp: updateReminder_def Let_def split: if_splits)
    ultimately show ?thesis using run t t2 by auto
  qed
qed

lemma deleteReminder_run:
  assumes "deleteReminder c i n now d = (x, d')"
  shows "owned_run c d d'"
proof -
  obtain y d1 where l: "loadOwnedApplication c i d = (y, d1)" by fastforce
  note t = loadOwned_tables[OF l]
  obtain g d2 where g: "Reminders_Get n d1 = (g, d2)" by fastforce
  note t2 = Reminders_Get_tables[OF g]
  show ?thesis
  proof (cases "\<exists>app ex. y = Inr app \<and> g = Inr ex \<and> rm_ApplicationID ex = a_ApplicationID app")
    case False
    with assms l t g t2 show ?thesis
      by (auto simp: deleteReminder_def split: sum.splits if_splits)
  next
    case True
    then obtain app ex where y: "y = Inr app"
      and ex: "g = Inr ex" "rm_ApplicationID ex = a_ApplicationID app" by blast
    from l y have o: "owns c d1 i" and app: "a_ApplicationID app = i"
      by (metis loadOwned_Inr)+
    have o2: "owns c d2 i" using o owns_cong[OF t2] by simp
    obtain r where f: "List.find (\<lambda>r. rmr_ReminderID r = n) (application_reminders d2) = Some r"
      and r: "ex = scan_reminder r"
      using g ex(1) tables_eqD(4)[OF t2] by (metis Reminders_Get_Inr)
    obtain z d3 where w: "Reminders_SoftDelete n now d2 = (z, d3)" by fastforce
    have "owned_run c d2 d3" using Reminders_SoftDelete_run[OF w f] o2 app ex(2) r
      by (simp add: scan_reminder_def)
    moreover have "d' = d3" using assms l y g ex w by (cases z) (auto simp: deleteReminder_def)
    ultimately show ?thesis using t t2 by simp
  qed
qed

lemma collect_reminders_tables:
  "collect_reminders apps d = (x, d') \<Longrightarrow> tables d' = tables d"
proof (induction apps arbitrary: d x d')
  case (Cons a apps)
  obtain y d1 where l: "ListActiveByApplication (a_ApplicationID a) d = (y, d1)" by fastforce
  note t = ListActiveByApplication_tables[OF l]
  show ?case
  proof (cases y)
    case (Inl e)
    with Cons.prems l t show ?thesis by simp
  next
    case (Inr rems)
    obtain z d2 where c: "collect_reminders apps d1 = (z, d2)" by fastforce
    have "d' = d2" using Cons.prems l Inr c by (cases z) simp_all
    with Cons.IH[OF c] t show ?thesis by simp
  qed
qed simp

lemma r2_key_prefix:
  "a_CandidateID app = c \<Longrightarrow> take (length (blob_prefix c)) (r2_key app i f) = blob_prefix c"
  by (simp add: r2_key_def blob_prefix_def)

lemma uploadAttachment_run:
  assumes "uploadAttachment c i form n e now d = (x, d')"
  shows "owned_run c d d'"
proof -
  obtain y d1 where l: "loadOwnedApplication c i d = (y, d1)" by fastforce
  note t = loadOwned_tables[OF l]
  show ?thesis
  proof (cases "\<exists>app f ct bs. y = Inr app \<and> form = Upload f ct bs")
    case False
    with assms l t show ?thesis
      by (auto simp: uploadAttachment_def split: sum.splits upload.splits)
  next
    case True
    then obtain app f ct bs where y: "y = Inr app" and b: "form = Upload f ct bs" by blast
    from l y have o: "owns c d1 i" and app: "a_ApplicationID app = i" "a_CandidateID app = c"
      by (metis loadOwned_Inr)+
    define ty where "ty = (if ct = [] then ''application/octet-stream'' else ct)"
    note pre = r2_key_prefix[OF app(2), of n f]
    obtain z d2 where p: "Blob_Put (r2_key app n f) ty bs d1 = (z, d2)" by fastforce
    have run: "owned_run c d1 d2" using Blob_Put_run[OF p pre] .
    show ?thesis
    proof (cases z)
      case (Inl e')
      then have "d' = d2" using assms l y b p by (simp add: uploadAttachment_def Let_def ty_def)
      with run t show ?thesis by simp
    next
      case (Inr k)
      let ?a = "\<lparr>at_AttachmentID = n, at_ApplicationID = a_ApplicationID app,
                 at_R2Key = r2_key app n f, at_ContentType = ty, at_Bytes = k,
                 at_Filename = f, at_DeletedAt = None, at_CreatedAt = 0\<rparr>"
      obtain w d3 where w: "Attachments_Create ?a now d2 = (w, d3)" by fastforce
      have "owned_run c d2 d3"
        using Attachments_Create_run[OF w] owns_run[OF run o] app pre by simp
      with run have run3: "owned_run c d1 d3" by (rule owned_run_trans)
      obtain u d4 where u: "Blob_Delete (r2_key app n f) d3 = (u, d4)" by fastforce
      have "owned_run c d3 d4" using Blob_Delete_run[OF u] pre by simp
      with run3 have run4: "owned_run c d1 d4" by (rule owned_run_trans)
      let ?e = "simple_event e app EventKindAttachmentAdded
        [''attachment_id'' \<mapsto> AStr n, ''filename'' \<mapsto> AStr f, ''bytes'' \<mapsto> AInt k] now"
      obtain v d5 where v: "EventLog_Write ?e now d3 = (v, d5)" by fastforce
      have "owned_run c d1 d5" using run_event[OF run3 v] o app by simp
      moreover have "d' = d4 \<or> d' = d5" using assms l y b p Inr w u v
        by (cases w) (simp_all add: uploadAttachment_def Let_def ty_def)
      ultimately show ?thesis using run4 t by auto
    qed
  qed
qed

lemma deleteAttachment_run:
  assumes "deleteAttachment c i n e now d = (x, d')"
  shows "owned_run c d d'"
proof -
  obtain y d1 where l: "loadOwnedApplication c i d = (y, d1)" by fastforce
  note t = loadOwned_tables[OF l]
  obtain g d2 where g: "Attachments_Get n d1 = (g, d2)" by fastforce
  note t2 = Attachments_Get_tables[OF g]
  show ?thesis
  proof (cases "\<exists>app ex. y = Inr app \<and> g = Inr ex \<and> at_ApplicationID ex = a_ApplicationID app")
    case False
    with assms l t g t2 show ?thesis
      by (auto simp: deleteAttachment_def split: sum.splits if_splits)
  next
    case True
    then obtain app ex where y: "y = Inr app"
      and ex: "g = Inr ex" "at_ApplicationID ex = a_ApplicationID app" by blast
    from l y have o: "owns c d1 i" and app: "a_ApplicationID app = i" "a_CandidateID app = c"
      by (metis loadOwned_Inr)+
    have o2: "owns c d2 i" using o owns_cong[OF t2] by simp
    obtain r where f: "List.find (\<lambda>r. atr_AttachmentID r = n) (application_attachments d2) = Some r"
      and r: "ex = scan_attachment r"
      using g ex(1) tables_eqD(3)[OF t2] by (metis Attachments_Get_Inr)
    obtain z d3 where w: "Attachments_SoftDelete n now d2 = (z, d3)" by fastforce
    have ra: "atr_ApplicationID r = i" using ex(2) r app by (simp add: scan_attachment_def)
    have run: "owned_run c d2 d3" using Attachments_SoftDelete_run[OF w f] o2 ra by simp
    obtain u d4 where u: "Blob_Delete (at_R2Key ex) d3 = (u, d4)" by fastforce
    obtain v d5 where v: "EventLog_Write (simple_event e app EventKindAttachmentDeleted
        [''attachment_id'' \<mapsto> AStr n] now) now d4 = (v, d5)" by fastforce
    show ?thesis
    proof (cases z)
      case (Inl e')
      then have "d' = d3" using assms l y g ex w by (simp add: deleteAttachment_def)
      with run t t2 show ?thesis by simp
    next
      case (Inr k)
      have "\<exists>s \<in> set (application_attachments d3).
          atr_R2Key s = at_R2Key ex \<and> owns c d3 (atr_ApplicationID s)"
        using w Inr find_SomeD[OF f] owns_run[OF run o2] ra r
        unfolding Attachments_SoftDelete_def
        by (auto simp: bex_update_where scan_attachment_def split: prod.splits sum.splits if_splits
            elim!: run_stmtE' simp del: if_split)
      then have "owned_run c d3 d4" using Blob_Delete_run[OF u] by blast
      with run have run4: "owned_run c d2 d4" by (rule owned_run_trans)
      have "owned_run c d2 d5" using run_event[OF run4 v] o2 app by simp
      moreover have "d' = d5" using assms l y g ex w Inr u v
        by (simp add: deleteAttachment_def)
      ultimately show ?thesis using t t2 by simp
    qed
  qed
qed

lemma serve_run: "owned_run c d (snd (serve ps c q t d))"
proof (cases q)
  case (GetApplications s n k)
  then have "tables (snd (serve ps c q t d)) = tables d"
    by (auto simp: listApplications_def split: prod.splits sum.splits dest: ListByCandidate_tables)
  then show ?thesis by simp
next
  case (GetApplication i)
  then have "tables (snd (serve ps c q t d)) = tables d"
    by (auto simp: getApplication_def split: prod.splits sum.splits
        dest!: loadOwned_tables EventLog_ListByApplication_tables)
  then show ?thesis by simp
next
  case (GetEvents i n)
  then have "tables (snd (serve ps c q t d)) = tables d"
    by (auto simp: listEvents_def split: prod.splits sum.splits
        dest!: loadOwned_tables EventLog_ListByApplication_tables)
  then show ?thesis by simp
next
  case GetReminders
  then have "tables (snd (serve ps c q t d)) = tables d"
    by (auto simp: listAllReminders_def split: prod.splits sum.splits
        dest!: ListByCandidate_tables collect_reminders_tables)
  then show ?thesis by simp
next
  case (GetAttachment a)
  then have "tables (snd (serve ps c q t d)) = tables d"
    by (auto simp: presignAttachment_def split: prod.splits sum.splits
        dest!: Attachments_Get_tables GetByID_tables)
  then show ?thesis by simp
next
  case (PostApplication b i e)
  then show ?thesis using createApplication_run[of c b i e t d] by (metis prod.collapse serve.simps(1))
next
  case (PatchApplication i b e)
  then show ?thesis using patchApplication_run[of c i b e t d] by (metis prod.collapse serve.simps(4))
next
  case (PostEvent i b e)
  then show ?thesis using appendEvent_run[of c i b e t d] by (metis prod.collapse serve.simps(6))
next
  case (PostNote i b n e)
  then show ?thesis using createNote_run[of c i b n e t d] by (metis prod.collapse serve.simps(7))
next
  case (PatchNote i n b e)
  then show ?thesis using updateNote_run[of c i n b e t d] by (metis prod.collapse serve.simps(8))
next
  case (DeleteNote i n e)
  then show ?thesis using deleteNote_run[of c i n e t d] by (metis prod.collapse serve.simps(9))
next
  case (PostReminder i b r e)
  then show ?thesis using createReminder_run[of c i b r e t d] by (metis prod.collapse serve.simps(11))
next
  case (PatchReminder i r b e)
  then show ?thesis using updateReminder_run[of c i r b e t d] by (metis prod.collapse serve.simps(12))
next
  case (DeleteReminder i r)
  then show ?thesis using deleteReminder_run[of c i r t d] by (metis prod.collapse serve.simps(13))
next
  case (PostAttachment i u a e)
  then show ?thesis using uploadAttachment_run[of c i u a e t d] by (metis prod.collapse serve.simps(14))
next
  case (DeleteAttachment i a e)
  then show ?thesis using deleteAttachment_run[of c i a e t d] by (metis prod.collapse serve.simps(15))
qed

lemma serve_inv: "service_inv d \<Longrightarrow> service_inv (snd (serve ps c q t d))"
  by (rule owned_run_inv[OF serve_run])

lemma serve_all_inv: "service_inv d \<Longrightarrow> service_inv (serve_all ps rs d)"
proof (induction rs arbitrary: d)
  case (Cons r rs)
  obtain c q t where r: "r = (c, q, t)" by (cases r)
  from Cons.prems have "service_inv (snd (serve ps c q t d))" by (rule serve_inv)
  with Cons.IH r show ?case by simp
qed simp

lemma empty_db_inv: "service_inv (empty_db fs)"
  by (simp add: service_inv_def appdb_wf_def submitted_ok_def attachments_ok_def empty_db_def)

lemma serve_all_evolves: "service_inv d \<Longrightarrow> app_evolves d (serve_all ps rs d)"
proof (induction rs arbitrary: d)
  case (Cons r rs)
  obtain c q t where r: "r = (c, q, t)" by (cases r)
  let ?d1 = "snd (serve ps c q t d)"
  have "app_evolves d ?d1" by (rule owned_run_evolves[OF serve_run Cons.prems])
  moreover have "app_evolves ?d1 (serve_all ps rs ?d1)"
    by (rule Cons.IH[OF serve_inv[OF Cons.prems]])
  ultimately show ?case using r by (auto intro: app_evolves_trans)
qed simp

lemma serve_all_history: "service_inv d \<Longrightarrow> history_grows d (serve_all ps rs d)"
proof (induction rs arbitrary: d)
  case Nil
  show ?case by (simp add: history_grows_refl)
next
  case (Cons r rs)
  obtain c q t where r: "r = (c, q, t)" by (cases r)
  let ?d1 = "snd (serve ps c q t d)"
  have "history_grows d ?d1" by (rule owned_run_history[OF serve_run Cons.prems])
  moreover have "history_grows ?d1 (serve_all ps rs ?d1)"
    by (rule Cons.IH[OF serve_inv[OF Cons.prems]])
  ultimately show ?case using r by (auto intro: history_grows_trans)
qed

section \<open>Properties\<close>

lemma serve_all_append: "serve_all ps (rs @ rs') d = serve_all ps rs' (serve_all ps rs d)"
  by (induction rs arbitrary: d) auto

text \<open>
  C10. Every request, on every path through its handler and whatever statements fail,
  changes the tables only by a sequence of abstract steps of the authenticated candidate.
\<close>

theorem serve_refines_owned_steps:
  "(owned_step c)\<^sup>*\<^sup>* (tables d) (tables (snd (serve ps c q t d)))"
  by (rule serve_run)

text \<open>
  C15. In every reachable database the keys are unique and a candidate has at most one
  application per opportunity.
\<close>

theorem one_application_per_pair:
  "appdb_wf (serve_all ps rs (empty_db fs))"
  using serve_all_inv[OF empty_db_inv, of ps rs fs] by (simp add: service_inv_def)

text \<open>
  C5. Once an application exists it never disappears: it keeps its identity, moves only
  along the transition table, keeps its submission time once it has one, and a terminal
  status is final, whatever requests follow.
\<close>

theorem application_history:
  assumes "r \<in> set (applications (serve_all ps rs (empty_db fs)))"
  shows "\<exists>r' \<in> set (applications (serve_all ps (rs @ rs') (empty_db fs))).
    row_evolves r r' \<and> (IsTerminal (ap_Status r) \<longrightarrow> ap_Status r' = ap_Status r)"
proof -
  have "app_evolves (serve_all ps rs (empty_db fs)) (serve_all ps (rs @ rs') (empty_db fs))"
    unfolding serve_all_append by (intro serve_all_evolves serve_all_inv empty_db_inv)
  with assms obtain r' where "r' \<in> set (applications (serve_all ps (rs @ rs') (empty_db fs)))"
    "row_evolves r r'" unfolding app_evolves_def by blast
  moreover from this(2) have "IsTerminal (ap_Status r) \<longrightarrow> ap_Status r' = ap_Status r"
    using terminal_reach by (auto simp: row_evolves_def)
  ultimately show ?thesis by blast
qed

theorem application_history_witness:
  "\<exists>r' \<in> set (applications (serve_all (\<lambda>k t. Inr k)
      ([(''c'', PostApplication (Some \<lparr>cr_MatchID = ''m'', cr_OpportunityID = ''o'',
          cr_Status = [], cr_CurrentStage = [], cr_Metadata = None\<rparr>) ''a'' ''e'', 5)] @
       [(''c'', PatchApplication ''a'' None ''f'', 6)]) (empty_db []))).
     ap_Status r' \<in> set AllStatuses"
proof -
  let ?rs = "[(''c'', PostApplication (Some \<lparr>cr_MatchID = ''m'', cr_OpportunityID = ''o'',
          cr_Status = [], cr_CurrentStage = [], cr_Metadata = None\<rparr>) ''a'' ''e'', 5)]"
  let ?r = "create_row (new_application ''c'' \<lparr>cr_MatchID = ''m'', cr_OpportunityID = ''o'',
          cr_Status = [], cr_CurrentStage = [], cr_Metadata = None\<rparr> ''a'' ''e'') 5"
  have "?r \<in> set (applications (serve_all (\<lambda>k t. Inr k) ?rs (empty_db [])))"
    by (simp add: createApplication_def Store_Create_def createApplicationSQL_def empty_db_def
        GetByID_def scanOne_def EventLog_Write_def Let_def create_row_def new_application_def)
  from application_history[OF this, of "[(''c'', PatchApplication ''a'' None ''f'', 6)]"]
  obtain r' where r': "r' \<in> set (applications (serve_all (\<lambda>k t. Inr k)
      (?rs @ [(''c'', PatchApplication ''a'' None ''f'', 6)]) (empty_db [])))" "row_evolves ?r r'"
    by blast
  from r'(2) have "status_step\<^sup>*\<^sup>* StatusNew (ap_Status r')"
    by (simp add: row_evolves_def create_row_def new_application_def)
  then have "ap_Status r' \<in> set AllStatuses"
    by (cases rule: rtranclp.cases) (auto simp: AllStatuses_def dest: status_step_target_known)
  with r'(1) show ?thesis by blast
qed

text \<open>
  Deletion is final and the audit log is append-only: after any further requests a
  deleted note, reminder or attachment is still there, deleted and unchanged, and the
  events table is an extension of what it was.
\<close>

theorem deletion_final_log_append_only:
  "history_grows (serve_all ps rs (empty_db fs)) (serve_all ps (rs @ rs') (empty_db fs))"
  unfolding serve_all_append by (intro serve_all_history serve_all_inv empty_db_inv)

text \<open>
  What \<open>PATCH\<close> answers when the database works: for an application of the caller, a
  status change that is an edge of the table (or no change) is written and answered 200,
  any other change is answered 409 with the allowed statuses and writes nothing.
\<close>

theorem patch_answers:
  assumes "io_faults d = []" and "appdb_wf d"
    and "r \<in> set (applications d)" and "ap_CandidateID r = c" and "ap_ApplicationID r = i"
  shows "case serve ps c (PatchApplication i (Some req) e) t d of (resp, d') \<Rightarrow>
    let st = (case pr_Status req of None \<Rightarrow> ap_Status r | Some s \<Rightarrow> s) in
    if st = ap_Status r \<or> status_step (ap_Status r) st
    then rs_status resp = 200 \<and>
      (\<exists>r'. List.find (\<lambda>x. ap_ApplicationID x = i) (applications d') = Some r' \<and>
            rs_body resp = BApp (toAppResp (scan_application r')) \<and> ap_Status r' = st \<and>
            (st = StatusSubmitted \<and> ap_Status r \<noteq> StatusSubmitted \<longrightarrow> ap_SubmittedAt r' = Some t))
    else d' = d \<and> resp = reply 409 (BInvalidTransition
      \<lparr>it_From = ap_Status r, it_To = st, it_Allowed = AllowedNext (ap_Status r)\<rparr>)"
proof -
  let ?st = "case pr_Status req of None \<Rightarrow> ap_Status r | Some s \<Rightarrow> s"
  let ?p = "\<lparr>p_Status = pr_Status req, p_CurrentStage = pr_CurrentStage req,
                        p_Metadata = pr_Metadata req, p_LastEventID = e\<rparr>"
  have f: "List.find (\<lambda>x. ap_ApplicationID x = i) (applications d) = Some r"
    using distinct_key_find[of ap_ApplicationID "applications d" r] assms by (simp add: appdb_wf_def)
  have l: "loadOwnedApplication c i d = (Inr (scan_application r), d)"
    using f assms by (simp add: loadOwnedApplication_def GetByID_ok)
  show ?thesis
  proof (cases "?st = ap_Status r \<or> status_step (ap_Status r) ?st")
    case False
    then obtain s where s: "pr_Status req = Some s" "s \<noteq> ap_Status r" "\<not> status_step (ap_Status r) s"
      by (auto split: option.splits)
    have "plan_transition (scan_application r) ?p t = Inl (ErrInvalidTransition
        \<lparr>it_From = ap_Status r, it_To = s, it_Allowed = AllowedNext (ap_Status r)\<rparr>)"
      using plan_transition_refuse[where p = ?p and s = s and cur = "scan_application r" and now = t] s by simp
    then show ?thesis using False s l f assms
      by (simp add: patchApplication_def ApplyTransition_def GetByID_ok ProblemFromError_def)
  next
    case True
    moreover have "a_Status (scan_application r) = ap_Status r" by (simp add: scan_application_def)
    ultimately have "\<exists>u. plan_transition (scan_application r) ?p t = Inr u \<and> tu_Status u = ?st"
      by (intro plan_transition_accept) (simp_all split: option.split)
    then obtain u where u: "plan_transition (scan_application r) ?p t = Inr u" "tu_Status u = ?st"
      by blast
    let ?d2 = "d\<lparr>applications := update_where (\<lambda>r. ap_ApplicationID r = i) (update_row u t) (applications d)\<rparr>"
    have f2: "List.find (\<lambda>x. ap_ApplicationID x = i) (applications ?d2) = Some (update_row u t r)"
      using f by (simp add: find_update_where_same)
    have a: "ApplyTransition i ?p t d = (Inr (scan_application (update_row u t r)), ?d2)"
      using f f2 u assms(1) by (simp add: ApplyTransition_def GetByID_ok write_transition_def)
    have sub: "?st = StatusSubmitted \<and> ap_Status r \<noteq> StatusSubmitted \<longrightarrow> tu_SubmittedAt u = Some t"
      using plan_transition_Inr[OF u(1)] u(2) by auto
    have keep: "applications (snd (EventLog_Write ev t ?d2)) = applications ?d2" for ev
      using assms(1) by (simp add: EventLog_Write_def Let_def)
    show ?thesis using True l a f2 sub u(2) keep
      by (auto simp: patchApplication_def Let_def reply_def split: prod.splits)
  qed
qed

definition sample_row :: ApplicationRecord where
  "sample_row = create_row (new_application ''c'' \<lparr>cr_MatchID = ''m'', cr_OpportunityID = ''o'',
     cr_Status = [], cr_CurrentStage = [], cr_Metadata = None\<rparr> ''a'' ''e'') 5"

theorem patch_answers_witness:
  "snd (serve (\<lambda>k t. Inr k) ''c'' (PatchApplication ''a'' (Some \<lparr>pr_Status = Some StatusAccepted,
      pr_CurrentStage = None, pr_Metadata = Map.empty\<rparr>) ''f'') 9 ((empty_db [])\<lparr>applications := [sample_row]\<rparr>)) =
   (empty_db [])\<lparr>applications := [sample_row]\<rparr>"
proof -
  let ?req = "\<lparr>pr_Status = Some StatusAccepted, pr_CurrentStage = None, pr_Metadata = Map.empty\<rparr>"
  let ?d = "(empty_db [])\<lparr>applications := [sample_row]\<rparr>"
  have r: "ap_Status sample_row = StatusNew" by (simp add: sample_row_def create_row_def new_application_def)
  have no: "\<not> status_step StatusNew StatusAccepted" "StatusAccepted \<noteq> StatusNew"
    using ValidateTransition_step[of StatusNew StatusAccepted]
    by (simp_all add: ValidateTransition_def transitions_def status_defs)
  have "case serve (\<lambda>k t. Inr k) ''c'' (PatchApplication ''a'' (Some ?req) ''f'') 9 ?d of (resp, d') \<Rightarrow>
    let st = (case pr_Status ?req of None \<Rightarrow> ap_Status sample_row | Some s \<Rightarrow> s) in
    if st = ap_Status sample_row \<or> status_step (ap_Status sample_row) st
    then rs_status resp = 200 \<and>
      (\<exists>r'. List.find (\<lambda>x. ap_ApplicationID x = ''a'') (applications d') = Some r' \<and>
            rs_body resp = BApp (toAppResp (scan_application r')) \<and> ap_Status r' = st \<and>
            (st = StatusSubmitted \<and> ap_Status sample_row \<noteq> StatusSubmitted \<longrightarrow> ap_SubmittedAt r' = Some 9))
    else d' = ?d \<and> resp = reply 409 (BInvalidTransition
      \<lparr>it_From = ap_Status sample_row, it_To = st, it_Allowed = AllowedNext (ap_Status sample_row)\<rparr>)"
    by (rule patch_answers)
      (simp_all add: empty_db_def appdb_wf_def sample_row_def create_row_def new_application_def)
  with r no show ?thesis by (simp add: case_prod_beta Let_def)
qed

end
