(* ===== verification/Application_Pages.thy ===== *)
theory Application_Pages
  imports Application_Http
begin

text \<open>
  Cursor pagination of \<open>Store.ListByCandidate\<close>.

  \<open>walk_pages\<close> is the client loop that follows \<open>next_cursor\<close> until \<open>has_more\<close> is false.
  The listing is ordered by creation time descending and identifier ascending, but the
  cursor condition compares (creation time, identifier) as one row value.  The walk
  returns the whole ordered listing when no two listed rows share a creation time; rows
  that tie with the last row of a page are skipped.
\<close>

fun walk_pages :: "nat \<Rightarrow> ListByCandidateParams \<Rightarrow> appdb \<Rightarrow> Application list option" where
  "walk_pages 0 p d = None"
| "walk_pages (Suc n) p d =
     (case fst (ListByCandidate p d) of
        Inl _ \<Rightarrow> None
      | Inr pg \<Rightarrow>
          if pg_HasMore pg
          then map_option (\<lambda>rest. pg_Items pg @ rest) (walk_pages n (p\<lparr>lp_Cursor := pg_NextCursor pg\<rparr>) d)
          else Some (pg_Items pg))"

text \<open>The listing the caller expects: every matching row once, in order.\<close>

definition full_listing :: "ListByCandidateParams \<Rightarrow> appdb \<Rightarrow> ApplicationRecord list" where
  "full_listing p d = sort_key page_key (filter (page_where p) (applications d))"

lemma page_limit_pos: "0 < page_limit n" and page_limit_max: "page_limit n \<le> maxPageLimit"
  by (auto simp: page_limit_def Let_def defaultPageLimit_def maxPageLimit_def)

lemma filter_after:
  assumes "sorted_wrt (\<lambda>a b. f a > (f b :: int)) (xs @ c # ys)"
  shows "filter (\<lambda>r. f r < f c) (xs @ c # ys) = ys"
proof -
  have "\<forall>x \<in> set xs. f c < f x" and "\<forall>y \<in> set ys. f y < f c"
    using assms by (auto simp: sorted_wrt_append)
  then show ?thesis by (auto simp: filter_empty_conv intro: filter_True)
qed

lemma full_listing_strict:
  assumes "distinct (map ap_CreatedAt (filter (page_where p) (applications d)))"
  shows "sorted_wrt (\<lambda>a b. ap_CreatedAt a > ap_CreatedAt b) (full_listing p d)"
proof -
  let ?L = "full_listing p d"
  have m: "mset (map ap_CreatedAt ?L) = mset (map ap_CreatedAt (filter (page_where p) (applications d)))"
    by (simp add: full_listing_def)
  then have dist: "distinct (map ap_CreatedAt ?L)"
    using assms mset_eq_imp_distinct_iff by blast
  have "sorted (map page_key ?L)" by (simp add: full_listing_def)
  then have "sorted_wrt (\<lambda>a b. page_key a \<le> page_key b) ?L" by (simp add: sorted_wrt_map)
  then have le: "sorted_wrt (\<lambda>a b. ap_CreatedAt b \<le> ap_CreatedAt a) ?L"
    by (rule sorted_wrt_mono_rel[rotated]) (auto simp: page_key_def less_eq_prod_def)
  have "sorted_wrt (\<lambda>a b. ap_CreatedAt a \<noteq> ap_CreatedAt b) ?L"
    using dist by (simp add: distinct_map sorted_wrt_iff_nth_less distinct_conv_nth inj_on_def)
  with le show ?thesis by (simp add: sorted_wrt_iff_nth_less) (metis order_le_less)
qed

lemma list_query_suffix:
  assumes strict: "sorted_wrt (\<lambda>a b. ap_CreatedAt a > ap_CreatedAt b) (full_listing p d)"
    and split: "full_listing p d = xs @ c # ys"
  shows "list_query (p\<lparr>lp_Cursor := k\<rparr>)
      (Some \<lparr>pc_CreatedAt = ap_CreatedAt c, pc_ApplicationID = ap_ApplicationID c\<rparr>) d =
    take (nat (page_limit (lp_Limit p) + 1)) ys"
proof -
  let ?cur = "\<lparr>pc_CreatedAt = ap_CreatedAt c, pc_ApplicationID = ap_ApplicationID c\<rparr>"
  have eq: "after_cursor ?cur r \<longleftrightarrow> ap_CreatedAt r < ap_CreatedAt c"
    if "r \<in> set (full_listing p d)" for r
  proof (cases "r = c")
    case True
    then show ?thesis by (simp add: after_cursor_def)
  next
    case False
    with that split have "r \<in> set xs \<or> r \<in> set ys" by auto
    with strict split have "ap_CreatedAt r \<noteq> ap_CreatedAt c" by (auto simp: sorted_wrt_append)
    then show ?thesis by (auto simp: after_cursor_def)
  qed
  have "sort_key page_key (filter (\<lambda>r. page_where p r \<and> after_cursor ?cur r) (applications d)) =
      filter (after_cursor ?cur) (full_listing p d)"
    unfolding full_listing_def filter_sort filter_filter by (simp add: conj_commute)
  also have "\<dots> = filter (\<lambda>r. ap_CreatedAt r < ap_CreatedAt c) (full_listing p d)"
    using eq by (rule filter_cong[OF refl])
  also have "\<dots> = ys" using filter_after[of ap_CreatedAt xs c ys] strict split by simp
  finally show ?thesis by (simp add: list_query_def page_where_def[abs_def])
qed

text \<open>One page over a list of remaining rows: either it is the end, or it is a prefix.\<close>

lemma make_page_end:
  "int (length rows) \<le> n \<Longrightarrow> make_page n rows =
     \<lparr>pg_Items = map scan_application rows, pg_NextCursor = NoCursor, pg_HasMore = False\<rparr>"
  by (simp add: make_page_def Let_def)

lemma make_page_more:
  assumes "0 < n" and "int (length rest) > n"
  shows "make_page n (take (nat (n + 1)) rest) =
    \<lparr>pg_Items = map scan_application (take (nat n) rest),
     pg_NextCursor = Token \<lparr>pc_CreatedAt = ap_CreatedAt (last (take (nat n) rest)),
                            pc_ApplicationID = ap_ApplicationID (last (take (nat n) rest))\<rparr>,
     pg_HasMore = True\<rparr>"
proof -
  have "min (length rest) (nat (n + 1)) = nat (n + 1)" "nat n \<le> nat (n + 1)" using assms by auto
  moreover have "take (nat n) rest \<noteq> []" using assms by (cases rest) auto
  ultimately show ?thesis using assms
    by (simp add: make_page_def Let_def take_map encodeCursor_def last_map min_def)
qed

lemma ListByCandidate_cursor:
  assumes "io_faults d = []"
    and "lp_Cursor p = NoCursor \<and> cur = None \<or>
      (\<exists>c. lp_Cursor p = Token c \<and> cur = Some c \<and> pc_ApplicationID c \<noteq> [] \<and> pc_CreatedAt c \<noteq> 0)"
  shows "fst (ListByCandidate p d) = Inr (make_page (page_limit (lp_Limit p)) (list_query p cur d))"
  using assms by (auto simp: ListByCandidate_def decodeCursor_def IsZero_def)

lemma walk_step:
  assumes "io_faults d = []"
    and "lp_Cursor p = NoCursor \<and> cur = None \<or>
      (\<exists>c. lp_Cursor p = Token c \<and> cur = Some c \<and> pc_ApplicationID c \<noteq> [] \<and> pc_CreatedAt c \<noteq> 0)"
    and q: "list_query p cur d = take (nat (page_limit (lp_Limit p) + 1)) rest"
    and strict: "sorted_wrt (\<lambda>a b. ap_CreatedAt a > ap_CreatedAt b) (full_listing p d)"
    and split: "full_listing p d = seen @ rest"
    and keys: "\<forall>r \<in> set (full_listing p d). ap_ApplicationID r \<noteq> [] \<and> ap_CreatedAt r \<noteq> 0"
    and fuel: "length rest < n"
  shows "walk_pages n p d = Some (map scan_application rest)"
  using assms
proof (induction n arbitrary: p cur seen rest)
  case (Suc n)
  let ?lim = "page_limit (lp_Limit p)"
  have pos: "0 < ?lim" by (rule page_limit_pos)
  have pg: "fst (ListByCandidate p d) = Inr (make_page ?lim (take (nat (?lim + 1)) rest))"
    using ListByCandidate_cursor[OF Suc.prems(1,2)] Suc.prems(3) by simp
  show ?case
  proof (cases "int (length rest) \<le> ?lim")
    case True
    then have "take (nat (?lim + 1)) rest = rest" by simp
    with pg make_page_end[OF True] show ?thesis by simp
  next
    case False
    define now where "now = take (nat ?lim) rest"
    define rest' where "rest' = drop (nat ?lim) rest"
    have ne: "now \<noteq> []" and nr: "rest = now @ rest'" and len: "length rest' < length rest"
      using False pos by (auto simp: now_def rest'_def)
    let ?c = "last now"
    let ?tok = "\<lparr>pc_CreatedAt = ap_CreatedAt ?c, pc_ApplicationID = ap_ApplicationID ?c\<rparr>"
    let ?p = "p\<lparr>lp_Cursor := Token ?tok\<rparr>"
    have page: "fst (ListByCandidate p d) = Inr \<lparr>pg_Items = map scan_application now,
        pg_NextCursor = Token ?tok, pg_HasMore = True\<rparr>"
      using pg make_page_more[OF pos, of rest] False by (simp add: now_def)
    have lst: "full_listing ?p d = full_listing p d"
      by (simp add: full_listing_def page_where_def[abs_def])
    have split': "full_listing p d = (seen @ butlast now) @ ?c # rest'"
      using Suc.prems(5) nr ne by simp
    have "walk_pages n ?p d = Some (map scan_application rest')"
    proof (rule Suc.IH[where cur = "Some ?tok" and seen = "seen @ now"])
      show "lp_Cursor ?p = NoCursor \<and> Some ?tok = None \<or>
        (\<exists>c. lp_Cursor ?p = Token c \<and> Some ?tok = Some c \<and> pc_ApplicationID c \<noteq> [] \<and> pc_CreatedAt c \<noteq> 0)"
        using Suc.prems(6) split' by simp
      show "length rest' < n" using len Suc.prems(7) by simp
      show "list_query ?p (Some ?tok) d = take (nat (page_limit (lp_Limit ?p) + 1)) rest'"
        using list_query_suffix[OF Suc.prems(4) split'] by simp
    qed (use Suc.prems lst nr in auto)
    with page nr show ?thesis by simp
  qed
qed simp

section \<open>Properties\<close>

text \<open>
  Following the cursors returns every matching application of the candidate exactly
  once, newest first, in at most one page per row plus one, when the database works and no
  two matching applications share a creation time.
\<close>

theorem pagination_complete:
  assumes "io_faults d = []" and "lp_Cursor p = NoCursor"
    and "distinct (map ap_CreatedAt (filter (page_where p) (applications d)))"
    and "\<forall>r \<in> set (applications d). ap_ApplicationID r \<noteq> [] \<and> ap_CreatedAt r \<noteq> 0"
    and "length (applications d) < n"
  shows "walk_pages n p d = Some (map scan_application (full_listing p d))"
proof (rule walk_step[where cur = None and seen = "[]"])
  show "list_query p None d = take (nat (page_limit (lp_Limit p) + 1)) (full_listing p d)"
    by (simp add: list_query_def full_listing_def)
  show "length (full_listing p d) < n"
    using assms(5) le_less_trans[OF length_filter_le] by (fastforce simp: full_listing_def)
  show "sorted_wrt (\<lambda>a b. ap_CreatedAt a > ap_CreatedAt b) (full_listing p d)"
    using assms(3) by (rule full_listing_strict)
qed (use assms in \<open>auto simp: full_listing_def\<close>)

text \<open>A candidate with two applications, and the parameters of a one-row listing.\<close>

definition two_apps :: "time \<Rightarrow> time \<Rightarrow> appdb" where
  "two_apps t1 t2 = (empty_db [])\<lparr>applications :=
     map (\<lambda>(i, t). create_row \<lparr>a_ApplicationID = i, a_CandidateID = ''c'', a_OpportunityID = i,
        a_MatchID = ''m'', a_Status = StatusNew, a_CurrentStage = [], a_Metadata = None,
        a_SubmittedAt = None, a_LastEventID = [], a_CreatedAt = 0, a_UpdatedAt = 0\<rparr> t)
      [(''a'', t1), (''b'', t2)]\<rparr>"

definition one_row_pages :: ListByCandidateParams where
  "one_row_pages = \<lparr>lp_CandidateID = ''c'', lp_Statuses = [], lp_Cursor = NoCursor, lp_Limit = 1\<rparr>"

lemma two_apps_rows:
  "applications (two_apps t1 t2) = [create_row \<lparr>a_ApplicationID = ''a'', a_CandidateID = ''c'', a_OpportunityID = ''a'',
        a_MatchID = ''m'', a_Status = StatusNew, a_CurrentStage = [], a_Metadata = None,
        a_SubmittedAt = None, a_LastEventID = [], a_CreatedAt = 0, a_UpdatedAt = 0\<rparr> t1,
      create_row \<lparr>a_ApplicationID = ''b'', a_CandidateID = ''c'', a_OpportunityID = ''b'',
        a_MatchID = ''m'', a_Status = StatusNew, a_CurrentStage = [], a_Metadata = None,
        a_SubmittedAt = None, a_LastEventID = [], a_CreatedAt = 0, a_UpdatedAt = 0\<rparr> t2]"
  by (simp add: two_apps_def)

lemmas two_apps_eval = two_apps_rows one_row_pages_def create_row_def page_where_def page_key_def
  full_listing_def scan_application_def

theorem pagination_complete_witness:
  "map_option (map a_ApplicationID) (walk_pages 3 one_row_pages (two_apps 5 9)) = Some [''b'', ''a'']"
proof -
  have "walk_pages 3 one_row_pages (two_apps 5 9) =
      Some (map scan_application (full_listing one_row_pages (two_apps 5 9)))"
    by (rule pagination_complete) (simp_all add: two_apps_def empty_db_def two_apps_eval)
  then show ?thesis by (simp add: two_apps_eval)
qed

text \<open>
  The cursor condition does not follow the listing's order: with two applications
  created at the same instant and pages of one row, following the cursors ends without
  ever returning the second one.
\<close>

theorem pagination_skips_ties:
  "map (a_ApplicationID \<circ> scan_application) (full_listing one_row_pages (two_apps 5 5)) = [''a'', ''b''] \<and>
   map_option (map a_ApplicationID) (walk_pages 3 one_row_pages (two_apps 5 5)) = Some [''a'']"
proof
  show "map (a_ApplicationID \<circ> scan_application) (full_listing one_row_pages (two_apps 5 5)) = [''a'', ''b'']"
    by (simp add: two_apps_eval)
  have h: "io_faults (two_apps 5 5) = []" by (simp add: two_apps_def empty_db_def)
  show "map_option (map a_ApplicationID) (walk_pages 3 one_row_pages (two_apps 5 5)) = Some [''a'']"
    by (simp add: eval_nat_numeral ListByCandidate_def run_stmt_def h list_query_def make_page_def
        page_limit_def maxPageLimit_def defaultPageLimit_def two_apps_eval after_cursor_def
        decodeCursor_def encodeCursor_def IsZero_def Let_def)
qed

end
