(* ===== verification/Application_Views.thy ===== *)
theory Application_Views
  imports Application_Pages
begin

text \<open>
  What the responses of the applications service reveal: every row in a response belongs to an
  application of the authenticated candidate, and a download link is signed for a blob of the candidate.
\<close>

section \<open>Rows in a response\<close>

definition owned_app :: "string \<Rightarrow> appdb \<Rightarrow> applicationResp \<Rightarrow> bool" where
  "owned_app c d x \<longleftrightarrow> xa_CandidateID x = c \<and> owns c d (xa_ApplicationID x)"

fun reveals_only :: "(string \<Rightarrow> duration \<Rightarrow> app_error + string) \<Rightarrow> string \<Rightarrow> appdb \<Rightarrow> body \<Rightarrow> bool" where
  "reveals_only ps c d (BApp x) \<longleftrightarrow> owned_app c d x"
| "reveals_only ps c d (BPage xs cur hm) \<longleftrightarrow> list_all (owned_app c d) xs"
| "reveals_only ps c d (BAppEvents x es) \<longleftrightarrow> owned_app c d x \<and> list_all (\<lambda>e. owns c d (xe_ApplicationID e)) es"
| "reveals_only ps c d (BEvent e) \<longleftrightarrow> owns c d (xe_ApplicationID e)"
| "reveals_only ps c d (BEvents es) \<longleftrightarrow> list_all (\<lambda>e. owns c d (xe_ApplicationID e)) es"
| "reveals_only ps c d (BNote n) \<longleftrightarrow> owns c d (xn_ApplicationID n)"
| "reveals_only ps c d (BReminder r) \<longleftrightarrow> owns c d (xr_ApplicationID r)"
| "reveals_only ps c d (BReminders rs) \<longleftrightarrow> list_all (\<lambda>r. owns c d (xr_ApplicationID r)) rs"
| "reveals_only ps c d (BAttachment a) \<longleftrightarrow> owns c d (xt_ApplicationID a)"
| "reveals_only ps c d (BDownload u) \<longleftrightarrow> (\<exists>key. ps key (15 * Minute) = Inr u \<and> take (length (blob_prefix c)) key = blob_prefix c)"
| "reveals_only ps c d (BProblem m) \<longleftrightarrow> True"
| "reveals_only ps c d (BInvalidTransition e) \<longleftrightarrow> True"
| "reveals_only ps c d BEmpty \<longleftrightarrow> True"

lemma reveals_simple [simp]:
  "reveals_only ps c d (rs_body bad_input)" "reveals_only ps c d (rs_body not_found)" "reveals_only ps c d (rs_body (ProblemFromError e))"
  by (auto simp: bad_input_def not_found_def reply_def ProblemFromError_def split: app_error.splits)

lemma reply_body [simp]: "rs_body (reply s b) = b"
  by (simp add: reply_def)

lemma owned_run_owned_app: "owned_run c d d' \<Longrightarrow> owned_app c d x \<Longrightarrow> owned_app c d' x"
  by (auto simp: owned_app_def intro: owns_run)

lemma owned_run_reveals: "owned_run c d d' \<Longrightarrow> reveals_only ps c d b \<Longrightarrow> reveals_only ps c d' b"
  by (cases b) (auto simp: list_all_iff intro: owns_run owned_run_owned_app)

lemma toResp_sel [simp]:
  "xa_CandidateID (toAppResp a) = a_CandidateID a" "xa_ApplicationID (toAppResp a) = a_ApplicationID a"
  "xe_ApplicationID (toEventResp e) = ev_ApplicationID e" "xn_ApplicationID (toNoteResp n) = n_ApplicationID n"
  "xr_ApplicationID (toReminderResp r) = rm_ApplicationID r" "xt_ApplicationID (toAttachmentResp t) = at_ApplicationID t"
  by (simp_all add: toAppResp_def toEventResp_def toNoteResp_def toReminderResp_def toAttachmentResp_def)

lemma loadOwned_view:
  assumes "loadOwnedApplication c i d = (x, d1)"
  shows "(case x of Inl r \<Rightarrow> reveals_only ps c e (rs_body r)
    | Inr app \<Rightarrow> a_CandidateID app = c \<and> a_ApplicationID app = i \<and> owns c d i \<and> owned_app c d (toAppResp app))"
proof (cases x)
  case (Inl r)
  with assms show ?thesis by (auto simp: loadOwnedApplication_def split: prod.splits sum.splits if_splits)
next
  case (Inr app)
  with assms obtain r where "a_CandidateID app = c" "a_ApplicationID app = i" "owns c d1 i" "tables d1 = tables d"
    by (auto elim: loadOwned_Inr)
  moreover from this have "owns c d i" using owns_cong by blast
  ultimately show ?thesis using Inr by (simp add: owned_app_def)
qed

section \<open>Rows that the stores return\<close>

lemma find_new: "\<not> list_ex P xs \<Longrightarrow> List.find P (xs @ [x]) = Some m \<Longrightarrow> m = x"
  by (induction xs) (auto split: if_splits)

lemma find_update_where_key:
  assumes "\<And>r. k (f r) = k r"
  shows "List.find (\<lambda>r. k r = i) (update_where P f rows) = map_option (\<lambda>r. if P r then f r else r) (List.find (\<lambda>r. k r = i) rows)"
  using assms by (induction rows) auto

lemma Notes_Create_row: "Notes_Create n now d = (Inr m, d') \<Longrightarrow> n_ApplicationID m = n_ApplicationID n"
  by (auto simp: Notes_Create_def split: prod.splits sum.splits if_splits elim!: run_stmtE Notes_Get_Inr dest!: tables_eqD(2) find_new)

lemma Notes_Update_row:
  assumes "Notes_Get i d = (Inr n, d1)" and "Notes_Update i tx now d1 = (Inr m, d2)"
  shows "n_ApplicationID m = n_ApplicationID n"
  using assms
  by (auto simp: Notes_Update_def find_update_where_key split: prod.splits sum.splits if_splits elim!: run_stmtE Notes_Get_Inr dest!: tables_eqD(2))

lemma Reminders_Create_row: "Reminders_Create r now d = (Inr s, d') \<Longrightarrow> rm_ApplicationID s = rm_ApplicationID r"
  by (auto simp: Reminders_Create_def scan_reminder_def split: prod.splits sum.splits if_splits elim!: run_stmtE Reminders_Get_Inr dest!: tables_eqD(4) find_new)

lemma Reminders_Update_row:
  assumes "Reminders_Get i d = (Inr r, d1)" and "Reminders_Update i p now d1 = (Inr s, d2)"
  shows "rm_ApplicationID s = rm_ApplicationID r"
  using assms
  by (auto simp: Reminders_Update_def find_update_where_key[where k = rmr_ReminderID] scan_reminder_def
      split: prod.splits sum.splits if_splits elim!: run_stmtE Reminders_Get_Inr dest!: tables_eqD(4))

lemma Attachments_Create_row: "Attachments_Create a now d = (Inr b, d') \<Longrightarrow> at_ApplicationID b = at_ApplicationID a"
  by (auto simp: Attachments_Create_def scan_attachment_def split: prod.splits sum.splits if_splits elim!: run_stmtE Attachments_Get_Inr dest!: tables_eqD(3) find_new)

lemma EventLog_List_rows: "EventLog_ListByApplication i n d = (Inr es, d') \<Longrightarrow> e \<in> set es \<Longrightarrow> ev_ApplicationID e = i"
  by (auto simp: EventLog_ListByApplication_def scan_event_def Let_def elim!: run_stmtE dest!: in_set_takeD)

lemma ListActive_rows: "ListActiveByApplication i d = (Inr rs, d') \<Longrightarrow> r \<in> set rs \<Longrightarrow> rm_ApplicationID r = i"
  by (auto simp: ListActiveByApplication_def scan_reminder_def elim!: run_stmtE)

lemma list_query_rows: "r \<in> set (list_query p cur d) \<Longrightarrow> r \<in> set (applications d) \<and> ap_CandidateID r = lp_CandidateID p"
  by (auto simp: list_query_def page_where_def dest!: in_set_takeD split: option.splits)

lemma make_page_rows: "a \<in> set (pg_Items (make_page n rows)) \<Longrightarrow> \<exists>r \<in> set rows. a = scan_application r"
  by (auto simp: make_page_def Let_def dest!: in_set_takeD split: if_splits)

lemma ListByCandidate_rows:
  assumes "ListByCandidate p d = (Inr page, d')" and "a \<in> set (pg_Items page)"
  shows "a_CandidateID a = lp_CandidateID p \<and> owns (lp_CandidateID p) d (a_ApplicationID a)"
proof -
  from assms(1) obtain cur e where "page = make_page (page_limit (lp_Limit p)) (list_query p cur e)" "tables e = tables d"
    by (auto simp: ListByCandidate_def split: if_splits sum.splits elim!: run_stmtE)
  with assms(2) obtain r where "r \<in> set (list_query p cur e)" "a = scan_application r" by (auto dest: make_page_rows)
  with list_query_rows[of r p cur e] tables_eqD(1)[OF \<open>tables e = tables d\<close>] show ?thesis by (auto simp: owns_def)
qed

section \<open>Responses\<close>

lemma EventLog_Write_applications: "applications (snd (EventLog_Write e now d)) = applications d"
  by (auto simp: EventLog_Write_def run_stmt_def Let_def split: prod.splits if_splits)

lemma Store_Create_view:
  assumes "Store_Create (new_application c req i ev) now d = (Inr app, d1)"
  shows "owned_app c d1 (toAppResp app)"
  using assms
proof (cases rule: Store_CreateE)
  case inserted
  then have "applications d1 = applications d @ [create_row (new_application c req i ev) now]" using tables_sel(1)[of d1] by simp
  with inserted(4)[OF refl] show ?thesis by (auto simp: owned_app_def owns_def create_row_def new_application_def)
qed simp

lemma createApplication_view:
  assumes "createApplication c body i ev now d = (r, d')"
  shows "reveals_only ps c d' (rs_body r)"
proof (cases body)
  case (Some req)
  obtain x d1 where s: "Store_Create (new_application c req i ev) now d = (x, d1)" by fastforce
  show ?thesis
  proof (cases x)
    case (Inr app)
    let ?e = "\<lparr>ev_EventID = ev, ev_OccurredAt = now, ev_ApplicationID = a_ApplicationID app, ev_CandidateID = c,
       ev_Kind = EventKindCreated, ev_FromStatus = [], ev_ToStatus = a_Status app, ev_Actor = ActorExtension,
       ev_Data = Some [''opportunity_id'' \<mapsto> AStr (a_OpportunityID app), ''match_id'' \<mapsto> AStr (a_MatchID app)]\<rparr>"
    have "owned_app c (snd (EventLog_Write ?e now d1)) (toAppResp app)"
      using Store_Create_view[OF s[unfolded Inr]] by (simp add: owned_app_def owns_def EventLog_Write_applications)
    with assms Some s Inr show ?thesis by (auto simp: createApplication_def Let_def split: if_splits prod.splits)
  qed (use assms Some s in \<open>auto simp: createApplication_def split: if_splits\<close>)
qed (use assms in \<open>auto simp: createApplication_def\<close>)

lemma collect_reminders_view:
  "collect_reminders apps d = (Inr rs, d') \<Longrightarrow> x \<in> set rs \<Longrightarrow> xr_ApplicationID x \<in> a_ApplicationID ` set apps"
proof (induction apps arbitrary: d rs d')
  case (Cons a apps)
  from Cons.prems Cons.IH show ?case
    by (fastforce split: prod.splits sum.splits dest: ListActive_rows)
qed simp

lemma listApplications_view:
  assumes "listApplications c st n cur d = (r, d')"
  shows "reveals_only ps c d (rs_body r)"
proof -
  obtain x d1 where l: "ListByCandidate \<lparr>lp_CandidateID = c, lp_Statuses = parse_statuses st, lp_Cursor = cur, lp_Limit = n\<rparr> d = (x, d1)"
    by fastforce
  show ?thesis
  proof (cases x)
    case (Inr page)
    from assms l Inr ListByCandidate_rows[OF l[unfolded Inr]] show ?thesis
      by (auto simp: listApplications_def list_all_iff owned_app_def)
  qed (use assms l in \<open>auto simp: listApplications_def\<close>)
qed

lemma listAllReminders_view:
  assumes "listAllReminders c d = (r, d')"
  shows "reveals_only ps c d (rs_body r)"
proof -
  obtain x d1 where l: "ListByCandidate \<lparr>lp_CandidateID = c, lp_Statuses = [], lp_Cursor = NoCursor, lp_Limit = 200\<rparr> d = (x, d1)" by fastforce
  show ?thesis
  proof (cases x)
    case (Inr page)
    obtain y d2 where y: "collect_reminders (pg_Items page) d1 = (y, d2)" by fastforce
    show ?thesis
    proof (cases y)
      case (Inr rs)
      have "owns c d (xr_ApplicationID z)" if "z \<in> set rs" for z
        using collect_reminders_view[OF y[unfolded Inr] that] ListByCandidate_rows[OF l[unfolded \<open>x = Inr page\<close>]] by auto
      with assms l y Inr \<open>x = Inr page\<close> show ?thesis by (auto simp: listAllReminders_def list_all_iff)
    qed (use assms l y Inr in \<open>auto simp: listAllReminders_def\<close>)
  qed (use assms l in \<open>auto simp: listAllReminders_def\<close>)
qed

text \<open>The other handlers load an application of the candidate first; their rows belong to it.\<close>

lemma owned_handlers_view:
  "getApplication c i d = (r, d') \<Longrightarrow> reveals_only ps c d (rs_body r)"
  "appendEvent c i b1 e now d = (r, d') \<Longrightarrow> reveals_only ps c d (rs_body r)"
  "listEvents c i n d = (r, d') \<Longrightarrow> reveals_only ps c d (rs_body r)"
  "createNote c i b2 k e now d = (r, d') \<Longrightarrow> reveals_only ps c d (rs_body r)"
  "updateNote c i k b2 e now d = (r, d') \<Longrightarrow> reveals_only ps c d (rs_body r)"
  "deleteNote c i k e now d = (r, d') \<Longrightarrow> reveals_only ps c d (rs_body r)"
  "createReminder c i b3 k e now d = (r, d') \<Longrightarrow> reveals_only ps c d (rs_body r)"
  "updateReminder c i k b4 e now d = (r, d') \<Longrightarrow> reveals_only ps c d (rs_body r)"
  "deleteReminder c i k now d = (r, d') \<Longrightarrow> reveals_only ps c d (rs_body r)"
  "uploadAttachment c i u k e now d = (r, d') \<Longrightarrow> reveals_only ps c d (rs_body r)"
  "deleteAttachment c i k e now d = (r, d') \<Longrightarrow> reveals_only ps c d (rs_body r)"
proof -
  obtain x d1 where l: "loadOwnedApplication c i d = (x, d1)" by fastforce
  note v = loadOwned_view[OF l, of ps d]
  show "getApplication c i d = (r, d') \<Longrightarrow> reveals_only ps c d (rs_body r)"
    using v by (cases x) (auto simp: getApplication_def l list_all_iff Let_def EventLog_List_rows split: prod.splits sum.splits)
  show "appendEvent c i b1 e now d = (r, d') \<Longrightarrow> reveals_only ps c d (rs_body r)"
    using v by (cases x) (auto simp: appendEvent_def l Let_def split: prod.splits sum.splits option.splits if_splits)
  show "listEvents c i n d = (r, d') \<Longrightarrow> reveals_only ps c d (rs_body r)"
    using v by (cases x) (auto simp: listEvents_def l list_all_iff EventLog_List_rows split: prod.splits sum.splits)
  show "createNote c i b2 k e now d = (r, d') \<Longrightarrow> reveals_only ps c d (rs_body r)"
    using v by (cases x) (auto simp: createNote_def l Let_def split: prod.splits sum.splits option.splits if_splits dest: Notes_Create_row)
  show "updateNote c i k b2 e now d = (r, d') \<Longrightarrow> reveals_only ps c d (rs_body r)"
    using v by (cases x) (auto simp: updateNote_def l Let_def split: prod.splits sum.splits option.splits if_splits dest: Notes_Update_row)
  show "deleteNote c i k e now d = (r, d') \<Longrightarrow> reveals_only ps c d (rs_body r)"
    using v by (cases x) (auto simp: deleteNote_def l Let_def split: prod.splits sum.splits if_splits)
  show "createReminder c i b3 k e now d = (r, d') \<Longrightarrow> reveals_only ps c d (rs_body r)"
    using v by (cases x) (auto simp: createReminder_def l Let_def split: prod.splits sum.splits option.splits if_splits dest: Reminders_Create_row)
  show "updateReminder c i k b4 e now d = (r, d') \<Longrightarrow> reveals_only ps c d (rs_body r)"
    using v by (cases x) (auto simp: updateReminder_def l Let_def split: prod.splits sum.splits option.splits if_splits dest: Reminders_Update_row)
  show "deleteReminder c i k now d = (r, d') \<Longrightarrow> reveals_only ps c d (rs_body r)"
    using v by (cases x) (auto simp: deleteReminder_def l split: prod.splits sum.splits if_splits)
  show "uploadAttachment c i u k e now d = (r, d') \<Longrightarrow> reveals_only ps c d (rs_body r)"
    using v by (cases x) (auto simp: uploadAttachment_def l Let_def split: prod.splits sum.splits upload.splits if_splits dest: Attachments_Create_row)
  show "deleteAttachment c i k e now d = (r, d') \<Longrightarrow> reveals_only ps c d (rs_body r)"
    using v by (cases x) (auto simp: deleteAttachment_def l Let_def split: prod.splits sum.splits if_splits)
qed

lemma ApplyTransition_row:
  assumes "ApplyTransition i p now d = (Inr a, d')" and "owns c d i" and "service_inv d"
  shows "a_CandidateID a = c \<and> a_ApplicationID a = i"
  using assms(1)
proof (cases rule: ApplyTransitionE)
  case (written r u)
  have "ap_ApplicationID r = i" "r \<in> set (applications d)" using find_SomeD[OF written(1)] by simp_all
  moreover from this assms(2,3) have "ap_CandidateID r = c"
    by (auto simp: owns_def service_inv_def appdb_wf_def dest: inj_onD[of ap_ApplicationID] simp: distinct_map)
  ultimately show ?thesis using written(4)[OF refl] by (simp add: update_row_def)
qed simp

lemma patchApplication_view:
  assumes "service_inv d" and "patchApplication c i b e now d = (r, d')"
  shows "reveals_only ps c d (rs_body r)"
proof -
  obtain x d1 where l: "loadOwnedApplication c i d = (x, d1)" by fastforce
  note v = loadOwned_view[OF l, of ps d]
  have t: "tables d1 = tables d" by (rule loadOwned_tables[OF l])
  then have inv: "service_inv d1" using assms(1) by (metis service_inv_tables)
  show ?thesis
  proof (cases x)
    case (Inr app)
    with v have o: "owns c d i" by simp
    then have o1: "owns c d1 i" using t owns_cong by blast
    have "owned_app c d (toAppResp a)" if "ApplyTransition i p now d1 = (Inr a, d2)" for a p d2
      using ApplyTransition_row[OF that o1 inv] o by (simp add: owned_app_def)
    with assms(2) l Inr show ?thesis
      by (auto simp: patchApplication_def Let_def split: prod.splits sum.splits option.splits)
  qed (use assms(2) l v in \<open>auto simp: patchApplication_def\<close>)
qed

lemma presignAttachment_view:
  assumes "service_inv d" and "presignAttachment ps c k d = (r, d')"
  shows "reveals_only ps c d (rs_body r)"
proof -
  have "take (length (blob_prefix c)) (at_R2Key t) = blob_prefix c"
    if g: "Attachments_Get k d = (Inr t, d1)" "GetByID (at_ApplicationID t) d1 = (Inr app, d2)" "a_CandidateID app = c" for t d1 app d2
  proof -
    from g(1) obtain w where w: "w \<in> set (application_attachments d)" "t = scan_attachment w" and td: "tables d1 = tables d"
      by (metis Attachments_Get_Inr find_SomeD)
    have "at_ApplicationID t = atr_ApplicationID w" using w(2) by (simp add: scan_attachment_def)
    moreover obtain a where "List.find (\<lambda>r. ap_ApplicationID r = at_ApplicationID t) (applications d1) = Some a" "app = scan_application a"
      using g(2) by (rule GetByID_Inr)
    ultimately have a: "a \<in> set (applications d)" "ap_ApplicationID a = atr_ApplicationID w" "app = scan_application a"
      using tables_eqD(1)[OF td] by (auto dest: find_SomeD)
    from assms(1) w(1) obtain a' where "a' \<in> set (applications d)" "ap_ApplicationID a' = atr_ApplicationID w"
      "take (length (blob_prefix (ap_CandidateID a'))) (atr_R2Key w) = blob_prefix (ap_CandidateID a')"
      by (auto simp: service_inv_def attachments_ok_def)
    moreover from this a assms(1) have "a' = a"
      by (intro distinct_key_eq[of ap_ApplicationID]) (auto simp: service_inv_def appdb_wf_def)
    ultimately show ?thesis using a g(3) w(2) by (simp add: scan_attachment_def)
  qed
  with assms(2) show ?thesis
    by (fastforce simp: presignAttachment_def split: prod.splits sum.splits if_splits)
qed

lemma serve_view:
  assumes "service_inv d"
  shows "reveals_only ps c (snd (serve ps c q t d)) (rs_body (fst (serve ps c q t d)))"
proof -
  obtain r d' where s: "serve ps c q t d = (r, d')" by fastforce
  have "reveals_only ps c d' (rs_body r) \<or> reveals_only ps c d (rs_body r)"
    using s assms
    by (cases q) (auto intro: createApplication_view listApplications_view listAllReminders_view owned_handlers_view
        patchApplication_view presignAttachment_view)
  moreover have "owned_run c d d'" using serve_run[of c d ps q t] s by simp
  ultimately have "reveals_only ps c d' (rs_body r)" using owned_run_reveals by blast
  with s show ?thesis by simp
qed

section \<open>Isolation\<close>

text \<open>
  C1. Requests of one candidate neither change nor reveal rows of another: in every reachable
  database the applications, notes, reminders, attachments, events and blobs of other candidates
  are the same after the request, and every application, event, note, reminder and attachment in the response belongs to an
  application of the candidate, and a download link is signed for a blob under the candidate's prefix.
\<close>

theorem candidate_isolation:
  "foreign_view c (snd (serve ps c q t (serve_all ps rs (empty_db fs)))) = foreign_view c (serve_all ps rs (empty_db fs)) \<and>
   reveals_only ps c (snd (serve ps c q t (serve_all ps rs (empty_db fs))))
     (rs_body (fst (serve ps c q t (serve_all ps rs (empty_db fs)))))"
  by (intro conjI owned_run_foreign[OF serve_run] serve_view serve_all_inv empty_db_inv)

end
