(* ===== verification/Idempotency.thy ===== *)
theory Idempotency
  imports Prelude
begin

text \<open>
  Replay protection: the middleware of \<open>pkg/httpmw/idempotency.go\<close> and its Postgres store
  \<open>pkg/applications/idempotency.go\<close>.

  The middleware is a client of the interface \<open>IdempotencyStore\<close> (\<open>Lookup\<close>, \<open>Save\<close>); the
  interface is the locale \<open>idempotency_store\<close>, its laws are discharged for the Postgres
  store, and the guarantees of the middleware are proved from the laws.  \<open>jsonb\<close> stands
  for PostgreSQL's cast of a response body to its normalised JSON text (\<open>None\<close> when the
  text is not JSON and the statement fails).
\<close>

section \<open>Data\<close>

record StoredResponse =
  sr_StatusCode :: int
  sr_Body :: string
  sr_Headers :: "string \<rightharpoonup> string"

record idem_key =
  ik_CandidateID :: string
  ik_Key :: string
  ik_RouteGroup :: string

record IdempotencyRecord =
  ir_Key :: idem_key
  ir_StatusCode :: int
  ir_ResponseBody :: string
  ir_ResponseHeaders :: "string \<rightharpoonup> string"
  ir_CreatedAt :: time
  ir_ExpiresAt :: time

record idemdb =
  idempotency_keys :: "IdempotencyRecord list"
  idem_faults :: "bool list"

datatype idem_error = IdemStatement

section \<open>The Postgres store\<close>

definition idem_ttl :: "duration \<Rightarrow> duration" where
  "idem_ttl ttl = (if ttl \<le> 0 then 24 * Hour else ttl)"

definition idem_stmt :: "(idemdb \<Rightarrow> (idem_error + 'a) \<times> idemdb) \<Rightarrow> idemdb \<Rightarrow> (idem_error + 'a) \<times> idemdb"
where
  "idem_stmt q d =
     (let (fail, rest) = next_fault (idem_faults d); d' = d\<lparr>idem_faults := rest\<rparr>
      in if fail then (Inl IdemStatement, d') else q d')"

definition Idem_Lookup :: "time \<Rightarrow> idem_key \<Rightarrow> idemdb \<Rightarrow> (idem_error + StoredResponse option) \<times> idemdb" where
  "Idem_Lookup now k d =
     idem_stmt (\<lambda>d. (Inr (case List.find (\<lambda>r. ir_Key r = k \<and> ir_ExpiresAt r > now) (idempotency_keys d) of
         None \<Rightarrow> None
       | Some r \<Rightarrow> Some \<lparr>sr_StatusCode = ir_StatusCode r, sr_Body = ir_ResponseBody r,
                        sr_Headers = ir_ResponseHeaders r\<rparr>), d)) d"

text \<open>
  The interval is written in whole milliseconds, so the expiry is the time of the
  statement plus the lifetime rounded down to a millisecond.
\<close>

definition Idem_Save ::
  "(string \<Rightarrow> string option) \<Rightarrow> duration \<Rightarrow> time \<Rightarrow> idem_key \<Rightarrow> StoredResponse \<Rightarrow> idemdb \<Rightarrow>
    (idem_error + unit) \<times> idemdb"
where
  "Idem_Save jsonb ttl now k resp d =
     (let bodyBytes = (if sr_Body resp = [] then ''null'' else sr_Body resp) in
      idem_stmt (\<lambda>d.
        case jsonb bodyBytes of
          None \<Rightarrow> (Inl IdemStatement, d)
        | Some b \<Rightarrow>
            if list_ex (\<lambda>r. ir_Key r = k) (idempotency_keys d) then (Inr (), d)
            else (Inr (), d\<lparr>idempotency_keys := idempotency_keys d @
              [\<lparr>ir_Key = k, ir_StatusCode = sr_StatusCode resp, ir_ResponseBody = b,
                ir_ResponseHeaders = sr_Headers resp, ir_CreatedAt = now,
                ir_ExpiresAt = now + idem_ttl ttl div Millisecond * Millisecond\<rparr>]\<rparr>)) d)"

definition Idem_Purge :: "time \<Rightarrow> idemdb \<Rightarrow> (idem_error + int) \<times> idemdb" where
  "Idem_Purge now d =
     idem_stmt (\<lambda>d. (Inr (int (length (filter (\<lambda>r. ir_ExpiresAt r \<le> now) (idempotency_keys d)))),
       d\<lparr>idempotency_keys := filter (\<lambda>r. \<not> ir_ExpiresAt r \<le> now) (idempotency_keys d)\<rparr>)) d"

section \<open>The middleware\<close>

record http_reply =
  hr_status :: int
  hr_headers :: "string \<rightharpoonup> string"
  hr_body :: string

definition replay :: "StoredResponse \<Rightarrow> http_reply" where
  "replay prior =
     \<lparr>hr_status = sr_StatusCode prior,
      hr_headers = (if sr_Headers prior ''Content-Type'' \<in> {None, Some []}
                    then (sr_Headers prior)(''Content-Type'' \<mapsto> ''application/json'')
                    else sr_Headers prior),
      hr_body = sr_Body prior\<rparr>"

definition recorded :: "http_reply \<Rightarrow> StoredResponse" where
  "recorded r = \<lparr>sr_StatusCode = hr_status r,
     sr_Body = (if hr_body r = [] then ''null'' else hr_body r), sr_Headers = hr_headers r\<rparr>"

definition lookup_failed :: http_reply where
  "lookup_failed = \<lparr>hr_status = 500,
     hr_headers = [''Content-Type'' \<mapsto> ''application/problem+json''],
     hr_body = ''internal_error''\<rparr>"

text \<open>
  \<open>lookup\<close> and \<open>save\<close> are the methods of the configured store, \<open>handler\<close> the wrapped
  handler on the state \<open>w\<close> of the service.
\<close>

definition Idempotency ::
  "(idem_key \<Rightarrow> 's \<Rightarrow> (idem_error + StoredResponse option) \<times> 's) \<Rightarrow>
   (idem_key \<Rightarrow> StoredResponse \<Rightarrow> 's \<Rightarrow> (idem_error + unit) \<times> 's) \<Rightarrow>
   idem_key \<Rightarrow> ('w \<Rightarrow> http_reply \<times> 'w) \<Rightarrow> 's \<times> 'w \<Rightarrow> http_reply \<times> ('s \<times> 'w)"
where
  "Idempotency lookup save k handler sw =
     (case sw of (s, w) \<Rightarrow>
      if ik_Key k = [] then (let (r, w') = handler w in (r, (s, w')))
      else (case lookup k s of
         (Inl _, s1) \<Rightarrow> (lookup_failed, (s1, w))
       | (Inr (Some prior), s1) \<Rightarrow> (replay prior, (s1, w))
       | (Inr None, s1) \<Rightarrow>
           let (r, w') = handler w in
           if 200 \<le> hr_status r \<and> hr_status r < 300
           then (r, (snd (save k (recorded r) s1), w'))
           else (r, (s1, w'))))"

section \<open>The interface and what the middleware gets from it\<close>

text \<open>
  \<open>stored s k\<close> is the response kept under a key with its expiry, \<open>norm\<close> what a saved
  response becomes, \<open>healthy\<close> the states in which statements succeed.
\<close>

locale idempotency_store =
  fixes lookup :: "time \<Rightarrow> idem_key \<Rightarrow> 's \<Rightarrow> (idem_error + StoredResponse option) \<times> 's"
    and save :: "time \<Rightarrow> idem_key \<Rightarrow> StoredResponse \<Rightarrow> 's \<Rightarrow> (idem_error + unit) \<times> 's"
    and stored :: "'s \<Rightarrow> idem_key \<Rightarrow> (StoredResponse \<times> time) option"
    and norm :: "StoredResponse \<Rightarrow> StoredResponse option"
    and life :: duration
    and healthy :: "'s \<Rightarrow> bool"
  assumes lookup_law: "healthy s \<Longrightarrow> lookup now k s =
      (Inr (case stored s k of Some (r, e) \<Rightarrow> if e > now then Some r else None | None \<Rightarrow> None), s)"
    and save_law: "healthy s \<Longrightarrow> stored (snd (save now k r s)) =
      (case (stored s k, norm r) of (None, Some r') \<Rightarrow> (stored s)(k \<mapsto> (r', now + life)) | _ \<Rightarrow> stored s)"
    and save_healthy: "healthy s \<Longrightarrow> healthy (snd (save now k r s))"
begin

lemma replay_hit:
  assumes "healthy s" and "ik_Key k \<noteq> []" and "stored s k = Some (r, e)" and "now < e"
  shows "Idempotency (lookup now) (save now) k handler (s, w) = (replay r, (s, w))"
  using assms by (simp add: Idempotency_def lookup_law)

lemma first_success_stored:
  assumes "healthy s" and "ik_Key k \<noteq> []" and "stored s k = None"
    and "handler w = (r, w')" and "200 \<le> hr_status r" "hr_status r < 300"
    and "norm (recorded r) = Some r'"
  shows "\<exists>s'. Idempotency (lookup now) (save now) k handler (s, w) = (r, (s', w')) \<and>
    healthy s' \<and> stored s' = (stored s)(k \<mapsto> (r', now + life))"
  using assms save_law[OF assms(1), of now k "recorded r"] save_healthy[OF assms(1)]
  by (auto simp: Idempotency_def lookup_law)

lemma expired_not_refreshed:
  assumes "healthy s" and "ik_Key k \<noteq> []" and "stored s k = Some (old, e)" and "e \<le> now"
    and "handler w = (r, w')"
  shows "\<exists>s'. Idempotency (lookup now) (save now) k handler (s, w) = (r, (s', w')) \<and>
    healthy s' \<and> stored s' = stored s"
  using assms save_law[OF assms(1), of now k "recorded r"] save_healthy[OF assms(1)]
  by (auto simp: Idempotency_def lookup_law)

end

text \<open>
  A later use of the store: a keyed request with its own lifetime, key, handler and clock reading, or a purge.
\<close>

datatype 'w idem_use = Keyed duration time idem_key "'w \<Rightarrow> http_reply \<times> 'w" | Purged time

fun run_use ::
  "(time \<Rightarrow> idem_key \<Rightarrow> 's \<Rightarrow> (idem_error + StoredResponse option) \<times> 's) \<Rightarrow>
   (duration \<Rightarrow> time \<Rightarrow> idem_key \<Rightarrow> StoredResponse \<Rightarrow> 's \<Rightarrow> (idem_error + unit) \<times> 's) \<Rightarrow>
   (time \<Rightarrow> 's \<Rightarrow> (idem_error + int) \<times> 's) \<Rightarrow> 'w idem_use \<Rightarrow> 's \<times> 'w \<Rightarrow> 's \<times> 'w"
where
  "run_use lookup save purge (Keyed ttl now k h) sw = snd (Idempotency (lookup now) (save ttl now) k h sw)"
| "run_use lookup save purge (Purged now) (s, w) = (snd (purge now s), w)"

text \<open>
  The store under faults: a failing statement leaves what is stored, a lookup fails or tells the
  truth, and neither a save nor a purge before the expiry removes or replaces a stored response.
\<close>

locale replay_store =
  fixes lookup :: "time \<Rightarrow> idem_key \<Rightarrow> 's \<Rightarrow> (idem_error + StoredResponse option) \<times> 's"
    and save :: "duration \<Rightarrow> time \<Rightarrow> idem_key \<Rightarrow> StoredResponse \<Rightarrow> 's \<Rightarrow> (idem_error + unit) \<times> 's"
    and purge :: "time \<Rightarrow> 's \<Rightarrow> (idem_error + int) \<times> 's"
    and stored :: "'s \<Rightarrow> idem_key \<Rightarrow> (StoredResponse \<times> time) option"
    and valid :: "'s \<Rightarrow> bool"
  assumes lookup_truth: "valid s \<Longrightarrow> stored s k = Some (r, e) \<Longrightarrow> now < e \<Longrightarrow>
      isl (fst (lookup now k s)) \<or> fst (lookup now k s) = Inr (Some r)"
    and lookup_stored: "valid s \<Longrightarrow> stored (snd (lookup now k s)) = stored s \<and> valid (snd (lookup now k s))"
    and save_stored: "valid s \<Longrightarrow> valid (snd (save ttl now k r s)) \<and> stored s \<subseteq>\<^sub>m stored (snd (save ttl now k r s))"
    and purge_stored: "valid s \<Longrightarrow> valid (snd (purge now s)) \<and>
      (stored s k = Some (r, e) \<longrightarrow> now < e \<longrightarrow> stored (snd (purge now s)) k = Some (r, e))"
begin

lemma use_stored:
  assumes "valid s" and "stored s k = Some (r, e)" and "\<forall>now. u = Purged now \<longrightarrow> now < e"
  shows "valid (fst (run_use lookup save purge u (s, w))) \<and> stored (fst (run_use lookup save purge u (s, w))) k = Some (r, e)"
proof (cases u)
  case (Keyed ttl now k' h)
  obtain x s1 where l: "lookup now k' s = (x, s1)" by fastforce
  with lookup_stored[OF assms(1), of now k'] assms have 1: "valid s1" "stored s1 k = Some (r, e)" by simp_all
  have 2: "stored (snd (save ttl now k' resp s1)) k = Some (r, e)" for resp
    using save_stored[OF 1(1), of ttl now k' resp] 1(2) by (force simp: map_le_def)
  from Keyed l assms(1,2) 1 2 save_stored[OF 1(1)] show ?thesis
    by (auto simp: Idempotency_def split: sum.split option.split prod.split)
next
  case (Purged now)
  with assms purge_stored[OF assms(1), of now k r e] show ?thesis by simp
qed

lemma uses_stored:
  "valid s \<Longrightarrow> stored s k = Some (r, e) \<Longrightarrow> \<forall>now. Purged now \<in> set us \<longrightarrow> now < e \<Longrightarrow>
   valid (fst (fold (run_use lookup save purge) us (s, w))) \<and> stored (fst (fold (run_use lookup save purge) us (s, w))) k = Some (r, e)"
proof (induction us arbitrary: s w)
  case (Cons u us)
  obtain s1 w1 where u: "run_use lookup save purge u (s, w) = (s1, w1)" by fastforce
  with use_stored[OF Cons.prems(1,2), of u w] Cons.prems(3) have "valid s1" "stored s1 k = Some (r, e)" by auto
  with Cons.IH[of s1 w1] Cons.prems(3) u show ?case by simp
qed simp

lemma answered_from_store:
  assumes "valid s" and "ik_Key k \<noteq> []" and "stored s k = Some (r, e)" and "now < e"
    and "Idempotency (lookup now) (save ttl now) k h (s, w) = (a, (s', w'))"
  shows "w' = w \<and> (a = replay r \<or> a = lookup_failed)"
  using assms lookup_truth[OF assms(1,3,4)]
  by (auto simp: Idempotency_def split: prod.splits sum.splits option.splits)

end

section \<open>The Postgres store implements the interface\<close>

definition pg_stored :: "idemdb \<Rightarrow> idem_key \<Rightarrow> (StoredResponse \<times> time) option" where
  "pg_stored d k =
     map_option (\<lambda>r. (\<lparr>sr_StatusCode = ir_StatusCode r, sr_Body = ir_ResponseBody r,
                       sr_Headers = ir_ResponseHeaders r\<rparr>, ir_ExpiresAt r))
       (List.find (\<lambda>r. ir_Key r = k) (idempotency_keys d))"

definition pg_norm :: "(string \<Rightarrow> string option) \<Rightarrow> StoredResponse \<Rightarrow> StoredResponse option" where
  "pg_norm jsonb r =
     map_option (\<lambda>b. r\<lparr>sr_Body := b\<rparr>) (jsonb (if sr_Body r = [] then ''null'' else sr_Body r))"

definition pg_healthy :: "idemdb \<Rightarrow> bool" where
  "pg_healthy d \<longleftrightarrow> idem_faults d = [] \<and> distinct (map ir_Key (idempotency_keys d))"

lemma find_key_live:
  assumes "distinct (map ir_Key rows)"
  shows "List.find (\<lambda>r. ir_Key r = k \<and> ir_ExpiresAt r > now) rows =
    (case List.find (\<lambda>r. ir_Key r = k) rows of
       None \<Rightarrow> None | Some r \<Rightarrow> if ir_ExpiresAt r > now then Some r else None)"
  using assms
proof (induction rows)
  case (Cons r rows)
  show ?case
  proof (cases "ir_Key r = k")
    case True
    with Cons.prems have "\<forall>x \<in> set rows. k \<noteq> ir_Key x" by (simp add: image_iff)
    then have "List.find (\<lambda>r. ir_Key r = k \<and> ir_ExpiresAt r > now) rows = None"
      by (auto simp: find_None_iff)
    with True show ?thesis by simp
  next
    case False
    with Cons show ?thesis by simp
  qed
qed simp

lemma idem_stmt_ok: "idem_faults d = [] \<Longrightarrow> idem_stmt q d = q d"
  by (cases d) (simp add: idem_stmt_def)

lemma pg_lookup:
  "pg_healthy d \<Longrightarrow> Idem_Lookup now k d =
     (Inr (case pg_stored d k of Some (r, e) \<Rightarrow> if e > now then Some r else None | None \<Rightarrow> None), d)"
  by (auto simp: Idem_Lookup_def idem_stmt_ok pg_healthy_def pg_stored_def find_key_live
      split: option.splits)

lemma pg_save_stored:
  assumes "pg_healthy d"
  shows "pg_stored (snd (Idem_Save jsonb ttl now k r d)) =
    (case (pg_stored d k, pg_norm jsonb r) of
       (None, Some r') \<Rightarrow> (pg_stored d)(k \<mapsto> (r', now + idem_ttl ttl div Millisecond * Millisecond))
     | _ \<Rightarrow> pg_stored d)"
proof (cases "jsonb (if sr_Body r = [] then ''null'' else sr_Body r)")
  case None
  with assms show ?thesis
    by (simp add: Idem_Save_def Let_def idem_stmt_ok pg_healthy_def pg_norm_def split: option.splits)
next
  case (Some b)
  show ?thesis
  proof (cases "List.find (\<lambda>x. ir_Key x = k) (idempotency_keys d)")
    case None
    then have "\<not> list_ex (\<lambda>x. ir_Key x = k) (idempotency_keys d)"
      by (auto simp: list_ex_iff find_None_iff)
    with None Some assms show ?thesis
      by (auto simp: Idem_Save_def Let_def idem_stmt_ok pg_healthy_def pg_norm_def pg_stored_def
          find_snoc fun_eq_iff split: option.splits)
  next
    case (Some x)
    then have "list_ex (\<lambda>x. ir_Key x = k) (idempotency_keys d)"
      by (auto simp: list_ex_iff dest: find_SomeD)
    with Some \<open>jsonb _ = Some b\<close> assms show ?thesis
      by (simp add: Idem_Save_def Let_def idem_stmt_ok pg_healthy_def pg_stored_def)
  qed
qed

lemma pg_save_healthy: "pg_healthy d \<Longrightarrow> pg_healthy (snd (Idem_Save jsonb ttl now k r d))"
  by (auto simp: Idem_Save_def Let_def idem_stmt_ok pg_healthy_def list_ex_iff split: option.splits)

interpretation pg: idempotency_store Idem_Lookup "Idem_Save jsonb ttl" pg_stored "pg_norm jsonb"
  "idem_ttl ttl div Millisecond * Millisecond" pg_healthy for jsonb ttl
  by unfold_locales (simp_all add: pg_lookup pg_save_stored pg_save_healthy)

text \<open>Under faults the table keeps what it has.\<close>

definition pg_valid :: "idemdb \<Rightarrow> bool" where
  "pg_valid d \<longleftrightarrow> distinct (map ir_Key (idempotency_keys d))"

lemma idem_stmt_post:
  "(\<And>fs. P (Inl IdemStatement, d\<lparr>idem_faults := fs\<rparr>)) \<Longrightarrow> (\<And>fs. P (q (d\<lparr>idem_faults := fs\<rparr>))) \<Longrightarrow> P (idem_stmt q d)"
  by (auto simp: idem_stmt_def Let_def split: prod.splits)

lemma pg_stored_faults [simp]: "pg_stored (d\<lparr>idem_faults := fs\<rparr>) = pg_stored d"
  by (simp add: pg_stored_def fun_eq_iff)

lemma pg_stored_SomeE:
  assumes "pg_stored d k = Some (r, e)"
  obtains x where "List.find (\<lambda>x. ir_Key x = k) (idempotency_keys d) = Some x" "ir_ExpiresAt x = e" "ir_Key x = k"
    "r = \<lparr>sr_StatusCode = ir_StatusCode x, sr_Body = ir_ResponseBody x, sr_Headers = ir_ResponseHeaders x\<rparr>"
  using assms by (auto simp: pg_stored_def dest: find_SomeD)

lemma find_filter_keep: "List.find P rows = Some x \<Longrightarrow> Q x \<Longrightarrow> distinct (map k rows) \<Longrightarrow> P = (\<lambda>r. k r = i) \<Longrightarrow> List.find P (filter Q rows) = Some x"
proof (induction rows)
  case (Cons r rows)
  then show ?case by (auto split: if_splits)
qed simp

lemma pg_save_keeps:
  "pg_valid d \<Longrightarrow> pg_valid (snd (Idem_Save jsonb ttl now k r d)) \<and> pg_stored d \<subseteq>\<^sub>m pg_stored (snd (Idem_Save jsonb ttl now k r d))"
  unfolding Idem_Save_def Let_def
  by (rule idem_stmt_post) (auto simp: pg_valid_def pg_stored_def map_le_def find_snoc list_ex_iff split: option.split)

lemma pg_purge_keeps:
  assumes "pg_valid d"
  shows "pg_valid (snd (Idem_Purge now d)) \<and>
    (pg_stored d k = Some (r, e) \<longrightarrow> now < e \<longrightarrow> pg_stored (snd (Idem_Purge now d)) k = Some (r, e))"
  unfolding Idem_Purge_def
proof (rule idem_stmt_post)
  fix fs
  have "pg_stored (d\<lparr>idempotency_keys := filter (\<lambda>r. \<not> ir_ExpiresAt r \<le> now) (idempotency_keys d)\<rparr>) k = Some (r, e)"
    if "pg_stored d k = Some (r, e)" "now < e"
    using that assms unfolding pg_valid_def
    by (elim pg_stored_SomeE) (simp add: pg_stored_def find_filter_keep[where k = ir_Key])
  with assms show "pg_valid (snd (Inr (int (length (filter (\<lambda>r. ir_ExpiresAt r \<le> now) (idempotency_keys (d\<lparr>idem_faults := fs\<rparr>))))),
      d\<lparr>idem_faults := fs, idempotency_keys := filter (\<lambda>r. \<not> ir_ExpiresAt r \<le> now) (idempotency_keys (d\<lparr>idem_faults := fs\<rparr>))\<rparr>)) \<and>
    (pg_stored d k = Some (r, e) \<longrightarrow> now < e \<longrightarrow> pg_stored (snd (Inr (int (length (filter (\<lambda>r. ir_ExpiresAt r \<le> now) (idempotency_keys (d\<lparr>idem_faults := fs\<rparr>))))),
      d\<lparr>idem_faults := fs, idempotency_keys := filter (\<lambda>r. \<not> ir_ExpiresAt r \<le> now) (idempotency_keys (d\<lparr>idem_faults := fs\<rparr>))\<rparr>)) k = Some (r, e))"
    by (auto simp: pg_valid_def distinct_map_filter pg_stored_def)
qed (use assms in \<open>simp add: pg_valid_def\<close>)

lemma pg_lookup_truth:
  assumes "pg_valid d"
  shows "pg_stored (snd (Idem_Lookup now k d)) = pg_stored d \<and> pg_valid (snd (Idem_Lookup now k d)) \<and>
    (pg_stored d k = Some (r, e) \<longrightarrow> now < e \<longrightarrow> isl (fst (Idem_Lookup now k d)) \<or> fst (Idem_Lookup now k d) = Inr (Some r))"
  unfolding Idem_Lookup_def
  by (rule idem_stmt_post) (use assms in \<open>auto simp: pg_valid_def find_key_live elim!: pg_stored_SomeE\<close>)

interpretation pgr: replay_store Idem_Lookup "Idem_Save jsonb" Idem_Purge pg_stored pg_valid for jsonb
  by unfold_locales (use pg_lookup_truth pg_save_keeps pg_purge_keeps in blast)+

lemma first_recorded:
  assumes "pg_valid d" and "True \<notin> set (take 2 (idem_faults d))" and "ik_Key k \<noteq> []"
    and "k \<notin> ir_Key ` set (idempotency_keys d)"
    and "handler w = (r, w')" and "200 \<le> hr_status r" and "hr_status r < 300"
    and "jsonb (sr_Body (recorded r)) = Some b"
    and "Idempotency (Idem_Lookup now) (Idem_Save jsonb ttl now) k handler (d, w) = (a, sw)"
  shows "a = r \<and> snd sw = w' \<and> pg_valid (fst sw) \<and>
    pg_stored (fst sw) k = Some ((recorded r)\<lparr>sr_Body := b\<rparr>, now + idem_ttl ttl div Millisecond * Millisecond)"
proof -
  have "next_fault (idem_faults d) = (False, tl (idem_faults d))" "fst (next_fault (tl (idem_faults d))) = False"
    using assms(2) by (cases "idem_faults d"; cases "tl (idem_faults d)"; simp)+
  moreover have "List.find (\<lambda>x. ir_Key x = k) (idempotency_keys d) = None" "\<not> list_ex (\<lambda>x. ir_Key x = k) (idempotency_keys d)"
    "List.find (\<lambda>x. ir_Key x = k \<and> ir_ExpiresAt x > now) (idempotency_keys d) = None"
    using assms(4) by (auto simp: find_None_iff list_ex_iff)
  moreover have "sr_Body (recorded r) \<noteq> []" by (simp add: recorded_def)
  ultimately show ?thesis
    using assms by (auto simp: Idempotency_def Idem_Lookup_def Idem_Save_def idem_stmt_def Let_def pg_valid_def pg_stored_def find_snoc recorded_def split: prod.splits)
qed

section \<open>Properties\<close>

text \<open>
  C13. At most once until the expiry: a keyed request on a database without a row for its key,
  whose two statements succeed and whose handler answers with a success and a JSON body, runs its handler
  once and is recorded.  Whatever keyed requests follow, with statements failing at will, and whatever purges run before the expiry,
  a later request with the same key before the expiry runs no handler: it is answered with the recorded status and headers
  and the stored form of the body, or with the error of a failed lookup.
\<close>

theorem replay_at_most_once:
  assumes "pg_valid d" and "True \<notin> set (take 2 (idem_faults d))" and "ik_Key k \<noteq> []"
    and "k \<notin> ir_Key ` set (idempotency_keys d)"
    and "handler w = (r, w')" and "200 \<le> hr_status r" and "hr_status r < 300"
    and "jsonb (sr_Body (recorded r)) = Some b"
    and "\<forall>now. Purged now \<in> set us \<longrightarrow> now < now1 + idem_ttl ttl div Millisecond * Millisecond"
    and "now2 < now1 + idem_ttl ttl div Millisecond * Millisecond"
    and "Idempotency (Idem_Lookup now1) (Idem_Save jsonb ttl now1) k handler (d, w) = (a, sw)"
    and "Idempotency (Idem_Lookup now2) (Idem_Save jsonb ttl2 now2) k handler2 (fold (run_use Idem_Lookup (Idem_Save jsonb) Idem_Purge) us sw) = (a2, sw2)"
  shows "a = r \<and> snd sw = w' \<and> snd sw2 = snd (fold (run_use Idem_Lookup (Idem_Save jsonb) Idem_Purge) us sw) \<and>
    (a2 = replay ((recorded r)\<lparr>sr_Body := b\<rparr>) \<or> a2 = lookup_failed)"
proof -
  let ?e = "now1 + idem_ttl ttl div Millisecond * Millisecond" and ?p = "(recorded r)\<lparr>sr_Body := b\<rparr>"
  have first: "a = r" "snd sw = w'" "pg_valid (fst sw)" "pg_stored (fst sw) k = Some (?p, ?e)"
    using first_recorded[OF assms(1-8,11)] by simp_all
  obtain s1 w1 where f: "fold (run_use Idem_Lookup (Idem_Save jsonb) Idem_Purge) us sw = (s1, w1)" by fastforce
  with pgr.uses_stored[OF first(3,4) assms(9), of jsonb "snd sw"] have "pg_valid s1" "pg_stored s1 k = Some (?p, ?e)" by simp_all
  from pgr.answered_from_store[OF this(1) assms(3) this(2) assms(10), of jsonb ttl2 handler2 w1 a2 "fst sw2" "snd sw2"] assms(12) f first
  show ?thesis by simp
qed

theorem replay_at_most_once_witness:
  "fst (Idempotency (Idem_Lookup 9) (Idem_Save Some 0 9)
      \<lparr>ik_CandidateID = ''c'', ik_Key = ''k'', ik_RouteGroup = ''g''\<rparr> (\<lambda>w. undefined)
      (fold (run_use Idem_Lookup (Idem_Save Some) Idem_Purge)
        [Purged 7, Keyed 0 8 \<lparr>ik_CandidateID = ''x'', ik_Key = ''k'', ik_RouteGroup = ''g''\<rparr> (\<lambda>w. (\<lparr>hr_status = 201, hr_headers = Map.empty, hr_body = ''2''\<rparr>, w))]
        (snd (Idempotency (Idem_Lookup 5) (Idem_Save Some 0 5)
          \<lparr>ik_CandidateID = ''c'', ik_Key = ''k'', ik_RouteGroup = ''g''\<rparr>
          (\<lambda>w. (\<lparr>hr_status = 201, hr_headers = Map.empty, hr_body = ''1''\<rparr>, Suc w))
          (\<lparr>idempotency_keys = [], idem_faults = []\<rparr>, 0))))) \<in>
    {\<lparr>hr_status = 201, hr_headers = [''Content-Type'' \<mapsto> ''application/json''], hr_body = ''1''\<rparr>, lookup_failed}"
proof -
  let ?k = "\<lparr>ik_CandidateID = ''c'', ik_Key = ''k'', ik_RouteGroup = ''g''\<rparr>"
  let ?r = "\<lparr>hr_status = 201, hr_headers = Map.empty, hr_body = ''1''\<rparr>"
  let ?h = "\<lambda>w. (?r, Suc w)"
  let ?d = "\<lparr>idempotency_keys = [], idem_faults = []\<rparr>"
  let ?x = "Idempotency (Idem_Lookup 5) (Idem_Save Some 0 5) ?k ?h (?d, 0)"
  let ?us = "[Purged 7, Keyed 0 8 \<lparr>ik_CandidateID = ''x'', ik_Key = ''k'', ik_RouteGroup = ''g''\<rparr> (\<lambda>w. (\<lparr>hr_status = 201, hr_headers = Map.empty, hr_body = ''2''\<rparr>, w))]"
  let ?y = "fold (run_use Idem_Lookup (Idem_Save Some) Idem_Purge) ?us (snd ?x)"
  let ?z = "Idempotency (Idem_Lookup 9) (Idem_Save Some 0 9) ?k (\<lambda>w. undefined) ?y"
  have "fst ?x = ?r \<and> snd (snd ?x) = Suc 0 \<and> snd (snd ?z) = snd ?y \<and>
      (fst ?z = replay ((recorded ?r)\<lparr>sr_Body := ''1''\<rparr>) \<or> fst ?z = lookup_failed)"
    by (rule replay_at_most_once[where d = ?d and w = 0 and handler = ?h and jsonb = Some and us = ?us and ttl = 0 and k = ?k])
      (simp_all add: pg_valid_def recorded_def idem_ttl_def Hour_def Minute_def Second_def Millisecond_def)
  then show ?thesis by (auto simp: replay_def recorded_def)
qed

text \<open>
  An expired key protects nothing until it is purged: while its row is still in the
  table every keyed request runs the handler, and the stored row is neither replaced nor
  extended, so the requests that follow run the handler too.
\<close>

theorem expired_key_unprotected:
  assumes "pg_healthy d" and "ik_Key k \<noteq> []"
    and "old \<in> set (idempotency_keys d)" and "ir_Key old = k" and "ir_ExpiresAt old \<le> now"
  shows "case Idempotency (Idem_Lookup now) (Idem_Save jsonb ttl now) k handler (d, w) of
    (r, (d', w')) \<Rightarrow> (r, w') = handler w \<and> pg_healthy d' \<and> pg_stored d' = pg_stored d"
proof -
  obtain r w' where h: "handler w = (r, w')" by (cases "handler w")
  have "List.find (\<lambda>r. ir_Key r = k) (idempotency_keys d) = Some old"
    using assms distinct_key_find[of ir_Key _ old] by (auto simp: pg_healthy_def)
  then obtain sr where sr: "pg_stored d k = Some (sr, ir_ExpiresAt old)" by (simp add: pg_stored_def)
  from pg.expired_not_refreshed[where handler = handler and w = w, OF assms(1,2) sr assms(5) h, of jsonb ttl] h
  show ?thesis by auto
qed

theorem expired_key_unprotected_witness:
  "case Idempotency (Idem_Lookup 9) (Idem_Save Some 0 9)
      \<lparr>ik_CandidateID = ''c'', ik_Key = ''k'', ik_RouteGroup = ''g''\<rparr>
      (\<lambda>w. (\<lparr>hr_status = 201, hr_headers = Map.empty, hr_body = ''1''\<rparr>, Suc w))
      (\<lparr>idempotency_keys = [\<lparr>ir_Key = \<lparr>ik_CandidateID = ''c'', ik_Key = ''k'', ik_RouteGroup = ''g''\<rparr>,
          ir_StatusCode = 201, ir_ResponseBody = ''0'', ir_ResponseHeaders = Map.empty,
          ir_CreatedAt = 1, ir_ExpiresAt = 8\<rparr>], idem_faults = []\<rparr>, 1) of
     (r, (d', w')) \<Rightarrow> w' = 2 \<and> pg_healthy d'"
  using expired_key_unprotected[where k = "\<lparr>ik_CandidateID = ''c'', ik_Key = ''k'', ik_RouteGroup = ''g''\<rparr>"
      and now = 9 and jsonb = Some and ttl = 0 and w = 1
      and d = "\<lparr>idempotency_keys = [\<lparr>ir_Key = \<lparr>ik_CandidateID = ''c'', ik_Key = ''k'', ik_RouteGroup = ''g''\<rparr>,
          ir_StatusCode = 201, ir_ResponseBody = ''0'', ir_ResponseHeaders = Map.empty,
          ir_CreatedAt = 1, ir_ExpiresAt = 8\<rparr>], idem_faults = []\<rparr>"
      and old = "\<lparr>ir_Key = \<lparr>ik_CandidateID = ''c'', ik_Key = ''k'', ik_RouteGroup = ''g''\<rparr>,
          ir_StatusCode = 201, ir_ResponseBody = ''0'', ir_ResponseHeaders = Map.empty,
          ir_CreatedAt = 1, ir_ExpiresAt = 8\<rparr>"
      and handler = "\<lambda>w. (\<lparr>hr_status = 201, hr_headers = Map.empty, hr_body = ''1''\<rparr>, Suc w)"]
  by (simp add: pg_healthy_def split: prod.splits)

end
