(* ===== verification/Application_Routes.thy ===== *)
theory Application_Routes
  imports Application_Views Idempotency "HOL-Library.Sublist"
begin

text \<open>
  The routes as \<open>Mount\<close> of \<open>router.go\<close> registers them: seven of the mutating handlers run inside the
  idempotency middleware, each under its route group, the others run directly.

  \<open>render\<close> stands for the bytes and headers that \<open>writeJSON\<close> and \<open>ProblemJSON\<close> produce for a response.  The lemmas
  show that the middleware only leaves handlers out: the databases of the mounted service are
  those of \<open>serve_all\<close> on a subsequence of the requests, so every property of those holds of it.
\<close>

fun route_group :: "request \<Rightarrow> string option" where
  "route_group (PostApplication b i e) = Some ''applications.create''"
| "route_group (PatchApplication i b e) = Some ''applications.patch''"
| "route_group (PostEvent i b e) = Some ''applications.events.append''"
| "route_group (PostNote i b n e) = Some ''applications.notes.create''"
| "route_group (PatchNote i n b e) = Some ''applications.notes.update''"
| "route_group (PostReminder i b r e) = Some ''applications.reminders.create''"
| "route_group (PatchReminder i r b e) = Some ''applications.reminders.update''"
| "route_group _ = None"

definition Mount ::
  "(response \<Rightarrow> http_reply) \<Rightarrow> (string \<Rightarrow> string option) \<Rightarrow> duration \<Rightarrow>
   (string \<Rightarrow> duration \<Rightarrow> app_error + string) \<Rightarrow> string \<Rightarrow> string \<Rightarrow> request \<Rightarrow> time \<Rightarrow>
   idemdb \<times> appdb \<Rightarrow> http_reply \<times> (idemdb \<times> appdb)"
where
  "Mount render jsonb ttl ps cand key q t sd =
     (let h = (\<lambda>d. map_prod render id (serve ps cand q t d)) in
      case route_group q of
        None \<Rightarrow> (case sd of (s, d) \<Rightarrow> let (r, d') = h d in (r, (s, d')))
      | Some g \<Rightarrow> Idempotency (Idem_Lookup t) (Idem_Save jsonb ttl t)
                    \<lparr>ik_CandidateID = cand, ik_Key = key, ik_RouteGroup = g\<rparr> h sd)"

text \<open>Requests with the value of their \<open>Idempotency-Key\<close> header, in order.\<close>

fun mount_all ::
  "(response \<Rightarrow> http_reply) \<Rightarrow> (string \<Rightarrow> string option) \<Rightarrow> duration \<Rightarrow> (string \<Rightarrow> duration \<Rightarrow> app_error + string) \<Rightarrow>
   (string \<times> (string \<times> request \<times> time)) list \<Rightarrow> idemdb \<times> appdb \<Rightarrow> idemdb \<times> appdb"
where
  "mount_all render jsonb ttl ps [] sd = sd"
| "mount_all render jsonb ttl ps ((key, (c, q, t)) # rest) sd =
     mount_all render jsonb ttl ps rest (snd (Mount render jsonb ttl ps c key q t sd))"

text \<open>
  A request is answered by its handler, by the middleware's error, or with a response that is stored
  under its own candidate, key and route group; only the handler touches the application tables.
\<close>

lemma Mount_cases:
  assumes "Mount render jsonb ttl ps c key q t (s, d) = (r, (s', d'))"
  shows "(r = render (fst (serve ps c q t d)) \<and> d' = snd (serve ps c q t d)) \<or>
    (d' = d \<and> (r = lookup_failed \<or> (\<exists>g p s1. route_group q = Some g \<and> r = replay p \<and>
      Idem_Lookup t \<lparr>ik_CandidateID = c, ik_Key = key, ik_RouteGroup = g\<rparr> s = (Inr (Some p), s1))))"
  using assms
  by (cases "route_group q"; cases "serve ps c q t d")
    (auto simp: Mount_def Idempotency_def split: prod.splits sum.splits option.splits if_splits)

lemma mount_all_serves:
  "\<exists>rs. subseq rs (map snd reqs) \<and> snd (mount_all render jsonb ttl ps reqs (s, d)) = serve_all ps rs d"
proof (induction reqs arbitrary: s d)
  case (Cons x reqs)
  obtain key c q t where x: "x = (key, (c, q, t))" by (metis surj_pair)
  obtain r s' d' where m: "Mount render jsonb ttl ps c key q t (s, d) = (r, (s', d'))" by (metis surj_pair)
  from Cons.IH[of s' d'] obtain rs where rs: "subseq rs (map snd reqs)"
    "snd (mount_all render jsonb ttl ps reqs (s', d')) = serve_all ps rs d'" by blast
  from Mount_cases[OF m] consider "d' = snd (serve ps c q t d)" | "d' = d" by blast
  then show ?case
  proof cases
    case 1
    with rs x m have "subseq ((c, q, t) # rs) (map snd (x # reqs))"
      "snd (mount_all render jsonb ttl ps (x # reqs) (s, d)) = serve_all ps ((c, q, t) # rs) d" by simp_all
    then show ?thesis by blast
  next
    case 2
    with rs x m have "subseq rs (map snd (x # reqs))"
      "snd (mount_all render jsonb ttl ps (x # reqs) (s, d)) = serve_all ps rs d" by (auto intro: list_emb_Cons)
    then show ?thesis by blast
  qed
qed (auto intro: exI[of _ "[]"])

text \<open>The invariant of the service and the isolation of its candidates, for the mounted routes.\<close>

lemma mount_all_inv: "service_inv (snd (mount_all render jsonb ttl ps reqs (s, empty_db fs)))"
  using mount_all_serves[of reqs render jsonb ttl ps s "empty_db fs"] serve_all_inv[OF empty_db_inv] by metis

lemma Mount_foreign_view:
  assumes "service_inv d"
  shows "foreign_view c (snd (snd (Mount render jsonb ttl ps c key q t (s, d)))) = foreign_view c d"
proof -
  obtain r s' d' where m: "Mount render jsonb ttl ps c key q t (s, d) = (r, (s', d'))" by (metis surj_pair)
  from Mount_cases[OF m] owned_run_foreign[OF serve_run assms, of c ps q t] m show ?thesis by auto
qed

end
