(* ===== verification/Sql.thy ===== *)
theory Sql
  imports Prelude
begin

text \<open>
  Programs over a transactional database.

  A program reads and updates the tables \<open>'s\<close> and consumes the outcomes of the statements
  it runs (\<open>Prelude\<close>); it returns an error or a value.  \<open>sql_stmt\<close> is one statement: it
  fails without effect when the next outcome says so, and otherwise runs the query, which
  may itself report a constraint violation.  \<open>transaction\<close> is
  \<open>db.Transaction(func(tx) error)\<close>: an error of the body or of the commit discards every
  change of the body.

  The locale \<open>sql_preorder\<close> is the interface of a relation between the tables before and
  after a program (an invariant kept, a table that only grows): the combinators respect
  it when their parts do.
\<close>

section \<open>Programs\<close>

datatype go_error =
    ErrDB
  | ErrConstraint string
  | ErrNew string
  | ErrWrap string go_error
  | ErrWith go_error string

text \<open>\<open>ErrWrap msg e\<close> is \<open>fmt.Errorf("msg: %w", e)\<close>, \<open>ErrWith e msg\<close> is \<open>fmt.Errorf("%w: msg", e)\<close>.\<close>

fun Error :: "go_error \<Rightarrow> string" where
  "Error ErrDB = ''database error''"
| "Error (ErrConstraint c) = ''violates constraint '' @ c"
| "Error (ErrNew msg) = msg"
| "Error (ErrWrap msg e) = msg @ '': '' @ Error e"
| "Error (ErrWith e msg) = Error e @ '': '' @ msg"

fun errors_Is :: "go_error \<Rightarrow> go_error \<Rightarrow> bool" where
  "errors_Is (ErrWrap msg e) target \<longleftrightarrow> ErrWrap msg e = target \<or> errors_Is e target"
| "errors_Is (ErrWith e msg) target \<longleftrightarrow> ErrWith e msg = target \<or> errors_Is e target"
| "errors_Is e target \<longleftrightarrow> e = target"

type_synonym 's dbstate = "'s \<times> bool list"
type_synonym ('s, 'a) sql = "'s dbstate \<Rightarrow> (go_error + 'a) \<times> 's dbstate"

definition sql_return :: "'a \<Rightarrow> ('s, 'a) sql" where
  "sql_return x = (\<lambda>z. (Inr x, z))"

definition sql_raise :: "go_error \<Rightarrow> ('s, 'a) sql" where
  "sql_raise e = (\<lambda>z. (Inl e, z))"

definition sql_bind :: "('s, 'a) sql \<Rightarrow> ('a \<Rightarrow> ('s, 'b) sql) \<Rightarrow> ('s, 'b) sql" where
  "sql_bind m k = (\<lambda>z. case m z of (Inl e, z') \<Rightarrow> (Inl e, z') | (Inr x, z') \<Rightarrow> k x z')"

text \<open>\<open>fmt.Errorf("msg: %w", err)\<close> on the error path.\<close>

definition sql_wrap :: "string \<Rightarrow> ('s, 'a) sql \<Rightarrow> ('s, 'a) sql" where
  "sql_wrap msg m = (\<lambda>z. case m z of (Inl e, z') \<Rightarrow> (Inl (ErrWrap msg e), z') | r \<Rightarrow> r)"

definition sql_stmt :: "('s \<Rightarrow> (go_error + 'a) \<times> 's) \<Rightarrow> ('s, 'a) sql" where
  "sql_stmt q = (\<lambda>(s, fs). case next_fault fs of
      (True, fs') \<Rightarrow> (Inl ErrDB, (s, fs'))
    | (False, fs') \<Rightarrow> (case q s of (Inl e, s') \<Rightarrow> (Inl e, (s, fs')) | (Inr x, s') \<Rightarrow> (Inr x, (s', fs'))))"

definition sql_query :: "('s \<Rightarrow> 'a) \<Rightarrow> ('s, 'a) sql" where
  "sql_query q = sql_stmt (\<lambda>s. (Inr (q s), s))"

definition sql_exec :: "('s \<Rightarrow> 's) \<Rightarrow> ('s, unit) sql" where
  "sql_exec f = sql_stmt (\<lambda>s. (Inr (), f s))"

definition transaction :: "('s, 'a) sql \<Rightarrow> ('s, 'a) sql" where
  "transaction m = (\<lambda>(s, fs). case m (s, fs) of
      (Inl e, (_, fs')) \<Rightarrow> (Inl e, (s, fs'))
    | (Inr x, (s', fs')) \<Rightarrow> (case next_fault fs' of
        (True, fs'') \<Rightarrow> (Inl ErrDB, (s, fs''))
      | (False, fs'') \<Rightarrow> (Inr x, (s', fs''))))"

text \<open>
  An error that the caller inspects or drops (\<open>_ = f()\<close>), and a \<open>for range\<close> loop that returns
  on the first error.
\<close>

definition sql_try :: "('s, 'a) sql \<Rightarrow> ('s, go_error + 'a) sql" where
  "sql_try m = (\<lambda>z. case m z of (r, z') \<Rightarrow> (Inr r, z'))"

fun sql_map :: "('a \<Rightarrow> ('s, 'b) sql) \<Rightarrow> 'a list \<Rightarrow> ('s, 'b list) sql" where
  "sql_map f [] = sql_return []"
| "sql_map f (x # xs) = sql_bind (f x) (\<lambda>y. sql_bind (sql_map f xs) (\<lambda>ys. sql_return (y # ys)))"

text \<open>The tables after a program, and the program on a database that works.\<close>

definition tables_after :: "('s, 'a) sql \<Rightarrow> 's dbstate \<Rightarrow> 's" where
  "tables_after m z = fst (snd (m z))"

lemma tables_after_wrap [simp]: "tables_after (sql_wrap msg m) z = tables_after m z"
  by (auto simp: tables_after_def sql_wrap_def split: prod.splits sum.splits)

lemma tables_after_bind_return [simp]: "tables_after (sql_bind m (\<lambda>x. sql_return (f x))) z = tables_after m z"
  by (auto simp: tables_after_def sql_bind_def sql_return_def split: prod.splits sum.splits)

lemma tables_after_try [simp]: "tables_after (sql_try m) z = tables_after m z"
  by (simp add: tables_after_def sql_try_def split: prod.splits)

lemma tables_after_exec: "tables_after (sql_exec f) z = fst z \<or> tables_after (sql_exec f) z = f (fst z)"
  by (auto simp: tables_after_def sql_exec_def sql_stmt_def split: prod.splits bool.splits)

text \<open>A query whose error the program inspects.\<close>

lemma tables_after_try_query:
  "tables_after (sql_bind (sql_try (sql_wrap msg (sql_query q))) k) (s, fs) =
     (case next_fault fs of (b, fs') \<Rightarrow> tables_after (k (if b then Inl (ErrWrap msg ErrDB) else Inr (q s))) (s, fs'))"
  by (auto simp: tables_after_def sql_bind_def sql_try_def sql_wrap_def sql_query_def sql_stmt_def split: prod.splits bool.splits)

lemma tables_after_run: "m z = (x, z') \<Longrightarrow> tables_after m z = fst z'"
  by (simp add: tables_after_def)

section \<open>Evaluation when every statement succeeds\<close>

named_theorems sql_simps

lemma sql_return_apply [sql_simps]: "sql_return x z = (Inr x, z)"
  by (simp add: sql_return_def)

lemma sql_raise_apply [sql_simps]: "sql_raise e z = (Inl e, z)"
  by (simp add: sql_raise_def)

lemma sql_bind_apply [sql_simps]:
  "sql_bind m k z = (case m z of (Inl e, z') \<Rightarrow> (Inl e, z') | (Inr x, z') \<Rightarrow> k x z')"
  by (simp add: sql_bind_def)

lemma sql_wrap_apply [sql_simps]:
  "sql_wrap msg m z = (case m z of (Inl e, z') \<Rightarrow> (Inl (ErrWrap msg e), z') | (Inr x, z') \<Rightarrow> (Inr x, z'))"
  by (auto simp: sql_wrap_def split: prod.splits sum.splits)

lemma sql_stmt_ok [sql_simps]:
  "sql_stmt q (s, []) = (case q s of (Inl e, s') \<Rightarrow> (Inl e, (s, [])) | (Inr x, s') \<Rightarrow> (Inr x, (s', [])))"
  by (simp add: sql_stmt_def)

lemma sql_query_ok [sql_simps]: "sql_query q (s, []) = (Inr (q s), (s, []))"
  by (simp add: sql_query_def sql_stmt_ok)

lemma sql_exec_ok [sql_simps]: "sql_exec f (s, []) = (Inr (), (f s, []))"
  by (simp add: sql_exec_def sql_stmt_ok)

lemma transaction_apply [sql_simps]:
  "transaction m (s, fs) = (case m (s, fs) of
      (Inl e, (_, fs')) \<Rightarrow> (Inl e, (s, fs'))
    | (Inr x, (s', fs')) \<Rightarrow> (case next_fault fs' of
        (True, fs'') \<Rightarrow> (Inl ErrDB, (s, fs''))
      | (False, fs'') \<Rightarrow> (Inr x, (s', fs''))))"
  by (simp add: transaction_def)

lemma sql_try_apply [sql_simps]: "sql_try m z = (Inr (fst (m z)), snd (m z))"
  by (simp add: sql_try_def split: prod.splits)

section \<open>Atomicity\<close>

lemma transaction_error:
  "transaction m (s, fs) = (Inl e, (s', fs')) \<Longrightarrow> s' = s"
  by (auto simp: transaction_def split: prod.splits sum.splits bool.splits)

lemma transaction_success:
  assumes "transaction m (s, fs) = (Inr x, (s', fs'))"
  obtains fs'' where "m (s, fs) = (Inr x, (s', fs''))"
  using assms by (auto simp: transaction_def split: prod.splits sum.splits bool.splits)

lemma transaction_cases:
  assumes "transaction m (s, fs) = (x, (s', fs'))"
  obtains (rollback) e where "x = Inl e" "s' = s"
  | (commit) y fs'' where "x = Inr y" "m (s, fs) = (Inr y, (s', fs''))"
  using assms by (auto simp: transaction_def split: prod.splits sum.splits bool.splits)

section \<open>Reading a successful program backwards\<close>

lemma sql_bind_InrE:
  assumes "sql_bind m k z = (Inr y, z')"
  obtains x z1 where "m z = (Inr x, z1)" "k x z1 = (Inr y, z')"
  using assms by (auto simp: sql_bind_def split: prod.splits sum.splits)

lemma sql_bind_cases:
  assumes "sql_bind m k z = (x, z')"
  obtains (first) e where "m z = (Inl e, z')" "x = Inl e" | (then_) y z1 where "m z = (Inr y, z1)" "k y z1 = (x, z')"
  using assms by (auto simp: sql_bind_def split: prod.splits sum.splits)

lemma sql_try_InrD: "sql_try m z = (Inr y, z') \<Longrightarrow> m z = (y, z')"
  by (auto simp: sql_try_def split: prod.splits)

lemma sql_wrap_Inr: "sql_wrap msg m z = (Inr y, z') \<longleftrightarrow> m z = (Inr y, z')"
  by (auto simp: sql_wrap_def split: prod.splits sum.splits)

lemma sql_stmt_InrD: "sql_stmt q z = (Inr y, z') \<Longrightarrow> q (fst z) = (Inr y, fst z')"
  by (auto simp: sql_stmt_def split: prod.splits sum.splits bool.splits)

lemma sql_exec_InrD: "sql_exec f z = (Inr y, z') \<Longrightarrow> fst z' = f (fst z)"
  by (auto simp: sql_exec_def dest: sql_stmt_InrD)

lemma sql_query_InrD: "sql_query q z = (Inr y, z') \<Longrightarrow> y = q (fst z) \<and> fst z' = fst z"
  by (auto simp: sql_query_def dest: sql_stmt_InrD)

lemma sql_stmt_cases:
  assumes "sql_stmt q (s, fs) = (x, (s', fs'))"
  obtains (failed) e where "x = Inl e" "s' = s" | (ran) y where "x = Inr y" "q s = (Inr y, s')"
  using assms by (auto simp: sql_stmt_def split: prod.splits sum.splits bool.splits)

section \<open>Rows that are only added and updated in place\<close>

definition rows_evolve :: "('r \<Rightarrow> 'r \<Rightarrow> bool) \<Rightarrow> 'r list \<Rightarrow> 'r list \<Rightarrow> bool" where
  "rows_evolve E xs ys \<longleftrightarrow> (\<exists>zs ws. ys = zs @ ws \<and> list_all2 E xs zs)"

lemma rows_evolve_refl: "(\<And>r. E r r) \<Longrightarrow> rows_evolve E xs xs"
  unfolding rows_evolve_def by (rule exI[of _ xs], rule exI[of _ "[]"]) (simp add: list.rel_refl)

lemma rows_evolve_trans:
  assumes "rows_evolve E xs ys" and "rows_evolve E ys zs"
    and "\<And>a b c. E a b \<Longrightarrow> E b c \<Longrightarrow> E a c"
  shows "rows_evolve E xs zs"
proof -
  from assms(1) obtain y1 y2 where y: "ys = y1 @ y2" "list_all2 E xs y1"
    by (auto simp: rows_evolve_def)
  from assms(2) obtain z w where z: "zs = z @ w" "list_all2 E ys z" by (auto simp: rows_evolve_def)
  from y z(2) obtain z1 z2 where "z = z1 @ z2" "list_all2 E y1 z1"
    by (auto simp: list_all2_append1)
  with y z(1) show ?thesis unfolding rows_evolve_def
    using list_all2_trans[of E E E xs y1 z1] assms(3) by auto
qed

lemma rows_evolve_append: "(\<And>r. E r r) \<Longrightarrow> rows_evolve E xs (xs @ ws)"
  unfolding rows_evolve_def by (rule exI[of _ xs], rule exI[of _ ws]) (simp add: list.rel_refl)

lemma rows_evolve_update:
  assumes "\<And>r. E r r" and "\<And>r. r \<in> set xs \<Longrightarrow> P r \<Longrightarrow> E r (f r)"
  shows "rows_evolve E xs (update_where P f xs)"
  unfolding rows_evolve_def
  by (rule exI[of _ "update_where P f xs"], rule exI[of _ "[]"])
    (use assms in \<open>auto simp: update_where_def list_all2_conv_all_nth\<close>)

lemma rows_evolve_mem:
  assumes "rows_evolve E xs ys" and "r \<in> set xs"
  obtains r' where "r' \<in> set ys" "E r r'"
proof -
  from assms(1) obtain zs ws where "ys = zs @ ws" "list_all2 E xs zs" by (auto simp: rows_evolve_def)
  moreover from this(2) assms(2) have "\<exists>r' \<in> set zs. E r r'"
    by (induction rule: list_all2_induct) auto
  ultimately show ?thesis using that by auto
qed

lemma rows_evolve_key:
  assumes "rows_evolve E xs ys" and "\<And>a b. E a b \<Longrightarrow> k b = k a" and "v \<in> k ` set xs"
  shows "v \<in> k ` set ys"
proof -
  from assms(3) obtain r where r: "r \<in> set xs" "v = k r" by blast
  from rows_evolve_mem[OF assms(1) r(1)] obtain r' where "r' \<in> set ys" "E r r'" .
  with assms(2)[of r r'] r(2) show ?thesis by (simp add: rev_image_eqI)
qed

section \<open>Relations between the tables before and after\<close>

definition preserves :: "('s \<Rightarrow> 's \<Rightarrow> bool) \<Rightarrow> ('s, 'a) sql \<Rightarrow> bool" where
  "preserves R m \<longleftrightarrow> (\<forall>z. R (fst z) (tables_after m z))"

lemma preservesD: "preserves R m \<Longrightarrow> R s (tables_after m (s, fs))"
  by (auto simp: preserves_def)

lemma preserves_run: "preserves R m \<Longrightarrow> m (s, fs) = (x, (s', fs')) \<Longrightarrow> R s s'"
  using preservesD[of R m s fs] by (simp add: tables_after_def)

locale sql_preorder =
  fixes R :: "'s \<Rightarrow> 's \<Rightarrow> bool"
  assumes R_refl: "R s s" and R_trans: "R s t \<Longrightarrow> R t u \<Longrightarrow> R s u"
begin

lemma preserves_return: "preserves R (sql_return x)"
  by (simp add: preserves_def tables_after_def sql_return_def R_refl)

lemma preserves_raise: "preserves R (sql_raise e)"
  by (simp add: preserves_def tables_after_def sql_raise_def R_refl)

lemma preserves_bind:
  assumes "preserves R m" and "\<And>x. preserves R (k x)"
  shows "preserves R (sql_bind m k)"
  unfolding preserves_def
proof
  fix z :: "'s dbstate"
  obtain x s' fs' where m: "m z = (x, (s', fs'))" by (metis prod.collapse)
  then have "R (fst z) s'" using preserves_run[OF assms(1)] by (metis prod.collapse)
  moreover have "R s' (tables_after (k y) (s', fs'))" for y using assms(2) by (rule preservesD)
  ultimately show "R (fst z) (tables_after (sql_bind m k) z)"
    using m R_trans by (cases x) (fastforce simp: tables_after_def sql_bind_def)+
qed

lemma preserves_wrap: "preserves R m \<Longrightarrow> preserves R (sql_wrap msg m)"
  by (auto simp: preserves_def tables_after_def sql_wrap_def split: prod.splits sum.splits)
    (metis fst_conv snd_conv)+

lemma preserves_stmt:
  assumes "\<And>s x s'. q s = (Inr x, s') \<Longrightarrow> R s s'"
  shows "preserves R (sql_stmt q)"
  using assms
  by (auto simp: preserves_def tables_after_def sql_stmt_def R_refl
      split: prod.splits sum.splits bool.splits)

lemma preserves_query: "preserves R (sql_query q)"
  unfolding sql_query_def by (rule preserves_stmt) (simp add: R_refl)

lemma preserves_exec: "(\<And>s. R s (f s)) \<Longrightarrow> preserves R (sql_exec f)"
  unfolding sql_exec_def by (rule preserves_stmt) auto

lemma preserves_transaction: "preserves R m \<Longrightarrow> preserves R (transaction m)"
  by (auto simp: preserves_def tables_after_def transaction_def R_refl
      split: prod.splits sum.splits bool.splits) (metis fst_conv snd_conv)+

lemma preserves_if: "preserves R m \<Longrightarrow> preserves R n \<Longrightarrow> preserves R (if b then m else n)"
  by simp

lemma preserves_try: "preserves R m \<Longrightarrow> preserves R (sql_try m)"
  by (simp add: preserves_def tables_after_def sql_try_apply)

lemma preserves_map: "(\<And>x. x \<in> set xs \<Longrightarrow> preserves R (f x)) \<Longrightarrow> preserves R (sql_map f xs)"
  by (induction xs) (auto intro!: preserves_return preserves_bind)

lemma preserves_option:
  "preserves R n \<Longrightarrow> (\<And>x. preserves R (m x)) \<Longrightarrow> preserves R (case v of None \<Rightarrow> n | Some x \<Rightarrow> m x)"
  by (cases v) auto

lemma preserves_sum:
  "(\<And>e. preserves R (n e)) \<Longrightarrow> (\<And>x. preserves R (m x)) \<Longrightarrow> preserves R (case v of Inl e \<Rightarrow> n e | Inr x \<Rightarrow> m x)"
  by (cases v) auto

text \<open>Steps that depend on what the program has read.\<close>

lemma preserves_query_bind:
  assumes "\<And>s fs. R s (tables_after (k (q s)) (s, fs))"
  shows "preserves R (sql_bind (sql_query q) k)"
  using assms unfolding preserves_def
  by (auto simp: tables_after_def sql_bind_def sql_query_def sql_stmt_def R_refl split: prod.splits bool.splits)

lemma after_exec_bind:
  assumes "R s (f s)" and "\<And>x. preserves R (k x)"
  shows "R s (tables_after (sql_bind (sql_exec f) k) (s, fs))"
proof -
  have "R (f s) (tables_after (k ()) (f s, fs'))" for fs' using assms(2) by (rule preservesD)
  with assms(1) show ?thesis
    by (auto simp: tables_after_def sql_bind_def sql_exec_def sql_stmt_def R_refl split: prod.splits bool.splits intro: R_trans)
qed

lemma after_try_bind:
  assumes "\<And>x s' fs'. m (s, fs) = (x, (s', fs')) \<Longrightarrow> R s s' \<and> R s' (tables_after (k x) (s', fs'))"
  shows "R s (tables_after (sql_bind (sql_try m) k) (s, fs))"
proof -
  obtain x s' fs' where "m (s, fs) = (x, (s', fs'))" by (rule prod_cases3)
  with assms[OF this] show ?thesis by (auto simp: tables_after_def sql_bind_def sql_try_def intro: R_trans)
qed

lemma after_bind:
  assumes "\<And>x s' fs'. m (s, fs) = (x, (s', fs')) \<Longrightarrow> R s s' \<and> (\<forall>y. x = Inr y \<longrightarrow> R s' (tables_after (k y) (s', fs')))"
  shows "R s (tables_after (sql_bind m k) (s, fs))"
proof -
  obtain x s' fs' where "m (s, fs) = (x, (s', fs'))" by (rule prod_cases3)
  with assms[OF this] show ?thesis by (cases x) (auto simp: tables_after_def sql_bind_def intro: R_trans)
qed

lemma after_return: "R s (tables_after (sql_return x) (s, fs))" and after_raise: "R s (tables_after (sql_raise e) (s, fs))"
  by (simp_all add: tables_after_def sql_return_def sql_raise_def R_refl)

lemmas preserves_rules = preserves_return preserves_raise preserves_bind preserves_wrap
  preserves_query preserves_transaction preserves_if preserves_try preserves_map preserves_option preserves_sum

end

section \<open>A database that works keeps working\<close>

definition steady :: "('s, 'a) sql \<Rightarrow> bool" where
  "steady m \<longleftrightarrow> (\<forall>d. snd (snd (m (d, []))) = [])"

lemma steadyD: "steady m \<Longrightarrow> m (d, []) = (x, z) \<Longrightarrow> snd z = []"
  by (metis snd_conv steady_def)

lemma steady_return: "steady (sql_return x)" and steady_raise: "steady (sql_raise e)"
  and steady_query: "steady (sql_query q)" and steady_exec: "steady (sql_exec f)"
  by (simp_all add: steady_def sql_simps)

lemma steady_stmt: "steady (sql_stmt q)"
  by (auto simp: steady_def sql_simps split: prod.splits sum.splits)

lemma steady_wrap: "steady m \<Longrightarrow> steady (sql_wrap msg m)"
  by (auto simp: steady_def sql_simps split: prod.splits sum.splits) (metis snd_conv)+

lemma steady_bind:
  assumes "steady m" and "\<And>x. steady (k x)"
  shows "steady (sql_bind m k)"
  unfolding steady_def
proof
  fix d
  obtain x d' fs' where m: "m (d, []) = (x, (d', fs'))" by (metis prod.collapse)
  with assms(1) have "fs' = []" using steadyD by fastforce
  with m assms(2) show "snd (snd (sql_bind m k (d, []))) = []"
    by (cases x) (auto simp: sql_simps steady_def)
qed

lemma steady_transaction:
  assumes "steady m"
  shows "steady (transaction m)"
  unfolding steady_def
proof
  fix d
  obtain x d' fs' where m: "m (d, []) = (x, (d', fs'))" by (metis prod.collapse)
  with assms have "fs' = []" using steadyD by fastforce
  with m show "snd (snd (transaction m (d, []))) = []"
    by (cases x) (auto simp: sql_simps)
qed

lemma steady_if: "steady m \<Longrightarrow> steady n \<Longrightarrow> steady (if b then m else n)"
  by simp

lemmas steady_rules = steady_return steady_raise steady_query steady_exec steady_stmt steady_wrap
  steady_bind steady_transaction steady_if

end
