(* ===== verification/Domain.thy ===== *)
theory Domain
  imports Prelude
begin

text \<open>
  Slugs and hard keys of \<open>pkg/domain/models.go\<close>, and the public slug of
  \<open>pkg/jobqueue/slug.go\<close>.

  Strings are bytes; \<open>strings.ToLower\<close> and \<open>strings.Fields\<close> are modelled on ASCII text.
  The digest of \<open>crypto/sha256\<close> in hexadecimal is the argument \<open>sha256hex\<close>.
\<close>

section \<open>Text helpers\<close>

definition to_lower :: "char \<Rightarrow> char" where
  "to_lower ch = (let n = (of_char ch :: nat) in if 65 \<le> n \<and> n \<le> 90 then char_of (n + 32) else ch)"

definition ToLower :: "string \<Rightarrow> string" where
  "ToLower s = map to_lower s"

definition Trim_char :: "char \<Rightarrow> string \<Rightarrow> string" where
  "Trim_char c s = rev (dropWhile (\<lambda>x. x = c) (rev (dropWhile (\<lambda>x. x = c) s)))"

text \<open>\<open>strings.NewReplacer\<close> with one-byte patterns.\<close>

definition Replace_chars :: "(char \<Rightarrow> string option) \<Rightarrow> string \<Rightarrow> string" where
  "Replace_chars f s = concat (map (\<lambda>c. case f c of None \<Rightarrow> [c] | Some r \<Rightarrow> r) s)"

fun Contains_dashes :: "string \<Rightarrow> bool" where
  "Contains_dashes (a # b # s) \<longleftrightarrow> a = CHR ''-'' \<and> b = CHR ''-'' \<or> Contains_dashes (b # s)"
| "Contains_dashes _ \<longleftrightarrow> False"

text \<open>\<open>strings.ReplaceAll(s, "--", "-")\<close>: non-overlapping occurrences from the left.\<close>

fun ReplaceAll_dashes :: "string \<Rightarrow> string" where
  "ReplaceAll_dashes (a # b # s) =
     (if a = CHR ''-'' \<and> b = CHR ''-'' then CHR ''-'' # ReplaceAll_dashes s
      else a # ReplaceAll_dashes (b # s))"
| "ReplaceAll_dashes s = s"

lemma ReplaceAll_dashes_le: "length (ReplaceAll_dashes s) \<le> length s"
  by (induction s rule: ReplaceAll_dashes.induct) auto

lemma ReplaceAll_dashes_shorter: "Contains_dashes s \<Longrightarrow> length (ReplaceAll_dashes s) < length s"
proof (induction s rule: ReplaceAll_dashes.induct)
  case (1 a b s)
  then show ?case using ReplaceAll_dashes_le[of s] by (auto simp: less_Suc_eq_le)
qed auto

function collapse_dashes :: "string \<Rightarrow> string" where
  "collapse_dashes s = (if Contains_dashes s then collapse_dashes (ReplaceAll_dashes s) else s)"
  by auto
termination by (relation "measure length") (auto simp: ReplaceAll_dashes_shorter)

declare collapse_dashes.simps [simp del]

fun Fields_from :: "string \<Rightarrow> string \<Rightarrow> string list" where
  "Fields_from w [] = (if w = [] then [] else [rev w])"
| "Fields_from w (c # s) =
     (if isSpace c then (if w = [] then Fields_from [] s else rev w # Fields_from [] s)
      else Fields_from (c # w) s)"

definition Fields :: "string \<Rightarrow> string list" where
  "Fields s = Fields_from [] s"

fun Join :: "string \<Rightarrow> string list \<Rightarrow> string" where
  "Join sep [] = []"
| "Join sep [s] = s"
| "Join sep (s # ss) = s @ sep @ Join sep ss"

section \<open>Slugs\<close>

definition slug_replacer :: "char \<Rightarrow> string option" where
  "slug_replacer c =
     (if c \<in> {CHR '' '', CHR ''/'', CHR 0x5C, CHR ''.''} then Some ''-''
      else if c \<in> {CHR '','', CHR 0x27, CHR 0x22, CHR ''('', CHR '')'', CHR ''%''} then Some []
      else if c = CHR ''&'' then Some ''and''
      else if c = CHR ''+'' then Some ''plus'' else None)"

definition Slugify :: "string \<Rightarrow> string" where
  "Slugify s =
     Trim_char (CHR ''-'') (collapse_dashes (Replace_chars slug_replacer (ToLower (TrimSpace s))))"

definition BuildSlug :: "string \<Rightarrow> string \<Rightarrow> string \<Rightarrow> string \<Rightarrow> string" where
  "BuildSlug kind title issuer hash =
     (let connector = (if kind \<in> {''tender'', ''funding''} then ''from'' else ''at'');
          slug = Slugify title @ ''-'' @ connector @ ''-'' @ Slugify issuer @ ''-'' @ hash
      in if length slug > 250 then take 250 slug else slug)"

definition makeSlug :: "(string \<Rightarrow> string) \<Rightarrow> string \<Rightarrow> string \<Rightarrow> string \<Rightarrow> string \<Rightarrow> string" where
  "makeSlug sha256hex kind title issuer i = BuildSlug kind title issuer (take 8 (sha256hex i))"

definition token_replacer :: "char \<Rightarrow> string option" where
  "token_replacer c =
     (if c \<in> {CHR '','', CHR ''.'', CHR ''/'', CHR ''-'', CHR ''_''} then Some '' ''
      else if c \<in> {CHR ''('', CHR '')''} then Some [] else None)"

definition NormalizeToken :: "string \<Rightarrow> string" where
  "NormalizeToken s = Join '' '' (Fields (Replace_chars token_replacer (ToLower (TrimSpace s))))"

definition BuildHardKey :: "(string \<Rightarrow> string) \<Rightarrow> string \<Rightarrow> string \<Rightarrow> string \<Rightarrow> string \<Rightarrow> string" where
  "BuildHardKey sha256hex company title location postingID =
     sha256hex (Join ''|'' [NormalizeToken company, NormalizeToken title,
                            NormalizeToken location, NormalizeToken postingID])"

section \<open>Lemmas\<close>

lemma collapse_dashes_none: "\<not> Contains_dashes (collapse_dashes s)"
  by (induction s rule: collapse_dashes.induct) (subst collapse_dashes.simps, simp)

lemma Contains_dashes_append: "Contains_dashes xs \<or> Contains_dashes ys \<Longrightarrow> Contains_dashes (xs @ ys)"
  by (induction xs rule: Contains_dashes.induct) (cases ys; auto)+

lemma Contains_dashes_dropWhile: "Contains_dashes (dropWhile P s) \<Longrightarrow> Contains_dashes s"
  using Contains_dashes_append[of "takeWhile P s" "dropWhile P s"] by simp

lemma Contains_dashes_rev: "Contains_dashes (rev s) = Contains_dashes s"
proof -
  have snoc: "Contains_dashes (s @ [b, a]) \<longleftrightarrow>
      a = CHR ''-'' \<and> b = CHR ''-'' \<or> Contains_dashes (s @ [b])" for s a b
    by (induction s rule: Contains_dashes.induct) auto
  have "Contains_dashes (rev s) = Contains_dashes s"
  proof (induction s rule: Contains_dashes.induct)
    case (1 a b s)
    then show ?case using snoc[of "rev s" b a] by simp
  qed auto
  then show ?thesis .
qed

lemma Slugify_no_dashes: "\<not> Contains_dashes (Slugify s)"
  unfolding Slugify_def Trim_char_def
  using collapse_dashes_none Contains_dashes_dropWhile Contains_dashes_rev by metis

lemma BuildSlug_length: "length (BuildSlug kind title issuer hash) \<le> 250"
  by (auto simp: BuildSlug_def Let_def min_def)

lemma BuildSlug_long:
  assumes "250 \<le> length (Slugify title)"
  shows "BuildSlug kind title issuer hash = take 250 (Slugify title)"
  using assms by (simp add: BuildSlug_def Let_def)

end
