(* ===== verification/Jobqueue.thy ===== *)
theory Jobqueue
  imports Sql Domain
begin

text \<open>
  The ingestion queue of \<open>pkg/jobqueue\<close>: leased work in Postgres, its audit log, and the
  atomic write of canonical opportunities.

  \<open>jobdb\<close> holds the five tables.  A \<open>Store\<close> has a crawl database and, in dual mode, a
  separate product database; \<open>jobstore\<close> holds their states.  Identifiers drawn with
  \<open>xid.New()\<close> and the transaction time \<open>now()\<close> are arguments.  A payload or a JSON
  document is its parsed value; \<open>None\<close> stands for bytes that are not JSON.  The digest of
  \<open>crypto/sha256\<close> is the argument \<open>sha256hex\<close>.
\<close>

section \<open>Tables\<close>

definition QPending :: string where "QPending = ''pending''"
definition QProcessing :: string where "QProcessing = ''processing''"
definition QRetry :: string where "QRetry = ''retry''"
definition QProcessed :: string where "QProcessed = ''processed''"
definition QRejected :: string where "QRejected = ''rejected''"
definition QDead :: string where "QDead = ''dead''"

lemmas qstatus_defs = QPending_def QProcessing_def QRetry_def QProcessed_def QRejected_def QDead_def

lemma qstatus_distinct [simp]:
  "QPending \<noteq> QProcessing" "QPending \<noteq> QRetry" "QPending \<noteq> QProcessed" "QPending \<noteq> QDead"
  "QProcessing \<noteq> QPending" "QProcessing \<noteq> QRetry" "QProcessing \<noteq> QProcessed" "QProcessing \<noteq> QDead"
  "QRetry \<noteq> QPending" "QRetry \<noteq> QProcessing" "QRetry \<noteq> QProcessed" "QRetry \<noteq> QDead"
  "QProcessed \<noteq> QPending" "QProcessed \<noteq> QProcessing" "QProcessed \<noteq> QRetry" "QProcessed \<noteq> QDead"
  "QDead \<noteq> QPending" "QDead \<noteq> QProcessing" "QDead \<noteq> QRetry" "QDead \<noteq> QProcessed"
  by (simp_all add: qstatus_defs)

record QueueRecord =
  q_ID :: string
  q_VariantID :: string
  q_SourceID :: string
  q_CrawlRunID :: "string option"
  q_CrawlJobID :: "string option"
  q_IdempotencyKey :: string
  q_Payload :: goany
  q_Status :: string
  q_Attempt :: int
  q_AvailableAt :: time
  q_ClaimedAt :: "time option"
  q_LeaseExpiresAt :: "time option"
  q_ClaimedBy :: "string option"
  q_LastError :: "string option"
  q_CreatedAt :: time
  q_UpdatedAt :: time
  q_ProcessedAt :: "time option"

text \<open>A \<open>jsonb\<close> column holding what \<open>json.Marshal\<close> of a \<open>map[string]any\<close> gives.\<close>

datatype jsonb = JNull | JObject gomap | JArray "jsonb list"

text \<open>The operator \<open>||\<close> on \<open>jsonb\<close>.\<close>

fun jsonb_elems :: "jsonb \<Rightarrow> jsonb list" where
  "jsonb_elems (JArray xs) = xs"
| "jsonb_elems j = [j]"

fun jsonb_concat :: "jsonb \<Rightarrow> jsonb \<Rightarrow> jsonb" where
  "jsonb_concat (JObject a) (JObject b) = JObject (a ++ b)"
| "jsonb_concat x y = JArray (jsonb_elems x @ jsonb_elems y)"

record OpportunityRecord =
  o_CanonicalID :: string
  o_Slug :: string
  o_Kind :: string
  o_SourceID :: "string option"
  o_Title :: string
  o_Description :: "string option"
  o_HowToApply :: "string option"
  o_IssuingEntity :: "string option"
  o_Country :: "string option"
  o_Region :: "string option"
  o_City :: "string option"
  o_Remote :: bool
  o_ApplyURL :: string
  o_PostedAt :: "time option"
  o_Deadline :: "time option"
  o_Currency :: "string option"
  o_AmountMin :: "real option"
  o_AmountMax :: "real option"
  o_EmploymentType :: "string option"
  o_Seniority :: "string option"
  o_GeoScope :: "string option"
  o_Status :: string
  o_FirstSeenAt :: time
  o_LastSeenAt :: time
  o_Attributes :: jsonb
  o_QualityScore :: "real option"
  o_Hidden :: bool
  o_HiddenReason :: "string option"
  o_CreatedAt :: time
  o_UpdatedAt :: time
  o_Embedding :: "string option"

record OpportunityIdentityRecord =
  oi_HardKey :: string
  oi_CanonicalID :: string
  oi_CreatedAt :: time

record OpportunitySourceRecord =
  os_CanonicalID :: string
  os_SourceID :: string
  os_ExternalID :: string
  os_ApplyURL :: string
  os_ContentHash :: "string option"
  os_FirstSeenAt :: time
  os_LastSeenAt :: time
  os_LastCrawlRunID :: "string option"
  os_InactiveAfter :: "time option"
  os_Active :: bool

record IngestEventRecord =
  ie_EventID :: string
  ie_OccurredAt :: time
  ie_IngestID :: string
  ie_VariantID :: string
  ie_SourceID :: string
  ie_EventType :: string
  ie_Attempt :: int
  ie_Details :: goany

record jobdb =
  job_ingest_queue :: "QueueRecord list"
  job_ingest_events :: "IngestEventRecord list"
  opportunity_identities :: "OpportunityIdentityRecord list"
  opportunities :: "OpportunityRecord list"
  opportunity_sources :: "OpportunitySourceRecord list"

section \<open>The queue\<close>

record EnqueueRequest =
  rq_VariantID :: string
  rq_SourceID :: string
  rq_CrawlRunID :: string
  rq_CrawlJobID :: string
  rq_IdempotencyKey :: string
  rq_Payload :: "goany option"

definition queue_appendEvent ::
  "string \<Rightarrow> string \<Rightarrow> string \<Rightarrow> string \<Rightarrow> string \<Rightarrow> int \<Rightarrow> goany \<Rightarrow> time \<Rightarrow> (jobdb, unit) sql"
where
  "queue_appendEvent eventID ingestID variantID sourceID eventType attempt details now =
     sql_stmt (\<lambda>d.
       if list_ex (\<lambda>e. ie_EventID e = eventID \<and> ie_OccurredAt e = now) (job_ingest_events d)
       then (Inl (ErrConstraint ''job_ingest_events_pkey''), d)
       else (Inr (), d\<lparr>job_ingest_events := job_ingest_events d @
         [\<lparr>ie_EventID = eventID, ie_OccurredAt = now, ie_IngestID = ingestID,
           ie_VariantID = variantID, ie_SourceID = sourceID, ie_EventType = eventType,
           ie_Attempt = attempt, ie_Details = details\<rparr>]\<rparr>))"

definition q_active :: "QueueRecord \<Rightarrow> bool" where
  "q_active q \<longleftrightarrow> q_Status q \<in> {QPending, QRetry, QProcessing}"

definition pending_count :: "jobdb \<Rightarrow> int" where
  "pending_count d = int (length (filter q_active (job_ingest_queue d)))"

definition new_queue_row :: "string \<Rightarrow> EnqueueRequest \<Rightarrow> goany \<Rightarrow> time \<Rightarrow> QueueRecord" where
  "new_queue_row i r p now =
     \<lparr>q_ID = i, q_VariantID = rq_VariantID r, q_SourceID = rq_SourceID r,
      q_CrawlRunID = NULLIF_empty (rq_CrawlRunID r), q_CrawlJobID = NULLIF_empty (rq_CrawlJobID r),
      q_IdempotencyKey = rq_IdempotencyKey r, q_Payload = p, q_Status = QPending, q_Attempt = 0,
      q_AvailableAt = now, q_ClaimedAt = None, q_LeaseExpiresAt = None, q_ClaimedBy = None,
      q_LastError = None, q_CreatedAt = now, q_UpdatedAt = now, q_ProcessedAt = None\<rparr>"

text \<open>
  The insert of \<open>Enqueue\<close> returns the rows affected: none on a conflict of the
  idempotency key; any other duplicate key is an error.
\<close>

definition insert_queue :: "QueueRecord \<Rightarrow> jobdb \<Rightarrow> (go_error + nat) \<times> jobdb" where
  "insert_queue q d =
     (if list_ex (\<lambda>x. q_IdempotencyKey x = q_IdempotencyKey q) (job_ingest_queue d) then (Inr 0, d)
      else if list_ex (\<lambda>x. q_ID x = q_ID q) (job_ingest_queue d)
        then (Inl (ErrConstraint ''job_ingest_queue_pkey''), d)
      else if list_ex (\<lambda>x. q_VariantID x = q_VariantID q) (job_ingest_queue d)
        then (Inl (ErrConstraint ''job_ingest_queue_variant_id''), d)
      else (Inr 1, d\<lparr>job_ingest_queue := job_ingest_queue d @ [q]\<rparr>))"

definition ErrCapacity :: go_error where
  "ErrCapacity = ErrNew ''jobqueue: pending capacity exhausted''"

definition enqueue_insert ::
  "string \<Rightarrow> string \<Rightarrow> EnqueueRequest \<Rightarrow> goany \<Rightarrow> time \<Rightarrow> (jobdb, unit) sql"
where
  "enqueue_insert i ev r p now =
     sql_bind (sql_wrap ''enqueue job'' (sql_stmt (insert_queue (new_queue_row i r p now))))
       (\<lambda>n. if n = 0 then sql_return ()
            else queue_appendEvent ev i (rq_VariantID r) (rq_SourceID r) ''enqueued'' 0 (AMap []) now)"

definition Enqueue ::
  "int \<Rightarrow> string \<Rightarrow> string \<Rightarrow> EnqueueRequest \<Rightarrow> time \<Rightarrow> (jobdb, unit) sql"
where
  "Enqueue maxPending i ev r now =
     (case rq_Payload r of
        None \<Rightarrow> sql_raise (ErrNew ''jobqueue: invalid enqueue request'')
      | Some p \<Rightarrow>
          if rq_VariantID r = [] \<or> rq_SourceID r = [] \<or> rq_IdempotencyKey r = []
          then sql_raise (ErrNew ''jobqueue: invalid enqueue request'')
          else transaction
            (if maxPending > 0
             then sql_bind (sql_exec (\<lambda>d. d)) (\<lambda>_.
                  sql_bind (sql_query (\<lambda>d. list_ex (\<lambda>x. q_IdempotencyKey x = rq_IdempotencyKey r)
                                             (job_ingest_queue d))) (\<lambda>exists.
                  if exists then sql_return ()
                  else sql_bind (sql_query pending_count) (\<lambda>pending.
                    if pending \<ge> maxPending then sql_raise ErrCapacity
                    else enqueue_insert i ev r p now)))
             else enqueue_insert i ev r p now))"

definition RecordRejected ::
  "string \<Rightarrow> string \<Rightarrow> string \<Rightarrow> string \<Rightarrow> goany option \<Rightarrow> time \<Rightarrow> (jobdb, unit) sql"
where
  "RecordRejected ev i variantID sourceID details now =
     (case details of
        None \<Rightarrow> sql_raise (ErrNew ''json: unsupported value'')
      | Some b \<Rightarrow> queue_appendEvent ev i variantID sourceID ''rejected'' 0 b now)"

record Item =
  it_ID :: string
  it_VariantID :: string
  it_SourceID :: string
  it_CrawlRunID :: string
  it_CrawlJobID :: string
  it_Payload :: goany
  it_Attempt :: int

text \<open>
  \<open>Claim\<close>: \<open>locked\<close> lists the rows other transactions hold locked, which
  \<open>SKIP LOCKED\<close> passes over.  The two \<open>COALESCE\<close> columns of its \<open>RETURNING\<close> clause have no alias, so
  they match no field of \<open>Item\<close> and the scan leaves \<open>CrawlRunID\<close> and \<open>CrawlJobID\<close> empty.
\<close>

definition claimable :: "time \<Rightarrow> QueueRecord \<Rightarrow> bool" where
  "claimable now q \<longleftrightarrow>
     q_Status q \<in> {QPending, QRetry} \<and> q_AvailableAt q \<le> now \<or>
     q_Status q = QProcessing \<and> (case q_LeaseExpiresAt q of None \<Rightarrow> False | Some t \<Rightarrow> t < now)"

definition claim_limit :: "int \<Rightarrow> int" where
  "claim_limit n = (if n \<le> 0 then 100 else n)"

definition claim_lease :: "duration \<Rightarrow> duration" where
  "claim_lease l = (if l \<le> 0 then 2 * Minute else l)"

definition picked :: "string list \<Rightarrow> int \<Rightarrow> time \<Rightarrow> jobdb \<Rightarrow> QueueRecord list" where
  "picked locked limit now d =
     take (nat limit)
       (sort_key (\<lambda>q. (q_AvailableAt q, q_CreatedAt q))
         (filter (\<lambda>q. claimable now q \<and> q_ID q \<notin> set locked) (job_ingest_queue d)))"

definition claim_row :: "string \<Rightarrow> duration \<Rightarrow> time \<Rightarrow> QueueRecord \<Rightarrow> QueueRecord" where
  "claim_row owner lease now q =
     q\<lparr>q_Status := QProcessing, q_Attempt := q_Attempt q + 1, q_ClaimedAt := Some now,
       q_LeaseExpiresAt := Some (now + lease), q_ClaimedBy := Some owner, q_UpdatedAt := now\<rparr>"

definition item_of :: "QueueRecord \<Rightarrow> Item" where
  "item_of q =
     \<lparr>it_ID = q_ID q, it_VariantID = q_VariantID q, it_SourceID = q_SourceID q,
      it_CrawlRunID = [], it_CrawlJobID = [], it_Payload = q_Payload q, it_Attempt = q_Attempt q\<rparr>"

definition Claim ::
  "string list \<Rightarrow> string \<Rightarrow> int \<Rightarrow> duration \<Rightarrow> time \<Rightarrow> (jobdb, Item list) sql"
where
  "Claim locked owner limit lease now =
     sql_wrap ''claim jobs'' (sql_stmt (\<lambda>d.
       let ids = map q_ID (picked locked (claim_limit limit) now d);
           upd = claim_row owner (claim_lease lease) now
       in (Inr (map (item_of \<circ> upd) (filter (\<lambda>q. q_ID q \<in> set ids) (job_ingest_queue d))),
           d\<lparr>job_ingest_queue := update_where (\<lambda>q. q_ID q \<in> set ids) upd (job_ingest_queue d)\<rparr>)))"

record Stats =
  st_Pending :: int
  st_OldestAge :: duration

definition Stats_of :: "time \<Rightarrow> (jobdb, Stats) sql" where
  "Stats_of now =
     sql_query (\<lambda>d. let act = filter q_active (job_ingest_queue d) in
       \<lparr>st_Pending = int (length act),
        st_OldestAge = (if act = [] then 0 else now - Min (set (map q_CreatedAt act)))\<rparr>)"

definition Admit ::
  "int \<Rightarrow> duration \<Rightarrow> (int \<Rightarrow> int \<times> duration) option \<Rightarrow> int \<Rightarrow> time \<Rightarrow> jobdb dbstate \<Rightarrow> int \<times> duration"
where
  "Admit maxDepth oldestMax nxt want now z =
     (case fst (Stats_of now z) of
        Inl _ \<Rightarrow> (0, 30 * Second)
      | Inr stats \<Rightarrow>
          if (maxDepth > 0 \<and> st_Pending stats \<ge> maxDepth) \<or> (oldestMax > 0 \<and> st_OldestAge stats \<ge> oldestMax)
          then (0, 30 * Second)
          else (case nxt of Some f \<Rightarrow> f want | None \<Rightarrow> (want, 0)))"

text \<open>\<open>math.Min(math.Pow(2, float64(attempt)), 900)\<close> seconds; a negative power is a fraction.\<close>

definition retry_delay :: "int \<Rightarrow> duration" where
  "retry_delay attempt =
     (if attempt < 0 then Second div 2 ^ nat (- attempt)
      else min (2 ^ nat attempt) 900 * Second)"

text \<open>
  \<open>Retry\<close>: error texts are ASCII in the model, so cutting one at 2000 bytes never splits a character.
\<close>

definition Retry ::
  "string \<Rightarrow> Item \<Rightarrow> string \<Rightarrow> int \<Rightarrow> time \<Rightarrow> (jobdb, unit) sql"
where
  "Retry ev item cause maxAttempts now =
     (let maxAttempts = (if maxAttempts \<le> 0 then 10 else maxAttempts);
          (state, event) = (if it_Attempt item \<ge> maxAttempts then (QDead, ''dead'')
                            else (QRetry, ''retry_scheduled''));
          msg = take 2000 cause
      in transaction (sql_bind
           (sql_exec (\<lambda>d. d\<lparr>job_ingest_queue := update_where (\<lambda>q. q_ID q = it_ID item)
              (\<lambda>q. q\<lparr>q_Status := state, q_AvailableAt := now + retry_delay (it_Attempt item),
                     q_LeaseExpiresAt := None, q_ClaimedBy := None, q_LastError := Some msg,
                     q_UpdatedAt := now\<rparr>) (job_ingest_queue d)\<rparr>))
           (\<lambda>_. queue_appendEvent ev (it_ID item) (it_VariantID item) (it_SourceID item) event
                  (it_Attempt item) (AMap [(''error'', AStr msg)]) now)))"

section \<open>The catalog\<close>

record Canonical =
  c_CandidateID :: string
  c_HardKey :: string
  c_Kind :: string
  c_SourceID :: string
  c_ExternalID :: string
  c_Title :: string
  c_Description :: string
  c_HowToApply :: string
  c_IssuingEntity :: string
  c_Country :: string
  c_Region :: string
  c_City :: string
  c_ApplyURL :: string
  c_Currency :: string
  c_EmploymentType :: string
  c_Seniority :: string
  c_GeoScope :: string
  c_Remote :: bool
  c_AmountMin :: real
  c_AmountMax :: real
  c_PostedAt :: "time option"
  c_Deadline :: "time option"
  c_SeenAt :: time
  c_Attributes :: "gomap option"

definition has_active :: "OpportunitySourceRecord list \<Rightarrow> string \<Rightarrow> bool" where
  "has_active lineage cid \<longleftrightarrow> list_ex (\<lambda>s. os_CanonicalID s = cid \<and> os_Active s) lineage"

definition has_source :: "OpportunitySourceRecord list \<Rightarrow> string \<Rightarrow> string \<Rightarrow> bool" where
  "has_source lineage cid sid \<longleftrightarrow> list_ex (\<lambda>s. os_CanonicalID s = cid \<and> os_SourceID s = sid) lineage"

text \<open>The second statement of \<open>DeactivateSource\<close> and of \<open>ReconcileSource\<close>.\<close>

definition hide_orphans :: "string \<Rightarrow> string \<Rightarrow> time \<Rightarrow> jobdb \<Rightarrow> jobdb" where
  "hide_orphans sourceID reason now d =
     d\<lparr>opportunities := update_where
         (\<lambda>p. has_source (opportunity_sources d) (o_CanonicalID p) sourceID \<and>
              \<not> has_active (opportunity_sources d) (o_CanonicalID p))
         (\<lambda>p. p\<lparr>o_Hidden := True, o_HiddenReason := Some reason, o_UpdatedAt := now\<rparr>)
         (opportunities d)\<rparr>"

definition deactivate_tx :: "string \<Rightarrow> string \<Rightarrow> time \<Rightarrow> (jobdb, unit) sql" where
  "deactivate_tx sourceID reason now =
     transaction (sql_bind
       (sql_exec (\<lambda>d. d\<lparr>opportunity_sources := update_where (\<lambda>s. os_SourceID s = sourceID)
          (\<lambda>s. s\<lparr>os_Active := False\<rparr>) (opportunity_sources d)\<rparr>))
       (\<lambda>_. sql_exec (hide_orphans sourceID reason now)))"

definition not_observed :: string where
  "not_observed = ''not observed in latest full crawl''"

definition reconcile_tx :: "string \<Rightarrow> time \<Rightarrow> time \<Rightarrow> (jobdb, unit) sql" where
  "reconcile_tx sourceID crawlStartedAt now =
     transaction (sql_bind
       (sql_exec (\<lambda>d. d\<lparr>opportunity_sources := update_where
          (\<lambda>s. os_SourceID s = sourceID \<and> os_LastSeenAt s < crawlStartedAt)
          (\<lambda>s. s\<lparr>os_Active := False, os_InactiveAfter := Some crawlStartedAt\<rparr>)
          (opportunity_sources d)\<rparr>))
       (\<lambda>_. sql_exec (hide_orphans sourceID not_observed now)))"

definition embedding_tx :: "string \<Rightarrow> string \<Rightarrow> time \<Rightarrow> (jobdb, unit) sql" where
  "embedding_tx canonicalID lit now =
     sql_exec (\<lambda>d. d\<lparr>opportunities := update_where (\<lambda>p. o_CanonicalID p = canonicalID)
       (\<lambda>p. p\<lparr>o_Embedding := Some lit, o_UpdatedAt := now\<rparr>) (opportunities d)\<rparr>)"

text \<open>The four statements of \<open>productWrite\<close>.\<close>

definition upsert_identity :: "string \<Rightarrow> string \<Rightarrow> time \<Rightarrow> jobdb \<Rightarrow> (go_error + string) \<times> jobdb" where
  "upsert_identity hardKey candidateID now d =
     (case List.find (\<lambda>r. oi_HardKey r = hardKey) (opportunity_identities d) of
        Some r \<Rightarrow> (Inr (oi_CanonicalID r), d)
      | None \<Rightarrow>
          if list_ex (\<lambda>r. oi_CanonicalID r = candidateID) (opportunity_identities d)
          then (Inl (ErrConstraint ''opportunity_identities_canonical_id''), d)
          else (Inr candidateID, d\<lparr>opportunity_identities := opportunity_identities d @
            [\<lparr>oi_HardKey = hardKey, oi_CanonicalID = candidateID, oi_CreatedAt = now\<rparr>]\<rparr>))"

definition NULLIF_zero :: "real \<Rightarrow> real option" where
  "NULLIF_zero x = (if x = 0 then None else Some x)"

definition excluded_row :: "string \<Rightarrow> string \<Rightarrow> Canonical \<Rightarrow> jsonb \<Rightarrow> time \<Rightarrow> OpportunityRecord" where
  "excluded_row cid slug c attrs now =
     \<lparr>o_CanonicalID = cid, o_Slug = slug, o_Kind = c_Kind c, o_SourceID = Some (c_SourceID c),
      o_Title = c_Title c, o_Description = NULLIF_empty (c_Description c),
      o_HowToApply = NULLIF_empty (c_HowToApply c), o_IssuingEntity = NULLIF_empty (c_IssuingEntity c),
      o_Country = NULLIF_empty (c_Country c), o_Region = NULLIF_empty (c_Region c),
      o_City = NULLIF_empty (c_City c), o_Remote = c_Remote c, o_ApplyURL = c_ApplyURL c,
      o_PostedAt = c_PostedAt c, o_Deadline = c_Deadline c, o_Currency = NULLIF_empty (c_Currency c),
      o_AmountMin = NULLIF_zero (c_AmountMin c), o_AmountMax = NULLIF_zero (c_AmountMax c),
      o_EmploymentType = NULLIF_empty (c_EmploymentType c), o_Seniority = NULLIF_empty (c_Seniority c),
      o_GeoScope = NULLIF_empty (c_GeoScope c), o_Status = ''active'', o_FirstSeenAt = c_SeenAt c,
      o_LastSeenAt = c_SeenAt c, o_Attributes = attrs, o_QualityScore = None, o_Hidden = False,
      o_HiddenReason = None, o_CreatedAt = now, o_UpdatedAt = now, o_Embedding = None\<rparr>"

definition longer :: "string option \<Rightarrow> string option \<Rightarrow> bool" where
  "longer a b \<longleftrightarrow> length (COALESCE_empty a) > length (COALESCE_empty b)"

definition longest :: "string option \<Rightarrow> string option \<Rightarrow> string option" where
  "longest a b = (if longer a b then a else b)"

definition how_merge :: "string option \<Rightarrow> string option \<Rightarrow> string option" where
  "how_merge a b = (if longer a b then a else COALESCE (NULLIF_empty (COALESCE_empty a)) b)"

definition nonempty_or :: "string \<Rightarrow> string \<Rightarrow> string" where
  "nonempty_or a b = (if a = [] then b else a)"

definition greatest0 :: "real option \<Rightarrow> real option \<Rightarrow> real option" where
  "greatest0 a b = Some (max (case a of None \<Rightarrow> 0 | Some x \<Rightarrow> x) (case b of None \<Rightarrow> 0 | Some x \<Rightarrow> x))"

definition merge_opportunity :: "OpportunityRecord \<Rightarrow> time \<Rightarrow> OpportunityRecord \<Rightarrow> OpportunityRecord" where
  "merge_opportunity ex now p =
     p\<lparr>o_Title := nonempty_or (o_Title ex) (o_Title p),
       o_Description := longest (o_Description ex) (o_Description p),
       o_HowToApply := how_merge (o_HowToApply ex) (o_HowToApply p),
       o_IssuingEntity := COALESCE (o_IssuingEntity ex) (o_IssuingEntity p),
       o_Country := COALESCE (o_Country ex) (o_Country p),
       o_Region := COALESCE (o_Region ex) (o_Region p),
       o_City := COALESCE (o_City ex) (o_City p),
       o_Remote := o_Remote ex,
       o_ApplyURL := nonempty_or (o_ApplyURL ex) (o_ApplyURL p),
       o_PostedAt := COALESCE (o_PostedAt ex) (o_PostedAt p),
       o_Deadline := COALESCE (o_Deadline ex) (o_Deadline p),
       o_Currency := COALESCE (o_Currency ex) (o_Currency p),
       o_AmountMin := greatest0 (o_AmountMin ex) (o_AmountMin p),
       o_AmountMax := greatest0 (o_AmountMax ex) (o_AmountMax p),
       o_EmploymentType := COALESCE (o_EmploymentType ex) (o_EmploymentType p),
       o_Seniority := COALESCE (o_Seniority ex) (o_Seniority p),
       o_GeoScope := COALESCE (o_GeoScope ex) (o_GeoScope p),
       o_LastSeenAt := max (o_LastSeenAt ex) (o_LastSeenAt p),
       o_Status := ''active'',
       o_Attributes := jsonb_concat (o_Attributes p) (o_Attributes ex),
       o_Hidden := False, o_HiddenReason := None, o_UpdatedAt := now\<rparr>"

text \<open>\<open>CHECK (btrim(apply_url) <> '')\<close>; \<open>btrim\<close> strips spaces only.\<close>

definition url_blank :: "string \<Rightarrow> bool" where
  "url_blank u \<longleftrightarrow> list_all (\<lambda>ch. ch = CHR '' '') u"

definition upsert_opportunity :: "OpportunityRecord \<Rightarrow> time \<Rightarrow> jobdb \<Rightarrow> (go_error + unit) \<times> jobdb" where
  "upsert_opportunity ex now d =
     (if url_blank (o_ApplyURL ex) then (Inl (ErrConstraint ''opportunities_apply_url_required''), d)
      else if list_ex (\<lambda>p. o_CanonicalID p = o_CanonicalID ex) (opportunities d)
      then (Inr (), d\<lparr>opportunities := update_where (\<lambda>p. o_CanonicalID p = o_CanonicalID ex)
             (merge_opportunity ex now) (opportunities d)\<rparr>)
      else if list_ex (\<lambda>p. o_Slug p = o_Slug ex) (opportunities d)
      then (Inl (ErrConstraint ''opportunities_slug''), d)
      else (Inr (), d\<lparr>opportunities := opportunities d @ [ex]\<rparr>))"

definition merge_source :: "OpportunitySourceRecord \<Rightarrow> OpportunitySourceRecord \<Rightarrow> OpportunitySourceRecord" where
  "merge_source ex s =
     (let fresh = (case os_InactiveAfter s of None \<Rightarrow> True | Some t \<Rightarrow> os_LastSeenAt ex \<ge> t) in
      s\<lparr>os_ApplyURL := os_ApplyURL ex,
        os_ContentHash := COALESCE (os_ContentHash ex) (os_ContentHash s),
        os_LastSeenAt := max (os_LastSeenAt ex) (os_LastSeenAt s),
        os_LastCrawlRunID := (if os_LastSeenAt ex \<ge> os_LastSeenAt s then os_LastCrawlRunID ex
                              else os_LastCrawlRunID s),
        os_Active := (if fresh then True else os_Active s),
        os_InactiveAfter := (if fresh then None else os_InactiveAfter s)\<rparr>)"

definition same_lineage :: "OpportunitySourceRecord \<Rightarrow> OpportunitySourceRecord \<Rightarrow> bool" where
  "same_lineage ex s \<longleftrightarrow> os_CanonicalID s = os_CanonicalID ex \<and> os_SourceID s = os_SourceID ex \<and>
     os_ExternalID s = os_ExternalID ex"

definition upsert_source :: "OpportunitySourceRecord \<Rightarrow> jobdb \<Rightarrow> (go_error + unit) \<times> jobdb" where
  "upsert_source ex d =
     (if url_blank (os_ApplyURL ex) then (Inl (ErrConstraint ''opportunity_sources_apply_url_required''), d)
      else if list_ex (same_lineage ex) (opportunity_sources d)
      then (Inr (), d\<lparr>opportunity_sources := update_where (same_lineage ex) (merge_source ex)
             (opportunity_sources d)\<rparr>)
      else (Inr (), d\<lparr>opportunity_sources := opportunity_sources d @ [ex]\<rparr>))"

definition refresh_visibility :: "string \<Rightarrow> jobdb \<Rightarrow> jobdb" where
  "refresh_visibility cid d =
     d\<lparr>opportunities := update_where (\<lambda>p. o_CanonicalID p = cid)
         (\<lambda>p. p\<lparr>o_Hidden := \<not> has_active (opportunity_sources d) cid,
                o_HiddenReason := (if has_active (opportunity_sources d) cid then None
                                   else Some not_observed)\<rparr>) (opportunities d)\<rparr>"

definition excluded_source :: "string \<Rightarrow> Item \<Rightarrow> Canonical \<Rightarrow> OpportunitySourceRecord" where
  "excluded_source cid item c =
     (let contentHash = (case c_Attributes c of
          Some a \<Rightarrow> (case a ''content_hash'' of Some (AStr h) \<Rightarrow> h | _ \<Rightarrow> []) | None \<Rightarrow> [])
      in \<lparr>os_CanonicalID = cid, os_SourceID = c_SourceID c, os_ExternalID = c_ExternalID c,
          os_ApplyURL = c_ApplyURL c, os_ContentHash = NULLIF_empty contentHash,
          os_FirstSeenAt = c_SeenAt c, os_LastSeenAt = c_SeenAt c,
          os_LastCrawlRunID = NULLIF_empty (it_CrawlRunID item), os_InactiveAfter = None,
          os_Active = True\<rparr>)"

definition marshal_attrs :: "gomap option \<Rightarrow> jsonb" where
  "marshal_attrs a = (case a of None \<Rightarrow> JNull | Some m \<Rightarrow> JObject m)"

definition productWrite ::
  "(string \<Rightarrow> string) \<Rightarrow> Item \<Rightarrow> Canonical \<Rightarrow> time \<Rightarrow> (jobdb, string) sql"
where
  "productWrite sha256hex item c now =
     sql_bind (sql_wrap ''resolve identity''
         (sql_stmt (upsert_identity (c_HardKey c) (c_CandidateID c) now))) (\<lambda>cid.
     let slug = makeSlug sha256hex (c_Kind c) (c_Title c) (c_IssuingEntity c) cid in
     sql_bind (sql_wrap ''upsert opportunity''
         (sql_stmt (upsert_opportunity (excluded_row cid slug c (marshal_attrs (c_Attributes c)) now) now))) (\<lambda>_.
     sql_bind (sql_wrap ''upsert source lineage''
         (sql_stmt (upsert_source (excluded_source cid item c)))) (\<lambda>_.
     sql_bind (sql_wrap ''refresh opportunity visibility''
         (sql_exec (refresh_visibility cid))) (\<lambda>_.
     sql_return cid))))"

definition ack_row :: "time \<Rightarrow> QueueRecord \<Rightarrow> QueueRecord" where
  "ack_row now q =
     q\<lparr>q_Status := QProcessed, q_ProcessedAt := Some now, q_LeaseExpiresAt := None,
       q_ClaimedBy := None, q_LastError := None, q_UpdatedAt := now\<rparr>"

definition ackCrawl :: "string \<Rightarrow> Item \<Rightarrow> string \<Rightarrow> time \<Rightarrow> (jobdb, unit) sql" where
  "ackCrawl ev item cid now =
     sql_bind (sql_wrap ''complete queue item'' (sql_stmt (\<lambda>d.
         let hit = (\<lambda>q. q_ID q = it_ID item \<and> q_Status q = QProcessing) in
         (Inr (length (filter hit (job_ingest_queue d))),
          d\<lparr>job_ingest_queue := update_where hit (ack_row now) (job_ingest_queue d)\<rparr>)))) (\<lambda>n.
     if n \<noteq> 1 then sql_raise (ErrNew ''complete queue item'')
     else queue_appendEvent ev (it_ID item) (it_VariantID item) (it_SourceID item) ''processed''
            (it_Attempt item) (AMap [(''canonical_id'', AStr cid)]) now)"

section \<open>The store\<close>

record jobstore =
  js_db :: "jobdb dbstate"
  js_productDB :: "jobdb dbstate option"

text \<open>Running a program on the crawl database and on \<open>s.product()\<close>.\<close>

definition on_db :: "(jobdb, 'a) sql \<Rightarrow> jobstore \<Rightarrow> (go_error + 'a) \<times> jobstore" where
  "on_db m s = (case m (js_db s) of (x, z) \<Rightarrow> (x, s\<lparr>js_db := z\<rparr>))"

definition on_product :: "(jobdb, 'a) sql \<Rightarrow> jobstore \<Rightarrow> (go_error + 'a) \<times> jobstore" where
  "on_product m s = (case js_productDB s of
      None \<Rightarrow> on_db m s
    | Some p \<Rightarrow> (case m p of (x, z) \<Rightarrow> (x, s\<lparr>js_productDB := Some z\<rparr>)))"

definition DeactivateSource :: "string \<Rightarrow> string \<Rightarrow> time \<Rightarrow> jobstore \<Rightarrow> (go_error + unit) \<times> jobstore" where
  "DeactivateSource sourceID reason now s = on_db (deactivate_tx sourceID reason now) s"

definition ReconcileSource :: "string \<Rightarrow> time \<Rightarrow> time \<Rightarrow> jobstore \<Rightarrow> (go_error + unit) \<times> jobstore" where
  "ReconcileSource sourceID crawlStartedAt now s =
     on_product (reconcile_tx sourceID crawlStartedAt now) s"

text \<open>\<open>lit\<close> renders one component of a vector (\<open>fmt.Sprintf("%g", f)\<close>).\<close>

definition vectorLiteral :: "(real \<Rightarrow> string) \<Rightarrow> real list \<Rightarrow> string" where
  "vectorLiteral lit v = ''['' @ Join '','' (map lit v) @ '']''"

definition SetEmbedding ::
  "(real \<Rightarrow> string) \<Rightarrow> string \<Rightarrow> real list \<Rightarrow> time \<Rightarrow> jobstore \<Rightarrow> (go_error + unit) \<times> jobstore"
where
  "SetEmbedding lit canonicalID vec now s =
     (if canonicalID = [] \<or> vec = [] then (Inl (ErrNew ''jobqueue: invalid embedding write''), s)
      else on_product (embedding_tx canonicalID (vectorLiteral lit vec) now) s)"

text \<open>
  \<open>Complete\<close> returns the canonical identifier and an error; a product write that is not
  reached leaves the identifier empty.  \<open>nowP\<close> and \<open>nowC\<close> are the times of the product and
  of the crawl transaction in dual mode; in single mode there is one transaction.
\<close>

definition prepare_canonical :: "time \<Rightarrow> Canonical \<Rightarrow> Canonical" where
  "prepare_canonical wall c =
     (let c1 = (if IsZero (c_SeenAt c) then c\<lparr>c_SeenAt := wall\<rparr> else c)
      in c1\<lparr>c_Attributes := map_option (\<lambda>a. a(''how_to_apply'' := None)) (c_Attributes c1)\<rparr>)"

definition Complete ::
  "(string \<Rightarrow> string) \<Rightarrow> string \<Rightarrow> time \<Rightarrow> time \<Rightarrow> time \<Rightarrow> Item \<Rightarrow> Canonical \<Rightarrow> jobstore \<Rightarrow>
    (go_error + string) \<times> jobstore"
where
  "Complete sha256hex ev wall nowP nowC item c0 s =
     (if c_CandidateID c0 = [] \<or> c_HardKey c0 = [] \<or> c_Kind c0 = [] \<or> c_Title c0 = [] \<or> c_ApplyURL c0 = []
      then (Inl (ErrNew ''jobqueue: canonical record misses required fields''), s)
      else let c = prepare_canonical wall c0 in
        case js_productDB s of
          Some _ \<Rightarrow>
            (case on_product (transaction (productWrite sha256hex item c nowP)) s of
               (Inl e, s1) \<Rightarrow> (Inl e, s1)
             | (Inr cid, s1) \<Rightarrow>
                 (case on_db (transaction (ackCrawl ev item cid nowC)) s1 of
                    (Inl e, s2) \<Rightarrow> (Inl (ErrWrap ''product committed; crawl ack failed (safe to retry)'' e), s2)
                  | (Inr _, s2) \<Rightarrow> (Inr cid, s2)))
        | None \<Rightarrow>
            on_db (transaction (sql_bind (productWrite sha256hex item c nowC) (\<lambda>cid.
              sql_bind (ackCrawl ev item cid nowC) (\<lambda>_. sql_return cid)))) s)"

end
