(* ===== verification/Jobqueue_Spec.thy ===== *)
theory Jobqueue_Spec
  imports Jobqueue
begin

text \<open>
  What the queue and the catalog promise.

  \<^item> \<open>queue_inv\<close>: keys are unique, and a row is leased exactly while it is processing.
  \<^item> \<open>catalog_inv\<close>: hard keys and canonical identifiers are in bijection, slugs and lineage
    keys are unique, and an opportunity is hidden exactly when no active source backs it.
  \<^item> \<open>job_history\<close>: rows are never lost; identities and events are append-only, queue rows
    keep their content, opportunities keep their identity and their first sighting, and
    attempts and last sightings only grow.

  \<open>job_step\<close> is any operation of the store with any outcomes of its statements; the
  invariants hold along every run of it, in single and in dual mode.
\<close>

section \<open>Invariants\<close>

definition queue_row_ok :: "QueueRecord \<Rightarrow> bool" where
  "queue_row_ok q \<longleftrightarrow>
     q_Status q \<in> {QPending, QProcessing, QRetry, QProcessed, QRejected, QDead} \<and>
     (q_Status q = QProcessing \<longleftrightarrow> q_LeaseExpiresAt q \<noteq> None) \<and>
     (q_Status q = QProcessing \<longleftrightarrow> q_ClaimedBy q \<noteq> None) \<and>
     0 \<le> q_Attempt q \<and> (q_Status q = QProcessing \<longrightarrow> 1 \<le> q_Attempt q)"

definition queue_inv :: "jobdb \<Rightarrow> bool" where
  "queue_inv d \<longleftrightarrow>
     distinct (map q_ID (job_ingest_queue d)) \<and>
     distinct (map q_IdempotencyKey (job_ingest_queue d)) \<and>
     distinct (map q_VariantID (job_ingest_queue d)) \<and>
     (\<forall>q \<in> set (job_ingest_queue d). queue_row_ok q)"

definition lineage_key :: "OpportunitySourceRecord \<Rightarrow> string \<times> string \<times> string" where
  "lineage_key s = (os_CanonicalID s, os_SourceID s, os_ExternalID s)"

definition visible_ok :: "OpportunitySourceRecord list \<Rightarrow> OpportunityRecord list \<Rightarrow> bool" where
  "visible_ok ls ps \<longleftrightarrow> (\<forall>p \<in> set ps. o_Hidden p \<longleftrightarrow> \<not> has_active ls (o_CanonicalID p))"

definition catalog_keys :: "jobdb \<Rightarrow> bool" where
  "catalog_keys d \<longleftrightarrow>
     distinct (map oi_HardKey (opportunity_identities d)) \<and>
     distinct (map oi_CanonicalID (opportunity_identities d)) \<and>
     distinct (map o_CanonicalID (opportunities d)) \<and>
     distinct (map o_Slug (opportunities d)) \<and>
     distinct (map lineage_key (opportunity_sources d)) \<and>
     (\<forall>p \<in> set (opportunities d). o_CanonicalID p \<in> oi_CanonicalID ` set (opportunity_identities d))"

definition catalog_inv :: "jobdb \<Rightarrow> bool" where
  "catalog_inv d \<longleftrightarrow> catalog_keys d \<and> visible_ok (opportunity_sources d) (opportunities d)"

definition job_inv :: "jobdb \<Rightarrow> bool" where
  "job_inv d \<longleftrightarrow> queue_inv d \<and> catalog_inv d"

definition store_inv :: "jobstore \<Rightarrow> bool" where
  "store_inv s \<longleftrightarrow> job_inv (fst (js_db s)) \<and>
     (case js_productDB s of None \<Rightarrow> True | Some z \<Rightarrow> job_inv (fst z))"

section \<open>History\<close>

definition queue_row_evolves :: "QueueRecord \<Rightarrow> QueueRecord \<Rightarrow> bool" where
  "queue_row_evolves q q' \<longleftrightarrow>
     q_ID q' = q_ID q \<and> q_VariantID q' = q_VariantID q \<and> q_SourceID q' = q_SourceID q \<and>
     q_CrawlRunID q' = q_CrawlRunID q \<and> q_CrawlJobID q' = q_CrawlJobID q \<and>
     q_IdempotencyKey q' = q_IdempotencyKey q \<and> q_Payload q' = q_Payload q \<and>
     q_CreatedAt q' = q_CreatedAt q \<and> q_Attempt q \<le> q_Attempt q'"

definition opportunity_evolves :: "OpportunityRecord \<Rightarrow> OpportunityRecord \<Rightarrow> bool" where
  "opportunity_evolves p p' \<longleftrightarrow>
     o_CanonicalID p' = o_CanonicalID p \<and> o_Slug p' = o_Slug p \<and> o_Kind p' = o_Kind p \<and>
     o_SourceID p' = o_SourceID p \<and> o_FirstSeenAt p' = o_FirstSeenAt p \<and>
     o_CreatedAt p' = o_CreatedAt p \<and> o_LastSeenAt p \<le> o_LastSeenAt p'"

definition source_evolves :: "OpportunitySourceRecord \<Rightarrow> OpportunitySourceRecord \<Rightarrow> bool" where
  "source_evolves s s' \<longleftrightarrow> lineage_key s' = lineage_key s \<and>
     os_FirstSeenAt s' = os_FirstSeenAt s \<and> os_LastSeenAt s \<le> os_LastSeenAt s'"

definition job_history :: "jobdb \<Rightarrow> jobdb \<Rightarrow> bool" where
  "job_history d d' \<longleftrightarrow>
     rows_evolve queue_row_evolves (job_ingest_queue d) (job_ingest_queue d') \<and>
     rows_evolve (=) (job_ingest_events d) (job_ingest_events d') \<and>
     rows_evolve (=) (opportunity_identities d) (opportunity_identities d') \<and>
     rows_evolve opportunity_evolves (opportunities d) (opportunities d') \<and>
     rows_evolve source_evolves (opportunity_sources d) (opportunity_sources d')"

definition store_history :: "jobstore \<Rightarrow> jobstore \<Rightarrow> bool" where
  "store_history s s' \<longleftrightarrow> job_history (fst (js_db s)) (fst (js_db s')) \<and>
     (case (js_productDB s, js_productDB s') of
        (None, None) \<Rightarrow> True | (Some z, Some z') \<Rightarrow> job_history (fst z) (fst z') | _ \<Rightarrow> False)"

section \<open>Steps\<close>

inductive job_step :: "jobstore \<Rightarrow> jobstore \<Rightarrow> bool" where
  enqueue: "on_db (Enqueue maxPending i ev r now) s = (x, s') \<Longrightarrow> job_step s s'"
| reject: "on_db (RecordRejected ev i v src details now) s = (x, s') \<Longrightarrow> job_step s s'"
| claim: "on_db (Claim locked owner limit lease now) s = (y, s') \<Longrightarrow> job_step s s'"
| retry: "on_db (Retry ev item cause maxAttempts now) s = (x, s') \<Longrightarrow> job_step s s'"
| deactivate: "DeactivateSource src reason now s = (x, s') \<Longrightarrow> job_step s s'"
| reconcile: "ReconcileSource src started now s = (x, s') \<Longrightarrow> job_step s s'"
| embed: "SetEmbedding lit cid vec now s = (x, s') \<Longrightarrow> job_step s s'"
| complete: "Complete sha256hex ev wall nowP nowC item c s = (w, s') \<Longrightarrow> job_step s s'"

section \<open>History is respected statement by statement\<close>

lemma evolves_refl [simp]:
  "queue_row_evolves q q" "opportunity_evolves p p" "source_evolves s s"
  by (simp_all add: queue_row_evolves_def opportunity_evolves_def source_evolves_def)

lemma job_history_refl: "job_history d d"
  by (simp add: job_history_def rows_evolve_refl)

lemma job_history_trans: "job_history a b \<Longrightarrow> job_history b c \<Longrightarrow> job_history a c"
  unfolding job_history_def
  by (auto elim!: rows_evolve_trans simp: queue_row_evolves_def opportunity_evolves_def source_evolves_def)

interpretation hist: sql_preorder job_history
  by unfold_locales (rule job_history_refl, erule (1) job_history_trans)

lemma job_history_queue:
  assumes "\<And>q. P q \<Longrightarrow> queue_row_evolves q (f q)"
  shows "job_history d (d\<lparr>job_ingest_queue := update_where P f (job_ingest_queue d)\<rparr>)"
  using assms by (auto simp: job_history_def intro!: rows_evolve_refl rows_evolve_update)

lemma job_history_opportunities:
  assumes "\<And>p. P p \<Longrightarrow> opportunity_evolves p (f p)"
  shows "job_history d (d\<lparr>opportunities := update_where P f (opportunities d)\<rparr>)"
  using assms by (auto simp: job_history_def intro!: rows_evolve_refl rows_evolve_update)

lemma job_history_sources:
  assumes "\<And>s. P s \<Longrightarrow> source_evolves s (f s)"
  shows "job_history d (d\<lparr>opportunity_sources := update_where P f (opportunity_sources d)\<rparr>)"
  using assms by (auto simp: job_history_def intro!: rows_evolve_refl rows_evolve_update)

lemma job_history_snoc:
  "job_history d (d\<lparr>job_ingest_queue := job_ingest_queue d @ [q]\<rparr>)"
  "job_history d (d\<lparr>job_ingest_events := job_ingest_events d @ [e]\<rparr>)"
  "job_history d (d\<lparr>opportunity_identities := opportunity_identities d @ [i]\<rparr>)"
  "job_history d (d\<lparr>opportunities := opportunities d @ [p]\<rparr>)"
  "job_history d (d\<lparr>opportunity_sources := opportunity_sources d @ [s]\<rparr>)"
  by (auto simp: job_history_def intro!: rows_evolve_refl rows_evolve_append)

lemmas history_intros = hist.preserves_return hist.preserves_raise hist.preserves_bind
  hist.preserves_wrap hist.preserves_query hist.preserves_transaction hist.preserves_if

lemma queue_appendEvent_history: "preserves job_history (queue_appendEvent ev i v src ty n det now)"
  unfolding queue_appendEvent_def
  by (rule hist.preserves_stmt) (auto simp: job_history_snoc split: if_splits)

lemma Enqueue_history: "preserves job_history (Enqueue maxPending i ev r now)"
proof -
  have ins: "preserves job_history (enqueue_insert i ev r p now)" for p
    unfolding enqueue_insert_def
    by (intro history_intros hist.preserves_stmt queue_appendEvent_history)
      (auto simp: insert_queue_def job_history_refl job_history_snoc split: if_splits)
  show ?thesis unfolding Enqueue_def
    by (cases "rq_Payload r")
      (auto intro!: history_intros hist.preserves_exec ins simp: job_history_refl)
qed

lemma RecordRejected_history: "preserves job_history (RecordRejected ev i v src det now)"
  by (cases det) (simp_all add: RecordRejected_def hist.preserves_raise queue_appendEvent_history)

lemma Claim_history: "preserves job_history (Claim locked owner limit lease now)"
  unfolding Claim_def
  by (intro history_intros hist.preserves_stmt)
    (auto simp: Let_def claim_row_def queue_row_evolves_def intro!: job_history_queue)

lemma Retry_history: "preserves job_history (Retry ev item cause maxAttempts now)"
  unfolding Retry_def Let_def split_beta
  by (intro history_intros hist.preserves_exec queue_appendEvent_history job_history_queue)
    (simp add: queue_row_evolves_def)

lemma hide_orphans_history: "job_history d (hide_orphans src reason now d)"
  unfolding hide_orphans_def by (rule job_history_opportunities) (simp add: opportunity_evolves_def)

lemma deactivate_history: "preserves job_history (deactivate_tx src reason now)"
  unfolding deactivate_tx_def
  by (intro history_intros hist.preserves_exec hide_orphans_history job_history_sources)
    (simp add: source_evolves_def lineage_key_def)

lemma reconcile_history: "preserves job_history (reconcile_tx src started now)"
  unfolding reconcile_tx_def
  by (intro history_intros hist.preserves_exec hide_orphans_history job_history_sources)
    (simp add: source_evolves_def lineage_key_def)

lemma embedding_history: "preserves job_history (embedding_tx cid l now)"
  unfolding embedding_tx_def
  by (intro hist.preserves_exec job_history_opportunities) (simp add: opportunity_evolves_def)

lemma upsert_history:
  "upsert_identity h c now d = (Inr i, d') \<Longrightarrow> job_history d d'"
  "upsert_opportunity ex now d = (Inr u, d') \<Longrightarrow> job_history d d'"
  "upsert_source sx d = (Inr u, d') \<Longrightarrow> job_history d d'"
  by (auto simp: upsert_identity_def upsert_opportunity_def upsert_source_def job_history_refl
      job_history_snoc merge_opportunity_def merge_source_def Let_def opportunity_evolves_def
      source_evolves_def lineage_key_def
      intro!: job_history_opportunities job_history_sources split: option.splits if_splits)

lemma productWrite_history: "preserves job_history (productWrite h item c now)"
  unfolding productWrite_def Let_def
  by (intro history_intros hist.preserves_stmt hist.preserves_exec)
    (auto intro: upsert_history simp: refresh_visibility_def opportunity_evolves_def
      intro!: job_history_opportunities)

lemma ackCrawl_history: "preserves job_history (ackCrawl ev item cid now)"
  unfolding ackCrawl_def
  by (intro history_intros hist.preserves_stmt queue_appendEvent_history)
    (auto simp: Let_def ack_row_def queue_row_evolves_def intro!: job_history_queue)

section \<open>The queue invariant\<close>

definition queue_kept :: "jobdb \<Rightarrow> jobdb \<Rightarrow> bool" where
  "queue_kept d d' \<longleftrightarrow> (queue_inv d \<longrightarrow> queue_inv d') \<and>
     opportunity_identities d' = opportunity_identities d \<and>
     opportunities d' = opportunities d \<and> opportunity_sources d' = opportunity_sources d"

interpretation qk: sql_preorder queue_kept
  by unfold_locales (auto simp: queue_kept_def)

lemmas queue_intros = qk.preserves_return qk.preserves_raise qk.preserves_bind
  qk.preserves_wrap qk.preserves_query qk.preserves_transaction qk.preserves_if

lemma queue_inv_other [simp]:
  "queue_inv (d\<lparr>job_ingest_events := es\<rparr>) = queue_inv d"
  "queue_inv (d\<lparr>opportunities := ps\<rparr>) = queue_inv d"
  "queue_inv (d\<lparr>opportunity_sources := ls\<rparr>) = queue_inv d"
  "queue_inv (d\<lparr>opportunity_identities := is\<rparr>) = queue_inv d"
  by (simp_all add: queue_inv_def)

lemma queue_kept_update:
  assumes "\<And>q. q_ID (f q) = q_ID q" "\<And>q. q_IdempotencyKey (f q) = q_IdempotencyKey q"
    "\<And>q. q_VariantID (f q) = q_VariantID q" "\<And>q. queue_row_ok q \<Longrightarrow> P q \<Longrightarrow> queue_row_ok (f q)"
  shows "queue_kept d (d\<lparr>job_ingest_queue := update_where P f (job_ingest_queue d)\<rparr>)"
  using assms by (auto simp: queue_kept_def queue_inv_def map_update_where set_update_where)

lemma queue_appendEvent_queue: "preserves queue_kept (queue_appendEvent ev i v src ty n det now)"
  unfolding queue_appendEvent_def
  by (rule qk.preserves_stmt) (auto simp: queue_kept_def split: if_splits)

lemma insert_queue_kept:
  "insert_queue (new_queue_row i r p now) d = (Inr n, d') \<Longrightarrow> queue_kept d d'"
  by (auto simp: insert_queue_def queue_kept_def queue_inv_def new_queue_row_def queue_row_ok_def
      row_simps split: if_splits)

lemma Enqueue_queue: "preserves queue_kept (Enqueue maxPending i ev r now)"
proof -
  have ins: "preserves queue_kept (enqueue_insert i ev r p now)" for p
    unfolding enqueue_insert_def
    by (intro queue_intros qk.preserves_stmt queue_appendEvent_queue insert_queue_kept)
  show ?thesis unfolding Enqueue_def
    by (cases "rq_Payload r")
      (auto intro!: queue_intros qk.preserves_exec ins simp: qk.R_refl)
qed

lemma RecordRejected_queue: "preserves queue_kept (RecordRejected ev i v src det now)"
  by (cases det) (simp_all add: RecordRejected_def qk.preserves_raise queue_appendEvent_queue)

lemma Claim_queue: "preserves queue_kept (Claim locked owner limit lease now)"
  unfolding Claim_def
  by (intro queue_intros qk.preserves_stmt)
    (auto simp: Let_def claim_row_def queue_row_ok_def intro!: queue_kept_update)

lemma Retry_queue: "preserves queue_kept (Retry ev item cause maxAttempts now)"
  unfolding Retry_def Let_def split_beta
  by (intro queue_intros qk.preserves_exec queue_appendEvent_queue queue_kept_update)
    (simp_all add: queue_row_ok_def)

lemma ackCrawl_queue: "preserves queue_kept (ackCrawl ev item cid now)"
  unfolding ackCrawl_def
  by (intro queue_intros qk.preserves_stmt queue_appendEvent_queue)
    (auto simp: Let_def ack_row_def queue_row_ok_def intro!: queue_kept_update)

lemma queue_kept_job_inv: "queue_kept d d' \<Longrightarrow> job_inv d \<Longrightarrow> job_inv d'"
  by (auto simp: queue_kept_def job_inv_def catalog_inv_def catalog_keys_def)

section \<open>The catalog invariant\<close>

definition queue_same :: "jobdb \<Rightarrow> jobdb \<Rightarrow> bool" where
  "queue_same d d' \<longleftrightarrow> job_ingest_queue d' = job_ingest_queue d \<and> job_ingest_events d' = job_ingest_events d"

lemma queue_same_inv: "queue_same d d' \<Longrightarrow> queue_inv d' = queue_inv d"
  by (simp add: queue_same_def queue_inv_def)

lemma has_active_update_other:
  assumes "\<And>s. s \<in> set ls \<Longrightarrow> P s \<Longrightarrow> os_CanonicalID s \<noteq> cid"
    and "\<And>s. os_CanonicalID (f s) = os_CanonicalID s"
  shows "has_active (update_where P f ls) cid = has_active ls cid"
  using assms by (auto simp: has_active_def list_ex_iff row_simps)

lemma has_active_update_false:
  assumes "\<And>s. os_CanonicalID (f s) = os_CanonicalID s" and "\<And>s. \<not> os_Active (f s)"
  shows "has_active (update_where P f ls) cid \<Longrightarrow> has_active ls cid"
  using assms by (auto simp: has_active_def list_ex_iff row_simps split: if_splits)

text \<open>Switching off rows of one source and hiding the orphans keeps visibility exact.\<close>

lemma hide_orphans_visible:
  assumes vis: "visible_ok (opportunity_sources d) (opportunities d)"
    and f: "\<And>s. os_CanonicalID (f s) = os_CanonicalID s" "\<And>s. os_SourceID (f s) = os_SourceID s"
      "\<And>s. \<not> os_Active (f s)"
    and P: "\<And>s. P s \<Longrightarrow> os_SourceID s = src"
    and d1: "d1 = d\<lparr>opportunity_sources := update_where P f (opportunity_sources d)\<rparr>"
  shows "visible_ok (opportunity_sources (hide_orphans src reason now d1))
           (opportunities (hide_orphans src reason now d1))"
proof -
  let ?ls = "opportunity_sources d" and ?ls1 = "update_where P f (opportunity_sources d)"
  have src: "has_source ?ls1 cid src = has_source ?ls cid src" for cid
    using f by (auto simp: has_source_def list_ex_iff row_simps)
  have same: "has_active ?ls1 cid = has_active ?ls cid" if "\<not> has_source ?ls cid src" for cid
    using that P f by (intro has_active_update_other) (auto simp: has_source_def list_ex_iff)
  have mono: "has_active ?ls1 cid \<Longrightarrow> has_active ?ls cid" for cid
    using has_active_update_false[of f P ?ls cid] f by blast
  show ?thesis using vis src same mono
    by (auto simp: visible_ok_def hide_orphans_def d1 row_simps)
qed

lemma update_opportunities_keys:
  assumes "\<And>p. o_CanonicalID (f p) = o_CanonicalID p" "\<And>p. o_Slug (f p) = o_Slug p"
  shows "catalog_keys (d\<lparr>opportunities := update_where P f (opportunities d)\<rparr>) = catalog_keys d"
  using assms by (simp add: catalog_keys_def map_update_where ball_update_where if_distrib[of o_CanonicalID] cong: if_cong)

lemma hide_orphans_keys: "catalog_keys (hide_orphans src reason now d) = catalog_keys d"
  unfolding hide_orphans_def by (rule update_opportunities_keys) simp_all

lemma switch_off_keys:
  assumes "\<And>s. lineage_key (f s) = lineage_key s"
  shows "catalog_keys (d\<lparr>opportunity_sources := update_where P f (opportunity_sources d)\<rparr>) = catalog_keys d"
  using assms by (simp add: catalog_keys_def map_update_where)

lemma switch_off_inv:
  assumes "transaction (sql_bind
       (sql_exec (\<lambda>d. d\<lparr>opportunity_sources := update_where P f (opportunity_sources d)\<rparr>))
       (\<lambda>_. sql_exec (hide_orphans src reason now))) (d, fs) = (x, (d', fs'))"
    and "\<And>s. lineage_key (f s) = lineage_key s" "\<And>s. \<not> os_Active (f s)"
      "\<And>s. P s \<Longrightarrow> os_SourceID s = src"
    and inv: "job_inv d"
  shows "job_inv d'"
  using assms(1)
proof (cases rule: transaction_cases)
  case (commit y fs'')
  let ?d1 = "d\<lparr>opportunity_sources := update_where P f (opportunity_sources d)\<rparr>"
  have d': "d' = hide_orphans src reason now ?d1"
    using commit(2) by (auto elim!: sql_bind_InrE dest!: sql_exec_InrD)
  have f: "os_CanonicalID (f s) = os_CanonicalID s" "os_SourceID (f s) = os_SourceID s" for s
    using assms(2)[of s] by (simp_all add: lineage_key_def)
  have "queue_inv d'" using inv by (simp add: d' job_inv_def hide_orphans_def)
  moreover have "catalog_keys d'"
    using inv by (simp add: d' hide_orphans_keys switch_off_keys assms(2) job_inv_def catalog_inv_def)
  moreover have "visible_ok (opportunity_sources d') (opportunities d')"
    unfolding d' by (rule hide_orphans_visible[where d = d and f = f and P = P])
      (use inv f assms(3,4) in \<open>simp_all add: job_inv_def catalog_inv_def\<close>)
  ultimately show ?thesis by (simp add: job_inv_def catalog_inv_def)
qed (use inv in simp)

lemma deactivate_inv:
  "deactivate_tx src reason now (d, fs) = (x, (d', fs')) \<Longrightarrow> job_inv d \<Longrightarrow> job_inv d'"
  unfolding deactivate_tx_def by (erule switch_off_inv) (auto simp: lineage_key_def)

lemma reconcile_inv:
  "reconcile_tx src started now (d, fs) = (x, (d', fs')) \<Longrightarrow> job_inv d \<Longrightarrow> job_inv d'"
  unfolding reconcile_tx_def by (erule switch_off_inv) (auto simp: lineage_key_def)

lemma embedding_inv:
  assumes "embedding_tx cid l now (d, fs) = (x, (d', fs'))" and "job_inv d"
  shows "job_inv d'"
  using assms(1) unfolding embedding_tx_def sql_exec_def
proof (cases rule: sql_stmt_cases)
  case (ran y)
  then show ?thesis using assms(2)
    by (auto simp: job_inv_def catalog_inv_def update_opportunities_keys visible_ok_def
        elim!: update_where_memE)
qed (use assms(2) in simp)

lemma productWrite_run:
  assumes "productWrite h item c now z = (Inr cid, z')"
  obtains d1 d2 d3 where
    "upsert_identity (c_HardKey c) (c_CandidateID c) now (fst z) = (Inr cid, d1)"
    "upsert_opportunity (excluded_row cid (makeSlug h (c_Kind c) (c_Title c) (c_IssuingEntity c) cid) c
       (marshal_attrs (c_Attributes c)) now) now d1 = (Inr (), d2)"
    "upsert_source (excluded_source cid item c) d2 = (Inr (), d3)"
    "fst z' = refresh_visibility cid d3"
  using assms unfolding productWrite_def Let_def
  by (fastforce elim!: sql_bind_InrE simp: sql_wrap_Inr sql_return_def
      dest!: sql_stmt_InrD sql_exec_InrD)

lemma upsert_identity_cases:
  assumes "upsert_identity k c now d = (Inr cid, d1)"
  shows "(\<exists>r \<in> set (opportunity_identities d1). oi_HardKey r = k \<and> oi_CanonicalID r = cid) \<and>
    opportunities d1 = opportunities d \<and> opportunity_sources d1 = opportunity_sources d \<and>
    queue_same d d1"
  using assms by (auto simp: upsert_identity_def queue_same_def dest: find_SomeD
      split: option.splits if_splits)

lemma upsert_identity_keys:
  assumes "upsert_identity k c now d = (Inr cid, d1)" and "catalog_keys d"
  shows "catalog_keys d1"
  using assms
  by (auto simp: upsert_identity_def catalog_keys_def row_simps find_None_iff
      split: option.splits if_splits)

lemma upsert_opportunity_keys:
  assumes "upsert_opportunity ex now d = (Inr u, d1)" and "catalog_keys d"
    and "o_CanonicalID ex \<in> oi_CanonicalID ` set (opportunity_identities d)"
  shows "catalog_keys d1"
proof (cases "list_ex (\<lambda>p. o_CanonicalID p = o_CanonicalID ex) (opportunities d)")
  case True
  have "catalog_keys (d\<lparr>opportunities := update_where (\<lambda>p. o_CanonicalID p = o_CanonicalID ex)
      (merge_opportunity ex now) (opportunities d)\<rparr>) = catalog_keys d"
    by (rule update_opportunities_keys) (simp_all add: merge_opportunity_def)
  with True assms show ?thesis by (auto simp: upsert_opportunity_def split: if_splits)
next
  case False
  with assms show ?thesis
    by (auto simp: upsert_opportunity_def catalog_keys_def row_simps split: if_splits)
qed

lemma upsert_opportunity_frame:
  assumes "upsert_opportunity ex now d = (Inr u, d1)"
  shows "opportunity_sources d1 = opportunity_sources d \<and>
    opportunity_identities d1 = opportunity_identities d \<and> queue_same d d1 \<and>
    (\<forall>p \<in> set (opportunities d1). o_CanonicalID p \<noteq> o_CanonicalID ex \<longrightarrow> p \<in> set (opportunities d))"
  using assms by (auto simp: upsert_opportunity_def queue_same_def merge_opportunity_def
      elim!: update_where_memE split: if_splits)

lemma upsert_source_frame:
  assumes "upsert_source ex d = (Inr u, d1)"
  shows "opportunities d1 = opportunities d \<and> queue_same d d1 \<and>
    (catalog_keys d \<longrightarrow> catalog_keys d1) \<and>
    (cid \<noteq> os_CanonicalID ex \<longrightarrow>
      has_active (opportunity_sources d1) cid = has_active (opportunity_sources d) cid)"
proof (cases "list_ex (same_lineage ex) (opportunity_sources d)")
  case True
  then have d1: "d1 = d\<lparr>opportunity_sources := update_where (same_lineage ex) (merge_source ex) (opportunity_sources d)\<rparr>"
    using assms by (auto simp: upsert_source_def split: if_splits)
  have "cid \<noteq> os_CanonicalID ex \<Longrightarrow> has_active (opportunity_sources d1) cid = has_active (opportunity_sources d) cid"
    unfolding d1 by (simp, rule has_active_update_other) (auto simp: same_lineage_def merge_source_def Let_def)
  then show ?thesis
    by (simp add: d1 queue_same_def switch_off_keys lineage_key_def merge_source_def Let_def)
next
  case False
  then have "lineage_key ex \<notin> lineage_key ` set (opportunity_sources d)"
    by (auto simp: list_ex_iff same_lineage_def lineage_key_def)
  with False assms show ?thesis
    by (auto simp: upsert_source_def queue_same_def catalog_keys_def has_active_def split: if_splits)
qed

lemma refresh_visibility_frame:
  "catalog_keys (refresh_visibility cid d) = catalog_keys d"
  "queue_same d (refresh_visibility cid d)"
  "opportunity_sources (refresh_visibility cid d) = opportunity_sources d"
  by (simp_all add: refresh_visibility_def update_opportunities_keys queue_same_def)

lemma productWrite_inv:
  assumes "productWrite h item c now (d, fs) = (Inr cid, (d', fs'))" and "job_inv d"
  shows "job_inv d'"
  using assms(1)
proof (cases rule: productWrite_run)
  case (1 d1 d2 d3)
  let ?ex = "excluded_row cid (makeSlug h (c_Kind c) (c_Title c) (c_IssuingEntity c) cid) c
       (marshal_attrs (c_Attributes c)) now"
  note s1 = upsert_identity_cases[OF 1(1)] and s2 = upsert_opportunity_frame[OF 1(2)]
    and s3 = upsert_source_frame[OF 1(3)]
  have d': "d' = refresh_visibility cid d3" using 1(4) by simp
  have ids: "o_CanonicalID ?ex = cid" "os_CanonicalID (excluded_source cid item c) = cid"
    by (simp_all add: excluded_row_def excluded_source_def Let_def)
  have "catalog_keys d1" using upsert_identity_keys 1(1) assms(2) by (simp add: job_inv_def catalog_inv_def)
  moreover have "o_CanonicalID ?ex \<in> oi_CanonicalID ` set (opportunity_identities d1)"
    using s1 ids by force
  ultimately have "catalog_keys d2" using upsert_opportunity_keys[OF 1(2)] by blast
  then have keys: "catalog_keys d'" using s3 d' refresh_visibility_frame(1) by blast
  have "queue_same d d'" using s1 s2 s3 d' refresh_visibility_frame(2)[of d3 cid]
    by (simp add: queue_same_def)
  then have q: "queue_inv d'" using queue_same_inv assms(2) by (simp add: job_inv_def)
  have vis0: "o_Hidden p \<longleftrightarrow> \<not> has_active (opportunity_sources d) (o_CanonicalID p)"
    if "p \<in> set (opportunities d)" for p
    using that assms(2) by (simp add: job_inv_def catalog_inv_def visible_ok_def)
  have "o_Hidden p \<longleftrightarrow> \<not> has_active (opportunity_sources d3) (o_CanonicalID p)"
    if p: "p \<in> set (opportunities d')" for p
    using p unfolding d' refresh_visibility_def
  proof (simp, elim update_where_memE)
    fix r assume "p \<in> set (opportunities d3)" "o_CanonicalID p \<noteq> cid"
    then show ?thesis using s1 s2 s3 ids vis0 by auto
  qed simp
  then have "visible_ok (opportunity_sources d') (opportunities d')"
    by (simp add: visible_ok_def d' refresh_visibility_frame(3))
  with keys q show ?thesis by (simp add: job_inv_def catalog_inv_def)
qed

section \<open>Every operation of the store\<close>

definition job_good :: "jobdb \<Rightarrow> jobdb \<Rightarrow> bool" where
  "job_good d d' \<longleftrightarrow> (job_inv d \<longrightarrow> job_inv d') \<and> job_history d d'"

definition store_good :: "jobstore \<Rightarrow> jobstore \<Rightarrow> bool" where
  "store_good s s' \<longleftrightarrow> (store_inv s \<longrightarrow> store_inv s') \<and> store_history s s'"

lemma preservesI:
  assumes "\<And>d fs x d' fs'. m (d, fs) = (x, (d', fs')) \<Longrightarrow> R d d'"
  shows "preserves R m"
  unfolding preserves_def tables_after_def
proof
  fix z
  show "R (fst z) (fst (snd (m z)))"
    using assms[of "fst z" "snd z" "fst (m z)" "fst (snd (m z))" "snd (snd (m z))"] by simp
qed

lemma preserves_good:
  assumes "preserves job_history m"
    and "\<And>d fs x d' fs'. m (d, fs) = (x, (d', fs')) \<Longrightarrow> job_inv d \<Longrightarrow> job_inv d'"
  shows "preserves job_good m"
  by (rule preservesI) (auto simp: job_good_def intro: assms(2) preserves_run[OF assms(1)])

lemma queue_good:
  assumes "preserves job_history m" and "preserves queue_kept m"
  shows "preserves job_good m"
  by (rule preserves_good[OF assms(1)]) (metis queue_kept_job_inv preserves_run[OF assms(2)])

lemmas op_good =
  queue_good[OF Enqueue_history Enqueue_queue]
  queue_good[OF RecordRejected_history RecordRejected_queue]
  queue_good[OF Claim_history Claim_queue]
  queue_good[OF Retry_history Retry_queue]
  preserves_good[OF deactivate_history deactivate_inv]
  preserves_good[OF reconcile_history reconcile_inv]
  preserves_good[OF embedding_history embedding_inv]

lemma product_good: "preserves job_good (transaction (productWrite h item c now))"
proof (rule preserves_good)
  show "preserves job_history (transaction (productWrite h item c now))"
    by (intro history_intros productWrite_history)
next
  fix d fs x d' fs'
  assume "transaction (productWrite h item c now) (d, fs) = (x, (d', fs'))" and "job_inv d"
  then show "job_inv d'" by (cases rule: transaction_cases) (auto intro: productWrite_inv)
qed

lemma ack_good: "preserves job_good (transaction (ackCrawl ev item cid now))"
  by (intro queue_good history_intros queue_intros ackCrawl_history ackCrawl_queue)

lemma complete_good:
  "preserves job_good (transaction (sql_bind (productWrite h item c now) (\<lambda>cid.
     sql_bind (ackCrawl ev item cid now) (\<lambda>_. sql_return cid))))"
proof (rule preserves_good)
  show "preserves job_history (transaction (sql_bind (productWrite h item c now) (\<lambda>cid.
      sql_bind (ackCrawl ev item cid now) (\<lambda>_. sql_return cid))))"
    by (intro history_intros productWrite_history ackCrawl_history)
next
  fix d fs x d' fs'
  assume "transaction (sql_bind (productWrite h item c now) (\<lambda>cid.
      sql_bind (ackCrawl ev item cid now) (\<lambda>_. sql_return cid))) (d, fs) = (x, (d', fs'))"
    and inv: "job_inv d"
  then show "job_inv d'"
  proof (cases rule: transaction_cases)
    case (commit y fs'')
    from commit(2) obtain cid d1 f1 z2 where pw: "productWrite h item c now (d, fs) = (Inr cid, (d1, f1))"
      and ack: "ackCrawl ev item cid now (d1, f1) = (Inr (), z2)" and "z2 = (d', fs'')"
      by (elim sql_bind_InrE) (auto simp: sql_return_def)
    then have "queue_kept d1 d'" using preserves_run[OF ackCrawl_queue] by blast
    with productWrite_inv[OF pw inv] show ?thesis by (rule queue_kept_job_inv[rotated])
  qed simp
qed

lemma on_db_good:
  assumes "on_db m s = (x, s')" and "preserves job_good m"
  shows "store_good s s'"
proof -
  obtain d fs where s: "js_db s = (d, fs)" by (cases "js_db s")
  obtain d' fs' where m: "m (d, fs) = (x, (d', fs'))" and s': "s' = s\<lparr>js_db := (d', fs')\<rparr>"
    using assms(1) s by (auto simp: on_db_def split: prod.splits)
  have "job_good d d'" using preserves_run[OF assms(2) m] .
  then show ?thesis using s s'
    by (auto simp: store_good_def store_inv_def store_history_def job_good_def job_history_refl
        split: option.splits)
qed

lemma on_product_good:
  assumes "on_product m s = (x, s')" and "preserves job_good m"
  shows "store_good s s'"
proof (cases "js_productDB s")
  case None
  with assms show ?thesis by (intro on_db_good) (simp_all add: on_product_def)
next
  case (Some z)
  obtain d fs where z: "z = (d, fs)" by (cases z)
  obtain d' fs' where m: "m (d, fs) = (x, (d', fs'))" and s': "s' = s\<lparr>js_productDB := Some (d', fs')\<rparr>"
    using assms(1) Some z by (auto simp: on_product_def split: prod.splits)
  have "job_good d d'" using preserves_run[OF assms(2) m] .
  then show ?thesis using Some z s'
    by (auto simp: store_good_def store_inv_def store_history_def job_good_def job_history_refl)
qed

lemma store_history_refl: "store_history s s"
  by (auto simp: store_history_def job_history_refl split: option.splits)

lemma store_history_trans: "store_history a b \<Longrightarrow> store_history b c \<Longrightarrow> store_history a c"
  by (auto simp: store_history_def intro: job_history_trans split: option.splits)

lemma store_good_trans: "store_good a b \<Longrightarrow> store_good b c \<Longrightarrow> store_good a c"
  by (auto simp: store_good_def intro: store_history_trans)

lemma Complete_good:
  assumes "Complete h ev wall nowP nowC item c0 s = (w, s')"
  shows "store_good s s'"
proof -
  let ?c = "prepare_canonical wall c0"
  consider "s' = s"
    | x where "on_db (transaction (sql_bind (productWrite h item ?c nowC) (\<lambda>cid.
          sql_bind (ackCrawl ev item cid nowC) (\<lambda>_. sql_return cid)))) s = (x, s')"
    | x where "on_product (transaction (productWrite h item ?c nowP)) s = (x, s')"
    | cid s1 x where "on_product (transaction (productWrite h item ?c nowP)) s = (Inr cid, s1)"
        "on_db (transaction (ackCrawl ev item cid nowC)) s1 = (x, s')"
    using assms
    by (auto simp: Complete_def Let_def split: if_splits option.splits prod.splits sum.splits)
  then show ?thesis
  proof cases
    case 1
    then show ?thesis by (simp add: store_good_def store_history_refl)
  next
    case 2
    then show ?thesis using complete_good by (rule on_db_good)
  next
    case 3
    then show ?thesis using product_good by (rule on_product_good)
  next
    case 4
    then show ?thesis using on_product_good[OF 4(1) product_good] on_db_good[OF 4(2) ack_good]
      by (rule_tac store_good_trans)
  qed
qed

lemma job_step_good: "job_step s s' \<Longrightarrow> store_good s s'"
proof (induction rule: job_step.induct)
  case (embed lit cid vec now s x s')
  then show ?case
    by (auto simp: SetEmbedding_def store_good_def store_history_refl
        dest!: on_product_good[OF _ op_good(7)] split: if_splits)
qed (auto simp: DeactivateSource_def ReconcileSource_def
      intro: on_db_good on_product_good op_good Complete_good)

interpretation jq: transition_system job_step store_inv
  by unfold_locales (use job_step_good in \<open>auto simp: store_good_def\<close>)

definition empty_jobdb :: jobdb where
  "empty_jobdb = \<lparr>job_ingest_queue = [], job_ingest_events = [], opportunity_identities = [],
     opportunities = [], opportunity_sources = []\<rparr>"

definition empty_store :: "bool list \<Rightarrow> bool list option \<Rightarrow> jobstore" where
  "empty_store fs dual = \<lparr>js_db = (empty_jobdb, fs),
     js_productDB = map_option (\<lambda>gs. (empty_jobdb, gs)) dual\<rparr>"

lemma empty_store_inv: "store_inv (empty_store fs dual)"
  by (auto simp: store_inv_def empty_store_def empty_jobdb_def job_inv_def queue_inv_def
      catalog_inv_def catalog_keys_def visible_ok_def split: option.splits)

lemma job_run_history: "job_step\<^sup>*\<^sup>* s s' \<Longrightarrow> store_inv s \<Longrightarrow> store_history s s'"
  by (erule (1) jq.run_preorder)
    (use job_step_good in \<open>auto simp: store_good_def store_history_refl intro: store_history_trans\<close>)

end
