(* ===== verification/Jobqueue_Properties.thy ===== *)
theory Jobqueue_Properties
  imports Jobqueue_Spec
begin

text \<open>
  Properties of the ingestion queue: what \<open>Enqueue\<close>, \<open>Claim\<close>, \<open>Retry\<close>, \<open>Complete\<close>,
  \<open>ReconcileSource\<close> and \<open>DeactivateSource\<close> do on every branch, and what holds along runs.
\<close>

section \<open>Lemmas on single operations\<close>

lemma prepare_canonical_simps [simp]:
  "c_HardKey (prepare_canonical wall c) = c_HardKey c"
  "c_CandidateID (prepare_canonical wall c) = c_CandidateID c"
  "c_SourceID (prepare_canonical wall c) = c_SourceID c"
  "c_ApplyURL (prepare_canonical wall c) = c_ApplyURL c"
  by (simp_all add: prepare_canonical_def Let_def)

definition product_tables :: "jobstore \<Rightarrow> jobdb" where
  "product_tables s = fst (case js_productDB s of None \<Rightarrow> js_db s | Some z \<Rightarrow> z)"

lemma store_history_product:
  "store_history s s' \<Longrightarrow> job_history (product_tables s) (product_tables s')"
  by (auto simp: store_history_def product_tables_def split: option.splits)

lemma store_inv_product: "store_inv s \<Longrightarrow> catalog_inv (product_tables s)"
  by (auto simp: store_inv_def job_inv_def product_tables_def split: option.splits)

lemma ackCrawl_catalog:
  assumes "ackCrawl ev item cid now z = (x, z')"
  shows "opportunity_identities (fst z') = opportunity_identities (fst z) \<and>
    opportunities (fst z') = opportunities (fst z) \<and>
    opportunity_sources (fst z') = opportunity_sources (fst z)"
proof -
  obtain d fs d' fs' where z: "z = (d, fs)" "z' = (d', fs')" by (cases z, cases z')
  from assms[unfolded z] have "queue_kept d d'" by (rule preserves_run[OF ackCrawl_queue])
  then show ?thesis by (simp add: z queue_kept_def)
qed

text \<open>A successful \<open>Complete\<close> has committed the product write with its identifier.\<close>

lemma Complete_committed:
  assumes "Complete h ev wall nowP nowC item c0 s = (Inr cid, s')"
  obtains now z z' where "productWrite h item (prepare_canonical wall c0) now z = (Inr cid, z')"
    "fst z = product_tables s"
    "opportunity_identities (product_tables s') = opportunity_identities (fst z')"
    "opportunities (product_tables s') = opportunities (fst z')"
    "opportunity_sources (product_tables s') = opportunity_sources (fst z')"
proof (cases "js_productDB s")
  case None
  let ?m = "sql_bind (productWrite h item (prepare_canonical wall c0) nowC) (\<lambda>cid.
              sql_bind (ackCrawl ev item cid nowC) (\<lambda>_. sql_return cid))"
  obtain d fs d' fs' where s: "js_db s = (d, fs)" "transaction ?m (d, fs) = (Inr cid, (d', fs'))"
    "s' = s\<lparr>js_db := (d', fs')\<rparr>"
    using assms None
    by (cases "js_db s") (auto simp: Complete_def Let_def on_db_def split: if_splits prod.splits)
  from transaction_success[OF s(2)] obtain fs'' where "?m (d, fs) = (Inr cid, (d', fs''))" .
  then obtain z1 where pw: "productWrite h item (prepare_canonical wall c0) nowC (d, fs) = (Inr cid, z1)"
    and ack: "ackCrawl ev item cid nowC z1 = (Inr (), (d', fs''))"
    by (elim sql_bind_InrE) (auto simp: sql_return_def)
  show ?thesis
    by (rule that[OF pw]) (use s None ackCrawl_catalog[OF ack] in \<open>auto simp: product_tables_def\<close>)
next
  case (Some p)
  let ?m = "productWrite h item (prepare_canonical wall c0) nowP"
  obtain d fs where p: "p = (d, fs)" by (cases p)
  obtain d' fs' z where s: "transaction ?m (d, fs) = (Inr cid, (d', fs'))"
    "s' = s\<lparr>js_productDB := Some (d', fs'), js_db := z\<rparr>"
    using assms Some p
    by (auto simp: Complete_def Let_def on_db_def on_product_def
        split: if_splits prod.splits sum.splits)
  from transaction_success[OF s(1)] obtain fs'' where "?m (d, fs) = (Inr cid, (d', fs''))" .
  then show ?thesis using that s(2) Some p by (fastforce simp: product_tables_def)
qed

lemma productWrite_identity:
  assumes "productWrite h item c now z = (Inr cid, z')"
  shows "\<exists>r \<in> set (opportunity_identities (fst z')). oi_HardKey r = c_HardKey c \<and> oi_CanonicalID r = cid"
  using assms
proof (cases rule: productWrite_run)
  case (1 d1 d2 d3)
  have "opportunity_identities d2 = opportunity_identities d1" using upsert_opportunity_frame[OF 1(2)] by simp
  moreover have "opportunity_identities d3 = opportunity_identities d2"
    using 1(3) by (auto simp: upsert_source_def split: if_splits)
  ultimately show ?thesis using upsert_identity_cases[OF 1(1)] 1(4) by (simp add: refresh_visibility_def)
qed

lemma Complete_identity:
  assumes "Complete h ev wall nowP nowC item c s = (Inr cid, s')"
  shows "\<exists>r \<in> set (opportunity_identities (product_tables s')).
    oi_HardKey r = c_HardKey c \<and> oi_CanonicalID r = cid"
  using assms
proof (cases rule: Complete_committed)
  case (1 now z z')
  with productWrite_identity[OF 1(1)] show ?thesis by simp
qed

section \<open>Properties\<close>

text \<open>
  C2. In every state the store can reach, with any failures of its statements and in
  single or dual mode: queue keys are unique and a row carries a lease and an owner
  exactly while it is processing; hard keys and canonical identifiers determine each
  other, slugs and lineage keys are unique, and an opportunity is hidden exactly when no
  active source backs it.
\<close>

theorem job_store_invariant:
  assumes "job_step\<^sup>*\<^sup>* (empty_store fs dual) s"
  shows "store_inv s"
  using assms empty_store_inv by (rule jq.run_inv)

definition sample_request :: EnqueueRequest where
  "sample_request = \<lparr>rq_VariantID = ''v'', rq_SourceID = ''s'', rq_CrawlRunID = ''run'',
     rq_CrawlJobID = [], rq_IdempotencyKey = ''k'', rq_Payload = Some (AMap [])\<rparr>"

theorem job_store_invariant_witness:
  "store_inv (snd (on_db (Enqueue 1 ''i'' ''e'' sample_request 5) (empty_store [] None)))"
proof (rule job_store_invariant)
  show "job_step\<^sup>*\<^sup>* (empty_store [] None)
      (snd (on_db (Enqueue 1 ''i'' ''e'' sample_request 5) (empty_store [] None)))"
    by (rule r_into_rtranclp, rule job_step.enqueue) (rule prod.collapse[symmetric])
qed

text \<open>
  C3. Canonical identity is stable: two completions with the same hard key return the
  same canonical identifier, whatever operations ran before, between them and with
  whatever failures.
\<close>

theorem canonical_identity_stable:
  assumes "job_step\<^sup>*\<^sup>* (empty_store fs dual) s0"
    and "Complete h ev wall nowP nowC item c s0 = (Inr cid, s1)"
    and "job_step\<^sup>*\<^sup>* s1 s2"
    and "Complete h' ev' wall' nowP' nowC' item' c' s2 = (Inr cid', s3)"
    and "c_HardKey c' = c_HardKey c"
  shows "cid' = cid"
proof -
  have st: "job_step s0 s1" "job_step s2 s3"
    using assms(2,4) by (blast intro: job_step.complete)+
  have i1: "store_inv s1" using jq.run_inv[OF assms(1) empty_store_inv] st(1) jq.step_inv by blast
  have "job_step\<^sup>*\<^sup>* s1 s3" using assms(3) st(2) by simp
  with i1 have hist: "store_history s1 s3" and i3: "store_inv s3"
    using job_run_history jq.run_inv by blast+
  obtain r where r: "r \<in> set (opportunity_identities (product_tables s1))"
    "oi_HardKey r = c_HardKey c" "oi_CanonicalID r = cid" using Complete_identity[OF assms(2)] by blast
  have "r \<in> set (opportunity_identities (product_tables s3))"
    using rows_evolve_mem[OF _ r(1)] store_history_product[OF hist] by (metis job_history_def)
  moreover obtain r' where "r' \<in> set (opportunity_identities (product_tables s3))"
    "oi_HardKey r' = c_HardKey c'" "oi_CanonicalID r' = cid'" using Complete_identity[OF assms(4)] by blast
  moreover have "distinct (map oi_HardKey (opportunity_identities (product_tables s3)))"
    using store_inv_product[OF i3] by (simp add: catalog_inv_def catalog_keys_def)
  ultimately show ?thesis using r assms(5) distinct_key_eq by metis
qed

definition sample_canonical :: "string \<Rightarrow> Canonical" where
  "sample_canonical cid = \<lparr>c_CandidateID = cid, c_HardKey = ''hk'', c_Kind = ''job'', c_SourceID = ''s'',
     c_ExternalID = ''x'', c_Title = ''t'', c_Description = [], c_HowToApply = [],
     c_IssuingEntity = ''e'', c_Country = [], c_Region = [], c_City = [], c_ApplyURL = ''u'',
     c_Currency = [], c_EmploymentType = [], c_Seniority = [], c_GeoScope = [], c_Remote = False,
     c_AmountMin = 0, c_AmountMax = 0, c_PostedAt = None, c_Deadline = None, c_SeenAt = 7,
     c_Attributes = Some Map.empty\<rparr>"

definition sample_item :: "string \<Rightarrow> string \<Rightarrow> Item" where
  "sample_item i v = \<lparr>it_ID = i, it_VariantID = v, it_SourceID = ''s'', it_CrawlRunID = [],
     it_CrawlJobID = [], it_Payload = AMap [], it_Attempt = 1\<rparr>"

text \<open>Two requests enqueued and claimed.\<close>

definition sample_claimed :: jobstore where
  "sample_claimed =
     snd (on_db (Claim [] ''w'' 10 0 6)
       (snd (on_db (Enqueue 0 ''j'' ''e2'' (sample_request\<lparr>rq_VariantID := ''v2'', rq_IdempotencyKey := ''k2''\<rparr>) 5)
         (snd (on_db (Enqueue 0 ''i'' ''e1'' sample_request 5) (empty_store [] None))))))"

lemma sample_claimed_reachable: "job_step\<^sup>*\<^sup>* (empty_store [] None) sample_claimed"
  unfolding sample_claimed_def
  by (intro rtranclp.rtrancl_into_rtrancl[OF rtranclp.rtrancl_into_rtrancl[OF r_into_rtranclp]]
      job_step.enqueue job_step.claim) (rule prod.collapse[symmetric])+

lemma sample_claimed_eval:
  "sample_claimed = \<lparr>js_db = (empty_jobdb\<lparr>
     job_ingest_queue := map (claim_row ''w'' (2 * Minute) 6)
       [new_queue_row ''i'' sample_request (AMap []) 5,
        new_queue_row ''j'' (sample_request\<lparr>rq_VariantID := ''v2'', rq_IdempotencyKey := ''k2''\<rparr>) (AMap []) 5],
     job_ingest_events := [\<lparr>ie_EventID = ''e1'', ie_OccurredAt = 5, ie_IngestID = ''i'', ie_VariantID = ''v'',
         ie_SourceID = ''s'', ie_EventType = ''enqueued'', ie_Attempt = 0, ie_Details = AMap []\<rparr>,
       \<lparr>ie_EventID = ''e2'', ie_OccurredAt = 5, ie_IngestID = ''j'', ie_VariantID = ''v2'',
         ie_SourceID = ''s'', ie_EventType = ''enqueued'', ie_Attempt = 0, ie_Details = AMap []\<rparr>]\<rparr>, []),
     js_productDB = None\<rparr>"
  by (simp add: sample_claimed_def Enqueue_def enqueue_insert_def insert_queue_def queue_appendEvent_def
      Claim_def picked_def claim_limit_def claim_lease_def claimable_def sql_simps on_db_def
      empty_store_def empty_jobdb_def sample_request_def new_queue_row_def Let_def)

lemma sample_complete:
  assumes "s = sample_claimed"
  shows "\<exists>s1. Complete h ''e3'' 0 0 7 (sample_item ''i'' ''v'') (sample_canonical ''A'') s = (Inr ''A'', s1) \<and>
    (\<exists>s2. Complete h ''e4'' 0 0 8 (sample_item ''j'' ''v2'') (sample_canonical ''B'') s1 = (Inr ''A'', s2))"
  unfolding assms sample_claimed_eval
  by (simp add: Complete_def productWrite_def ackCrawl_def queue_appendEvent_def sql_simps on_db_def Let_def
      upsert_identity_def upsert_opportunity_def upsert_source_def refresh_visibility_def
      prepare_canonical_def IsZero_def sample_canonical_def sample_item_def url_blank_def
      empty_jobdb_def claim_row_def new_queue_row_def sample_request_def excluded_row_def
      excluded_source_def same_lineage_def ack_row_def)

theorem canonical_identity_stable_witness:
  "fst (Complete (\<lambda>x. x) ''e4'' 0 0 8 (sample_item ''j'' ''v2'') (sample_canonical ''B'')
     (snd (Complete (\<lambda>x. x) ''e3'' 0 0 7 (sample_item ''i'' ''v'') (sample_canonical ''A'') sample_claimed)))
   = Inr ''A''"
proof -
  obtain s1 cid2 s2 where c: "Complete (\<lambda>x. x) ''e3'' 0 0 7 (sample_item ''i'' ''v'') (sample_canonical ''A'') sample_claimed = (Inr ''A'', s1)"
    "Complete (\<lambda>x. x) ''e4'' 0 0 8 (sample_item ''j'' ''v2'') (sample_canonical ''B'') s1 = (Inr cid2, s2)"
    using sample_complete[OF refl, of "\<lambda>x. x"] by blast
  have "cid2 = ''A''"
    by (rule canonical_identity_stable[OF sample_claimed_reachable c(1) _ c(2)])
      (simp_all add: sample_canonical_def)
  with c show ?thesis by simp
qed

section \<open>Enqueue\<close>

lemma enqueue_dup:
  assumes "rq_IdempotencyKey r \<in> q_IdempotencyKey ` set (job_ingest_queue d)"
    and "rq_VariantID r \<noteq> []" "rq_SourceID r \<noteq> []" "rq_IdempotencyKey r \<noteq> []" "rq_Payload r = Some p"
  shows "Enqueue maxPending i ev r now (d, []) = (Inr (), (d, []))"
  using assms
  by (simp add: Enqueue_def enqueue_insert_def insert_queue_def new_queue_row_def sql_simps row_simps)

lemma insert_queue_count:
  assumes "insert_queue (new_queue_row i r p now) d = (Inr n, d')"
  shows "pending_count d' \<le> pending_count d + 1"
  using assms by (auto simp: insert_queue_def pending_count_def split: if_splits)

lemma Enqueue_stores:
  assumes "Enqueue maxPending i ev r now (d, fs) = (Inr (), (d', fs'))"
  shows "rq_IdempotencyKey r \<in> q_IdempotencyKey ` set (job_ingest_queue d')"
    and "rq_VariantID r \<noteq> []" "rq_SourceID r \<noteq> []" "rq_IdempotencyKey r \<noteq> []" "\<exists>p. rq_Payload r = Some p"
proof -
  from assms obtain p where ok: "rq_VariantID r \<noteq> []" "rq_SourceID r \<noteq> []" "rq_IdempotencyKey r \<noteq> []" "rq_Payload r = Some p"
    by (auto simp: Enqueue_def sql_raise_def split: option.splits if_splits)
  then show "rq_VariantID r \<noteq> []" "rq_SourceID r \<noteq> []" "rq_IdempotencyKey r \<noteq> []" "\<exists>p. rq_Payload r = Some p" by simp_all
  have ins: "rq_IdempotencyKey r \<in> q_IdempotencyKey ` set (job_ingest_queue (fst z'))"
    if "enqueue_insert i ev r p now z = (Inr (), z')" for z z'
    using that unfolding enqueue_insert_def queue_appendEvent_def
    by (cases z', elim sql_bind_InrE)
      (auto simp: sql_wrap_Inr insert_queue_def new_queue_row_def row_simps sql_return_def
        dest!: sql_stmt_InrD split: if_splits)
  from assms ok show "rq_IdempotencyKey r \<in> q_IdempotencyKey ` set (job_ingest_queue d')"
    by (auto simp: Enqueue_def sql_return_def sql_raise_def row_simps split: if_splits
        elim!: sql_bind_InrE transaction_success dest!: ins sql_query_InrD sql_exec_InrD)
qed

text \<open>
  \<open>Enqueue\<close> is idempotent: once a successful call has stored a request, repeating it
  in any later state of the store succeeds when the database works and changes nothing,
  also when the queue has reached its capacity.
\<close>

theorem enqueue_idempotent:
  assumes "job_step\<^sup>*\<^sup>* (empty_store fs dual) s0"
    and "on_db (Enqueue maxPending i ev r now) s0 = (Inr (), s1)"
    and "job_step\<^sup>*\<^sup>* s1 s2" and "snd (js_db s2) = []"
  shows "on_db (Enqueue maxPending' i' ev' r now') s2 = (Inr (), s2)"
proof -
  obtain d0 f0 d1 f1 where s: "js_db s0 = (d0, f0)" "js_db s1 = (d1, f1)"
    and e: "Enqueue maxPending i ev r now (d0, f0) = (Inr (), (d1, f1))"
    using assms(2) by (cases "js_db s0") (auto simp: on_db_def split: prod.splits)
  note key = Enqueue_stores(1)[OF e]
  from Enqueue_stores(2-5)[OF e] obtain p where ok: "rq_VariantID r \<noteq> []" "rq_SourceID r \<noteq> []" "rq_IdempotencyKey r \<noteq> []"
    "rq_Payload r = Some p" by blast
  have hist: "job_history d1 (fst (js_db s2))"
  proof -
    have "job_step s0 s1" using assms(2) by (rule job_step.enqueue)
    then have "store_inv s1" using jq.run_inv[OF assms(1) empty_store_inv] jq.step_inv by blast
    then show ?thesis using job_run_history[OF assms(3)] s by (simp add: store_history_def)
  qed
  then have "rows_evolve queue_row_evolves (job_ingest_queue d1) (job_ingest_queue (fst (js_db s2)))"
    by (simp only: job_history_def)
  then have "rq_IdempotencyKey r \<in> q_IdempotencyKey ` set (job_ingest_queue (fst (js_db s2)))"
    by (rule rows_evolve_key[OF _ _ key]) (simp add: queue_row_evolves_def)
  then show ?thesis using enqueue_dup[OF _ ok, of "fst (js_db s2)"] assms(4)
    by (cases "js_db s2") (simp add: on_db_def)
qed

text \<open>
  The credit ceiling of a producer holds: \<open>Enqueue\<close> never lifts the number of
  unfinished rows above \<open>maxPending\<close> (it leaves a queue that is already above as it is),
  and a new request to a full queue is refused with \<open>ErrCapacity\<close> and changes nothing.
\<close>

theorem enqueue_capacity:
  assumes "0 < maxPending"
  shows "pending_count (tables_after (Enqueue maxPending i ev r now) (d, fs)) \<le> max (pending_count d) maxPending \<and>
    (rq_VariantID r \<noteq> [] \<and> rq_SourceID r \<noteq> [] \<and> rq_IdempotencyKey r \<noteq> [] \<and> rq_Payload r \<noteq> None \<and>
     rq_IdempotencyKey r \<notin> q_IdempotencyKey ` set (job_ingest_queue d) \<and> pending_count d \<ge> maxPending
     \<longrightarrow> Enqueue maxPending i ev r now (d, []) = (Inl ErrCapacity, (d, [])))"
proof
  obtain x d' fs' where run: "Enqueue maxPending i ev r now (d, fs) = (x, (d', fs'))"
    by (metis prod.collapse)
  have "pending_count d' \<le> max (pending_count d) maxPending"
  proof (cases "d' = d")
    case False
    with run assms obtain p y fs'' where
      "sql_bind (sql_exec (\<lambda>d. d)) (\<lambda>_. sql_bind (sql_query (\<lambda>d. list_ex (\<lambda>x. q_IdempotencyKey x = rq_IdempotencyKey r)
                                             (job_ingest_queue d))) (\<lambda>exists.
                  if exists then sql_return ()
                  else sql_bind (sql_query pending_count) (\<lambda>pending.
                    if pending \<ge> maxPending then sql_raise ErrCapacity
                    else enqueue_insert i ev r p now))) (d, fs) = (Inr y, (d', fs''))"
      by (auto simp: Enqueue_def sql_raise_def split: option.splits if_splits elim!: transaction_cases)
    then have "pending_count d' \<le> pending_count d + 1 \<and> pending_count d < maxPending \<or> d' = d"
      unfolding enqueue_insert_def queue_appendEvent_def
      by (auto elim!: sql_bind_InrE dest!: sql_query_InrD sql_exec_InrD sql_stmt_InrD insert_queue_count
          simp: sql_return_def sql_raise_def sql_wrap_Inr pending_count_def split: if_splits)
    with False show ?thesis by auto
  qed simp
  with run show "pending_count (tables_after (Enqueue maxPending i ev r now) (d, fs)) \<le> max (pending_count d) maxPending"
    by (simp add: tables_after_def)
qed (use assms in \<open>auto simp: Enqueue_def sql_simps row_simps\<close>)

theorem enqueue_capacity_witness:
  "Enqueue 1 ''z'' ''e9'' (sample_request\<lparr>rq_IdempotencyKey := ''new''\<rparr>) 9 (js_db sample_claimed) =
     (Inl ErrCapacity, js_db sample_claimed)"
  using enqueue_capacity[of 1 "''z''" "''e9''" "sample_request\<lparr>rq_IdempotencyKey := ''new''\<rparr>" 9
      "fst (js_db sample_claimed)" "[]"]
  by (simp add: sample_claimed_eval sample_request_def new_queue_row_def claim_row_def pending_count_def
      q_active_def)

theorem enqueue_idempotent_witness:
  "on_db (Enqueue 1 ''z'' ''e9'' sample_request 9)
      (snd (on_db (Enqueue 1 ''i'' ''e1'' sample_request 5) (empty_store [] None))) =
    (Inr (), snd (on_db (Enqueue 1 ''i'' ''e1'' sample_request 5) (empty_store [] None)))"
proof (rule enqueue_idempotent[where fs = "[]" and dual = None])
  let ?s = "on_db (Enqueue 1 ''i'' ''e1'' sample_request 5) (empty_store [] None)"
  show "?s = (Inr (), snd ?s)" and "snd (js_db (snd ?s)) = []"
    by (simp_all add: Enqueue_def enqueue_insert_def insert_queue_def queue_appendEvent_def sql_simps on_db_def
        empty_store_def empty_jobdb_def sample_request_def new_queue_row_def pending_count_def)
qed simp_all

section \<open>Claim\<close>

definition queue_key :: "QueueRecord \<Rightarrow> time \<times> time" where
  "queue_key q = (q_AvailableAt q, q_CreatedAt q)"

definition eligible :: "string list \<Rightarrow> time \<Rightarrow> jobdb \<Rightarrow> QueueRecord list" where
  "eligible locked now d = filter (\<lambda>q. claimable now q \<and> q_ID q \<notin> set locked) (job_ingest_queue d)"

lemma picked_eligible: "set (picked locked n now d) \<subseteq> set (eligible locked now d)"
  by (auto simp: picked_def eligible_def dest: in_set_takeD)

lemma picked_first:
  assumes "q \<in> set (picked locked n now d)"
    and "r \<in> set (eligible locked now d)" and "r \<notin> set (picked locked n now d)"
  shows "queue_key q \<le> queue_key r"
proof -
  let ?L = "sort_key queue_key (eligible locked now d)"
  have p: "picked locked n now d = take (nat n) ?L"
    by (simp add: picked_def eligible_def queue_key_def[abs_def])
  have "r \<in> set (drop (nat n) ?L)"
    using assms(2,3) p by (metis append_take_drop_id set_append set_sort Un_iff)
  moreover have "sorted (map queue_key (take (nat n) ?L) @ map queue_key (drop (nat n) ?L))"
    by (metis append_take_drop_id map_append sorted_sort_key)
  ultimately show ?thesis using assms(1) p by (auto simp: sorted_append)
qed

lemma picked_ids:
  assumes "queue_inv d" and "q \<in> set (job_ingest_queue d)"
  shows "q_ID q \<in> q_ID ` set (picked locked n now d) \<longleftrightarrow> q \<in> set (picked locked n now d)"
proof
  assume "q_ID q \<in> q_ID ` set (picked locked n now d)"
  then obtain r where r: "r \<in> set (picked locked n now d)" "q_ID q = q_ID r" by blast
  then have "r \<in> set (job_ingest_queue d)" using picked_eligible by (fastforce simp: eligible_def)
  with r assms have "q = r" by (auto simp: queue_inv_def dest: distinct_key_eq)
  with r show "q \<in> set (picked locked n now d)" by simp
qed simp

lemma Claim_ok:
  assumes "queue_inv d"
  shows "Claim locked owner limit lease now (d, []) =
    (let P = (\<lambda>q. q \<in> set (picked locked (claim_limit limit) now d));
         upd = claim_row owner (claim_lease lease) now
     in (Inr (map (item_of \<circ> upd) (filter P (job_ingest_queue d))),
         (d\<lparr>job_ingest_queue := update_where P upd (job_ingest_queue d)\<rparr>, [])))"
proof -
  let ?p = "picked locked (claim_limit limit) now d"
  have "filter (\<lambda>q. q_ID q \<in> q_ID ` set ?p) (job_ingest_queue d) = filter (\<lambda>q. q \<in> set ?p) (job_ingest_queue d)"
    using picked_ids[OF assms] by (intro filter_cong) auto
  moreover have "update_where (\<lambda>q. q_ID q \<in> q_ID ` set ?p) f (job_ingest_queue d) =
      update_where (\<lambda>q. q \<in> set ?p) f (job_ingest_queue d)" for f
    unfolding update_where_def using picked_ids[OF assms] by (intro map_cong) auto
  ultimately show ?thesis by (simp add: Claim_def sql_simps Let_def)
qed

lemma claimed_rows:
  assumes "queue_inv d"
  shows "set (filter (\<lambda>q. q \<in> set (picked locked n now d)) (job_ingest_queue d)) = set (picked locked n now d)"
    and "length (filter (\<lambda>q. q \<in> set (picked locked n now d)) (job_ingest_queue d)) = length (picked locked n now d)"
proof -
  show eq: "set (filter (\<lambda>q. q \<in> set (picked locked n now d)) (job_ingest_queue d)) = set (picked locked n now d)"
    using picked_eligible[of locked n now d] by (auto simp: eligible_def)
  have "distinct (job_ingest_queue d)" using assms by (simp add: queue_inv_def distinct_map)
  then have "distinct (filter (\<lambda>q. q \<in> set (picked locked n now d)) (job_ingest_queue d))"
    and "distinct (picked locked n now d)" by (simp_all add: picked_def)
  with eq show "length (filter (\<lambda>q. q \<in> set (picked locked n now d)) (job_ingest_queue d)) = length (picked locked n now d)"
    by (metis distinct_card)
qed

lemma Claim_claimed:
  assumes "queue_inv d" and "Claim locked owner limit lease now (d, []) = (Inr items, (d', []))"
  shows "it_ID ` set items = q_ID ` set (picked locked (claim_limit limit) now d)"
    and "d' = d\<lparr>job_ingest_queue := update_where (\<lambda>q. q \<in> set (picked locked (claim_limit limit) now d))
           (claim_row owner (claim_lease lease) now) (job_ingest_queue d)\<rparr>"
  using assms(2) Claim_ok[OF assms(1)] claimed_rows(1)[OF assms(1), of locked "claim_limit limit" now]
  by (auto simp: Let_def item_of_def claim_row_def image_image)

text \<open>
  \<open>Claim\<close> on a working database: it hands out at most \<open>limit\<close> rows, all of them
  ready and not locked by another transaction, in the order of availability and creation,
  and as many as there are; each is marked processing under the caller's lease with one
  more attempt, and every other row is left as it is.
\<close>

theorem claim_leases:
  assumes "queue_inv d"
  shows "\<exists>items d'. Claim locked owner limit lease now (d, []) = (Inr items, (d', [])) \<and>
    int (length items) = min (claim_limit limit) (int (length (eligible locked now d))) \<and>
    distinct (map it_ID items) \<and>
    (\<forall>q \<in> set (job_ingest_queue d).
       if q_ID q \<in> it_ID ` set items
       then q \<in> set (eligible locked now d) \<and> claim_row owner (claim_lease lease) now q \<in> set (job_ingest_queue d')
       else q \<in> set (job_ingest_queue d')) \<and>
    (\<forall>q \<in> set (eligible locked now d). \<forall>r \<in> set (eligible locked now d).
       q_ID q \<in> it_ID ` set items \<and> q_ID r \<notin> it_ID ` set items \<longrightarrow> queue_key q \<le> queue_key r)"
proof -
  let ?p = "picked locked (claim_limit limit) now d"
  let ?upd = "claim_row owner (claim_lease lease) now"
  let ?rows = "filter (\<lambda>q. q \<in> set ?p) (job_ingest_queue d)"
  let ?items = "map (item_of \<circ> ?upd) ?rows"
  let ?d' = "d\<lparr>job_ingest_queue := update_where (\<lambda>q. q \<in> set ?p) ?upd (job_ingest_queue d)\<rparr>"
  have run: "Claim locked owner limit lease now (d, []) = (Inr ?items, (?d', []))"
    using Claim_ok[OF assms] by (simp add: Let_def)
  have ids: "map it_ID ?items = map q_ID ?rows" by (simp add: item_of_def claim_row_def)
  then have idset: "it_ID ` set ?items = q_ID ` set ?p"
    using claimed_rows(1)[OF assms] by (metis list.set_map)
  have mem: "q_ID q \<in> it_ID ` set ?items \<longleftrightarrow> q \<in> set ?p" if "q \<in> set (job_ingest_queue d)" for q
    using picked_ids[OF assms that] idset by simp
  have len: "int (length ?items) = min (claim_limit limit) (int (length (eligible locked now d)))"
    using claimed_rows(2)[OF assms] by (simp add: picked_def eligible_def claim_limit_def) arith
  have dist: "distinct (map it_ID ?items)"
    unfolding ids using assms by (simp add: queue_inv_def distinct_map_filter)
  have rows: "if q_ID q \<in> it_ID ` set ?items
       then q \<in> set (eligible locked now d) \<and> ?upd q \<in> set (job_ingest_queue ?d')
       else q \<in> set (job_ingest_queue ?d')" if "q \<in> set (job_ingest_queue d)" for q
    using mem[OF that] that picked_eligible[of locked "claim_limit limit" now d]
    by (auto simp: set_update_where)
  have first: "queue_key q \<le> queue_key r"
    if "q \<in> set (eligible locked now d)" "r \<in> set (eligible locked now d)"
      "q_ID q \<in> it_ID ` set ?items" "q_ID r \<notin> it_ID ` set ?items" for q r
    using that mem[of q] mem[of r] by (intro picked_first) (auto simp: eligible_def)
  show ?thesis using run len dist rows first by blast
qed

definition sample_pending :: jobdb where
  "sample_pending = empty_jobdb\<lparr>job_ingest_queue := [new_queue_row ''i'' sample_request (AMap []) 5]\<rparr>"

lemmas sample_pending_eval = sample_pending_def empty_jobdb_def new_queue_row_def sample_request_def

lemma sample_pending_inv: "queue_inv sample_pending"
  by (simp add: sample_pending_eval queue_inv_def queue_row_ok_def)

theorem claim_leases_witness:
  "\<exists>items d'. Claim [] ''w'' 0 0 6 (sample_pending, []) = (Inr items, (d', [])) \<and> length items = 1"
  using claim_leases[OF sample_pending_inv, of "[]" "''w''" 0 0 6]
  by (auto simp: eligible_def claim_limit_def claimable_def sample_pending_eval)

section \<open>Retry\<close>

lemma retry_delay_bounds: "0 \<le> n \<Longrightarrow> Second \<le> retry_delay n \<and> retry_delay n \<le> 15 * Minute"
  by (simp add: retry_delay_def Second_def Minute_def)

lemma retry_delay_mono: "0 \<le> m \<Longrightarrow> m \<le> n \<Longrightarrow> retry_delay m \<le> retry_delay n"
  by (simp add: retry_delay_def Second_def min.coboundedI1 power_increasing)

text \<open>
  \<open>Retry\<close> on a working database: below the attempt limit (10 when none is
  configured) the row waits for between one second and fifteen minutes, longer after more
  attempts, and is claimable again from then on; at the limit it is dead and no claim ever
  returns it.
\<close>

theorem retry_backoff_or_dead:
  assumes "q \<in> set (job_ingest_queue d)" and "q_ID q = it_ID item" and "0 \<le> it_Attempt item"
    and "ev \<notin> ie_EventID ` set (job_ingest_events d)"
  shows "\<exists>d' q'. Retry ev item cause maxAttempts now (d, []) = (Inr (), (d', [])) \<and>
    q' \<in> set (job_ingest_queue d') \<and> q_ID q' = q_ID q \<and> q_Attempt q' = q_Attempt q \<and>
    (if it_Attempt item \<ge> (if maxAttempts \<le> 0 then 10 else maxAttempts)
     then q_Status q' = QDead \<and> (\<forall>t. \<not> claimable t q')
     else q_Status q' = QRetry \<and> (\<forall>t. claimable t q' \<longleftrightarrow> now + retry_delay (it_Attempt item) \<le> t)) \<and>
    Second \<le> retry_delay (it_Attempt item) \<and> retry_delay (it_Attempt item) \<le> 15 * Minute"
proof -
  define st where "st = (if it_Attempt item \<ge> (if maxAttempts \<le> 0 then 10 else maxAttempts) then QDead else QRetry)"
  let ?f = "\<lambda>q. q\<lparr>q_Status := st, q_AvailableAt := now + retry_delay (it_Attempt item),
       q_LeaseExpiresAt := None, q_ClaimedBy := None, q_LastError := Some (take 2000 cause), q_UpdatedAt := now\<rparr>"
  have fresh: "\<not> list_ex (\<lambda>e. ie_EventID e = ev \<and> ie_OccurredAt e = now) (job_ingest_events d)"
    using assms(4) by (auto simp: list_ex_iff)
  obtain d' where run: "Retry ev item cause maxAttempts now (d, []) = (Inr (), (d', []))"
    and q: "job_ingest_queue d' = update_where (\<lambda>q. q_ID q = it_ID item) ?f (job_ingest_queue d)"
    using fresh
    by (cases "it_Attempt item \<ge> (if maxAttempts \<le> 0 then 10 else maxAttempts)")
      (simp_all only: Retry_def Let_def sql_simps queue_appendEvent_def st_def if_True if_False, simp_all add: sql_simps)
  have "?f q \<in> set (job_ingest_queue d')" using assms(1,2) by (auto simp: q set_update_where)
  with run retry_delay_bounds[OF assms(3)] show ?thesis
    by (intro exI[of _ d'] exI[of _ "?f q"]) (auto simp: st_def claimable_def)
qed

theorem retry_backoff_or_dead_witness:
  "\<exists>d' q'. Retry ''e9'' (sample_item ''i'' ''v'') ''boom'' 0 6 (sample_pending, []) = (Inr (), (d', [])) \<and>
    q' \<in> set (job_ingest_queue d') \<and> q_Status q' = QRetry"
  using retry_backoff_or_dead[of "new_queue_row ''i'' sample_request (AMap []) 5" sample_pending
      "sample_item ''i'' ''v''" "''e9''" "''boom''" 0 6]
  by (auto simp: sample_pending_eval sample_item_def)

text \<open>
  \<open>Retry\<close> is not fenced: it does not check that the row is still processing or still
  leased by its caller.  A worker that reports a failure after another one has completed
  the same row turns the processed row back into claimable work.
\<close>

theorem stale_retry_resurrects:
  "case Complete h ''e3'' 0 0 7 (sample_item ''i'' ''v'') (sample_canonical ''A'') sample_claimed of (x, s1) \<Rightarrow>
   x = Inr ''A'' \<and> map q_Status (job_ingest_queue (fst (js_db s1))) = [QProcessed, QProcessing] \<and>
   (case on_db (Retry ''e4'' (sample_item ''i'' ''v'') ''timeout'' 10 8) s1 of (y, s2) \<Rightarrow>
     y = Inr () \<and> map q_Status (job_ingest_queue (fst (js_db s2))) = [QRetry, QProcessing] \<and>
     claimable (8 + 2 * Second) (hd (job_ingest_queue (fst (js_db s2)))))"
  unfolding sample_claimed_eval
  by (simp add: Complete_def productWrite_def ackCrawl_def queue_appendEvent_def sql_simps on_db_def Let_def
      upsert_identity_def upsert_opportunity_def upsert_source_def refresh_visibility_def
      prepare_canonical_def IsZero_def sample_canonical_def sample_item_def url_blank_def
      empty_jobdb_def claim_row_def new_queue_row_def sample_request_def excluded_row_def
      excluded_source_def same_lineage_def ack_row_def Retry_def retry_delay_def claimable_def)

end
