(* ===== verification/Jobqueue_Leases.thy ===== *)
theory Jobqueue_Leases
  imports Jobqueue_Properties
begin

text \<open>
  Leases of the ingestion queue over histories: what other processes may do while a claimed row is
  leased, and that none of it makes the row claimable before the lease has run out.
\<close>

section \<open>What happens during a lease\<close>

text \<open>
  Any operation of the store with any outcomes of its statements: claims up to the instant \<open>e\<close>, and
  retries of rows outside \<open>I\<close>.  A \<open>Retry\<close> checks no owner, so one for a row of \<open>I\<close> would end its lease.
\<close>

inductive lease_step :: "string set \<Rightarrow> time \<Rightarrow> jobstore \<Rightarrow> jobstore \<Rightarrow> bool" for I e where
  enqueue: "on_db (Enqueue maxPending i ev r now) s = (x, s') \<Longrightarrow> lease_step I e s s'"
| reject: "on_db (RecordRejected ev i v src details now) s = (x, s') \<Longrightarrow> lease_step I e s s'"
| claim: "on_db (Claim locked owner limit lease now) s = (y, s') \<Longrightarrow> now \<le> e \<Longrightarrow> lease_step I e s s'"
| retry: "on_db (Retry ev item cause maxAttempts now) s = (x, s') \<Longrightarrow> it_ID item \<notin> I \<Longrightarrow> lease_step I e s s'"
| deactivate: "DeactivateSource src reason now s = (x, s') \<Longrightarrow> lease_step I e s s'"
| reconcile: "ReconcileSource src started now s = (x, s') \<Longrightarrow> lease_step I e s s'"
| embed: "SetEmbedding lit cid vec now s = (x, s') \<Longrightarrow> lease_step I e s s'"
| complete: "Complete sha256hex ev wall nowP nowC item c s = (w, s') \<Longrightarrow> lease_step I e s s'"

definition leased_row :: "time \<Rightarrow> QueueRecord \<Rightarrow> bool" where
  "leased_row e q \<longleftrightarrow> q_Status q \<notin> {QPending, QRetry} \<and>
     (q_Status q = QProcessing \<longrightarrow> (\<exists>l. q_LeaseExpiresAt q = Some l \<and> e \<le> l))"

definition leased :: "string set \<Rightarrow> time \<Rightarrow> jobdb \<Rightarrow> bool" where
  "leased I e d \<longleftrightarrow> I \<subseteq> q_ID ` set (job_ingest_queue d) \<and>
     (\<forall>q \<in> set (job_ingest_queue d). q_ID q \<in> I \<longrightarrow> leased_row e q)"

definition keeps_leased :: "string set \<Rightarrow> time \<Rightarrow> jobdb \<Rightarrow> jobdb \<Rightarrow> bool" where
  "keeps_leased I e d d' \<longleftrightarrow> (leased I e d \<longrightarrow> leased I e d')"

interpretation hk: sql_preorder "keeps_leased I e" for I e
  by unfold_locales (auto simp: keeps_leased_def)

lemmas leased_intros = hk.preserves_return hk.preserves_raise hk.preserves_bind
  hk.preserves_wrap hk.preserves_query hk.preserves_transaction hk.preserves_if

lemma leased_not_claimable: "leased_row e q \<Longrightarrow> now \<le> e \<Longrightarrow> \<not> claimable now q"
  by (auto simp: leased_row_def claimable_def)

lemma leased_same: "job_ingest_queue d' = job_ingest_queue d \<Longrightarrow> keeps_leased I e d d'"
  by (simp add: keeps_leased_def leased_def)

lemma ids_update_where:
  assumes "\<And>q. q_ID (f q) = q_ID q"
  shows "q_ID ` set (update_where P f rows) = q_ID ` set rows"
  using map_update_where[of q_ID f P rows] assms by (metis list.set_map)

lemma image_restrict: "f ` {x \<in> A. f x \<in> B} = f ` A \<inter> B"
  by auto

lemma leased_update:
  assumes "\<And>q. q_ID (f q) = q_ID q" and "\<And>q. P q \<Longrightarrow> q_ID q \<in> I \<Longrightarrow> leased I e d \<Longrightarrow> q \<in> set (job_ingest_queue d) \<Longrightarrow> leased_row e (f q)"
  shows "keeps_leased I e d (d\<lparr>job_ingest_queue := update_where P f (job_ingest_queue d)\<rparr>)"
proof -
  have "q_ID ` set (update_where P f (job_ingest_queue d)) = q_ID ` set (job_ingest_queue d)"
    using assms(1) by (rule ids_update_where)
  with assms show ?thesis by (auto simp: keeps_leased_def leased_def elim!: update_where_memE)
qed

lemma leased_insert:
  assumes "q_ID q \<notin> q_ID ` set (job_ingest_queue d)"
  shows "keeps_leased I e d (d\<lparr>job_ingest_queue := job_ingest_queue d @ [q]\<rparr>)"
proof -
  have "q_ID q \<notin> I" if "leased I e d" using that assms by (auto simp: leased_def)
  then show ?thesis by (auto simp: keeps_leased_def leased_def)
qed

section \<open>Every operation keeps the lease\<close>

lemma queue_appendEvent_leased: "preserves (keeps_leased I e) (queue_appendEvent ev i v src ty n det now)"
  unfolding queue_appendEvent_def by (rule hk.preserves_stmt) (auto intro: leased_same split: if_splits)

lemma Enqueue_leased: "preserves (keeps_leased I e) (Enqueue maxPending i ev r now)"
proof -
  have new: "insert_queue (new_queue_row i r p now) d = (Inr n, d') \<Longrightarrow> keeps_leased I e d d'" for p d n d'
    by (auto intro!: leased_insert simp: hk.R_refl insert_queue_def list_ex_iff image_iff split: if_splits)
  have ins: "preserves (keeps_leased I e) (enqueue_insert i ev r p now)" for p
    unfolding enqueue_insert_def by (intro leased_intros hk.preserves_stmt queue_appendEvent_leased new)
  show ?thesis unfolding Enqueue_def
    by (cases "rq_Payload r") (auto intro!: leased_intros hk.preserves_exec ins simp: hk.R_refl)
qed

lemma RecordRejected_leased: "preserves (keeps_leased I e) (RecordRejected ev i v src det now)"
  by (cases det) (simp_all add: RecordRejected_def hk.preserves_raise queue_appendEvent_leased)

lemma picked_claimable: "i \<in> q_ID ` set (picked locked n now d) \<Longrightarrow> \<exists>q \<in> set (job_ingest_queue d). q_ID q = i \<and> claimable now q"
  by (auto simp: picked_def dest!: in_set_takeD)

text \<open>A claim that picks one row with an identifier leases every row with it; identifiers are the primary key.\<close>

lemma Claim_leased:
  assumes "now \<le> e"
  shows "preserves (keeps_leased I e) (Claim locked owner limit lease now)"
  unfolding Claim_def
proof (intro leased_intros hk.preserves_stmt)
  fix d and x :: "Item list" and d'
  let ?ids = "map q_ID (picked locked (claim_limit limit) now d)"
  assume "(let ids = ?ids; upd = claim_row owner (claim_lease lease) now
      in (Inr (map (item_of \<circ> upd) (filter (\<lambda>q. q_ID q \<in> set ids) (job_ingest_queue d))),
          d\<lparr>job_ingest_queue := update_where (\<lambda>q. q_ID q \<in> set ids) upd (job_ingest_queue d)\<rparr>)) = (Inr x, d')"
  then have d': "d' = d\<lparr>job_ingest_queue := update_where (\<lambda>q. q_ID q \<in> set ?ids) (claim_row owner (claim_lease lease) now) (job_ingest_queue d)\<rparr>"
    by (simp add: Let_def)
  show "keeps_leased I e d d'" unfolding d'
  proof (rule leased_update)
    fix q :: QueueRecord assume "q_ID q \<in> set ?ids" "q_ID q \<in> I" "leased I e d"
    then have False using picked_claimable[of "q_ID q" locked "claim_limit limit" now d] leased_not_claimable[OF _ assms]
      by (fastforce simp: leased_def)
    then show "leased_row e (claim_row owner (claim_lease lease) now q)" ..
  qed (simp add: claim_row_def)
qed

lemma Retry_leased:
  assumes "it_ID item \<notin> I"
  shows "preserves (keeps_leased I e) (Retry ev item cause maxAttempts now)"
  unfolding Retry_def Let_def split_beta
  by (intro leased_intros hk.preserves_exec queue_appendEvent_leased leased_update) (use assms in auto)

lemma catalog_leased:
  "preserves (keeps_leased I e) (deactivate_tx src reason now)"
  "preserves (keeps_leased I e) (reconcile_tx src started now)"
  "preserves (keeps_leased I e) (embedding_tx cid l now)"
  "preserves (keeps_leased I e) (productWrite h item c now)"
  unfolding deactivate_tx_def reconcile_tx_def embedding_tx_def productWrite_def Let_def
  by (intro leased_intros hk.preserves_exec hk.preserves_stmt;
      auto intro!: leased_same simp: hide_orphans_def refresh_visibility_def upsert_identity_def upsert_opportunity_def upsert_source_def
        split: option.splits if_splits)+

lemma ackCrawl_leased: "preserves (keeps_leased I e) (ackCrawl ev item cid now)"
  unfolding ackCrawl_def
  by (intro leased_intros hk.preserves_stmt queue_appendEvent_leased)
    (auto simp: Let_def ack_row_def leased_row_def intro!: leased_update)

section \<open>Every step keeps the lease\<close>

lemma on_db_leased:
  assumes "on_db m s = (x, s')" and "preserves (keeps_leased I e) m"
  shows "keeps_leased I e (fst (js_db s)) (fst (js_db s'))"
  using assms preserves_run[OF assms(2)] by (cases "js_db s"; cases "js_db s'") (auto simp: on_db_def split: prod.splits)

lemma on_product_leased:
  assumes "on_product m s = (x, s')" and "preserves (keeps_leased I e) m"
  shows "keeps_leased I e (fst (js_db s)) (fst (js_db s'))"
proof (cases "js_productDB s")
  case None
  with assms show ?thesis by (intro on_db_leased[OF _ assms(2)]) (simp add: on_product_def)
qed (use assms hk.R_refl in \<open>auto simp: on_product_def split: prod.splits\<close>)

lemma Complete_leased:
  assumes "Complete h ev wall nowP nowC item c s = (w, s')"
  shows "keeps_leased I e (fst (js_db s)) (fst (js_db s'))"
proof -
  note on = on_db_leased[where I = I and e = e] and op = on_product_leased[where I = I and e = e]
  show ?thesis
    using assms
    by (auto simp: Complete_def Let_def hk.R_refl split: if_splits option.splits prod.splits sum.splits
        dest!: on[OF _ hk.preserves_transaction[OF hk.preserves_bind[OF catalog_leased(4) hk.preserves_bind[OF ackCrawl_leased hk.preserves_return]]]]
          on[OF _ hk.preserves_transaction[OF ackCrawl_leased]] op[OF _ hk.preserves_transaction[OF catalog_leased(4)]]
        elim!: hk.R_trans)
qed

lemma lease_step_leased: "lease_step I e s s' \<Longrightarrow> keeps_leased I e (fst (js_db s)) (fst (js_db s'))"
proof (induction rule: lease_step.induct)
  case (embed lit cid vec now s x s')
  then show ?case by (auto simp: SetEmbedding_def hk.R_refl dest!: on_product_leased[OF _ catalog_leased(3)] split: if_splits)
qed (auto simp: DeactivateSource_def ReconcileSource_def intro: on_db_leased on_product_leased Complete_leased
    Enqueue_leased RecordRejected_leased Claim_leased Retry_leased catalog_leased)

lemma lease_run_leased: "(lease_step I e)\<^sup>*\<^sup>* s s' \<Longrightarrow> leased I e (fst (js_db s)) \<Longrightarrow> leased I e (fst (js_db s'))"
  by (induction rule: rtranclp_induct) (use lease_step_leased in \<open>auto simp: keeps_leased_def\<close>)

lemma Claim_run:
  assumes "on_db (Claim locked owner limit lease now) s = (Inr xs, s')"
  shows "job_ingest_queue (fst (js_db s')) = update_where (\<lambda>q. q_ID q \<in> it_ID ` set xs)
      (claim_row owner (claim_lease lease) now) (job_ingest_queue (fst (js_db s)))"
    and "it_ID ` set xs = q_ID ` set (picked locked (claim_limit limit) now (fst (js_db s)))"
proof -
  let ?d = "fst (js_db s)"
  let ?ids = "q_ID ` set (picked locked (claim_limit limit) now ?d)"
  obtain fs where "js_db s = (?d, fs)" by (metis prod.collapse)
  with assms have s': "job_ingest_queue (fst (js_db s')) =
      update_where (\<lambda>q. q_ID q \<in> ?ids) (claim_row owner (claim_lease lease) now) (job_ingest_queue ?d)"
    and xs: "xs = map (item_of \<circ> claim_row owner (claim_lease lease) now) (filter (\<lambda>q. q_ID q \<in> ?ids) (job_ingest_queue ?d))"
    by (auto simp: on_db_def Claim_def sql_wrap_Inr Let_def split: prod.splits dest!: sql_stmt_InrD)
  have "?ids \<subseteq> q_ID ` set (job_ingest_queue ?d)" by (auto simp: picked_def dest!: in_set_takeD)
  moreover have "it_ID ` set xs = q_ID ` {q \<in> set (job_ingest_queue ?d). q_ID q \<in> ?ids}"
    by (simp add: xs item_of_def claim_row_def image_image)
  ultimately show ids: "it_ID ` set xs = ?ids" by (simp add: image_restrict Int_absorb1)
  show "job_ingest_queue (fst (js_db s')) = update_where (\<lambda>q. q_ID q \<in> it_ID ` set xs)
      (claim_row owner (claim_lease lease) now) (job_ingest_queue ?d)"
    using s' ids by simp
qed

section \<open>Exclusion\<close>

text \<open>
  C8. Leases are exclusive over histories: after a claim, whatever enqueues, rejections, claims, completions, catalog operations
  and retries of other rows follow, with whatever failures and in single or dual mode, a claim by any worker up to the
  end of the lease returns none of the rows of the first one.  Only a \<open>Retry\<close> of the row itself, which checks no owner, is excluded.
\<close>

theorem claims_disjoint:
  assumes "on_db (Claim l1 o1 n1 ls1 t1) s0 = (Inr xs, s1)"
    and "(lease_step (it_ID ` set xs) (t1 + claim_lease ls1))\<^sup>*\<^sup>* s1 s2"
    and "t2 \<le> t1 + claim_lease ls1"
    and "on_db (Claim l2 o2 n2 ls2 t2) s2 = (Inr ys, s3)"
  shows "it_ID ` set xs \<inter> it_ID ` set ys = {}"
proof -
  let ?I = "it_ID ` set xs" and ?e = "t1 + claim_lease ls1"
  have "?I \<subseteq> q_ID ` set (job_ingest_queue (fst (js_db s0)))"
    unfolding Claim_run(2)[OF assms(1)] by (auto simp: picked_def dest!: in_set_takeD)
  moreover have "q_ID ` set (job_ingest_queue (fst (js_db s1))) = q_ID ` set (job_ingest_queue (fst (js_db s0)))"
    unfolding Claim_run(1)[OF assms(1)] by (rule ids_update_where) (simp add: claim_row_def)
  moreover have "leased_row ?e q" if "q \<in> set (job_ingest_queue (fst (js_db s1)))" "q_ID q \<in> ?I" for q
    using that unfolding Claim_run(1)[OF assms(1)]
    by (elim update_where_memE) (auto simp: leased_row_def claim_row_def)
  ultimately have "leased ?I ?e (fst (js_db s1))" by (simp add: leased_def)
  then have "leased ?I ?e (fst (js_db s2))" using assms(2) lease_run_leased by blast
  then have "\<not> claimable t2 q" if "q \<in> set (job_ingest_queue (fst (js_db s2)))" "q_ID q \<in> ?I" for q
    using that leased_not_claimable[OF _ assms(3)] by (simp add: leased_def)
  then have "q_ID q \<notin> ?I" if "q \<in> set (job_ingest_queue (fst (js_db s2)))" "claimable t2 q" for q using that by blast
  then have "i \<notin> ?I" if "i \<in> it_ID ` set ys" for i
    using picked_claimable[OF that[unfolded Claim_run(2)[OF assms(4)]]] by metis
  then show ?thesis by blast
qed

theorem claims_disjoint_witness:
  "fst (on_db (Claim [] ''u'' 0 0 8)
     (snd (on_db (Enqueue 0 ''j'' ''e2'' (sample_request\<lparr>rq_VariantID := ''v2'', rq_IdempotencyKey := ''k2''\<rparr>) 7)
       (snd (on_db (Claim [] ''w'' 0 0 6) \<lparr>js_db = (sample_pending, []), js_productDB = None\<rparr>))))) \<noteq>
   Inr [sample_item ''i'' ''v'']"
proof
  let ?s0 = "\<lparr>js_db = (sample_pending, []), js_productDB = None\<rparr>"
  let ?s1 = "snd (on_db (Claim [] ''w'' 0 0 6) ?s0)"
  let ?e = "on_db (Enqueue 0 ''j'' ''e2'' (sample_request\<lparr>rq_VariantID := ''v2'', rq_IdempotencyKey := ''k2''\<rparr>) 7) ?s1"
  let ?c = "on_db (Claim [] ''u'' 0 0 8) (snd ?e)"
  assume c: "fst ?c = Inr [sample_item ''i'' ''v'']"
  obtain x where 1: "on_db (Claim [] ''w'' 0 0 6) ?s0 = (Inr [x], ?s1)" "it_ID x = ''i''"
    by (simp add: on_db_def Claim_def sql_simps Let_def picked_def claim_limit_def claimable_def item_of_def claim_row_def sample_pending_eval)
  have "(lease_step (it_ID ` set [x]) (6 + claim_lease 0))\<^sup>*\<^sup>* ?s1 (snd ?e)"
    by (rule r_into_rtranclp, rule lease_step.enqueue) (rule prod.collapse[symmetric])
  from claims_disjoint[OF 1(1) this, of 8 "[]" "''u''" 0 0 "[sample_item ''i'' ''v'']" "snd ?c"] c 1(2)
  show False by (simp add: claim_lease_def Minute_def Second_def sample_item_def prod_eq_iff)
qed

end
