(* ===== verification/Jobqueue_Catalog.thy ===== *)
theory Jobqueue_Catalog
  imports Jobqueue_Properties
begin

text \<open>
  The catalog side of \<open>pkg/jobqueue\<close>: what a completion leaves behind, that delivering
  the same listing again changes nothing of substance, and what switching a source off
  does to the listings.
\<close>

section \<open>Completion\<close>

lemma ackCrawl_committed:
  assumes "ackCrawl ev item cid now (d, fs) = (Inr (), (d', fs'))"
  shows "\<exists>q \<in> set (job_ingest_queue d). q_ID q = it_ID item \<and> q_Status q = QProcessing \<and>
    ack_row now q \<in> set (job_ingest_queue d')"
proof -
  let ?hit = "\<lambda>q. q_ID q = it_ID item \<and> q_Status q = QProcessing"
  from assms obtain z where
    one: "length (filter ?hit (job_ingest_queue d)) = 1"
      "fst z = d\<lparr>job_ingest_queue := update_where ?hit (ack_row now) (job_ingest_queue d)\<rparr>"
    and ev: "queue_appendEvent ev (it_ID item) (it_VariantID item) (it_SourceID item) ''processed''
            (it_Attempt item) (AMap [(''canonical_id'', AStr cid)]) now z = (Inr (), (d', fs'))"
    unfolding ackCrawl_def
    by (auto elim!: sql_bind_InrE dest!: sql_stmt_InrD simp: sql_wrap_Inr sql_raise_def Let_def
        split: if_splits)
  have "job_ingest_queue d' = job_ingest_queue (fst z)"
    using ev by (auto simp: queue_appendEvent_def dest!: sql_stmt_InrD split: if_splits)
  moreover have "filter ?hit (job_ingest_queue d) \<noteq> []" using one(1) by force
  then obtain q where "q \<in> set (job_ingest_queue d)" "?hit q" by (auto simp: filter_empty_conv)
  ultimately show ?thesis using one(2) by (auto simp: set_update_where intro!: bexI[of _ q] image_eqI[of _ _ q])
qed

lemma productWrite_queue:
  assumes "productWrite h item c now (d, fs) = (Inr cid, (d', fs'))"
  shows "queue_same d d'"
  using assms
proof (cases rule: productWrite_run)
  case (1 d1 d2 d3)
  from upsert_identity_cases[OF 1(1)] upsert_opportunity_frame[OF 1(2)] upsert_source_frame[OF 1(3)]
    refresh_visibility_frame(2)[of d3 cid] 1(4)
  show ?thesis by (simp add: queue_same_def)
qed

lemma Complete_acked:
  assumes "Complete h ev wall nowP nowC item c s = (Inr cid, s')"
  shows "\<exists>q \<in> set (job_ingest_queue (fst (js_db s))). q_ID q = it_ID item \<and> q_Status q = QProcessing \<and>
    ack_row nowC q \<in> set (job_ingest_queue (fst (js_db s')))"
proof (cases "js_productDB s")
  case None
  obtain d fs d' fs' where s: "js_db s = (d, fs)" "s' = s\<lparr>js_db := (d', fs')\<rparr>"
    and t: "transaction (sql_bind (productWrite h item (prepare_canonical wall c) nowC) (\<lambda>cid.
              sql_bind (ackCrawl ev item cid nowC) (\<lambda>_. sql_return cid))) (d, fs) = (Inr cid, (d', fs'))"
    using assms None
    by (cases "js_db s") (auto simp: Complete_def Let_def on_db_def split: if_splits prod.splits)
  from transaction_success[OF t] obtain fs'' where
    "sql_bind (productWrite h item (prepare_canonical wall c) nowC) (\<lambda>cid.
              sql_bind (ackCrawl ev item cid nowC) (\<lambda>_. sql_return cid)) (d, fs) = (Inr cid, (d', fs''))" .
  then obtain d1 f1 where
    "productWrite h item (prepare_canonical wall c) nowC (d, fs) = (Inr cid, (d1, f1))"
    "ackCrawl ev item cid nowC (d1, f1) = (Inr (), (d', fs''))"
    by (elim sql_bind_InrE) (auto simp: sql_return_def)
  then show ?thesis using productWrite_queue ackCrawl_committed s by (fastforce simp: queue_same_def)
next
  case (Some p)
  obtain d fs d' fs' s1 where s: "js_db s = (d, fs)" "js_db s' = (d', fs')"
    and t: "transaction (ackCrawl ev item cid nowC) (d, fs) = (Inr (), (d', fs'))"
    using assms Some
    by (cases "js_db s") (auto simp: Complete_def Let_def on_db_def on_product_def
        split: if_splits prod.splits sum.splits)
  from transaction_success[OF t] obtain fs'' where "ackCrawl ev item cid nowC (d, fs) = (Inr (), (d', fs''))" .
  from ackCrawl_committed[OF this] s show ?thesis by simp
qed

lemma transaction_rollback: "transaction m z = (Inl e, z') \<Longrightarrow> fst z' = fst z"
  by (cases z, cases z') (auto dest: transaction_error)

lemma Complete_error:
  assumes "Complete h ev wall nowP nowC item c s = (Inl e, s')"
  shows "fst (js_db s') = fst (js_db s) \<and> (js_productDB s = None \<longleftrightarrow> js_productDB s' = None)"
  using assms
  by (auto simp: Complete_def Let_def on_db_def on_product_def dest!: transaction_rollback
      split: if_splits option.splits prod.splits sum.splits)

text \<open>
  C12. The outcome of \<open>Complete\<close>: on success the row was processing and is now processed;
  on any error the queue and its audit log are exactly what they were, so the work is not
  lost, and with a single database nothing at all has changed.
\<close>

theorem complete_atomic:
  "case Complete h ev wall nowP nowC item c s of
     (Inr cid, s') \<Rightarrow> (\<exists>q \<in> set (job_ingest_queue (fst (js_db s))).
         q_ID q = it_ID item \<and> q_Status q = QProcessing \<and>
         ack_row nowC q \<in> set (job_ingest_queue (fst (js_db s'))))
   | (Inl e, s') \<Rightarrow> fst (js_db s') = fst (js_db s) \<and>
       (js_productDB s = None \<longleftrightarrow> js_productDB s' = None)"
  by (auto split: prod.splits sum.splits dest: Complete_error Complete_acked)

section \<open>What a completion publishes\<close>

lemma upsert_opportunity_present:
  assumes "upsert_opportunity ex now d = (Inr u, d1)"
  shows "\<exists>p \<in> set (opportunities d1). o_CanonicalID p = o_CanonicalID ex \<and> o_LastSeenAt ex \<le> o_LastSeenAt p \<and>
    (o_Status ex = ''active'' \<longrightarrow> o_Status p = ''active'')"
  using assms
  by (auto simp: upsert_opportunity_def row_simps merge_opportunity_def list_ex_iff split: if_splits)

lemma upsert_source_present:
  assumes "upsert_source ex d = (Inr u, d1)" and "os_Active ex"
  shows "\<exists>l \<in> set (opportunity_sources d1). lineage_key l = lineage_key ex \<and>
    os_LastSeenAt ex \<le> os_LastSeenAt l \<and>
    (os_Active l \<or> (\<exists>t. os_InactiveAfter l = Some t \<and> os_LastSeenAt ex < t))"
proof (cases "list_ex (same_lineage ex) (opportunity_sources d)")
  case True
  then obtain s where s: "s \<in> set (opportunity_sources d)" "same_lineage ex s" by (auto simp: list_ex_iff)
  have "merge_source ex s \<in> set (opportunity_sources d1)"
    using assms(1) True s by (auto simp: upsert_source_def set_update_where split: if_splits)
  moreover have "lineage_key (merge_source ex s) = lineage_key ex"
    using s(2) by (simp add: lineage_key_def same_lineage_def merge_source_def Let_def)
  ultimately show ?thesis
    by (intro bexI[of _ "merge_source ex s"]) (auto simp: merge_source_def Let_def split: option.split)
qed (use assms in \<open>auto simp: upsert_source_def split: if_splits\<close>)

text \<open>
  A successful completion publishes the listing: the catalog holds an active
  opportunity under the returned identifier seen no earlier than the listing, the lineage
  of (source, external id) is recorded and active (unless a full crawl that started after
  the listing was seen has already switched it off), and the opportunity is visible
  whenever the lineage is active.
\<close>

theorem complete_publishes:
  assumes "store_inv s" and "Complete h ev wall nowP nowC item c s = (Inr cid, s')"
  shows "\<exists>p \<in> set (opportunities (product_tables s')). \<exists>l \<in> set (opportunity_sources (product_tables s')).
    o_CanonicalID p = cid \<and> o_Status p = ''active'' \<and> c_SeenAt (prepare_canonical wall c) \<le> o_LastSeenAt p \<and>
    lineage_key l = (cid, c_SourceID c, c_ExternalID c) \<and>
    c_SeenAt (prepare_canonical wall c) \<le> os_LastSeenAt l \<and>
    (os_Active l \<or> (\<exists>t. os_InactiveAfter l = Some t \<and> c_SeenAt (prepare_canonical wall c) < t)) \<and>
    (os_Active l \<longrightarrow> \<not> o_Hidden p)"
  using assms(2)
proof (cases rule: Complete_committed)
  case (1 now z z')
  let ?c = "prepare_canonical wall c"
  have vis: "visible_ok (opportunity_sources (product_tables s')) (opportunities (product_tables s'))"
    using store_inv_product Complete_good[OF assms(2)] assms(1)
    by (auto simp: store_good_def catalog_inv_def)
  from 1(1) show ?thesis
  proof (cases rule: productWrite_run)
    case (1 d1 d2 d3)
    note s2 = upsert_opportunity_present[OF 1(2)] and s3 = upsert_source_present[OF 1(3)]
      and fr = upsert_source_frame[OF 1(3)]
    from s2 obtain p where p: "p \<in> set (opportunities d3)" "o_CanonicalID p = cid"
      "c_SeenAt ?c \<le> o_LastSeenAt p" "o_Status p = ''active''"
      using fr by (auto simp: excluded_row_def)
    let ?p = "p\<lparr>o_Hidden := \<not> has_active (opportunity_sources d3) cid,
                o_HiddenReason := (if has_active (opportunity_sources d3) cid then None else Some not_observed)\<rparr>"
    have mem: "?p \<in> set (opportunities (product_tables s'))"
      using p(1,2) 1(4) \<open>opportunities (product_tables s') = opportunities (fst z')\<close>
      by (auto simp: refresh_visibility_def set_update_where intro!: image_eqI[of _ _ p])
    from s3 obtain l where l: "l \<in> set (opportunity_sources (product_tables s'))"
      "lineage_key l = (cid, c_SourceID c, c_ExternalID c)" "c_SeenAt ?c \<le> os_LastSeenAt l"
      "os_Active l \<or> (\<exists>t. os_InactiveAfter l = Some t \<and> c_SeenAt ?c < t)"
      using 1(4) \<open>opportunity_sources (product_tables s') = opportunity_sources (fst z')\<close>
      by (auto simp: excluded_source_def Let_def lineage_key_def prepare_canonical_def refresh_visibility_def)
    have "os_Active l \<longrightarrow> \<not> o_Hidden ?p"
      using vis mem l(1,2) p(2) by (auto simp: visible_ok_def has_active_def list_ex_iff lineage_key_def)
    with mem l p show ?thesis by (intro bexI[OF _ mem] bexI[OF _ l(1)]) simp
  qed
qed

theorem complete_publishes_witness:
  "\<exists>s' p l. Complete (\<lambda>x. x) ''e3'' 0 0 7 (sample_item ''i'' ''v'') (sample_canonical ''A'') sample_claimed = (Inr ''A'', s') \<and>
     p \<in> set (opportunities (product_tables s')) \<and> l \<in> set (opportunity_sources (product_tables s')) \<and>
     o_CanonicalID p = ''A'' \<and> lineage_key l = (''A'', ''s'', ''x'')"
proof -
  obtain s' where c: "Complete (\<lambda>x. x) ''e3'' 0 0 7 (sample_item ''i'' ''v'') (sample_canonical ''A'') sample_claimed = (Inr ''A'', s')"
    using sample_complete[OF refl, of "\<lambda>x. x"] by blast
  have "store_inv sample_claimed" using jq.run_inv[OF sample_claimed_reachable empty_store_inv] .
  from complete_publishes[OF this c] c show ?thesis by (auto simp: sample_canonical_def)
qed

section \<open>Redelivery\<close>

text \<open>The content of a listing, with a missing amount read as zero.\<close>

definition listing :: "OpportunityRecord \<Rightarrow> OpportunityRecord" where
  "listing p = p\<lparr>o_AmountMin := greatest0 (o_AmountMin p) (o_AmountMin p),
     o_AmountMax := greatest0 (o_AmountMax p) (o_AmountMax p), o_UpdatedAt := 0\<rparr>"

definition object_attributes :: "jobdb \<Rightarrow> bool" where
  "object_attributes d \<longleftrightarrow> (\<forall>p \<in> set (opportunities d). case o_Attributes p of JObject _ \<Rightarrow> True | _ \<Rightarrow> False)"

lemma merge_idem [simp]:
  "COALESCE a (COALESCE a b) = COALESCE a b" "COALESCE a a = a"
  by (cases a, simp_all)+

lemma text_merge_idem [simp]:
  "longest t (longest t u) = longest t u" "longest t t = t"
  "nonempty_or s (nonempty_or s r) = nonempty_or s r" "nonempty_or s s = s"
  by (simp_all add: longest_def longer_def nonempty_or_def)

lemma how_merge_idem [simp]: "how_merge t (how_merge t u) = how_merge t u" "how_merge t t = t"
  by (cases t, auto simp: how_merge_def longer_def NULLIF_empty_def)+

lemma greatest0_idem [simp]:
  "greatest0 a (greatest0 a b) = greatest0 a b" "greatest0 (greatest0 a b) (greatest0 a b) = greatest0 a b"
  by (simp_all add: greatest0_def)

lemma map_add_twice [simp]: "m ++ n ++ n = m ++ n" "n ++ n = n"
  by (auto simp: fun_eq_iff map_add_def split: option.splits)

definition refresh_row :: "bool \<Rightarrow> OpportunityRecord \<Rightarrow> OpportunityRecord" where
  "refresh_row act p = p\<lparr>o_Hidden := \<not> act, o_HiddenReason := (if act then None else Some not_observed)\<rparr>"

text \<open>
  Delivering a row again: merging it into the row the first delivery left, which was
  either merged or inserted.
\<close>

lemma merge_again:
  assumes "o_Attributes p = JObject a" and "o_Attributes ex = JObject b"
  shows "listing (refresh_row act (merge_opportunity (ex\<lparr>o_Slug := sl, o_CreatedAt := u, o_UpdatedAt := u\<rparr>) t'
      (refresh_row act (merge_opportunity ex t p)))) = listing (refresh_row act (merge_opportunity ex t p))"
  using assms by (simp add: listing_def merge_opportunity_def refresh_row_def max.assoc[symmetric])

lemma merge_self:
  assumes "o_Attributes ex = JObject b" and "o_Status ex = ''active''"
  shows "listing (refresh_row act (merge_opportunity (ex\<lparr>o_Slug := sl, o_CreatedAt := u, o_UpdatedAt := u\<rparr>) t'
      (refresh_row act ex))) = listing (refresh_row act ex)"
  using assms by (cases ex) (simp add: listing_def merge_opportunity_def refresh_row_def)

lemma merge_source_again:
  "merge_source sx (merge_source sx s) = merge_source sx s"
  by (cases s) (auto simp: merge_source_def Let_def split: option.splits)

lemma merge_source_self:
  "os_InactiveAfter sx = None \<Longrightarrow> os_Active sx \<Longrightarrow> merge_source sx sx = sx"
  by (cases sx) (simp add: merge_source_def Let_def)

lemma update_where_id: "(\<And>r. r \<in> set xs \<Longrightarrow> P r \<Longrightarrow> f r = r) \<Longrightarrow> update_where P f xs = xs"
  by (induction xs) auto

lemma upsert_source_again:
  assumes "upsert_source sx d = (Inr u, d1)" and "upsert_source sx d1' = (Inr u', d2)"
    and "opportunity_sources d1' = opportunity_sources d1"
    and "os_InactiveAfter sx = None" "os_Active sx"
  shows "opportunity_sources d2 = opportunity_sources d1"
proof -
  have rows: "merge_source sx l = l"
    if l: "l \<in> set (opportunity_sources d1)" "same_lineage sx l" for l
  proof (cases "list_ex (same_lineage sx) (opportunity_sources d)")
    case True
    with assms(1) have "opportunity_sources d1 =
        update_where (same_lineage sx) (merge_source sx) (opportunity_sources d)"
      by (auto simp: upsert_source_def split: if_splits)
    with l show ?thesis by (auto simp: merge_source_again elim!: update_where_memE)
  next
    case False
    with assms(1) have "opportunity_sources d1 = opportunity_sources d @ [sx]"
      by (auto simp: upsert_source_def split: if_splits)
    with l False merge_source_self[OF assms(4,5)] show ?thesis by (auto simp: list_ex_iff)
  qed
  have ex: "list_ex (same_lineage sx) (opportunity_sources d1)"
    using upsert_source_present[OF assms(1,5)]
    by (auto simp: list_ex_iff same_lineage_def lineage_key_def)
  with assms(2,3) have "opportunity_sources d2 = update_where (same_lineage sx) (merge_source sx) (opportunity_sources d1)"
    by (auto simp: upsert_source_def split: if_splits)
  with rows show ?thesis by (simp add: update_where_id)
qed

lemma upsert_opportunity_rows:
  assumes "upsert_opportunity ex now d = (Inr u, d1)" and "p \<in> set (opportunities d1)"
    and "o_CanonicalID p = o_CanonicalID ex" and "object_attributes d"
  shows "p = ex \<or> (\<exists>p0 a. p = merge_opportunity ex now p0 \<and> o_Attributes p0 = JObject a)"
proof (cases "list_ex (\<lambda>p. o_CanonicalID p = o_CanonicalID ex) (opportunities d)")
  case True
  with assms(1) have "opportunities d1 = update_where (\<lambda>p. o_CanonicalID p = o_CanonicalID ex)
      (merge_opportunity ex now) (opportunities d)"
    by (auto simp: upsert_opportunity_def split: if_splits)
  with assms(2,3) obtain p0 where p0: "p0 \<in> set (opportunities d)" "p = merge_opportunity ex now p0"
    by (auto elim!: update_where_memE)
  from p0(1) assms(4) obtain a where "o_Attributes p0 = JObject a"
    by (cases "o_Attributes p0") (auto simp: object_attributes_def)
  with p0(2) show ?thesis by blast
next
  case False
  with assms(1) have "opportunities d1 = opportunities d @ [ex]"
    by (auto simp: upsert_opportunity_def split: if_splits)
  with assms(2,3) False show ?thesis by (auto simp: list_ex_iff)
qed

lemma productWrite_steps:
  assumes "c_Attributes c = Some b" "productWrite h item c now (d, fs) = (Inr cid, (d', fs'))"
  obtains e1 e2 e3 where "upsert_identity (c_HardKey c) (c_CandidateID c) now d = (Inr cid, e1)"
    "upsert_opportunity (excluded_row cid (makeSlug h (c_Kind c) (c_Title c) (c_IssuingEntity c) cid) c (JObject b) now) now e1 = (Inr (), e2)"
    "upsert_source (excluded_source cid item c) e2 = (Inr (), e3)" "d' = refresh_visibility cid e3"
  using assms by (elim productWrite_run) (auto simp: marshal_attrs_def)

lemma refresh_visibility_rows:
  "opportunities (refresh_visibility cid e) =
     update_where (\<lambda>p. o_CanonicalID p = cid) (refresh_row (has_active (opportunity_sources e) cid)) (opportunities e)"
  by (simp add: refresh_visibility_def refresh_row_def[abs_def])

lemma refresh_visibility_sources: "opportunity_sources (refresh_visibility cid e) = opportunity_sources e"
  by (simp add: refresh_visibility_def)

lemma write_identities:
  assumes "upsert_opportunity ex now e1 = (Inr (), e2)" "upsert_source sx e2 = (Inr (), e3)"
  shows "opportunity_identities (refresh_visibility cid e3) = opportunity_identities e1"
  using upsert_opportunity_frame[OF assms(1)] assms(2)
  by (auto simp: refresh_visibility_def upsert_source_def split: if_splits)

text \<open>A second write finds the identity of the first one and leaves the identities alone.\<close>

lemma identity_again:
  assumes inv: "catalog_inv d" and 1: "upsert_identity hk k now d = (Inr cid, e)"
    and ids: "opportunity_identities d1 = opportunity_identities e"
    and 2: "upsert_identity hk k' now' d1 = (Inr cid', g)"
  shows "cid' = cid \<and> g = d1"
proof -
  obtain r where r: "r \<in> set (opportunity_identities d1)" "oi_HardKey r = hk" "oi_CanonicalID r = cid"
    using upsert_identity_cases[OF 1] ids by auto
  have "distinct (map oi_HardKey (opportunity_identities d1))"
    using upsert_identity_keys[OF 1] inv ids by (simp add: catalog_inv_def catalog_keys_def)
  then have "List.find (\<lambda>r. oi_HardKey r = hk) (opportunity_identities d1) = Some r"
    using distinct_key_find[of oi_HardKey _ r] r by simp
  with 2 r show ?thesis by (auto simp: upsert_identity_def)
qed

text \<open>A row that a write left behind is the new row or a merge of it; merging it again is invisible.\<close>

lemma listing_again:
  assumes obj: "object_attributes e1" and ex: "ex = excluded_row cid slug c (JObject b) now"
    and up: "upsert_opportunity ex now e1 = (Inr (), e2)"
    and p: "p \<in> set (update_where (\<lambda>p. o_CanonicalID p = cid) (refresh_row act) (opportunities e2))" "o_CanonicalID p = cid"
  shows "listing (refresh_row act (merge_opportunity (excluded_row cid slug c (JObject b) now') now' p)) = listing p"
  using p(1)
proof (elim update_where_memE)
  have ex2: "excluded_row cid slug c (JObject b) now' = ex\<lparr>o_Slug := slug, o_CreatedAt := now', o_UpdatedAt := now'\<rparr>"
    by (simp add: ex excluded_row_def)
  fix y assume y: "y \<in> set (opportunities e2)" "o_CanonicalID y = cid" "p = refresh_row act y"
  from upsert_opportunity_rows[OF up y(1)] y(2) obj
  have "y = ex \<or> (\<exists>p0 a. y = merge_opportunity ex now p0 \<and> o_Attributes p0 = JObject a)"
    by (simp add: ex excluded_row_def)
  then show ?thesis unfolding ex2 using y(3) merge_again[of _ _ ex b] merge_self[of ex b]
    by (auto simp: ex excluded_row_def)
qed (use p(2) in simp)

text \<open>
  C11. Redelivery is safe: writing the same listing a second time (after the queue could
  not be acknowledged), with a new candidate identifier and at a later time, resolves to
  the same canonical identifier, adds no identity and no lineage, leaves the lineage as it
  is and every listing as it is, up to the time of the update and a missing amount that
  becomes zero.
\<close>

theorem redelivery_idempotent:
  assumes inv: "catalog_inv d" and obj: "object_attributes d" and attrs: "c_Attributes c = Some b"
    and first: "productWrite h item c now (d, fs) = (Inr cid, (d1, fs1))"
    and second: "productWrite h item (c\<lparr>c_CandidateID := k\<rparr>) now' (d1, fs2) = (Inr cid', (d2, fs3))"
  shows "cid' = cid \<and> opportunity_identities d2 = opportunity_identities d1 \<and>
    opportunity_sources d2 = opportunity_sources d1 \<and>
    map listing (opportunities d2) = map listing (opportunities d1)"
proof -
  let ?slug = "makeSlug h (c_Kind c) (c_Title c) (c_IssuingEntity c) cid"
  let ?ex = "excluded_row cid ?slug c (JObject b)" and ?hit = "\<lambda>p. o_CanonicalID p = cid"
  obtain e1 e2 e3 where 1: "upsert_identity (c_HardKey c) (c_CandidateID c) now d = (Inr cid, e1)"
    "upsert_opportunity (?ex now) now e1 = (Inr (), e2)" "upsert_source (excluded_source cid item c) e2 = (Inr (), e3)"
    "d1 = refresh_visibility cid e3"
    using productWrite_steps[OF attrs first] by blast
  have c': "excluded_row i s (c\<lparr>c_CandidateID := k\<rparr>) = excluded_row i s c"
    "excluded_source i item (c\<lparr>c_CandidateID := k\<rparr>) = excluded_source i item c" for i s
    by (auto simp: fun_eq_iff excluded_row_def excluded_source_def)
  obtain g1 g2 g3 where g: "upsert_identity (c_HardKey c) k now' d1 = (Inr cid', g1)"
    "upsert_opportunity (excluded_row cid' (makeSlug h (c_Kind c) (c_Title c) (c_IssuingEntity c) cid') c (JObject b) now') now' g1 = (Inr (), g2)"
    "upsert_source (excluded_source cid' item c) g2 = (Inr (), g3)" "d2 = refresh_visibility cid' g3"
    using productWrite_steps[OF _ second, of b] attrs by (auto simp: c')
  have cid: "cid' = cid" "g1 = d1"
    using identity_again[OF inv 1(1) _ g(1)] write_identities[OF 1(2,3)] 1(4) by auto
  let ?act = "has_active (opportunity_sources e3) cid"
  have src1: "opportunity_sources d1 = opportunity_sources e3" using 1(4) by (simp add: refresh_visibility_sources)
  have src: "opportunity_sources g3 = opportunity_sources e3"
    by (rule upsert_source_again[OF 1(3) g(3)[unfolded cid]])
      (use upsert_opportunity_frame[OF g(2)] cid src1 in \<open>simp_all add: excluded_source_def Let_def\<close>)
  have opp1: "opportunities d1 = update_where ?hit (refresh_row ?act) (opportunities e2)"
    using upsert_source_frame[OF 1(3)] 1(4) by (simp add: refresh_visibility_rows)
  have "object_attributes e1" using obj upsert_identity_cases[OF 1(1)] by (simp add: object_attributes_def)
  note rows = listing_again[OF this refl 1(2), of _ ?act now', folded opp1]
  have "\<exists>p \<in> set (opportunities d1). ?hit p"
    using upsert_opportunity_present[OF 1(2)] by (auto simp: opp1 row_simps refresh_row_def excluded_row_def)
  then have "opportunities g2 = update_where ?hit (merge_opportunity (?ex now') now') (opportunities d1)"
    using g(2) unfolding cid by (auto simp: upsert_opportunity_def list_ex_iff excluded_row_def split: if_splits)
  moreover have "opportunities d2 = update_where ?hit (refresh_row ?act) (opportunities g2)"
    using upsert_source_frame[OF g(3)] g(4) cid src by (simp add: refresh_visibility_rows)
  ultimately have "map listing (opportunities d2) = map listing (opportunities d1)"
    using rows by (simp add: update_where_def) (auto simp: merge_opportunity_def)
  moreover have "opportunity_identities d2 = opportunity_identities d1"
    using write_identities[OF g(2,3)] g(4) cid by simp
  ultimately show ?thesis using cid src src1 g(4) by (simp add: refresh_visibility_sources)
qed

lemma sample_write:
  "\<exists>d1. productWrite h (sample_item ''i'' ''v'') (sample_canonical ''A'') 7 (empty_jobdb, []) = (Inr ''A'', (d1, [])) \<and>
    (\<exists>cid' d2. productWrite h (sample_item ''i'' ''v'') ((sample_canonical ''A'')\<lparr>c_CandidateID := ''B''\<rparr>) 8 (d1, []) = (Inr cid', (d2, [])))"
  by (simp add: productWrite_def sql_simps Let_def upsert_identity_def upsert_opportunity_def
      upsert_source_def refresh_visibility_def sample_canonical_def sample_item_def url_blank_def
      empty_jobdb_def excluded_row_def excluded_source_def same_lineage_def)

theorem redelivery_idempotent_witness:
  "\<exists>d1 d2. productWrite (\<lambda>x. x) (sample_item ''i'' ''v'') (sample_canonical ''A'') 7 (empty_jobdb, []) = (Inr ''A'', (d1, [])) \<and>
     productWrite (\<lambda>x. x) (sample_item ''i'' ''v'') ((sample_canonical ''A'')\<lparr>c_CandidateID := ''B''\<rparr>) 8 (d1, []) = (Inr ''A'', (d2, [])) \<and>
     map listing (opportunities d2) = map listing (opportunities d1)"
proof -
  obtain d1 cid' d2 where w: "productWrite (\<lambda>x. x) (sample_item ''i'' ''v'') (sample_canonical ''A'') 7 (empty_jobdb, []) = (Inr ''A'', (d1, []))"
    "productWrite (\<lambda>x. x) (sample_item ''i'' ''v'') ((sample_canonical ''A'')\<lparr>c_CandidateID := ''B''\<rparr>) 8 (d1, []) = (Inr cid', (d2, []))"
    using sample_write[of "\<lambda>x. x"] by blast
  have "cid' = ''A'' \<and> opportunity_identities d2 = opportunity_identities d1 \<and>
      opportunity_sources d2 = opportunity_sources d1 \<and>
      map listing (opportunities d2) = map listing (opportunities d1)"
    by (rule redelivery_idempotent[OF _ _ _ w])
      (simp_all add: catalog_inv_def catalog_keys_def visible_ok_def object_attributes_def empty_jobdb_def
        sample_canonical_def)
  with w show ?thesis by blast
qed

section \<open>Switching a source off\<close>

text \<open>
  A completed full crawl retires what it did not see: after \<open>ReconcileSource\<close> every
  lineage row of the source last seen before the crawl started is inactive, no other
  lineage row has changed, and every opportunity with no active source left is hidden.
\<close>

theorem reconcile_retires:
  assumes "store_inv s" and "ReconcileSource src started now s = (Inr (), s')"
  shows "opportunity_sources (product_tables s') = map (\<lambda>l.
      if os_SourceID l = src \<and> os_LastSeenAt l < started
      then l\<lparr>os_Active := False, os_InactiveAfter := Some started\<rparr> else l) (opportunity_sources (product_tables s)) \<and>
    (\<forall>p \<in> set (opportunities (product_tables s')).
       o_Hidden p \<longleftrightarrow> \<not> has_active (opportunity_sources (product_tables s')) (o_CanonicalID p))"
proof
  have "job_step s s'" using assms(2) by (rule job_step.reconcile)
  with assms(1) have "store_inv s'" using jq.step_inv by blast
  from store_inv_product[OF this]
  show "\<forall>p \<in> set (opportunities (product_tables s')).
       o_Hidden p \<longleftrightarrow> \<not> has_active (opportunity_sources (product_tables s')) (o_CanonicalID p)"
    by (simp add: catalog_inv_def visible_ok_def)
next
  have tx: "opportunity_sources (fst z') = update_where (\<lambda>l. os_SourceID l = src \<and> os_LastSeenAt l < started)
      (\<lambda>l. l\<lparr>os_Active := False, os_InactiveAfter := Some started\<rparr>) (opportunity_sources (fst z))"
    if "reconcile_tx src started now z = (Inr (), z')" for z z'
    using that unfolding reconcile_tx_def
    by (cases z, cases z', simp only:)
      (auto elim!: transaction_success sql_bind_InrE dest!: sql_exec_InrD simp: hide_orphans_def)
  show "opportunity_sources (product_tables s') = map (\<lambda>l.
      if os_SourceID l = src \<and> os_LastSeenAt l < started
      then l\<lparr>os_Active := False, os_InactiveAfter := Some started\<rparr> else l) (opportunity_sources (product_tables s))"
    using assms(2) by (auto simp: ReconcileSource_def on_product_def on_db_def product_tables_def
        update_where_def dest!: tx split: option.splits prod.splits)
qed

theorem reconcile_retires_witness:
  "\<exists>s'. ReconcileSource ''s'' 9 10 sample_claimed = (Inr (), s') \<and>
     opportunity_sources (product_tables s') = []"
proof -
  obtain s' where r: "ReconcileSource ''s'' 9 10 sample_claimed = (Inr (), s')"
    by (simp add: ReconcileSource_def on_product_def on_db_def sample_claimed_eval reconcile_tx_def sql_simps)
  have "store_inv sample_claimed" using jq.run_inv[OF sample_claimed_reachable empty_store_inv] .
  from reconcile_retires[OF this r] r show ?thesis
    by (simp add: sample_claimed_eval product_tables_def empty_jobdb_def)
qed

text \<open>
  With a separate product database \<open>DeactivateSource\<close> never reaches the catalog: it
  runs on the crawl database, so the listings of a stopped source stay as they are, while
  \<open>ReconcileSource\<close> and \<open>Complete\<close> write the product database.
\<close>

theorem deactivate_misses_product:
  assumes "js_productDB s = Some z"
  shows "js_productDB (snd (DeactivateSource src reason now s)) = Some z \<and>
    product_tables (snd (DeactivateSource src reason now s)) = fst z \<and>
    js_db (snd (ReconcileSource src started now s)) = js_db s"
  using assms
  by (auto simp: DeactivateSource_def ReconcileSource_def on_db_def on_product_def product_tables_def
      split: prod.splits)

theorem deactivate_misses_product_witness:
  "product_tables (snd (DeactivateSource ''src'' ''stopped'' 5 (empty_store [] (Some [])))) =
     fst (the (js_productDB (empty_store [] (Some []))))"
  using deactivate_misses_product[of "empty_store [] (Some [])" _ "''src''" "''stopped''" 5]
  by (simp add: empty_store_def)

end
