(* ===== verification/Worker.thy ===== *)
theory Worker
  imports Jobqueue_Catalog
begin

text \<open>
  The drain loop of \<open>apps/worker/service\<close>: decoding and normalising a claimed variant,
  writing it through \<open>jobqueue.Store.Complete\<close>, publishing an embed job, and scheduling a
  retry when anything failed.

  \<open>decode\<close> is \<open>json.Unmarshal\<close> into the variant envelope (\<open>None\<close> on an error),
  \<open>formatFloat\<close> is \<open>strconv.FormatFloat(f, 'f', -1, 64)\<close>, \<open>parseRFC3339\<close> is
  \<open>time.Parse(time.RFC3339, \<cdot>)\<close>, and \<open>formatRFC3339\<close> its inverse.  The identifiers and
  times one item uses are the fields of \<open>item_env\<close>.  The pool of \<open>drainWithPool\<close> runs the
  same per-item operations in some order; \<open>drain\<close> is the sequential branch.
\<close>

section \<open>Normalisation\<close>

record VariantIngestedV1 =
  vi_VariantID :: string
  vi_SourceID :: string
  vi_ExternalID :: string
  vi_HardKey :: string
  vi_Kind :: string
  vi_Stage :: string
  vi_Title :: string
  vi_ApplyURL :: string
  vi_HowToApply :: string
  vi_IssuingEntity :: string
  vi_AnchorCountry :: string
  vi_AnchorRegion :: string
  vi_AnchorCity :: string
  vi_Remote :: bool
  vi_Currency :: string
  vi_AmountMin :: real
  vi_AmountMax :: real
  vi_Attributes :: gomap
  vi_ScrapedAt :: time

record Normalized =
  nz_VariantID :: string
  nz_SourceID :: string
  nz_HardKey :: string
  nz_Kind :: string
  nz_ApplyURL :: string
  nz_NormalizedAt :: time
  nz_Attributes :: gomap

definition to_upper :: "char \<Rightarrow> char" where
  "to_upper ch = (let n = (of_char ch :: nat) in if 97 \<le> n \<and> n \<le> 122 then char_of (n - 32) else ch)"

definition ToUpper :: "string \<Rightarrow> string" where
  "ToUpper s = map to_upper s"

fun hasPrefix :: "string \<Rightarrow> string \<Rightarrow> bool" where
  "hasPrefix [] s \<longleftrightarrow> True"
| "hasPrefix (c # p) [] \<longleftrightarrow> False"
| "hasPrefix (c # p) (x # s) \<longleftrightarrow> c = x \<and> hasPrefix p s"

fun Contains :: "string \<Rightarrow> string \<Rightarrow> bool" where
  "Contains p [] \<longleftrightarrow> p = []"
| "Contains p (x # s) \<longleftrightarrow> hasPrefix p (x # s) \<or> Contains p s"

text \<open>The closure \<open>trim\<close>: a missing or non-string value reads as the empty string.\<close>

definition asString :: "gomap \<Rightarrow> string \<Rightarrow> string" where
  "asString attrs key = (case attrs key of Some (AStr s) \<Rightarrow> s | _ \<Rightarrow> [])"

definition trim_attr :: "gomap \<Rightarrow> string \<Rightarrow> string" where
  "trim_attr attrs key = TrimSpace (asString attrs key)"

definition inferRemote :: "string \<Rightarrow> string \<Rightarrow> string" where
  "inferRemote rt loc =
     (if rt \<noteq> [] then rt
      else let l = ToLower loc in
        if Contains ''remote'' l \<or> Contains ''anywhere'' l \<or> Contains ''worldwide'' l then ''remote''
        else if Contains ''hybrid'' l then ''hybrid'' else [])"

definition Normalize :: "time \<Rightarrow> VariantIngestedV1 \<Rightarrow> Normalized" where
  "Normalize wall v =
     (let a0 = vi_Attributes v;
          a1 = a0(''location_text'' \<mapsto> AStr (trim_attr a0 ''location_text''));
          a2 = a1(''language'' \<mapsto> AStr (ToLower (trim_attr a1 ''language'')));
          a3 = a2(''employment_type'' \<mapsto> AStr (ToLower (trim_attr a2 ''employment_type'')));
          rt = inferRemote (ToLower (trim_attr a3 ''remote_type'')) (asString a3 ''location_text'');
          a4 = a3(''remote_type'' \<mapsto> AStr rt);
          a5 = a4(''description'' \<mapsto> AStr (trim_attr a4 ''description''));
          a6 = a5(''title'' \<mapsto> AStr (TrimSpace (vi_Title v)),
                  ''issuing_entity'' \<mapsto> AStr (TrimSpace (vi_IssuingEntity v)),
                  ''country'' \<mapsto> AStr (ToUpper (TrimSpace (vi_AnchorCountry v))),
                  ''currency'' \<mapsto> AStr (ToUpper (TrimSpace (vi_Currency v))),
                  ''amount_min'' \<mapsto> ANum (vi_AmountMin v),
                  ''amount_max'' \<mapsto> ANum (vi_AmountMax v))
      in \<lparr>nz_VariantID = vi_VariantID v, nz_SourceID = vi_SourceID v, nz_HardKey = vi_HardKey v,
          nz_Kind = vi_Kind v, nz_ApplyURL = TrimSpace (vi_ApplyURL v), nz_NormalizedAt = wall,
          nz_Attributes = a6\<rparr>)"

section \<open>Processing one item\<close>

definition attrString :: "(real \<Rightarrow> string) \<Rightarrow> gomap \<Rightarrow> string \<Rightarrow> string" where
  "attrString formatFloat a key =
     (case a key of Some (AStr s) \<Rightarrow> s | Some (ANum f) \<Rightarrow> formatFloat f | _ \<Rightarrow> [])"

definition attrTime ::
  "(real \<Rightarrow> string) \<Rightarrow> (string \<Rightarrow> time option) \<Rightarrow> gomap \<Rightarrow> string \<Rightarrow> time option"
where
  "attrTime formatFloat parseRFC3339 a key =
     (let s = attrString formatFloat a key in if s = [] then None else parseRFC3339 s)"

definition defaultString :: "string \<Rightarrow> string \<Rightarrow> string" where
  "defaultString v fallback = (if v = [] then fallback else v)"

record OpportunityEmbedV1 =
  em_OpportunityID :: string
  em_Title :: string
  em_IssuingEntity :: string
  em_Description :: string
  em_Kind :: string
  em_Country :: string
  em_AmountMax :: "real option"
  em_PostedAt :: string

record item_env =
  ie_candidate :: string
  ie_completeEvent :: string
  ie_retryEvent :: string
  ie_wall :: time
  ie_nowP :: time
  ie_nowC :: time
  ie_nowR :: time

record codec =
  cd_decode :: "goany \<Rightarrow> VariantIngestedV1 option"
  cd_formatFloat :: "real \<Rightarrow> string"
  cd_parseRFC3339 :: "string \<Rightarrow> time option"
  cd_formatRFC3339 :: "time \<Rightarrow> string"
  cd_sha256hex :: "string \<Rightarrow> string"

definition canonical_of :: "codec \<Rightarrow> item_env \<Rightarrow> VariantIngestedV1 \<Rightarrow> Canonical" where
  "canonical_of cd env v =
     (let n = Normalize (ie_wall env) v; a0 = nz_Attributes n; str = attrString (cd_formatFloat cd);
          how0 = TrimSpace (vi_HowToApply v);
          howToApply = (if how0 = [] then str a0 ''how_to_apply'' else how0);
          a = a0(''how_to_apply'' := None)
      in \<lparr>c_CandidateID = ie_candidate env, c_HardKey = vi_HardKey v,
          c_Kind = defaultString (vi_Kind v) ''job'', c_SourceID = vi_SourceID v,
          c_ExternalID = vi_ExternalID v, c_Title = vi_Title v,
          c_Description = str a ''description'', c_HowToApply = howToApply,
          c_IssuingEntity = vi_IssuingEntity v, c_Country = vi_AnchorCountry v,
          c_Region = vi_AnchorRegion v, c_City = vi_AnchorCity v, c_ApplyURL = nz_ApplyURL n,
          c_Currency = vi_Currency v, c_EmploymentType = str a ''employment_type'',
          c_Seniority = str a ''seniority'', c_GeoScope = str a ''geo_scope'',
          c_Remote = (vi_Remote v \<or> str a ''remote_type'' = ''remote''),
          c_AmountMin = vi_AmountMin v, c_AmountMax = vi_AmountMax v,
          c_PostedAt = attrTime (cd_formatFloat cd) (cd_parseRFC3339 cd) a ''posted_at'',
          c_Deadline = attrTime (cd_formatFloat cd) (cd_parseRFC3339 cd) a ''deadline'',
          c_SeenAt = vi_ScrapedAt v, c_Attributes = Some a\<rparr>)"

definition embed_job :: "codec \<Rightarrow> string \<Rightarrow> Canonical \<Rightarrow> OpportunityEmbedV1" where
  "embed_job cd canonicalID c =
     \<lparr>em_OpportunityID = canonicalID, em_Title = c_Title c, em_IssuingEntity = c_IssuingEntity c,
      em_Description = c_Description c, em_Kind = c_Kind c, em_Country = c_Country c,
      em_AmountMax = (if c_AmountMax c > 0 then Some (c_AmountMax c) else None),
      em_PostedAt = (case c_PostedAt c of None \<Rightarrow> [] | Some t \<Rightarrow> cd_formatRFC3339 cd t)\<rparr>"

text \<open>
  The worker's state: the store and the embed jobs handed to the publisher, if one is
  configured.
\<close>

record workstate =
  ws_store :: jobstore
  ws_embeds :: "OpportunityEmbedV1 list"

definition process :: "codec \<Rightarrow> bool \<Rightarrow> item_env \<Rightarrow> Item \<Rightarrow> workstate \<Rightarrow> go_error option \<times> workstate" where
  "process cd publisher env item w =
     (case cd_decode cd (it_Payload item) of
        None \<Rightarrow> (Some (ErrNew ''decode variant''), w)
      | Some v \<Rightarrow>
          if vi_VariantID v = [] \<or> vi_HardKey v = [] \<or> vi_Title v = []
          then (Some (ErrNew ''invalid variant payload''), w)
          else if nz_ApplyURL (Normalize (ie_wall env) v) = []
          then (Some (ErrNew ''invalid variant payload: apply_url is required''), w)
          else let c = canonical_of cd env v in
            case Complete (cd_sha256hex cd) (ie_completeEvent env) (ie_wall env) (ie_nowP env)
                   (ie_nowC env) item c (ws_store w) of
              (Inl e, s) \<Rightarrow> (Some e, w\<lparr>ws_store := s\<rparr>)
            | (Inr cid, s) \<Rightarrow>
                (None, w\<lparr>ws_store := s,
                         ws_embeds := (if publisher \<and> cid \<noteq> [] then ws_embeds w @ [embed_job cd cid c]
                                       else ws_embeds w)\<rparr>))"

section \<open>The drain loop\<close>

record PostgresProcessor =
  pp_owner :: string
  pp_batch :: int
  pp_lease :: duration
  pp_maxAttempts :: int

definition NewPostgresProcessor :: "string \<Rightarrow> string \<Rightarrow> int \<Rightarrow> duration \<Rightarrow> int \<Rightarrow> PostgresProcessor" where
  "NewPostgresProcessor xid owner batch lease maxAttempts =
     \<lparr>pp_owner = (if owner = [] then ''worker-'' @ xid else owner),
      pp_batch = (if batch \<le> 0 then 100 else batch),
      pp_lease = (if lease \<le> 0 then 2 * Minute else lease), pp_maxAttempts = maxAttempts\<rparr>"

definition process_or_retry ::
  "codec \<Rightarrow> bool \<Rightarrow> int \<Rightarrow> item_env \<Rightarrow> Item \<Rightarrow> workstate \<Rightarrow> workstate"
where
  "process_or_retry cd publisher maxAttempts env item w =
     (case process cd publisher env item w of
        (None, w1) \<Rightarrow> w1
      | (Some e, w1) \<Rightarrow>
          (case on_db (Retry (ie_retryEvent env) item (Error e) maxAttempts (ie_nowR env)) (ws_store w1) of
             (_, s) \<Rightarrow> w1\<lparr>ws_store := s\<rparr>))"

definition drain ::
  "codec \<Rightarrow> bool \<Rightarrow> PostgresProcessor \<Rightarrow> string list \<Rightarrow> time \<Rightarrow> (Item \<Rightarrow> item_env) \<Rightarrow> workstate \<Rightarrow>
    go_error option \<times> workstate"
where
  "drain cd publisher p locked now env w =
     (case on_db (Claim locked (pp_owner p) (pp_batch p) (pp_lease p) now) (ws_store w) of
        (Inl e, s) \<Rightarrow> (Some e, w\<lparr>ws_store := s\<rparr>)
      | (Inr items, s) \<Rightarrow>
          (None, fold (\<lambda>item w. process_or_retry cd publisher (pp_maxAttempts p) (env item) item w)
                   items (w\<lparr>ws_store := s\<rparr>)))"

section \<open>The loop only runs operations of the store\<close>

lemma complete_steps: "Complete h ev wall nowP nowC item c s = (x, s') \<Longrightarrow> job_step\<^sup>*\<^sup>* s s'"
  by (rule r_into_rtranclp) (rule job_step.complete)

lemma process_steps:
  assumes "process cd publisher env item w = (x, w')"
  shows "job_step\<^sup>*\<^sup>* (ws_store w) (ws_store w')"
  using assms
  by (auto simp: process_def Let_def dest!: complete_steps
      split: option.splits if_splits prod.splits sum.splits)

lemma process_or_retry_steps:
  "job_step\<^sup>*\<^sup>* (ws_store w) (ws_store (process_or_retry cd publisher maxA env item w))"
proof (cases "process cd publisher env item w")
  case (Pair x w1)
  note st = process_steps[OF Pair]
  show ?thesis
  proof (cases x)
    case (Some e)
    obtain y s where r: "on_db (Retry (ie_retryEvent env) item (Error e) maxA (ie_nowR env)) (ws_store w1) = (y, s)"
      by (metis prod.collapse)
    with Pair Some have "ws_store (process_or_retry cd publisher maxA env item w) = s"
      by (simp add: process_or_retry_def)
    with st r show ?thesis by (metis rtranclp.rtrancl_into_rtrancl job_step.retry)
  qed (use Pair st in \<open>simp add: process_or_retry_def\<close>)
qed

lemma fold_steps:
  assumes "\<And>item w. job_step\<^sup>*\<^sup>* (ws_store w) (ws_store (f item w))"
  shows "job_step\<^sup>*\<^sup>* (ws_store w) (ws_store (fold f items w))"
proof (induction items arbitrary: w)
  case (Cons item items)
  from assms[of w item] Cons.IH[of "f item w"] show ?case by simp
qed simp

lemma drain_steps:
  assumes "drain cd publisher p locked now env w = (x, w')"
  shows "job_step\<^sup>*\<^sup>* (ws_store w) (ws_store w')"
proof -
  obtain y s where c: "on_db (Claim locked (pp_owner p) (pp_batch p) (pp_lease p) now) (ws_store w) = (y, s)"
    by (metis prod.collapse)
  have st: "job_step (ws_store w) s" using c by (rule job_step.claim)
  show ?thesis
  proof (cases y)
    case (Inl e)
    with c assms st show ?thesis by (auto simp: drain_def)
  next
    case (Inr items)
    let ?f = "\<lambda>item w. process_or_retry cd publisher (pp_maxAttempts p) (env item) item w"
    have "w' = fold ?f items (w\<lparr>ws_store := s\<rparr>)" using c Inr assms by (auto simp: drain_def)
    with fold_steps[of ?f "w\<lparr>ws_store := s\<rparr>" items] process_or_retry_steps st show ?thesis
      by (simp add: converse_rtranclp_into_rtranclp)
  qed
qed

section \<open>What one item does to the queue\<close>

definition other_rows :: "string \<Rightarrow> jobdb \<Rightarrow> QueueRecord list" where
  "other_rows i d = filter (\<lambda>q. q_ID q \<noteq> i) (job_ingest_queue d)"

text \<open>An operation on row \<open>i\<close>: the other rows stay, and the new events are among \<open>es\<close>.\<close>

definition row_only :: "string \<Rightarrow> string set \<Rightarrow> jobdb \<Rightarrow> jobdb \<Rightarrow> bool" where
  "row_only i es d d' \<longleftrightarrow> other_rows i d' = other_rows i d \<and>
     ie_EventID ` set (job_ingest_events d') \<subseteq> ie_EventID ` set (job_ingest_events d) \<union> es \<and>
     map q_ID (job_ingest_queue d') = map q_ID (job_ingest_queue d)"

interpretation ro: sql_preorder "row_only i es" for i es
proof
  show "row_only i es s s" for s by (simp add: row_only_def)
  show "row_only i es s t \<Longrightarrow> row_only i es t u \<Longrightarrow> row_only i es s u" for s t u
    unfolding row_only_def by (elim conjE, intro conjI) (simp, blast, simp)
qed

lemmas row_intros = ro.preserves_return ro.preserves_raise ro.preserves_bind ro.preserves_wrap
  ro.preserves_query ro.preserves_transaction ro.preserves_if

lemma row_only_same: "queue_same d d' \<Longrightarrow> row_only i es d d'"
  by (simp add: queue_same_def row_only_def other_rows_def)

lemma row_only_update:
  assumes "\<And>q. P q \<Longrightarrow> q_ID q = i" and "\<And>q. q_ID (f q) = q_ID q"
  shows "row_only i es d (d\<lparr>job_ingest_queue := update_where P f (job_ingest_queue d)\<rparr>)"
proof -
  have "filter (\<lambda>q. q_ID q \<noteq> i) (update_where P f (job_ingest_queue d)) =
      filter (\<lambda>q. q_ID q \<noteq> i) (job_ingest_queue d)"
    using assms by (intro filter_update_where) simp
  with assms(2) show ?thesis by (simp add: row_only_def other_rows_def map_update_where)
qed

lemma queue_appendEvent_row:
  "ev \<in> es \<Longrightarrow> preserves (row_only i es) (queue_appendEvent ev j v src ty n det now)"
  unfolding queue_appendEvent_def
  by (rule ro.preserves_stmt) (auto simp: row_only_def other_rows_def split: if_splits)

lemma Retry_row: "ev \<in> es \<Longrightarrow> preserves (row_only (it_ID item) es) (Retry ev item cause maxA now)"
  unfolding Retry_def Let_def split_beta
  by (intro row_intros ro.preserves_exec queue_appendEvent_row row_only_update) simp_all

lemma ackCrawl_row: "ev \<in> es \<Longrightarrow> preserves (row_only (it_ID item) es) (ackCrawl ev item cid now)"
  unfolding ackCrawl_def
  by (intro row_intros ro.preserves_stmt queue_appendEvent_row)
    (auto simp: Let_def ack_row_def intro!: row_only_update)

lemma Complete_row:
  assumes "Complete h ev wall nowP nowC item c s = (x, s')" and "ev \<in> es"
  shows "row_only (it_ID item) es (fst (js_db s)) (fst (js_db s'))"
proof (cases x)
  case (Inl e)
  with Complete_error assms(1) show ?thesis by (metis ro.R_refl)
next
  case (Inr cid)
  let ?c = "prepare_canonical wall c"
  obtain d fs d' fs' where s: "js_db s = (d, fs)" "js_db s' = (d', fs')" by (metis prod.collapse)
  have ack: "row_only (it_ID item) es e d'" if "ackCrawl ev item cid nowC (e, gs) = (Inr (), (d', gs'))" for e gs gs'
    using preserves_run[OF ackCrawl_row[OF assms(2)] that] .
  show ?thesis
  proof (cases "js_productDB s")
    case None
    then have "transaction (sql_bind (productWrite h item ?c nowC) (\<lambda>cid.
          sql_bind (ackCrawl ev item cid nowC) (\<lambda>_. sql_return cid))) (d, fs) = (Inr cid, (d', fs'))"
      using assms(1) Inr s by (auto simp: Complete_def Let_def on_db_def split: if_splits prod.splits)
    from transaction_success[OF this] obtain gs where
      "sql_bind (productWrite h item ?c nowC) (\<lambda>cid.
          sql_bind (ackCrawl ev item cid nowC) (\<lambda>_. sql_return cid)) (d, fs) = (Inr cid, (d', gs))" .
    then obtain e f where "productWrite h item ?c nowC (d, fs) = (Inr cid, (e, f))"
      "ackCrawl ev item cid nowC (e, f) = (Inr (), (d', gs))"
      by (elim sql_bind_InrE) (auto simp: sql_return_def)
    with s ack show ?thesis by (auto intro: ro.R_trans[OF row_only_same[OF productWrite_queue]])
  next
    case (Some p)
    then have "transaction (ackCrawl ev item cid nowC) (d, fs) = (Inr (), (d', fs'))"
      using assms(1) Inr s by (auto simp: Complete_def Let_def on_db_def on_product_def
          split: if_splits prod.splits sum.splits)
    from transaction_success[OF this] obtain gs where "ackCrawl ev item cid nowC (d, fs) = (Inr (), (d', gs))" .
    with ack s show ?thesis by simp
  qed
qed

lemma steady_ops: "steady (queue_appendEvent ev j v src ty n det now)" "steady (Retry ev item cause maxA now)"
  "steady (ackCrawl ev item cid now)" "steady (productWrite h item c now)"
  "steady (Claim locked owner limit lease now)"
proof -
  show app: "steady (queue_appendEvent ev j v src ty n det now)" for ev j v src ty n det now
    unfolding queue_appendEvent_def by (rule steady_stmt)
  show "steady (Retry ev item cause maxA now)"
    unfolding Retry_def Let_def split_beta by (intro steady_rules app)
  show "steady (ackCrawl ev item cid now)"
    unfolding ackCrawl_def by (intro steady_rules app)
  show "steady (productWrite h item c now)"
    unfolding productWrite_def Let_def by (intro steady_rules)
  show "steady (Claim locked owner limit lease now)"
    unfolding Claim_def by (intro steady_rules)
qed

lemma on_db_preserves:
  assumes "on_db m s = (x, s')" and "preserves R m"
  shows "R (fst (js_db s)) (fst (js_db s'))"
  using assms(1) preserves_run[OF assms(2), of "fst (js_db s)" "snd (js_db s)" x "fst (js_db s')" "snd (js_db s')"]
  by (auto simp: on_db_def split: prod.splits)

lemma on_db_steady: "steady m \<Longrightarrow> snd (js_db s) = [] \<Longrightarrow> on_db m s = (x, s') \<Longrightarrow> snd (js_db s') = []"
  by (cases "js_db s") (auto simp: on_db_def split: prod.splits dest: steadyD)

lemma Complete_steady:
  assumes "Complete h ev wall nowP nowC item c s = (x, s')" and "snd (js_db s) = []"
  shows "snd (js_db s') = []"
proof (cases "js_productDB s")
  case None
  show ?thesis
  proof (cases "c_CandidateID c = [] \<or> c_HardKey c = [] \<or> c_Kind c = [] \<or> c_Title c = [] \<or> c_ApplyURL c = []")
    case False
    with assms(1) None have "on_db (transaction (sql_bind (productWrite h item (prepare_canonical wall c) nowC) (\<lambda>cid.
        sql_bind (ackCrawl ev item cid nowC) (\<lambda>_. sql_return cid)))) s = (x, s')"
      by (simp add: Complete_def Let_def)
    then show ?thesis by (rule on_db_steady[rotated 2]) (intro steady_rules steady_ops, fact)
  qed (use assms in \<open>simp add: Complete_def\<close>)
next
  case (Some p)
  have pr: "js_db s1 = js_db s" if "on_product m s = (y, s1)" for m :: "(jobdb, string) sql" and y s1
    using that Some by (auto simp: on_product_def split: prod.splits)
  have ack: "snd (js_db s2) = []" if "on_db (transaction (ackCrawl ev item cid nowC)) s1 = (y, s2)" "js_db s1 = js_db s" for cid s1 s2 y
    by (rule on_db_steady[OF steady_transaction[OF steady_ops(3)] _ that(1)]) (simp add: that(2) assms(2))
  consider "s' = s" | y where "on_product (transaction (productWrite h item (prepare_canonical wall c) nowP)) s = (y, s')"
    | cid s1 y where "on_product (transaction (productWrite h item (prepare_canonical wall c) nowP)) s = (Inr cid, s1)"
      "on_db (transaction (ackCrawl ev item cid nowC)) s1 = (y, s')"
    using assms(1) Some
    by (auto simp: Complete_def Let_def split: if_splits prod.splits sum.splits)
  then show ?thesis
  proof cases
    case 3
    show ?thesis by (rule ack[OF 3(2) pr[OF 3(1)]])
  qed (use assms(2) pr in simp_all)
qed

definition settled :: "jobdb \<Rightarrow> string \<Rightarrow> bool" where
  "settled d i \<longleftrightarrow> (\<exists>q \<in> set (job_ingest_queue d). q_ID q = i \<and> q_Status q \<in> {QProcessed, QRetry, QDead})"

lemma process_cases:
  assumes "process cd publisher env item w = (x, w')"
  obtains (done_) cid c where "x = None" "Complete (cd_sha256hex cd) (ie_completeEvent env) (ie_wall env) (ie_nowP env)
      (ie_nowC env) item c (ws_store w) = (Inr cid, ws_store w')"
  | (failed) e where "x = Some e" "fst (js_db (ws_store w')) = fst (js_db (ws_store w))"
      "snd (js_db (ws_store w)) = [] \<Longrightarrow> snd (js_db (ws_store w')) = []"
proof -
  consider "w' = w" "x \<noteq> None" | y c where "Complete (cd_sha256hex cd) (ie_completeEvent env) (ie_wall env) (ie_nowP env)
      (ie_nowC env) item c (ws_store w) = (y, ws_store w')" "case y of Inl e \<Rightarrow> x = Some e | Inr cid \<Rightarrow> x = None"
    using assms by (auto simp: process_def Let_def split: option.splits if_splits prod.splits sum.splits)
  then show ?thesis
  proof cases
    case 1
    then show ?thesis using failed by auto
  next
    case (2 y c)
    show ?thesis
    proof (cases y)
      case (Inl e)
      show ?thesis
        by (rule failed[of e]) (use 2 Inl Complete_error Complete_steady[OF 2(1)] in auto)
    next
      case (Inr cid)
      with 2 done_ show ?thesis by simp
    qed
  qed
qed

lemma Retry_settles:
  assumes "snd (js_db s) = []" and "it_ID item \<in> q_ID ` set (job_ingest_queue (fst (js_db s)))"
    and "ev \<notin> ie_EventID ` set (job_ingest_events (fst (js_db s)))"
    and "on_db (Retry ev item cause maxA now) s = (x, s')"
  shows "settled (fst (js_db s')) (it_ID item)"
proof -
  obtain d where d: "js_db s = (d, [])" using assms(1) by (cases "js_db s") simp
  have fresh: "\<not> list_ex (\<lambda>e. ie_EventID e = ev \<and> ie_OccurredAt e = now) (job_ingest_events d)"
    using assms(3) d by (auto simp: list_ex_iff)
  define st where "st = (if it_Attempt item \<ge> (if maxA \<le> 0 then 10 else maxA) then QDead else QRetry)"
  have "job_ingest_queue (fst (js_db s')) = update_where (\<lambda>q. q_ID q = it_ID item)
      (\<lambda>q. q\<lparr>q_Status := st, q_AvailableAt := now + retry_delay (it_Attempt item),
       q_LeaseExpiresAt := None, q_ClaimedBy := None, q_LastError := Some (take 2000 cause), q_UpdatedAt := now\<rparr>)
      (job_ingest_queue d)"
    using assms(4) fresh d
    by (cases "it_Attempt item \<ge> (if maxA \<le> 0 then 10 else maxA)")
      (simp_all only: Retry_def Let_def sql_simps queue_appendEvent_def st_def if_True if_False on_db_def,
        auto simp: sql_simps)
  moreover have "st \<in> {QProcessed, QRetry, QDead}" by (simp add: st_def)
  moreover obtain q where "q \<in> set (job_ingest_queue d)" "q_ID q = it_ID item" using assms(2) d by auto
  ultimately show ?thesis by (simp add: settled_def bex_update_where) (rule bexI[of _ q], auto)
qed

lemma process_or_retry_settles:
  assumes "snd (js_db (ws_store w)) = []"
    and "it_ID item \<in> q_ID ` set (job_ingest_queue (fst (js_db (ws_store w))))"
    and "ie_retryEvent env \<notin> ie_EventID ` set (job_ingest_events (fst (js_db (ws_store w))))"
    and w': "w' = process_or_retry cd publisher maxA env item w"
  shows "settled (fst (js_db (ws_store w'))) (it_ID item)" and "snd (js_db (ws_store w')) = []"
    and "row_only (it_ID item) {ie_completeEvent env, ie_retryEvent env} (fst (js_db (ws_store w))) (fst (js_db (ws_store w')))"
proof -
  let ?es = "{ie_completeEvent env, ie_retryEvent env}"
  obtain x w1 where p: "process cd publisher env item w = (x, w1)" by (metis prod.collapse)
  have "settled (fst (js_db (ws_store w'))) (it_ID item) \<and> snd (js_db (ws_store w')) = [] \<and>
      row_only (it_ID item) ?es (fst (js_db (ws_store w))) (fst (js_db (ws_store w')))"
    using p
  proof (cases rule: process_cases)
    case (done_ cid c)
    then have "w' = w1" using p w' by (simp add: process_or_retry_def)
    moreover have "settled (fst (js_db (ws_store w1))) (it_ID item)"
    proof -
      obtain q where "ack_row (ie_nowC env) q \<in> set (job_ingest_queue (fst (js_db (ws_store w1))))" "q_ID q = it_ID item"
        using Complete_acked[OF done_(2)] by blast
      then show ?thesis unfolding settled_def
        by (intro bexI[of _ "ack_row (ie_nowC env) q"]) (simp_all add: ack_row_def)
    qed
    ultimately show ?thesis using Complete_steady[OF done_(2) assms(1)] Complete_row[OF done_(2), of ?es] by simp
  next
    case (failed e)
    obtain y s where r: "on_db (Retry (ie_retryEvent env) item (Error e) maxA (ie_nowR env)) (ws_store w1) = (y, s)"
      by (metis prod.collapse)
    have w1: "snd (js_db (ws_store w1)) = []" using failed(3) assms(1) by simp
    have "w' = w1\<lparr>ws_store := s\<rparr>" using p failed(1) r w' by (simp add: process_or_retry_def)
    moreover have "settled (fst (js_db s)) (it_ID item)"
      using w1 _ _ r by (rule Retry_settles) (use failed(2) assms(2,3) in simp_all)
    moreover have "row_only (it_ID item) ?es (fst (js_db (ws_store w1))) (fst (js_db s))"
      using r by (rule on_db_preserves) (rule Retry_row, simp)
    ultimately show ?thesis using failed(2) on_db_steady[OF steady_ops(2) w1 r] by simp
  qed
  then show "settled (fst (js_db (ws_store w'))) (it_ID item)" "snd (js_db (ws_store w')) = []"
    "row_only (it_ID item) ?es (fst (js_db (ws_store w))) (fst (js_db (ws_store w')))" by blast+
qed

lemma disjoint_subset: "B \<subseteq> C \<Longrightarrow> A \<inter> C = {} \<Longrightarrow> A \<inter> B = {}"
  by blast

lemma settled_row_only:
  assumes "settled d i" and "row_only j es d d'" and "i \<noteq> j"
  shows "settled d' i"
proof -
  obtain q where q: "q \<in> set (job_ingest_queue d)" "q_ID q = i" "q_Status q \<in> {QProcessed, QRetry, QDead}"
    using assms(1) by (auto simp: settled_def)
  then have "q \<in> set (other_rows j d)" using assms(3) by (simp add: other_rows_def)
  then have "q \<in> set (other_rows j d')" using assms(2) by (simp add: row_only_def)
  with q show ?thesis by (auto simp: settled_def other_rows_def)
qed

lemma row_only_ids: "row_only i es d d' \<Longrightarrow> q_ID ` set (job_ingest_queue d') = q_ID ` set (job_ingest_queue d)"
  unfolding row_only_def by (metis list.set_map)

text \<open>The events one batch may write.\<close>

definition batch_events :: "(Item \<Rightarrow> item_env) \<Rightarrow> Item list \<Rightarrow> string list" where
  "batch_events env items = concat (map (\<lambda>i. [ie_completeEvent (env i), ie_retryEvent (env i)]) items)"

lemma fold_settles:
  assumes "snd (js_db (ws_store w)) = []" and "distinct (map it_ID items)"
    and "it_ID ` set items \<subseteq> q_ID ` set (job_ingest_queue (fst (js_db (ws_store w))))"
    and "distinct (batch_events env items)"
    and "set (batch_events env items) \<inter> ie_EventID ` set (job_ingest_events (fst (js_db (ws_store w)))) = {}"
    and "w' = fold (\<lambda>item w. process_or_retry cd publisher maxA (env item) item w) items w"
  shows "(\<forall>item \<in> set items. settled (fst (js_db (ws_store w'))) (it_ID item)) \<and>
    (\<forall>j. j \<notin> it_ID ` set items \<longrightarrow> settled (fst (js_db (ws_store w))) j \<longrightarrow> settled (fst (js_db (ws_store w'))) j)"
  using assms
proof (induction items arbitrary: w)
  case (Cons item items)
  let ?w1 = "process_or_retry cd publisher maxA (env item) item w"
  let ?d = "fst (js_db (ws_store w))" and ?d1 = "fst (js_db (ws_store ?w1))"
  note one = process_or_retry_settles[OF Cons.prems(1) _ _ refl, of item "env item" cd publisher maxA]
  have 1: "settled ?d1 (it_ID item)" "snd (js_db (ws_store ?w1)) = []"
    "row_only (it_ID item) {ie_completeEvent (env item), ie_retryEvent (env item)} ?d ?d1"
    using one Cons.prems(3,5) by (auto simp: batch_events_def)
  have ids: "q_ID ` set (job_ingest_queue ?d1) = q_ID ` set (job_ingest_queue ?d)"
    using 1(3) by (rule row_only_ids)
  have evs: "ie_EventID ` set (job_ingest_events ?d1) \<subseteq>
      ie_EventID ` set (job_ingest_events ?d) \<union> {ie_completeEvent (env item), ie_retryEvent (env item)}"
    using 1(3) by (simp add: row_only_def)
  have "(\<forall>i \<in> set items. settled (fst (js_db (ws_store w'))) (it_ID i)) \<and>
    (\<forall>j. j \<notin> it_ID ` set items \<longrightarrow> settled ?d1 j \<longrightarrow> settled (fst (js_db (ws_store w'))) j)"
  proof (rule Cons.IH[OF 1(2)])
    show "distinct (map it_ID items)" using Cons.prems(2) by simp
    show "it_ID ` set items \<subseteq> q_ID ` set (job_ingest_queue ?d1)" using Cons.prems(3) ids by simp
    show "distinct (batch_events env items)" using Cons.prems(4) by (simp add: batch_events_def)
    show "set (batch_events env items) \<inter> ie_EventID ` set (job_ingest_events ?d1) = {}"
    proof -
      have "set (batch_events env items) \<inter> {ie_completeEvent (env item), ie_retryEvent (env item)} = {}"
        using Cons.prems(4) by (auto simp: batch_events_def)
      moreover have "set (batch_events env items) \<inter> ie_EventID ` set (job_ingest_events ?d) = {}"
        using Cons.prems(5) by (auto simp: batch_events_def)
      ultimately have "set (batch_events env items) \<inter> (ie_EventID ` set (job_ingest_events ?d) \<union>
          {ie_completeEvent (env item), ie_retryEvent (env item)}) = {}" by (simp add: Int_Un_distrib)
      with evs show ?thesis by (rule disjoint_subset)
    qed
    show "w' = fold (\<lambda>item w. process_or_retry cd publisher maxA (env item) item w) items ?w1"
      using Cons.prems(6) by simp
  qed
  moreover have "it_ID item \<notin> it_ID ` set items" using Cons.prems(2) by simp
  moreover have "settled ?d j \<Longrightarrow> j \<noteq> it_ID item \<Longrightarrow> settled ?d1 j" for j
    using settled_row_only 1(3) by blast
  ultimately show ?case using 1(1) by auto
qed simp

section \<open>Paywalled instructions\<close>

fun no_leak :: "jsonb \<Rightarrow> bool" where
  "no_leak JNull \<longleftrightarrow> True"
| "no_leak (JObject a) \<longleftrightarrow> a ''how_to_apply'' = None"
| "no_leak (JArray xs) \<longleftrightarrow> list_all no_leak xs"

definition attrs_clean :: "jobdb \<Rightarrow> bool" where
  "attrs_clean d \<longleftrightarrow> (\<forall>p \<in> set (opportunities d). no_leak (o_Attributes p))"

lemma no_leak_elems: "no_leak x \<Longrightarrow> list_all no_leak (jsonb_elems x)"
  by (cases x) simp_all

lemma no_leak_concat: "no_leak x \<Longrightarrow> no_leak y \<Longrightarrow> no_leak (jsonb_concat x y)"
  using no_leak_elems[of x] no_leak_elems[of y]
  by (cases "(x, y)" rule: jsonb_concat.cases) (simp_all add: map_add_def)

definition clean_kept :: "jobdb \<Rightarrow> jobdb \<Rightarrow> bool" where
  "clean_kept d d' \<longleftrightarrow> (attrs_clean d \<longrightarrow> attrs_clean d')"

interpretation ck: sql_preorder clean_kept
  by unfold_locales (auto simp: clean_kept_def)

lemma clean_update:
  assumes "\<And>p. no_leak (o_Attributes p) \<Longrightarrow> no_leak (o_Attributes (f p))"
  shows "clean_kept d (d\<lparr>opportunities := update_where P f (opportunities d)\<rparr>)"
  using assms by (auto simp: clean_kept_def attrs_clean_def elim!: update_where_memE)

lemma clean_same: "opportunities d' = opportunities d \<Longrightarrow> clean_kept d d'"
  by (simp add: clean_kept_def attrs_clean_def)

lemma upsert_opportunity_clean:
  assumes "upsert_opportunity ex now d = (Inr u, d')" and "no_leak (o_Attributes ex)"
  shows "clean_kept d d'"
proof (cases "list_ex (\<lambda>p. o_CanonicalID p = o_CanonicalID ex) (opportunities d)")
  case True
  with assms(1) have "d' = d\<lparr>opportunities := update_where (\<lambda>p. o_CanonicalID p = o_CanonicalID ex)
      (merge_opportunity ex now) (opportunities d)\<rparr>"
    by (auto simp: upsert_opportunity_def split: if_splits)
  moreover have "no_leak (o_Attributes p) \<Longrightarrow> no_leak (o_Attributes (merge_opportunity ex now p))" for p
    using assms(2) by (simp add: merge_opportunity_def no_leak_concat)
  ultimately show ?thesis by (simp add: clean_update)
next
  case False
  with assms show ?thesis
    by (auto simp: upsert_opportunity_def clean_kept_def attrs_clean_def split: if_splits)
qed

lemma productWrite_clean: "preserves clean_kept (productWrite h item (prepare_canonical wall c) now)"
proof -
  have attrs: "no_leak (marshal_attrs (c_Attributes (prepare_canonical wall c)))"
    by (auto simp: marshal_attrs_def prepare_canonical_def Let_def split: option.splits)
  show ?thesis unfolding productWrite_def Let_def
    by (intro ck.preserves_rules ck.preserves_stmt ck.preserves_exec)
      (auto intro: clean_same upsert_opportunity_clean[OF _] clean_update
        dest: upsert_identity_cases upsert_source_frame
        simp: attrs excluded_row_def refresh_visibility_def)
qed

lemma queue_kept_clean:
  assumes "preserves queue_kept m"
  shows "preserves clean_kept m"
proof (rule preservesI)
  fix d fs x d' fs'
  assume "m (d, fs) = (x, (d', fs'))"
  then have "queue_kept d d'" by (rule preserves_run[OF assms])
  then show "clean_kept d d'" by (simp add: queue_kept_def clean_same)
qed

lemma catalog_clean:
  "preserves clean_kept (deactivate_tx src reason now)" "preserves clean_kept (reconcile_tx src started now)"
  "preserves clean_kept (embedding_tx cid l now)"
  unfolding deactivate_tx_def reconcile_tx_def embedding_tx_def
  by (intro ck.preserves_rules ck.preserves_exec; auto simp: hide_orphans_def intro: clean_same clean_update)+

definition store_clean :: "jobstore \<Rightarrow> bool" where
  "store_clean s \<longleftrightarrow> attrs_clean (fst (js_db s)) \<and>
     (case js_productDB s of None \<Rightarrow> True | Some z \<Rightarrow> attrs_clean (fst z))"

lemma on_db_clean:
  "on_db m s = (x, s') \<Longrightarrow> preserves clean_kept m \<Longrightarrow> store_clean s \<Longrightarrow> store_clean s'"
  using on_db_preserves[of m s x s' clean_kept]
  by (auto simp: store_clean_def clean_kept_def on_db_def split: prod.splits)

lemma on_product_clean:
  assumes "on_product m s = (x, s')" and "preserves clean_kept m" and "store_clean s"
  shows "store_clean s'"
proof (cases "js_productDB s")
  case None
  with assms on_db_clean show ?thesis by (simp add: on_product_def) blast
next
  case (Some z)
  obtain d' fs' where m: "m (fst z, snd z) = (x, (d', fs'))" "s' = s\<lparr>js_productDB := Some (d', fs')\<rparr>"
    using assms(1) Some by (cases "m z") (auto simp: on_product_def)
  from preserves_run[OF assms(2) m(1)] m(2) Some assms(3) show ?thesis
    by (simp add: store_clean_def clean_kept_def)
qed

lemma Complete_clean:
  assumes "Complete h ev wall nowP nowC item c s = (w, s')" and "store_clean s"
  shows "store_clean s'"
proof -
  let ?c = "prepare_canonical wall c"
  have ack: "preserves clean_kept (ackCrawl ev item cid nowC)" for cid
    by (rule queue_kept_clean[OF ackCrawl_queue])
  consider "s' = s"
    | x where "on_db (transaction (sql_bind (productWrite h item ?c nowC) (\<lambda>cid.
          sql_bind (ackCrawl ev item cid nowC) (\<lambda>_. sql_return cid)))) s = (x, s')"
    | x where "on_product (transaction (productWrite h item ?c nowP)) s = (x, s')"
    | cid s1 x where "on_product (transaction (productWrite h item ?c nowP)) s = (Inr cid, s1)"
        "on_db (transaction (ackCrawl ev item cid nowC)) s1 = (x, s')"
    using assms(1)
    by (auto simp: Complete_def Let_def split: if_splits option.splits prod.splits sum.splits)
  then show ?thesis
  proof cases
    case 2
    then show ?thesis
      by (rule on_db_clean) (intro ck.preserves_rules productWrite_clean ack, fact)
  next
    case 3
    then show ?thesis
      by (rule on_product_clean) (intro ck.preserves_rules productWrite_clean, fact)
  next
    case 4
    have "store_clean s1"
      using 4(1) by (rule on_product_clean) (intro ck.preserves_rules productWrite_clean, fact)
    then show ?thesis by (rule on_db_clean[OF 4(2), rotated]) (intro ck.preserves_rules ack)
  qed (use assms(2) in simp)
qed

lemma job_step_clean: "job_step s s' \<Longrightarrow> store_clean s \<Longrightarrow> store_clean s'"
proof (induction rule: job_step.induct)
  case (embed lit cid vec now s x s')
  then show ?case by (auto simp: SetEmbedding_def split: if_splits dest: on_product_clean[OF _ catalog_clean(3)])
next
  case (complete h ev wall nowP nowC item c s w s')
  then show ?case by (rule Complete_clean)
qed (auto simp: DeactivateSource_def ReconcileSource_def
      intro: on_db_clean on_product_clean catalog_clean queue_kept_clean Enqueue_queue
        RecordRejected_queue Claim_queue Retry_queue)

interpretation clean: transition_system job_step store_clean
  by unfold_locales (rule job_step_clean)

section \<open>Properties\<close>

text \<open>
  C14. Ingestion never puts paywalled application instructions into the public attributes: in every
  state that the operations of the ingestion store can reach, in single and dual mode and with any failures, the
  attributes of no opportunity have the top-level key \<open>how_to_apply\<close>, whatever the crawlers delivered.  (The operator's
  attribute patch is not an operation of the ingestion store.)
\<close>

theorem how_to_apply_never_public:
  assumes "job_step\<^sup>*\<^sup>* (empty_store fs dual) s" and "p \<in> set (opportunities (product_tables s))"
  shows "no_leak (o_Attributes p)"
proof -
  have "store_clean (empty_store fs dual)"
    by (auto simp: store_clean_def empty_store_def empty_jobdb_def attrs_clean_def split: option.splits)
  with assms(1) have "store_clean s" by (rule clean.run_inv)
  with assms(2) show ?thesis
    by (auto simp: store_clean_def attrs_clean_def product_tables_def split: option.splits)
qed

text \<open>
  C9. A drain settles what it claims: when the crawl database works and the event
  identifiers it draws are new, every row the batch claimed ends processed, scheduled for
  a retry, or dead, even when payloads do not decode or the product database fails, and
  the store moves only by its own operations.
\<close>

theorem drain_settles:
  assumes "queue_inv (fst (js_db (ws_store w)))" and "snd (js_db (ws_store w)) = []"
    and claim: "on_db (Claim locked (pp_owner p) (pp_batch p) (pp_lease p) now) (ws_store w) = (Inr items, s)"
    and "distinct (batch_events env items)"
    and "set (batch_events env items) \<inter> ie_EventID ` set (job_ingest_events (fst (js_db (ws_store w)))) = {}"
    and dr: "drain cd publisher p locked now env w = (x, w')"
  shows "x = None \<and> (\<forall>item \<in> set items. settled (fst (js_db (ws_store w'))) (it_ID item)) \<and>
    job_step\<^sup>*\<^sup>* (ws_store w) (ws_store w')"
proof -
  obtain d where d: "js_db (ws_store w) = (d, [])" using assms(2) by (cases "js_db (ws_store w)") simp
  obtain d1 where c: "Claim locked (pp_owner p) (pp_batch p) (pp_lease p) now (d, []) = (Inr items, (d1, []))"
    and s: "s = (ws_store w)\<lparr>js_db := (d1, [])\<rparr>"
    using claim d steadyD[OF steady_ops(5)] by (fastforce simp: on_db_def split: prod.splits)
  have q: "queue_inv d" using assms(1) d by simp
  note cl = Claim_claimed[OF q c]
  have dist: "distinct (map it_ID items)"
    using c Claim_ok[OF q] q by (auto simp: Let_def item_of_def claim_row_def queue_inv_def distinct_map_filter comp_def)
  have "it_ID ` set items \<subseteq> q_ID ` set (job_ingest_queue d)"
    unfolding cl(1) using picked_eligible by (fastforce simp: eligible_def)
  then have ids: "it_ID ` set items \<subseteq> q_ID ` set (job_ingest_queue d1)"
    unfolding cl(2) by (simp add: image_update_where claim_row_def)
  have evs: "job_ingest_events d1 = job_ingest_events d" unfolding cl(2) by simp
  have w': "x = None" "w' = fold (\<lambda>item w. process_or_retry cd publisher (pp_maxAttempts p) (env item) item w)
      items (w\<lparr>ws_store := s\<rparr>)" using dr claim by (auto simp: drain_def)
  have "\<forall>item \<in> set items. settled (fst (js_db (ws_store w'))) (it_ID item)"
    using fold_settles[OF _ dist _ assms(4) _ w'(2)] ids s evs assms(5) d by simp
  with w'(1) drain_steps[OF dr] show ?thesis by blast
qed

theorem how_to_apply_never_public_witness:
  "\<exists>s p. Complete (\<lambda>x. x) ''e3'' 0 0 7 (sample_item ''i'' ''v'')
       ((sample_canonical ''A'')\<lparr>c_Attributes := Some [''how_to_apply'' \<mapsto> AStr ''mail us'']\<rparr>) sample_claimed = (Inr ''A'', s) \<and>
     p \<in> set (opportunities (product_tables s)) \<and> no_leak (o_Attributes p)"
proof -
  let ?c = "(sample_canonical ''A'')\<lparr>c_Attributes := Some [''how_to_apply'' \<mapsto> AStr ''mail us'']\<rparr>"
  obtain s where c: "Complete (\<lambda>x. x) ''e3'' 0 0 7 (sample_item ''i'' ''v'') ?c sample_claimed = (Inr ''A'', s)"
    and ne: "opportunities (product_tables s) \<noteq> []"
    unfolding sample_claimed_eval
    by (simp add: Complete_def productWrite_def ackCrawl_def queue_appendEvent_def sql_simps on_db_def Let_def
      upsert_identity_def upsert_opportunity_def upsert_source_def refresh_visibility_def
      prepare_canonical_def IsZero_def sample_canonical_def sample_item_def url_blank_def
      empty_jobdb_def claim_row_def new_queue_row_def sample_request_def excluded_row_def
      excluded_source_def same_lineage_def ack_row_def product_tables_def)
  have "job_step\<^sup>*\<^sup>* (empty_store [] None) s"
    using sample_claimed_reachable job_step.complete[OF c] by (rule rtranclp.rtrancl_into_rtrancl)
  from how_to_apply_never_public[OF this] c ne show ?thesis by (metis hd_in_set)
qed

definition sample_env :: item_env where
  "sample_env = \<lparr>ie_candidate = ''A'', ie_completeEvent = ''e3'', ie_retryEvent = ''e4'', ie_wall = 7,
     ie_nowP = 7, ie_nowC = 7, ie_nowR = 7\<rparr>"

definition sample_codec :: codec where
  "sample_codec = \<lparr>cd_decode = (\<lambda>_. None), cd_formatFloat = (\<lambda>_. []), cd_parseRFC3339 = (\<lambda>_. None),
     cd_formatRFC3339 = (\<lambda>_. []), cd_sha256hex = (\<lambda>x. x)\<rparr>"

lemma sample_pending_events: "job_ingest_events sample_pending = []"
  by (simp add: sample_pending_def empty_jobdb_def)

theorem drain_settles_witness:
  "settled (fst (js_db (ws_store (snd (drain sample_codec True
      (NewPostgresProcessor ''x'' ''w'' 0 0 0) [] 6 (\<lambda>_. sample_env)
      \<lparr>ws_store = \<lparr>js_db = (sample_pending, []), js_productDB = None\<rparr>, ws_embeds = []\<rparr>))))) ''i''"
proof -
  let ?p = "NewPostgresProcessor ''x'' ''w'' 0 0 0"
  let ?w = "\<lparr>ws_store = \<lparr>js_db = (sample_pending, []), js_productDB = None\<rparr>, ws_embeds = []\<rparr>"
  let ?items = "[sample_item ''i'' ''v'']"
  let ?cl = "on_db (Claim [] (pp_owner ?p) (pp_batch ?p) (pp_lease ?p) 6) (ws_store ?w)"
  have c: "?cl = (Inr ?items, snd ?cl)"
    by (simp add: Claim_def sql_simps on_db_def Let_def picked_def claim_limit_def claimable_def
        sample_pending_eval item_of_def claim_row_def sample_item_def NewPostgresProcessor_def
        NULLIF_empty_def)
  have "fst (drain sample_codec True ?p [] 6 (\<lambda>_. sample_env) ?w) = None \<and>
    (\<forall>item \<in> set ?items. settled (fst (js_db (ws_store (snd (drain sample_codec True ?p [] 6 (\<lambda>_. sample_env) ?w))))) (it_ID item)) \<and>
    job_step\<^sup>*\<^sup>* (ws_store ?w) (ws_store (snd (drain sample_codec True ?p [] 6 (\<lambda>_. sample_env) ?w)))"
    by (rule drain_settles[OF _ _ c])
      (simp_all add: sample_pending_inv batch_events_def sample_env_def sample_pending_events)
  then show ?thesis by (simp add: sample_item_def)
qed

end
