(* ===== verification/Frontier.thy ===== *)
theory Frontier
  imports Sql Domain
begin

text \<open>
  The URL frontier of \<open>pkg/frontier\<close>: a priority queue of URLs under per-host politeness.

  \<open>frontdb\<close> holds \<open>url_frontier\<close> and \<open>host_state\<close>.  \<open>now\<close> is the transaction time of the
  database, \<open>wall\<close> the clock of the Go process, \<open>xid\<close> a drawn identifier.  \<open>url.Parse\<close> and
  \<open>(*URL).String\<close> are the arguments \<open>parseURL\<close> and \<open>renderURL\<close>, the digest of
  \<open>crypto/sha256\<close> is \<open>sha256hex\<close>.  Rows other transactions hold locked are listed for the
  statements that skip them.  An \<open>int64\<close> product is reduced by \<open>wrap64\<close>.
\<close>

section \<open>URLs\<close>

record parsed_url =
  pu_Scheme :: string
  pu_Host :: string
  pu_Hostname :: string
  pu_Path :: string
  pu_Query :: "(string \<times> string) list"
  pu_Fragment :: string

definition HostOf :: "(string \<Rightarrow> parsed_url option) \<Rightarrow> string \<Rightarrow> string" where
  "HostOf parseURL raw =
     (if raw = [] then []
      else case parseURL (TrimSpace raw) of
        None \<Rightarrow> []
      | Some u \<Rightarrow> if pu_Host u = [] then [] else ToLower (pu_Hostname u))"

definition trackingParams :: "string list" where
  "trackingParams = [''fbclid'', ''gclid'', ''ref'', ''source'']"

definition isTracking :: "string \<Rightarrow> bool" where
  "isTracking k \<longleftrightarrow> (let lk = ToLower k in lk \<in> set trackingParams \<or> take 4 lk = ''utm_'')"

definition TrimSuffix_slash :: "string \<Rightarrow> string" where
  "TrimSuffix_slash s = (if s \<noteq> [] \<and> last s = CHR ''/'' then butlast s else s)"

text \<open>\<open>url.Values.Encode\<close> sorts by key and keeps the order of the values of one key.\<close>

definition canonical_parts :: "parsed_url \<Rightarrow> parsed_url" where
  "canonical_parts u =
     u\<lparr>pu_Scheme := ToLower (pu_Scheme u), pu_Host := ToLower (pu_Host u), pu_Fragment := [],
       pu_Query := sort_key fst (filter (\<lambda>(k, v). \<not> isTracking k) (pu_Query u)),
       pu_Path := (if pu_Path u = ''/'' then pu_Path u else TrimSuffix_slash (pu_Path u))\<rparr>"

definition CanonicalizeURL ::
  "(string \<Rightarrow> parsed_url option) \<Rightarrow> (parsed_url \<Rightarrow> string) \<Rightarrow> string \<Rightarrow> string"
where
  "CanonicalizeURL parseURL renderURL raw0 =
     (let raw = TrimSpace raw0 in
      if raw = [] then raw
      else case parseURL raw of
        None \<Rightarrow> raw
      | Some u \<Rightarrow> if pu_Host u = [] then raw else renderURL (canonical_parts u))"

section \<open>Tables\<close>

definition StatePending :: string where "StatePending = ''pending''"
definition StateInFlight :: string where "StateInFlight = ''in_flight''"
definition StateDone :: string where "StateDone = ''done''"
definition StateFailed :: string where "StateFailed = ''failed''"
definition StateParked :: string where "StateParked = ''parked''"

lemma state_distinct [simp]:
  "StatePending \<noteq> StateInFlight" "StatePending \<noteq> StateDone" "StatePending \<noteq> StateFailed"
  "StateInFlight \<noteq> StatePending" "StateInFlight \<noteq> StateDone" "StateInFlight \<noteq> StateFailed"
  "StateDone \<noteq> StatePending" "StateDone \<noteq> StateInFlight" "StateDone \<noteq> StateFailed"
  "StateFailed \<noteq> StatePending" "StateFailed \<noteq> StateInFlight" "StateFailed \<noteq> StateDone"
  by (simp_all add: StatePending_def StateInFlight_def StateDone_def StateFailed_def)

record URL =
  u_URLID :: string
  u_CanonicalURL :: string
  u_Host :: string
  u_SourceID :: string
  u_Priority :: real
  u_State :: string
  u_Attempts :: int
  u_EnqueuedAt :: time
  u_ClaimedAt :: "time option"
  u_NextAttemptAt :: "time option"
  u_Metadata :: string

record frow =
  f_URLID :: string
  f_CanonicalURL :: string
  f_CanonicalURLHash :: string
  f_Host :: string
  f_SourceID :: string
  f_Priority :: real
  f_State :: string
  f_Attempts :: int
  f_LastError :: string
  f_EnqueuedAt :: time
  f_ClaimedAt :: "time option"
  f_ClaimedBy :: "string option"
  f_CompletedAt :: "time option"
  f_NextAttemptAt :: "time option"
  f_Metadata :: string

record hostStateRow =
  h_Host :: string
  h_WindowMinutes :: int
  h_LastRequestAt :: "time option"
  h_NextEligibleAt :: "time option"
  h_OkCount24H :: int
  h_ErrCount24H :: int
  h_ConcurrencyMax :: int
  h_ConcurrencyNow :: int

record frontdb =
  url_frontier :: "frow list"
  host_state :: "hostStateRow list"

section \<open>Enqueue\<close>

record EnqueueResult =
  er_URLID :: string
  er_Inserted :: bool

definition new_host :: "string \<Rightarrow> int \<Rightarrow> int \<Rightarrow> hostStateRow" where
  "new_host host windowMinutes concurrencyMax =
     \<lparr>h_Host = host, h_WindowMinutes = windowMinutes, h_LastRequestAt = None, h_NextEligibleAt = None,
      h_OkCount24H = 0, h_ErrCount24H = 0, h_ConcurrencyMax = concurrencyMax, h_ConcurrencyNow = 0\<rparr>"

definition insert_host :: "hostStateRow \<Rightarrow> frontdb \<Rightarrow> frontdb" where
  "insert_host hs d =
     (if list_ex (\<lambda>h. h_Host h = h_Host hs) (host_state d) then d
      else d\<lparr>host_state := host_state d @ [hs]\<rparr>)"

definition ensureHost :: "string \<Rightarrow> (frontdb, unit) sql" where
  "ensureHost host = sql_exec (insert_host (new_host host 1 1))"

text \<open>An insert leaves out a column of value zero that has a database default; the priority defaults to 0.5.\<close>

definition column_defaults :: "frow \<Rightarrow> frow" where
  "column_defaults r = (if f_Priority r = 0 then r\<lparr>f_Priority := 1 / 2\<rparr> else r)"

definition insert_url :: "frow \<Rightarrow> frontdb \<Rightarrow> (go_error + nat) \<times> frontdb" where
  "insert_url r d =
     (if list_ex (\<lambda>x. f_CanonicalURLHash x = f_CanonicalURLHash r) (url_frontier d) then (Inr 0, d)
      else if list_ex (\<lambda>x. f_URLID x = f_URLID r) (url_frontier d)
      then (Inl (ErrConstraint ''url_frontier_pkey''), d)
      else (Inr 1, d\<lparr>url_frontier := url_frontier d @ [column_defaults r]\<rparr>))"

definition update_url :: "string \<Rightarrow> (frow \<Rightarrow> frow) \<Rightarrow> frontdb \<Rightarrow> frontdb" where
  "update_url urlID f d = d\<lparr>url_frontier := update_where (\<lambda>r. f_URLID r = urlID) f (url_frontier d)\<rparr>"

definition update_host :: "string \<Rightarrow> (hostStateRow \<Rightarrow> hostStateRow) \<Rightarrow> frontdb \<Rightarrow> frontdb" where
  "update_host host f d = d\<lparr>host_state := update_where (\<lambda>h. h_Host h = host) f (host_state d)\<rparr>"

definition first_by :: "(frow \<Rightarrow> bool) \<Rightarrow> (frontdb, frow) sql" where
  "first_by P = sql_stmt (\<lambda>d. (case List.find P (url_frontier d) of
     None \<Rightarrow> Inl (ErrNew ''record not found'') | Some r \<Rightarrow> Inr r, d))"

definition new_url_row :: "(string \<Rightarrow> string) \<Rightarrow> string \<Rightarrow> string \<Rightarrow> string \<Rightarrow> URL \<Rightarrow> time \<Rightarrow> frow" where
  "new_url_row sha256hex i canonical host u now =
     \<lparr>f_URLID = i, f_CanonicalURL = canonical, f_CanonicalURLHash = sha256hex canonical, f_Host = host,
      f_SourceID = u_SourceID u, f_Priority = u_Priority u, f_State = StatePending, f_Attempts = 0,
      f_LastError = [], f_EnqueuedAt = now, f_ClaimedAt = None, f_ClaimedBy = None, f_CompletedAt = None,
      f_NextAttemptAt = None, f_Metadata = (if u_Metadata u = [] then ''{}'' else u_Metadata u)\<rparr>"

definition enqueue_tx :: "frow \<Rightarrow> (frontdb, EnqueueResult) sql" where
  "enqueue_tx newRow =
     transaction (sql_bind (ensureHost (f_Host newRow)) (\<lambda>_.
       sql_bind (sql_stmt (insert_url newRow)) (\<lambda>n.
       if n = 1 then sql_return \<lparr>er_URLID = f_URLID newRow, er_Inserted = True\<rparr>
       else sql_bind (first_by (\<lambda>r. f_CanonicalURLHash r = f_CanonicalURLHash newRow)) (\<lambda>existing.
         sql_bind (if f_Priority newRow > f_Priority existing
                   then sql_exec (update_url (f_URLID existing) (\<lambda>r. r\<lparr>f_Priority := f_Priority newRow\<rparr>))
                   else sql_return ()) (\<lambda>_.
         sql_return \<lparr>er_URLID = f_URLID existing, er_Inserted = False\<rparr>)))))"

text \<open>
  One iteration of the loop of \<open>Enqueue\<close>; the accumulator holds the results, the first
  error and the URLs signalled through \<open>OnEnqueue\<close>.
\<close>

record enqueue_acc =
  ea_results :: "EnqueueResult list"
  ea_firstErr :: "go_error option"
  ea_signals :: "URL list"

record url_codec =
  uc_parse :: "string \<Rightarrow> parsed_url option"
  uc_render :: "parsed_url \<Rightarrow> string"
  uc_sha256hex :: "string \<Rightarrow> string"

definition first_error :: "go_error option \<Rightarrow> go_error \<Rightarrow> go_error option" where
  "first_error old e = (case old of None \<Rightarrow> Some e | Some x \<Rightarrow> Some x)"

definition ErrInvalidURL :: "string \<Rightarrow> go_error" where
  "ErrInvalidURL canonical = ErrWith (ErrNew ''frontier: invalid canonical URL'') canonical"

definition enqueue_one ::
  "url_codec \<Rightarrow> time \<Rightarrow> string \<times> URL \<Rightarrow> enqueue_acc \<times> frontdb dbstate \<Rightarrow> enqueue_acc \<times> frontdb dbstate"
where
  "enqueue_one uc now xu az =
     (case (xu, az) of ((xid, u), (acc, z)) \<Rightarrow>
      let canonical = CanonicalizeURL (uc_parse uc) (uc_render uc) (u_CanonicalURL u);
          host = (if u_Host u = [] then HostOf (uc_parse uc) canonical else u_Host u)
      in if canonical = [] \<or> host = []
         then (acc\<lparr>ea_firstErr := first_error (ea_firstErr acc) (ErrInvalidURL canonical)\<rparr>, z)
         else let r = new_url_row (uc_sha256hex uc) (if u_URLID u = [] then xid else u_URLID u) canonical host u now in
           case enqueue_tx r z of
             (Inl e, z') \<Rightarrow> (acc\<lparr>ea_firstErr := first_error (ea_firstErr acc) e\<rparr>, z')
           | (Inr res, z') \<Rightarrow>
               (acc\<lparr>ea_results := ea_results acc @ [res],
                    ea_signals := (if er_Inserted res
                      then ea_signals acc @ [\<lparr>u_URLID = er_URLID res, u_CanonicalURL = canonical, u_Host = host,
                        u_SourceID = u_SourceID u, u_Priority = u_Priority u, u_State = StatePending, u_Attempts = 0,
                        u_EnqueuedAt = now, u_ClaimedAt = None, u_NextAttemptAt = None, u_Metadata = f_Metadata r\<rparr>]
                      else ea_signals acc)\<rparr>, z'))"

definition Frontier_Enqueue ::
  "url_codec \<Rightarrow> time \<Rightarrow> (string \<times> URL) list \<Rightarrow> frontdb dbstate \<Rightarrow> enqueue_acc \<times> frontdb dbstate"
where
  "Frontier_Enqueue uc now urls z =
     fold (enqueue_one uc now) urls (\<lparr>ea_results = [], ea_firstErr = None, ea_signals = []\<rparr>, z)"

section \<open>Dequeue\<close>

definition due :: "time \<Rightarrow> time option \<Rightarrow> bool" where
  "due now t \<longleftrightarrow> (case t of None \<Rightarrow> True | Some x \<Rightarrow> x \<le> now)"

definition pending_due :: "time \<Rightarrow> string \<Rightarrow> frow \<Rightarrow> bool" where
  "pending_due now host r \<longleftrightarrow> f_Host r = host \<and> f_State r = StatePending \<and> due now (f_NextAttemptAt r)"

definition host_eligible :: "time \<Rightarrow> frontdb \<Rightarrow> hostStateRow \<Rightarrow> bool" where
  "host_eligible now d h \<longleftrightarrow> due now (h_NextEligibleAt h) \<and> h_ConcurrencyNow h < h_ConcurrencyMax h \<and>
     list_ex (pending_due now (h_Host h)) (url_frontier d)"

definition host_priority :: "time \<Rightarrow> frontdb \<Rightarrow> hostStateRow \<Rightarrow> real" where
  "host_priority now d h = Max (f_Priority ` set (filter (pending_due now (h_Host h)) (url_frontier d)))"

definition lock_hosts :: "string list \<Rightarrow> int \<Rightarrow> time \<Rightarrow> frontdb \<Rightarrow> string list" where
  "lock_hosts lockedH n now d =
     map h_Host (take (nat n) (sort_key (\<lambda>h. - host_priority now d h)
       (filter (\<lambda>h. host_eligible now d h \<and> h_Host h \<notin> set lockedH) (host_state d))))"

definition pick_url :: "string list \<Rightarrow> time \<Rightarrow> string \<Rightarrow> frontdb \<Rightarrow> frow option" where
  "pick_url lockedU now host d =
     (case sort_key (\<lambda>r. (- f_Priority r, f_EnqueuedAt r))
        (filter (\<lambda>r. pending_due now host r \<and> f_URLID r \<notin> set lockedU) (url_frontier d)) of
        [] \<Rightarrow> None | r # _ \<Rightarrow> Some r)"

definition staleLeaseSeconds :: int where "staleLeaseSeconds = 900"

definition stale :: "time \<Rightarrow> frow \<Rightarrow> bool" where
  "stale now r \<longleftrightarrow> f_State r = StateInFlight \<and>
     (case f_ClaimedAt r of None \<Rightarrow> False | Some t \<Rightarrow> t < now - staleLeaseSeconds * Second)"

definition reclaimStale :: "time \<Rightarrow> frontdb \<Rightarrow> frontdb" where
  "reclaimStale now d =
     d\<lparr>url_frontier := update_where (stale now)
         (\<lambda>r. r\<lparr>f_State := StatePending, f_ClaimedBy := None, f_ClaimedAt := None\<rparr>) (url_frontier d),
       host_state := update_where (\<lambda>h. list_ex (\<lambda>r. stale now r \<and> f_Host r = h_Host h) (url_frontier d))
         (\<lambda>h. h\<lparr>h_ConcurrencyNow := max (h_ConcurrencyNow h -
            int (length (filter (\<lambda>r. stale now r \<and> f_Host r = h_Host h) (url_frontier d)))) 0\<rparr>) (host_state d)\<rparr>"

fun pick_all :: "string list \<Rightarrow> time \<Rightarrow> string list \<Rightarrow> (frontdb, frow list) sql" where
  "pick_all lockedU now [] = sql_return []"
| "pick_all lockedU now (h # hs) =
     sql_bind (sql_wrap ''frontier dequeue pick url'' (sql_query (pick_url lockedU now h))) (\<lambda>r.
     sql_bind (pick_all lockedU now hs) (\<lambda>rs.
     sql_return (case r of None \<Rightarrow> rs | Some x \<Rightarrow> if f_URLID x = [] then rs else x # rs)))"

definition advance_host :: "time \<Rightarrow> hostStateRow \<Rightarrow> hostStateRow" where
  "advance_host now h =
     h\<lparr>h_ConcurrencyNow := h_ConcurrencyNow h + 1, h_LastRequestAt := Some now,
       h_NextEligibleAt := Some (now + h_WindowMinutes h * Minute)\<rparr>"

fun advance_all :: "time \<Rightarrow> string list \<Rightarrow> (frontdb, unit) sql" where
  "advance_all now [] = sql_return ()"
| "advance_all now (h # hs) =
     sql_bind (sql_wrap ''frontier dequeue host_state'' (sql_exec (update_host h (advance_host now)))) (\<lambda>_.
     advance_all now hs)"

definition flip_row :: "string \<Rightarrow> time \<Rightarrow> frow \<Rightarrow> frow" where
  "flip_row workerID wall r =
     r\<lparr>f_State := StateInFlight, f_ClaimedAt := Some wall, f_ClaimedBy := Some workerID,
       f_Attempts := f_Attempts r + 1\<rparr>"

definition claimed_url :: "time \<Rightarrow> frow \<Rightarrow> URL" where
  "claimed_url wall r =
     \<lparr>u_URLID = f_URLID r, u_CanonicalURL = f_CanonicalURL r, u_Host = f_Host r, u_SourceID = f_SourceID r,
      u_Priority = f_Priority r, u_State = StateInFlight, u_Attempts = f_Attempts r + 1,
      u_EnqueuedAt = f_EnqueuedAt r, u_ClaimedAt = Some wall, u_NextAttemptAt = None, u_Metadata = f_Metadata r\<rparr>"

text \<open>The transaction of \<open>Dequeue\<close>, from its end: flip the picks, pick from the locked hosts, lock.\<close>

definition claim_picks :: "string \<Rightarrow> time \<Rightarrow> time \<Rightarrow> frow list \<Rightarrow> (frontdb, URL list) sql" where
  "claim_picks workerID now wall picks =
     (if picks = [] then sql_return []
      else sql_bind (sql_wrap ''frontier dequeue flip'' (sql_exec (\<lambda>d. d\<lparr>url_frontier :=
             update_where (\<lambda>r. f_URLID r \<in> f_URLID ` set picks) (flip_row workerID wall) (url_frontier d)\<rparr>))) (\<lambda>_.
        sql_bind (advance_all now (remdups (map f_Host picks))) (\<lambda>_.
        sql_return (map (claimed_url wall) picks))))"

definition claim_hosts ::
  "string list \<Rightarrow> string \<Rightarrow> time \<Rightarrow> time \<Rightarrow> string list \<Rightarrow> (frontdb, URL list) sql"
where
  "claim_hosts lockedU workerID now wall hostsLocked =
     (if hostsLocked = [] then sql_return []
      else sql_bind (pick_all lockedU now hostsLocked) (claim_picks workerID now wall))"

definition dequeue_tx ::
  "string list \<Rightarrow> string list \<Rightarrow> int \<Rightarrow> string \<Rightarrow> time \<Rightarrow> time \<Rightarrow> (frontdb, URL list) sql"
where
  "dequeue_tx lockedH lockedU n workerID now wall =
     transaction (
       sql_bind (sql_wrap ''frontier dequeue host-lock'' (sql_query (lock_hosts lockedH n now)))
         (claim_hosts lockedU workerID now wall))"

definition Dequeue ::
  "string list \<Rightarrow> string list \<Rightarrow> int \<Rightarrow> string \<Rightarrow> time \<Rightarrow> time \<Rightarrow> time \<Rightarrow> (frontdb, URL list) sql"
where
  "Dequeue lockedH lockedU n workerID now0 now wall =
     (if n \<le> 0 then sql_return []
      else sql_bind (sql_wrap ''frontier reclaim stale'' (sql_exec (reclaimStale now0))) (\<lambda>_.
           dequeue_tx lockedH lockedU n workerID now wall))"

section \<open>Complete and Fail\<close>

definition free_slot :: "bool \<Rightarrow> hostStateRow \<Rightarrow> hostStateRow" where
  "free_slot ok h =
     (if ok then h\<lparr>h_ConcurrencyNow := max (h_ConcurrencyNow h - 1) 0, h_OkCount24H := h_OkCount24H h + 1\<rparr>
      else h\<lparr>h_ConcurrencyNow := max (h_ConcurrencyNow h - 1) 0, h_ErrCount24H := h_ErrCount24H h + 1\<rparr>)"

definition Frontier_Complete :: "string \<Rightarrow> time \<Rightarrow> (frontdb, unit) sql" where
  "Frontier_Complete urlID wall =
     (if urlID = [] then sql_raise (ErrNew ''frontier complete: empty url_id'')
      else transaction (
        sql_bind (sql_wrap ''frontier complete load'' (first_by (\<lambda>r. f_URLID r = urlID))) (\<lambda>r.
        sql_bind (sql_wrap ''frontier complete flip'' (sql_exec (update_url urlID
            (\<lambda>r. r\<lparr>f_State := StateDone, f_CompletedAt := Some wall, f_LastError := []\<rparr>)))) (\<lambda>_.
        if f_Host r = [] then sql_return ()
        else sql_wrap ''frontier complete host_state'' (sql_exec (update_host (f_Host r) (free_slot True)))))))"


text \<open>
  \<open>time.Duration(math.Pow(2, a-1)) * base\<close> in \<open>int64\<close>.  The conversion of a value that
  does not fit an \<open>int64\<close> depends on the machine; \<open>oor\<close> is what it gives.
\<close>

definition pow_duration :: "int \<Rightarrow> int \<Rightarrow> int" where
  "pow_duration oor k = (if k < 0 then 0 else if k < 63 then 2 ^ nat k else oor)"

definition fail_delay :: "int \<Rightarrow> duration \<Rightarrow> duration \<Rightarrow> int \<Rightarrow> duration" where
  "fail_delay oor backoffBase maxBackoff attempts =
     (let delay = wrap64 (pow_duration oor (attempts - 1) * backoffBase)
      in if delay > maxBackoff \<or> delay \<le> 0 then maxBackoff else delay)"

record PostgresFrontier =
  pf_MaxBackoff :: duration
  pf_BackoffBase :: duration

definition NewPostgresFrontier :: PostgresFrontier where
  "NewPostgresFrontier = \<lparr>pf_MaxBackoff = 1 * Hour, pf_BackoffBase = 30 * Second\<rparr>"

definition fail_row :: "PostgresFrontier \<Rightarrow> int \<Rightarrow> string \<Rightarrow> int \<Rightarrow> time \<Rightarrow> int \<Rightarrow> frow \<Rightarrow> frow" where
  "fail_row pf oor errMsg maxAttempts wall attempts r =
     (if attempts \<ge> maxAttempts then r\<lparr>f_LastError := errMsg, f_State := StateFailed\<rparr>
      else r\<lparr>f_LastError := errMsg, f_State := StatePending,
             f_NextAttemptAt := Some (wall + fail_delay oor (pf_BackoffBase pf) (pf_MaxBackoff pf) attempts)\<rparr>)"

definition Frontier_Fail ::
  "PostgresFrontier \<Rightarrow> int \<Rightarrow> string \<Rightarrow> string \<Rightarrow> int \<Rightarrow> time \<Rightarrow> (frontdb, unit) sql"
where
  "Frontier_Fail pf oor urlID errMsg maxAttempts0 wall =
     (let maxAttempts = (if maxAttempts0 \<le> 0 then 1 else maxAttempts0) in
      if urlID = [] then sql_raise (ErrNew ''frontier fail: empty url_id'')
      else transaction (
        sql_bind (sql_wrap ''frontier fail load'' (first_by (\<lambda>r. f_URLID r = urlID))) (\<lambda>r.
        sql_bind (sql_wrap ''frontier fail flip'' (sql_exec (update_url urlID
            (fail_row pf oor errMsg maxAttempts wall (f_Attempts r))))) (\<lambda>_.
        if f_Host r = [] then sql_return ()
        else sql_wrap ''frontier fail host_state'' (sql_exec (update_host (f_Host r) (free_slot False)))))))"

section \<open>The operator surface\<close>

definition HostState_Upsert :: "string \<Rightarrow> int \<Rightarrow> int \<Rightarrow> (frontdb, unit) sql" where
  "HostState_Upsert host windowMinutes concurrencyMax =
     (if host = [] then sql_raise (ErrNew ''host_state upsert: empty host'')
      else sql_exec (insert_host (new_host host (if windowMinutes \<le> 0 then 1 else windowMinutes)
             (if concurrencyMax \<le> 0 then 1 else concurrencyMax))))"

definition HostState_Get :: "string \<Rightarrow> (frontdb, hostStateRow option) sql" where
  "HostState_Get host = sql_wrap ''host_state get''
     (sql_query (\<lambda>d. List.find (\<lambda>h. h_Host h = host) (host_state d)))"

text \<open>\<open>ORDER BY next_eligible_at ASC NULLS FIRST\<close>.\<close>

definition HostState_List :: "int \<Rightarrow> (frontdb, hostStateRow list) sql" where
  "HostState_List limit0 =
     (let limit = min (if limit0 \<le> 0 then 200 else limit0) 1000 in
      sql_wrap ''host_state list'' (sql_query (\<lambda>d. take (nat limit)
        (filter (\<lambda>h. h_NextEligibleAt h = None) (host_state d) @
         sort_key (\<lambda>h. case h_NextEligibleAt h of None \<Rightarrow> 0 | Some t \<Rightarrow> t)
           (filter (\<lambda>h. h_NextEligibleAt h \<noteq> None) (host_state d))))))"

definition SetWindow :: "string \<Rightarrow> int \<Rightarrow> (frontdb, unit) sql" where
  "SetWindow host windowMinutes =
     (if windowMinutes < 0 then sql_raise (ErrNew ''host_state set window: negative minutes'')
      else sql_exec (update_host host (\<lambda>h. h\<lparr>h_WindowMinutes := windowMinutes\<rparr>)))"

definition SetConcurrency :: "string \<Rightarrow> int \<Rightarrow> (frontdb, unit) sql" where
  "SetConcurrency host concurrencyMax =
     (if concurrencyMax \<le> 0 then sql_raise (ErrNew ''host_state set concurrency: must be positive'')
      else sql_exec (update_host host (\<lambda>h. h\<lparr>h_ConcurrencyMax := concurrencyMax\<rparr>)))"

record AdminFilter =
  af_State :: string
  af_Host :: string
  af_SourceID :: string
  af_Limit :: int
  af_Offset :: nat

definition admin_match :: "AdminFilter \<Rightarrow> frow \<Rightarrow> bool" where
  "admin_match f r \<longleftrightarrow> (af_State f = [] \<or> f_State r = af_State f) \<and>
     (af_Host f = [] \<or> f_Host r = af_Host f) \<and> (af_SourceID f = [] \<or> f_SourceID r = af_SourceID f)"

definition Admin_List :: "AdminFilter \<Rightarrow> (frontdb, frow list \<times> int) sql" where
  "Admin_List f =
     sql_bind (sql_wrap ''frontier list count''
         (sql_query (\<lambda>d. int (length (filter (admin_match f) (url_frontier d)))))) (\<lambda>total.
     let limit = min (if af_Limit f \<le> 0 then 50 else af_Limit f) 500 in
     sql_bind (sql_wrap ''frontier list find'' (sql_query (\<lambda>d. take (nat limit) (drop (af_Offset f)
         (sort_key (\<lambda>r. (- f_Priority r, f_EnqueuedAt r)) (filter (admin_match f) (url_frontier d))))))) (\<lambda>rows.
     sql_return (rows, total)))"

definition Admin_Get :: "string \<Rightarrow> (frontdb, frow option) sql" where
  "Admin_Get urlID = sql_wrap ''frontier get''
     (sql_query (\<lambda>d. List.find (\<lambda>r. f_URLID r = urlID) (url_frontier d)))"

definition Admin_Requeue :: "string \<Rightarrow> (frontdb, frow option) sql" where
  "Admin_Requeue urlID =
     sql_bind (sql_wrap ''frontier requeue load''
         (sql_query (\<lambda>d. List.find (\<lambda>r. f_URLID r = urlID) (url_frontier d)))) (\<lambda>prior.
     case prior of
       None \<Rightarrow> sql_return None
     | Some p \<Rightarrow>
         sql_bind (sql_wrap ''frontier requeue update'' (sql_exec (update_url urlID
             (\<lambda>r. r\<lparr>f_State := StatePending, f_NextAttemptAt := None, f_LastError := [],
                    f_Attempts := (if f_State p = StateFailed then f_Attempts r + 1 else f_Attempts r)\<rparr>)))) (\<lambda>_.
         Admin_Get urlID))"

definition Admin_Delete :: "string \<Rightarrow> (frontdb, unit) sql" where
  "Admin_Delete urlID =
     sql_exec (\<lambda>d. d\<lparr>url_frontier := filter (\<lambda>r. f_URLID r \<noteq> urlID) (url_frontier d)\<rparr>)"

end
