(* ===== verification/Frontier_Spec.thy ===== *)
theory Frontier_Spec
  imports Frontier
begin

text \<open>
  What the frontier promises.

  \<open>frontier_inv\<close>: identifiers, URL hashes and hosts are unique, every URL has its host
  row, and \<open>concurrency_now\<close> of a host is exactly the number of its URLs in flight.
  \<open>front_step\<close> is any operation, with any failures, used the way the protocol intends:
  \<open>Complete\<close> and \<open>Fail\<close> on a URL that is in flight, the operator's requeue and delete on
  one that is not.  The invariant holds along every such run.
\<close>

section \<open>Invariant\<close>

definition flying :: "string \<Rightarrow> frow \<Rightarrow> bool" where
  "flying host r \<longleftrightarrow> f_State r = StateInFlight \<and> f_Host r = host"

definition in_flight :: "frontdb \<Rightarrow> string \<Rightarrow> int" where
  "in_flight d host = int (length (filter (flying host) (url_frontier d)))"

definition front_keys :: "frontdb \<Rightarrow> bool" where
  "front_keys d \<longleftrightarrow> distinct (map f_URLID (url_frontier d)) \<and>
     distinct (map f_CanonicalURLHash (url_frontier d)) \<and> distinct (map h_Host (host_state d)) \<and>
     (\<forall>r \<in> set (url_frontier d). f_Host r \<noteq> [] \<and> f_Host r \<in> h_Host ` set (host_state d))"

definition accounting :: "frontdb \<Rightarrow> bool" where
  "accounting d \<longleftrightarrow> (\<forall>h \<in> set (host_state d). h_ConcurrencyNow h = in_flight d (h_Host h))"

definition frontier_inv :: "frontdb \<Rightarrow> bool" where
  "frontier_inv d \<longleftrightarrow> front_keys d \<and> accounting d"

definition flying_url :: "frontdb \<Rightarrow> string \<Rightarrow> bool" where
  "flying_url d i \<longleftrightarrow> (\<exists>r \<in> set (url_frontier d). f_URLID r = i \<and> f_State r = StateInFlight)"

text \<open>The label is the database time at which the operation runs.\<close>

inductive front_step :: "time \<Rightarrow> frontdb dbstate \<Rightarrow> frontdb dbstate \<Rightarrow> bool" where
  enqueue: "Frontier_Enqueue uc wall urls z = (acc, z') \<Longrightarrow> front_step now z z'"
| dequeue: "Dequeue lockedH lockedU n w now0 now wall z = (out, z') \<Longrightarrow> front_step now z z'"
| complete: "flying_url (fst z) i \<Longrightarrow> Frontier_Complete i wall z = (x, z') \<Longrightarrow> front_step now z z'"
| fail: "flying_url (fst z) i \<Longrightarrow> Frontier_Fail pf oor i msg maxA wall z = (x, z') \<Longrightarrow> front_step now z z'"
| upsert: "HostState_Upsert h w c z = (x, z') \<Longrightarrow> front_step now z z'"
| window: "SetWindow h w z = (x, z') \<Longrightarrow> front_step now z z'"
| concurrency: "SetConcurrency h c z = (x, z') \<Longrightarrow> front_step now z z'"
| requeue: "\<not> flying_url (fst z) i \<Longrightarrow> Admin_Requeue i z = (y, z') \<Longrightarrow> front_step now z z'"
| delete: "\<not> flying_url (fst z) i \<Longrightarrow> Admin_Delete i z = (x, z') \<Longrightarrow> front_step now z z'"

section \<open>Counting\<close>

lemma filter_update_count:
  "length (filter P (update_where Q f rows)) =
     length (filter (\<lambda>x. P x \<and> \<not> Q x) rows) + length (filter (\<lambda>x. Q x \<and> P (f x)) rows)"
  by (induction rows) auto

lemma filter_split_count:
  "length (filter P rows) = length (filter (\<lambda>x. P x \<and> \<not> Q x) rows) + length (filter (\<lambda>x. P x \<and> Q x) rows)"
  by (induction rows) auto

lemma filter_key_count:
  assumes "distinct (map k rows)" and "r \<in> set rows"
  shows "length (filter (\<lambda>x. k x = k r \<and> P x) rows) = (if P r then 1 else 0)"
  using assms
proof (induction rows)
  case (Cons a rows)
  have none: "filter (\<lambda>x. k x = k a \<and> P x) rows = []"
    using Cons.prems(1) by (auto simp: filter_empty_conv image_iff)
  show ?case
  proof (cases "r = a")
    case True
    then show ?thesis using none by simp
  next
    case False
    with Cons.prems have "k a \<noteq> k r" by auto
    with False Cons show ?thesis by simp
  qed
qed simp

text \<open>An update that keeps the host of every row.\<close>

lemma in_flight_update:
  assumes "\<And>r. f_Host (f r) = f_Host r"
  shows "in_flight (d\<lparr>url_frontier := update_where Q f (url_frontier d)\<rparr>) host =
    in_flight d host - int (length (filter (\<lambda>r. flying host r \<and> Q r) (url_frontier d))) +
      int (length (filter (\<lambda>r. Q r \<and> f_State (f r) = StateInFlight \<and> f_Host r = host) (url_frontier d)))"
  using assms filter_update_count[of "flying host" Q f "url_frontier d"]
    filter_split_count[of "flying host" "url_frontier d" Q]
  by (simp add: in_flight_def flying_def)

lemma rows_update_url: "url_frontier (update_url i f d) = update_where (\<lambda>r. f_URLID r = i) f (url_frontier d)"
  by (simp add: update_url_def)

lemma in_flight_host_state [simp]: "in_flight (d\<lparr>host_state := hs\<rparr>) h = in_flight d h"
  by (simp add: in_flight_def)

lemma flying_unique:
  assumes "front_keys d" and "r \<in> set (url_frontier d)" and "f_URLID r = i"
  shows "flying_url d i \<longleftrightarrow> f_State r = StateInFlight"
  using assms distinct_key_eq[of f_URLID "url_frontier d"] by (auto simp: flying_url_def front_keys_def)

lemma in_flight_one:
  assumes "front_keys d" and "r \<in> set (url_frontier d)" and "f_URLID r = i"
    and "\<And>r. f_Host (f r) = f_Host r"
  shows "in_flight (update_url i f d) host =
    in_flight d host - (if flying host r then 1 else 0) +
      (if f_State (f r) = StateInFlight \<and> f_Host r = host then 1 else 0)"
proof -
  have d: "distinct (map f_URLID (url_frontier d))" using assms(1) by (simp add: front_keys_def)
  have 1: "length (filter (\<lambda>x. flying host x \<and> f_URLID x = i) (url_frontier d)) = (if flying host r then 1 else 0)"
    using filter_key_count[OF d assms(2), of "flying host"] assms(3) by (simp add: conj_commute)
  have 2: "length (filter (\<lambda>x. f_URLID x = i \<and> f_State (f x) = StateInFlight \<and> f_Host x = host) (url_frontier d)) =
      (if f_State (f r) = StateInFlight \<and> f_Host r = host then 1 else 0)"
    using filter_key_count[OF d assms(2), of "\<lambda>x. f_State (f x) = StateInFlight \<and> f_Host x = host"] assms(3) by simp
  show ?thesis unfolding update_url_def
    using in_flight_update[where f = f and d = d and Q = "\<lambda>r. f_URLID r = i" and host = host] assms(4) 1 2 by simp
qed

section \<open>Keys\<close>

lemma front_keys_update_url:
  assumes "\<And>r. f_URLID (f r) = f_URLID r" "\<And>r. f_CanonicalURLHash (f r) = f_CanonicalURLHash r" "\<And>r. f_Host (f r) = f_Host r"
  shows "front_keys (d\<lparr>url_frontier := update_where Q f (url_frontier d)\<rparr>) = front_keys d"
  using assms by (simp add: front_keys_def map_update_where ball_update_where if_distrib[of f_Host] cong: if_cong)

lemma front_keys_update_host:
  assumes "\<And>h. h_Host (f h) = h_Host h"
  shows "front_keys (d\<lparr>host_state := update_where Q f (host_state d)\<rparr>) = front_keys d"
  using assms by (simp add: front_keys_def map_update_where image_update_where)

lemma insert_host_inv:
  assumes "frontier_inv d" and "h_ConcurrencyNow hs = 0"
  shows "frontier_inv (insert_host hs d)" and "h_Host hs \<in> h_Host ` set (host_state (insert_host hs d))"
proof -
  show "h_Host hs \<in> h_Host ` set (host_state (insert_host hs d))"
    by (auto simp: insert_host_def row_simps)
  show "frontier_inv (insert_host hs d)"
  proof (cases "list_ex (\<lambda>h. h_Host h = h_Host hs) (host_state d)")
    case False
    then have new: "h_Host hs \<notin> h_Host ` set (host_state d)" by (auto simp: list_ex_iff)
    have "\<forall>r \<in> set (url_frontier d). f_Host r \<noteq> h_Host hs"
      using new assms(1) unfolding frontier_inv_def front_keys_def by metis
    then have "filter (flying (h_Host hs)) (url_frontier d) = []"
      by (auto simp: filter_empty_conv flying_def)
    then have zero: "in_flight d (h_Host hs) = 0" by (simp add: in_flight_def)
    from False have "insert_host hs d = d\<lparr>host_state := host_state d @ [hs]\<rparr>" by (simp add: insert_host_def)
    with new zero assms show ?thesis
      by (auto simp: frontier_inv_def front_keys_def accounting_def)
  qed (use assms in \<open>simp add: insert_host_def\<close>)
qed

section \<open>Enqueue\<close>

lemma column_defaults_sel [simp]:
  "f_URLID (column_defaults r) = f_URLID r" "f_CanonicalURLHash (column_defaults r) = f_CanonicalURLHash r"
  "f_Host (column_defaults r) = f_Host r" "f_State (column_defaults r) = f_State r"
  by (simp_all add: column_defaults_def)

lemma insert_url_inv:
  assumes "insert_url r d = (Inr n, d')" and "frontier_inv d" and "f_State r = StatePending"
    and "f_Host r \<noteq> []" and "f_Host r \<in> h_Host ` set (host_state d)"
  shows "frontier_inv d'"
proof (cases "n = 0")
  case True
  with assms show ?thesis by (auto simp: insert_url_def split: if_splits)
next
  case False
  with assms(1) have d': "d' = d\<lparr>url_frontier := url_frontier d @ [column_defaults r]\<rparr>"
    and new: "f_URLID r \<notin> f_URLID ` set (url_frontier d)"
      "f_CanonicalURLHash r \<notin> f_CanonicalURLHash ` set (url_frontier d)"
    by (auto simp: insert_url_def row_simps split: if_splits)
  have "front_keys d'" using assms new by (simp add: d' frontier_inv_def front_keys_def)
  moreover have "in_flight d' h = in_flight d h" for h
    using assms(3) by (simp add: d' in_flight_def flying_def)
  ultimately show ?thesis using assms(2) d' by (simp add: frontier_inv_def accounting_def)
qed

lemma update_url_same_state:
  assumes "frontier_inv d" and "\<And>r. f_URLID (f r) = f_URLID r"
    "\<And>r. f_CanonicalURLHash (f r) = f_CanonicalURLHash r" "\<And>r. f_Host (f r) = f_Host r"
    "\<And>r. r \<in> set (url_frontier d) \<Longrightarrow> f_URLID r = i \<Longrightarrow> f_State (f r) = StateInFlight \<longleftrightarrow> f_State r = StateInFlight"
  shows "frontier_inv (update_url i f d)"
proof -
  have k: "front_keys (update_url i f d)"
    using assms(1-4) by (simp add: update_url_def front_keys_update_url frontier_inv_def)
  have "in_flight (update_url i f d) h = in_flight d h" for h
  proof (cases "\<exists>r \<in> set (url_frontier d). f_URLID r = i")
    case True
    then obtain r where r: "r \<in> set (url_frontier d)" "f_URLID r = i" by blast
    with assms show ?thesis
      using in_flight_one[of d r i f h] by (auto simp: frontier_inv_def flying_def)
  next
    case False
    then have "update_where (\<lambda>r. f_URLID r = i) f (url_frontier d) = url_frontier d"
      by (intro update_where_none) blast
    then show ?thesis by (simp add: update_url_def)
  qed
  with k assms(1) show ?thesis by (simp add: frontier_inv_def accounting_def update_url_def)
qed

lemma enqueue_tx_inv:
  assumes "enqueue_tx r (d, fs) = (x, (d', fs'))" and "frontier_inv d"
    and "f_State r = StatePending" "f_Host r \<noteq> []"
  shows "frontier_inv d'"
  using assms(1) unfolding enqueue_tx_def
proof (cases rule: transaction_cases)
  case (commit y fs'')
  let ?d1 = "insert_host (new_host (f_Host r) 1 1) d"
  have d1: "frontier_inv ?d1" "f_Host r \<in> h_Host ` set (host_state ?d1)"
    using insert_host_inv[OF assms(2), of "new_host (f_Host r) 1 1"] by (simp_all add: new_host_def)
  have "\<exists>n e. insert_url r ?d1 = (Inr n, e) \<and>
      (d' = e \<or> (\<exists>i. d' = update_url i (\<lambda>x. x\<lparr>f_Priority := f_Priority r\<rparr>) e))"
    using commit(2) unfolding ensureHost_def first_by_def
    by (elim sql_bind_InrE)
      (auto simp: sql_return_def split: if_splits dest!: sql_exec_InrD sql_stmt_InrD elim!: sql_bind_InrE,
        blast)
  then obtain n e where n: "insert_url r ?d1 = (Inr n, e)"
    and rest: "d' = e \<or> (\<exists>i. d' = update_url i (\<lambda>x. x\<lparr>f_Priority := f_Priority r\<rparr>) e)" by blast
  have "frontier_inv e" by (rule insert_url_inv[OF n d1(1) assms(3,4) d1(2)])
  with rest show ?thesis by (auto intro: update_url_same_state)
qed (use assms(2) in simp)

lemma enqueue_one_inv:
  assumes "frontier_inv (fst (snd az))"
  shows "frontier_inv (fst (snd (enqueue_one uc now xu az)))"
proof -
  obtain x u acc d fs where e: "xu = (x, u)" "az = (acc, (d, fs))" by (metis prod.collapse)
  let ?canonical = "CanonicalizeURL (uc_parse uc) (uc_render uc) (u_CanonicalURL u)"
  let ?host = "if u_Host u = [] then HostOf (uc_parse uc) ?canonical else u_Host u"
  let ?r = "new_url_row (uc_sha256hex uc) (if u_URLID u = [] then x else u_URLID u) ?canonical ?host u now"
  show ?thesis
  proof (cases "?canonical = [] \<or> ?host = []")
    case False
    obtain y d' fs' where t: "enqueue_tx ?r (d, fs) = (y, (d', fs'))" by (metis prod.collapse)
    have "frontier_inv d'"
      by (rule enqueue_tx_inv[OF t]) (use assms e False in \<open>auto simp: new_url_row_def\<close>)
    with False t e show ?thesis by (cases y) (auto simp: enqueue_one_def Let_def)
  qed (use assms e in \<open>auto simp: enqueue_one_def Let_def\<close>)
qed

lemma Enqueue_inv:
  assumes "Frontier_Enqueue uc now urls z = (acc, z')" and "frontier_inv (fst z)"
  shows "frontier_inv (fst z')"
proof -
  have "frontier_inv (fst (snd (fold (enqueue_one uc now) urls az)))" if "frontier_inv (fst (snd az))" for az
    using that by (induction urls arbitrary: az) (simp_all add: enqueue_one_inv)
  with assms show ?thesis by (metis Frontier_Enqueue_def snd_conv)
qed

section \<open>Reclaiming leases\<close>

lemma reclaim_keys: "front_keys (reclaimStale now d) = front_keys d"
proof -
  let ?f = "\<lambda>r. r\<lparr>f_State := StatePending, f_ClaimedBy := None, f_ClaimedAt := None\<rparr>"
  let ?d1 = "d\<lparr>url_frontier := update_where (stale now) ?f (url_frontier d)\<rparr>"
  show ?thesis
    using front_keys_update_url[where f = ?f and d = d and Q = "stale now"]
    by (simp add: reclaimStale_def front_keys_update_host[where d = ?d1, simplified])
qed

lemma reclaim_inv:
  assumes "frontier_inv d"
  shows "frontier_inv (reclaimStale now d)"
proof -
  let ?f = "\<lambda>r. r\<lparr>f_State := StatePending, f_ClaimedBy := None, f_ClaimedAt := None\<rparr>"
  let ?n = "\<lambda>host. int (length (filter (\<lambda>r. stale now r \<and> f_Host r = host) (url_frontier d)))"
  let ?d1 = "d\<lparr>url_frontier := update_where (stale now) ?f (url_frontier d)\<rparr>"
  have fl: "in_flight ?d1 host = in_flight d host - ?n host" for host
  proof -
    have "(\<lambda>r. flying host r \<and> stale now r) = (\<lambda>r. stale now r \<and> f_Host r = host)"
      by (auto simp: flying_def stale_def fun_eq_iff)
    with in_flight_update[where f = ?f and d = d and Q = "stale now" and host = host] show ?thesis by simp
  qed
  have nonneg: "0 \<le> in_flight ?d1 host" for host by (simp add: in_flight_def)
  have none: "?n (h_Host h) = 0" if "\<not> list_ex (\<lambda>r. stale now r \<and> f_Host r = h_Host h) (url_frontier d)" for h
    using that by (auto simp: list_ex_iff filter_empty_conv)
  have "front_keys (reclaimStale now d)" using assms by (simp add: reclaim_keys frontier_inv_def)
  moreover have "accounting (reclaimStale now d)"
    unfolding accounting_def
  proof
    fix h assume "h \<in> set (host_state (reclaimStale now d))"
    then have "h \<in> set (update_where (\<lambda>h. list_ex (\<lambda>r. stale now r \<and> f_Host r = h_Host h) (url_frontier d))
         (\<lambda>h. h\<lparr>h_ConcurrencyNow := max (h_ConcurrencyNow h - ?n (h_Host h)) 0\<rparr>) (host_state d))"
      by (simp add: reclaimStale_def)
    then show "h_ConcurrencyNow h = in_flight (reclaimStale now d) (h_Host h)"
    proof (rule update_where_memE)
      fix g assume g: "g \<in> set (host_state d)" "h = g\<lparr>h_ConcurrencyNow := max (h_ConcurrencyNow g - ?n (h_Host g)) 0\<rparr>"
      then have "h_ConcurrencyNow g = in_flight d (h_Host g)" using assms by (simp add: frontier_inv_def accounting_def)
      with g fl[of "h_Host g"] nonneg[of "h_Host g"] show ?thesis by (simp add: reclaimStale_def)
    next
      assume h: "h \<in> set (host_state d)" "\<not> list_ex (\<lambda>r. stale now r \<and> f_Host r = h_Host h) (url_frontier d)"
      then show ?thesis using assms fl[of "h_Host h"] none[OF h(2)]
        by (simp add: reclaimStale_def frontier_inv_def accounting_def)
    qed
  qed
  ultimately show ?thesis by (simp add: frontier_inv_def)
qed

section \<open>Dequeue\<close>

lemma pick_urlD:
  assumes "pick_url lockedU now host d = Some r"
  shows "r \<in> set (url_frontier d)" "pending_due now host r" "f_URLID r \<notin> set lockedU"
proof -
  let ?F = "filter (\<lambda>r. pending_due now host r \<and> f_URLID r \<notin> set lockedU) (url_frontier d)"
  let ?S = "sort_key (\<lambda>r. (- f_Priority r, f_EnqueuedAt r)) ?F"
  from assms obtain rs where "?S = r # rs" unfolding pick_url_def by (cases ?S) simp_all
  then have "r \<in> set ?S" by (simp only: list.set_intros)
  then have "r \<in> set ?F" by (simp only: set_sort)
  then show "r \<in> set (url_frontier d)" "pending_due now host r" "f_URLID r \<notin> set lockedU" by auto
qed

lemma pick_all_run:
  assumes "pick_all lockedU now hs z = (Inr rs, z')"
  shows "fst z' = fst z \<and> (\<forall>r \<in> set rs. r \<in> set (url_frontier (fst z)) \<and> f_Host r \<in> set hs \<and>
      pending_due now (f_Host r) r \<and> f_URLID r \<notin> set lockedU) \<and>
    (distinct hs \<longrightarrow> distinct (map f_Host rs)) \<and> length rs \<le> length hs"
  using assms
proof (induction hs arbitrary: rs z z')
  case (Cons h hs)
  from Cons.prems obtain r z1 rs' z2 where s: "r = pick_url lockedU now h (fst z)" "fst z1 = fst z"
    "pick_all lockedU now hs z1 = (Inr rs', z2)" "z' = z2"
    "rs = (case r of None \<Rightarrow> rs' | Some x \<Rightarrow> if f_URLID x = [] then rs' else x # rs')"
    by (auto elim!: sql_bind_InrE simp: sql_wrap_Inr sql_return_def dest!: sql_query_InrD)
  note IH = Cons.IH[OF s(3)]
  show ?case
  proof (cases "\<exists>x. r = Some x \<and> f_URLID x \<noteq> []")
    case True
    then obtain x where x: "r = Some x" "rs = x # rs'" using s(5) by auto
    with s(1) have "pick_url lockedU now h (fst z) = Some x" by simp
    note px = pick_urlD[OF this]
    moreover have "f_Host x = h" using px(2) by (simp add: pending_due_def)
    ultimately show ?thesis using IH s(2,4) x by auto
  next
    case False
    then have "rs = rs'" using s(5) by (cases r) auto
    with IH s(2,4) show ?thesis by auto
  qed
qed (simp add: sql_return_def)

lemma advance_all_run:
  assumes "advance_all now hs z = (Inr u, z')" and "distinct hs"
  shows "fst z' = (fst z)\<lparr>host_state := update_where (\<lambda>h. h_Host h \<in> set hs) (advance_host now) (host_state (fst z))\<rparr>"
  using assms
proof (induction hs arbitrary: z)
  case (Cons h hs)
  from Cons.prems(1) obtain z1 where z1: "fst z1 = update_host h (advance_host now) (fst z)"
    "advance_all now hs z1 = (Inr u, z')"
    by (auto elim!: sql_bind_InrE simp: sql_wrap_Inr dest!: sql_exec_InrD)
  have "update_where (\<lambda>x. h_Host x \<in> set hs) (advance_host now)
      (update_where (\<lambda>x. h_Host x = h) (advance_host now) rows) =
    update_where (\<lambda>x. h_Host x \<in> set (h # hs)) (advance_host now) rows" for rows
    using Cons.prems(2) by (auto simp: update_where_def advance_host_def)
  with Cons.IH[OF z1(2)] Cons.prems(2) z1(1) show ?case by (simp add: update_host_def)
qed (simp add: sql_return_def update_where_def)

lemma lock_hostsD:
  assumes "host \<in> set (lock_hosts lockedH n now d)"
  obtains h where "h \<in> set (host_state d)" "h_Host h = host" "host_eligible now d h" "host \<notin> set lockedH"
  using assms by (auto simp: lock_hosts_def dest!: in_set_takeD)

lemma lock_hosts_distinct:
  assumes "front_keys d"
  shows "distinct (lock_hosts lockedH n now d)" and "length (lock_hosts lockedH n now d) \<le> nat n"
proof -
  let ?E = "filter (\<lambda>h. host_eligible now d h \<and> h_Host h \<notin> set lockedH) (host_state d)"
  have "distinct (map h_Host ?E)" using assms by (simp add: front_keys_def distinct_map_filter)
  then have "distinct (map h_Host (sort_key (\<lambda>h. - host_priority now d h) ?E))"
    by (simp add: distinct_map)
  then show "distinct (lock_hosts lockedH n now d)"
    unfolding lock_hosts_def take_map[symmetric] by (rule distinct_take)
  show "length (lock_hosts lockedH n now d) \<le> nat n" by (simp add: lock_hosts_def)
qed

definition claimed_db :: "frow list \<Rightarrow> string \<Rightarrow> time \<Rightarrow> time \<Rightarrow> frontdb \<Rightarrow> frontdb" where
  "claimed_db picks workerID now wall d =
     d\<lparr>url_frontier := update_where (\<lambda>r. r \<in> set picks) (flip_row workerID wall) (url_frontier d),
       host_state := update_where (\<lambda>h. h_Host h \<in> f_Host ` set picks) (advance_host now) (host_state d)\<rparr>"

lemma claimed_db_Nil [simp]: "claimed_db [] w now wall d = d"
  by (simp add: claimed_db_def update_where_def)

lemma claim_picks_run:
  assumes "claim_picks w now wall picks z = (Inr out, z')" and "front_keys (fst z)"
    and "set picks \<subseteq> set (url_frontier (fst z))" and "distinct (map f_Host picks)"
  shows "out = map (claimed_url wall) picks \<and> fst z' = claimed_db picks w now wall (fst z)"
proof (cases "picks = []")
  case False
  with assms(1) obtain z1 where
    z1: "fst z1 = (fst z)\<lparr>url_frontier := update_where (\<lambda>r. f_URLID r \<in> f_URLID ` set picks)
            (flip_row w wall) (url_frontier (fst z))\<rparr>"
    and adv: "advance_all now (remdups (map f_Host picks)) z1 = (Inr (), z')"
    and out: "out = map (claimed_url wall) picks"
    unfolding claim_picks_def
    by (auto elim!: sql_bind_InrE simp: sql_wrap_Inr sql_return_def dest!: sql_exec_InrD)
  have "f_URLID r \<in> f_URLID ` set picks \<longleftrightarrow> r \<in> set picks" if "r \<in> set (url_frontier (fst z))" for r
    using that assms(2,3) distinct_key_eq[of f_URLID "url_frontier (fst z)"]
    by (auto simp: front_keys_def image_iff)
  then have "update_where (\<lambda>r. f_URLID r \<in> f_URLID ` set picks) (flip_row w wall) (url_frontier (fst z)) =
      update_where (\<lambda>r. r \<in> set picks) (flip_row w wall) (url_frontier (fst z))"
    unfolding update_where_def by (intro map_cong) auto
  with advance_all_run[OF adv] z1 out assms(4) show ?thesis by (simp add: claimed_db_def)
qed (use assms(1) in \<open>auto simp: claim_picks_def sql_return_def\<close>)

text \<open>A committed claim: the rows it picked and what it wrote.\<close>

lemma dequeue_tx_run:
  assumes "dequeue_tx lockedH lockedU n w now wall (d, fs) = (Inr out, (d', fs'))" and "front_keys d"
  obtains picks where "out = map (claimed_url wall) picks" "d' = claimed_db picks w now wall d"
    "\<And>r. r \<in> set picks \<Longrightarrow> r \<in> set (url_frontier d) \<and> pending_due now (f_Host r) r \<and>
       f_Host r \<in> set (lock_hosts lockedH n now d)"
    "distinct (map f_Host picks)" "length picks \<le> nat n"
proof -
  let ?hs = "lock_hosts lockedH n now d"
  from assms(1) obtain fs'' where "sql_bind (sql_wrap ''frontier dequeue host-lock''
      (sql_query (lock_hosts lockedH n now))) (claim_hosts lockedU w now wall) (d, fs) = (Inr out, (d', fs''))"
    unfolding dequeue_tx_def by (rule transaction_success)
  then obtain z1 where z1: "fst z1 = d" and run: "claim_hosts lockedU w now wall ?hs z1 = (Inr out, (d', fs''))"
    by (elim sql_bind_InrE) (auto simp: sql_wrap_Inr dest!: sql_query_InrD)
  show ?thesis
  proof (cases "?hs = []")
    case True
    with run z1 show ?thesis by (intro that[of "[]"]) (auto simp: claim_hosts_def sql_return_def)
  next
    case False
    with run obtain picks z2 where p: "pick_all lockedU now ?hs z1 = (Inr picks, z2)"
      and c: "claim_picks w now wall picks z2 = (Inr out, (d', fs''))"
      by (auto simp: claim_hosts_def elim: sql_bind_InrE)
    note pk = pick_all_run[OF p]
    have hs: "distinct ?hs" "length ?hs \<le> nat n" using lock_hosts_distinct[OF assms(2)] by auto
    have "out = map (claimed_url wall) picks \<and> fst (d', fs'') = claimed_db picks w now wall (fst z2)"
      by (rule claim_picks_run[OF c]) (use pk z1 hs assms(2) in auto)
    with pk z1 hs show ?thesis by (intro that[of picks]) auto
  qed
qed

text \<open>A claim adds one URL in flight for each host it took.\<close>

lemma claimed_count:
  assumes "distinct rows" and "set picks \<subseteq> set rows" and "distinct (map f_Host picks)"
  shows "length (filter (\<lambda>r. r \<in> set picks \<and> f_Host r = host) rows) = (if host \<in> f_Host ` set picks then 1 else 0)"
proof -
  have "length (filter (\<lambda>r. r \<in> set picks \<and> f_Host r = host) rows) =
      card (set (filter (\<lambda>r. r \<in> set picks \<and> f_Host r = host) rows))"
    using assms(1) by (intro distinct_card[symmetric] distinct_filter)
  also have "set (filter (\<lambda>r. r \<in> set picks \<and> f_Host r = host) rows) = {r \<in> set picks. f_Host r = host}"
    using assms(2) by auto
  also have "card {r \<in> set picks. f_Host r = host} = (if host \<in> f_Host ` set picks then 1 else 0)"
  proof (cases "host \<in> f_Host ` set picks")
    case True
    then obtain r where r: "r \<in> set picks" "f_Host r = host" by blast
    then have "{r \<in> set picks. f_Host r = host} = {r}"
      using distinct_key_eq[OF assms(3)] by blast
    with True show ?thesis by simp
  next
    case False
    then have "{r \<in> set picks. f_Host r = host} = {}" by blast
    with False show ?thesis by simp
  qed
  finally show ?thesis .
qed

lemma in_flight_claimed:
  assumes "front_keys d" and "\<And>r. r \<in> set picks \<Longrightarrow> r \<in> set (url_frontier d) \<and> f_State r = StatePending"
    and "distinct (map f_Host picks)"
  shows "in_flight (claimed_db picks w now wall d) host =
    in_flight d host + (if host \<in> f_Host ` set picks then 1 else 0)"
proof -
  have "filter (\<lambda>r. flying host r \<and> r \<in> set picks) (url_frontier d) = []"
    using assms(2) by (auto simp: filter_empty_conv flying_def)
  moreover have "distinct (url_frontier d)" using assms(1) by (simp add: front_keys_def distinct_map)
  moreover have "f_Host (flip_row w wall r) = f_Host r" "f_State (flip_row w wall r) = StateInFlight" for r
    by (simp_all add: flip_row_def)
  moreover have "set picks \<subseteq> set (url_frontier d)" using assms(2) by blast
  ultimately show ?thesis unfolding claimed_db_def
    using in_flight_update[where f = "flip_row w wall" and d = d and Q = "\<lambda>r. r \<in> set picks" and host = host]
      claimed_count[of "url_frontier d" picks host] assms(3) by (simp add: in_flight_def)
qed

lemma claimed_db_inv:
  assumes "frontier_inv d" and "\<And>r. r \<in> set picks \<Longrightarrow> r \<in> set (url_frontier d) \<and> f_State r = StatePending"
    and "distinct (map f_Host picks)"
  shows "frontier_inv (claimed_db picks w now wall d)"
proof -
  have k: "front_keys d" and a: "accounting d" using assms(1) by (simp_all add: frontier_inv_def)
  let ?d1 = "d\<lparr>url_frontier := update_where (\<lambda>r. r \<in> set picks) (flip_row w wall) (url_frontier d)\<rparr>"
  have "front_keys ?d1" using k by (subst front_keys_update_url) (simp_all add: flip_row_def)
  then have "front_keys (claimed_db picks w now wall d)"
    using front_keys_update_host[where d = ?d1 and f = "advance_host now"]
    by (simp add: claimed_db_def advance_host_def)
  moreover have "accounting (claimed_db picks w now wall d)"
  proof -
    have "host_state (claimed_db picks w now wall d) =
        update_where (\<lambda>h. h_Host h \<in> f_Host ` set picks) (advance_host now) (host_state d)"
      by (simp add: claimed_db_def)
    then show ?thesis using a unfolding accounting_def
      by (simp add: in_flight_claimed[OF k assms(2,3)] ball_update_where advance_host_def)
  qed
  ultimately show ?thesis by (simp add: frontier_inv_def)
qed

lemma dequeue_tx_inv:
  assumes "dequeue_tx lockedH lockedU n w now wall (d, fs) = (x, (d', fs'))" and "frontier_inv d"
  shows "frontier_inv d'"
proof (cases x)
  case (Inl e)
  with assms show ?thesis unfolding dequeue_tx_def using transaction_error by fastforce
next
  case (Inr out)
  have k: "front_keys d" using assms(2) by (simp add: frontier_inv_def)
  from dequeue_tx_run[OF assms(1)[unfolded Inr] k] obtain picks where
    p: "d' = claimed_db picks w now wall d"
      "\<And>r. r \<in> set picks \<Longrightarrow> r \<in> set (url_frontier d) \<and> pending_due now (f_Host r) r \<and>
         f_Host r \<in> set (lock_hosts lockedH n now d)" "distinct (map f_Host picks)" by metis
  show ?thesis unfolding p(1) by (rule claimed_db_inv[OF assms(2) _ p(3)]) (use p(2) in \<open>auto simp: pending_due_def\<close>)
qed

text \<open>\<open>Dequeue\<close> reclaims, then claims; each part may fail.\<close>

lemma Dequeue_cases:
  assumes "Dequeue lockedH lockedU n w now0 now wall (d, fs) = (x, (d', fs'))"
  obtains (nothing) "d' = d" "\<And>out. x = Inr out \<Longrightarrow> out = []"
  | (claim) fs1 where "0 < n" "dequeue_tx lockedH lockedU n w now wall (reclaimStale now0 d, fs1) = (x, (d', fs'))"
proof (cases "n \<le> 0")
  case True
  with assms show ?thesis by (intro that(1)) (auto simp: Dequeue_def sql_return_def)
next
  case False
  obtain y z1 where s: "sql_exec (reclaimStale now0) (d, fs) = (y, z1)" by (metis prod.collapse)
  show ?thesis
  proof (cases y)
    case (Inl e)
    with s have "fst z1 = d" unfolding sql_exec_def by (metis sql_stmt_cases sum.distinct(1) prod.collapse fst_conv)
    with False assms s Inl show ?thesis
      by (intro that(1)) (auto simp: Dequeue_def sql_bind_apply sql_wrap_apply)
  next
    case (Inr u)
    with s have "fst z1 = reclaimStale now0 d" using sql_exec_InrD by fastforce
    then have "z1 = (reclaimStale now0 d, snd z1)" by (metis prod.collapse)
    with False assms s Inr show ?thesis
      by (intro that(2)[of "snd z1"]) (auto simp: Dequeue_def sql_bind_apply sql_wrap_apply)
  qed
qed

lemma Dequeue_inv:
  assumes "Dequeue lockedH lockedU n w now0 now wall (d, fs) = (x, (d', fs'))" and "frontier_inv d"
  shows "frontier_inv d'"
  using assms(1)
proof (cases rule: Dequeue_cases)
  case (claim fs1)
  from claim(2) reclaim_inv[OF assms(2)] show ?thesis by (rule dequeue_tx_inv)
qed (use assms(2) in simp)

section \<open>Complete and Fail\<close>

lemma free_slot_accounting [simp]:
  "h_Host (free_slot ok h) = h_Host h" "h_ConcurrencyNow (free_slot ok h) = max (h_ConcurrencyNow h - 1) 0"
  by (simp_all add: free_slot_def)

lemma release_inv:
  assumes "frontier_inv d" and r: "r \<in> set (url_frontier d)" "f_URLID r = i" "f_State r = StateInFlight"
    and f: "\<And>r. f_URLID (f r) = f_URLID r" "\<And>r. f_CanonicalURLHash (f r) = f_CanonicalURLHash r"
      "\<And>r. f_Host (f r) = f_Host r" "\<And>r. f_State (f r) \<noteq> StateInFlight"
  shows "frontier_inv (update_host (f_Host r) (free_slot ok) (update_url i f d))"
proof -
  let ?d1 = "update_url i f d" and ?d2 = "update_host (f_Host r) (free_slot ok) (update_url i f d)"
  have k: "front_keys d" and a: "accounting d" using assms(1) by (simp_all add: frontier_inv_def)
  have "front_keys ?d1" using k f by (simp add: update_url_def front_keys_update_url)
  then have k2: "front_keys ?d2" by (simp add: update_host_def front_keys_update_host)
  have fl: "in_flight ?d2 host = in_flight d host - (if f_Host r = host then 1 else 0)" for host
    using in_flight_one[OF k r(1,2), of f host] f(3,4) r(3) by (simp add: update_host_def flying_def)
  have "0 < in_flight d (f_Host r)"
    using r by (auto simp: in_flight_def filter_empty_conv flying_def intro!: length_pos_if_in_set)
  moreover have "host_state ?d2 = update_where (\<lambda>h. h_Host h = f_Host r) (free_slot ok) (host_state d)"
    by (simp add: update_host_def update_url_def)
  ultimately have "accounting ?d2"
    using a by (simp add: accounting_def fl ball_update_where)
  with k2 show ?thesis by (simp add: frontier_inv_def)
qed

lemma first_by_InrD: "first_by P z = (Inr r, z') \<Longrightarrow> fst z' = fst z \<and> r \<in> set (url_frontier (fst z)) \<and> P r"
  unfolding first_by_def by (drule sql_stmt_InrD) (auto split: option.splits dest: find_SomeD)

lemma flying_found:
  assumes "frontier_inv d" and "flying_url d i" and "r \<in> set (url_frontier d)" "f_URLID r = i"
  shows "f_State r = StateInFlight" and "f_Host r \<noteq> []"
  using assms flying_unique[of d r i] by (auto simp: frontier_inv_def front_keys_def)

lemma Complete_inv:
  assumes "Frontier_Complete i wall (d, fs) = (x, (d', fs'))" and "frontier_inv d" and "flying_url d i"
  shows "frontier_inv d'"
proof (cases "i = []")
  case False
  let ?f = "\<lambda>r. r\<lparr>f_State := StateDone, f_CompletedAt := Some wall, f_LastError := []\<rparr>"
  from assms(1) False show ?thesis unfolding Frontier_Complete_def if_not_P[OF False]
  proof (cases rule: transaction_cases)
    case (commit y fs'')
    then obtain r z1 z2 where r: "first_by (\<lambda>r. f_URLID r = i) (d, fs) = (Inr r, z1)"
      and u: "sql_exec (update_url i ?f) z1 = (Inr (), z2)"
      and c: "(if f_Host r = [] then sql_return ()
         else sql_wrap ''frontier complete host_state'' (sql_exec (update_host (f_Host r) (free_slot True)))) z2 =
        (Inr y, (d', fs''))"
      by (elim sql_bind_InrE) (auto simp: sql_wrap_Inr)
    note m = first_by_InrD[OF r]
    then have st: "f_State r = StateInFlight" "f_Host r \<noteq> []" using flying_found[OF assms(2,3)] by auto
    have "d' = update_host (f_Host r) (free_slot True) (update_url i ?f d)"
      using sql_exec_InrD[OF u] c m st(2) by (auto simp: sql_wrap_Inr dest: sql_exec_InrD)
    then show ?thesis using release_inv[OF assms(2), of r i ?f] m st(1) by simp
  qed (use assms(2) in simp)
qed (use assms in \<open>simp add: Frontier_Complete_def sql_raise_def\<close>)

lemma Fail_inv:
  assumes "Frontier_Fail pf oor i msg maxA wall (d, fs) = (x, (d', fs'))" and "frontier_inv d" and "flying_url d i"
  shows "frontier_inv d'"
proof (cases "i = []")
  case False
  let ?f = "\<lambda>r. fail_row pf oor msg (if maxA \<le> 0 then 1 else maxA) wall (f_Attempts r)"
  from assms(1) False show ?thesis unfolding Frontier_Fail_def Let_def if_not_P[OF False]
  proof (cases rule: transaction_cases)
    case (commit y fs'')
    then obtain r z1 z2 where r: "first_by (\<lambda>r. f_URLID r = i) (d, fs) = (Inr r, z1)"
      and u: "sql_exec (update_url i (?f r)) z1 = (Inr (), z2)"
      and c: "(if f_Host r = [] then sql_return ()
         else sql_wrap ''frontier fail host_state'' (sql_exec (update_host (f_Host r) (free_slot False)))) z2 =
        (Inr y, (d', fs''))"
      by (elim sql_bind_InrE) (auto simp: sql_wrap_Inr)
    note m = first_by_InrD[OF r]
    then have st: "f_State r = StateInFlight" "f_Host r \<noteq> []" using flying_found[OF assms(2,3)] by auto
    have "d' = update_host (f_Host r) (free_slot False) (update_url i (?f r) d)"
      using sql_exec_InrD[OF u] c m st(2) by (auto simp: sql_wrap_Inr dest: sql_exec_InrD)
    then show ?thesis using release_inv[OF assms(2), of r i "?f r"] m st(1) by (simp add: fail_row_def)
  qed (use assms(2) in simp)
qed (use assms in \<open>simp add: Frontier_Fail_def sql_raise_def\<close>)

section \<open>Operators\<close>

lemma exec_inv:
  assumes "sql_exec f (d, fs) = (x, (d', fs'))" and "frontier_inv d" and "frontier_inv (f d)"
  shows "frontier_inv d'"
  using assms unfolding sql_exec_def by (cases rule: sql_stmt_cases[OF assms(1)[unfolded sql_exec_def]]) auto

lemma update_host_inv:
  assumes "frontier_inv d" and "\<And>h. h_Host (f h) = h_Host h" "\<And>h. h_ConcurrencyNow (f h) = h_ConcurrencyNow h"
  shows "frontier_inv (update_host host f d)"
  using assms
  by (auto simp: frontier_inv_def update_host_def front_keys_update_host accounting_def ball_update_where)

lemma delete_inv:
  assumes "frontier_inv d" and "\<not> flying_url d i"
  shows "frontier_inv (d\<lparr>url_frontier := filter (\<lambda>r. f_URLID r \<noteq> i) (url_frontier d)\<rparr>)"
proof -
  have "filter (\<lambda>x. flying h x \<and> f_URLID x \<noteq> i) (url_frontier d) = filter (flying h) (url_frontier d)" for h
    using assms(2) by (intro filter_cong) (auto simp: flying_url_def flying_def)
  with assms(1) show ?thesis
    by (simp add: frontier_inv_def front_keys_def accounting_def in_flight_def distinct_map_filter conj_commute)
qed

text \<open>What the operator may assume and keeps while nobody is fetching URL \<open>i\<close>.\<close>

definition idle_inv :: "string \<Rightarrow> frontdb \<Rightarrow> frontdb \<Rightarrow> bool" where
  "idle_inv i d d' \<longleftrightarrow> (frontier_inv d \<and> \<not> flying_url d i \<longrightarrow> frontier_inv d' \<and> \<not> flying_url d' i)"

interpretation idle: sql_preorder "idle_inv i" for i
  by unfold_locales (auto simp: idle_inv_def)

lemma requeue_update_idle:
  "idle_inv i d (update_url i (\<lambda>r. r\<lparr>f_State := StatePending, f_NextAttemptAt := None, f_LastError := [],
     f_Attempts := (if b then f_Attempts r + 1 else f_Attempts r)\<rparr>) d)"
  unfolding idle_inv_def
proof (intro impI conjI)
  let ?f = "\<lambda>r. r\<lparr>f_State := StatePending, f_NextAttemptAt := None, f_LastError := [],
     f_Attempts := (if b then f_Attempts r + 1 else f_Attempts r)\<rparr>"
  assume d: "frontier_inv d \<and> \<not> flying_url d i"
  then have ground: "f_State r \<noteq> StateInFlight" if "r \<in> set (url_frontier d)" "f_URLID r = i" for r
    using that by (simp add: flying_url_def)
  show "frontier_inv (update_url i ?f d)"
    by (rule update_url_same_state[OF conjunct1[OF d]]) (simp_all add: ground)
  show "\<not> flying_url (update_url i ?f d) i"
  proof
    assume "flying_url (update_url i ?f d) i"
    then obtain r where "r \<in> set (update_where (\<lambda>r. f_URLID r = i) ?f (url_frontier d))"
      and r: "f_URLID r = i" "f_State r = StateInFlight"
      unfolding flying_url_def rows_update_url by blast
    then show False by (cases rule: update_where_memE) (use r in simp_all)
  qed
qed

lemma Requeue_idle: "preserves (idle_inv i) (Admin_Requeue i)"
  unfolding Admin_Requeue_def Admin_Get_def
proof (rule idle.preserves_bind[OF idle.preserves_wrap[OF idle.preserves_query]])
  fix prior
  show "preserves (idle_inv i) (case prior of None \<Rightarrow> sql_return None
     | Some p \<Rightarrow> sql_bind (sql_wrap ''frontier requeue update'' (sql_exec (update_url i
             (\<lambda>r. r\<lparr>f_State := StatePending, f_NextAttemptAt := None, f_LastError := [],
                    f_Attempts := (if f_State p = StateFailed then f_Attempts r + 1 else f_Attempts r)\<rparr>)))) (\<lambda>_.
         sql_wrap ''frontier get'' (sql_query (\<lambda>d. List.find (\<lambda>r. f_URLID r = i) (url_frontier d)))))"
    by (cases prior) (simp_all add: idle.preserves_rules idle.preserves_exec requeue_update_idle)
qed

lemma Upsert_inv:
  assumes "HostState_Upsert h w c (d, fs) = (x, (d', fs'))" and "frontier_inv d"
  shows "frontier_inv d'"
proof (cases "h = []")
  case True
  with assms show ?thesis by (simp add: HostState_Upsert_def sql_raise_def)
next
  case False
  let ?hs = "new_host h (if w \<le> 0 then 1 else w) (if c \<le> 0 then 1 else c)"
  have "h_ConcurrencyNow ?hs = 0" by (simp add: new_host_def)
  from insert_host_inv(1)[OF assms(2) this] show ?thesis
    by (rule exec_inv[OF assms(1)[unfolded HostState_Upsert_def if_not_P[OF False]] assms(2)])
qed

lemma front_step_inv:
  assumes "front_step now z z'" and "frontier_inv (fst z)"
  shows "frontier_inv (fst z')"
  using assms
proof (cases rule: front_step.cases)
  case (enqueue uc wall urls acc)
  then show ?thesis using Enqueue_inv assms(2) by blast
next
  case (dequeue lockedH lockedU n w now0 wall out)
  then show ?thesis using Dequeue_inv assms(2) by (metis prod.collapse)
next
  case (complete i wall x)
  then show ?thesis using Complete_inv assms(2) by (metis prod.collapse)
next
  case (fail i pf oor msg maxA wall x)
  then show ?thesis using Fail_inv assms(2) by (metis prod.collapse)
next
  case (upsert h w c x)
  then show ?thesis using Upsert_inv assms(2) by (metis prod.collapse)
next
  case (window h w x)
  then show ?thesis using exec_inv[of "update_host h (\<lambda>h. h\<lparr>h_WindowMinutes := w\<rparr>)" "fst z" "snd z" x "fst z'" "snd z'"]
      update_host_inv[OF assms(2), of "\<lambda>h. h\<lparr>h_WindowMinutes := w\<rparr>" h] assms(2)
    by (auto simp: SetWindow_def sql_raise_def split: if_splits)
next
  case (concurrency h c x)
  then show ?thesis using exec_inv[of "update_host h (\<lambda>h. h\<lparr>h_ConcurrencyMax := c\<rparr>)" "fst z" "snd z" x "fst z'" "snd z'"]
      update_host_inv[OF assms(2), of "\<lambda>h. h\<lparr>h_ConcurrencyMax := c\<rparr>" h] assms(2)
    by (auto simp: SetConcurrency_def sql_raise_def split: if_splits)
next
  case (requeue i y)
  then have "Admin_Requeue i (fst z, snd z) = (y, (fst z', snd z'))" by simp
  from preserves_run[OF Requeue_idle this] requeue(1) assms(2) show ?thesis by (simp add: idle_inv_def)
next
  case (delete i x)
  then show ?thesis using exec_inv[of _ "fst z" "snd z" x "fst z'" "snd z'"] delete_inv[OF assms(2)] assms(2)
    by (auto simp: Admin_Delete_def)
qed

definition front_run :: "(time \<Rightarrow> bool) \<Rightarrow> frontdb dbstate \<Rightarrow> frontdb dbstate \<Rightarrow> bool" where
  "front_run T z z' \<longleftrightarrow> (\<exists>now. T now \<and> front_step now z z')"

interpretation fr: transition_system "front_run T" "\<lambda>z. frontier_inv (fst z)" for T
  by unfold_locales (auto simp: front_run_def intro: front_step_inv)

end
