(* ===== verification/Frontier_Properties.thy ===== *)
theory Frontier_Properties
  imports Frontier_Spec
begin

text \<open>
  Properties of the frontier: slot accounting along runs, politeness of one claim and of
  the window after it, progress, deduplication of enqueued URLs, the retry delay in 64-bit
  arithmetic, and two ways in which unguarded operations break the accounting.
\<close>

section \<open>A host inside its politeness window\<close>

definition waits :: "string \<Rightarrow> time \<Rightarrow> frontdb \<Rightarrow> bool" where
  "waits host T d \<longleftrightarrow> host \<in> h_Host ` set (host_state d) \<and>
     (\<forall>h \<in> set (host_state d). h_Host h = host \<longrightarrow> (\<exists>x. h_NextEligibleAt h = Some x \<and> T \<le> x))"

definition held :: "string \<Rightarrow> time \<Rightarrow> frontdb \<Rightarrow> frontdb \<Rightarrow> bool" where
  "held host T d d' \<longleftrightarrow> (waits host T d \<longrightarrow> waits host T d')"

interpretation hold: sql_preorder "held host T" for host T
  by unfold_locales (auto simp: held_def)

lemma waits_rows [simp]: "waits host T (d\<lparr>url_frontier := rows\<rparr>) = waits host T d"
  by (simp add: waits_def)

lemma waits_update_hosts:
  assumes "\<And>h. h_Host (f h) = h_Host h" "\<And>h. h_NextEligibleAt (f h) = h_NextEligibleAt h"
  shows "waits host T (d\<lparr>host_state := update_where Q f (host_state d)\<rparr>) = waits host T d"
  using assms by (simp add: waits_def image_update_where ball_update_where)

lemma held_update_url: "held host T d (update_url i f d)"
  by (simp add: held_def update_url_def)

lemma held_insert_host: "held host T d (insert_host hs d)"
proof (cases "list_ex (\<lambda>h. h_Host h = h_Host hs) (host_state d)")
  case False
  then have "h_Host hs \<notin> h_Host ` set (host_state d)" by (auto simp: list_ex_iff)
  with False show ?thesis by (auto simp: held_def waits_def insert_host_def)
qed (simp add: held_def insert_host_def)

lemma held_update_host:
  assumes "\<And>h. h_Host (f h) = h_Host h" "\<And>h. h_NextEligibleAt (f h) = h_NextEligibleAt h"
  shows "held host T d (update_host x f d)"
  using waits_update_hosts[OF assms] by (simp add: held_def update_host_def)

lemma held_free_slot: "held host T d (update_host x (free_slot ok) d)"
  by (rule held_update_host) (simp_all add: free_slot_def)

lemma held_reclaim: "held host T d (reclaimStale now d)"
  unfolding held_def reclaimStale_def
  by (subst waits_update_hosts[where d = "d\<lparr>url_frontier := _\<rparr>", simplified]) simp_all

lemma held_insert_url: "insert_url r d = (Inr n, d') \<Longrightarrow> held host T d d'"
  by (auto simp: insert_url_def held_def split: if_splits)

lemmas held_rules = hold.preserves_rules hold.preserves_exec hold.preserves_stmt held_update_url held_insert_host
  held_free_slot held_reclaim held_insert_url held_update_host

lemma held_first_by: "preserves (held host T) (first_by P)"
  unfolding first_by_def by (rule hold.preserves_stmt) (auto simp: held_def)

lemma held_enqueue_tx: "preserves (held host T) (enqueue_tx r)"
  unfolding enqueue_tx_def ensureHost_def by (intro held_rules allI) (simp_all add: held_rules held_first_by)

lemma held_Complete: "preserves (held host T) (Frontier_Complete i wall)"
  unfolding Frontier_Complete_def by (intro held_rules held_first_by)

lemma held_Fail: "preserves (held host T) (Frontier_Fail pf oor i msg m wall)"
  unfolding Frontier_Fail_def Let_def by (intro held_rules held_first_by)

lemma held_operators:
  "preserves (held host T) (HostState_Upsert h w c)" "preserves (held host T) (SetWindow h w)"
  "preserves (held host T) (SetConcurrency h c)"
  unfolding HostState_Upsert_def SetWindow_def SetConcurrency_def by (intro held_rules; simp)+

lemma held_Delete: "preserves (held host T) (Admin_Delete i)"
  unfolding Admin_Delete_def by (rule hold.preserves_exec) (simp add: held_def)

lemma held_Requeue: "preserves (held host T) (Admin_Requeue i)"
  unfolding Admin_Requeue_def Admin_Get_def
  by (rule hold.preserves_bind, intro held_rules) (auto split: option.split intro!: held_rules)

lemma held_Enqueue:
  assumes "Frontier_Enqueue uc now urls z = (acc, z')"
  shows "held host T (fst z) (fst z')"
proof -
  have one: "held host T (fst (snd az)) (fst (snd (enqueue_one uc now xu az)))" for az xu
  proof -
    obtain x u acc d fs where e: "xu = (x, u)" "az = (acc, (d, fs))" by (metis prod.collapse)
    have "held host T d (fst (snd (enqueue_tx r (d, fs))))" for r
      using preservesD[OF held_enqueue_tx] by (simp add: tables_after_def)
    then show ?thesis unfolding e enqueue_one_def Let_def
      by (auto simp: hold.R_refl split: prod.splits sum.splits) (metis fst_conv snd_conv)+
  qed
  have "held host T (fst (snd az)) (fst (snd (fold (enqueue_one uc now) urls az)))" for az
  proof (induction urls arbitrary: az)
    case (Cons xu urls)
    show ?case using hold.R_trans[OF one Cons.IH] by simp
  qed (simp add: hold.R_refl)
  with assms show ?thesis unfolding Frontier_Enqueue_def by (metis snd_conv)
qed

text \<open>No claim before the end of the window takes the host.\<close>

lemma waiting_not_locked:
  assumes "waits host T d" and "now < T"
  shows "host \<notin> set (lock_hosts lockedH n now d)"
proof
  assume "host \<in> set (lock_hosts lockedH n now d)"
  then obtain h where "h \<in> set (host_state d)" "h_Host h = host" "host_eligible now d h" by (rule lock_hostsD)
  with assms show False by (force simp: waits_def host_eligible_def due_def)
qed

lemma waits_claimed:
  assumes "waits host T d" and "host \<notin> f_Host ` set picks"
  shows "waits host T (claimed_db picks w now wall d)"
proof -
  have "h_Host (advance_host now h) = h_Host h" for h by (simp add: advance_host_def)
  then show ?thesis using assms by (auto simp: claimed_db_def waits_def image_update_where ball_update_where)
qed

lemma waits_Dequeue:
  assumes run: "Dequeue lockedH lockedU n w now0 now wall (d, fs) = (x, (d', fs'))"
    and d: "frontier_inv d" "waits host T d" "now < T"
  shows "waits host T d' \<and> (\<forall>out. x = Inr out \<longrightarrow> host \<notin> u_Host ` set out)"
  using run
proof (cases rule: Dequeue_cases)
  case (claim fs1)
  let ?r = "reclaimStale now0 d"
  have r: "front_keys ?r" "waits host T ?r"
    using reclaim_inv[OF d(1)] held_reclaim[of host T d] d(2) by (auto simp: frontier_inv_def held_def)
  show ?thesis
  proof (cases x)
    case (Inl e)
    with claim(2) have "d' = ?r" unfolding dequeue_tx_def by (auto dest: transaction_error)
    with Inl r show ?thesis by simp
  next
    case (Inr out)
    from dequeue_tx_run[OF claim(2)[unfolded Inr] r(1)] obtain picks where
      p: "out = map (claimed_url wall) picks" "d' = claimed_db picks w now wall ?r"
        "\<And>r. r \<in> set picks \<Longrightarrow> f_Host r \<in> set (lock_hosts lockedH n now ?r)" by metis
    then have "host \<notin> f_Host ` set picks" using waiting_not_locked[OF r(2) d(3)] by blast
    then show ?thesis using waits_claimed[OF r(2)] p(1,2) Inr by (auto simp: claimed_url_def)
  qed
qed (use d in auto)

lemma front_step_waits:
  assumes "front_step now z z'" and "frontier_inv (fst z)" "waits host T (fst z)" "now < T"
  shows "waits host T (fst z')"
proof -
  from assms(1) show ?thesis
  proof (cases rule: front_step.cases)
    case (enqueue uc wall urls acc)
    then show ?thesis using held_Enqueue assms(3) by (auto simp: held_def)
  next
    case (dequeue lockedH lockedU n w now0 wall out)
    then show ?thesis using waits_Dequeue[of _ _ _ _ _ _ _ "fst z" "snd z" out "fst z'" "snd z'"] assms by simp
  next
    case (complete i wall x)
    then show ?thesis using preserves_run[OF held_Complete] assms(3) unfolding held_def by (metis prod.collapse)
  next
    case (fail i pf oor msg maxA wall x)
    then show ?thesis using preserves_run[OF held_Fail] assms(3) unfolding held_def by (metis prod.collapse)
  next
    case (upsert h w c x)
    then show ?thesis using preserves_run[OF held_operators(1)] assms(3) unfolding held_def by (metis prod.collapse)
  next
    case (window h w x)
    then show ?thesis using preserves_run[OF held_operators(2)] assms(3) unfolding held_def by (metis prod.collapse)
  next
    case (concurrency h c x)
    then show ?thesis using preserves_run[OF held_operators(3)] assms(3) unfolding held_def by (metis prod.collapse)
  next
    case (requeue i y)
    then show ?thesis using preserves_run[OF held_Requeue] assms(3) unfolding held_def by (metis prod.collapse)
  next
    case (delete i x)
    then show ?thesis using preserves_run[OF held_Delete] assms(3) unfolding held_def by (metis prod.collapse)
  qed
qed

interpretation polite: transition_system "front_run (\<lambda>now. now < T)" "\<lambda>z. frontier_inv (fst z) \<and> waits host T (fst z)" for T host
  by unfold_locales (auto simp: front_run_def intro: front_step_inv front_step_waits)

section \<open>Slot accounting\<close>

definition empty_frontier :: frontdb where
  "empty_frontier = \<lparr>url_frontier = [], host_state = []\<rparr>"

lemma empty_frontier_inv: "frontier_inv empty_frontier"
  by (simp add: frontier_inv_def front_keys_def accounting_def empty_frontier_def)

text \<open>
  C16. Along every run from an empty frontier in which \<open>Complete\<close> and \<open>Fail\<close> are called on URLs in flight and the
  operator requeues and deletes only URLs not in flight, with whatever statement failures,
  \<open>concurrency_now\<close> of every host is the number of its URLs in flight, and identifiers,
  URL hashes and hosts stay unique.  The code checks none of these conditions; without them the accounting
  breaks (\<open>stale_complete_overbooks\<close>, \<open>requeue_leaks_slot\<close>).
\<close>

theorem frontier_accounting:
  assumes "(front_run (\<lambda>_. True))\<^sup>*\<^sup>* (empty_frontier, fs) z"
  shows "frontier_inv (fst z)"
  by (rule fr.run_inv[OF assms]) (simp add: empty_frontier_inv)

section \<open>Politeness\<close>

lemma claimed_host:
  assumes "front_keys d" and "\<And>r. r \<in> set picks \<Longrightarrow> r \<in> set (url_frontier d) \<and> f_State r = StatePending"
    and "distinct (map f_Host picks)" and "h \<in> set (host_state d)" "h_Host h = host" "host \<in> f_Host ` set picks"
  shows "advance_host now h \<in> set (host_state (claimed_db picks w now wall d))"
    and "in_flight (claimed_db picks w now wall d) host = in_flight d host + 1"
  using assms(4-6) in_flight_claimed[OF assms(1-3), of w now wall host]
  by (auto simp: claimed_db_def set_update_where intro!: image_eqI[of _ _ h])

text \<open>What a claim returns, in terms of the rows it found after reclaiming.\<close>

lemma Dequeue_claims:
  assumes "Dequeue lockedH lockedU n w now0 now wall (d, fs) = (Inr out, (d', fs'))" and "front_keys d" and "out \<noteq> []"
  obtains picks where "out = map (claimed_url wall) picks" "d' = claimed_db picks w now wall (reclaimStale now0 d)"
    "\<And>r. r \<in> set picks \<Longrightarrow> r \<in> set (url_frontier (reclaimStale now0 d)) \<and> pending_due now (f_Host r) r \<and>
       f_Host r \<in> set (lock_hosts lockedH n now (reclaimStale now0 d))"
    "distinct (map f_Host picks)" "length picks \<le> nat n"
  using assms(1)
proof (cases rule: Dequeue_cases)
  case nothing
  then show ?thesis using assms(3) by simp
next
  case (claim fs1)
  have "front_keys (reclaimStale now0 d)" using assms(2) by (simp add: reclaim_keys)
  from dequeue_tx_run[OF claim(2) this] that show ?thesis by metis
qed

text \<open>
  C17. In a frontier with unique keys and a row for every host, a claim returns at most \<open>n\<close> URLs, one per host.
  Each host it takes was past its politeness window and its \<open>concurrency_now\<close> below its limit, and afterwards may not be
  asked again before its window has passed.  When \<open>concurrency_now\<close> counts the URLs in flight, the host
  has at most \<open>concurrency_max\<close> of them after the claim.
\<close>

theorem dequeue_polite:
  assumes "Dequeue lockedH lockedU n w now0 now wall (d, fs) = (Inr out, (d', fs'))" and "front_keys d"
  shows "int (length out) \<le> max n 0 \<and> distinct (map u_Host out) \<and>
    (\<forall>u \<in> set out. \<exists>h \<in> set (host_state (reclaimStale now0 d)). h_Host h = u_Host u \<and> due now (h_NextEligibleAt h) \<and>
      h_ConcurrencyNow h < h_ConcurrencyMax h \<and> advance_host now h \<in> set (host_state d') \<and>
      (accounting d \<longrightarrow> in_flight d' (u_Host u) \<le> h_ConcurrencyMax h))"
proof (cases "out = []")
  case False
  let ?r = "reclaimStale now0 d"
  have r: "front_keys ?r" using assms(2) by (simp add: reclaim_keys)
  have acc: "accounting ?r" if "accounting d"
    using reclaim_inv[of d now0] that assms(2) by (simp add: frontier_inv_def)
  from Dequeue_claims[OF assms False] obtain picks where
    p: "out = map (claimed_url wall) picks" "d' = claimed_db picks w now wall ?r"
      "\<And>r. r \<in> set picks \<Longrightarrow> r \<in> set (url_frontier ?r) \<and> pending_due now (f_Host r) r \<and>
         f_Host r \<in> set (lock_hosts lockedH n now ?r)"
      "distinct (map f_Host picks)" "length picks \<le> nat n" by metis
  have pend: "\<And>r. r \<in> set picks \<Longrightarrow> r \<in> set (url_frontier ?r) \<and> f_State r = StatePending"
    using p(3) by (auto simp: pending_due_def)
  have hosts: "map u_Host out = map f_Host picks" by (simp add: p(1) claimed_url_def)
  have "\<exists>h \<in> set (host_state ?r). h_Host h = u_Host u \<and> due now (h_NextEligibleAt h) \<and>
      h_ConcurrencyNow h < h_ConcurrencyMax h \<and> advance_host now h \<in> set (host_state d') \<and>
      (accounting d \<longrightarrow> in_flight d' (u_Host u) \<le> h_ConcurrencyMax h)" if "u \<in> set out" for u
  proof -
    from that hosts have u: "u_Host u \<in> f_Host ` set picks" by (metis image_eqI list.set_map)
    with p(3) have "u_Host u \<in> set (lock_hosts lockedH n now ?r)" by auto
    then obtain h where h: "h \<in> set (host_state ?r)" "h_Host h = u_Host u" "host_eligible now ?r h"
      by (rule lock_hostsD)
    note c = claimed_host[OF r pend p(4) h(1,2) u, where now = now and w = w and wall = wall]
    from h(3) have "due now (h_NextEligibleAt h)" "h_ConcurrencyNow h < h_ConcurrencyMax h"
      by (auto simp: host_eligible_def)
    moreover have "h_ConcurrencyNow h = in_flight ?r (u_Host u)" if "accounting d"
      using acc[OF that] h(1,2) by (simp add: accounting_def)
    ultimately show ?thesis using c h(1,2) p(2) by auto
  qed
  moreover have "distinct (map u_Host out)" unfolding hosts by (rule p(4))
  moreover have "int (length out) \<le> max n 0" using p(1,5) by simp
  ultimately show ?thesis by blast
qed simp

lemma claimed_waits:
  assumes "frontier_inv d" and "h \<in> set (host_state d)" "h_Host h = host" and "host \<in> f_Host ` set picks"
  shows "waits host (now + h_WindowMinutes h * Minute) (claimed_db picks w now wall d)"
proof -
  have dh: "distinct (map h_Host (host_state d))" using assms(1) by (simp add: frontier_inv_def front_keys_def)
  have hs: "host_state (claimed_db picks w now wall d) =
      update_where (\<lambda>h. h_Host h \<in> f_Host ` set picks) (advance_host now) (host_state d)"
    by (simp add: claimed_db_def)
  have k: "h_Host (advance_host now x) = h_Host x" for x by (simp add: advance_host_def)
  have "\<exists>t. h_NextEligibleAt x = Some t \<and> now + h_WindowMinutes h * Minute \<le> t"
    if "x \<in> set (host_state (claimed_db picks w now wall d))" "h_Host x = host" for x
    using that(1) unfolding hs
  proof (cases rule: update_where_memE)
    case (1 y)
    then have "y = h" using that(2) k assms(2,3) by (intro distinct_key_eq[OF dh]) simp_all
    with 1(3) show ?thesis by (simp add: advance_host_def)
  next
    case 2
    then show ?thesis using that(2) assms(4) by simp
  qed
  moreover have "host \<in> h_Host ` set (host_state (claimed_db picks w now wall d))"
    unfolding hs image_update_where[where g = h_Host and f = "advance_host now", OF k] using assms(2,3) by blast
  ultimately show ?thesis unfolding waits_def by blast
qed

lemma reclaim_window:
  assumes "h \<in> set (host_state d)"
  obtains h' where "h' \<in> set (host_state (reclaimStale now d))" "h_Host h' = h_Host h"
    "h_WindowMinutes h' = h_WindowMinutes h"
proof -
  let ?k = "\<lambda>h. (h_Host h, h_WindowMinutes h)"
  have "map ?k (host_state (reclaimStale now d)) = map ?k (host_state d)"
    by (simp add: reclaimStale_def map_update_where)
  then have "?k ` set (host_state (reclaimStale now d)) = ?k ` set (host_state d)" by (metis list.set_map)
  with assms have "?k h \<in> ?k ` set (host_state (reclaimStale now d))" by blast
  then show ?thesis using that by auto
qed

text \<open>
  After a claim took a URL of a host at time \<open>now\<close>, no sequence of operations before
  the end of the host's window makes another claim return a URL of the same host.
\<close>

theorem politeness_window:
  assumes "Dequeue lockedH lockedU n w now0 now wall z0 = (Inr out, z1)" and "frontier_inv (fst z0)"
    and "u \<in> set out" and "h \<in> set (host_state (fst z0))" "h_Host h = u_Host u"
    and "(front_run (\<lambda>t. t < now + h_WindowMinutes h * Minute))\<^sup>*\<^sup>* z1 z2"
    and "Dequeue lockedH' lockedU' n' w' now0' now' wall' z2 = (Inr out', z3)" "now' < now + h_WindowMinutes h * Minute"
  shows "u_Host u \<notin> u_Host ` set out'"
proof -
  let ?T = "now + h_WindowMinutes h * Minute" and ?r = "reclaimStale now0 (fst z0)"
  have run: "Dequeue lockedH lockedU n w now0 now wall (fst z0, snd z0) = (Inr out, (fst z1, snd z1))"
    using assms(1) by simp
  have r: "frontier_inv ?r" using reclaim_inv[OF assms(2)] .
  from assms(3) have "out \<noteq> []" by auto
  from Dequeue_claims[OF run _ this] assms(2) obtain picks where
    p: "out = map (claimed_url wall) picks" "fst z1 = claimed_db picks w now wall ?r" unfolding frontier_inv_def by metis
  then have u: "u_Host u \<in> f_Host ` set picks" using assms(3) by (auto simp: claimed_url_def)
  obtain h' where h': "h' \<in> set (host_state ?r)" "h_Host h' = u_Host u" "h_WindowMinutes h' = h_WindowMinutes h"
    using reclaim_window[OF assms(4)] assms(5) by metis
  have "waits (u_Host u) ?T (fst z1)"
    using claimed_waits[OF r h'(1,2) u, of now w wall] h'(3) p(2) by simp
  moreover have "frontier_inv (fst z1)" by (rule Dequeue_inv[OF run assms(2)])
  ultimately have z2: "frontier_inv (fst z2) \<and> waits (u_Host u) ?T (fst z2)"
    by (intro polite.run_inv[OF assms(6)]) simp
  have "Dequeue lockedH' lockedU' n' w' now0' now' wall' (fst z2, snd z2) = (Inr out', (fst z3, snd z3))"
    using assms(7) by simp
  from waits_Dequeue[OF this] z2 assms(8) show ?thesis by blast
qed

section \<open>Retry delay\<close>

lemma fail_delay_small:
  "\<forall>k \<in> set [0..<63]. (let delay = wrap64 (2 ^ k * (30 * Second)) in
     if delay > Hour \<or> delay \<le> 0 then Hour else delay) = min (2 ^ k * (30 * Second)) Hour"
  by code_simp

lemma pow_cap: "63 \<le> k \<Longrightarrow> min (2 ^ k * (30 * Second)) Hour = Hour"
proof -
  assume "63 \<le> k"
  then have "(2::int) ^ 63 \<le> 2 ^ k" by (intro power_increasing) simp_all
  then show ?thesis by (simp add: Second_def Hour_def Minute_def min_def)
qed

text \<open>
  C18. With the shipped configuration the retry delay is exactly \<open>min(2^(a-1) * 30s, 1h)\<close>
  for every attempt, although the product wraps around in \<open>int64\<close> from the thirtieth
  attempt on and the conversion from \<open>float64\<close> overflows from the sixty-fourth.
\<close>

theorem fail_delay_exact:
  assumes "1 \<le> attempts" and "oor = - (2 ^ 63) \<or> oor = 2 ^ 63 - 1"
  shows "fail_delay oor (pf_BackoffBase NewPostgresFrontier) (pf_MaxBackoff NewPostgresFrontier) attempts =
    min (2 ^ nat (attempts - 1) * (30 * Second)) Hour"
proof (cases "attempts - 1 < 63")
  case True
  then have "nat (attempts - 1) \<in> set [0..<63]" using assms(1) by auto
  from fail_delay_small[rule_format, OF this] True assms(1) show ?thesis
    by (simp add: fail_delay_def pow_duration_def NewPostgresFrontier_def Let_def)
next
  case False
  then have "min (2 ^ nat (attempts - 1) * (30 * Second)) Hour = Hour" by (intro pow_cap) auto
  moreover have "wrap64 (oor * (30 * Second)) \<le> 0" using assms(2) by (auto simp: wrap64_def Second_def)
  ultimately show ?thesis using False
    by (simp add: fail_delay_def pow_duration_def NewPostgresFrontier_def Let_def)
qed

theorem fail_delay_exact_witness:
  "fail_delay (- (2 ^ 63)) (pf_BackoffBase NewPostgresFrontier) (pf_MaxBackoff NewPostgresFrontier) 4 = 240 * Second"
  using fail_delay_exact[of 4 "- (2 ^ 63)"] by (simp add: Second_def Hour_def Minute_def)

section \<open>Deduplication\<close>

lemma enqueue_tx_known:
  assumes "front_keys d" and "x \<in> set (url_frontier d)" "f_CanonicalURLHash x = f_CanonicalURLHash r" "f_Host x = f_Host r"
  shows "enqueue_tx r (d, []) = (Inr \<lparr>er_URLID = f_URLID x, er_Inserted = False\<rparr>,
    (if f_Priority x < f_Priority r then update_url (f_URLID x) (\<lambda>y. y\<lparr>f_Priority := f_Priority r\<rparr>) d else d, []))"
proof -
  have "f_Host r \<in> h_Host ` set (host_state d)" using assms unfolding front_keys_def by metis
  then have h: "insert_host (new_host (f_Host r) 1 1) d = d" by (simp add: insert_host_def new_host_def row_simps)
  have "f_CanonicalURLHash r \<in> f_CanonicalURLHash ` set (url_frontier d)" using assms(2,3) by (metis image_eqI)
  then have i: "insert_url r d = (Inr 0, d)" by (simp add: insert_url_def row_simps)
  have "distinct (map f_CanonicalURLHash (url_frontier d))" using assms(1) by (simp add: front_keys_def)
  then have f: "List.find (\<lambda>y. f_CanonicalURLHash y = f_CanonicalURLHash r) (url_frontier d) = Some x"
    using distinct_key_find[OF _ assms(2), of f_CanonicalURLHash] assms(3) by simp
  show ?thesis by (simp add: enqueue_tx_def ensureHost_def first_by_def sql_simps h i f)
qed

lemma update_where_key_max:
  assumes "distinct (map f_URLID rows)" and "x \<in> set rows" and "\<not> f_Priority x < p"
  shows "update_where (\<lambda>r. f_URLID r = f_URLID x) (\<lambda>r. r\<lparr>f_Priority := max (f_Priority x) p\<rparr>) rows = rows"
proof -
  have "(if f_URLID r = f_URLID x then r\<lparr>f_Priority := max (f_Priority x) p\<rparr> else r) = r" if "r \<in> set rows" for r
    using distinct_key_eq[OF assms(1) that assms(2)] assms(3) by (auto simp: max_def)
  then show ?thesis unfolding update_where_def by (intro map_idI) simp
qed

text \<open>
  Enqueueing a URL whose canonical form is already in the frontier inserts nothing and
  signals nothing: it reports the existing row, keeps its state, attempts and schedule, and
  only raises its priority to the larger of the two.
\<close>

theorem enqueue_dedup:
  assumes "front_keys d" and "x \<in> set (url_frontier d)"
    and "canonical = CanonicalizeURL (uc_parse uc) (uc_render uc) (u_CanonicalURL u)" "canonical \<noteq> []"
    and "f_CanonicalURLHash x = uc_sha256hex uc canonical"
    and "f_Host x = (if u_Host u = [] then HostOf (uc_parse uc) canonical else u_Host u)"
  shows "Frontier_Enqueue uc now [(xid, u)] (d, []) =
    (\<lparr>ea_results = [\<lparr>er_URLID = f_URLID x, er_Inserted = False\<rparr>], ea_firstErr = None, ea_signals = []\<rparr>,
     (update_url (f_URLID x) (\<lambda>r. r\<lparr>f_Priority := max (f_Priority x) (u_Priority u)\<rparr>) d, []))"
proof -
  let ?r = "new_url_row (uc_sha256hex uc) (if u_URLID u = [] then xid else u_URLID u) canonical (f_Host x) u now"
  have r: "f_CanonicalURLHash ?r = uc_sha256hex uc canonical" "f_Host ?r = f_Host x" "f_Priority ?r = u_Priority u"
    by (simp_all add: new_url_row_def)
  have ne: "f_Host x \<noteq> []" using assms(1,2) by (simp add: front_keys_def)
  have "update_url (f_URLID x) (\<lambda>y. y\<lparr>f_Priority := max (f_Priority x) (u_Priority u)\<rparr>) d =
      (if f_Priority x < u_Priority u then update_url (f_URLID x) (\<lambda>y. y\<lparr>f_Priority := u_Priority u\<rparr>) d else d)"
    using update_where_key_max[of "url_frontier d" x "u_Priority u"] assms(1,2)
    by (auto simp: update_url_def front_keys_def max_def)
  then have tx: "enqueue_tx ?r (d, []) = (Inr \<lparr>er_URLID = f_URLID x, er_Inserted = False\<rparr>,
      (update_url (f_URLID x) (\<lambda>r. r\<lparr>f_Priority := max (f_Priority x) (u_Priority u)\<rparr>) d, []))"
    using enqueue_tx_known[OF assms(1,2), of ?r] assms(5) unfolding r by simp
  show ?thesis
    unfolding Frontier_Enqueue_def enqueue_one_def Let_def fold.simps prod.case assms(3)[symmetric] assms(6)[symmetric]
    using assms(4) ne by (simp add: tx assms(3)[symmetric] assms(6)[symmetric] split del: if_split)
qed

section \<open>Progress\<close>

lemma sort_key_eq_Nil: "sort_key f xs = [] \<longleftrightarrow> xs = []"
  by (metis length_0_conv length_sort)

definition all_picks :: "time \<Rightarrow> string list \<Rightarrow> frontdb \<Rightarrow> frow list" where
  "all_picks now hs d = concat (map (\<lambda>h. case pick_url [] now h d of
     None \<Rightarrow> [] | Some x \<Rightarrow> if f_URLID x = [] then [] else [x]) hs)"

lemma pick_all_ok: "pick_all [] now hs (d, []) = (Inr (all_picks now hs d), (d, []))"
  by (induction hs) (auto simp: all_picks_def sql_simps split: option.splits)

lemma all_picks_mem:
  assumes "host \<in> set hs" "pick_url [] now host d = Some x" "f_URLID x \<noteq> []"
  shows "x \<in> set (all_picks now hs d)"
  using split_list[OF assms(1)] assms(2,3)
  by (elim exE) (simp only: all_picks_def map_append list.map concat_append concat.simps set_append option.case
      if_False Un_iff list.set_intros, simp)

lemma advance_all_ok: "\<exists>d'. advance_all now hs (d, []) = (Inr (), (d', []))"
  by (induction hs arbitrary: d) (auto simp: sql_simps)

lemma claim_picks_ok:
  assumes "picks \<noteq> []"
  shows "\<exists>d'. claim_picks w now wall picks (d, []) = (Inr (map (claimed_url wall) picks), (d', []))"
proof -
  let ?d1 = "d\<lparr>url_frontier := update_where (\<lambda>r. f_URLID r \<in> f_URLID ` set picks) (flip_row w wall) (url_frontier d)\<rparr>"
  obtain d2 where "advance_all now (remdups (map f_Host picks)) (?d1, []) = (Inr (), (d2, []))"
    using advance_all_ok by blast
  with assms show ?thesis by (simp add: claim_picks_def sql_simps)
qed

lemma pick_url_some:
  assumes "list_ex (pending_due now host) (url_frontier d)"
  shows "\<exists>x \<in> set (url_frontier d). pick_url [] now host d = Some x"
proof -
  let ?S = "sort_key (\<lambda>r. (- f_Priority r, f_EnqueuedAt r))
    (filter (\<lambda>r. pending_due now host r \<and> f_URLID r \<notin> set []) (url_frontier d))"
  have "?S \<noteq> []" using assms by (auto simp: list_ex_iff sort_key_eq_Nil filter_empty_conv)
  then obtain x xs where "?S = x # xs" by (cases ?S) auto
  then have p: "pick_url [] now host d = Some x" unfolding pick_url_def by simp
  with pick_urlD(1)[OF p] show ?thesis by blast
qed

text \<open>
  Progress: when the database works, nothing is locked by others and some host is
  eligible, \<open>Dequeue\<close> returns at least one URL.
\<close>

theorem dequeue_progress:
  assumes "0 < n" and "h \<in> set (host_state (reclaimStale now0 d))" "host_eligible now (reclaimStale now0 d) h"
    and "\<forall>r \<in> set (url_frontier d). f_URLID r \<noteq> []"
  shows "\<exists>out z'. Dequeue [] [] n w now0 now wall (d, []) = (Inr out, z') \<and> out \<noteq> []"
proof -
  let ?r = "reclaimStale now0 d" and ?hs = "lock_hosts [] n now (reclaimStale now0 d)"
  let ?P = "all_picks now ?hs ?r"
  have "\<forall>r \<in> set (url_frontier ?r). f_URLID r \<noteq> []"
    using assms(4) by (simp add: reclaimStale_def ball_update_where)
  have "filter (\<lambda>h. host_eligible now ?r h \<and> h_Host h \<notin> set []) (host_state ?r) \<noteq> []"
    using assms(2,3) by (auto simp: filter_empty_conv)
  then have "?hs \<noteq> []" unfolding lock_hosts_def using assms(1)
    by (simp add: sort_key_eq_Nil del: filter_empty_conv)
  then obtain host where host: "host \<in> set ?hs" by (cases ?hs) auto
  then obtain g where "host_eligible now ?r g" "h_Host g = host" by (rule lock_hostsD)
  then obtain x where x: "x \<in> set (url_frontier ?r)" "pick_url [] now host ?r = Some x"
    using pick_url_some[of now host ?r] by (auto simp: host_eligible_def)
  with host \<open>\<forall>r \<in> set (url_frontier ?r). f_URLID r \<noteq> []\<close> have "x \<in> set ?P" by (intro all_picks_mem) auto
  then have P: "?P \<noteq> []" by auto
  obtain d2 where "claim_picks w now wall ?P (?r, []) = (Inr (map (claimed_url wall) ?P), (d2, []))"
    using claim_picks_ok[OF P] by blast
  then have "dequeue_tx [] [] n w now wall (?r, []) = (Inr (map (claimed_url wall) ?P), (d2, []))"
    unfolding dequeue_tx_def claim_hosts_def using \<open>?hs \<noteq> []\<close> by (simp add: sql_simps pick_all_ok)
  with P assms(1) show ?thesis by (simp add: Dequeue_def sql_simps)
qed

section \<open>Samples\<close>

text \<open>One host that allows a single fetch, and three pending URLs of it.\<close>

definition sample_row :: "string \<Rightarrow> real \<Rightarrow> frow" where
  "sample_row i p = \<lparr>f_URLID = i, f_CanonicalURL = i, f_CanonicalURLHash = i, f_Host = ''h'', f_SourceID = [],
     f_Priority = p, f_State = StatePending, f_Attempts = 0, f_LastError = [], f_EnqueuedAt = 0, f_ClaimedAt = None,
     f_ClaimedBy = None, f_CompletedAt = None, f_NextAttemptAt = None, f_Metadata = ''{}''\<rparr>"

definition sample_frontier :: frontdb where
  "sample_frontier = \<lparr>url_frontier = [sample_row ''a'' 3, sample_row ''b'' 2, sample_row ''c'' 1],
     host_state = [new_host ''h'' 1 1]\<rparr>"

lemmas frontier_eval = Dequeue_def dequeue_tx_def claim_hosts_def claim_picks_def lock_hosts_def host_eligible_def
  due_def pending_due_def pick_url_def reclaimStale_def stale_def flip_row_def advance_host_def update_host_def
  sample_row_def sample_frontier_def new_host_def Frontier_Complete_def first_by_def update_url_def free_slot_def
  claimed_url_def sql_simps Minute_def Second_def staleLeaseSeconds_def

lemma sample_inv: "frontier_inv sample_frontier"
  by (simp add: frontier_inv_def front_keys_def accounting_def in_flight_def flying_def sample_frontier_def
      sample_row_def new_host_def)

lemma sample_dequeue:
  "Dequeue [] [] 5 ''w'' 0 0 0 (sample_frontier, []) =
    (Inr [claimed_url 0 (sample_row ''a'' 3)], (claimed_db [sample_row ''a'' 3] ''w'' 0 0 sample_frontier, []))"
  by (simp add: frontier_eval claimed_db_def)

definition late :: time where "late = 1000 * Second"

definition overbooking_run :: "frontdb dbstate \<Rightarrow> (go_error + URL list) \<times> frontdb dbstate" where
  "overbooking_run =
     sql_bind (Dequeue [] [] 1 ''w1'' 0 0 0) (\<lambda>_.
     sql_bind (Dequeue [] [] 1 ''w2'' late late late) (\<lambda>_.
     sql_bind (Frontier_Complete ''a'' late) (\<lambda>_.
     sql_bind (Dequeue [] [] 1 ''w1'' (late + 60 * Second) (late + 60 * Second) (late + 60 * Second)) (\<lambda>_.
     sql_bind (Frontier_Complete ''a'' late) (\<lambda>_.
     Dequeue [] [] 1 ''w3'' (late + 120 * Second) (late + 120 * Second) (late + 120 * Second))))))"

text \<open>
  \<open>Complete\<close> frees a slot of the host whatever the state of the row.  A worker whose
  lease was reclaimed and who completes later therefore frees the slot of somebody else:
  here a host with \<open>concurrency_max = 1\<close> ends with two URLs in flight at once.
\<close>

theorem stale_complete_overbooks:
  "map h_ConcurrencyMax (host_state (fst (snd (overbooking_run (sample_frontier, []))))) = [1] \<and>
   in_flight (fst (snd (overbooking_run (sample_frontier, [])))) ''h'' = 2"
  by (simp add: overbooking_run_def frontier_eval late_def in_flight_def flying_def)

text \<open>
  The operator's requeue of a URL that is in flight does not return the slot of its
  host: a host whose only slot was taken reports a URL in flight with none, and no later
  \<open>Dequeue\<close> ever returns one of its URLs, although three of them are pending.
\<close>

theorem requeue_leaks_slot:
  assumes "d1 = fst (snd (sql_bind (Dequeue [] [] 1 ''w1'' 0 0 0) (\<lambda>_. Admin_Requeue ''a'') (sample_frontier, [])))"
  shows "in_flight d1 ''h'' = 0 \<and> map h_ConcurrencyNow (host_state d1) = [1] \<and>
    fst (Dequeue lockedH lockedU n w now0 now wall (d1, [])) = Inr []"
proof -
  let ?h = "(new_host ''h'' 1 1)\<lparr>h_ConcurrencyNow := 1, h_LastRequestAt := Some 0, h_NextEligibleAt := Some (60 * Second)\<rparr>"
  have d1: "d1 = \<lparr>url_frontier = [(sample_row ''a'' 3)\<lparr>f_Attempts := 1, f_ClaimedAt := Some 0, f_ClaimedBy := Some ''w1''\<rparr>,
      sample_row ''b'' 2, sample_row ''c'' 1], host_state = [?h]\<rparr>"
    unfolding assms by (simp add: frontier_eval Admin_Requeue_def Admin_Get_def)
  have stale: "reclaimStale now0 d1 = d1" by (simp add: d1 reclaimStale_def stale_def sample_row_def)
  have "lock_hosts lockedH n now d1 = []" by (simp add: lock_hosts_def host_eligible_def d1 new_host_def)
  then have "fst (Dequeue lockedH lockedU n w now0 now wall (d1, [])) = Inr []"
    by (simp add: Dequeue_def sql_simps stale dequeue_tx_def claim_hosts_def)
  then show ?thesis by (simp add: d1 in_flight_def flying_def sample_row_def)
qed

theorem requeue_leaks_slot_witness:
  "fst (Dequeue [] [] 5 ''w2'' late late late (fst (snd (sql_bind (Dequeue [] [] 1 ''w1'' 0 0 0)
     (\<lambda>_. Admin_Requeue ''a'') (sample_frontier, []))), [])) = Inr []"
  using requeue_leaks_slot[OF refl, of "[]" "[]" 5 "''w2''" late late late] by (rule conjunct2[OF conjunct2])

theorem dequeue_polite_witness:
  "in_flight (claimed_db [sample_row ''a'' 3] ''w'' 0 0 sample_frontier) ''h'' \<le> 1"
proof -
  have "front_keys sample_frontier" "accounting sample_frontier" using sample_inv by (simp_all add: frontier_inv_def)
  from dequeue_polite[OF sample_dequeue this(1)] this(2)
  have "\<exists>h \<in> set (host_state (reclaimStale 0 sample_frontier)).
      in_flight (claimed_db [sample_row ''a'' 3] ''w'' 0 0 sample_frontier) ''h'' \<le> h_ConcurrencyMax h"
    by (auto simp: claimed_url_def sample_row_def)
  then show ?thesis by (simp add: reclaimStale_def sample_frontier_def stale_def sample_row_def new_host_def)
qed

theorem politeness_window_witness:
  "''h'' \<notin> u_Host ` set (projr (fst (Dequeue [] [] 5 ''w2'' 30 (30 * Second) 30
      (claimed_db [sample_row ''a'' 3] ''w'' 0 0 sample_frontier, []))))"
proof -
  let ?z = "(claimed_db [sample_row ''a'' 3] ''w'' 0 0 sample_frontier, [] :: bool list)"
  obtain out' z3 where e: "Dequeue [] [] 5 ''w2'' 30 (30 * Second) 30 ?z = (Inr out', z3)"
    by (simp add: frontier_eval claimed_db_def)
  have "u_Host (claimed_url 0 (sample_row ''a'' 3)) \<notin> u_Host ` set out'"
    by (rule politeness_window[OF sample_dequeue _ _ _ _ rtranclp.rtrancl_refl e, where h = "new_host ''h'' 1 1"])
      (use sample_inv in \<open>simp_all add: sample_frontier_def claimed_url_def sample_row_def new_host_def Minute_def Second_def\<close>)
  moreover have "u_Host (claimed_url 0 (sample_row ''a'' 3)) = ''h''" by (simp add: claimed_url_def sample_row_def)
  ultimately show ?thesis unfolding e by simp
qed

theorem dequeue_progress_witness:
  "\<exists>out z'. Dequeue [] [] 5 ''w'' 0 0 0 (sample_frontier, []) = (Inr out, z') \<and> out \<noteq> []"
  by (rule dequeue_progress[where h = "new_host ''h'' 1 1"])
    (simp_all add: reclaimStale_def sample_frontier_def stale_def sample_row_def new_host_def host_eligible_def due_def
      pending_due_def)

definition sample_codec :: url_codec where
  "sample_codec = \<lparr>uc_parse = (\<lambda>s. Some \<lparr>pu_Scheme = [], pu_Host = ''h'', pu_Hostname = ''h'', pu_Path = s,
     pu_Query = [], pu_Fragment = []\<rparr>), uc_render = pu_Path, uc_sha256hex = (\<lambda>s. s)\<rparr>"

definition sample_url :: URL where
  "sample_url = \<lparr>u_URLID = [], u_CanonicalURL = ''a'', u_Host = ''h'', u_SourceID = [], u_Priority = 9, u_State = [],
     u_Attempts = 0, u_EnqueuedAt = 0, u_ClaimedAt = None, u_NextAttemptAt = None, u_Metadata = []\<rparr>"

lemma sample_canonical: "CanonicalizeURL (uc_parse sample_codec) (uc_render sample_codec) (u_CanonicalURL sample_url) = ''a''"
  by (simp add: CanonicalizeURL_def sample_codec_def sample_url_def TrimSpace_def isSpace_def canonical_parts_def
      TrimSuffix_slash_def)

theorem enqueue_dedup_witness:
  "Frontier_Enqueue sample_codec 5 [(''x'', sample_url)] (sample_frontier, []) =
    (\<lparr>ea_results = [\<lparr>er_URLID = ''a'', er_Inserted = False\<rparr>], ea_firstErr = None, ea_signals = []\<rparr>,
     (update_url ''a'' (\<lambda>r. r\<lparr>f_Priority := 9\<rparr>) sample_frontier, []))"
proof -
  have x: "f_URLID (sample_row ''a'' 3) = ''a''" "f_Priority (sample_row ''a'' 3) = 3" "f_Host (sample_row ''a'' 3) = ''h''"
    "f_CanonicalURLHash (sample_row ''a'' 3) = ''a''" by (simp_all add: sample_row_def)
  have u: "u_Host sample_url = ''h''" "u_Priority sample_url = 9" "uc_sha256hex sample_codec ''a'' = ''a''"
    by (simp_all add: sample_url_def sample_codec_def)
  have "sample_row ''a'' 3 \<in> set (url_frontier sample_frontier)" by (simp add: sample_frontier_def)
  moreover have "front_keys sample_frontier" using sample_inv by (simp add: frontier_inv_def)
  ultimately show ?thesis
    using enqueue_dedup[OF _ _ sample_canonical[symmetric], of sample_frontier "sample_row ''a'' 3" 5 "''x''"]
    by (simp add: x u)
qed

theorem frontier_accounting_witness:
  "frontier_inv (fst (snd (Dequeue [] [] 5 ''w'' 0 0 0 (snd (Frontier_Enqueue sample_codec 5 [(''x'', sample_url)] (empty_frontier, []))))))"
proof -
  let ?z = "snd (Frontier_Enqueue sample_codec 5 [(''x'', sample_url)] (empty_frontier, []))"
  have "front_run (\<lambda>_. True) (empty_frontier, []) ?z"
    unfolding front_run_def using front_step.enqueue[OF prod.collapse[symmetric]] by blast
  moreover have "front_run (\<lambda>_. True) ?z (snd (Dequeue [] [] 5 ''w'' 0 0 0 ?z))"
    unfolding front_run_def using front_step.dequeue[OF prod.collapse[symmetric]] by blast
  ultimately show ?thesis
    by (intro frontier_accounting[of "[]"]) (rule converse_rtranclp_into_rtranclp[OF _ r_into_rtranclp])
qed

end
