(* ===== verification/Calendar_Slots.thy ===== *)
theory Calendar_Slots
  imports Sql Domain
begin

text \<open>
  The slot arithmetic of \<open>apps/calendar/service/models\<close>: clock times, civil days, the weekly
  windows of a resource, their intersection, the grid of candidate slots and the capacity
  test, and the iCalendar rendering of a booking.

  An instant is \<open>time\<close> (nanoseconds since Go's zero time, a Monday); \<open>UTC\<close> conversions are
  the identity.  A \<open>location\<close> gives the civil day of an instant and the instant of a civil
  day, hour and minute; \<open>tz\<close> is the time zone database behind \<open>time.LoadLocation\<close>.
\<close>

section \<open>Civil days\<close>

record location =
  loc_day :: "time \<Rightarrow> int"
  loc_date :: "int \<Rightarrow> int \<Rightarrow> int \<Rightarrow> time"

definition Day :: duration where "Day = 24 * Hour"

definition UTC :: location where
  "UTC = \<lparr>loc_day = (\<lambda>t. t div Day), loc_date = (\<lambda>d h m. d * Day + h * Hour + m * Minute)\<rparr>"

definition Weekday :: "int \<Rightarrow> int" where
  "Weekday day = (day + 1) mod 7"

text \<open>Year, month and day of the month of a civil day; day 0 is 0001-01-01.\<close>

definition civil :: "int \<Rightarrow> int \<times> int \<times> int" where
  "civil day =
     (let z = day + 306; era = z div 146097; doe = z mod 146097;
          yoe = (doe - doe div 1460 + doe div 36524 - doe div 146096) div 365;
          doy = doe - (365 * yoe + yoe div 4 - yoe div 100);
          mp = (5 * doy + 2) div 153;
          d = doy - (153 * mp + 2) div 5 + 1;
          m = (if mp < 10 then mp + 3 else mp - 9)
      in (yoe + era * 400 + (if m \<le> 2 then 1 else 0), m, d))"

definition digits :: "nat \<Rightarrow> int \<Rightarrow> string" where
  "digits k n = map (\<lambda>i. char_of (48 + nat (n div 10 ^ (k - 1 - i) mod 10))) [0..<k]"

text \<open>\<open>Format("2006-01-02")\<close> for the years 1 to 9999.\<close>

definition FormatDay :: "int \<Rightarrow> string" where
  "FormatDay day = (case civil day of (y, m, d) \<Rightarrow> digits 4 y @ ''-'' @ digits 2 m @ ''-'' @ digits 2 d)"

section \<open>Clock times\<close>

definition isDigit :: "char \<Rightarrow> bool" where
  "isDigit ch \<longleftrightarrow> CHR ''0'' \<le> ch \<and> ch \<le> CHR ''9''"

definition digits_value :: "string \<Rightarrow> int" where
  "digits_value s = foldl (\<lambda>acc ch. acc * 10 + (int (of_char ch) - 48)) 0 s"

text \<open>
  One \<open>%d\<close> of \<open>fmt.Sscanf\<close>: blanks, an optional sign and digits that fit an \<open>int64\<close>; the rest
  of the input is left.
\<close>

definition isBlank :: "char \<Rightarrow> bool" where
  "isBlank ch \<longleftrightarrow> ch \<in> {CHR '' '', CHR 0x09, CHR 0x0B, CHR 0x0C, CHR 0x0D}"

definition scan_int :: "string \<Rightarrow> (int \<times> string) option" where
  "scan_int s0 =
     (let s = dropWhile isBlank s0;
          (neg, s1) = (case s of [] \<Rightarrow> (False, []) | ch # rest \<Rightarrow>
             if ch = CHR ''-'' then (True, rest) else if ch = CHR ''+'' then (False, rest) else (False, s));
          ds = takeWhile isDigit s1;
          v = (if neg then - digits_value ds else digits_value ds)
      in if ds = [] \<or> v < - (2 ^ 63) \<or> v \<ge> 2 ^ 63 then None else Some (v, dropWhile isDigit s1))"

definition ParseClock :: "string \<Rightarrow> go_error + int \<times> int" where
  "ParseClock s =
     (let bad = Inl (ErrWrap (''calendar: clock '' @ s) (ErrNew ''scan'')) in
      case scan_int s of
        None \<Rightarrow> bad
      | Some (h, rest) \<Rightarrow>
          (case rest of [] \<Rightarrow> bad
           | ch # rest' \<Rightarrow> if ch \<noteq> CHR '':'' then bad else
               (case scan_int rest' of
                  None \<Rightarrow> bad
                | Some (m, _) \<Rightarrow>
                    if h < 0 \<or> h > 23 \<or> m < 0 \<or> m > 59
                    then Inl (ErrNew (''calendar: clock '' @ s @ '' out of range'')) else Inr (h, m))))"

section \<open>Demands and windows\<close>

definition ErrNotFound :: go_error where "ErrNotFound = ErrNew ''calendar: not found''"
definition ErrInvalid :: go_error where "ErrInvalid = ErrNew ''calendar: invalid''"
definition ErrConflict :: go_error where "ErrConflict = ErrNew ''calendar: conflict''"
definition ErrForbidden :: go_error where "ErrForbidden = ErrNew ''calendar: forbidden''"

record WeekRule =
  wr_Weekday :: int
  wr_Start :: string
  wr_End :: string

record ExceptionDay =
  ed_Date :: string
  ed_Blocked :: bool

record BusyInterval =
  bi_ResourceID :: string
  bi_Start :: time
  bi_End :: time
  bi_Source :: string
  bi_Note :: string

record Slot =
  sl_Start :: time
  sl_End :: time

record ResourceDemand =
  rd_ResourceID :: string
  rd_Capacity :: int
  rd_Quantity :: int
  rd_Rules :: "WeekRule list"
  rd_Exceptions :: "ExceptionDay list"
  rd_Timezone :: string

type_synonym window = "time \<times> time"

definition SlotOverlaps :: "time \<Rightarrow> time \<Rightarrow> time \<Rightarrow> time \<Rightarrow> bool" where
  "SlotOverlaps aStart aEnd bStart bEnd \<longleftrightarrow> aStart < bEnd \<and> bStart < aEnd"

definition dayBlocked :: "ExceptionDay list \<Rightarrow> string \<Rightarrow> bool" where
  "dayBlocked ex dayStr \<longleftrightarrow> list_ex (\<lambda>e. ed_Date e = dayStr \<and> ed_Blocked e) ex"

definition intersectWindows :: "window list \<Rightarrow> window list \<Rightarrow> window list" where
  "intersectWindows a b =
     concat (map (\<lambda>x. concat (map (\<lambda>y.
       let start = (if fst y > fst x then fst y else fst x);
           end' = (if snd y < snd x then snd y else snd x)
       in if end' > start then [(start, end')] else []) b)) a)"

definition at_least_one :: "int \<Rightarrow> int" where
  "at_least_one q = (if q \<le> 0 then 1 else q)"

definition used_units :: "BusyInterval list \<Rightarrow> time \<Rightarrow> time \<Rightarrow> int" where
  "used_units busy start end' = int (length (filter (\<lambda>b. SlotOverlaps start end' (bi_Start b) (bi_End b)) busy))"

definition allHaveCapacity ::
  "ResourceDemand list \<Rightarrow> (string \<Rightarrow> BusyInterval list) \<Rightarrow> time \<Rightarrow> time \<Rightarrow> bool"
where
  "allHaveCapacity demands busy start end' \<longleftrightarrow>
     list_all (\<lambda>d. used_units (busy (rd_ResourceID d)) start end' + at_least_one (rd_Quantity d)
       \<le> at_least_one (rd_Capacity d)) demands"

definition HasCapacity ::
  "ResourceDemand list \<Rightarrow> (string \<Rightarrow> BusyInterval list) \<Rightarrow> time \<Rightarrow> time \<Rightarrow> bool"
where
  "HasCapacity demands busy start end' = allHaveCapacity demands busy start end'"

section \<open>Slots\<close>

definition demand_error :: "ResourceDemand \<Rightarrow> go_error option" where
  "demand_error d =
     (if at_least_one (rd_Quantity d) > at_least_one (rd_Capacity d)
      then Some (ErrWith ErrInvalid (''quantity exceeds capacity for '' @ rd_ResourceID d))
      else if rd_Rules d = [] then Some (ErrWith ErrInvalid (''empty availability for resource '' @ rd_ResourceID d))
      else None)"

fun first_demand_error :: "ResourceDemand list \<Rightarrow> go_error option" where
  "first_demand_error [] = None"
| "first_demand_error (d # ds) = (case demand_error d of Some e \<Rightarrow> Some e | None \<Rightarrow> first_demand_error ds)"

definition zone :: "(string \<Rightarrow> location option) \<Rightarrow> location \<Rightarrow> string \<Rightarrow> location" where
  "zone tz dflt name = (if name = [] then dflt else case tz name of None \<Rightarrow> dflt | Some l \<Rightarrow> l)"

fun rule_windows :: "location \<Rightarrow> int \<Rightarrow> WeekRule list \<Rightarrow> go_error + window list" where
  "rule_windows loc day [] = Inr []"
| "rule_windows loc day (r # rs) =
     (if wr_Weekday r \<noteq> Weekday day then rule_windows loc day rs
      else case ParseClock (wr_Start r) of
        Inl e \<Rightarrow> Inl e
      | Inr (sh, sm) \<Rightarrow>
          (case ParseClock (wr_End r) of
             Inl e \<Rightarrow> Inl e
           | Inr (eh, em) \<Rightarrow>
               (case rule_windows loc day rs of
                  Inl e \<Rightarrow> Inl e
                | Inr ws \<Rightarrow>
                    let start = loc_date loc day sh sm; end' = loc_date loc day eh em
                    in Inr (if end' > start then (start, end') # ws else ws))))"

text \<open>
  The free windows of one day common to all demands; \<open>None\<close> when a demand is blocked on
  that day.  \<open>acc\<close> is \<open>None\<close> before the first demand.
\<close>

fun day_free ::
  "(string \<Rightarrow> location option) \<Rightarrow> location \<Rightarrow> int \<Rightarrow> ResourceDemand list \<Rightarrow> window list option \<Rightarrow>
    go_error + window list option"
where
  "day_free tz loc day [] acc = Inr (Some (case acc of None \<Rightarrow> [] | Some ws \<Rightarrow> ws))"
| "day_free tz loc day (d # ds) acc =
     (if dayBlocked (rd_Exceptions d) (FormatDay day) then Inr None
      else case rule_windows (zone tz loc (rd_Timezone d)) day (rd_Rules d) of
        Inl e \<Rightarrow> Inl e
      | Inr ws \<Rightarrow> day_free tz loc day ds (Some (case acc of None \<Rightarrow> ws | Some free \<Rightarrow> intersectWindows free ws)))"

text \<open>The instants \<open>t\<close>, a quarter of an hour apart, at which a slot still ends inside the window.\<close>

function grid :: "time \<Rightarrow> duration \<Rightarrow> time \<Rightarrow> time list" where
  "grid end' dur t = (if t + dur \<le> end' then t # grid end' dur (t + 15 * Minute) else [])"
  by auto
termination
  by (relation "measure (\<lambda>(end', dur, t). nat (end' - dur - t + 1))") (auto simp: Minute_def Second_def)

declare grid.simps [simp del]

definition window_slots ::
  "ResourceDemand list \<Rightarrow> (string \<Rightarrow> BusyInterval list) \<Rightarrow> time \<Rightarrow> time \<Rightarrow> duration \<Rightarrow> window \<Rightarrow> Slot list"
where
  "window_slots demands busy windowStart windowEnd dur w =
     map (\<lambda>t. \<lparr>sl_Start = t, sl_End = t + dur\<rparr>)
       (filter (\<lambda>t. t < windowEnd \<and> t + dur > windowStart \<and> t \<ge> windowStart \<and>
          allHaveCapacity demands busy t (t + dur)) (grid (snd w) dur (fst w)))"

fun day_slots ::
  "(string \<Rightarrow> location option) \<Rightarrow> location \<Rightarrow> ResourceDemand list \<Rightarrow> (string \<Rightarrow> BusyInterval list) \<Rightarrow>
    time \<Rightarrow> time \<Rightarrow> duration \<Rightarrow> int list \<Rightarrow> go_error + Slot list"
where
  "day_slots tz loc demands busy windowStart windowEnd dur [] = Inr []"
| "day_slots tz loc demands busy windowStart windowEnd dur (day # days) =
     (case day_free tz loc day demands None of
        Inl e \<Rightarrow> Inl e
      | Inr free \<Rightarrow>
          (case day_slots tz loc demands busy windowStart windowEnd dur days of
             Inl e \<Rightarrow> Inl e
           | Inr rest \<Rightarrow> Inr (concat (map (window_slots demands busy windowStart windowEnd dur)
               (case free of None \<Rightarrow> [] | Some ws \<Rightarrow> ws)) @ rest)))"

text \<open>The civil days from the first of the window on while midnight is not after its end.\<close>

definition window_days :: "location \<Rightarrow> time \<Rightarrow> time \<Rightarrow> int list" where
  "window_days loc windowStart windowEnd =
     takeWhile (\<lambda>day. loc_date loc day 0 0 \<le> windowEnd) [loc_day loc windowStart..loc_day loc windowEnd]"

definition ComputeSlots ::
  "(string \<Rightarrow> location option) \<Rightarrow> ResourceDemand list \<Rightarrow> (string \<Rightarrow> BusyInterval list) \<Rightarrow> time \<Rightarrow> time \<Rightarrow> int \<Rightarrow>
    go_error + Slot list"
where
  "ComputeSlots tz demands busy windowStart windowEnd durationMin =
     (if durationMin \<le> 0 then Inl (ErrWith ErrInvalid ''duration must be positive'')
      else case demands of
        [] \<Rightarrow> Inl (ErrWith ErrInvalid ''no resources'')
      | d # _ \<Rightarrow>
          (case first_demand_error demands of
             Some e \<Rightarrow> Inl e
           | None \<Rightarrow>
               let loc = zone tz UTC (rd_Timezone d)
               in day_slots tz loc demands busy windowStart windowEnd (wrap64 (durationMin * Minute))
                    (window_days loc windowStart windowEnd)))"

end
