(* ===== verification/Calendar.thy ===== *)
theory Calendar
  imports Calendar_Slots
begin

text \<open>
  The booking plane of \<open>apps/calendar/service\<close>: tables and repositories, the business service
  and its external sync.

  \<open>caldb\<close> holds the seven tables.  Every row embeds \<open>BaseModel\<close>; what the framework writes there
  when a row is created (identifier, tenant, partition, creation time) is an argument of the
  operation that creates it.  \<open>claims\<close> are the verified token of the caller.  The rules of an
  availability row are kept as the list that is marshalled into its text column; the only
  caller passes non-nil slices.  Each reading of \<open>time.Now\<close> is an argument.  External calendar
  providers are records of functions.  The repositories of \<open>Deps\<close> are all wired.
\<close>

section \<open>Tables\<close>

record BaseModel =
  bm_ID :: string
  bm_TenantID :: string
  bm_PartitionID :: string
  bm_CreatedAt :: time

record Resource =
  cr_Base :: BaseModel
  cr_Type :: string
  cr_SubjectKind :: string
  cr_SubjectID :: string
  cr_DisplayName :: string
  cr_Timezone :: string
  cr_Capacity :: int
  cr_Status :: string
  cr_MetadataJSON :: string

definition ResourceActive :: string where "ResourceActive = ''active''"

record Availability =
  ca_Base :: BaseModel
  ca_ResourceID :: string
  ca_Timezone :: string
  ca_Rules :: "WeekRule list"
  ca_Exceptions :: "ExceptionDay list"

record BusyBlock =
  bb_Base :: BaseModel
  bb_ResourceID :: string
  bb_StartAt :: time
  bb_EndAt :: time
  bb_Source :: string
  bb_Note :: string
  bb_ExternalKey :: string

record Booking =
  bk_Base :: BaseModel
  bk_Status :: string
  bk_StartAt :: time
  bk_EndAt :: time
  bk_Source :: string
  bk_SourceRef :: string
  bk_OrganizerProfileID :: string
  bk_Title :: string
  bk_Description :: string
  bk_Location :: string
  bk_IdempotencyKey :: string
  bk_ICSUID :: string
  bk_HoldExpiresAt :: "time option"
  bk_MetadataJSON :: string
  bk_CancelReason :: string

definition BookingHold :: string where "BookingHold = ''hold''"
definition BookingConfirmed :: string where "BookingConfirmed = ''confirmed''"
definition BookingCanceled :: string where "BookingCanceled = ''canceled''"

lemma booking_status_distinct [simp]:
  "BookingHold \<noteq> BookingConfirmed" "BookingHold \<noteq> BookingCanceled" "BookingConfirmed \<noteq> BookingHold"
  "BookingConfirmed \<noteq> BookingCanceled" "BookingCanceled \<noteq> BookingHold" "BookingCanceled \<noteq> BookingConfirmed"
  "BookingHold \<noteq> []" "BookingConfirmed \<noteq> []"
  by (simp_all add: BookingHold_def BookingConfirmed_def BookingCanceled_def)

record BookingLine =
  bl_Base :: BaseModel
  bl_BookingID :: string
  bl_ResourceID :: string
  bl_Quantity :: int
  bl_ExternalEventID :: string

record ExternalConnection =
  ec_Base :: BaseModel
  ec_ResourceID :: string
  ec_Provider :: string
  ec_ExternalCalendarID :: string
  ec_CredentialsJSON :: string
  ec_ImportBusy :: bool
  ec_ExportBookings :: bool
  ec_Status :: string
  ec_SyncToken :: string
  ec_LastSyncAt :: "time option"
  ec_LastError :: string

definition ConnActive :: string where "ConnActive = ''active''"
definition ConnDisabled :: string where "ConnDisabled = ''disabled''"
definition ConnError :: string where "ConnError = ''error''"

record SyncOutbox =
  so_Base :: BaseModel
  so_ConnectionID :: string
  so_BookingID :: string
  so_Action :: string
  so_Status :: string
  so_Attempts :: int
  so_LastError :: string

definition OutboxPending :: string where "OutboxPending = ''pending''"
definition OutboxSent :: string where "OutboxSent = ''sent''"
definition OutboxFailed :: string where "OutboxFailed = ''failed''"
definition ActionUpsert :: string where "ActionUpsert = ''upsert''"
definition ActionDelete :: string where "ActionDelete = ''delete''"

record caldb =
  cal_resources :: "Resource list"
  cal_availability :: "Availability list"
  cal_busy_blocks :: "BusyBlock list"
  cal_bookings :: "Booking list"
  cal_booking_lines :: "BookingLine list"
  cal_external_connections :: "ExternalConnection list"
  cal_sync_outbox :: "SyncOutbox list"

abbreviation row_id :: "('r \<Rightarrow> BaseModel) \<Rightarrow> 'r \<Rightarrow> string" where
  "row_id base r \<equiv> bm_ID (base r)"

section \<open>iCalendar text\<close>

definition backslash :: char where "backslash = CHR 0x5C"

definition ReplaceAll_char :: "char \<Rightarrow> string \<Rightarrow> string \<Rightarrow> string" where
  "ReplaceAll_char old new s = concat (map (\<lambda>ch. if ch = old then new else [ch]) s)"

definition escapeICS :: "string \<Rightarrow> string" where
  "escapeICS s =
     ReplaceAll_char CHR 0x0A [backslash, CHR ''n'']
      (ReplaceAll_char CHR '','' [backslash, CHR '','']
        (ReplaceAll_char CHR '';'' [backslash, CHR '';'']
          (ReplaceAll_char backslash [backslash, backslash] s)))"

definition formatICSTime :: "time \<Rightarrow> string" where
  "formatICSTime t =
     (case civil (t div Day) of (y, m, d) \<Rightarrow>
        let s = (t mod Day) div Second
        in digits 4 y @ digits 2 m @ digits 2 d @ ''T'' @
           digits 2 (s div 3600) @ digits 2 (s div 60 mod 60) @ digits 2 (s mod 60) @ ''Z'')"

definition crlf :: string where "crlf = [CHR 0x0D, CHR 0x0A]"

definition ics_description :: "Booking \<Rightarrow> string list \<Rightarrow> string" where
  "ics_description b resourceNames =
     bk_Description b @
     (if resourceNames \<noteq> [] then backslash # ''nResources: '' @ Join '', '' resourceNames else []) @
     (if bk_Source b \<noteq> []
      then backslash # ''nSource: '' @ bk_Source b @ (if bk_SourceRef b \<noteq> [] then '' / '' @ bk_SourceRef b else [])
      else [])"

definition BuildBookingICS :: "time \<Rightarrow> Booking \<Rightarrow> string list \<Rightarrow> string" where
  "BuildBookingICS now b resourceNames =
     (if IsZero (bk_StartAt b) \<or> IsZero (bk_EndAt b) then []
      else let uid = (if bk_ICSUID b = [] then row_id bk_Base b @ ''@stawi-calendar'' else bk_ICSUID b);
               summary = (if bk_Title b = [] then ''Booking'' else bk_Title b);
               desc = ics_description b resourceNames
           in concat (map (\<lambda>l. l @ crlf) (
                [''BEGIN:VCALENDAR'', ''VERSION:2.0'', ''PRODID:-//Stawi//Calendar//EN'',
                 ''CALSCALE:GREGORIAN'', ''METHOD:REQUEST'', ''BEGIN:VEVENT'',
                 ''UID:'' @ uid,
                 ''DTSTAMP:'' @ formatICSTime now,
                 ''DTSTART:'' @ formatICSTime (bk_StartAt b),
                 ''DTEND:'' @ formatICSTime (bk_EndAt b),
                 ''SUMMARY:'' @ escapeICS summary] @
                (if desc \<noteq> [] then [''DESCRIPTION:'' @ escapeICS desc] else []) @
                (if bk_Location b \<noteq> [] then [''LOCATION:'' @ escapeICS (bk_Location b)] else []) @
                [''STATUS:CONFIRMED'', ''END:VEVENT'', ''END:VCALENDAR''])))"

record ExternalEvent =
  ev_UID :: string
  ev_Title :: string
  ev_Description :: string
  ev_Location :: string
  ev_Start :: time
  ev_End :: time
  ev_ExternalEventID :: string

definition BookingToExternalEvent :: "Booking \<Rightarrow> BookingLine option \<Rightarrow> ExternalEvent" where
  "BookingToExternalEvent b line =
     \<lparr>ev_UID = (if bk_ICSUID b = [] then row_id bk_Base b else bk_ICSUID b),
      ev_Title = (if bk_Title b = [] then ''Booking '' @ row_id bk_Base b else bk_Title b),
      ev_Description = bk_Description b, ev_Location = bk_Location b,
      ev_Start = bk_StartAt b, ev_End = bk_EndAt b,
      ev_ExternalEventID = (case line of None \<Rightarrow> [] | Some li \<Rightarrow> bl_ExternalEventID li)\<rparr>"

section \<open>Scope\<close>

record Scope =
  sc_TenantID :: string
  sc_PartitionID :: string
  sc_ProfileID :: string

record Claims =
  cl_TenantID :: string
  cl_PartitionID :: string
  cl_ProfileID :: string
  cl_Subject :: string

definition ScopeFromContext :: "Claims option \<Rightarrow> go_error + Scope" where
  "ScopeFromContext claims =
     (case claims of
        None \<Rightarrow> Inl (ErrWith ErrForbidden ''missing claims'')
      | Some c \<Rightarrow>
          if cl_TenantID c = [] \<or> cl_PartitionID c = []
          then Inl (ErrWith ErrForbidden ''tenant_id and partition_id required'')
          else Inr \<lparr>sc_TenantID = cl_TenantID c, sc_PartitionID = cl_PartitionID c,
                    sc_ProfileID = (if cl_ProfileID c = [] then cl_Subject c else cl_ProfileID c)\<rparr>)"

definition with_scope :: "Claims option \<Rightarrow> (Scope \<Rightarrow> ('s, 'a) sql) \<Rightarrow> ('s, 'a) sql" where
  "with_scope claims k = (case ScopeFromContext claims of Inl e \<Rightarrow> sql_raise e | Inr sc \<Rightarrow> k sc)"

definition in_partition :: "Scope \<Rightarrow> BaseModel \<Rightarrow> bool" where
  "in_partition sc b \<longleftrightarrow> bm_TenantID b = sc_TenantID sc \<and> bm_PartitionID b = sc_PartitionID sc"

section \<open>Repositories\<close>

definition Resources_GetInPartition :: "Scope \<Rightarrow> string \<Rightarrow> (caldb, Resource option) sql" where
  "Resources_GetInPartition sc i = sql_wrap ''calendar: get resource''
     (sql_query (\<lambda>d. List.find (\<lambda>r. row_id cr_Base r = i \<and> in_partition sc (cr_Base r)) (cal_resources d)))"

definition Resources_GetBySubject :: "Scope \<Rightarrow> string \<Rightarrow> string \<Rightarrow> (caldb, Resource option) sql" where
  "Resources_GetBySubject sc kind subjectID = sql_wrap ''calendar: get resource by subject''
     (sql_query (\<lambda>d. List.find (\<lambda>r. in_partition sc (cr_Base r) \<and> cr_SubjectKind r = kind \<and>
        cr_SubjectID r = subjectID) (cal_resources d)))"

definition Resources_List :: "Scope \<Rightarrow> string \<Rightarrow> string \<Rightarrow> string \<Rightarrow> int \<Rightarrow> (caldb, Resource list) sql" where
  "Resources_List sc typ subjectKind subjectID limit0 =
     (let limit = (if limit0 \<le> 0 \<or> limit0 > 200 then 50 else limit0) in
      sql_wrap ''calendar: list resources'' (sql_query (\<lambda>d. take (nat limit)
        (sort_key (\<lambda>r. - bm_CreatedAt (cr_Base r)) (filter (\<lambda>r. in_partition sc (cr_Base r) \<and>
           (typ = [] \<or> cr_Type r = typ) \<and> (subjectKind = [] \<or> cr_SubjectKind r = subjectKind) \<and>
           (subjectID = [] \<or> cr_SubjectID r = subjectID)) (cal_resources d))))))"

text \<open>The unique index on the subject does not contain the tenant.\<close>

definition Resources_Create :: "Resource \<Rightarrow> (caldb, unit) sql" where
  "Resources_Create r = sql_stmt (\<lambda>d.
     if list_ex (\<lambda>x. row_id cr_Base x = row_id cr_Base r) (cal_resources d)
     then (Inl (ErrConstraint ''cal_resources_pkey''), d)
     else if list_ex (\<lambda>x. cr_SubjectKind x = cr_SubjectKind r \<and> cr_SubjectID x = cr_SubjectID r) (cal_resources d)
     then (Inl (ErrConstraint ''cal_res_subject''), d)
     else (Inr (), d\<lparr>cal_resources := cal_resources d @ [r]\<rparr>))"

definition Availability_GetByResource :: "Scope \<Rightarrow> string \<Rightarrow> (caldb, Availability option) sql" where
  "Availability_GetByResource sc resourceID = sql_wrap ''calendar: get availability''
     (sql_query (\<lambda>d. List.find (\<lambda>a. in_partition sc (ca_Base a) \<and> ca_ResourceID a = resourceID) (cal_availability d)))"

definition Availability_Create :: "Availability \<Rightarrow> (caldb, unit) sql" where
  "Availability_Create a = sql_stmt (\<lambda>d.
     if list_ex (\<lambda>x. row_id ca_Base x = row_id ca_Base a) (cal_availability d)
     then (Inl (ErrConstraint ''cal_availability_pkey''), d)
     else if list_ex (\<lambda>x. ca_ResourceID x = ca_ResourceID a) (cal_availability d)
     then (Inl (ErrConstraint ''cal_avail_res''), d)
     else (Inr (), d\<lparr>cal_availability := cal_availability d @ [a]\<rparr>))"

definition UpsertForResource :: "Scope \<Rightarrow> Availability \<Rightarrow> (caldb, Availability) sql" where
  "UpsertForResource sc a =
     sql_bind (Availability_GetByResource sc (ca_ResourceID a)) (\<lambda>existing.
     case existing of
       None \<Rightarrow> sql_bind (Availability_Create a) (\<lambda>_. sql_return a)
     | Some x \<Rightarrow>
         let f = (\<lambda>y. y\<lparr>ca_Timezone := ca_Timezone a, ca_Rules := ca_Rules a, ca_Exceptions := ca_Exceptions a\<rparr>) in
         sql_bind (sql_wrap ''calendar: update availability'' (sql_exec (\<lambda>d. d\<lparr>cal_availability :=
           update_where (\<lambda>y. row_id ca_Base y = row_id ca_Base x) f (cal_availability d)\<rparr>))) (\<lambda>_.
         sql_return (f x)))"

definition Busy_ListInRange :: "Scope \<Rightarrow> string list \<Rightarrow> time \<Rightarrow> time \<Rightarrow> (caldb, BusyBlock list) sql" where
  "Busy_ListInRange sc resourceIDs from to =
     (if resourceIDs = [] then sql_return []
      else sql_wrap ''calendar: list busy'' (sql_query (\<lambda>d. filter (\<lambda>b. in_partition sc (bb_Base b) \<and>
        bb_ResourceID b \<in> set resourceIDs \<and> bb_StartAt b < to \<and> bb_EndAt b > from) (cal_busy_blocks d))))"

definition Busy_Create :: "BusyBlock \<Rightarrow> (caldb, unit) sql" where
  "Busy_Create b = sql_stmt (\<lambda>d.
     if list_ex (\<lambda>x. row_id bb_Base x = row_id bb_Base b) (cal_busy_blocks d)
     then (Inl (ErrConstraint ''cal_busy_blocks_pkey''), d)
     else (Inr (), d\<lparr>cal_busy_blocks := cal_busy_blocks d @ [b]\<rparr>))"

definition UpsertExternal :: "BusyBlock \<Rightarrow> (caldb, unit) sql" where
  "UpsertExternal b =
     (if bb_ExternalKey b = [] then Busy_Create b
      else sql_bind (sql_wrap ''calendar: busy lookup'' (sql_query (\<lambda>d. List.find (\<lambda>x.
             bm_TenantID (bb_Base x) = bm_TenantID (bb_Base b) \<and> bm_PartitionID (bb_Base x) = bm_PartitionID (bb_Base b) \<and>
             bb_ExternalKey x = bb_ExternalKey b) (cal_busy_blocks d)))) (\<lambda>existing.
           case existing of
             None \<Rightarrow> Busy_Create b
           | Some e \<Rightarrow> sql_exec (\<lambda>d. d\<lparr>cal_busy_blocks := update_where (\<lambda>x. row_id bb_Base x = row_id bb_Base e)
               (\<lambda>x. x\<lparr>bb_StartAt := bb_StartAt b, bb_EndAt := bb_EndAt b, bb_Source := bb_Source b,
                      bb_Note := bb_Note b, bb_ResourceID := bb_ResourceID b\<rparr>) (cal_busy_blocks d)\<rparr>)))"

text \<open>\<open>source LIKE 'prefix%'\<close>, for a prefix without wildcards.\<close>

definition DeleteBySourcePrefix :: "Scope \<Rightarrow> string \<Rightarrow> string \<Rightarrow> (caldb, unit) sql" where
  "DeleteBySourcePrefix sc resourceID sourcePrefix =
     sql_exec (\<lambda>d. d\<lparr>cal_busy_blocks := filter (\<lambda>b. \<not> (in_partition sc (bb_Base b) \<and> bb_ResourceID b = resourceID \<and>
        take (length sourcePrefix) (bb_Source b) = sourcePrefix)) (cal_busy_blocks d)\<rparr>)"

definition Bookings_GetInPartition :: "Scope \<Rightarrow> string \<Rightarrow> (caldb, Booking option) sql" where
  "Bookings_GetInPartition sc i = sql_wrap ''calendar: get booking''
     (sql_query (\<lambda>d. List.find (\<lambda>b. row_id bk_Base b = i \<and> in_partition sc (bk_Base b)) (cal_bookings d)))"

definition Bookings_GetByIdempotency :: "Scope \<Rightarrow> string \<Rightarrow> (caldb, Booking option) sql" where
  "Bookings_GetByIdempotency sc key =
     (if key = [] then sql_return None
      else sql_wrap ''calendar: get by idempotency'' (sql_query (\<lambda>d.
        List.find (\<lambda>b. in_partition sc (bk_Base b) \<and> bk_IdempotencyKey b = key) (cal_bookings d))))"

definition Bookings_Create :: "Booking \<Rightarrow> (caldb, unit) sql" where
  "Bookings_Create b = sql_stmt (\<lambda>d.
     if list_ex (\<lambda>x. row_id bk_Base x = row_id bk_Base b) (cal_bookings d)
     then (Inl (ErrConstraint ''cal_bookings_pkey''), d)
     else (Inr (), d\<lparr>cal_bookings := cal_bookings d @ [b]\<rparr>))"

definition hold_expired :: "time \<Rightarrow> Booking \<Rightarrow> bool" where
  "hold_expired now b \<longleftrightarrow> bk_Status b = BookingHold \<and> (case bk_HoldExpiresAt b of None \<Rightarrow> False | Some t \<Rightarrow> t < now)"

definition ListOverlapping :: "Scope \<Rightarrow> time \<Rightarrow> string list \<Rightarrow> time \<Rightarrow> time \<Rightarrow> (caldb, Booking list) sql" where
  "ListOverlapping sc now resourceIDs from to =
     (if resourceIDs = [] then sql_return []
      else sql_bind (sql_wrap ''calendar: list booking lines'' (sql_query (\<lambda>d.
             remdups (map bl_BookingID (filter (\<lambda>li. bl_ResourceID li \<in> set resourceIDs) (cal_booking_lines d)))))) (\<lambda>bookingIDs.
           if bookingIDs = [] then sql_return []
           else sql_bind (sql_wrap ''calendar: list overlapping bookings'' (sql_query (\<lambda>d.
             filter (\<lambda>b. in_partition sc (bk_Base b) \<and> row_id bk_Base b \<in> set bookingIDs \<and>
               bk_Status b \<in> {BookingHold, BookingConfirmed} \<and> bk_StartAt b < to \<and> bk_EndAt b > from) (cal_bookings d)))) (\<lambda>out.
           sql_return (filter (\<lambda>b. \<not> hold_expired now b) out))))"

definition Lines_ListByBooking :: "string \<Rightarrow> (caldb, BookingLine list) sql" where
  "Lines_ListByBooking bookingID = sql_wrap ''calendar: list lines''
     (sql_query (\<lambda>d. filter (\<lambda>li. bl_BookingID li = bookingID) (cal_booking_lines d)))"

definition Lines_ListByBookings :: "string list \<Rightarrow> (caldb, BookingLine list) sql" where
  "Lines_ListByBookings bookingIDs =
     (if bookingIDs = [] then sql_return []
      else sql_wrap ''calendar: list lines multi''
        (sql_query (\<lambda>d. filter (\<lambda>li. bl_BookingID li \<in> set bookingIDs) (cal_booking_lines d))))"

definition Lines_Create :: "BookingLine \<Rightarrow> (caldb, unit) sql" where
  "Lines_Create li = sql_stmt (\<lambda>d.
     if list_ex (\<lambda>x. row_id bl_Base x = row_id bl_Base li) (cal_booking_lines d)
     then (Inl (ErrConstraint ''cal_booking_lines_pkey''), d)
     else if list_ex (\<lambda>x. bl_BookingID x = bl_BookingID li \<and> bl_ResourceID x = bl_ResourceID li) (cal_booking_lines d)
     then (Inl (ErrConstraint ''cal_line_booking_res''), d)
     else (Inr (), d\<lparr>cal_booking_lines := cal_booking_lines d @ [li]\<rparr>))"

definition Connections_GetInPartition :: "string \<Rightarrow> string \<Rightarrow> string \<Rightarrow> (caldb, ExternalConnection option) sql" where
  "Connections_GetInPartition tenantID partitionID i = sql_wrap ''calendar: get connection''
     (sql_query (\<lambda>d. List.find (\<lambda>c. row_id ec_Base c = i \<and> bm_TenantID (ec_Base c) = tenantID \<and>
        bm_PartitionID (ec_Base c) = partitionID) (cal_external_connections d)))"

definition Connections_ListActive :: "Scope \<Rightarrow> (caldb, ExternalConnection list) sql" where
  "Connections_ListActive sc = sql_wrap ''calendar: list connections''
     (sql_query (\<lambda>d. filter (\<lambda>c. in_partition sc (ec_Base c) \<and> ec_Status c = ConnActive) (cal_external_connections d)))"

definition Connections_ListByResource :: "Scope \<Rightarrow> string \<Rightarrow> (caldb, ExternalConnection list) sql" where
  "Connections_ListByResource sc resourceID = sql_wrap ''calendar: list connections by resource''
     (sql_query (\<lambda>d. filter (\<lambda>c. in_partition sc (ec_Base c) \<and> ec_ResourceID c = resourceID) (cal_external_connections d)))"

text \<open>
  The ORM replaces zero values of a new row in columns that declare a default; both flags of a
  connection do.  \<open>orm\<close> is what it makes of the row.
\<close>

definition Connections_Create :: "(ExternalConnection \<Rightarrow> ExternalConnection) \<Rightarrow> ExternalConnection \<Rightarrow> (caldb, unit) sql" where
  "Connections_Create orm c = sql_stmt (\<lambda>d.
     if list_ex (\<lambda>x. row_id ec_Base x = row_id ec_Base c) (cal_external_connections d)
     then (Inl (ErrConstraint ''cal_external_connections_pkey''), d)
     else (Inr (), d\<lparr>cal_external_connections := cal_external_connections d @ [orm c]\<rparr>))"

definition Connections_Update :: "string \<Rightarrow> (ExternalConnection \<Rightarrow> ExternalConnection) \<Rightarrow> (caldb, unit) sql" where
  "Connections_Update i f = sql_exec (\<lambda>d. d\<lparr>cal_external_connections :=
     update_where (\<lambda>c. row_id ec_Base c = i) f (cal_external_connections d)\<rparr>)"

definition Outbox_Create :: "SyncOutbox \<Rightarrow> (caldb, unit) sql" where
  "Outbox_Create o' = sql_stmt (\<lambda>d.
     if list_ex (\<lambda>x. row_id so_Base x = row_id so_Base o') (cal_sync_outbox d)
     then (Inl (ErrConstraint ''cal_sync_outbox_pkey''), d)
     else (Inr (), d\<lparr>cal_sync_outbox := cal_sync_outbox d @ [o']\<rparr>))"

definition Outbox_ListPending :: "int \<Rightarrow> (caldb, SyncOutbox list) sql" where
  "Outbox_ListPending limit0 =
     (let limit = (if limit0 \<le> 0 \<or> limit0 > 200 then 50 else limit0) in
      sql_wrap ''calendar: list sync outbox'' (sql_query (\<lambda>d. take (nat limit)
        (sort_key (\<lambda>o'. bm_CreatedAt (so_Base o')) (filter (\<lambda>o'. so_Status o' = OutboxPending) (cal_sync_outbox d))))))"

definition Outbox_MarkSent :: "string \<Rightarrow> (caldb, unit) sql" where
  "Outbox_MarkSent i = sql_exec (\<lambda>d. d\<lparr>cal_sync_outbox := update_where (\<lambda>o'. row_id so_Base o' = i)
     (\<lambda>o'. o'\<lparr>so_Status := OutboxSent, so_Attempts := so_Attempts o' + 1\<rparr>) (cal_sync_outbox d)\<rparr>)"

definition Outbox_MarkFailed :: "string \<Rightarrow> int \<Rightarrow> string \<Rightarrow> (caldb, unit) sql" where
  "Outbox_MarkFailed i attempts errMsg = sql_exec (\<lambda>d. d\<lparr>cal_sync_outbox := update_where (\<lambda>o'. row_id so_Base o' = i)
     (\<lambda>o'. o'\<lparr>so_Status := (if attempts \<ge> 10 then OutboxFailed else OutboxPending), so_Attempts := attempts,
             so_LastError := errMsg\<rparr>) (cal_sync_outbox d)\<rparr>)"

end
