(* ===== verification/Calendar_Service.thy ===== *)
theory Calendar_Service
  imports Calendar
begin

text \<open>
  The business layer of the calendar (\<open>apps/calendar/service/business/service.go\<close>): resources,
  availability, slots, bookings and external sync, composed from the repositories.
\<close>

section \<open>Resources and availability\<close>

record EnsureResourceInput =
  er_Type :: string
  er_SubjectKind :: string
  er_SubjectID :: string
  er_DisplayName :: string
  er_Timezone :: string
  er_MetadataJSON :: string
  er_Capacity :: int

definition merge_resource :: "EnsureResourceInput \<Rightarrow> Resource \<Rightarrow> Resource" where
  "merge_resource inp r =
     r\<lparr>cr_DisplayName := (if er_DisplayName inp \<noteq> [] then er_DisplayName inp else cr_DisplayName r),
       cr_Timezone := (if er_Timezone inp \<noteq> [] then er_Timezone inp else cr_Timezone r),
       cr_Capacity := (if er_Capacity inp > 0 then er_Capacity inp else cr_Capacity r),
       cr_MetadataJSON := (if er_MetadataJSON inp \<noteq> [] then er_MetadataJSON inp else cr_MetadataJSON r)\<rparr>"

definition new_resource :: "EnsureResourceInput \<Rightarrow> BaseModel \<Rightarrow> Resource" where
  "new_resource inp base =
     \<lparr>cr_Base = base, cr_Type = er_Type inp, cr_SubjectKind = er_SubjectKind inp, cr_SubjectID = er_SubjectID inp,
      cr_DisplayName = er_DisplayName inp, cr_Timezone = (if er_Timezone inp = [] then ''UTC'' else er_Timezone inp),
      cr_Capacity = at_least_one (er_Capacity inp), cr_Status = ResourceActive,
      cr_MetadataJSON = (if er_MetadataJSON inp = [] then ''{}'' else er_MetadataJSON inp)\<rparr>"

definition EnsureResource :: "Claims option \<Rightarrow> BaseModel \<Rightarrow> EnsureResourceInput \<Rightarrow> (caldb, Resource) sql" where
  "EnsureResource claims base inp =
     with_scope claims (\<lambda>sc.
     if er_Type inp = [] \<or> er_SubjectKind inp = [] \<or> er_SubjectID inp = []
     then sql_raise (ErrWith ErrInvalid ''type, subject_kind, subject_id required'')
     else sql_bind (Resources_GetBySubject sc (er_SubjectKind inp) (er_SubjectID inp)) (\<lambda>existing.
       case existing of
         Some r \<Rightarrow>
           sql_bind (if merge_resource inp r \<noteq> r
             then sql_exec (\<lambda>d. d\<lparr>cal_resources := update_where (\<lambda>x. row_id cr_Base x = row_id cr_Base r)
                    (merge_resource inp) (cal_resources d)\<rparr>)
             else sql_return ()) (\<lambda>_. sql_return (merge_resource inp r))
       | None \<Rightarrow>
           sql_bind (sql_wrap ''calendar: create resource'' (Resources_Create (new_resource inp base))) (\<lambda>_.
           sql_return (new_resource inp base))))"

definition GetResource :: "Claims option \<Rightarrow> string \<Rightarrow> (caldb, Resource) sql" where
  "GetResource claims i =
     with_scope claims (\<lambda>sc. sql_bind (Resources_GetInPartition sc i) (\<lambda>res.
       case res of None \<Rightarrow> sql_raise ErrNotFound | Some r \<Rightarrow> sql_return r))"

definition ListResources :: "Claims option \<Rightarrow> string \<Rightarrow> string \<Rightarrow> string \<Rightarrow> int \<Rightarrow> (caldb, Resource list) sql" where
  "ListResources claims typ subjectKind subjectID limit =
     with_scope claims (\<lambda>sc. Resources_List sc typ subjectKind subjectID limit)"

record SetAvailabilityInput =
  sa_ResourceID :: string
  sa_Timezone :: string
  sa_Rules :: "WeekRule list"
  sa_Exceptions :: "ExceptionDay list"

text \<open>The tenant and partition of the new row are set by the service, the rest by the framework.\<close>

definition SetAvailability :: "Claims option \<Rightarrow> BaseModel \<Rightarrow> SetAvailabilityInput \<Rightarrow> (caldb, Availability) sql" where
  "SetAvailability claims base inp =
     with_scope claims (\<lambda>sc. sql_bind (GetResource claims (sa_ResourceID inp)) (\<lambda>_.
       UpsertForResource sc
         \<lparr>ca_Base = base\<lparr>bm_TenantID := sc_TenantID sc, bm_PartitionID := sc_PartitionID sc\<rparr>,
          ca_ResourceID = sa_ResourceID inp, ca_Timezone = (if sa_Timezone inp = [] then ''UTC'' else sa_Timezone inp),
          ca_Rules = sa_Rules inp, ca_Exceptions = sa_Exceptions inp\<rparr>))"

definition GetAvailability :: "Claims option \<Rightarrow> string \<Rightarrow> (caldb, Availability option) sql" where
  "GetAvailability claims resourceID =
     with_scope claims (\<lambda>sc. sql_bind (GetResource claims resourceID) (\<lambda>_. Availability_GetByResource sc resourceID))"

section \<open>Demands and busy intervals\<close>

text \<open>\<open>qty\<close> is the demanded quantity per resource, 0 where the map of the code has no entry.\<close>

definition demand_of :: "Scope \<Rightarrow> (string \<Rightarrow> int) \<Rightarrow> string \<Rightarrow> (caldb, ResourceDemand) sql" where
  "demand_of sc qty i =
     sql_bind (Resources_GetInPartition sc i) (\<lambda>res.
     case res of
       None \<Rightarrow> sql_raise (ErrWith ErrNotFound (''resource '' @ i))
     | Some r \<Rightarrow>
         if cr_Status r \<noteq> ResourceActive then sql_raise (ErrWith ErrNotFound (''resource '' @ i))
         else sql_bind (Availability_GetByResource sc i) (\<lambda>av.
           case av of
             None \<Rightarrow> sql_raise (ErrWith ErrInvalid (''empty availability for resource '' @ i))
           | Some a \<Rightarrow>
               if ca_Rules a = [] then sql_raise (ErrWith ErrInvalid (''empty availability for resource '' @ i))
               else sql_return \<lparr>rd_ResourceID = i, rd_Capacity = cr_Capacity r,
                      rd_Quantity = (if qty i > 0 then qty i else 1), rd_Rules = ca_Rules a,
                      rd_Exceptions = ca_Exceptions a,
                      rd_Timezone = (if ca_Timezone a = [] then cr_Timezone r else ca_Timezone a)\<rparr>))"

fun buildDemands :: "Scope \<Rightarrow> (string \<Rightarrow> int) \<Rightarrow> string list \<Rightarrow> string list \<Rightarrow> (caldb, ResourceDemand list) sql" where
  "buildDemands sc qty seen [] = sql_return []"
| "buildDemands sc qty seen (i # ids) =
     (if i \<in> set seen then buildDemands sc qty seen ids
      else sql_bind (demand_of sc qty i) (\<lambda>dm.
           sql_bind (buildDemands sc qty (i # seen) ids) (\<lambda>rest. sql_return (dm # rest))))"

definition block_interval :: "BusyBlock \<Rightarrow> BusyInterval" where
  "block_interval b = \<lparr>bi_ResourceID = bb_ResourceID b, bi_Start = bb_StartAt b, bi_End = bb_EndAt b,
     bi_Source = bb_Source b, bi_Note = bb_Note b\<rparr>"

definition line_intervals :: "Booking list \<Rightarrow> BookingLine \<Rightarrow> BusyInterval list" where
  "line_intervals bookings li =
     (case List.find (\<lambda>b. row_id bk_Base b = bl_BookingID li) bookings of
        None \<Rightarrow> []
      | Some b \<Rightarrow> replicate (nat (at_least_one (bl_Quantity li)))
          \<lparr>bi_ResourceID = bl_ResourceID li, bi_Start = bk_StartAt b, bi_End = bk_EndAt b,
           bi_Source = ''booking'', bi_Note = []\<rparr>)"

definition busyMapExcludingBooking ::
  "Scope \<Rightarrow> time \<Rightarrow> string list \<Rightarrow> time \<Rightarrow> time \<Rightarrow> string \<Rightarrow> (caldb, string \<Rightarrow> BusyInterval list) sql"
where
  "busyMapExcludingBooking sc now resourceIDs from to excludeBookingID =
     sql_bind (Busy_ListInRange sc resourceIDs from to) (\<lambda>blocks.
     sql_bind (ListOverlapping sc now resourceIDs from to) (\<lambda>bookings.
     let kept = filter (\<lambda>b. \<not> (excludeBookingID \<noteq> [] \<and> row_id bk_Base b = excludeBookingID)) bookings;
         of_blocks = (\<lambda>r. map block_interval (filter (\<lambda>b. bb_ResourceID b = r) blocks))
     in if bookings = [] then sql_return of_blocks
        else sql_bind (Lines_ListByBookings (map (row_id bk_Base) kept)) (\<lambda>lines.
          sql_return (\<lambda>r. of_blocks r @
            concat (map (line_intervals kept) (filter (\<lambda>li. bl_ResourceID li = r) lines))))))"

definition busyMap ::
  "Scope \<Rightarrow> time \<Rightarrow> string list \<Rightarrow> time \<Rightarrow> time \<Rightarrow> (caldb, string \<Rightarrow> BusyInterval list) sql"
where
  "busyMap sc now resourceIDs from to = busyMapExcludingBooking sc now resourceIDs from to []"

definition ListSlots ::
  "(string \<Rightarrow> location option) \<Rightarrow> int \<Rightarrow> Claims option \<Rightarrow> time \<Rightarrow> time \<Rightarrow> string list \<Rightarrow> int \<Rightarrow> time \<Rightarrow> time \<Rightarrow>
    (caldb, Slot list) sql"
where
  "ListSlots tz slotWindowDays claims now nowL resourceIDs durationMin0 windowStart0 windowEnd0 =
     with_scope claims (\<lambda>sc.
     if resourceIDs = [] then sql_raise (ErrWith ErrInvalid ''resource_ids required'')
     else let durationMin = (if durationMin0 \<le> 0 then 30 else durationMin0);
              windowStart = (if IsZero windowStart0 then now else windowStart0);
              windowEnd = (if IsZero windowEnd0 then now + slotWindowDays * Day else windowEnd0)
          in sql_bind (buildDemands sc (\<lambda>_. 0) [] resourceIDs) (\<lambda>demands.
             sql_bind (busyMap sc nowL resourceIDs windowStart windowEnd) (\<lambda>busy.
             case ComputeSlots tz demands busy windowStart windowEnd durationMin of
               Inl e \<Rightarrow> sql_raise e | Inr slots \<Rightarrow> sql_return slots)))"

text \<open>\<open>order\<close> is the order in which the range over the map visits the resources.\<close>

definition ListBusy ::
  "Claims option \<Rightarrow> time \<Rightarrow> string list \<Rightarrow> string list \<Rightarrow> time \<Rightarrow> time \<Rightarrow> (caldb, BusyInterval list) sql"
where
  "ListBusy claims nowL order resourceIDs from to =
     with_scope claims (\<lambda>sc.
     if IsZero from \<or> IsZero to \<or> \<not> to > from then sql_raise (ErrWith ErrInvalid ''invalid window'')
     else sql_bind (busyMap sc nowL resourceIDs from to) (\<lambda>m. sql_return (concat (map m order))))"

section \<open>Exports\<close>

definition enqueue_for :: "(string \<Rightarrow> BaseModel) \<Rightarrow> string \<Rightarrow> string \<Rightarrow> ExternalConnection \<Rightarrow> (caldb, unit) sql" where
  "enqueue_for stamp action bookingID c =
     sql_bind (sql_try (Outbox_Create
       \<lparr>so_Base = stamp (row_id ec_Base c), so_ConnectionID = row_id ec_Base c, so_BookingID = bookingID, so_Action = action,
        so_Status = OutboxPending, so_Attempts = 0, so_LastError = []\<rparr>)) (\<lambda>_. sql_return ())"

definition enqueueExports :: "(string \<Rightarrow> BaseModel) \<Rightarrow> Scope \<Rightarrow> Booking \<Rightarrow> BookingLine list \<Rightarrow> (caldb, unit) sql" where
  "enqueueExports stamp sc b lines =
     sql_bind (sql_map (\<lambda>li. sql_bind (sql_try (Connections_ListByResource sc (bl_ResourceID li))) (\<lambda>r.
       case r of
         Inl e \<Rightarrow> sql_return ()
       | Inr conns \<Rightarrow> sql_bind (sql_map (enqueue_for stamp ActionUpsert (row_id bk_Base b))
           (filter (\<lambda>c. ec_ExportBookings c \<and> ec_Status c \<noteq> ConnDisabled) conns)) (\<lambda>_. sql_return ()))) lines)
     (\<lambda>_. sql_return ())"

definition enqueueDeletes :: "(string \<Rightarrow> BaseModel) \<Rightarrow> Scope \<Rightarrow> Booking \<Rightarrow> BookingLine list \<Rightarrow> (caldb, unit) sql" where
  "enqueueDeletes stamp sc b lines =
     sql_bind (sql_map (\<lambda>li. if bl_ExternalEventID li = [] then sql_return ()
       else sql_bind (sql_try (Connections_ListByResource sc (bl_ResourceID li))) (\<lambda>r.
         case r of
           Inl e \<Rightarrow> sql_return ()
         | Inr conns \<Rightarrow> sql_bind (sql_map (enqueue_for stamp ActionDelete (row_id bk_Base b))
             (filter ec_ExportBookings conns)) (\<lambda>_. sql_return ()))) lines)
     (\<lambda>_. sql_return ())"

section \<open>Bookings\<close>

record CreateBookingInput =
  ci_Lines :: "BookingLine list"
  ci_Start :: time
  ci_End :: time
  ci_Status :: string
  ci_HoldTTLSeconds :: int
  ci_Source :: string
  ci_SourceRef :: string
  ci_OrganizerProfileID :: string
  ci_Title :: string
  ci_Description :: string
  ci_Location :: string
  ci_IdempotencyKey :: string
  ci_MetadataJSON :: string

text \<open>The clock readings and the values the framework draws during one call.\<close>

record call_env =
  ce_Now :: time
  ce_HoldNow :: time
  ce_Base :: BaseModel
  ce_LineBase :: "nat \<Rightarrow> BaseModel"
  ce_OutboxBase :: "string \<Rightarrow> BaseModel"
  ce_ICSUID :: string

definition quantity_of :: "BookingLine list \<Rightarrow> string \<Rightarrow> int" where
  "quantity_of lines r = sum_list (map bl_Quantity (filter (\<lambda>li. bl_ResourceID li = r) lines))"

definition normal_line :: "BookingLine \<Rightarrow> BookingLine" where
  "normal_line li = li\<lparr>bl_Quantity := at_least_one (bl_Quantity li)\<rparr>"

definition new_booking :: "Scope \<Rightarrow> call_env \<Rightarrow> string \<Rightarrow> CreateBookingInput \<Rightarrow> Booking" where
  "new_booking sc env status inp =
     \<lparr>bk_Base = ce_Base env, bk_Status = status, bk_StartAt = ci_Start inp, bk_EndAt = ci_End inp,
      bk_Source = ci_Source inp, bk_SourceRef = ci_SourceRef inp,
      bk_OrganizerProfileID = (if ci_OrganizerProfileID inp = [] then sc_ProfileID sc else ci_OrganizerProfileID inp),
      bk_Title = ci_Title inp, bk_Description = ci_Description inp, bk_Location = ci_Location inp,
      bk_IdempotencyKey = ci_IdempotencyKey inp, bk_ICSUID = ce_ICSUID env,
      bk_HoldExpiresAt = (if status = BookingHold
        then Some (ce_HoldNow env + (if ci_HoldTTLSeconds inp \<le> 0 then 300 else ci_HoldTTLSeconds inp) * Second) else None),
      bk_MetadataJSON = (if ci_MetadataJSON inp = [] then ''{}'' else ci_MetadataJSON inp), bk_CancelReason = []\<rparr>"

definition line_row :: "call_env \<Rightarrow> string \<Rightarrow> nat \<times> BookingLine \<Rightarrow> BookingLine" where
  "line_row env bookingID kl =
     \<lparr>bl_Base = ce_LineBase env (fst kl), bl_BookingID = bookingID, bl_ResourceID = bl_ResourceID (snd kl),
      bl_Quantity = bl_Quantity (snd kl), bl_ExternalEventID = []\<rparr>"

definition create_line :: "call_env \<Rightarrow> string \<Rightarrow> nat \<times> BookingLine \<Rightarrow> (caldb, BookingLine) sql" where
  "create_line env bookingID kl =
     sql_bind (sql_wrap ''calendar: create line'' (Lines_Create (line_row env bookingID kl))) (\<lambda>_.
     sql_return (line_row env bookingID kl))"

text \<open>The part of \<open>CreateBooking\<close> after the capacity test: insert the booking, its lines, the exports.\<close>

definition write_booking ::
  "call_env \<Rightarrow> Scope \<Rightarrow> Booking \<Rightarrow> BookingLine list \<Rightarrow> (caldb, Booking \<times> BookingLine list) sql"
where
  "write_booking env sc b lines =
     sql_bind (sql_wrap ''calendar: create booking'' (Bookings_Create b)) (\<lambda>_.
     sql_bind (sql_map (create_line env (row_id bk_Base b)) (zip [0..<length lines] lines)) (\<lambda>created.
     sql_bind (if bk_Status b = BookingConfirmed then enqueueExports (ce_OutboxBase env) sc b created else sql_return ()) (\<lambda>_.
     sql_return (b, created))))"

definition book_lines ::
  "call_env \<Rightarrow> Scope \<Rightarrow> CreateBookingInput \<Rightarrow> string \<Rightarrow> BookingLine list \<Rightarrow> (caldb, Booking \<times> BookingLine list) sql"
where
  "book_lines env sc inp status lines =
     (let resourceIDs = map bl_ResourceID lines in
      sql_bind (buildDemands sc (quantity_of lines) [] resourceIDs) (\<lambda>demands.
      sql_bind (busyMap sc (ce_Now env) resourceIDs (ci_Start inp) (ci_End inp)) (\<lambda>busy.
      if \<not> HasCapacity demands busy (ci_Start inp) (ci_End inp)
      then sql_raise (ErrWith ErrConflict ''slot not available'')
      else write_booking env sc (new_booking sc env status inp) lines)))"

definition CreateBooking ::
  "Claims option \<Rightarrow> call_env \<Rightarrow> CreateBookingInput \<Rightarrow> (caldb, Booking \<times> BookingLine list) sql"
where
  "CreateBooking claims env inp =
     with_scope claims (\<lambda>sc.
     if ci_Lines inp = [] then sql_raise (ErrWith ErrInvalid ''lines required'')
     else if \<not> ci_End inp > ci_Start inp then sql_raise (ErrWith ErrInvalid ''end must be after start'')
     else sql_bind (Bookings_GetByIdempotency sc (ci_IdempotencyKey inp)) (\<lambda>existing.
       case existing of
         Some b \<Rightarrow> sql_bind (Lines_ListByBooking (row_id bk_Base b)) (\<lambda>lines. sql_return (b, lines))
       | None \<Rightarrow>
           let status = (if ci_Status inp = [] then BookingConfirmed else ci_Status inp) in
           if status \<noteq> BookingHold \<and> status \<noteq> BookingConfirmed
           then sql_raise (ErrWith ErrInvalid ''status must be hold or confirmed'')
           else if list_ex (\<lambda>li. bl_ResourceID li = []) (ci_Lines inp)
           then sql_raise (ErrWith ErrInvalid ''resource_id required on line'')
           else book_lines env sc inp status (map normal_line (ci_Lines inp))))"

definition confirm_row :: "Booking \<Rightarrow> Booking" where
  "confirm_row b = b\<lparr>bk_Status := BookingConfirmed, bk_HoldExpiresAt := None\<rparr>"

definition Bookings_Update :: "string \<Rightarrow> (Booking \<Rightarrow> Booking) \<Rightarrow> (caldb, unit) sql" where
  "Bookings_Update i f = sql_exec (\<lambda>d. d\<lparr>cal_bookings := update_where (\<lambda>b. row_id bk_Base b = i) f (cal_bookings d)\<rparr>)"

definition confirm_hold ::
  "call_env \<Rightarrow> Scope \<Rightarrow> Booking \<Rightarrow> BookingLine list \<Rightarrow> (caldb, Booking \<times> BookingLine list) sql"
where
  "confirm_hold env sc b lines =
     (let resourceIDs = map bl_ResourceID lines in
      sql_bind (buildDemands sc (quantity_of lines) [] resourceIDs) (\<lambda>demands.
      sql_bind (busyMapExcludingBooking sc (ce_Now env) resourceIDs (bk_StartAt b) (bk_EndAt b) (row_id bk_Base b)) (\<lambda>busy.
      if \<not> HasCapacity demands busy (bk_StartAt b) (bk_EndAt b)
      then sql_raise (ErrWith ErrConflict ''slot no longer available'')
      else sql_bind (Bookings_Update (row_id bk_Base b) confirm_row) (\<lambda>_.
           sql_bind (enqueueExports (ce_OutboxBase env) sc (confirm_row b) lines) (\<lambda>_.
           sql_return (confirm_row b, lines))))))"

definition ConfirmBooking :: "Claims option \<Rightarrow> call_env \<Rightarrow> string \<Rightarrow> (caldb, Booking \<times> BookingLine list) sql" where
  "ConfirmBooking claims env i =
     with_scope claims (\<lambda>sc. sql_bind (Bookings_GetInPartition sc i) (\<lambda>found.
       case found of
         None \<Rightarrow> sql_raise ErrNotFound
       | Some b \<Rightarrow>
           if bk_Status b = BookingConfirmed
           then sql_bind (Lines_ListByBooking (row_id bk_Base b)) (\<lambda>lines. sql_return (b, lines))
           else if bk_Status b \<noteq> BookingHold then sql_raise (ErrWith ErrInvalid ''booking not holdable'')
           else if hold_expired (ce_HoldNow env) b then sql_raise (ErrWith ErrConflict ''hold expired'')
           else sql_bind (Lines_ListByBooking (row_id bk_Base b)) (confirm_hold env sc b)))"

definition cancel_row :: "string \<Rightarrow> Booking \<Rightarrow> Booking" where
  "cancel_row reason b = b\<lparr>bk_Status := BookingCanceled, bk_CancelReason := reason\<rparr>"

definition CancelBooking :: "Claims option \<Rightarrow> call_env \<Rightarrow> string \<Rightarrow> string \<Rightarrow> (caldb, Booking \<times> BookingLine list) sql" where
  "CancelBooking claims env i reason =
     with_scope claims (\<lambda>sc. sql_bind (Bookings_GetInPartition sc i) (\<lambda>found.
       case found of
         None \<Rightarrow> sql_raise ErrNotFound
       | Some b \<Rightarrow>
           if bk_Status b = BookingCanceled
           then sql_bind (Lines_ListByBooking (row_id bk_Base b)) (\<lambda>lines. sql_return (b, lines))
           else sql_bind (Bookings_Update (row_id bk_Base b) (cancel_row reason)) (\<lambda>_.
                sql_bind (Lines_ListByBooking (row_id bk_Base b)) (\<lambda>lines.
                sql_bind (enqueueDeletes (ce_OutboxBase env) sc (cancel_row reason b) lines) (\<lambda>_.
                sql_return (cancel_row reason b, lines))))))"

definition GetBooking :: "Claims option \<Rightarrow> string \<Rightarrow> (caldb, Booking \<times> BookingLine list) sql" where
  "GetBooking claims i =
     with_scope claims (\<lambda>sc. sql_bind (Bookings_GetInPartition sc i) (\<lambda>found.
       case found of
         None \<Rightarrow> sql_raise ErrNotFound
       | Some b \<Rightarrow> sql_bind (Lines_ListByBooking (row_id bk_Base b)) (\<lambda>lines. sql_return (b, lines))))"

definition resource_name :: "Claims option \<Rightarrow> BookingLine \<Rightarrow> (caldb, string list) sql" where
  "resource_name claims li =
     sql_bind (sql_try (GetResource claims (bl_ResourceID li))) (\<lambda>r.
     sql_return (case r of Inl e \<Rightarrow> []
       | Inr res \<Rightarrow> [if cr_DisplayName res = [] then cr_SubjectID res else cr_DisplayName res]))"

definition GetBookingICS :: "Claims option \<Rightarrow> time \<Rightarrow> string \<Rightarrow> (caldb, string) sql" where
  "GetBookingICS claims now i =
     sql_bind (GetBooking claims i) (\<lambda>bl.
     sql_bind (sql_map (resource_name claims) (snd bl)) (\<lambda>names.
     sql_return (BuildBookingICS now (fst bl) (concat names))))"

section \<open>External sync\<close>

record UpsertConnectionInput =
  uci_ResourceID :: string
  uci_Provider :: string
  uci_ExternalCalendarID :: string
  uci_CredentialsJSON :: string
  uci_ImportBusy :: bool
  uci_ExportBookings :: bool

definition merge_connection :: "UpsertConnectionInput \<Rightarrow> ExternalConnection \<Rightarrow> ExternalConnection" where
  "merge_connection inp c =
     c\<lparr>ec_ExternalCalendarID := uci_ExternalCalendarID inp,
       ec_CredentialsJSON := (if uci_CredentialsJSON inp \<noteq> [] then uci_CredentialsJSON inp else ec_CredentialsJSON c),
       ec_ImportBusy := uci_ImportBusy inp, ec_ExportBookings := uci_ExportBookings inp,
       ec_Status := ConnActive, ec_LastError := []\<rparr>"

definition UpsertExternalConnection ::
  "(ExternalConnection \<Rightarrow> ExternalConnection) \<Rightarrow> Claims option \<Rightarrow> BaseModel \<Rightarrow> UpsertConnectionInput \<Rightarrow> (caldb, ExternalConnection) sql"
where
  "UpsertExternalConnection orm claims base inp =
     with_scope claims (\<lambda>sc. sql_bind (GetResource claims (uci_ResourceID inp)) (\<lambda>_.
       if uci_Provider inp = [] then sql_raise (ErrWith ErrInvalid ''provider required'')
       else sql_bind (Connections_ListByResource sc (uci_ResourceID inp)) (\<lambda>existing.
         case List.find (\<lambda>c. ec_Provider c = uci_Provider inp) existing of
           Some c \<Rightarrow> sql_bind (Connections_Update (row_id ec_Base c) (merge_connection inp)) (\<lambda>_.
             sql_return (merge_connection inp c))
         | None \<Rightarrow>
             let c = \<lparr>ec_Base = base, ec_ResourceID = uci_ResourceID inp, ec_Provider = uci_Provider inp,
                      ec_ExternalCalendarID = uci_ExternalCalendarID inp, ec_CredentialsJSON = uci_CredentialsJSON inp,
                      ec_ImportBusy = uci_ImportBusy inp, ec_ExportBookings = uci_ExportBookings inp,
                      ec_Status = ConnActive, ec_SyncToken = [], ec_LastSyncAt = None, ec_LastError = []\<rparr>
             in sql_bind (Connections_Create orm c) (\<lambda>_. sql_return (orm c)))))"

record ImportedBusy =
  ib_Start :: time
  ib_End :: time
  ib_ExternalKey :: string
  ib_Note :: string

record ExternalProvider =
  pv_Ready :: bool
  pv_ImportBusy :: "ExternalConnection \<Rightarrow> time \<Rightarrow> time \<Rightarrow> go_error + ImportedBusy list \<times> string"
  pv_ExportBooking :: "ExternalConnection \<Rightarrow> ExternalEvent \<Rightarrow> go_error + string"
  pv_DeleteExport :: "ExternalConnection \<Rightarrow> string \<Rightarrow> go_error + unit"

type_synonym registry = "string \<Rightarrow> ExternalProvider option"

definition NoopProvider :: "string \<Rightarrow> ExternalProvider" where
  "NoopProvider name =
     (let e = ErrNew (''calendar: provider '' @ name @ '' not configured'')
      in \<lparr>pv_Ready = False, pv_ImportBusy = (\<lambda>_ _ _. Inl e), pv_ExportBooking = (\<lambda>_ _. Inl e), pv_DeleteExport = (\<lambda>_ _. Inl e)\<rparr>)"

definition imported_block :: "Scope \<Rightarrow> ExternalConnection \<Rightarrow> BaseModel \<Rightarrow> ImportedBusy \<Rightarrow> BusyBlock" where
  "imported_block sc c base b =
     \<lparr>bb_Base = base\<lparr>bm_TenantID := sc_TenantID sc, bm_PartitionID := sc_PartitionID sc\<rparr>,
      bb_ResourceID = ec_ResourceID c, bb_StartAt = ib_Start b, bb_EndAt = ib_End b,
      bb_Source = ''external:'' @ ec_Provider c, bb_Note = ib_Note b, bb_ExternalKey = ib_ExternalKey b\<rparr>"

text \<open>The number of imported blocks and the connection with its new sync token.\<close>

definition importBusy ::
  "registry \<Rightarrow> (nat \<Rightarrow> BaseModel) \<Rightarrow> Scope \<Rightarrow> ExternalConnection \<Rightarrow> time \<Rightarrow> time \<Rightarrow> (caldb, int \<times> ExternalConnection) sql"
where
  "importBusy providers stamp sc c from to =
     (case providers (ec_Provider c) of
        None \<Rightarrow> sql_raise (ErrNew (''calendar: unknown provider '' @ ec_Provider c))
      | Some p \<Rightarrow>
          if \<not> pv_Ready p then sql_raise (ErrNew (''calendar: provider '' @ ec_Provider c @ '' not ready''))
          else case pv_ImportBusy p c from to of
            Inl e \<Rightarrow> sql_raise e
          | Inr (blocks, token) \<Rightarrow>
              sql_bind (sql_try (DeleteBySourcePrefix sc (ec_ResourceID c) (''external:'' @ ec_Provider c))) (\<lambda>_.
              sql_bind (sql_map (\<lambda>kb. UpsertExternal (imported_block sc c (stamp (fst kb)) (snd kb)))
                (zip [0..<length blocks] blocks)) (\<lambda>rows.
              sql_return (int (length rows), if token \<noteq> [] then c\<lparr>ec_SyncToken := token\<rparr> else c))))"

definition deliverExport :: "registry \<Rightarrow> SyncOutbox \<Rightarrow> (caldb, unit) sql" where
  "deliverExport providers row =
     (let sc = \<lparr>sc_TenantID = bm_TenantID (so_Base row), sc_PartitionID = bm_PartitionID (so_Base row), sc_ProfileID = []\<rparr> in
      sql_bind (Connections_GetInPartition (sc_TenantID sc) (sc_PartitionID sc) (so_ConnectionID row)) (\<lambda>conn.
      case conn of
        None \<Rightarrow> sql_return ()
      | Some c \<Rightarrow>
          if \<not> ec_ExportBookings c then sql_return ()
          else case providers (ec_Provider c) of
            None \<Rightarrow> sql_raise (ErrNew (''calendar: provider '' @ ec_Provider c @ '' not ready for export''))
          | Some p \<Rightarrow>
              if \<not> pv_Ready p then sql_raise (ErrNew (''calendar: provider '' @ ec_Provider c @ '' not ready for export''))
              else sql_bind (Bookings_GetInPartition sc (so_BookingID row)) (\<lambda>found.
                case found of
                  None \<Rightarrow> sql_return ()
                | Some b \<Rightarrow> sql_bind (Lines_ListByBooking (row_id bk_Base b)) (\<lambda>lines.
                    let line = List.find (\<lambda>li. bl_ResourceID li = ec_ResourceID c) lines in
                    if so_Action row = ActionDelete
                    then (case line of
                            None \<Rightarrow> sql_return ()
                          | Some li \<Rightarrow> if bl_ExternalEventID li = [] then sql_return ()
                              else (case pv_DeleteExport p c (bl_ExternalEventID li) of
                                      Inl e \<Rightarrow> sql_raise e | Inr _ \<Rightarrow> sql_return ()))
                    else case pv_ExportBooking p c (BookingToExternalEvent b line) of
                           Inl e \<Rightarrow> sql_raise e
                         | Inr extID \<Rightarrow>
                             (case line of
                                None \<Rightarrow> sql_return ()
                              | Some li \<Rightarrow> if extID = [] then sql_return ()
                                  else sql_bind (sql_try (sql_exec (\<lambda>d. d\<lparr>cal_booking_lines :=
                                    update_where (\<lambda>x. row_id bl_Base x = row_id bl_Base li) (\<lambda>x. x\<lparr>bl_ExternalEventID := extID\<rparr>)
                                      (cal_booking_lines d)\<rparr>))) (\<lambda>_. sql_return ()))))))"

definition deliver_one :: "registry \<Rightarrow> SyncOutbox \<Rightarrow> (caldb, bool) sql" where
  "deliver_one providers row =
     sql_bind (sql_try (deliverExport providers row)) (\<lambda>r.
     case r of
       Inl e \<Rightarrow> sql_bind (sql_try (Outbox_MarkFailed (row_id so_Base row) (so_Attempts row + 1) (Error e))) (\<lambda>_. sql_return False)
     | Inr _ \<Rightarrow> sql_bind (sql_try (Outbox_MarkSent (row_id so_Base row))) (\<lambda>_. sql_return True))"

definition DrainExportOutbox :: "registry \<Rightarrow> int \<Rightarrow> (caldb, int \<times> int) sql" where
  "DrainExportOutbox providers limit =
     sql_bind (sql_try (Outbox_ListPending limit)) (\<lambda>r.
     case r of
       Inl e \<Rightarrow> sql_return (0, 1)
     | Inr rows \<Rightarrow> sql_bind (sql_map (deliver_one providers) rows) (\<lambda>oks.
         sql_return (int (length (filter id oks)), int (length (filter Not oks)))))"

record TriggerSyncResult =
  ts_Imported :: int
  ts_Exported :: int
  ts_Errors :: int

text \<open>One connection of \<open>TriggerSync\<close>: how many blocks were imported and how many imports failed.\<close>

definition sync_connection ::
  "registry \<Rightarrow> (string \<Rightarrow> nat \<Rightarrow> BaseModel) \<Rightarrow> Scope \<Rightarrow> bool \<Rightarrow> time \<Rightarrow> time \<Rightarrow> time \<Rightarrow> ExternalConnection \<Rightarrow>
    (caldb, int \<times> int) sql"
where
  "sync_connection providers stamp sc doImport now from to c =
     (if \<not> (doImport \<and> ec_ImportBusy c) then sql_return (0, 0)
      else sql_bind (sql_try (importBusy providers (stamp (row_id ec_Base c)) sc c from to)) (\<lambda>r.
        case r of
          Inl e \<Rightarrow> sql_bind (sql_try (Connections_Update (row_id ec_Base c)
              (\<lambda>x. x\<lparr>ec_LastError := Error e, ec_Status := ConnError\<rparr>))) (\<lambda>_. sql_return (0, 1))
        | Inr (n, c') \<Rightarrow> sql_bind (sql_try (Connections_Update (row_id ec_Base c)
              (\<lambda>x. x\<lparr>ec_LastError := [], ec_Status := ConnActive, ec_LastSyncAt := Some now, ec_SyncToken := ec_SyncToken c'\<rparr>)))
              (\<lambda>_. sql_return (n, 0))))"

definition TriggerSync ::
  "registry \<Rightarrow> (string \<Rightarrow> nat \<Rightarrow> BaseModel) \<Rightarrow> int \<Rightarrow> Claims option \<Rightarrow> time \<Rightarrow> string \<Rightarrow> bool \<Rightarrow> bool \<Rightarrow>
    (caldb, TriggerSyncResult) sql"
where
  "TriggerSync providers stamp slotWindowDays claims now connectionID doImport doExport =
     with_scope claims (\<lambda>sc.
     sql_bind (if connectionID \<noteq> []
       then sql_bind (Connections_GetInPartition (sc_TenantID sc) (sc_PartitionID sc) connectionID) (\<lambda>c.
              case c of None \<Rightarrow> sql_raise ErrNotFound | Some c \<Rightarrow> sql_return [c])
       else Connections_ListActive sc) (\<lambda>conns.
     sql_bind (sql_map (sync_connection providers stamp sc doImport now (now - Day) (now + slotWindowDays * Day)) conns) (\<lambda>imports.
     sql_bind (if doExport then DrainExportOutbox providers 100 else sql_return (0, 0)) (\<lambda>exports.
     sql_return \<lparr>ts_Imported = sum_list (map fst imports), ts_Exported = fst exports,
       ts_Errors = sum_list (map snd imports) + snd exports\<rparr>))))"

end
