(* ===== verification/Calendar_Spec.thy ===== *)
theory Calendar_Spec
  imports Calendar_Service
begin

text \<open>
  Capacity of the calendar.

  \<open>load now d r t\<close> is the number of units of resource \<open>r\<close> taken at instant \<open>t\<close> by the bookings
  that are live at \<open>now\<close> (confirmed, or held and not expired).  \<open>cal_inv\<close> says that identifiers
  are unique, lines belong to bookings of the partition of their resource, and no resource
  is ever loaded above its capacity.  Every operation keeps it when the clock does not run
  backwards and no call lowers the capacity of a resource.
\<close>

section \<open>Load\<close>

definition live :: "time \<Rightarrow> Booking \<Rightarrow> bool" where
  "live now b \<longleftrightarrow> bk_Status b \<in> {BookingHold, BookingConfirmed} \<and> \<not> hold_expired now b"

definition covers :: "time \<Rightarrow> Booking \<Rightarrow> bool" where
  "covers t b \<longleftrightarrow> bk_StartAt b \<le> t \<and> t < bk_EndAt b"

definition booking_of :: "caldb \<Rightarrow> BookingLine \<Rightarrow> Booking option" where
  "booking_of d li = List.find (\<lambda>b. row_id bk_Base b = bl_BookingID li) (cal_bookings d)"

definition line_load :: "time \<Rightarrow> time \<Rightarrow> Booking option \<Rightarrow> BookingLine \<Rightarrow> int" where
  "line_load now t ob li = (case ob of None \<Rightarrow> 0
     | Some b \<Rightarrow> if live now b \<and> covers t b then at_least_one (bl_Quantity li) else 0)"

text \<open>The load of the lines that pass \<open>keep\<close>.\<close>

definition load_of :: "(BookingLine \<Rightarrow> bool) \<Rightarrow> time \<Rightarrow> caldb \<Rightarrow> string \<Rightarrow> time \<Rightarrow> int" where
  "load_of keep now d r t =
     sum_list (map (\<lambda>li. line_load now t (booking_of d li) li)
       (filter (\<lambda>li. bl_ResourceID li = r \<and> keep li) (cal_booking_lines d)))"

definition load :: "time \<Rightarrow> caldb \<Rightarrow> string \<Rightarrow> time \<Rightarrow> int" where
  "load now d r t = load_of (\<lambda>_. True) now d r t"

definition same_partition :: "BaseModel \<Rightarrow> BaseModel \<Rightarrow> bool" where
  "same_partition a b \<longleftrightarrow> bm_TenantID a = bm_TenantID b \<and> bm_PartitionID a = bm_PartitionID b"

definition cal_keys :: "caldb \<Rightarrow> bool" where
  "cal_keys d \<longleftrightarrow> distinct (map (row_id cr_Base) (cal_resources d)) \<and> distinct (map (row_id bk_Base) (cal_bookings d)) \<and>
     (\<forall>li \<in> set (cal_booking_lines d). 1 \<le> bl_Quantity li \<and>
        (\<exists>b \<in> set (cal_bookings d). row_id bk_Base b = bl_BookingID li) \<and>
        (\<exists>r \<in> set (cal_resources d). row_id cr_Base r = bl_ResourceID li)) \<and>
     (\<forall>li \<in> set (cal_booking_lines d). \<forall>b \<in> set (cal_bookings d). \<forall>r \<in> set (cal_resources d).
        row_id bk_Base b = bl_BookingID li \<and> row_id cr_Base r = bl_ResourceID li \<longrightarrow> same_partition (bk_Base b) (cr_Base r))"

definition within_capacity :: "time \<Rightarrow> caldb \<Rightarrow> bool" where
  "within_capacity now d \<longleftrightarrow> (\<forall>r \<in> set (cal_resources d). \<forall>t. load now d (row_id cr_Base r) t \<le> at_least_one (cr_Capacity r))"

definition cal_inv :: "time \<Rightarrow> caldb \<Rightarrow> bool" where
  "cal_inv now d \<longleftrightarrow> cal_keys d \<and> within_capacity now d"

lemma at_least_one_pos [simp]: "1 \<le> at_least_one q" "0 \<le> at_least_one q"
  by (auto simp: at_least_one_def)

lemma at_least_one_id: "1 \<le> q \<Longrightarrow> at_least_one q = q"
  by (simp add: at_least_one_def)

lemma line_load_nonneg [simp]: "0 \<le> line_load now t ob li"
  by (simp add: line_load_def split: option.split)

text \<open>A hold that has expired stays expired.\<close>

lemma live_mono: "now \<le> now' \<Longrightarrow> live now' b \<Longrightarrow> live now b"
  by (auto simp: live_def hold_expired_def split: option.splits)

lemma load_mono: "now \<le> now' \<Longrightarrow> load_of keep now' d r t \<le> load_of keep now d r t"
  unfolding load_of_def
  by (intro sum_list_mono) (auto simp: line_load_def split: option.split dest: live_mono)

lemma cal_inv_mono: "now \<le> now' \<Longrightarrow> cal_inv now d \<Longrightarrow> cal_inv now' d"
  using load_mono[of now now' "\<lambda>_. True" d] unfolding cal_inv_def within_capacity_def load_def
  by (meson order_trans)

section \<open>Operations that leave the bookings alone\<close>

definition core :: "caldb \<Rightarrow> Resource list \<times> Booking list \<times> BookingLine list" where
  "core d = (cal_resources d, cal_bookings d, cal_booking_lines d)"

definition same_core :: "caldb \<Rightarrow> caldb \<Rightarrow> bool" where
  "same_core d d' \<longleftrightarrow> core d' = core d"

interpretation sc: sql_preorder same_core
  by unfold_locales (auto simp: same_core_def)

lemma load_of_core: "cal_bookings d' = cal_bookings d \<Longrightarrow> cal_booking_lines d' = cal_booking_lines d \<Longrightarrow> load_of keep now d' r t = load_of keep now d r t"
  by (simp add: load_of_def booking_of_def)

lemma same_core_inv: "same_core d d' \<Longrightarrow> cal_inv now d \<Longrightarrow> cal_inv now d'"
  by (simp add: cal_inv_def cal_keys_def within_capacity_def load_def same_core_def core_def load_of_def booking_of_def)

lemma same_core_writes:
  "preserves same_core (Outbox_Create o')" "preserves same_core (Outbox_MarkSent i)"
  "preserves same_core (Outbox_MarkFailed i n msg)" "preserves same_core (Connections_Create orm c)"
  "preserves same_core (Connections_Update i f)" "preserves same_core (Availability_Create a)"
  "preserves same_core (Busy_Create b)" "preserves same_core (DeleteBySourcePrefix s r p)"
  unfolding Outbox_Create_def Outbox_MarkSent_def Outbox_MarkFailed_def Connections_Create_def Connections_Update_def
    Availability_Create_def Busy_Create_def DeleteBySourcePrefix_def
  by (auto intro!: sc.preserves_stmt sc.preserves_exec simp: same_core_def core_def split: if_splits)

lemma same_core_reads:
  "preserves same_core (Connections_ListByResource s r)" "preserves same_core (Connections_GetInPartition a b c)"
  "preserves same_core (Connections_ListActive s)" "preserves same_core (Resources_GetInPartition s r)"
  "preserves same_core (Resources_GetBySubject s k i)" "preserves same_core (Availability_GetByResource s r)"
  "preserves same_core (Busy_ListInRange s ids f t)" "preserves same_core (Bookings_GetInPartition s i)"
  "preserves same_core (Bookings_GetByIdempotency s k)" "preserves same_core (Lines_ListByBooking i)"
  "preserves same_core (Lines_ListByBookings is)" "preserves same_core (Outbox_ListPending n)"
  unfolding Connections_ListByResource_def Connections_GetInPartition_def Connections_ListActive_def
    Resources_GetInPartition_def Resources_GetBySubject_def Availability_GetByResource_def Busy_ListInRange_def
    Bookings_GetInPartition_def Bookings_GetByIdempotency_def Lines_ListByBooking_def Lines_ListByBookings_def
    Outbox_ListPending_def Let_def
  by (intro sc.preserves_rules)+

lemma same_core_ListOverlapping: "preserves same_core (ListOverlapping s now ids f t)"
  unfolding ListOverlapping_def by (intro sc.preserves_rules)

lemmas core_rules = sc.preserves_rules same_core_writes same_core_reads same_core_ListOverlapping

lemma same_core_enqueue:
  "preserves same_core (enqueueExports stamp s b lines)" "preserves same_core (enqueueDeletes stamp s b lines)"
  unfolding enqueueExports_def enqueueDeletes_def enqueue_for_def by (intro core_rules)+

lemma same_core_demand_of: "preserves same_core (demand_of s qty i)"
  unfolding demand_of_def by (intro core_rules)

lemma same_core_buildDemands: "preserves same_core (buildDemands s qty seen ids)"
proof (induction ids arbitrary: seen)
  case (Cons i ids)
  show ?case unfolding buildDemands.simps by (intro core_rules Cons.IH same_core_demand_of)
qed (simp add: core_rules)

lemma same_core_busyMap: "preserves same_core (busyMapExcludingBooking s now ids f t x)"
  unfolding busyMapExcludingBooking_def Let_def by (intro core_rules)

lemma core_run: "preserves same_core m \<Longrightarrow> m z = (x, z') \<Longrightarrow> core (fst z') = core (fst z)"
  using preserves_run[of same_core m "fst z" "snd z" x "fst z'" "snd z'"] by (simp add: same_core_def)

section \<open>What the capacity test has seen\<close>

lemma demand_of_run:
  assumes "demand_of sc qty i z = (Inr dm, z')"
  shows "\<exists>r \<in> set (cal_resources (fst z)). row_id cr_Base r = i \<and> in_partition sc (cr_Base r) \<and>
    rd_ResourceID dm = i \<and> rd_Capacity dm = cr_Capacity r \<and> rd_Quantity dm = (if qty i > 0 then qty i else 1)"
proof -
  from assms obtain r z1 where g: "Resources_GetInPartition sc i z = (Inr (Some r), z1)"
    and dm: "rd_ResourceID dm = i" "rd_Capacity dm = cr_Capacity r" "rd_Quantity dm = (if qty i > 0 then qty i else 1)"
    unfolding demand_of_def
    by (elim sql_bind_InrE) (auto simp: sql_raise_def sql_return_def split: option.splits if_splits elim!: sql_bind_InrE)
  from g have "List.find (\<lambda>r. row_id cr_Base r = i \<and> in_partition sc (cr_Base r)) (cal_resources (fst z)) = Some r"
    by (auto simp: Resources_GetInPartition_def sql_wrap_Inr dest!: sql_query_InrD)
  with find_SomeD[OF this] dm show ?thesis by blast
qed

lemma buildDemands_run:
  assumes "buildDemands sc qty seen ids z = (Inr demands, z')" and "i \<in> set ids" "i \<notin> set seen"
  shows "\<exists>dm \<in> set demands. \<exists>r \<in> set (cal_resources (fst z)). row_id cr_Base r = i \<and> in_partition sc (cr_Base r) \<and>
    rd_ResourceID dm = i \<and> rd_Capacity dm = cr_Capacity r \<and> rd_Quantity dm = (if qty i > 0 then qty i else 1)"
  using assms
proof (induction ids arbitrary: seen z z' demands)
  case (Cons j ids)
  show ?case
  proof (cases "j \<in> set seen")
    case True
    with Cons.prems have "buildDemands sc qty seen ids z = (Inr demands, z')" "i \<in> set ids" "i \<notin> set seen" by auto
    then show ?thesis by (rule Cons.IH)
  next
    case False
    with Cons.prems(1) obtain dm z1 demands' z2 where g: "demand_of sc qty j z = (Inr dm, z1)"
      and rec: "buildDemands sc qty (j # seen) ids z1 = (Inr demands', z2)" and dm: "demands = dm # demands'"
      by (auto simp: sql_return_def elim!: sql_bind_InrE)
    have z1: "cal_resources (fst z1) = cal_resources (fst z)"
      using core_run[OF same_core_demand_of g] by (simp add: core_def)
    show ?thesis
    proof (cases "i = j")
      case True
      with demand_of_run[OF g] dm show ?thesis by auto
    next
      case False
      with Cons.prems have "i \<in> set ids" "i \<notin> set (j # seen)" by auto
      from Cons.IH[OF rec this] z1 dm show ?thesis by auto
    qed
  qed
qed simp

lemma ListOverlapping_run:
  assumes "ListOverlapping sc now ids f t z = (Inr bs, z')"
  shows "bs = filter (\<lambda>b. in_partition sc (bk_Base b) \<and>
      (\<exists>li \<in> set (cal_booking_lines (fst z)). bl_ResourceID li \<in> set ids \<and> bl_BookingID li = row_id bk_Base b) \<and>
      live now b \<and> bk_StartAt b < t \<and> bk_EndAt b > f) (cal_bookings (fst z))"
proof (cases "\<exists>li \<in> set (cal_booking_lines (fst z)). bl_ResourceID li \<in> set ids")
  case True
  let ?ids = "remdups (map bl_BookingID (filter (\<lambda>li. bl_ResourceID li \<in> set ids) (cal_booking_lines (fst z))))"
  from True have ne: "ids \<noteq> []" "?ids \<noteq> []" by (auto simp: filter_empty_conv)
  from assms ne(1) obtain z1 where z1: "fst z1 = fst z"
    and rest: "(if ?ids = [] then sql_return []
           else sql_bind (sql_wrap ''calendar: list overlapping bookings'' (sql_query (\<lambda>d.
             filter (\<lambda>b. in_partition sc (bk_Base b) \<and> row_id bk_Base b \<in> set ?ids \<and>
               bk_Status b \<in> {BookingHold, BookingConfirmed} \<and> bk_StartAt b < t \<and> bk_EndAt b > f) (cal_bookings d)))) (\<lambda>out.
           sql_return (filter (\<lambda>b. \<not> hold_expired now b) out))) z1 = (Inr bs, z')"
    unfolding ListOverlapping_def if_not_P[OF ne(1)]
    by (elim sql_bind_InrE) (auto simp only: sql_wrap_Inr dest!: sql_query_InrD)
  from rest ne(2) z1 have "bs = filter (\<lambda>b. \<not> hold_expired now b) (filter (\<lambda>b. in_partition sc (bk_Base b) \<and> row_id bk_Base b \<in> set ?ids \<and>
               bk_Status b \<in> {BookingHold, BookingConfirmed} \<and> bk_StartAt b < t \<and> bk_EndAt b > f) (cal_bookings (fst z)))"
    unfolding if_not_P[OF ne(2)] by (elim sql_bind_InrE) (auto simp: sql_wrap_Inr sql_return_def dest!: sql_query_InrD)
  also have "\<dots> = filter (\<lambda>b. in_partition sc (bk_Base b) \<and>
      (\<exists>li \<in> set (cal_booking_lines (fst z)). bl_ResourceID li \<in> set ids \<and> bl_BookingID li = row_id bk_Base b) \<and>
      live now b \<and> bk_StartAt b < t \<and> bk_EndAt b > f) (cal_bookings (fst z))"
    unfolding filter_filter by (intro filter_cong refl) (auto simp: live_def image_iff)
  finally show ?thesis .
next
  case False
  then have e: "filter (\<lambda>li. bl_ResourceID li \<in> set ids) (cal_booking_lines (fst z)) = []" by (auto simp: filter_empty_conv)
  have "bs = []"
  proof (cases "ids = []")
    case False
    with assms e show ?thesis unfolding ListOverlapping_def
      by (auto simp: sql_wrap_Inr sql_return_def dest!: sql_query_InrD elim!: sql_bind_InrE)
  qed (use assms in \<open>simp add: ListOverlapping_def sql_return_def\<close>)
  with False show ?thesis by (auto simp: filter_empty_conv)
qed

lemma count_concat:
  "int (length (filter P (concat (map g xs)))) = sum_list (map (\<lambda>x. int (length (filter P (g x)))) xs)"
  by (induction xs) auto

lemma sum_filter: "sum_list (map f (filter P xs)) = sum_list (map (\<lambda>x. if P x then f x else (0::int)) xs)"
  by (induction xs) auto

text \<open>The busy intervals found contain every live line of the resource that is not excluded.\<close>

definition seen_bookings :: "Scope \<Rightarrow> time \<Rightarrow> string list \<Rightarrow> time \<Rightarrow> time \<Rightarrow> string \<Rightarrow> caldb \<Rightarrow> Booking list" where
  "seen_bookings sc now ids f t x d = filter (\<lambda>b. \<not> (x \<noteq> [] \<and> row_id bk_Base b = x))
     (filter (\<lambda>b. in_partition sc (bk_Base b) \<and>
      (\<exists>li \<in> set (cal_booking_lines d). bl_ResourceID li \<in> set ids \<and> bl_BookingID li = row_id bk_Base b) \<and>
      live now b \<and> bk_StartAt b < t \<and> bk_EndAt b > f) (cal_bookings d))"

lemma busyMap_run:
  assumes "busyMapExcludingBooking sc now ids f t x z = (Inr busy, z')"
  shows "\<exists>blocks z1. Busy_ListInRange sc ids f t z = (Inr blocks, z1) \<and>
    busy = (\<lambda>r. map block_interval (filter (\<lambda>b. bb_ResourceID b = r) blocks) @ concat (map (line_intervals (seen_bookings sc now ids f t x (fst z)))
    (filter (\<lambda>li. bl_ResourceID li = r)
      (filter (\<lambda>li. bl_BookingID li \<in> row_id bk_Base ` set (seen_bookings sc now ids f t x (fst z))) (cal_booking_lines (fst z))))))"
proof -
  from assms obtain blocks z1 bookings z2 where
    b: "Busy_ListInRange sc ids f t z = (Inr blocks, z1)" and o: "ListOverlapping sc now ids f t z1 = (Inr bookings, z2)"
    and rest: "(let kept = filter (\<lambda>b. \<not> (x \<noteq> [] \<and> row_id bk_Base b = x)) bookings;
         of_blocks = (\<lambda>r. map block_interval (filter (\<lambda>b. bb_ResourceID b = r) blocks))
     in if bookings = [] then sql_return of_blocks
        else sql_bind (Lines_ListByBookings (map (row_id bk_Base) kept)) (\<lambda>lines.
          sql_return (\<lambda>r. of_blocks r @
            concat (map (line_intervals kept) (filter (\<lambda>li. bl_ResourceID li = r) lines))))) z2 = (Inr busy, z')"
    unfolding busyMapExcludingBooking_def by (elim sql_bind_InrE)
  have c1: "core (fst z1) = core (fst z)" by (rule core_run[OF same_core_reads(7) b])
  have c2: "core (fst z2) = core (fst z)" using core_run[OF same_core_ListOverlapping o] c1 by simp
  let ?S = "seen_bookings sc now ids f t x (fst z)"
  have kept: "filter (\<lambda>b. \<not> (x \<noteq> [] \<and> row_id bk_Base b = x)) bookings = ?S"
    using ListOverlapping_run[OF o] c1 by (simp add: seen_bookings_def core_def)
  let ?B = "\<lambda>r. map block_interval (filter (\<lambda>b. bb_ResourceID b = r) blocks)"
  show ?thesis
  proof (cases "?S = []")
    case True
    then have "busy = ?B" using rest kept
      by (auto simp: Let_def sql_return_def Lines_ListByBookings_def line_intervals_def split: if_splits elim!: sql_bind_InrE)
    with True b show ?thesis by (intro exI[of _ blocks] exI[of _ z1]) simp
  next
    case False
    then have "bookings \<noteq> []" using kept by auto
    with rest kept obtain lines z3 where l: "Lines_ListByBookings (map (row_id bk_Base) ?S) z2 = (Inr lines, z3)"
      and busy: "busy = (\<lambda>r. ?B r @ concat (map (line_intervals ?S) (filter (\<lambda>li. bl_ResourceID li = r) lines)))"
      by (auto simp: Let_def sql_return_def elim!: sql_bind_InrE)
    from l False c2 have "lines = filter (\<lambda>li. bl_BookingID li \<in> row_id bk_Base ` set ?S) (cal_booking_lines (fst z))"
      by (auto simp: Lines_ListByBookings_def sql_wrap_Inr core_def dest!: sql_query_InrD)
    with busy b show ?thesis by (intro exI[of _ blocks] exI[of _ z1]) simp
  qed
qed

lemma line_units:
  assumes "distinct (map (row_id bk_Base) bs)" and "b \<in> set bs" "row_id bk_Base b = bl_BookingID li"
    and "SlotOverlaps s e (bk_StartAt b) (bk_EndAt b)"
  shows "int (length (filter (\<lambda>v. SlotOverlaps s e (bi_Start v) (bi_End v)) (line_intervals bs li))) = at_least_one (bl_Quantity li)"
  using distinct_key_find[OF assms(1,2)] assms(3,4) by (simp add: line_intervals_def)

lemma busy_bound:
  assumes run: "busyMapExcludingBooking sc now ids s e x z = (Inr busy, z')" and k: "cal_keys (fst z)"
    and r: "res \<in> set (cal_resources (fst z))" "row_id cr_Base res \<in> set ids" "in_partition sc (cr_Base res)"
    and t: "s \<le> t" "t < e" and keep: "\<And>li. keep li \<Longrightarrow> x = [] \<or> bl_BookingID li \<noteq> x"
  shows "load_of keep now (fst z) (row_id cr_Base res) t \<le> used_units (busy (row_id cr_Base res)) s e"
proof -
  let ?d = "fst z" and ?r = "row_id cr_Base res"
  let ?S = "seen_bookings sc now ids s e x ?d"
  let ?L = "filter (\<lambda>li. bl_ResourceID li = ?r) (filter (\<lambda>li. bl_BookingID li \<in> row_id bk_Base ` set ?S) (cal_booking_lines ?d))"
  let ?P = "\<lambda>v. SlotOverlaps s e (bi_Start v) (bi_End v)"
  from busyMap_run[OF run] obtain blocks where b: "busy ?r = blocks @ concat (map (line_intervals ?S) ?L)" by fast
  have db: "distinct (map (row_id bk_Base) (cal_bookings ?d))" using k by (simp add: cal_keys_def)
  then have dS: "distinct (map (row_id bk_Base) ?S)" unfolding seen_bookings_def by (intro distinct_map_filter) simp
  have le: "(if bl_ResourceID li = ?r \<and> keep li then line_load now t (booking_of ?d li) li else 0) \<le>
      (if bl_BookingID li \<in> row_id bk_Base ` set ?S \<and> bl_ResourceID li = ?r
       then int (length (filter ?P (line_intervals ?S li))) else 0)" if li: "li \<in> set (cal_booking_lines ?d)" for li
  proof (cases "bl_ResourceID li = ?r \<and> keep li \<and> (\<exists>b. booking_of ?d li = Some b \<and> live now b \<and> covers t b)")
    case True
    then obtain b where b: "booking_of ?d li = Some b" "live now b" "covers t b" by blast
    from b(1) have bm: "b \<in> set (cal_bookings ?d)" "row_id bk_Base b = bl_BookingID li"
      unfolding booking_of_def by (auto dest: find_SomeD)
    have "same_partition (bk_Base b) (cr_Base res)" using k li bm r(1) True unfolding cal_keys_def by metis
    then have "in_partition sc (bk_Base b)" using r(3) by (simp add: same_partition_def in_partition_def)
    moreover have o: "bk_StartAt b < e" "bk_EndAt b > s" using b(3) t by (auto simp: covers_def)
    moreover have "x = [] \<or> row_id bk_Base b \<noteq> x" using keep True bm(2) by metis
    moreover have "\<exists>li \<in> set (cal_booking_lines ?d). bl_ResourceID li \<in> set ids \<and> bl_BookingID li = row_id bk_Base b"
      using li True r(2) bm(2) by metis
    ultimately have "b \<in> set ?S" using bm(1) b(2) unfolding seen_bookings_def by simp
    moreover have "SlotOverlaps s e (bk_StartAt b) (bk_EndAt b)" using o by (simp add: SlotOverlaps_def)
    moreover have "bl_BookingID li \<in> row_id bk_Base ` set ?S"
      using \<open>b \<in> set ?S\<close> bm(2) by (metis (no_types, lifting) image_eqI)
    ultimately show ?thesis using line_units[OF dS _ bm(2), of s e] True b by (simp add: line_load_def)
  next
    case False
    then have "(if bl_ResourceID li = ?r \<and> keep li then line_load now t (booking_of ?d li) li else 0) = 0"
      by (auto simp: line_load_def split: option.splits)
    then show ?thesis by simp
  qed
  have "load_of keep now ?d ?r t \<le> sum_list (map (\<lambda>li. int (length (filter ?P (line_intervals ?S li)))) ?L)"
    unfolding load_of_def filter_filter sum_filter by (intro sum_list_mono le)
  also have "\<dots> = int (length (filter ?P (concat (map (line_intervals ?S) ?L))))" by (rule count_concat[symmetric])
  also have "\<dots> \<le> used_units (busy ?r) s e" unfolding used_units_def b by simp
  finally show ?thesis .
qed

section \<open>Writing a booking\<close>

lemma Lines_Create_run:
  assumes "Lines_Create row (d, fs) = (y, (d', fs'))"
  shows "d' = d \<or> d' = d\<lparr>cal_booking_lines := cal_booking_lines d @ [row]\<rparr>"
  using assms unfolding Lines_Create_def by (cases rule: sql_stmt_cases) (simp_all split: if_splits)

lemma create_line_run:
  assumes "create_line env i kl (d, fs) = (x, (d', fs'))"
  shows "d' = d \<or> d' = d\<lparr>cal_booking_lines := cal_booking_lines d @ [line_row env i kl]\<rparr>"
proof -
  obtain y d1 fs1 where s: "Lines_Create (line_row env i kl) (d, fs) = (y, (d1, fs1))" by (rule prod_cases3)
  have "tables_after (create_line env i kl) (d, fs) = tables_after (Lines_Create (line_row env i kl)) (d, fs)"
    unfolding create_line_def by simp
  then have "d' = d1" using s assms by (simp add: tables_after_def)
  with Lines_Create_run[OF s] show ?thesis by simp
qed

text \<open>The lines loop stops at the first error; what it wrote before stays.\<close>

lemma create_lines_run:
  assumes "sql_map (create_line env i) kls (d, fs) = (x, (d', fs'))"
  shows "\<exists>ks. (\<exists>rest. mset kls = mset ks + rest) \<and> d' = d\<lparr>cal_booking_lines := cal_booking_lines d @ map (line_row env i) ks\<rparr>"
  using assms
proof (induction kls arbitrary: d fs x d' fs')
  case Nil
  then show ?case by (intro exI[of _ "[]"]) (simp add: sql_return_def)
next
  case (Cons kl kls)
  obtain y d1 fs1 where c: "create_line env i kl (d, fs) = (y, (d1, fs1))" by (metis prod.collapse)
  from create_line_run[OF c] consider "d1 = d" | "d1 = d\<lparr>cal_booking_lines := cal_booking_lines d @ [line_row env i kl]\<rparr>" by blast
  note d1 = this
  show ?case
  proof (cases y)
    case (Inl e)
    with Cons.prems c have "d' = d1" by (simp add: sql_bind_apply)
    with d1 show ?thesis
      by cases (auto intro: exI[of _ "[]"] exI[of _ "[kl]"])
  next
    case (Inr v)
    obtain w d2 fs2 where r: "sql_map (create_line env i) kls (d1, fs1) = (w, (d2, fs2))" by (metis prod.collapse)
    with Cons.prems c Inr have d': "d' = d2" by (auto simp: sql_bind_apply sql_return_def split: sum.splits)
    from Cons.IH[OF r] obtain ks rest where ks: "mset kls = mset ks + rest"
      "d2 = d1\<lparr>cal_booking_lines := cal_booking_lines d1 @ map (line_row env i) ks\<rparr>" by blast
    from d1 show ?thesis
    proof cases
      case 1
      with ks d' show ?thesis by (intro exI[of _ ks] conjI exI[of _ "add_mset kl rest"]) auto
    next
      case 2
      with ks d' show ?thesis by (intro exI[of _ "kl # ks"] conjI exI[of _ rest]) auto
    qed
  qed
qed

definition added :: "Booking \<Rightarrow> BookingLine list \<Rightarrow> caldb \<Rightarrow> caldb \<Rightarrow> bool" where
  "added b news d d' \<longleftrightarrow> core d' = (cal_resources d, cal_bookings d @ [b], cal_booking_lines d @ news)"

lemma load_added:
  assumes "cal_keys d" and a: "added b news d d'" and fresh: "row_id bk_Base b \<notin> row_id bk_Base ` set (cal_bookings d)"
    and own: "\<And>li. li \<in> set news \<Longrightarrow> bl_BookingID li = row_id bk_Base b"
  shows "load now d' r t = load now d r t +
    sum_list (map (line_load now t (Some b)) (filter (\<lambda>li. bl_ResourceID li = r) news))"
proof -
  have d': "cal_bookings d' = cal_bookings d @ [b]" "cal_booking_lines d' = cal_booking_lines d @ news"
    using a by (simp_all add: added_def core_def)
  have "booking_of d' li = booking_of d li" if "li \<in> set (cal_booking_lines d)" for li
  proof -
    have "\<exists>x \<in> set (cal_bookings d). row_id bk_Base x = bl_BookingID li"
      using assms(1) that unfolding cal_keys_def by blast
    then have "booking_of d li \<noteq> None" unfolding booking_of_def by (auto simp: find_None_iff)
    then show ?thesis by (auto simp: booking_of_def d' find_snoc)
  qed
  then have 1: "map (\<lambda>li. line_load now t (booking_of d' li) li) (filter (\<lambda>li. bl_ResourceID li = r) (cal_booking_lines d)) =
      map (\<lambda>li. line_load now t (booking_of d li) li) (filter (\<lambda>li. bl_ResourceID li = r) (cal_booking_lines d))"
    by (intro map_cong refl) simp
  have "booking_of d' li = Some b" if "li \<in> set news" for li
    using find_fresh_snoc[of "row_id bk_Base" b, OF fresh] own[OF that] by (simp add: booking_of_def d')
  then have 2: "map (\<lambda>li. line_load now t (booking_of d' li) li) (filter (\<lambda>li. bl_ResourceID li = r) news) =
      map (line_load now t (Some b)) (filter (\<lambda>li. bl_ResourceID li = r) news)"
    by (intro map_cong refl) simp
  show ?thesis unfolding load_def load_of_def d' by (simp add: 1 2)
qed

lemma added_keys:
  assumes k: "cal_keys d" and a: "added b news d d'" and fresh: "row_id bk_Base b \<notin> row_id bk_Base ` set (cal_bookings d)"
    and own: "\<And>li. li \<in> set news \<Longrightarrow> bl_BookingID li = row_id bk_Base b \<and> 1 \<le> bl_Quantity li \<and>
      (\<exists>r \<in> set (cal_resources d). row_id cr_Base r = bl_ResourceID li \<and> same_partition (bk_Base b) (cr_Base r))"
  shows "cal_keys d'"
proof -
  have d': "cal_resources d' = cal_resources d" "cal_bookings d' = cal_bookings d @ [b]"
    "cal_booking_lines d' = cal_booking_lines d @ news" using a by (simp_all add: added_def core_def)
  have dr: "distinct (map (row_id cr_Base) (cal_resources d))" using k by (simp add: cal_keys_def)
  have old: "bl_BookingID li \<noteq> row_id bk_Base b" if "li \<in> set (cal_booking_lines d)" for li
    using k that fresh unfolding cal_keys_def by (metis image_eqI)
  have part: "same_partition (bk_Base x) (cr_Base r)"
    if "li \<in> set (cal_booking_lines d')" "x \<in> set (cal_bookings d')" "r \<in> set (cal_resources d')"
      "row_id bk_Base x = bl_BookingID li" "row_id cr_Base r = bl_ResourceID li" for li x r
  proof (cases "li \<in> set (cal_booking_lines d)")
    case True
    with old[OF True] that have "x \<in> set (cal_bookings d)" by (auto simp: d')
    with True that k show ?thesis unfolding cal_keys_def d' by metis
  next
    case False
    with that have li: "li \<in> set news" by (simp add: d')
    with own that fresh have "x = b" by (auto simp: d' image_iff)
    moreover from own[OF li] obtain r' where "r' \<in> set (cal_resources d)" "row_id cr_Base r' = bl_ResourceID li"
      "same_partition (bk_Base b) (cr_Base r')" by blast
    moreover from this that have "r' = r" using distinct_key_eq[OF dr] by (metis d'(1))
    ultimately show ?thesis by simp
  qed
  have ex: "1 \<le> bl_Quantity li \<and> (\<exists>x \<in> set (cal_bookings d'). row_id bk_Base x = bl_BookingID li) \<and>
      (\<exists>r \<in> set (cal_resources d'). row_id cr_Base r = bl_ResourceID li)" if li: "li \<in> set (cal_booking_lines d')" for li
  proof (cases "li \<in> set (cal_booking_lines d)")
    case True
    then show ?thesis using k unfolding cal_keys_def d' by auto
  next
    case False
    with li have "li \<in> set news" by (simp add: d')
    from own[OF this] show ?thesis unfolding d' by auto
  qed
  have "distinct (map (row_id cr_Base) (cal_resources d'))" "distinct (map (row_id bk_Base) (cal_bookings d'))"
    using k fresh unfolding cal_keys_def d' by auto
  with part ex show ?thesis unfolding cal_keys_def by blast
qed

lemma added_inv:
  assumes inv: "cal_inv now d" and a: "added b news d d'" and fresh: "row_id bk_Base b \<notin> row_id bk_Base ` set (cal_bookings d)"
    and own: "\<And>li. li \<in> set news \<Longrightarrow> bl_BookingID li = row_id bk_Base b \<and> 1 \<le> bl_Quantity li \<and>
      (\<exists>r \<in> set (cal_resources d). row_id cr_Base r = bl_ResourceID li \<and> same_partition (bk_Base b) (cr_Base r))"
    and room: "\<And>r t. r \<in> set (cal_resources d) \<Longrightarrow> row_id cr_Base r \<in> bl_ResourceID ` set news \<Longrightarrow> covers t b \<Longrightarrow>
      load now d (row_id cr_Base r) t + quantity_of news (row_id cr_Base r) \<le> at_least_one (cr_Capacity r)"
  shows "cal_inv now d'"
proof -
  have k: "cal_keys d" and w: "within_capacity now d" using inv by (simp_all add: cal_inv_def)
  have d': "cal_resources d' = cal_resources d" using a by (simp add: added_def core_def)
  have "load now d' (row_id cr_Base r) t \<le> at_least_one (cr_Capacity r)" if r: "r \<in> set (cal_resources d)" for r t
  proof -
    let ?r = "row_id cr_Base r"
    let ?n = "sum_list (map (line_load now t (Some b)) (filter (\<lambda>li. bl_ResourceID li = ?r) news))"
    have eq: "load now d' ?r t = load now d ?r t + ?n" by (rule load_added[OF k a fresh]) (use own in blast)
    have old: "load now d ?r t \<le> at_least_one (cr_Capacity r)" using w r by (simp add: within_capacity_def)
    show ?thesis
    proof (cases "covers t b \<and> ?r \<in> bl_ResourceID ` set news")
      case True
      have "line_load now t (Some b) li \<le> bl_Quantity li" if "li \<in> set news" for li
        using own[OF that] by (simp add: line_load_def at_least_one_def)
      then have "?n \<le> quantity_of news ?r" unfolding quantity_of_def by (intro sum_list_mono) auto
      with room[OF r] True eq show ?thesis by fastforce
    next
      case False
      have "?n = 0"
      proof (cases "covers t b")
        case True
        with False have "filter (\<lambda>li. bl_ResourceID li = ?r) news = []" unfolding filter_empty_conv by (metis image_eqI)
        then show ?thesis by simp
      next
        case False
        then have "line_load now t (Some b) = (\<lambda>_. 0)" by (simp add: line_load_def fun_eq_iff)
        then show ?thesis by simp
      qed
      with eq old show ?thesis by simp
    qed
  qed
  then show ?thesis using added_keys[OF k a fresh own] by (simp add: cal_inv_def within_capacity_def d')
qed

lemma Bookings_Create_run:
  assumes "Bookings_Create b (d, fs) = (x, (d', fs'))"
  obtains e where "x = Inl e" "d' = d"
  | "x = Inr ()" "d' = d\<lparr>cal_bookings := cal_bookings d @ [b]\<rparr>" "row_id bk_Base b \<notin> row_id bk_Base ` set (cal_bookings d)"
proof -
  have "(\<exists>e. x = Inl e \<and> d' = d) \<or> x = Inr () \<and> d' = d\<lparr>cal_bookings := cal_bookings d @ [b]\<rparr> \<and>
      row_id bk_Base b \<notin> row_id bk_Base ` set (cal_bookings d)"
    using assms unfolding Bookings_Create_def
    by (cases rule: sql_stmt_cases) (auto simp: list_ex_iff image_iff split: if_splits)
  then show thesis using that by blast
qed

lemma write_booking_run:
  assumes "write_booking env sc b lines (d, fs) = (x, (d', fs'))"
  obtains "d' = d"
  | ks rest where "mset (zip [0..<length lines] lines) = mset ks + rest" "added b (map (line_row env (row_id bk_Base b)) ks) d d'"
      "row_id bk_Base b \<notin> row_id bk_Base ` set (cal_bookings d)"
proof -
  obtain y d1 fs1 where b: "Bookings_Create b (d, fs) = (y, (d1, fs1))" by (rule prod_cases3)
  from b show thesis
  proof (cases rule: Bookings_Create_run)
    case (1 e)
    with assms b have "d' = d" by (simp add: write_booking_def sql_bind_apply sql_wrap_apply)
    then show thesis by (rule that(1))
  next
    case 2
    let ?kls = "zip [0..<length lines] lines" and ?i = "row_id bk_Base b"
    obtain w d2 fs2 where l: "sql_map (create_line env ?i) ?kls (d1, fs1) = (w, (d2, fs2))" by (rule prod_cases3)
    from create_lines_run[OF l] obtain ks rest where ks: "mset ?kls = mset ks + rest"
      "d2 = d1\<lparr>cal_booking_lines := cal_booking_lines d1 @ map (line_row env ?i) ks\<rparr>" by blast
    then have core2: "added b (map (line_row env ?i) ks) d d2" using 2 by (simp add: added_def core_def)
    have "core d' = core d2"
    proof (cases w)
      case (Inl e)
      with assms b l 2(1) show ?thesis by (simp add: write_booking_def sql_bind_apply sql_wrap_apply)
    next
      case (Inr created)
      let ?m = "if bk_Status b = BookingConfirmed then enqueueExports (ce_OutboxBase env) sc b created else sql_return ()"
      have p: "preserves same_core ?m" by (intro sc.preserves_if same_core_enqueue sc.preserves_return)
      have "tables_after (sql_bind ?m (\<lambda>_. sql_return (b, created))) (d2, fs2) = d'"
        using assms b l 2(1) Inr by (simp add: write_booking_def sql_bind_apply[of "sql_wrap _ _"] sql_wrap_apply
            sql_bind_apply[of "sql_map _ _"] tables_after_def)
      then have "tables_after ?m (d2, fs2) = d'" by simp
      with preservesD[OF p, of d2 fs2] show ?thesis by (simp add: same_core_def)
    qed
    with core2 ks(1) 2(3) show thesis by (intro that(2)) (simp_all add: added_def)
  qed
qed

section \<open>Creating, confirming and cancelling\<close>

lemma sum_mset_nonneg_int:
  fixes f :: "'a \<Rightarrow> int"
  shows "(\<And>x. x \<in># M \<Longrightarrow> 0 \<le> f x) \<Longrightarrow> 0 \<le> sum_mset (image_mset f M)"
  by (induction M) auto

lemma quantity_part:
  assumes "mset (zip [0..<length lines] lines) = mset ks + rest" and "\<forall>li \<in> set lines. 1 \<le> bl_Quantity li"
  shows "quantity_of (map (line_row env i) ks) r \<le> quantity_of lines r" and "snd ` set ks \<subseteq> set lines"
proof -
  let ?f = "\<lambda>kl. if bl_ResourceID (snd kl) = r then bl_Quantity (snd kl) else 0"
  have sub: "set ks \<subseteq> set (zip [0..<length lines] lines)"
    by (metis assms(1) mset_subset_eq_add_left set_mset_mono set_mset_mset)
  then show "snd ` set ks \<subseteq> set lines" by (auto dest!: subsetD[OF sub] dest: set_zip_rightD)
  have "set_mset rest \<subseteq> set (zip [0..<length lines] lines)"
    by (metis assms(1) mset_subset_eq_add_right set_mset_mono set_mset_mset)
  then have pos: "0 \<le> ?f kl" if "kl \<in># rest" for kl
  proof -
    from that \<open>set_mset rest \<subseteq> _\<close> have "(fst kl, snd kl) \<in> set (zip [0..<length lines] lines)" by auto
    then have "snd kl \<in> set lines" by (rule set_zip_rightD)
    with assms(2) show ?thesis by force
  qed
  have "quantity_of (map (line_row env i) ks) r = sum_list (map ?f ks)"
    unfolding quantity_of_def filter_map map_map sum_filter by (simp add: comp_def line_row_def cong: if_cong)
  also have "\<dots> = sum_mset (image_mset ?f (mset ks))" by (simp only: sum_mset_sum_list[symmetric] mset_map)
  also have "\<dots> \<le> sum_mset (image_mset ?f (mset ks)) + sum_mset (image_mset ?f rest)"
    using sum_mset_nonneg_int[of rest ?f] pos by simp
  also have "\<dots> = sum_mset (image_mset ?f (mset (zip [0..<length lines] lines)))" by (simp add: assms(1))
  also have "\<dots> = sum_list (map ?f (zip [0..<length lines] lines))" by (simp only: sum_mset_sum_list[symmetric] mset_map)
  also have "\<dots> = sum_list (map (\<lambda>li. if bl_ResourceID li = r then bl_Quantity li else 0) (map snd (zip [0..<length lines] lines)))"
    by (simp only: map_map comp_def)
  also have "\<dots> = quantity_of lines r" unfolding quantity_of_def sum_filter by simp
  finally show "quantity_of (map (line_row env i) ks) r \<le> quantity_of lines r" .
qed

lemma quantity_pos:
  assumes "\<forall>li \<in> set lines. 1 \<le> bl_Quantity li" and "r \<in> bl_ResourceID ` set lines"
  shows "0 < quantity_of lines r"
proof -
  from assms(2) obtain li where li: "li \<in> set lines" "bl_ResourceID li = r" by blast
  have "bl_Quantity li \<le> quantity_of lines r" unfolding quantity_of_def
    by (rule member_le_sum_list) (use assms(1) li in auto)
  with assms(1) li show ?thesis by force
qed

text \<open>What a passed capacity test guarantees for each resource it was asked about.\<close>

lemma room_for:
  assumes bd: "buildDemands sc qty [] ids z0 = (Inr demands, z1)"
    and bm: "busyMapExcludingBooking sc now ids s e x z1 = (Inr busy, z2)"
    and cap: "HasCapacity demands busy s e" and k: "cal_keys (fst z0)"
    and r: "r \<in> set (cal_resources (fst z0))" "row_id cr_Base r \<in> set ids" and q: "0 < qty (row_id cr_Base r)"
    and t: "s \<le> t" "t < e" and keep: "\<And>li. keep li \<Longrightarrow> x = [] \<or> bl_BookingID li \<noteq> x"
  shows "in_partition sc (cr_Base r)"
    and "load_of keep now (fst z0) (row_id cr_Base r) t + qty (row_id cr_Base r) \<le> at_least_one (cr_Capacity r)"
proof -
  let ?i = "row_id cr_Base r"
  have c: "core (fst z1) = core (fst z0)" by (rule core_run[OF same_core_buildDemands bd])
  have dr: "distinct (map (row_id cr_Base) (cal_resources (fst z0)))" using k by (simp add: cal_keys_def)
  from buildDemands_run[OF bd r(2)] obtain dm r' where dm: "dm \<in> set demands" "r' \<in> set (cal_resources (fst z0))"
    "row_id cr_Base r' = ?i" "in_partition sc (cr_Base r')" "rd_ResourceID dm = ?i" "rd_Capacity dm = cr_Capacity r'"
    "rd_Quantity dm = qty ?i" using q by auto
  have "r' = r" using distinct_key_eq[OF dr dm(2) r(1) dm(3)] .
  with dm(4) show part: "in_partition sc (cr_Base r)" by simp
  have k1: "cal_keys (fst z1)" using k c by (simp add: cal_keys_def core_def)
  have "load_of keep now (fst z1) ?i t \<le> used_units (busy ?i) s e"
    by (rule busy_bound[OF bm k1 _ r(2) part t keep]) (use r(1) c in \<open>simp_all add: core_def\<close>)
  moreover have "load_of keep now (fst z1) ?i t = load_of keep now (fst z0) ?i t"
    using c by (intro load_of_core) (simp_all add: core_def)
  moreover have "used_units (busy ?i) s e + at_least_one (rd_Quantity dm) \<le> at_least_one (rd_Capacity dm)"
    using cap dm(1,5) by (auto simp: HasCapacity_def allHaveCapacity_def list_all_iff)
  ultimately show "load_of keep now (fst z0) ?i t + qty ?i \<le> at_least_one (cr_Capacity r)"
    using dm(6,7) q \<open>r' = r\<close> by (simp add: at_least_one_id)
qed

lemma book_lines_inv:
  assumes run: "book_lines env sc inp status lines (d, fs) = (x, (d', fs'))" and inv: "cal_inv (ce_Now env) d"
    and lines: "\<forall>li \<in> set lines. 1 \<le> bl_Quantity li" and stamp: "in_partition sc (ce_Base env)"
  shows "cal_inv (ce_Now env) d'"
  using run unfolding book_lines_def Let_def
proof (cases rule: sql_bind_cases)
  case (first e)
  then show ?thesis using core_run[OF same_core_buildDemands first(1)] inv by (auto intro: same_core_inv simp: same_core_def)
next
  case (then_ demands z1)
  note bd = then_(1)
  have c1: "core (fst z1) = core d" using core_run[OF same_core_buildDemands bd] by simp
  from then_(2) show ?thesis
  proof (cases rule: sql_bind_cases)
    case (first e)
    then show ?thesis using core_run[OF same_core_busyMap first(1)[unfolded busyMap_def]] c1 inv
      by (auto intro: same_core_inv simp: same_core_def)
  next
    case (then_ busy z2)
    note bm = then_(1)[unfolded busyMap_def]
    have c2: "core (fst z2) = core d" using core_run[OF same_core_busyMap bm] c1 by simp
    have inv2: "cal_inv (ce_Now env) (fst z2)" using inv c2 by (auto intro: same_core_inv simp: same_core_def)
    let ?b = "new_booking sc env status inp"
    show ?thesis
    proof (cases "HasCapacity demands busy (ci_Start inp) (ci_End inp)")
      case False
      with then_(2) inv2 show ?thesis by (simp add: sql_raise_def)
    next
      case True
      with then_(2) have "write_booking env sc ?b lines (fst z2, snd z2) = (x, (d', fs'))" by simp
      then show ?thesis
      proof (cases rule: write_booking_run)
        case 1
        with inv2 show ?thesis by simp
      next
        case (2 ks rest)
        note sub = quantity_part[OF 2(1) lines]
        have k: "cal_keys d" using inv by (simp add: cal_inv_def)
        have res: "\<exists>r \<in> set (cal_resources (fst z2)). row_id cr_Base r = bl_ResourceID li \<and> same_partition (bk_Base ?b) (cr_Base r)"
          if "li \<in> set lines" for li
        proof -
          have "bl_ResourceID li \<in> set (map bl_ResourceID lines)" using that by simp
          from buildDemands_run[OF bd this] obtain r where "r \<in> set (cal_resources d)" "row_id cr_Base r = bl_ResourceID li"
            "in_partition sc (cr_Base r)" by auto
          with stamp c2 show ?thesis by (auto simp: same_partition_def in_partition_def new_booking_def core_def)
        qed
        show ?thesis
        proof (rule added_inv[OF inv2 2(2,3)])
          fix li assume "li \<in> set (map (line_row env (row_id bk_Base ?b)) ks)"
          then obtain kl where kl: "kl \<in> set ks" "li = line_row env (row_id bk_Base ?b) kl" by auto
          then have "snd kl \<in> set lines" using sub(2) by blast
          with res[OF this] lines kl(2) show "bl_BookingID li = row_id bk_Base ?b \<and> 1 \<le> bl_Quantity li \<and>
            (\<exists>r \<in> set (cal_resources (fst z2)). row_id cr_Base r = bl_ResourceID li \<and> same_partition (bk_Base ?b) (cr_Base r))"
            by (simp add: line_row_def)
        next
          fix r t assume r: "r \<in> set (cal_resources (fst z2))"
            "row_id cr_Base r \<in> bl_ResourceID ` set (map (line_row env (row_id bk_Base ?b)) ks)" and t: "covers t ?b"
          let ?i = "row_id cr_Base r"
          from r(2) sub(2) have "?i \<in> bl_ResourceID ` set lines" by (auto simp: line_row_def image_iff)
          then have i: "?i \<in> set (map bl_ResourceID lines)" "0 < quantity_of lines ?i" using quantity_pos[OF lines] by auto
          have "load_of (\<lambda>_. True) (ce_Now env) d ?i t + quantity_of lines ?i \<le> at_least_one (cr_Capacity r)"
            using room_for(2)[OF bd bm True, of r t "\<lambda>_. True"] k r(1) c2 i t
            by (simp add: covers_def new_booking_def core_def)
          moreover have "load (ce_Now env) (fst z2) ?i t = load_of (\<lambda>_. True) (ce_Now env) d ?i t"
            unfolding load_def using c2 by (intro load_of_core) (simp_all add: core_def)
          ultimately show "load (ce_Now env) (fst z2) ?i t + quantity_of (map (line_row env (row_id bk_Base ?b)) ks) ?i
              \<le> at_least_one (cr_Capacity r)" using sub(1)[of env "row_id bk_Base ?b" ?i] by linarith
        qed
      qed
    qed
  qed
qed

lemma with_scope_cases:
  assumes "with_scope claims k z = (x, z')"
  obtains (denied) e where "ScopeFromContext claims = Inl e" "x = Inl e" "z' = z"
  | (scope) sc where "ScopeFromContext claims = Inr sc" "k sc z = (x, z')"
  using assms by (auto simp: with_scope_def sql_raise_def split: sum.splits)

lemma CreateBooking_inv:
  assumes run: "CreateBooking claims env inp (d, fs) = (x, (d', fs'))" and inv: "cal_inv (ce_Now env) d"
    and stamp: "\<And>sc. ScopeFromContext claims = Inr sc \<Longrightarrow> in_partition sc (ce_Base env)"
  shows "cal_inv (ce_Now env) d'"
  using run unfolding CreateBooking_def
proof (cases rule: with_scope_cases)
  case (denied e)
  with inv show ?thesis by simp
next
  case (scope sc)
  show ?thesis
  proof (cases "ci_Lines inp = [] \<or> \<not> ci_End inp > ci_Start inp")
    case True
    with scope(2) inv show ?thesis by (auto simp: sql_raise_def split: if_splits)
  next
    case False
    with scope(2) have r: "sql_bind (Bookings_GetByIdempotency sc (ci_IdempotencyKey inp)) (\<lambda>existing.
       case existing of
         Some b \<Rightarrow> sql_bind (Lines_ListByBooking (row_id bk_Base b)) (\<lambda>lines. sql_return (b, lines))
       | None \<Rightarrow>
           let status = (if ci_Status inp = [] then BookingConfirmed else ci_Status inp) in
           if status \<noteq> BookingHold \<and> status \<noteq> BookingConfirmed
           then sql_raise (ErrWith ErrInvalid ''status must be hold or confirmed'')
           else if list_ex (\<lambda>li. bl_ResourceID li = []) (ci_Lines inp)
           then sql_raise (ErrWith ErrInvalid ''resource_id required on line'')
           else book_lines env sc inp status (map normal_line (ci_Lines inp))) (d, fs) = (x, (d', fs'))" by simp
    then show ?thesis
    proof (cases rule: sql_bind_cases)
      case (first e)
      then show ?thesis using core_run[OF same_core_reads(9) first(1)] inv by (auto intro: same_core_inv simp: same_core_def)
    next
      case (then_ existing z1)
      have c1: "core (fst z1) = core d" using core_run[OF same_core_reads(9) then_(1)] by simp
      have inv1: "cal_inv (ce_Now env) (fst z1)" using inv c1 by (auto intro: same_core_inv simp: same_core_def)
      show ?thesis
      proof (cases existing)
        case (Some b)
        have "preserves same_core (sql_bind (Lines_ListByBooking (row_id bk_Base b)) (\<lambda>lines. sql_return (b, lines)))"
          by (intro core_rules)
        from core_run[OF this, of z1 x "(d', fs')"] then_(2) Some inv1 show ?thesis
          by (auto intro: same_core_inv simp: same_core_def)
      next
        case None
        let ?status = "if ci_Status inp = [] then BookingConfirmed else ci_Status inp"
        have n: "\<forall>li \<in> set (map normal_line (ci_Lines inp)). 1 \<le> bl_Quantity li" by (simp add: normal_line_def)
        from then_(2) None consider "d' = fst z1"
          | "book_lines env sc inp ?status (map normal_line (ci_Lines inp)) (fst z1, snd z1) = (x, (d', fs'))"
          by (auto simp: Let_def sql_raise_def split: if_splits)
        then show ?thesis
          by cases (use inv1 book_lines_inv[OF _ inv1 n stamp[OF scope(1)]] in blast)+
      qed
    qed
  qed
qed

end
