(* ===== verification/Calendar_Steps.thy ===== *)
theory Calendar_Steps
  imports Calendar_Spec
begin

text \<open>
  The capacity invariant along histories of the calendar: confirming, cancelling, resources and
  external sync keep it, and \<open>cal_step\<close> is one call of the service at a clock that never runs
  backwards.
\<close>

section \<open>Changing one booking\<close>

lemma booking_of_update:
  assumes "\<And>b. bk_Base (f b) = bk_Base b"
  shows "booking_of (d\<lparr>cal_bookings := update_where (\<lambda>b. row_id bk_Base b = i) f (cal_bookings d)\<rparr>) li =
    (if bl_BookingID li = i then map_option f (booking_of d li) else booking_of d li)"
proof (cases "bl_BookingID li = i")
  case True
  then show ?thesis unfolding booking_of_def using assms
    by (simp add: find_update_where_same)
next
  case False
  then show ?thesis unfolding booking_of_def using assms
    by (simp add: find_update_where_other)
qed

lemma sum_filter_split:
  fixes g :: "'a \<Rightarrow> int"
  shows "sum_list (map g (filter Q xs)) = sum_list (map g (filter (\<lambda>x. Q x \<and> \<not> P x) xs)) + sum_list (map g (filter (\<lambda>x. Q x \<and> P x) xs))"
  by (induction xs) auto

lemma load_split: "load now d r t = load_of (\<lambda>li. bl_BookingID li \<noteq> i) now d r t + load_of (\<lambda>li. bl_BookingID li = i) now d r t"
  unfolding load_def load_of_def simp_thms by (rule sum_filter_split)

lemma load_of_update:
  assumes "\<And>b. bk_Base (f b) = bk_Base b"
    and d': "d' = d\<lparr>cal_bookings := update_where (\<lambda>b. row_id bk_Base b = i) f (cal_bookings d)\<rparr>"
  shows "load_of (\<lambda>li. bl_BookingID li \<noteq> i) now d' r t = load_of (\<lambda>li. bl_BookingID li \<noteq> i) now d r t"
    and "load_of (\<lambda>li. bl_BookingID li = i) now d' r t =
      sum_list (map (\<lambda>li. line_load now t (map_option f (booking_of d li)) li)
        (filter (\<lambda>li. bl_ResourceID li = r \<and> bl_BookingID li = i) (cal_booking_lines d)))"
proof -
  have lines: "cal_booking_lines d' = cal_booking_lines d" by (simp add: d')
  have b: "booking_of d' li = (if bl_BookingID li = i then map_option f (booking_of d li) else booking_of d li)" for li
    unfolding d' by (rule booking_of_update[OF assms(1)])
  have "map (\<lambda>li. line_load now t (booking_of d' li) li) (filter (\<lambda>li. bl_ResourceID li = r \<and> bl_BookingID li \<noteq> i) (cal_booking_lines d)) =
      map (\<lambda>li. line_load now t (booking_of d li) li) (filter (\<lambda>li. bl_ResourceID li = r \<and> bl_BookingID li \<noteq> i) (cal_booking_lines d))"
    by (intro map_cong refl) (simp add: b)
  then show "load_of (\<lambda>li. bl_BookingID li \<noteq> i) now d' r t = load_of (\<lambda>li. bl_BookingID li \<noteq> i) now d r t"
    unfolding load_of_def lines by (simp only:)
  have "map (\<lambda>li. line_load now t (booking_of d' li) li) (filter (\<lambda>li. bl_ResourceID li = r \<and> bl_BookingID li = i) (cal_booking_lines d)) =
      map (\<lambda>li. line_load now t (map_option f (booking_of d li)) li) (filter (\<lambda>li. bl_ResourceID li = r \<and> bl_BookingID li = i) (cal_booking_lines d))"
    by (intro map_cong refl) (simp add: b)
  then show "load_of (\<lambda>li. bl_BookingID li = i) now d' r t =
      sum_list (map (\<lambda>li. line_load now t (map_option f (booking_of d li)) li)
        (filter (\<lambda>li. bl_ResourceID li = r \<and> bl_BookingID li = i) (cal_booking_lines d)))"
    unfolding load_of_def lines by (simp only:)
qed

lemma update_booking_keys:
  assumes "\<And>b. bk_Base (f b) = bk_Base b" and "cal_keys d"
  shows "cal_keys (d\<lparr>cal_bookings := update_where (\<lambda>b. row_id bk_Base b = i) f (cal_bookings d)\<rparr>)"
proof -
  have "map (row_id bk_Base) (update_where (\<lambda>b. row_id bk_Base b = i) f (cal_bookings d)) = map (row_id bk_Base) (cal_bookings d)"
    using assms(1) by (intro map_update_where) simp
  with assms show ?thesis
    by (simp add: cal_keys_def bex_update_where ball_update_where if_distrib[of bk_Base] cong: if_cong)
qed

lemma booking_of_mem:
  assumes "cal_keys d" and "b \<in> set (cal_bookings d)" and "bl_BookingID li = row_id bk_Base b"
  shows "booking_of d li = Some b"
  using assms distinct_key_find[of "row_id bk_Base" "cal_bookings d" b] by (simp add: booking_of_def cal_keys_def)

abbreviation own_lines :: "caldb \<Rightarrow> string \<Rightarrow> BookingLine list" where
  "own_lines d i \<equiv> filter (\<lambda>li. bl_BookingID li = i) (cal_booking_lines d)"

definition set_booking :: "string \<Rightarrow> (Booking \<Rightarrow> Booking) \<Rightarrow> caldb \<Rightarrow> caldb" where
  "set_booking i f d = d\<lparr>cal_bookings := update_where (\<lambda>b. row_id bk_Base b = i) f (cal_bookings d)\<rparr>"

lemma own_load:
  assumes "\<And>b. bk_Base (f b) = bk_Base b" and k: "cal_keys d" and b: "b \<in> set (cal_bookings d)"
  shows "load_of (\<lambda>li. bl_BookingID li = row_id bk_Base b) now (set_booking (row_id bk_Base b) f d) r t =
    sum_list (map (line_load now t (Some (f b))) (filter (\<lambda>li. bl_ResourceID li = r) (own_lines d (row_id bk_Base b))))"
  (is "?l = ?r")
proof -
  have "?l = sum_list (map (\<lambda>li. line_load now t (map_option f (booking_of d li)) li)
        (filter (\<lambda>li. bl_ResourceID li = r \<and> bl_BookingID li = row_id bk_Base b) (cal_booking_lines d)))"
    by (rule load_of_update(2)[OF assms(1)]) (simp_all add: set_booking_def)
  also have "\<dots> = sum_list (map (line_load now t (Some (f b)))
        (filter (\<lambda>li. bl_ResourceID li = r \<and> bl_BookingID li = row_id bk_Base b) (cal_booking_lines d)))"
    by (intro arg_cong[of _ _ sum_list] map_cong refl) (simp add: booking_of_mem[OF k b])
  finally show ?thesis by (simp add: filter_filter conj_commute)
qed

text \<open>
  Rewriting one booking, with the span left alone, keeps the capacity invariant when the
  other bookings leave room for its lines or it is not live afterwards.
\<close>

lemma set_booking_inv:
  assumes inv: "cal_inv now d" and b: "b \<in> set (cal_bookings d)"
    and f: "\<And>b. bk_Base (f b) = bk_Base b" "\<And>b. bk_StartAt (f b) = bk_StartAt b" "\<And>b. bk_EndAt (f b) = bk_EndAt b"
    and room: "\<And>r t. live now (f b) \<Longrightarrow> r \<in> set (cal_resources d) \<Longrightarrow> covers t b \<Longrightarrow>
      row_id cr_Base r \<in> bl_ResourceID ` set (own_lines d (row_id bk_Base b)) \<Longrightarrow>
      load_of (\<lambda>li. bl_BookingID li \<noteq> row_id bk_Base b) now d (row_id cr_Base r) t +
        quantity_of (own_lines d (row_id bk_Base b)) (row_id cr_Base r) \<le> at_least_one (cr_Capacity r)"
  shows "cal_inv now (set_booking (row_id bk_Base b) f d)"
proof -
  let ?i = "row_id bk_Base b" and ?d' = "set_booking (row_id bk_Base b) f d"
  have k: "cal_keys d" and w: "within_capacity now d" using inv by (simp_all add: cal_inv_def)
  have "load now ?d' (row_id cr_Base r) t \<le> at_least_one (cr_Capacity r)" if r: "r \<in> set (cal_resources d)" for r t
  proof -
    let ?r = "row_id cr_Base r"
    let ?own = "filter (\<lambda>li. bl_ResourceID li = ?r) (own_lines d ?i)"
    have others: "load_of (\<lambda>li. bl_BookingID li \<noteq> ?i) now ?d' ?r t = load_of (\<lambda>li. bl_BookingID li \<noteq> ?i) now d ?r t"
      by (rule load_of_update(1)[OF f(1)]) (simp_all add: set_booking_def)
    have split: "load now ?d' ?r t = load_of (\<lambda>li. bl_BookingID li \<noteq> ?i) now d ?r t +
        sum_list (map (line_load now t (Some (f b))) ?own)"
      unfolding load_split[of now ?d' ?r t ?i] others own_load[OF f(1) k b] ..
    have old: "load_of (\<lambda>li. bl_BookingID li \<noteq> ?i) now d ?r t \<le> at_least_one (cr_Capacity r)"
    proof -
      have "0 \<le> load_of (\<lambda>li. bl_BookingID li = ?i) now d ?r t"
        unfolding load_of_def by (rule sum_list_nonneg) auto
      moreover have "load now d ?r t \<le> at_least_one (cr_Capacity r)" using w r by (simp add: within_capacity_def)
      ultimately show ?thesis using load_split[of now d ?r t ?i] by linarith
    qed
    show ?thesis
    proof (cases "live now (f b) \<and> covers t b \<and> ?own \<noteq> []")
      case True
      then have "?r \<in> bl_ResourceID ` set (own_lines d ?i)" by (auto simp: filter_empty_conv image_iff)
      with True room r have "load_of (\<lambda>li. bl_BookingID li \<noteq> ?i) now d ?r t + quantity_of (own_lines d ?i) ?r
        \<le> at_least_one (cr_Capacity r)" by blast
      moreover have "sum_list (map (line_load now t (Some (f b))) ?own) \<le> sum_list (map bl_Quantity ?own)"
      proof (rule sum_list_mono)
        fix li assume "li \<in> set ?own"
        then have "1 \<le> bl_Quantity li" using k by (simp add: cal_keys_def)
        then show "line_load now t (Some (f b)) li \<le> bl_Quantity li" by (simp add: line_load_def at_least_one_def)
      qed
      ultimately show ?thesis unfolding split quantity_of_def by linarith
    next
      case False
      then have "line_load now t (Some (f b)) = (\<lambda>_. 0) \<or> ?own = []"
        using f(2,3) by (auto simp: line_load_def covers_def fun_eq_iff)
      then have "sum_list (map (line_load now t (Some (f b))) ?own) = 0" by auto
      with split old show ?thesis by simp
    qed
  qed
  then show ?thesis using update_booking_keys[OF f(1) k, of ?i]
    by (simp add: cal_inv_def within_capacity_def set_booking_def)
qed

lemma Bookings_Update_run:
  assumes "Bookings_Update i f z = (x, z')"
  shows "fst z' = fst z \<or> fst z' = set_booking i f (fst z)"
proof -
  obtain d fs d' fs' where z: "z = (d, fs)" "z' = (d', fs')" by (metis prod.collapse)
  from assms show ?thesis unfolding Bookings_Update_def sql_exec_def z
    by (cases rule: sql_stmt_cases) (auto simp: set_booking_def)
qed

lemma core_inv: "core d' = core d \<Longrightarrow> cal_inv now d \<Longrightarrow> cal_inv now d'"
  by (rule same_core_inv) (simp_all add: same_core_def)

lemma inv_then_core:
  assumes "sql_bind m k z = (x, z')" and "\<And>y z1. m z = (y, z1) \<Longrightarrow> cal_inv now (fst z1)" and "\<And>y. preserves same_core (k y)"
  shows "cal_inv now (fst z')"
  using assms(1)
proof (cases rule: sql_bind_cases)
  case (then_ y z1)
  from core_run[OF assms(3) then_(2)] assms(2)[OF then_(1)] show ?thesis by (rule core_inv)
qed (use assms(2) in blast)

lemma core_then_inv:
  assumes "sql_bind m k z = (x, z')" and "preserves same_core m" and "cal_inv now (fst z)"
    and "\<And>y z1. m z = (Inr y, z1) \<Longrightarrow> k y z1 = (x, z') \<Longrightarrow> core (fst z1) = core (fst z) \<Longrightarrow> cal_inv now (fst z1) \<Longrightarrow> cal_inv now (fst z')"
  shows "cal_inv now (fst z')"
  using assms(1)
proof (cases rule: sql_bind_cases)
  case (first e)
  from core_run[OF assms(2) first(1)] assms(3) show ?thesis by (rule core_inv)
next
  case (then_ y z1)
  have c: "core (fst z1) = core (fst z)" by (rule core_run[OF assms(2) then_(1)])
  show ?thesis by (rule assms(4)[OF then_ c core_inv[OF c assms(3)]])
qed

lemma found_in_partition:
  assumes "Bookings_GetInPartition sc i z = (Inr (Some b), z1)"
  shows "b \<in> set (cal_bookings (fst z))" "row_id bk_Base b = i" "in_partition sc (bk_Base b)"
proof -
  from assms have "List.find (\<lambda>b. row_id bk_Base b = i \<and> in_partition sc (bk_Base b)) (cal_bookings (fst z)) = Some b"
    by (auto simp: Bookings_GetInPartition_def sql_wrap_Inr dest!: sql_query_InrD)
  from find_SomeD[OF this]
  show "b \<in> set (cal_bookings (fst z))" "row_id bk_Base b = i" "in_partition sc (bk_Base b)" by auto
qed

lemma own_lines_run:
  assumes "Lines_ListByBooking i z = (Inr lines, z1)"
  shows "lines = own_lines (fst z) i"
  using assms by (auto simp: Lines_ListByBooking_def sql_wrap_Inr dest!: sql_query_InrD)

lemma booking_list_cases:
  "preserves same_core (sql_bind (Lines_ListByBooking i) (\<lambda>lines. sql_return (b, lines)))"
  by (intro core_rules)

lemma confirm_hold_inv:
  assumes run: "confirm_hold env sc b (own_lines (fst z) (row_id bk_Base b)) z = (x, z')"
    and inv: "cal_inv (ce_Now env) (fst z)" and b: "b \<in> set (cal_bookings (fst z))"
  shows "cal_inv (ce_Now env) (fst z')"
proof -
  let ?i = "row_id bk_Base b" and ?d = "fst z"
  let ?lines = "own_lines ?d ?i"
  have k: "cal_keys ?d" using inv by (simp add: cal_inv_def)
  show ?thesis
    using run unfolding confirm_hold_def Let_def
  proof (rule core_then_inv[OF _ same_core_buildDemands inv])
    fix demands z1
    assume bd: "buildDemands sc (quantity_of ?lines) [] (map bl_ResourceID ?lines) z = (Inr demands, z1)"
      and c1: "core (fst z1) = core (fst z)" and inv1: "cal_inv (ce_Now env) (fst z1)"
      and rest: "sql_bind (busyMapExcludingBooking sc (ce_Now env) (map bl_ResourceID ?lines) (bk_StartAt b) (bk_EndAt b) ?i) (\<lambda>busy.
      if \<not> HasCapacity demands busy (bk_StartAt b) (bk_EndAt b)
      then sql_raise (ErrWith ErrConflict ''slot no longer available'')
      else sql_bind (Bookings_Update ?i confirm_row) (\<lambda>_.
           sql_bind (enqueueExports (ce_OutboxBase env) sc (confirm_row b) ?lines) (\<lambda>_.
           sql_return (confirm_row b, ?lines)))) z1 = (x, z')"
    from rest show ?thesis
    proof (rule core_then_inv[OF _ same_core_busyMap inv1])
      fix busy z2
      assume bm: "busyMapExcludingBooking sc (ce_Now env) (map bl_ResourceID ?lines) (bk_StartAt b) (bk_EndAt b) ?i z1 = (Inr busy, z2)"
        and c2: "core (fst z2) = core (fst z1)" and inv2: "cal_inv (ce_Now env) (fst z2)"
        and rest: "(if \<not> HasCapacity demands busy (bk_StartAt b) (bk_EndAt b)
      then sql_raise (ErrWith ErrConflict ''slot no longer available'')
      else sql_bind (Bookings_Update ?i confirm_row) (\<lambda>_.
           sql_bind (enqueueExports (ce_OutboxBase env) sc (confirm_row b) ?lines) (\<lambda>_.
           sql_return (confirm_row b, ?lines)))) z2 = (x, z')"
      have c: "core (fst z2) = core ?d" using c1 c2 by simp
      have own: "own_lines (fst z2) ?i = ?lines" using c by (simp add: core_def)
      show ?thesis
      proof (cases "HasCapacity demands busy (bk_StartAt b) (bk_EndAt b)")
        case False
        with rest inv2 show ?thesis by (simp add: sql_raise_def)
      next
        case True
        have confirmed: "cal_inv (ce_Now env) (set_booking ?i confirm_row (fst z2))"
        proof (rule set_booking_inv[OF inv2])
          fix r t assume r: "r \<in> set (cal_resources (fst z2))" and t: "covers t b"
            and l: "row_id cr_Base r \<in> bl_ResourceID ` set (own_lines (fst z2) ?i)"
          have "\<forall>li \<in> set ?lines. 1 \<le> bl_Quantity li" using k by (simp add: cal_keys_def)
          from quantity_pos[OF this] l own have q: "0 < quantity_of ?lines (row_id cr_Base r)" by simp
          have "load_of (\<lambda>li. bl_BookingID li \<noteq> ?i) (ce_Now env) ?d (row_id cr_Base r) t + quantity_of ?lines (row_id cr_Base r)
              \<le> at_least_one (cr_Capacity r)"
            by (rule room_for(2)[OF bd bm True k]) (use r l own c q t in \<open>simp_all add: core_def covers_def\<close>)
          moreover have "load_of (\<lambda>li. bl_BookingID li \<noteq> ?i) (ce_Now env) (fst z2) (row_id cr_Base r) t =
              load_of (\<lambda>li. bl_BookingID li \<noteq> ?i) (ce_Now env) ?d (row_id cr_Base r) t"
            using c by (intro load_of_core) (simp_all add: core_def)
          ultimately show "load_of (\<lambda>li. bl_BookingID li \<noteq> ?i) (ce_Now env) (fst z2) (row_id cr_Base r) t +
            quantity_of (own_lines (fst z2) ?i) (row_id cr_Base r) \<le> at_least_one (cr_Capacity r)" using own by simp
        qed (use b c in \<open>simp_all add: confirm_row_def core_def\<close>)
        from rest True have "sql_bind (Bookings_Update ?i confirm_row) (\<lambda>_.
           sql_bind (enqueueExports (ce_OutboxBase env) sc (confirm_row b) ?lines) (\<lambda>_.
           sql_return (confirm_row b, ?lines))) z2 = (x, z')" by simp
        then show ?thesis
        proof (rule inv_then_core)
          fix y z3 assume "Bookings_Update ?i confirm_row z2 = (y, z3)"
          from Bookings_Update_run[OF this] confirmed inv2 show "cal_inv (ce_Now env) (fst z3)" by auto
        qed (intro core_rules same_core_enqueue)
      qed
    qed
  qed
qed

lemma ConfirmBooking_inv:
  assumes run: "ConfirmBooking claims env i z = (x, z')" and inv: "cal_inv (ce_Now env) (fst z)"
  shows "cal_inv (ce_Now env) (fst z')"
  using run unfolding ConfirmBooking_def
proof (cases rule: with_scope_cases)
  case (scope sc)
  from scope(2) show ?thesis
  proof (rule core_then_inv[OF _ same_core_reads(8) inv])
    fix found z1
    assume g: "Bookings_GetInPartition sc i z = (Inr found, z1)" and c: "core (fst z1) = core (fst z)" and inv1: "cal_inv (ce_Now env) (fst z1)"
      and rest: "(case found of None \<Rightarrow> sql_raise ErrNotFound
       | Some b \<Rightarrow>
           if bk_Status b = BookingConfirmed
           then sql_bind (Lines_ListByBooking (row_id bk_Base b)) (\<lambda>lines. sql_return (b, lines))
           else if bk_Status b \<noteq> BookingHold then sql_raise (ErrWith ErrInvalid ''booking not holdable'')
           else if hold_expired (ce_HoldNow env) b then sql_raise (ErrWith ErrConflict ''hold expired'')
           else sql_bind (Lines_ListByBooking (row_id bk_Base b)) (confirm_hold env sc b)) z1 = (x, z')"
    from rest consider "fst z' = fst z1"
      | b where "sql_bind (Lines_ListByBooking (row_id bk_Base b)) (\<lambda>lines. sql_return (b, lines)) z1 = (x, z')"
      | b where "found = Some b" "sql_bind (Lines_ListByBooking (row_id bk_Base b)) (confirm_hold env sc b) z1 = (x, z')"
      by (auto simp: sql_raise_def split: option.splits if_splits)
    then show ?thesis
    proof cases
      case 1
      with inv1 show ?thesis by simp
    next
      case (2 b)
      from core_run[OF booking_list_cases 2] inv1 show ?thesis by (rule core_inv)
    next
      case (3 b)
      have b: "b \<in> set (cal_bookings (fst z1))" using found_in_partition(1)[of sc i z b z1] g 3(1) c by (simp add: core_def)
      from 3(2) show ?thesis
      proof (rule core_then_inv[OF _ same_core_reads(10) inv1])
        fix lines z2
        assume l: "Lines_ListByBooking (row_id bk_Base b) z1 = (Inr lines, z2)" and h: "confirm_hold env sc b lines z2 = (x, z')"
          and c2: "core (fst z2) = core (fst z1)" and inv2: "cal_inv (ce_Now env) (fst z2)"
        have "lines = own_lines (fst z2) (row_id bk_Base b)" using own_lines_run[OF l] c2 by (simp add: core_def)
        with h have h: "confirm_hold env sc b (own_lines (fst z2) (row_id bk_Base b)) z2 = (x, z')" by simp
        show ?thesis by (rule confirm_hold_inv[OF h inv2]) (use b c2 in \<open>simp add: core_def\<close>)
      qed
    qed
  qed
qed (use inv in simp)

lemma CancelBooking_inv:
  assumes run: "CancelBooking claims env i reason z = (x, z')" and inv: "cal_inv now (fst z)"
  shows "cal_inv now (fst z')"
  using run unfolding CancelBooking_def
proof (cases rule: with_scope_cases)
  case (scope sc)
  from scope(2) show ?thesis
  proof (rule core_then_inv[OF _ same_core_reads(8) inv])
    fix found z1
    assume g: "Bookings_GetInPartition sc i z = (Inr found, z1)" and c: "core (fst z1) = core (fst z)" and inv1: "cal_inv now (fst z1)"
      and rest: "(case found of None \<Rightarrow> sql_raise ErrNotFound
       | Some b \<Rightarrow>
           if bk_Status b = BookingCanceled
           then sql_bind (Lines_ListByBooking (row_id bk_Base b)) (\<lambda>lines. sql_return (b, lines))
           else sql_bind (Bookings_Update (row_id bk_Base b) (cancel_row reason)) (\<lambda>_.
                sql_bind (Lines_ListByBooking (row_id bk_Base b)) (\<lambda>lines.
                sql_bind (enqueueDeletes (ce_OutboxBase env) sc (cancel_row reason b) lines) (\<lambda>_.
                sql_return (cancel_row reason b, lines))))) z1 = (x, z')"
    from rest consider "fst z' = fst z1"
      | b where "sql_bind (Lines_ListByBooking (row_id bk_Base b)) (\<lambda>lines. sql_return (b, lines)) z1 = (x, z')"
      | b where "found = Some b" "sql_bind (Bookings_Update (row_id bk_Base b) (cancel_row reason)) (\<lambda>_.
                sql_bind (Lines_ListByBooking (row_id bk_Base b)) (\<lambda>lines.
                sql_bind (enqueueDeletes (ce_OutboxBase env) sc (cancel_row reason b) lines) (\<lambda>_.
                sql_return (cancel_row reason b, lines)))) z1 = (x, z')"
      by (auto simp: sql_raise_def split: option.splits if_splits)
    then show ?thesis
    proof cases
      case 1
      with inv1 show ?thesis by simp
    next
      case (2 b)
      from core_run[OF booking_list_cases 2] inv1 show ?thesis by (rule core_inv)
    next
      case (3 b)
      have b: "b \<in> set (cal_bookings (fst z1))" using found_in_partition(1)[of sc i z b z1] g 3(1) c by (simp add: core_def)
      have canceled: "cal_inv now (set_booking (row_id bk_Base b) (cancel_row reason) (fst z1))"
        by (rule set_booking_inv[OF inv1 b]) (simp_all add: cancel_row_def live_def)
      from 3(2) show ?thesis
      proof (rule inv_then_core)
        fix y z2 assume "Bookings_Update (row_id bk_Base b) (cancel_row reason) z1 = (y, z2)"
        from Bookings_Update_run[OF this] canceled inv1 show "cal_inv now (fst z2)" by auto
      qed (intro core_rules same_core_enqueue)
    qed
  qed
qed (use inv in simp)

section \<open>Resources\<close>

interpretation ci: sql_preorder "\<lambda>d d'. cal_inv now d \<longrightarrow> cal_inv now d'" for now
  by unfold_locales auto

lemma new_resource_load:
  assumes "cal_keys d" and "row_id cr_Base r \<notin> row_id cr_Base ` set (cal_resources d)"
  shows "load now d (row_id cr_Base r) t = 0"
proof -
  have "bl_ResourceID li \<noteq> row_id cr_Base r" if "li \<in> set (cal_booking_lines d)" for li
    using assms that unfolding cal_keys_def by (metis image_eqI)
  then have "filter (\<lambda>li. bl_ResourceID li = row_id cr_Base r) (cal_booking_lines d) = []" by (simp add: filter_empty_conv)
  then show ?thesis by (simp add: load_def load_of_def)
qed

lemma create_resource_inv:
  assumes inv: "cal_inv now d" and fresh: "row_id cr_Base r \<notin> row_id cr_Base ` set (cal_resources d)"
  shows "cal_inv now (d\<lparr>cal_resources := cal_resources d @ [r]\<rparr>)"
proof -
  have k: "cal_keys d" using inv by (simp add: cal_inv_def)
  have "row_id cr_Base r \<noteq> bl_ResourceID li" if "li \<in> set (cal_booking_lines d)" for li
    using k fresh that unfolding cal_keys_def by (metis image_eqI)
  with k fresh have keys: "cal_keys (d\<lparr>cal_resources := cal_resources d @ [r]\<rparr>)"
    unfolding cal_keys_def by auto
  have same: "load now (d\<lparr>cal_resources := cal_resources d @ [r]\<rparr>) i t = load now d i t" for i t
    unfolding load_def by (rule load_of_core) simp_all
  have "load now d (row_id cr_Base r) t \<le> at_least_one (cr_Capacity r)" for t
    unfolding new_resource_load[OF k fresh] by simp
  with inv keys same show ?thesis by (simp add: cal_inv_def within_capacity_def)
qed

lemma update_resource_inv:
  assumes inv: "cal_inv now d" and f: "\<And>r. cr_Base (f r) = cr_Base r"
    and grow: "\<And>r. r \<in> set (cal_resources d) \<Longrightarrow> row_id cr_Base r = i \<Longrightarrow> cr_Capacity r \<le> cr_Capacity (f r)"
  shows "cal_inv now (d\<lparr>cal_resources := update_where (\<lambda>r. row_id cr_Base r = i) f (cal_resources d)\<rparr>)"
    (is "cal_inv now ?d'")
proof -
  have same: "load now ?d' i t = load now d i t" for i t
    unfolding load_def by (rule load_of_core) simp_all
  have "map (row_id cr_Base) (update_where (\<lambda>r. row_id cr_Base r = i) f (cal_resources d)) = map (row_id cr_Base) (cal_resources d)"
    using f by (intro map_update_where) simp
  then have "cal_keys ?d'" using inv f unfolding cal_inv_def
    by (simp add: cal_keys_def bex_update_where ball_update_where if_distrib[of cr_Base] cong: if_cong)
  moreover have "load now d (row_id cr_Base r) t \<le> at_least_one (cr_Capacity (if row_id cr_Base r = i then f r else r))"
    if "r \<in> set (cal_resources d)" for r t
  proof -
    have "load now d (row_id cr_Base r) t \<le> at_least_one (cr_Capacity r)"
      using inv that by (simp add: cal_inv_def within_capacity_def)
    with grow[OF that] show ?thesis by (auto simp: at_least_one_def split: if_splits)
  qed
  ultimately show ?thesis using f
    by (simp add: cal_inv_def within_capacity_def same ball_update_where if_distrib[of cr_Base] cong: if_cong)
qed

text \<open>A call of \<open>EnsureResource\<close> that does not lower the capacity of the resource it finds.\<close>

definition keeps_capacity :: "EnsureResourceInput \<Rightarrow> caldb \<Rightarrow> bool" where
  "keeps_capacity inp d \<longleftrightarrow> (\<forall>r \<in> set (cal_resources d). cr_SubjectKind r = er_SubjectKind inp \<and> cr_SubjectID r = er_SubjectID inp \<longrightarrow>
     er_Capacity inp \<le> 0 \<or> cr_Capacity r \<le> er_Capacity inp)"

lemma EnsureResource_inv:
  assumes run: "EnsureResource claims base inp z = (x, z')" and inv: "cal_inv now (fst z)" and cap: "keeps_capacity inp (fst z)"
  shows "cal_inv now (fst z')"
  using run unfolding EnsureResource_def
proof (cases rule: with_scope_cases)
  case (scope sc)
  show ?thesis
  proof (cases "er_Type inp = [] \<or> er_SubjectKind inp = [] \<or> er_SubjectID inp = []")
    case True
    with scope(2) inv show ?thesis by (auto simp: sql_raise_def split: if_splits)
  next
    case False
    with scope(2) have "sql_bind (Resources_GetBySubject sc (er_SubjectKind inp) (er_SubjectID inp)) (\<lambda>existing.
       case existing of
         Some r \<Rightarrow>
           sql_bind (if merge_resource inp r \<noteq> r
             then sql_exec (\<lambda>d. d\<lparr>cal_resources := update_where (\<lambda>x. row_id cr_Base x = row_id cr_Base r)
                    (merge_resource inp) (cal_resources d)\<rparr>)
             else sql_return ()) (\<lambda>_. sql_return (merge_resource inp r))
       | None \<Rightarrow>
           sql_bind (sql_wrap ''calendar: create resource'' (Resources_Create (new_resource inp base))) (\<lambda>_.
           sql_return (new_resource inp base))) z = (x, z')" by simp
    then show ?thesis
    proof (rule core_then_inv[OF _ same_core_reads(5) inv])
      fix existing z1
      assume g: "Resources_GetBySubject sc (er_SubjectKind inp) (er_SubjectID inp) z = (Inr existing, z1)"
        and c: "core (fst z1) = core (fst z)" and inv1: "cal_inv now (fst z1)"
        and rest: "(case existing of
         Some r \<Rightarrow>
           sql_bind (if merge_resource inp r \<noteq> r
             then sql_exec (\<lambda>d. d\<lparr>cal_resources := update_where (\<lambda>x. row_id cr_Base x = row_id cr_Base r)
                    (merge_resource inp) (cal_resources d)\<rparr>)
             else sql_return ()) (\<lambda>_. sql_return (merge_resource inp r))
       | None \<Rightarrow>
           sql_bind (sql_wrap ''calendar: create resource'' (Resources_Create (new_resource inp base))) (\<lambda>_.
           sql_return (new_resource inp base))) z1 = (x, z')"
      show ?thesis
      proof (cases existing)
        case None
        let ?m = "Resources_Create (new_resource inp base)"
        from None rest have "tables_after ?m z1 = fst z'"
          using tables_after_bind_return[of "sql_wrap ''calendar: create resource'' ?m" "\<lambda>_. new_resource inp base" z1]
            tables_after_wrap[of "''calendar: create resource''" ?m z1]
          by (simp add: tables_after_def del: tables_after_wrap)
        moreover have "preserves (\<lambda>d d'. cal_inv now d \<longrightarrow> cal_inv now d') ?m"
          unfolding Resources_Create_def
          by (rule ci.preserves_stmt) (auto simp: list_ex_iff image_iff intro!: create_resource_inv split: if_splits)
        ultimately show ?thesis using inv1 preservesD[of _ ?m "fst z1" "snd z1"] by fastforce
      next
        case (Some r)
        let ?u = "sql_exec (\<lambda>d. d\<lparr>cal_resources := update_where (\<lambda>x. row_id cr_Base x = row_id cr_Base r)
                    (merge_resource inp) (cal_resources d)\<rparr>)"
        from g Some have r: "List.find (\<lambda>r. in_partition sc (cr_Base r) \<and> cr_SubjectKind r = er_SubjectKind inp \<and>
            cr_SubjectID r = er_SubjectID inp) (cal_resources (fst z)) = Some r"
          by (auto simp: Resources_GetBySubject_def sql_wrap_Inr dest!: sql_query_InrD)
        have upd: "cal_inv now ((fst z1)\<lparr>cal_resources := update_where (\<lambda>x. row_id cr_Base x = row_id cr_Base r)
                    (merge_resource inp) (cal_resources (fst z1))\<rparr>)"
        proof (rule update_resource_inv[OF inv1])
          fix r' assume r': "r' \<in> set (cal_resources (fst z1))" "row_id cr_Base r' = row_id cr_Base r"
          have "distinct (map (row_id cr_Base) (cal_resources (fst z)))" using inv by (simp add: cal_inv_def cal_keys_def)
          from distinct_key_eq[OF this] r' c find_SomeD[OF r] have "r' = r" by (metis core_def fst_conv)
          with find_SomeD[OF r] cap show "cr_Capacity r' \<le> cr_Capacity (merge_resource inp r')"
            by (auto simp: keeps_capacity_def merge_resource_def)
        qed (simp add: merge_resource_def)
        have "tables_after (if merge_resource inp r \<noteq> r then ?u else sql_return ()) z1 = fst z'"
          using rest Some tables_after_bind_return[of "if merge_resource inp r \<noteq> r then ?u else sql_return ()" "\<lambda>_. merge_resource inp r" z1]
          by (simp add: tables_after_def)
        moreover have "tables_after ?u z1 = fst z1 \<or> tables_after ?u z1 = (fst z1)\<lparr>cal_resources := update_where (\<lambda>x. row_id cr_Base x = row_id cr_Base r)
                    (merge_resource inp) (cal_resources (fst z1))\<rparr>"
          by (rule tables_after_exec)
        ultimately show ?thesis using upd inv1 by (auto simp: tables_after_def sql_return_def split: if_splits)
      qed
    qed
  qed
qed (use inv in simp)

section \<open>External sync\<close>

text \<open>The sync writes connections, busy blocks, the outbox and the event identifiers of lines.\<close>

definition unsynced :: "BookingLine \<Rightarrow> BookingLine" where
  "unsynced li = li\<lparr>bl_ExternalEventID := []\<rparr>"

definition same_load :: "caldb \<Rightarrow> caldb \<Rightarrow> bool" where
  "same_load d d' \<longleftrightarrow> cal_resources d' = cal_resources d \<and> cal_bookings d' = cal_bookings d \<and>
     map unsynced (cal_booking_lines d') = map unsynced (cal_booking_lines d)"

interpretation sl: sql_preorder same_load
  by unfold_locales (auto simp: same_load_def)

lemma same_load_core: "preserves same_core m \<Longrightarrow> preserves same_load m"
  by (simp add: preserves_def same_load_def same_core_def core_def)

lemma load_unsynced:
  "load now d r t = sum_list (map (\<lambda>li. if bl_ResourceID li = r then line_load now t (booking_of d li) li else 0)
     (map unsynced (cal_booking_lines d)))"
proof -
  have "(if bl_ResourceID (unsynced li) = r then line_load now t (booking_of d (unsynced li)) (unsynced li) else 0) =
      (if bl_ResourceID li = r then line_load now t (booking_of d li) li else 0)" for li
    by (simp add: unsynced_def booking_of_def line_load_def split: option.split)
  then show ?thesis unfolding load_def load_of_def sum_filter map_map comp_def by simp
qed

lemma cal_keys_unsynced: "same_load d d' \<Longrightarrow> cal_keys d \<Longrightarrow> cal_keys d'"
proof -
  assume l: "same_load d d'" and k: "cal_keys d"
  have mem: "\<exists>li' \<in> set (cal_booking_lines d). unsynced li = unsynced li'" if "li \<in> set (cal_booking_lines d')" for li
  proof -
    have "unsynced li \<in> set (map unsynced (cal_booking_lines d))" using l that unfolding same_load_def by (metis imageI list.set_map)
    then show ?thesis by auto
  qed
  have eq: "bl_Quantity li = bl_Quantity li' \<and> bl_BookingID li = bl_BookingID li' \<and> bl_ResourceID li = bl_ResourceID li'"
    if "unsynced li = unsynced li'" for li li'
    using that by (cases li; cases li') (simp add: unsynced_def)
  have P: "P (bl_Quantity li) (bl_BookingID li) (bl_ResourceID li)"
    if "\<forall>li \<in> set (cal_booking_lines d). P (bl_Quantity li) (bl_BookingID li) (bl_ResourceID li)" "li \<in> set (cal_booking_lines d')" for P li
    using mem[OF that(2)] that(1) eq by metis
  let ?B = "cal_bookings d" and ?R = "cal_resources d"
  have 1: "\<forall>li \<in> set (cal_booking_lines d). 1 \<le> bl_Quantity li \<and>
        (\<exists>b \<in> set ?B. row_id bk_Base b = bl_BookingID li) \<and> (\<exists>r \<in> set ?R. row_id cr_Base r = bl_ResourceID li)"
    and 2: "\<forall>li \<in> set (cal_booking_lines d). \<forall>b \<in> set ?B. \<forall>r \<in> set ?R.
        row_id bk_Base b = bl_BookingID li \<and> row_id cr_Base r = bl_ResourceID li \<longrightarrow> same_partition (bk_Base b) (cr_Base r)"
    and 3: "distinct (map (row_id cr_Base) ?R)" "distinct (map (row_id bk_Base) ?B)"
    using k unfolding cal_keys_def by blast+
  from P[of "\<lambda>q i j. 1 \<le> q \<and> (\<exists>b \<in> set ?B. row_id bk_Base b = i) \<and> (\<exists>r \<in> set ?R. row_id cr_Base r = j)", OF 1]
    P[of "\<lambda>q i j. \<forall>b \<in> set ?B. \<forall>r \<in> set ?R. row_id bk_Base b = i \<and> row_id cr_Base r = j \<longrightarrow> same_partition (bk_Base b) (cr_Base r)", OF 2]
    3 l show ?thesis unfolding cal_keys_def same_load_def by simp
qed

lemma same_load_inv: "same_load d d' \<Longrightarrow> cal_inv now d \<Longrightarrow> cal_inv now d'"
proof -
  assume l: "same_load d d'" and inv: "cal_inv now d"
  have "booking_of d' = booking_of d" using l by (simp add: same_load_def booking_of_def fun_eq_iff)
  then have "load now d' r t = load now d r t" for r t
    using l by (simp only: load_unsynced same_load_def)
  with l inv cal_keys_unsynced[OF l] show ?thesis by (simp add: cal_inv_def within_capacity_def same_load_def)
qed

lemma same_load_external_id: "preserves same_load (sql_exec (\<lambda>d. d\<lparr>cal_booking_lines :=
    update_where P (\<lambda>x. x\<lparr>bl_ExternalEventID := e\<rparr>) (cal_booking_lines d)\<rparr>))"
  by (rule sl.preserves_exec) (simp add: same_load_def update_where_def unsynced_def cong: map_cong)

lemma same_core_UpsertExternal: "preserves same_core (UpsertExternal b)"
proof -
  have "preserves same_core (sql_exec (\<lambda>d. d\<lparr>cal_busy_blocks := g d\<rparr>))" for g
    by (rule sc.preserves_exec) (simp add: same_core_def core_def)
  then show ?thesis unfolding UpsertExternal_def by (intro core_rules)
qed

lemma same_core_importBusy: "preserves same_core (importBusy providers stamp s c from to)"
  unfolding importBusy_def by (auto split: option.split sum.split intro!: core_rules same_core_UpsertExternal)

lemma same_load_deliverExport: "preserves same_load (deliverExport providers row)"
  unfolding deliverExport_def Let_def
  by (intro sl.preserves_rules same_load_external_id same_load_core[OF same_core_reads(2)]
      same_load_core[OF same_core_reads(8)] same_load_core[OF same_core_reads(10)])

lemma same_load_deliver_one: "preserves same_load (deliver_one providers row)"
  unfolding deliver_one_def
  by (intro sl.preserves_rules same_load_deliverExport same_load_core[OF same_core_writes(2)] same_load_core[OF same_core_writes(3)])

lemma same_load_DrainExportOutbox: "preserves same_load (DrainExportOutbox providers limit)"
  unfolding DrainExportOutbox_def by (intro sl.preserves_rules same_load_deliver_one same_load_core[OF same_core_reads(12)])

lemma same_core_sync_connection: "preserves same_core (sync_connection providers stamp s imp now from to c)"
  unfolding sync_connection_def split_def by (intro core_rules same_core_importBusy)

lemma preserves_with_scope: "(\<And>s. preserves same_load (k s)) \<Longrightarrow> preserves same_load (with_scope claims k)"
  unfolding with_scope_def by (intro sl.preserves_rules)

lemma same_load_TriggerSync: "preserves same_load (TriggerSync providers stamp n claims now cid imp ex)"
  unfolding TriggerSync_def
  by (intro preserves_with_scope sl.preserves_rules same_load_DrainExportOutbox same_load_core[OF same_core_sync_connection]
      same_load_core[OF same_core_reads(2)] same_load_core[OF same_core_reads(3)])

lemma same_load_GetResource: "preserves same_load (GetResource claims i)"
  unfolding GetResource_def by (intro preserves_with_scope sl.preserves_rules same_load_core[OF same_core_reads(4)])

lemma same_core_UpsertForResource: "preserves same_core (UpsertForResource s a)"
proof -
  have "preserves same_core (sql_exec (\<lambda>d. d\<lparr>cal_availability := g d\<rparr>))" for g
    by (rule sc.preserves_exec) (simp add: same_core_def core_def)
  then show ?thesis unfolding UpsertForResource_def Let_def by (intro core_rules)
qed

lemma same_load_SetAvailability: "preserves same_load (SetAvailability claims base inp)"
  unfolding SetAvailability_def
  by (intro preserves_with_scope sl.preserves_rules same_load_GetResource same_load_core[OF same_core_UpsertForResource])

lemma same_load_UpsertExternalConnection: "preserves same_load (UpsertExternalConnection orm claims base inp)"
  unfolding UpsertExternalConnection_def Let_def
  by (intro preserves_with_scope sl.preserves_rules same_load_GetResource same_load_core[OF same_core_reads(1)]
      same_load_core[OF same_core_writes(4)] same_load_core[OF same_core_writes(5)])

section \<open>Histories\<close>

text \<open>
  One call of the service.  The state carries the latest clock reading; the framework stamps a
  new booking with the tenant and partition of the caller.
\<close>

definition stamps_scope :: "Claims option \<Rightarrow> BaseModel \<Rightarrow> bool" where
  "stamps_scope claims base \<longleftrightarrow> (case ScopeFromContext claims of Inl _ \<Rightarrow> True | Inr sc \<Rightarrow> in_partition sc base)"

inductive cal_step :: "time \<times> caldb \<Rightarrow> time \<times> caldb \<Rightarrow> bool" where
  create: "now \<le> ce_Now env \<Longrightarrow> stamps_scope claims (ce_Base env) \<Longrightarrow>
     CreateBooking claims env inp (d, fs) = (x, (d', fs')) \<Longrightarrow> cal_step (now, d) (ce_Now env, d')"
| confirm: "now \<le> ce_Now env \<Longrightarrow> ConfirmBooking claims env i (d, fs) = (x, (d', fs')) \<Longrightarrow> cal_step (now, d) (ce_Now env, d')"
| cancel: "CancelBooking claims env i reason (d, fs) = (x, (d', fs')) \<Longrightarrow> cal_step (now, d) (now, d')"
| ensure: "keeps_capacity res d \<Longrightarrow> EnsureResource claims base res (d, fs) = (r, (d', fs')) \<Longrightarrow> cal_step (now, d) (now, d')"
| availability: "SetAvailability claims base av (d, fs) = (a, (d', fs')) \<Longrightarrow> cal_step (now, d) (now, d')"
| connect: "UpsertExternalConnection orm claims base con (d, fs) = (c, (d', fs')) \<Longrightarrow> cal_step (now, d) (now, d')"
| sync: "TriggerSync providers stamp days claims clock cid imp ex (d, fs) = (s, (d', fs')) \<Longrightarrow> cal_step (now, d) (now, d')"
| drain: "DrainExportOutbox providers limit (d, fs) = (n, (d', fs')) \<Longrightarrow> cal_step (now, d) (now, d')"
| tick: "now \<le> now' \<Longrightarrow> cal_step (now, d) (now', d)"

inductive_cases cal_stepE: "cal_step s t"

definition empty_cal :: caldb where
  "empty_cal = \<lparr>cal_resources = [], cal_availability = [], cal_busy_blocks = [], cal_bookings = [],
     cal_booking_lines = [], cal_external_connections = [], cal_sync_outbox = []\<rparr>"

interpretation cal: transition_system cal_step "\<lambda>(now, d). cal_inv now d"
proof unfold_locales
  fix s t assume "cal_step s t" and "case s of (now, d) \<Rightarrow> cal_inv now d"
  then show "case t of (now, d) \<Rightarrow> cal_inv now d"
  proof (induction rule: cal_step.induct)
    case (create now env claims inp d fs x d' fs')
    then have "cal_inv (ce_Now env) d" using cal_inv_mono by simp
    then have "cal_inv (ce_Now env) d'"
      by (rule CreateBooking_inv[OF create(3)]) (use create(2) in \<open>simp add: stamps_scope_def\<close>)
    then show ?case by simp
  next
    case (confirm now env claims i d fs x d' fs')
    then have "cal_inv (ce_Now env) d" using cal_inv_mono by simp
    then show ?case using ConfirmBooking_inv[OF confirm(2)] by simp
  next
    case (cancel claims env i reason d fs x d' fs' now)
    then show ?case using CancelBooking_inv[OF cancel(1), of now] by simp
  next
    case (ensure res d claims base fs r d' fs' now)
    then show ?case using EnsureResource_inv[OF ensure(2), of now] by simp
  next
    case (availability claims base av d fs a d' fs' now)
    then show ?case using same_load_inv[OF preserves_run[OF same_load_SetAvailability availability(1)], of now] by simp
  next
    case (connect orm claims base con d fs c d' fs' now)
    then show ?case using same_load_inv[OF preserves_run[OF same_load_UpsertExternalConnection connect(1)], of now] by simp
  next
    case (sync providers stamp days claims clock cid imp ex d fs s d' fs' now)
    then show ?case using same_load_inv[OF preserves_run[OF same_load_TriggerSync sync(1)], of now] by simp
  next
    case (drain providers limit d fs n d' fs' now)
    then show ?case using same_load_inv[OF preserves_run[OF same_load_DrainExportOutbox drain(1)], of now] by simp
  next
    case (tick now now' d)
    then show ?case using cal_inv_mono by simp
  qed
qed

lemma empty_cal_inv: "cal_inv now empty_cal"
  by (simp add: cal_inv_def cal_keys_def within_capacity_def empty_cal_def)

end
