(* ===== verification/Calendar_Slots_Spec.thy ===== *)
theory Calendar_Slots_Spec
  imports Calendar_Slots
begin

text \<open>
  What \<open>ComputeSlots\<close> computes, stated without its loops.

  \<open>rule_window\<close> is a window one rule opens on a day, \<open>common_window\<close> the intersection of one
  such window per demand, \<open>offered\<close> a slot that starts on the quarter-hour grid of a common
  window, ends inside it, starts inside the search window and finds capacity.  The slots
  returned are exactly the offered ones.
\<close>

section \<open>Windows of one day\<close>

definition rule_window :: "location \<Rightarrow> int \<Rightarrow> WeekRule list \<Rightarrow> window \<Rightarrow> bool" where
  "rule_window loc day rules w \<longleftrightarrow> (\<exists>r \<in> set rules. \<exists>sh sm eh em. wr_Weekday r = Weekday day \<and>
     ParseClock (wr_Start r) = Inr (sh, sm) \<and> ParseClock (wr_End r) = Inr (eh, em) \<and>
     w = (loc_date loc day sh sm, loc_date loc day eh em) \<and> fst w < snd w)"

definition demand_window :: "(string \<Rightarrow> location option) \<Rightarrow> location \<Rightarrow> int \<Rightarrow> ResourceDemand \<Rightarrow> window \<Rightarrow> bool" where
  "demand_window tz loc day d w \<longleftrightarrow> rule_window (zone tz loc (rd_Timezone d)) day (rd_Rules d) w"

definition meet :: "window \<Rightarrow> window \<Rightarrow> window" where
  "meet x y = (max (fst x) (fst y), min (snd x) (snd y))"

fun common_window :: "(string \<Rightarrow> location option) \<Rightarrow> location \<Rightarrow> int \<Rightarrow> ResourceDemand list \<Rightarrow> window \<Rightarrow> window \<Rightarrow> bool" where
  "common_window tz loc day [] acc w \<longleftrightarrow> w = acc \<and> fst w < snd w"
| "common_window tz loc day (d # ds) acc w \<longleftrightarrow>
     (\<exists>v. demand_window tz loc day d v \<and> common_window tz loc day ds (meet acc v) w)"

lemma rule_windows_set:
  "rule_windows loc day rs = Inr ws \<Longrightarrow> w \<in> set ws \<longleftrightarrow> rule_window loc day rs w"
proof (induction rs arbitrary: ws)
  case (Cons r rs)
  show ?case
  proof (cases "wr_Weekday r = Weekday day")
    case True
    then obtain sh sm eh em ws' where c: "ParseClock (wr_Start r) = Inr (sh, sm)" "ParseClock (wr_End r) = Inr (eh, em)"
      "rule_windows loc day rs = Inr ws'"
      and ws: "ws = (if loc_date loc day eh em > loc_date loc day sh sm
         then (loc_date loc day sh sm, loc_date loc day eh em) # ws' else ws')"
      using Cons.prems by (auto simp: Let_def split: sum.splits prod.splits)
    have "w \<in> set ws \<longleftrightarrow> (w = (loc_date loc day sh sm, loc_date loc day eh em) \<and> fst w < snd w) \<or> w \<in> set ws'"
      using ws by auto
    with Cons.IH[OF c(3)] c(1,2) True show ?thesis by (auto simp: rule_window_def)
  next
    case False
    with Cons.prems have "rule_windows loc day rs = Inr ws" by simp
    with Cons.IH False show ?thesis by (simp add: rule_window_def)
  qed
qed (simp add: rule_window_def)

lemma intersect_one:
  "(let start = (if fst y > fst x then fst y else fst x); end' = (if snd y < snd x then snd y else snd x)
    in if end' > start then [(start, end')] else []) = (if fst (meet x y) < snd (meet x y) then [meet x y] else [])"
proof -
  have "(if fst y > fst x then fst y else fst x) = fst (meet x y)" "(if snd y < snd x then snd y else snd x) = snd (meet x y)"
    by (simp_all add: meet_def max_def min_def)
  then show ?thesis by (simp add: Let_def)
qed

lemma intersectWindows_set:
  "w \<in> set (intersectWindows a b) \<longleftrightarrow> (\<exists>x \<in> set a. \<exists>y \<in> set b. w = meet x y \<and> fst w < snd w)"
proof -
  have "w \<in> set (intersectWindows a b) \<longleftrightarrow>
      (\<exists>x \<in> set a. \<exists>y \<in> set b. w \<in> set (if fst (meet x y) < snd (meet x y) then [meet x y] else []))"
    unfolding intersectWindows_def intersect_one by simp blast
  also have "\<dots> \<longleftrightarrow> (\<exists>x \<in> set a. \<exists>y \<in> set b. w = meet x y \<and> fst w < snd w)"
    by (intro bex_cong refl) auto
  finally show ?thesis .
qed

lemma common_window_valid: "common_window tz loc day ds acc w \<Longrightarrow> fst acc < snd acc"
proof (induction ds arbitrary: acc)
  case (Cons d ds)
  then obtain v where "common_window tz loc day ds (meet acc v) w" by auto
  from Cons.IH[OF this] show ?case by (simp add: meet_def)
qed simp

lemma day_free_acc:
  assumes "day_free tz loc day ds (Some free) = Inr (Some ws)" and "\<forall>v \<in> set free. fst v < snd v"
  shows "w \<in> set ws \<longleftrightarrow> (\<exists>v \<in> set free. common_window tz loc day ds v w)"
  using assms
proof (induction ds arbitrary: free)
  case (Cons d ds)
  let ?z = "zone tz loc (rd_Timezone d)"
  from Cons.prems(1) obtain vs where vs: "rule_windows ?z day (rd_Rules d) = Inr vs"
    and run: "day_free tz loc day ds (Some (intersectWindows free vs)) = Inr (Some ws)"
    by (auto split: if_splits sum.splits)
  have "\<forall>v \<in> set (intersectWindows free vs). fst v < snd v" by (auto simp: intersectWindows_set)
  from Cons.IH[OF run this] have "w \<in> set ws \<longleftrightarrow> (\<exists>v \<in> set (intersectWindows free vs). common_window tz loc day ds v w)" .
  also have "\<dots> \<longleftrightarrow> (\<exists>x \<in> set free. \<exists>y \<in> set vs. fst (meet x y) < snd (meet x y) \<and> common_window tz loc day ds (meet x y) w)"
    unfolding bex_simps Bex_def intersectWindows_set by (metis (no_types, lifting))
  also have "\<dots> \<longleftrightarrow> (\<exists>x \<in> set free. \<exists>y. demand_window tz loc day d y \<and> common_window tz loc day ds (meet x y) w)"
    unfolding demand_window_def rule_windows_set[OF vs, symmetric] using common_window_valid by blast
  finally show ?case by simp
qed auto

text \<open>All windows common to the demands of a day.\<close>

definition open_windows :: "(string \<Rightarrow> location option) \<Rightarrow> location \<Rightarrow> int \<Rightarrow> ResourceDemand list \<Rightarrow> window \<Rightarrow> bool" where
  "open_windows tz loc day demands w \<longleftrightarrow>
     (\<forall>d \<in> set demands. \<not> dayBlocked (rd_Exceptions d) (FormatDay day)) \<and>
     (\<exists>v. demand_window tz loc day (hd demands) v \<and> common_window tz loc day (tl demands) v w)"

lemma day_free_blocked:
  "day_free tz loc day ds acc = Inr None \<Longrightarrow> \<exists>d \<in> set ds. dayBlocked (rd_Exceptions d) (FormatDay day)"
  by (induction ds arbitrary: acc) (auto split: if_splits sum.splits)

lemma day_free_unblocked:
  "day_free tz loc day ds acc = Inr (Some ws) \<Longrightarrow> \<forall>d \<in> set ds. \<not> dayBlocked (rd_Exceptions d) (FormatDay day)"
  by (induction ds arbitrary: acc) (auto split: if_splits sum.splits)

lemma day_free_set:
  assumes "day_free tz loc day demands None = Inr free" and "demands \<noteq> []"
  shows "w \<in> set (case free of None \<Rightarrow> [] | Some ws \<Rightarrow> ws) \<longleftrightarrow> open_windows tz loc day demands w"
proof (cases free)
  case None
  then show ?thesis using day_free_blocked[of tz loc day demands None] assms(1) by (auto simp: open_windows_def)
next
  case (Some ws)
  obtain d ds where d: "demands = d # ds" using assms(2) by (cases demands) auto
  from assms(1) Some d obtain vs where vs: "rule_windows (zone tz loc (rd_Timezone d)) day (rd_Rules d) = Inr vs"
    and run: "day_free tz loc day ds (Some vs) = Inr (Some ws)" by (auto split: if_splits sum.splits)
  have v: "\<And>v. v \<in> set vs \<longleftrightarrow> demand_window tz loc day d v"
    using rule_windows_set[OF vs] by (simp add: demand_window_def)
  then have "\<forall>v \<in> set vs. fst v < snd v" by (auto simp: demand_window_def rule_window_def)
  from day_free_acc[OF run this] have "w \<in> set ws \<longleftrightarrow> (\<exists>v. demand_window tz loc day d v \<and> common_window tz loc day ds v w)"
    unfolding v[symmetric] by blast
  moreover have "\<forall>d \<in> set demands. \<not> dayBlocked (rd_Exceptions d) (FormatDay day)"
    using day_free_unblocked assms(1) Some by blast
  ultimately show ?thesis using Some d by (simp add: open_windows_def)
qed

section \<open>Slots\<close>

lemma grid_set:
  assumes "0 < dur"
  shows "x \<in> set (grid end' dur t) \<longleftrightarrow> (\<exists>k::nat. x = t + int k * (15 * Minute)) \<and> x + dur \<le> end'"
proof (induction end' dur t rule: grid.induct)
  case (1 end' dur t)
  have step: "(\<exists>k::nat. x = t + int k * (15 * Minute)) \<longleftrightarrow> x = t \<or> (\<exists>k::nat. x = t + 15 * Minute + int k * (15 * Minute))"
  proof
    assume "\<exists>k::nat. x = t + int k * (15 * Minute)"
    then obtain k where k: "x = t + int k * (15 * Minute)" by blast
    then show "x = t \<or> (\<exists>k::nat. x = t + 15 * Minute + int k * (15 * Minute))"
      by (cases k) (auto simp: algebra_simps)
  next
    assume "x = t \<or> (\<exists>k::nat. x = t + 15 * Minute + int k * (15 * Minute))"
    then show "\<exists>k::nat. x = t + int k * (15 * Minute)"
    proof
      assume "\<exists>k::nat. x = t + 15 * Minute + int k * (15 * Minute)"
      then obtain k where "x = t + 15 * Minute + int k * (15 * Minute)" by blast
      then have "x = t + int (Suc k) * (15 * Minute)" by (simp add: algebra_simps)
      then show ?thesis by blast
    qed (rule exI[of _ 0], simp)
  qed
  have pos: "0 < Minute" by (simp add: Minute_def Second_def)
  show ?case
  proof (cases "t + dur \<le> end'")
    case True
    then show ?thesis using 1[OF True] step by (subst grid.simps) auto
  next
    case False
    have "\<not> x + dur \<le> end'" if "x = t + int k * (15 * Minute)" for k
    proof -
      have "0 \<le> int k * (15 * Minute)" using pos by simp
      with that False show ?thesis by linarith
    qed
    with False show ?thesis by (subst grid.simps) auto
  qed
qed

definition offered ::
  "(string \<Rightarrow> location option) \<Rightarrow> location \<Rightarrow> ResourceDemand list \<Rightarrow> (string \<Rightarrow> BusyInterval list) \<Rightarrow>
    time \<Rightarrow> time \<Rightarrow> duration \<Rightarrow> int \<Rightarrow> Slot \<Rightarrow> bool"
where
  "offered tz loc demands busy windowStart windowEnd dur day s \<longleftrightarrow>
     (\<exists>w. open_windows tz loc day demands w \<and> (\<exists>k::nat. sl_Start s = fst w + int k * (15 * Minute)) \<and> sl_End s \<le> snd w) \<and>
     sl_End s = sl_Start s + dur \<and> windowStart \<le> sl_Start s \<and> sl_Start s < windowEnd \<and>
     allHaveCapacity demands busy (sl_Start s) (sl_End s)"

lemma window_slots_set:
  assumes "0 < dur"
  shows "s \<in> set (window_slots demands busy windowStart windowEnd dur w) \<longleftrightarrow>
    (\<exists>k::nat. sl_Start s = fst w + int k * (15 * Minute)) \<and> sl_End s \<le> snd w \<and>
    sl_End s = sl_Start s + dur \<and> windowStart \<le> sl_Start s \<and> sl_Start s < windowEnd \<and>
    allHaveCapacity demands busy (sl_Start s) (sl_End s)"
  (is "?L \<longleftrightarrow> ?R")
proof
  assume ?L
  then obtain t where t: "s = \<lparr>sl_Start = t, sl_End = t + dur\<rparr>" "t \<in> set (grid (snd w) dur (fst w))"
    "t < windowEnd" "t \<ge> windowStart" "allHaveCapacity demands busy t (t + dur)"
    by (auto simp: window_slots_def)
  with grid_set[OF assms, of t "snd w" "fst w"] show ?R by auto
next
  assume R: ?R
  then have s: "s = \<lparr>sl_Start = sl_Start s, sl_End = sl_Start s + dur\<rparr>" by (cases s) simp
  from R have "sl_Start s \<in> set (grid (snd w) dur (fst w))" using grid_set[OF assms, of "sl_Start s" "snd w" "fst w"] by auto
  with R assms have "sl_Start s \<in> set (filter (\<lambda>t. t < windowEnd \<and> t + dur > windowStart \<and> t \<ge> windowStart \<and>
      allHaveCapacity demands busy t (t + dur)) (grid (snd w) dur (fst w)))" by auto
  then show ?L unfolding window_slots_def set_map using s by blast
qed

lemma day_slots_set:
  assumes "day_slots tz loc demands busy windowStart windowEnd dur days = Inr slots" and "demands \<noteq> []" and "0 < dur"
  shows "s \<in> set slots \<longleftrightarrow> (\<exists>day \<in> set days. offered tz loc demands busy windowStart windowEnd dur day s)"
  using assms(1)
proof (induction days arbitrary: slots)
  case (Cons day days)
  then obtain free rest where f: "day_free tz loc day demands None = Inr free"
    "day_slots tz loc demands busy windowStart windowEnd dur days = Inr rest"
    and slots: "slots = concat (map (window_slots demands busy windowStart windowEnd dur)
      (case free of None \<Rightarrow> [] | Some ws \<Rightarrow> ws)) @ rest"
    by (auto split: sum.splits)
  have "s \<in> set (concat (map (window_slots demands busy windowStart windowEnd dur)
      (case free of None \<Rightarrow> [] | Some ws \<Rightarrow> ws))) \<longleftrightarrow> offered tz loc demands busy windowStart windowEnd dur day s"
    unfolding set_concat set_map offered_def
    using day_free_set[OF f(1) assms(2)] window_slots_set[OF assms(3)] by blast
  with Cons.IH[OF f(2)] slots show ?case by simp
qed simp

lemma ComputeSlots_set:
  assumes "ComputeSlots tz demands busy windowStart windowEnd durationMin = Inr slots" and "durationMin * Minute < 2 ^ 63"
  shows "s \<in> set slots \<longleftrightarrow>
    (\<exists>day \<in> set (window_days (zone tz UTC (rd_Timezone (hd demands))) windowStart windowEnd).
       offered tz (zone tz UTC (rd_Timezone (hd demands))) demands busy windowStart windowEnd (durationMin * Minute) day s)"
proof -
  have w: "0 < durationMin \<Longrightarrow> wrap64 (durationMin * Minute) = durationMin * Minute"
    using assms(2) by (intro wrap64_id) (auto simp: Minute_def Second_def)
  from assms(1) w have "0 < durationMin" "demands \<noteq> []"
    and run: "day_slots tz (zone tz UTC (rd_Timezone (hd demands))) demands busy windowStart windowEnd (durationMin * Minute)
      (window_days (zone tz UTC (rd_Timezone (hd demands))) windowStart windowEnd) = Inr slots"
    by (auto simp: ComputeSlots_def Let_def split: if_splits list.splits option.splits)
  then show ?thesis by (intro day_slots_set[OF run]) (auto simp: Minute_def Second_def)
qed

text \<open>
  C20. \<open>ComputeSlots\<close> returns exactly the offered slots: those that start on a quarter-hour of a
  window open for every resource on a day no resource blocks, end inside that window, start
  inside the search window, and leave every resource enough capacity.
\<close>

theorem compute_slots_exact:
  assumes "ComputeSlots tz demands busy windowStart windowEnd durationMin = Inr slots" and "durationMin * Minute < 2 ^ 63"
  shows "s \<in> set slots \<longleftrightarrow>
    (\<exists>day \<in> set (window_days (zone tz UTC (rd_Timezone (hd demands))) windowStart windowEnd).
       offered tz (zone tz UTC (rd_Timezone (hd demands))) demands busy windowStart windowEnd (durationMin * Minute) day s)"
  by (rule ComputeSlots_set[OF assms])

text \<open>A resource open on Mondays from nine to ten, and one busy interval.\<close>

definition monday_demand :: ResourceDemand where
  "monday_demand = \<lparr>rd_ResourceID = ''r'', rd_Capacity = 1, rd_Quantity = 1,
     rd_Rules = [\<lparr>wr_Weekday = 1, wr_Start = ''09:00'', wr_End = ''10:00''\<rparr>], rd_Exceptions = [], rd_Timezone = []\<rparr>"

lemma ParseClock_samples: "ParseClock ''09:00'' = Inr (9, 0)" "ParseClock ''10:00'' = Inr (10, 0)"
  by (simp_all add: ParseClock_def scan_int_def isBlank_def isDigit_def digits_value_def Let_def less_eq_char_def)

lemma monday_slots:
  "ComputeSlots (\<lambda>_. None) [monday_demand] (\<lambda>_. []) 0 (12 * Hour) 45 =
     Inr [\<lparr>sl_Start = 9 * Hour, sl_End = 9 * Hour + 45 * Minute\<rparr>,
          \<lparr>sl_Start = 9 * Hour + 15 * Minute, sl_End = 10 * Hour\<rparr>]"
  by (simp add: ComputeSlots_def wrap64_def monday_demand_def demand_error_def at_least_one_def zone_def window_days_def UTC_def
      Day_def Hour_def Minute_def Second_def dayBlocked_def Weekday_def ParseClock_samples window_slots_def
      grid.simps allHaveCapacity_def used_units_def upto.simps Let_def)

theorem compute_slots_exact_witness:
  "\<exists>day \<in> set (window_days UTC 0 (12 * Hour)).
     offered (\<lambda>_. None) UTC [monday_demand] (\<lambda>_. []) 0 (12 * Hour) (45 * Minute) day
       \<lparr>sl_Start = 9 * Hour, sl_End = 9 * Hour + 45 * Minute\<rparr>"
  using compute_slots_exact[OF monday_slots, where s = "\<lparr>sl_Start = 9 * Hour, sl_End = 9 * Hour + 45 * Minute\<rparr>"]
  by (simp add: monday_demand_def zone_def Minute_def Second_def)

end
