(* ===== verification/Calendar_Properties.thy ===== *)
theory Calendar_Properties
  imports Calendar_Steps Calendar_Slots_Spec
begin

text \<open>
  Properties of the calendar: capacity along histories and under interleaving, slots that can be
  booked, retries of a create, exports of canceled bookings and the escaping of iCalendar text.
\<close>

section \<open>Sample data\<close>

definition base_row :: "string \<Rightarrow> BaseModel" where
  "base_row i = \<lparr>bm_ID = i, bm_TenantID = ''t'', bm_PartitionID = ''p'', bm_CreatedAt = 0\<rparr>"

definition sample_claims :: "Claims option" where
  "sample_claims = Some \<lparr>cl_TenantID = ''t'', cl_PartitionID = ''p'', cl_ProfileID = ''u'', cl_Subject = ''u''\<rparr>"

definition sample_env :: "string \<Rightarrow> call_env" where
  "sample_env i = \<lparr>ce_Now = 0, ce_HoldNow = 0, ce_Base = base_row i, ce_LineBase = (\<lambda>n. base_row (i @ [char_of (48 + n)])),
     ce_OutboxBase = (\<lambda>c. base_row (i @ c)), ce_ICSUID = []\<rparr>"

definition sample_line :: "string \<Rightarrow> int \<Rightarrow> BookingLine" where
  "sample_line r q = \<lparr>bl_Base = base_row [], bl_BookingID = [], bl_ResourceID = r, bl_Quantity = q, bl_ExternalEventID = []\<rparr>"

definition sample_booking :: "BookingLine list \<Rightarrow> time \<Rightarrow> time \<Rightarrow> string \<Rightarrow> CreateBookingInput" where
  "sample_booking ls s e key = \<lparr>ci_Lines = ls, ci_Start = s, ci_End = e, ci_Status = [], ci_HoldTTLSeconds = 0,
     ci_Source = [], ci_SourceRef = [], ci_OrganizerProfileID = [], ci_Title = [], ci_Description = [], ci_Location = [],
     ci_IdempotencyKey = key, ci_MetadataJSON = []\<rparr>"

definition sample_resource :: EnsureResourceInput where
  "sample_resource = \<lparr>er_Type = ''room'', er_SubjectKind = ''room'', er_SubjectID = ''1'', er_DisplayName = [],
     er_Timezone = [], er_MetadataJSON = [], er_Capacity = 1\<rparr>"

definition sample_hours :: SetAvailabilityInput where
  "sample_hours = \<lparr>sa_ResourceID = ''r'', sa_Timezone = [],
     sa_Rules = [\<lparr>wr_Weekday = 1, wr_Start = ''09:00'', wr_End = ''10:00''\<rparr>], sa_Exceptions = []\<rparr>"

text \<open>A room of capacity one, open on Mondays from nine to ten, and one hour booked.\<close>

definition sample_room :: caldb where
  "sample_room = tables_after (SetAvailability sample_claims (base_row ''a'') sample_hours)
     (tables_after (EnsureResource sample_claims (base_row ''r'') sample_resource) (empty_cal, []), [])"

lemmas sample_defs = base_row_def sample_claims_def sample_env_def sample_line_def sample_booking_def sample_resource_def sample_hours_def

lemma sample_room_eval:
  "sample_room = empty_cal\<lparr>cal_resources := [new_resource sample_resource (base_row ''r'')],
     cal_availability := [\<lparr>ca_Base = base_row ''a'', ca_ResourceID = ''r'', ca_Timezone = ''UTC'',
       ca_Rules = sa_Rules sample_hours, ca_Exceptions = []\<rparr>]\<rparr>"
  by code_simp

abbreviation sample_run :: "string \<Rightarrow> CreateBookingInput \<Rightarrow> caldb \<Rightarrow> (go_error + Booking \<times> BookingLine list) \<times> caldb dbstate" where
  "sample_run i inp d \<equiv> CreateBooking sample_claims (sample_env i) inp (d, [])"

definition sample_hour :: "string \<Rightarrow> CreateBookingInput" where
  "sample_hour key = sample_booking [sample_line ''r'' 1] (9 * Hour) (10 * Hour) key"

definition sample_booked :: caldb where
  "sample_booked = fst (snd (sample_run ''b'' (sample_hour ''k'') sample_room))"

lemma sample_steps: "cal_step\<^sup>*\<^sup>* (0, empty_cal) (0, sample_room)" "cal_step\<^sup>*\<^sup>* (0, empty_cal) (0, sample_booked)"
proof -
  let ?d = "tables_after (EnsureResource sample_claims (base_row ''r'') sample_resource) (empty_cal, [])"
  have "cal_step (0, empty_cal) (0, ?d)" unfolding tables_after_def
    by (rule ensure[OF _ prod_eqI, where fs = "[]"]) (simp_all add: keeps_capacity_def empty_cal_def prod_eq_iff)
  moreover have "cal_step (0, ?d) (0, sample_room)" unfolding sample_room_def tables_after_def
    by (rule availability[OF prod_eqI, where fs = "[]"]) (simp_all add: prod_eq_iff)
  ultimately show room: "cal_step\<^sup>*\<^sup>* (0, empty_cal) (0, sample_room)" by simp
  have "cal_step (0, sample_room) (ce_Now (sample_env ''b''), sample_booked)" unfolding sample_booked_def
    by (rule create[OF _ _ prod_eqI, where fs = "[]"])
      (simp_all add: prod_eq_iff stamps_scope_def ScopeFromContext_def in_partition_def sample_defs)
  with room show "cal_step\<^sup>*\<^sup>* (0, empty_cal) (0, sample_booked)" by (simp add: sample_env_def)
qed

section \<open>Capacity\<close>

text \<open>C19. After any history of calls the bookings that are live never take more units of a resource
  at any instant than its capacity (at least one), provided no call lowers a capacity.\<close>

theorem no_overbooking:
  assumes "cal_step\<^sup>*\<^sup>* (start, empty_cal) (now, d)" and "r \<in> set (cal_resources d)"
  shows "load now d (row_id cr_Base r) t \<le> at_least_one (cr_Capacity r)"
  using cal.run_inv[OF assms(1)] empty_cal_inv assms(2) by (auto simp: cal_inv_def within_capacity_def)

theorem no_overbooking_witness:
  "load 0 sample_booked ''r'' (9 * Hour) \<le> 1 \<and> load 0 sample_booked ''r'' (9 * Hour) = 1"
proof -
  have r: "hd (cal_resources sample_booked) \<in> set (cal_resources sample_booked)"
    "row_id cr_Base (hd (cal_resources sample_booked)) = ''r''" "cr_Capacity (hd (cal_resources sample_booked)) = 1"
    by code_simp+
  have "load 0 sample_booked ''r'' (9 * Hour) = 1" by code_simp
  with no_overbooking[OF sample_steps(2) r(1), of "9 * Hour"] r(2,3) show ?thesis by (simp add: at_least_one_def)
qed

text \<open>The capacity test and the insert are separate statements: two calls that both read before
  either writes are both accepted, and together exceed the capacity.\<close>

theorem concurrent_create_overbooks:
  "\<exists>d sc demands busy r t. cal_inv 0 d \<and>
     fst (buildDemands sc (quantity_of [sample_line ''r'' 1]) [] [''r''] (d, [])) = Inr demands \<and>
     fst (busyMap sc 0 [''r''] (9 * Hour) (10 * Hour) (d, [])) = Inr busy \<and>
     HasCapacity demands busy (9 * Hour) (10 * Hour) \<and>
     (let write = (\<lambda>i. write_booking (sample_env i) sc (new_booking sc (sample_env i) BookingConfirmed (sample_hour [])) [sample_line ''r'' 1]);
          d2 = tables_after (write ''c'') (tables_after (write ''b'') (d, []), [])
      in r \<in> set (cal_resources d2) \<and> load 0 d2 (row_id cr_Base r) t > at_least_one (cr_Capacity r))"
proof -
  let ?sc = "\<lparr>sc_TenantID = ''t'', sc_PartitionID = ''p'', sc_ProfileID = ''u''\<rparr>"
  let ?dm = "\<lparr>rd_ResourceID = ''r'', rd_Capacity = 1, rd_Quantity = 1, rd_Rules = sa_Rules sample_hours, rd_Exceptions = [], rd_Timezone = ''UTC''\<rparr>"
  let ?r = "new_resource sample_resource (base_row ''r'')"
  let ?w = "\<lambda>i. write_booking (sample_env i) ?sc (new_booking ?sc (sample_env i) BookingConfirmed (sample_hour [])) [sample_line ''r'' 1]"
  let ?d2 = "tables_after (?w ''c'') (tables_after (?w ''b'') (sample_room, []), [])"
  have 1: "cal_inv 0 sample_room" using cal.run_inv[OF sample_steps(1)] empty_cal_inv by simp
  have 2: "fst (buildDemands ?sc (quantity_of [sample_line ''r'' 1]) [] [''r''] (sample_room, [])) = Inr [?dm]" by code_simp
  have 3: "fst (busyMap ?sc 0 [''r''] (9 * Hour) (10 * Hour) (sample_room, [])) = Inr (\<lambda>_. [])"
    unfolding sample_room_eval
    by (simp add: busyMap_def busyMapExcludingBooking_def Busy_ListInRange_def ListOverlapping_def empty_cal_def sql_simps fun_eq_iff)
  have 4: "HasCapacity [?dm] (\<lambda>_. []) (9 * Hour) (10 * Hour)" by code_simp
  have 5: "?r \<in> set (cal_resources ?d2)" "load 0 ?d2 (row_id cr_Base ?r) (9 * Hour) > at_least_one (cr_Capacity ?r)" by code_simp+
  from 1 2 3 4 5 show ?thesis unfolding Let_def by blast
qed

section \<open>Offered slots can be booked\<close>

text \<open>Programs that only read, on a database that works.\<close>

definition reads :: "(caldb, 'a) sql \<Rightarrow> bool" where
  "reads m \<longleftrightarrow> (\<forall>d. snd (m (d, [])) = (d, []))"

lemma readsD: "reads m \<Longrightarrow> m (d, []) = (x, z) \<Longrightarrow> z = (d, [])"
  by (metis reads_def snd_conv)

lemma reads_bind:
  assumes "reads m" and "\<And>x. reads (k x)"
  shows "reads (sql_bind m k)"
  unfolding reads_def
proof
  fix d
  obtain x z where m: "m (d, []) = (x, z)" by (rule prod.exhaust)
  with assms(1) have "z = (d, [])" by (rule readsD)
  with m assms(2) show "snd (sql_bind m k (d, [])) = (d, [])" by (cases x) (simp_all add: sql_bind_def reads_def)
qed

lemma reads_rules:
  "reads (sql_return x)" "reads (sql_raise e)" "reads (sql_query q)"
  "reads m \<Longrightarrow> reads n \<Longrightarrow> reads (if b then m else n)"
  "reads n \<Longrightarrow> (\<And>x. reads (m' x)) \<Longrightarrow> reads (case v of None \<Rightarrow> n | Some x \<Rightarrow> m' x)"
  "(\<And>e. reads (n' e)) \<Longrightarrow> (\<And>x. reads (m'' x)) \<Longrightarrow> reads (case w of Inl e \<Rightarrow> n' e | Inr x \<Rightarrow> m'' x)"
  by (simp_all add: reads_def sql_simps split: sum.split option.split)

lemma reads_wrap:
  assumes "reads m"
  shows "reads (sql_wrap msg m)"
  unfolding reads_def
proof
  fix d
  obtain x z where m: "m (d, []) = (x, z)" by (rule prod.exhaust)
  with assms have "z = (d, [])" by (rule readsD)
  with m show "snd (sql_wrap msg m (d, [])) = (d, [])" by (cases x) (simp_all add: sql_wrap_def)
qed

lemma reads_repositories:
  "reads (Resources_GetInPartition s i)" "reads (Availability_GetByResource s i)" "reads (Busy_ListInRange s ids f t)"
  "reads (ListOverlapping s now ids f t)" "reads (Lines_ListByBookings is)"
  unfolding Resources_GetInPartition_def Availability_GetByResource_def Busy_ListInRange_def ListOverlapping_def Lines_ListByBookings_def
  by (intro reads_rules reads_wrap reads_bind)+

lemma reads_demand_of: "reads (demand_of s qty i)"
  unfolding demand_of_def by (intro reads_rules reads_wrap reads_bind reads_repositories)

lemma reads_buildDemands: "reads (buildDemands s qty seen ids)"
proof (induction ids arbitrary: seen)
  case (Cons i ids)
  show ?case unfolding buildDemands.simps by (intro reads_rules reads_wrap reads_bind reads_demand_of Cons.IH)
qed (simp add: reads_rules)

lemma reads_busyMap: "reads (busyMapExcludingBooking s now ids f t x)"
  unfolding busyMapExcludingBooking_def Let_def by (intro reads_rules reads_wrap reads_bind reads_repositories)

lemma busyMap_total: "\<exists>busy. fst (busyMap s now ids f t (d, [])) = Inr busy"
  unfolding busyMap_def busyMapExcludingBooking_def Busy_ListInRange_def ListOverlapping_def Lines_ListByBookings_def
  by (simp add: sql_simps Let_def)

lemma demand_of_cong:
  "(if qty i > 0 then qty i else 1) = (if qty' i > 0 then qty' i else (1::int)) \<Longrightarrow> demand_of s qty i = demand_of s qty' i"
  unfolding demand_of_def by (simp only:)

lemma buildDemands_cong:
  assumes "\<And>i. i \<in> set ids \<Longrightarrow> (if qty i > 0 then qty i else 1) = (if qty' i > 0 then qty' i else (1::int))"
  shows "buildDemands s qty seen ids = buildDemands s qty' seen ids"
  using assms
proof (induction ids arbitrary: seen)
  case (Cons i ids)
  have "demand_of s qty i = demand_of s qty' i" by (rule demand_of_cong) (use Cons.prems in simp)
  moreover have "buildDemands s qty seen' ids = buildDemands s qty' seen' ids" for seen'
    by (rule Cons.IH) (use Cons.prems in simp)
  ultimately show ?case by simp
qed simp

lemma used_append: "used_units (xs @ ys) s e = used_units xs s e + used_units ys s e"
  by (simp add: used_units_def)

lemma used_concat: "used_units (concat (map g xs)) s e = sum_list (map (\<lambda>x. used_units (g x) s e) xs)"
  unfolding used_units_def by (rule count_concat)

lemma used_line_mono:
  assumes "distinct (map (row_id bk_Base) bs')" and "\<And>b. b \<in> set bs \<Longrightarrow> SlotOverlaps s e (bk_StartAt b) (bk_EndAt b) \<Longrightarrow> b \<in> set bs'"
  shows "used_units (line_intervals bs li) s e \<le> used_units (line_intervals bs' li) s e"
proof (cases "List.find (\<lambda>b. row_id bk_Base b = bl_BookingID li) bs")
  case None
  then show ?thesis by (simp add: line_intervals_def used_units_def)
next
  case (Some b)
  then have b: "b \<in> set bs" "row_id bk_Base b = bl_BookingID li" by (auto dest: find_SomeD)
  show ?thesis
  proof (cases "SlotOverlaps s e (bk_StartAt b) (bk_EndAt b)")
    case True
    with distinct_key_find[OF assms(1) assms(2)[OF b(1)]] b(2) Some show ?thesis by (simp add: line_intervals_def)
  qed (simp add: Some line_intervals_def used_units_def)
qed

text \<open>Looking at a wider window, or earlier, shows at least as many units taken.\<close>

lemma busy_used_mono:
  assumes k: "distinct (map (row_id bk_Base) (cal_bookings d))" and now: "now \<le> now'" and w: "f \<le> s" "e \<le> t"
    and 1: "busyMap sc now ids f t (d, []) = (Inr busy, z1)" and 2: "busyMap sc now' ids s e (d, []) = (Inr busy', z2)"
  shows "used_units (busy' r) s e \<le> used_units (busy r) s e"
proof -
  let ?S = "seen_bookings sc now ids f t [] d" and ?S' = "seen_bookings sc now' ids s e [] d"
  let ?L = "\<lambda>S. filter (\<lambda>li. bl_ResourceID li = r) (filter (\<lambda>li. bl_BookingID li \<in> row_id bk_Base ` set S) (cal_booking_lines d))"
  from busyMap_run[OF 1[unfolded busyMap_def]] obtain bl y where b: "Busy_ListInRange sc ids f t (d, []) = (Inr bl, y)"
    "busy r = map block_interval (filter (\<lambda>b. bb_ResourceID b = r) bl) @ concat (map (line_intervals ?S) (?L ?S))" by auto
  from busyMap_run[OF 2[unfolded busyMap_def]] obtain bl' y' where b': "Busy_ListInRange sc ids s e (d, []) = (Inr bl', y')"
    "busy' r = map block_interval (filter (\<lambda>b. bb_ResourceID b = r) bl') @ concat (map (line_intervals ?S') (?L ?S'))" by auto
  have blocks: "used_units (map block_interval (filter (\<lambda>b. bb_ResourceID b = r) bl')) s e \<le>
      used_units (map block_interval (filter (\<lambda>b. bb_ResourceID b = r) bl)) s e"
  proof -
    have "filter (\<lambda>b. SlotOverlaps s e (bb_StartAt b) (bb_EndAt b)) bl' = filter (\<lambda>b. SlotOverlaps s e (bb_StartAt b) (bb_EndAt b)) bl"
    proof (cases "ids = []")
      case True
      with b(1) b'(1) show ?thesis by (simp add: Busy_ListInRange_def sql_simps)
    next
      case False
      with b(1) have bl: "bl = filter (\<lambda>b. in_partition sc (bb_Base b) \<and> bb_ResourceID b \<in> set ids \<and> bb_StartAt b < t \<and> bb_EndAt b > f) (cal_busy_blocks d)" by (simp add: Busy_ListInRange_def sql_simps)
      from False b'(1) have "bl' = filter (\<lambda>b. in_partition sc (bb_Base b) \<and> bb_ResourceID b \<in> set ids \<and> bb_StartAt b < e \<and> bb_EndAt b > s) (cal_busy_blocks d)"
        by (simp add: Busy_ListInRange_def sql_simps)
      with w bl show ?thesis unfolding filter_filter by (auto simp: SlotOverlaps_def filter_filter intro: filter_cong)
    qed
    then have "filter (\<lambda>b. bb_ResourceID b = r) (filter (\<lambda>b. SlotOverlaps s e (bb_StartAt b) (bb_EndAt b)) bl') =
      filter (\<lambda>b. bb_ResourceID b = r) (filter (\<lambda>b. SlotOverlaps s e (bb_StartAt b) (bb_EndAt b)) bl)" by simp
    then show ?thesis unfolding used_units_def filter_map length_map comp_def
      by (simp add: block_interval_def filter_filter conj_commute)
  qed
  have sub: "b \<in> set ?S' \<Longrightarrow> b \<in> set ?S" for b
    using live_mono[OF now, of b] w unfolding seen_bookings_def by auto
  have dS: "distinct (map (row_id bk_Base) ?S)" unfolding seen_bookings_def using k by (intro distinct_map_filter)
  have "sum_list (map (\<lambda>li. used_units (line_intervals ?S' li) s e) (?L ?S')) \<le>
      sum_list (map (\<lambda>li. used_units (line_intervals ?S li) s e) (?L ?S))"
    unfolding filter_filter sum_filter
  proof (intro sum_list_mono)
    fix li
    have "used_units (line_intervals ?S' li) s e \<le> used_units (line_intervals ?S li) s e"
      by (rule used_line_mono[OF dS]) (rule sub)
    moreover have "0 \<le> used_units (line_intervals ?S li) s e" by (simp add: used_units_def)
    moreover have "bl_BookingID li \<in> row_id bk_Base ` set ?S' \<Longrightarrow> bl_BookingID li \<in> row_id bk_Base ` set ?S"
      by (erule imageE) (rule image_eqI, assumption, erule sub)
    ultimately show "(if bl_BookingID li \<in> row_id bk_Base ` set ?S' \<and> bl_ResourceID li = r then used_units (line_intervals ?S' li) s e else 0)
      \<le> (if bl_BookingID li \<in> row_id bk_Base ` set ?S \<and> bl_ResourceID li = r then used_units (line_intervals ?S li) s e else 0)"
      by (simp split: if_split)
  qed
  with blocks show ?thesis unfolding b(2) b'(2) used_append used_concat by linarith
qed

lemma quantity_distinct:
  "distinct (map bl_ResourceID lines) \<Longrightarrow> li \<in> set lines \<Longrightarrow> quantity_of lines (bl_ResourceID li) = bl_Quantity li"
proof (induction lines)
  case (Cons x xs)
  show ?case
  proof (cases "li = x")
    case True
    with Cons.prems have "filter (\<lambda>y. bl_ResourceID y = bl_ResourceID x) xs = []" by (auto simp: filter_empty_conv image_iff)
    with True show ?thesis by (simp add: quantity_of_def)
  next
    case False
    with Cons.prems have li: "li \<in> set xs" by simp
    with Cons.prems have "bl_ResourceID x \<noteq> bl_ResourceID li" by (auto simp: image_iff)
    with Cons.IH[OF _ li] Cons.prems show ?thesis by (simp add: quantity_of_def)
  qed
qed simp

text \<open>
  A slot that \<open>ListSlots\<close> returns and that ends inside the search window can be booked: a
  \<open>CreateBooking\<close> for one unit of each of its resources passes the capacity test and goes on to
  write the booking.
\<close>

theorem slot_bookable:
  assumes slots: "ListSlots tz days claims now nowL ids mins ws we (d, []) = (Inr slots, z)" and s: "s \<in> set slots"
    and mins: "mins * Minute < 2 ^ 63" and we: "\<not> IsZero we" "sl_End s \<le> we" and key: "distinct (map (row_id bk_Base) (cal_bookings d))" and later: "nowL \<le> ce_Now env"
    and scope: "ScopeFromContext claims = Inr sc" and ids: "distinct ids" "[] \<notin> set ids"
    and lines: "map bl_ResourceID (ci_Lines inp) = ids" "\<forall>li \<in> set (ci_Lines inp). bl_Quantity li \<le> 1"
    and inp: "ci_Start inp = sl_Start s" "ci_End inp = sl_End s" "ci_IdempotencyKey inp = []"
      "ci_Status inp \<in> {[], BookingHold, BookingConfirmed}"
  shows "CreateBooking claims env inp (d, []) =
    write_booking env sc (new_booking sc env (if ci_Status inp = [] then BookingConfirmed else ci_Status inp) inp)
      (map normal_line (ci_Lines inp)) (d, [])"
proof -
  let ?ws = "if IsZero ws then now else ws" and ?mins = "if mins \<le> 0 then 30 else mins"
  let ?lines = "map normal_line (ci_Lines inp)"
  from slots scope we(1) have ne: "ids \<noteq> []"
    and run: "sql_bind (buildDemands sc (\<lambda>_. 0) [] ids) (\<lambda>demands. sql_bind (busyMap sc nowL ids ?ws we) (\<lambda>busy.
             case ComputeSlots tz demands busy ?ws we ?mins of Inl e \<Rightarrow> sql_raise e | Inr slots \<Rightarrow> sql_return slots)) (d, []) = (Inr slots, z)"
    by (auto simp: ListSlots_def with_scope_def Let_def sql_raise_def split: if_splits)
  from run obtain demands z1 busy z2 where bd: "buildDemands sc (\<lambda>_. 0) [] ids (d, []) = (Inr demands, z1)"
    and bm: "busyMap sc nowL ids ?ws we z1 = (Inr busy, z2)" and cs: "ComputeSlots tz demands busy ?ws we ?mins = Inr slots"
    by (elim sql_bind_InrE) (auto simp: sql_raise_def sql_return_def split: sum.splits)
  have z1: "z1 = (d, [])" using readsD[OF reads_buildDemands bd] .
  have "?mins * Minute < 2 ^ 63" using mins by (simp add: Minute_def Second_def)
  from ComputeSlots_set[OF cs this, of s] s have o: "?ws \<le> sl_Start s" "sl_End s = sl_Start s + ?mins * Minute"
    "allHaveCapacity demands busy (sl_Start s) (sl_End s)" by (auto simp: offered_def)
  have res: "map bl_ResourceID ?lines = ids" using lines(1) by (simp add: normal_line_def comp_def)
  have "quantity_of ?lines i = 1" if "i \<in> set ids" for i
  proof -
    from that res obtain li where "li \<in> set ?lines" "bl_ResourceID li = i" by (metis in_set_conv_nth length_map nth_map)
    moreover from this(1) lines(2) have "bl_Quantity li = 1" by (auto simp: normal_line_def at_least_one_def)
    ultimately show ?thesis using quantity_distinct[of ?lines li] ids(1) res by simp
  qed
  then have bd': "buildDemands sc (quantity_of ?lines) [] ids = buildDemands sc (\<lambda>_. 0) [] ids"
    by (intro buildDemands_cong) simp
  obtain r z3 where "busyMap sc (ce_Now env) ids (sl_Start s) (sl_End s) (d, []) = (r, z3)" by (rule prod.exhaust)
  moreover from this readsD[OF reads_busyMap] have "z3 = (d, [])" by (metis busyMap_def)
  moreover obtain busy' where "r = Inr busy'"
    using busyMap_total[of sc "ce_Now env" ids "sl_Start s" "sl_End s" d] calculation(1) by auto
  ultimately have bm': "busyMap sc (ce_Now env) ids (sl_Start s) (sl_End s) (d, []) = (Inr busy', (d, []))" by simp
  have "used_units (busy' r) (sl_Start s) (sl_End s) \<le> used_units (busy r) (sl_Start s) (sl_End s)" for r
    by (rule busy_used_mono[OF key later o(1) we(2) bm[unfolded z1] bm'])
  with o(3) have cap: "HasCapacity demands busy' (sl_Start s) (sl_End s)"
    unfolding HasCapacity_def allHaveCapacity_def list_all_iff by (meson add_right_mono order_trans)
  have "0 < ?mins * Minute" by (simp add: Minute_def Second_def)
  with o(2) have "sl_Start s < sl_End s" by simp
  moreover have "\<not> list_ex (\<lambda>li. bl_ResourceID li = []) (ci_Lines inp)" unfolding list_ex_iff using lines(1) ids(2) by (metis image_eqI list.set_map)
  moreover have "ci_Lines inp \<noteq> []" using lines(1) ne by auto
  moreover have "book_lines env sc inp status ?lines (d, []) = write_booking env sc (new_booking sc env status inp) ?lines (d, [])" for status
    unfolding book_lines_def Let_def res bd' sql_bind_apply bd z1 inp(1,2)
    by (simp add: bm' cap sql_bind_apply)
  ultimately show ?thesis using scope inp
    by (auto simp: CreateBooking_def with_scope_def Bookings_GetByIdempotency_def sql_simps Let_def)
qed

theorem slot_bookable_witness:
  "CreateBooking sample_claims (sample_env ''b'') (sample_hour []) (sample_room, []) =
     write_booking (sample_env ''b'') \<lparr>sc_TenantID = ''t'', sc_PartitionID = ''p'', sc_ProfileID = ''u''\<rparr>
       (new_booking \<lparr>sc_TenantID = ''t'', sc_PartitionID = ''p'', sc_ProfileID = ''u''\<rparr> (sample_env ''b'') BookingConfirmed (sample_hour []))
       (map normal_line [sample_line ''r'' 1]) (sample_room, [])"
proof -
  let ?m = "ListSlots (\<lambda>_. None) 14 sample_claims 0 0 [''r''] 60 1 (12 * Hour)"
  have l: "fst (?m (sample_room, [])) = Inr [\<lparr>sl_Start = 9 * Hour, sl_End = 10 * Hour\<rparr>]" by code_simp
  obtain z where z: "?m (sample_room, []) = (Inr [\<lparr>sl_Start = 9 * Hour, sl_End = 10 * Hour\<rparr>], z)"
    using l by (metis prod.collapse)
  have "\<not> IsZero (12 * Hour)" "ScopeFromContext sample_claims = Inr \<lparr>sc_TenantID = ''t'', sc_PartitionID = ''p'', sc_ProfileID = ''u''\<rparr>"
    "distinct (map (row_id bk_Base) (cal_bookings sample_room))" by code_simp+
  with slot_bookable[OF z, of "\<lparr>sl_Start = 9 * Hour, sl_End = 10 * Hour\<rparr>" "sample_env ''b''" _ "sample_hour []"]
  show ?thesis by (simp add: sample_hour_def sample_booking_def sample_line_def sample_env_def Hour_def Minute_def Second_def)
qed

text \<open>
  A slot that ends after the search window may be refused at once: busy time is read up to
  the end of the window only, while a slot need only start before it.
\<close>

theorem slot_past_window_conflicts:
  "\<exists>d slots s env inp msg. fst (ListSlots (\<lambda>_. None) 14 sample_claims 0 0 [''r''] 45 1 (9 * Hour + 15 * Minute) (d, [])) = Inr slots \<and>
     s \<in> set slots \<and> cal_inv 0 d \<and> ci_Start inp = sl_Start s \<and> ci_End inp = sl_End s \<and>
     map bl_ResourceID (ci_Lines inp) = [''r''] \<and>
     fst (CreateBooking sample_claims env inp (d, [])) = Inl (ErrWith ErrConflict msg)"
proof -
  let ?half = "sample_booking [sample_line ''r'' 1] (9 * Hour + 30 * Minute) (10 * Hour) []"
  let ?d = "fst (snd (sample_run ''b'' ?half sample_room))"
  let ?inp = "sample_booking [sample_line ''r'' 1] (9 * Hour) (9 * Hour + 45 * Minute) []"
  have "cal_step (0, sample_room) (ce_Now (sample_env ''b''), ?d)"
    by (rule create[OF _ _ prod_eqI, where fs = "[]"])
      (simp_all add: prod_eq_iff stamps_scope_def ScopeFromContext_def in_partition_def sample_defs)
  then have "cal_step\<^sup>*\<^sup>* (0, empty_cal) (0, ?d)" using sample_steps(1) by (simp add: sample_env_def)
  then have 1: "cal_inv 0 ?d" using cal.run_inv empty_cal_inv by fastforce
  have 2: "fst (ListSlots (\<lambda>_. None) 14 sample_claims 0 0 [''r''] 45 1 (9 * Hour + 15 * Minute) (?d, [])) =
    Inr [\<lparr>sl_Start = 9 * Hour, sl_End = 9 * Hour + 45 * Minute\<rparr>]" by code_simp
  have 3: "fst (sample_run ''c'' ?inp ?d) = Inl (ErrWith ErrConflict ''slot not available'')" by code_simp
  show ?thesis
  proof (intro exI conjI)
    show "\<lparr>sl_Start = 9 * Hour, sl_End = 9 * Hour + 45 * Minute\<rparr> \<in> set [\<lparr>sl_Start = 9 * Hour, sl_End = 9 * Hour + 45 * Minute\<rparr>]" by simp
    show "ci_Start ?inp = sl_Start \<lparr>sl_Start = 9 * Hour, sl_End = 9 * Hour + 45 * Minute\<rparr>"
      "ci_End ?inp = sl_End \<lparr>sl_Start = 9 * Hour, sl_End = 9 * Hour + 45 * Minute\<rparr>"
      "map bl_ResourceID (ci_Lines ?inp) = [''r'']" by (simp_all add: sample_defs)
  qed (rule 1 2 3)+
qed

section \<open>Retrying a create\<close>

lemma create_line_success:
  assumes "create_line env i kl z = (Inr row, z')"
  shows "row = line_row env i kl" "fst z' = (fst z)\<lparr>cal_booking_lines := cal_booking_lines (fst z) @ [row]\<rparr>"
proof -
  from assms obtain u z1 where 1: "Lines_Create (line_row env i kl) z = (Inr u, z1)" "sql_return (line_row env i kl) z1 = (Inr row, z')"
    unfolding create_line_def by (elim sql_bind_InrE) (simp only: sql_wrap_Inr)
  then show row: "row = line_row env i kl" by (simp add: sql_return_def)
  from 1 sql_stmt_InrD[OF 1(1)[unfolded Lines_Create_def]] show "fst z' = (fst z)\<lparr>cal_booking_lines := cal_booking_lines (fst z) @ [row]\<rparr>"
    by (auto simp: sql_return_def row split: if_splits)
qed

lemma create_lines_success:
  assumes "sql_map (create_line env i) kls z = (Inr rows, z')"
  shows "rows = map (line_row env i) kls \<and> fst z' = (fst z)\<lparr>cal_booking_lines := cal_booking_lines (fst z) @ rows\<rparr>"
  using assms
proof (induction kls arbitrary: z rows)
  case (Cons kl kls)
  from Cons.prems obtain row z1 rs where 1: "create_line env i kl z = (Inr row, z1)"
    and 2: "sql_map (create_line env i) kls z1 = (Inr rs, z')" and rows: "rows = row # rs"
    by (auto simp: sql_return_def elim!: sql_bind_InrE)
  from create_line_success[OF 1] Cons.IH[OF 2] rows show ?case by simp
qed (simp add: sql_return_def)

lemma write_booking_success:
  assumes "write_booking env sc b lines z = (Inr r, z')"
  shows "fst r = b" "added b (snd r) (fst z) (fst z')" "row_id bk_Base b \<notin> row_id bk_Base ` set (cal_bookings (fst z))"
    "\<forall>li \<in> set (snd r). bl_BookingID li = row_id bk_Base b"
proof -
  from assms obtain u z1 rows z2 v z3 where 1: "Bookings_Create b z = (Inr u, z1)"
    and 2: "sql_map (create_line env (row_id bk_Base b)) (zip [0..<length lines] lines) z1 = (Inr rows, z2)"
    and 3: "(if bk_Status b = BookingConfirmed then enqueueExports (ce_OutboxBase env) sc b rows else sql_return ()) z2 = (Inr v, z3)"
    and r: "r = (b, rows)" "z' = z3"
    unfolding write_booking_def by (elim sql_bind_InrE) (simp only: sql_wrap_Inr sql_return_def prod.inject sum.inject)
  obtain d fs d1 fs1 where z: "z = (d, fs)" "z1 = (d1, fs1)" by (metis prod.collapse)
  from 1[unfolded z] have d1: "d1 = d\<lparr>cal_bookings := cal_bookings d @ [b]\<rparr>" "row_id bk_Base b \<notin> row_id bk_Base ` set (cal_bookings d)"
    by (cases rule: Bookings_Create_run; simp)+
  have "preserves same_core (if bk_Status b = BookingConfirmed then enqueueExports (ce_OutboxBase env) sc b rows else sql_return ())"
    by (intro core_rules same_core_enqueue)
  from core_run[OF this 3] have "core (fst z3) = core (fst z2)" .
  with create_lines_success[OF 2] d1(1) z r show "added b (snd r) (fst z) (fst z')" by (simp add: added_def core_def)
  show "fst r = b" by (simp add: r)
  show "row_id bk_Base b \<notin> row_id bk_Base ` set (cal_bookings (fst z))" using d1(2) by (simp add: z)
  show "\<forall>li \<in> set (snd r). bl_BookingID li = row_id bk_Base b" using create_lines_success[OF 2] by (auto simp: r line_row_def)
qed

definition by_key :: "Scope \<Rightarrow> string \<Rightarrow> caldb \<Rightarrow> Booking option" where
  "by_key sc key d = List.find (\<lambda>b. in_partition sc (bk_Base b) \<and> bk_IdempotencyKey b = key) (cal_bookings d)"

lemma CreateBooking_success:
  assumes run: "CreateBooking claims env inp (d, []) = (Inr (b, ls), (d', fs'))" and scope: "ScopeFromContext claims = Inr sc"
    and key: "ci_IdempotencyKey inp \<noteq> []"
  shows "by_key sc (ci_IdempotencyKey inp) d = Some b \<and> d' = d \<and> ls = own_lines d (row_id bk_Base b) \<or>
    by_key sc (ci_IdempotencyKey inp) d = None \<and> added b ls d d' \<and> row_id bk_Base b \<notin> row_id bk_Base ` set (cal_bookings d) \<and>
      (\<forall>li \<in> set ls. bl_BookingID li = row_id bk_Base b) \<and> bk_Base b = ce_Base env \<and> bk_IdempotencyKey b = ci_IdempotencyKey inp"
proof (cases "by_key sc (ci_IdempotencyKey inp) d")
  case (Some x)
  with run scope key show ?thesis
    by (auto simp: CreateBooking_def with_scope_def Bookings_GetByIdempotency_def by_key_def Lines_ListByBooking_def sql_simps split: if_splits)
next
  case None
  let ?status = "if ci_Status inp = [] then BookingConfirmed else ci_Status inp"
  from None run scope key have bl: "book_lines env sc inp ?status (map normal_line (ci_Lines inp)) (d, []) = (Inr (b, ls), (d', fs'))"
    by (auto simp: CreateBooking_def with_scope_def Bookings_GetByIdempotency_def by_key_def sql_simps Let_def split: if_splits)
  then obtain z2 where z2: "z2 = (d, [])"
    and w: "write_booking env sc (new_booking sc env ?status inp) (map normal_line (ci_Lines inp)) z2 = (Inr (b, ls), (d', fs'))"
    unfolding book_lines_def Let_def busyMap_def
    by (elim sql_bind_InrE) (auto dest!: readsD[OF reads_buildDemands] readsD[OF reads_busyMap] simp: sql_raise_def split: if_splits)
  from write_booking_success[OF w] None show ?thesis unfolding z2 by (auto simp: new_booking_def)
qed

text \<open>
  Once a create with an idempotency key has succeeded, every later valid create of the same
  partition with that key answers the same booking and lines and changes nothing.
\<close>

theorem create_retry:
  assumes run: "CreateBooking claims env inp (d, []) = (Inr (b, ls), (d', fs'))" and scope: "ScopeFromContext claims = Inr sc"
    and stamp: "in_partition sc (ce_Base env)" and keys: "cal_keys d"
    and key: "ci_IdempotencyKey inp \<noteq> []" "ci_IdempotencyKey inp' = ci_IdempotencyKey inp"
    and valid: "ci_Lines inp' \<noteq> []" "ci_Start inp' < ci_End inp'"
  shows "CreateBooking claims env' inp' (d', []) = (Inr (b, ls), (d', []))"
proof -
  let ?k = "ci_IdempotencyKey inp"
  have "by_key sc ?k d' = Some b \<and> own_lines d' (row_id bk_Base b) = ls"
  proof (cases "by_key sc ?k d = Some b \<and> d' = d \<and> ls = own_lines d (row_id bk_Base b)")
    case False
    with CreateBooking_success[OF run scope key(1)] have n: "by_key sc ?k d = None" "added b ls d d'"
      "row_id bk_Base b \<notin> row_id bk_Base ` set (cal_bookings d)" "\<forall>li \<in> set ls. bl_BookingID li = row_id bk_Base b"
      "bk_Base b = ce_Base env" "bk_IdempotencyKey b = ?k" by blast+
    have d': "cal_bookings d' = cal_bookings d @ [b]" "cal_booking_lines d' = cal_booking_lines d @ ls"
      using n(2) by (simp_all add: added_def core_def)
    have "bl_BookingID li \<noteq> row_id bk_Base b" if "li \<in> set (cal_booking_lines d)" for li
      using keys that n(3) unfolding cal_keys_def by (metis image_eqI)
    then have "own_lines d (row_id bk_Base b) = []" by (simp add: filter_empty_conv)
    moreover have "filter (\<lambda>li. bl_BookingID li = row_id bk_Base b) ls = ls" using n(4) by (simp add: filter_id_conv)
    moreover have "by_key sc ?k d' = Some b" using n(1,5,6) stamp by (simp add: by_key_def d' find_snoc)
    ultimately show ?thesis by (simp add: d')
  qed simp
  with scope key valid show ?thesis
    by (simp add: CreateBooking_def with_scope_def Bookings_GetByIdempotency_def by_key_def Lines_ListByBooking_def sql_simps)
qed

theorem create_retry_witness:
  "fst (sample_run ''c'' (sample_hour ''k'') sample_booked) = fst (sample_run ''b'' (sample_hour ''k'') sample_room)"
proof -
  obtain b ls fs where run: "sample_run ''b'' (sample_hour ''k'') sample_room = (Inr (b, ls), (sample_booked, fs))"
  proof -
    have "isl (fst (sample_run ''b'' (sample_hour ''k'') sample_room)) = False" by code_simp
    then show thesis using that unfolding sample_booked_def
      by (cases "sample_run ''b'' (sample_hour ''k'') sample_room"; cases "fst (sample_run ''b'' (sample_hour ''k'') sample_room)") auto
  qed
  have s: "ScopeFromContext sample_claims = Inr \<lparr>sc_TenantID = ''t'', sc_PartitionID = ''p'', sc_ProfileID = ''u''\<rparr>" by code_simp
  have p: "in_partition \<lparr>sc_TenantID = ''t'', sc_PartitionID = ''p'', sc_ProfileID = ''u''\<rparr> (ce_Base (sample_env ''b''))" by code_simp
  have k: "cal_keys sample_room" by code_simp
  have "sample_run ''c'' (sample_hour ''k'') sample_booked = (Inr (b, ls), (sample_booked, []))"
    by (rule create_retry[OF run s p k]) (simp_all add: sample_hour_def sample_booking_def Hour_def Minute_def Second_def)
  then show ?thesis by (simp add: run)
qed

text \<open>
  A create whose second line is refused by the database reports the error but leaves a
  confirmed booking with its first line, and the retry with the same key reports success.
\<close>

theorem failed_create_is_kept:
  "\<exists>inp d d' e b ls. cal_inv 0 d \<and> sample_run ''b'' inp d = (Inl e, (d', [])) \<and> length (ci_Lines inp) = 2 \<and>
     sample_run ''c'' inp d' = (Inr (b, ls), (d', [])) \<and> bk_Status b = BookingConfirmed \<and> length ls = 1"
proof -
  let ?two = "sample_resource\<lparr>er_Capacity := 2\<rparr>"
  let ?room = "tables_after (EnsureResource sample_claims (base_row ''x'') ?two) (sample_room, [])"
  let ?inp = "sample_booking [sample_line ''r'' 1, sample_line ''r'' 1] (9 * Hour) (10 * Hour) ''k''"
  let ?d = "fst (snd (sample_run ''b'' ?inp ?room))"
  let ?bl = "projr (fst (sample_run ''c'' ?inp ?d))"
  have "keeps_capacity ?two sample_room" by code_simp
  then have "cal_step (0, sample_room) (0, ?room)" unfolding tables_after_def
    by (rule ensure[OF _ prod_eqI, where fs = "[]"]) (simp_all add: prod_eq_iff)
  then have 1: "cal_inv 0 ?room" using cal.run_inv[OF rtranclp.rtrancl_into_rtrancl[OF sample_steps(1)]] empty_cal_inv by fastforce
  have 2: "sample_run ''b'' ?inp ?room = (Inl (ErrWrap ''calendar: create line'' (ErrConstraint ''cal_line_booking_res'')), (?d, []))" by code_simp
  have 3: "sample_run ''c'' ?inp ?d = (Inr (fst ?bl, snd ?bl), (?d, []))" by code_simp
  have 4: "bk_Status (fst ?bl) = BookingConfirmed" "length (snd ?bl) = 1" "length (ci_Lines ?inp) = 2" by code_simp+
  show ?thesis by (intro exI conjI) (rule 1 2 3 4)+
qed

section \<open>Exports of canceled bookings\<close>

definition sample_provider :: ExternalProvider where
  "sample_provider = \<lparr>pv_Ready = True, pv_ImportBusy = (\<lambda>_ _ _. Inr ([], [])), pv_ExportBooking = (\<lambda>_ _. Inr ''ev''), pv_DeleteExport = (\<lambda>_ _. Inr ())\<rparr>"

definition sample_connection :: UpsertConnectionInput where
  "sample_connection = \<lparr>uci_ResourceID = ''r'', uci_Provider = ''google'', uci_ExternalCalendarID = [], uci_CredentialsJSON = [],
     uci_ImportBusy = False, uci_ExportBookings = True\<rparr>"

text \<open>
  A booking canceled before its export was delivered is exported afterwards and never
  deleted: the delivery does not look at the status, and the cancel queues a delete only for lines
  that already carry an event.
\<close>

theorem canceled_booking_exported:
  "\<exists>d b. cal_step\<^sup>*\<^sup>* (0, empty_cal) (0, d) \<and> b \<in> set (cal_bookings d) \<and> bk_Status b = BookingCanceled \<and>
     (\<exists>li \<in> set (own_lines d (row_id bk_Base b)). bl_ExternalEventID li \<noteq> []) \<and>
     list_all (\<lambda>o'. so_Status o' = OutboxSent \<and> so_Action o' = ActionUpsert) (cal_sync_outbox d)"
proof -
  let ?d1 = "fst (snd (UpsertExternalConnection (\<lambda>c. c) sample_claims (base_row ''x'') sample_connection (sample_room, [])))"
  let ?d2 = "fst (snd (sample_run ''b'' (sample_hour []) ?d1))"
  let ?d3 = "fst (snd (CancelBooking sample_claims (sample_env ''c'') ''b'' [] (?d2, [])))"
  let ?d4 = "fst (snd (DrainExportOutbox (\<lambda>_. Some sample_provider) 100 (?d3, [])))"
  have "cal_step (0, sample_room) (0, ?d1)" by (rule connect[OF prod_eqI, where fs = "[]"]) (simp_all add: prod_eq_iff)
  moreover have "cal_step (0, ?d1) (ce_Now (sample_env ''b''), ?d2)"
    by (rule create[OF _ _ prod_eqI, where fs = "[]"])
      (simp_all add: prod_eq_iff stamps_scope_def ScopeFromContext_def in_partition_def sample_defs)
  moreover have "cal_step (0, ?d2) (0, ?d3)" by (rule cancel[OF prod_eqI, where fs = "[]"]) (simp_all add: prod_eq_iff)
  moreover have "cal_step (0, ?d3) (0, ?d4)" by (rule drain[OF prod_eqI, where fs = "[]"]) (simp_all add: prod_eq_iff)
  ultimately have "cal_step\<^sup>*\<^sup>* (0, empty_cal) (0, ?d4)"
    using sample_steps(1) by (simp add: sample_env_def)
  moreover have "hd (cal_bookings ?d4) \<in> set (cal_bookings ?d4)" "bk_Status (hd (cal_bookings ?d4)) = BookingCanceled"
    "\<exists>li \<in> set (own_lines ?d4 (row_id bk_Base (hd (cal_bookings ?d4)))). bl_ExternalEventID li \<noteq> []"
    "list_all (\<lambda>o'. so_Status o' = OutboxSent \<and> so_Action o' = ActionUpsert) (cal_sync_outbox ?d4)" by code_simp+
  ultimately show ?thesis by blast
qed

section \<open>Text of an iCalendar value\<close>

text \<open>The decoding of a TEXT value that RFC 5545 prescribes.\<close>

fun unescapeICS :: "string \<Rightarrow> string" where
  "unescapeICS [] = []"
| "unescapeICS [ch] = [ch]"
| "unescapeICS (ch # next # rest) =
     (if ch = backslash then (if next = CHR ''n'' then CHR 0x0A else next) # unescapeICS rest
      else ch # unescapeICS (next # rest))"

definition escape_char :: "char \<Rightarrow> string" where
  "escape_char ch = (if ch = CHR 0x0A then [backslash, CHR ''n'']
     else if ch \<in> {backslash, CHR '','', CHR '';''} then [backslash, ch] else [ch])"

text \<open>The four successive replacements escape each character once.\<close>

lemma ReplaceAll_char_append: "ReplaceAll_char c n (xs @ ys) = ReplaceAll_char c n xs @ ReplaceAll_char c n ys"
  by (simp add: ReplaceAll_char_def)

lemma escapeICS_Cons: "escapeICS (ch # s) = escape_char ch @ escapeICS s"
  by (simp add: escapeICS_def ReplaceAll_char_def escape_char_def backslash_def)

lemma unescape_escape_char: "unescapeICS (escape_char ch @ s) = ch # unescapeICS s"
  by (cases s) (auto simp: escape_char_def backslash_def)

text \<open>
  The values the grammar of RFC 5545 admits where the code writes them: a backslash starts one of the four escapes, and
  comma, semicolon and line break occur only escaped.
\<close>

fun ics_text :: "string \<Rightarrow> bool" where
  "ics_text [] \<longleftrightarrow> True"
| "ics_text [ch] \<longleftrightarrow> ch \<notin> {backslash, CHR '','', CHR '';'', CHR 0x0A}"
| "ics_text (ch # next # rest) \<longleftrightarrow>
     (if ch = backslash then next \<in> {backslash, CHR '','', CHR '';'', CHR ''n''} \<and> ics_text rest
      else ch \<notin> {CHR '','', CHR '';'', CHR 0x0A} \<and> ics_text (next # rest))"

lemma ics_text_escape_char: "ics_text (escape_char ch @ s) = ics_text s"
  by (cases s) (auto simp: escape_char_def backslash_def)

text \<open>
  C21. An escaped value is well formed for the calendar file, with no bare comma, semicolon, backslash or line break that would end it
  or split it, and decoding it gives the text back, whatever its characters.
\<close>

theorem escapeICS_roundtrip: "ics_text (escapeICS s) \<and> unescapeICS (escapeICS s) = s"
  by (induction s) (simp_all add: escapeICS_Cons unescape_escape_char ics_text_escape_char, simp add: escapeICS_def ReplaceAll_char_def)

end
