(* ===== verification/Matching_Score.thy ===== *)
theory Matching_Score
  imports Domain
begin

text \<open>
  The scoring function of \<open>pkg/matching/score.go\<close> and what it guarantees.

  Weights, scores and embeddings are reals: the arithmetic is exact and never overflows.  A
  nil pointer is \<open>None\<close>.
\<close>

section \<open>Signals and weights\<close>

record Weights =
  w_Cosine :: real
  w_Skills :: real
  w_Geo :: real
  w_Salary :: real
  w_Stale :: real

definition DefaultWeights :: Weights where
  "DefaultWeights = \<lparr>w_Cosine = 82/100, w_Skills = 8/100, w_Geo = 6/100, w_Salary = 4/100, w_Stale = 5/100\<rparr>"

definition zeroWeights :: Weights where
  "zeroWeights = \<lparr>w_Cosine = 0, w_Skills = 0, w_Geo = 0, w_Salary = 0, w_Stale = 0\<rparr>"

definition CosineFromPGDistance :: "real \<Rightarrow> real" where
  "CosineFromPGDistance distance = (let c = 1 - distance / 2 in if c < 0 then 0 else if c > 1 then 1 else c)"

definition BlendFromCosine :: "real \<Rightarrow> Weights \<Rightarrow> real" where
  "BlendFromCosine cosine0 w0 =
     (let w = (if w0 = zeroWeights then DefaultWeights else w0);
          c1 = (if cosine0 < 0 then 0 else cosine0);
          cosine = (if c1 > 1 then 1 else c1);
          total = w_Cosine w * cosine + w_Skills w * 1 + w_Geo w * 1 + w_Salary w * 1
      in if total < 0 then 0 else total)"

record CandidateSignal =
  cs_Embedding :: "real list"
  cs_Skills :: "string list"
  cs_Countries :: "string list"
  cs_SalaryFloorUSD :: "int option"

record OpportunitySignal =
  ops_Embedding :: "real list"
  ops_Skills :: "string list"
  ops_Country :: string
  ops_SalaryMaxUSD :: "int option"
  ops_FirstSeenAt :: time

record Result =
  r_Cosine :: real
  r_SkillsOverlap :: real
  r_GeoMatch :: real
  r_SalaryFit :: real
  r_StalePenalty :: real
  r_Total :: real

section \<open>The five terms\<close>

definition cosineSimilarity :: "real list \<Rightarrow> real list \<Rightarrow> real" where
  "cosineSimilarity a b =
     (if length a = 0 \<or> length b = 0 \<or> length a \<noteq> length b then 0
      else let dot = sum_list (map2 (*) a b); na = sum_list (map (\<lambda>x. x * x) a); nb = sum_list (map (\<lambda>x. x * x) b)
           in if na = 0 \<or> nb = 0 then 0 else dot / (sqrt na * sqrt nb))"

definition skillsOverlap :: "string list \<Rightarrow> string list \<Rightarrow> real" where
  "skillsOverlap cand opp =
     (if length cand = 0 \<or> length opp = 0 then 1
      else let want = set (map ToLower opp); hits = length (filter (\<lambda>s. ToLower s \<in> want) cand)
           in real hits / real (length cand))"

text \<open>\<open>strings.EqualFold\<close> on ASCII text.\<close>

definition EqualFold :: "string \<Rightarrow> string \<Rightarrow> bool" where
  "EqualFold a b \<longleftrightarrow> ToLower a = ToLower b"

definition geoMatch :: "string list \<Rightarrow> string \<Rightarrow> real" where
  "geoMatch candCountries oppCountry =
     (if length candCountries = 0 \<or> oppCountry = [] then 1
      else if list_ex (\<lambda>c. EqualFold c oppCountry \<or> EqualFold c ''remote'') candCountries then 1 else 0)"

definition salaryFit :: "int option \<Rightarrow> int option \<Rightarrow> real" where
  "salaryFit candFloor oppMax =
     (case candFloor of None \<Rightarrow> 1
      | Some fl \<Rightarrow> (case oppMax of None \<Rightarrow> 1 | Some mx \<Rightarrow> if mx \<ge> fl then 1 else 0))"

definition stalePenalty :: "time \<Rightarrow> time \<Rightarrow> real" where
  "stalePenalty firstSeen now =
     (if IsZero firstSeen then 0
      else let age = now - firstSeen
           in if age \<le> 7 * 24 * Hour then 0
              else if age \<ge> 60 * 24 * Hour then 1
              else let span = real ((60 - 7) * 24 * 60 * 60);
                       excess = real_of_int age / real_of_int Second - real (7 * 24 * 60 * 60)
                   in excess / span)"

definition weighted :: "Weights \<Rightarrow> Result \<Rightarrow> real" where
  "weighted w r = (let total = w_Cosine w * r_Cosine r + w_Skills w * r_SkillsOverlap r + w_Geo w * r_GeoMatch r +
       w_Salary w * r_SalaryFit r - w_Stale w * r_StalePenalty r in if total < 0 then 0 else total)"

definition Score :: "CandidateSignal \<Rightarrow> OpportunitySignal \<Rightarrow> Weights \<Rightarrow> time \<Rightarrow> Result" where
  "Score cand opp w now =
     (let r = \<lparr>r_Cosine = cosineSimilarity (cs_Embedding cand) (ops_Embedding opp),
               r_SkillsOverlap = skillsOverlap (cs_Skills cand) (ops_Skills opp),
               r_GeoMatch = geoMatch (cs_Countries cand) (ops_Country opp),
               r_SalaryFit = salaryFit (cs_SalaryFloorUSD cand) (ops_SalaryMaxUSD opp),
               r_StalePenalty = stalePenalty (ops_FirstSeenAt opp) now, r_Total = 0\<rparr>
      in r\<lparr>r_Total := weighted w r\<rparr>)"

section \<open>Bounds\<close>

lemma sum_sq_nonneg: "0 \<le> sum_list (map (\<lambda>x. x * x) (a :: real list))"
  by (rule sum_list_nonneg) auto

text \<open>Cauchy's inequality for vectors of the same length.\<close>

lemma cauchy_step:
  fixes d n m x y :: real
  assumes "d\<^sup>2 \<le> n * m" and "0 \<le> n" and "0 \<le> m"
  shows "(d + x * y)\<^sup>2 \<le> (n + x * x) * (m + y * y)"
proof -
  have s: "0 \<le> n * y\<^sup>2 + m * x\<^sup>2" using assms by simp
  have "(2 * d * (x * y))\<^sup>2 \<le> 4 * (n * m) * (x * y)\<^sup>2"
    using mult_right_mono[OF assms(1), of "4 * (x * y)\<^sup>2"] by (simp add: power_mult_distrib algebra_simps)
  also have "\<dots> \<le> (n * y\<^sup>2 + m * x\<^sup>2)\<^sup>2"
  proof -
    have "(n * y\<^sup>2 + m * x\<^sup>2)\<^sup>2 - 4 * (n * m) * (x * y)\<^sup>2 = (n * y\<^sup>2 - m * x\<^sup>2)\<^sup>2"
      by (simp add: power2_eq_square algebra_simps)
    then show ?thesis by (metis diff_ge_0_iff_ge zero_le_power2)
  qed
  finally have "2 * d * (x * y) \<le> n * y\<^sup>2 + m * x\<^sup>2" using s by (rule power2_le_imp_le)
  with assms(1) show ?thesis by (simp add: power2_eq_square algebra_simps)
qed

lemma cauchy: "length a = length b \<Longrightarrow>
  (sum_list (map2 (*) a b))\<^sup>2 \<le> sum_list (map (\<lambda>x. x * x) a) * sum_list (map (\<lambda>x. x * x) (b :: real list))"
proof (induction a b rule: list_induct2)
  case (Cons x a y b)
  from cauchy_step[OF Cons.IH sum_sq_nonneg sum_sq_nonneg, of x y] show ?case by (simp add: add.commute)
qed simp

lemma cosine_bounds: "\<bar>cosineSimilarity a b\<bar> \<le> 1"
proof -
  let ?d = "sum_list (map2 (*) a b)" and ?n = "sum_list (map (\<lambda>x. x * x) a)" and ?m = "sum_list (map (\<lambda>x. x * x) b)"
  show ?thesis
  proof (cases "length a = 0 \<or> length b = 0 \<or> length a \<noteq> length b \<or> ?n = 0 \<or> ?m = 0")
    case False
    then have "\<bar>?d\<bar> \<le> sqrt (?n * ?m)" using real_sqrt_le_mono[OF cauchy[of a b]] by simp
    moreover have "0 < ?n" "0 < ?m" using False sum_sq_nonneg[of a] sum_sq_nonneg[of b] by linarith+
    ultimately have "\<bar>?d / (sqrt ?n * sqrt ?m)\<bar> \<le> 1" by (simp add: real_sqrt_mult divide_le_eq)
    with False show ?thesis by (simp add: cosineSimilarity_def Let_def)
  qed (auto simp: cosineSimilarity_def Let_def)
qed

lemma skills_bounds: "0 \<le> skillsOverlap a b" "skillsOverlap a b \<le> 1"
  by (auto simp: skillsOverlap_def Let_def divide_le_eq)

lemma geo_bounds: "0 \<le> geoMatch a b" "geoMatch a b \<le> 1"
  by (auto simp: geoMatch_def)

lemma salary_bounds: "0 \<le> salaryFit a b" "salaryFit a b \<le> 1"
  by (auto simp: salaryFit_def split: option.splits)

lemma stale_bounds: "0 \<le> stalePenalty f n" "stalePenalty f n \<le> 1"
  by (auto simp: stalePenalty_def Let_def Hour_def Minute_def Second_def divide_le_eq le_divide_eq)

lemma stale_mono: "n \<le> n' \<Longrightarrow> stalePenalty f n \<le> stalePenalty f n'"
  by (auto simp: stalePenalty_def Let_def Hour_def Minute_def Second_def divide_le_eq le_divide_eq divide_right_mono)

lemma pg_cosine_bounds: "0 \<le> CosineFromPGDistance x" "CosineFromPGDistance x \<le> 1"
  by (auto simp: CosineFromPGDistance_def Let_def)

definition weights_ok :: "Weights \<Rightarrow> bool" where
  "weights_ok w \<longleftrightarrow> 0 \<le> w_Cosine w \<and> 0 \<le> w_Skills w \<and> 0 \<le> w_Geo w \<and> 0 \<le> w_Salary w \<and> 0 \<le> w_Stale w"

lemma weighted_bounds:
  assumes "weights_ok w" and "r_Cosine r \<le> 1" "r_SkillsOverlap r \<le> 1" "r_GeoMatch r \<le> 1" "r_SalaryFit r \<le> 1" "0 \<le> r_StalePenalty r"
  shows "0 \<le> weighted w r" "weighted w r \<le> w_Cosine w + w_Skills w + w_Geo w + w_Salary w"
proof -
  have w: "0 \<le> w_Cosine w" "0 \<le> w_Skills w" "0 \<le> w_Geo w" "0 \<le> w_Salary w" "0 \<le> w_Stale w"
    using assms(1) by (simp_all add: weights_ok_def)
  have "w_Cosine w * r_Cosine r \<le> w_Cosine w" "w_Skills w * r_SkillsOverlap r \<le> w_Skills w"
    "w_Geo w * r_GeoMatch r \<le> w_Geo w" "w_Salary w * r_SalaryFit r \<le> w_Salary w" "0 \<le> w_Stale w * r_StalePenalty r"
    using w assms(2-) by (simp_all add: mult_left_le)
  with w show "0 \<le> weighted w r" "weighted w r \<le> w_Cosine w + w_Skills w + w_Geo w + w_Salary w"
    by (simp_all add: weighted_def Let_def)
qed

text \<open>
  Every score lies between 0 and the sum of the positive weights (1 for the default ones),
  whatever the vectors, lists and times, and a posting never gains score by ageing.
\<close>

theorem score_bounds:
  assumes "weights_ok w"
  shows "0 \<le> r_Total (Score cand opp w now) \<and> r_Total (Score cand opp w now) \<le> w_Cosine w + w_Skills w + w_Geo w + w_Salary w \<and>
    (now \<le> now' \<longrightarrow> r_Total (Score cand opp w now') \<le> r_Total (Score cand opp w now))"
proof (intro conjI impI)
  note b = cosine_bounds skills_bounds geo_bounds salary_bounds stale_bounds
  have c: "cosineSimilarity x y \<le> 1" for x y using cosine_bounds[of x y] by simp
  show "0 \<le> r_Total (Score cand opp w now)"
    "r_Total (Score cand opp w now) \<le> w_Cosine w + w_Skills w + w_Geo w + w_Salary w"
    unfolding Score_def Let_def by (simp_all add: weighted_bounds assms c b)
  assume "now \<le> now'"
  then have "w_Stale w * stalePenalty (ops_FirstSeenAt opp) now \<le> w_Stale w * stalePenalty (ops_FirstSeenAt opp) now'"
    using assms stale_mono by (simp add: weights_ok_def mult_left_mono)
  then show "r_Total (Score cand opp w now') \<le> r_Total (Score cand opp w now)"
    by (simp add: Score_def weighted_def Let_def)
qed

theorem score_bounds_witness:
  "r_Total (Score \<lparr>cs_Embedding = [1, 0], cs_Skills = [''Go''], cs_Countries = [], cs_SalaryFloorUSD = None\<rparr>
     \<lparr>ops_Embedding = [1, 0], ops_Skills = [''go''], ops_Country = [], ops_SalaryMaxUSD = None, ops_FirstSeenAt = 1\<rparr> DefaultWeights 2) \<le> 1"
  using score_bounds[of DefaultWeights "\<lparr>cs_Embedding = [1, 0], cs_Skills = [''Go''], cs_Countries = [], cs_SalaryFloorUSD = None\<rparr>"
    "\<lparr>ops_Embedding = [1, 0], ops_Skills = [''go''], ops_Country = [], ops_SalaryMaxUSD = None, ops_FirstSeenAt = 1\<rparr>" 2 3]
  by (simp add: weights_ok_def DefaultWeights_def)

end
