(* ===== verification/Matching_Store.thy ===== *)
theory Matching_Store
  imports Matching_Score Applications Jobqueue
begin

text \<open>
  The tables of \<open>pkg/matching\<close> and the stores over them: matches (\<open>store.go\<close>), audit events
  (\<open>events_log.go\<close>), caps (\<open>daily_cap.go\<close>, \<open>invoke_limit.go\<close>), notification receipts
  (\<open>receipts.go\<close>), autonomy rules (\<open>rules_store.go\<close>), the candidate index (\<open>index_store.go\<close>) and
  nearest-neighbour retrieval (\<open>knn.go\<close>).

  \<open>now\<close> arguments are the statement time \<open>now()\<close> or the clock reading the code passes.  An
  embedding is kept as its textual form; \<open>cosdist\<close> is the cosine distance operator of pgvector, and
  a row whose distance is queried has an embedding of the right dimension.  Every writer of a
  match sets \<open>last_event_id\<close>, so that column is never NULL.
\<close>

section \<open>Statuses and rows\<close>

definition MatchNew :: string where "MatchNew = ''new''"
definition MatchViewed :: string where "MatchViewed = ''viewed''"
definition MatchDismissed :: string where "MatchDismissed = ''dismissed''"
definition MatchApplying :: string where "MatchApplying = ''applying''"
definition MatchApplied :: string where "MatchApplied = ''applied''"
definition MatchOverflow :: string where "MatchOverflow = ''overflow''"

lemmas match_status_defs = MatchNew_def MatchViewed_def MatchDismissed_def MatchApplying_def MatchApplied_def MatchOverflow_def

lemma match_status_distinct [simp]:
  "MatchNew \<noteq> MatchOverflow" "MatchOverflow \<noteq> MatchNew" "MatchNew \<noteq> MatchDismissed" "MatchDismissed \<noteq> MatchNew"
  "MatchNew \<noteq> MatchApplied" "MatchApplied \<noteq> MatchNew" "MatchOverflow \<noteq> MatchDismissed" "MatchDismissed \<noteq> MatchOverflow"
  "MatchOverflow \<noteq> MatchApplied" "MatchApplied \<noteq> MatchOverflow" "MatchApplied \<noteq> MatchDismissed" "MatchDismissed \<noteq> MatchApplied"
  "MatchNew \<noteq> []" "MatchOverflow \<noteq> []"
  by (simp_all add: match_status_defs)

definition MatchStatus_IsTerminal :: "string \<Rightarrow> bool" where
  "MatchStatus_IsTerminal s \<longleftrightarrow> s \<in> {MatchDismissed, MatchApplied}"

definition Match_AllStatuses :: "string list" where
  "Match_AllStatuses = [MatchNew, MatchViewed, MatchDismissed, MatchApplying, MatchApplied, MatchOverflow]"

record Match =
  m_MatchID :: string
  m_CandidateID :: string
  m_OpportunityID :: string
  m_ApplyURL :: string
  m_Status :: string
  m_Score :: real
  m_RerankScore :: "real option"
  m_RerankerUsed :: bool
  m_ViewedAt :: "time option"
  m_AppliedAt :: "time option"
  m_DismissedAt :: "time option"
  m_LastEventID :: string
  m_Metadata :: gomap
  m_CreatedAt :: time
  m_UpdatedAt :: time

record CandidateMatchRecord =
  cm_MatchID :: string
  cm_CandidateID :: string
  cm_OpportunityID :: string
  cm_Status :: string
  cm_Score :: real
  cm_RerankScore :: "real option"
  cm_RerankerUsed :: bool
  cm_ViewedAt :: "time option"
  cm_AppliedAt :: "time option"
  cm_DismissedAt :: "time option"
  cm_LastEventID :: string
  cm_Metadata :: gomap
  cm_CreatedAt :: time
  cm_UpdatedAt :: time

definition KindGenerated :: string where "KindGenerated = ''generated''"
definition KindDismissed :: string where "KindDismissed = ''dismissed''"
definition KindOverflow :: string where "KindOverflow = ''overflow''"
definition PathFanout :: string where "PathFanout = ''fanout''"
definition PathGap :: string where "PathGap = ''gap''"
definition PathCandidateChange :: string where "PathCandidateChange = ''candidate_change''"

record MatchEvent =
  me_EventID :: string
  me_OccurredAt :: time
  me_CandidateID :: string
  me_OpportunityID :: string
  me_CanonicalID :: string
  me_Kind :: string
  me_Path :: string
  me_Score :: real
  me_RerankScore :: "real option"
  me_RerankerUsed :: bool
  me_Data :: gomap

record MatchRunEvent =
  mr_RunID :: string
  mr_StartedAt :: time
  mr_FinishedAt :: "time option"
  mr_Path :: string
  mr_TriggeredBy :: string
  mr_CandidateID :: string
  mr_CanonicalID :: string
  mr_CandidatesScanned :: int
  mr_MatchesWritten :: int
  mr_Status :: string
  mr_RerankerStatus :: string
  mr_LatencyMS :: int
  mr_Data :: gomap

record MatchRunEventRecord =
  rr_RunID :: string
  rr_StartedAt :: time
  rr_FinishedAt :: "time option"
  rr_Path :: string
  rr_TriggeredBy :: string
  rr_CandidateID :: "string option"
  rr_CanonicalID :: "string option"
  rr_CandidatesScanned :: int
  rr_MatchesWritten :: int
  rr_Status :: string
  rr_RerankerStatus :: "string option"
  rr_LatencyMS :: "int option"
  rr_Data :: gomap

record CandidateMatchIndexRecord =
  ci_CandidateID :: string
  ci_Embedding :: string
  ci_MinScore :: real
  ci_DailyCap :: int
  ci_WeeklyCap :: int
  ci_Kinds :: "string list"
  ci_Countries :: "string list"
  ci_SalaryFloorUSD :: "int option"
  ci_RemoteOnly :: bool
  ci_RerankText :: string
  ci_Enabled :: bool
  ci_UpdatedAt :: time

record MatchRuleRecord =
  ru_CandidateID :: string
  ru_Document :: rules_document
  ru_Version :: int
  ru_Enabled :: bool
  ru_Autoapply :: bool
  ru_UpdatedAt :: time

record MatchNotificationReceiptRecord =
  nr_CandidateID :: string
  nr_MatchID :: string
  nr_Channel :: string
  nr_OpportunityID :: string
  nr_SentAt :: time

record EngagementEventRecord =
  eg_EventID :: string
  eg_OccurredAt :: time
  eg_CandidateID :: string
  eg_OpportunityID :: string
  eg_Kind :: string
  eg_Source :: string
  eg_Data :: string

record matchdb =
  candidate_matches :: "CandidateMatchRecord list"
  candidate_match_events :: "MatchEvent list"
  match_run_events :: "MatchRunEventRecord list"
  candidate_match_indexes :: "CandidateMatchIndexRecord list"
  match_rules :: "MatchRuleRecord list"
  match_notification_receipts :: "MatchNotificationReceiptRecord list"
  engagement_events :: "EngagementEventRecord list"
  match_opportunities :: "OpportunityRecord list"

definition ErrMatchNotFound :: go_error where "ErrMatchNotFound = ErrNew ''matching: not found''"

section \<open>Matches\<close>

definition same_pair :: "Match \<Rightarrow> CandidateMatchRecord \<Rightarrow> bool" where
  "same_pair m r \<longleftrightarrow> cm_CandidateID r = m_CandidateID m \<and> cm_OpportunityID r = m_OpportunityID m"

definition match_row :: "time \<Rightarrow> Match \<Rightarrow> CandidateMatchRecord" where
  "match_row now m =
     \<lparr>cm_MatchID = m_MatchID m, cm_CandidateID = m_CandidateID m, cm_OpportunityID = m_OpportunityID m,
      cm_Status = (if m_Status m = [] then MatchNew else m_Status m), cm_Score = m_Score m,
      cm_RerankScore = m_RerankScore m, cm_RerankerUsed = m_RerankerUsed m, cm_ViewedAt = None, cm_AppliedAt = None,
      cm_DismissedAt = None, cm_LastEventID = m_LastEventID m, cm_Metadata = m_Metadata m,
      cm_CreatedAt = now, cm_UpdatedAt = now\<rparr>"

text \<open>The \<open>DO UPDATE SET\<close> of \<open>upsertOneSQL\<close> and its guard.\<close>

definition improve_row :: "time \<Rightarrow> Match \<Rightarrow> CandidateMatchRecord \<Rightarrow> CandidateMatchRecord" where
  "improve_row now m r =
     r\<lparr>cm_Score := max (cm_Score r) (m_Score m), cm_RerankScore := COALESCE (m_RerankScore m) (cm_RerankScore r),
       cm_RerankerUsed := (cm_RerankerUsed r \<or> m_RerankerUsed m), cm_LastEventID := m_LastEventID m,
       cm_Metadata := cm_Metadata r ++ m_Metadata m, cm_UpdatedAt := now\<rparr>"

definition improves :: "Match \<Rightarrow> CandidateMatchRecord \<Rightarrow> bool" where
  "improves m r \<longleftrightarrow> cm_Status r = MatchNew \<and> m_Score m > cm_Score r"

text \<open>The statement: \<open>Some\<close> the returned flag, or \<open>None\<close> when no row is returned.\<close>

definition upsertOneSQL :: "time \<Rightarrow> Match \<Rightarrow> matchdb \<Rightarrow> (go_error + bool option) \<times> matchdb" where
  "upsertOneSQL now m d =
     (case List.find (same_pair m) (candidate_matches d) of
        Some r \<Rightarrow>
          if improves m r
          then (Inr (Some False), d\<lparr>candidate_matches := update_where (same_pair m) (improve_row now m) (candidate_matches d)\<rparr>)
          else (Inr None, d)
      | None \<Rightarrow>
          if list_ex (\<lambda>r. cm_MatchID r = m_MatchID m) (candidate_matches d)
          then (Inl (ErrConstraint ''candidate_matches_pkey''), d)
          else (Inr (Some True), d\<lparr>candidate_matches := candidate_matches d @ [match_row now m]\<rparr>))"

definition UpsertMatch :: "time \<Rightarrow> Match \<Rightarrow> (matchdb, bool) sql" where
  "UpsertMatch now m =
     sql_bind (sql_wrap ''matching: upsert'' (sql_stmt (upsertOneSQL now m))) (\<lambda>inserted.
     sql_return (case inserted of None \<Rightarrow> False | Some b \<Rightarrow> b))"

definition UpsertMatches :: "time \<Rightarrow> Match list \<Rightarrow> (matchdb, unit) sql" where
  "UpsertMatches now ms =
     (if ms = [] then sql_return ()
      else transaction (sql_bind (sql_map (\<lambda>m. sql_wrap (''matching: bulk row '' @ m_MatchID m) (sql_stmt (upsertOneSQL now m))) ms) (\<lambda>_.
        sql_return ())))"

definition apply_url_of :: "matchdb \<Rightarrow> string \<Rightarrow> string" where
  "apply_url_of d i = (case List.find (\<lambda>o'. o_CanonicalID o' = i) (match_opportunities d) of
     None \<Rightarrow> [] | Some o' \<Rightarrow> o_ApplyURL o')"

definition scanMatch :: "matchdb \<Rightarrow> CandidateMatchRecord \<Rightarrow> Match" where
  "scanMatch d r =
     \<lparr>m_MatchID = cm_MatchID r, m_CandidateID = cm_CandidateID r, m_OpportunityID = cm_OpportunityID r,
      m_ApplyURL = apply_url_of d (cm_OpportunityID r), m_Status = cm_Status r, m_Score = cm_Score r,
      m_RerankScore = cm_RerankScore r, m_RerankerUsed = cm_RerankerUsed r, m_ViewedAt = cm_ViewedAt r,
      m_AppliedAt = cm_AppliedAt r, m_DismissedAt = cm_DismissedAt r,
      m_LastEventID = cm_LastEventID r,
      m_Metadata = cm_Metadata r, m_CreatedAt = cm_CreatedAt r, m_UpdatedAt = cm_UpdatedAt r\<rparr>"

definition Match_GetByPair :: "string \<Rightarrow> string \<Rightarrow> (matchdb, Match) sql" where
  "Match_GetByPair candidateID opportunityID =
     sql_bind (sql_query (\<lambda>d. map_option (scanMatch d) (List.find (\<lambda>r. cm_CandidateID r = candidateID \<and>
       cm_OpportunityID r = opportunityID) (candidate_matches d)))) (\<lambda>m.
     case m of None \<Rightarrow> sql_raise ErrMatchNotFound | Some x \<Rightarrow> sql_return x)"

definition applied_row :: "time \<Rightarrow> CandidateMatchRecord \<Rightarrow> CandidateMatchRecord" where
  "applied_row now r = r\<lparr>cm_Status := MatchApplied, cm_AppliedAt := COALESCE (cm_AppliedAt r) (Some now), cm_UpdatedAt := now\<rparr>"

definition MarkApplied :: "time \<Rightarrow> string \<Rightarrow> string \<Rightarrow> (matchdb, unit) sql" where
  "MarkApplied now candidateID opportunityID = sql_wrap ''matching: mark applied''
     (sql_exec (\<lambda>d. d\<lparr>candidate_matches := update_where (\<lambda>r. cm_CandidateID r = candidateID \<and> cm_OpportunityID r = opportunityID \<and>
        cm_Status r \<noteq> MatchDismissed) (applied_row now) (candidate_matches d)\<rparr>))"

section \<open>Listing\<close>

record matchCursor =
  mc_Score :: real
  mc_CreatedAt :: time
  mc_MatchID :: string

datatype match_token = NoMatchCursor | BadMatchCursor | MatchToken matchCursor

definition match_decodeCursor :: "match_token \<Rightarrow> go_error + matchCursor" where
  "match_decodeCursor s =
     (case s of
        MatchToken c \<Rightarrow> if mc_MatchID c = [] \<or> IsZero (mc_CreatedAt c)
          then Inl (ErrNew ''matching: cursor: missing required fields'') else Inr c
      | _ \<Rightarrow> Inl (ErrNew ''illegal base64 data''))"

record ListMatchesParams =
  lm_CandidateID :: string
  lm_Statuses :: "string list"
  lm_Cursor :: match_token
  lm_Limit :: int

record ListMatchesPage =
  mp_Items :: "Match list"
  mp_NextCursor :: match_token
  mp_HasMore :: bool

definition match_page_limit :: "int \<Rightarrow> int" where
  "match_page_limit n = (let limit = (if n \<le> 0 then 50 else n) in if limit > 200 then 200 else limit)"

definition match_key :: "CandidateMatchRecord \<Rightarrow> real \<times> time \<times> string" where
  "match_key r = (- cm_Score r, - cm_CreatedAt r, cm_MatchID r)"

definition before_cursor :: "matchCursor \<Rightarrow> CandidateMatchRecord \<Rightarrow> bool" where
  "before_cursor c r \<longleftrightarrow> (cm_Score r, cm_CreatedAt r, cm_MatchID r) < (mc_Score c, mc_CreatedAt c, mc_MatchID c)"

definition match_listing :: "ListMatchesParams \<Rightarrow> matchCursor option \<Rightarrow> matchdb \<Rightarrow> CandidateMatchRecord list" where
  "match_listing p cur d =
     (let statuses = (if lm_Statuses p = [] then [MatchNew, MatchViewed, MatchApplying] else lm_Statuses p)
      in sort_key match_key (filter (\<lambda>r. cm_CandidateID r = lm_CandidateID p \<and> cm_Status r \<in> set statuses \<and>
           (case cur of None \<Rightarrow> True | Some c \<Rightarrow> before_cursor c r)) (candidate_matches d)))"

definition match_page :: "int \<Rightarrow> Match list \<Rightarrow> ListMatchesPage" where
  "match_page limit out =
     (let hasMore = (int (length out) > limit); items = (if hasMore then take (nat limit) out else out)
      in \<lparr>mp_Items = items,
          mp_NextCursor = (if hasMore then MatchToken \<lparr>mc_Score = m_Score (last items), mc_CreatedAt = m_CreatedAt (last items),
             mc_MatchID = m_MatchID (last items)\<rparr> else NoMatchCursor),
          mp_HasMore = hasMore\<rparr>)"

definition Match_ListByCandidate :: "ListMatchesParams \<Rightarrow> (matchdb, ListMatchesPage) sql" where
  "Match_ListByCandidate p =
     (let limit = match_page_limit (lm_Limit p);
          page = (\<lambda>cur. sql_bind (sql_wrap ''matching: list'' (sql_query (\<lambda>d.
             map (scanMatch d) (take (nat (limit + 1)) (match_listing p cur d))))) (\<lambda>out. sql_return (match_page limit out)))
      in if lm_Cursor p = NoMatchCursor then page None
         else case match_decodeCursor (lm_Cursor p) of
           Inl e \<Rightarrow> sql_raise (ErrWrap ''matching: cursor'' e)
         | Inr c \<Rightarrow> page (Some c))"

section \<open>Counts\<close>

definition Day7 :: duration where "Day7 = 7 * 24 * Hour"

definition SubscriptionSummary :: "time \<Rightarrow> string \<Rightarrow> (matchdb, int \<times> int) sql" where
  "SubscriptionSummary now candidateID = sql_wrap ''matching: subscription summary'' (sql_query (\<lambda>d.
     let rows = filter (\<lambda>r. cm_CandidateID r = candidateID) (candidate_matches d)
     in (int (length (filter (\<lambda>r. cm_Status r = MatchNew) rows)),
         int (length (filter (\<lambda>r. cm_Status r \<in> {MatchViewed, MatchApplying, MatchApplied, MatchDismissed} \<and>
           cm_CreatedAt r > now - Day7) rows)))))"

definition billable :: "time \<Rightarrow> string \<Rightarrow> CandidateMatchRecord \<Rightarrow> bool" where
  "billable now candidateID r \<longleftrightarrow> cm_CandidateID r = candidateID \<and> cm_Status r \<noteq> MatchOverflow \<and> cm_CreatedAt r > now - Day7"

definition week_count :: "time \<Rightarrow> string \<Rightarrow> matchdb \<Rightarrow> int" where
  "week_count now candidateID d = int (length (filter (billable now candidateID) (candidate_matches d)))"

definition CountNonOverflowThisWeek :: "time \<Rightarrow> string \<Rightarrow> (matchdb, int) sql" where
  "CountNonOverflowThisWeek now candidateID =
     sql_wrap ''matching: count week matches'' (sql_query (week_count now candidateID))"

text \<open>\<open>date_trunc('day', now() AT TIME ZONE 'utc')\<close>; Go's zero time is a midnight.\<close>

definition utc_midnight :: "time \<Rightarrow> time" where
  "utc_midnight t = t div (24 * Hour) * (24 * Hour)"

definition today_count :: "time \<Rightarrow> string \<Rightarrow> matchdb \<Rightarrow> int" where
  "today_count now candidateID d = int (length (filter (\<lambda>e. me_CandidateID e = candidateID \<and> me_Kind e = KindGenerated \<and>
     me_OccurredAt e \<ge> utc_midnight now) (candidate_match_events d)))"

definition TodayCount :: "time \<Rightarrow> string \<Rightarrow> (matchdb, int) sql" where
  "TodayCount now candidateID = sql_wrap ''matching: daily cap query'' (sql_query (today_count now candidateID))"

definition InvokeUserRefresh :: string where "InvokeUserRefresh = ''user_refresh''"
definition InvokeDigest :: string where "InvokeDigest = ''digest''"
definition InvokeOnboardSeed :: string where "InvokeOnboardSeed = ''onboard_seed''"

definition invoke_count :: "time \<Rightarrow> string \<Rightarrow> matchdb \<Rightarrow> int" where
  "invoke_count now candidateID d = int (length (filter (\<lambda>e. rr_CandidateID e = Some candidateID \<and>
     rr_TriggeredBy e \<in> {InvokeUserRefresh, InvokeOnboardSeed} \<and> rr_StartedAt e \<ge> utc_midnight now) (match_run_events d)))"

definition CountUserInvokesToday :: "string \<Rightarrow> time \<Rightarrow> (matchdb, int) sql" where
  "CountUserInvokesToday candidateID now = sql_wrap ''matching: count invokes'' (sql_query (invoke_count now candidateID))"

section \<open>Audit events\<close>

definition WriteMatchEvent :: "time \<Rightarrow> MatchEvent \<Rightarrow> (matchdb, unit) sql" where
  "WriteMatchEvent now m = sql_wrap ''matching: write match event'' (sql_exec (\<lambda>d.
     let row = m\<lparr>me_OccurredAt := (if IsZero (me_OccurredAt m) then now else me_OccurredAt m)\<rparr>
     in if list_ex (\<lambda>e. me_EventID e = me_EventID row \<and> me_OccurredAt e = me_OccurredAt row) (candidate_match_events d) then d
        else d\<lparr>candidate_match_events := candidate_match_events d @ [row]\<rparr>))"

definition run_row :: "time \<Rightarrow> MatchRunEvent \<Rightarrow> MatchRunEventRecord" where
  "run_row now r =
     \<lparr>rr_RunID = mr_RunID r, rr_StartedAt = (if IsZero (mr_StartedAt r) then now else mr_StartedAt r),
      rr_FinishedAt = mr_FinishedAt r, rr_Path = mr_Path r, rr_TriggeredBy = mr_TriggeredBy r,
      rr_CandidateID = NULLIF_empty (mr_CandidateID r), rr_CanonicalID = NULLIF_empty (mr_CanonicalID r),
      rr_CandidatesScanned = mr_CandidatesScanned r, rr_MatchesWritten = mr_MatchesWritten r, rr_Status = mr_Status r,
      rr_RerankerStatus = NULLIF_empty (mr_RerankerStatus r),
      rr_LatencyMS = (if mr_LatencyMS r = 0 then None else Some (mr_LatencyMS r)), rr_Data = mr_Data r\<rparr>"

definition WriteMatchRunEvent :: "time \<Rightarrow> MatchRunEvent \<Rightarrow> (matchdb, unit) sql" where
  "WriteMatchRunEvent now r = sql_wrap ''matching: write run event'' (sql_exec (\<lambda>d.
     if list_ex (\<lambda>e. rr_RunID e = rr_RunID (run_row now r) \<and> rr_StartedAt e = rr_StartedAt (run_row now r)) (match_run_events d) then d
     else d\<lparr>match_run_events := match_run_events d @ [run_row now r]\<rparr>))"

section \<open>Digests and receipts\<close>

record DigestMatch =
  dm_MatchID :: string
  dm_OpportunityID :: string
  dm_ApplyURL :: string
  dm_Score :: real
  dm_Title :: string
  dm_Company :: string
  dm_Slug :: string

definition digest_card :: "bool \<Rightarrow> CandidateMatchRecord \<Rightarrow> OpportunityRecord \<Rightarrow> DigestMatch" where
  "digest_card withID r o' =
     \<lparr>dm_MatchID = (if withID then cm_MatchID r else []), dm_OpportunityID = cm_OpportunityID r, dm_ApplyURL = o_ApplyURL o',
      dm_Score = cm_Score r, dm_Title = o_Title o', dm_Company = COALESCE_empty (o_IssuingEntity o'), dm_Slug = o_Slug o'\<rparr>"

text \<open>The join of a candidate's visible matches with their opportunities, best first.\<close>

definition digest_rows :: "string \<Rightarrow> (CandidateMatchRecord \<Rightarrow> bool) \<Rightarrow> matchdb \<Rightarrow> (CandidateMatchRecord \<times> OpportunityRecord) list" where
  "digest_rows candidateID keep d =
     sort_key (\<lambda>(r, o'). (- cm_Score r, - cm_CreatedAt r))
       [(r, o'). r \<leftarrow> candidate_matches d, cm_CandidateID r = candidateID \<and> cm_Status r \<notin> {MatchOverflow, MatchDismissed} \<and> keep r,
                 o' \<leftarrow> match_opportunities d, o_CanonicalID o' = cm_OpportunityID r]"

definition ListTopMatchesForDigest :: "string \<Rightarrow> int \<Rightarrow> (matchdb, DigestMatch list) sql" where
  "ListTopMatchesForDigest candidateID limit0 =
     (let limit1 = (if limit0 \<le> 0 then 10 else limit0); limit = (if limit1 > 50 then 50 else limit1)
      in sql_wrap ''matching: list digest matches'' (sql_query (\<lambda>d.
        map (\<lambda>(r, o'). digest_card False r o') (take (nat limit) (digest_rows candidateID (\<lambda>_. True) d)))))"

definition receipt_channel :: "string \<Rightarrow> string" where
  "receipt_channel channel = (let c = TrimSpace channel in if c = [] then ''email'' else c)"

definition notified :: "string \<Rightarrow> matchdb \<Rightarrow> CandidateMatchRecord \<Rightarrow> bool" where
  "notified channel d r \<longleftrightarrow> list_ex (\<lambda>x. nr_CandidateID x = cm_CandidateID r \<and> nr_MatchID x = cm_MatchID r \<and> nr_Channel x = channel)
     (match_notification_receipts d)"

definition ListTopUnseenMatchesForDigest :: "string \<Rightarrow> string \<Rightarrow> int \<Rightarrow> (matchdb, DigestMatch list) sql" where
  "ListTopUnseenMatchesForDigest candidateID channel limit0 =
     (let limit = (if limit0 \<le> 0 \<or> limit0 > 3 then 3 else limit0)
      in sql_wrap ''matching: list unseen digest matches'' (sql_query (\<lambda>d.
        map (\<lambda>(r, o'). digest_card True r o')
          (take (nat limit) (digest_rows candidateID (\<lambda>r. \<not> notified (receipt_channel channel) d r) d)))))"

definition insert_receipt :: "time \<Rightarrow> string \<Rightarrow> string \<Rightarrow> DigestMatch \<Rightarrow> matchdb \<Rightarrow> matchdb" where
  "insert_receipt now candidateID channel it d =
     (if list_ex (\<lambda>x. nr_CandidateID x = candidateID \<and> nr_MatchID x = dm_MatchID it \<and> nr_Channel x = channel) (match_notification_receipts d)
      then d
      else d\<lparr>match_notification_receipts := match_notification_receipts d @
        [\<lparr>nr_CandidateID = candidateID, nr_MatchID = dm_MatchID it, nr_Channel = channel,
          nr_OpportunityID = dm_OpportunityID it, nr_SentAt = now\<rparr>]\<rparr>)"

definition InsertNotificationReceipts :: "time \<Rightarrow> string \<Rightarrow> string \<Rightarrow> DigestMatch list \<Rightarrow> (matchdb, unit) sql" where
  "InsertNotificationReceipts now candidateID channel items =
     sql_bind (sql_map (\<lambda>it. if TrimSpace (dm_MatchID it) = [] \<or> TrimSpace (dm_OpportunityID it) = [] then sql_return ()
       else sql_wrap ''matching: insert notification receipt'' (sql_exec (insert_receipt now candidateID (receipt_channel channel) it))) items)
     (\<lambda>_. sql_return ())"

section \<open>Candidate index\<close>

definition ApplyPlanCaps :: "time \<Rightarrow> string \<Rightarrow> int \<Rightarrow> int \<Rightarrow> (matchdb, unit) sql" where
  "ApplyPlanCaps now candidateID dailyCap weeklyCap = sql_wrap ''matching: apply plan caps''
     (sql_exec (\<lambda>d. d\<lparr>candidate_match_indexes := update_where (\<lambda>i. ci_CandidateID i = candidateID)
        (\<lambda>i. i\<lparr>ci_DailyCap := dailyCap, ci_WeeklyCap := weeklyCap, ci_UpdatedAt := now\<rparr>) (candidate_match_indexes d)\<rparr>))"

definition replace_index :: "time \<Rightarrow> CandidateMatchIndexRecord \<Rightarrow> CandidateMatchIndexRecord \<Rightarrow> CandidateMatchIndexRecord" where
  "replace_index now n r =
     n\<lparr>ci_CandidateID := ci_CandidateID r,
       ci_RerankText := (if ci_RerankText n \<noteq> [] then ci_RerankText n else ci_RerankText r), ci_UpdatedAt := now\<rparr>"

definition Index_Upsert :: "time \<Rightarrow> CandidateMatchIndexRecord \<Rightarrow> (matchdb, unit) sql" where
  "Index_Upsert now n = sql_wrap ''matching: index upsert'' (sql_exec (\<lambda>d.
     if list_ex (\<lambda>r. ci_CandidateID r = ci_CandidateID n) (candidate_match_indexes d)
     then d\<lparr>candidate_match_indexes := update_where (\<lambda>r. ci_CandidateID r = ci_CandidateID n) (replace_index now n) (candidate_match_indexes d)\<rparr>
     else d\<lparr>candidate_match_indexes := candidate_match_indexes d @ [n\<lparr>ci_UpdatedAt := now\<rparr>]\<rparr>))"

record IndexFilters =
  if_Countries :: "string list"
  if_Kinds :: "string list"
  if_SalaryFloorUSD :: "int option"
  if_RemoteOnly :: bool

definition filter_index :: "time \<Rightarrow> IndexFilters \<Rightarrow> CandidateMatchIndexRecord \<Rightarrow> CandidateMatchIndexRecord" where
  "filter_index now f r =
     r\<lparr>ci_Kinds := (if if_Kinds f = [] then [''job''] else if_Kinds f), ci_Countries := if_Countries f,
       ci_SalaryFloorUSD := COALESCE (if_SalaryFloorUSD f) (ci_SalaryFloorUSD r), ci_RemoteOnly := if_RemoteOnly f,
       ci_UpdatedAt := now\<rparr>"

definition UpsertFilters :: "time \<Rightarrow> string \<Rightarrow> IndexFilters \<Rightarrow> (matchdb, unit) sql" where
  "UpsertFilters now candidateID f =
     (if candidateID = [] then sql_return ()
      else sql_bind (sql_wrap ''matching: index filter upsert'' (sql_stmt (\<lambda>d.
        (Inr (length (filter (\<lambda>r. ci_CandidateID r = candidateID) (candidate_match_indexes d))),
         d\<lparr>candidate_match_indexes := update_where (\<lambda>r. ci_CandidateID r = candidateID) (filter_index now f) (candidate_match_indexes d)\<rparr>)))) (\<lambda>n.
        if n = 0 then sql_raise ErrMatchNotFound else sql_return ()))"

definition Index_Get :: "string \<Rightarrow> (matchdb, CandidateMatchIndexRecord) sql" where
  "Index_Get candidateID =
     sql_bind (sql_wrap ''matching: index get'' (sql_query (\<lambda>d. List.find (\<lambda>r. ci_CandidateID r = candidateID) (candidate_match_indexes d)))) (\<lambda>ci.
     case ci of None \<Rightarrow> sql_raise ErrMatchNotFound | Some x \<Rightarrow> sql_return x)"

section \<open>Autonomy rules\<close>

text \<open>The text of a validation error is not modelled.\<close>

definition rules_failure :: "rules_error \<Rightarrow> go_error" where
  "rules_failure e = ErrNew ''invalid rules''"

record RulesRow =
  rw_CandidateID :: string
  rw_Document :: Rules
  rw_Version :: int
  rw_Enabled :: bool
  rw_Autoapply :: bool
  rw_UpdatedAt :: time

definition Rules_Get :: "string \<Rightarrow> (matchdb, RulesRow) sql" where
  "Rules_Get candidateID =
     sql_bind (sql_wrap ''matching: rules get'' (sql_query (\<lambda>d. List.find (\<lambda>r. ru_CandidateID r = candidateID) (match_rules d)))) (\<lambda>row.
     case row of
       None \<Rightarrow> sql_raise ErrMatchNotFound
     | Some r \<Rightarrow>
         (case ParseRules (Some (ru_Document r)) of
            Inl e \<Rightarrow> sql_raise (ErrWrap ''matching: rules parse'' (rules_failure e))
          | Inr doc \<Rightarrow> sql_return \<lparr>rw_CandidateID = ru_CandidateID r, rw_Document = doc, rw_Version = ru_Version r,
              rw_Enabled = ru_Enabled r, rw_Autoapply = ru_Autoapply r, rw_UpdatedAt = ru_UpdatedAt r\<rparr>))"

definition write_rules :: "time \<Rightarrow> string \<Rightarrow> Rules \<Rightarrow> rules_document \<Rightarrow> matchdb \<Rightarrow> matchdb" where
  "write_rules now candidateID doc body d =
     (if list_ex (\<lambda>r. ru_CandidateID r = candidateID) (match_rules d)
      then d\<lparr>match_rules := update_where (\<lambda>r. ru_CandidateID r = candidateID)
        (\<lambda>r. r\<lparr>ru_Document := body, ru_Version := ru_Version r + 1, ru_Enabled := r_Enabled doc,
               ru_Autoapply := ar_Enabled (r_Autoapply doc), ru_UpdatedAt := now\<rparr>) (match_rules d)\<rparr>
      else d\<lparr>match_rules := match_rules d @ [\<lparr>ru_CandidateID = candidateID, ru_Document = body, ru_Version = 1,
        ru_Enabled = r_Enabled doc, ru_Autoapply = ar_Enabled (r_Autoapply doc), ru_UpdatedAt = now\<rparr>]\<rparr>)"

definition Rules_Upsert :: "time \<Rightarrow> string \<Rightarrow> Rules \<Rightarrow> (matchdb, RulesRow) sql" where
  "Rules_Upsert now candidateID doc =
     (case MarshalRules doc of
        Inl e \<Rightarrow> sql_raise (ErrWrap ''matching: rules marshal'' (rules_failure e))
      | Inr body \<Rightarrow>
          sql_bind (sql_wrap ''matching: rules upsert'' (sql_exec (write_rules now candidateID doc body))) (\<lambda>_.
          Rules_Get candidateID))"

section \<open>Nearest neighbours\<close>

record CandidateHit =
  ch_CandidateID :: string
  ch_Distance :: real
  ch_MinScore :: real
  ch_DailyCap :: int
  ch_WeeklyCap :: int
  ch_Kinds :: "string list"
  ch_Countries :: "string list"
  ch_SalaryFloorUSD :: "int option"
  ch_Text :: string

definition reachable_candidate :: "string \<Rightarrow> string \<Rightarrow> int option \<Rightarrow> CandidateMatchIndexRecord \<Rightarrow> bool" where
  "reachable_candidate kind country salaryMax r \<longleftrightarrow>
     ci_Enabled r \<and> kind \<in> set (ci_Kinds r) \<and>
     (country = [] \<or> ci_Countries r = [] \<or> country \<in> set (ci_Countries r) \<or> ''remote'' \<in> set (ci_Countries r)) \<and>
     (case salaryMax of None \<Rightarrow> True | Some mx \<Rightarrow> (case ci_SalaryFloorUSD r of None \<Rightarrow> True | Some fl \<Rightarrow> fl \<le> mx))"

definition FanOutKNN ::
  "(string \<Rightarrow> string \<Rightarrow> real) \<Rightarrow> string \<Rightarrow> string \<Rightarrow> string \<Rightarrow> int option \<Rightarrow> int \<Rightarrow> (matchdb, CandidateHit list) sql"
where
  "FanOutKNN cosdist embedding kind country salaryMax limit0 =
     (let limit = (if limit0 \<le> 0 then 500 else limit0) in
      sql_wrap ''matching: fan-out knn'' (sql_query (\<lambda>d.
        map (\<lambda>r. \<lparr>ch_CandidateID = ci_CandidateID r, ch_Distance = cosdist (ci_Embedding r) embedding, ch_MinScore = ci_MinScore r,
                   ch_DailyCap = ci_DailyCap r, ch_WeeklyCap = ci_WeeklyCap r, ch_Kinds = ci_Kinds r, ch_Countries = ci_Countries r,
                   ch_SalaryFloorUSD = ci_SalaryFloorUSD r, ch_Text = ci_RerankText r\<rparr>)
          (take (nat limit) (sort_key (\<lambda>r. cosdist (ci_Embedding r) embedding)
            (filter (reachable_candidate kind country salaryMax) (candidate_match_indexes d)))))))"

record OppHit =
  oh_OpportunityID :: string
  oh_Distance :: real
  oh_Kind :: string
  oh_Country :: string
  oh_FirstSeenAt :: time
  oh_Text :: string

record ReverseKNNParams =
  rk_CandidateEmbedding :: string
  rk_Kinds :: "string list"
  rk_Countries :: "string list"
  rk_SoftKinds :: bool
  rk_HardCountries :: bool
  rk_Since :: time
  rk_Limit :: int
  rk_MaxDistance :: real

definition DefaultReverseKNNLimit :: int where "DefaultReverseKNNLimit = 250"
definition DefaultSemanticMaxDistance :: real where "DefaultSemanticMaxDistance = 90 / 100"

text \<open>\<open>describe\<close> is \<open>attributes->>'description'\<close>, cut at 1500 characters by the query.\<close>

definition retrievable :: "(string \<Rightarrow> string \<Rightarrow> real) \<Rightarrow> ReverseKNNParams \<Rightarrow> OpportunityRecord \<Rightarrow> bool" where
  "retrievable cosdist p o' \<longleftrightarrow>
     o_Status o' = ''active'' \<and> \<not> o_Hidden o' \<and> o_FirstSeenAt o' > rk_Since p \<and>
     (rk_Kinds p = [] \<or> rk_SoftKinds p \<or> o_Kind o' \<in> set (rk_Kinds p)) \<and>
     (\<not> rk_HardCountries p \<or> rk_Countries p = [] \<or> (case o_Country o' of None \<Rightarrow> True | Some c \<Rightarrow> c \<in> set (rk_Countries p))) \<and>
     (case o_Embedding o' of None \<Rightarrow> False
      | Some e \<Rightarrow> rk_MaxDistance p \<le> 0 \<or> cosdist e (rk_CandidateEmbedding p) \<le> rk_MaxDistance p)"

definition opp_distance :: "(string \<Rightarrow> string \<Rightarrow> real) \<Rightarrow> string \<Rightarrow> OpportunityRecord \<Rightarrow> real" where
  "opp_distance cosdist v o' = (case o_Embedding o' of None \<Rightarrow> 0 | Some e \<Rightarrow> cosdist e v)"

definition ReverseKNN ::
  "(string \<Rightarrow> string \<Rightarrow> real) \<Rightarrow> (OpportunityRecord \<Rightarrow> string) \<Rightarrow> ReverseKNNParams \<Rightarrow> (matchdb, OppHit list) sql"
where
  "ReverseKNN cosdist describe p =
     (let limit = (if rk_Limit p \<le> 0 then DefaultReverseKNNLimit else rk_Limit p) in
      sql_wrap ''matching: reverse knn'' (sql_query (\<lambda>d.
        map (\<lambda>o'. \<lparr>oh_OpportunityID = o_CanonicalID o', oh_Distance = opp_distance cosdist (rk_CandidateEmbedding p) o',
                    oh_Kind = o_Kind o', oh_Country = COALESCE_empty (o_Country o'), oh_FirstSeenAt = o_FirstSeenAt o',
                    oh_Text = o_Title o' @ '' '' @ take 1500 (describe o')\<rparr>)
          (take (nat limit) (sort_key (opp_distance cosdist (rk_CandidateEmbedding p))
            (filter (retrievable cosdist p) (match_opportunities d)))))))"

end
