(* ===== verification/Matching_Paths.thy ===== *)
theory Matching_Paths
  imports Matching_Store
begin

text \<open>
  The write paths of \<open>pkg/matching\<close>: fan-out of a new opportunity (\<open>fanout.go\<close>), the
  candidate-side gap fill (\<open>gapfill.go\<close>), explicit invocations with a daily budget
  (\<open>invoke.go\<close>), debounced rematches (\<open>candidate_change.go\<close>, \<open>debounce_memory.go\<close>), the rerankers
  (\<open>rerank.go\<close>), and the handlers of \<open>apps/matching\<close> that change a match.

  \<open>path_env\<close> holds what a run draws from outside: identifiers, clock readings, statement times and
  the measured latency.  An optional dependency of the code is a flag that says whether it is wired.
\<close>

section \<open>Rerankers\<close>

record RerankItem =
  ri_ID :: string
  ri_Text :: string
  ri_Score :: real
  ri_RerankScore :: "real option"

text \<open>The items, whether rerank scores were applied, and the error that both callers drop.\<close>

type_synonym reranker = "string \<Rightarrow> RerankItem list \<Rightarrow> RerankItem list \<times> bool \<times> go_error option"

definition NoopReranker :: reranker where
  "NoopReranker query items = (items, False, None)"

definition ExtractorReranker :: "(string \<Rightarrow> string list \<Rightarrow> go_error + real list) \<Rightarrow> int \<Rightarrow> reranker" where
  "ExtractorReranker client topK query items =
     (if query = [] \<or> items = [] then (items, False, None)
      else let n = (if topK > 0 \<and> topK < int (length items) then nat topK else length items);
               texts = map ri_Text (take n items)
           in if list_all (\<lambda>t. t = []) texts then (items, False, None)
              else (case client query texts of
                      Inl e \<Rightarrow> (items, False, Some e)
                    | Inr scores \<Rightarrow>
                        if length scores < n then (items, False, None)
                        else let out = map2 (\<lambda>it s. it\<lparr>ri_RerankScore := Some s\<rparr>) (take n items) (take n scores)
                             in (sort_key (\<lambda>it. - (case ri_RerankScore it of None \<Rightarrow> 0 | Some v \<Rightarrow> v)) out @ drop n items, True, None)))"

text \<open>The pool falls back to the retrieval scores when it is full or the upstream fails.\<close>

definition PooledReranker :: "bool \<Rightarrow> reranker \<Rightarrow> reranker" where
  "PooledReranker full upstream query items =
     (if full then (items, False, None)
      else case upstream query items of (out, used, err) \<Rightarrow>
        (case err of None \<Rightarrow> (out, used, None) | Some e \<Rightarrow> (items, False, None)))"

definition rerankByID :: "bool \<Rightarrow> RerankItem list \<Rightarrow> string \<rightharpoonup> real" where
  "rerankByID used out =
     (if used then foldl (\<lambda>m r. case ri_RerankScore r of None \<Rightarrow> m | Some v \<Rightarrow> m(ri_ID r \<mapsto> v)) Map.empty out
      else Map.empty)"

section \<open>Runs\<close>

record path_env =
  pe_ID :: "nat \<Rightarrow> string"
  pe_Start :: time
  pe_ScoreNow :: "nat \<Rightarrow> time"
  pe_DailyNow :: "nat \<Rightarrow> time"
  pe_WeekNow :: "nat \<Rightarrow> time"
  pe_WriteNow :: time
  pe_EventNow :: "nat \<Rightarrow> time"
  pe_AuditNow :: time
  pe_Finished :: time
  pe_Latency :: int

text \<open>The deferred write of the run event, whose error is dropped.\<close>

definition finish_run :: "path_env \<Rightarrow> MatchRunEvent \<Rightarrow> go_error + 'a \<Rightarrow> (matchdb, 'a) sql" where
  "finish_run env run outcome =
     sql_bind (sql_try (WriteMatchRunEvent (pe_AuditNow env) run)) (\<lambda>_.
     case outcome of Inl e \<Rightarrow> sql_raise e | Inr x \<Rightarrow> sql_return x)"

definition hit_total :: "Weights \<Rightarrow> CandidateSignal \<Rightarrow> OpportunitySignal \<Rightarrow> real \<Rightarrow> time \<Rightarrow> real" where
  "hit_total w cand opp distance now =
     weighted w ((Score cand opp w now)\<lparr>r_Cosine := CosineFromPGDistance distance\<rparr>)"

definition write_events :: "path_env \<Rightarrow> (nat \<Rightarrow> Match \<Rightarrow> MatchEvent) \<Rightarrow> Match list \<Rightarrow> (matchdb, unit) sql" where
  "write_events env mk ms =
     sql_bind (sql_map (\<lambda>km. sql_try (WriteMatchEvent (pe_AuditNow env) (mk (fst km) (snd km)))) (zip [0..<length ms] ms)) (\<lambda>_.
     sql_return ())"

section \<open>Fan-out\<close>

record FanOutInput =
  fi_CanonicalID :: string
  fi_OpportunityID :: string
  fi_Kind :: string
  fi_Country :: string
  fi_SalaryMaxUSD :: "int option"
  fi_Embedding :: string
  fi_FirstSeenAt :: time
  fi_Skills :: "string list"
  fi_QueryText :: string

record FanOutDeps =
  fd_cosdist :: "string \<Rightarrow> string \<Rightarrow> real"
  fd_Reranker :: reranker
  fd_Weights :: Weights
  fd_DailyCap :: bool
  fd_WeekCount :: bool
  fd_EnforceWeeklyCap :: bool

record FanOutResult =
  fr_RunID :: string
  fr_CandidatesScanned :: int
  fr_MatchesWritten :: int
  fr_Overflowed :: int
  fr_RerankerStatus :: string
  fr_LatencyMS :: int
  fr_NewMatches :: "Match list"

definition fanout_total :: "path_env \<Rightarrow> FanOutInput \<Rightarrow> Weights \<Rightarrow> nat \<Rightarrow> CandidateHit \<Rightarrow> real" where
  "fanout_total env inp w k h =
     hit_total w \<lparr>cs_Embedding = [], cs_Skills = [], cs_Countries = ch_Countries h, cs_SalaryFloorUSD = ch_SalaryFloorUSD h\<rparr>
       \<lparr>ops_Embedding = [], ops_Skills = fi_Skills inp, ops_Country = fi_Country inp, ops_SalaryMaxUSD = fi_SalaryMaxUSD inp,
        ops_FirstSeenAt = fi_FirstSeenAt inp\<rparr> (ch_Distance h) (pe_ScoreNow env k)"

definition fanout_scored :: "path_env \<Rightarrow> FanOutInput \<Rightarrow> Weights \<Rightarrow> CandidateHit list \<Rightarrow> (CandidateHit \<times> real) list" where
  "fanout_scored env inp w hits =
     filter (\<lambda>(h, t). \<not> t < ch_MinScore h) (map (\<lambda>(k, h). (h, fanout_total env inp w k h)) (zip [0..<length hits] hits))"

text \<open>The daily cap of the \<open>k\<close>-th scored hit; a failing count does not block.\<close>

definition daily_full :: "path_env \<Rightarrow> FanOutDeps \<Rightarrow> nat \<Rightarrow> CandidateHit \<Rightarrow> (matchdb, bool) sql" where
  "daily_full env deps k h =
     (if fd_DailyCap deps \<and> ch_DailyCap h > 0
      then sql_bind (sql_try (TodayCount (pe_DailyNow env k) (ch_CandidateID h))) (\<lambda>r.
           sql_return (case r of Inl e \<Rightarrow> False | Inr n \<Rightarrow> n \<ge> ch_DailyCap h))
      else sql_return False)"

definition week_used :: "path_env \<Rightarrow> (string \<rightharpoonup> int) \<Rightarrow> nat \<Rightarrow> CandidateHit \<Rightarrow> (matchdb, int) sql" where
  "week_used env cache k h =
     (case cache (ch_CandidateID h) of
        Some u \<Rightarrow> sql_return u
      | None \<Rightarrow> sql_bind (sql_try (CountNonOverflowThisWeek (pe_WeekNow env k) (ch_CandidateID h))) (\<lambda>r.
          sql_return (case r of Inl e \<Rightarrow> 0 | Inr n \<Rightarrow> n)))"

text \<open>The status of one hit and the cache after it.\<close>

definition cap_status ::
  "path_env \<Rightarrow> FanOutDeps \<Rightarrow> (string \<rightharpoonup> int) \<Rightarrow> nat \<Rightarrow> CandidateHit \<Rightarrow> (matchdb, string \<times> (string \<rightharpoonup> int)) sql"
where
  "cap_status env deps cache k h =
     sql_bind (daily_full env deps k h) (\<lambda>full.
     if full then sql_return (MatchOverflow, cache)
     else if fd_EnforceWeeklyCap deps \<and> fd_WeekCount deps \<and> ch_WeeklyCap h > 0
     then sql_bind (week_used env cache k h) (\<lambda>used.
       if used \<ge> ch_WeeklyCap h then sql_return (MatchOverflow, cache(ch_CandidateID h \<mapsto> used))
       else sql_return (MatchNew, cache(ch_CandidateID h \<mapsto> used + 1)))
     else sql_return (MatchNew, cache))"

fun cap_loop ::
  "path_env \<Rightarrow> FanOutDeps \<Rightarrow> (string \<rightharpoonup> int) \<Rightarrow> nat \<Rightarrow> (CandidateHit \<times> real) list \<Rightarrow> (matchdb, string list) sql"
where
  "cap_loop env deps cache k [] = sql_return []"
| "cap_loop env deps cache k ((h, t) # hs) =
     sql_bind (cap_status env deps cache k h) (\<lambda>(status, cache').
     sql_bind (cap_loop env deps cache' (Suc k) hs) (\<lambda>rest. sql_return (status # rest)))"

definition fanout_match ::
  "path_env \<Rightarrow> FanOutInput \<Rightarrow> bool \<Rightarrow> (string \<rightharpoonup> real) \<Rightarrow> nat \<Rightarrow> CandidateHit \<times> real \<Rightarrow> string \<Rightarrow> Match"
where
  "fanout_match env inp used byID k ht status =
     \<lparr>m_MatchID = pe_ID env (1 + k), m_CandidateID = ch_CandidateID (fst ht), m_OpportunityID = fi_OpportunityID inp,
      m_ApplyURL = [], m_Status = status, m_Score = snd ht, m_RerankScore = byID (ch_CandidateID (fst ht)),
      m_RerankerUsed = (used \<and> byID (ch_CandidateID (fst ht)) \<noteq> None), m_ViewedAt = None, m_AppliedAt = None, m_DismissedAt = None,
      m_LastEventID = pe_ID env 0,
      m_Metadata = [''path'' \<mapsto> AStr ''fanout'', ''canonical_id'' \<mapsto> AStr (fi_CanonicalID inp), ''kind'' \<mapsto> AStr (fi_Kind inp)],
      m_CreatedAt = 0, m_UpdatedAt = 0\<rparr>"

definition fanout_matches ::
  "path_env \<Rightarrow> FanOutInput \<Rightarrow> bool \<Rightarrow> (string \<rightharpoonup> real) \<Rightarrow> (CandidateHit \<times> real) list \<Rightarrow> string list \<Rightarrow> Match list"
where
  "fanout_matches env inp used byID scored statuses =
     map (\<lambda>(k, ht, st). fanout_match env inp used byID k ht st) (zip [0..<length scored] (zip scored statuses))"

text \<open>The event kind is looked up by candidate: the kind of its last hit.\<close>

definition event_kinds :: "Match list \<Rightarrow> string \<rightharpoonup> string" where
  "event_kinds ms = foldl (\<lambda>f m. f(m_CandidateID m \<mapsto> (if m_Status m = MatchOverflow then KindOverflow else KindGenerated))) Map.empty ms"

definition fanout_event :: "path_env \<Rightarrow> FanOutInput \<Rightarrow> Match list \<Rightarrow> nat \<Rightarrow> Match \<Rightarrow> MatchEvent" where
  "fanout_event env inp ms k m =
     \<lparr>me_EventID = pe_ID env (1 + length ms + k), me_OccurredAt = pe_EventNow env k, me_CandidateID = m_CandidateID m,
      me_OpportunityID = fi_OpportunityID inp, me_CanonicalID = fi_CanonicalID inp,
      me_Kind = (case event_kinds ms (m_CandidateID m) of None \<Rightarrow> KindGenerated | Some kd \<Rightarrow> kd),
      me_Path = PathFanout, me_Score = m_Score m, me_RerankScore = m_RerankScore m, me_RerankerUsed = m_RerankerUsed m,
      me_Data = [''run_id'' \<mapsto> AStr (pe_ID env 0), ''match_id'' \<mapsto> AStr (m_MatchID m)]\<rparr>"

definition fanout_run :: "path_env \<Rightarrow> FanOutInput \<Rightarrow> MatchRunEvent" where
  "fanout_run env inp =
     \<lparr>mr_RunID = pe_ID env 0, mr_StartedAt = pe_Start env, mr_FinishedAt = None, mr_Path = PathFanout,
      mr_TriggeredBy = ''canonical_upserted'', mr_CandidateID = [], mr_CanonicalID = fi_CanonicalID inp,
      mr_CandidatesScanned = 0, mr_MatchesWritten = 0, mr_Status = [], mr_RerankerStatus = [], mr_LatencyMS = 0, mr_Data = Map.empty\<rparr>"

definition fanout_write ::
  "path_env \<Rightarrow> FanOutInput \<Rightarrow> FanOutDeps \<Rightarrow> CandidateHit list \<Rightarrow> bool \<Rightarrow> Match list \<Rightarrow> MatchRunEvent \<Rightarrow> (matchdb, FanOutResult) sql"
where
  "fanout_write env inp deps hits used ms run =
     sql_bind (sql_try (UpsertMatches (pe_WriteNow env) ms)) (\<lambda>u.
     case u of
       Inl e \<Rightarrow> finish_run env (run\<lparr>mr_Status := ''error'', mr_LatencyMS := pe_Latency env\<rparr>) (Inl (ErrWrap ''matching: fanout upsert'' e))
     | Inr _ \<Rightarrow>
         sql_bind (write_events env (fanout_event env inp ms) ms) (\<lambda>_.
         finish_run env (run\<lparr>mr_MatchesWritten := int (length ms), mr_Status := ''ok'', mr_LatencyMS := pe_Latency env,
             mr_FinishedAt := Some (pe_Finished env)\<rparr>)
           (Inr \<lparr>fr_RunID = pe_ID env 0, fr_CandidatesScanned = int (length hits), fr_MatchesWritten = int (length ms),
                 fr_Overflowed = int (length (filter (\<lambda>m. m_Status m = MatchOverflow) ms)),
                 fr_RerankerStatus = (if used then ''used'' else ''skipped''), fr_LatencyMS = pe_Latency env,
                 fr_NewMatches = filter (\<lambda>m. m_Status m = MatchNew) ms\<rparr>)))"

definition FanOut :: "path_env \<Rightarrow> FanOutInput \<Rightarrow> FanOutDeps \<Rightarrow> (matchdb, FanOutResult) sql" where
  "FanOut env inp deps =
     sql_bind (sql_try (FanOutKNN (fd_cosdist deps) (fi_Embedding inp) (fi_Kind inp) (fi_Country inp) (fi_SalaryMaxUSD inp) 500)) (\<lambda>r.
     case r of
       Inl e \<Rightarrow> finish_run env ((fanout_run env inp)\<lparr>mr_Status := ''error'', mr_LatencyMS := pe_Latency env\<rparr>)
         (Inl (ErrWrap ''matching: fanout knn'' e))
     | Inr hits \<Rightarrow>
         if hits = []
         then finish_run env ((fanout_run env inp)\<lparr>mr_Status := ''ok'', mr_LatencyMS := pe_Latency env\<rparr>)
           (Inr \<lparr>fr_RunID = pe_ID env 0, fr_CandidatesScanned = 0, fr_MatchesWritten = 0, fr_Overflowed = 0,
                 fr_RerankerStatus = [], fr_LatencyMS = 0, fr_NewMatches = []\<rparr>)
         else let scored = fanout_scored env inp (fd_Weights deps) hits;
                  items = map (\<lambda>(h, t). \<lparr>ri_ID = ch_CandidateID h, ri_Text = ch_Text h, ri_Score = t, ri_RerankScore = None\<rparr>) scored;
                  (out, used, _) = fd_Reranker deps (fi_QueryText inp) items
              in sql_bind (cap_loop env deps Map.empty 0 scored) (\<lambda>statuses.
                 fanout_write env inp deps hits used (fanout_matches env inp used (rerankByID used out) scored statuses)
                   ((fanout_run env inp)\<lparr>mr_CandidatesScanned := int (length hits),
                      mr_RerankerStatus := (if used then ''used'' else ''skipped'')\<rparr>)))"

section \<open>Gap fill\<close>

record GapFillInput =
  gi_CandidateID :: string
  gi_Embedding :: string
  gi_Skills :: "string list"
  gi_Countries :: "string list"
  gi_Kinds :: "string list"
  gi_SalaryFloorUSD :: "int option"
  gi_Since :: time
  gi_MinScore :: real
  gi_DailyCap :: int
  gi_WeeklyCap :: int
  gi_QueryText :: string
  gi_TriggeredBy :: string
  gi_SemanticRecall :: int
  gi_MaxDistance :: real
  gi_HardCountries :: bool
  gi_SoftKinds :: bool

record GapFillDeps =
  gd_cosdist :: "string \<Rightarrow> string \<Rightarrow> real"
  gd_describe :: "OpportunityRecord \<Rightarrow> string"
  gd_Reranker :: reranker
  gd_Weights :: Weights
  gd_DailyCap :: bool
  gd_WeekCount :: bool

definition GapReasonOK :: string where "GapReasonOK = ''ok''"
definition GapReasonNoInventory :: string where "GapReasonNoInventory = ''no_inventory''"
definition GapReasonBelowThreshold :: string where "GapReasonBelowThreshold = ''below_threshold''"
definition GapReasonWeeklyCap :: string where "GapReasonWeeklyCap = ''weekly_cap''"
definition GapReasonDailyCap :: string where "GapReasonDailyCap = ''daily_cap''"
definition GapReasonRateLimited :: string where "GapReasonRateLimited = ''rate_limited''"

record GapFillResult =
  gr_RunID :: string
  gr_OppsScanned :: int
  gr_ScoredAboveMin :: int
  gr_MatchesWritten :: int
  gr_RerankerStatus :: string
  gr_LatencyMS :: int
  gr_Reason :: string
  gr_WeeklyUsed :: int
  gr_WeeklyCap :: int

definition gap_query :: "GapFillInput \<Rightarrow> ReverseKNNParams" where
  "gap_query inp =
     \<lparr>rk_CandidateEmbedding = gi_Embedding inp, rk_Kinds = gi_Kinds inp, rk_Countries = gi_Countries inp,
      rk_SoftKinds = gi_SoftKinds inp, rk_HardCountries = gi_HardCountries inp, rk_Since = gi_Since inp,
      rk_Limit = (if gi_SemanticRecall inp \<le> 0 then DefaultReverseKNNLimit else gi_SemanticRecall inp),
      rk_MaxDistance = (if gi_MaxDistance inp = 0 then DefaultSemanticMaxDistance
        else if gi_MaxDistance inp < 0 then 0 else gi_MaxDistance inp)\<rparr>"

definition gap_total :: "path_env \<Rightarrow> GapFillInput \<Rightarrow> Weights \<Rightarrow> nat \<Rightarrow> OppHit \<Rightarrow> real" where
  "gap_total env inp w k h =
     hit_total w \<lparr>cs_Embedding = [], cs_Skills = gi_Skills inp, cs_Countries = gi_Countries inp, cs_SalaryFloorUSD = gi_SalaryFloorUSD inp\<rparr>
       \<lparr>ops_Embedding = [], ops_Skills = [], ops_Country = oh_Country h, ops_SalaryMaxUSD = None,
        ops_FirstSeenAt = oh_FirstSeenAt h\<rparr> (oh_Distance h) (pe_ScoreNow env k)"

definition gap_scored :: "path_env \<Rightarrow> GapFillInput \<Rightarrow> Weights \<Rightarrow> OppHit list \<Rightarrow> (OppHit \<times> real) list" where
  "gap_scored env inp w hits =
     filter (\<lambda>(h, t). \<not> t < gi_MinScore inp) (map (\<lambda>(k, h). (h, gap_total env inp w k h)) (zip [0..<length hits] hits))"

text \<open>\<open>sort.Slice\<close> may order equal scores in any way; they keep the retrieval order here.\<close>

definition best_first :: "(OppHit \<times> real) list \<Rightarrow> (OppHit \<times> real) list" where
  "best_first scored = sort_key (\<lambda>(h, t). - t) scored"

definition gap_run :: "path_env \<Rightarrow> GapFillInput \<Rightarrow> MatchRunEvent" where
  "gap_run env inp =
     \<lparr>mr_RunID = pe_ID env 0, mr_StartedAt = pe_Start env, mr_FinishedAt = None, mr_Path = PathGap,
      mr_TriggeredBy = (if gi_TriggeredBy inp = [] then ''extension_poll'' else gi_TriggeredBy inp),
      mr_CandidateID = gi_CandidateID inp, mr_CanonicalID = [], mr_CandidatesScanned = 0, mr_MatchesWritten = 0,
      mr_Status = [], mr_RerankerStatus = [], mr_LatencyMS = 0, mr_Data = Map.empty\<rparr>"

definition gap_week_used :: "path_env \<Rightarrow> GapFillInput \<Rightarrow> GapFillDeps \<Rightarrow> (matchdb, int) sql" where
  "gap_week_used env inp deps =
     (if gi_WeeklyCap inp > 0 \<and> gd_WeekCount deps
      then sql_bind (sql_try (CountNonOverflowThisWeek (pe_WeekNow env 0) (gi_CandidateID inp))) (\<lambda>r.
           sql_return (case r of Inl e \<Rightarrow> 0 | Inr n \<Rightarrow> n))
      else sql_return 0)"

definition gap_today_used :: "path_env \<Rightarrow> GapFillInput \<Rightarrow> GapFillDeps \<Rightarrow> (matchdb, int) sql" where
  "gap_today_used env inp deps =
     (if gd_DailyCap deps \<and> gi_DailyCap inp > 0
      then sql_bind (sql_try (TodayCount (pe_DailyNow env 0) (gi_CandidateID inp))) (\<lambda>r.
           sql_return (case r of Inl e \<Rightarrow> 0 | Inr n \<Rightarrow> n))
      else sql_return 0)"

definition gap_match ::
  "path_env \<Rightarrow> GapFillInput \<Rightarrow> int \<Rightarrow> bool \<Rightarrow> (string \<rightharpoonup> real) \<Rightarrow> nat \<Rightarrow> OppHit \<times> real \<Rightarrow> Match"
where
  "gap_match env inp todayUsed used byID i ht =
     \<lparr>m_MatchID = pe_ID env (1 + i), m_CandidateID = gi_CandidateID inp, m_OpportunityID = oh_OpportunityID (fst ht), m_ApplyURL = [],
      m_Status = (if gi_DailyCap inp > 0 \<and> todayUsed + int i \<ge> gi_DailyCap inp then MatchOverflow else MatchNew),
      m_Score = snd ht, m_RerankScore = byID (oh_OpportunityID (fst ht)),
      m_RerankerUsed = (used \<and> byID (oh_OpportunityID (fst ht)) \<noteq> None), m_ViewedAt = None, m_AppliedAt = None, m_DismissedAt = None,
      m_LastEventID = pe_ID env 0, m_Metadata = [''path'' \<mapsto> AStr ''gap''], m_CreatedAt = 0, m_UpdatedAt = 0\<rparr>"

definition gap_matches ::
  "path_env \<Rightarrow> GapFillInput \<Rightarrow> int \<Rightarrow> bool \<Rightarrow> (string \<rightharpoonup> real) \<Rightarrow> (OppHit \<times> real) list \<Rightarrow> Match list"
where
  "gap_matches env inp todayUsed used byID scored =
     map (\<lambda>(i, ht). gap_match env inp todayUsed used byID i ht) (zip [0..<length scored] scored)"

definition gap_event :: "path_env \<Rightarrow> nat \<Rightarrow> nat \<Rightarrow> Match \<Rightarrow> MatchEvent" where
  "gap_event env n k m =
     \<lparr>me_EventID = pe_ID env (1 + n + k), me_OccurredAt = pe_EventNow env k, me_CandidateID = m_CandidateID m,
      me_OpportunityID = m_OpportunityID m, me_CanonicalID = [], me_Kind = KindGenerated, me_Path = PathGap, me_Score = m_Score m,
      me_RerankScore = m_RerankScore m, me_RerankerUsed = m_RerankerUsed m,
      me_Data = [''run_id'' \<mapsto> AStr (pe_ID env 0), ''match_id'' \<mapsto> AStr (m_MatchID m)]\<rparr>"

definition gap_reason :: "GapFillInput \<Rightarrow> nat \<Rightarrow> nat \<Rightarrow> int \<Rightarrow> nat \<Rightarrow> string" where
  "gap_reason inp hits scoredAbove todayUsed written =
     (if written > 0 then GapReasonOK else if hits = 0 then GapReasonNoInventory
      else if scoredAbove = 0 then GapReasonBelowThreshold
      else if gi_DailyCap inp > 0 \<and> todayUsed \<ge> gi_DailyCap inp then GapReasonDailyCap else GapReasonBelowThreshold)"

text \<open>The part after the caps: write the rows, the events and the summary.\<close>

definition gap_write ::
  "path_env \<Rightarrow> GapFillInput \<Rightarrow> nat \<Rightarrow> nat \<Rightarrow> int \<Rightarrow> int \<Rightarrow> Match list \<Rightarrow> MatchRunEvent \<Rightarrow> (matchdb, GapFillResult) sql"
where
  "gap_write env inp hits scoredAbove weekUsed todayUsed ms run =
     sql_bind (sql_try (UpsertMatches (pe_WriteNow env) ms)) (\<lambda>u.
     case u of
       Inl e \<Rightarrow> finish_run env (run\<lparr>mr_Status := ''error'', mr_LatencyMS := pe_Latency env\<rparr>) (Inl (ErrWrap ''matching: gapfill upsert'' e))
     | Inr _ \<Rightarrow>
         let written = length (filter (\<lambda>m. m_Status m \<noteq> MatchOverflow) ms) in
         sql_bind (write_events env (gap_event env (length ms)) ms) (\<lambda>_.
         finish_run env (run\<lparr>mr_MatchesWritten := int written, mr_Status := ''ok'', mr_LatencyMS := pe_Latency env,
             mr_FinishedAt := Some (pe_Finished env)\<rparr>)
           (Inr \<lparr>gr_RunID = pe_ID env 0, gr_OppsScanned = int hits, gr_ScoredAboveMin = int scoredAbove, gr_MatchesWritten = int written,
                 gr_RerankerStatus = mr_RerankerStatus run, gr_LatencyMS = pe_Latency env,
                 gr_Reason = gap_reason inp hits scoredAbove todayUsed written,
                 gr_WeeklyUsed = weekUsed + int written, gr_WeeklyCap = gi_WeeklyCap inp\<rparr>)))"

text \<open>A run that a spent budget stops before it writes.\<close>

definition gap_stop ::
  "path_env \<Rightarrow> GapFillInput \<Rightarrow> nat \<Rightarrow> nat \<Rightarrow> int \<Rightarrow> string \<Rightarrow> MatchRunEvent \<Rightarrow> (matchdb, GapFillResult) sql"
where
  "gap_stop env inp hits scoredAbove weekUsed reason run =
     finish_run env (run\<lparr>mr_Status := ''ok'', mr_LatencyMS := pe_Latency env, mr_FinishedAt := Some (pe_Finished env)\<rparr>)
       (Inr \<lparr>gr_RunID = pe_ID env 0, gr_OppsScanned = int hits, gr_ScoredAboveMin = int scoredAbove, gr_MatchesWritten = 0,
             gr_RerankerStatus = mr_RerankerStatus run, gr_LatencyMS = pe_Latency env, gr_Reason = reason,
             gr_WeeklyUsed = weekUsed, gr_WeeklyCap = gi_WeeklyCap inp\<rparr>)"

definition gap_caps ::
  "path_env \<Rightarrow> GapFillInput \<Rightarrow> GapFillDeps \<Rightarrow> nat \<Rightarrow> (OppHit \<times> real) list \<Rightarrow> bool \<Rightarrow> (string \<rightharpoonup> real) \<Rightarrow> MatchRunEvent \<Rightarrow>
    (matchdb, GapFillResult) sql"
where
  "gap_caps env inp deps hits scored used byID run =
     sql_bind (gap_week_used env inp deps) (\<lambda>weekUsed.
     if gi_WeeklyCap inp > 0 \<and> gi_WeeklyCap inp - weekUsed \<le> 0
     then gap_stop env inp hits (length scored) weekUsed GapReasonWeeklyCap run
     else let kept = (if gi_WeeklyCap inp > 0 then take (nat (gi_WeeklyCap inp - weekUsed)) scored else scored) in
       sql_bind (gap_today_used env inp deps) (\<lambda>todayUsed.
       if gi_DailyCap inp > 0 \<and> todayUsed \<ge> gi_DailyCap inp \<and> kept \<noteq> []
       then gap_stop env inp hits (length scored) weekUsed GapReasonDailyCap run
       else gap_write env inp hits (length scored) weekUsed todayUsed (gap_matches env inp todayUsed used byID kept) run))"

definition GapFill :: "path_env \<Rightarrow> GapFillInput \<Rightarrow> GapFillDeps \<Rightarrow> (matchdb, GapFillResult) sql" where
  "GapFill env inp deps =
     sql_bind (sql_try (ReverseKNN (gd_cosdist deps) (gd_describe deps) (gap_query inp))) (\<lambda>r.
     case r of
       Inl e \<Rightarrow> finish_run env ((gap_run env inp)\<lparr>mr_Status := ''error'', mr_LatencyMS := pe_Latency env\<rparr>)
         (Inl (ErrWrap ''matching: gapfill knn'' e))
     | Inr hits \<Rightarrow>
         let scored = gap_scored env inp (gd_Weights deps) hits;
             items = map (\<lambda>(h, t). \<lparr>ri_ID = oh_OpportunityID h, ri_Text = oh_Text h, ri_Score = t, ri_RerankScore = None\<rparr>) scored;
             (out, used, _) = gd_Reranker deps (gi_QueryText inp) items
         in gap_caps env inp deps (length hits) (best_first scored) used (rerankByID used out)
              ((gap_run env inp)\<lparr>mr_CandidatesScanned := 1, mr_RerankerStatus := (if used then ''used'' else ''skipped'')\<rparr>))"

section \<open>Invocations with a budget\<close>

record InvokeInput =
  ii_CandidateID :: string
  ii_Embedding :: string
  ii_Skills :: "string list"
  ii_Countries :: "string list"
  ii_Kinds :: "string list"
  ii_SalaryFloorUSD :: "int option"
  ii_Since :: time
  ii_MinScore :: real
  ii_QueryText :: string
  ii_Reason :: string
  ii_InvokeLimit :: int
  ii_SemanticRecall :: int
  ii_MaxDistance :: real
  ii_HardCountries :: bool

definition reasonConsumesBudget :: "string \<Rightarrow> bool" where
  "reasonConsumesBudget reason \<longleftrightarrow> reason \<in> {InvokeUserRefresh, InvokeOnboardSeed}"

definition invoke_reason :: "InvokeInput \<Rightarrow> string" where
  "invoke_reason inp = (if ii_Reason inp = [] then InvokeUserRefresh else ii_Reason inp)"

definition invoke_gapfill :: "time \<Rightarrow> InvokeInput \<Rightarrow> GapFillInput" where
  "invoke_gapfill now inp =
     \<lparr>gi_CandidateID = ii_CandidateID inp, gi_Embedding = ii_Embedding inp, gi_Skills = ii_Skills inp,
      gi_Countries = ii_Countries inp, gi_Kinds = ii_Kinds inp, gi_SalaryFloorUSD = ii_SalaryFloorUSD inp,
      gi_Since = (if IsZero (ii_Since inp) then now - 30 * 24 * Hour else ii_Since inp),
      gi_MinScore = (if ii_MinScore inp \<le> 0 then 70 / 100 else ii_MinScore inp),
      gi_DailyCap = 0, gi_WeeklyCap = 0, gi_QueryText = ii_QueryText inp, gi_TriggeredBy = invoke_reason inp,
      gi_SemanticRecall = ii_SemanticRecall inp, gi_MaxDistance = ii_MaxDistance inp,
      gi_HardCountries = ii_HardCountries inp, gi_SoftKinds = False\<rparr>"

definition rate_limited :: GapFillResult where
  "rate_limited = \<lparr>gr_RunID = [], gr_OppsScanned = 0, gr_ScoredAboveMin = 0, gr_MatchesWritten = 0, gr_RerankerStatus = [],
     gr_LatencyMS = 0, gr_Reason = GapReasonRateLimited, gr_WeeklyUsed = 0, gr_WeeklyCap = 0\<rparr>"

text \<open>\<open>now\<close> is the reading for the default window, \<open>nowB\<close> the one for the budget.\<close>

definition MatchInvoke ::
  "path_env \<Rightarrow> time \<Rightarrow> time \<Rightarrow> bool \<Rightarrow> InvokeInput \<Rightarrow> GapFillDeps \<Rightarrow> (matchdb, GapFillResult) sql"
where
  "MatchInvoke env now nowB invokes inp deps =
     sql_bind (if reasonConsumesBudget (invoke_reason inp) \<and> ii_InvokeLimit inp > 0 \<and> invokes
       then sql_bind (sql_wrap ''matching: invoke limit'' (CountUserInvokesToday (ii_CandidateID inp) nowB)) (\<lambda>used.
            sql_return (used \<ge> ii_InvokeLimit inp))
       else sql_return False) (\<lambda>spent.
     if spent then sql_return rate_limited else GapFill env (invoke_gapfill now inp) deps)"

section \<open>Debounced rematches\<close>

type_synonym debouncer = "string \<rightharpoonup> time"

definition MemoryDebouncer_Acquire :: "time \<Rightarrow> string \<Rightarrow> duration \<Rightarrow> debouncer \<Rightarrow> bool \<times> debouncer" where
  "MemoryDebouncer_Acquire now candidateID ttl seen =
     (case seen candidateID of
        Some seen_at \<Rightarrow> if now - seen_at < ttl then (False, seen) else (True, seen(candidateID \<mapsto> now))
      | None \<Rightarrow> (True, seen(candidateID \<mapsto> now)))"

definition ErrDebounced :: go_error where "ErrDebounced = ErrNew ''matching: rematch debounced''"

record CandidateChange =
  cc_CandidateID :: string
  cc_Embedding :: string
  cc_Skills :: "string list"
  cc_Countries :: "string list"
  cc_Kinds :: "string list"
  cc_SalaryFloorUSD :: "int option"
  cc_MinScore :: real
  cc_DailyCap :: int
  cc_WeeklyCap :: int
  cc_TriggeredBy :: string
  cc_QueryText :: string

definition change_gapfill :: "time \<Rightarrow> CandidateChange \<Rightarrow> GapFillInput" where
  "change_gapfill now inp =
     \<lparr>gi_CandidateID = cc_CandidateID inp, gi_Embedding = cc_Embedding inp, gi_Skills = cc_Skills inp,
      gi_Countries = cc_Countries inp, gi_Kinds = cc_Kinds inp, gi_SalaryFloorUSD = cc_SalaryFloorUSD inp,
      gi_Since = now - 30 * 24 * Hour, gi_MinScore = cc_MinScore inp, gi_DailyCap = cc_DailyCap inp,
      gi_WeeklyCap = cc_WeeklyCap inp, gi_QueryText = cc_QueryText inp, gi_TriggeredBy = [],
      gi_SemanticRecall = 0, gi_MaxDistance = 0, gi_HardCountries = False, gi_SoftKinds = False\<rparr>"

definition RunCandidateChange ::
  "path_env \<Rightarrow> time \<Rightarrow> time \<Rightarrow> duration \<Rightarrow> CandidateChange \<Rightarrow> GapFillDeps \<Rightarrow> debouncer \<Rightarrow> (matchdb, GapFillResult) sql \<times> debouncer"
where
  "RunCandidateChange env nowD now debounceTTL inp deps seen =
     (let ttl = (if debounceTTL \<le> 0 then 60 * Second else debounceTTL);
          (ok, seen') = MemoryDebouncer_Acquire nowD (cc_CandidateID inp) ttl seen
      in (if ok then GapFill env (change_gapfill now inp) deps else sql_raise ErrDebounced, seen'))"

section \<open>Handlers that change a match\<close>

definition loadOwnedMatch :: "string \<Rightarrow> string \<Rightarrow> (matchdb, Match) sql" where
  "loadOwnedMatch candidateID matchID =
     sql_bind (sql_query (\<lambda>d. map_option (scanMatch d) (List.find (\<lambda>r. cm_MatchID r = matchID \<and> cm_CandidateID r = candidateID)
       (candidate_matches d)))) (\<lambda>m.
     case m of None \<Rightarrow> sql_raise ErrMatchNotFound | Some x \<Rightarrow> sql_return x)"

definition dismissed_row :: "time \<Rightarrow> CandidateMatchRecord \<Rightarrow> CandidateMatchRecord" where
  "dismissed_row now r = r\<lparr>cm_Status := MatchDismissed, cm_DismissedAt := Some now, cm_UpdatedAt := now\<rparr>"

text \<open>The re-read after the update is dereferenced unchecked: its failure is a panic.\<close>

definition dismissMatch :: "string \<Rightarrow> time \<Rightarrow> time \<Rightarrow> string \<Rightarrow> string \<Rightarrow> (matchdb, Match) sql" where
  "dismissMatch evtID now eventNow cand i =
     sql_bind (loadOwnedMatch cand i) (\<lambda>m.
     if m_Status m = MatchDismissed then sql_return m
     else sql_bind (sql_exec (\<lambda>d. d\<lparr>candidate_matches := update_where (\<lambda>r. cm_MatchID r = i \<and> cm_CandidateID r = cand)
            (dismissed_row now) (candidate_matches d)\<rparr>)) (\<lambda>_.
          sql_bind (sql_try (WriteMatchEvent now
            \<lparr>me_EventID = evtID, me_OccurredAt = eventNow, me_CandidateID = cand, me_OpportunityID = m_OpportunityID m, me_CanonicalID = [],
             me_Kind = KindDismissed, me_Path = PathCandidateChange, me_Score = m_Score m, me_RerankScore = None, me_RerankerUsed = False,
             me_Data = [''match_id'' \<mapsto> AStr i, ''source'' \<mapsto> AStr ''user'']\<rparr>)) (\<lambda>_.
          sql_bind (sql_try (loadOwnedMatch cand i)) (\<lambda>r.
          case r of Inl e \<Rightarrow> sql_raise (ErrNew ''nil pointer dereference'') | Inr m2 \<Rightarrow> sql_return m2))))"

definition viewMatch :: "string \<Rightarrow> time \<Rightarrow> string \<Rightarrow> string \<Rightarrow> (matchdb, unit) sql" where
  "viewMatch evtID now cand i =
     sql_bind (loadOwnedMatch cand i) (\<lambda>m.
     sql_bind (sql_try (sql_exec (\<lambda>d. d\<lparr>candidate_matches := update_where (\<lambda>r. cm_MatchID r = i \<and> cm_CandidateID r = cand)
       (\<lambda>r. r\<lparr>cm_ViewedAt := COALESCE (cm_ViewedAt r) (Some now), cm_UpdatedAt := now\<rparr>) (candidate_matches d)\<rparr>))) (\<lambda>_.
     sql_bind (sql_try (sql_exec (\<lambda>d. d\<lparr>engagement_events := engagement_events d @
       [\<lparr>eg_EventID = evtID, eg_OccurredAt = now, eg_CandidateID = cand, eg_OpportunityID = m_OpportunityID m, eg_Kind = ''view'',
         eg_Source = ''extension'', eg_Data = ''{'' @ [CHR 0x22] @ ''match_id'' @ [CHR 0x22] @ '':'' @ [CHR 0x22] @ i @ [CHR 0x22] @ ''}''\<rparr>]\<rparr>))) (\<lambda>_.
     sql_return ())))"

end
