(* ===== verification/Matching_Spec.thy ===== *)
theory Matching_Spec
  imports Matching_Paths
begin

text \<open>
  How the tables of the matching engine may change.  \<open>match_evolves\<close> relates a row of
  \<open>candidate_matches\<close> to the same row later; \<open>match_inv\<close> holds the unique keys; \<open>match_ok\<close> is the
  relation every operation respects, whatever statements fail.  The locale \<open>sql_preorder\<close> gives the
  rules for the combinators.
\<close>

section \<open>The life of a match\<close>

definition match_evolves :: "CandidateMatchRecord \<Rightarrow> CandidateMatchRecord \<Rightarrow> bool" where
  "match_evolves r r' \<longleftrightarrow>
     cm_MatchID r' = cm_MatchID r \<and> cm_CandidateID r' = cm_CandidateID r \<and> cm_OpportunityID r' = cm_OpportunityID r \<and>
     cm_CreatedAt r' = cm_CreatedAt r \<and> cm_Score r \<le> cm_Score r' \<and>
     (cm_Status r' = cm_Status r \<or> cm_Status r' \<in> {MatchApplied, MatchDismissed}) \<and>
     (cm_Status r = MatchDismissed \<longrightarrow> cm_Status r' = MatchDismissed \<and> cm_DismissedAt r' = cm_DismissedAt r) \<and>
     (cm_AppliedAt r \<noteq> None \<longrightarrow> cm_AppliedAt r' = cm_AppliedAt r) \<and>
     (cm_ViewedAt r \<noteq> None \<longrightarrow> cm_ViewedAt r' = cm_ViewedAt r)"

lemma match_evolves_refl: "match_evolves r r"
  by (simp add: match_evolves_def)

lemma match_evolves_trans: "match_evolves a b \<Longrightarrow> match_evolves b c \<Longrightarrow> match_evolves a c"
  unfolding match_evolves_def by auto

definition match_pair :: "CandidateMatchRecord \<Rightarrow> string \<times> string" where
  "match_pair r = (cm_CandidateID r, cm_OpportunityID r)"

lemma same_pair_iff: "same_pair m r \<longleftrightarrow> match_pair r = (m_CandidateID m, m_OpportunityID m)"
  by (simp add: same_pair_def match_pair_def)

definition match_inv :: "matchdb \<Rightarrow> bool" where
  "match_inv d \<longleftrightarrow> distinct (map match_pair (candidate_matches d)) \<and> distinct (map cm_MatchID (candidate_matches d))"

definition tables_grow :: "matchdb \<Rightarrow> matchdb \<Rightarrow> bool" where
  "tables_grow d d' \<longleftrightarrow> set (match_notification_receipts d) \<subseteq> set (match_notification_receipts d') \<and>
     set (candidate_match_events d) \<subseteq> set (candidate_match_events d') \<and> set (match_run_events d) \<subseteq> set (match_run_events d')"

definition match_ok :: "matchdb \<Rightarrow> matchdb \<Rightarrow> bool" where
  "match_ok d d' \<longleftrightarrow> tables_grow d d' \<and>
     (match_inv d \<longrightarrow> match_inv d' \<and> rows_evolve match_evolves (candidate_matches d) (candidate_matches d'))"

lemma match_ok_refl: "match_ok d d"
  by (simp add: match_ok_def tables_grow_def rows_evolve_refl match_evolves_refl)

lemma match_ok_trans:
  assumes "match_ok a b" and "match_ok b c"
  shows "match_ok a c"
  using assms unfolding match_ok_def tables_grow_def
  by (blast intro: rows_evolve_trans match_evolves_trans)

interpretation mp: sql_preorder match_ok
  by unfold_locales (auto intro: match_ok_refl match_ok_trans)

text \<open>A statement that leaves the matches alone and deletes nothing.\<close>

lemma match_ok_other:
  "candidate_matches d' = candidate_matches d \<Longrightarrow> tables_grow d d' \<Longrightarrow> match_ok d d'"
  by (simp add: match_ok_def match_inv_def rows_evolve_refl match_evolves_refl)

text \<open>A statement that updates matches in place.\<close>

lemma match_ok_update:
  assumes "match_inv d \<Longrightarrow> \<forall>r \<in> set (candidate_matches d). P r \<longrightarrow> match_evolves r (f r)"
  shows "match_ok d (d\<lparr>candidate_matches := update_where P f (candidate_matches d)\<rparr>)"
proof -
  let ?g = "\<lambda>r. if P r then f r else r"
  have keys: "match_pair (?g r) = match_pair r \<and> cm_MatchID (?g r) = cm_MatchID r"
    if "match_inv d" "r \<in> set (candidate_matches d)" for r
    using assms that by (auto simp: match_evolves_def match_pair_def)
  have "match_inv (d\<lparr>candidate_matches := update_where P f (candidate_matches d)\<rparr>)" if "match_inv d"
  proof -
    have "map match_pair (update_where P f (candidate_matches d)) = map match_pair (candidate_matches d)"
      "map cm_MatchID (update_where P f (candidate_matches d)) = map cm_MatchID (candidate_matches d)"
      using keys[OF that] by (simp_all add: update_where_def)
    with that show ?thesis by (simp add: match_inv_def)
  qed
  moreover have "rows_evolve match_evolves (candidate_matches d) (update_where P f (candidate_matches d))" if "match_inv d"
    using assms[OF that] by (auto intro!: rows_evolve_update simp: match_evolves_refl)
  ultimately show ?thesis by (simp add: match_ok_def tables_grow_def)
qed

section \<open>The stores\<close>

lemma improve_evolves: "match_evolves r (improve_row now m r)"
  by (auto simp: match_evolves_def improve_row_def)

lemma applied_evolves: "cm_Status r \<noteq> MatchDismissed \<Longrightarrow> match_evolves r (applied_row now r)"
  by (auto simp: match_evolves_def applied_row_def)

lemma dismissed_evolves: "cm_Status r \<noteq> MatchDismissed \<Longrightarrow> match_evolves r (dismissed_row now r)"
  by (auto simp: match_evolves_def dismissed_row_def)

lemma match_row_fields [simp]:
  "match_pair (match_row now m) = (m_CandidateID m, m_OpportunityID m)" "cm_MatchID (match_row now m) = m_MatchID m"
  by (simp_all add: match_row_def match_pair_def)

lemma upsertOneSQL_ok:
  assumes "upsertOneSQL now m d = (Inr x, d')"
  shows "match_ok d d'"
proof (cases "List.find (same_pair m) (candidate_matches d)")
  case (Some r)
  have "match_ok d (d\<lparr>candidate_matches := update_where (same_pair m) (improve_row now m) (candidate_matches d)\<rparr>)"
    by (rule match_ok_update) (simp add: improve_evolves)
  with Some assms show ?thesis by (auto simp: upsertOneSQL_def match_ok_refl split: if_splits)
next
  case None
  then have "(m_CandidateID m, m_OpportunityID m) \<notin> match_pair ` set (candidate_matches d)"
    by (force simp: find_None_iff same_pair_iff)
  with None assms show ?thesis
    by (auto simp: upsertOneSQL_def match_ok_def match_inv_def tables_grow_def row_simps
        intro!: rows_evolve_append match_evolves_refl split: if_splits)
qed

lemma UpsertMatch_ok: "preserves match_ok (UpsertMatch now m)"
  unfolding UpsertMatch_def by (intro mp.preserves_rules mp.preserves_stmt) (erule upsertOneSQL_ok)

lemma UpsertMatches_ok: "preserves match_ok (UpsertMatches now ms)"
  unfolding UpsertMatches_def by (intro mp.preserves_rules mp.preserves_stmt) (erule upsertOneSQL_ok)

lemma MarkApplied_ok: "preserves match_ok (MarkApplied now c i)"
  unfolding MarkApplied_def by (intro mp.preserves_wrap mp.preserves_exec match_ok_update) (simp add: applied_evolves)

lemma WriteMatchEvent_ok: "preserves match_ok (WriteMatchEvent now e)"
  unfolding WriteMatchEvent_def Let_def
  by (intro mp.preserves_wrap mp.preserves_exec match_ok_other) (auto simp: tables_grow_def)

lemma WriteMatchRunEvent_ok: "preserves match_ok (WriteMatchRunEvent now e)"
  unfolding WriteMatchRunEvent_def
  by (intro mp.preserves_wrap mp.preserves_exec match_ok_other) (auto simp: tables_grow_def)

lemma insert_receipt_ok: "match_ok d (insert_receipt now c ch it d)"
  by (auto simp: insert_receipt_def tables_grow_def intro!: match_ok_other)

lemma InsertNotificationReceipts_ok: "preserves match_ok (InsertNotificationReceipts now c ch items)"
  unfolding InsertNotificationReceipts_def by (intro mp.preserves_rules mp.preserves_exec insert_receipt_ok)

lemma ApplyPlanCaps_ok: "preserves match_ok (ApplyPlanCaps now c dc wc)"
  unfolding ApplyPlanCaps_def by (intro mp.preserves_wrap mp.preserves_exec match_ok_other) (auto simp: tables_grow_def)

lemma Index_Upsert_ok: "preserves match_ok (Index_Upsert now n)"
  unfolding Index_Upsert_def by (intro mp.preserves_wrap mp.preserves_exec match_ok_other) (auto simp: tables_grow_def)

lemma UpsertFilters_ok: "preserves match_ok (UpsertFilters now c f)"
  unfolding UpsertFilters_def
  by (intro mp.preserves_rules mp.preserves_stmt) (auto simp: tables_grow_def intro!: match_ok_other)

lemma Rules_Get_ok: "preserves match_ok (Rules_Get c)"
  unfolding Rules_Get_def by (intro mp.preserves_rules)

lemma write_rules_ok: "match_ok d (write_rules now c doc body d)"
  by (auto simp: write_rules_def tables_grow_def intro!: match_ok_other)

lemma Rules_Upsert_ok: "preserves match_ok (Rules_Upsert now c doc)"
  unfolding Rules_Upsert_def by (intro mp.preserves_rules mp.preserves_exec Rules_Get_ok write_rules_ok)

section \<open>The write paths\<close>

lemma finish_run_ok: "preserves match_ok (finish_run env run outcome)"
  unfolding finish_run_def by (intro mp.preserves_rules WriteMatchRunEvent_ok)

lemma write_events_ok: "preserves match_ok (write_events env mk ms)"
  unfolding write_events_def by (intro mp.preserves_rules WriteMatchEvent_ok)

lemma cap_status_ok: "preserves match_ok (cap_status env deps cache k h)"
  unfolding cap_status_def daily_full_def week_used_def TodayCount_def CountNonOverflowThisWeek_def
  by (intro mp.preserves_rules)

lemma cap_loop_ok: "preserves match_ok (cap_loop env deps cache k hs)"
proof (induction hs arbitrary: cache k)
  case (Cons ht hs)
  then show ?case by (cases ht) (auto intro!: mp.preserves_rules cap_status_ok split: prod.splits)
qed (simp add: mp.preserves_return)

lemma fanout_write_ok: "preserves match_ok (fanout_write env inp deps hits used ms run)"
  unfolding fanout_write_def by (intro mp.preserves_rules UpsertMatches_ok finish_run_ok write_events_ok)

lemma FanOut_ok: "preserves match_ok (FanOut env inp deps)"
  unfolding FanOut_def FanOutKNN_def Let_def
  by (auto intro!: mp.preserves_rules cap_loop_ok finish_run_ok fanout_write_ok split: prod.splits)

lemma gap_write_ok: "preserves match_ok (gap_write env inp h s w t ms run)"
  unfolding gap_write_def Let_def by (intro mp.preserves_rules UpsertMatches_ok finish_run_ok write_events_ok)

lemma gap_caps_ok: "preserves match_ok (gap_caps env inp deps hits scored used byID run)"
  unfolding gap_caps_def gap_week_used_def gap_today_used_def gap_stop_def Let_def TodayCount_def CountNonOverflowThisWeek_def
  by (intro mp.preserves_rules finish_run_ok gap_write_ok)

lemma GapFill_ok: "preserves match_ok (GapFill env inp deps)"
  unfolding GapFill_def ReverseKNN_def Let_def
  by (auto intro!: mp.preserves_rules finish_run_ok gap_caps_ok split: prod.splits)

lemma MatchInvoke_ok: "preserves match_ok (MatchInvoke env now nowB invokes inp deps)"
  unfolding MatchInvoke_def CountUserInvokesToday_def by (intro mp.preserves_rules GapFill_ok)

lemma RunCandidateChange_ok: "preserves match_ok (fst (RunCandidateChange env nowD now ttl inp deps seen))"
  by (auto simp: RunCandidateChange_def Let_def GapFill_ok mp.preserves_raise split: prod.splits)

lemma loadOwnedMatch_ok: "preserves match_ok (loadOwnedMatch c i)"
  unfolding loadOwnedMatch_def by (intro mp.preserves_rules)

lemma viewMatch_ok: "preserves match_ok (viewMatch e now c i)"
  unfolding viewMatch_def
  by (intro mp.preserves_rules loadOwnedMatch_ok mp.preserves_exec match_ok_update match_ok_other)
    (auto simp: tables_grow_def match_evolves_def)

text \<open>The row that is dismissed is the one that was read.\<close>

lemma dismiss_update_ok:
  assumes "List.find (\<lambda>r. cm_MatchID r = i \<and> cm_CandidateID r = c) (candidate_matches d) = Some r"
    and "cm_Status r \<noteq> MatchDismissed"
  shows "match_ok d (d\<lparr>candidate_matches := update_where (\<lambda>r. cm_MatchID r = i \<and> cm_CandidateID r = c)
    (dismissed_row now) (candidate_matches d)\<rparr>)"
proof (rule match_ok_update, intro ballI impI)
  fix s assume "match_inv d" and s: "s \<in> set (candidate_matches d)" "cm_MatchID s = i \<and> cm_CandidateID s = c"
  with find_SomeD[OF assms(1)] have "s = r"
    by (intro distinct_key_eq[of cm_MatchID "candidate_matches d"]) (auto simp: match_inv_def)
  with assms(2) show "match_evolves s (dismissed_row now s)" by (simp add: dismissed_evolves)
qed

lemma dismissMatch_ok: "preserves match_ok (dismissMatch e now ev c i)"
proof -
  let ?P = "\<lambda>r. cm_MatchID r = i \<and> cm_CandidateID r = c"
  have assoc: "sql_bind (sql_bind m k) h = sql_bind m (\<lambda>x. sql_bind (k x) h)" for m k h
    by (auto simp: sql_bind_def fun_eq_iff split: prod.splits sum.splits)
  show ?thesis
    unfolding dismissMatch_def loadOwnedMatch_def assoc
  proof (rule mp.preserves_query_bind, goal_cases)
    case (1 d fs)
    show ?case
    proof (cases "List.find ?P (candidate_matches d)")
      case (Some r)
      then show ?thesis
        by (auto simp: scanMatch_def sql_bind_def[of "sql_return x" for x] sql_return_apply mp.after_return
            intro!: mp.after_return mp.after_exec_bind dismiss_update_ok mp.preserves_rules WriteMatchEvent_ok)
    qed (simp add: sql_bind_def[of "sql_raise x" for x] sql_raise_apply tables_after_def match_ok_refl)
  qed
qed

end
