(* ===== verification/Matching_Properties.thy ===== *)
theory Matching_Properties
  imports Matching_Spec
begin

text \<open>
  Properties of the matching engine: what a history of calls does to a match, the weekly caps of
  fan-out and gap fill, the quality floor of what is written, the budget of invocations, and
  digests that never repeat a match.
\<close>

section \<open>Histories\<close>

inductive match_step :: "matchdb \<Rightarrow> matchdb \<Rightarrow> bool" where
  upsert: "match_step d (tables_after (UpsertMatch now m) (d, fs))"
| upserts: "match_step d (tables_after (UpsertMatches now ms) (d, fs))"
| mark_applied: "match_step d (tables_after (MarkApplied now c i) (d, fs))"
| fan_out: "match_step d (tables_after (FanOut env finp fdeps) (d, fs))"
| gap_fill: "match_step d (tables_after (GapFill env ginp gdeps) (d, fs))"
| invoke: "match_step d (tables_after (MatchInvoke env now nowB invokes iinp gdeps) (d, fs))"
| rematch: "match_step d (tables_after (fst (RunCandidateChange env nowD now ttl cinp gdeps seen)) (d, fs))"
| dismiss: "match_step d (tables_after (dismissMatch e now ev c i) (d, fs))"
| view: "match_step d (tables_after (viewMatch e now c i) (d, fs))"
| receipts: "match_step d (tables_after (InsertNotificationReceipts now c ch items) (d, fs))"
| caps: "match_step d (tables_after (ApplyPlanCaps now c dc wc) (d, fs))"
| index: "match_step d (tables_after (Index_Upsert now n) (d, fs))"
| filters: "match_step d (tables_after (UpsertFilters now c f) (d, fs))"
| rules: "match_step d (tables_after (Rules_Upsert now c doc) (d, fs))"

lemmas match_programs_ok = UpsertMatch_ok UpsertMatches_ok MarkApplied_ok FanOut_ok GapFill_ok MatchInvoke_ok
  RunCandidateChange_ok dismissMatch_ok viewMatch_ok InsertNotificationReceipts_ok ApplyPlanCaps_ok Index_Upsert_ok
  UpsertFilters_ok Rules_Upsert_ok

lemma match_step_ok: "match_step d d' \<Longrightarrow> match_ok d d'"
  by (induction rule: match_step.induct) (rule preservesD, rule match_programs_ok)+

interpretation mt: transition_system match_step match_inv
  by unfold_locales (auto dest: match_step_ok simp: match_ok_def)

lemma match_run_ok: "match_step\<^sup>*\<^sup>* d d' \<Longrightarrow> match_ok d d'"
  by (induction rule: rtranclp_induct) (auto intro: match_ok_refl match_ok_trans match_step_ok)

text \<open>
  C22. Whatever calls run and whatever statements fail, a match never disappears, keeps its
  identity and creation time, never loses score, changes status only to applied or dismissed
  (an overflow row leaves that status only so), stays dismissed once dismissed, and keeps the times
  at which it was viewed and applied for; there is one match per candidate and opportunity.
\<close>

theorem match_history:
  assumes "match_step\<^sup>*\<^sup>* d d'" and "match_inv d" and "r \<in> set (candidate_matches d)"
  shows "match_inv d' \<and> (\<exists>r' \<in> set (candidate_matches d'). match_evolves r r')"
  using match_run_ok[OF assms(1)] assms(2,3) by (auto simp: match_ok_def elim: rows_evolve_mem)

section \<open>Counting what a batch writes\<close>

lemma length_filter_update_where:
  "(\<And>r. P (f r) = P r) \<Longrightarrow> length (filter P (update_where Q f rows)) = length (filter P rows)"
  by (induction rows) auto

definition visible_of :: "string \<Rightarrow> Match \<Rightarrow> bool" where
  "visible_of c m \<longleftrightarrow> m_CandidateID m = c \<and> m_Status m \<noteq> MatchOverflow"

lemma upsertOneSQL_week:
  assumes "upsertOneSQL now' m d = (Inr x, d')"
  shows "week_count now c d' \<le> week_count now c d + (if visible_of c m then 1 else 0)"
proof -
  have "billable now c (improve_row now' m r) = billable now c r" for r
    by (simp add: billable_def improve_row_def)
  then have "week_count now c (d\<lparr>candidate_matches := update_where (same_pair m) (improve_row now' m) (candidate_matches d)\<rparr>) = week_count now c d"
    by (simp add: week_count_def length_filter_update_where)
  moreover have "week_count now c (d\<lparr>candidate_matches := candidate_matches d @ [match_row now' m]\<rparr>)
      \<le> week_count now c d + (if visible_of c m then 1 else 0)"
    by (auto simp: week_count_def visible_of_def billable_def match_row_def eq_commute[of "[]" MatchOverflow])
  ultimately show ?thesis using assms by (auto simp: upsertOneSQL_def split: option.splits if_splits)
qed

lemma upsert_batch_week:
  assumes "sql_map (\<lambda>m. sql_wrap (msg m) (sql_stmt (upsertOneSQL now' m))) ms z = (Inr x, z')"
  shows "week_count now c (fst z') \<le> week_count now c (fst z) + int (length (filter (visible_of c) ms))"
  using assms
proof (induction ms arbitrary: z x)
  case (Cons m ms)
  then obtain y z1 ys where one: "sql_stmt (upsertOneSQL now' m) z = (Inr y, z1)"
    and rest: "sql_map (\<lambda>m. sql_wrap (msg m) (sql_stmt (upsertOneSQL now' m))) ms z1 = (Inr ys, z')"
    by (auto simp: sql_wrap_Inr sql_return_def elim!: sql_bind_InrE)
  from upsertOneSQL_week[OF sql_stmt_InrD[OF one], of now c] Cons.IH[OF rest] show ?case by auto
qed (simp add: sql_return_def)

lemma UpsertMatches_week:
  "week_count now c (tables_after (UpsertMatches now' ms) z) \<le> week_count now c (fst z) + int (length (filter (visible_of c) ms))"
proof (cases "ms = []")
  case False
  let ?p = "sql_bind (sql_map (\<lambda>m. sql_wrap (''matching: bulk row '' @ m_MatchID m) (sql_stmt (upsertOneSQL now' m))) ms) (\<lambda>_. sql_return ())"
  obtain s fs where z: "z = (s, fs)" by (cases z)
  obtain x s' fs' where run: "transaction ?p (s, fs) = (x, (s', fs'))" by (rule prod_cases3)
  then have "week_count now c s' \<le> week_count now c s + int (length (filter (visible_of c) ms))"
  proof (cases rule: transaction_cases)
    case (commit y fs'')
    from commit(2) obtain xs where
      "sql_map (\<lambda>m. sql_wrap (''matching: bulk row '' @ m_MatchID m) (sql_stmt (upsertOneSQL now' m))) ms (s, fs) = (Inr xs, (s', fs''))"
      by (auto simp: sql_return_def elim: sql_bind_InrE)
    from upsert_batch_week[OF this, of now c] show ?thesis by simp
  qed simp
  with run z False show ?thesis by (simp add: UpsertMatches_def tables_after_def)
qed (simp add: UpsertMatches_def tables_after_def sql_return_def)

text \<open>Programs that leave the matches alone.\<close>

definition same_matches :: "matchdb \<Rightarrow> matchdb \<Rightarrow> bool" where
  "same_matches d d' \<longleftrightarrow> candidate_matches d' = candidate_matches d"

interpretation sm: sql_preorder same_matches
  by unfold_locales (simp_all add: same_matches_def)

lemma same_matches_week: "same_matches d d' \<Longrightarrow> week_count now c d' = week_count now c d"
  by (simp add: same_matches_def week_count_def)

lemma finish_run_same: "preserves same_matches (finish_run env run outcome)"
  unfolding finish_run_def WriteMatchRunEvent_def
  by (intro sm.preserves_rules sm.preserves_exec) (simp add: same_matches_def)

lemma write_events_same: "preserves same_matches (write_events env mk ms)"
  unfolding write_events_def WriteMatchEvent_def
  by (intro sm.preserves_rules sm.preserves_exec) (simp add: same_matches_def Let_def)

lemma tables_after_bind_same:
  assumes "\<And>x. preserves same_matches (k x)"
  shows "same_matches (tables_after m z) (tables_after (sql_bind m k) z)"
proof -
  obtain x s fs where m: "m z = (x, (s, fs))" by (metis prod.collapse)
  have "same_matches s (tables_after (k y) (s, fs))" for y using assms by (rule preservesD)
  with m show ?thesis by (cases x) (simp_all add: tables_after_def sql_bind_def sm.R_refl)
qed

lemma gap_write_week:
  "week_count now c (tables_after (gap_write env inp h s w t ms run) z) \<le>
     week_count now c (fst z) + int (length (filter (visible_of c) ms))"
proof -
  have "same_matches (tables_after (sql_try (UpsertMatches (pe_WriteNow env) ms)) z) (tables_after (gap_write env inp h s w t ms run) z)"
    unfolding gap_write_def Let_def by (intro tables_after_bind_same sm.preserves_rules finish_run_same write_events_same)
  then have "week_count now c (tables_after (gap_write env inp h s w t ms run) z) = week_count now c (tables_after (UpsertMatches (pe_WriteNow env) ms) z)"
    by (simp add: same_matches_week tables_after_def sql_try_apply)
  then show ?thesis using UpsertMatches_week by simp
qed

section \<open>Weekly caps\<close>

lemma gap_stop_same: "preserves same_matches (gap_stop env inp h s w reason run)"
  unfolding gap_stop_def by (rule finish_run_same)

lemma gap_caps_week:
  assumes cap: "gi_WeeklyCap inp > 0" and wired: "gd_WeekCount deps"
  shows "week_count (pe_WeekNow env 0) (gi_CandidateID inp) (tables_after (gap_caps env inp deps hits scored used byID run) (d, []))
     \<le> max (gi_WeeklyCap inp) (week_count (pe_WeekNow env 0) (gi_CandidateID inp) d)"
proof -
  let ?used = "week_count (pe_WeekNow env 0) (gi_CandidateID inp) d"
  let ?kept = "take (nat (gi_WeeklyCap inp - ?used)) scored"
  have week: "gap_week_used env inp deps (d, []) = (Inr ?used, (d, []))"
    using assms by (simp add: gap_week_used_def CountNonOverflowThisWeek_def sql_simps)
  have stop: "week_count now c (tables_after (gap_stop env inp h s w reason run) (d, [])) = week_count now c d" for now c h s w reason
    by (rule same_matches_week) (rule preservesD[OF gap_stop_same])
  obtain t where today: "gap_today_used env inp deps (d, []) = (Inr t, (d, []))"
    by (cases "gd_DailyCap deps \<and> 0 < gi_DailyCap inp") (auto simp: gap_today_used_def TodayCount_def sql_simps)
  have "length (gap_matches env inp t used byID ?kept) \<le> nat (gi_WeeklyCap inp - ?used)"
    by (simp add: gap_matches_def)
  then have written: "int (length (filter (visible_of c) (gap_matches env inp t used byID ?kept))) \<le> max 0 (gi_WeeklyCap inp - ?used)" for c
    using length_filter_le[of "visible_of c" "gap_matches env inp t used byID ?kept"] by linarith
  show ?thesis
  proof (cases "gi_WeeklyCap inp - ?used \<le> 0")
    case True
    then have "tables_after (gap_caps env inp deps hits scored used byID run) (d, []) =
        tables_after (gap_stop env inp hits (length scored) ?used GapReasonWeeklyCap run) (d, [])"
      using cap by (simp add: gap_caps_def tables_after_def sql_bind_apply week)
    then show ?thesis by (simp add: stop)
  next
    case False
    then have "tables_after (gap_caps env inp deps hits scored used byID run) (d, []) =
        tables_after (if gi_DailyCap inp > 0 \<and> t \<ge> gi_DailyCap inp \<and> ?kept \<noteq> []
          then gap_stop env inp hits (length scored) ?used GapReasonDailyCap run
          else gap_write env inp hits (length scored) ?used t (gap_matches env inp t used byID ?kept) run) (d, [])"
      using cap by (simp add: gap_caps_def Let_def tables_after_def sql_bind_apply week today)
    with False written[of "gi_CandidateID inp"]
      gap_write_week[of "pe_WeekNow env 0" "gi_CandidateID inp" env inp hits "length scored" ?used t "gap_matches env inp t used byID ?kept" run "(d, [])"]
    show ?thesis by (auto simp: stop)
  qed
qed

lemma GapFill_tables:
  obtains hits scored used byID run where
    "tables_after (GapFill env inp deps) (d, []) = tables_after (gap_caps env inp deps hits scored used byID run) (d, [])"
proof -
  obtain hits where hits: "ReverseKNN (gd_cosdist deps) (gd_describe deps) (gap_query inp) (d, []) = (Inr hits, (d, []))"
    by (simp add: ReverseKNN_def Let_def sql_simps)
  obtain out used e where "gd_Reranker deps (gi_QueryText inp) (map (\<lambda>(h, t). \<lparr>ri_ID = oh_OpportunityID h, ri_Text = oh_Text h,
      ri_Score = t, ri_RerankScore = None\<rparr>) (gap_scored env inp (gd_Weights deps) hits)) = (out, used, e)"
    by (rule prod_cases3)
  with hits show ?thesis
    by (intro that[where hits = "length hits"]) (simp add: GapFill_def Let_def tables_after_def sql_bind_apply sql_try_apply)
qed

text \<open>
  With a working database a gap fill never lifts the matches a candidate was given in the last
  seven days above the weekly cap: the count afterwards is at most the cap, or what it was.
\<close>

theorem gap_fill_weekly_cap:
  assumes "gi_WeeklyCap inp > 0" and "gd_WeekCount deps"
  shows "week_count (pe_WeekNow env 0) (gi_CandidateID inp) (tables_after (GapFill env inp deps) (d, []))
     \<le> max (gi_WeeklyCap inp) (week_count (pe_WeekNow env 0) (gi_CandidateID inp) d)"
  by (rule GapFill_tables[of env inp deps d]) (simp add: gap_caps_week[OF assms])


text \<open>Fan-out asks the count of each candidate once; a hit that stays visible was below its cap.\<close>

definition below_cap :: "path_env \<Rightarrow> FanOutDeps \<Rightarrow> matchdb \<Rightarrow> nat \<Rightarrow> CandidateHit \<Rightarrow> string \<Rightarrow> bool" where
  "below_cap env deps d k h status \<longleftrightarrow>
     (fd_EnforceWeeklyCap deps \<and> fd_WeekCount deps \<and> ch_WeeklyCap h > 0 \<and> status \<noteq> MatchOverflow \<longrightarrow>
       week_count (pe_WeekNow env k) (ch_CandidateID h) d < ch_WeeklyCap h)"

lemma cap_status_run:
  assumes "cache (ch_CandidateID h) = None"
  shows "\<exists>status cache'. cap_status env deps cache k h (d, []) = (Inr (status, cache'), (d, [])) \<and>
    below_cap env deps d k h status \<and> (\<forall>c. c \<noteq> ch_CandidateID h \<longrightarrow> cache' c = cache c)"
proof -
  obtain full where full: "daily_full env deps k h (d, []) = (Inr full, (d, []))"
    by (cases "fd_DailyCap deps \<and> ch_DailyCap h > 0") (auto simp: daily_full_def TodayCount_def sql_simps)
  have used: "week_used env cache k h (d, []) = (Inr (week_count (pe_WeekNow env k) (ch_CandidateID h) d), (d, []))"
    using assms by (simp add: week_used_def CountNonOverflowThisWeek_def sql_simps)
  show ?thesis
    by (cases full; cases "fd_EnforceWeeklyCap deps \<and> fd_WeekCount deps \<and> ch_WeeklyCap h > 0";
        cases "week_count (pe_WeekNow env k) (ch_CandidateID h) d \<ge> ch_WeeklyCap h")
      (auto simp: cap_status_def sql_bind_apply sql_return_apply full used below_cap_def)
qed

lemma cap_loop_run:
  assumes "distinct (map (ch_CandidateID \<circ> fst) hs)" and "\<And>ht. ht \<in> set hs \<Longrightarrow> cache (ch_CandidateID (fst ht)) = None"
  shows "\<exists>statuses. cap_loop env deps cache k hs (d, []) = (Inr statuses, (d, [])) \<and> length statuses = length hs \<and>
    (\<forall>i < length hs. below_cap env deps d (k + i) (fst (hs ! i)) (statuses ! i))"
  using assms
proof (induction hs arbitrary: cache k)
  case Nil
  then show ?case by (simp add: sql_return_def)
next
  case (Cons ht hs)
  obtain h t where ht: "ht = (h, t)" by (cases ht)
  have "cache (ch_CandidateID h) = None" using Cons.prems(2)[of ht] ht by simp
  from cap_status_run[where cache = cache and h = h and env = env and deps = deps and k = k and d = d, OF this]
  obtain status cache' where one: "cap_status env deps cache k h (d, []) = (Inr (status, cache'), (d, []))" "below_cap env deps d k h status"
    and other: "\<And>c. c \<noteq> ch_CandidateID h \<Longrightarrow> cache' c = cache c" by blast
  have none: "cache' (ch_CandidateID (fst x)) = None" if "x \<in> set hs" for x
  proof -
    have "ch_CandidateID (fst x) \<noteq> ch_CandidateID h" using that Cons.prems(1) ht by (force simp: image_iff)
    then show ?thesis using other Cons.prems(2)[of x] that by simp
  qed
  have "distinct (map (ch_CandidateID \<circ> fst) hs)" using Cons.prems(1) by (simp add: comp_def)
  from Cons.IH[where cache = cache' and k = "Suc k", OF this none]
  obtain rest where rest: "cap_loop env deps cache' (Suc k) hs (d, []) = (Inr rest, (d, []))" "length rest = length hs"
    "\<And>i. i < length hs \<Longrightarrow> below_cap env deps d (Suc k + i) (fst (hs ! i)) (rest ! i)"
    by blast
  have "below_cap env deps d (k + i) (fst ((ht # hs) ! i)) ((status # rest) ! i)" if "i < length (ht # hs)" for i
    using one(2) rest(3)[of "i - 1"] that ht by (cases i) auto
  moreover have "cap_loop env deps cache k (ht # hs) (d, []) = (Inr (status # rest), (d, []))"
    using one(1) rest(1) by (simp add: ht sql_bind_apply sql_return_apply)
  ultimately show ?case using rest(2) by (intro exI[of _ "status # rest"]) simp
qed

text \<open>The visible matches a fan-out gives one candidate: at most one, and only below the cap.\<close>

lemma fanout_visible:
  assumes dist: "distinct (map (ch_CandidateID \<circ> fst) scored)" and len: "length statuses = length scored"
  shows "length (filter (visible_of c) (fanout_matches env inp used byID scored statuses)) \<le> 1"
    and "filter (visible_of c) (fanout_matches env inp used byID scored statuses) \<noteq> [] \<Longrightarrow>
      \<exists>i < length scored. ch_CandidateID (fst (scored ! i)) = c \<and> statuses ! i \<noteq> MatchOverflow"
proof -
  let ?ms = "fanout_matches env inp used byID scored statuses"
  have nth: "?ms ! i = fanout_match env inp used byID i (scored ! i) (statuses ! i)" if "i < length scored" for i
    using that len by (simp add: fanout_matches_def)
  have length: "length ?ms = length scored" using len by (simp add: fanout_matches_def)
  have cands: "map m_CandidateID ?ms = map (ch_CandidateID \<circ> fst) scored"
    by (rule nth_equalityI) (simp_all add: length nth fanout_match_def)
  have "length (filter (visible_of c) ms) \<le> 1" if "distinct (map m_CandidateID ms)" for ms
    using that
  proof (induction ms)
    case (Cons m ms)
    then show ?case by (auto simp: visible_of_def filter_empty_conv image_iff)
  qed simp
  then show "length (filter (visible_of c) ?ms) \<le> 1" using dist cands by simp
  assume "filter (visible_of c) ?ms \<noteq> []"
  then obtain i where "i < length ?ms" "visible_of c (?ms ! i)" by (auto simp: filter_empty_conv in_set_conv_nth)
  then show "\<exists>i < length scored. ch_CandidateID (fst (scored ! i)) = c \<and> statuses ! i \<noteq> MatchOverflow"
    by (auto simp: length nth fanout_match_def visible_of_def)
qed

lemma length_filter_mono:
  "(\<And>x. P x \<Longrightarrow> Q x) \<Longrightarrow> length (filter P xs) \<le> length (filter Q xs)"
  by (induction xs) auto

lemma week_count_antimono: "now \<le> now' \<Longrightarrow> week_count now' c d \<le> week_count now c d"
  by (auto simp: week_count_def billable_def intro!: length_filter_mono)

lemma fanout_write_week:
  "week_count now c (tables_after (fanout_write env inp deps hits used ms run) z) \<le>
     week_count now c (fst z) + int (length (filter (visible_of c) ms))"
proof -
  have "same_matches (tables_after (sql_try (UpsertMatches (pe_WriteNow env) ms)) z)
      (tables_after (fanout_write env inp deps hits used ms run) z)"
    unfolding fanout_write_def by (intro tables_after_bind_same sm.preserves_rules finish_run_same write_events_same)
  then have "week_count now c (tables_after (fanout_write env inp deps hits used ms run) z) = week_count now c (tables_after (UpsertMatches (pe_WriteNow env) ms) z)"
    by (simp add: same_matches_week tables_after_def sql_try_apply)
  then show ?thesis using UpsertMatches_week by simp
qed

section \<open>Where fan-out hits come from\<close>

definition knn_rows :: "FanOutInput \<Rightarrow> FanOutDeps \<Rightarrow> matchdb \<Rightarrow> CandidateMatchIndexRecord list" where
  "knn_rows inp deps d = take 500 (sort_key (\<lambda>r. fd_cosdist deps (ci_Embedding r) (fi_Embedding inp))
     (filter (reachable_candidate (fi_Kind inp) (fi_Country inp) (fi_SalaryMaxUSD inp)) (candidate_match_indexes d)))"

definition knn_hit :: "FanOutInput \<Rightarrow> FanOutDeps \<Rightarrow> CandidateMatchIndexRecord \<Rightarrow> CandidateHit" where
  "knn_hit inp deps r = \<lparr>ch_CandidateID = ci_CandidateID r, ch_Distance = fd_cosdist deps (ci_Embedding r) (fi_Embedding inp),
     ch_MinScore = ci_MinScore r, ch_DailyCap = ci_DailyCap r, ch_WeeklyCap = ci_WeeklyCap r, ch_Kinds = ci_Kinds r,
     ch_Countries = ci_Countries r, ch_SalaryFloorUSD = ci_SalaryFloorUSD r, ch_Text = ci_RerankText r\<rparr>"

lemma FanOutKNN_hits:
  "FanOutKNN (fd_cosdist deps) (fi_Embedding inp) (fi_Kind inp) (fi_Country inp) (fi_SalaryMaxUSD inp) 500 =
     sql_wrap ''matching: fan-out knn'' (sql_query (\<lambda>d. map (knn_hit inp deps) (knn_rows inp deps d)))"
  by (simp add: FanOutKNN_def knn_rows_def knn_hit_def[abs_def])

lemma knn_rows_subset:
  "set (knn_rows inp deps d) \<subseteq> set (filter (reachable_candidate (fi_Kind inp) (fi_Country inp) (fi_SalaryMaxUSD inp)) (candidate_match_indexes d))"
  unfolding knn_rows_def by (auto dest!: in_set_takeD)

lemma distinct_knn_rows:
  assumes "distinct (map ci_CandidateID (candidate_match_indexes d))"
  shows "distinct (map ci_CandidateID (knn_rows inp deps d))"
proof -
  have "distinct (map ci_CandidateID (filter P (candidate_match_indexes d)))" for P
    using assms by (rule distinct_map_filter)
  then have "distinct (map ci_CandidateID (sort_key f (filter P (candidate_match_indexes d))))" for f :: "_ \<Rightarrow> real" and P
    by (simp add: distinct_map)
  then show ?thesis unfolding knn_rows_def take_map[symmetric] by (intro distinct_take)
qed

lemma fanout_scored_hits: "ht \<in> set (fanout_scored env inp w hits) \<Longrightarrow> fst ht \<in> set hits \<and> ch_MinScore (fst ht) \<le> snd ht"
  by (auto simp: fanout_scored_def dest: set_zip_rightD)

lemma distinct_fanout_scored:
  assumes "distinct (map ch_CandidateID hits)"
  shows "distinct (map (ch_CandidateID \<circ> fst) (fanout_scored env inp w hits))"
proof -
  have "map (ch_CandidateID \<circ> fst) (map (\<lambda>(k, h). (h, fanout_total env inp w k h)) (zip [0..<length hits] hits)) =
      map (ch_CandidateID \<circ> snd) (zip [0..<length hits] hits)"
    by auto
  also have "\<dots> = map ch_CandidateID hits" by (simp flip: map_map)
  finally show ?thesis unfolding fanout_scored_def using assms by (intro distinct_map_filter) simp
qed


lemma FanOut_tables:
  assumes "distinct (map ci_CandidateID (candidate_match_indexes d))"
  shows "same_matches d (tables_after (FanOut env inp deps) (d, [])) \<or>
    (\<exists>scored statuses used byID run. set (map fst scored) \<subseteq> knn_hit inp deps ` set (knn_rows inp deps d) \<and>
       distinct (map (ch_CandidateID \<circ> fst) scored) \<and> length statuses = length scored \<and>
       (\<forall>i < length scored. below_cap env deps d i (fst (scored ! i)) (statuses ! i)) \<and>
       tables_after (FanOut env inp deps) (d, []) =
         tables_after (fanout_write env inp deps (map (knn_hit inp deps) (knn_rows inp deps d)) used
           (fanout_matches env inp used byID scored statuses) run) (d, []))"
proof (cases "knn_rows inp deps d = []")
  case True
  then have "same_matches d (tables_after (FanOut env inp deps) (d, []))"
    by (simp add: FanOut_def FanOutKNN_hits tables_after_try_query preservesD[OF finish_run_same])
  then show ?thesis ..
next
  case False
  let ?hits = "map (knn_hit inp deps) (knn_rows inp deps d)"
  let ?scored = "fanout_scored env inp (fd_Weights deps) ?hits"
  obtain out used e where rr: "fd_Reranker deps (fi_QueryText inp) (map (\<lambda>(h, t). \<lparr>ri_ID = ch_CandidateID h, ri_Text = ch_Text h,
      ri_Score = t, ri_RerankScore = None\<rparr>) ?scored) = (out, used, e)"
    by (rule prod_cases3)
  have "distinct (map ch_CandidateID ?hits)"
    using distinct_knn_rows[OF assms] by (simp add: comp_def knn_hit_def)
  then have dist: "distinct (map (ch_CandidateID \<circ> fst) ?scored)" by (rule distinct_fanout_scored)
  obtain statuses where run: "cap_loop env deps Map.empty 0 ?scored (d, []) = (Inr statuses, (d, []))"
    and len: "length statuses = length ?scored"
    and below: "\<And>i. i < length ?scored \<Longrightarrow> below_cap env deps d (0 + i) (fst (?scored ! i)) (statuses ! i)"
    using cap_loop_run[OF dist, of Map.empty env deps 0 d] by auto
  have hits: "set (map fst ?scored) \<subseteq> knn_hit inp deps ` set (knn_rows inp deps d)" using fanout_scored_hits by fastforce
  have "\<exists>run. tables_after (FanOut env inp deps) (d, []) = tables_after (fanout_write env inp deps ?hits used
      (fanout_matches env inp used (rerankByID used out) ?scored statuses) run) (d, [])"
    using False run rr by (auto simp: FanOut_def FanOutKNN_hits tables_after_try_query Let_def)
      (auto simp: tables_after_def sql_bind_apply)
  then obtain run where "tables_after (FanOut env inp deps) (d, []) = tables_after (fanout_write env inp deps ?hits used
      (fanout_matches env inp used (rerankByID used out) ?scored statuses) run) (d, [])" ..
  with hits dist len below show ?thesis
    by (intro disjI2 exI[of _ ?scored] exI[of _ statuses] exI[of _ used] exI[of _ "rerankByID used out"] exI[of _ run]) simp
qed

text \<open>
  C23. On a database whose statements all succeed, fan-out with the weekly counter wired and told to enforce
  weekly caps never lifts a candidate with a positive cap above it: afterwards the matches of the last seven days are at most
  the cap, or what they were.  The count reads a clock that is not ahead of the one at which the week is taken.  When the count query fails
  the code goes on as if nothing had been used, so this holds on a working database only.
\<close>

theorem fan_out_weekly_cap:
  assumes key: "distinct (map ci_CandidateID (candidate_match_indexes d))"
    and idx: "x \<in> set (candidate_match_indexes d)" "ci_WeeklyCap x > 0"
    and wired: "fd_EnforceWeeklyCap deps" "fd_WeekCount deps" and clock: "\<And>k. pe_WeekNow env k \<le> now"
  shows "week_count now (ci_CandidateID x) (tables_after (FanOut env inp deps) (d, []))
     \<le> max (ci_WeeklyCap x) (week_count now (ci_CandidateID x) d)"
  using FanOut_tables[OF key, of env inp deps]
proof (elim disjE exE conjE, goal_cases)
  case 1
  then show ?case by (simp add: same_matches_week)
next
  case (2 scored statuses used byID run)
  let ?c = "ci_CandidateID x" and ?ms = "fanout_matches env inp used byID scored statuses"
  have bound: "week_count now ?c (tables_after (FanOut env inp deps) (d, [])) \<le> week_count now ?c d + int (length (filter (visible_of ?c) ?ms))"
    using 2(5) fanout_write_week[where z = "(d, [])"] by simp
  show ?case
  proof (cases "filter (visible_of ?c) ?ms = []")
    case False
    from fanout_visible(2)[OF 2(2,3) False] obtain i
      where i: "i < length scored" "ch_CandidateID (fst (scored ! i)) = ?c" "statuses ! i \<noteq> MatchOverflow" by blast
    then have "fst (scored ! i) \<in> set (map fst scored)" by simp
    with 2(1) obtain r where r: "r \<in> set (knn_rows inp deps d)" "fst (scored ! i) = knn_hit inp deps r" by blast
    with i(2) knn_rows_subset[of inp deps d] have "r = x"
      by (intro distinct_key_eq[OF key _ idx(1)]) (auto simp: knn_hit_def)
    with r(2) 2(4) i idx(2) wired have "week_count (pe_WeekNow env i) ?c d < ci_WeeklyCap x"
      by (auto simp: below_cap_def knn_hit_def)
    with week_count_antimono[OF clock[of i], of ?c d] bound fanout_visible(1)[OF 2(2,3), of ?c env inp used byID]
    show ?thesis by linarith
  qed (use bound in simp)
qed


section \<open>What a run may write\<close>

text \<open>Every row afterwards is an old row or satisfies \<open>P\<close>.\<close>

definition wrote :: "(CandidateMatchRecord \<Rightarrow> bool) \<Rightarrow> matchdb \<Rightarrow> matchdb \<Rightarrow> bool" where
  "wrote P d d' \<longleftrightarrow> list_all (\<lambda>r. r \<in> set (candidate_matches d) \<or> P r) (candidate_matches d')"

interpretation wr: sql_preorder "wrote P" for P
  by unfold_locales (auto simp: wrote_def list_all_iff)

definition writes_only :: "(CandidateMatchRecord \<Rightarrow> bool) \<Rightarrow> Match \<Rightarrow> bool" where
  "writes_only P m \<longleftrightarrow> (\<forall>now. P (match_row now m)) \<and> (\<forall>now r. same_pair m r \<longrightarrow> P (improve_row now m r))"

lemma upsertOneSQL_wrote: "upsertOneSQL now m d = (Inr x, d') \<Longrightarrow> writes_only P m \<Longrightarrow> wrote P d d'"
  by (auto simp: upsertOneSQL_def wrote_def writes_only_def list_all_iff elim!: update_where_memE
      split: option.splits if_splits)

lemma UpsertMatches_wrote: "(\<And>m. m \<in> set ms \<Longrightarrow> writes_only P m) \<Longrightarrow> preserves (wrote P) (UpsertMatches now ms)"
  unfolding UpsertMatches_def by (intro wr.preserves_rules wr.preserves_stmt) (erule upsertOneSQL_wrote, blast)

lemma same_matches_wrote: "preserves same_matches m \<Longrightarrow> preserves (wrote P) m"
  by (auto simp: preserves_def same_matches_def wrote_def list_all_iff)

lemmas other_writes = same_matches_wrote[OF finish_run_same] same_matches_wrote[OF write_events_same] same_matches_wrote[OF gap_stop_same]

definition own_quality :: "string \<Rightarrow> real \<Rightarrow> CandidateMatchRecord \<Rightarrow> bool" where
  "own_quality c mn r \<longleftrightarrow> cm_CandidateID r = c \<and> mn \<le> cm_Score r"

lemma gap_matches_writes:
  assumes "m \<in> set (gap_matches env inp t used byID kept)" and "\<And>ht. ht \<in> set kept \<Longrightarrow> gi_MinScore inp \<le> snd ht"
  shows "writes_only (own_quality (gi_CandidateID inp) (gi_MinScore inp)) m"
proof -
  from assms(1) obtain i ht where m: "m = gap_match env inp t used byID i ht" "ht \<in> set kept"
    by (auto simp: gap_matches_def dest: set_zip_rightD)
  then have "m_CandidateID m = gi_CandidateID inp" "gi_MinScore inp \<le> m_Score m"
    using assms(2) by (auto simp: gap_match_def)
  then show ?thesis
    by (auto simp: writes_only_def own_quality_def match_row_def improve_row_def same_pair_def)
qed

lemma gap_scored_min: "ht \<in> set (best_first (gap_scored env inp w hits)) \<Longrightarrow> gi_MinScore inp \<le> snd ht"
  by (auto simp: best_first_def gap_scored_def)

lemma gap_caps_wrote:
  assumes "\<And>ht. ht \<in> set scored \<Longrightarrow> gi_MinScore inp \<le> snd ht"
  shows "preserves (wrote (own_quality (gi_CandidateID inp) (gi_MinScore inp))) (gap_caps env inp deps hits scored used byID run)"
  unfolding gap_caps_def gap_week_used_def gap_today_used_def TodayCount_def CountNonOverflowThisWeek_def gap_write_def Let_def
  by (intro wr.preserves_rules other_writes UpsertMatches_wrote)
    (erule gap_matches_writes, use assms in \<open>auto dest: in_set_takeD split: if_splits\<close>)

text \<open>
  A gap fill writes only matches of its own candidate, with a score at or above the
  threshold of the call; every other row stays as it is, whatever statements fail.
\<close>

theorem gap_fill_scope:
  "list_all (\<lambda>r. r \<in> set (candidate_matches d) \<or> cm_CandidateID r = gi_CandidateID inp \<and> gi_MinScore inp \<le> cm_Score r)
     (candidate_matches (tables_after (GapFill env inp deps) (d, fs)))"
proof -
  have "preserves (wrote (own_quality (gi_CandidateID inp) (gi_MinScore inp))) (GapFill env inp deps)"
    unfolding GapFill_def ReverseKNN_def Let_def
    by (auto intro!: wr.preserves_rules other_writes gap_caps_wrote gap_scored_min split: prod.splits)
  from preservesD[OF this, of d fs] show ?thesis by (simp add: wrote_def own_quality_def)
qed


definition wanted :: "FanOutInput \<Rightarrow> matchdb \<Rightarrow> CandidateMatchRecord \<Rightarrow> bool" where
  "wanted inp d r \<longleftrightarrow> cm_OpportunityID r = fi_OpportunityID inp \<and>
     list_ex (\<lambda>x. ci_CandidateID x = cm_CandidateID r \<and> ci_Enabled x \<and> fi_Kind inp \<in> set (ci_Kinds x) \<and> ci_MinScore x \<le> cm_Score r)
       (candidate_match_indexes d)"

lemma fanout_matches_writes:
  assumes "m \<in> set (fanout_matches env inp used byID (fanout_scored env inp w (map (knn_hit inp deps) (knn_rows inp deps d))) statuses)"
  shows "writes_only (wanted inp d) m"
proof -
  from assms obtain k ht st where m: "m = fanout_match env inp used byID k ht st"
    and ht: "ht \<in> set (fanout_scored env inp w (map (knn_hit inp deps) (knn_rows inp deps d)))"
    by (auto simp: fanout_matches_def elim!: in_set_zipE)
  from fanout_scored_hits[OF ht] obtain x where x: "x \<in> set (knn_rows inp deps d)" "fst ht = knn_hit inp deps x" "ch_MinScore (fst ht) \<le> snd ht"
    by auto
  with knn_rows_subset[of inp deps d] have "x \<in> set (candidate_match_indexes d)" "ci_Enabled x" "fi_Kind inp \<in> set (ci_Kinds x)"
    by (auto simp: reachable_candidate_def)
  with x m show ?thesis
    by (auto simp: writes_only_def wanted_def list_ex_iff match_row_def improve_row_def same_pair_def fanout_match_def knn_hit_def
        intro!: bexI[of _ x])
qed

lemma cap_loop_same: "preserves same_matches (cap_loop env deps cache k hs)"
proof (induction hs arbitrary: cache k)
  case (Cons ht hs)
  then show ?case
    by (cases ht) (auto simp: cap_status_def daily_full_def week_used_def TodayCount_def CountNonOverflowThisWeek_def
        intro!: sm.preserves_rules split: prod.splits)
qed (simp add: sm.preserves_return)

text \<open>
  Fan-out writes only matches of the new opportunity, for candidates of the index who are
  enabled and want its kind, with a score at or above the candidate's own threshold; every other row
  stays as it is, whatever statements fail.
\<close>

theorem fan_out_scope:
  "list_all (\<lambda>r. r \<in> set (candidate_matches d) \<or> cm_OpportunityID r = fi_OpportunityID inp \<and>
       list_ex (\<lambda>x. ci_CandidateID x = cm_CandidateID r \<and> ci_Enabled x \<and> fi_Kind inp \<in> set (ci_Kinds x) \<and> ci_MinScore x \<le> cm_Score r)
         (candidate_match_indexes d))
     (candidate_matches (tables_after (FanOut env inp deps) (d, fs)))"
proof -
  have "wrote (wanted inp d) d (tables_after (FanOut env inp deps) (d, fs))"
    unfolding FanOut_def FanOutKNN_hits tables_after_try_query
    by (auto simp: Let_def fanout_write_def intro!: preservesD[of "wrote (wanted inp d)"] wr.preserves_rules other_writes
        same_matches_wrote[OF cap_loop_same] UpsertMatches_wrote fanout_matches_writes split: prod.splits)
  then show ?thesis by (simp add: wrote_def wanted_def)
qed

section \<open>Budget of invocations\<close>

text \<open>At most one run event is added.\<close>

definition same_runs :: "matchdb \<Rightarrow> matchdb \<Rightarrow> bool" where
  "same_runs d d' \<longleftrightarrow> match_run_events d' = match_run_events d"

interpretation sr: sql_preorder same_runs
  by unfold_locales (simp_all add: same_runs_def)

definition one_run :: "(matchdb, 'a) sql \<Rightarrow> bool" where
  "one_run m \<longleftrightarrow> (\<forall>z now c. invoke_count now c (tables_after m z) \<le> invoke_count now c (fst z) + 1)"

lemma one_run_bind:
  assumes "preserves same_runs m" and "\<And>x. one_run (k x)"
  shows "one_run (sql_bind m k)"
  unfolding one_run_def
proof (intro allI)
  fix z :: "matchdb dbstate" and now c
  obtain x s fs where m: "m z = (x, (s, fs))" by (metis prod.collapse)
  then have "same_runs (fst z) s" using assms(1) by (metis preserves_run prod.collapse)
  then have "invoke_count now c s = invoke_count now c (fst z)" by (simp add: invoke_count_def same_runs_def)
  moreover have "invoke_count now c (tables_after (k y) (s, fs)) \<le> invoke_count now c s + 1" for y
    using assms(2) by (force simp: one_run_def)
  ultimately show "invoke_count now c (tables_after (sql_bind m k) z) \<le> invoke_count now c (fst z) + 1"
    using m by (cases x) (simp_all add: tables_after_def sql_bind_def)
qed

lemma one_run_try_bind_return:
  assumes "one_run m" and "\<And>x. preserves same_runs (k x)"
  shows "one_run (sql_bind (sql_try m) k)"
  unfolding one_run_def
proof (intro allI)
  fix z :: "matchdb dbstate" and now c
  obtain x s fs where m: "m z = (x, (s, fs))" by (metis prod.collapse)
  have "same_runs s (tables_after (k y) (s, fs))" for y using assms(2) by (rule preservesD)
  then have "invoke_count now c (tables_after (k y) (s, fs)) = invoke_count now c s" for y
    by (simp add: invoke_count_def same_runs_def)
  moreover have "invoke_count now c s \<le> invoke_count now c (fst z) + 1"
    using assms(1) m by (metis one_run_def tables_after_run fst_conv)
  ultimately show "invoke_count now c (tables_after (sql_bind (sql_try m) k) z) \<le> invoke_count now c (fst z) + 1"
    using m by (simp add: tables_after_def sql_bind_def sql_try_def)
qed

lemma WriteMatchRunEvent_one_run: "one_run (WriteMatchRunEvent now e)"
  unfolding one_run_def
proof (intro allI)
  fix z :: "matchdb dbstate" and n c
  let ?f = "\<lambda>d. if list_ex (\<lambda>x. rr_RunID x = rr_RunID (run_row now e) \<and> rr_StartedAt x = rr_StartedAt (run_row now e)) (match_run_events d)
    then d else d\<lparr>match_run_events := match_run_events d @ [run_row now e]\<rparr>"
  have "invoke_count n c (?f d) \<le> invoke_count n c d + 1" for d by (simp add: invoke_count_def)
  with tables_after_exec[of ?f z] have "invoke_count n c (tables_after (sql_exec ?f) z) \<le> invoke_count n c (fst z) + 1" by auto
  then show "invoke_count n c (tables_after (WriteMatchRunEvent now e) z) \<le> invoke_count n c (fst z) + 1"
    by (simp add: WriteMatchRunEvent_def)
qed

lemma finish_run_one_run: "one_run (finish_run env run outcome)"
  unfolding finish_run_def
  by (intro one_run_try_bind_return WriteMatchRunEvent_one_run sr.preserves_rules)


lemma one_run_if: "one_run m \<Longrightarrow> one_run n \<Longrightarrow> one_run (if b then m else n)"
  by simp

lemma one_run_sum: "(\<And>e. one_run (m e)) \<Longrightarrow> (\<And>x. one_run (n x)) \<Longrightarrow> one_run (case v of Inl e \<Rightarrow> m e | Inr x \<Rightarrow> n x)"
  by (cases v) auto

lemma upsertOneSQL_runs: "upsertOneSQL now m d = (Inr x, d') \<Longrightarrow> same_runs d d'"
  by (auto simp: upsertOneSQL_def same_runs_def split: option.splits if_splits)

lemma UpsertMatches_runs: "preserves same_runs (UpsertMatches now ms)"
  unfolding UpsertMatches_def by (intro sr.preserves_rules sr.preserves_stmt) (erule upsertOneSQL_runs)

lemma write_events_runs: "preserves same_runs (write_events env mk ms)"
  unfolding write_events_def WriteMatchEvent_def
  by (intro sr.preserves_rules sr.preserves_exec) (simp add: same_runs_def Let_def)

lemma gap_caps_one_run: "one_run (gap_caps env inp deps hits scored used byID run)"
  unfolding gap_caps_def gap_week_used_def gap_today_used_def TodayCount_def CountNonOverflowThisWeek_def gap_stop_def gap_write_def Let_def
  by (intro one_run_bind one_run_if one_run_sum finish_run_one_run sr.preserves_rules UpsertMatches_runs write_events_runs)

lemma GapFill_one_run: "one_run (GapFill env inp deps)"
  unfolding GapFill_def ReverseKNN_def Let_def
  by (auto intro!: one_run_bind one_run_sum finish_run_one_run gap_caps_one_run sr.preserves_rules split: prod.splits)

text \<open>
  A budgeted invocation never lifts the invocations of a candidate in a UTC day above the
  limit, whatever statements fail, and with a working database one that finds the budget spent is
  refused and changes nothing.
\<close>

theorem invoke_budget:
  assumes "reasonConsumesBudget (invoke_reason inp)" and "ii_InvokeLimit inp > 0"
  shows "invoke_count nowB (ii_CandidateID inp) (tables_after (MatchInvoke env now nowB True inp deps) (d, fs))
       \<le> max (ii_InvokeLimit inp) (invoke_count nowB (ii_CandidateID inp) d) \<and>
     (ii_InvokeLimit inp \<le> invoke_count nowB (ii_CandidateID inp) d \<longrightarrow>
       MatchInvoke env now nowB True inp deps (d, []) = (Inr rate_limited, (d, [])))"
proof
  let ?n = "invoke_count nowB (ii_CandidateID inp)"
  have run: "?n (tables_after (GapFill env (invoke_gapfill now inp) deps) (d, fs')) \<le> ?n d + 1" for fs'
    using GapFill_one_run by (force simp: one_run_def)
  obtain b fs' where fault: "next_fault fs = (b, fs')" by (cases "next_fault fs")
  then have "tables_after (MatchInvoke env now nowB True inp deps) (d, fs) = d \<or>
      \<not> b \<and> ?n d < ii_InvokeLimit inp \<and>
      tables_after (MatchInvoke env now nowB True inp deps) (d, fs) = tables_after (GapFill env (invoke_gapfill now inp) deps) (d, fs')"
    using assms by (cases b) (auto simp: MatchInvoke_def CountUserInvokesToday_def tables_after_def sql_bind_def sql_wrap_def sql_query_def
        sql_stmt_def sql_return_def)
  with run[of fs'] show "?n (tables_after (MatchInvoke env now nowB True inp deps) (d, fs)) \<le> max (ii_InvokeLimit inp) (?n d)"
    by (elim disjE) auto
  show "ii_InvokeLimit inp \<le> ?n d \<longrightarrow> MatchInvoke env now nowB True inp deps (d, []) = (Inr rate_limited, (d, []))"
    using assms by (simp add: MatchInvoke_def CountUserInvokesToday_def sql_simps)
qed

section \<open>Digests\<close>

definition receipted :: "string \<Rightarrow> string \<Rightarrow> DigestMatch \<Rightarrow> matchdb \<Rightarrow> bool" where
  "receipted c ch it d \<longleftrightarrow> (\<exists>x \<in> set (match_notification_receipts d). nr_CandidateID x = c \<and> nr_MatchID x = dm_MatchID it \<and> nr_Channel x = ch)"

lemma receipted_grow: "receipted c ch it d \<Longrightarrow> tables_grow d d' \<Longrightarrow> receipted c ch it d'"
  by (auto simp: receipted_def tables_grow_def)

lemma insert_receipt_receipted: "receipted c ch it (insert_receipt now c ch it d)"
  by (auto simp: receipted_def insert_receipt_def list_ex_iff)

lemma InsertNotificationReceipts_receipted:
  assumes "InsertNotificationReceipts now c ch items z = (Inr u, z')" and "it \<in> set items"
    and "TrimSpace (dm_MatchID it) \<noteq> []" "TrimSpace (dm_OpportunityID it) \<noteq> []"
  shows "receipted c (receipt_channel ch) it (fst z')"
proof -
  let ?f = "\<lambda>it. if TrimSpace (dm_MatchID it) = [] \<or> TrimSpace (dm_OpportunityID it) = [] then sql_return ()
       else sql_wrap ''matching: insert notification receipt'' (sql_exec (insert_receipt now c (receipt_channel ch) it))"
  have ok: "preserves match_ok (sql_map ?f xs)" for xs
    by (intro mp.preserves_rules mp.preserves_exec insert_receipt_ok)
  have "sql_map ?f items z = (Inr x, z') \<Longrightarrow> receipted c (receipt_channel ch) it (fst z')" for x
    using assms(2-4)
  proof (induction items arbitrary: z x)
    case (Cons a items)
    from Cons.prems(1) obtain y z1 ys where one: "?f a z = (Inr y, z1)" and rest: "sql_map ?f items z1 = (Inr ys, z')"
      by (auto simp: sql_return_def elim!: sql_bind_InrE)
    show ?case
    proof (cases "it = a")
      case True
      then have "fst z1 = insert_receipt now c (receipt_channel ch) it (fst z)"
        using one Cons.prems(3,4) by (auto simp: sql_wrap_Inr dest: sql_exec_InrD)
      then have "receipted c (receipt_channel ch) it (fst z1)" by (simp add: insert_receipt_receipted)
      moreover have "match_ok (fst z1) (fst z')" using preservesD[OF ok, of "fst z1" items "snd z1"] rest by (simp add: tables_after_run)
      ultimately show ?thesis by (auto simp: match_ok_def intro: receipted_grow)
    qed (use Cons.IH[OF rest] Cons.prems in auto)
  qed simp
  then show ?thesis using assms(1) by (auto simp: InsertNotificationReceipts_def sql_return_def elim!: sql_bind_InrE)
qed

lemma unseen_not_receipted:
  assumes "ListTopUnseenMatchesForDigest c ch n (d, fs) = (Inr items, z)" and "it \<in> set items"
    and "dm_MatchID it = dm_MatchID it0"
  shows "\<not> receipted c (receipt_channel ch) it0 d"
proof -
  from assms(1) have "items = map (\<lambda>(r, o'). digest_card True r o') (take (nat (if n \<le> 0 \<or> n > 3 then 3 else n))
      (digest_rows c (\<lambda>r. \<not> notified (receipt_channel ch) d r) d))"
    by (auto simp: ListTopUnseenMatchesForDigest_def Let_def sql_wrap_Inr dest!: sql_query_InrD)
  with assms(2) obtain r o' where "it = digest_card True r o'" "(r, o') \<in> set (digest_rows c (\<lambda>r. \<not> notified (receipt_channel ch) d r) d)"
    by (auto dest!: in_set_takeD)
  with assms(3) show ?thesis by (auto simp: digest_rows_def digest_card_def notified_def receipted_def list_ex_iff)
qed

text \<open>
  A match whose notification receipt was recorded never appears in a later digest on that
  channel, whatever happens to the tables in between.
\<close>

theorem digest_never_repeats:
  assumes "InsertNotificationReceipts now c ch items (d, fs) = (Inr u, (d1, fs1))"
    and "list_all (\<lambda>it. TrimSpace (dm_MatchID it) \<noteq> [] \<and> TrimSpace (dm_OpportunityID it) \<noteq> []) items"
    and "match_step\<^sup>*\<^sup>* d1 d2"
    and "ListTopUnseenMatchesForDigest c ch n (d2, fs2) = (Inr items', z)"
  shows "set (map dm_MatchID items) \<inter> set (map dm_MatchID items') = {}"
proof -
  have "receipted c (receipt_channel ch) it d2" if "it \<in> set items" for it
  proof -
    have "receipted c (receipt_channel ch) it d1"
      using InsertNotificationReceipts_receipted[OF assms(1) that] assms(2) that by (simp add: list_all_iff)
    with match_run_ok[OF assms(3)] show ?thesis by (auto simp: match_ok_def intro: receipted_grow)
  qed
  with unseen_not_receipted[OF assms(4)] show ?thesis by force
qed


section \<open>Concrete runs\<close>

definition sample_opportunity :: "string \<Rightarrow> OpportunityRecord" where
  "sample_opportunity i =
     \<lparr>o_CanonicalID = i, o_Slug = i, o_Kind = ''job'', o_SourceID = None, o_Title = ''Nurse'', o_Description = None, o_HowToApply = None,
      o_IssuingEntity = Some ''Clinic'', o_Country = Some ''KE'', o_Region = None, o_City = None, o_Remote = False, o_ApplyURL = ''u'',
      o_PostedAt = None, o_Deadline = None, o_Currency = None, o_AmountMin = None, o_AmountMax = None, o_EmploymentType = None,
      o_Seniority = None, o_GeoScope = None, o_Status = ''active'', o_FirstSeenAt = 5, o_LastSeenAt = 5, o_Attributes = JNull,
      o_QualityScore = None, o_Hidden = False, o_HiddenReason = None, o_CreatedAt = 5, o_UpdatedAt = 5, o_Embedding = Some ''v''\<rparr>"

definition sample_index :: CandidateMatchIndexRecord where
  "sample_index = \<lparr>ci_CandidateID = ''ann'', ci_Embedding = ''v'', ci_MinScore = 0, ci_DailyCap = 0, ci_WeeklyCap = 1, ci_Kinds = [''job''],
     ci_Countries = [], ci_SalaryFloorUSD = None, ci_RemoteOnly = False, ci_RerankText = [], ci_Enabled = True, ci_UpdatedAt = 1\<rparr>"

definition sample_new_match :: Match where
  "sample_new_match = \<lparr>m_MatchID = ''m1'', m_CandidateID = ''ann'', m_OpportunityID = ''o1'', m_ApplyURL = [], m_Status = [], m_Score = 1,
     m_RerankScore = None, m_RerankerUsed = False, m_ViewedAt = None, m_AppliedAt = None, m_DismissedAt = None, m_LastEventID = ''r0'',
     m_Metadata = Map.empty, m_CreatedAt = 0, m_UpdatedAt = 0\<rparr>"

definition sample_matchdb :: matchdb where
  "sample_matchdb = \<lparr>candidate_matches = [match_row 10 sample_new_match], candidate_match_events = [], match_run_events = [],
     candidate_match_indexes = [sample_index], match_rules = [], match_notification_receipts = [], engagement_events = [],
     match_opportunities = [sample_opportunity ''o1'', sample_opportunity ''o2'']\<rparr>"

definition sample_env :: path_env where
  "sample_env = \<lparr>pe_ID = (\<lambda>n. replicate (n + 3) (CHR ''x'')), pe_Start = 20, pe_ScoreNow = (\<lambda>_. 21), pe_DailyNow = (\<lambda>_. 22), pe_WeekNow = (\<lambda>_. 23),
     pe_WriteNow = 24, pe_EventNow = (\<lambda>_. 25), pe_AuditNow = 26, pe_Finished = 27, pe_Latency = 1\<rparr>"

definition sample_gap :: GapFillInput where
  "sample_gap = \<lparr>gi_CandidateID = ''ann'', gi_Embedding = ''v'', gi_Skills = [], gi_Countries = [], gi_Kinds = [''job''], gi_SalaryFloorUSD = None,
     gi_Since = 1, gi_MinScore = 0, gi_DailyCap = 0, gi_WeeklyCap = 1, gi_QueryText = [], gi_TriggeredBy = [], gi_SemanticRecall = 0,
     gi_MaxDistance = 0, gi_HardCountries = False, gi_SoftKinds = False\<rparr>"

definition sample_gap_deps :: GapFillDeps where
  "sample_gap_deps = \<lparr>gd_cosdist = (\<lambda>_ _. 0), gd_describe = (\<lambda>_. []), gd_Reranker = NoopReranker, gd_Weights = DefaultWeights,
     gd_DailyCap = True, gd_WeekCount = True\<rparr>"

definition sample_fan_out :: FanOutInput where
  "sample_fan_out = \<lparr>fi_CanonicalID = ''o2'', fi_OpportunityID = ''o2'', fi_Kind = ''job'', fi_Country = [], fi_SalaryMaxUSD = None,
     fi_Embedding = ''v'', fi_FirstSeenAt = 5, fi_Skills = [], fi_QueryText = []\<rparr>"

definition sample_fan_out_deps :: FanOutDeps where
  "sample_fan_out_deps = \<lparr>fd_cosdist = (\<lambda>_ _. 0), fd_Reranker = NoopReranker, fd_Weights = DefaultWeights, fd_DailyCap = True,
     fd_WeekCount = True, fd_EnforceWeeklyCap = True\<rparr>"

definition sample_invoke :: InvokeInput where
  "sample_invoke = \<lparr>ii_CandidateID = ''ann'', ii_Embedding = ''v'', ii_Skills = [], ii_Countries = [], ii_Kinds = [''job''], ii_SalaryFloorUSD = None,
     ii_Since = 1, ii_MinScore = 0, ii_QueryText = [], ii_Reason = [], ii_InvokeLimit = 1, ii_SemanticRecall = 0, ii_MaxDistance = 0,
     ii_HardCountries = False\<rparr>"

lemma sample_week: "week_count 23 ''ann'' sample_matchdb = 1"
  by code_simp

lemma sample_match_inv: "match_inv sample_matchdb"
  by (simp add: match_inv_def sample_matchdb_def)

text \<open>The only match of Ann is dismissed.\<close>

theorem match_history_witness:
  "match_inv (tables_after (dismissMatch ''e'' 30 31 ''ann'' ''m1'') (sample_matchdb, [])) \<and>
   (\<exists>r' \<in> set (candidate_matches (tables_after (dismissMatch ''e'' 30 31 ''ann'' ''m1'') (sample_matchdb, []))).
     match_evolves (match_row 10 sample_new_match) r')"
  by (rule match_history[OF r_into_rtranclp[of match_step, OF match_step.dismiss] sample_match_inv])
    (simp add: sample_matchdb_def)

text \<open>Ann has one match this week and a weekly cap of one: neither path gives her another.\<close>

theorem gap_fill_weekly_cap_witness:
  "week_count 23 ''ann'' (tables_after (GapFill sample_env sample_gap sample_gap_deps) (sample_matchdb, [])) \<le> 1"
  using gap_fill_weekly_cap[of sample_gap sample_gap_deps sample_env sample_matchdb] sample_week
  by (simp add: sample_gap_def sample_gap_deps_def sample_env_def)

theorem fan_out_weekly_cap_witness:
  "week_count 23 ''ann'' (tables_after (FanOut sample_env sample_fan_out sample_fan_out_deps) (sample_matchdb, [])) \<le> 1"
  using fan_out_weekly_cap[where d = sample_matchdb and x = sample_index and deps = sample_fan_out_deps and env = sample_env
      and now = 23 and inp = sample_fan_out] sample_week
  by (simp add: sample_fan_out_deps_def sample_env_def sample_index_def sample_matchdb_def)

text \<open>A limit of one: the run that was recorded at 20 spends the budget of the day.\<close>

definition sample_spent :: matchdb where
  "sample_spent = tables_after (WriteMatchRunEvent 20 ((gap_run sample_env sample_gap)\<lparr>mr_TriggeredBy := InvokeUserRefresh\<rparr>)) (sample_matchdb, [])"

theorem invoke_budget_witness:
  "MatchInvoke sample_env 40 41 True sample_invoke sample_gap_deps (sample_spent, []) = (Inr rate_limited, (sample_spent, []))"
proof -
  have "invoke_count 41 ''ann'' sample_spent = 1" by code_simp
  moreover have "reasonConsumesBudget (invoke_reason sample_invoke)" by code_simp
  ultimately show ?thesis
    using invoke_budget[of sample_invoke 41 sample_env 40 sample_gap_deps sample_spent "[]"] by (simp add: sample_invoke_def)
qed

text \<open>Ann's match is in the digest before its receipt is recorded, and in none afterwards.\<close>

theorem digest_never_repeats_witness:
  "\<exists>items d1 items' z. ListTopUnseenMatchesForDigest ''ann'' ''email'' 3 (sample_matchdb, []) = (Inr items, (sample_matchdb, [])) \<and>
     map dm_MatchID items = [''m1''] \<and> InsertNotificationReceipts 50 ''ann'' ''email'' items (sample_matchdb, []) = (Inr (), (d1, [])) \<and>
     ListTopUnseenMatchesForDigest ''ann'' ''email'' 3 (d1, []) = (Inr items', z) \<and> ''m1'' \<notin> set (map dm_MatchID items')"
proof -
  define items where "items = [digest_card True (match_row 10 sample_new_match) (sample_opportunity ''o1'')]"
  define d1 where "d1 = tables_after (InsertNotificationReceipts 50 ''ann'' ''email'' items) (sample_matchdb, [])"
  have list: "ListTopUnseenMatchesForDigest ''ann'' ''email'' 3 (sample_matchdb, []) = (Inr items, (sample_matchdb, []))"
    by (simp add: ListTopUnseenMatchesForDigest_def sql_simps items_def digest_rows_def notified_def receipt_channel_def sample_matchdb_def
        sample_new_match_def match_row_def sample_opportunity_def MatchNew_def MatchOverflow_def MatchDismissed_def)
  have ins: "InsertNotificationReceipts 50 ''ann'' ''email'' items (sample_matchdb, []) = (Inr (), (d1, []))"
    by (simp add: d1_def tables_after_def InsertNotificationReceipts_def items_def digest_card_def sql_simps TrimSpace_def isSpace_def
        match_row_def sample_new_match_def)
  obtain items' z where later: "ListTopUnseenMatchesForDigest ''ann'' ''email'' 3 (d1, []) = (Inr items', z)"
    by (simp add: ListTopUnseenMatchesForDigest_def sql_simps)
  have "list_all (\<lambda>it. TrimSpace (dm_MatchID it) \<noteq> [] \<and> TrimSpace (dm_OpportunityID it) \<noteq> []) items"
    by (simp add: items_def digest_card_def match_row_def sample_new_match_def TrimSpace_def isSpace_def)
  from digest_never_repeats[OF ins this rtranclp.rtrancl_refl later] have "''m1'' \<notin> set (map dm_MatchID items')"
    by (simp add: items_def digest_card_def match_row_def sample_new_match_def)
  with list ins later show ?thesis
    by (intro exI[of _ items] exI[of _ d1] exI[of _ items'] exI[of _ z])
      (simp add: items_def digest_card_def match_row_def sample_new_match_def)
qed

end
