(* ===== verification/Candidates.thy ===== *)
theory Candidates
  imports Matching_Store Calendar_Slots
begin

text \<open>
  The job-seeker rows: \<open>pkg/domain/candidate.go\<close> and every operation of
  \<open>pkg/repository/candidate.go\<close>, among them the subscription state of a candidate.

  \<open>productdb\<close> joins the tables of the product database: the profiles, the checkout ledger of
  \<open>pkg/billing\<close> and the tables of the matching engine, which \<open>on_match\<close> lifts.  The other
  columns, among them the CV text and score, are kept in \<open>cp_Other\<close>.  Queries through the ORM skip rows with a deletion
  time and stamp \<open>updated_at\<close>; \<open>orm\<close> is what the ORM stores for a new struct (it replaces
  zero values by column defaults).  An \<open>UPDATE\<close> has no \<open>LIMIT\<close>: the ORM drops it.
\<close>

section \<open>Rows\<close>

definition CandidateUnverified :: string where "CandidateUnverified = ''unverified''"
definition CandidateActive :: string where "CandidateActive = ''active''"

definition SubscriptionFree :: string where "SubscriptionFree = ''free''"
definition SubscriptionTrial :: string where "SubscriptionTrial = ''trial''"
definition SubscriptionPaid :: string where "SubscriptionPaid = ''paid''"
definition SubscriptionCancelled :: string where "SubscriptionCancelled = ''cancelled''"
definition SubscriptionPastDue :: string where "SubscriptionPastDue = ''past_due''"

lemmas subscription_defs = SubscriptionFree_def SubscriptionTrial_def SubscriptionPaid_def SubscriptionCancelled_def SubscriptionPastDue_def

lemma subscription_distinct [simp]:
  "SubscriptionFree \<noteq> SubscriptionPaid" "SubscriptionPaid \<noteq> SubscriptionFree" "SubscriptionCancelled \<noteq> SubscriptionPaid"
  "SubscriptionPaid \<noteq> SubscriptionCancelled" "SubscriptionPastDue \<noteq> SubscriptionPaid" "SubscriptionPaid \<noteq> SubscriptionPastDue"
  "SubscriptionFree \<noteq> SubscriptionCancelled" "SubscriptionCancelled \<noteq> SubscriptionFree"
  "SubscriptionPastDue \<noteq> SubscriptionFree" "SubscriptionFree \<noteq> SubscriptionPastDue"
  "SubscriptionPastDue \<noteq> SubscriptionCancelled" "SubscriptionCancelled \<noteq> SubscriptionPastDue"
  by (simp_all add: subscription_defs)

record CandidateProfile =
  cp_ID :: string
  cp_ProfileID :: string
  cp_Status :: string
  cp_Subscription :: string
  cp_AutoApply :: bool
  cp_PreferredCountries :: string
  cp_TargetJobTitle :: string
  cp_SubscriptionID :: string
  cp_PlanID :: string
  cp_CurrentPeriodEnd :: "time option"
  cp_CancelAtPeriodEnd :: bool
  cp_Languages :: string
  cp_CommEmail :: bool
  cp_EmailDigest :: string
  cp_MatchAlerts :: bool
  cp_WeeklySummary :: bool
  cp_MarketingEmails :: bool
  cp_LastDigestAt :: "time option"
  cp_MatchesSent :: int
  cp_LastContactedAt :: "time option"
  cp_OnboardingDraft :: string
  cp_Other :: gomap
  cp_CreatedAt :: time
  cp_UpdatedAt :: time
  cp_DeletedAt :: "time option"

record CheckoutRecord =
  co_PromptID :: string
  co_CandidateID :: string
  co_PlanID :: string
  co_Route :: string
  co_Status :: string
  co_SubscriptionID :: string
  co_AmountCents :: int
  co_Currency :: string
  co_Country :: string
  co_RedirectURL :: string
  co_Error :: string
  co_CreatedAt :: time
  co_UpdatedAt :: time

record productdb =
  candidate_profiles :: "CandidateProfile list"
  candidate_checkouts :: "CheckoutRecord list"
  pd_match :: matchdb

definition on_match :: "(matchdb, 'a) sql \<Rightarrow> (productdb, 'a) sql" where
  "on_match m = (\<lambda>(s, fs). case m (pd_match s, fs) of (x, (d, fs')) \<Rightarrow> (x, (s\<lparr>pd_match := d\<rparr>, fs')))"

section \<open>The ORM\<close>

definition live :: "CandidateProfile \<Rightarrow> bool" where
  "live c \<longleftrightarrow> cp_DeletedAt c = None"

definition gorm_limit :: "int \<Rightarrow> 'a list \<Rightarrow> 'a list" where
  "gorm_limit n xs = (if n < 0 then xs else take (nat n) xs)"

text \<open>\<open>Find\<close> with an order and a limit, \<open>First\<close>, which orders by primary key, and \<open>Updates\<close> with the rows it affected.\<close>

definition gorm_find :: "(CandidateProfile \<Rightarrow> bool) \<Rightarrow> (CandidateProfile \<Rightarrow> 'k::linorder) \<Rightarrow> int \<Rightarrow> (productdb, CandidateProfile list) sql" where
  "gorm_find P ord limit = sql_query (\<lambda>d. gorm_limit limit (sort_key ord (filter (\<lambda>c. live c \<and> P c) (candidate_profiles d))))"

definition gorm_first :: "(CandidateProfile \<Rightarrow> bool) \<Rightarrow> (productdb, CandidateProfile option) sql" where
  "gorm_first P = sql_query (\<lambda>d. case sort_key cp_ID (filter (\<lambda>c. live c \<and> P c) (candidate_profiles d)) of [] \<Rightarrow> None | c # _ \<Rightarrow> Some c)"

definition set_profiles :: "(CandidateProfile \<Rightarrow> bool) \<Rightarrow> (CandidateProfile \<Rightarrow> CandidateProfile) \<Rightarrow> productdb \<Rightarrow> productdb" where
  "set_profiles P f d = d\<lparr>candidate_profiles := update_where P f (candidate_profiles d)\<rparr>"

definition gorm_updates :: "time \<Rightarrow> (CandidateProfile \<Rightarrow> bool) \<Rightarrow> (CandidateProfile \<Rightarrow> CandidateProfile) \<Rightarrow> (productdb, int) sql" where
  "gorm_updates now P f = sql_stmt (\<lambda>d.
     (Inr (int (length (filter (\<lambda>c. live c \<and> P c) (candidate_profiles d)))),
      set_profiles (\<lambda>c. live c \<and> P c) (\<lambda>c. (f c)\<lparr>cp_UpdatedAt := now\<rparr>) d))"

section \<open>Lookup and creation\<close>

definition BeforeCreate :: "string \<Rightarrow> CandidateProfile \<Rightarrow> CandidateProfile" where
  "BeforeCreate newID c = (if cp_ID c = [] then c\<lparr>cp_ID := newID\<rparr> else c)"

definition Candidates_Create ::
  "(CandidateProfile \<Rightarrow> CandidateProfile) \<Rightarrow> string \<Rightarrow> CandidateProfile \<Rightarrow> (productdb, CandidateProfile) sql"
where
  "Candidates_Create orm newID c = sql_stmt (\<lambda>d.
     let row = orm (BeforeCreate newID c)
     in if cp_ID row \<in> cp_ID ` set (candidate_profiles d) then (Inl (ErrConstraint ''candidate_profiles_pkey''), d)
        else (Inr row, d\<lparr>candidate_profiles := candidate_profiles d @ [row]\<rparr>))"

definition GetByID :: "string \<Rightarrow> (productdb, CandidateProfile option) sql" where
  "GetByID i = gorm_first (\<lambda>c. cp_ID c = i)"

definition GetByProfileID :: "string \<Rightarrow> (productdb, CandidateProfile option) sql" where
  "GetByProfileID profileID = gorm_first (\<lambda>c. cp_ProfileID c = profileID)"

definition ResolveByProfileID :: "time \<Rightarrow> string \<Rightarrow> (productdb, CandidateProfile option) sql" where
  "ResolveByProfileID now profileID =
     (if profileID = [] then sql_return None
      else sql_bind (GetByProfileID profileID) (\<lambda>c.
        case c of Some x \<Rightarrow> sql_return (Some x)
        | None \<Rightarrow> sql_bind (GetByID profileID) (\<lambda>c'.
            case c' of None \<Rightarrow> sql_return None
            | Some x \<Rightarrow>
                if TrimSpace (cp_ProfileID x) = []
                then sql_bind (sql_try (gorm_updates now (\<lambda>c. cp_ID c = cp_ID x) (\<lambda>c. c\<lparr>cp_ProfileID := profileID\<rparr>))) (\<lambda>_.
                     sql_return (Some (x\<lparr>cp_ProfileID := profileID\<rparr>)))
                else sql_return (Some x))))"

definition new_profile :: "string \<Rightarrow> CandidateProfile" where
  "new_profile profileID =
     \<lparr>cp_ID = [], cp_ProfileID = profileID, cp_Status = [], cp_Subscription = [], cp_AutoApply = False, cp_PreferredCountries = [],
      cp_TargetJobTitle = [], cp_SubscriptionID = [], cp_PlanID = [], cp_CurrentPeriodEnd = None, cp_CancelAtPeriodEnd = False,
      cp_Languages = [], cp_CommEmail = False, cp_EmailDigest = [], cp_MatchAlerts = False, cp_WeeklySummary = False,
      cp_MarketingEmails = False, cp_LastDigestAt = None, cp_MatchesSent = 0, cp_LastContactedAt = None, cp_OnboardingDraft = [],
      cp_Other = Map.empty, cp_CreatedAt = 0, cp_UpdatedAt = 0, cp_DeletedAt = None\<rparr>"

definition EnsureByProfileID ::
  "(CandidateProfile \<Rightarrow> CandidateProfile) \<Rightarrow> string \<Rightarrow> time \<Rightarrow> string \<Rightarrow> (productdb, CandidateProfile) sql"
where
  "EnsureByProfileID orm newID now profileID =
     (if profileID = [] then sql_raise (ErrNew ''repository: profile_id required'')
      else sql_bind (ResolveByProfileID now profileID) (\<lambda>c.
        case c of Some x \<Rightarrow> sql_return x
        | None \<Rightarrow> sql_bind (sql_try (Candidates_Create orm newID (new_profile profileID))) (\<lambda>r.
            case r of
              Inr x \<Rightarrow> sql_return x
            | Inl e \<Rightarrow> sql_bind (sql_try (ResolveByProfileID now profileID)) (\<lambda>r2.
                case r2 of
                  Inr (Some x) \<Rightarrow> sql_return x
                | _ \<Rightarrow> sql_raise (ErrWrap (''repository: create job seeker for profile '' @ profileID) e)))))"

text \<open>\<open>Save\<close> writes every column of the row with the key, or inserts it.\<close>

definition Candidates_Update :: "time \<Rightarrow> CandidateProfile \<Rightarrow> (productdb, unit) sql" where
  "Candidates_Update now c = sql_exec (\<lambda>d.
     if cp_ID c \<in> cp_ID ` set (candidate_profiles d)
     then set_profiles (\<lambda>r. cp_ID r = cp_ID c) (\<lambda>_. c\<lparr>cp_UpdatedAt := now\<rparr>) d
     else d\<lparr>candidate_profiles := candidate_profiles d @ [c\<lparr>cp_UpdatedAt := now\<rparr>]\<rparr>)"

definition void :: "(productdb, 'a) sql \<Rightarrow> (productdb, unit) sql" where
  "void m = sql_bind m (\<lambda>_. sql_return ())"

definition Candidates_UpdateStatus :: "time \<Rightarrow> string \<Rightarrow> string \<Rightarrow> (productdb, unit) sql" where
  "Candidates_UpdateStatus now i status = void (gorm_updates now (\<lambda>c. cp_ID c = i) (\<lambda>c. c\<lparr>cp_Status := status\<rparr>))"

definition IncrementMatchesSent :: "time \<Rightarrow> string \<Rightarrow> (productdb, unit) sql" where
  "IncrementMatchesSent now i = void (gorm_updates now (\<lambda>c. cp_ID c = i)
     (\<lambda>c. c\<lparr>cp_MatchesSent := cp_MatchesSent c + 1, cp_LastContactedAt := Some now\<rparr>))"

definition UpdateNotificationPrefs :: "time \<Rightarrow> string \<Rightarrow> string \<Rightarrow> bool \<Rightarrow> bool \<Rightarrow> bool \<Rightarrow> (productdb, unit) sql" where
  "UpdateNotificationPrefs now candidateID emailDigest matchAlerts weeklySummary marketingEmails =
     void (gorm_updates now (\<lambda>c. cp_ID c = candidateID)
       (\<lambda>c. c\<lparr>cp_EmailDigest := emailDigest, cp_MatchAlerts := matchAlerts, cp_WeeklySummary := weeklySummary,
               cp_MarketingEmails := marketingEmails\<rparr>))"

definition TouchLastDigestAt :: "time \<Rightarrow> string \<Rightarrow> time \<Rightarrow> (productdb, unit) sql" where
  "TouchLastDigestAt now candidateID stamp = void (gorm_updates now (\<lambda>c. cp_ID c = candidateID) (\<lambda>c. c\<lparr>cp_LastDigestAt := Some stamp\<rparr>))"

section \<open>Listings\<close>

definition Candidates_ListActive :: "int \<Rightarrow> (productdb, CandidateProfile list) sql" where
  "Candidates_ListActive limit = gorm_find (\<lambda>c. cp_Status c = CandidateActive) cp_ID limit"

definition ListPaidActive :: "int \<Rightarrow> (productdb, CandidateProfile list) sql" where
  "ListPaidActive limit =
     gorm_find (\<lambda>c. cp_Status c = CandidateActive \<and> cp_Subscription c \<in> {SubscriptionPaid, SubscriptionPastDue, SubscriptionTrial}) cp_ID
       (if limit \<le> 0 then 5000 else limit)"

definition Candidates_ListAll :: "int \<Rightarrow> int \<Rightarrow> (productdb, CandidateProfile list) sql" where
  "Candidates_ListAll limit offset = sql_query (\<lambda>d.
     gorm_limit limit (drop (nat offset) (sort_key cp_ID (filter live (candidate_profiles d)))))"

definition Candidates_Count :: "(productdb, int) sql" where
  "Candidates_Count = sql_query (\<lambda>d. int (length (filter live (candidate_profiles d))))"

definition ListPendingSubscriptions :: "int \<Rightarrow> (productdb, CandidateProfile list) sql" where
  "ListPendingSubscriptions limit = gorm_find (\<lambda>c. cp_SubscriptionID c \<noteq> [] \<and> cp_Subscription c \<noteq> SubscriptionPaid) cp_ID limit"

definition ListUnpaidWithProfile :: "int \<Rightarrow> (productdb, CandidateProfile list) sql" where
  "ListUnpaidWithProfile limit =
     gorm_find (\<lambda>c. cp_Status c \<noteq> CandidateUnverified \<and>
       (cp_Subscription c \<in> {SubscriptionFree, SubscriptionTrial, SubscriptionCancelled} \<or> cp_SubscriptionID c = [])) cp_ID limit"

definition ListInactiveSince :: "time \<Rightarrow> int \<Rightarrow> (productdb, CandidateProfile list) sql" where
  "ListInactiveSince cutoff limit = gorm_find (\<lambda>c. cp_Status c = CandidateActive \<and> cp_UpdatedAt c < cutoff) cp_UpdatedAt limit"

section \<open>Subscriptions\<close>

text \<open>
  \<open>AddDate(0, 1, 0)\<close> in UTC: the same day of the next month, where the days it lacks run on into
  the month after; that is later by the length of the current month.
\<close>

definition daysIn :: "int \<Rightarrow> int \<Rightarrow> int" where
  "daysIn y mo = (if mo = 2 then if y mod 4 = 0 \<and> (y mod 100 \<noteq> 0 \<or> y mod 400 = 0) then 29 else 28
     else if mo \<in> {4, 6, 9, 11} then 30 else 31)"

definition AddMonth :: "time \<Rightarrow> time" where
  "AddMonth t = (case civil (t div Day) of (y, mo, _) \<Rightarrow> t + daysIn y mo * Day)"

definition planCaps :: "string \<Rightarrow> int \<times> int" where
  "planCaps planID = (if planID \<in> {''managed'', ''pro''} then (50, 0) else (2, 5))"

definition sync_caps :: "time \<Rightarrow> string \<Rightarrow> int \<times> int \<Rightarrow> (productdb, unit) sql" where
  "sync_caps now candidateID caps = on_match (sql_exec (\<lambda>d. d\<lparr>candidate_match_indexes := update_where (\<lambda>i. ci_CandidateID i = candidateID)
     (\<lambda>i. i\<lparr>ci_DailyCap := fst caps, ci_WeeklyCap := snd caps, ci_UpdatedAt := now\<rparr>) (candidate_match_indexes d)\<rparr>))"

definition activated :: "time \<Rightarrow> string \<Rightarrow> string \<Rightarrow> CandidateProfile \<Rightarrow> CandidateProfile" where
  "activated now subID planID c =
     c\<lparr>cp_Subscription := SubscriptionPaid, cp_SubscriptionID := subID, cp_CurrentPeriodEnd := Some (AddMonth now),
       cp_CancelAtPeriodEnd := False, cp_PlanID := (if planID \<noteq> [] then planID else cp_PlanID c), cp_AutoApply := False\<rparr>"

definition needs_activation :: "string \<Rightarrow> string \<Rightarrow> CandidateProfile \<Rightarrow> bool" where
  "needs_activation candidateID subID c \<longleftrightarrow> (cp_ID c = candidateID \<or> cp_ProfileID c = candidateID) \<and>
     \<not> (cp_Subscription c = SubscriptionPaid \<and> cp_SubscriptionID c = subID \<and> cp_CancelAtPeriodEnd c = False)"

definition ActivateSubscription :: "time \<Rightarrow> string \<Rightarrow> string \<Rightarrow> string \<Rightarrow> (productdb, bool) sql" where
  "ActivateSubscription now candidateID subID planID =
     sql_bind (gorm_updates now (needs_activation candidateID subID) (activated now subID planID)) (\<lambda>n.
     sql_bind (sql_try (sync_caps now candidateID (planCaps planID))) (\<lambda>_.
     sql_return (n > 0)))"

text \<open>A missing row is dereferenced: the panic is the error \<open>nil pointer dereference\<close>.\<close>

definition cancel_end :: "time \<Rightarrow> CandidateProfile \<Rightarrow> time" where
  "cancel_end now c = (case cp_CurrentPeriodEnd c of None \<Rightarrow> AddMonth now | Some e \<Rightarrow> if e > now then e else AddMonth now)"

definition ScheduleCancelAtPeriodEnd :: "time \<Rightarrow> string \<Rightarrow> (productdb, time) sql" where
  "ScheduleCancelAtPeriodEnd now candidateID =
     sql_bind (GetByID candidateID) (\<lambda>cand.
     case cand of None \<Rightarrow> sql_raise (ErrNew ''nil pointer dereference'')
     | Some c \<Rightarrow>
         if cp_Subscription c \<noteq> SubscriptionPaid then sql_raise (ErrNew ''no active paid subscription'')
         else sql_bind (gorm_updates now (\<lambda>r. cp_ID r = candidateID)
                (\<lambda>r. r\<lparr>cp_CancelAtPeriodEnd := True, cp_CurrentPeriodEnd := Some (cancel_end now c)\<rparr>)) (\<lambda>_.
              sql_return (cancel_end now c)))"

definition changed_plan :: "string \<Rightarrow> bool \<Rightarrow> CandidateProfile \<Rightarrow> CandidateProfile" where
  "changed_plan newPlanID immediate c =
     (let c1 = c\<lparr>cp_PlanID := newPlanID\<rparr>
      in if immediate then c1\<lparr>cp_CancelAtPeriodEnd := False, cp_AutoApply := (newPlanID \<in> {''managed'', ''pro''})\<rparr> else c1)"

definition ChangePlan :: "time \<Rightarrow> string \<Rightarrow> string \<Rightarrow> bool \<Rightarrow> (productdb, unit) sql" where
  "ChangePlan now candidateID newPlanID immediate =
     sql_bind (gorm_updates now (\<lambda>c. cp_ID c = candidateID \<and> cp_Subscription c = SubscriptionPaid) (changed_plan newPlanID immediate)) (\<lambda>n.
     if n = 0 then sql_raise (ErrNew ''no active paid subscription'')
     else if immediate then void (sql_try (sync_caps now candidateID (planCaps newPlanID)))
     else sql_return ())"

definition period_over :: "time \<Rightarrow> CandidateProfile \<Rightarrow> bool" where
  "period_over now c \<longleftrightarrow> (case cp_CurrentPeriodEnd c of None \<Rightarrow> False | Some e \<Rightarrow> e < now)"

definition expired_access :: "time \<Rightarrow> CandidateProfile \<Rightarrow> bool" where
  "expired_access now c \<longleftrightarrow> cp_Subscription c \<in> {SubscriptionPaid, SubscriptionPastDue} \<and> \<not> cp_CancelAtPeriodEnd c \<and> period_over now c"

definition demoted :: "CandidateProfile \<Rightarrow> CandidateProfile" where
  "demoted c = c\<lparr>cp_Subscription := SubscriptionFree, cp_PlanID := [], cp_CancelAtPeriodEnd := False, cp_AutoApply := False\<rparr>"

definition FinalizeExpiredPaidAccess :: "time \<Rightarrow> int \<Rightarrow> (productdb, int) sql" where
  "FinalizeExpiredPaidAccess now limit0 =
     (let limit = (if limit0 \<le> 0 then 100 else limit0) in
      sql_bind (sql_query (\<lambda>d. map cp_ID (gorm_limit limit (filter (\<lambda>c. live c \<and> expired_access now c) (candidate_profiles d))))) (\<lambda>ids.
      if ids = [] then sql_return 0
      else sql_bind (gorm_updates now (\<lambda>c. cp_ID c \<in> set ids) demoted) (\<lambda>n.
           sql_bind (sql_try (on_match (sql_exec (\<lambda>d. d\<lparr>candidate_match_indexes := update_where (\<lambda>i. ci_CandidateID i \<in> set ids)
             (\<lambda>i. i\<lparr>ci_DailyCap := 1, ci_WeeklyCap := 3, ci_UpdatedAt := now\<rparr>) (candidate_match_indexes d)\<rparr>)))) (\<lambda>_.
           sql_return n))))"

definition expired_cancel :: "time \<Rightarrow> CandidateProfile \<Rightarrow> bool" where
  "expired_cancel now c \<longleftrightarrow> cp_Subscription c = SubscriptionPaid \<and> cp_CancelAtPeriodEnd c \<and> period_over now c"

definition cancelled :: "CandidateProfile \<Rightarrow> CandidateProfile" where
  "cancelled c = c\<lparr>cp_Subscription := SubscriptionCancelled, cp_CancelAtPeriodEnd := False, cp_AutoApply := False\<rparr>"

text \<open>\<open>nowB\<close> is the clock reading of the second sweep.\<close>

definition FinalizeExpiredCancellations :: "time \<Rightarrow> time \<Rightarrow> int \<Rightarrow> (productdb, int) sql" where
  "FinalizeExpiredCancellations now nowB limit0 =
     (let limit = (if limit0 \<le> 0 then 100 else limit0) in
      sql_bind (gorm_updates now (expired_cancel now) cancelled) (\<lambda>n.
      sql_bind (FinalizeExpiredPaidAccess nowB limit) (\<lambda>n2. sql_return (n + n2))))"

definition MarkPastDue :: "time \<Rightarrow> string \<Rightarrow> string \<Rightarrow> (productdb, unit) sql" where
  "MarkPastDue now candidateID subID = void (gorm_updates now (\<lambda>c. cp_ID c = candidateID)
     (\<lambda>c. c\<lparr>cp_Subscription := SubscriptionPastDue, cp_SubscriptionID := (if subID \<noteq> [] then subID else cp_SubscriptionID c)\<rparr>))"

definition ExtendPaidPeriod :: "time \<Rightarrow> string \<Rightarrow> string \<Rightarrow> string \<Rightarrow> time option \<Rightarrow> (productdb, unit) sql" where
  "ExtendPaidPeriod now candidateID subID planID periodEnd = void (gorm_updates now (\<lambda>c. cp_ID c = candidateID)
     (\<lambda>c. c\<lparr>cp_Subscription := SubscriptionPaid, cp_CancelAtPeriodEnd := False,
             cp_SubscriptionID := (if subID \<noteq> [] then subID else cp_SubscriptionID c),
             cp_PlanID := (if planID \<noteq> [] then planID else cp_PlanID c),
             cp_CurrentPeriodEnd := Some (case periodEnd of Some e \<Rightarrow> e | None \<Rightarrow> AddMonth now)\<rparr>))"

section \<open>Onboarding drafts\<close>

definition empty_draft :: string where "empty_draft = ''{}''"

definition GetOnboardingDraft :: "string \<Rightarrow> (productdb, string) sql" where
  "GetOnboardingDraft i = sql_query (\<lambda>d.
     case List.find (\<lambda>c. cp_ID c = i \<or> cp_ProfileID c = i) (candidate_profiles d) of
       None \<Rightarrow> empty_draft | Some c \<Rightarrow> if cp_OnboardingDraft c = [] then empty_draft else cp_OnboardingDraft c)"

definition SetOnboardingDraft ::
  "(CandidateProfile \<Rightarrow> CandidateProfile) \<Rightarrow> string \<Rightarrow> time \<Rightarrow> string \<Rightarrow> string \<Rightarrow> (productdb, unit) sql"
where
  "SetOnboardingDraft orm newID now i draft =
     sql_bind (sql_try (EnsureByProfileID orm newID now i)) (\<lambda>r.
     sql_bind (case r of
         Inr c \<Rightarrow> sql_return c
       | Inl e \<Rightarrow> sql_bind (sql_try (GetByID i)) (\<lambda>r2. case r2 of Inr (Some c) \<Rightarrow> sql_return c | _ \<Rightarrow> sql_raise e)) (\<lambda>cand.
     sql_exec (set_profiles (\<lambda>c. cp_ID c = cp_ID cand) (\<lambda>c. c\<lparr>cp_OnboardingDraft := draft, cp_UpdatedAt := now\<rparr>))))"

definition ClearOnboardingDraft :: "time \<Rightarrow> string \<Rightarrow> (productdb, unit) sql" where
  "ClearOnboardingDraft now i = sql_exec (set_profiles (\<lambda>c. cp_ID c = i \<or> cp_ProfileID c = i)
     (\<lambda>c. c\<lparr>cp_OnboardingDraft := empty_draft, cp_UpdatedAt := now\<rparr>))"

section \<open>A month\<close>

lemma daysIn_bounds: "28 \<le> daysIn y mo \<and> daysIn y mo \<le> 31"
  by (simp add: daysIn_def)

lemma AddMonth_bounds: "t + 28 * Day \<le> AddMonth t \<and> AddMonth t \<le> t + 31 * Day"
proof -
  have "0 < Day" by (simp add: Day_def Hour_def Minute_def Second_def)
  then show ?thesis
    using daysIn_bounds by (auto simp: AddMonth_def mult_right_mono split: prod.splits)
qed

lemma AddMonth_later: "t < AddMonth t"
  using AddMonth_bounds[of t] by (simp add: Day_def Hour_def Minute_def Second_def)

end
