(* ===== verification/Billing.thy ===== *)
theory Billing
  imports Candidates
begin

text \<open>
  Payments and subscriptions: the plan catalog, the checkout ledger, the activator, the
  reconciler and the lifecycle consumer of \<open>pkg/billing\<close>, and the billing handlers of
  \<open>apps/matching/service/http/v1\<close>.

  The payment provider is a parameter: \<open>create\<close> starts a checkout and \<open>poll\<close> asks for its status
  (the \<open>k\<close>-th call of a sweep has its own answer); \<open>oneTime\<close> is the fulfilment of one-time
  products and \<open>hmac_hex\<close> the HMAC-SHA256 of a body in hexadecimal.  Handlers run behind the router
  and the authentication, with every dependency wired; a request body is read and decoded
  before it reaches the model.
\<close>

section \<open>Catalog\<close>

definition PlanStarter :: string where "PlanStarter = ''starter''"
definition PlanPro :: string where "PlanPro = ''pro''"
definition PlanManaged :: string where "PlanManaged = ''managed''"
definition ProductATSReport :: string where "ProductATSReport = ''ats_report''"

record Plan =
  p_ID :: string
  p_Name :: string
  p_Description :: string
  p_Interval :: string
  p_Amount :: int
  p_Currency :: string
  p_USDCents :: int

text \<open>The dash of the source is not ASCII.\<close>

definition catalog :: "Plan list" where
  "catalog =
     [\<lparr>p_ID = PlanStarter, p_Name = ''Starter'',
       p_Description = ''AI-matched jobs and digests - review and apply yourself from the dashboard.'',
       p_Interval = ''month'', p_Amount = 10, p_Currency = ''USD'', p_USDCents = 1000\<rparr>,
      \<lparr>p_ID = PlanManaged, p_Name = ''Managed'',
       p_Description = ''Priority AI-matched jobs and digests - higher invoke allowance and agent-priority alerts.'',
       p_Interval = ''month'', p_Amount = 200, p_Currency = ''USD'', p_USDCents = 20000\<rparr>]"

definition oneTimeProducts :: "Plan list" where
  "oneTimeProducts =
     [\<lparr>p_ID = ProductATSReport, p_Name = ''CV ATS Report'',
       p_Description = ''Comprehensive ATS score against your matched jobs - emailed as an attachment.'',
       p_Interval = ''once'', p_Amount = 2, p_Currency = ''USD'', p_USDCents = 200\<rparr>]"

definition IsOneTimeProduct :: "string \<Rightarrow> bool" where
  "IsOneTimeProduct i \<longleftrightarrow> list_ex (\<lambda>p. p_ID p = i) oneTimeProducts"

definition PlanByID :: "string \<Rightarrow> Plan option" where
  "PlanByID i = List.find (\<lambda>p. p_ID p = i) catalog"

definition ProductByID :: "string \<Rightarrow> Plan option" where
  "ProductByID i = (case PlanByID i of Some p \<Rightarrow> Some p | None \<Rightarrow> List.find (\<lambda>p. p_ID p = i) oneTimeProducts)"

definition ATSReportProduct :: Plan where "ATSReportProduct = hd oneTimeProducts"

definition NormalizePlan :: "string \<Rightarrow> string option" where
  "NormalizePlan raw = (let i = TrimSpace (ToLower raw)
     in if i = PlanPro then Some PlanManaged else if PlanByID i \<noteq> None then Some i else None)"

record Entitlements =
  en_DailyCap :: int
  en_WeeklyCap :: int
  en_InvokeDailyLimit :: int
  en_AutoApply :: bool
  en_Priority :: string

definition EntitlementsFor :: "string \<Rightarrow> Entitlements" where
  "EntitlementsFor plan =
     (if plan \<in> {PlanManaged, PlanPro}
      then \<lparr>en_DailyCap = 0, en_WeeklyCap = 0, en_InvokeDailyLimit = 100, en_AutoApply = False, en_Priority = ''agent''\<rparr>
      else if plan = PlanStarter
      then \<lparr>en_DailyCap = 0, en_WeeklyCap = 0, en_InvokeDailyLimit = 30, en_AutoApply = False, en_Priority = ''standard''\<rparr>
      else \<lparr>en_DailyCap = 0, en_WeeklyCap = 0, en_InvokeDailyLimit = 1, en_AutoApply = False, en_Priority = ''proof''\<rparr>)"

definition EntitlementsForProfile :: "string \<Rightarrow> string \<Rightarrow> Entitlements" where
  "EntitlementsForProfile subscription planID =
     (if ToLower (TrimSpace subscription) \<in> {''paid'', ''past_due'', ''trial''}
      then if TrimSpace planID = [] then EntitlementsFor PlanStarter else EntitlementsFor planID
      else EntitlementsFor [])"

section \<open>Ledger\<close>

definition StatusRedirect :: string where "StatusRedirect = ''redirect''"
definition StatusPending :: string where "StatusPending = ''pending''"
definition StatusPaid :: string where "StatusPaid = ''paid''"
definition StatusFailed :: string where "StatusFailed = ''failed''"

lemma bill_status_distinct [simp]:
  "StatusPaid \<noteq> StatusFailed" "StatusFailed \<noteq> StatusPaid" "StatusPaid \<noteq> StatusPending" "StatusPending \<noteq> StatusPaid"
  "StatusFailed \<noteq> StatusPending" "StatusPending \<noteq> StatusFailed"
  by (simp_all add: StatusPaid_def StatusFailed_def StatusPending_def)

definition RouteFlutterwave :: string where "RouteFlutterwave = ''FLUTTERWAVE''"

definition ErrCheckoutNotFound :: go_error where "ErrCheckoutNotFound = ErrNew ''billing: checkout not found''"
definition ErrGatewayUnavailable :: go_error where "ErrGatewayUnavailable = ErrNew ''billing: payment gateway not configured''"

definition Checkouts_Create :: "time \<Rightarrow> CheckoutRecord \<Rightarrow> (productdb, unit) sql" where
  "Checkouts_Create now c = sql_wrap ''billing: create checkout'' (sql_exec (\<lambda>d.
     let row = c\<lparr>co_Status := (if co_Status c = [] then StatusPending else co_Status c), co_CreatedAt := now, co_UpdatedAt := now\<rparr>
     in if co_PromptID c \<in> co_PromptID ` set (candidate_checkouts d) then d
        else d\<lparr>candidate_checkouts := candidate_checkouts d @ [row]\<rparr>))"

definition scanOne :: "(productdb, CheckoutRecord option) sql \<Rightarrow> (productdb, CheckoutRecord) sql" where
  "scanOne m = sql_bind (sql_wrap ''billing: scan checkout'' m) (\<lambda>c. case c of None \<Rightarrow> sql_raise ErrCheckoutNotFound | Some x \<Rightarrow> sql_return x)"

definition GetByPromptID :: "string \<Rightarrow> (productdb, CheckoutRecord) sql" where
  "GetByPromptID promptID = scanOne (sql_query (\<lambda>d. List.find (\<lambda>c. co_PromptID c = promptID) (candidate_checkouts d)))"

definition resolved :: "time \<Rightarrow> string \<Rightarrow> string \<Rightarrow> string \<Rightarrow> CheckoutRecord \<Rightarrow> CheckoutRecord" where
  "resolved now status subscriptionID errMsg c =
     c\<lparr>co_Status := status, co_SubscriptionID := (if subscriptionID \<noteq> [] then subscriptionID else co_SubscriptionID c),
       co_Error := errMsg, co_UpdatedAt := now\<rparr>"

definition Checkouts_UpdateStatus :: "time \<Rightarrow> string \<Rightarrow> string \<Rightarrow> string \<Rightarrow> string \<Rightarrow> (productdb, CheckoutRecord) sql" where
  "Checkouts_UpdateStatus now promptID status subscriptionID errMsg = scanOne (sql_stmt (\<lambda>d.
     let rows = update_where (\<lambda>c. co_PromptID c = promptID) (resolved now status subscriptionID errMsg) (candidate_checkouts d)
     in (Inr (List.find (\<lambda>c. co_PromptID c = promptID) rows), d\<lparr>candidate_checkouts := rows\<rparr>)))"

definition Checkouts_ListByCandidate :: "string \<Rightarrow> int \<Rightarrow> (productdb, CheckoutRecord list) sql" where
  "Checkouts_ListByCandidate candidateID limit0 =
     (let limit = (if limit0 \<le> 0 then 50 else limit0) in
      sql_wrap ''billing: list by candidate'' (sql_query (\<lambda>d.
        take (nat limit) (sort_key (\<lambda>c. - co_CreatedAt c) (filter (\<lambda>c. co_CandidateID c = candidateID) (candidate_checkouts d))))))"

definition ListPending :: "int \<Rightarrow> (productdb, CheckoutRecord list) sql" where
  "ListPending limit = sql_wrap ''billing: list pending'' (sql_query (\<lambda>d.
     take (nat limit) (sort_key co_CreatedAt (filter (\<lambda>c. co_Status c = StatusPending) (candidate_checkouts d)))))"

section \<open>Activation\<close>

type_synonym fulfiller = "string \<Rightarrow> string \<Rightarrow> string \<Rightarrow> (productdb, unit) sql"

definition Activate :: "time \<Rightarrow> fulfiller option \<Rightarrow> string \<Rightarrow> string \<Rightarrow> string \<Rightarrow> string \<Rightarrow> (productdb, unit) sql" where
  "Activate now oneTime promptID status subscriptionID errMsg =
     (if status \<notin> {StatusPaid, StatusFailed} then sql_return ()
      else sql_bind (sql_try (Checkouts_UpdateStatus now promptID status subscriptionID errMsg)) (\<lambda>r.
        case r of
          Inl e \<Rightarrow> if errors_Is e ErrCheckoutNotFound then sql_return () else sql_raise (ErrWrap ''billing: activate update status'' e)
        | Inr row \<Rightarrow>
            if status \<noteq> StatusPaid then sql_return ()
            else if IsOneTimeProduct (co_PlanID row)
            then (case oneTime of None \<Rightarrow> sql_return ()
                  | Some fulfil \<Rightarrow> sql_wrap ''billing: one-time fulfill'' (fulfil (co_CandidateID row) (co_PlanID row) promptID))
            else void (sql_wrap ''billing: activate subscription'' (ActivateSubscription now (co_CandidateID row)
              (if subscriptionID = [] then co_SubscriptionID row else subscriptionID) (co_PlanID row)))))"

section \<open>Reconciliation\<close>

record StatusResult =
  sr_Status :: string
  sr_RedirectURL :: string
  sr_SubscriptionID :: string
  sr_Error :: string

record ReconcileResult =
  re_Examined :: int
  re_Activated :: int
  re_Failed :: int
  re_Errors :: int
  re_Cancellations :: int

definition reconcile_one ::
  "time \<Rightarrow> fulfiller option \<Rightarrow> (go_error + StatusResult) \<Rightarrow> CheckoutRecord \<Rightarrow> ReconcileResult \<Rightarrow> (productdb, ReconcileResult) sql"
where
  "reconcile_one now oneTime answer c res =
     (case answer of
        Inl e \<Rightarrow> sql_return (res\<lparr>re_Errors := re_Errors res + 1\<rparr>)
      | Inr st \<Rightarrow>
          if sr_Status st = StatusPaid
          then sql_bind (sql_try (Activate now oneTime (co_PromptID c) StatusPaid (sr_SubscriptionID st) [])) (\<lambda>r.
            sql_return (case r of Inl e \<Rightarrow> res\<lparr>re_Errors := re_Errors res + 1\<rparr> | Inr _ \<Rightarrow> res\<lparr>re_Activated := re_Activated res + 1\<rparr>))
          else if sr_Status st = StatusFailed
          then sql_bind (sql_try (Activate now oneTime (co_PromptID c) StatusFailed (sr_SubscriptionID st) (sr_Error st))) (\<lambda>r.
            sql_return (case r of Inl e \<Rightarrow> res\<lparr>re_Errors := re_Errors res + 1\<rparr> | Inr _ \<Rightarrow> res\<lparr>re_Failed := re_Failed res + 1\<rparr>))
          else sql_return res)"

fun reconcile_loop ::
  "(nat \<Rightarrow> time) \<Rightarrow> fulfiller option \<Rightarrow> (nat \<Rightarrow> string \<Rightarrow> go_error + StatusResult) \<Rightarrow> nat \<Rightarrow> CheckoutRecord list \<Rightarrow> ReconcileResult \<Rightarrow>
    (productdb, ReconcileResult) sql"
where
  "reconcile_loop now oneTime poll k [] res = sql_return res"
| "reconcile_loop now oneTime poll k (c # cs) res =
     sql_bind (reconcile_one (now k) oneTime (poll k (co_PromptID c)) c res) (reconcile_loop now oneTime poll (Suc k) cs)"

definition Reconciler_Run ::
  "(nat \<Rightarrow> time) \<Rightarrow> time \<Rightarrow> time \<Rightarrow> fulfiller option \<Rightarrow> (nat \<Rightarrow> string \<Rightarrow> go_error + StatusResult) \<Rightarrow> int \<Rightarrow> (productdb, ReconcileResult) sql"
where
  "Reconciler_Run now nowF nowG oneTime poll batch0 =
     (let batch = (if batch0 \<le> 0 then 100 else batch0) in
      sql_bind (ListPending batch) (\<lambda>pending.
      sql_bind (reconcile_loop now oneTime poll 0 pending
        \<lparr>re_Examined = int (length pending), re_Activated = 0, re_Failed = 0, re_Errors = 0, re_Cancellations = 0\<rparr>) (\<lambda>res.
      sql_bind (sql_try (FinalizeExpiredCancellations nowF nowG batch)) (\<lambda>r.
      sql_return (case r of Inl e \<Rightarrow> res\<lparr>re_Errors := re_Errors res + 1\<rparr> | Inr n \<Rightarrow> res\<lparr>re_Cancellations := n\<rparr>)))))"

section \<open>Lifecycle events\<close>

definition LifecycleActivated :: string where "LifecycleActivated = ''subscription.activated''"
definition LifecycleCancelled :: string where "LifecycleCancelled = ''subscription.cancelled''"
definition LifecycleBilled :: string where "LifecycleBilled = ''subscription.billed''"
definition LifecyclePaymentFailed :: string where "LifecyclePaymentFailed = ''subscription.payment_failed''"
definition LifecyclePastDue :: string where "LifecyclePastDue = ''subscription.past_due''"

record LifecycleEvent =
  le_Event :: string
  le_SubscriptionID :: string
  le_PlanID :: string
  le_ExternalEntityID :: string
  le_State :: string

definition ApplyPaid :: "time \<Rightarrow> string \<Rightarrow> string \<Rightarrow> string \<Rightarrow> time option \<Rightarrow> (productdb, unit) sql" where
  "ApplyPaid now entityID subscriptionID planID periodEnd =
     (case periodEnd of
        Some e \<Rightarrow> ExtendPaidPeriod now entityID subscriptionID planID (Some e)
      | None \<Rightarrow> void (ActivateSubscription now entityID subscriptionID planID))"

definition ApplyCancelled :: "time \<Rightarrow> string \<Rightarrow> bool \<Rightarrow> time option \<Rightarrow> (productdb, unit) sql" where
  "ApplyCancelled now entityID atPeriodEnd periodEnd = void (ScheduleCancelAtPeriodEnd now entityID)"

definition ApplyPastDue :: "time \<Rightarrow> string \<Rightarrow> string \<Rightarrow> (productdb, unit) sql" where
  "ApplyPastDue now entityID subscriptionID = MarkPastDue now entityID subscriptionID"

definition Lifecycle_Handle :: "time \<Rightarrow> LifecycleEvent \<Rightarrow> (productdb, unit) sql" where
  "Lifecycle_Handle now evt =
     (let entityID = TrimSpace (le_ExternalEntityID evt) in
      if entityID = [] then sql_return ()
      else if le_Event evt \<in> {LifecycleActivated, LifecycleBilled} then ApplyPaid now entityID (le_SubscriptionID evt) (le_PlanID evt) None
      else if le_Event evt = LifecycleCancelled then ApplyCancelled now entityID (EqualFold (le_State evt) ''ACTIVE'') None
      else if le_Event evt \<in> {LifecyclePaymentFailed, LifecyclePastDue} then ApplyPastDue now entityID (le_SubscriptionID evt)
      else sql_return ())"

definition EntitlementStatus :: "string \<Rightarrow> string" where
  "EntitlementStatus event =
     (if event \<in> {LifecycleActivated, LifecycleBilled} then ''paid'' else if event = LifecycleCancelled then ''cancelled''
      else if event \<in> {LifecyclePaymentFailed, LifecyclePastDue} then ''past_due'' else [])"

end
