(* ===== verification/Billing_Http.thy ===== *)
theory Billing_Http
  imports Billing
begin

text \<open>
  The billing routes of \<open>apps/matching/service/http/v1\<close>: plans, checkout, status polling, the
  payment webhook, cancellation, plan changes, invoices, usage and the subscription panel.

  A reply is its status and problem code, or the fields of its JSON body; times stay instants.
  \<open>Panicked\<close> is a handler that dereferences a nil pointer.
\<close>

section \<open>Requests and replies\<close>

datatype 'a body = ReadFailed | BadJSON | Decoded 'a

record checkoutResponse =
  cr_Status :: string
  cr_Route :: string
  cr_RedirectURL :: string
  cr_PromptID :: string
  cr_SubscriptionID :: string
  cr_PlanID :: string
  cr_Error :: string

record invoiceItem =
  iv_ID :: string
  iv_Date :: time
  iv_Amount :: real
  iv_Currency :: string
  iv_Status :: string
  iv_PlanID :: string

record MeSubscription =
  ms_Plan :: "string option"
  ms_Status :: string
  ms_RenewsAt :: "time option"
  ms_CancelAtPeriodEnd :: bool
  ms_QueuedMatches :: int
  ms_DeliveredThisWeek :: int

datatype billing_reply =
    Problem int string
  | Panicked
  | PlansReply string string "Plan list"
  | CheckoutReply checkoutResponse
  | StatusReply StatusResult
  | WebhookOK
  | CancelReply time
  | ChangePlanReply string time
  | InvoicesReply "invoiceItem list"
  | UsageReply "(time \<times> int \<times> int) list"
  | SubscriptionReply MeSubscription

definition to_upper :: "char \<Rightarrow> char" where
  "to_upper ch = (if CHR ''a'' \<le> ch \<and> ch \<le> CHR ''z'' then char_of (of_char ch - (32 :: nat)) else ch)"

definition ToUpper :: "string \<Rightarrow> string" where "ToUpper s = map to_upper s"

section \<open>Status of a candidate\<close>

definition planValue :: "CandidateProfile option \<Rightarrow> string option" where
  "planValue c = (case c of None \<Rightarrow> None | Some x \<Rightarrow> if TrimSpace (cp_PlanID x) = [] then None else Some (TrimSpace (cp_PlanID x)))"

definition statusFromCandidate :: "CandidateProfile option \<Rightarrow> string" where
  "statusFromCandidate c =
     (case c of None \<Rightarrow> ''none''
      | Some x \<Rightarrow> let s = ToLower (TrimSpace (cp_Subscription x))
          in if s \<in> {SubscriptionPaid, SubscriptionTrial, ''active''} then ''active''
             else if s = SubscriptionPastDue then ''past_due''
             else if s \<in> {SubscriptionCancelled, ''canceled''} then ''cancelled''
             else if TrimSpace (cp_SubscriptionID x) \<noteq> [] then ''active'' else ''none'')"

definition SubscriptionHandler :: "time \<Rightarrow> string \<Rightarrow> (productdb, billing_reply) sql" where
  "SubscriptionHandler now profileID =
     sql_bind (sql_try (ResolveByProfileID now profileID)) (\<lambda>r.
     case r of
       Inl e \<Rightarrow> sql_return (Problem 502 ''candidate_lookup_failed'')
     | Inr cand \<Rightarrow>
         let matchKey = (case cand of Some c \<Rightarrow> if TrimSpace (cp_ID c) \<noteq> [] then cp_ID c else profileID | None \<Rightarrow> profileID) in
         sql_bind (sql_try (on_match (SubscriptionSummary now matchKey))) (\<lambda>s.
         let (queued, delivered) = (case s of Inl e \<Rightarrow> (0, 0) | Inr qd \<Rightarrow> qd) in
         sql_return (SubscriptionReply \<lparr>ms_Plan = planValue cand, ms_Status = statusFromCandidate cand,
           ms_RenewsAt = (case cand of None \<Rightarrow> None | Some c \<Rightarrow> cp_CurrentPeriodEnd c),
           ms_CancelAtPeriodEnd = (case cand of None \<Rightarrow> False | Some c \<Rightarrow> cp_CancelAtPeriodEnd c),
           ms_QueuedMatches = queued, ms_DeliveredThisWeek = delivered\<rparr>)))"

section \<open>Checkout\<close>

definition PlansHandler :: "string \<Rightarrow> billing_reply" where
  "PlansHandler ipCountry = PlansReply (ToUpper (TrimSpace ipCountry)) RouteFlutterwave catalog"

record CheckoutRequest =
  cq_CandidateID :: string
  cq_ProfileID :: string
  cq_Plan :: Plan
  cq_Country :: string

record CheckoutResult =
  cs_Status :: string
  cs_Route :: string
  cs_PromptID :: string
  cs_SubscriptionID :: string
  cs_RedirectURL :: string
  cs_Error :: string

definition ledger_row :: "string \<Rightarrow> Plan \<Rightarrow> string \<Rightarrow> string \<Rightarrow> CheckoutResult \<Rightarrow> CheckoutRecord" where
  "ledger_row candidateID plan country subID res =
     \<lparr>co_PromptID = cs_PromptID res, co_CandidateID = candidateID, co_PlanID = p_ID plan, co_Route = cs_Route res,
      co_Status = (if cs_Status res = StatusRedirect then StatusPending else cs_Status res), co_SubscriptionID = subID,
      co_AmountCents = p_USDCents plan, co_Currency = p_Currency plan, co_Country = country, co_RedirectURL = cs_RedirectURL res,
      co_Error = cs_Error res, co_CreatedAt = 0, co_UpdatedAt = 0\<rparr>"

definition checkout_reply :: "Plan \<Rightarrow> CheckoutResult \<Rightarrow> billing_reply" where
  "checkout_reply plan res = CheckoutReply \<lparr>cr_Status = cs_Status res, cr_Route = cs_Route res, cr_RedirectURL = cs_RedirectURL res,
     cr_PromptID = cs_PromptID res, cr_SubscriptionID = cs_SubscriptionID res, cr_PlanID = p_ID plan, cr_Error = cs_Error res\<rparr>"

text \<open>The body is the \<open>plan_id\<close> of the request; the email and phone fields are not used.\<close>

definition checkout_plan ::
  "time \<Rightarrow> (CheckoutRequest \<Rightarrow> go_error + CheckoutResult) \<Rightarrow> string \<Rightarrow> string \<Rightarrow> string \<Rightarrow> string \<Rightarrow> (productdb, billing_reply) sql"
where
  "checkout_plan now create ipCountry candidateID profileID planID =
     (let country = ToUpper (TrimSpace ipCountry) in
      case PlanByID (ToLower (TrimSpace planID)) of
        None \<Rightarrow> sql_return (Problem 400 ''invalid_plan'')
      | Some plan \<Rightarrow>
          (case create \<lparr>cq_CandidateID = candidateID, cq_ProfileID = profileID, cq_Plan = plan, cq_Country = country\<rparr> of
             Inl e \<Rightarrow> sql_return (if errors_Is e ErrGatewayUnavailable then Problem 503 ''billing_unavailable'' else Problem 502 ''checkout_failed'')
           | Inr res \<Rightarrow>
               if cs_PromptID res = [] then sql_return (checkout_reply plan res)
               else sql_bind (sql_try (Checkouts_Create now (ledger_row candidateID plan country (cs_SubscriptionID res) res))) (\<lambda>r.
                    sql_return (case r of Inl e \<Rightarrow> Problem 502 ''checkout_persist_failed'' | Inr _ \<Rightarrow> checkout_reply plan res))))"

definition CheckoutHandler ::
  "time \<Rightarrow> (CheckoutRequest \<Rightarrow> go_error + CheckoutResult) \<Rightarrow> string \<Rightarrow> string \<Rightarrow> string body \<Rightarrow> (productdb, billing_reply) sql"
where
  "CheckoutHandler now create ipCountry profileID body =
     sql_bind (sql_try (ResolveByProfileID now profileID)) (\<lambda>r.
     let cand = (case r of Inr c \<Rightarrow> c | Inl e \<Rightarrow> None);
         candidateID = (case cand of Some c \<Rightarrow> if cp_ID c \<noteq> [] then cp_ID c else profileID | None \<Rightarrow> profileID)
     in if cand \<noteq> None \<and> statusFromCandidate cand \<in> {''active'', ''past_due''} then sql_return (Problem 409 ''already_subscribed'')
        else case body of
          ReadFailed \<Rightarrow> sql_return (Problem 400 ''body_read_failed'')
        | BadJSON \<Rightarrow> sql_return (Problem 400 ''invalid_json'')
        | Decoded planID \<Rightarrow> checkout_plan now create ipCountry candidateID profileID planID)"

text \<open>\<open>cvText\<close> is the text that \<open>loadCVForScore\<close> finds for the candidate.\<close>

definition ATSReportCheckoutHandler ::
  "time \<Rightarrow> (CheckoutRequest \<Rightarrow> go_error + CheckoutResult) \<Rightarrow> string \<Rightarrow> string \<Rightarrow> string \<Rightarrow> (productdb, billing_reply) sql"
where
  "ATSReportCheckoutHandler now create cvText ipCountry candidateID =
     (if length (TrimSpace cvText) < 40 then sql_return (Problem 409 ''cv_required'')
      else let product = ATSReportProduct; country = ToUpper (TrimSpace ipCountry) in
        case create \<lparr>cq_CandidateID = candidateID, cq_ProfileID = candidateID, cq_Plan = product, cq_Country = country\<rparr> of
          Inl e \<Rightarrow> sql_return (Problem 502 ''checkout_failed'')
        | Inr res \<Rightarrow>
            if cs_PromptID res = [] then sql_return (Problem 502 ''checkout_failed'')
            else sql_bind (sql_try (Checkouts_Create now (ledger_row candidateID product country [] res))) (\<lambda>r.
                 sql_return (case r of Inl e \<Rightarrow> Problem 502 ''checkout_persist_failed'' | Inr _ \<Rightarrow> checkout_reply product res)))"

section \<open>Fulfilment of the CV report\<close>

text \<open>
  \<open>FulfillOneTime\<close> of \<open>ats_report.go\<close>, the fulfiller of the only one-time product.  \<open>cp_Other\<close> holds the
  text of the columns it reads and receives the score.  The fields of the CV are title, bio and skills.  \<open>ar_summary\<close> is the summary in
  \<open>candidate_placement_profiles\<close>, \<open>ar_matches\<close> the jobs of \<open>loadMatchedJobs\<close>, \<open>ar_Scorer\<close> the scorer with
  \<open>BuildMatchAwareReport\<close>, and \<open>ar_Notify\<close> the notification service, which may refuse.  Errors of the reads and of the
  update are dropped.
\<close>

record ATSReport =
  rp_OverallScore :: int
  rp_JSON :: string
  rp_CVVersion :: string

record ATSReportDeps =
  ar_summary :: "string \<Rightarrow> string"
  ar_matches :: "string \<Rightarrow> productdb \<Rightarrow> string list"
  ar_Scorer :: "(string \<Rightarrow> string \<times> string \<times> string \<Rightarrow> string \<Rightarrow> string list \<Rightarrow> ATSReport) option"
  ar_Notify :: "(string \<Rightarrow> ATSReport \<Rightarrow> string \<Rightarrow> go_error option) option"

definition text_column :: "string \<Rightarrow> CandidateProfile \<Rightarrow> string" where
  "text_column name c = (case cp_Other c name of Some (AStr s) \<Rightarrow> s | _ \<Rightarrow> [])"

definition read_profile :: "string \<Rightarrow> 'a \<Rightarrow> (CandidateProfile \<Rightarrow> 'a) \<Rightarrow> (productdb, 'a) sql" where
  "read_profile candidateID dflt g =
     sql_bind (sql_try (sql_query (\<lambda>d. List.find (\<lambda>c. cp_ID c = candidateID) (candidate_profiles d)))) (\<lambda>r.
     sql_return (case r of Inr (Some c) \<Rightarrow> g c | _ \<Rightarrow> dflt))"

definition loadCVForScore :: "ATSReportDeps \<Rightarrow> string \<Rightarrow> (productdb, string \<times> (string \<times> string \<times> string)) sql" where
  "loadCVForScore ad candidateID =
     sql_bind (read_profile candidateID ([], [], []) (\<lambda>c. (text_column ''current_title'' c, text_column ''bio'' c, text_column ''strong_skills'' c)))
       (\<lambda>(title, bio, skills).
     sql_bind (sql_try (sql_query (\<lambda>_. ar_summary ad candidateID))) (\<lambda>r.
     let summary = (case r of Inr s \<Rightarrow> s | Inl _ \<Rightarrow> []) in
     sql_return (if summary \<noteq> [] then summary else TrimSpace (title @ [CHR 0x0A] @ bio @ [CHR 0x0A] @ skills), (title, bio, skills))))"

definition scored :: "time \<Rightarrow> ATSReport \<Rightarrow> CandidateProfile \<Rightarrow> CandidateProfile" where
  "scored now rep c = c\<lparr>cp_Other := (cp_Other c)(''cv_score'' \<mapsto> AInt (rp_OverallScore rep), ''cv_report_json'' \<mapsto> AStr (rp_JSON rep),
     ''cv_scored_at'' \<mapsto> ATime now, ''cv_scored_version'' \<mapsto> AStr (rp_CVVersion rep)), cp_UpdatedAt := now\<rparr>"

definition email_report :: "ATSReportDeps \<Rightarrow> string \<Rightarrow> string \<Rightarrow> ATSReport \<Rightarrow> (productdb, unit) sql" where
  "email_report ad candidateID promptID rep =
     (case ar_Notify ad of None \<Rightarrow> sql_return ()
      | Some send \<Rightarrow>
          sql_bind (read_profile candidateID candidateID (\<lambda>c. if cp_ProfileID c \<noteq> [] then cp_ProfileID c else cp_ID c)) (\<lambda>profileID.
          case send profileID rep promptID of None \<Rightarrow> sql_return () | Some e \<Rightarrow> sql_raise e))"

definition FulfillOneTime :: "ATSReportDeps \<Rightarrow> time \<Rightarrow> fulfiller" where
  "FulfillOneTime ad now candidateID productID promptID =
     (if productID \<noteq> ProductATSReport then sql_return ()
      else case ar_Scorer ad of None \<Rightarrow> sql_return ()
      | Some score \<Rightarrow>
          sql_bind (loadCVForScore ad candidateID) (\<lambda>(cvText, (title, bio, skills)).
          if length (TrimSpace cvText) < 40 then sql_return ()
          else sql_bind (read_profile candidateID (TrimSpace title) (\<lambda>c.
                 if TrimSpace (cp_TargetJobTitle c) \<noteq> [] then TrimSpace (cp_TargetJobTitle c)
                 else if TrimSpace title = [] then TrimSpace (text_column ''current_title'' c) else TrimSpace title)) (\<lambda>targetRole.
          sql_bind (sql_try (sql_query (ar_matches ad candidateID))) (\<lambda>r.
          let rep = score cvText (title, bio, skills) targetRole (case r of Inr jobs \<Rightarrow> jobs | Inl _ \<Rightarrow> []) in
          sql_bind (sql_try (sql_exec (set_profiles (\<lambda>c. cp_ID c = candidateID) (scored now rep)))) (\<lambda>_.
          email_report ad candidateID promptID rep)))))"

section \<open>Status polling\<close>

definition stored_status :: "CheckoutRecord \<Rightarrow> StatusResult" where
  "stored_status c = \<lparr>sr_Status = co_Status c, sr_RedirectURL = co_RedirectURL c, sr_SubscriptionID = co_SubscriptionID c, sr_Error = co_Error c\<rparr>"

definition polled_status :: "CheckoutRecord \<Rightarrow> StatusResult \<Rightarrow> StatusResult" where
  "polled_status c st =
     st\<lparr>sr_RedirectURL := (if sr_RedirectURL st = [] then co_RedirectURL c else sr_RedirectURL st),
        sr_SubscriptionID := (if sr_SubscriptionID st = [] then co_SubscriptionID c else sr_SubscriptionID st)\<rparr>"

definition CheckoutStatusHandler ::
  "time \<Rightarrow> fulfiller option \<Rightarrow> (string \<Rightarrow> go_error + StatusResult) \<Rightarrow> string \<Rightarrow> string \<Rightarrow> (productdb, billing_reply) sql"
where
  "CheckoutStatusHandler now oneTime poll candidateID prompt =
     (let promptID = TrimSpace prompt in
      if promptID = [] then sql_return (Problem 400 ''missing_prompt_id'')
      else sql_bind (sql_try (GetByPromptID promptID)) (\<lambda>r.
        case r of
          Inl e \<Rightarrow> sql_return (if errors_Is e ErrCheckoutNotFound then Problem 404 ''checkout_not_found'' else Problem 502 ''checkout_lookup_failed'')
        | Inr c \<Rightarrow>
            if co_CandidateID c \<noteq> candidateID then sql_return (Problem 404 ''checkout_not_found'')
            else (case poll promptID of
                Inl e \<Rightarrow> sql_return (StatusReply (stored_status c))
              | Inr st \<Rightarrow>
                  sql_bind (if sr_Status st \<in> {StatusPaid, StatusFailed}
                            then sql_try (Activate now oneTime promptID (sr_Status st) (sr_SubscriptionID st) (sr_Error st))
                            else sql_return (Inr ())) (\<lambda>_.
                  sql_return (StatusReply (polled_status c st))))))"

section \<open>Webhook\<close>

fun firstNonEmpty :: "string list \<Rightarrow> string" where
  "firstNonEmpty [] = []"
| "firstNonEmpty (v # vs) = (if TrimSpace v \<noteq> [] then TrimSpace v else firstNonEmpty vs)"

record webhookPayload =
  wh_PromptID :: string
  wh_TransactionID :: string
  wh_ID :: string
  wh_Status :: string
  wh_State :: string
  wh_SubscriptionID :: string
  wh_ExternalID :: string
  wh_Error :: string

definition normalizeWebhookStatus :: "string \<Rightarrow> string \<Rightarrow> string" where
  "normalizeWebhookStatus status state =
     (let s0 = ToUpper (TrimSpace status); s = (if s0 = [] then ToUpper (TrimSpace state) else s0)
      in if s \<in> {''SUCCESSFUL'', ''SUCCESS'', ''PAID'', ''COMPLETED'', ''ACTIVE''} then StatusPaid
         else if s \<in> {''FAILED'', ''CANCELLED'', ''CANCELED'', ''DECLINED'', ''ERROR''} then StatusFailed
         else StatusPending)"

definition TrimPrefix :: "string \<Rightarrow> string \<Rightarrow> string" where
  "TrimPrefix p s = (if take (length p) s = p then drop (length p) s else s)"

definition validSignature :: "(string \<Rightarrow> string \<Rightarrow> string) \<Rightarrow> string \<Rightarrow> string \<Rightarrow> string \<Rightarrow> bool" where
  "validSignature hmac_hex secret header raw =
     (let got = TrimPrefix ''sha256='' (TrimSpace header) in got \<noteq> [] \<and> ToLower got = hmac_hex secret raw)"

text \<open>\<open>raw\<close> is the body as received (\<open>None\<close> when reading failed) and \<open>decode\<close> its decoding.\<close>

definition WebhookHandler ::
  "time \<Rightarrow> fulfiller option \<Rightarrow> (string \<Rightarrow> string \<Rightarrow> string) \<Rightarrow> (string \<Rightarrow> webhookPayload option) \<Rightarrow> string \<Rightarrow> string \<Rightarrow> string option \<Rightarrow>
    (productdb, billing_reply) sql"
where
  "WebhookHandler now oneTime hmac_hex decode secret header raw =
     (case raw of None \<Rightarrow> sql_return (Problem 400 ''body_read_failed'')
      | Some bytes \<Rightarrow>
          if secret = [] then sql_return (Problem 500 ''webhook_not_configured'')
          else if \<not> validSignature hmac_hex secret header bytes then sql_return (Problem 401 ''invalid_signature'')
          else (case decode bytes of
              None \<Rightarrow> sql_return (Problem 400 ''invalid_json'')
            | Some inp \<Rightarrow>
                let promptID = firstNonEmpty [wh_PromptID inp, wh_TransactionID inp, wh_ID inp];
                    subID = firstNonEmpty [wh_SubscriptionID inp, wh_ExternalID inp];
                    status = normalizeWebhookStatus (wh_Status inp) (wh_State inp)
                in if promptID = [] then sql_return (Problem 400 ''missing_prompt_id'')
                   else sql_bind (sql_try (Activate now oneTime promptID status subID (wh_Error inp))) (\<lambda>r.
                        sql_return (case r of Inl e \<Rightarrow> Problem 502 ''activation_failed'' | Inr _ \<Rightarrow> WebhookOK))))"

section \<open>Cancellation, plan changes and history\<close>

definition CancelHandler :: "time \<Rightarrow> string \<Rightarrow> (productdb, billing_reply) sql" where
  "CancelHandler now candidateID =
     sql_bind (sql_try (ScheduleCancelAtPeriodEnd now candidateID)) (\<lambda>r.
     sql_return (case r of Inr e \<Rightarrow> CancelReply e
       | Inl e \<Rightarrow> if e = ErrNew ''nil pointer dereference'' then Panicked else Problem 409 ''cancel_failed''))"

definition change_plan :: "time \<Rightarrow> string \<Rightarrow> string \<Rightarrow> CandidateProfile \<Rightarrow> (productdb, billing_reply) sql" where
  "change_plan now candidateID planID c =
     (if cp_Subscription c \<noteq> SubscriptionPaid then sql_return (Problem 409 ''not_subscribed'')
      else if EqualFold (cp_PlanID c) planID then sql_return (Problem 400 ''same_plan'')
      else if NormalizePlan (cp_PlanID c) = Some PlanStarter \<and> planID \<in> {PlanManaged, PlanPro} then sql_return (Problem 402 ''checkout_required'')
      else sql_bind (sql_try (ChangePlan now candidateID planID True)) (\<lambda>r.
        sql_return (case r of Inl e \<Rightarrow> Problem 409 ''change_failed''
          | Inr _ \<Rightarrow> ChangePlanReply planID (case cp_CurrentPeriodEnd c of None \<Rightarrow> AddMonth now | Some e \<Rightarrow> if e > now then e else AddMonth now))))"

definition ChangePlanHandler :: "time \<Rightarrow> string \<Rightarrow> string body \<Rightarrow> (productdb, billing_reply) sql" where
  "ChangePlanHandler now candidateID body =
     (case body of
        ReadFailed \<Rightarrow> sql_return (Problem 400 ''body_read_failed'')
      | BadJSON \<Rightarrow> sql_return (Problem 400 ''invalid_json'')
      | Decoded raw \<Rightarrow>
          (case NormalizePlan raw of
             None \<Rightarrow> sql_return (Problem 400 ''invalid_plan'')
           | Some planID \<Rightarrow> sql_bind (sql_try (GetByID candidateID)) (\<lambda>r.
               case r of Inr (Some c) \<Rightarrow> change_plan now candidateID planID c
               | _ \<Rightarrow> sql_return (Problem 502 ''candidate_lookup_failed''))))"

definition invoice :: "CheckoutRecord \<Rightarrow> invoiceItem" where
  "invoice c =
     \<lparr>iv_ID = co_PromptID c, iv_Date = co_CreatedAt c, iv_Amount = real_of_int (co_AmountCents c) / 100,
      iv_Currency = firstNonEmpty [co_Currency c, ''USD''],
      iv_Status = (if co_Status c \<in> {StatusPaid, StatusFailed} then co_Status c else ''pending''), iv_PlanID = co_PlanID c\<rparr>"

definition InvoicesHandler :: "string \<Rightarrow> (productdb, billing_reply) sql" where
  "InvoicesHandler candidateID =
     sql_bind (sql_try (Checkouts_ListByCandidate candidateID 50)) (\<lambda>r.
     sql_return (case r of Inl e \<Rightarrow> Problem 502 ''list_failed'' | Inr rows \<Rightarrow> InvoicesReply (map invoice rows)))"

definition UsageHistoryHandler :: "time \<Rightarrow> string \<Rightarrow> (productdb, billing_reply) sql" where
  "UsageHistoryHandler now candidateID =
     sql_bind (sql_try (on_match (SubscriptionSummary now candidateID))) (\<lambda>r.
     sql_return (case r of Inl e \<Rightarrow> UsageReply [] | Inr (queued, delivered) \<Rightarrow> UsageReply [(now, delivered, queued)]))"

end
