(* ===== verification/Billing_Spec.thy ===== *)
theory Billing_Spec
  imports Billing_Http
begin

text \<open>
  The invariant of the billing tables and the programs that keep it: every checkout has a key,
  an owner and the catalog price of its plan, and every paid candidate owns a checkout of a
  subscription plan.
\<close>

section \<open>The invariant\<close>

definition priced :: "CheckoutRecord \<Rightarrow> bool" where
  "priced k \<longleftrightarrow> map_option (\<lambda>p. (p_USDCents p, p_Currency p)) (ProductByID (co_PlanID k)) = Some (co_AmountCents k, co_Currency k)"

definition pays_for :: "CheckoutRecord \<Rightarrow> CandidateProfile \<Rightarrow> bool" where
  "pays_for k c \<longleftrightarrow> co_CandidateID k \<in> {cp_ID c, cp_ProfileID c} \<and> \<not> IsOneTimeProduct (co_PlanID k)"

definition bill_inv :: "productdb \<Rightarrow> bool" where
  "bill_inv d \<longleftrightarrow> distinct (map cp_ID (candidate_profiles d)) \<and> list_all (\<lambda>i. TrimSpace i \<noteq> []) (map cp_ID (candidate_profiles d)) \<and>
     distinct (map co_PromptID (candidate_checkouts d)) \<and>
     list_all (\<lambda>k. TrimSpace (co_CandidateID k) \<noteq> [] \<and> priced k) (candidate_checkouts d) \<and>
     list_all (\<lambda>c. cp_Subscription c \<noteq> SubscriptionPaid \<or> list_ex (\<lambda>k. pays_for k c) (candidate_checkouts d)) (candidate_profiles d)"

definition bill_ok :: "productdb \<Rightarrow> productdb \<Rightarrow> bool" where
  "bill_ok d d' \<longleftrightarrow> (bill_inv d \<longrightarrow> bill_inv d')"

interpretation bp: sql_preorder bill_ok
  by unfold_locales (auto simp: bill_ok_def)

lemma bill_ok_match: "bill_ok d (d\<lparr>pd_match := m\<rparr>)"
  by (simp add: bill_ok_def bill_inv_def)

lemma on_match_ok: "preserves bill_ok (on_match m)"
  by (auto simp: preserves_def tables_after_def on_match_def bill_ok_match split: prod.splits)

text \<open>An update that makes only payers paid and takes no owned identifier away.\<close>

definition keeps_owner :: "productdb \<Rightarrow> CandidateProfile \<Rightarrow> CandidateProfile \<Rightarrow> bool" where
  "keeps_owner d c c' \<longleftrightarrow> cp_ID c' = cp_ID c \<and>
     (cp_Subscription c' \<noteq> SubscriptionPaid \<or> list_ex (\<lambda>k. pays_for k c') (candidate_checkouts d) \<or>
      cp_Subscription c = SubscriptionPaid \<and> (cp_ProfileID c' = cp_ProfileID c \<or> TrimSpace (cp_ProfileID c) = []))"

lemma keeps_owner_stamp [simp]: "keeps_owner d c (c'\<lparr>cp_UpdatedAt := now\<rparr>) = keeps_owner d c c'"
  by (simp add: keeps_owner_def pays_for_def)

lemma set_profiles_ok:
  assumes "\<And>c. bill_inv d \<Longrightarrow> c \<in> set (candidate_profiles d) \<Longrightarrow> P c \<Longrightarrow> keeps_owner d c (f c)"
  shows "bill_ok d (set_profiles P f d)"
  unfolding bill_ok_def
proof
  assume inv: "bill_inv d"
  have "cp_Subscription c' \<noteq> SubscriptionPaid \<or> list_ex (\<lambda>k. pays_for k c') (candidate_checkouts d)"
    if "c' \<in> set (update_where P f (candidate_profiles d))" for c'
    using that
  proof (cases rule: update_where_memE)
    case (1 c)
    have "co_CandidateID k \<noteq> cp_ProfileID c" if "k \<in> set (candidate_checkouts d)" "TrimSpace (cp_ProfileID c) = []" for k
      using inv that by (auto simp: bill_inv_def list_all_iff)
    moreover have "cp_Subscription c \<noteq> SubscriptionPaid \<or> list_ex (\<lambda>k. pays_for k c) (candidate_checkouts d)"
      using inv 1(1) by (auto simp: bill_inv_def list_all_iff)
    ultimately show ?thesis using assms[OF inv 1(1,2)] 1(3) by (auto simp: keeps_owner_def pays_for_def list_ex_iff)
  qed (use inv in \<open>auto simp: bill_inv_def list_all_iff\<close>)
  moreover have "map cp_ID (update_where P f (candidate_profiles d)) = map cp_ID (candidate_profiles d)"
    using assms[OF inv] by (simp add: update_where_def keeps_owner_def)
  ultimately show "bill_inv (set_profiles P f d)" using inv unfolding bill_inv_def set_profiles_def by (simp add: list_all_iff del: set_map)
qed

lemma gorm_updates_after:
  assumes "\<And>c. bill_inv d \<Longrightarrow> c \<in> set (candidate_profiles d) \<Longrightarrow> P c \<Longrightarrow> keeps_owner d c (f c)"
  shows "bill_ok d (tables_after (gorm_updates now P f) (d, fs))"
proof -
  have "bill_ok d (set_profiles (\<lambda>c. live c \<and> P c) (\<lambda>c. (f c)\<lparr>cp_UpdatedAt := now\<rparr>) d)"
    by (rule set_profiles_ok) (use assms in auto)
  then show ?thesis
    by (auto simp: gorm_updates_def tables_after_def sql_stmt_def bp.R_refl split: prod.splits bool.splits)
qed

lemma gorm_updates_ok: "(\<And>d c. P c \<Longrightarrow> keeps_owner d c (f c)) \<Longrightarrow> preserves bill_ok (gorm_updates now P f)"
  by (auto simp: preserves_def intro: gorm_updates_after)

lemma void_ok: "preserves bill_ok m \<Longrightarrow> preserves bill_ok (void m)"
  unfolding void_def by (intro bp.preserves_rules)

lemma sync_caps_ok: "preserves bill_ok (sync_caps now c caps)"
  unfolding sync_caps_def by (rule on_match_ok)

section \<open>Profiles\<close>

lemma gorm_first_run:
  assumes "gorm_first P (d, fs) = (x, (d', fs'))"
  shows "d' = d" and "x = Inr (Some c) \<Longrightarrow> c \<in> set (candidate_profiles d) \<and> P c"
proof -
  show "d' = d" using assms by (auto simp: gorm_first_def sql_query_def sql_stmt_def split: prod.splits bool.splits)
  assume "x = Inr (Some c)"
  then have "sort_key cp_ID (filter (\<lambda>c. live c \<and> P c) (candidate_profiles d)) = c # tl (sort_key cp_ID (filter (\<lambda>c. live c \<and> P c) (candidate_profiles d)))"
    using assms by (auto simp: gorm_first_def dest!: sql_query_InrD split: list.splits)
  then have "c \<in> set (sort_key cp_ID (filter (\<lambda>c. live c \<and> P c) (candidate_profiles d)))" by (metis list.set_intros(1))
  then show "c \<in> set (candidate_profiles d) \<and> P c" by simp
qed

lemma Candidates_GetByID_ok: "preserves bill_ok (GetByID i)"
  unfolding GetByID_def gorm_first_def by (intro bp.preserves_rules)

lemma Candidates_GetByProfileID_ok: "preserves bill_ok (GetByProfileID i)"
  unfolding GetByProfileID_def gorm_first_def by (intro bp.preserves_rules)

lemma adopt_profile_ok:
  assumes "x \<in> set (candidate_profiles d)" and "TrimSpace (cp_ProfileID x) = []"
  shows "bill_ok d (tables_after (gorm_updates now (\<lambda>c. cp_ID c = cp_ID x) (\<lambda>c. c\<lparr>cp_ProfileID := i\<rparr>)) (d, fs))"
proof (rule gorm_updates_after)
  fix c assume "bill_inv d" and "c \<in> set (candidate_profiles d)" "cp_ID c = cp_ID x"
  with assms(1) have "c = x" by (intro distinct_key_eq[of cp_ID "candidate_profiles d"]) (simp_all add: bill_inv_def)
  with assms(2) show "keeps_owner d c (c\<lparr>cp_ProfileID := i\<rparr>)" by (auto simp: keeps_owner_def pays_for_def)
qed

lemma ResolveByProfileID_ok: "preserves bill_ok (ResolveByProfileID now i)"
proof -
  have "bill_ok d (tables_after (sql_bind (GetByID i) (\<lambda>c'.
      case c' of None \<Rightarrow> sql_return None
      | Some x \<Rightarrow> if TrimSpace (cp_ProfileID x) = []
          then sql_bind (sql_try (gorm_updates now (\<lambda>c. cp_ID c = cp_ID x) (\<lambda>c. c\<lparr>cp_ProfileID := i\<rparr>))) (\<lambda>_. sql_return (Some (x\<lparr>cp_ProfileID := i\<rparr>)))
          else sql_return (Some x))) (d, fs))" for d fs
  proof (rule bp.after_bind, intro conjI allI impI)
    fix x d' fs' y
    assume run: "GetByID i (d, fs) = (x, (d', fs'))"
    then show "bill_ok d d'" by (rule preserves_run[OF Candidates_GetByID_ok])
    assume x: "x = Inr y"
    from run have d': "d' = d" by (simp add: GetByID_def gorm_first_run(1))
    show "bill_ok d' (tables_after (case y of None \<Rightarrow> sql_return None
      | Some x \<Rightarrow> if TrimSpace (cp_ProfileID x) = []
          then sql_bind (sql_try (gorm_updates now (\<lambda>c. cp_ID c = cp_ID x) (\<lambda>c. c\<lparr>cp_ProfileID := i\<rparr>))) (\<lambda>_. sql_return (Some (x\<lparr>cp_ProfileID := i\<rparr>)))
          else sql_return (Some x)) (d', fs'))"
      using run x gorm_first_run(2)[of "\<lambda>c. cp_ID c = i" d fs x d' fs'] d'
      by (auto simp: GetByID_def bp.after_return intro!: adopt_profile_ok split: option.splits)
  qed
  then have legacy: "preserves bill_ok (sql_bind (GetByID i) (\<lambda>c'.
      case c' of None \<Rightarrow> sql_return None
      | Some x \<Rightarrow> if TrimSpace (cp_ProfileID x) = []
          then sql_bind (sql_try (gorm_updates now (\<lambda>c. cp_ID c = cp_ID x) (\<lambda>c. c\<lparr>cp_ProfileID := i\<rparr>))) (\<lambda>_. sql_return (Some (x\<lparr>cp_ProfileID := i\<rparr>)))
          else sql_return (Some x)))"
    by (simp add: preserves_def)
  show ?thesis
    unfolding ResolveByProfileID_def
    by (intro bp.preserves_if bp.preserves_return bp.preserves_bind[OF Candidates_GetByProfileID_ok] bp.preserves_option legacy)
qed

lemma ScheduleCancelAtPeriodEnd_ok: "preserves bill_ok (ScheduleCancelAtPeriodEnd now i)"
  unfolding ScheduleCancelAtPeriodEnd_def
  by (intro bp.preserves_rules Candidates_GetByID_ok gorm_updates_ok) (simp add: keeps_owner_def)

lemma ChangePlan_ok: "preserves bill_ok (ChangePlan now i plan immediate)"
  unfolding ChangePlan_def
  by (intro bp.preserves_rules void_ok sync_caps_ok gorm_updates_ok) (simp add: keeps_owner_def changed_plan_def Let_def)

lemma FinalizeExpiredPaidAccess_ok: "preserves bill_ok (FinalizeExpiredPaidAccess now limit)"
  unfolding FinalizeExpiredPaidAccess_def Let_def
  by (intro bp.preserves_rules gorm_updates_ok on_match_ok) (simp add: keeps_owner_def demoted_def)

lemma FinalizeExpiredCancellations_ok: "preserves bill_ok (FinalizeExpiredCancellations now nowB limit)"
  unfolding FinalizeExpiredCancellations_def Let_def
  by (intro bp.preserves_rules FinalizeExpiredPaidAccess_ok gorm_updates_ok) (simp add: keeps_owner_def cancelled_def)

lemma MarkPastDue_ok: "preserves bill_ok (MarkPastDue now i s)"
  unfolding MarkPastDue_def by (intro void_ok gorm_updates_ok) (simp add: keeps_owner_def)

section \<open>Ledger and activation\<close>

lemma Checkouts_Create_ok:
  assumes "TrimSpace (co_CandidateID c) \<noteq> []" and "priced c"
  shows "preserves bill_ok (Checkouts_Create now c)"
  unfolding Checkouts_Create_def
proof (intro bp.preserves_wrap bp.preserves_exec)
  fix d
  show "bill_ok d (let row = c\<lparr>co_Status := if co_Status c = [] then StatusPending else co_Status c, co_CreatedAt := now, co_UpdatedAt := now\<rparr>
      in if co_PromptID c \<in> co_PromptID ` set (candidate_checkouts d) then d else d\<lparr>candidate_checkouts := candidate_checkouts d @ [row]\<rparr>)"
    using assms by (auto simp: bill_ok_def bill_inv_def Let_def list_all_iff list_ex_iff priced_def)
qed

lemma resolved_fields [simp]:
  "co_PromptID (resolved now status s e k) = co_PromptID k" "co_CandidateID (resolved now status s e k) = co_CandidateID k"
  "co_PlanID (resolved now status s e k) = co_PlanID k" "priced (resolved now status s e k) = priced k"
  "pays_for (resolved now status s e k) c = pays_for k c" "co_Status (resolved now status s e k) = status"
  by (simp_all add: resolved_def priced_def pays_for_def)

lemma resolve_row_ok:
  "bill_ok d (d\<lparr>candidate_checkouts := update_where (\<lambda>k. co_PromptID k = i) (resolved now status s e) (candidate_checkouts d)\<rparr>)"
  by (simp add: bill_ok_def bill_inv_def list_all_iff list_ex_iff row_simps if_distrib cong: if_cong)

lemma Checkouts_UpdateStatus_run:
  assumes "Checkouts_UpdateStatus now i status s e (d, fs) = (x, (d', fs'))"
  obtains (failed) err where "x = Inl err" "err \<noteq> ErrCheckoutNotFound" "d' = d"
  | (missing) "x = Inl ErrCheckoutNotFound" "d' = d" "\<forall>k \<in> set (candidate_checkouts d). co_PromptID k \<noteq> i"
  | (found) k where "k \<in> set (candidate_checkouts d)" "co_PromptID k = i" "x = Inr (resolved now status s e k)"
      "d' = d\<lparr>candidate_checkouts := update_where (\<lambda>k. co_PromptID k = i) (resolved now status s e) (candidate_checkouts d)\<rparr>"
proof -
  let ?P = "\<lambda>k. co_PromptID k = i"
  have find: "List.find ?P (update_where ?P (resolved now status s e) (candidate_checkouts d)) =
      map_option (resolved now status s e) (List.find ?P (candidate_checkouts d))"
    by (simp add: find_update_where_same)
  obtain b fs1 where fault: "next_fault fs = (b, fs1)" by (cases "next_fault fs")
  note defs = Checkouts_UpdateStatus_def scanOne_def sql_bind_def sql_wrap_def sql_stmt_def sql_raise_def sql_return_def
  show ?thesis
  proof (cases b)
    case True
    then have "x = Inl (ErrWrap ''billing: scan checkout'' ErrDB)" "d' = d" using assms fault by (simp_all add: defs)
    then show ?thesis by (intro failed[of "ErrWrap ''billing: scan checkout'' ErrDB"]) (simp_all add: ErrCheckoutNotFound_def)
  next
    case False
    show ?thesis
    proof (cases "List.find ?P (candidate_checkouts d)")
      case None
      then have none: "\<forall>k \<in> set (candidate_checkouts d). \<not> ?P k" by (simp add: find_None_iff)
      then have "update_where ?P (resolved now status s e) (candidate_checkouts d) = candidate_checkouts d"
        by (simp add: update_where_none)
      then have "x = Inl ErrCheckoutNotFound" "d' = d" using assms fault False None find by (simp_all add: defs)
      then show ?thesis using none by (intro missing) simp_all
    next
      case (Some k)
      then have "x = Inr (resolved now status s e k)"
        "d' = d\<lparr>candidate_checkouts := update_where ?P (resolved now status s e) (candidate_checkouts d)\<rparr>"
        using assms fault False find by (simp_all add: defs Let_def)
      then show ?thesis using find_SomeD[OF Some] by (intro found[of k]) simp_all
    qed
  qed
qed

lemma ActivateSubscription_after:
  assumes "k \<in> set (candidate_checkouts d)" and "\<not> IsOneTimeProduct (co_PlanID k)"
  shows "bill_ok d (tables_after (ActivateSubscription now (co_CandidateID k) s p) (d, fs))"
proof -
  have "keeps_owner d c (activated now s p c)" if "needs_activation (co_CandidateID k) s c" for c
    using that assms by (auto simp: keeps_owner_def pays_for_def needs_activation_def activated_def list_ex_iff)
  then have "bill_ok d (tables_after (gorm_updates now (needs_activation (co_CandidateID k) s) (activated now s p)) (d, fs))" for fs
    by (intro gorm_updates_after)
  moreover have "preserves bill_ok (sql_bind (sql_try (sync_caps now (co_CandidateID k) (planCaps p))) (\<lambda>_. sql_return (n > 0)))" for n :: int
    by (intro bp.preserves_rules sync_caps_ok)
  ultimately show ?thesis unfolding ActivateSubscription_def
    by (intro bp.after_bind) (metis preservesD tables_after_run fst_conv)
qed

text \<open>What one-time fulfilment may do: it leaves the subscription state alone.\<close>

definition fulfils :: "fulfiller option \<Rightarrow> bool" where
  "fulfils oneTime \<longleftrightarrow> (\<forall>f a b c. oneTime = Some f \<longrightarrow> preserves bill_ok (f a b c))"

text \<open>The fulfilment of the CV report does: it writes the score columns of one profile.\<close>

lemma FulfillOneTime_rel:
  assumes "sql_preorder R" and "\<And>d i now rep. R d (set_profiles (\<lambda>c. cp_ID c = i) (scored now rep) d)"
  shows "preserves R (FulfillOneTime ad now a b c)"
proof -
  note rules = sql_preorder.preserves_return[OF assms(1)] sql_preorder.preserves_raise[OF assms(1)] sql_preorder.preserves_bind[OF assms(1)]
    sql_preorder.preserves_if[OF assms(1)] sql_preorder.preserves_option[OF assms(1)] sql_preorder.preserves_try[OF assms(1)]
    sql_preorder.preserves_query[OF assms(1)] sql_preorder.preserves_exec[OF assms(1)]
  have read: "preserves R (read_profile i x g)" for i and x :: 'z and g unfolding read_profile_def by (intro rules)
  have cv: "preserves R (loadCVForScore ad i)" for i
    unfolding loadCVForScore_def Let_def split_beta by (intro rules read)
  show ?thesis unfolding FulfillOneTime_def email_report_def Let_def split_beta by (intro rules read cv assms(2))
qed

lemma FulfillOneTime_fulfils: "fulfils (Some (FulfillOneTime ad now))"
proof -
  have "bill_ok d (set_profiles (\<lambda>c. cp_ID c = i) (scored now rep) d)" for d i now rep
    by (rule set_profiles_ok) (auto simp: keeps_owner_def scored_def)
  then show ?thesis unfolding fulfils_def using FulfillOneTime_rel[OF bp.sql_preorder_axioms] by blast
qed

lemma Activate_ok:
  assumes "fulfils oneTime"
  shows "preserves bill_ok (Activate now oneTime i status s e)"
proof (cases "status \<in> {StatusPaid, StatusFailed}")
  case True
  have "bill_ok d (tables_after (Activate now oneTime i status s e) (d, fs))" for d fs
    unfolding Activate_def using True
  proof (simp only: not_True_eq_False not_not if_False, intro bp.after_try_bind conjI)
    fix x d' fs'
    assume run: "Checkouts_UpdateStatus now i status s e (d, fs) = (x, (d', fs'))"
    then show "bill_ok d d'" by (cases rule: Checkouts_UpdateStatus_run) (simp_all add: bp.R_refl resolve_row_ok)
    from run show "bill_ok d' (tables_after (case x of
          Inl e \<Rightarrow> if errors_Is e ErrCheckoutNotFound then sql_return () else sql_raise (ErrWrap ''billing: activate update status'' e)
        | Inr row \<Rightarrow>
            if status \<noteq> StatusPaid then sql_return ()
            else if IsOneTimeProduct (co_PlanID row)
            then (case oneTime of None \<Rightarrow> sql_return ()
                  | Some fulfil \<Rightarrow> sql_wrap ''billing: one-time fulfill'' (fulfil (co_CandidateID row) (co_PlanID row) i))
            else void (sql_wrap ''billing: activate subscription'' (ActivateSubscription now (co_CandidateID row)
              (if s = [] then co_SubscriptionID row else s) (co_PlanID row)))) (d', fs'))"
    proof (cases rule: Checkouts_UpdateStatus_run)
      case (found k)
      have "resolved now status s e k \<in> set (candidate_checkouts d')"
        using found(1,2,4) by (force simp: set_update_where)
      from ActivateSubscription_after[OF this] show ?thesis
        using assms found(3)
        by (auto simp: fulfils_def void_def bp.after_return intro!: preservesD[of bill_ok] bp.preserves_wrap split: option.splits)
    qed (auto simp: bp.after_return bp.after_raise)
  qed
  then show ?thesis by (simp add: preserves_def)
qed (simp add: Activate_def bp.preserves_return)

lemma reconcile_loop_ok: "fulfils oneTime \<Longrightarrow> preserves bill_ok (reconcile_loop now oneTime poll k cs res)"
proof (induction cs arbitrary: k res)
  case (Cons c cs)
  then show ?case
    by (auto simp: reconcile_one_def intro!: bp.preserves_rules Activate_ok)
qed (simp add: bp.preserves_return)

lemma Reconciler_Run_ok: "fulfils oneTime \<Longrightarrow> preserves bill_ok (Reconciler_Run now nowF nowG oneTime poll batch)"
  unfolding Reconciler_Run_def ListPending_def Let_def
  by (intro bp.preserves_rules reconcile_loop_ok FinalizeExpiredCancellations_ok)

section \<open>Handlers\<close>

lemma CheckoutStatusHandler_ok: "fulfils oneTime \<Longrightarrow> preserves bill_ok (CheckoutStatusHandler now oneTime poll c i)"
  unfolding CheckoutStatusHandler_def GetByPromptID_def scanOne_def Let_def
  by (intro bp.preserves_rules Activate_ok)

lemma WebhookHandler_ok: "fulfils oneTime \<Longrightarrow> preserves bill_ok (WebhookHandler now oneTime hmac_hex decode secret header raw)"
  unfolding WebhookHandler_def Let_def by (intro bp.preserves_rules Activate_ok)

lemma CancelHandler_ok: "preserves bill_ok (CancelHandler now c)"
  unfolding CancelHandler_def by (intro bp.preserves_rules ScheduleCancelAtPeriodEnd_ok)

lemma ChangePlanHandler_ok: "preserves bill_ok (ChangePlanHandler now c body)"
  unfolding ChangePlanHandler_def change_plan_def
  by (cases body) (auto intro!: bp.preserves_rules Candidates_GetByID_ok ChangePlan_ok split: option.splits sum.splits)

lemma SubscriptionHandler_ok: "preserves bill_ok (SubscriptionHandler now i)"
  unfolding SubscriptionHandler_def Let_def
  by (auto intro!: bp.preserves_rules ResolveByProfileID_ok on_match_ok split: prod.splits)

lemma catalog_products: "list_all (\<lambda>p. ProductByID (p_ID p) = Some p) (catalog @ oneTimeProducts)"
  by code_simp

lemma catalog_prices: "PlanByID i = Some p \<Longrightarrow> ProductByID (p_ID p) = Some p"
  using catalog_products by (auto simp: PlanByID_def list_all_iff dest: find_SomeD)

lemma ledger_row_priced: "ProductByID (p_ID plan) = Some plan \<Longrightarrow> priced (ledger_row c plan country s res)"
  by (simp add: priced_def ledger_row_def)

lemma checkout_plan_ok: "TrimSpace c \<noteq> [] \<Longrightarrow> preserves bill_ok (checkout_plan now create ip c i plan)"
  unfolding checkout_plan_def Let_def
  by (auto intro!: bp.preserves_rules Checkouts_Create_ok ledger_row_priced dest: catalog_prices split: option.splits sum.splits)
    (simp add: ledger_row_def)


lemma ResolveByProfileID_id:
  assumes "ResolveByProfileID now i (d, fs) = (Inr (Some x), z)"
  shows "cp_ID x \<in> cp_ID ` set (candidate_profiles d)"
proof -
  have ne: "i \<noteq> []" using assms by (auto simp: ResolveByProfileID_def sql_return_def)
  from assms[unfolded ResolveByProfileID_def if_not_P[OF ne]] obtain c z1 where first: "GetByProfileID i (d, fs) = (Inr c, z1)" and rest: "(case c of Some x \<Rightarrow> sql_return (Some x)
        | None \<Rightarrow> sql_bind (GetByID i) (\<lambda>c'. case c' of None \<Rightarrow> sql_return None
            | Some x \<Rightarrow> if TrimSpace (cp_ProfileID x) = []
                then sql_bind (sql_try (gorm_updates now (\<lambda>c. cp_ID c = cp_ID x) (\<lambda>c. c\<lparr>cp_ProfileID := i\<rparr>))) (\<lambda>_.
                     sql_return (Some (x\<lparr>cp_ProfileID := i\<rparr>)))
                else sql_return (Some x))) z1 = (Inr (Some x), z)"
    by (rule sql_bind_InrE)
  obtain d1 fs1 where z1: "z1 = (d1, fs1)" by (cases z1)
  have d1: "d1 = d" using first gorm_first_run(1) z1 by (simp add: GetByProfileID_def)
  show ?thesis
  proof (cases c)
    case (Some y)
    then show ?thesis using first rest gorm_first_run(2) z1 by (fastforce simp: GetByProfileID_def sql_return_def)
  next
    case None
    with rest obtain y z2 where y: "GetByID i z1 = (Inr (Some y), z2)" "cp_ID x = cp_ID y"
      by (auto simp: sql_return_def elim!: sql_bind_InrE split: option.splits if_splits)
    obtain d2 fs2 where "z2 = (d2, fs2)" by (cases z2)
    with y z1 d1 gorm_first_run(2)[of "\<lambda>c. cp_ID c = i" d fs1 "Inr (Some y)" d2 fs2 y] have "y \<in> set (candidate_profiles d)" by (simp add: GetByID_def)
    with y(2) show ?thesis by simp
  qed
qed

lemma CheckoutHandler_ok:
  assumes "TrimSpace i \<noteq> []"
  shows "preserves bill_ok (CheckoutHandler now create ip i body)"
proof -
  have "bill_ok d (tables_after (CheckoutHandler now create ip i body) (d, fs))" if inv: "bill_inv d" for d fs
    unfolding CheckoutHandler_def Let_def
  proof (intro bp.after_try_bind conjI)
    fix x d' fs'
    assume run: "ResolveByProfileID now i (d, fs) = (x, (d', fs'))"
    then show "bill_ok d d'" by (rule preserves_run[OF ResolveByProfileID_ok])
    have "TrimSpace (cp_ID c) \<noteq> []" if "x = Inr (Some c)" for c
      using ResolveByProfileID_id run that inv by (fastforce simp: bill_inv_def list_all_iff)
    then have "preserves bill_ok (checkout_plan now create ip (case case x of Inl e \<Rightarrow> None | Inr c \<Rightarrow> c of None \<Rightarrow> i | Some c \<Rightarrow> if cp_ID c \<noteq> [] then cp_ID c else i) i plan)" for plan
      using assms by (intro checkout_plan_ok) (auto split: option.splits sum.splits)
    then show "bill_ok d' (tables_after (if (case x of Inl e \<Rightarrow> None | Inr c \<Rightarrow> c) \<noteq> None \<and> statusFromCandidate (case x of Inl e \<Rightarrow> None | Inr c \<Rightarrow> c) \<in> {''active'', ''past_due''}
         then sql_return (Problem 409 ''already_subscribed'')
         else case body of ReadFailed \<Rightarrow> sql_return (Problem 400 ''body_read_failed'')
           | BadJSON \<Rightarrow> sql_return (Problem 400 ''invalid_json'')
           | Decoded planID \<Rightarrow> checkout_plan now create ip (case case x of Inl e \<Rightarrow> None | Inr c \<Rightarrow> c of None \<Rightarrow> i | Some c \<Rightarrow> if cp_ID c \<noteq> [] then cp_ID c else i) i planID) (d', fs'))"
      by (cases body) (auto intro: preservesD bp.after_return)
  qed
  then show ?thesis by (auto simp: preserves_def bill_ok_def)
qed

lemma ATSReportCheckoutHandler_ok: "TrimSpace c \<noteq> [] \<Longrightarrow> preserves bill_ok (ATSReportCheckoutHandler now create cv ip c)"
proof -
  assume c: "TrimSpace c \<noteq> []"
  have "ProductByID (p_ID ATSReportProduct) = Some ATSReportProduct"
    using catalog_products by (simp add: ATSReportProduct_def oneTimeProducts_def)
  then have "preserves bill_ok (Checkouts_Create now (ledger_row c ATSReportProduct country [] res))" for country res
    using c by (intro Checkouts_Create_ok ledger_row_priced) (simp_all add: ledger_row_def)
  then show ?thesis unfolding ATSReportCheckoutHandler_def Let_def by (intro bp.preserves_rules)
qed

end
