(* ===== verification/Billing_Properties.thy ===== *)
theory Billing_Properties
  imports Billing_Spec
begin

text \<open>
  Properties of billing: only candidates with a priced checkout are ever paid, activation is
  idempotent, a cancellation takes effect at the end of the paid period, a sweep activates what the
  provider confirms, and the runs in which payment and access part ways.
\<close>

section \<open>Histories\<close>

inductive bill_step :: "productdb \<Rightarrow> productdb \<Rightarrow> bool" where
  checkout: "TrimSpace i \<noteq> [] \<Longrightarrow> bill_step d (tables_after (CheckoutHandler now create ip i body) (d, fs))"
| ats_checkout: "TrimSpace i \<noteq> [] \<Longrightarrow> bill_step d (tables_after (ATSReportCheckoutHandler now create cv ip i) (d, fs))"
| poll: "fulfils oneTime \<Longrightarrow> bill_step d (tables_after (CheckoutStatusHandler now oneTime ask i prompt) (d, fs))"
| webhook: "fulfils oneTime \<Longrightarrow> bill_step d (tables_after (WebhookHandler now oneTime hmac_hex decode secret header raw) (d, fs))"
| reconcile: "fulfils oneTime \<Longrightarrow> bill_step d (tables_after (Reconciler_Run nows nowF nowG oneTime asks batch) (d, fs))"
| cancel: "bill_step d (tables_after (CancelHandler now i) (d, fs))"
| change: "bill_step d (tables_after (ChangePlanHandler now i body) (d, fs))"
| panel: "bill_step d (tables_after (SubscriptionHandler now i) (d, fs))"

lemma bill_step_ok: "bill_step d d' \<Longrightarrow> bill_ok d d'"
  by (induction rule: bill_step.induct)
    (rule preservesD, rule CheckoutHandler_ok ATSReportCheckoutHandler_ok CheckoutStatusHandler_ok WebhookHandler_ok
        Reconciler_Run_ok CancelHandler_ok ChangePlanHandler_ok SubscriptionHandler_ok, assumption?)+

interpretation bs: transition_system bill_step bill_inv
  by unfold_locales (use bill_step_ok in \<open>auto simp: bill_ok_def\<close>)

text \<open>
  C24. Whatever requests, webhooks and sweeps arrive and whatever statements fail, a candidate is
  paid only when a checkout of a subscription plan was recorded for them, and every recorded
  checkout asks for the catalog price of its plan.
\<close>

theorem paid_owns_checkout:
  assumes "bill_step\<^sup>*\<^sup>* d d'" and "distinct (map cp_ID (candidate_profiles d))"
    and "list_all (\<lambda>c. TrimSpace (cp_ID c) \<noteq> [] \<and> cp_Subscription c \<noteq> SubscriptionPaid) (candidate_profiles d)"
    and "candidate_checkouts d = []"
  shows "list_all (\<lambda>c. cp_Subscription c \<noteq> SubscriptionPaid \<or>
        list_ex (\<lambda>k. co_CandidateID k \<in> {cp_ID c, cp_ProfileID c} \<and> \<not> IsOneTimeProduct (co_PlanID k)) (candidate_checkouts d'))
      (candidate_profiles d') \<and>
    list_all (\<lambda>k. map_option (\<lambda>p. (p_USDCents p, p_Currency p)) (ProductByID (co_PlanID k)) = Some (co_AmountCents k, co_Currency k))
      (candidate_checkouts d')"
proof -
  have "bill_inv d" using assms(2-4) by (simp add: bill_inv_def list_all_iff)
  from bs.run_inv[OF assms(1) this] show ?thesis by (simp add: bill_inv_def pays_for_def priced_def list_all_iff)
qed

section \<open>Effects on the profiles\<close>

lemma gorm_updates_run:
  assumes "gorm_updates now P f (d, fs) = (x, (d', fs'))"
  shows "d' = d \<and> (\<exists>e. x = Inl e) \<or> d' = set_profiles (\<lambda>c. live c \<and> P c) (\<lambda>c. (f c)\<lparr>cp_UpdatedAt := now\<rparr>) d \<and> (\<exists>n. x = Inr n)"
  using assms by (auto simp: gorm_updates_def sql_stmt_def split: prod.splits bool.splits)

definition same_profiles :: "productdb \<Rightarrow> productdb \<Rightarrow> bool" where
  "same_profiles d d' \<longleftrightarrow> candidate_profiles d' = candidate_profiles d \<and> candidate_checkouts d' = candidate_checkouts d"

interpretation sp: sql_preorder same_profiles
  by unfold_locales (simp_all add: same_profiles_def)

lemma on_match_same: "preserves same_profiles (on_match m)"
  by (auto simp: preserves_def same_profiles_def tables_after_def on_match_def split: prod.splits)

lemma sync_caps_same: "preserves same_profiles (sync_caps now c caps)"
  unfolding sync_caps_def by (rule on_match_same)

lemma ActivateSubscription_run:
  assumes "ActivateSubscription now c s p (d, fs) = (x, (d', fs'))"
  shows "same_profiles d d' \<and> (\<exists>e. x = Inl e) \<or>
    same_profiles (set_profiles (\<lambda>r. live r \<and> needs_activation c s r) (\<lambda>r. (activated now s p r)\<lparr>cp_UpdatedAt := now\<rparr>) d) d' \<and> (\<exists>b. x = Inr b)"
proof -
  from assms show ?thesis unfolding ActivateSubscription_def
  proof (cases rule: sql_bind_cases)
    case (first e)
    then show ?thesis using gorm_updates_run by (fastforce simp: sp.R_refl)
  next
    case (then_ n z1)
    obtain d1 fs1 where z1: "z1 = (d1, fs1)" by (cases z1)
    have "preserves same_profiles (sql_bind (sql_try (sync_caps now c (planCaps p))) (\<lambda>_. sql_return (n > 0)))"
      by (intro sp.preserves_rules sync_caps_same)
    from preserves_run[OF this] then_(2) z1 have "same_profiles d1 d'" by simp
    moreover have "\<exists>b. x = Inr b" using then_(2) by (auto simp: sql_bind_def sql_try_def sql_return_def split: prod.splits)
    ultimately show ?thesis using gorm_updates_run then_(1) z1 by blast
  qed
qed


lemma UpdateStatus_run:
  assumes "Checkouts_UpdateStatus now p st s e (d, fs) = (x, (d', fs'))"
  shows "d' = d \<and> (\<exists>err. x = Inl err \<and> (errors_Is err ErrCheckoutNotFound \<longrightarrow> List.find (\<lambda>k. co_PromptID k = p) (candidate_checkouts d) = None)) \<or>
    (\<exists>k. List.find (\<lambda>k. co_PromptID k = p) (candidate_checkouts d) = Some k \<and> x = Inr (resolved now st s e k) \<and>
      d' = d\<lparr>candidate_checkouts := update_where (\<lambda>k. co_PromptID k = p) (resolved now st s e) (candidate_checkouts d)\<rparr>)"
proof -
  let ?rows = "update_where (\<lambda>k. co_PromptID k = p) (resolved now st s e) (candidate_checkouts d)"
  have found: "List.find (\<lambda>k. co_PromptID k = p) ?rows = map_option (resolved now st s e) (List.find (\<lambda>k. co_PromptID k = p) (candidate_checkouts d))"
    by (rule find_update_where_same) (simp add: resolved_def)
  have none: "?rows = candidate_checkouts d" if "List.find (\<lambda>k. co_PromptID k = p) (candidate_checkouts d) = None"
    using that by (intro update_where_none) (auto simp: find_None_iff)
  show ?thesis
    using assms found none
    by (cases "List.find (\<lambda>k. co_PromptID k = p) (candidate_checkouts d)")
      (auto simp: Checkouts_UpdateStatus_def scanOne_def sql_simps sql_stmt_def Let_def ErrCheckoutNotFound_def
        split: prod.splits bool.splits sum.splits option.splits)
qed

text \<open>The rows that an activation has settled: activating them again changes nothing.\<close>

definition settled :: "string \<Rightarrow> string \<Rightarrow> productdb \<Rightarrow> bool" where
  "settled c s d \<longleftrightarrow> list_all (\<lambda>r. live r \<longrightarrow> \<not> needs_activation c s r) (candidate_profiles d)"

lemma settled_ledger [simp]: "settled c s (d\<lparr>candidate_checkouts := ks\<rparr>) = settled c s d"
  by (simp add: settled_def)

lemma settled_after_activation:
  assumes "ActivateSubscription now c s p (d, fs) = (Inr b, (d', fs'))"
  shows "settled c s d'"
proof -
  have "same_profiles (set_profiles (\<lambda>r. live r \<and> needs_activation c s r) (\<lambda>r. (activated now s p r)\<lparr>cp_UpdatedAt := now\<rparr>) d) d'"
    using ActivateSubscription_run[OF assms] by auto
  then show ?thesis
    by (auto simp: same_profiles_def settled_def set_profiles_def list_all_iff set_update_where needs_activation_def activated_def)
qed

lemma settled_activation:
  assumes "settled c s d" and "ActivateSubscription now c s p (d, fs) = (x, (d', fs'))"
  shows "candidate_profiles d' = candidate_profiles d"
proof -
  have "update_where (\<lambda>r. live r \<and> needs_activation c s r) f (candidate_profiles d) = candidate_profiles d" for f
    using assms(1) by (intro update_where_none) (auto simp: settled_def list_all_iff)
  then show ?thesis using ActivateSubscription_run[OF assms(2)] by (auto simp: same_profiles_def set_profiles_def)
qed

lemma void_run: "void m z = (x, z') \<Longrightarrow> \<exists>y. m z = (y, z') \<and> (\<forall>u. x = Inr u \<longrightarrow> (\<exists>v. y = Inr v))"
  by (auto simp: void_def sql_bind_def sql_return_def split: prod.splits sum.splits)

lemma wrap_run: "sql_wrap msg m z = (x, z') \<Longrightarrow> \<exists>y. m z = (y, z') \<and> (\<forall>u. x = Inr u \<longrightarrow> y = Inr u)"
  by (auto simp: sql_wrap_def split: prod.splits sum.splits)

definition sub_of :: "string \<Rightarrow> CheckoutRecord \<Rightarrow> string" where
  "sub_of s k = (if s = [] then co_SubscriptionID k else s)"

lemma Activate_run:
  assumes "Activate now oneTime p StatusPaid s e (d, fs) = (x, (d', fs'))"
    and "\<not> list_ex (\<lambda>k. co_PromptID k = p \<and> IsOneTimeProduct (co_PlanID k)) (candidate_checkouts d)"
  shows "d' = d \<and> (x = Inr () \<longrightarrow> List.find (\<lambda>k. co_PromptID k = p) (candidate_checkouts d) = None) \<or>
    (\<exists>k d1 fs1 y. List.find (\<lambda>k. co_PromptID k = p) (candidate_checkouts d) = Some k \<and>
      d1 = d\<lparr>candidate_checkouts := update_where (\<lambda>k. co_PromptID k = p) (resolved now StatusPaid s e) (candidate_checkouts d)\<rparr> \<and>
      ActivateSubscription now (co_CandidateID k) (sub_of s k) (co_PlanID k) (d1, fs1) = (y, (d', fs')) \<and> (x = Inr () \<longrightarrow> (\<exists>b. y = Inr b)))"
proof -
  obtain u d1 fs1 where u: "Checkouts_UpdateStatus now p StatusPaid s e (d, fs) = (u, (d1, fs1))" by (metis prod.collapse)
  show ?thesis
    using UpdateStatus_run[OF u]
  proof (elim disjE exE conjE)
    fix err assume err: "d1 = d" "u = Inl err" "errors_Is err ErrCheckoutNotFound \<longrightarrow> List.find (\<lambda>k. co_PromptID k = p) (candidate_checkouts d) = None"
    then show ?thesis using assms(1) u by (auto simp: Activate_def sql_simps split: if_splits)
  next
    fix k assume k: "List.find (\<lambda>k. co_PromptID k = p) (candidate_checkouts d) = Some k" "u = Inr (resolved now StatusPaid s e k)"
      "d1 = d\<lparr>candidate_checkouts := update_where (\<lambda>k. co_PromptID k = p) (resolved now StatusPaid s e) (candidate_checkouts d)\<rparr>"
    have "k \<in> set (candidate_checkouts d)" "co_PromptID k = p" using k(1) by (auto simp: find_Some_iff)
    then have "\<not> IsOneTimeProduct (co_PlanID k)" using assms(2) by (auto simp: list_ex_iff)
    then have "void (sql_wrap ''billing: activate subscription'' (ActivateSubscription now (co_CandidateID k) (sub_of s k) (co_PlanID k))) (d1, fs1)
        = (x, (d', fs'))"
      using assms(1) u k(2) by (auto simp: Activate_def sql_bind_apply sql_try_apply resolved_def sub_of_def)
    from void_run[OF this] obtain y where y: "sql_wrap ''billing: activate subscription'' (ActivateSubscription now (co_CandidateID k) (sub_of s k)
        (co_PlanID k)) (d1, fs1) = (y, (d', fs'))" "x = Inr () \<longrightarrow> (\<exists>b. y = Inr b)" by auto
    from wrap_run[OF y(1)] obtain w where "ActivateSubscription now (co_CandidateID k) (sub_of s k) (co_PlanID k) (d1, fs1) = (w, (d', fs'))"
      "\<forall>u. y = Inr u \<longrightarrow> w = Inr u" by auto
    then show ?thesis by (intro disjI2 exI[of _ k] exI[of _ d1] exI[of _ fs1] exI[of _ w] conjI) (use k y in auto)
  qed
qed

text \<open>
  A payment confirmation that arrives again, from the webhook, the status poll or the
  reconciler, changes no candidate once an activation of the checkout has succeeded: the paid
  period is not started twice.
\<close>

theorem activate_idempotent:
  assumes "Activate now oneTime p StatusPaid s e (d, fs) = (Inr (), (d1, fs1))"
    and "\<not> list_ex (\<lambda>k. co_PromptID k = p \<and> IsOneTimeProduct (co_PlanID k)) (candidate_checkouts d)"
    and "Activate now' oneTime p StatusPaid s e' (d1, gs) = (x, (d2, gs'))"
  shows "candidate_profiles d2 = candidate_profiles d1"
  using Activate_run[OF assms(1,2)]
proof (elim disjE exE conjE)
  assume "d1 = d" "Inr () = Inr () \<longrightarrow> List.find (\<lambda>k. co_PromptID k = p) (candidate_checkouts d) = None"
  then show ?thesis using Activate_run[OF assms(3)] assms(2) by auto
next
  fix k d' fs' y
  assume k: "List.find (\<lambda>k. co_PromptID k = p) (candidate_checkouts d) = Some k"
    and d': "d' = d\<lparr>candidate_checkouts := update_where (\<lambda>k. co_PromptID k = p) (resolved now StatusPaid s e) (candidate_checkouts d)\<rparr>"
    and act: "ActivateSubscription now (co_CandidateID k) (sub_of s k) (co_PlanID k) (d', fs') = (y, (d1, fs1))"
    and "Inr () = Inr () \<longrightarrow> (\<exists>b. y = Inr b)"
  then have st: "settled (co_CandidateID k) (sub_of s k) d1" using settled_after_activation by blast
  have rows: "candidate_checkouts d1 = candidate_checkouts d'"
    using ActivateSubscription_run[OF act] by (auto simp: same_profiles_def set_profiles_def)
  have find1: "List.find (\<lambda>k. co_PromptID k = p) (candidate_checkouts d1) = Some (resolved now StatusPaid s e k)"
    using find_update_where_same[of "\<lambda>k. co_PromptID k = p" "resolved now StatusPaid s e" "candidate_checkouts d"] k
    by (simp add: rows d' resolved_def)
  have "\<not> list_ex (\<lambda>k. co_PromptID k = p \<and> IsOneTimeProduct (co_PlanID k)) (candidate_checkouts d1)"
    using assms(2) by (auto simp: rows d' list_ex_iff row_simps resolved_def)
  from Activate_run[OF assms(3) this] show ?thesis
    using st by (auto simp: find1 resolved_def sub_of_def dest!: settled_activation[rotated] split: if_splits)
qed

section \<open>The row of a candidate\<close>

definition keeps :: "('s \<Rightarrow> bool) \<Rightarrow> 's \<Rightarrow> 's \<Rightarrow> bool" where
  "keeps H d d' \<longleftrightarrow> (H d \<longrightarrow> H d')"

interpretation kp: sql_preorder "keeps H" for H :: "productdb \<Rightarrow> bool"
  by unfold_locales (auto simp: keeps_def)

definition row_is :: "string \<Rightarrow> (CandidateProfile \<Rightarrow> bool) \<Rightarrow> productdb \<Rightarrow> bool" where
  "row_is i Q d \<longleftrightarrow> distinct (map cp_ID (candidate_profiles d)) \<and> (\<exists>c\<in>set (candidate_profiles d). cp_ID c = i \<and> live c \<and> Q c)"

lemma row_is_find:
  assumes "row_is i Q d"
  shows "\<exists>c. List.find (\<lambda>c. cp_ID c = i) (candidate_profiles d) = Some c \<and> live c \<and> Q c"
  using assms distinct_key_find[of cp_ID] by (fastforce simp: row_is_def)

lemma row_is_same: "same_profiles d d' \<Longrightarrow> row_is i Q d' = row_is i Q d"
  by (simp add: row_is_def same_profiles_def)

lemma row_is_ledger [simp]: "row_is i Q (d\<lparr>candidate_checkouts := ks\<rparr>) = row_is i Q d"
  by (simp add: row_is_def)

lemma row_is_set:
  assumes "row_is i Q d" and "\<And>c. cp_ID (f c) = cp_ID c \<and> cp_DeletedAt (f c) = cp_DeletedAt c"
    and "\<And>c. c \<in> set (candidate_profiles d) \<Longrightarrow> cp_ID c = i \<Longrightarrow> live c \<Longrightarrow> Q c \<Longrightarrow> if P c then Q' (f c) else Q' c"
  shows "row_is i Q' (set_profiles P f d)"
proof -
  obtain c where c: "c \<in> set (candidate_profiles d)" "cp_ID c = i" "live c" "Q c" using assms(1) by (auto simp: row_is_def)
  have "map cp_ID (update_where P f (candidate_profiles d)) = map cp_ID (candidate_profiles d)"
    using assms(2) by (intro map_update_where) simp
  moreover have "\<exists>c\<in>set (candidate_profiles d). cp_ID (if P c then f c else c) = i \<and> live (if P c then f c else c) \<and> Q' (if P c then f c else c)"
    using c assms(2)[of c] assms(3)[OF c] by (intro bexI[of _ c]) (auto simp: live_def)
  ultimately show ?thesis using assms(1) by (simp add: row_is_def set_profiles_def bex_update_where)
qed

lemma gorm_updates_after_keeps:
  assumes "row_is i Q d \<Longrightarrow> row_is i Q (set_profiles (\<lambda>c. live c \<and> P c) (\<lambda>c. (f c)\<lparr>cp_UpdatedAt := now\<rparr>) d)"
  shows "keeps (row_is i Q) d (tables_after (gorm_updates now P f) (d, fs))"
  using assms by (auto simp: keeps_def gorm_updates_def tables_after_def sql_stmt_def split: prod.splits bool.splits)

definition unstamped :: "(CandidateProfile \<Rightarrow> bool) \<Rightarrow> bool" where
  "unstamped Q \<longleftrightarrow> (\<forall>c t. Q (c\<lparr>cp_UpdatedAt := t\<rparr>) = Q c)"

lemma gorm_updates_keeps:
  assumes "unstamped Q" and "\<And>c. cp_ID (f c) = cp_ID c \<and> cp_DeletedAt (f c) = cp_DeletedAt c"
    and "\<And>c. cp_ID c = i \<Longrightarrow> P c \<Longrightarrow> Q c \<Longrightarrow> Q (f c)"
  shows "preserves (keeps (row_is i Q)) (gorm_updates now P f)"
proof -
  have "keeps (row_is i Q) d (tables_after (gorm_updates now P f) (d, fs))" for d fs
    by (rule gorm_updates_after_keeps, erule row_is_set) (use assms in \<open>auto simp: unstamped_def\<close>)
  then show ?thesis by (simp add: preserves_def)
qed

lemma on_match_keeps: "preserves (keeps (row_is i Q)) (on_match m)"
  using on_match_same row_is_same by (fastforce simp: preserves_def keeps_def)

lemma set_gorm_limit: "set (gorm_limit n xs) \<subseteq> set xs"
  by (auto simp: gorm_limit_def dest: in_set_takeD)

lemma FinalizeExpiredPaidAccess_keeps:
  assumes "unstamped Q" and "\<And>c. Q c \<Longrightarrow> \<not> expired_access now c"
  shows "preserves (keeps (row_is i Q)) (FinalizeExpiredPaidAccess now limit)"
  unfolding FinalizeExpiredPaidAccess_def Let_def
proof (rule kp.preserves_query_bind)
  fix d :: productdb and fs
  let ?ids = "map cp_ID (gorm_limit (if limit \<le> 0 then 100 else limit) (filter (\<lambda>c. live c \<and> expired_access now c) (candidate_profiles d)))"
  have "row_is i Q (set_profiles (\<lambda>c. live c \<and> cp_ID c \<in> set ?ids) (\<lambda>c. (demoted c)\<lparr>cp_UpdatedAt := now\<rparr>) d)" if H: "row_is i Q d"
  proof (rule row_is_set[OF H])
    fix c assume c: "c \<in> set (candidate_profiles d)" "cp_ID c = i" "live c" "Q c"
    have "cp_ID c \<notin> set ?ids"
    proof
      assume "cp_ID c \<in> set ?ids"
      then obtain x where "x \<in> set (candidate_profiles d)" "expired_access now x" "cp_ID x = cp_ID c"
        using set_gorm_limit by fastforce
      then show False using c H assms(2) distinct_key_eq[of cp_ID "candidate_profiles d" x c] by (auto simp: row_is_def)
    qed
    then show "if live c \<and> cp_ID c \<in> set ?ids then Q ((demoted c)\<lparr>cp_UpdatedAt := now\<rparr>) else Q c" using c(4) by simp
  qed (simp add: demoted_def)
  then have upd: "keeps (row_is i Q) d (tables_after (gorm_updates now (\<lambda>c. cp_ID c \<in> set ?ids) demoted) (d, fs))"
    by (rule gorm_updates_after_keeps)
  show "keeps (row_is i Q) d (tables_after (if ?ids = [] then sql_return 0
      else sql_bind (gorm_updates now (\<lambda>c. cp_ID c \<in> set ?ids) demoted) (\<lambda>n.
           sql_bind (sql_try (on_match (sql_exec (\<lambda>d. d\<lparr>candidate_match_indexes := update_where (\<lambda>i. ci_CandidateID i \<in> set ?ids)
             (\<lambda>i. i\<lparr>ci_DailyCap := 1, ci_WeeklyCap := 3, ci_UpdatedAt := now\<rparr>) (candidate_match_indexes d)\<rparr>)))) (\<lambda>_.
           sql_return n))) (d, fs))"
  proof (cases "?ids = []")
    case False
    show ?thesis
      unfolding if_not_P[OF False]
    proof (rule kp.after_bind)
      fix x s' fs' assume run: "gorm_updates now (\<lambda>c. cp_ID c \<in> set ?ids) demoted (d, fs) = (x, (s', fs'))"
      then have "tables_after (gorm_updates now (\<lambda>c. cp_ID c \<in> set ?ids) demoted) (d, fs) = s'" by (simp add: tables_after_def)
      then show "keeps (row_is i Q) d s' \<and> (\<forall>y. x = Inr y \<longrightarrow> keeps (row_is i Q) s' (tables_after
          (sql_bind (sql_try (on_match (sql_exec (\<lambda>d. d\<lparr>candidate_match_indexes := update_where (\<lambda>i. ci_CandidateID i \<in> set ?ids)
             (\<lambda>i. i\<lparr>ci_DailyCap := 1, ci_WeeklyCap := 3, ci_UpdatedAt := now\<rparr>) (candidate_match_indexes d)\<rparr>)))) (\<lambda>_. sql_return y)) (s', fs')))"
        using upd by (auto intro!: preservesD[of "keeps (row_is i Q)"] on_match_keeps)
    qed
  qed (simp only: if_True kp.after_return simp_thms)
qed

lemma FinalizeExpiredCancellations_keeps:
  assumes "unstamped Q" and "\<And>c. Q c \<Longrightarrow> \<not> expired_cancel now c" and "\<And>c. Q c \<Longrightarrow> \<not> expired_access nowB c"
  shows "preserves (keeps (row_is i Q)) (FinalizeExpiredCancellations now nowB limit)"
  unfolding FinalizeExpiredCancellations_def Let_def
  by (intro kp.preserves_rules FinalizeExpiredPaidAccess_keeps gorm_updates_keeps)
    (use assms in \<open>auto simp: cancelled_def\<close>)

section \<open>Cancellation\<close>

lemma cancel_end_later: "now < cancel_end now c"
  by (simp add: cancel_end_def AddMonth_later split: option.splits)

definition cancelling :: "time \<Rightarrow> CandidateProfile \<Rightarrow> bool" where
  "cancelling e c \<longleftrightarrow> cp_Subscription c = SubscriptionPaid \<and> cp_CancelAtPeriodEnd c \<and> cp_CurrentPeriodEnd c = Some e"

lemma gorm_updates_InrD:
  assumes "gorm_updates now P f (d, fs) = (Inr n, (d', fs'))"
  shows "d' = set_profiles (\<lambda>c. live c \<and> P c) (\<lambda>c. (f c)\<lparr>cp_UpdatedAt := now\<rparr>) d"
  using gorm_updates_run[OF assms] by auto

lemma GetByID_InrD:
  assumes "GetByID i (d, fs) = (Inr (Some c), z)"
  shows "c \<in> set (candidate_profiles d) \<and> cp_ID c = i \<and> live c \<and> fst z = d"
proof -
  have "gorm_first (\<lambda>c. cp_ID c = i) = gorm_first (\<lambda>c. live c \<and> cp_ID c = i)" by (simp add: gorm_first_def)
  then have "gorm_first (\<lambda>c. live c \<and> cp_ID c = i) (d, fs) = (Inr (Some c), (fst z, snd z))" using assms by (simp add: GetByID_def)
  from gorm_first_run(1)[OF this] gorm_first_run(2)[OF this] show ?thesis by simp
qed

lemma CancelHandler_reply:
  assumes "CancelHandler now i (d, fs) = (Inr (CancelReply e), (d', fs'))" and "distinct (map cp_ID (candidate_profiles d))"
  shows "now < e \<and> row_is i (cancelling e) d'"
proof -
  have "ScheduleCancelAtPeriodEnd now i (d, fs) = (Inr e, (d', fs'))"
    using assms(1) by (auto simp: CancelHandler_def sql_simps intro!: prod_eqI split: prod.splits sum.splits if_splits)
  from this[unfolded ScheduleCancelAtPeriodEnd_def] obtain cand z1 where get: "GetByID i (d, fs) = (Inr cand, z1)"
    and rest: "(case cand of None \<Rightarrow> sql_raise (ErrNew ''nil pointer dereference'')
     | Some c \<Rightarrow> if cp_Subscription c \<noteq> SubscriptionPaid then sql_raise (ErrNew ''no active paid subscription'')
         else sql_bind (gorm_updates now (\<lambda>r. cp_ID r = i) (\<lambda>r. r\<lparr>cp_CancelAtPeriodEnd := True, cp_CurrentPeriodEnd := Some (cancel_end now c)\<rparr>)) (\<lambda>_.
              sql_return (cancel_end now c))) z1 = (Inr e, (d', fs'))"
    by (rule sql_bind_InrE)
  obtain c where c: "cand = Some c" using rest by (cases cand) (auto simp: sql_raise_def)
  obtain fs1 where z1: "z1 = (d, fs1)" and row: "c \<in> set (candidate_profiles d)" "cp_ID c = i" "live c"
    using GetByID_InrD[of i d fs c z1] get c by (metis prod.collapse)
  have paid: "cp_Subscription c = SubscriptionPaid" using rest c by (auto simp: sql_raise_def split: if_splits)
  then obtain n where "gorm_updates now (\<lambda>r. cp_ID r = i) (\<lambda>r. r\<lparr>cp_CancelAtPeriodEnd := True, cp_CurrentPeriodEnd := Some (cancel_end now c)\<rparr>) (d, fs1)
      = (Inr n, (d', fs'))" and e: "e = cancel_end now c"
    using rest c z1 by (auto simp: sql_return_def elim!: sql_bind_InrE)
  then have d': "d' = set_profiles (\<lambda>r. live r \<and> cp_ID r = i)
      (\<lambda>r. r\<lparr>cp_CancelAtPeriodEnd := True, cp_CurrentPeriodEnd := Some (cancel_end now c), cp_UpdatedAt := now\<rparr>) d"
    using gorm_updates_InrD by blast
  have "row_is i (\<lambda>r. r = c) d" using assms(2) row by (auto simp: row_is_def)
  then have "row_is i (cancelling e) d'"
    unfolding d' by (rule row_is_set) (use paid e row in \<open>auto simp: cancelling_def\<close>)
  with e show ?thesis by (simp add: cancel_end_later)
qed

lemma tables_after_bind_Inr: "m z = (Inr x, z') \<Longrightarrow> tables_after (sql_bind m k) z = tables_after (k x) z'"
  by (simp add: tables_after_def sql_bind_def)

lemma gorm_updates_works:
  "gorm_updates now P f (d, []) = (Inr (int (length (filter (\<lambda>c. live c \<and> P c) (candidate_profiles d)))),
     (set_profiles (\<lambda>c. live c \<and> P c) (\<lambda>c. (f c)\<lparr>cp_UpdatedAt := now\<rparr>) d, []))"
  by (simp add: gorm_updates_def sql_simps)

lemma tables_after_updates:
  "tables_after (sql_bind (gorm_updates now P f) k) (d, []) =
     tables_after (k (int (length (filter (\<lambda>c. live c \<and> P c) (candidate_profiles d)))))
       (set_profiles (\<lambda>c. live c \<and> P c) (\<lambda>c. (f c)\<lparr>cp_UpdatedAt := now\<rparr>) d, [])"
  by (rule tables_after_bind_Inr) (rule gorm_updates_works)

lemma cancelled_after_sweep:
  assumes "row_is i (cancelling e) d" and "e < t"
  shows "row_is i (\<lambda>c. cp_Subscription c = SubscriptionCancelled) (tables_after (FinalizeExpiredCancellations t t' limit) (d, []))"
proof -
  let ?Q = "\<lambda>c. cp_Subscription c = SubscriptionCancelled"
  let ?d = "set_profiles (\<lambda>c. live c \<and> expired_cancel t c) (\<lambda>c. (cancelled c)\<lparr>cp_UpdatedAt := t\<rparr>) d"
  have "row_is i ?Q ?d" using assms(1)
    by (rule row_is_set) (use assms(2) in \<open>auto simp: cancelling_def cancelled_def expired_cancel_def period_over_def\<close>)
  moreover have "preserves (keeps (row_is i ?Q)) (FinalizeExpiredPaidAccess t' l)" for l
    by (rule FinalizeExpiredPaidAccess_keeps) (auto simp: unstamped_def expired_access_def)
  ultimately have "row_is i ?Q (tables_after (FinalizeExpiredPaidAccess t' l) (?d, []))" for l
    using preservesD by (fastforce simp: keeps_def)
  then show ?thesis
    by (simp add: FinalizeExpiredCancellations_def Let_def tables_after_updates)
qed

text \<open>
  A cancellation answers with a later instant, the end of the paid period.  No sweep up to that
  instant takes the access away, whatever statements fail, and the first sweep after it that
  reaches the database does.
\<close>

theorem cancel_until_period_end:
  assumes "CancelHandler now i (d, fs) = (Inr (CancelReply e), (d', fs'))" and "distinct (map cp_ID (candidate_profiles d))"
  shows "now < e \<and> map_option cp_Subscription (List.find (\<lambda>c. cp_ID c = i) (candidate_profiles
      (if t \<le> e then tables_after (FinalizeExpiredCancellations t t' limit) (d', gs) else tables_after (FinalizeExpiredCancellations t t' limit) (d', []))))
    = Some (if t \<le> e then SubscriptionPaid else SubscriptionCancelled)"
proof (cases "t \<le> e")
  case True
  have "preserves (keeps (row_is i (cancelling e))) (FinalizeExpiredCancellations t t' limit)"
    by (rule FinalizeExpiredCancellations_keeps)
      (use True in \<open>auto simp: unstamped_def cancelling_def expired_cancel_def expired_access_def period_over_def\<close>)
  with CancelHandler_reply[OF assms] have "row_is i (cancelling e) (tables_after (FinalizeExpiredCancellations t t' limit) (d', gs))"
    using preservesD by (fastforce simp: keeps_def)
  from row_is_find[OF this] show ?thesis using True CancelHandler_reply[OF assms] by (auto simp: cancelling_def)
next
  case False
  then show ?thesis using CancelHandler_reply[OF assms] row_is_find[OF cancelled_after_sweep, of i e d' t] by fastforce
qed

end
