(* ===== verification/Billing_Reconcile.thy ===== *)
theory Billing_Reconcile
  imports Billing_Properties
begin

text \<open>
  The reconciler: a sweep of a working database activates what the provider confirms.  Then the
  concrete runs in which payment and access part ways.
\<close>

section \<open>Reconciliation\<close>

text \<open>
  The account columns of a profile: all but the free columns, where the CV score goes, and the
  time stamp.  A fulfiller that \<open>scores_only\<close> leaves accounts and ledger alone; a \<open>quiet\<close> one does so and meets no
  failing statement on a working database.
\<close>

definition account :: "CandidateProfile \<Rightarrow> CandidateProfile" where
  "account c = c\<lparr>cp_Other := Map.empty, cp_UpdatedAt := 0\<rparr>"

definition same_accounts :: "productdb \<Rightarrow> productdb \<Rightarrow> bool" where
  "same_accounts d d' \<longleftrightarrow> map account (candidate_profiles d') = map account (candidate_profiles d) \<and> candidate_checkouts d' = candidate_checkouts d"

interpretation sa: sql_preorder same_accounts
  by unfold_locales (simp_all add: same_accounts_def)

definition scores_only :: "fulfiller option \<Rightarrow> bool" where
  "scores_only oneTime \<longleftrightarrow> (\<forall>f a b c. oneTime = Some f \<longrightarrow> preserves same_accounts (f a b c))"

definition quiet :: "fulfiller option \<Rightarrow> bool" where
  "quiet oneTime \<longleftrightarrow> scores_only oneTime \<and> (\<forall>f a b c. oneTime = Some f \<longrightarrow> steady (f a b c))"

lemma quiet_None [simp]: "scores_only None" "quiet None"
  by (simp_all add: quiet_def scores_only_def)

lemma same_profiles_accounts: "same_profiles d d' \<Longrightarrow> same_accounts d d'"
  by (simp add: same_profiles_def same_accounts_def)

text \<open>A predicate on the account columns.\<close>

definition of_account :: "(CandidateProfile \<Rightarrow> bool) \<Rightarrow> bool" where
  "of_account Q \<longleftrightarrow> (\<forall>c. Q (account c) = Q c)"

lemma row_is_account: "of_account Q \<Longrightarrow> row_is i Q d \<longleftrightarrow> row_is i Q (d\<lparr>candidate_profiles := map account (candidate_profiles d)\<rparr>)"
  by (simp add: row_is_def of_account_def live_def account_def comp_def)

lemma row_is_accounts:
  assumes "same_accounts d d'" and "of_account Q"
  shows "row_is i Q d' = row_is i Q d"
  unfolding row_is_account[OF assms(2), of i d] row_is_account[OF assms(2), of i d'] using assms(1) by (simp add: row_is_def same_accounts_def)

lemma steady_try: "steady m \<Longrightarrow> steady (sql_try m)"
  by (simp add: steady_def sql_try_apply)

lemma steady_sum: "(\<And>e. steady (n e)) \<Longrightarrow> (\<And>x. steady (m x)) \<Longrightarrow> steady (case v of Inl e \<Rightarrow> n e | Inr x \<Rightarrow> m x)"
  by (cases v) auto

lemma steady_option: "steady n \<Longrightarrow> (\<And>x. v = Some x \<Longrightarrow> steady (m x)) \<Longrightarrow> steady (case v of None \<Rightarrow> n | Some x \<Rightarrow> m x)"
  by (cases v) auto

lemma steady_on_match: "steady m \<Longrightarrow> steady (on_match m)"
  by (auto simp: steady_def on_match_def split: prod.splits) (metis snd_conv)

lemma steady_updates: "steady (gorm_updates now P f)"
  unfolding gorm_updates_def by (rule steady_stmt)

lemma steady_ActivateSubscription: "steady (ActivateSubscription now c s p)"
  unfolding ActivateSubscription_def sync_caps_def by (intro steady_rules steady_updates steady_try steady_on_match)

lemma steady_Activate: "quiet oneTime \<Longrightarrow> steady (Activate now oneTime p st s e)"
  unfolding Activate_def Checkouts_UpdateStatus_def scanOne_def void_def
  by (intro steady_rules steady_try steady_sum steady_option steady_ActivateSubscription) (auto simp: quiet_def)

lemma FulfillOneTime_quiet: "quiet (Some (FulfillOneTime ad now))"
proof -
  have "same_accounts d (set_profiles (\<lambda>c. cp_ID c = i) (scored now rep) d)" for d i now rep
    by (simp add: same_accounts_def set_profiles_def update_where_def account_def scored_def)
  then have "preserves same_accounts (FulfillOneTime ad now a b c)" for a b c by (rule FulfillOneTime_rel[OF sa.sql_preorder_axioms])
  moreover have read: "steady (read_profile i x g)" for i and x :: 'z and g
    unfolding read_profile_def by (intro steady_rules steady_try)
  have "steady (FulfillOneTime ad now a b c)" for a b c
    unfolding FulfillOneTime_def loadCVForScore_def email_report_def Let_def split_beta
    by (intro steady_rules steady_try steady_option read)
  ultimately show ?thesis by (simp add: quiet_def scores_only_def)
qed

lemma steady_reconcile_one: "quiet oneTime \<Longrightarrow> steady (reconcile_one now oneTime a c res)"
  unfolding reconcile_one_def by (intro steady_rules steady_try steady_sum steady_Activate)

section \<open>What a sweep keeps\<close>

lemma UpdateStatus_keeps:
  assumes "\<And>d. H d \<Longrightarrow> H (d\<lparr>candidate_checkouts := update_where (\<lambda>k. co_PromptID k = q) (resolved now st s e) (candidate_checkouts d)\<rparr>)"
  shows "preserves (keeps H) (Checkouts_UpdateStatus now q st s e)"
  unfolding Checkouts_UpdateStatus_def scanOne_def
  by (intro kp.preserves_rules kp.preserves_stmt) (use assms in \<open>auto simp: keeps_def Let_def\<close>)

lemma ActivateSubscription_keeps:
  assumes "\<And>d d'. same_profiles d d' \<Longrightarrow> H d \<Longrightarrow> H d'"
    and "\<And>d. H d \<Longrightarrow> H (set_profiles (\<lambda>r. live r \<and> needs_activation c s r) (\<lambda>r. (activated now s p r)\<lparr>cp_UpdatedAt := now\<rparr>) d)"
  shows "preserves (keeps H) (ActivateSubscription now c s p)"
proof -
  have "keeps H d (tables_after (ActivateSubscription now c s p) (d, fs))" for d fs
  proof -
    obtain x d' fs' where run: "ActivateSubscription now c s p (d, fs) = (x, (d', fs'))" by (rule prod_cases3)
    then have "tables_after (ActivateSubscription now c s p) (d, fs) = d'" by (simp add: tables_after_def)
    with ActivateSubscription_run[OF run] assms show ?thesis by (auto simp: keeps_def)
  qed
  then show ?thesis by (simp add: preserves_def)
qed

lemma preserves_option_eq:
  "preserves R n \<Longrightarrow> (\<And>x. v = Some x \<Longrightarrow> preserves R (m x)) \<Longrightarrow> preserves R (case v of None \<Rightarrow> n | Some x \<Rightarrow> m x)"
  by (cases v) auto

lemma Activate_keeps:
  assumes "scores_only oneTime" and same: "\<And>d d'. same_accounts d d' \<Longrightarrow> H d \<Longrightarrow> H d'"
    and "\<And>d q st s e. H d \<Longrightarrow> H (d\<lparr>candidate_checkouts := update_where (\<lambda>k. co_PromptID k = q) (resolved now st s e) (candidate_checkouts d)\<rparr>)"
    and "\<And>d c s p. H d \<Longrightarrow> H (set_profiles (\<lambda>r. live r \<and> needs_activation c s r) (\<lambda>r. (activated now s p r)\<lparr>cp_UpdatedAt := now\<rparr>) d)"
  shows "preserves (keeps H) (Activate now oneTime q st s e)"
proof -
  have "preserves (keeps H) (f a b c)" if "oneTime = Some f" for f a b c
    using assms(1) same that by (fastforce simp: scores_only_def preserves_def keeps_def)
  then show ?thesis
    unfolding Activate_def void_def
    by (intro kp.preserves_return kp.preserves_raise kp.preserves_bind kp.preserves_wrap kp.preserves_if kp.preserves_try kp.preserves_sum
        preserves_option_eq UpdateStatus_keeps ActivateSubscription_keeps) (use assms in \<open>auto dest: same_profiles_accounts\<close>)
qed

lemma reconcile_loop_keeps:
  assumes "\<And>j q st s e. preserves (keeps H) (Activate (now j) oneTime q st s e)"
  shows "preserves (keeps H) (reconcile_loop now oneTime poll j cs res)"
proof (induction cs arbitrary: j res)
  case (Cons c cs)
  then show ?case by (auto simp: reconcile_one_def intro!: kp.preserves_rules assms)
qed (simp add: kp.preserves_return)

section \<open>Entitlement\<close>

definition entitled :: "time \<Rightarrow> CandidateProfile \<Rightarrow> bool" where
  "entitled T c \<longleftrightarrow> cp_Subscription c = SubscriptionPaid \<and> \<not> cp_CancelAtPeriodEnd c \<and>
     (case cp_CurrentPeriodEnd c of None \<Rightarrow> False | Some e \<Rightarrow> T \<le> e)"

definition waiting :: "time \<Rightarrow> CandidateProfile \<Rightarrow> bool" where
  "waiting T c \<longleftrightarrow> cp_Subscription c \<noteq> SubscriptionPaid \<or> entitled T c"

definition owed :: "time \<Rightarrow> string \<Rightarrow> string \<Rightarrow> productdb \<Rightarrow> bool" where
  "owed T i p d \<longleftrightarrow> row_is i (waiting T) d \<and>
     map_option (\<lambda>k. (co_CandidateID k, IsOneTimeProduct (co_PlanID k))) (List.find (\<lambda>k. co_PromptID k = p) (candidate_checkouts d)) = Some (i, False)"

lemma find_resolved:
  "map_option (\<lambda>k. (co_CandidateID k, IsOneTimeProduct (co_PlanID k)))
      (List.find (\<lambda>k. co_PromptID k = p) (update_where (\<lambda>k. co_PromptID k = q) (resolved now st s e) ks))
    = map_option (\<lambda>k. (co_CandidateID k, IsOneTimeProduct (co_PlanID k))) (List.find (\<lambda>k. co_PromptID k = p) ks)"
  by (induction ks) auto

lemma activated_row:
  assumes "T \<le> AddMonth now"
  shows "row_is i (entitled T) d \<Longrightarrow> row_is i (entitled T) (set_profiles (\<lambda>r. live r \<and> needs_activation c s r) (\<lambda>r. (activated now s p r)\<lparr>cp_UpdatedAt := now\<rparr>) d)"
    and "row_is i (waiting T) d \<Longrightarrow> row_is i (waiting T) (set_profiles (\<lambda>r. live r \<and> needs_activation c s r) (\<lambda>r. (activated now s p r)\<lparr>cp_UpdatedAt := now\<rparr>) d)"
    and "row_is i (waiting T) d \<Longrightarrow> row_is i (entitled T) (set_profiles (\<lambda>r. live r \<and> needs_activation i s r) (\<lambda>r. (activated now s p r)\<lparr>cp_UpdatedAt := now\<rparr>) d)"
  by (erule row_is_set; use assms in \<open>auto simp: entitled_def waiting_def activated_def needs_activation_def\<close>)+

lemma of_account_entitled: "of_account (entitled T)" "of_account (waiting T)"
  by (simp_all add: of_account_def account_def entitled_def waiting_def)

lemma Activate_keeps_entitled:
  assumes "scores_only oneTime" and "T \<le> AddMonth now"
  shows "preserves (keeps (row_is i (entitled T))) (Activate now oneTime q st s e)"
  by (rule Activate_keeps[OF assms(1)]) (use assms(2) in \<open>auto simp: row_is_accounts of_account_entitled intro: activated_row\<close>)

lemma Activate_keeps_owed:
  assumes "scores_only oneTime" and "T \<le> AddMonth now"
  shows "preserves (keeps (owed T i p)) (Activate now oneTime q st s e)"
proof (rule Activate_keeps[OF assms(1)])
  fix d d' assume "same_accounts d d'" "owed T i p d"
  moreover from this have "row_is i (waiting T) d' = row_is i (waiting T) d" by (intro row_is_accounts of_account_entitled)
  ultimately show "owed T i p d'" by (simp add: owed_def same_accounts_def)
next
  fix d c s p' assume "owed T i p d"
  then show "owed T i p (set_profiles (\<lambda>r. live r \<and> needs_activation c s r) (\<lambda>r. (activated now s p' r)\<lparr>cp_UpdatedAt := now\<rparr>) d)"
    using activated_row(2)[OF assms(2)] by (simp add: owed_def set_profiles_def[symmetric]) (simp add: set_profiles_def)
qed (simp add: owed_def find_resolved)

section \<open>A sweep\<close>

lemma tables_after_try_bind: "m z = (x, z') \<Longrightarrow> tables_after (sql_bind (sql_try m) k) z = tables_after (k x) z'"
  by (simp add: tables_after_def sql_bind_def sql_try_def)

lemma Activate_works:
  assumes "owed T i p d" and "T \<le> AddMonth now"
  shows "row_is i (entitled T) (tables_after (Activate now oneTime p StatusPaid s e) (d, []))"
proof -
  obtain k where k: "List.find (\<lambda>k. co_PromptID k = p) (candidate_checkouts d) = Some k" "co_CandidateID k = i" "\<not> IsOneTimeProduct (co_PlanID k)"
    using assms(1) by (auto simp: owed_def)
  let ?d = "d\<lparr>candidate_checkouts := update_where (\<lambda>k. co_PromptID k = p) (resolved now StatusPaid s e) (candidate_checkouts d)\<rparr>"
  have "Checkouts_UpdateStatus now p StatusPaid s e (d, []) = (Inr (resolved now StatusPaid s e k), (?d, []))"
    using k(1) find_update_where_same[of "\<lambda>k. co_PromptID k = p" "resolved now StatusPaid s e" "candidate_checkouts d"]
    by (simp add: Checkouts_UpdateStatus_def scanOne_def sql_simps Let_def)
  note upd = tables_after_try_bind[where m = "Checkouts_UpdateStatus now p StatusPaid s e", OF this]
  have act: "tables_after (Activate now oneTime p StatusPaid s e) (d, [])
      = tables_after (ActivateSubscription now i (sub_of s (resolved now StatusPaid s e k)) (co_PlanID k)) (?d, [])"
    using k(2,3) by (simp add: Activate_def upd sub_of_def[symmetric] void_def)
  let ?n = "needs_activation i (sub_of s (resolved now StatusPaid s e k))"
  let ?d1 = "set_profiles (\<lambda>r. live r \<and> ?n r) (\<lambda>r. (activated now (sub_of s (resolved now StatusPaid s e k)) (co_PlanID k) r)\<lparr>cp_UpdatedAt := now\<rparr>) ?d"
  have "row_is i (entitled T) ?d1" using activated_row(3)[OF assms(2), of i ?d] assms(1) by (simp add: owed_def)
  moreover have "row_is i (entitled T) (tables_after (sql_bind (sql_try (sync_caps now i caps)) (\<lambda>_. sql_return b)) (?d1, [])) = row_is i (entitled T) ?d1"
    for caps and b :: bool by (rule row_is_same, rule preservesD) (intro sp.preserves_rules sync_caps_same)
  ultimately show ?thesis by (simp add: act ActivateSubscription_def tables_after_updates del: tables_after_bind_return)
qed

text \<open>The first iteration on the checkout makes its owner entitled, and the others keep it so.\<close>

lemma reconcile_loop_activates:
  assumes "quiet oneTime" and "\<And>j. T \<le> AddMonth (now j)"
    and "\<And>j. \<exists>st. poll j p = Inr st \<and> sr_Status st = StatusPaid"
  shows "owed T i p d \<Longrightarrow> p \<in> co_PromptID ` set cs \<Longrightarrow> row_is i (entitled T) (tables_after (reconcile_loop now oneTime poll j cs res) (d, []))"
proof (induction cs arbitrary: d j res)
  case (Cons c cs)
  have only: "scores_only oneTime" using assms(1) by (simp add: quiet_def)
  let ?one = "reconcile_one (now j) oneTime (poll j (co_PromptID c)) c res"
  obtain x d1 where one: "?one (d, []) = (Inr x, (d1, []))"
  proof -
    obtain x d1 fs1 where run: "?one (d, []) = (x, (d1, fs1))" by (rule prod_cases3)
    have "fs1 = []" using steadyD[OF steady_reconcile_one[OF assms(1)] run] by simp
    moreover have "\<exists>y. x = Inr y" using run
      by (auto simp: reconcile_one_def sql_simps split: sum.splits if_splits)
    ultimately show ?thesis using run that by auto
  qed
  have step: "tables_after (reconcile_loop now oneTime poll j (c # cs) res) (d, []) = tables_after (reconcile_loop now oneTime poll (Suc j) cs x) (d1, [])"
    by (simp add: tables_after_bind_Inr[where m = ?one, OF one])
  show ?case
  proof (cases "co_PromptID c = p")
    case True
    obtain st where st: "poll j p = Inr st" "sr_Status st = StatusPaid" using assms(3) by blast
    have "d1 = tables_after ?one (d, [])" using one by (simp add: tables_after_def)
    then have "row_is i (entitled T) d1"
      using True st Activate_works[OF Cons.prems(1) assms(2)] by (simp add: reconcile_one_def)
    moreover have "preserves (keeps (row_is i (entitled T))) (reconcile_loop now oneTime poll (Suc j) cs x)"
      by (rule reconcile_loop_keeps) (rule Activate_keeps_entitled[OF only assms(2)])
    ultimately show ?thesis unfolding step using preservesD by (fastforce simp: keeps_def)
  next
    case False
    have "preserves (keeps (owed T i p)) ?one"
      unfolding reconcile_one_def by (intro kp.preserves_rules Activate_keeps_owed only assms(2))
    from preserves_run[OF this one] have "owed T i p d1" using Cons.prems(1) by (simp add: keeps_def)
    with False Cons show ?thesis unfolding step by simp
  qed
qed simp

lemma unstamped_entitled: "unstamped (entitled T)"
  by (simp add: unstamped_def entitled_def)

lemma bind_reaches:
  assumes "H (tables_after m z)" and "\<And>y. preserves (keeps H) (k y)"
  shows "H (tables_after (sql_bind m k) z)"
proof -
  obtain x d fs where run: "m z = (x, (d, fs))" by (rule prod_cases3)
  have "H d" using assms(1) run by (simp add: tables_after_def)
  moreover have "keeps H d (tables_after (k y) (d, fs))" for y using assms(2) by (rule preservesD)
  ultimately show ?thesis using run by (cases x) (auto simp: keeps_def tables_after_def sql_bind_def)
qed

lemma ListPending_works:
  "tables_after (sql_bind (ListPending n) k) (d, []) =
     tables_after (k (take (nat n) (sort_key co_CreatedAt (filter (\<lambda>c. co_Status c = StatusPending) (candidate_checkouts d))))) (d, [])"
  by (simp add: tables_after_def ListPending_def sql_simps)

lemma pending_batch:
  assumes "k \<in> set (candidate_checkouts d)" and "co_Status k = StatusPending"
    and "int (length (filter (\<lambda>k. co_Status k = StatusPending) (candidate_checkouts d))) \<le> n"
  shows "k \<in> set (take (nat n) (sort_key co_CreatedAt (filter (\<lambda>c. co_Status c = StatusPending) (candidate_checkouts d))))"
  using assms by (simp add: take_all)

text \<open>
  C25. On a working database, when the batch of a sweep holds all pending rows, and the provider says in the sweep that a
  pending checkout of a subscription plan is paid, the sweep leaves its owner (a live row, not yet paid, found under its
  primary key) paid for a period that outlasts the sweep, whatever the provider says of the other checkouts.  The
  one-time fulfiller, if any, writes no account column, as \<open>FulfillOneTime_quiet\<close> shows of the program's, and the clock
  readings of the sweep lie within 28 days.
\<close>

theorem reconcile_activates:
  assumes "quiet oneTime" and "distinct (map cp_ID (candidate_profiles d))" and "distinct (map co_PromptID (candidate_checkouts d))"
    and "k \<in> set (candidate_checkouts d)" and "co_Status k = StatusPending" and "\<not> IsOneTimeProduct (co_PlanID k)"
    and "c \<in> set (candidate_profiles d)" and "live c" and "cp_ID c = co_CandidateID k" and "cp_Subscription c \<noteq> SubscriptionPaid"
    and "int (length (filter (\<lambda>k. co_Status k = StatusPending) (candidate_checkouts d))) \<le> (if batch \<le> 0 then 100 else batch)"
    and "\<forall>j. \<exists>st. poll j (co_PromptID k) = Inr st \<and> sr_Status st = StatusPaid"
    and "\<forall>j. nowF \<le> now j + 28 * Day \<and> nowG \<le> now j + 28 * Day"
  shows "\<exists>c' e. List.find (\<lambda>r. cp_ID r = cp_ID c) (candidate_profiles (tables_after (Reconciler_Run now nowF nowG oneTime poll batch) (d, []))) = Some c' \<and>
    cp_Subscription c' = SubscriptionPaid \<and> cp_CurrentPeriodEnd c' = Some e \<and> nowF \<le> e \<and> nowG \<le> e"
proof -
  define T where "T = max nowF nowG"
  define n where "n = (if batch \<le> 0 then 100 else batch)"
  define pending where "pending = take (nat n) (sort_key co_CreatedAt (filter (\<lambda>c. co_Status c = StatusPending) (candidate_checkouts d)))"
  have T: "T \<le> AddMonth (now j)" for j using assms(13) AddMonth_bounds[of "now j"] by (simp add: T_def) (meson order_trans)
  have "List.find (\<lambda>x. co_PromptID x = co_PromptID k) (candidate_checkouts d) = Some k"
    using assms(3,4) by (rule distinct_key_find)
  then have owed: "owed T (cp_ID c) (co_PromptID k) d"
    using assms(2,6-10) by (auto simp: owed_def row_is_def waiting_def)
  have "co_PromptID k \<in> co_PromptID ` set pending"
    unfolding pending_def using assms(4,5,11) by (intro imageI pending_batch) (simp_all add: n_def)
  then have loop: "row_is (cp_ID c) (entitled T) (tables_after (reconcile_loop now oneTime poll 0 pending res) (d, []))" for res
    using assms(12) by (intro reconcile_loop_activates[OF assms(1) T _ owed]) auto
  let ?fin = "\<lambda>res. sql_bind (sql_try (FinalizeExpiredCancellations nowF nowG n)) (\<lambda>r.
      sql_return (case r of Inl e \<Rightarrow> res\<lparr>re_Errors := re_Errors res + 1\<rparr> | Inr n \<Rightarrow> res\<lparr>re_Cancellations := n\<rparr>))"
  have "preserves (keeps (row_is (cp_ID c) (entitled T))) (?fin res)" for res
    by (intro kp.preserves_rules FinalizeExpiredCancellations_keeps unstamped_entitled)
      (auto simp: entitled_def expired_cancel_def expired_access_def period_over_def T_def split: option.splits)
  from bind_reaches[where H = "row_is (cp_ID c) (entitled T)" and k = ?fin, OF loop this]
  have "row_is (cp_ID c) (entitled T) (tables_after (Reconciler_Run now nowF nowG oneTime poll batch) (d, []))"
    by (simp add: Reconciler_Run_def Let_def n_def[symmetric] ListPending_works pending_def[symmetric])
  from row_is_find[OF this] show ?thesis by (auto simp: entitled_def T_def split: option.splits)
qed

section \<open>Where payment and access part ways\<close>

text \<open>
  A subscriber whose access ran out asks for the status of the checkout paid long ago: the
  provider still says paid, and the poll starts another month without a payment.
\<close>

theorem poll_renews_expired_access:
  assumes "distinct (map cp_ID (candidate_profiles d))" and "TrimSpace p = p" and "p \<noteq> []"
    and "List.find (\<lambda>k. co_PromptID k = p) (candidate_checkouts d) = Some k" and "\<not> IsOneTimeProduct (co_PlanID k)"
    and "c \<in> set (candidate_profiles d)" and "live c" and "cp_ID c = co_CandidateID k" and "cp_Subscription c = SubscriptionFree"
    and "ask p = Inr st" and "sr_Status st = StatusPaid"
  shows "\<exists>c' e. List.find (\<lambda>r. cp_ID r = cp_ID c) (candidate_profiles (tables_after (CheckoutStatusHandler now oneTime ask (cp_ID c) p) (d, []))) = Some c' \<and>
    cp_Subscription c' = SubscriptionPaid \<and> cp_CurrentPeriodEnd c' = Some e \<and> AddMonth now \<le> e"
proof -
  have "owed (AddMonth now) (cp_ID c) p d" using assms by (auto simp: owed_def row_is_def waiting_def)
  then have act: "row_is (cp_ID c) (entitled (AddMonth now)) (tables_after (Activate now oneTime p StatusPaid s e) (d, []))" for s e
    using Activate_works[of "AddMonth now" "cp_ID c" p d now oneTime s e] by simp
  have "GetByPromptID p (d, []) = (Inr k, (d, []))" using assms(4) by (simp add: GetByPromptID_def scanOne_def sql_simps)
  note get = tables_after_try_bind[where m = "GetByPromptID p", OF this]
  have "row_is (cp_ID c) (entitled (AddMonth now)) (tables_after (CheckoutStatusHandler now oneTime ask (cp_ID c) p) (d, []))"
    using assms act by (simp add: CheckoutStatusHandler_def Let_def get)
  from row_is_find[OF this] show ?thesis by (auto simp: entitled_def split: option.splits)
qed

section \<open>Payments that no sweep can see\<close>

inductive sweep_step :: "productdb \<Rightarrow> productdb \<Rightarrow> bool" where
  "scores_only oneTime \<Longrightarrow> sweep_step d (tables_after (Reconciler_Run now nowF nowG oneTime poll batch) (d, fs))"

text \<open>
  \<open>unseen i p Q\<close>: the candidate with the identifiers \<open>i\<close> and \<open>p\<close> is on the free plan, every pending checkout has
  its prompt in \<open>Q\<close>, and the checkouts of \<open>Q\<close> are no subscription of the candidate.
\<close>

definition unpaid_as :: "string \<Rightarrow> CandidateProfile \<Rightarrow> bool" where
  "unpaid_as p c \<longleftrightarrow> cp_Subscription c = SubscriptionFree \<and> cp_ProfileID c = p"

definition not_for :: "string \<Rightarrow> string \<Rightarrow> CheckoutRecord \<Rightarrow> bool" where
  "not_for i p k \<longleftrightarrow> co_CandidateID k \<notin> {i, p} \<or> IsOneTimeProduct (co_PlanID k)"

definition ledger_unseen :: "string \<Rightarrow> string \<Rightarrow> string set \<Rightarrow> CheckoutRecord list \<Rightarrow> bool" where
  "ledger_unseen i p Q ks \<longleftrightarrow> (\<forall>k\<in>set ks. (co_Status k = StatusPending \<longrightarrow> co_PromptID k \<in> Q) \<and> (co_PromptID k \<in> Q \<longrightarrow> not_for i p k))"

definition unseen :: "string \<Rightarrow> string \<Rightarrow> string set \<Rightarrow> productdb \<Rightarrow> bool" where
  "unseen i p Q d \<longleftrightarrow> row_is i (unpaid_as p) d \<and> ledger_unseen i p Q (candidate_checkouts d)"

lemma of_account_unpaid: "of_account (unpaid_as p)" "unstamped (unpaid_as p)"
  by (simp_all add: of_account_def account_def unpaid_as_def unstamped_def)

lemma unseen_accounts: "same_accounts d d' \<Longrightarrow> unseen i p Q d \<Longrightarrow> unseen i p Q d'"
  using row_is_accounts[OF _ of_account_unpaid(1), of d d' i] by (simp add: unseen_def same_accounts_def)

lemma unseen_resolved:
  assumes "unseen i p Q d" and "st \<noteq> StatusPending"
  shows "unseen i p Q (d\<lparr>candidate_checkouts := update_where (\<lambda>k. co_PromptID k = q) (resolved now st s e) (candidate_checkouts d)\<rparr>)"
  using assms by (auto simp: unseen_def ledger_unseen_def not_for_def set_update_where)

lemma unseen_other_activation:
  assumes "unseen i p Q d" and "c \<notin> {i, p}"
  shows "unseen i p Q (set_profiles (\<lambda>r. live r \<and> needs_activation c s r) (\<lambda>r. (activated now s q r)\<lparr>cp_UpdatedAt := now\<rparr>) d)"
proof -
  have "row_is i (unpaid_as p) (set_profiles (\<lambda>r. live r \<and> needs_activation c s r) (\<lambda>r. (activated now s q r)\<lparr>cp_UpdatedAt := now\<rparr>) d)"
    using assms(1)[unfolded unseen_def, THEN conjunct1]
    by (rule row_is_set) (use assms(2) in \<open>auto simp: activated_def needs_activation_def unpaid_as_def\<close>)
  then show ?thesis using assms(1) by (simp add: unseen_def set_profiles_def)
qed

lemma preserves_each: "(\<And>d fs. R d (tables_after m (d, fs))) \<Longrightarrow> preserves R m"
  by (simp add: preserves_def)

lemma keeps_when: "(H d \<Longrightarrow> keeps H d d') \<Longrightarrow> keeps H d d'"
  by (auto simp: keeps_def)

lemma ActivateSubscription_unseen:
  assumes "c \<notin> {i, p}"
  shows "preserves (keeps (unseen i p Q)) (ActivateSubscription now c s q)"
proof (rule preserves_each)
  fix d fs
  obtain x d' fs' where run: "ActivateSubscription now c s q (d, fs) = (x, (d', fs'))" by (rule prod_cases3)
  then have "tables_after (ActivateSubscription now c s q) (d, fs) = d'" by (simp add: tables_after_def)
  with ActivateSubscription_run[OF run] show "keeps (unseen i p Q) d (tables_after (ActivateSubscription now c s q) (d, fs))"
    using unseen_other_activation[OF _ assms] by (auto simp: keeps_def) (blast intro: unseen_accounts[OF same_profiles_accounts])+
qed

lemma Activate_unseen:
  assumes "scores_only oneTime" and "q \<in> Q"
  shows "preserves (keeps (unseen i p Q)) (Activate now oneTime q st s e)"
proof (cases "st \<in> {StatusPaid, StatusFailed}")
  case True
  then have pend: "st \<noteq> StatusPending" by auto
  show ?thesis
  proof (rule preserves_each)
    fix d fs
    show "keeps (unseen i p Q) d (tables_after (Activate now oneTime q st s e) (d, fs))"
      unfolding Activate_def using True
    proof (simp only: not_True_eq_False not_not if_False, intro kp.after_try_bind conjI)
      fix x d' fs'
      assume run: "Checkouts_UpdateStatus now q st s e (d, fs) = (x, (d', fs'))"
      then show "keeps (unseen i p Q) d d'"
        by (cases rule: Checkouts_UpdateStatus_run) (simp_all add: keeps_def unseen_resolved[OF _ pend])
      from run show "keeps (unseen i p Q) d' (tables_after (case x of
            Inl e \<Rightarrow> if errors_Is e ErrCheckoutNotFound then sql_return () else sql_raise (ErrWrap ''billing: activate update status'' e)
          | Inr row \<Rightarrow>
              if st \<noteq> StatusPaid then sql_return ()
              else if IsOneTimeProduct (co_PlanID row)
              then (case oneTime of None \<Rightarrow> sql_return ()
                    | Some fulfil \<Rightarrow> sql_wrap ''billing: one-time fulfill'' (fulfil (co_CandidateID row) (co_PlanID row) q))
              else void (sql_wrap ''billing: activate subscription'' (ActivateSubscription now (co_CandidateID row)
                (if s = [] then co_SubscriptionID row else s) (co_PlanID row)))) (d', fs'))"
      proof (cases rule: Checkouts_UpdateStatus_run)
        case (found k)
        have "resolved now st s e k \<in> set (candidate_checkouts d')" using found(1,2,4) by (force simp: set_update_where)
        then have "unseen i p Q d' \<Longrightarrow> \<not> IsOneTimeProduct (co_PlanID k) \<Longrightarrow> co_CandidateID k \<notin> {i, p}"
          using found(2) assms(2) unfolding unseen_def ledger_unseen_def not_for_def by (metis resolved_fields(1-3))
        moreover have "preserves (keeps (unseen i p Q)) (f a b c)" if "oneTime = Some f" for f a b c
          using assms(1) that unseen_accounts by (fastforce simp: scores_only_def preserves_def keeps_def)
        ultimately show ?thesis
          by - (rule keeps_when, auto simp: found(3) void_def split: option.splits
            intro!: preservesD[of "keeps (unseen i p Q)"] kp.preserves_wrap kp.preserves_bind kp.preserves_return ActivateSubscription_unseen)
      qed (auto simp: kp.after_return kp.after_raise)
    qed
  qed
qed (simp add: Activate_def kp.preserves_return)

lemma reconcile_loop_unseen:
  assumes "scores_only oneTime"
  shows "co_PromptID ` set cs \<subseteq> Q \<Longrightarrow> preserves (keeps (unseen i p Q)) (reconcile_loop now oneTime poll j cs res)"
proof (induction cs arbitrary: j res)
  case (Cons c cs)
  then show ?case using assms by (auto simp: reconcile_one_def intro!: kp.preserves_rules Activate_unseen)
qed (simp add: kp.preserves_return)

definition same_ledger :: "productdb \<Rightarrow> productdb \<Rightarrow> bool" where
  "same_ledger d d' \<longleftrightarrow> candidate_checkouts d' = candidate_checkouts d"

interpretation sl: sql_preorder same_ledger
  by unfold_locales (simp_all add: same_ledger_def)

lemma FinalizeExpiredCancellations_ledger: "preserves same_ledger (FinalizeExpiredCancellations now nowB limit)"
proof -
  have upd: "preserves same_ledger (gorm_updates t P f)" for t P f
    unfolding gorm_updates_def by (rule sl.preserves_stmt) (auto simp: same_ledger_def set_profiles_def)
  have match: "preserves same_ledger (on_match m)" for m :: "(matchdb, 'z) sql"
    using on_match_same by (fastforce simp: preserves_def same_ledger_def same_profiles_def)
  show ?thesis
    unfolding FinalizeExpiredCancellations_def FinalizeExpiredPaidAccess_def Let_def by (intro sl.preserves_rules upd match)
qed

lemma FinalizeExpiredCancellations_unseen: "preserves (keeps (unseen i p Q)) (FinalizeExpiredCancellations now nowB limit)"
proof -
  have "preserves (keeps (row_is i (unpaid_as p))) (FinalizeExpiredCancellations now nowB limit)"
    by (rule FinalizeExpiredCancellations_keeps) (auto simp: of_account_unpaid unpaid_as_def expired_cancel_def expired_access_def)
  with FinalizeExpiredCancellations_ledger show ?thesis by (fastforce simp: preserves_def keeps_def same_ledger_def unseen_def)
qed

lemma sweep_unseen:
  assumes "sweep_step d d'" and "unseen i p Q d"
  shows "unseen i p Q d'"
  using assms
proof (cases rule: sweep_step.cases)
  case (1 oneTime now nowF nowG poll batch fs)
  let ?n = "if batch \<le> 0 then 100 else batch"
  let ?pending = "take (nat ?n) (sort_key co_CreatedAt (filter (\<lambda>c. co_Status c = StatusPending) (candidate_checkouts d)))"
  have "co_PromptID ` set ?pending \<subseteq> Q"
    using assms(2) by (auto simp: unseen_def ledger_unseen_def dest: in_set_takeD)
  note loop = reconcile_loop_unseen[OF 1(2) this]
  have "keeps (unseen i p Q) d (tables_after (Reconciler_Run now nowF nowG oneTime poll batch) (d, fs))"
    unfolding Reconciler_Run_def Let_def ListPending_def
  proof (rule kp.after_bind)
    fix x s' fs'
    assume run: "sql_wrap ''billing: list pending'' (sql_query (\<lambda>d. take (nat ?n)
       (sort_key co_CreatedAt (filter (\<lambda>c. co_Status c = StatusPending) (candidate_checkouts d))))) (d, fs) = (x, (s', fs'))"
    then have "s' = d" and pending: "\<And>y. x = Inr y \<Longrightarrow> y = ?pending"
      by (auto simp: sql_wrap_def sql_query_def sql_stmt_def split: prod.splits bool.splits sum.splits)
    have "preserves (keeps (unseen i p Q)) (sql_bind (reconcile_loop now oneTime poll 0 ?pending
           \<lparr>re_Examined = int (length ?pending), re_Activated = 0, re_Failed = 0, re_Errors = 0, re_Cancellations = 0\<rparr>) (\<lambda>res.
         sql_bind (sql_try (FinalizeExpiredCancellations nowF nowG ?n)) (\<lambda>r.
         sql_return (case r of Inl e \<Rightarrow> res\<lparr>re_Errors := re_Errors res + 1\<rparr> | Inr n \<Rightarrow> res\<lparr>re_Cancellations := n\<rparr>))))"
      by (intro kp.preserves_bind kp.preserves_try kp.preserves_return FinalizeExpiredCancellations_unseen loop)
    note cont = preservesD[OF this]
    show "keeps (unseen i p Q) d s' \<and> (\<forall>y. x = Inr y \<longrightarrow> keeps (unseen i p Q) s' (tables_after
        (sql_bind (reconcile_loop now oneTime poll 0 y
           \<lparr>re_Examined = int (length y), re_Activated = 0, re_Failed = 0, re_Errors = 0, re_Cancellations = 0\<rparr>) (\<lambda>res.
         sql_bind (sql_try (FinalizeExpiredCancellations nowF nowG ?n)) (\<lambda>r.
         sql_return (case r of Inl e \<Rightarrow> res\<lparr>re_Errors := re_Errors res + 1\<rparr> | Inr n \<Rightarrow> res\<lparr>re_Cancellations := n\<rparr>)))) (s', fs')))"
      using cont by (auto dest!: pending simp only: \<open>s' = d\<close> intro: kp.R_refl)
  qed
  then show ?thesis using assms(2) 1(1) by (simp add: keeps_def)
qed

lemma sweeps_unseen: "sweep_step\<^sup>*\<^sup>* d d' \<Longrightarrow> unseen i p Q d \<Longrightarrow> unseen i p Q d'"
  by (induction rule: rtranclp_induct) (auto intro: sweep_unseen)

section \<open>A concrete subscriber\<close>

definition ada :: CandidateProfile where
  "ada = (new_profile ''ada'')\<lparr>cp_ID := ''ada'', cp_Status := CandidateActive, cp_Subscription := SubscriptionFree\<rparr>"

definition shop :: productdb where
  "shop = \<lparr>candidate_profiles = [ada], candidate_checkouts = [],
     pd_match = \<lparr>candidate_matches = [], candidate_match_events = [], match_run_events = [], candidate_match_indexes = [], match_rules = [],
       match_notification_receipts = [], engagement_events = [], match_opportunities = []\<rparr>\<rparr>"

definition provider :: "CheckoutRequest \<Rightarrow> go_error + CheckoutResult" where
  "provider req = Inr \<lparr>cs_Status = StatusRedirect, cs_Route = RouteFlutterwave, cs_PromptID = ''p1'', cs_SubscriptionID = ''s1'',
     cs_RedirectURL = ''pay'', cs_Error = []\<rparr>"

definition says_paid :: StatusResult where
  "says_paid = \<lparr>sr_Status = StatusPaid, sr_RedirectURL = [], sr_SubscriptionID = ''s1'', sr_Error = []\<rparr>"

definition ordered :: productdb where
  "ordered = tables_after (CheckoutHandler 10 provider ''ke'' ''ada'' (Decoded ''managed'')) (shop, [])"

definition subscribed :: productdb where
  "subscribed = tables_after (Reconciler_Run (\<lambda>_. 20) 20 20 None (\<lambda>_ _. Inr says_paid) 0) (ordered, [])"

text \<open>
  C26. An activation in which the ledger row of a subscription checkout is marked paid and the update of the
  candidate fails: the caller gets an error, the row stays paid, and, unless the
  payer has another pending subscription checkout, no sequence of sweeps ever takes the payer off the free plan,
  whatever the provider answers and whatever fails, because sweeps look at pending rows only.  (A poll of the
  checkout by its owner or another delivery of the webhook still activates.)
\<close>

theorem failed_activation_is_never_retried:
  assumes "distinct (map cp_ID (candidate_profiles d))" and "distinct (map co_PromptID (candidate_checkouts d))"
    and "k \<in> set (candidate_checkouts d)" and "\<not> IsOneTimeProduct (co_PlanID k)"
    and "c \<in> set (candidate_profiles d)" and "live c" and "cp_ID c = co_CandidateID k" and "cp_Subscription c = SubscriptionFree"
    and "\<forall>k'\<in>set (candidate_checkouts d). k' \<noteq> k \<longrightarrow> co_Status k' = StatusPending \<longrightarrow>
      co_CandidateID k' \<notin> {cp_ID c, cp_ProfileID c} \<or> IsOneTimeProduct (co_PlanID k')"
  shows "\<exists>e d'. Activate now oneTime (co_PromptID k) StatusPaid s err (d, False # True # fs) = (Inl e, (d', fs)) \<and>
     map_option co_Status (List.find (\<lambda>k'. co_PromptID k' = co_PromptID k) (candidate_checkouts d')) = Some StatusPaid \<and>
     (\<forall>d''. sweep_step\<^sup>*\<^sup>* d' d'' \<longrightarrow>
        map_option cp_Subscription (List.find (\<lambda>r. cp_ID r = cp_ID c) (candidate_profiles d'')) = Some SubscriptionFree)"
proof -
  define d' where "d' = d\<lparr>candidate_checkouts := update_where (\<lambda>x. co_PromptID x = co_PromptID k) (resolved now StatusPaid s err) (candidate_checkouts d)\<rparr>"
  let ?Q = "{co_PromptID x | x. x \<in> set (candidate_checkouts d') \<and> co_Status x = StatusPending}"
  have find: "List.find (\<lambda>x. co_PromptID x = co_PromptID k) (candidate_checkouts d) = Some k" using assms(2,3) by (rule distinct_key_find)
  then have paid: "List.find (\<lambda>x. co_PromptID x = co_PromptID k) (candidate_checkouts d') = Some (resolved now StatusPaid s err k)"
    by (simp add: d'_def find_update_where_same)
  have run: "\<exists>e. Activate now oneTime (co_PromptID k) StatusPaid s err (d, False # True # fs) = (Inl e, (d', fs))"
    using find paid assms(4)
    by (auto simp: Activate_def Checkouts_UpdateStatus_def ActivateSubscription_def gorm_updates_def scanOne_def void_def d'_def sql_simps sql_stmt_def Let_def)
  have "not_for (cp_ID c) (cp_ProfileID c) x" if x: "x \<in> set (candidate_checkouts d')" "co_PromptID x \<in> ?Q" for x
  proof -
    have ids: "distinct (map co_PromptID (candidate_checkouts d'))" using assms(2) by (simp add: d'_def map_update_where)
    from x(2) obtain y where y: "y \<in> set (candidate_checkouts d')" "co_Status y = StatusPending" "co_PromptID x = co_PromptID y" by auto
    with x(1) ids have "x = y" using distinct_key_eq[of co_PromptID] by blast
    with y have "x \<in> set (candidate_checkouts d)" "co_PromptID x \<noteq> co_PromptID k" by (auto simp: d'_def set_update_where split: if_splits)
    with assms(9) y(2) \<open>x = y\<close> show ?thesis by (auto simp: not_for_def)
  qed
  moreover have "row_is (cp_ID c) (unpaid_as (cp_ProfileID c)) d'" using assms(1,5,6,8) by (auto simp: d'_def row_is_def unpaid_as_def)
  ultimately have start: "unseen (cp_ID c) (cp_ProfileID c) ?Q d'" by (auto simp: unseen_def ledger_unseen_def)
  have "map_option cp_Subscription (List.find (\<lambda>r. cp_ID r = cp_ID c) (candidate_profiles d'')) = Some SubscriptionFree"
    if "sweep_step\<^sup>*\<^sup>* d' d''" for d''
    using sweeps_unseen[OF that start] row_is_find[of "cp_ID c" "unpaid_as (cp_ProfileID c)" d''] by (auto simp: unseen_def unpaid_as_def)
  then show ?thesis using run paid by auto
qed

text \<open>
  The renewal is billed in the middle of the paid month and acknowledged, but the period of a
  paying subscriber does not move, and the sweep after its end takes the access away.
\<close>

theorem renewal_does_not_extend:
  "let renewed = Lifecycle_Handle (15 * Day) \<lparr>le_Event = LifecycleBilled, le_SubscriptionID = ''s1'', le_PlanID = ''managed'',
         le_ExternalEntityID = ''ada'', le_State = ''ACTIVE''\<rparr> (subscribed, []);
       d = fst (snd renewed); t = 32 * Day
   in fst renewed = Inr () \<and> map cp_CurrentPeriodEnd (candidate_profiles d) = map cp_CurrentPeriodEnd (candidate_profiles subscribed) \<and>
      map cp_Subscription (candidate_profiles subscribed) = [SubscriptionPaid] \<and>
      map cp_Subscription (candidate_profiles (tables_after (FinalizeExpiredCancellations t t 100) (d, []))) = [SubscriptionFree]"
  by code_simp

section \<open>Witnesses\<close>

lemma ordered_inv:
  "distinct (map cp_ID (candidate_profiles ordered))" "list_all (\<lambda>c. cp_ID c = ''ada'' \<and> live c \<and> cp_Subscription c = SubscriptionFree) (candidate_profiles ordered)"
  "length (candidate_profiles ordered) = 1" "length (candidate_checkouts ordered) = 1"
  "list_all (\<lambda>k. co_PromptID k = ''p1'' \<and> co_CandidateID k = ''ada'' \<and> co_Status k = StatusPending \<and> \<not> IsOneTimeProduct (co_PlanID k)) (candidate_checkouts ordered)"
  by code_simp+

theorem paid_owns_checkout_witness:
  "map (\<lambda>c. (cp_ID c, cp_Subscription c)) (candidate_profiles subscribed) = [(''ada'', SubscriptionPaid)] \<and>
   list_ex (\<lambda>k. co_CandidateID k = ''ada'' \<and> \<not> IsOneTimeProduct (co_PlanID k)) (candidate_checkouts subscribed)"
proof -
  have "bill_step shop ordered" unfolding ordered_def by (rule bill_step.checkout) code_simp
  moreover have "bill_step ordered subscribed" unfolding subscribed_def by (rule bill_step.reconcile) (simp add: fulfils_def)
  ultimately have "bill_step\<^sup>*\<^sup>* shop subscribed" by simp
  moreover have "candidate_profiles shop = [ada]" "candidate_checkouts shop = []" by (simp_all add: shop_def)
  moreover have "TrimSpace (cp_ID ada) \<noteq> [] \<and> cp_Subscription ada \<noteq> SubscriptionPaid" by code_simp
  ultimately have "list_all (\<lambda>c. cp_Subscription c \<noteq> SubscriptionPaid \<or>
        list_ex (\<lambda>k. co_CandidateID k \<in> {cp_ID c, cp_ProfileID c} \<and> \<not> IsOneTimeProduct (co_PlanID k)) (candidate_checkouts subscribed))
      (candidate_profiles subscribed)" using paid_owns_checkout[of shop subscribed] by simp
  moreover have "map (\<lambda>c. (cp_ID c, cp_ProfileID c, cp_Subscription c)) (candidate_profiles subscribed) = [(''ada'', ''ada'', SubscriptionPaid)]" by code_simp
  ultimately show ?thesis by (auto simp: list_ex_iff)
qed

theorem activate_idempotent_witness:
  "\<exists>d1 d2. Activate 20 None ''p1'' StatusPaid ''s1'' [] (ordered, []) = (Inr (), (d1, [])) \<and>
     Activate 99 None ''p1'' StatusPaid ''s1'' [] (d1, []) = (Inr (), (d2, [])) \<and> candidate_profiles d2 = candidate_profiles d1 \<and>
     map cp_Subscription (candidate_profiles d1) = [SubscriptionPaid]"
proof -
  define d1 where "d1 = tables_after (Activate 20 None ''p1'' StatusPaid ''s1'' []) (ordered, [])"
  define d2 where "d2 = tables_after (Activate 99 None ''p1'' StatusPaid ''s1'' []) (d1, [])"
  have st: "snd (snd (Activate now None ''p1'' StatusPaid ''s1'' [] (d, []))) = []" for now d
    using steady_Activate[of None] by (simp add: quiet_def steady_def)
  have "case fst (Activate 20 None ''p1'' StatusPaid ''s1'' [] (ordered, [])) of Inl e \<Rightarrow> False | Inr _ \<Rightarrow> True" by code_simp
  then have first: "Activate 20 None ''p1'' StatusPaid ''s1'' [] (ordered, []) = (Inr (), (d1, []))"
    using st[of 20 ordered] by (auto simp: d1_def tables_after_def intro!: prod_eqI split: sum.splits)
  have "case fst (Activate 99 None ''p1'' StatusPaid ''s1'' [] (tables_after (Activate 20 None ''p1'' StatusPaid ''s1'' []) (ordered, []), [])) of
      Inl e \<Rightarrow> False | Inr _ \<Rightarrow> True" by code_simp
  then have second: "Activate 99 None ''p1'' StatusPaid ''s1'' [] (d1, []) = (Inr (), (d2, []))"
    unfolding d1_def[symmetric] using st[of 99 d1] by (auto simp: d2_def tables_after_def intro!: prod_eqI split: sum.splits)
  have one: "\<not> list_ex (\<lambda>k. co_PromptID k = ''p1'' \<and> IsOneTimeProduct (co_PlanID k)) (candidate_checkouts ordered)" by code_simp
  have "map cp_Subscription (candidate_profiles d1) = [SubscriptionPaid]" unfolding d1_def by code_simp
  with first second activate_idempotent[OF first one second] show ?thesis by (intro exI[of _ d1] exI[of _ d2]) simp
qed

theorem cancel_until_period_end_witness:
  "\<exists>d' e. CancelHandler 30 ''ada'' (subscribed, []) = (Inr (CancelReply e), (d', [])) \<and> 30 < e \<and>
     map_option cp_Subscription (List.find (\<lambda>c. cp_ID c = ''ada'') (candidate_profiles (tables_after (FinalizeExpiredCancellations (e + 1) (e + 1) 9) (d', []))))
       = Some SubscriptionCancelled"
proof -
  define r where "r = CancelHandler 30 ''ada'' (subscribed, [])"
  have "case fst r of Inr (CancelReply e) \<Rightarrow> True | _ \<Rightarrow> False" "snd (snd r) = []" unfolding r_def by code_simp+
  then obtain e d' where r: "r = (Inr (CancelReply e), (d', []))"
    by (cases r) (auto split: sum.splits billing_reply.splits)
  have "distinct (map cp_ID (candidate_profiles subscribed))" by code_simp
  with cancel_until_period_end[of 30 "''ada''" subscribed "[]" e d' "[]" "e + 1" "e + 1" 9] r show ?thesis by (auto simp: r_def)
qed

theorem reconcile_activates_witness:
  "map_option cp_Subscription (List.find (\<lambda>r. cp_ID r = ''ada'') (candidate_profiles
     (tables_after (Reconciler_Run (\<lambda>_. 20) 20 20 None (\<lambda>_ _. Inr says_paid) 0) (ordered, [])))) = Some SubscriptionPaid"
proof -
  obtain c where c: "candidate_profiles ordered = [c]" using ordered_inv(3) by (auto simp: length_Suc_conv)
  obtain k where k: "candidate_checkouts ordered = [k]" using ordered_inv(4) by (auto simp: length_Suc_conv)
  from ordered_inv(1,2,5) c k reconcile_activates[of None ordered k c 0 "\<lambda>_ _. Inr says_paid" 20 "\<lambda>_. 20" 20] show ?thesis
    by (auto simp: says_paid_def Day_def Hour_def Minute_def Second_def)
qed

theorem failed_activation_is_never_retried_witness:
  "\<exists>e d'. Activate 20 None ''p1'' StatusPaid ''s1'' [] (ordered, [False, True]) = (Inl e, (d', [])) \<and>
     map_option cp_Subscription (List.find (\<lambda>r. cp_ID r = ''ada'')
       (candidate_profiles (tables_after (Reconciler_Run (\<lambda>_. 30) 30 30 None (\<lambda>_ _. Inr says_paid) 0) (d', [])))) = Some SubscriptionFree"
proof -
  obtain c where c: "candidate_profiles ordered = [c]" using ordered_inv(3) by (auto simp: length_Suc_conv)
  obtain k where k: "candidate_checkouts ordered = [k]" using ordered_inv(4) by (auto simp: length_Suc_conv)
  have "sweep_step d (tables_after (Reconciler_Run (\<lambda>_. 30) 30 30 None (\<lambda>_ _. Inr says_paid) 0) (d, []))" for d
    by (rule sweep_step.intros) simp
  then have "sweep_step\<^sup>*\<^sup>* d (tables_after (Reconciler_Run (\<lambda>_. 30) 30 30 None (\<lambda>_ _. Inr says_paid) 0) (d, []))" for d by blast
  with ordered_inv(1,2,5) c k failed_activation_is_never_retried[of ordered k c 20 None "''s1''" "[]" "[]"] show ?thesis by auto
qed

definition lapsed :: productdb where
  "lapsed = tables_after (FinalizeExpiredCancellations (40 * Day) (40 * Day) 100) (subscribed, [])"

theorem poll_renews_expired_access_witness:
  "map_option cp_Subscription (List.find (\<lambda>r. cp_ID r = ''ada'') (candidate_profiles
     (tables_after (CheckoutStatusHandler (50 * Day) None (\<lambda>_. Inr says_paid) ''ada'' ''p1'') (lapsed, [])))) = Some SubscriptionPaid"
proof -
  have row: "map (\<lambda>c. (cp_ID c, live c, cp_Subscription c)) (candidate_profiles lapsed) = [(''ada'', True, SubscriptionFree)]" by code_simp
  then obtain c where c: "candidate_profiles lapsed = [c]" "cp_ID c = ''ada''" "live c" "cp_Subscription c = SubscriptionFree" by auto
  have "map (\<lambda>k. (co_PromptID k, co_CandidateID k, IsOneTimeProduct (co_PlanID k))) (candidate_checkouts lapsed) = [(''p1'', ''ada'', False)]" by code_simp
  then obtain k where k: "candidate_checkouts lapsed = [k]" "co_PromptID k = ''p1''" "co_CandidateID k = ''ada''" "\<not> IsOneTimeProduct (co_PlanID k)" by auto
  have "TrimSpace ''p1'' = ''p1''" by code_simp
  with poll_renews_expired_access[of lapsed "''p1''" k c "\<lambda>_. Inr says_paid" says_paid "50 * Day" None] c k show ?thesis
    by (auto simp: says_paid_def)
qed

end
