(* ===== verification/Ats.thy ===== *)
theory Ats
  imports Calendar_Service
begin

text \<open>
  The employer side, \<open>apps/ats/service\<close>: jobs and their published projection, the hiring pipeline
  with its stage history, hire outcomes, interviews over the calendar service, the notification
  outbox.

  \<open>atsdb\<close> joins the ten tables of the service, the tables of the calendar service it calls
  (\<open>at_calendar\<close>) and the messages the notification service accepted (\<open>at_sent\<close>).  As in
  \<open>Calendar\<close>, what the framework writes into the \<open>BaseModel\<close> of a new row and each reading of the
  clock are arguments, and list-valued JSON columns are kept as the lists they hold.
  \<open>Repo_Create\<close> and \<open>Repo_Update\<close> are the \<open>Create\<close> and \<open>Update\<close> of the framework's base
  repository with the unique indexes of the table.
\<close>

section \<open>Stages\<close>

definition StageApplied :: string where "StageApplied = ''applied''"
definition StageScreen :: string where "StageScreen = ''screen''"
definition StageInterview :: string where "StageInterview = ''interview''"
definition StageOffer :: string where "StageOffer = ''offer''"
definition StageHired :: string where "StageHired = ''hired''"
definition StageRejected :: string where "StageRejected = ''rejected''"
definition StageWithdrawn :: string where "StageWithdrawn = ''withdrawn''"

lemmas stage_defs = StageApplied_def StageScreen_def StageInterview_def StageOffer_def StageHired_def StageRejected_def StageWithdrawn_def

definition DefaultStages :: "string list" where
  "DefaultStages = [StageApplied, StageScreen, StageInterview, StageOffer, StageHired]"

definition stage_table :: "(string \<times> string list) list" where
  "stage_table =
     [(StageApplied, [StageScreen, StageRejected, StageWithdrawn]),
      (StageScreen, [StageInterview, StageRejected, StageWithdrawn]),
      (StageInterview, [StageOffer, StageRejected, StageWithdrawn]),
      (StageOffer, [StageHired, StageRejected, StageWithdrawn]),
      (StageHired, []), (StageRejected, []), (StageWithdrawn, [])]"

definition Stage_IsTerminal :: "string \<Rightarrow> bool" where
  "Stage_IsTerminal stage \<longleftrightarrow> map_of stage_table stage = Some []"

definition Stage_AllowedNext :: "string \<Rightarrow> string list" where
  "Stage_AllowedNext from = (case map_of stage_table from of None \<Rightarrow> [] | Some out \<Rightarrow> out)"

text \<open>The quotes of the messages are left out, and the arrow is written in ASCII.\<close>

definition ValidateAdvance :: "string \<Rightarrow> string \<Rightarrow> go_error option" where
  "ValidateAdvance from to =
     (if from = to then Some (ErrNew (''ats: advance: already at '' @ from))
      else if to \<in> set (Stage_AllowedNext from) then None
      else if map_of stage_table from = None then Some (ErrNew (''ats: advance: unknown stage '' @ from))
      else Some (ErrNew (''ats: advance: '' @ from @ '' -> '' @ to @ '' not allowed'')))"

definition AtsNotFound :: go_error where "AtsNotFound = ErrNew ''ats: not found''"
definition AtsConflict :: go_error where "AtsConflict = ErrNew ''ats: conflict''"
definition AtsInvalid :: go_error where "AtsInvalid = ErrNew ''ats: invalid''"
definition AtsForbidden :: go_error where "AtsForbidden = ErrNew ''ats: forbidden''"
definition AtsEmptyAvail :: go_error where "AtsEmptyAvail = ErrNew ''ats: empty availability''"
definition AtsUnavailable :: go_error where "AtsUnavailable = ErrNew ''ats: service unavailable''"

section \<open>Tables\<close>

record Job =
  jb_Base :: BaseModel
  jb_Title :: string
  jb_Description :: string
  jb_Location :: string
  jb_Status :: string
  jb_Visibility :: string
  jb_OpportunityID :: string
  jb_PublishedAt :: "time option"
  jb_StageTemplate :: string
  jb_MetadataJSON :: string

definition JobStatusDraft :: string where "JobStatusDraft = ''draft''"
definition JobStatusOpen :: string where "JobStatusOpen = ''open''"
definition JobStatusClosed :: string where "JobStatusClosed = ''closed''"
definition VisibilityPrivate :: string where "VisibilityPrivate = ''private''"
definition VisibilityPublished :: string where "VisibilityPublished = ''published''"

record AtsApplication =
  ap_Base :: BaseModel
  ap_JobID :: string
  ap_ProfileID :: string
  ap_CandidateID :: string
  ap_Stage :: string
  ap_Source :: string
  ap_SourceRef :: string
  ap_Status :: string
  ap_Summary :: string
  ap_Score :: real

definition AppStatusActive :: string where "AppStatusActive = ''active''"
definition AppStatusRejected :: string where "AppStatusRejected = ''rejected''"
definition AppStatusWithdrawn :: string where "AppStatusWithdrawn = ''withdrawn''"
definition AppStatusHired :: string where "AppStatusHired = ''hired''"
definition SourceManual :: string where "SourceManual = ''manual''"
definition SourceStawiMatch :: string where "SourceStawiMatch = ''stawi_match''"

lemmas app_status_defs = AppStatusActive_def AppStatusRejected_def AppStatusWithdrawn_def AppStatusHired_def

record StageEvent =
  se_Base :: BaseModel
  se_ApplicationID :: string
  se_FromStage :: string
  se_ToStage :: string
  se_ActorProfileID :: string
  se_Note :: string

record AtsAvailability =
  av_Base :: BaseModel
  av_ProfileID :: string
  av_Timezone :: string
  av_Rules :: "WeekRule list"
  av_Exceptions :: "ExceptionDay list"

record Interview =
  iv_Base :: BaseModel
  iv_ApplicationID :: string
  iv_Type :: string
  iv_DurationMin :: int
  iv_Panel :: "string list"
  iv_Status :: string
  iv_SlotStart :: "time option"
  iv_SlotEnd :: "time option"
  iv_Location :: string
  iv_VideoURL :: string
  iv_ICSUID :: string
  iv_CalendarBookingID :: string

definition InterviewProposed :: string where "InterviewProposed = ''proposed''"
definition InterviewScheduled :: string where "InterviewScheduled = ''scheduled''"

lemma interview_status_distinct [simp]: "InterviewProposed \<noteq> InterviewScheduled" "InterviewScheduled \<noteq> InterviewProposed"
  by (simp_all add: InterviewProposed_def InterviewScheduled_def)

text \<open>The payload of a message is a JSON object with string values; \<open>None\<close> is a text that is no JSON object.\<close>

type_synonym payload = "(string \<times> string) list"

record OutboxMessage =
  om_Base :: BaseModel
  om_Kind :: string
  om_Payload :: "payload option"
  om_Status :: string
  om_IdempotencyKey :: string
  om_Attempts :: int

definition OutboxKindInterviewScheduled :: string where "OutboxKindInterviewScheduled = ''interview.scheduled''"

record HireOutcome =
  ho_Base :: BaseModel
  ho_ApplicationID :: string
  ho_JobID :: string
  ho_ProfileID :: string
  ho_BillingRef :: string
  ho_IdempotencyKey :: string

record AiRun =
  ar_Base :: BaseModel
  ar_Purpose :: string
  ar_ActorProfileID :: string
  ar_InputHash :: string
  ar_OutputJSON :: string

record JobProjection =
  jp_Base :: BaseModel
  jp_JobID :: string
  jp_OpportunityID :: string
  jp_Title :: string
  jp_Description :: string
  jp_Location :: string
  jp_Status :: string
  jp_PublishedAt :: "time option"

record IdempotencyRecord =
  ir_Base :: BaseModel
  ir_Key :: string
  ir_Route :: string
  ir_Response :: string
  ir_StatusCode :: int

record Message =
  msg_Template :: string
  msg_ProfileID :: string
  msg_Variables :: payload

record atsdb =
  ats_jobs :: "Job list"
  ats_applications :: "AtsApplication list"
  ats_stage_events :: "StageEvent list"
  ats_availability :: "AtsAvailability list"
  ats_interviews :: "Interview list"
  ats_outbox :: "OutboxMessage list"
  ats_hire_outcomes :: "HireOutcome list"
  ats_ai_runs :: "AiRun list"
  ats_job_projections :: "JobProjection list"
  ats_idempotency_keys :: "IdempotencyRecord list"
  at_calendar :: caldb
  at_sent :: "Message list"

section \<open>The base repository\<close>

text \<open>A unique index is its name and the pairs of rows it does not allow together.\<close>

type_synonym 'r unique_index = "string \<times> ('r \<Rightarrow> 'r \<Rightarrow> bool)"

definition primary_key :: "string \<Rightarrow> ('r \<Rightarrow> BaseModel) \<Rightarrow> 'r unique_index" where
  "primary_key n base = (n, \<lambda>x y. row_id base x = row_id base y)"

definition Repo_Create ::
  "('d \<Rightarrow> 'r list) \<Rightarrow> (('r list \<Rightarrow> 'r list) \<Rightarrow> 'd \<Rightarrow> 'd) \<Rightarrow> 'r unique_index list \<Rightarrow> 'r \<Rightarrow> ('d, unit) sql"
where
  "Repo_Create rows upd uniq r = sql_stmt (\<lambda>d.
     case List.find (\<lambda>(n, clash). list_ex (clash r) (rows d)) uniq of
       Some (n, _) \<Rightarrow> (Inl (ErrConstraint n), d)
     | None \<Rightarrow> (Inr (), upd (\<lambda>rs. rs @ [r]) d))"

definition Repo_Update ::
  "('d \<Rightarrow> 'r list) \<Rightarrow> (('r list \<Rightarrow> 'r list) \<Rightarrow> 'd \<Rightarrow> 'd) \<Rightarrow> ('r \<Rightarrow> BaseModel) \<Rightarrow> 'r unique_index list \<Rightarrow>
    string \<Rightarrow> ('r \<Rightarrow> 'r) \<Rightarrow> ('d, unit) sql"
where
  "Repo_Update rows upd base uniq i f = sql_stmt (\<lambda>d.
     case List.find (\<lambda>(n, clash). list_ex (\<lambda>r. row_id base r = i \<and> list_ex (\<lambda>x. row_id base x \<noteq> i \<and> clash (f r) x) (rows d)) (rows d)) uniq of
       Some (n, _) \<Rightarrow> (Inl (ErrConstraint n), d)
     | None \<Rightarrow> (Inr (), upd (update_where (\<lambda>r. row_id base r = i) f) d))"

text \<open>The indexes, as declared: those of availability and of idempotency keys do not contain the tenant.\<close>

definition job_indexes :: "Job unique_index list" where
  "job_indexes = [primary_key ''ats_jobs_pkey'' jb_Base]"

definition application_indexes :: "AtsApplication unique_index list" where
  "application_indexes = [primary_key ''ats_applications_pkey'' ap_Base,
     (''ats_app_job_profile_active'', \<lambda>x y. ap_JobID x = ap_JobID y \<and> ap_ProfileID x = ap_ProfileID y \<and> ap_Status x = ap_Status y)]"

definition event_indexes :: "StageEvent unique_index list" where
  "event_indexes = [primary_key ''ats_stage_events_pkey'' se_Base]"

definition availability_indexes :: "AtsAvailability unique_index list" where
  "availability_indexes = [primary_key ''ats_availability_pkey'' av_Base, (''ats_avail_profile'', \<lambda>x y. av_ProfileID x = av_ProfileID y)]"

definition interview_indexes :: "Interview unique_index list" where
  "interview_indexes = [primary_key ''ats_interviews_pkey'' iv_Base]"

definition outbox_indexes :: "OutboxMessage unique_index list" where
  "outbox_indexes = [primary_key ''ats_outbox_pkey'' om_Base, (''idx_ats_outbox_idempotency_key'', \<lambda>x y. om_IdempotencyKey x = om_IdempotencyKey y)]"

definition hire_indexes :: "HireOutcome unique_index list" where
  "hire_indexes = [primary_key ''ats_hire_outcomes_pkey'' ho_Base,
     (''idx_ats_hire_outcomes_application_id'', \<lambda>x y. ho_ApplicationID x = ho_ApplicationID y),
     (''idx_ats_hire_outcomes_idempotency_key'', \<lambda>x y. ho_IdempotencyKey x = ho_IdempotencyKey y)]"

definition ai_run_indexes :: "AiRun unique_index list" where
  "ai_run_indexes = [primary_key ''ats_ai_runs_pkey'' ar_Base]"

definition projection_indexes :: "JobProjection unique_index list" where
  "projection_indexes = [primary_key ''ats_job_projections_pkey'' jp_Base, (''ats_proj_job'', \<lambda>x y. jp_JobID x = jp_JobID y),
     (''idx_ats_job_projections_opportunity_id'', \<lambda>x y. jp_OpportunityID x = jp_OpportunityID y)]"

definition idempotency_indexes :: "IdempotencyRecord unique_index list" where
  "idempotency_indexes = [primary_key ''ats_idempotency_keys_pkey'' ir_Base, (''ats_idem_key'', \<lambda>x y. ir_Key x = ir_Key y \<and> ir_Route x = ir_Route y)]"

section \<open>Repositories\<close>

abbreviation Jobs_Create :: "Job \<Rightarrow> (atsdb, unit) sql" where
  "Jobs_Create \<equiv> Repo_Create ats_jobs ats_jobs_update job_indexes"
abbreviation Jobs_Update :: "string \<Rightarrow> (Job \<Rightarrow> Job) \<Rightarrow> (atsdb, unit) sql" where
  "Jobs_Update \<equiv> Repo_Update ats_jobs ats_jobs_update jb_Base job_indexes"
abbreviation AtsApplications_Create :: "AtsApplication \<Rightarrow> (atsdb, unit) sql" where
  "AtsApplications_Create \<equiv> Repo_Create ats_applications ats_applications_update application_indexes"
abbreviation AtsApplications_Update :: "string \<Rightarrow> (AtsApplication \<Rightarrow> AtsApplication) \<Rightarrow> (atsdb, unit) sql" where
  "AtsApplications_Update \<equiv> Repo_Update ats_applications ats_applications_update ap_Base application_indexes"
abbreviation StageEvents_Create :: "StageEvent \<Rightarrow> (atsdb, unit) sql" where
  "StageEvents_Create \<equiv> Repo_Create ats_stage_events ats_stage_events_update event_indexes"
abbreviation Interviews_Create :: "Interview \<Rightarrow> (atsdb, unit) sql" where
  "Interviews_Create \<equiv> Repo_Create ats_interviews ats_interviews_update interview_indexes"
abbreviation Interviews_Update :: "string \<Rightarrow> (Interview \<Rightarrow> Interview) \<Rightarrow> (atsdb, unit) sql" where
  "Interviews_Update \<equiv> Repo_Update ats_interviews ats_interviews_update iv_Base interview_indexes"
abbreviation Hires_Create :: "HireOutcome \<Rightarrow> (atsdb, unit) sql" where
  "Hires_Create \<equiv> Repo_Create ats_hire_outcomes ats_hire_outcomes_update hire_indexes"
abbreviation AtsOutbox_Create :: "OutboxMessage \<Rightarrow> (atsdb, unit) sql" where
  "AtsOutbox_Create \<equiv> Repo_Create ats_outbox ats_outbox_update outbox_indexes"
abbreviation AiRuns_Create :: "AiRun \<Rightarrow> (atsdb, unit) sql" where
  "AiRuns_Create \<equiv> Repo_Create ats_ai_runs ats_ai_runs_update ai_run_indexes"
abbreviation Projections_Create :: "JobProjection \<Rightarrow> (atsdb, unit) sql" where
  "Projections_Create \<equiv> Repo_Create ats_job_projections ats_job_projections_update projection_indexes"
abbreviation Projections_Update :: "string \<Rightarrow> (JobProjection \<Rightarrow> JobProjection) \<Rightarrow> (atsdb, unit) sql" where
  "Projections_Update \<equiv> Repo_Update ats_job_projections ats_job_projections_update jp_Base projection_indexes"

definition newest :: "('r \<Rightarrow> BaseModel) \<Rightarrow> 'r list \<Rightarrow> 'r list" where
  "newest base = sort_key (\<lambda>r. - bm_CreatedAt (base r))"

definition Jobs_GetInPartition :: "Scope \<Rightarrow> string \<Rightarrow> (atsdb, Job option) sql" where
  "Jobs_GetInPartition sc i = sql_wrap ''ats: get job''
     (sql_query (\<lambda>d. List.find (\<lambda>j. row_id jb_Base j = i \<and> in_partition sc (jb_Base j)) (ats_jobs d)))"

definition Jobs_ListByPartition :: "Scope \<Rightarrow> string \<Rightarrow> int \<Rightarrow> (atsdb, Job list) sql" where
  "Jobs_ListByPartition sc status limit0 =
     (let limit = (if limit0 \<le> 0 \<or> limit0 > 200 then 50 else limit0) in
      sql_wrap ''ats: list jobs'' (sql_query (\<lambda>d. take (nat limit) (newest jb_Base
        (filter (\<lambda>j. in_partition sc (jb_Base j) \<and> (status = [] \<or> jb_Status j = status)) (ats_jobs d))))))"

definition Jobs_CountByStatus :: "Scope \<Rightarrow> string \<Rightarrow> (atsdb, int) sql" where
  "Jobs_CountByStatus sc status = sql_wrap ''ats: count jobs''
     (sql_query (\<lambda>d. int (length (filter (\<lambda>j. in_partition sc (jb_Base j) \<and> (status = [] \<or> jb_Status j = status)) (ats_jobs d)))))"

definition AtsApplications_GetInPartition :: "Scope \<Rightarrow> string \<Rightarrow> (atsdb, AtsApplication option) sql" where
  "AtsApplications_GetInPartition sc i = sql_wrap ''ats: get application''
     (sql_query (\<lambda>d. List.find (\<lambda>a. row_id ap_Base a = i \<and> in_partition sc (ap_Base a)) (ats_applications d)))"

text \<open>\<open>First\<close> returns the row with the smallest key; by the unique index there is at most one.\<close>

definition GetActive :: "Scope \<Rightarrow> string \<Rightarrow> string \<Rightarrow> (atsdb, AtsApplication option) sql" where
  "GetActive sc jobID profileID = sql_wrap ''ats: get active application''
     (sql_query (\<lambda>d. List.find (\<lambda>a. in_partition sc (ap_Base a) \<and> ap_JobID a = jobID \<and> ap_ProfileID a = profileID \<and>
        ap_Status a = AppStatusActive) (ats_applications d)))"

definition ListByJob :: "Scope \<Rightarrow> string \<Rightarrow> string \<Rightarrow> int \<Rightarrow> (atsdb, AtsApplication list) sql" where
  "ListByJob sc jobID stage limit0 =
     (let limit = (if limit0 \<le> 0 \<or> limit0 > 500 then 100 else limit0) in
      sql_wrap ''ats: list applications'' (sql_query (\<lambda>d. take (nat limit) (newest ap_Base
        (filter (\<lambda>a. in_partition sc (ap_Base a) \<and> ap_JobID a = jobID \<and> (stage = [] \<or> ap_Stage a = stage)) (ats_applications d))))))"

definition ListByProfile :: "Scope \<Rightarrow> (atsdb, AtsApplication list) sql" where
  "ListByProfile sc = sql_wrap ''ats: list apps for profile'' (sql_query (\<lambda>d. take 100 (newest ap_Base
     (filter (\<lambda>a. in_partition sc (ap_Base a) \<and> ap_ProfileID a = sc_ProfileID sc) (ats_applications d)))))"

definition AtsApplications_CountByStatus :: "Scope \<Rightarrow> string \<Rightarrow> (atsdb, int) sql" where
  "AtsApplications_CountByStatus sc status = sql_wrap ''ats: count applications''
     (sql_query (\<lambda>d. int (length (filter (\<lambda>a. in_partition sc (ap_Base a) \<and> (status = [] \<or> ap_Status a = status)) (ats_applications d)))))"

definition Hires_GetByApplication :: "string \<Rightarrow> (atsdb, HireOutcome option) sql" where
  "Hires_GetByApplication applicationID = sql_wrap ''ats: get hire outcome''
     (sql_query (\<lambda>d. List.find (\<lambda>h. ho_ApplicationID h = applicationID) (ats_hire_outcomes d)))"

definition Projections_GetByJob :: "string \<Rightarrow> string \<Rightarrow> string \<Rightarrow> (atsdb, JobProjection option) sql" where
  "Projections_GetByJob tenantID partitionID jobID = sql_wrap ''ats: get projection''
     (sql_query (\<lambda>d. List.find (\<lambda>p. bm_TenantID (jp_Base p) = tenantID \<and> bm_PartitionID (jp_Base p) = partitionID \<and>
        jp_JobID p = jobID) (ats_job_projections d)))"

definition republished :: "JobProjection \<Rightarrow> JobProjection \<Rightarrow> JobProjection" where
  "republished p e = e\<lparr>jp_OpportunityID := jp_OpportunityID p, jp_Title := jp_Title p, jp_Description := jp_Description p,
     jp_Location := jp_Location p, jp_Status := ''published'', jp_PublishedAt := jp_PublishedAt p\<rparr>"

definition UpsertPublished :: "JobProjection \<Rightarrow> (atsdb, unit) sql" where
  "UpsertPublished p =
     sql_bind (Projections_GetByJob (bm_TenantID (jp_Base p)) (bm_PartitionID (jp_Base p)) (jp_JobID p)) (\<lambda>existing.
     case existing of None \<Rightarrow> Projections_Create p
     | Some e \<Rightarrow> sql_wrap ''ats: update projection'' (Projections_Update (row_id jp_Base e) (republished p)))"

definition MarkUnpublished :: "string \<Rightarrow> string \<Rightarrow> string \<Rightarrow> (atsdb, unit) sql" where
  "MarkUnpublished tenantID partitionID jobID =
     sql_bind (Projections_GetByJob tenantID partitionID jobID) (\<lambda>existing.
     case existing of None \<Rightarrow> sql_return ()
     | Some e \<Rightarrow> sql_wrap ''ats: unpublish projection'' (Projections_Update (row_id jp_Base e) (\<lambda>p. p\<lparr>jp_Status := ''unpublished''\<rparr>)))"

section \<open>Scope\<close>

definition Ats_ScopeFromContext :: "Claims option \<Rightarrow> go_error + Scope" where
  "Ats_ScopeFromContext claims =
     (case claims of
        None \<Rightarrow> Inl (ErrWith AtsForbidden ''missing claims'')
      | Some c \<Rightarrow> let profileID = (if cl_ProfileID c = [] then cl_Subject c else cl_ProfileID c) in
          if cl_TenantID c = [] \<or> cl_PartitionID c = [] \<or> profileID = []
          then Inl (ErrWith AtsForbidden ''tenant_id, partition_id, and profile_id required'')
          else Inr \<lparr>sc_TenantID = cl_TenantID c, sc_PartitionID = cl_PartitionID c, sc_ProfileID = profileID\<rparr>)"

definition in_scope :: "Claims option \<Rightarrow> (Scope \<Rightarrow> (atsdb, 'a) sql) \<Rightarrow> (atsdb, 'a) sql" where
  "in_scope claims k = (case Ats_ScopeFromContext claims of Inl e \<Rightarrow> sql_raise e | Inr sc \<Rightarrow> k sc)"

section \<open>Jobs\<close>

record CreateJobInput =
  cj_Title :: string
  cj_Description :: string
  cj_Location :: string
  cj_Status :: string

definition new_job :: "BaseModel \<Rightarrow> string \<Rightarrow> CreateJobInput \<Rightarrow> Job" where
  "new_job base st inp =
     \<lparr>jb_Base = base, jb_Title = cj_Title inp, jb_Description = cj_Description inp, jb_Location = cj_Location inp, jb_Status = st,
      jb_Visibility = VisibilityPrivate, jb_OpportunityID = [], jb_PublishedAt = None, jb_StageTemplate = [], jb_MetadataJSON = ''{}''\<rparr>"

definition CreateJob :: "Claims option \<Rightarrow> BaseModel \<Rightarrow> CreateJobInput \<Rightarrow> (atsdb, Job) sql" where
  "CreateJob claims base inp =
     in_scope claims (\<lambda>_.
     let st = (if cj_Status inp = [] then JobStatusDraft else cj_Status inp) in
     if cj_Title inp = [] then sql_raise (ErrWith AtsInvalid ''title required'')
     else if st \<noteq> JobStatusDraft \<and> st \<noteq> JobStatusOpen then sql_raise (ErrWith AtsInvalid ''invalid status'')
     else sql_bind (sql_wrap ''ats: create job'' (Jobs_Create (new_job base st inp))) (\<lambda>_. sql_return (new_job base st inp)))"

definition ListJobs :: "Claims option \<Rightarrow> string \<Rightarrow> (atsdb, Job list) sql" where
  "ListJobs claims status = in_scope claims (\<lambda>sc. Jobs_ListByPartition sc status 50)"

definition GetJob :: "Claims option \<Rightarrow> string \<Rightarrow> (atsdb, Job) sql" where
  "GetJob claims i =
     in_scope claims (\<lambda>sc. sql_bind (Jobs_GetInPartition sc i) (\<lambda>j. case j of None \<Rightarrow> sql_raise AtsNotFound | Some x \<Rightarrow> sql_return x))"

record UpdateJobInput =
  uj_Title :: "string option"
  uj_Description :: "string option"
  uj_Location :: "string option"
  uj_Status :: "string option"

definition or_old :: "'a option \<Rightarrow> 'a \<Rightarrow> 'a" where
  "or_old v x = (case v of None \<Rightarrow> x | Some y \<Rightarrow> y)"

definition patched_job :: "UpdateJobInput \<Rightarrow> Job \<Rightarrow> Job" where
  "patched_job inp j = j\<lparr>jb_Title := or_old (uj_Title inp) (jb_Title j), jb_Description := or_old (uj_Description inp) (jb_Description j),
     jb_Location := or_old (uj_Location inp) (jb_Location j), jb_Status := or_old (uj_Status inp) (jb_Status j)\<rparr>"

definition UpdateJob :: "Claims option \<Rightarrow> string \<Rightarrow> UpdateJobInput \<Rightarrow> (atsdb, Job) sql" where
  "UpdateJob claims i inp =
     sql_bind (GetJob claims i) (\<lambda>j.
     if uj_Title inp = Some [] then sql_raise (ErrWith AtsInvalid ''title required'')
     else if (case uj_Status inp of None \<Rightarrow> False | Some st \<Rightarrow> st \<notin> {JobStatusDraft, JobStatusOpen, JobStatusClosed})
     then sql_raise (ErrWith AtsInvalid ''invalid status'')
     else if uj_Title inp = None \<and> uj_Description inp = None \<and> uj_Location inp = None \<and> uj_Status inp = None then sql_return j
     else sql_bind (sql_wrap ''ats: update job'' (Jobs_Update (row_id jb_Base j) (patched_job inp))) (\<lambda>_. sql_return (patched_job inp j)))"

definition CloseJob :: "Claims option \<Rightarrow> string \<Rightarrow> (atsdb, Job) sql" where
  "CloseJob claims i = UpdateJob claims i \<lparr>uj_Title = None, uj_Description = None, uj_Location = None, uj_Status = Some JobStatusClosed\<rparr>"

text \<open>
  The second write of the publisher names columns of the product catalog.  \<open>opportunities\<close> has the
  columns of \<open>OpportunityRecord\<close>; a statement over other columns is refused.
\<close>

definition opportunities_columns :: "string list" where
  "opportunities_columns = [''canonical_id'', ''slug'', ''kind'', ''source_id'', ''title'', ''description'', ''how_to_apply'', ''issuing_entity'',
     ''country'', ''region'', ''city'', ''remote'', ''apply_url'', ''posted_at'', ''deadline'', ''currency'', ''amount_min'', ''amount_max'',
     ''employment_type'', ''seniority'', ''geo_scope'', ''status'', ''first_seen_at'', ''last_seen_at'', ''attributes'', ''quality_score'',
     ''hidden'', ''hidden_reason'', ''created_at'', ''updated_at'']"

definition dual_write_columns :: "string list" where
  "dual_write_columns = [''id'', ''title'', ''description'', ''location'', ''kind'', ''status'', ''source_ref'', ''created_at'', ''updated_at'']"

definition dual_unpublish_columns :: "string list" where
  "dual_unpublish_columns = [''status'', ''updated_at'', ''id'']"

definition projection_of :: "BaseModel \<Rightarrow> time \<Rightarrow> Job \<Rightarrow> string \<Rightarrow> JobProjection" where
  "projection_of base now j oppID =
     \<lparr>jp_Base = base\<lparr>bm_TenantID := bm_TenantID (jb_Base j), bm_PartitionID := bm_PartitionID (jb_Base j)\<rparr>, jp_JobID = row_id jb_Base j,
      jp_OpportunityID = oppID, jp_Title = jb_Title j, jp_Description = jb_Description j, jp_Location = jb_Location j,
      jp_Status = ''published'', jp_PublishedAt = Some now\<rparr>"

text \<open>The dual write fails on the columns above and its error is only logged; it has no effect.\<close>

definition Publisher_Publish :: "BaseModel \<Rightarrow> time \<Rightarrow> Job \<Rightarrow> (atsdb, string) sql" where
  "Publisher_Publish base now j =
     (let oppID = (if jb_OpportunityID j = [] then ''opp_ats_'' @ row_id jb_Base j else jb_OpportunityID j) in
      sql_bind (UpsertPublished (projection_of base now j oppID)) (\<lambda>_. sql_return oppID))"

definition Publisher_Unpublish :: "Job \<Rightarrow> (atsdb, unit) sql" where
  "Publisher_Unpublish j = MarkUnpublished (bm_TenantID (jb_Base j)) (bm_PartitionID (jb_Base j)) (row_id jb_Base j)"

definition published_job :: "time \<Rightarrow> string \<Rightarrow> string \<Rightarrow> Job \<Rightarrow> Job" where
  "published_job now oppID status j = j\<lparr>jb_Visibility := VisibilityPublished, jb_OpportunityID := oppID, jb_PublishedAt := Some now,
     jb_Status := (if status = JobStatusDraft then JobStatusOpen else jb_Status j)\<rparr>"

definition PublishJob :: "Claims option \<Rightarrow> BaseModel \<Rightarrow> time \<Rightarrow> time \<Rightarrow> string \<Rightarrow> (atsdb, Job) sql" where
  "PublishJob claims base nowP now i =
     sql_bind (GetJob claims i) (\<lambda>j.
     if jb_Status j = JobStatusClosed then sql_raise (ErrWith AtsInvalid ''closed job'')
     else sql_bind (sql_wrap ''ats: publish'' (Publisher_Publish base nowP j)) (\<lambda>oppID.
          sql_bind (Jobs_Update (row_id jb_Base j) (published_job now oppID (jb_Status j))) (\<lambda>_.
          sql_return (published_job now oppID (jb_Status j) j))))"

definition UnpublishJob :: "Claims option \<Rightarrow> string \<Rightarrow> (atsdb, Job) sql" where
  "UnpublishJob claims i =
     sql_bind (GetJob claims i) (\<lambda>j.
     sql_bind (sql_wrap ''ats: unpublish'' (Publisher_Unpublish j)) (\<lambda>_.
     sql_bind (Jobs_Update (row_id jb_Base j) (\<lambda>x. x\<lparr>jb_Visibility := VisibilityPrivate\<rparr>)) (\<lambda>_.
     sql_return (j\<lparr>jb_Visibility := VisibilityPrivate\<rparr>))))"

section \<open>The pipeline\<close>

record CreateApplicationInput =
  ca_JobID :: string
  ca_ProfileID :: string
  ca_CandidateID :: string
  ca_Source :: string
  ca_SourceRef :: string
  ca_Summary :: string
  ca_Score :: real

definition new_application :: "BaseModel \<Rightarrow> CreateApplicationInput \<Rightarrow> AtsApplication" where
  "new_application base inp =
     \<lparr>ap_Base = base, ap_JobID = ca_JobID inp, ap_ProfileID = ca_ProfileID inp, ap_CandidateID = ca_CandidateID inp, ap_Stage = StageApplied,
      ap_Source = (if ca_Source inp = [] then SourceManual else ca_Source inp), ap_SourceRef = ca_SourceRef inp,
      ap_Status = AppStatusActive, ap_Summary = ca_Summary inp, ap_Score = ca_Score inp\<rparr>"

definition CreateApplication ::
  "Claims option \<Rightarrow> BaseModel \<Rightarrow> BaseModel \<Rightarrow> CreateApplicationInput \<Rightarrow> (atsdb, AtsApplication) sql"
where
  "CreateApplication claims base eventBase inp =
     in_scope claims (\<lambda>sc.
     if ca_JobID inp = [] \<or> ca_ProfileID inp = [] then sql_raise (ErrWith AtsInvalid ''job_id and profile_id required'')
     else sql_bind (GetJob claims (ca_JobID inp)) (\<lambda>_.
          sql_bind (GetActive sc (ca_JobID inp) (ca_ProfileID inp)) (\<lambda>existing.
          if existing \<noteq> None then sql_raise (ErrWith AtsConflict ''active application already exists'')
          else sql_bind (sql_wrap ''ats: create application'' (AtsApplications_Create (new_application base inp))) (\<lambda>_.
               sql_bind (sql_try (StageEvents_Create \<lparr>se_Base = eventBase, se_ApplicationID = bm_ID base, se_FromStage = [],
                 se_ToStage = StageApplied, se_ActorProfileID = sc_ProfileID sc, se_Note = ''created''\<rparr>)) (\<lambda>_.
               sql_return (new_application base inp))))))"

definition ListApplications :: "Claims option \<Rightarrow> string \<Rightarrow> string \<Rightarrow> (atsdb, AtsApplication list) sql" where
  "ListApplications claims jobID stage = in_scope claims (\<lambda>sc. ListByJob sc jobID stage 200)"

definition GetApplication :: "Claims option \<Rightarrow> string \<Rightarrow> (atsdb, AtsApplication) sql" where
  "GetApplication claims i =
     in_scope claims (\<lambda>sc. sql_bind (AtsApplications_GetInPartition sc i) (\<lambda>a. case a of None \<Rightarrow> sql_raise AtsNotFound | Some x \<Rightarrow> sql_return x))"

text \<open>The reference of \<open>LedgerBillingEmitter\<close> with the prefix that the service is built with.\<close>

definition EmitHire :: "HireOutcome \<Rightarrow> string" where
  "EmitHire h = ''result_hire_'' @ ho_JobID h @ ''_'' @ ho_ApplicationID h"

definition new_outcome :: "BaseModel \<Rightarrow> AtsApplication \<Rightarrow> HireOutcome" where
  "new_outcome base a =
     (let h = \<lparr>ho_Base = base, ho_ApplicationID = row_id ap_Base a, ho_JobID = ap_JobID a, ho_ProfileID = ap_ProfileID a,
               ho_BillingRef = [], ho_IdempotencyKey = ''hire:'' @ row_id ap_Base a\<rparr>
      in h\<lparr>ho_BillingRef := EmitHire h\<rparr>)"

definition ensureHireOutcome :: "BaseModel \<Rightarrow> AtsApplication \<Rightarrow> (atsdb, HireOutcome) sql" where
  "ensureHireOutcome base a =
     sql_bind (Hires_GetByApplication (row_id ap_Base a)) (\<lambda>existing.
     case existing of
       Some h \<Rightarrow> sql_return h
     | None \<Rightarrow>
         sql_bind (sql_try (Hires_Create (new_outcome base a))) (\<lambda>r.
         case r of
           Inr _ \<Rightarrow> sql_return (new_outcome base a)
         | Inl e \<Rightarrow> sql_bind (sql_try (Hires_GetByApplication (row_id ap_Base a))) (\<lambda>r2.
             case r2 of Inr (Some h) \<Rightarrow> sql_return h | _ \<Rightarrow> sql_raise e)))"

definition status_of_stage :: "string \<Rightarrow> string \<Rightarrow> string" where
  "status_of_stage toStage status =
     (if toStage = StageRejected then AppStatusRejected else if toStage = StageWithdrawn then AppStatusWithdrawn
      else if toStage = StageHired then AppStatusHired else status)"

definition advanced :: "string \<Rightarrow> AtsApplication \<Rightarrow> AtsApplication" where
  "advanced toStage a = a\<lparr>ap_Stage := toStage, ap_Status := status_of_stage toStage (ap_Status a)\<rparr>"

definition Advance ::
  "Claims option \<Rightarrow> BaseModel \<Rightarrow> BaseModel \<Rightarrow> string \<Rightarrow> string \<Rightarrow> string \<Rightarrow> (atsdb, AtsApplication) sql"
where
  "Advance claims eventBase hireBase applicationID toStage note =
     in_scope claims (\<lambda>sc.
     sql_bind (GetApplication claims applicationID) (\<lambda>a.
     if ap_Status a \<noteq> AppStatusActive then sql_raise (ErrWith AtsInvalid ''application not active'')
     else case ValidateAdvance (ap_Stage a) toStage of
       Some e \<Rightarrow> sql_raise (ErrWith AtsInvalid (Error e))
     | None \<Rightarrow>
         sql_bind (AtsApplications_Update (row_id ap_Base a) (advanced toStage)) (\<lambda>_.
         sql_bind (StageEvents_Create \<lparr>se_Base = eventBase, se_ApplicationID = row_id ap_Base a, se_FromStage = ap_Stage a,
           se_ToStage = toStage, se_ActorProfileID = sc_ProfileID sc, se_Note = note\<rparr>) (\<lambda>_.
         sql_bind (if toStage = StageHired then sql_bind (ensureHireOutcome hireBase (advanced toStage a)) (\<lambda>_. sql_return ())
                   else sql_return ()) (\<lambda>_.
         sql_return (advanced toStage a))))))"

text \<open>
  \<open>Hire\<close> calls itself after it moved an interview to the offer stage.  The first argument bounds
  the depth of the recursion (\<open>Hire_depth\<close> shows that two calls are enough); the \<open>k\<close>-th
  advance writes the event row \<open>eventBase k\<close>.
\<close>

fun Hire :: "nat \<Rightarrow> Claims option \<Rightarrow> (nat \<Rightarrow> BaseModel) \<Rightarrow> BaseModel \<Rightarrow> string \<Rightarrow> (atsdb, AtsApplication \<times> HireOutcome option) sql" where
  "Hire 0 claims eventBase hireBase applicationID = sql_raise (ErrNew ''stack overflow'')"
| "Hire (Suc n) claims eventBase hireBase applicationID =
     sql_bind (GetApplication claims applicationID) (\<lambda>a.
     if ap_Status a = AppStatusHired
     then sql_bind (Hires_GetByApplication (row_id ap_Base a)) (\<lambda>h. sql_return (a, h))
     else if ap_Status a \<noteq> AppStatusActive then sql_raise (ErrWith AtsInvalid ''application not active'')
     else if ap_Stage a = StageInterview
     then sql_bind (Advance claims (eventBase 0) hireBase applicationID StageOffer ''auto before hire'') (\<lambda>_.
          Hire n claims (\<lambda>k. eventBase (Suc k)) hireBase applicationID)
     else if ap_Stage a \<noteq> StageOffer then sql_raise (ErrWith AtsInvalid ''must be at interview or offer to hire'')
     else sql_bind (Advance claims (eventBase 0) hireBase applicationID StageHired ''hired'') (\<lambda>a'.
          sql_bind (Hires_GetByApplication (row_id ap_Base a')) (\<lambda>h. sql_return (a', h))))"

end
