(* ===== verification/Ats_Interviews.thy ===== *)
theory Ats_Interviews
  imports Ats
begin

text \<open>
  Interviews: the bridge to the calendar service (\<open>calendar_bridge.go\<close>), the scheduling operations
  of the service, invitations and the outbox worker (\<open>integrations.go\<close>, \<open>worker.go\<close>), the talent
  shortlist, the dashboard and the idempotency interceptor.

  \<open>rpc\<close> is a call of the calendar service: the request or the response may be lost, the second
  after the call took effect; an error of the callee arrives as an opaque error.  Times travel as
  RFC 3339 text, which drops fractions of a second.
\<close>

section \<open>Calls of the calendar service\<close>

definition rpc_error :: "go_error \<Rightarrow> go_error" where
  "rpc_error e = ErrNew (Error e)"

definition rpc :: "(caldb, 'a) sql \<Rightarrow> (atsdb, 'a) sql" where
  "rpc m = (\<lambda>(s, fs). case next_fault fs of
      (True, fs1) \<Rightarrow> (Inl (ErrNew ''unavailable''), (s, fs1))
    | (False, fs1) \<Rightarrow> (case m (at_calendar s, fs1) of (r, (c, fs2)) \<Rightarrow>
        (case next_fault fs2 of
           (True, fs3) \<Rightarrow> (Inl (ErrNew ''unavailable''), (s\<lparr>at_calendar := c\<rparr>, fs3))
         | (False, fs3) \<Rightarrow> ((case r of Inl e \<Rightarrow> Inl (rpc_error e) | Inr x \<Rightarrow> Inr x), (s\<lparr>at_calendar := c\<rparr>, fs3)))))"

definition RFC3339 :: "time \<Rightarrow> time" where
  "RFC3339 t = t - t mod Second"

text \<open>The values that the two services draw during one operation.\<close>

record ats_env =
  ae_CalClaims :: "Claims option"
  ae_ResourceBase :: "string \<Rightarrow> BaseModel"
  ae_AvailBase :: BaseModel
  ae_TZ :: "string \<Rightarrow> location option"
  ae_SlotWindowDays :: int
  ae_CalNow :: time
  ae_CalNowL :: time
  ae_Call :: call_env
  ae_CancelCall :: call_env

definition person :: "string \<Rightarrow> EnsureResourceInput" where
  "person pid = \<lparr>er_Type = ''person'', er_SubjectKind = ''profile'', er_SubjectID = pid, er_DisplayName = pid, er_Timezone = ''UTC'',
     er_MetadataJSON = [], er_Capacity = 1\<rparr>"

definition EnsurePanelResources :: "ats_env \<Rightarrow> string list \<Rightarrow> (atsdb, string list) sql" where
  "EnsurePanelResources env profileIDs =
     sql_bind (sql_map (\<lambda>pid. sql_wrap (''ats: ensure calendar resource '' @ pid)
         (sql_bind (rpc (EnsureResource (ae_CalClaims env) (ae_ResourceBase env pid) (person pid))) (\<lambda>r. sql_return (row_id cr_Base r))))
       (filter (\<lambda>pid. pid \<noteq> []) profileIDs)) (\<lambda>out.
     if out = [] then sql_raise (ErrWith AtsInvalid ''no panel resources'') else sql_return out)"

definition SyncProfileAvailability :: "ats_env \<Rightarrow> string \<Rightarrow> string \<Rightarrow> WeekRule list \<Rightarrow> ExceptionDay list \<Rightarrow> (atsdb, unit) sql" where
  "SyncProfileAvailability env profileID timezone rules exceptions =
     sql_bind (EnsurePanelResources env [profileID]) (\<lambda>ids.
     sql_bind (sql_wrap ''ats: calendar SetAvailability'' (rpc (SetAvailability (ae_CalClaims env) (ae_AvailBase env)
       \<lparr>sa_ResourceID = hd ids, sa_Timezone = (if timezone = [] then ''UTC'' else timezone), sa_Rules = rules, sa_Exceptions = exceptions\<rparr>))) (\<lambda>_.
     sql_return ()))"

definition GetProfileAvailability :: "ats_env \<Rightarrow> string \<Rightarrow> (atsdb, string \<times> WeekRule list \<times> ExceptionDay list) sql" where
  "GetProfileAvailability env profileID =
     sql_bind (EnsurePanelResources env [profileID]) (\<lambda>ids.
     sql_bind (sql_wrap ''ats: calendar GetAvailability'' (rpc (GetAvailability (ae_CalClaims env) (hd ids)))) (\<lambda>av.
     sql_return (case av of None \<Rightarrow> (''UTC'', [], [])
       | Some a \<Rightarrow> ((if ca_Timezone a = [] then ''UTC'' else ca_Timezone a), ca_Rules a, ca_Exceptions a))))"

definition wire_slot :: "Slot \<Rightarrow> Slot" where
  "wire_slot sl = \<lparr>sl_Start = RFC3339 (sl_Start sl), sl_End = RFC3339 (sl_End sl)\<rparr>"

definition ListPanelSlots :: "ats_env \<Rightarrow> string list \<Rightarrow> int \<Rightarrow> time \<Rightarrow> time \<Rightarrow> (atsdb, Slot list) sql" where
  "ListPanelSlots env resourceIDs durationMin windowStart windowEnd =
     sql_bind (sql_wrap ''ats: calendar ListSlots'' (rpc (ListSlots (ae_TZ env) (ae_SlotWindowDays env) (ae_CalClaims env) (ae_CalNow env) (ae_CalNowL env)
       resourceIDs durationMin (RFC3339 windowStart) (RFC3339 windowEnd)))) (\<lambda>slots.
     sql_return (map wire_slot slots))"

definition panel_line :: "string \<Rightarrow> BookingLine" where
  "panel_line i = \<lparr>bl_Base = \<lparr>bm_ID = [], bm_TenantID = [], bm_PartitionID = [], bm_CreatedAt = 0\<rparr>, bl_BookingID = [], bl_ResourceID = i,
     bl_Quantity = 1, bl_ExternalEventID = []\<rparr>"

definition panel_booking :: "string list \<Rightarrow> time \<Rightarrow> time \<Rightarrow> string \<Rightarrow> string \<Rightarrow> CreateBookingInput" where
  "panel_booking resourceIDs start end' interviewID title =
     \<lparr>ci_Lines = map panel_line resourceIDs, ci_Start = RFC3339 start, ci_End = RFC3339 end', ci_Status = ''confirmed'', ci_HoldTTLSeconds = 0,
      ci_Source = ''ats'', ci_SourceRef = ''interview:'' @ interviewID, ci_OrganizerProfileID = [],
      ci_Title = (if title = [] then ''Interview'' else title), ci_Description = [], ci_Location = [],
      ci_IdempotencyKey = ''ats_interview_'' @ interviewID, ci_MetadataJSON = []\<rparr>"

definition BookPanel :: "ats_env \<Rightarrow> string list \<Rightarrow> time \<Rightarrow> time \<Rightarrow> string \<Rightarrow> string \<Rightarrow> (atsdb, string) sql" where
  "BookPanel env resourceIDs start end' interviewID title =
     sql_bind (sql_wrap ''ats: calendar CreateBooking''
       (if IsZero (RFC3339 start) \<or> IsZero (RFC3339 end') then sql_raise (rpc_error ErrInvalid)
        else rpc (CreateBooking (ae_CalClaims env) (ae_Call env) (panel_booking resourceIDs start end' interviewID title)))) (\<lambda>b.
     sql_return (row_id bk_Base (fst b)))"

definition CancelInterviewBooking :: "ats_env \<Rightarrow> string \<Rightarrow> (atsdb, unit) sql" where
  "CancelInterviewBooking env bookingID =
     (if bookingID = [] then sql_return ()
      else sql_bind (sql_wrap ''ats: calendar CancelBooking'' (rpc (CancelBooking (ae_CalClaims env) (ae_CancelCall env) bookingID ''ats cancel/reschedule''))) (\<lambda>_.
           sql_return ()))"

section \<open>Availability\<close>

definition Availability_GetByProfile :: "string \<Rightarrow> string \<Rightarrow> string \<Rightarrow> (atsdb, AtsAvailability option) sql" where
  "Availability_GetByProfile tenantID partitionID profileID = sql_wrap ''ats: get availability''
     (sql_query (\<lambda>d. List.find (\<lambda>a. bm_TenantID (av_Base a) = tenantID \<and> bm_PartitionID (av_Base a) = partitionID \<and>
        av_ProfileID a = profileID) (ats_availability d)))"

definition UpsertForProfile :: "AtsAvailability \<Rightarrow> (atsdb, AtsAvailability) sql" where
  "UpsertForProfile a =
     sql_bind (Availability_GetByProfile (bm_TenantID (av_Base a)) (bm_PartitionID (av_Base a)) (av_ProfileID a)) (\<lambda>existing.
     case existing of
       None \<Rightarrow> sql_bind (Repo_Create ats_availability ats_availability_update availability_indexes a) (\<lambda>_. sql_return a)
     | Some e \<Rightarrow>
         let f = (\<lambda>x. x\<lparr>av_Timezone := av_Timezone a, av_Rules := av_Rules a, av_Exceptions := av_Exceptions a\<rparr>) in
         sql_bind (sql_wrap ''ats: update availability'' (Repo_Update ats_availability ats_availability_update av_Base availability_indexes
           (row_id av_Base e) f)) (\<lambda>_. sql_return (f e)))"

definition scoped_base :: "Scope \<Rightarrow> BaseModel \<Rightarrow> BaseModel" where
  "scoped_base sc base = base\<lparr>bm_TenantID := sc_TenantID sc, bm_PartitionID := sc_PartitionID sc\<rparr>"

definition SetMyAvailability ::
  "Claims option \<Rightarrow> BaseModel \<Rightarrow> ats_env \<Rightarrow> string \<Rightarrow> WeekRule list \<Rightarrow> ExceptionDay list \<Rightarrow> (atsdb, AtsAvailability) sql"
where
  "SetMyAvailability claims base env timezone rules exceptions =
     in_scope claims (\<lambda>sc.
     let tz = (if timezone = [] then ''UTC'' else timezone);
         a = \<lparr>av_Base = scoped_base sc base, av_ProfileID = sc_ProfileID sc, av_Timezone = tz, av_Rules = rules, av_Exceptions = exceptions\<rparr>
     in sql_bind (SyncProfileAvailability env (sc_ProfileID sc) tz rules exceptions) (\<lambda>_.
        sql_bind (sql_try (UpsertForProfile a)) (\<lambda>r.
        sql_return (case r of Inl e \<Rightarrow> a | Inr x \<Rightarrow> x))))"

definition GetMyAvailability :: "Claims option \<Rightarrow> ats_env \<Rightarrow> (atsdb, AtsAvailability) sql" where
  "GetMyAvailability claims env =
     in_scope claims (\<lambda>sc. sql_bind (GetProfileAvailability env (sc_ProfileID sc)) (\<lambda>(tz, rules, ex).
     sql_return \<lparr>av_Base = \<lparr>bm_ID = [], bm_TenantID = sc_TenantID sc, bm_PartitionID = sc_PartitionID sc, bm_CreatedAt = 0\<rparr>,
       av_ProfileID = sc_ProfileID sc, av_Timezone = tz, av_Rules = rules, av_Exceptions = ex\<rparr>))"

section \<open>Interviews\<close>

definition Interviews_GetInPartition :: "Scope \<Rightarrow> string \<Rightarrow> (atsdb, Interview option) sql" where
  "Interviews_GetInPartition sc i = sql_wrap ''ats: get interview''
     (sql_query (\<lambda>d. List.find (\<lambda>iv. row_id iv_Base iv = i \<and> in_partition sc (iv_Base iv)) (ats_interviews d)))"

definition ListByApplication :: "Scope \<Rightarrow> string \<Rightarrow> (atsdb, Interview list) sql" where
  "ListByApplication sc applicationID = sql_wrap ''ats: list interviews'' (sql_query (\<lambda>d. newest iv_Base
     (filter (\<lambda>iv. in_partition sc (iv_Base iv) \<and> iv_ApplicationID iv = applicationID) (ats_interviews d))))"

definition slot_within :: "time \<Rightarrow> time \<Rightarrow> Interview \<Rightarrow> bool" where
  "slot_within from to iv \<longleftrightarrow> (case iv_SlotStart iv of None \<Rightarrow> False | Some t \<Rightarrow> from \<le> t \<and> t < to)"

definition upcoming :: "Scope \<Rightarrow> time \<Rightarrow> time \<Rightarrow> Interview \<Rightarrow> bool" where
  "upcoming sc from to iv \<longleftrightarrow> in_partition sc (iv_Base iv) \<and> iv_Status iv = InterviewScheduled \<and> slot_within from to iv"

definition ListUpcoming :: "Scope \<Rightarrow> time \<Rightarrow> time \<Rightarrow> int \<Rightarrow> (atsdb, Interview list) sql" where
  "ListUpcoming sc from to limit0 =
     (let limit = (if limit0 \<le> 0 \<or> limit0 > 200 then 50 else limit0) in
      sql_wrap ''ats: list upcoming interviews'' (sql_query (\<lambda>d. take (nat limit)
        (sort_key (\<lambda>iv. case iv_SlotStart iv of None \<Rightarrow> 0 | Some t \<Rightarrow> t) (filter (upcoming sc from to) (ats_interviews d))))))"

definition ListScheduledBusy :: "Scope \<Rightarrow> time \<Rightarrow> time \<Rightarrow> (atsdb, Interview list) sql" where
  "ListScheduledBusy sc from to = sql_wrap ''ats: list busy'' (sql_query (\<lambda>d. filter (\<lambda>iv. in_partition sc (iv_Base iv) \<and>
     iv_Status iv = InterviewScheduled \<and> (case (iv_SlotStart iv, iv_SlotEnd iv) of (Some a, Some b) \<Rightarrow> a < to \<and> b > from | _ \<Rightarrow> False)) (ats_interviews d)))"

definition CountInRange :: "Scope \<Rightarrow> time \<Rightarrow> time \<Rightarrow> (atsdb, int) sql" where
  "CountInRange sc from to = sql_wrap ''ats: count interviews'' (sql_query (\<lambda>d. int (length (filter (upcoming sc from to) (ats_interviews d)))))"

record ProposeInterviewInput =
  pi_ApplicationID :: string
  pi_Type :: string
  pi_Location :: string
  pi_VideoURL :: string
  pi_DurationMin :: int
  pi_Panel :: "string list"

text \<open>\<open>HeuristicAI\<close> suggests thirty minutes when it is asked without a job.\<close>

definition new_interview :: "BaseModel \<Rightarrow> Scope \<Rightarrow> ProposeInterviewInput \<Rightarrow> Interview" where
  "new_interview base sc inp =
     \<lparr>iv_Base = base, iv_ApplicationID = pi_ApplicationID inp, iv_Type = (if pi_Type inp = [] then ''general'' else pi_Type inp),
      iv_DurationMin = (if pi_DurationMin inp \<le> 0 then 30 else pi_DurationMin inp),
      iv_Panel = (if pi_Panel inp = [] then [sc_ProfileID sc] else pi_Panel inp), iv_Status = InterviewProposed,
      iv_SlotStart = None, iv_SlotEnd = None, iv_Location = pi_Location inp, iv_VideoURL = pi_VideoURL inp, iv_ICSUID = [], iv_CalendarBookingID = []\<rparr>"

definition ProposeInterview :: "Claims option \<Rightarrow> BaseModel \<Rightarrow> ProposeInterviewInput \<Rightarrow> (atsdb, Interview) sql" where
  "ProposeInterview claims base inp =
     in_scope claims (\<lambda>sc. sql_bind (GetApplication claims (pi_ApplicationID inp)) (\<lambda>_.
     sql_bind (sql_wrap ''ats: create interview'' (Interviews_Create (new_interview base sc inp))) (\<lambda>_.
     sql_return (new_interview base sc inp))))"

definition panel_of :: "Scope \<Rightarrow> Interview \<Rightarrow> string list" where
  "panel_of sc iv = (if iv_Panel iv = [] then [sc_ProfileID sc] else iv_Panel iv)"

definition ListInterviewSlots :: "Claims option \<Rightarrow> ats_env \<Rightarrow> int \<Rightarrow> time \<Rightarrow> string \<Rightarrow> (atsdb, Slot list) sql" where
  "ListInterviewSlots claims env windowDays now interviewID =
     in_scope claims (\<lambda>sc. sql_bind (Interviews_GetInPartition sc interviewID) (\<lambda>found.
     case found of
       None \<Rightarrow> sql_raise AtsNotFound
     | Some iv \<Rightarrow> sql_bind (EnsurePanelResources env (panel_of sc iv)) (\<lambda>resIDs.
         ListPanelSlots env resIDs (iv_DurationMin iv) now (now + windowDays * Day))))"

section \<open>Invitations\<close>

definition icsEscape :: "string \<Rightarrow> string" where
  "icsEscape s =
     ReplaceAll_char CHR 0x0A [backslash, CHR ''n'']
      (ReplaceAll_char CHR '','' [backslash, CHR '','']
        (ReplaceAll_char CHR '';'' [backslash, CHR '';'']
          (ReplaceAll_char backslash [backslash, backslash] s)))"

text \<open>\<open>BuildICS\<close> with the organizer that every caller leaves empty.\<close>

definition BuildICS :: "time \<Rightarrow> Interview \<Rightarrow> string \<Rightarrow> string \<Rightarrow> string" where
  "BuildICS now iv jobTitle candidateProfile =
     (case (iv_SlotStart iv, iv_SlotEnd iv) of
        (Some start, Some end') \<Rightarrow>
          let uid = (if iv_ICSUID iv = [] then row_id iv_Base iv @ ''@stawi-ats'' else iv_ICSUID iv);
              summary = (if jobTitle = [] then ''Interview'' else ''Interview: '' @ jobTitle);
              desc = ''Application '' @ iv_ApplicationID iv @ [backslash] @ ''nCandidate profile '' @ candidateProfile @ [backslash] @ ''nType '' @ iv_Type iv;
              loc = iv_Location iv @ (if iv_VideoURL iv = [] then [] else (if iv_Location iv = [] then [] else '' / '') @ iv_VideoURL iv)
          in concat (map (\<lambda>l. l @ crlf) (
               [''BEGIN:VCALENDAR'', ''VERSION:2.0'', ''PRODID:-//Stawi//ATS//EN'', ''CALSCALE:GREGORIAN'', ''METHOD:REQUEST'', ''BEGIN:VEVENT'',
                ''UID:'' @ uid, ''DTSTAMP:'' @ formatICSTime now, ''DTSTART:'' @ formatICSTime start, ''DTEND:'' @ formatICSTime end',
                ''SUMMARY:'' @ icsEscape summary, ''DESCRIPTION:'' @ icsEscape desc] @
               (if loc = [] then [] else [''LOCATION:'' @ icsEscape loc]) @
               [''ORGANIZER:mailto:noreply@stawi.local'', ''STATUS:CONFIRMED'', ''END:VEVENT'', ''END:VCALENDAR'']))
      | _ \<Rightarrow> [])"

definition RFC3339_text :: "time \<Rightarrow> string" where
  "RFC3339_text t =
     (case civil (t div Day) of (y, m, d) \<Rightarrow>
        let s = (t mod Day) div Second
        in digits 4 y @ ''-'' @ digits 2 m @ ''-'' @ digits 2 d @ ''T'' @
           digits 2 (s div 3600) @ '':'' @ digits 2 (s div 60 mod 60) @ '':'' @ digits 2 (s mod 60) @ ''Z'')"

record notify_config =
  nc_Client :: bool
  nc_Template :: string
  nc_SiteBaseURL :: string

definition DefaultTemplate :: string where "DefaultTemplate = ''template.opportunities.ats.interview.scheduled''"

definition template_of :: "notify_config \<Rightarrow> string" where
  "template_of cfg = (if nc_Template cfg = [] then DefaultTemplate else nc_Template cfg)"

text \<open>
  \<open>notify.Send\<close>: a message that the service accepts is in \<open>at_sent\<close>; reading the response stream
  may fail after that.
\<close>

definition Send :: "notify_config \<Rightarrow> Message \<Rightarrow> (atsdb, unit) sql" where
  "Send cfg msg =
     (if \<not> nc_Client cfg then sql_raise (ErrNew ''notify: notification client is nil'')
      else if msg_Template msg = [] then sql_raise (ErrNew ''notify: template required'')
      else if msg_ProfileID msg = [] then sql_raise (ErrNew ''notify: profile_id required'')
      else sql_bind (sql_exec (\<lambda>d. d\<lparr>at_sent := at_sent d @ [msg]\<rparr>)) (\<lambda>_. sql_query (\<lambda>_. ())))"

definition trim_slashes :: "string \<Rightarrow> string" where
  "trim_slashes s = rev (dropWhile (\<lambda>ch. ch = CHR ''/'') (rev s))"

definition interview_payload :: "notify_config \<Rightarrow> time \<Rightarrow> Interview \<Rightarrow> AtsApplication \<Rightarrow> Job option \<Rightarrow> payload" where
  "interview_payload cfg now iv a job =
     (let jobTitle = (case job of None \<Rightarrow> [] | Some j \<Rightarrow> jb_Title j);
          at' = (\<lambda>t. case t of None \<Rightarrow> [] | Some x \<Rightarrow> RFC3339_text x)
      in [(''interview_id'', row_id iv_Base iv), (''application_id'', row_id ap_Base a), (''profile_id'', ap_ProfileID a), (''job_id'', ap_JobID a),
          (''job_title'', jobTitle), (''slot_start'', at' (iv_SlotStart iv)), (''slot_end'', at' (iv_SlotEnd iv)),
          (''ics'', BuildICS now iv jobTitle (ap_ProfileID a)),
          (''book_url'', if nc_SiteBaseURL cfg = [] then [] else trim_slashes (nc_SiteBaseURL cfg) @ ''/interview/'' @ row_id iv_Base iv)])"

definition mail_keys :: "string list" where
  "mail_keys = [''job_title'', ''slot_start'', ''slot_end'', ''book_url'', ''ics'']"

definition EnqueueInterviewScheduled ::
  "notify_config \<Rightarrow> BaseModel \<Rightarrow> time \<Rightarrow> Interview \<Rightarrow> AtsApplication \<Rightarrow> Job option \<Rightarrow> (atsdb, unit) sql"
where
  "EnqueueInterviewScheduled cfg base now iv a job =
     (let payload = interview_payload cfg now iv a job in
      sql_bind (sql_try (AtsOutbox_Create \<lparr>om_Base = base, om_Kind = OutboxKindInterviewScheduled, om_Payload = Some payload,
        om_Status = OutboxPending, om_IdempotencyKey = ''interview.scheduled:'' @ row_id iv_Base iv, om_Attempts = 0\<rparr>)) (\<lambda>_.
      if nc_Client cfg \<and> ap_ProfileID a \<noteq> []
      then sql_bind (sql_try (Send cfg \<lparr>msg_Template = template_of cfg, msg_ProfileID = ap_ProfileID a,
             msg_Variables = filter (\<lambda>kv. fst kv \<in> set mail_keys) payload\<rparr>)) (\<lambda>_. sql_return ())
      else sql_return ()))"

section \<open>Booking\<close>

text \<open>The application and the job of an interview, where lookup errors count as absence.\<close>

definition interview_context :: "Scope \<Rightarrow> Interview \<Rightarrow> (atsdb, AtsApplication option \<times> Job option) sql" where
  "interview_context sc iv =
     sql_bind (sql_try (AtsApplications_GetInPartition sc (iv_ApplicationID iv))) (\<lambda>r.
     case r of
       Inr (Some a) \<Rightarrow> sql_bind (sql_try (Jobs_GetInPartition sc (ap_JobID a))) (\<lambda>r2.
         sql_return (Some a, case r2 of Inr j \<Rightarrow> j | Inl e \<Rightarrow> None))
     | _ \<Rightarrow> sql_return (None, None))"

definition scheduled :: "time \<Rightarrow> time \<Rightarrow> string \<Rightarrow> string \<Rightarrow> Interview \<Rightarrow> Interview" where
  "scheduled start end' bookingID uid iv =
     iv\<lparr>iv_SlotStart := Some start, iv_SlotEnd := Some end', iv_Status := InterviewScheduled, iv_CalendarBookingID := bookingID,
        iv_ICSUID := (if iv_ICSUID iv = [] then uid else iv_ICSUID iv)\<rparr>"

definition schedule_row ::
  "ats_env \<Rightarrow> notify_config \<Rightarrow> BaseModel \<Rightarrow> time \<Rightarrow> string \<Rightarrow> Scope \<Rightarrow> Interview \<Rightarrow> time \<Rightarrow> time \<Rightarrow> string \<Rightarrow> (atsdb, Interview) sql"
where
  "schedule_row env cfg outboxBase nowM uid sc iv start end' bookingID =
     sql_bind (sql_try (Interviews_Update (row_id iv_Base iv) (scheduled start end' bookingID uid))) (\<lambda>r.
     case r of
       Inl e \<Rightarrow> sql_bind (sql_try (CancelInterviewBooking env bookingID)) (\<lambda>_. sql_raise e)
     | Inr _ \<Rightarrow> sql_bind (interview_context sc iv) (\<lambda>(a, job).
         sql_bind (case a of None \<Rightarrow> sql_return (Inr ())
           | Some x \<Rightarrow> sql_try (EnqueueInterviewScheduled cfg outboxBase nowM (scheduled start end' bookingID uid iv) x job)) (\<lambda>_.
         sql_return (scheduled start end' bookingID uid iv))))"

definition book_slot ::
  "ats_env \<Rightarrow> notify_config \<Rightarrow> BaseModel \<Rightarrow> time \<Rightarrow> string \<Rightarrow> Scope \<Rightarrow> Interview \<Rightarrow> time \<Rightarrow> time \<Rightarrow> (atsdb, Interview) sql"
where
  "book_slot env cfg outboxBase nowM uid sc iv start end' =
     sql_bind (EnsurePanelResources env (panel_of sc iv)) (\<lambda>resIDs.
     sql_bind (interview_context sc iv) (\<lambda>(_, job).
     sql_bind (BookPanel env resIDs start end' (row_id iv_Base iv) (case job of None \<Rightarrow> ''Interview'' | Some j \<Rightarrow> ''Interview: '' @ jb_Title j)) (\<lambda>bookingID.
     schedule_row env cfg outboxBase nowM uid sc iv start end' bookingID)))"

definition BookInterview ::
  "Claims option \<Rightarrow> ats_env \<Rightarrow> notify_config \<Rightarrow> int \<Rightarrow> time \<Rightarrow> time \<Rightarrow> BaseModel \<Rightarrow> string \<Rightarrow> string \<Rightarrow> time \<Rightarrow> (atsdb, Interview) sql"
where
  "BookInterview claims env cfg windowDays now nowM outboxBase uid interviewID start =
     in_scope claims (\<lambda>sc. sql_bind (Interviews_GetInPartition sc interviewID) (\<lambda>found.
     case found of
       None \<Rightarrow> sql_raise AtsNotFound
     | Some iv \<Rightarrow>
         if iv_Status iv = InterviewScheduled
         then if iv_SlotStart iv = Some start then sql_return iv else sql_raise (ErrWith AtsConflict ''already scheduled'')
         else if iv_Status iv \<noteq> InterviewProposed then sql_raise (ErrWith AtsInvalid ''interview not bookable'')
         else sql_bind (ListInterviewSlots claims env windowDays now (row_id iv_Base iv)) (\<lambda>slots.
           case List.find (\<lambda>sl. sl_Start sl = start) slots of
             None \<Rightarrow> sql_raise (ErrWith AtsConflict ''slot not available'')
           | Some sl \<Rightarrow> book_slot env cfg outboxBase nowM uid sc iv start (sl_End sl))))"

section \<open>The outbox worker\<close>

definition AtsOutbox_ListPending :: "int \<Rightarrow> (atsdb, OutboxMessage list) sql" where
  "AtsOutbox_ListPending limit0 =
     (let limit = (if limit0 \<le> 0 \<or> limit0 > 200 then 50 else limit0) in
      sql_wrap ''ats: list pending outbox'' (sql_query (\<lambda>d. take (nat limit)
        (sort_key (\<lambda>m. bm_CreatedAt (om_Base m)) (filter (\<lambda>m. om_Status m = OutboxPending) (ats_outbox d))))))"

definition sent_row :: "OutboxMessage \<Rightarrow> OutboxMessage" where
  "sent_row m = m\<lparr>om_Status := OutboxSent, om_Attempts := om_Attempts m + 1\<rparr>"

definition AtsOutbox_MarkSent :: "string \<Rightarrow> (atsdb, unit) sql" where
  "AtsOutbox_MarkSent i = sql_wrap ''ats: mark outbox sent'' (sql_exec (\<lambda>d. d\<lparr>ats_outbox :=
     update_where (\<lambda>m. row_id om_Base m = i \<and> om_Status m = OutboxPending) sent_row (ats_outbox d)\<rparr>))"

definition failed_row :: "int \<Rightarrow> OutboxMessage \<Rightarrow> OutboxMessage" where
  "failed_row attempts m = m\<lparr>om_Status := (if attempts \<ge> 8 then OutboxFailed else OutboxPending), om_Attempts := attempts\<rparr>"

definition AtsOutbox_MarkFailed :: "string \<Rightarrow> int \<Rightarrow> (atsdb, unit) sql" where
  "AtsOutbox_MarkFailed i attempts = sql_wrap ''ats: mark outbox failed'' (sql_exec (\<lambda>d. d\<lparr>ats_outbox :=
     update_where (\<lambda>m. row_id om_Base m = i) (failed_row attempts) (ats_outbox d)\<rparr>))"

definition deliver :: "notify_config \<Rightarrow> OutboxMessage \<Rightarrow> (atsdb, unit) sql" where
  "deliver cfg m =
     (if \<not> nc_Client cfg then sql_raise (ErrNew ''ats: notification client not configured'')
      else case om_Payload m of
        None \<Rightarrow> sql_raise (ErrNew ''invalid payload'')
      | Some payload \<Rightarrow>
          (case map_of payload ''profile_id'' of
             None \<Rightarrow> sql_return ()
           | Some profileID \<Rightarrow> if profileID = [] then sql_return ()
               else Send cfg \<lparr>msg_Template = template_of cfg, msg_ProfileID = profileID, msg_Variables = payload\<rparr>))"

definition drain_one :: "notify_config \<Rightarrow> OutboxMessage \<Rightarrow> (atsdb, unit) sql" where
  "drain_one cfg m =
     sql_bind (sql_try (deliver cfg m)) (\<lambda>r.
     sql_bind (sql_try (case r of Inl e \<Rightarrow> AtsOutbox_MarkFailed (row_id om_Base m) (om_Attempts m + 1) | Inr _ \<Rightarrow> AtsOutbox_MarkSent (row_id om_Base m))) (\<lambda>_.
     sql_return ()))"

definition drain_outbox :: "notify_config \<Rightarrow> int \<Rightarrow> (atsdb, unit) sql" where
  "drain_outbox cfg batch =
     sql_bind (sql_try (AtsOutbox_ListPending batch)) (\<lambda>r.
     case r of Inl e \<Rightarrow> sql_return () | Inr rows \<Rightarrow> sql_bind (sql_map (drain_one cfg) rows) (\<lambda>_. sql_return ()))"

section \<open>Talent\<close>

record talent_row =
  tr_ID :: string
  tr_ProfileID :: string
  tr_Name :: string
  tr_Title :: string
  tr_Skills :: string
  tr_Bio :: string

record TalentHit =
  th_ProfileID :: string
  th_CandidateID :: string
  th_Score :: real
  th_Summary :: string

definition separators :: string where "separators = '' ,/-.()'' @ [CHR 0x0A]"

function FieldsFunc :: "(char \<Rightarrow> bool) \<Rightarrow> string \<Rightarrow> string list" where
  "FieldsFunc sep [] = []"
| "FieldsFunc sep (ch # s) =
     (if sep ch then FieldsFunc sep s
      else (ch # takeWhile (\<lambda>x. \<not> sep x) s) # FieldsFunc sep (dropWhile (\<lambda>x. \<not> sep x) s))"
  by pat_completeness auto
termination by (relation "measure (length \<circ> snd)") (auto simp: le_imp_less_Suc length_dropWhile_le)

definition keywordTokens :: "string \<Rightarrow> string list" where
  "keywordTokens s = filter (\<lambda>p. 3 \<le> length p) (FieldsFunc (\<lambda>ch. ch \<in> set separators) (ToLower s))"

fun Contains_text :: "string \<Rightarrow> string \<Rightarrow> bool" where
  "Contains_text [] t \<longleftrightarrow> t = []"
| "Contains_text (ch # s) t \<longleftrightarrow> take (length t) (ch # s) = t \<or> Contains_text s t"

definition keywordScore :: "string list \<Rightarrow> string \<Rightarrow> real" where
  "keywordScore tokens doc =
     (if tokens = [] \<or> ''%'' \<in> set tokens then 1 / 2
      else 35 / 100 + 65 / 100 * (real (length (filter (Contains_text doc) tokens)) / real (length tokens)))"

text \<open>The dash and the ellipsis of the source are not ASCII.\<close>

definition talent_summary :: "talent_row \<Rightarrow> string" where
  "talent_summary r =
     (let s = (if tr_Name r = [] then tr_Title r else tr_Name r @ (if tr_Title r = [] then [] else '' - '' @ tr_Title r));
          s' = (if s = [] then tr_Bio r else s)
      in if length s' > 200 then take 200 s' @ ''...'' else s')"

definition talent_hits :: "string list \<Rightarrow> talent_row list \<Rightarrow> TalentHit list" where
  "talent_hits tokens rows =
     map (\<lambda>(r, sc). \<lparr>th_ProfileID = tr_ProfileID r, th_CandidateID = tr_ID r, th_Score = sc, th_Summary = talent_summary r\<rparr>)
       (filter (\<lambda>(r, sc). \<not> (sc < 35 / 100 \<and> tokens \<noteq> [] \<and> hd tokens \<noteq> ''%''))
         (map (\<lambda>r. (r, keywordScore tokens (ToLower (tr_Name r @ '' '' @ tr_Title r @ '' '' @ tr_Skills r @ '' '' @ tr_Bio r)))) rows))"

text \<open>The exchange sort: one pass of the inner loop, then the passes.\<close>

fun exchange_pass :: "TalentHit \<Rightarrow> TalentHit list \<Rightarrow> TalentHit \<times> TalentHit list" where
  "exchange_pass x [] = (x, [])"
| "exchange_pass x (y # ys) =
     (if th_Score y > th_Score x then case exchange_pass y ys of (m, r) \<Rightarrow> (m, x # r)
      else case exchange_pass x ys of (m, r) \<Rightarrow> (m, y # r))"

lemma length_exchange_pass [simp]: "length (snd (exchange_pass x ys)) = length ys"
  by (induction x ys rule: exchange_pass.induct) (auto split: prod.splits)

function exchange_sort :: "TalentHit list \<Rightarrow> TalentHit list" where
  "exchange_sort [] = []"
| "exchange_sort (x # xs) = fst (exchange_pass x xs) # exchange_sort (snd (exchange_pass x xs))"
  by pat_completeness auto
termination by (relation "measure length") auto

text \<open>\<open>query n\<close> is the answer of the candidate query with limit \<open>n\<close>, after its fallback.\<close>

definition ListForJob :: "(int \<Rightarrow> talent_row list option) \<Rightarrow> string \<Rightarrow> string \<Rightarrow> int \<Rightarrow> TalentHit list" where
  "ListForJob query title description limit0 =
     (let limit = (if limit0 \<le> 0 then 20 else limit0);
          tokens0 = keywordTokens (title @ '' '' @ description); tokens = (if tokens0 = [] then [''%''] else tokens0)
      in case query (limit * 3) of None \<Rightarrow> [] | Some rows \<Rightarrow> take (nat limit) (exchange_sort (talent_hits tokens rows)))"

definition ListTalent :: "Claims option \<Rightarrow> (int \<Rightarrow> talent_row list option) \<Rightarrow> string \<Rightarrow> int \<Rightarrow> (atsdb, TalentHit list) sql" where
  "ListTalent claims query jobID limit =
     in_scope claims (\<lambda>_. sql_bind (GetJob claims jobID) (\<lambda>j.
     sql_return (ListForJob query (jb_Title j) (jb_Description j) (if limit \<le> 0 then 20 else limit))))"

definition AddTalent :: "Claims option \<Rightarrow> BaseModel \<Rightarrow> BaseModel \<Rightarrow> string \<Rightarrow> TalentHit \<Rightarrow> (atsdb, AtsApplication) sql" where
  "AddTalent claims base eventBase jobID hit = CreateApplication claims base eventBase
     \<lparr>ca_JobID = jobID, ca_ProfileID = th_ProfileID hit, ca_CandidateID = th_CandidateID hit, ca_Source = SourceStawiMatch, ca_SourceRef = [],
      ca_Summary = th_Summary hit, ca_Score = th_Score hit\<rparr>"

section \<open>Reading\<close>

text \<open>\<open>summarize\<close> is the text of \<open>HeuristicAI\<close>.\<close>

definition ScreenSummary :: "Claims option \<Rightarrow> BaseModel \<Rightarrow> (Job option \<Rightarrow> AtsApplication \<Rightarrow> string) \<Rightarrow> string \<Rightarrow> (atsdb, string) sql" where
  "ScreenSummary claims base summarize applicationID =
     in_scope claims (\<lambda>sc. sql_bind (GetApplication claims applicationID) (\<lambda>a.
     sql_bind (sql_try (Jobs_GetInPartition sc (ap_JobID a))) (\<lambda>r.
     let txt' = summarize (case r of Inr j \<Rightarrow> j | Inl e \<Rightarrow> None) a in
     sql_bind (sql_try (AiRuns_Create \<lparr>ar_Base = base, ar_Purpose = ''screen_summary'', ar_ActorProfileID = sc_ProfileID sc, ar_InputHash = [],
       ar_OutputJSON = txt'\<rparr>)) (\<lambda>_. sql_return txt'))))"

record InterviewDTO =
  dt_Interview :: Interview
  dt_CandidateID :: string
  dt_JobID :: string
  dt_JobTitle :: string

definition interview_dto :: "Scope \<Rightarrow> Interview \<Rightarrow> (atsdb, InterviewDTO) sql" where
  "interview_dto sc iv = sql_bind (interview_context sc iv) (\<lambda>(a, job).
     sql_return \<lparr>dt_Interview = iv, dt_CandidateID = (case a of None \<Rightarrow> [] | Some x \<Rightarrow> ap_ProfileID x),
       dt_JobID = (case a of None \<Rightarrow> [] | Some x \<Rightarrow> ap_JobID x), dt_JobTitle = (case job of None \<Rightarrow> [] | Some j \<Rightarrow> jb_Title j)\<rparr>)"

record DashboardDTO =
  da_OpenJobs :: int
  da_ActiveApplications :: int
  da_InterviewsThisWeek :: int
  da_UpcomingInterviews :: "InterviewDTO list"
  da_NeedsAttention :: "string list"

definition Dashboard :: "Claims option \<Rightarrow> ats_env \<Rightarrow> time \<Rightarrow> (atsdb, DashboardDTO) sql" where
  "Dashboard claims env now =
     in_scope claims (\<lambda>sc.
     sql_bind (Jobs_CountByStatus sc JobStatusOpen) (\<lambda>open'.
     sql_bind (AtsApplications_CountByStatus sc AppStatusActive) (\<lambda>active.
     sql_bind (CountInRange sc now (now + 7 * Day)) (\<lambda>nWeek.
     sql_bind (ListUpcoming sc now (now + 7 * Day) 20) (\<lambda>ivs.
     sql_bind (sql_map (interview_dto sc) ivs) (\<lambda>dtos.
     sql_bind (sql_try (GetProfileAvailability env (sc_ProfileID sc))) (\<lambda>r.
     sql_return \<lparr>da_OpenJobs = open', da_ActiveApplications = active, da_InterviewsThisWeek = nWeek, da_UpcomingInterviews = dtos,
       da_NeedsAttention =
         (if open' = 0 then [''Create an open job to start hiring''] else []) @
         (if active = 0 \<and> open' > 0 then [''Add candidates from Stawi talent or by profile_id''] else []) @
         (if (case r of Inl e \<Rightarrow> True | Inr (_, rules, _) \<Rightarrow> rules = [])
          then [''Set your interview availability so candidates can book''] else [])\<rparr>)))))))"

definition ListInterviews :: "Claims option \<Rightarrow> string \<Rightarrow> (atsdb, Interview list) sql" where
  "ListInterviews claims applicationID = in_scope claims (\<lambda>sc. ListByApplication sc applicationID)"

definition GetInterviewICS :: "Claims option \<Rightarrow> time \<Rightarrow> string \<Rightarrow> (atsdb, string) sql" where
  "GetInterviewICS claims now interviewID =
     in_scope claims (\<lambda>sc. sql_bind (Interviews_GetInPartition sc interviewID) (\<lambda>found.
     case found of None \<Rightarrow> sql_raise AtsNotFound
     | Some iv \<Rightarrow> sql_bind (interview_context sc iv) (\<lambda>(a, job).
         sql_return (BuildICS now iv (case job of None \<Rightarrow> [] | Some j \<Rightarrow> jb_Title j) (case a of None \<Rightarrow> [] | Some x \<Rightarrow> ap_ProfileID x)))))"

definition MyApplications :: "Claims option \<Rightarrow> (atsdb, (AtsApplication \<times> string) list) sql" where
  "MyApplications claims =
     in_scope claims (\<lambda>sc. sql_bind (ListByProfile sc) (\<lambda>rows.
     sql_map (\<lambda>a. sql_bind (sql_try (Jobs_GetInPartition sc (ap_JobID a))) (\<lambda>r.
       sql_return (a, case r of Inr (Some j) \<Rightarrow> jb_Title j | _ \<Rightarrow> []))) rows))"

section \<open>Idempotency keys\<close>

definition idempotentProcedures :: "string list" where
  "idempotentProcedures = [''CreateJob'', ''PublishJob'', ''UnpublishJob'', ''CreateApplication'', ''AdvanceApplication'', ''HireApplication'',
     ''BookInterview'', ''ProposeInterview'', ''AddTalent'', ''SetMyAvailability'']"

definition procedureName :: "string \<Rightarrow> string" where
  "procedureName full =
     (let name = rev (takeWhile (\<lambda>ch. ch \<noteq> CHR ''/'') (rev full)) in if CHR ''/'' \<in> set full \<and> name \<noteq> [] then name else full)"

definition Idempotency_Get :: "string \<Rightarrow> string \<Rightarrow> string \<Rightarrow> (atsdb, IdempotencyRecord option) sql" where
  "Idempotency_Get tenantID key route = sql_wrap ''ats: get idempotency''
     (sql_query (\<lambda>d. List.find (\<lambda>r. bm_TenantID (ir_Base r) = tenantID \<and> ir_Key r = key \<and> ir_Route r = route) (ats_idempotency_keys d)))"

definition Idempotency_Save :: "IdempotencyRecord \<Rightarrow> (atsdb, unit) sql" where
  "Idempotency_Save rec =
     sql_bind (Idempotency_Get (bm_TenantID (ir_Base rec)) (ir_Key rec) (ir_Route rec)) (\<lambda>existing.
     case existing of
       Some e \<Rightarrow> Repo_Update ats_idempotency_keys ats_idempotency_keys_update ir_Base idempotency_indexes (row_id ir_Base e)
         (\<lambda>x. x\<lparr>ir_Response := ir_Response rec, ir_StatusCode := ir_StatusCode rec\<rparr>)
     | None \<Rightarrow> Repo_Create ats_idempotency_keys ats_idempotency_keys_update idempotency_indexes rec)"

text \<open>\<open>marshal\<close> is the JSON text of a response, \<open>next'\<close> the procedure.\<close>

definition WrapUnary ::
  "Claims option \<Rightarrow> BaseModel \<Rightarrow> ('a \<Rightarrow> string) \<Rightarrow> string \<Rightarrow> string \<Rightarrow> (atsdb, 'a) sql \<Rightarrow> (atsdb, 'a) sql"
where
  "WrapUnary claims base marshal procedure header next' =
     (let proc = procedureName procedure; key = TrimSpace header; tenantID = (case claims of None \<Rightarrow> [] | Some c \<Rightarrow> cl_TenantID c) in
      if proc \<notin> set idempotentProcedures \<or> key = [] \<or> tenantID = [] then next'
      else sql_bind (sql_try (Idempotency_Get tenantID key proc)) (\<lambda>_.
           sql_bind next' (\<lambda>resp.
           sql_bind (sql_try (Idempotency_Save \<lparr>ir_Base = base\<lparr>bm_TenantID := tenantID,
               bm_PartitionID := (case claims of None \<Rightarrow> [] | Some c \<Rightarrow> cl_PartitionID c)\<rparr>,
             ir_Key = key, ir_Route = proc, ir_Response = marshal resp, ir_StatusCode = 200\<rparr>)) (\<lambda>_.
           sql_return resp))))"

section \<open>Error codes\<close>

datatype connect_code = CodeNotFound | CodeAlreadyExists | CodeInvalidArgument | CodePermissionDenied | CodeUnavailable | CodeInternal

definition mapConnectErr :: "go_error \<Rightarrow> connect_code" where
  "mapConnectErr e =
     (if errors_Is e AtsNotFound then CodeNotFound
      else if errors_Is e AtsConflict then CodeAlreadyExists
      else if errors_Is e AtsInvalid \<or> errors_Is e AtsEmptyAvail then CodeInvalidArgument
      else if errors_Is e AtsForbidden then CodePermissionDenied
      else if errors_Is e AtsUnavailable then CodeUnavailable
      else CodeInternal)"

text \<open>An error of the calendar service is opaque: also a conflict reaches the caller as an internal error.\<close>

lemma calendar_conflict_code: "mapConnectErr (ErrWrap ''ats: calendar CreateBooking'' (rpc_error (ErrWith ErrConflict ''slot not available''))) = CodeInternal"
  by code_simp

end
