(* ===== verification/Ats_Spec.thy ===== *)
theory Ats_Spec
  imports Ats_Interviews
begin

text \<open>
  The hiring pipeline as a transition system: the graph of stages, the invariant of the
  application and outcome tables, and the proof that every operation of the service keeps it and
  moves applications only along the graph.
\<close>

section \<open>The base repository\<close>

context sql_preorder
begin

lemma preserves_create:
  assumes "\<And>d. list_all (\<lambda>(n, clash). \<not> list_ex (clash r) (rows d)) uniq \<Longrightarrow> R d (upd (\<lambda>rs. rs @ [r]) d)"
  shows "preserves R (Repo_Create rows upd uniq r)"
  unfolding Repo_Create_def
proof (rule preserves_stmt)
  fix s x s'
  assume run: "(case List.find (\<lambda>(n, clash). list_ex (clash r) (rows s)) uniq of
      None \<Rightarrow> (Inr (), upd (\<lambda>rs. rs @ [r]) s) | Some (n, _) \<Rightarrow> (Inl (ErrConstraint n), s)) = (Inr x, s')"
  then have "List.find (\<lambda>(n, clash). list_ex (clash r) (rows s)) uniq = None" by (auto split: option.splits)
  moreover from this have "list_all (\<lambda>(n, clash). \<not> list_ex (clash r) (rows s)) uniq" by (auto simp: find_None_iff list_all_iff)
  ultimately show "R s s'" using run assms by auto
qed

text \<open>An update keeps \<open>R\<close> from a state in which it does so for the row that was read.\<close>

lemma after_update:
  assumes "list_all (\<lambda>(n, clash). \<not> list_ex (\<lambda>r. row_id base r = i \<and> list_ex (\<lambda>x. row_id base x \<noteq> i \<and> clash (f r) x) (rows d)) (rows d)) uniq
    \<Longrightarrow> R d (upd (update_where (\<lambda>r. row_id base r = i) f) d)"
  shows "R d (tables_after (Repo_Update rows upd base uniq i f) (d, fs))"
proof (cases "List.find (\<lambda>(n, clash). list_ex (\<lambda>r. row_id base r = i \<and> list_ex (\<lambda>x. row_id base x \<noteq> i \<and> clash (f r) x) (rows d)) (rows d)) uniq")
  case None
  then have "R d (upd (update_where (\<lambda>r. row_id base r = i) f) d)" using assms by (auto simp: find_None_iff list_all_iff)
  with None show ?thesis by (auto simp: Repo_Update_def tables_after_def sql_stmt_def R_refl split: prod.splits bool.splits)
next
  case (Some a)
  then show ?thesis by (auto simp: Repo_Update_def tables_after_def sql_stmt_def R_refl split: prod.splits bool.splits)
qed

lemma preserves_update:
  assumes "\<And>d. R d (upd (update_where (\<lambda>r. row_id base r = i) f) d)"
  shows "preserves R (Repo_Update rows upd base uniq i f)"
proof -
  have "R d (tables_after (Repo_Update rows upd base uniq i f) (d, fs))" for d fs by (rule after_update) (rule assms)
  then show ?thesis by (simp add: preserves_def)
qed

lemma preserves_in_scope: "(\<And>sc. preserves R (k sc)) \<Longrightarrow> preserves R (case v of Inl e \<Rightarrow> sql_raise e | Inr sc \<Rightarrow> k sc)"
  by (cases v) (auto intro: preserves_raise)

lemma preserves_prod: "(\<And>a b. preserves R (k a b)) \<Longrightarrow> preserves R (case v of (a, b) \<Rightarrow> k a b)"
  by (cases v) auto

end

section \<open>The graph of stages\<close>

definition stage_edges :: "(string \<times> string) set" where
  "stage_edges = {(a, b). b \<in> set (Stage_AllowedNext a)}"

lemma ValidateAdvance_edge: "ValidateAdvance a b = None \<longleftrightarrow> (a, b) \<in> stage_edges"
proof -
  have "a \<notin> set (Stage_AllowedNext a)"
    by (auto simp: Stage_AllowedNext_def stage_table_def stage_defs split: if_splits option.splits)
  then show ?thesis by (auto simp: ValidateAdvance_def stage_edges_def)
qed

section \<open>The invariant\<close>

definition stage_ok :: "AtsApplication \<Rightarrow> bool" where
  "stage_ok a \<longleftrightarrow> ap_Status a = AppStatusActive \<and> ap_Stage a \<in> {StageApplied, StageScreen, StageInterview, StageOffer} \<or>
     (ap_Stage a, ap_Status a) \<in> {(StageHired, AppStatusHired), (StageRejected, AppStatusRejected), (StageWithdrawn, AppStatusWithdrawn)}"

definition outcome_ok :: "atsdb \<Rightarrow> HireOutcome \<Rightarrow> bool" where
  "outcome_ok d h \<longleftrightarrow> list_ex (\<lambda>a. row_id ap_Base a = ho_ApplicationID h \<and> ap_Status a = AppStatusHired \<and> ap_JobID a = ho_JobID h \<and>
     ap_ProfileID a = ho_ProfileID h) (ats_applications d) \<and> ho_BillingRef h = EmitHire h"

definition ats_inv :: "atsdb \<Rightarrow> bool" where
  "ats_inv d \<longleftrightarrow> distinct (map (row_id ap_Base) (ats_applications d)) \<and>
     distinct (map (\<lambda>a. (ap_JobID a, ap_ProfileID a, ap_Status a)) (ats_applications d)) \<and>
     list_all stage_ok (ats_applications d) \<and>
     distinct (map ho_ApplicationID (ats_hire_outcomes d)) \<and> list_all (outcome_ok d) (ats_hire_outcomes d)"

definition stage_evolves :: "AtsApplication \<Rightarrow> AtsApplication \<Rightarrow> bool" where
  "stage_evolves a a' \<longleftrightarrow> a\<lparr>ap_Stage := ap_Stage a', ap_Status := ap_Status a'\<rparr> = a' \<and>
     (ap_Stage a, ap_Stage a') \<in> stage_edges\<^sup>* \<and> (ap_Status a \<noteq> AppStatusActive \<longrightarrow> a' = a)"

definition ats_ok :: "atsdb \<Rightarrow> atsdb \<Rightarrow> bool" where
  "ats_ok d d' \<longleftrightarrow> (ats_inv d \<longrightarrow> ats_inv d' \<and> rows_evolve stage_evolves (ats_applications d) (ats_applications d'))"

lemma stage_evolves_refl: "stage_evolves a a"
  by (cases a) (simp add: stage_evolves_def)

lemma stage_evolves_trans:
  assumes "stage_evolves a b" and "stage_evolves b c"
  shows "stage_evolves a c"
proof -
  have "a\<lparr>ap_Stage := ap_Stage c, ap_Status := ap_Status c\<rparr>
      = (a\<lparr>ap_Stage := ap_Stage b, ap_Status := ap_Status b\<rparr>)\<lparr>ap_Stage := ap_Stage c, ap_Status := ap_Status c\<rparr>" by simp
  also have "\<dots> = c" using assms unfolding stage_evolves_def by metis
  finally have "a\<lparr>ap_Stage := ap_Stage c, ap_Status := ap_Status c\<rparr> = c" .
  moreover have "(ap_Stage a, ap_Stage c) \<in> stage_edges\<^sup>*" using assms unfolding stage_evolves_def by (meson rtrancl_trans)
  moreover have "ap_Status a \<noteq> AppStatusActive \<longrightarrow> c = a" using assms unfolding stage_evolves_def by metis
  ultimately show ?thesis unfolding stage_evolves_def by blast
qed

interpretation as: sql_preorder ats_ok
proof
  fix d show "ats_ok d d" by (simp add: ats_ok_def rows_evolve_refl stage_evolves_refl)
next
  fix d1 d2 d3 assume "ats_ok d1 d2" "ats_ok d2 d3"
  then show "ats_ok d1 d3" unfolding ats_ok_def using rows_evolve_trans[of stage_evolves] stage_evolves_trans by blast
qed

text \<open>Programs that touch neither table.\<close>

definition same_pipeline :: "atsdb \<Rightarrow> atsdb \<Rightarrow> bool" where
  "same_pipeline d d' \<longleftrightarrow> ats_applications d' = ats_applications d \<and> ats_hire_outcomes d' = ats_hire_outcomes d"

interpretation pl: sql_preorder same_pipeline
  by unfold_locales (simp_all add: same_pipeline_def)

lemma same_pipeline_ok: "same_pipeline d d' \<Longrightarrow> ats_ok d d'"
  by (auto simp: same_pipeline_def ats_ok_def ats_inv_def outcome_ok_def rows_evolve_refl stage_evolves_refl list_all_iff)

lemma preserves_pipeline_ok: "preserves same_pipeline m \<Longrightarrow> preserves ats_ok m"
  by (auto simp: preserves_def intro: same_pipeline_ok)

lemma rpc_same: "preserves same_pipeline (rpc m)"
  by (auto simp: preserves_def tables_after_def rpc_def same_pipeline_def split: prod.splits bool.splits)

section \<open>Steps of the pipeline\<close>

lemma new_application_ok: "stage_ok (new_application base inp)"
  by (simp add: stage_ok_def new_application_def)

lemma new_application_row_ok:
  assumes free: "list_all (\<lambda>(n, clash). \<not> list_ex (clash (new_application base inp)) (ats_applications d)) application_indexes"
  shows "ats_ok d (ats_applications_update (\<lambda>rs. rs @ [new_application base inp]) d)"
proof -
  let ?a = "new_application base inp"
  from free have "row_id ap_Base ?a \<notin> row_id ap_Base ` set (ats_applications d)"
    and "(ap_JobID ?a, ap_ProfileID ?a, ap_Status ?a) \<notin> (\<lambda>a. (ap_JobID a, ap_ProfileID a, ap_Status a)) ` set (ats_applications d)"
    by (auto simp: application_indexes_def primary_key_def list_ex_iff)
  then show ?thesis
    unfolding ats_ok_def ats_inv_def
    by (auto simp: new_application_ok outcome_ok_def list_all_iff rows_evolve_append stage_evolves_refl)
qed

lemma advanced_ok:
  assumes "stage_ok a" and "ap_Status a = AppStatusActive" and "(ap_Stage a, to) \<in> stage_edges"
  shows "stage_ok (advanced to a)" and "stage_evolves a (advanced to a)"
proof -
  have "ap_Stage a \<in> {StageApplied, StageScreen, StageInterview, StageOffer}"
    using assms(1,2) by (auto simp: stage_ok_def app_status_defs)
  with assms(3) have "to \<in> {StageScreen, StageInterview, StageOffer, StageHired, StageRejected, StageWithdrawn}"
    by (auto simp: stage_edges_def Stage_AllowedNext_def stage_table_def split: if_splits)
  then show "stage_ok (advanced to a)"
    using assms(2) by (auto simp: stage_ok_def advanced_def status_of_stage_def stage_defs)
  show "stage_evolves a (advanced to a)"
    using assms(2,3) by (auto simp: stage_evolves_def advanced_def)
qed

end
