(* ===== verification/Ats_Steps.thy ===== *)
theory Ats_Steps
  imports Ats_Spec
begin

text \<open>
  What every operation of the service does to the tables, once for all relations.  The locale
  \<open>ats_relation\<close> is the interface of a relation between the tables before and after a request with
  given claims: it has to hold for each kind of write, on rows of the caller's partition
  (\<open>mine\<close>) and outcomes of the applications that \<open>hirable\<close> names.  The theorems of the locale
  lift it to the operations.
\<close>

definition no_clash :: "'r unique_index list \<Rightarrow> 'r \<Rightarrow> 'r list \<Rightarrow> bool" where
  "no_clash uniq r rows \<longleftrightarrow> list_all (\<lambda>(n, clash). \<not> list_ex (clash r) rows) uniq"

text \<open>The tables that the relations speak about; every other write is covered by \<open>ats_core\<close>.\<close>

definition ats_core :: "atsdb \<Rightarrow> atsdb \<Rightarrow> bool" where
  "ats_core d d' \<longleftrightarrow> ats_jobs d' = ats_jobs d \<and> ats_applications d' = ats_applications d \<and> ats_hire_outcomes d' = ats_hire_outcomes d \<and>
     ats_interviews d' = ats_interviews d \<and> ats_job_projections d' = ats_job_projections d"

interpretation co: sql_preorder ats_core
  by unfold_locales (simp_all add: ats_core_def)

definition same_jobs :: "atsdb \<Rightarrow> atsdb \<Rightarrow> bool" where
  "same_jobs d d' \<longleftrightarrow> ats_jobs d' = ats_jobs d"

interpretation jo: sql_preorder same_jobs
  by unfold_locales (simp_all add: same_jobs_def)

lemma Repo_Update_run:
  assumes "Repo_Update rows upd base uniq i f (d, fs) = (x, (d', fs'))"
  shows "d' = d \<and> (\<exists>e. x = Inl e) \<or> x = Inr () \<and> d' = upd (update_where (\<lambda>r. row_id base r = i) f) d \<and>
    list_all (\<lambda>(n, clash). \<not> list_ex (\<lambda>r. row_id base r = i \<and> list_ex (\<lambda>x. row_id base x \<noteq> i \<and> clash (f r) x) (rows d)) (rows d)) uniq"
proof (cases "List.find (\<lambda>(n, clash). list_ex (\<lambda>r. row_id base r = i \<and> list_ex (\<lambda>x. row_id base x \<noteq> i \<and> clash (f r) x) (rows d)) (rows d)) uniq")
  case None
  then have "list_all (\<lambda>(n, clash). \<not> list_ex (\<lambda>r. row_id base r = i \<and> list_ex (\<lambda>x. row_id base x \<noteq> i \<and> clash (f r) x) (rows d)) (rows d)) uniq"
    by (auto simp: find_None_iff list_all_iff)
  with None show ?thesis using assms by (auto simp: Repo_Update_def sql_stmt_def split: prod.splits bool.splits)
qed (use assms in \<open>auto simp: Repo_Update_def sql_stmt_def split: prod.splits bool.splits\<close>)

lemma UpsertPublished_jobs: "preserves same_jobs (UpsertPublished p)"
  unfolding UpsertPublished_def Projections_GetByJob_def
  by (intro jo.preserves_rules jo.preserves_create jo.preserves_update) (simp_all add: same_jobs_def)

lemma MarkUnpublished_jobs: "preserves same_jobs (MarkUnpublished t q i)"
  unfolding MarkUnpublished_def Projections_GetByJob_def
  by (intro jo.preserves_rules jo.preserves_update) (simp_all add: same_jobs_def)

locale ats_relation = sql_preorder R for R :: "atsdb \<Rightarrow> atsdb \<Rightarrow> bool" +
  fixes claims :: "Claims option" and mine :: "BaseModel \<Rightarrow> bool" and hirable :: "string \<Rightarrow> bool"
  assumes caller: "Ats_ScopeFromContext claims = Inr sc \<Longrightarrow> in_partition sc b \<Longrightarrow> mine b"
    and mine_cong: "mine b \<Longrightarrow> bm_TenantID b' = bm_TenantID b \<Longrightarrow> bm_PartitionID b' = bm_PartitionID b \<Longrightarrow> mine b'"
    and core: "ats_core d d' \<Longrightarrow> R d d'"
    and job_new: "mine (jb_Base j) \<Longrightarrow> no_clash job_indexes j (ats_jobs d) \<Longrightarrow> R d (ats_jobs_update (\<lambda>rs. rs @ [j]) d)"
    and job_set: "j \<in> set (ats_jobs d) \<Longrightarrow> mine (jb_Base j) \<Longrightarrow> (\<And>x. jb_Base (f x) = jb_Base x) \<Longrightarrow>
        R d (ats_jobs_update (update_where (\<lambda>x. row_id jb_Base x = row_id jb_Base j) f) d)"
    and projection_new: "mine (jp_Base p) \<Longrightarrow> no_clash projection_indexes p (ats_job_projections d) \<Longrightarrow> R d (ats_job_projections_update (\<lambda>rs. rs @ [p]) d)"
    and projection_set: "p \<in> set (ats_job_projections d) \<Longrightarrow> mine (jp_Base p) \<Longrightarrow> (\<And>x. jp_Base (g x) = jp_Base x) \<Longrightarrow>
        R d (ats_job_projections_update (update_where (\<lambda>x. row_id jp_Base x = row_id jp_Base p) g) d)"
    and application_new: "mine base \<Longrightarrow> no_clash application_indexes (new_application base inp) (ats_applications d) \<Longrightarrow>
        R d (ats_applications_update (\<lambda>rs. rs @ [new_application base inp]) d)"
    and application_set: "a \<in> set (ats_applications d) \<Longrightarrow> mine (ap_Base a) \<Longrightarrow> ap_Status a = AppStatusActive \<Longrightarrow> ValidateAdvance (ap_Stage a) to = None \<Longrightarrow>
        (\<forall>r x. r \<in> set (ats_applications d) \<longrightarrow> row_id ap_Base r = row_id ap_Base a \<longrightarrow> x \<in> set (ats_applications d) \<longrightarrow> row_id ap_Base x \<noteq> row_id ap_Base a \<longrightarrow>
          \<not> (ap_JobID r = ap_JobID x \<and> ap_ProfileID r = ap_ProfileID x \<and> ap_Status (advanced to r) = ap_Status x)) \<Longrightarrow>
        R d (ats_applications_update (update_where (\<lambda>x. row_id ap_Base x = row_id ap_Base a) (advanced to)) d)"
    and outcome_new: "a \<in> set (ats_applications d) \<Longrightarrow> mine (ap_Base a) \<Longrightarrow> hirable (row_id ap_Base a) \<Longrightarrow> ap_Status a = AppStatusHired \<Longrightarrow>
        no_clash hire_indexes (new_outcome base a) (ats_hire_outcomes d) \<Longrightarrow> R d (ats_hire_outcomes_update (\<lambda>rs. rs @ [new_outcome base a]) d)"
    and interview_new: "mine (iv_Base iv) \<Longrightarrow> no_clash interview_indexes iv (ats_interviews d) \<Longrightarrow> R d (ats_interviews_update (\<lambda>rs. rs @ [iv]) d)"
    and interview_set: "iv \<in> set (ats_interviews d) \<Longrightarrow> mine (iv_Base iv) \<Longrightarrow> (\<And>x. iv_Base (h x) = iv_Base x) \<Longrightarrow>
        R d (ats_interviews_update (update_where (\<lambda>x. row_id iv_Base x = row_id iv_Base iv) h) d)"
begin

lemma preserves_core: "preserves ats_core m \<Longrightarrow> preserves R m"
  by (auto simp: preserves_def intro: core)

lemma after_core_bind:
  assumes "preserves ats_core m" and "\<And>y d' fs'. ats_core d d' \<Longrightarrow> R d' (tables_after (k y) (d', fs'))"
  shows "R d (tables_after (sql_bind m k) (d, fs))"
  using assms(2) preserves_run[OF assms(1)] by (intro after_bind) (auto intro: core)

lemma after_then:
  assumes "R d (tables_after m (d, fs))" and "\<And>y. preserves R (k y)"
  shows "R d (tables_after (sql_bind m k) (d, fs))"
proof (rule after_bind)
  fix x s' fs' assume "m (d, fs) = (x, (s', fs'))"
  then have "R d s'" using assms(1) by (simp add: tables_after_def)
  moreover have "R s' (tables_after (k y) (s', fs'))" for y using assms(2) by (rule preservesD)
  ultimately show "R d s' \<and> (\<forall>y. x = Inr y \<longrightarrow> R s' (tables_after (k y) (s', fs')))" by blast
qed

lemma after_try_then:
  assumes "R d (tables_after m (d, fs))" and "\<And>y. preserves R (k y)"
  shows "R d (tables_after (sql_bind (sql_try m) k) (d, fs))"
  using assms by (intro after_then) simp_all

text \<open>A lookup, then what happens with the row that was found in the same state.\<close>

lemma after_lookup:
  assumes "\<And>fs'. R d (tables_after (k (q d)) (d, fs'))"
  shows "R d (tables_after (sql_bind (sql_wrap msg (sql_query q)) k) (d, fs))"
  using assms by (auto simp: tables_after_def sql_bind_def sql_wrap_def sql_query_def sql_stmt_def R_refl split: prod.splits bool.splits)

lemma after_create:
  assumes "no_clash uniq r (rows d) \<Longrightarrow> R d (upd (\<lambda>rs. rs @ [r]) d)"
  shows "R d (tables_after (Repo_Create rows upd uniq r) (d, fs))"
proof (cases "List.find (\<lambda>(n, clash). list_ex (clash r) (rows d)) uniq")
  case None
  then have "no_clash uniq r (rows d)" by (auto simp: no_clash_def find_None_iff list_all_iff)
  with None show ?thesis
    using assms by (auto simp: Repo_Create_def tables_after_def sql_stmt_def R_refl split: prod.splits bool.splits)
qed (auto simp: Repo_Create_def tables_after_def sql_stmt_def R_refl split: prod.splits bool.splits)

section \<open>Lookups\<close>

lemma GetJob_run:
  assumes "GetJob claims i (d, fs) = (x, (d', fs'))"
  shows "d' = d \<and> (\<forall>j. x = Inr j \<longrightarrow> j \<in> set (ats_jobs d) \<and> mine (jb_Base j) \<and> row_id jb_Base j = i)"
  using assms
  by (auto simp: GetJob_def in_scope_def Jobs_GetInPartition_def sql_simps sql_query_def sql_stmt_def caller dest: find_SomeD
      split: sum.splits prod.splits bool.splits option.splits)

lemma GetApplication_run:
  assumes "GetApplication claims i (d, fs) = (x, (d', fs'))"
  shows "d' = d \<and> (\<forall>a. x = Inr a \<longrightarrow> a \<in> set (ats_applications d) \<and> mine (ap_Base a) \<and> row_id ap_Base a = i)"
  using assms
  by (auto simp: GetApplication_def in_scope_def AtsApplications_GetInPartition_def sql_simps sql_query_def sql_stmt_def caller dest: find_SomeD
      split: sum.splits prod.splits bool.splits option.splits)

lemma after_GetJob:
  assumes "\<And>j fs'. j \<in> set (ats_jobs d) \<Longrightarrow> mine (jb_Base j) \<Longrightarrow> row_id jb_Base j = i \<Longrightarrow> R d (tables_after (k j) (d, fs'))"
  shows "R d (tables_after (sql_bind (GetJob claims i) k) (d, fs))"
  using assms GetJob_run by (intro after_bind) (fastforce simp: R_refl)

lemma after_GetApplication:
  assumes "\<And>a fs'. a \<in> set (ats_applications d) \<Longrightarrow> mine (ap_Base a) \<Longrightarrow> row_id ap_Base a = i \<Longrightarrow> R d (tables_after (k a) (d, fs'))"
  shows "R d (tables_after (sql_bind (GetApplication claims i) k) (d, fs))"
  using assms GetApplication_run by (intro after_bind) (fastforce simp: R_refl)

lemma preserves_after: "(\<And>d fs. R d (tables_after m (d, fs))) \<Longrightarrow> preserves R m"
  by (simp add: preserves_def)

lemma in_scope_ok: "(\<And>sc. Ats_ScopeFromContext claims = Inr sc \<Longrightarrow> preserves R (k sc)) \<Longrightarrow> preserves R (in_scope claims k)"
  by (auto simp: in_scope_def intro: preserves_raise split: sum.splits)

lemma after_in_scope:
  "(\<And>sc. Ats_ScopeFromContext claims = Inr sc \<Longrightarrow> R d (tables_after (k sc) (d, fs))) \<Longrightarrow> R d (tables_after (in_scope claims k) (d, fs))"
  by (auto simp: in_scope_def intro: after_raise split: sum.splits)

lemma GetJob_ok: "preserves R (GetJob claims i)"
  unfolding GetJob_def Jobs_GetInPartition_def by (intro in_scope_ok preserves_rules)

lemma GetApplication_ok: "preserves R (GetApplication claims i)"
  unfolding GetApplication_def AtsApplications_GetInPartition_def by (intro in_scope_ok preserves_rules)

section \<open>Jobs\<close>

lemma CreateJob_ok: "mine base \<Longrightarrow> preserves R (CreateJob claims base inp)"
  unfolding CreateJob_def Let_def
  by (intro in_scope_ok preserves_rules preserves_after[of "Repo_Create ats_jobs ats_jobs_update job_indexes r" for r] after_create job_new)
    (simp add: new_job_def)

lemma after_job_update:
  assumes "j \<in> set (ats_jobs d)" and "mine (jb_Base j)" and "\<And>x. jb_Base (f x) = jb_Base x"
  shows "R d (tables_after (Jobs_Update (row_id jb_Base j) f) (d, fs))"
  using assms by (intro after_update job_set)

lemma UpdateJob_ok: "preserves R (UpdateJob claims i inp)"
proof (rule preserves_after)
  fix d fs
  show "R d (tables_after (UpdateJob claims i inp) (d, fs))"
    unfolding UpdateJob_def
    by (rule after_GetJob) (auto simp: after_return after_raise patched_job_def intro!: after_job_update)
qed

lemma CloseJob_ok: "preserves R (CloseJob claims i)"
  unfolding CloseJob_def by (rule UpdateJob_ok)

section \<open>Publication\<close>

lemma UpsertPublished_ok:
  assumes "mine (jp_Base p)"
  shows "preserves R (UpsertPublished p)"
proof (rule preserves_after)
  fix d fs
  show "R d (tables_after (UpsertPublished p) (d, fs))"
    unfolding UpsertPublished_def Projections_GetByJob_def
  proof (rule after_lookup)
    fix fs'
    let ?found = "List.find (\<lambda>x. bm_TenantID (jp_Base x) = bm_TenantID (jp_Base p) \<and> bm_PartitionID (jp_Base x) = bm_PartitionID (jp_Base p) \<and>
        jp_JobID x = jp_JobID p) (ats_job_projections d)"
    show "R d (tables_after (case ?found of None \<Rightarrow> Projections_Create p
        | Some e \<Rightarrow> sql_wrap ''ats: update projection'' (Projections_Update (row_id jp_Base e) (republished p))) (d, fs'))"
    proof (cases ?found)
      case None
      then show ?thesis using assms by (simp add: after_create projection_new)
    next
      case (Some e)
      then have "e \<in> set (ats_job_projections d)" "mine (jp_Base e)" using assms find_SomeD[OF Some] mine_cong by auto
      then show ?thesis using Some by (auto intro!: after_update projection_set simp: republished_def)
    qed
  qed
qed

lemma MarkUnpublished_ok:
  assumes "mine b" and "bm_TenantID b = t" and "bm_PartitionID b = q"
  shows "preserves R (MarkUnpublished t q i)"
proof (rule preserves_after)
  fix d fs
  show "R d (tables_after (MarkUnpublished t q i) (d, fs))"
    unfolding MarkUnpublished_def Projections_GetByJob_def
  proof (rule after_lookup)
    fix fs'
    let ?found = "List.find (\<lambda>x. bm_TenantID (jp_Base x) = t \<and> bm_PartitionID (jp_Base x) = q \<and> jp_JobID x = i) (ats_job_projections d)"
    show "R d (tables_after (case ?found of None \<Rightarrow> sql_return ()
        | Some e \<Rightarrow> sql_wrap ''ats: unpublish projection'' (Projections_Update (row_id jp_Base e) (\<lambda>p. p\<lparr>jp_Status := ''unpublished''\<rparr>))) (d, fs'))"
    proof (cases ?found)
      case None
      then show ?thesis by (simp add: after_return)
    next
      case (Some e)
      then have "e \<in> set (ats_job_projections d)" "mine (jp_Base e)" using assms find_SomeD[OF Some] mine_cong by auto
      then show ?thesis using Some by (auto intro!: after_update projection_set)
    qed
  qed
qed

text \<open>A program that keeps the jobs, then an update of a job that was read before it.\<close>

lemma after_then_job_update:
  assumes "preserves same_jobs m" and "preserves R m" and "j \<in> set (ats_jobs d)" and "mine (jb_Base j)"
    and "\<And>y x. jb_Base (f y x) = jb_Base x"
  shows "R d (tables_after (sql_bind m (\<lambda>y. sql_bind (Jobs_Update (row_id jb_Base j) (f y)) (\<lambda>_. sql_return (r y)))) (d, fs))"
proof (rule after_bind)
  fix x s' fs' assume run: "m (d, fs) = (x, (s', fs'))"
  have "j \<in> set (ats_jobs s')" using preserves_run[OF assms(1) run] assms(3) by (simp add: same_jobs_def)
  then show "R d s' \<and> (\<forall>y. x = Inr y \<longrightarrow> R s' (tables_after (sql_bind (Jobs_Update (row_id jb_Base j) (f y)) (\<lambda>_. sql_return (r y))) (s', fs')))"
    using preserves_run[OF assms(2) run] assms(4,5) by (auto intro!: after_job_update)
qed

lemma PublishJob_ok:
  assumes "mine base"
  shows "preserves R (PublishJob claims base nowP now i)"
proof (rule preserves_after)
  fix d fs
  have pub: "preserves same_jobs (Publisher_Publish base nowP j)" "mine (jb_Base j) \<Longrightarrow> preserves R (Publisher_Publish base nowP j)" for j
    unfolding Publisher_Publish_def Let_def
    by (intro jo.preserves_rules UpsertPublished_jobs, intro preserves_rules UpsertPublished_ok) (auto simp: projection_of_def intro: mine_cong)
  show "R d (tables_after (PublishJob claims base nowP now i) (d, fs))"
    unfolding PublishJob_def
  proof (rule after_GetJob)
    fix j fs' assume "j \<in> set (ats_jobs d)" "mine (jb_Base j)"
    then show "R d (tables_after (if jb_Status j = JobStatusClosed then sql_raise (ErrWith AtsInvalid ''closed job'')
        else sql_bind (sql_wrap ''ats: publish'' (Publisher_Publish base nowP j)) (\<lambda>oppID.
          sql_bind (Jobs_Update (row_id jb_Base j) (published_job now oppID (jb_Status j))) (\<lambda>_.
          sql_return (published_job now oppID (jb_Status j) j)))) (d, fs'))"
      by (auto simp: after_raise published_job_def intro!: after_then_job_update jo.preserves_wrap preserves_wrap pub)
  qed
qed

lemma UnpublishJob_ok: "preserves R (UnpublishJob claims i)"
proof (rule preserves_after)
  fix d fs
  show "R d (tables_after (UnpublishJob claims i) (d, fs))"
    unfolding UnpublishJob_def Publisher_Unpublish_def
    by (rule after_GetJob, rule after_then_job_update) (auto intro!: jo.preserves_wrap preserves_wrap MarkUnpublished_jobs MarkUnpublished_ok)
qed

section \<open>Applications\<close>

lemma event_core: "preserves ats_core (StageEvents_Create e)"
  by (rule co.preserves_create) (simp add: ats_core_def)

lemma event_ok: "preserves R (StageEvents_Create e)"
  by (rule preserves_core, rule event_core)

lemma Hires_GetByApplication_ok: "preserves R (Hires_GetByApplication i)"
  unfolding Hires_GetByApplication_def by (intro preserves_rules)

lemma CreateApplication_ok:
  assumes "mine base"
  shows "preserves R (CreateApplication claims base eventBase inp)"
proof -
  have "preserves R (AtsApplications_Create (new_application base inp))"
    by (rule preserves_after, rule after_create) (rule application_new[OF assms])
  then show ?thesis
    unfolding CreateApplication_def GetActive_def by (intro in_scope_ok preserves_rules GetJob_ok event_ok)
qed

lemma AddTalent_ok: "mine base \<Longrightarrow> preserves R (AddTalent claims base eventBase jobID hit)"
  unfolding AddTalent_def by (rule CreateApplication_ok)

lemma after_ensureHireOutcome:
  assumes "a \<in> set (ats_applications d)" and "mine (ap_Base a)" and "hirable (row_id ap_Base a)" and "ap_Status a = AppStatusHired"
  shows "R d (tables_after (ensureHireOutcome base a) (d, fs))"
  unfolding ensureHireOutcome_def Hires_GetByApplication_def[of "row_id ap_Base a"]
proof (rule after_lookup)
  fix fs'
  let ?retry = "\<lambda>r. case r of Inr _ \<Rightarrow> sql_return (new_outcome base a)
      | Inl e \<Rightarrow> sql_bind (sql_try (sql_wrap ''ats: get hire outcome'' (sql_query (\<lambda>d. List.find (\<lambda>h. ho_ApplicationID h = row_id ap_Base a) (ats_hire_outcomes d)))))
          (\<lambda>r2. case r2 of Inr (Some h) \<Rightarrow> sql_return h | _ \<Rightarrow> sql_raise e)"
  have "preserves R (?retry r)" for r by (intro preserves_rules)
  moreover have "R d (tables_after (Hires_Create (new_outcome base a)) (d, fs'))"
    by (rule after_create) (rule outcome_new[OF assms])
  ultimately have "R d (tables_after (sql_bind (sql_try (Hires_Create (new_outcome base a))) ?retry) (d, fs'))"
    by (intro after_try_then)
  then show "R d (tables_after (case List.find (\<lambda>h. ho_ApplicationID h = row_id ap_Base a) (ats_hire_outcomes d) of
      None \<Rightarrow> sql_bind (sql_try (Hires_Create (new_outcome base a))) ?retry | Some h \<Rightarrow> sql_return h) (d, fs'))"
    by (auto simp: after_return split: option.splits)
qed

lemma Advance_ok:
  assumes "hirable i"
  shows "preserves R (Advance claims eventBase hireBase i to note)"
proof (rule preserves_after)
  fix d fs
  show "R d (tables_after (Advance claims eventBase hireBase i to note) (d, fs))"
    unfolding Advance_def
  proof (rule after_in_scope, rule after_GetApplication)
    fix sc a fs1
    assume a: "a \<in> set (ats_applications d)" "mine (ap_Base a)" and i: "row_id ap_Base a = i"
    let ?hire = "\<lambda>_ :: unit. sql_bind (if to = StageHired then sql_bind (ensureHireOutcome hireBase (advanced to a)) (\<lambda>_. sql_return ()) else sql_return ())
        (\<lambda>_. sql_return (advanced to a))"
    let ?event = "\<lparr>se_Base = eventBase, se_ApplicationID = row_id ap_Base a, se_FromStage = ap_Stage a, se_ToStage = to,
        se_ActorProfileID = sc_ProfileID sc, se_Note = note\<rparr>"
    have hire: "R d' (tables_after (?hire ()) (d', fs'))" if "advanced to a \<in> set (ats_applications d')" for d' fs'
      using that a(2) assms i by (cases "to = StageHired")
        (auto simp: after_return advanced_def status_of_stage_def stage_defs intro!: after_then after_ensureHireOutcome preserves_return)
    have event: "R d' (tables_after (sql_bind (StageEvents_Create ?event) ?hire) (d', fs'))" if "advanced to a \<in> set (ats_applications d')" for d' fs'
      using that by (intro after_core_bind[OF event_core] hire) (auto simp: ats_core_def)
    have upd: "R d (tables_after (sql_bind (AtsApplications_Update (row_id ap_Base a) (advanced to)) (\<lambda>_. sql_bind (StageEvents_Create ?event) ?hire)) (d, fs1))"
      if "ap_Status a = AppStatusActive" "ValidateAdvance (ap_Stage a) to = None"
    proof (rule after_bind)
      fix x d' fs' assume "AtsApplications_Update (row_id ap_Base a) (advanced to) (d, fs1) = (x, (d', fs'))"
      from Repo_Update_run[OF this] consider "d' = d" "\<exists>e. x = Inl e"
        | "x = Inr ()" "d' = ats_applications_update (update_where (\<lambda>r. row_id ap_Base r = row_id ap_Base a) (advanced to)) d"
          "list_all (\<lambda>(n, clash). \<not> list_ex (\<lambda>r. row_id ap_Base r = row_id ap_Base a \<and>
            list_ex (\<lambda>x. row_id ap_Base x \<noteq> row_id ap_Base a \<and> clash (advanced to r) x) (ats_applications d)) (ats_applications d)) application_indexes"
        by blast
      then show "R d d' \<and> (\<forall>y. x = Inr y \<longrightarrow> R d' (tables_after (sql_bind (StageEvents_Create ?event) ?hire) (d', fs')))"
      proof cases
        case 2
        have "R d d'" unfolding 2(2) using a that 2(3)
          by (intro application_set) (auto simp: application_indexes_def primary_key_def list_ex_iff advanced_def)
        moreover have "advanced to a \<in> set (ats_applications d')" using a(1) unfolding 2(2) by (auto simp: set_update_where)
        ultimately show ?thesis using event by simp
      qed (auto simp: R_refl)
    qed
    show "R d (tables_after (if ap_Status a \<noteq> AppStatusActive then sql_raise (ErrWith AtsInvalid ''application not active'')
        else case ValidateAdvance (ap_Stage a) to of Some e \<Rightarrow> sql_raise (ErrWith AtsInvalid (Error e))
          | None \<Rightarrow> sql_bind (AtsApplications_Update (row_id ap_Base a) (advanced to)) (\<lambda>_. sql_bind (StageEvents_Create ?event) ?hire)) (d, fs1))"
      using upd by (auto simp: after_raise split: option.splits)
  qed
qed

lemma Hire_ok: "hirable i \<Longrightarrow> preserves R (Hire n claims eventBase hireBase i)"
proof (induction n arbitrary: eventBase)
  case (Suc n)
  then show ?case
    by simp (intro preserves_rules GetApplication_ok Advance_ok Hires_GetByApplication_ok Suc.IH)
qed (simp add: preserves_raise)

section \<open>Interviews\<close>

lemma rpc_core: "preserves ats_core (rpc m)"
  by (auto simp: preserves_def tables_after_def rpc_def ats_core_def split: prod.splits bool.splits)

lemma EnsurePanelResources_core: "preserves ats_core (EnsurePanelResources env ps)"
  unfolding EnsurePanelResources_def by (intro co.preserves_rules rpc_core)

lemma SetMyAvailability_ok: "preserves R (SetMyAvailability claims base env tz rules ex)"
proof -
  have "preserves ats_core (UpsertForProfile a)" for a
    unfolding UpsertForProfile_def Availability_GetByProfile_def Let_def
    by (intro co.preserves_rules co.preserves_create co.preserves_update) (simp_all add: ats_core_def)
  moreover have "preserves ats_core (SyncProfileAvailability env i tz' rules ex)" for i tz'
    unfolding SyncProfileAvailability_def by (intro co.preserves_rules EnsurePanelResources_core rpc_core)
  ultimately show ?thesis
    unfolding SetMyAvailability_def Let_def by (intro in_scope_ok preserves_core co.preserves_rules)
qed

lemma ProposeInterview_ok:
  assumes "mine base"
  shows "preserves R (ProposeInterview claims base inp)"
proof -
  have "preserves R (Interviews_Create (new_interview base sc inp))" for sc
    by (rule preserves_after, rule after_create, rule interview_new) (simp_all add: new_interview_def assms)
  then show ?thesis unfolding ProposeInterview_def by (intro in_scope_ok preserves_rules GetApplication_ok)
qed

lemma interview_context_core: "preserves ats_core (interview_context sc iv)"
  unfolding interview_context_def AtsApplications_GetInPartition_def Jobs_GetInPartition_def by (intro co.preserves_rules)

lemma Send_core: "preserves ats_core (Send cfg msg)"
  unfolding Send_def by (intro co.preserves_rules co.preserves_exec) (simp add: ats_core_def)

lemma Enqueue_core: "preserves ats_core (EnqueueInterviewScheduled cfg base now iv a job)"
  unfolding EnqueueInterviewScheduled_def Let_def by (intro co.preserves_rules Send_core co.preserves_create) (simp add: ats_core_def)

lemma CancelInterviewBooking_core: "preserves ats_core (CancelInterviewBooking env b)"
  unfolding CancelInterviewBooking_def by (intro co.preserves_rules rpc_core)

lemma BookPanel_core: "preserves ats_core (BookPanel env ids start end' i title)"
  unfolding BookPanel_def by (intro co.preserves_rules rpc_core)

lemma ListInterviewSlots_core: "preserves ats_core (ListInterviewSlots claims env days now i)"
  unfolding ListInterviewSlots_def in_scope_def ListPanelSlots_def Interviews_GetInPartition_def
  by (intro co.preserves_rules EnsurePanelResources_core rpc_core)

lemma after_schedule_row:
  assumes "iv \<in> set (ats_interviews d)" and "mine (iv_Base iv)"
  shows "R d (tables_after (schedule_row env cfg base now uid sc iv start end' b) (d, fs))"
proof -
  have "R d (tables_after (Interviews_Update (row_id iv_Base iv) (scheduled start end' b uid)) (d, fs))"
    using assms by (intro after_update interview_set) (simp_all add: scheduled_def)
  then show ?thesis
    unfolding schedule_row_def
    by (rule after_try_then) (intro preserves_core co.preserves_rules co.preserves_prod CancelInterviewBooking_core interview_context_core Enqueue_core)
qed

lemma after_book_slot:
  assumes "iv \<in> set (ats_interviews d)" and "mine (iv_Base iv)"
  shows "R d (tables_after (book_slot env cfg base now uid sc iv start end') (d, fs))"
proof -
  have book: "R d' (tables_after (sql_bind (BookPanel env ids start end' (row_id iv_Base iv) title)
      (\<lambda>b. schedule_row env cfg base now uid sc iv start end' b)) (d', fs'))" if "ats_core d d'" for d' fs' ids title
  proof (rule after_core_bind[OF BookPanel_core])
    fix b d2 fs2 assume "ats_core d' d2"
    then show "R d2 (tables_after (schedule_row env cfg base now uid sc iv start end' b) (d2, fs2))"
      using that assms by (intro after_schedule_row) (auto simp: ats_core_def)
  qed
  have ctx: "R d' (tables_after (sql_bind (interview_context sc iv) (\<lambda>(_, job).
      sql_bind (BookPanel env ids start end' (row_id iv_Base iv) (case job of None \<Rightarrow> ''Interview'' | Some j \<Rightarrow> ''Interview: '' @ jb_Title j)) (\<lambda>b.
      schedule_row env cfg base now uid sc iv start end' b))) (d', fs'))" if "ats_core d d'" for d' fs' ids
  proof (rule after_core_bind[OF interview_context_core])
    fix y d2 fs2 assume "ats_core d' d2"
    then show "R d2 (tables_after (case y of (_, job) \<Rightarrow>
        sql_bind (BookPanel env ids start end' (row_id iv_Base iv) (case job of None \<Rightarrow> ''Interview'' | Some j \<Rightarrow> ''Interview: '' @ jb_Title j)) (\<lambda>b.
        schedule_row env cfg base now uid sc iv start end' b)) (d2, fs2))"
      using that co.R_trans book by (cases y) simp
  qed
  show ?thesis unfolding book_slot_def by (rule after_core_bind[OF EnsurePanelResources_core]) (rule ctx)
qed

lemma BookInterview_ok: "preserves R (BookInterview claims env cfg days now nowM base uid i start)"
proof (rule preserves_after)
  fix d fs
  show "R d (tables_after (BookInterview claims env cfg days now nowM base uid i start) (d, fs))"
    unfolding BookInterview_def Interviews_GetInPartition_def
  proof (rule after_in_scope, rule after_lookup)
    fix sc fs'
    assume sc: "Ats_ScopeFromContext claims = Inr sc"
    let ?book = "\<lambda>iv slots. case List.find (\<lambda>sl. sl_Start sl = start) slots of None \<Rightarrow> sql_raise (ErrWith AtsConflict ''slot not available'')
        | Some sl \<Rightarrow> book_slot env cfg base nowM uid sc iv start (sl_End sl)"
    have "R d (tables_after (sql_bind (ListInterviewSlots claims env days now (row_id iv_Base iv)) (?book iv)) (d, fs'))"
      if iv: "iv \<in> set (ats_interviews d)" "mine (iv_Base iv)" for iv
    proof (rule after_core_bind[OF ListInterviewSlots_core])
      fix slots d' fs2 assume "ats_core d d'"
      then show "R d' (tables_after (?book iv slots) (d', fs2))"
        using iv by (auto simp: after_raise ats_core_def intro!: after_book_slot split: option.splits)
    qed
    then show "R d (tables_after (case List.find (\<lambda>iv. row_id iv_Base iv = i \<and> in_partition sc (iv_Base iv)) (ats_interviews d) of
        None \<Rightarrow> sql_raise AtsNotFound
      | Some iv \<Rightarrow> if iv_Status iv = InterviewScheduled
          then if iv_SlotStart iv = Some start then sql_return iv else sql_raise (ErrWith AtsConflict ''already scheduled'')
          else if iv_Status iv \<noteq> InterviewProposed then sql_raise (ErrWith AtsInvalid ''interview not bookable'')
          else sql_bind (ListInterviewSlots claims env days now (row_id iv_Base iv)) (?book iv)) (d, fs'))"
      using caller[OF sc] by (auto simp: after_raise after_return dest: find_SomeD split: option.splits)
  qed
qed

section \<open>The rest\<close>

lemma drain_outbox_ok: "preserves R (drain_outbox cfg batch)"
proof -
  have "preserves ats_core (deliver cfg m)" for m
    unfolding deliver_def by (intro co.preserves_rules Send_core)
  moreover have "preserves ats_core (AtsOutbox_MarkFailed i n)" "preserves ats_core (AtsOutbox_MarkSent i)" for i n
    unfolding AtsOutbox_MarkFailed_def AtsOutbox_MarkSent_def by (intro co.preserves_wrap co.preserves_exec; simp add: ats_core_def)+
  ultimately show ?thesis
    unfolding drain_outbox_def drain_one_def AtsOutbox_ListPending_def Let_def by (intro preserves_core co.preserves_rules)
qed

lemma ScreenSummary_ok: "preserves R (ScreenSummary claims base summarize i)"
proof -
  have "preserves R (AiRuns_Create r)" for r by (rule preserves_core, rule co.preserves_create) (simp add: ats_core_def)
  then show ?thesis
    unfolding ScreenSummary_def Jobs_GetInPartition_def Let_def by (intro in_scope_ok preserves_rules GetApplication_ok)
qed

lemma Idempotency_Save_ok: "preserves R (Idempotency_Save rec)"
  unfolding Idempotency_Save_def Idempotency_Get_def
  by (intro preserves_core co.preserves_rules co.preserves_create co.preserves_update) (simp_all add: ats_core_def)

lemma WrapUnary_ok: "preserves R m \<Longrightarrow> preserves R (WrapUnary claims base marshal procedure header m)"
  unfolding WrapUnary_def Let_def Idempotency_Get_def by (intro preserves_rules Idempotency_Save_ok)

end

section \<open>Requests\<close>

text \<open>The framework stamps new rows with the tenant and partition of the claims.\<close>

definition stamped :: "Claims option \<Rightarrow> BaseModel \<Rightarrow> bool" where
  "stamped claims b \<longleftrightarrow> (case Ats_ScopeFromContext claims of Inl e \<Rightarrow> False | Inr sc \<Rightarrow> in_partition sc b)"

text \<open>
  A request with the given claims, with any outcomes of its statements and remote calls; reads
  that change nothing are left out.  The worker and the store of idempotency keys act for
  any claims.
\<close>

inductive ats_request :: "Claims option \<Rightarrow> atsdb \<Rightarrow> atsdb \<Rightarrow> bool" for claims where
  create_job: "stamped claims base \<Longrightarrow> ats_request claims d (tables_after (CreateJob claims base jinp) (d, fs))"
| update_job: "ats_request claims d (tables_after (UpdateJob claims i uinp) (d, fs))"
| publish_job: "stamped claims base \<Longrightarrow> ats_request claims d (tables_after (PublishJob claims base nowP now i) (d, fs))"
| unpublish_job: "ats_request claims d (tables_after (UnpublishJob claims i) (d, fs))"
| create_application: "stamped claims base \<Longrightarrow> ats_request claims d (tables_after (CreateApplication claims base eventBase ainp) (d, fs))"
| add_talent: "stamped claims base \<Longrightarrow> ats_request claims d (tables_after (AddTalent claims base eventBase i hit) (d, fs))"
| advance: "ats_request claims d (tables_after (Advance claims eventBase hireBase i to note) (d, fs))"
| hire: "ats_request claims d (tables_after (Hire n claims eventBases hireBase i) (d, fs))"
| set_availability: "ats_request claims d (tables_after (SetMyAvailability claims base env tz rules ex) (d, fs))"
| propose_interview: "stamped claims base \<Longrightarrow> ats_request claims d (tables_after (ProposeInterview claims base pinp) (d, fs))"
| book_interview: "ats_request claims d (tables_after (BookInterview claims env cfg days now nowM base uid i start) (d, fs))"
| screen_summary: "ats_request claims d (tables_after (ScreenSummary claims base summarize i) (d, fs))"
| outbox_worker: "ats_request claims d (tables_after (drain_outbox cfg batch) (d, fs))"
| idempotency_key: "ats_request claims d (tables_after (Idempotency_Save rec) (d, fs))"

context ats_relation
begin

lemma stamped_mine: "stamped claims b \<Longrightarrow> mine b"
  by (auto simp: stamped_def intro: caller split: sum.splits)

lemma request_ok:
  assumes "ats_request claims d d'" and "\<And>eventBase hireBase i to note. preserves R (Advance claims eventBase hireBase i to note)"
    and "\<And>n eventBases hireBase i. preserves R (Hire n claims eventBases hireBase i)"
  shows "R d d'"
  using assms(1)
proof cases
  case (create_job base jinp fs) then show ?thesis by (simp add: preservesD[OF CreateJob_ok] stamped_mine)
next
  case (update_job i uinp fs) then show ?thesis by (simp add: preservesD[OF UpdateJob_ok])
next
  case (publish_job base nowP now i fs) then show ?thesis by (simp add: preservesD[OF PublishJob_ok] stamped_mine)
next
  case (unpublish_job i fs) then show ?thesis by (simp add: preservesD[OF UnpublishJob_ok])
next
  case (create_application base eventBase ainp fs) then show ?thesis by (simp add: preservesD[OF CreateApplication_ok] stamped_mine)
next
  case (add_talent base eventBase i hit fs) then show ?thesis by (simp add: preservesD[OF AddTalent_ok] stamped_mine)
next
  case (advance eventBase hireBase i to nt fs) then show ?thesis by (simp add: preservesD[OF assms(2)])
next
  case (hire n eventBases hireBase i fs) then show ?thesis by (simp add: preservesD[OF assms(3)])
next
  case (set_availability base env tz rules ex fs) then show ?thesis by (simp add: preservesD[OF SetMyAvailability_ok])
next
  case (propose_interview base pinp fs) then show ?thesis by (simp add: preservesD[OF ProposeInterview_ok] stamped_mine)
next
  case (book_interview env cfg days now nowM base uid i start fs) then show ?thesis by (simp add: preservesD[OF BookInterview_ok])
next
  case (screen_summary base summarize i fs) then show ?thesis by (simp add: preservesD[OF ScreenSummary_ok])
next
  case (outbox_worker cfg batch fs) then show ?thesis by (simp add: preservesD[OF drain_outbox_ok])
next
  case (idempotency_key rc fs) then show ?thesis by (simp add: preservesD[OF Idempotency_Save_ok])
qed

end

end
