(* ===== verification/Ats_Reads.thy ===== *)
theory Ats_Reads
  imports Ats_Steps
begin

text \<open>
  What a caller of the hiring service can see: the answer of every reading procedure is computed
  from the jobs, applications and interviews of the partition of the caller alone, so it is the
  same on the database without the rows of the other partitions.
\<close>

section \<open>Programs that see a part of the state\<close>

text \<open>\<open>blind own m\<close>: restricting the state by \<open>own\<close> before \<open>m\<close> gives the same answer and statement outcomes as restricting it after.\<close>

definition blind :: "('s \<Rightarrow> 's) \<Rightarrow> ('s, 'a) sql \<Rightarrow> bool" where
  "blind own m \<longleftrightarrow> (\<forall>d fs. m (own d, fs) = (case m (d, fs) of (x, (d', fs')) \<Rightarrow> (x, (own d', fs'))))"

lemma blind_run: "blind own m \<Longrightarrow> m (d, fs) = (x, (d', fs')) \<Longrightarrow> m (own d, fs) = (x, (own d', fs'))"
  by (simp add: blind_def)

lemma blind_answer: "blind own m \<Longrightarrow> fst (m (own d, fs)) = fst (m (d, fs))"
  by (simp add: blind_def split: prod.splits)

lemma blind_return: "blind own (sql_return x)" and blind_raise: "blind own (sql_raise e)"
  by (simp_all add: blind_def sql_return_def sql_raise_def)

lemma blind_bind:
  assumes "blind own m" and "\<And>x. blind own (k x)"
  shows "blind own (sql_bind m k)"
  unfolding blind_def
proof (intro allI)
  fix d fs
  obtain x d' fs' where run: "m (d, fs) = (x, (d', fs'))" by (rule prod_cases3)
  with blind_run[OF assms(1) this] assms(2) show "sql_bind m k (own d, fs) = (case sql_bind m k (d, fs) of (x, (d', fs')) \<Rightarrow> (x, (own d', fs')))"
    by (cases x) (simp_all add: sql_bind_def blind_def)
qed

lemma blind_wrap: "blind own m \<Longrightarrow> blind own (sql_wrap msg m)"
  by (auto simp: blind_def sql_wrap_def split: prod.splits sum.splits)

lemma blind_try: "blind own m \<Longrightarrow> blind own (sql_try m)"
  by (auto simp: blind_def sql_try_def split: prod.splits)

lemma blind_query: "(\<And>d. q (own d) = q d) \<Longrightarrow> blind own (sql_query q)"
  by (auto simp: blind_def sql_query_def sql_stmt_def split: prod.splits bool.splits)

lemma blind_if: "blind own m \<Longrightarrow> blind own n \<Longrightarrow> blind own (if b then m else n)"
  by simp

lemma blind_option: "blind own n \<Longrightarrow> (\<And>x. blind own (m x)) \<Longrightarrow> blind own (case v of None \<Rightarrow> n | Some x \<Rightarrow> m x)"
  by (cases v) auto

lemma blind_sum: "(\<And>e. blind own (n e)) \<Longrightarrow> (\<And>x. blind own (m x)) \<Longrightarrow> blind own (case v of Inl e \<Rightarrow> n e | Inr x \<Rightarrow> m x)"
  by (cases v) auto

lemma blind_map: "(\<And>x. blind own (f x)) \<Longrightarrow> blind own (sql_map f xs)"
  by (induction xs) (simp_all add: blind_return blind_bind)

lemmas blind_rules = blind_return blind_raise blind_bind blind_wrap blind_try blind_if blind_option blind_sum blind_map

section \<open>The rows of a partition\<close>

definition own_rows :: "Claims option \<Rightarrow> atsdb \<Rightarrow> atsdb" where
  "own_rows claims d = d\<lparr>ats_jobs := filter (\<lambda>r. stamped claims (jb_Base r)) (ats_jobs d),
     ats_applications := filter (\<lambda>r. stamped claims (ap_Base r)) (ats_applications d),
     ats_interviews := filter (\<lambda>r. stamped claims (iv_Base r)) (ats_interviews d),
     ats_job_projections := filter (\<lambda>r. stamped claims (jp_Base r)) (ats_job_projections d)\<rparr>"

lemma blind_rpc: "blind (own_rows claims) (rpc m)"
  by (auto simp: blind_def rpc_def own_rows_def split: prod.splits bool.splits)

lemma find_in_filter: "(\<And>x. P x \<Longrightarrow> Q x) \<Longrightarrow> List.find P (filter Q rows) = List.find P rows"
  by (induction rows) auto

lemma filter_in_filter: "(\<And>x. P x \<Longrightarrow> Q x) \<Longrightarrow> filter P (filter Q rows) = filter P rows"
  by (induction rows) auto

lemma blind_find:
  assumes "\<And>d. rows (own d) = filter Q (rows d)" and "\<And>x. P x \<Longrightarrow> Q x"
  shows "blind own (sql_wrap msg (sql_query (\<lambda>d. List.find P (rows d))))"
  using find_in_filter[of P Q] assms by (intro blind_wrap blind_query) simp

lemma blind_filter:
  assumes "\<And>d. rows (own d) = filter Q (rows d)" and "\<And>x. P x \<Longrightarrow> Q x"
  shows "blind own (sql_wrap msg (sql_query (\<lambda>d. g (filter P (rows d)))))"
  using filter_in_filter[of P Q] assms by (intro blind_wrap blind_query) (simp del: filter_filter)

lemma own_rows_sel:
  "ats_jobs (own_rows claims d) = filter (\<lambda>r. stamped claims (jb_Base r)) (ats_jobs d)"
  "ats_applications (own_rows claims d) = filter (\<lambda>r. stamped claims (ap_Base r)) (ats_applications d)"
  "ats_interviews (own_rows claims d) = filter (\<lambda>r. stamped claims (iv_Base r)) (ats_interviews d)"
  by (simp_all add: own_rows_def)

text \<open>A row of the scope carries the stamp of its claims, so the filters of the repositories find the same rows.\<close>

lemma stamped_in: "Ats_ScopeFromContext claims = Inr sc \<Longrightarrow> stamped claims b \<longleftrightarrow> in_partition sc b"
  by (simp add: stamped_def)

lemma blind_jobs:
  assumes "Ats_ScopeFromContext claims = Inr sc"
  shows "blind (own_rows claims) (Jobs_GetInPartition sc i)" "blind (own_rows claims) (Jobs_ListByPartition sc st n)"
    "blind (own_rows claims) (Jobs_CountByStatus sc st)"
  unfolding Jobs_GetInPartition_def Jobs_ListByPartition_def Jobs_CountByStatus_def Let_def
  by (rule blind_find blind_filter, rule own_rows_sel, simp add: stamped_in[OF assms])+

lemma blind_applications:
  assumes "Ats_ScopeFromContext claims = Inr sc"
  shows "blind (own_rows claims) (AtsApplications_GetInPartition sc i)" "blind (own_rows claims) (ListByJob sc j g n)"
    "blind (own_rows claims) (ListByProfile sc)" "blind (own_rows claims) (AtsApplications_CountByStatus sc st)"
  unfolding AtsApplications_GetInPartition_def ListByJob_def ListByProfile_def AtsApplications_CountByStatus_def Let_def
  by (rule blind_find blind_filter, rule own_rows_sel, simp add: stamped_in[OF assms])+

lemma blind_interviews:
  assumes "Ats_ScopeFromContext claims = Inr sc"
  shows "blind (own_rows claims) (Interviews_GetInPartition sc i)" "blind (own_rows claims) (ListByApplication sc i)"
    "blind (own_rows claims) (ListUpcoming sc from to n)" "blind (own_rows claims) (CountInRange sc from to)"
  unfolding Interviews_GetInPartition_def ListByApplication_def ListUpcoming_def CountInRange_def Let_def
  by (rule blind_find blind_filter, rule own_rows_sel, simp add: stamped_in[OF assms] upcoming_def)+

lemmas blind_repositories = blind_jobs blind_applications blind_interviews

lemma blind_in_scope:
  assumes "\<And>sc. Ats_ScopeFromContext claims = Inr sc \<Longrightarrow> blind own (k sc)"
  shows "blind own (in_scope claims k)"
  using assms by (auto simp: in_scope_def blind_raise split: sum.splits)

section \<open>The reading procedures\<close>

lemma blind_interview_context:
  assumes "Ats_ScopeFromContext claims = Inr sc"
  shows "blind (own_rows claims) (interview_context sc iv)"
  unfolding interview_context_def by (intro blind_rules blind_repositories[OF assms])

lemma blind_panel: "blind (own_rows claims) (EnsurePanelResources env ps)"
  unfolding EnsurePanelResources_def by (intro blind_rules blind_rpc)

lemma blind_GetJob: "blind (own_rows claims) (GetJob claims i)"
  unfolding GetJob_def by (intro blind_in_scope blind_rules blind_repositories)

lemma blind_GetApplication: "blind (own_rows claims) (GetApplication claims i)"
  unfolding GetApplication_def by (intro blind_in_scope blind_rules blind_repositories)

lemma blind_ListJobs: "blind (own_rows claims) (ListJobs claims st)"
  unfolding ListJobs_def by (intro blind_in_scope blind_repositories)

lemma blind_ListApplications: "blind (own_rows claims) (ListApplications claims j g)"
  unfolding ListApplications_def by (intro blind_in_scope blind_repositories)

lemma blind_ListInterviews: "blind (own_rows claims) (ListInterviews claims i)"
  unfolding ListInterviews_def by (intro blind_in_scope blind_repositories)

lemma blind_ListTalent: "blind (own_rows claims) (ListTalent claims query j n)"
  unfolding ListTalent_def by (intro blind_in_scope blind_rules blind_GetJob)

lemma blind_GetInterviewICS: "blind (own_rows claims) (GetInterviewICS claims now i)"
  unfolding GetInterviewICS_def split_beta by (intro blind_in_scope blind_rules blind_repositories blind_interview_context)

lemma blind_ListInterviewSlots: "blind (own_rows claims) (ListInterviewSlots claims env days now i)"
  unfolding ListInterviewSlots_def ListPanelSlots_def by (intro blind_in_scope blind_rules blind_repositories blind_panel blind_rpc)

lemma blind_MyApplications: "blind (own_rows claims) (MyApplications claims)"
  unfolding MyApplications_def by (intro blind_in_scope blind_rules blind_repositories)

lemma blind_Dashboard: "blind (own_rows claims) (Dashboard claims env now)"
  unfolding Dashboard_def interview_dto_def GetProfileAvailability_def split_beta
  by (intro blind_in_scope blind_rules blind_repositories blind_interview_context blind_panel blind_rpc)

lemmas blind_reads = blind_GetJob blind_GetApplication blind_ListJobs blind_ListApplications blind_ListInterviews blind_ListTalent
  blind_GetInterviewICS blind_ListInterviewSlots blind_MyApplications blind_Dashboard

end
