(* ===== verification/Ats_Properties.thy ===== *)
theory Ats_Properties
  imports Ats_Reads Calendar_Properties
begin

text \<open>
  Properties of the employer service: histories of the hiring pipeline, isolation of tenants, the
  outcome that is lost between two statements, the depth of \<open>Hire\<close>, the talent shortlist, the
  outbox and the idempotency interceptor.
\<close>

section \<open>Histories of the pipeline\<close>

lemma app_status_neq: "AppStatusActive \<noteq> AppStatusHired" "AppStatusHired \<noteq> AppStatusActive"
  by (simp_all add: app_status_defs)

lemma pipeline_ok:
  assumes "ats_applications d' = ats_applications d" and "ats_hire_outcomes d' = ats_hire_outcomes d"
  shows "ats_ok d d'"
  using assms by (intro same_pipeline_ok) (simp add: same_pipeline_def)

lemma distinct_keys_update:
  assumes "distinct (map k rows)" and "distinct (map g rows)" and "\<And>r. g (f r) = g r"
    and "\<And>r x. r \<in> set rows \<Longrightarrow> g r = i \<Longrightarrow> x \<in> set rows \<Longrightarrow> g x \<noteq> i \<Longrightarrow> k (f r) \<noteq> k x"
  shows "distinct (map k (update_where (\<lambda>r. g r = i) f rows))"
  using assms
proof (induction rows)
  case (Cons r rows)
  have ih: "distinct (map k (update_where (\<lambda>r. g r = i) f rows))" using Cons.prems by (intro Cons.IH) auto
  show ?case
  proof (cases "g r = i")
    case True
    then have "g x \<noteq> i" if "x \<in> set rows" for x using Cons.prems(2) that by (auto simp: image_iff)
    then have same: "update_where (\<lambda>r. g r = i) f rows = rows" by (simp add: update_where_none)
    have "k (f r) \<noteq> k x" if "x \<in> set rows" for x
      using Cons.prems(4)[of r x] True \<open>\<And>x. x \<in> set rows \<Longrightarrow> g x \<noteq> i\<close>[OF that] that by simp
    then show ?thesis using True ih by (auto simp: same)
  next
    case False
    have "k r \<noteq> k (if g x = i then f x else x)" if "x \<in> set rows" for x
      using Cons.prems(1) Cons.prems(4)[of x r] False that by (auto simp: eq_commute)
    then have "k r \<notin> k ` set (update_where (\<lambda>r. g r = i) f rows)" unfolding set_update_where image_image by blast
    then show ?thesis using False ih by simp
  qed
qed simp

lemma same_row:
  assumes "distinct (map (row_id base) rows)" and "x \<in> set rows" and "a \<in> set rows" and "row_id base x = row_id base a"
  shows "x = a"
  using assms by (metis distinct_map inj_onD)

lemma application_set_ok:
  assumes a: "a \<in> set (ats_applications d)" "ap_Status a = AppStatusActive" "ValidateAdvance (ap_Stage a) to = None"
    and free: "\<forall>r x. r \<in> set (ats_applications d) \<longrightarrow> row_id ap_Base r = row_id ap_Base a \<longrightarrow> x \<in> set (ats_applications d) \<longrightarrow> row_id ap_Base x \<noteq> row_id ap_Base a \<longrightarrow>
          \<not> (ap_JobID r = ap_JobID x \<and> ap_ProfileID r = ap_ProfileID x \<and> ap_Status (advanced to r) = ap_Status x)"
  shows "ats_ok d (ats_applications_update (update_where (\<lambda>x. row_id ap_Base x = row_id ap_Base a) (advanced to)) d)"
  unfolding ats_ok_def
proof
  assume inv: "ats_inv d"
  let ?apps = "update_where (\<lambda>x. row_id ap_Base x = row_id ap_Base a) (advanced to) (ats_applications d)"
  have only: "x = a" if "x \<in> set (ats_applications d)" "row_id ap_Base x = row_id ap_Base a" for x
    using same_row[OF _ that(1) a(1) that(2)] inv by (simp add: ats_inv_def)
  have "stage_ok a" using inv a(1) by (simp add: ats_inv_def list_all_iff)
  note adv = advanced_ok[OF this a(2) a(3)[unfolded ValidateAdvance_edge]]
  have "distinct (map (\<lambda>a. (ap_JobID a, ap_ProfileID a, ap_Status a)) ?apps)"
    using inv free by (intro distinct_keys_update) (auto simp: ats_inv_def advanced_def)
  moreover have "list_all stage_ok ?apps"
    using inv adv(1) only by (auto simp: ats_inv_def list_all_iff set_update_where)
  moreover have "outcome_ok (ats_applications_update (\<lambda>_. ?apps) d) h" if h: "h \<in> set (ats_hire_outcomes d)" for h
  proof -
    from inv h obtain x where "x \<in> set (ats_applications d)" "row_id ap_Base x = ho_ApplicationID h" "ap_Status x = AppStatusHired"
      "ap_JobID x = ho_JobID h" "ap_ProfileID x = ho_ProfileID h" "ho_BillingRef h = EmitHire h"
      by (auto simp: ats_inv_def list_all_iff outcome_ok_def list_ex_iff)
    moreover have "x \<noteq> a" using \<open>ap_Status x = AppStatusHired\<close> a(2) by (auto simp: app_status_defs)
    moreover from this only \<open>x \<in> set (ats_applications d)\<close> have "row_id ap_Base x \<noteq> row_id ap_Base a" by blast
    ultimately show ?thesis by (auto simp: outcome_ok_def list_ex_iff set_update_where intro!: bexI[of _ x] image_eqI[of _ _ x])
  qed
  ultimately have inv': "ats_inv (ats_applications_update (\<lambda>_. ?apps) d)"
    using inv by (auto simp: ats_inv_def list_all_iff row_simps advanced_def)
  have evolve: "rows_evolve stage_evolves (ats_applications d) ?apps"
    using adv(2) only by (intro rows_evolve_update stage_evolves_refl) blast
  have upd: "ats_applications_update (update_where (\<lambda>x. row_id ap_Base x = row_id ap_Base a) (advanced to)) d = ats_applications_update (\<lambda>_. ?apps) d"
    by (cases d) simp
  show "ats_inv (ats_applications_update (update_where (\<lambda>x. row_id ap_Base x = row_id ap_Base a) (advanced to)) d) \<and>
      rows_evolve stage_evolves (ats_applications d)
        (ats_applications (ats_applications_update (update_where (\<lambda>x. row_id ap_Base x = row_id ap_Base a) (advanced to)) d))"
    unfolding upd using inv' evolve by simp
qed

lemma outcome_new_ok:
  assumes "a \<in> set (ats_applications d)" and "ap_Status a = AppStatusHired" and "no_clash hire_indexes (new_outcome base a) (ats_hire_outcomes d)"
  shows "ats_ok d (ats_hire_outcomes_update (\<lambda>rs. rs @ [new_outcome base a]) d)"
proof -
  have "outcome_ok (ats_hire_outcomes_update (\<lambda>rs. rs @ [new_outcome base a]) d) (new_outcome base a)"
    using assms(1,2) by (auto simp: outcome_ok_def new_outcome_def EmitHire_def list_ex_iff)
  then show ?thesis using assms(3)
    by (auto simp: ats_ok_def ats_inv_def outcome_ok_def list_all_iff no_clash_def hire_indexes_def list_ex_iff rows_evolve_refl stage_evolves_refl)
qed

interpretation ah: ats_relation ats_ok claims "\<lambda>_. True" "\<lambda>_. True" for claims
proof unfold_locales
  fix d :: atsdb and base inp
  assume "no_clash application_indexes (new_application base inp) (ats_applications d)"
  then show "ats_ok d (ats_applications_update (\<lambda>rs. rs @ [new_application base inp]) d)"
    by (intro new_application_row_ok) (simp add: no_clash_def)
qed (auto intro: pipeline_ok application_set_ok outcome_new_ok simp: ats_core_def)

text \<open>Histories: requests of any callers, one after the other.\<close>

definition ats_step :: "atsdb \<Rightarrow> atsdb \<Rightarrow> bool" where
  "ats_step d d' \<longleftrightarrow> (\<exists>claims. ats_request claims d d')"

definition empty_ats :: atsdb where
  "empty_ats = \<lparr>ats_jobs = [], ats_applications = [], ats_stage_events = [], ats_availability = [], ats_interviews = [], ats_outbox = [],
     ats_hire_outcomes = [], ats_ai_runs = [], ats_job_projections = [], ats_idempotency_keys = [],
     at_calendar = \<lparr>cal_resources = [], cal_availability = [], cal_busy_blocks = [], cal_bookings = [],
       cal_booking_lines = [], cal_external_connections = [], cal_sync_outbox = []\<rparr>, at_sent = []\<rparr>"

lemma empty_ats_inv: "ats_inv empty_ats"
  by (simp add: ats_inv_def empty_ats_def)

lemma request_history:
  assumes "ats_request claims d d'"
  shows "ats_ok d d'"
  using assms by (rule ah.request_ok) (intro ah.Advance_ok ah.Hire_ok; simp)+

lemma history_ok: "ats_step\<^sup>*\<^sup>* d d' \<Longrightarrow> ats_ok d d'"
  by (induction rule: rtranclp_induct) (auto simp: ats_step_def intro: as.R_refl as.R_trans request_history)

lemma history_inv: "ats_step\<^sup>*\<^sup>* empty_ats d \<Longrightarrow> ats_inv d"
  using history_ok[of empty_ats d] by (simp add: ats_ok_def empty_ats_inv)

section \<open>Tenants\<close>

definition ats_keys :: "atsdb \<Rightarrow> bool" where
  "ats_keys d \<longleftrightarrow> distinct (map (row_id jb_Base) (ats_jobs d)) \<and> distinct (map (row_id ap_Base) (ats_applications d)) \<and>
     distinct (map (row_id iv_Base) (ats_interviews d)) \<and> distinct (map (row_id jp_Base) (ats_job_projections d))"

text \<open>The rows of a table that are not in the partition of the caller.\<close>

definition foreign :: "Claims option \<Rightarrow> ('r \<Rightarrow> BaseModel) \<Rightarrow> 'r list \<Rightarrow> 'r list" where
  "foreign claims base rows = filter (\<lambda>r. \<not> stamped claims (base r)) rows"

definition foreign_kept :: "Claims option \<Rightarrow> atsdb \<Rightarrow> atsdb \<Rightarrow> bool" where
  "foreign_kept claims d d' \<longleftrightarrow> foreign claims jb_Base (ats_jobs d') = foreign claims jb_Base (ats_jobs d) \<and>
     foreign claims ap_Base (ats_applications d') = foreign claims ap_Base (ats_applications d) \<and>
     foreign claims iv_Base (ats_interviews d') = foreign claims iv_Base (ats_interviews d) \<and>
     foreign claims jp_Base (ats_job_projections d') = foreign claims jp_Base (ats_job_projections d)"

definition tenant_frame :: "Claims option \<Rightarrow> atsdb \<Rightarrow> atsdb \<Rightarrow> bool" where
  "tenant_frame claims d d' \<longleftrightarrow> (ats_keys d \<longrightarrow> ats_keys d' \<and> foreign_kept claims d d')"

lemma foreign_append: "stamped claims (base r) \<Longrightarrow> foreign claims base (rows @ [r]) = foreign claims base rows"
  by (simp add: foreign_def)

lemma foreign_update:
  assumes "distinct (map (row_id base) rows)" and "r \<in> set rows" and "stamped claims (base r)" and "\<And>x. base (f x) = base x"
  shows "foreign claims base (update_where (\<lambda>x. row_id base x = row_id base r) f rows) = foreign claims base rows"
proof -
  have "stamped claims (base x)" if "x \<in> set rows" "row_id base x = row_id base r" for x
    using same_row[OF assms(1) that(1) assms(2) that(2)] assms(3) by simp
  then show ?thesis unfolding foreign_def by (intro filter_update_where) (auto simp: assms(4))
qed

lemma map_row_id_update: "(\<And>x. base (f x) = base x) \<Longrightarrow> map (row_id base) (update_where P f rows) = map (row_id base) rows"
  by (simp add: update_where_def)

lemma no_clash_primary: "no_clash (primary_key n base # uniq) r rows \<Longrightarrow> row_id base r \<notin> row_id base ` set rows"
  by (auto simp: no_clash_def primary_key_def list_ex_iff)

lemmas frame_simps = tenant_frame_def ats_keys_def foreign_kept_def foreign_append foreign_update map_row_id_update

interpretation ti: ats_relation "tenant_frame claims" claims "stamped claims" "\<lambda>_. True" for claims
proof (unfold_locales, goal_cases)
  case 1 show ?case by (simp add: frame_simps)
next
  case 2 then show ?case by (simp add: tenant_frame_def foreign_kept_def)
next
  case 3 then show ?case by (simp add: stamped_def)
next
  case 4 then show ?case by (auto simp: stamped_def in_partition_def split: sum.splits)
next
  case 5 then show ?case by (simp add: frame_simps ats_core_def)
next
  case 6 then show ?case by (auto simp: frame_simps job_indexes_def dest: no_clash_primary)
next
  case 7 then show ?case by (simp add: frame_simps)
next
  case 8 then show ?case by (auto simp: frame_simps projection_indexes_def dest: no_clash_primary)
next
  case 9 then show ?case by (simp add: frame_simps)
next
  case 10 then show ?case by (auto simp: frame_simps application_indexes_def new_application_def dest: no_clash_primary)
next
  case 11 then show ?case by (simp add: frame_simps advanced_def)
next
  case 12 then show ?case by (simp add: frame_simps)
next
  case 13 then show ?case by (auto simp: frame_simps interview_indexes_def dest: no_clash_primary)
next
  case 14 then show ?case by (simp add: frame_simps)
qed

lemma request_frame:
  assumes "ats_request claims d d'"
  shows "tenant_frame claims d d'"
  using assms by (rule ti.request_ok) (intro ti.Advance_ok ti.Hire_ok; simp)+

lemma history_keys: "ats_step\<^sup>*\<^sup>* empty_ats d \<Longrightarrow> ats_keys d"
proof (induction rule: rtranclp_induct)
  case (step y z)
  then show ?case using request_frame by (auto simp: ats_step_def tenant_frame_def)
qed (simp add: ats_keys_def empty_ats_def)

section \<open>Outcomes that are never written\<close>

definition unpaid :: "AtsApplication \<Rightarrow> atsdb \<Rightarrow> bool" where
  "unpaid a d \<longleftrightarrow> a \<in> set (ats_applications d) \<and> ap_Status a = AppStatusHired \<and> row_id ap_Base a \<notin> ho_ApplicationID ` set (ats_hire_outcomes d)"

definition stays_unpaid :: "AtsApplication \<Rightarrow> atsdb \<Rightarrow> atsdb \<Rightarrow> bool" where
  "stays_unpaid a d d' \<longleftrightarrow> ats_ok d d' \<and> (ats_inv d \<and> unpaid a d \<longrightarrow> unpaid a d')"

interpretation up: sql_preorder "stays_unpaid a" for a
proof unfold_locales
  fix s t u assume "stays_unpaid a s t" "stays_unpaid a t u"
  then show "stays_unpaid a s u" using as.R_trans[of s t u] unfolding stays_unpaid_def ats_ok_def[of s t] by blast
qed (simp add: stays_unpaid_def as.R_refl)

lemma keep_unpaid:
  assumes "ats_ok d d'" and "ats_hire_outcomes d' = ats_hire_outcomes d"
  shows "stays_unpaid a d d'"
  unfolding stays_unpaid_def
proof (intro conjI impI)
  assume "ats_inv d \<and> unpaid a d"
  then have "rows_evolve stage_evolves (ats_applications d) (ats_applications d')" "a \<in> set (ats_applications d)" and h: "ap_Status a = AppStatusHired"
    "row_id ap_Base a \<notin> ho_ApplicationID ` set (ats_hire_outcomes d)"
    using assms(1) by (auto simp: ats_ok_def unpaid_def)
  from rows_evolve_mem[OF this(1,2)] obtain a' where "a' \<in> set (ats_applications d')" "stage_evolves a a'" .
  with h assms(2) show "unpaid a d'" by (auto simp: unpaid_def stage_evolves_def app_status_defs)
qed (rule assms(1))

interpretation lo: ats_relation "stays_unpaid a" claims "\<lambda>_. True" "\<lambda>i. i \<noteq> row_id ap_Base a" for a claims
proof (unfold_locales, goal_cases)
  case (9 a' d to)
  then show ?case by (intro keep_unpaid ah.application_set) simp_all
next
  case (10 a' d base)
  then show ?case using ah.outcome_new[of a' d base] by (auto simp: stays_unpaid_def unpaid_def new_outcome_def)
qed (auto simp: ats_core_def intro!: keep_unpaid intro: pipeline_ok ah.application_new)

text \<open>Advancing or hiring that application changes nothing: it is no longer active.\<close>

lemma tables_after_raise: "tables_after (sql_raise e) z = fst z"
  by (simp add: tables_after_def sql_raise_def)

lemma settled_application:
  assumes "ats_inv d" and "unpaid a d" and "GetApplication claims (row_id ap_Base a) z = (r, z')" and "fst z = d"
  shows "fst z' = d \<and> (\<forall>x. r = Inr x \<longrightarrow> x = a)"
proof -
  obtain fs d' fs' where z: "z = (d, fs)" "z' = (d', fs')" using assms(4) by (metis prod.collapse)
  note run = ah.GetApplication_run[OF assms(3)[unfolded z]]
  have "x = a" if "x \<in> set (ats_applications d)" "row_id ap_Base x = row_id ap_Base a" for x
    using same_row[OF _ that(1) _ that(2)] assms(1,2) by (simp add: ats_inv_def unpaid_def)
  with run show ?thesis unfolding z fst_conv by blast
qed

lemma settled_then:
  assumes "ats_inv d" and "unpaid a d" and "\<And>fs'. tables_after (k a) (d, fs') = d"
  shows "tables_after (sql_bind (GetApplication claims (row_id ap_Base a)) k) (d, fs) = d"
proof -
  obtain r d' fs' where run: "GetApplication claims (row_id ap_Base a) (d, fs) = (r, (d', fs'))" by (metis prod.collapse)
  from settled_application[OF assms(1,2) run] assms(3)[of fs'] show ?thesis
    by (auto simp: tables_after_def sql_bind_def run split: sum.splits)
qed

lemma Advance_settled:
  assumes "ats_inv d" and "unpaid a d"
  shows "tables_after (Advance claims eventBase hireBase (row_id ap_Base a) to note) (d, fs) = d"
proof -
  have "ap_Status a \<noteq> AppStatusActive" using assms(2) by (simp add: unpaid_def app_status_defs)
  then show ?thesis unfolding Advance_def in_scope_def
    by (cases "Ats_ScopeFromContext claims") (auto intro!: settled_then[OF assms] simp: tables_after_raise)
qed

lemma Hire_settled:
  assumes "ats_inv d" and "unpaid a d"
  shows "tables_after (Hire n claims eventBases hireBase (row_id ap_Base a)) (d, fs) = d"
proof (cases n)
  case (Suc m)
  have "ap_Status a = AppStatusHired" using assms(2) by (simp add: unpaid_def)
  then show ?thesis unfolding Suc Hire.simps Hires_GetByApplication_def
    by (intro settled_then[OF assms])
      (auto simp: tables_after_def sql_bind_def sql_wrap_def sql_query_def sql_stmt_def sql_return_def split: prod.splits bool.splits)
qed (simp add: tables_after_def sql_raise_def)

lemma request_unpaid:
  assumes "ats_request claims d d'"
  shows "stays_unpaid a d d'"
  using assms
proof (rule lo.request_ok)
  show "preserves (stays_unpaid a) (Advance claims eventBase hireBase i to nt)" for eventBase hireBase i to nt
  proof (cases "i = row_id ap_Base a")
    case True
    have "preserves ats_ok (Advance claims eventBase hireBase i to nt)" by (rule ah.Advance_ok) simp
    with True show ?thesis
      by (auto simp: preserves_def stays_unpaid_def Advance_settled)
  qed (simp add: lo.Advance_ok)
  show "preserves (stays_unpaid a) (Hire n claims eventBases hireBase i)" for n eventBases hireBase i
  proof (cases "i = row_id ap_Base a")
    case True
    have "preserves ats_ok (Hire n claims eventBases hireBase i)" by (rule ah.Hire_ok) simp
    with True show ?thesis
      by (auto simp: preserves_def stays_unpaid_def Hire_settled)
  qed (simp add: lo.Hire_ok)
qed

lemma history_unpaid: "ats_step\<^sup>*\<^sup>* d d' \<Longrightarrow> stays_unpaid a d d'"
  by (induction rule: rtranclp_induct) (auto simp: ats_step_def intro: up.R_refl up.R_trans request_unpaid)

section \<open>A sample\<close>

text \<open>One job, one application, moved to the offer stage.\<close>

definition base_row_of :: "nat \<Rightarrow> BaseModel" where
  "base_row_of k = base_row [char_of (53 + k)]"

definition sample_job :: atsdb where
  "sample_job = tables_after (CreateJob sample_claims (base_row ''j'')
     \<lparr>cj_Title = ''Nurse'', cj_Description = [], cj_Location = [], cj_Status = []\<rparr>) (empty_ats, [])"

definition sample_input :: CreateApplicationInput where
  "sample_input = \<lparr>ca_JobID = ''j'', ca_ProfileID = ''c'', ca_CandidateID = [], ca_Source = [], ca_SourceRef = [], ca_Summary = [], ca_Score = 0\<rparr>"

definition sample_applied :: atsdb where
  "sample_applied = tables_after (CreateApplication sample_claims (base_row ''a'') (base_row ''0'') sample_input) (sample_job, [])"

definition sample_advance :: "string \<Rightarrow> string \<Rightarrow> atsdb \<Rightarrow> atsdb" where
  "sample_advance e to d = tables_after (Advance sample_claims (base_row e) (base_row ''h'') ''a'' to []) (d, [])"

definition sample_interview_stage :: atsdb where
  "sample_interview_stage = sample_advance ''2'' StageInterview (sample_advance ''1'' StageScreen sample_applied)"

definition sample_offer :: atsdb where
  "sample_offer = sample_advance ''3'' StageOffer sample_interview_stage"

lemma step_after: "ats_step\<^sup>*\<^sup>* d0 d \<Longrightarrow> ats_request claims d d' \<Longrightarrow> ats_step\<^sup>*\<^sup>* d0 d'"
  by (meson ats_step_def rtranclp.rtrancl_into_rtrancl)

lemma stamped_sample: "stamped sample_claims (base_row i)"
  by (simp add: stamped_def Ats_ScopeFromContext_def in_partition_def sample_claims_def base_row_def)

lemma sample_histories:
  "ats_step\<^sup>*\<^sup>* empty_ats sample_applied" "ats_step\<^sup>*\<^sup>* empty_ats sample_interview_stage" "ats_step\<^sup>*\<^sup>* empty_ats sample_offer"
proof -
  have "ats_step\<^sup>*\<^sup>* empty_ats sample_job" unfolding sample_job_def
    by (rule step_after[OF rtranclp.rtrancl_refl create_job]) (rule stamped_sample)
  then show a: "ats_step\<^sup>*\<^sup>* empty_ats sample_applied" unfolding sample_applied_def
    by (rule step_after[OF _ create_application]) (rule stamped_sample)
  have adv: "ats_step\<^sup>*\<^sup>* empty_ats d \<Longrightarrow> ats_step\<^sup>*\<^sup>* empty_ats (sample_advance e to d)" for e to d
    unfolding sample_advance_def by (rule step_after[OF _ advance])
  show i: "ats_step\<^sup>*\<^sup>* empty_ats sample_interview_stage" unfolding sample_interview_stage_def by (intro adv a)
  show "ats_step\<^sup>*\<^sup>* empty_ats sample_offer" unfolding sample_offer_def by (intro adv i)
qed

definition sample_application :: "string \<Rightarrow> string \<Rightarrow> AtsApplication" where
  "sample_application stage status = (new_application (base_row ''a'') sample_input)\<lparr>ap_Stage := stage, ap_Status := status\<rparr>"

lemma sample_rows:
  "ats_applications sample_applied = [sample_application StageApplied AppStatusActive]"
  "ats_applications sample_interview_stage = [sample_application StageInterview AppStatusActive]"
  "ats_applications sample_offer = [sample_application StageOffer AppStatusActive]"
  by code_simp+

section \<open>Properties of histories\<close>

text \<open>
  C27. After any history of requests, of any tenants and with any failures of statements and remote
  calls: application identifiers are unique, a candidate has at most one application per job and
  status, stage and status agree, outcomes are unique, belong to hired applications and carry
  their billing reference.  From there on no application disappears or changes anything but its stage
  and status, the stage moves only along the graph of stages, and a rejected, withdrawn
  or hired application never changes again.
\<close>

theorem ats_history:
  assumes "ats_step\<^sup>*\<^sup>* empty_ats d" and "ats_step\<^sup>*\<^sup>* d d'"
  shows "ats_inv d \<and> ats_inv d' \<and> rows_evolve stage_evolves (ats_applications d) (ats_applications d')"
  using history_inv[OF assms(1)] history_ok[OF assms(2)] by (simp add: ats_ok_def)

theorem ats_history_witness:
  "ats_inv sample_applied \<and> rows_evolve stage_evolves (ats_applications sample_applied) (ats_applications sample_offer) \<and>
   map ap_Stage (ats_applications sample_applied) = [StageApplied] \<and> map ap_Stage (ats_applications sample_offer) = [StageOffer]"
proof -
  have "ats_step\<^sup>*\<^sup>* sample_applied sample_offer"
    unfolding sample_offer_def sample_interview_stage_def sample_advance_def by (intro step_after[OF _ advance] rtranclp.rtrancl_refl)
  from ats_history[OF sample_histories(1) this] show ?thesis by (simp add: sample_rows sample_application_def)
qed

text \<open>
  C28. A request changes no job, application, interview or published projection outside the partition of its
  caller.  A lookup of an application finds only rows of that partition, and the answer of every reading procedure, the lists,
  lookups, counts and the dashboard, is the same on the database without the jobs, applications, interviews and
  projections of the other partitions.
\<close>

theorem tenant_isolation:
  assumes "ats_step\<^sup>*\<^sup>* empty_ats d" and "ats_request claims d d'"
  shows "foreign claims jb_Base (ats_jobs d') = foreign claims jb_Base (ats_jobs d) \<and>
    foreign claims ap_Base (ats_applications d') = foreign claims ap_Base (ats_applications d) \<and>
    foreign claims iv_Base (ats_interviews d') = foreign claims iv_Base (ats_interviews d) \<and>
    foreign claims jp_Base (ats_job_projections d') = foreign claims jp_Base (ats_job_projections d) \<and>
    (fst (GetApplication claims i (d, fs)) = Inr a \<longrightarrow> stamped claims (ap_Base a)) \<and>
    fst (GetApplication claims i (own_rows claims d, fs)) = fst (GetApplication claims i (d, fs)) \<and>
    fst (GetJob claims i (own_rows claims d, fs)) = fst (GetJob claims i (d, fs)) \<and>
    fst (ListJobs claims s (own_rows claims d, fs)) = fst (ListJobs claims s (d, fs)) \<and>
    fst (ListApplications claims i s (own_rows claims d, fs)) = fst (ListApplications claims i s (d, fs)) \<and>
    fst (MyApplications claims (own_rows claims d, fs)) = fst (MyApplications claims (d, fs)) \<and>
    fst (ListInterviews claims i (own_rows claims d, fs)) = fst (ListInterviews claims i (d, fs)) \<and>
    fst (GetInterviewICS claims now i (own_rows claims d, fs)) = fst (GetInterviewICS claims now i (d, fs)) \<and>
    fst (ListInterviewSlots claims env n now i (own_rows claims d, fs)) = fst (ListInterviewSlots claims env n now i (d, fs)) \<and>
    fst (ListTalent claims query i n (own_rows claims d, fs)) = fst (ListTalent claims query i n (d, fs)) \<and>
    fst (Dashboard claims env now (own_rows claims d, fs)) = fst (Dashboard claims env now (d, fs))"
proof -
  have "foreign_kept claims d d'" using request_frame[OF assms(2)] history_keys[OF assms(1)] by (simp add: tenant_frame_def)
  moreover have "stamped claims (ap_Base a)" if "fst (GetApplication claims i (d, fs)) = Inr a"
    using that ti.GetApplication_run[of claims i d fs "Inr a"] by (metis prod.collapse)
  moreover note blind_reads[where claims = claims, THEN blind_answer, where d = d]
  ultimately show ?thesis by (simp add: foreign_kept_def)
qed

definition other_claims :: "Claims option" where
  "other_claims = Some \<lparr>cl_TenantID = ''o'', cl_PartitionID = ''o'', cl_ProfileID = ''x'', cl_Subject = []\<rparr>"

theorem tenant_isolation_witness:
  "ats_applications (tables_after (Advance other_claims (base_row ''9'') (base_row ''h'') ''a'' StageRejected []) (sample_offer, [])) = ats_applications sample_offer"
proof -
  have "foreign other_claims ap_Base (ats_applications sample_offer) = ats_applications sample_offer"
    by (simp add: foreign_def sample_rows stamped_def other_claims_def Ats_ScopeFromContext_def in_partition_def sample_application_def new_application_def base_row_def)
  moreover have "foreign other_claims ap_Base (ats_applications
      (tables_after (Advance other_claims (base_row ''9'') (base_row ''h'') ''a'' StageRejected []) (sample_offer, []))) =
    foreign other_claims ap_Base (ats_applications sample_offer)"
    using tenant_isolation[OF sample_histories(3) advance, THEN conjunct2, THEN conjunct1] .
  moreover have "foreign other_claims ap_Base (ats_applications
      (tables_after (Advance other_claims (base_row ''9'') (base_row ''h'') ''a'' StageRejected []) (sample_offer, []))) =
    ats_applications (tables_after (Advance other_claims (base_row ''9'') (base_row ''h'') ''a'' StageRejected []) (sample_offer, []))"
    by code_simp
  ultimately show ?thesis by simp
qed

section \<open>Hiring\<close>

lemma distinct_find_and:
  "distinct (map k rows) \<Longrightarrow> a \<in> set rows \<Longrightarrow> Q a \<Longrightarrow> List.find (\<lambda>x. k x = k a \<and> Q x) rows = Some a"
  by (induction rows) (auto simp: image_iff)

lemma GetApplication_ok_run:
  assumes "distinct (map (row_id ap_Base) (ats_applications d))" and "a \<in> set (ats_applications d)" and "stamped claims (ap_Base a)"
    and "next_fault fs = (False, fs')"
  shows "GetApplication claims (row_id ap_Base a) (d, fs) = (Inr a, (d, fs'))"
proof -
  from assms(3) obtain sc where sc: "Ats_ScopeFromContext claims = Inr sc" "in_partition sc (ap_Base a)"
    by (auto simp: stamped_def split: sum.splits)
  have "List.find (\<lambda>x. row_id ap_Base x = row_id ap_Base a \<and> in_partition sc (ap_Base x)) (ats_applications d) = Some a"
    using assms(1,2) sc(2) by (intro distinct_find_and)
  then show ?thesis using assms(4)
    by (simp add: GetApplication_def in_scope_def sc(1) AtsApplications_GetInPartition_def sql_simps sql_query_def sql_stmt_def)
qed

definition only_hire :: "AtsApplication \<Rightarrow> atsdb \<Rightarrow> bool" where
  "only_hire a d \<longleftrightarrow> list_all (\<lambda>x. \<not> (ap_JobID a = ap_JobID x \<and> ap_ProfileID a = ap_ProfileID x \<and> ap_Status x = AppStatusHired)) (ats_applications d)"

definition hired_state :: "AtsApplication \<Rightarrow> atsdb \<Rightarrow> atsdb" where
  "hired_state a d = ats_applications_update (update_where (\<lambda>x. row_id ap_Base x = row_id ap_Base a) (advanced StageHired)) d"

lemma hire_event_fault:
  assumes "ats_inv d" and "a \<in> set (ats_applications d)" and "stamped claims (ap_Base a)"
    and "ap_Status a = AppStatusActive" and "ap_Stage a = StageOffer" and "only_hire a d"
  shows "Advance claims eventBase hireBase (row_id ap_Base a) StageHired nt (d, [False, False, True]) = (Inl ErrDB, (hired_state a d, []))"
proof -
  have only: "x = a" if "x \<in> set (ats_applications d)" "row_id ap_Base x = row_id ap_Base a" for x
    using same_row[OF _ that(1) assms(2) that(2)] assms(1) by (simp add: ats_inv_def)
  have get: "GetApplication claims (row_id ap_Base a) (d, [False, False, True]) = (Inr a, (d, [False, True]))"
    using assms(1-3) by (intro GetApplication_ok_run) (simp_all add: ats_inv_def)
  have "\<not> clash (advanced StageHired a) x"
    if "(n, clash) \<in> set application_indexes" "x \<in> set (ats_applications d)" "row_id ap_Base x \<noteq> row_id ap_Base a" for n clash x
    using that assms(6) by (auto simp: application_indexes_def primary_key_def list_all_iff only_hire_def advanced_def status_of_stage_def stage_defs)
  then have "\<not> list_ex (\<lambda>r. row_id ap_Base r = row_id ap_Base a \<and> list_ex (\<lambda>x. row_id ap_Base x \<noteq> row_id ap_Base a \<and> clash (advanced StageHired r) x)
      (ats_applications d)) (ats_applications d)" if "(n, clash) \<in> set application_indexes" for n clash
    using that only unfolding list_ex_iff by blast
  then have upd: "AtsApplications_Update (row_id ap_Base a) (advanced StageHired) (d, [False, True]) = (Inr (), (hired_state a d, [True]))"
    by (auto simp: Repo_Update_def hired_state_def sql_stmt_def split: option.splits dest!: find_SomeD)
  have stage: "ValidateAdvance (ap_Stage a) StageHired = None" unfolding assms(5) by code_simp
  from assms(3) obtain sc where "Ats_ScopeFromContext claims = Inr sc" by (auto simp: stamped_def split: sum.splits)
  then show ?thesis using assms(4) stage
    by (simp add: Advance_def in_scope_def sql_bind_def get upd Repo_Create_def sql_stmt_def)
qed

lemma hired_state_unpaid:
  assumes "ats_inv d" and "a \<in> set (ats_applications d)" and "ap_Status a = AppStatusActive"
  shows "unpaid (advanced StageHired a) (hired_state a d)"
proof -
  have only: "x = a" if "x \<in> set (ats_applications d)" "row_id ap_Base x = row_id ap_Base a" for x
    using same_row[OF _ that(1) assms(2) that(2)] assms(1) by (simp add: ats_inv_def)
  have "ho_ApplicationID h \<noteq> row_id ap_Base a" if "h \<in> set (ats_hire_outcomes d)" for h
    using assms(1,3) that only unfolding ats_inv_def list_all_iff outcome_ok_def list_ex_iff by (metis app_status_neq)
  then have "row_id ap_Base a \<notin> ho_ApplicationID ` set (ats_hire_outcomes d)" by force
  then show ?thesis using assms(2) by (auto simp: unpaid_def hired_state_def advanced_def status_of_stage_def stage_defs set_update_where)
qed

lemma Hire_unpaid:
  assumes "ats_inv d" and "unpaid a d" and "stamped claims (ap_Base a)"
  shows "Hire (Suc n) claims eventBases hireBase (row_id ap_Base a) (d, []) = (Inr (a, None), (d, []))"
proof -
  have "GetApplication claims (row_id ap_Base a) (d, []) = (Inr a, (d, []))"
    using assms by (intro GetApplication_ok_run) (simp_all add: ats_inv_def unpaid_def)
  moreover have "List.find (\<lambda>h. ho_ApplicationID h = row_id ap_Base a) (ats_hire_outcomes d) = None"
    unfolding find_None_iff using assms(2) by (metis unpaid_def image_eqI)
  ultimately show ?thesis using assms(2) by (simp add: unpaid_def Hires_GetByApplication_def sql_simps)
qed

text \<open>
  C31. When the insert of the stage event fails after an application was moved to hired, the call
  reports an error and the outcome that billing is based on is never written: after any later
  requests the application is still hired without an outcome, and hiring it again answers success without one.
\<close>

theorem lost_hire_outcome:
  assumes "ats_step\<^sup>*\<^sup>* empty_ats d" and "a \<in> set (ats_applications d)" and "stamped claims (ap_Base a)"
    and "ap_Status a = AppStatusActive" and "ap_Stage a = StageOffer" and "only_hire a d"
  shows "\<exists>d1. Advance claims eventBase hireBase (row_id ap_Base a) StageHired nt (d, [False, False, True]) = (Inl ErrDB, (d1, [])) \<and>
    (\<forall>d'. ats_step\<^sup>*\<^sup>* d1 d' \<longrightarrow> advanced StageHired a \<in> set (ats_applications d') \<and>
      row_id ap_Base a \<notin> ho_ApplicationID ` set (ats_hire_outcomes d') \<and>
      Hire (Suc n) claims eventBases hireBase' (row_id ap_Base a) (d', []) = (Inr (advanced StageHired a, None), (d', [])))"
proof -
  have inv: "ats_inv d" using assms(1) by (rule history_inv)
  note run = hire_event_fault[OF inv assms(2-6), of eventBase hireBase nt]
  have "ats_request claims d (hired_state a d)"
    using advance[of claims d eventBase hireBase "row_id ap_Base a" StageHired nt "[False, False, True]"] by (simp add: tables_after_def run)
  from request_history[OF this] inv have inv1: "ats_inv (hired_state a d)" by (simp add: ats_ok_def)
  have later: "ats_inv d' \<and> unpaid (advanced StageHired a) d'" if "ats_step\<^sup>*\<^sup>* (hired_state a d) d'" for d'
    using history_unpaid[OF that, of "advanced StageHired a"] inv1 hired_state_unpaid[OF inv assms(2,4)] by (auto simp: stays_unpaid_def ats_ok_def)
  have base: "ap_Base (advanced StageHired a) = ap_Base a" by (simp add: advanced_def)
  have "advanced StageHired a \<in> set (ats_applications d') \<and> row_id ap_Base a \<notin> ho_ApplicationID ` set (ats_hire_outcomes d') \<and>
      Hire (Suc n) claims eventBases hireBase' (row_id ap_Base a) (d', []) = (Inr (advanced StageHired a, None), (d', []))"
    if "ats_step\<^sup>*\<^sup>* (hired_state a d) d'" for d'
    using later[OF that] Hire_unpaid[of d' "advanced StageHired a" claims n eventBases hireBase'] assms(3) by (simp add: base unpaid_def)
  then show ?thesis using run by blast
qed

theorem lost_hire_outcome_witness:
  "\<exists>d1. Advance sample_claims (base_row ''4'') (base_row ''h'') ''a'' StageHired [] (sample_offer, [False, False, True]) = (Inl ErrDB, (d1, [])) \<and>
    Hire 1 sample_claims base_row_of (base_row ''h'') ''a'' (d1, []) = (Inr (sample_application StageHired AppStatusHired, None), (d1, []))"
proof -
  let ?a = "sample_application StageOffer AppStatusActive"
  have "?a \<in> set (ats_applications sample_offer)" "stamped sample_claims (ap_Base ?a)" "ap_Status ?a = AppStatusActive" "ap_Stage ?a = StageOffer"
    "only_hire ?a sample_offer"
    using stamped_sample by (simp_all add: sample_rows only_hire_def sample_application_def new_application_def app_status_defs)
  from lost_hire_outcome[OF sample_histories(3) this] have
    "\<exists>d1. Advance sample_claims (base_row ''4'') (base_row ''h'') (row_id ap_Base ?a) StageHired [] (sample_offer, [False, False, True]) = (Inl ErrDB, (d1, [])) \<and>
      Hire (Suc 0) sample_claims base_row_of (base_row ''h'') (row_id ap_Base ?a) (d1, []) = (Inr (advanced StageHired ?a, None), (d1, []))"
    by blast
  moreover have "row_id ap_Base ?a = ''a''" "advanced StageHired ?a = sample_application StageHired AppStatusHired" by code_simp+
  ultimately show ?thesis by simp
qed

lemma Advance_offer_stage:
  assumes "Advance claims eventBase hireBase i StageOffer nt (d, fs) = (Inr a, (d', fs'))" and "x \<in> set (ats_applications d')" and "row_id ap_Base x = i"
  shows "ap_Stage x = StageOffer"
proof -
  have ne: "(StageOffer = StageHired) = False" by (simp add: stage_defs)
  obtain sc where sc: "Ats_ScopeFromContext claims = Inr sc" using assms(1) by (auto simp: Advance_def in_scope_def sql_raise_def split: sum.splits)
  from assms(1) obtain a0 z0 u z1 v z2 e where get: "GetApplication claims i (d, fs) = (Inr a0, z0)"
    and upd: "AtsApplications_Update (row_id ap_Base a0) (advanced StageOffer) z0 = (Inr u, z1)"
    and ev: "StageEvents_Create e z1 = (Inr v, z2)" and "z2 = (d', fs')"
    unfolding Advance_def in_scope_def sc sum.case ne if_False
    by (elim sql_bind_InrE) (auto simp: sql_raise_def sql_return_def split: if_splits option.splits elim!: sql_bind_InrE)
  note \<open>z2 = (d', fs')\<close>
  moreover have "row_id ap_Base a0 = i" using ah.GetApplication_run[of claims i d fs "Inr a0" "fst z0" "snd z0"] get by simp
  moreover have "ats_applications (fst z2) = ats_applications (fst z1)"
    using preserves_run[of ats_core "StageEvents_Create e" "fst z1" "snd z1" "Inr v" "fst z2" "snd z2"] ah.event_core ev by (simp add: ats_core_def)
  moreover have "fst z1 = ats_applications_update (update_where (\<lambda>r. row_id ap_Base r = row_id ap_Base a0) (advanced StageOffer)) (fst z0)"
    using Repo_Update_run[of ats_applications ats_applications_update ap_Base application_indexes "row_id ap_Base a0" "advanced StageOffer" "fst z0" "snd z0" "Inr u" "fst z1" "snd z1"] upd
    by simp
  ultimately show ?thesis using assms(2,3) by (auto simp: set_update_where advanced_def split: if_splits)
qed

lemma Hire_at_offer:
  assumes "\<And>x. x \<in> set (ats_applications (fst z)) \<Longrightarrow> row_id ap_Base x = i \<Longrightarrow> ap_Stage x \<noteq> StageInterview"
  shows "Hire (Suc n) claims eventBase hireBase i z = Hire (Suc 0) claims eventBase hireBase i z"
proof -
  have "ap_Stage a \<noteq> StageInterview" if "GetApplication claims i z = (Inr a, z')" for a z'
    using assms that ah.GetApplication_run[of claims i "fst z" "snd z" "Inr a" "fst z'" "snd z'"] by simp
  then show ?thesis by (simp add: sql_bind_def split: prod.splits sum.splits)
qed

text \<open>
  C32. Two calls of \<open>Hire\<close> are enough in every state, whatever the statements do: after the
  advance to the offer stage the second call does not call itself, so a larger bound on the
  depth of the recursion changes nothing.
\<close>

theorem Hire_depth: "Hire (Suc (Suc n)) claims eventBase hireBase i z = Hire 2 claims eventBase hireBase i z"
proof -
  have "sql_bind (Advance claims e hireBase i StageOffer nt) (\<lambda>_. Hire (Suc n) claims eb hireBase i) =
      sql_bind (Advance claims e hireBase i StageOffer nt) (\<lambda>_. Hire (Suc 0) claims eb hireBase i)" for e nt eb
  proof (rule ext)
    fix z1 :: "atsdb dbstate"
    have "Hire (Suc n) claims eb hireBase i z2 = Hire (Suc 0) claims eb hireBase i z2"
      if "Advance claims e hireBase i StageOffer nt z1 = (Inr a, z2)" for a z2
      using Advance_offer_stage[of claims e hireBase i nt "fst z1" "snd z1" a "fst z2" "snd z2"] that
      by (intro Hire_at_offer) (auto simp: stage_defs)
    then show "sql_bind (Advance claims e hireBase i StageOffer nt) (\<lambda>_. Hire (Suc n) claims eb hireBase i) z1 =
        sql_bind (Advance claims e hireBase i StageOffer nt) (\<lambda>_. Hire (Suc 0) claims eb hireBase i) z1"
      unfolding sql_bind_def by (auto simp del: Hire.simps split: prod.splits sum.splits)
  qed
  then show ?thesis unfolding numeral_2_eq_2 Hire.simps(2)[of "Suc n"] Hire.simps(2)[of "Suc 0"] by (simp only:)
qed

end
