(* ===== verification/Ats_Booking.thy ===== *)
theory Ats_Booking
  imports Ats_Properties
begin

text \<open>
  The employer service as a client of the calendar service.  The locale \<open>panel_calendar\<close> is the
  contract: a condition on the calendar that the calls of the service keep.  It is
  interpreted with the capacity invariant of \<open>Calendar_Spec\<close>, and gives that no interviewer is
  ever booked twice.
\<close>

section \<open>The contract\<close>

locale panel_calendar =
  fixes ok :: "caldb \<Rightarrow> bool" and admissible :: "ats_env \<Rightarrow> bool"
  assumes ensure: "ok c \<Longrightarrow> EnsureResource cl base (person pid) (c, fs) = (r, (c', fs')) \<Longrightarrow> ok c'"
    and availability: "ok c \<Longrightarrow> SetAvailability cl base av (c, fs) = (x, (c', fs')) \<Longrightarrow> ok c'"
    and get_availability: "ok c \<Longrightarrow> GetAvailability cl i (c, fs) = (y, (c', fs')) \<Longrightarrow> ok c'"
    and list_slots: "ok c \<Longrightarrow> ListSlots tz n cl now nowL ids dur ws we (c, fs) = (s, (c', fs')) \<Longrightarrow> ok c'"
    and create: "ok c \<Longrightarrow> admissible env \<Longrightarrow> CreateBooking (ae_CalClaims env) (ae_Call env) inp (c, fs) = (b, (c', fs')) \<Longrightarrow> ok c'"
    and cancel: "ok c \<Longrightarrow> CancelBooking cl call i reason (c, fs) = (b, (c', fs')) \<Longrightarrow> ok c'"
begin

definition kept :: "atsdb \<Rightarrow> atsdb \<Rightarrow> bool" where
  "kept d d' \<longleftrightarrow> (ok (at_calendar d) \<longrightarrow> ok (at_calendar d'))"

sublocale sql_preorder kept
  by unfold_locales (auto simp: kept_def)

lemma rpc_kept:
  assumes "\<And>c fs x c' fs'. ok c \<Longrightarrow> m (c, fs) = (x, (c', fs')) \<Longrightarrow> ok c'"
  shows "preserves kept (rpc m)"
proof -
  have "kept d (tables_after (rpc m) (d, fs))" for d fs
  proof (cases "next_fault fs")
    case (Pair b fs1)
    obtain x c' fs2 where run: "m (at_calendar d, fs1) = (x, (c', fs2))" by (metis prod.collapse)
    then show ?thesis using assms[OF _ run] Pair
      by (cases b; cases "next_fault fs2") (auto simp: tables_after_def rpc_def kept_def split: bool.splits)
  qed
  then show ?thesis by (simp add: preserves_def)
qed

lemma kept_same: "at_calendar d' = at_calendar d \<Longrightarrow> kept d d'"
  by (simp add: kept_def)

lemma EnsurePanelResources_kept: "preserves kept (EnsurePanelResources env ps)"
  unfolding EnsurePanelResources_def by (intro preserves_rules rpc_kept) (rule ensure)

lemma ListInterviewSlots_kept: "preserves kept (ListInterviewSlots claims env days now i)"
  unfolding ListInterviewSlots_def in_scope_def ListPanelSlots_def Interviews_GetInPartition_def
  by (intro preserves_rules EnsurePanelResources_kept rpc_kept) (rule list_slots)

lemma SetMyAvailability_kept: "preserves kept (SetMyAvailability claims base env tz rules ex)"
proof -
  have "preserves kept (UpsertForProfile a)" for a
    unfolding UpsertForProfile_def Availability_GetByProfile_def Let_def
    by (intro preserves_rules preserves_create preserves_update kept_same) simp_all
  moreover have "preserves kept (SyncProfileAvailability env i tz' rules ex)" for i tz'
    unfolding SyncProfileAvailability_def by (intro preserves_rules EnsurePanelResources_kept rpc_kept) (rule availability)
  ultimately show ?thesis
    unfolding SetMyAvailability_def in_scope_def Let_def by (intro preserves_rules)
qed

lemma GetMyAvailability_kept: "preserves kept (GetMyAvailability claims env)"
  unfolding GetMyAvailability_def in_scope_def GetProfileAvailability_def
  by (intro preserves_rules preserves_prod EnsurePanelResources_kept rpc_kept) (rule get_availability)

lemma interview_context_kept: "preserves kept (interview_context sc iv)"
  unfolding interview_context_def AtsApplications_GetInPartition_def Jobs_GetInPartition_def by (intro preserves_rules)

lemma schedule_row_kept: "preserves kept (schedule_row env cfg base now uid sc iv start end' b)"
proof -
  have "preserves kept (CancelInterviewBooking env b)"
    unfolding CancelInterviewBooking_def by (intro preserves_rules rpc_kept) (rule cancel)
  moreover have "preserves kept (Send cfg msg)" for msg
    unfolding Send_def by (intro preserves_rules preserves_exec kept_same) simp
  moreover have "preserves kept (EnqueueInterviewScheduled cfg base now iv' a job)" for iv' a job
    unfolding EnqueueInterviewScheduled_def Let_def
    by (intro preserves_rules preserves_create kept_same calculation(2)) simp_all
  ultimately show ?thesis
    unfolding schedule_row_def
    by (intro preserves_rules preserves_prod preserves_update kept_same interview_context_kept) simp_all
qed

lemma BookInterview_kept:
  assumes "admissible env"
  shows "preserves kept (BookInterview claims env cfg days now nowM base uid i start)"
proof -
  have "preserves kept (BookPanel env ids start end' j title)" for ids end' j title
    unfolding BookPanel_def by (intro preserves_rules rpc_kept) (rule create[OF _ assms])
  then show ?thesis
    unfolding BookInterview_def in_scope_def Interviews_GetInPartition_def book_slot_def
    by (intro preserves_rules preserves_prod ListInterviewSlots_kept EnsurePanelResources_kept interview_context_kept schedule_row_kept)
qed

end

section \<open>Interviewers have capacity one\<close>

definition people_single :: "caldb \<Rightarrow> bool" where
  "people_single c \<longleftrightarrow> (\<forall>r \<in> set (cal_resources c). cr_SubjectKind r = ''profile'' \<longrightarrow> cr_Capacity r \<le> 1)"

definition panel_ok :: "time \<Rightarrow> caldb \<Rightarrow> bool" where
  "panel_ok now c \<longleftrightarrow> cal_inv now c \<and> people_single c"

definition same_resources :: "caldb \<Rightarrow> caldb \<Rightarrow> bool" where
  "same_resources c c' \<longleftrightarrow> cal_resources c' = cal_resources c"

interpretation sr: sql_preorder same_resources
  by unfold_locales (simp_all add: same_resources_def)

lemma core_resources: "preserves same_core m \<Longrightarrow> preserves same_resources m"
  by (simp add: preserves_def same_core_def core_def same_resources_def)

lemma resources_single: "same_resources c c' \<Longrightarrow> people_single c \<Longrightarrow> people_single c'"
  by (simp add: same_resources_def people_single_def)

lemma CreateBooking_resources: "preserves same_resources (CreateBooking claims env inp)"
proof -
  have "preserves same_resources (Bookings_Create b)" "preserves same_resources (Lines_Create li)" for b li
    unfolding Bookings_Create_def Lines_Create_def by (auto intro!: sr.preserves_stmt simp: same_resources_def split: if_splits)
  then show ?thesis
    unfolding CreateBooking_def with_scope_def book_lines_def busyMap_def write_booking_def create_line_def Let_def
    by (intro sr.preserves_rules core_resources[OF same_core_reads(9)] core_resources[OF same_core_reads(10)] core_resources[OF same_core_buildDemands]
        core_resources[OF same_core_busyMap] core_resources[OF same_core_enqueue(1)])
qed

lemma CancelBooking_resources: "preserves same_resources (CancelBooking claims env i reason)"
proof -
  have "preserves same_resources (Bookings_Update j f)" for j f
    unfolding Bookings_Update_def by (rule sr.preserves_exec) (simp add: same_resources_def)
  then show ?thesis
    unfolding CancelBooking_def with_scope_def
    by (intro sr.preserves_rules core_resources[OF same_core_reads(8)] core_resources[OF same_core_reads(10)] core_resources[OF same_core_enqueue(2)])
qed

lemma same_core_ListSlots: "preserves same_core (ListSlots tz n claims now nowL ids dur ws we)"
  unfolding ListSlots_def with_scope_def Let_def busyMap_def
  by (intro core_rules same_core_buildDemands same_core_busyMap)

lemma same_load_GetAvailability: "preserves same_load (GetAvailability claims i)"
  unfolding GetAvailability_def by (intro preserves_with_scope sl.preserves_rules same_load_GetResource same_load_core[OF same_core_reads(6)])

lemma EnsureResource_single:
  assumes "EnsureResource claims base (person pid) (c, fs) = (x, (c', fs'))" and "people_single c"
  shows "people_single c'"
  using assms
  by (auto simp: EnsureResource_def with_scope_def sql_bind_def sql_wrap_def sql_raise_def sql_return_def Resources_GetBySubject_def Resources_Create_def
      sql_query_def sql_exec_def sql_stmt_def people_single_def set_update_where merge_resource_def new_resource_def person_def at_least_one_def
      split: sum.splits prod.splits if_splits option.splits bool.splits)

interpretation pc: panel_calendar "panel_ok now" "\<lambda>env. ce_Now (ae_Call env) = now \<and> stamps_scope (ae_CalClaims env) (ce_Base (ae_Call env))" for now
proof (unfold_locales, goal_cases)
  case (1 c cl base pid fs r c' fs')
  then have "keeps_capacity (person pid) c" by (auto simp: keeps_capacity_def person_def panel_ok_def people_single_def)
  with 1 show ?case using EnsureResource_inv[OF 1(2), of now] EnsureResource_single[OF 1(2)] by (simp add: panel_ok_def)
next
  case (2 c cl base av fs x c' fs')
  then show ?case using preserves_run[OF same_load_SetAvailability 2(2)] same_load_inv
    by (auto simp: panel_ok_def same_load_def people_single_def)
next
  case (3 c cl i fs y c' fs')
  then show ?case using preserves_run[OF same_load_GetAvailability 3(2)] same_load_inv
    by (auto simp: panel_ok_def same_load_def people_single_def)
next
  case (4 c tz n cl now nowL ids dur ws we fs s c' fs')
  then show ?case using preserves_run[OF same_core_ListSlots 4(2)] same_core_inv
    by (auto simp: panel_ok_def same_core_def core_def people_single_def)
next
  case (5 c env inp fs b c' fs')
  then have "cal_inv (ce_Now (ae_Call env)) c'"
    by (intro CreateBooking_inv[OF 5(3)]) (auto simp: panel_ok_def stamps_scope_def)
  then show ?case using 5 resources_single[OF preserves_run[OF CreateBooking_resources 5(3)]] by (simp add: panel_ok_def)
next
  case (6 c cl call i reason fs b c' fs')
  then show ?case using CancelBooking_inv[OF 6(2), of now] resources_single[OF preserves_run[OF CancelBooking_resources 6(2)]]
    by (simp add: panel_ok_def)
qed

section \<open>Histories over the calendar\<close>

text \<open>
  The state carries the latest clock reading of the calendar.  The first four steps are the requests that call
  the calendar; \<open>request_calendar\<close> shows that the others leave it alone.
\<close>

inductive panel_step :: "time \<times> atsdb \<Rightarrow> time \<times> atsdb \<Rightarrow> bool" where
  book: "now \<le> ce_Now (ae_Call env) \<Longrightarrow> stamps_scope (ae_CalClaims env) (ce_Base (ae_Call env)) \<Longrightarrow>
     panel_step (now, d) (ce_Now (ae_Call env), tables_after (BookInterview claims env cfg days clock nowM base uid i start) (d, fs))"
| slots: "panel_step (now, d) (now, tables_after (ListInterviewSlots claims env days clock i) (d, fs))"
| set_availability: "panel_step (now, d) (now, tables_after (SetMyAvailability claims base env tz rules ex) (d, fs))"
| get_availability: "panel_step (now, d) (now, tables_after (GetMyAvailability claims env) (d, fs))"
| other: "ats_request claims d d' \<Longrightarrow> at_calendar d' = at_calendar d \<Longrightarrow> panel_step (now, d) (now, d')"
| tick: "now \<le> now' \<Longrightarrow> panel_step (now, d) (now', d)"

interpretation panel: transition_system panel_step "\<lambda>(now, d). panel_ok now (at_calendar d)"
proof unfold_locales
  have mono: "panel_ok now c \<Longrightarrow> now \<le> now' \<Longrightarrow> panel_ok now' c" for now now' c by (auto simp: panel_ok_def intro: cal_inv_mono)
  fix s t assume "panel_step s t" and "case s of (now, d) \<Rightarrow> panel_ok now (at_calendar d)"
  then show "case t of (now, d) \<Rightarrow> panel_ok now (at_calendar d)"
  proof (induction rule: panel_step.induct)
    case (book now env d claims cfg days clock nowM base uid i start fs)
    have "preserves (pc.kept (ce_Now (ae_Call env))) (BookInterview claims env cfg days clock nowM base uid i start)"
      using book by (intro pc.BookInterview_kept) simp
    with book mono show ?case by (auto simp: preserves_def pc.kept_def)
  next
    case (slots now d claims env days clock i fs)
    then show ?case using pc.ListInterviewSlots_kept[of now] by (auto simp: preserves_def pc.kept_def)
  next
    case (set_availability now d claims base env tz rules ex fs)
    then show ?case using pc.SetMyAvailability_kept[of now] by (auto simp: preserves_def pc.kept_def)
  next
    case (get_availability now d claims env fs)
    then show ?case using pc.GetMyAvailability_kept[of now] by (auto simp: preserves_def pc.kept_def)
  qed (auto intro: mono)
qed

text \<open>Every request that does not book an interview or set availability is a step \<open>other\<close>.\<close>

definition same_calendar :: "atsdb \<Rightarrow> atsdb \<Rightarrow> bool" where
  "same_calendar d d' \<longleftrightarrow> at_calendar d' = at_calendar d"

interpretation sa: sql_preorder same_calendar
  by unfold_locales (simp_all add: same_calendar_def)

lemma same_calendar_writes:
  "preserves same_calendar (Jobs_Create j)" "preserves same_calendar (Jobs_Update i f)"
  "preserves same_calendar (AtsApplications_Create a)" "preserves same_calendar (AtsApplications_Update i g)"
  "preserves same_calendar (StageEvents_Create e)" "preserves same_calendar (Interviews_Create iv)" "preserves same_calendar (Hires_Create h)"
  "preserves same_calendar (AiRuns_Create r)" "preserves same_calendar (Projections_Create p)" "preserves same_calendar (Projections_Update i k)"
  by (intro sa.preserves_create sa.preserves_update; simp add: same_calendar_def)+

lemma same_calendar_reads:
  "preserves same_calendar (GetJob claims i)" "preserves same_calendar (GetApplication claims i)" "preserves same_calendar (GetActive sc x y)"
  "preserves same_calendar (Hires_GetByApplication i)" "preserves same_calendar (Projections_GetByJob t q i)" "preserves same_calendar (Jobs_GetInPartition sc i)"
  unfolding GetJob_def GetApplication_def GetActive_def Hires_GetByApplication_def Projections_GetByJob_def in_scope_def Jobs_GetInPartition_def
    AtsApplications_GetInPartition_def by (intro sa.preserves_rules)+

lemmas sa_rules = sa.preserves_rules same_calendar_writes same_calendar_reads

lemma same_calendar_Advance: "preserves same_calendar (Advance claims eventBase hireBase i to nt)"
  unfolding Advance_def in_scope_def ensureHireOutcome_def by (intro sa_rules)

lemma same_calendar_Hire: "preserves same_calendar (Hire n claims eventBases hireBase i)"
proof (induction n arbitrary: eventBases)
  case (Suc n)
  show ?case unfolding Hire.simps by (intro sa_rules same_calendar_Advance Suc.IH)
qed (simp add: sa.preserves_raise)

lemma same_calendar_jobs:
  "preserves same_calendar (CreateJob claims base jinp)" "preserves same_calendar (UpdateJob claims i uinp)"
  "preserves same_calendar (PublishJob claims base nowP now i)" "preserves same_calendar (UnpublishJob claims i)"
  unfolding CreateJob_def UpdateJob_def PublishJob_def UnpublishJob_def Publisher_Publish_def Publisher_Unpublish_def UpsertPublished_def
    MarkUnpublished_def in_scope_def Let_def by (intro sa_rules)+

lemma same_calendar_pipeline:
  "preserves same_calendar (CreateApplication claims base eventBase ainp)" "preserves same_calendar (ProposeInterview claims base pinp)"
  "preserves same_calendar (ScreenSummary claims base summarize i)"
  unfolding CreateApplication_def ProposeInterview_def ScreenSummary_def in_scope_def Let_def by (intro sa_rules)+

lemma same_calendar_background:
  "preserves same_calendar (drain_outbox cfg batch)" "preserves same_calendar (Idempotency_Save rc)"
  unfolding drain_outbox_def drain_one_def deliver_def Send_def AtsOutbox_ListPending_def AtsOutbox_MarkFailed_def AtsOutbox_MarkSent_def
    Idempotency_Save_def Idempotency_Get_def Let_def
  by (intro sa_rules sa.preserves_exec sa.preserves_create sa.preserves_update; simp add: same_calendar_def)+

lemma sa_after: "preserves same_calendar m \<Longrightarrow> at_calendar (tables_after m (d, fs)) = at_calendar d"
  by (drule preservesD[where s = d and fs = fs]) (simp add: same_calendar_def)

lemma request_calendar:
  assumes "ats_request claims d d'"
  obtains (booking) env cfg days now nowM base uid i start fs where "d' = tables_after (BookInterview claims env cfg days now nowM base uid i start) (d, fs)"
    | (availability) base env tz rules ex fs where "d' = tables_after (SetMyAvailability claims base env tz rules ex) (d, fs)"
    | (other) "at_calendar d' = at_calendar d"
  using assms
proof cases
  case (book_interview env cfg days now nowM base uid i start fs)
  then show thesis by (rule booking)
next
  case (set_availability base env tz rules ex fs)
  then show thesis by (rule availability)
qed (rule other, simp add: AddTalent_def sa_after same_calendar_jobs same_calendar_pipeline same_calendar_background same_calendar_Advance same_calendar_Hire)+

section \<open>Interviewers are never booked twice\<close>

text \<open>A sample: an interviewer who is free on Mondays from nine to ten, an interview proposed, an interview booked.\<close>

definition interview_env :: "string \<Rightarrow> ats_env" where
  "interview_env b = \<lparr>ae_CalClaims = sample_claims, ae_ResourceBase = (\<lambda>pid. base_row (''r'' @ pid)), ae_AvailBase = base_row ''v'', ae_TZ = (\<lambda>_. None),
     ae_SlotWindowDays = 1, ae_CalNow = 0, ae_CalNowL = 0, ae_Call = sample_env b, ae_CancelCall = sample_env ''x''\<rparr>"

definition quiet :: notify_config where
  "quiet = \<lparr>nc_Client = False, nc_Template = [], nc_SiteBaseURL = []\<rparr>"

definition sample_open :: atsdb where
  "sample_open = tables_after (SetMyAvailability sample_claims (base_row ''w'') (interview_env ''b'') [] (sa_Rules sample_hours) []) (sample_interview_stage, [])"

definition sample_proposed :: atsdb where
  "sample_proposed = tables_after (ProposeInterview sample_claims (base_row ''i'')
     \<lparr>pi_ApplicationID = ''a'', pi_Type = [], pi_Location = [], pi_VideoURL = [], pi_DurationMin = 30, pi_Panel = []\<rparr>) (sample_open, [])"

definition book_run :: "string \<Rightarrow> time \<Rightarrow> bool list \<Rightarrow> atsdb \<Rightarrow> (go_error + Interview) \<times> atsdb dbstate" where
  "book_run b start fs d = BookInterview sample_claims (interview_env b) quiet 1 Second Second (base_row (''o'' @ b)) (''uid'' @ b) ''i'' start (d, fs)"

definition sample_scheduled :: atsdb where
  "sample_scheduled = fst (snd (book_run ''b'' (9 * Hour) [] sample_proposed))"

definition calendar_view :: "caldb \<Rightarrow> (string \<times> string) list \<times> (string \<times> string \<times> time) list \<times> int" where
  "calendar_view c = (map (\<lambda>r. (row_id cr_Base r, cr_SubjectKind r)) (cal_resources c),
     map (\<lambda>b. (row_id bk_Base b, bk_Status b, bk_StartAt b)) (cal_bookings c), load 0 c ''ru'' (9 * Hour))"

lemma sample_scheduled_view:
  "calendar_view (at_calendar sample_scheduled) = ([(''ru'', ''profile'')], [(''b'', BookingConfirmed, 9 * Hour)], 1)"
  by code_simp

lemma sample_panel_steps: "panel_step\<^sup>*\<^sup>* (0, empty_ats) (0, sample_proposed)" "panel_step\<^sup>*\<^sup>* (0, empty_ats) (0, sample_scheduled)"
proof -
  have request: "panel_step\<^sup>*\<^sup>* s (0, d') " if "panel_step\<^sup>*\<^sup>* s (0, d)" "ats_request claims d d'" "at_calendar d' = at_calendar d" for s claims d d'
    using that(1) other[OF that(2,3), of 0] by (rule rtranclp.rtrancl_into_rtrancl)
  have "panel_step\<^sup>*\<^sup>* (0, empty_ats) (0, sample_job)" unfolding sample_job_def
    by (rule request[OF rtranclp.rtrancl_refl create_job]) (simp_all add: stamped_sample sa_after same_calendar_jobs)
  then have "panel_step\<^sup>*\<^sup>* (0, empty_ats) (0, sample_applied)" unfolding sample_applied_def
    by (rule request[OF _ create_application]) (simp_all add: stamped_sample sa_after same_calendar_pipeline)
  moreover have "panel_step\<^sup>*\<^sup>* s (0, d) \<Longrightarrow> panel_step\<^sup>*\<^sup>* s (0, sample_advance e to d)" for s e to d
    unfolding sample_advance_def by (rule request[OF _ advance]) (simp_all add: sa_after same_calendar_Advance)
  ultimately have "panel_step\<^sup>*\<^sup>* (0, empty_ats) (0, sample_interview_stage)" unfolding sample_interview_stage_def by blast
  then have "panel_step\<^sup>*\<^sup>* (0, empty_ats) (0, sample_open)" unfolding sample_open_def
    by (rule rtranclp.rtrancl_into_rtrancl) (rule panel_step.set_availability)
  then show p: "panel_step\<^sup>*\<^sup>* (0, empty_ats) (0, sample_proposed)" unfolding sample_proposed_def
    by (rule request[OF _ propose_interview]) (simp_all add: stamped_sample sa_after same_calendar_pipeline)
  have "panel_step (0, sample_proposed) (ce_Now (ae_Call (interview_env ''b'')), sample_scheduled)"
    unfolding sample_scheduled_def book_run_def tables_after_def[symmetric]
    by (rule book) (simp_all add: interview_env_def sample_defs stamps_scope_def ScopeFromContext_def in_partition_def)
  with p show "panel_step\<^sup>*\<^sup>* (0, empty_ats) (0, sample_scheduled)" by (simp add: interview_env_def sample_env_def)
qed

text \<open>
  C29. The calendar never holds two live bookings of an interviewer for the same instant: after any sequence of requests of the employer
  service, one after the other, with any failures of their statements and of their calls of the calendar, the live
  bookings take at no instant more than one unit of a person.  The service is the only client of the calendar, which
  starts empty.  This is about the bookings in the calendar; an
  interview whose booking was canceled or never made loads nothing (\<open>retry_schedules_on_canceled_booking\<close>).
\<close>

theorem panel_never_double_booked:
  assumes "panel_step\<^sup>*\<^sup>* (start, empty_ats) (now, d)" and "r \<in> set (cal_resources (at_calendar d))" and "cr_SubjectKind r = ''profile''"
  shows "load now (at_calendar d) (row_id cr_Base r) t \<le> 1"
proof -
  have "panel_ok start (at_calendar empty_ats)"
    using empty_cal_inv by (simp add: panel_ok_def people_single_def empty_ats_def empty_cal_def)
  with panel.run_inv[OF assms(1)] have ok: "panel_ok now (at_calendar d)" by simp
  then have "load now (at_calendar d) (row_id cr_Base r) t \<le> at_least_one (cr_Capacity r)"
    using assms(2) by (auto simp: panel_ok_def cal_inv_def within_capacity_def)
  moreover have "cr_Capacity r \<le> 1" using ok assms(2,3) by (simp add: panel_ok_def people_single_def)
  ultimately show ?thesis by (simp add: at_least_one_def split: if_splits)
qed

theorem panel_never_double_booked_witness:
  "load 0 (at_calendar sample_scheduled) ''ru'' (9 * Hour) \<le> 1 \<and> load 0 (at_calendar sample_scheduled) ''ru'' (9 * Hour) = 1"
proof -
  obtain r where r: "cal_resources (at_calendar sample_scheduled) = [r]" "row_id cr_Base r = ''ru''" "cr_SubjectKind r = ''profile''"
    and l: "load 0 (at_calendar sample_scheduled) ''ru'' (9 * Hour) = 1"
    using sample_scheduled_view by (auto simp: calendar_view_def)
  from panel_never_double_booked[OF sample_panel_steps(2), of r "9 * Hour"] r l show ?thesis by simp
qed

section \<open>Booking an interview\<close>

text \<open>Until the booking is created the calls leave an idempotency key unused.\<close>

lemma EnsureResource_bookings:
  "EnsureResource claims base inp (c, fs) = (x, (c', fs')) \<Longrightarrow> cal_bookings c' = cal_bookings c"
  by (auto simp: EnsureResource_def with_scope_def sql_bind_def sql_wrap_def sql_raise_def sql_return_def Resources_GetBySubject_def Resources_Create_def
      sql_query_def sql_exec_def sql_stmt_def split: sum.splits prod.splits if_splits option.splits bool.splits)

definition booking_keys :: "caldb \<Rightarrow> (BaseModel \<times> string) list" where
  "booking_keys c = map (\<lambda>b. (bk_Base b, bk_IdempotencyKey b)) (cal_bookings c)"

definition same_keys :: "caldb \<Rightarrow> caldb \<Rightarrow> bool" where
  "same_keys c c' \<longleftrightarrow> booking_keys c' = booking_keys c"

interpretation sk: sql_preorder same_keys
  by unfold_locales (simp_all add: same_keys_def)

lemma core_keys: "preserves same_core m \<Longrightarrow> preserves same_keys m"
  by (simp add: preserves_def same_core_def core_def same_keys_def booking_keys_def)

lemma by_key_None: "by_key sc key c = None \<longleftrightarrow> list_all (\<lambda>(base, k). \<not> (in_partition sc base \<and> k = key)) (booking_keys c)"
  by (auto simp: by_key_def find_None_iff booking_keys_def list_all_iff)

lemma CancelBooking_keys: "preserves same_keys (CancelBooking claims env i reason)"
proof -
  have "preserves same_keys (Bookings_Update j (cancel_row reason))" for j
    unfolding Bookings_Update_def by (rule sk.preserves_exec) (simp add: same_keys_def booking_keys_def update_where_def cancel_row_def)
  then show ?thesis
    unfolding CancelBooking_def with_scope_def
    by (intro sk.preserves_rules core_keys[OF same_core_reads(8)] core_keys[OF same_core_reads(10)] core_keys[OF same_core_enqueue(2)])
qed

interpretation fk: panel_calendar "\<lambda>c. by_key sc key c = None" "\<lambda>_. False" for sc key
proof (unfold_locales, goal_cases)
  case 1 then show ?case using EnsureResource_bookings by (simp add: by_key_def)
next
  case (2 c cl base av fs x c' fs')
  then show ?case using preserves_run[OF same_load_SetAvailability 2(2)] by (simp add: by_key_def same_load_def)
next
  case (3 c cl i fs y c' fs')
  then show ?case using preserves_run[OF same_load_GetAvailability 3(2)] by (simp add: by_key_def same_load_def)
next
  case (4 c tz n cl now nowL ids dur ws we fs s c' fs')
  then show ?case using preserves_run[OF same_core_ListSlots 4(2)] by (simp add: by_key_def same_core_def core_def)
next
  case 5 then show ?case by simp
next
  case (6 c cl call i reason fs b c' fs')
  then show ?case using preserves_run[OF CancelBooking_keys 6(2)] by (simp add: by_key_None same_keys_def)
qed

lemma CreateBooking_new:
  assumes run: "CreateBooking claims env inp z = (Inr (b, ls), z')" and scope: "ScopeFromContext claims = Inr sc"
    and fresh: "by_key sc (ci_IdempotencyKey inp) (fst z) = None" and key: "ci_IdempotencyKey inp \<noteq> []"
  shows "b = new_booking sc env (if ci_Status inp = [] then BookingConfirmed else ci_Status inp) inp \<and> b \<in> set (cal_bookings (fst z'))"
proof -
  obtain d fs where z: "z = (d, fs)" by (cases z)
  let ?status = "if ci_Status inp = [] then BookingConfirmed else ci_Status inp"
  from run scope key fresh obtain z1 where "book_lines env sc inp ?status (map normal_line (ci_Lines inp)) z1 = (Inr (b, ls), z')"
    by (auto simp: z CreateBooking_def with_scope_def Bookings_GetByIdempotency_def by_key_def Let_def sql_raise_def sql_bind_def sql_wrap_def
        sql_query_def sql_stmt_def split: if_splits prod.splits bool.splits)
  then obtain z2 where w: "write_booking env sc (new_booking sc env ?status inp) (map normal_line (ci_Lines inp)) z2 = (Inr (b, ls), z')"
    unfolding book_lines_def Let_def by (elim sql_bind_InrE) (auto simp: sql_raise_def split: if_splits)
  from write_booking_success[OF w] show ?thesis by (auto simp: added_def core_def)
qed

lemma rpc_success:
  assumes "rpc m (d, fs) = (Inr x, (d', fs'))"
  obtains c' fs1 fs2 where "m (at_calendar d, fs1) = (Inr x, (c', fs2))" "d' = d\<lparr>at_calendar := c'\<rparr>"
  using assms by (auto simp: rpc_def split: prod.splits bool.splits sum.splits)

lemma BookPanel_success:
  assumes "BookPanel env ids start end' i title (d, fs) = (Inr bid, (d', fs'))" and "ScopeFromContext (ae_CalClaims env) = Inr sc"
    and "by_key sc (''ats_interview_'' @ i) (at_calendar d) = None"
  shows "\<exists>b \<in> set (cal_bookings (at_calendar d')). row_id bk_Base b = bid \<and> bk_Status b = BookingConfirmed \<and>
    bk_StartAt b = RFC3339 start \<and> bk_EndAt b = RFC3339 end'"
proof -
  let ?inp = "panel_booking ids start end' i title"
  from assms(1) obtain b ls z1 where run: "rpc (CreateBooking (ae_CalClaims env) (ae_Call env) ?inp) (d, fs) = (Inr (b, ls), z1)"
    and z1: "z1 = (d', fs')" and bid: "bid = row_id bk_Base b"
    unfolding BookPanel_def by (elim sql_bind_InrE) (auto simp: sql_wrap_Inr sql_raise_def sql_return_def split: if_splits)
  from rpc_success[OF run[unfolded z1]] obtain c' fs1 fs2 where c: "CreateBooking (ae_CalClaims env) (ae_Call env) ?inp (at_calendar d, fs1) = (Inr (b, ls), (c', fs2))"
    and d': "d' = d\<lparr>at_calendar := c'\<rparr>" .
  from CreateBooking_new[OF c assms(2)] assms(3) show ?thesis
    by (auto simp: panel_booking_def new_booking_def bid d' BookingConfirmed_def intro!: bexI[of _ b])
qed

lemma same_calendar_invite:
  "preserves same_calendar (interview_context sc iv)" "preserves same_calendar (EnqueueInterviewScheduled cfg base now iv a job)"
  unfolding interview_context_def EnqueueInterviewScheduled_def Send_def AtsApplications_GetInPartition_def Let_def
  by (intro sa_rules sa.preserves_create sa.preserves_exec; simp add: same_calendar_def)+

lemma schedule_row_success:
  assumes "schedule_row env cfg base now uid sc iv start end' bid (d, fs) = (Inr iv', (d', fs'))" and "iv \<in> set (ats_interviews d)"
  shows "iv' = scheduled start end' bid uid iv \<and> iv' \<in> set (ats_interviews d') \<and> at_calendar d' = at_calendar d"
proof -
  let ?rest = "\<lambda>x :: AtsApplication option \<times> Job option. case x of (a, job) \<Rightarrow> sql_bind (case a of None \<Rightarrow> sql_return (Inr ())
      | Some x \<Rightarrow> sql_try (EnqueueInterviewScheduled cfg base now (scheduled start end' bid uid iv) x job)) (\<lambda>_. sql_return (scheduled start end' bid uid iv))"
  have keep: "preserves ats_core (sql_bind (interview_context sc iv) ?rest)" "preserves same_calendar (sql_bind (interview_context sc iv) ?rest)"
    by (intro co.preserves_rules co.preserves_prod ah.interview_context_core ah.Enqueue_core)
      (intro sa.preserves_rules sa.preserves_prod same_calendar_invite)
  from assms(1) obtain r z1 where upd: "Interviews_Update (row_id iv_Base iv) (scheduled start end' bid uid) (d, fs) = (r, z1)"
    and rest: "(case r of Inl e \<Rightarrow> sql_bind (sql_try (CancelInterviewBooking env bid)) (\<lambda>_. sql_raise e) | Inr _ \<Rightarrow> sql_bind (interview_context sc iv) ?rest) z1 = (Inr iv', (d', fs'))"
    by (cases "Interviews_Update (row_id iv_Base iv) (scheduled start end' bid uid) (d, fs)")
      (auto simp: schedule_row_def sql_bind_def sql_try_def)
  obtain d1 fs1 where z1: "z1 = (d1, fs1)" by (cases z1)
  have r: "r = Inr ()" using rest by (cases r) (auto simp: sql_bind_def sql_try_def sql_raise_def split: prod.splits)
  have d1: "d1 = ats_interviews_update (update_where (\<lambda>x. row_id iv_Base x = row_id iv_Base iv) (scheduled start end' bid uid)) d"
    using Repo_Update_run[OF upd[unfolded z1]] r by simp
  from rest have run: "sql_bind (interview_context sc iv) ?rest (d1, fs1) = (Inr iv', (d', fs'))" by (simp add: r z1)
  from preserves_run[OF keep(1) run] preserves_run[OF keep(2) run] have "ats_interviews d' = ats_interviews d1" "at_calendar d' = at_calendar d1" by (simp_all add: ats_core_def same_calendar_def)
  moreover have "iv' = scheduled start end' bid uid iv"
    using run by (auto simp: sql_return_def elim!: sql_bind_InrE split: prod.splits)
  ultimately show ?thesis using assms(2) by (auto simp: d1 set_update_where)
qed

lemma book_slot_success:
  assumes "book_slot env cfg base now uid sc iv start end' (d, fs) = (Inr iv', (d', fs'))" and iv: "iv \<in> set (ats_interviews d)"
    and scope: "ScopeFromContext (ae_CalClaims env) = Inr csc" and fresh: "by_key csc (''ats_interview_'' @ row_id iv_Base iv) (at_calendar d) = None"
  shows "iv' \<in> set (ats_interviews d') \<and> iv_Status iv' = InterviewScheduled \<and> iv_SlotStart iv' = Some start \<and> iv_SlotEnd iv' = Some end' \<and>
    (\<exists>b \<in> set (cal_bookings (at_calendar d')). row_id bk_Base b = iv_CalendarBookingID iv' \<and> bk_Status b = BookingConfirmed \<and>
      bk_StartAt b = RFC3339 start \<and> bk_EndAt b = RFC3339 end')"
proof -
  from assms(1) obtain ids d1 fs1 a job d2 fs2 bid d3 fs3 title where
    1: "EnsurePanelResources env (panel_of sc iv) (d, fs) = (Inr ids, (d1, fs1))" and
    2: "interview_context sc iv (d1, fs1) = (Inr (a, job), (d2, fs2))" and
    3: "BookPanel env ids start end' (row_id iv_Base iv) title (d2, fs2) = (Inr bid, (d3, fs3))" and
    4: "schedule_row env cfg base now uid sc iv start end' bid (d3, fs3) = (Inr iv', (d', fs'))"
    unfolding book_slot_def by (elim sql_bind_InrE) (auto elim!: sql_bind_InrE split: prod.splits)
  have "by_key csc (''ats_interview_'' @ row_id iv_Base iv) (at_calendar d2) = None"
    using preserves_run[OF fk.EnsurePanelResources_kept 1, of csc "''ats_interview_'' @ row_id iv_Base iv"]
      preserves_run[OF fk.interview_context_kept 2, of csc "''ats_interview_'' @ row_id iv_Base iv"] fresh by (simp add: fk.kept_def)
  note b = BookPanel_success[OF 3 scope this]
  have "iv \<in> set (ats_interviews d3)"
    using preserves_run[OF ah.EnsurePanelResources_core 1] preserves_run[OF ah.interview_context_core 2] preserves_run[OF ah.BookPanel_core 3] iv
    by (simp add: ats_core_def)
  from schedule_row_success[OF 4 this] b show ?thesis by (auto simp: scheduled_def)
qed

text \<open>
  C30. When booking a proposed interview succeeds, whatever statements failed on the way, the interview is scheduled at the
  chosen slot and points to a confirmed calendar booking of that time, provided no earlier
  attempt left a booking under the key of the interview.
\<close>

theorem interview_booking:
  assumes "BookInterview claims env cfg days now nowM base uid i start (d, fs) = (Inr iv, (d', fs'))"
    and "list_all (\<lambda>x. row_id iv_Base x = i \<longrightarrow> iv_Status x = InterviewProposed) (ats_interviews d)"
    and "ScopeFromContext (ae_CalClaims env) = Inr csc" and "by_key csc (''ats_interview_'' @ i) (at_calendar d) = None"
  shows "iv \<in> set (ats_interviews d') \<and> iv_Status iv = InterviewScheduled \<and> iv_SlotStart iv = Some start \<and>
    (\<exists>b \<in> set (cal_bookings (at_calendar d')). row_id bk_Base b = iv_CalendarBookingID iv \<and> bk_Status b = BookingConfirmed \<and>
      bk_StartAt b = RFC3339 start \<and> map_option RFC3339 (iv_SlotEnd iv) = Some (bk_EndAt b))"
proof -
  obtain sc where sc: "Ats_ScopeFromContext claims = Inr sc"
    using assms(1) by (auto simp: BookInterview_def in_scope_def sql_raise_def split: sum.splits)
  let ?find = "List.find (\<lambda>iv. row_id iv_Base iv = i \<and> in_partition sc (iv_Base iv)) (ats_interviews d)"
  from assms(1) obtain fs0 where "(case ?find of None \<Rightarrow> sql_raise AtsNotFound
     | Some iv \<Rightarrow>
         if iv_Status iv = InterviewScheduled
         then if iv_SlotStart iv = Some start then sql_return iv else sql_raise (ErrWith AtsConflict ''already scheduled'')
         else if iv_Status iv \<noteq> InterviewProposed then sql_raise (ErrWith AtsInvalid ''interview not bookable'')
         else sql_bind (ListInterviewSlots claims env days now (row_id iv_Base iv)) (\<lambda>slots.
           case List.find (\<lambda>sl. sl_Start sl = start) slots of
             None \<Rightarrow> sql_raise (ErrWith AtsConflict ''slot not available'')
           | Some sl \<Rightarrow> book_slot env cfg base nowM uid sc iv start (sl_End sl))) (d, fs0) = (Inr iv, (d', fs'))"
    unfolding BookInterview_def in_scope_def sc sum.case Interviews_GetInPartition_def
    by (auto simp: sql_bind_def sql_wrap_def sql_query_def sql_stmt_def split: prod.splits bool.splits)
  then obtain iv0 slots d1 fs1 and sl :: Slot where iv0: "?find = Some iv0" and
    1: "ListInterviewSlots claims env days now (row_id iv_Base iv0) (d, fs0) = (Inr slots, (d1, fs1))" and
    2: "book_slot env cfg base nowM uid sc iv0 start (sl_End sl) (d1, fs1) = (Inr iv, (d', fs'))"
    using assms(2) by (auto simp: sql_raise_def sql_return_def list_all_iff dest: find_SomeD elim!: sql_bind_InrE split: option.splits if_splits)
  have i: "row_id iv_Base iv0 = i" "iv0 \<in> set (ats_interviews d)" using find_SomeD[OF iv0] by simp_all
  have "iv0 \<in> set (ats_interviews d1)" using preserves_run[OF ah.ListInterviewSlots_core 1] i(2) by (simp add: ats_core_def)
  moreover have "by_key csc (''ats_interview_'' @ row_id iv_Base iv0) (at_calendar d1) = None"
    using preserves_run[OF fk.ListInterviewSlots_kept 1, of csc "''ats_interview_'' @ i"] assms(4) by (simp add: fk.kept_def i)
  ultimately show ?thesis using book_slot_success[OF 2 _ assms(3)] by fastforce
qed

definition booked_view :: "(go_error + Interview) \<times> atsdb dbstate \<Rightarrow>
    (string \<times> string \<times> time option) option \<times> bool list \<times> (string \<times> string) list \<times> (string \<times> string \<times> time) list \<times> int" where
  "booked_view x = (case x of (r, (d, fs)) \<Rightarrow>
     ((case r of Inl e \<Rightarrow> None | Inr iv \<Rightarrow> Some (iv_CalendarBookingID iv, iv_Status iv, iv_SlotStart iv)), fs, calendar_view (at_calendar d)))"

lemma sample_booking_view:
  "booked_view (book_run ''b'' (9 * Hour) [] sample_proposed) =
     (Some (''b'', InterviewScheduled, Some (9 * Hour)), [], [(''ru'', ''profile'')], [(''b'', BookingConfirmed, 9 * Hour)], 1)"
  by code_simp

lemma sample_proposed_facts:
  "list_all (\<lambda>x. row_id iv_Base x = ''i'' \<longrightarrow> iv_Status x = InterviewProposed) (ats_interviews sample_proposed) \<and>
   by_key \<lparr>sc_TenantID = ''t'', sc_PartitionID = ''p'', sc_ProfileID = ''u''\<rparr> ''ats_interview_i'' (at_calendar sample_proposed) = None"
  by code_simp

theorem interview_booking_witness:
  "\<exists>iv d'. book_run ''b'' (9 * Hour) [] sample_proposed = (Inr iv, (d', [])) \<and> iv_CalendarBookingID iv = ''b'' \<and>
     (\<exists>b \<in> set (cal_bookings (at_calendar d')). row_id bk_Base b = ''b'' \<and> bk_Status b = BookingConfirmed)"
proof -
  obtain iv d' where run: "book_run ''b'' (9 * Hour) [] sample_proposed = (Inr iv, (d', []))" and iv: "iv_CalendarBookingID iv = ''b''"
    using sample_booking_view by (cases "book_run ''b'' (9 * Hour) [] sample_proposed") (auto simp: booked_view_def split: sum.splits)
  have "ScopeFromContext (ae_CalClaims (interview_env ''b'')) = Inr \<lparr>sc_TenantID = ''t'', sc_PartitionID = ''p'', sc_ProfileID = ''u''\<rparr>" by code_simp
  from interview_booking[OF run[unfolded book_run_def] _ this] sample_proposed_facts iv run show ?thesis by auto
qed

text \<open>
  The key of a booking does not name the attempt: when storing the scheduled interview fails, the
  service cancels the booking it made, and the retry is answered with that booking; the
  interview is then scheduled, confirmed to the candidate, and nobody's calendar holds it.
\<close>

theorem retry_schedules_on_canceled_booking:
  "\<exists>d1 iv d2. panel_step\<^sup>*\<^sup>* (0, empty_ats) (0, sample_proposed) \<and>
     book_run ''b'' (9 * Hour) (replicate 26 False @ [True]) sample_proposed = (Inl ErrDB, (d1, [])) \<and>
     book_run ''c'' (9 * Hour) [] d1 = (Inr iv, (d2, [])) \<and>
     iv_Status iv = InterviewScheduled \<and> iv_SlotStart iv = Some (9 * Hour) \<and> iv_CalendarBookingID iv = ''b'' \<and>
     map (\<lambda>b. (row_id bk_Base b, bk_Status b)) (cal_bookings (at_calendar d2)) = [(''b'', BookingCanceled)] \<and>
     load 0 (at_calendar d2) ''ru'' (9 * Hour) = 0"
proof -
  let ?run = "book_run ''b'' (9 * Hour) (replicate 26 False @ [True]) sample_proposed"
  let ?view = "\<lambda>x. ((case fst x of Inl e \<Rightarrow> Some e | Inr _ \<Rightarrow> None), snd (snd x), booked_view (book_run ''c'' (9 * Hour) [] (fst (snd x))))"
  have "?view ?run =
      (Some ErrDB, [], Some (''b'', InterviewScheduled, Some (9 * Hour)), [], [(''ru'', ''profile'')], [(''b'', BookingCanceled, 9 * Hour)], 0)"
    by code_simp
  then show ?thesis using sample_panel_steps(1)
    by (cases ?run; cases "book_run ''c'' (9 * Hour) [] (fst (snd ?run))")
      (auto simp: booked_view_def calendar_view_def split: sum.splits)
qed

end
