(* ===== verification/Ats_Background.thy ===== *)
theory Ats_Background
  imports Ats_Properties
begin

text \<open>
  The parts of the employer service beside the pipeline: the talent shortlist, the notification
  outbox and the idempotency interceptor.
\<close>

section \<open>The talent shortlist\<close>

lemma exchange_pass_mset: "add_mset (fst (exchange_pass x ys)) (mset (snd (exchange_pass x ys))) = add_mset x (mset ys)"
  by (induction x ys rule: exchange_pass.induct) (auto split: prod.splits simp: add_mset_commute)

lemma exchange_pass_max:
  "th_Score x \<le> th_Score (fst (exchange_pass x ys)) \<and> (\<forall>z \<in> set (snd (exchange_pass x ys)). th_Score z \<le> th_Score (fst (exchange_pass x ys)))"
  by (induction x ys rule: exchange_pass.induct) (auto split: prod.splits)

lemma mset_exchange_sort [simp]: "mset (exchange_sort xs) = mset xs"
  by (induction xs rule: exchange_sort.induct) (simp_all add: exchange_pass_mset)

lemma set_exchange_sort [simp]: "set (exchange_sort xs) = set xs"
  by (metis mset_exchange_sort set_mset_mset)

lemma exchange_sort_sorted: "sorted_wrt (\<lambda>x y. th_Score y \<le> th_Score x) (exchange_sort xs)"
  by (induction xs rule: exchange_sort.induct) (use exchange_pass_max in auto)

lemma keywordScore_bounds: "35 / 100 \<le> keywordScore tokens doc" "keywordScore tokens doc \<le> 1"
proof -
  have "real (length (filter (Contains_text doc) tokens)) / real (length tokens) \<le> 1"
    by (cases "tokens = []") (simp_all add: length_filter_le)
  moreover have "0 \<le> real (length (filter (Contains_text doc) tokens)) / real (length tokens)" by simp
  ultimately show "35 / 100 \<le> keywordScore tokens doc" "keywordScore tokens doc \<le> 1" by (simp_all add: keywordScore_def)
qed

lemma talent_hits_all: "map th_CandidateID (talent_hits tokens rows) = map tr_ID rows"
  using keywordScore_bounds(1)[of tokens] by (auto simp: talent_hits_def not_less filter_True comp_def)

lemma talent_hits_scores: "h \<in> set (talent_hits tokens rows) \<Longrightarrow> 35 / 100 \<le> th_Score h \<and> th_Score h \<le> 1"
proof -
  assume "h \<in> set (talent_hits tokens rows)"
  then obtain doc where "th_Score h = keywordScore tokens doc" by (auto simp: talent_hits_def)
  then show ?thesis using keywordScore_bounds[of tokens doc] by simp
qed

text \<open>
  The shortlist of a job is the front of an arrangement of all candidate rows the query returned, highest score
  first: the threshold on the score drops nobody, no shortlisted candidate scores below one
  that is left out, and scores lie between 0.35 and 1.
\<close>

theorem talent_ranking:
  assumes "query (3 * (if limit \<le> 0 then 20 else limit)) = Some rows"
  shows "\<exists>ranked. ListForJob query title description limit = take (nat (if limit \<le> 0 then 20 else limit)) ranked \<and>
    sorted_wrt (\<lambda>x y. th_Score y \<le> th_Score x) ranked \<and> mset (map th_CandidateID ranked) = mset (map tr_ID rows) \<and>
    list_all (\<lambda>h. 35 / 100 \<le> th_Score h \<and> th_Score h \<le> 1) ranked"
proof -
  define tokens where "tokens = (let t = keywordTokens (title @ '' '' @ description) in if t = [] then [''%''] else t)"
  let ?ranked = "exchange_sort (talent_hits tokens rows)"
  have "ListForJob query title description limit = take (nat (if limit \<le> 0 then 20 else limit)) ?ranked"
    using assms by (simp add: ListForJob_def Let_def tokens_def mult.commute)
  moreover have "mset (map th_CandidateID ?ranked) = mset (map tr_ID rows)"
    by (metis mset_exchange_sort mset_map talent_hits_all)
  moreover have "list_all (\<lambda>h. 35 / 100 \<le> th_Score h \<and> th_Score h \<le> 1) ?ranked"
    using talent_hits_scores by (simp add: list_all_iff)
  ultimately show ?thesis using exchange_sort_sorted by blast
qed

definition sample_row :: "string \<Rightarrow> string \<Rightarrow> talent_row" where
  "sample_row i title = \<lparr>tr_ID = i, tr_ProfileID = i, tr_Name = [], tr_Title = title, tr_Skills = [], tr_Bio = []\<rparr>"

theorem talent_ranking_witness:
  "\<exists>ranked. ListForJob (\<lambda>_. Some [sample_row ''1'' ''cook'', sample_row ''2'' ''night nurse'']) ''Nurse'' [] 1 = take 1 ranked \<and>
     sorted_wrt (\<lambda>x y. th_Score y \<le> th_Score x) ranked \<and> mset (map th_CandidateID ranked) = {#''1'', ''2''#}"
  using talent_ranking[of "\<lambda>_. Some [sample_row ''1'' ''cook'', sample_row ''2'' ''night nurse'']" 1 _ "''Nurse''" "[]"]
  by (auto simp: sample_row_def)

section \<open>The outbox\<close>

definition pending :: "atsdb \<Rightarrow> OutboxMessage list" where
  "pending d = filter (\<lambda>m. om_Status m = OutboxPending) (ats_outbox d)"

lemma mark_failed_run:
  "AtsOutbox_MarkFailed i n (d, []) = (Inr (), (d\<lparr>ats_outbox := update_where (\<lambda>m. row_id om_Base m = i) (failed_row n) (ats_outbox d)\<rparr>, []))"
  by (simp add: AtsOutbox_MarkFailed_def sql_simps)

lemma drain_one_no_client:
  assumes "\<not> nc_Client cfg"
  shows "drain_one cfg m (d, []) = (Inr (), (d\<lparr>ats_outbox := update_where (\<lambda>x. row_id om_Base x = row_id om_Base m) (failed_row (om_Attempts m + 1)) (ats_outbox d)\<rparr>, []))"
  using assms by (simp add: drain_one_def deliver_def sql_bind_def sql_try_def sql_raise_def mark_failed_run sql_return_def)

definition refused :: "OutboxMessage \<Rightarrow> OutboxMessage" where
  "refused m = failed_row (om_Attempts m + 1) m"

lemma drain_all_no_client:
  assumes "\<not> nc_Client cfg" and "distinct (map (row_id om_Base) (ats_outbox d))" and "distinct rows" and "set rows \<subseteq> set (ats_outbox d)"
  shows "tables_after (sql_map (drain_one cfg) rows) (d, []) = d\<lparr>ats_outbox := update_where (\<lambda>x. x \<in> set rows) refused (ats_outbox d)\<rparr> \<and>
    snd (snd (sql_map (drain_one cfg) rows (d, []))) = []"
  using assms(2-4)
proof (induction rows arbitrary: d)
  case (Cons m rows)
  let ?d = "d\<lparr>ats_outbox := update_where (\<lambda>x. row_id om_Base x = row_id om_Base m) (failed_row (om_Attempts m + 1)) (ats_outbox d)\<rparr>"
  have only: "row_id om_Base x = row_id om_Base m \<longleftrightarrow> x = m" if "x \<in> set (ats_outbox d)" for x
    using same_row[OF Cons.prems(1) that, of m] Cons.prems(3) by auto
  have upd: "ats_outbox ?d = update_where (\<lambda>x. x = m) refused (ats_outbox d)"
    using only by (auto simp: update_where_def refused_def)
  have ids: "distinct (map (row_id om_Base) (ats_outbox ?d))"
    using Cons.prems(1) by (simp add: map_row_id_update failed_row_def)
  have sub: "set rows \<subseteq> set (ats_outbox ?d)" using Cons.prems(2,3) unfolding upd by (auto simp: set_update_where image_iff)
  have "refused m \<notin> set rows"
  proof
    assume "refused m \<in> set rows"
    then have "refused m = m" using only[of "refused m"] Cons.prems(3) by (auto simp: refused_def failed_row_def)
    with \<open>refused m \<in> set rows\<close> Cons.prems(2) show False by simp
  qed
  then have "update_where (\<lambda>x. x \<in> set rows) refused (ats_outbox ?d) = update_where (\<lambda>x. x \<in> set (m # rows)) refused (ats_outbox d)"
    unfolding upd using Cons.prems(2) by (auto simp: update_where_def)
  with Cons.IH[OF ids _ sub] Cons.prems(2) show ?case
    by (auto simp: tables_after_def sql_bind_def drain_one_no_client[OF assms(1)] sql_return_def split: prod.splits sum.splits)
qed (simp add: tables_after_def sql_return_def update_where_none)

text \<open>One drain of a working database without a notification client, with room for every pending message.\<close>

definition batch_limit :: "int \<Rightarrow> int" where
  "batch_limit batch = (if batch \<le> 0 \<or> batch > 200 then 50 else batch)"

definition drained :: "notify_config \<Rightarrow> int \<Rightarrow> atsdb \<Rightarrow> atsdb" where
  "drained cfg batch d = tables_after (drain_outbox cfg batch) (d, [])"

definition drainable :: "int \<Rightarrow> atsdb \<Rightarrow> bool" where
  "drainable batch d \<longleftrightarrow> distinct (map (row_id om_Base) (ats_outbox d)) \<and> int (length (pending d)) \<le> batch_limit batch"

lemma drain_no_client:
  assumes "\<not> nc_Client cfg" and "drainable batch d"
  shows "drained cfg batch d = d\<lparr>ats_outbox := update_where (\<lambda>m. om_Status m = OutboxPending) refused (ats_outbox d)\<rparr>"
proof -
  let ?rows = "sort_key (\<lambda>m. bm_CreatedAt (om_Base m)) (pending d)"
  have list: "AtsOutbox_ListPending batch (d, []) = (Inr ?rows, (d, []))"
    using assms(2) by (auto simp: AtsOutbox_ListPending_def Let_def sql_simps drainable_def batch_limit_def pending_def split: if_splits)
  have "distinct (ats_outbox d)" using assms(2) by (auto simp: drainable_def distinct_map)
  then have "distinct ?rows" "set ?rows \<subseteq> set (ats_outbox d)" by (auto simp: pending_def)
  from drain_all_no_client[OF assms(1) _ this] assms(2) have
    "tables_after (sql_map (drain_one cfg) ?rows) (d, []) = d\<lparr>ats_outbox := update_where (\<lambda>x. x \<in> set ?rows) refused (ats_outbox d)\<rparr>"
    by (simp add: drainable_def)
  moreover have "update_where (\<lambda>x. x \<in> set ?rows) refused (ats_outbox d) = update_where (\<lambda>m. om_Status m = OutboxPending) refused (ats_outbox d)"
    by (auto simp: update_where_def pending_def)
  moreover have "drained cfg batch d = tables_after (sql_map (drain_one cfg) ?rows) (d, [])"
    by (auto simp: drained_def drain_outbox_def tables_after_def sql_bind_def sql_try_def list sql_return_def split: prod.splits sum.splits)
  ultimately show ?thesis by simp
qed

lemma outbox_status_neq: "OutboxFailed \<noteq> OutboxPending"
  by (simp add: OutboxFailed_def OutboxPending_def)

text \<open>The state of a message after \<open>k\<close> refusals.\<close>

definition aged :: "int \<Rightarrow> OutboxMessage \<Rightarrow> OutboxMessage \<Rightarrow> bool" where
  "aged k m m' \<longleftrightarrow> row_id om_Base m' = row_id om_Base m \<and> (if om_Status m = OutboxPending
     then om_Status m' = OutboxFailed \<or> om_Status m' = OutboxPending \<and> om_Attempts m' = om_Attempts m + k \<and> (k > 0 \<longrightarrow> om_Attempts m' < 8)
     else m' = m)"

lemma refused_aged: "aged k m m' \<Longrightarrow> 0 \<le> k \<Longrightarrow> aged (k + 1) m (if om_Status m' = OutboxPending then refused m' else m')"
  by (auto simp: aged_def refused_def failed_row_def outbox_status_neq split: if_splits)

lemma drains_age:
  assumes "\<not> nc_Client cfg" and "drainable batch d"
  shows "list_all2 (aged (int k)) (ats_outbox d) (ats_outbox ((drained cfg batch ^^ k) d)) \<and> at_sent ((drained cfg batch ^^ k) d) = at_sent d \<and>
    drainable batch ((drained cfg batch ^^ k) d)"
proof (induction k)
  case 0
  then show ?case using assms(2) by (auto simp: aged_def intro: list.rel_refl)
next
  case (Suc k)
  let ?d = "(drained cfg batch ^^ k) d"
  have next': "drained cfg batch ?d = ?d\<lparr>ats_outbox := update_where (\<lambda>m. om_Status m = OutboxPending) refused (ats_outbox ?d)\<rparr>"
    using Suc assms(1) by (intro drain_no_client) simp_all
  have "list_all2 (aged (int (Suc k))) (ats_outbox d) (update_where (\<lambda>m. om_Status m = OutboxPending) refused (ats_outbox ?d))"
    unfolding update_where_def list_all2_map2
  proof (rule list_all2_mono)
    show "list_all2 (aged (int k)) (ats_outbox d) (ats_outbox ?d)" using Suc by simp
    show "aged (int (Suc k)) m (if om_Status m' = OutboxPending then refused m' else m')" if "aged (int k) m m'" for m m'
      using refused_aged[OF that] by (simp add: add.commute)
  qed
  moreover have "length (pending (drained cfg batch ?d)) \<le> length (pending ?d)"
    unfolding next' pending_def update_where_def by (induction "ats_outbox ?d" rule: rev_induct) (auto simp: filter_map comp_def length_filter_conv_card intro!: card_mono split: if_splits)
  moreover have "map (row_id om_Base) (ats_outbox (drained cfg batch ?d)) = map (row_id om_Base) (ats_outbox ?d)"
    unfolding next' by (simp add: map_row_id_update refused_def failed_row_def)
  ultimately show ?case using Suc by (simp add: next' drainable_def)
qed

text \<open>
  Messages do not wait for a notification client: after eight drains without one, every message that was pending is
  failed and none was sent, and no later drain, with a client or without, touches any message.
\<close>

theorem outbox_gives_up:
  assumes "\<not> nc_Client cfg" and "drainable batch d" and "list_all (\<lambda>m. 0 \<le> om_Attempts m) (ats_outbox d)"
  shows "at_sent ((drained cfg batch ^^ 8) d) = at_sent d \<and> pending ((drained cfg batch ^^ 8) d) = [] \<and>
    list_all2 (\<lambda>m m'. row_id om_Base m' = row_id om_Base m \<and> om_Status m' = (if om_Status m = OutboxPending then OutboxFailed else om_Status m))
      (ats_outbox d) (ats_outbox ((drained cfg batch ^^ 8) d)) \<and>
    drained cfg' batch' ((drained cfg batch ^^ 8) d) = (drained cfg batch ^^ 8) d"
proof -
  let ?d = "(drained cfg batch ^^ 8) d"
  let ?P = "\<lambda>m m'. row_id om_Base m' = row_id om_Base m \<and> om_Status m' = (if om_Status m = OutboxPending then OutboxFailed else om_Status m)"
  have age: "list_all2 (aged 8) (ats_outbox d) (ats_outbox ?d)" and sent: "at_sent ?d = at_sent d"
    using drains_age[OF assms(1,2), of 8] by simp_all
  have P: "list_all2 ?P (ats_outbox d) (ats_outbox ?d)"
    using age assms(3) by (auto elim!: list.rel_mono_strong simp: aged_def list_all_iff not_less[symmetric] split: if_splits)
  have "om_Status m' \<noteq> OutboxPending" if "m' \<in> set (ats_outbox ?d)" for m'
    using P that by (auto simp: list_all2_conv_all_nth in_set_conv_nth outbox_status_neq split: if_splits)
  then have "pending ?d = []" by (auto simp: pending_def filter_empty_conv)
  moreover from this have "drained cfg' batch' ?d = ?d"
    by (simp add: drained_def drain_outbox_def tables_after_def AtsOutbox_ListPending_def Let_def sql_simps sql_bind_def sql_try_def pending_def)
  ultimately show ?thesis using P sent by simp
qed

definition sample_message :: atsdb where
  "sample_message = empty_ats\<lparr>ats_outbox := [\<lparr>om_Base = base_row ''m'', om_Kind = OutboxKindInterviewScheduled, om_Payload = Some [],
     om_Status = OutboxPending, om_IdempotencyKey = ''k'', om_Attempts = 0\<rparr>]\<rparr>"

definition no_client :: notify_config where
  "no_client = \<lparr>nc_Client = False, nc_Template = [], nc_SiteBaseURL = []\<rparr>"

theorem outbox_gives_up_witness:
  "map om_Status (ats_outbox ((drained no_client 50 ^^ 8) sample_message)) = [OutboxFailed] \<and> at_sent ((drained no_client 50 ^^ 8) sample_message) = []"
proof -
  have "\<not> nc_Client no_client" "drainable 50 sample_message" "list_all (\<lambda>m. 0 \<le> om_Attempts m) (ats_outbox sample_message)"
    by (simp_all add: no_client_def sample_message_def drainable_def batch_limit_def pending_def)
  from outbox_gives_up[OF \<open>\<not> nc_Client no_client\<close> \<open>drainable 50 sample_message\<close> \<open>list_all _ (ats_outbox sample_message)\<close>, of no_client 50]
  show ?thesis by (auto simp: sample_message_def empty_ats_def list_all2_Cons1)
qed

end
