(* ===== verification/Sources.thy ===== *)
theory Sources
  imports Sql Domain
begin

text \<open>
  Crawl sources: \<open>pkg/domain/models.go\<close> (the row and its statuses), every operation of
  \<open>pkg/repository/source.go\<close>, the crawl ledger of \<open>pkg/repository/crawl.go\<close>, the recipe history of
  \<open>pkg/repository/recipe.go\<close> and the recrawl score of \<open>pkg/freshness\<close>.

  \<open>crawldb\<close> joins the tables of the crawl control plane.  Queries through the ORM skip rows with a
  deletion time; \<open>Updates\<close> stamps \<open>updated_at\<close> with \<open>now\<close>, \<open>UpdateColumn\<close> does not;
  \<open>source_defaults\<close> is what the ORM stores for the zero values of columns that declare a default.
  Reads of a replica see the primary.  A recipe is its JSON text; \<open>acquisition\<close> reads one field of it
  (\<open>None\<close> when it does not parse) and \<open>withVersion\<close> writes its version.
\<close>

section \<open>Engines and statuses\<close>

definition SourceAPI :: string where "SourceAPI = ''api''"
definition SourceSchemaOrg :: string where "SourceSchemaOrg = ''schema_org''"
definition SourceSitemap :: string where "SourceSitemap = ''sitemap''"
definition SourceGenericHTML :: string where "SourceGenericHTML = ''generic_html''"
definition SourceWorkday :: string where "SourceWorkday = ''workday''"
definition SourceSmartRecruitersAPI :: string where "SourceSmartRecruitersAPI = ''smartrecruiters_api''"

definition KnownEngineTypes :: "string list" where
  "KnownEngineTypes = [SourceAPI, SourceSchemaOrg, SourceSitemap, SourceGenericHTML, SourceWorkday, SourceSmartRecruitersAPI]"

definition IsKnownSourceType :: "string \<Rightarrow> bool" where
  "IsKnownSourceType t \<longleftrightarrow>
     t \<in> {SourceAPI, SourceSchemaOrg, SourceSitemap, SourceGenericHTML, SourceWorkday, SourceSmartRecruitersAPI}"

definition RequiresRecipe :: "string \<Rightarrow> bool" where
  "RequiresRecipe t \<longleftrightarrow> t = SourceAPI \<or> t = SourceGenericHTML"

definition SourcePending :: string where "SourcePending = ''pending''"
definition SourceVerifying :: string where "SourceVerifying = ''verifying''"
definition SourceVerified :: string where "SourceVerified = ''verified''"
definition SourceRejected :: string where "SourceRejected = ''rejected''"
definition SourceActive :: string where "SourceActive = ''active''"
definition SourceDegraded :: string where "SourceDegraded = ''degraded''"
definition SourcePaused :: string where "SourcePaused = ''paused''"
definition SourceBlocked :: string where "SourceBlocked = ''blocked''"
definition SourceDisabled :: string where "SourceDisabled = ''disabled''"

lemmas source_status_defs = SourcePending_def SourceVerifying_def SourceVerified_def SourceRejected_def
  SourceActive_def SourceDegraded_def SourcePaused_def SourceBlocked_def SourceDisabled_def

lemma source_status_distinct [simp]:
  "SourceActive \<noteq> SourceDegraded" "SourceDegraded \<noteq> SourceActive" "SourceActive \<noteq> SourcePaused" "SourcePaused \<noteq> SourceActive"
  "SourceDegraded \<noteq> SourcePaused" "SourcePaused \<noteq> SourceDegraded" "SourceDisabled \<noteq> SourceActive" "SourceActive \<noteq> SourceDisabled"
  "SourceDisabled \<noteq> SourceDegraded" "SourceDegraded \<noteq> SourceDisabled" "SourcePending \<noteq> SourceActive" "SourceActive \<noteq> SourcePending"
  "SourcePending \<noteq> SourceDegraded" "SourceDegraded \<noteq> SourcePending" "SourcePending \<noteq> SourcePaused" "SourcePaused \<noteq> SourcePending"
  "SourceDisabled \<noteq> SourcePaused" "SourcePaused \<noteq> SourceDisabled"
  by (simp_all add: source_status_defs)

definition IsKnownSourceStatus :: "string \<Rightarrow> bool" where
  "IsKnownSourceStatus s \<longleftrightarrow> s \<in> {SourcePending, SourceVerifying, SourceVerified, SourceRejected,
     SourceActive, SourceDegraded, SourcePaused, SourceBlocked, SourceDisabled}"

definition PriorityLow :: int where "PriorityLow = 0"
definition PriorityNormal :: int where "PriorityNormal = 1"
definition PriorityHigh :: int where "PriorityHigh = 2"
definition PriorityUrgent :: int where "PriorityUrgent = 3"

section \<open>Rows\<close>

record VerificationReport =
  vr_StartedAt :: time
  vr_CompletedAt :: "time option"
  vr_URLValid :: bool
  vr_BlocklistClean :: bool
  vr_KindsKnown :: bool
  vr_Reachable :: bool
  vr_ReachableStatus :: int
  vr_RobotsAllowed :: bool
  vr_SampleExtracted :: bool
  vr_SampleVerifyPass :: bool
  vr_SampleReasons :: "string list"
  vr_SampleTitle :: string
  vr_OverallPass :: bool
  vr_Errors :: "string list"

record Source =
  src_ID :: string
  src_CreatedAt :: time
  src_UpdatedAt :: time
  src_DeletedAt :: "time option"
  src_Type :: string
  src_Name :: string
  src_BaseURL :: string
  src_Country :: string
  src_Language :: string
  src_Status :: string
  src_Priority :: int
  src_CrawlIntervalSec :: int
  src_HealthScore :: real
  src_ConsecutiveFailures :: int
  src_NeedsTuning :: bool
  src_NeedsTuningAt :: "time option"
  src_Config :: string
  src_ExtractionRecipe :: string
  src_ListingPath :: string
  src_LastSeenAt :: "time option"
  src_NextCrawlAt :: time
  src_Score :: real
  src_MinIntervalMinutes :: int
  src_MaxIntervalMinutes :: int
  src_LastVerifiedAt :: "time option"
  src_LastVerifyStatus :: int
  src_QualityWindowStart :: "time option"
  src_QualityWindowDays :: int
  src_QualityValidated :: int
  src_QualityFlagged :: int
  src_Kinds :: "string list"
  src_RequiredAttributesByKind :: "string \<rightharpoonup> string list"
  src_VerificationReport :: "VerificationReport option"
  src_ApprovedAt :: "time option"
  src_ApprovedBy :: string
  src_RejectionReason :: string
  src_AutoApprove :: bool
  src_LastStoppedAt :: "time option"
  src_LastStoppedBy :: string
  src_ExtractionPromptExtension :: string
  src_FrontierEnabled :: bool

definition CrawlScheduled :: string where "CrawlScheduled = ''scheduled''"
definition CrawlRunning :: string where "CrawlRunning = ''running''"
definition CrawlSucceeded :: string where "CrawlSucceeded = ''succeeded''"
definition CrawlFailed :: string where "CrawlFailed = ''failed''"

record CrawlJob =
  cj_ID :: string
  cj_ScheduledAt :: time
  cj_CreatedAt :: time
  cj_UpdatedAt :: time
  cj_SourceID :: string
  cj_StartedAt :: "time option"
  cj_FinishedAt :: "time option"
  cj_Status :: string
  cj_Attempt :: int
  cj_IdempotencyKey :: string
  cj_ErrorCode :: string
  cj_ErrorMessage :: string
  cj_JobsFound :: int
  cj_JobsStored :: int

definition CrawlRunRunning :: string where "CrawlRunRunning = ''running''"
definition CrawlRunPaused :: string where "CrawlRunPaused = ''paused''"
definition CrawlRunCompleted :: string where "CrawlRunCompleted = ''completed''"
definition CrawlRunFailed :: string where "CrawlRunFailed = ''failed''"

definition ActiveCrawlRunStatuses :: "string list" where
  "ActiveCrawlRunStatuses = [CrawlRunRunning, CrawlRunPaused]"

record CrawlRun =
  cr_ID :: string
  cr_CreatedAt :: time
  cr_UpdatedAt :: time
  cr_DeletedAt :: "time option"
  cr_SourceID :: string
  cr_Status :: string
  cr_Cursor :: "string option"
  cr_PageIdx :: int
  cr_LastURL :: string
  cr_SliceCount :: int
  cr_JobsFound :: int
  cr_JobsEmitted :: int
  cr_JobsRejected :: int
  cr_Owner :: string
  cr_LeaseExpiresAt :: "time option"
  cr_Attempt :: int
  cr_ScheduledAt :: time
  cr_StartedAt :: time
  cr_LastProgressAt :: time
  cr_CompletedAt :: "time option"
  cr_ErrorCode :: string
  cr_ErrorMessage :: string

record SourceRecipe =
  rc_ID :: string
  rc_CreatedAt :: time
  rc_UpdatedAt :: time
  rc_SourceID :: string
  rc_Version :: int
  rc_Recipe :: string
  rc_Status :: string
  rc_PassRate :: real
  rc_Model :: string
  rc_ValidationReport :: string

record crawldb =
  sources :: "Source list"
  crawl_runs :: "CrawlRun list"
  crawl_jobs :: "CrawlJob list"
  source_recipes :: "SourceRecipe list"

section \<open>The ORM\<close>

definition src_live :: "Source \<Rightarrow> bool" where
  "src_live s \<longleftrightarrow> src_DeletedAt s = None"

definition gorm_limit :: "int \<Rightarrow> 'a list \<Rightarrow> 'a list" where
  "gorm_limit n xs = (if n < 0 then xs else take (nat n) xs)"

text \<open>\<open>First\<close> orders by primary key; \<open>Updates\<close> and \<open>UpdateColumn\<close> return the rows they affected.\<close>

definition first_row :: "('r \<Rightarrow> string) \<Rightarrow> 'r list \<Rightarrow> 'r option" where
  "first_row k rows = (case sort_key k rows of [] \<Rightarrow> None | r # _ \<Rightarrow> Some r)"

definition src_where :: "(Source \<Rightarrow> bool) \<Rightarrow> crawldb \<Rightarrow> Source list" where
  "src_where P d = filter (\<lambda>s. src_live s \<and> P s) (sources d)"

definition src_first :: "(Source \<Rightarrow> bool) \<Rightarrow> (crawldb, Source option) sql" where
  "src_first P = sql_query (\<lambda>d. first_row src_ID (src_where P d))"

definition set_sources :: "(Source \<Rightarrow> bool) \<Rightarrow> (Source \<Rightarrow> Source) \<Rightarrow> crawldb \<Rightarrow> crawldb" where
  "set_sources P f d = d\<lparr>sources := update_where (\<lambda>s. src_live s \<and> P s) f (sources d)\<rparr>"

definition src_UpdateColumn :: "(Source \<Rightarrow> bool) \<Rightarrow> (Source \<Rightarrow> Source) \<Rightarrow> (crawldb, int) sql" where
  "src_UpdateColumn P f = sql_stmt (\<lambda>d. (Inr (int (length (src_where P d))), set_sources P f d))"

definition src_Updates :: "time \<Rightarrow> (Source \<Rightarrow> bool) \<Rightarrow> (Source \<Rightarrow> Source) \<Rightarrow> (crawldb, int) sql" where
  "src_Updates now P f = src_UpdateColumn P (\<lambda>s. (f s)\<lparr>src_UpdatedAt := now\<rparr>)"

definition void :: "('s, 'a) sql \<Rightarrow> ('s, unit) sql" where
  "void m = sql_bind m (\<lambda>_. sql_return ())"

text \<open>\<open>Model(&Source{}).Where("id = ?", id).Updates(f)\<close>.\<close>

definition src_update :: "time \<Rightarrow> string \<Rightarrow> (Source \<Rightarrow> Source) \<Rightarrow> (crawldb, unit) sql" where
  "src_update now i f = void (src_Updates now (\<lambda>s. src_ID s = i) f)"

definition source_defaults :: "time \<Rightarrow> Source \<Rightarrow> Source" where
  "source_defaults now s =
     s\<lparr>src_CreatedAt := (if src_CreatedAt s = 0 then now else src_CreatedAt s),
       src_UpdatedAt := (if src_UpdatedAt s = 0 then now else src_UpdatedAt s),
       src_Language := (if src_Language s = [] then ''en'' else src_Language s),
       src_Status := (if src_Status s = [] then SourcePending else src_Status s),
       src_Priority := (if src_Priority s = 0 then 1 else src_Priority s),
       src_CrawlIntervalSec := (if src_CrawlIntervalSec s = 0 then 3600 else src_CrawlIntervalSec s),
       src_HealthScore := (if src_HealthScore s = 0 then 1 else src_HealthScore s),
       src_Config := (if src_Config s = [] then ''{}'' else src_Config s),
       src_ExtractionRecipe := (if src_ExtractionRecipe s = [] then ''{}'' else src_ExtractionRecipe s),
       src_Score := (if src_Score s = 0 then 1 / 2 else src_Score s),
       src_MinIntervalMinutes := (if src_MinIntervalMinutes s = 0 then 15 else src_MinIntervalMinutes s),
       src_MaxIntervalMinutes := (if src_MaxIntervalMinutes s = 0 then 10080 else src_MaxIntervalMinutes s),
       src_QualityWindowDays := (if src_QualityWindowDays s = 0 then 1 else src_QualityWindowDays s),
       src_Kinds := (if src_Kinds s = [] then [''job''] else src_Kinds s)\<rparr>"

definition src_BeforeCreate :: "string \<Rightarrow> Source \<Rightarrow> Source" where
  "src_BeforeCreate newID s = (if src_ID s = [] then s\<lparr>src_ID := newID\<rparr> else s)"

section \<open>Creation and lookup\<close>

definition Sources_Create :: "string \<Rightarrow> time \<Rightarrow> Source \<Rightarrow> (crawldb, unit) sql" where
  "Sources_Create newID now s = sql_stmt (\<lambda>d.
     let row = source_defaults now (src_BeforeCreate newID s) in
     if list_ex (\<lambda>x. src_ID x = src_ID row) (sources d) then (Inl (ErrConstraint ''sources_pkey''), d)
     else if list_ex (\<lambda>x. src_Type x = src_Type row \<and> src_BaseURL x = src_BaseURL row) (sources d)
     then (Inl (ErrConstraint ''idx_source_type_url''), d)
     else (Inr (), d\<lparr>sources := sources d @ [row]\<rparr>))"

definition GetByTypeAndURL :: "string \<Rightarrow> string \<Rightarrow> (crawldb, Source option) sql" where
  "GetByTypeAndURL t baseURL = src_first (\<lambda>s. src_Type s = t \<and> src_BaseURL s = baseURL)"

definition Sources_GetByID :: "string \<Rightarrow> (crawldb, Source option) sql" where
  "Sources_GetByID i = src_first (\<lambda>s. src_ID s = i)"

definition seed_fields :: "Source \<Rightarrow> time \<Rightarrow> Source \<Rightarrow> Source" where
  "seed_fields s now e =
     e\<lparr>src_Name := src_Name s, src_Country := src_Country s, src_Language := src_Language s, src_Priority := src_Priority s,
       src_CrawlIntervalSec := src_CrawlIntervalSec s, src_Kinds := src_Kinds s,
       src_RequiredAttributesByKind := src_RequiredAttributesByKind s, src_AutoApprove := src_AutoApprove s,
       src_ListingPath := src_ListingPath s, src_UpdatedAt := now,
       src_Status := (if src_Status s = SourcePaused \<or> src_Status s = SourcePending then src_Status s else src_Status e)\<rparr>"

definition Upsert :: "string \<Rightarrow> time \<Rightarrow> Source \<Rightarrow> (crawldb, unit) sql" where
  "Upsert newID now s =
     sql_bind (GetByTypeAndURL (src_Type s) (src_BaseURL s)) (\<lambda>existing.
       case existing of
         None \<Rightarrow> Sources_Create newID now s
       | Some e \<Rightarrow> void (src_UpdateColumn (\<lambda>x. src_ID x = src_ID e) (seed_fields s now)))"

text \<open>\<open>Update\<close> with an arbitrary map of fields: \<open>f\<close> is what the map does to a row.\<close>

definition Sources_Update :: "time \<Rightarrow> string \<Rightarrow> (Source \<Rightarrow> Source) \<Rightarrow> (crawldb, unit) sql" where
  "Sources_Update now i f = src_update now i f"

definition HardDelete :: "string \<Rightarrow> (crawldb, unit) sql" where
  "HardDelete i = sql_exec (\<lambda>d. d\<lparr>sources := filter (\<lambda>s. src_ID s \<noteq> i) (sources d)\<rparr>)"

section \<open>Lifecycle\<close>

definition SaveVerificationReport :: "time \<Rightarrow> string \<Rightarrow> VerificationReport option \<Rightarrow> string \<Rightarrow> time \<Rightarrow> (crawldb, unit) sql" where
  "SaveVerificationReport now i report status stamp = src_update now i
     (\<lambda>s. s\<lparr>src_VerificationReport := report, src_LastVerifiedAt := Some stamp, src_Status := status\<rparr>)"

definition SetStatus :: "time \<Rightarrow> string \<Rightarrow> string \<Rightarrow> (crawldb, unit) sql" where
  "SetStatus now i status = src_update now i (\<lambda>s. s\<lparr>src_Status := status\<rparr>)"

definition Approve :: "time \<Rightarrow> string \<Rightarrow> string \<Rightarrow> time \<Rightarrow> (crawldb, unit) sql" where
  "Approve now i operator stamp = src_update now i
     (\<lambda>s. s\<lparr>src_Status := SourceActive, src_ApprovedAt := Some stamp, src_ApprovedBy := operator, src_RejectionReason := []\<rparr>)"

definition Reject :: "time \<Rightarrow> string \<Rightarrow> string \<Rightarrow> (crawldb, unit) sql" where
  "Reject now i reason = src_update now i (\<lambda>s. s\<lparr>src_Status := SourceRejected, src_RejectionReason := reason\<rparr>)"

definition MarkBlocked :: "time \<Rightarrow> string \<Rightarrow> (crawldb, unit) sql" where
  "MarkBlocked now i = src_update now i (\<lambda>s. s\<lparr>src_Status := SourceBlocked, src_HealthScore := 0\<rparr>)"

definition PauseSource :: "time \<Rightarrow> string \<Rightarrow> (crawldb, unit) sql" where
  "PauseSource now i = src_update now i (\<lambda>s. s\<lparr>src_Status := SourcePaused\<rparr>)"

definition EnableSource :: "time \<Rightarrow> string \<Rightarrow> (crawldb, unit) sql" where
  "EnableSource now i = src_update now i (\<lambda>s. s\<lparr>src_Status := SourceActive, src_ConsecutiveFailures := 0\<rparr>)"

definition DisableSource :: "time \<Rightarrow> string \<Rightarrow> (crawldb, unit) sql" where
  "DisableSource now i = src_update now i (\<lambda>s. s\<lparr>src_Status := SourceDisabled\<rparr>)"

definition StopSource :: "time \<Rightarrow> string \<Rightarrow> string \<Rightarrow> time \<Rightarrow> (crawldb, unit) sql" where
  "StopSource now i operator stamp = src_update now i
     (\<lambda>s. s\<lparr>src_Status := SourceDisabled, src_LastStoppedAt := Some stamp, src_LastStoppedBy := operator\<rparr>)"

definition StartSource :: "time \<Rightarrow> string \<Rightarrow> (crawldb, unit) sql" where
  "StartSource now i = src_update now i (\<lambda>s. s\<lparr>src_Status := SourceActive, src_ConsecutiveFailures := 0\<rparr>)"

section \<open>Listings\<close>

record ListFilter =
  lf_Status :: string
  lf_Kind :: string
  lf_Type :: string
  lf_Country :: string
  lf_Limit :: int
  lf_Offset :: int

definition page_limit :: "int \<Rightarrow> int \<Rightarrow> int" where
  "page_limit dflt n = (if n \<le> 0 then dflt else if n > 500 then 500 else n)"

definition newest_first :: "Source list \<Rightarrow> Source list" where
  "newest_first = sort_key (\<lambda>s. - src_CreatedAt s)"

definition filter_matches :: "ListFilter \<Rightarrow> Source \<Rightarrow> bool" where
  "filter_matches f s \<longleftrightarrow> (lf_Status f \<noteq> [] \<longrightarrow> src_Status s = lf_Status f) \<and> (lf_Type f \<noteq> [] \<longrightarrow> src_Type s = lf_Type f) \<and>
     (lf_Country f \<noteq> [] \<longrightarrow> src_Country s = lf_Country f) \<and> (lf_Kind f \<noteq> [] \<longrightarrow> lf_Kind f \<in> set (src_Kinds s))"

definition ListWithFilters :: "ListFilter \<Rightarrow> (crawldb, Source list \<times> int) sql" where
  "ListWithFilters f =
     sql_bind (sql_query (\<lambda>d. int (length (src_where (filter_matches f) d)))) (\<lambda>total.
     sql_bind (sql_query (\<lambda>d. take (nat (page_limit 50 (lf_Limit f)))
        (drop (nat (lf_Offset f)) (newest_first (src_where (filter_matches f) d))))) (\<lambda>rows.
     sql_return (rows, total)))"

definition ListByStatuses :: "string list \<Rightarrow> int \<Rightarrow> (crawldb, Source list) sql" where
  "ListByStatuses statuses limit = sql_query (\<lambda>d.
     take (nat (page_limit 100 limit)) (newest_first (src_where (\<lambda>s. src_Status s \<in> set statuses) d)))"

definition source_due :: "time \<Rightarrow> Source \<Rightarrow> bool" where
  "source_due now s \<longleftrightarrow> src_Status s \<in> {SourceActive, SourceDegraded} \<and> src_NextCrawlAt s \<le> now"

definition ListDue :: "time \<Rightarrow> int \<Rightarrow> (crawldb, Source list) sql" where
  "ListDue now limit = sql_query (\<lambda>d. gorm_limit limit (sort_key src_NextCrawlAt (src_where (source_due now) d)))"

definition ListAll :: "(crawldb, Source list) sql" where
  "ListAll = sql_query (src_where (\<lambda>_. True))"

definition Sources_Count :: "(crawldb, int) sql" where
  "Sources_Count = sql_query (\<lambda>d. int (length (src_where (\<lambda>s. src_Status s = SourceActive) d)))"

definition CountByStatus :: "string \<Rightarrow> (crawldb, int) sql" where
  "CountByStatus status = sql_query (\<lambda>d. int (length (src_where (\<lambda>s. src_Status s = status) d)))"

definition ListHealthReport :: "(crawldb, Source list) sql" where
  "ListHealthReport = sql_query (\<lambda>d.
     sort_key src_HealthScore (sort_key (\<lambda>s. - src_ConsecutiveFailures s) (src_where (\<lambda>_. True) d)))"

section \<open>Crawl bookkeeping\<close>

definition UpdateNextCrawl :: "time \<Rightarrow> string \<Rightarrow> time \<Rightarrow> time \<Rightarrow> real \<Rightarrow> (crawldb, unit) sql" where
  "UpdateNextCrawl now i nextCrawlAt lastSeenAt healthScore = src_update now i
     (\<lambda>s. s\<lparr>src_NextCrawlAt := nextCrawlAt, src_LastSeenAt := Some lastSeenAt, src_HealthScore := healthScore\<rparr>)"

definition UpdateCrawlCursor :: "time \<Rightarrow> string \<Rightarrow> string \<Rightarrow> (crawldb, unit) sql" where
  "UpdateCrawlCursor now i cursor = src_update now i (\<lambda>s. s\<lparr>src_Config := cursor\<rparr>)"

definition RecordSuccess :: "time \<Rightarrow> string \<Rightarrow> real \<Rightarrow> (crawldb, unit) sql" where
  "RecordSuccess now i healthScore = src_update now i
     (\<lambda>s. s\<lparr>src_HealthScore := healthScore, src_ConsecutiveFailures := 0,
            src_Status := (if src_Status s = SourceDegraded then SourceActive else src_Status s), src_LastSeenAt := Some now\<rparr>)"

definition failure_status :: "int \<Rightarrow> string \<Rightarrow> string" where
  "failure_status n status = (if n \<ge> 5 then SourcePaused else if n \<ge> 3 then SourceDegraded else status)"

definition RecordFailure :: "time \<Rightarrow> string \<Rightarrow> real \<Rightarrow> int \<Rightarrow> (crawldb, unit) sql" where
  "RecordFailure now i healthScore consecutiveFailures = src_update now i
     (\<lambda>s. s\<lparr>src_HealthScore := healthScore, src_ConsecutiveFailures := consecutiveFailures,
            src_Status := failure_status consecutiveFailures (src_Status s)\<rparr>)"

definition FlagNeedsTuning :: "time \<Rightarrow> string \<Rightarrow> bool \<Rightarrow> (crawldb, unit) sql" where
  "FlagNeedsTuning now i needsTuning = src_update now i
     (\<lambda>s. s\<lparr>src_NeedsTuning := needsTuning, src_NeedsTuningAt := (if needsTuning then Some now else None)\<rparr>)"

definition RecordVerifyResult :: "time \<Rightarrow> string \<Rightarrow> int \<Rightarrow> time \<Rightarrow> (crawldb, unit) sql" where
  "RecordVerifyResult now i status stamp = src_update now i
     (\<lambda>s. s\<lparr>src_LastVerifiedAt := Some stamp, src_LastVerifyStatus := status\<rparr>)"

section \<open>Quality and score\<close>

definition IncrementQualityValidated :: "string \<Rightarrow> (crawldb, unit) sql" where
  "IncrementQualityValidated i = void (src_UpdateColumn (\<lambda>s. src_ID s = i) (\<lambda>s. s\<lparr>src_QualityValidated := src_QualityValidated s + 1\<rparr>))"

definition IncrementQualityFlagged :: "string \<Rightarrow> (crawldb, unit) sql" where
  "IncrementQualityFlagged i = void (src_UpdateColumn (\<lambda>s. src_ID s = i) (\<lambda>s. s\<lparr>src_QualityFlagged := src_QualityFlagged s + 1\<rparr>))"

definition ErrRecordNotFound :: go_error where
  "ErrRecordNotFound = ErrNew ''record not found''"

definition GetQualityRate :: "string \<Rightarrow> (crawldb, real \<times> int) sql" where
  "GetQualityRate i = sql_bind (src_first (\<lambda>s. src_ID s = i)) (\<lambda>r. case r of
      None \<Rightarrow> sql_raise ErrRecordNotFound
    | Some s \<Rightarrow> let total = src_QualityValidated s + src_QualityFlagged s in
        sql_return (if total = 0 then (0, 0) else (real_of_int (src_QualityFlagged s) / real_of_int total, total)))"

definition ReduceCrawlFrequency :: "string \<Rightarrow> (crawldb, unit) sql" where
  "ReduceCrawlFrequency i = void (src_UpdateColumn (\<lambda>s. src_ID s = i)
     (\<lambda>s. s\<lparr>src_CrawlIntervalSec := min (src_CrawlIntervalSec s * 3) 604800\<rparr>))"

definition ResetQualityWindow :: "time \<Rightarrow> string \<Rightarrow> (crawldb, unit) sql" where
  "ResetQualityWindow now i = src_update now i
     (\<lambda>s. s\<lparr>src_QualityWindowStart := Some now, src_QualityWindowDays := min (src_QualityWindowDays s * 2) 14,
            src_QualityValidated := 0, src_QualityFlagged := 0\<rparr>)"

definition ResetQualityWindowAll :: "time \<Rightarrow> (crawldb, int) sql" where
  "ResetQualityWindowAll now = src_Updates now (\<lambda>s. src_Status s = SourceActive)
     (\<lambda>s. s\<lparr>src_QualityWindowStart := Some now, src_QualityWindowDays := 1, src_QualityValidated := 0, src_QualityFlagged := 0\<rparr>)"

definition DecayHealth :: "time \<Rightarrow> real \<Rightarrow> (crawldb, int) sql" where
  "DecayHealth now stp = src_Updates now (\<lambda>s. src_Status s = SourceActive \<and> src_HealthScore s < 1)
     (\<lambda>s. s\<lparr>src_HealthScore := min 1 (src_HealthScore s + stp)\<rparr>)"

record SourceSignals =
  sg_Crawls7d :: int
  sg_Variants7d :: int
  sg_Accepted7d :: int
  sg_Rejected7d :: int
  sg_LastNewVariantAt :: "time option"

definition clamp :: "real \<Rightarrow> real \<Rightarrow> real \<Rightarrow> real" where
  "clamp x lo hi = (if x < lo then lo else if x > hi then hi else x)"

definition Score :: "SourceSignals \<Rightarrow> int \<Rightarrow> time \<Rightarrow> real" where
  "Score s tier now =
     (let vpc0 = (if sg_Crawls7d s > 0 then real_of_int (sg_Variants7d s) / real_of_int (sg_Crawls7d s) else 0);
          vpc = (if vpc0 > 5 then 5 else vpc0);
          acceptRate = (if sg_Variants7d s > 0 then real_of_int (sg_Accepted7d s) / real_of_int (sg_Variants7d s) else 0);
          recency = (case sg_LastNewVariantAt s of None \<Rightarrow> 0
            | Some t \<Rightarrow> let age = real_of_int (now - t) / real_of_int Hour; ageHours = (if age < 0 then 0 else age) in 2 powr (- ageHours / 24));
          raw = vpc / 5 * (1 / 2) + acceptRate * (3 / 10) + recency * (2 / 10)
      in clamp (if tier = 1 then raw + 1 / 10 else if tier = 3 then raw - 1 / 10 else raw) 0 1)"

text \<open>\<open>time.Duration(f)\<close> truncates towards zero; the interval is not negative.\<close>

definition NextCrawlAt :: "real \<Rightarrow> time \<Rightarrow> int \<Rightarrow> int \<Rightarrow> time" where
  "NextCrawlAt score0 lastCrawled minIntervalMin maxIntervalMin =
     (let score = (if score0 < 0 then 0 else if score0 > 1 then 1 else score0);
          minMin = (if minIntervalMin \<le> 0 then 15 else real_of_int minIntervalMin);
          maxMin = (if real_of_int maxIntervalMin < minMin then minMin else real_of_int maxIntervalMin);
          intervalMin = minMin * (maxMin / minMin) powr (1 - score)
      in lastCrawled + \<lfloor>intervalMin * real_of_int Minute\<rfloor>)"

definition LoadSignals :: "(crawldb \<Rightarrow> (string \<times> SourceSignals) list) \<Rightarrow> (crawldb, string \<rightharpoonup> SourceSignals) sql" where
  "LoadSignals crawl_signals = sql_wrap ''load signals'' (sql_query (\<lambda>d. fold (\<lambda>(i, g) m. m(i \<mapsto> g)) (crawl_signals d) Map.empty))"

definition UpdateScoreAndNextCrawl :: "time \<Rightarrow> string \<Rightarrow> real \<Rightarrow> time \<Rightarrow> (crawldb, unit) sql" where
  "UpdateScoreAndNextCrawl now i score nextCrawlAt = src_update now i (\<lambda>s. s\<lparr>src_Score := score, src_NextCrawlAt := nextCrawlAt\<rparr>)"

section \<open>The crawl ledger\<close>

definition CrawlJobs_Create :: "string \<Rightarrow> time \<Rightarrow> CrawlJob \<Rightarrow> (crawldb, CrawlJob) sql" where
  "CrawlJobs_Create newID now j = sql_stmt (\<lambda>d.
     let row = j\<lparr>cj_ID := (if cj_ID j = [] then newID else cj_ID j),
                 cj_ScheduledAt := (if IsZero (cj_ScheduledAt j) then now else cj_ScheduledAt j),
                 cj_CreatedAt := (if cj_CreatedAt j = 0 then now else cj_CreatedAt j),
                 cj_UpdatedAt := (if cj_UpdatedAt j = 0 then now else cj_UpdatedAt j)\<rparr> in
     if list_ex (\<lambda>x. cj_ID x = cj_ID row \<and> cj_ScheduledAt x = cj_ScheduledAt row) (crawl_jobs d)
     then (Inl (ErrConstraint ''crawl_jobs_pkey''), d)
     else if list_ex (\<lambda>x. cj_IdempotencyKey x = cj_IdempotencyKey row \<and> cj_ScheduledAt x = cj_ScheduledAt row) (crawl_jobs d)
     then (Inl (ErrConstraint ''crawl_jobs_idempotency_idx''), d)
     else (Inr row, d\<lparr>crawl_jobs := crawl_jobs d @ [row]\<rparr>))"

definition GetByIdempotencyKey :: "string \<Rightarrow> (crawldb, CrawlJob option) sql" where
  "GetByIdempotencyKey key = sql_query (\<lambda>d. first_row cj_ID (filter (\<lambda>j. cj_IdempotencyKey j = key) (crawl_jobs d)))"

definition cj_update :: "time \<Rightarrow> string \<Rightarrow> (CrawlJob \<Rightarrow> CrawlJob) \<Rightarrow> (crawldb, unit) sql" where
  "cj_update now i f = sql_exec (\<lambda>d.
     d\<lparr>crawl_jobs := update_where (\<lambda>j. cj_ID j = i) (\<lambda>j. (f j)\<lparr>cj_UpdatedAt := now\<rparr>) (crawl_jobs d)\<rparr>)"

definition CrawlJobs_Start :: "time \<Rightarrow> string \<Rightarrow> (crawldb, unit) sql" where
  "CrawlJobs_Start now i = cj_update now i (\<lambda>j. j\<lparr>cj_Status := CrawlRunning, cj_StartedAt := Some now\<rparr>)"

definition CrawlJobs_Finish :: "time \<Rightarrow> string \<Rightarrow> string \<Rightarrow> int \<Rightarrow> int \<Rightarrow> string \<Rightarrow> string \<Rightarrow> (crawldb, unit) sql" where
  "CrawlJobs_Finish now i status jobsFound jobsStored errorCode errorMessage = cj_update now i
     (\<lambda>j. j\<lparr>cj_Status := status, cj_FinishedAt := Some now, cj_JobsFound := jobsFound, cj_JobsStored := jobsStored,
            cj_ErrorCode := errorCode, cj_ErrorMessage := errorMessage\<rparr>)"

text \<open>The columns of a \<open>CrawlJobSummary\<close> are those of the row.\<close>

definition ListBySource :: "string \<Rightarrow> int \<Rightarrow> (crawldb, CrawlJob list) sql" where
  "ListBySource sourceID limit = sql_query (\<lambda>d.
     take (nat limit) (sort_key (\<lambda>j. - cj_ScheduledAt j) (filter (\<lambda>j. cj_SourceID j = sourceID) (crawl_jobs d))))"

definition LastCrawlAt :: "(crawldb, time) sql" where
  "LastCrawlAt = sql_query (\<lambda>d. if crawl_jobs d = [] then 0 else Max (set (map cj_ScheduledAt (crawl_jobs d))))"

section \<open>Recipes\<close>

definition RecipeActive :: string where "RecipeActive = ''active''"
definition RecipeSuperseded :: string where "RecipeSuperseded = ''superseded''"

definition decodeRecipe :: "(string \<Rightarrow> string option) \<Rightarrow> string \<Rightarrow> go_error + string option" where
  "decodeRecipe acquisition s =
     (if s = [] \<or> s = ''{}'' then Inr None
      else case acquisition s of
        None \<Rightarrow> Inl (ErrNew ''decode recipe'')
      | Some a \<Rightarrow> Inr (if a = [] then None else Some s))"

definition sql_lift :: "go_error + 'a \<Rightarrow> ('s, 'a) sql" where
  "sql_lift r = (case r of Inl e \<Rightarrow> sql_raise e | Inr x \<Rightarrow> sql_return x)"

definition Recipes_Active :: "(string \<Rightarrow> string option) \<Rightarrow> string \<Rightarrow> (crawldb, string option) sql" where
  "Recipes_Active acquisition sourceID = sql_bind (src_first (\<lambda>s. src_ID s = sourceID)) (\<lambda>r. case r of
      None \<Rightarrow> sql_raise ErrRecordNotFound
    | Some s \<Rightarrow> sql_lift (decodeRecipe acquisition (src_ExtractionRecipe s)))"

definition active_recipes :: "string \<Rightarrow> SourceRecipe \<Rightarrow> bool" where
  "active_recipes sourceID r \<longleftrightarrow> rc_SourceID r = sourceID \<and> rc_Status r = RecipeActive"

definition set_recipes :: "(SourceRecipe \<Rightarrow> bool) \<Rightarrow> (SourceRecipe \<Rightarrow> SourceRecipe) \<Rightarrow> crawldb \<Rightarrow> crawldb" where
  "set_recipes P f d = d\<lparr>source_recipes := update_where P f (source_recipes d)\<rparr>"

definition supersede :: "time \<Rightarrow> string \<Rightarrow> (crawldb, unit) sql" where
  "supersede now sourceID = sql_exec (set_recipes (active_recipes sourceID) (\<lambda>r. r\<lparr>rc_Status := RecipeSuperseded, rc_UpdatedAt := now\<rparr>))"

definition next_version :: "string \<Rightarrow> crawldb \<Rightarrow> int" where
  "next_version sourceID d = (let vs = map rc_Version (filter (\<lambda>r. rc_SourceID r = sourceID) (source_recipes d))
     in if vs = [] then 1 else Max (set vs) + 1)"

definition insert_recipe :: "SourceRecipe \<Rightarrow> crawldb \<Rightarrow> (go_error + unit) \<times> crawldb" where
  "insert_recipe row d =
     (if list_ex (\<lambda>r. rc_ID r = rc_ID row) (source_recipes d) then (Inl (ErrConstraint ''source_recipes_pkey''), d)
      else if list_ex (active_recipes (rc_SourceID row)) (source_recipes d) then (Inl (ErrConstraint ''idx_source_recipes_active''), d)
      else (Inr (), d\<lparr>source_recipes := source_recipes d @ [row]\<rparr>))"

definition Recipes_Activate ::
  "(int \<Rightarrow> string \<Rightarrow> string) \<Rightarrow> string \<Rightarrow> time \<Rightarrow> string \<Rightarrow> string \<Rightarrow> real \<Rightarrow> string \<Rightarrow> string \<Rightarrow> (crawldb, unit) sql"
where
  "Recipes_Activate withVersion newID now sourceID rcp passRate model report =
     transaction (
       sql_bind (sql_query (next_version sourceID)) (\<lambda>nxt.
       let txt = withVersion nxt rcp in
       sql_bind (supersede now sourceID) (\<lambda>_.
       sql_bind (sql_stmt (insert_recipe \<lparr>rc_ID = newID, rc_CreatedAt = now, rc_UpdatedAt = now, rc_SourceID = sourceID,
           rc_Version = nxt, rc_Recipe = txt, rc_Status = RecipeActive, rc_PassRate = passRate, rc_Model = model,
           rc_ValidationReport = report\<rparr>)) (\<lambda>_.
       src_update now sourceID (\<lambda>s. s\<lparr>src_ExtractionRecipe := txt\<rparr>)))))"

definition Recipes_Rollback :: "time \<Rightarrow> string \<Rightarrow> int \<Rightarrow> (crawldb, unit) sql" where
  "Recipes_Rollback now sourceID version =
     transaction (
       sql_bind (sql_query (\<lambda>d. first_row rc_ID (filter (\<lambda>r. rc_SourceID r = sourceID \<and> rc_Version r = version) (source_recipes d)))) (\<lambda>t.
       case t of
         None \<Rightarrow> sql_raise (ErrWrap ''rollback target'' ErrRecordNotFound)
       | Some target \<Rightarrow>
           sql_bind (supersede now sourceID) (\<lambda>_.
           sql_bind (sql_exec (set_recipes (\<lambda>r. rc_ID r = rc_ID target) (\<lambda>r. r\<lparr>rc_Status := RecipeActive, rc_UpdatedAt := now\<rparr>))) (\<lambda>_.
           src_update now sourceID (\<lambda>s. s\<lparr>src_ExtractionRecipe := rc_Recipe target\<rparr>)))))"

definition Recipes_History :: "string \<Rightarrow> (crawldb, SourceRecipe list) sql" where
  "Recipes_History sourceID = sql_query (\<lambda>d.
     sort_key (\<lambda>r. - rc_Version r) (filter (\<lambda>r. rc_SourceID r = sourceID) (source_recipes d)))"

end
