(* ===== verification/Crawl_Runs.thy ===== *)
theory Crawl_Runs
  imports Sources
begin

text \<open>
  Crawl runs: the durable state machine of \<open>pkg/repository/crawl_run.go\<close>.  A run is driven in
  slices; a lease (owner and expiry) keeps two consumers from driving one run at the same time, and
  the partial unique index \<open>idx_crawl_runs_active\<close> allows one active run per source.

  Identifiers and clock readings are arguments.  An update that violates the index fails.
\<close>

section \<open>The table\<close>

definition run_live :: "CrawlRun \<Rightarrow> bool" where
  "run_live r \<longleftrightarrow> cr_DeletedAt r = None"

definition run_active :: "CrawlRun \<Rightarrow> bool" where
  "run_active r \<longleftrightarrow> cr_Status r \<in> set ActiveCrawlRunStatuses"

definition active_unique :: "CrawlRun list \<Rightarrow> bool" where
  "active_unique rows \<longleftrightarrow> distinct (map cr_SourceID (filter run_active rows))"

definition run_first :: "(CrawlRun \<Rightarrow> bool) \<Rightarrow> (crawldb, CrawlRun option) sql" where
  "run_first P = sql_query (\<lambda>d. first_row cr_ID (filter (\<lambda>r. run_live r \<and> P r) (crawl_runs d)))"

definition run_Updates :: "(CrawlRun \<Rightarrow> bool) \<Rightarrow> (CrawlRun \<Rightarrow> CrawlRun) \<Rightarrow> (crawldb, int) sql" where
  "run_Updates P f = sql_stmt (\<lambda>d.
     let rows = update_where (\<lambda>r. run_live r \<and> P r) f (crawl_runs d) in
     if active_unique rows
     then (Inr (int (length (filter (\<lambda>r. run_live r \<and> P r) (crawl_runs d)))), d\<lparr>crawl_runs := rows\<rparr>)
     else (Inl (ErrConstraint ''idx_crawl_runs_active''), d))"

definition run_update :: "string \<Rightarrow> (CrawlRun \<Rightarrow> CrawlRun) \<Rightarrow> (crawldb, unit) sql" where
  "run_update i f = void (run_Updates (\<lambda>r. cr_ID r = i) f)"

section \<open>Starting and claiming\<close>

definition Runs_GetByID :: "string \<Rightarrow> (crawldb, CrawlRun option) sql" where
  "Runs_GetByID i = run_first (\<lambda>r. cr_ID r = i)"

definition GetActiveBySource :: "string \<Rightarrow> (crawldb, CrawlRun option) sql" where
  "GetActiveBySource sourceID = run_first (\<lambda>r. cr_SourceID r = sourceID \<and> run_active r)"

definition new_run :: "string \<Rightarrow> time \<Rightarrow> string \<Rightarrow> time \<Rightarrow> string \<Rightarrow> duration \<Rightarrow> CrawlRun" where
  "new_run newID now sourceID scheduledAt owner leaseTTL =
     \<lparr>cr_ID = newID, cr_CreatedAt = now, cr_UpdatedAt = now, cr_DeletedAt = None, cr_SourceID = sourceID, cr_Status = CrawlRunRunning,
      cr_Cursor = None, cr_PageIdx = 0, cr_LastURL = [], cr_SliceCount = 0, cr_JobsFound = 0, cr_JobsEmitted = 0, cr_JobsRejected = 0,
      cr_Owner = owner, cr_LeaseExpiresAt = Some (now + leaseTTL), cr_Attempt = 0,
      cr_ScheduledAt = (if IsZero scheduledAt then now else scheduledAt), cr_StartedAt = now, cr_LastProgressAt = now,
      cr_CompletedAt = None, cr_ErrorCode = [], cr_ErrorMessage = []\<rparr>"

text \<open>The insert with \<open>ON CONFLICT DO NOTHING\<close> and the rows it affected.\<close>

definition insert_run :: "CrawlRun \<Rightarrow> crawldb \<Rightarrow> int \<times> crawldb" where
  "insert_run r d =
     (if list_ex (\<lambda>x. cr_ID x = cr_ID r) (crawl_runs d) \<or> \<not> active_unique (crawl_runs d @ [r]) then (0, d)
      else (1, d\<lparr>crawl_runs := crawl_runs d @ [r]\<rparr>))"

definition StartRun :: "string \<Rightarrow> time \<Rightarrow> string \<Rightarrow> time \<Rightarrow> string \<Rightarrow> duration \<Rightarrow> (crawldb, CrawlRun option \<times> bool) sql" where
  "StartRun newID now sourceID scheduledAt owner leaseTTL =
     (let run = new_run newID now sourceID scheduledAt owner leaseTTL in
      sql_bind (sql_stmt (\<lambda>d. case insert_run run d of (n, d') \<Rightarrow> (Inr n, d'))) (\<lambda>n.
        if n = 1 then sql_return (Some run, True)
        else sql_bind (GetActiveBySource sourceID) (\<lambda>existing. sql_return (existing, False))))"

definition lease_free :: "time \<Rightarrow> string \<Rightarrow> CrawlRun \<Rightarrow> bool" where
  "lease_free now owner r \<longleftrightarrow> cr_Owner r = [] \<or> cr_Owner r = owner \<or>
     (case cr_LeaseExpiresAt r of None \<Rightarrow> True | Some t \<Rightarrow> t < now)"

definition Runs_Claim :: "time \<Rightarrow> string \<Rightarrow> string \<Rightarrow> duration \<Rightarrow> (crawldb, CrawlRun option \<times> bool) sql" where
  "Runs_Claim now i owner leaseTTL =
     sql_bind (run_Updates (\<lambda>r. cr_ID r = i \<and> run_active r \<and> lease_free now owner r)
       (\<lambda>r. r\<lparr>cr_Owner := owner, cr_LeaseExpiresAt := Some (now + leaseTTL), cr_Status := CrawlRunRunning, cr_UpdatedAt := now\<rparr>)) (\<lambda>n.
     if n = 0 then sql_return (None, False)
     else sql_bind (Runs_GetByID i) (\<lambda>run. sql_return (run, run \<noteq> None)))"

section \<open>Slices\<close>

definition datatypesOrNil :: "string \<Rightarrow> string option" where
  "datatypesOrNil cursor = (if cursor = [] then None else Some cursor)"

definition run_position :: "string \<Rightarrow> int \<Rightarrow> string \<Rightarrow> CrawlRun \<Rightarrow> CrawlRun" where
  "run_position cursor pageIdx lastURL r =
     r\<lparr>cr_Cursor := datatypesOrNil cursor, cr_PageIdx := pageIdx, cr_LastURL := (if lastURL \<noteq> [] then lastURL else cr_LastURL r)\<rparr>"

definition run_tallies :: "int \<Rightarrow> int \<Rightarrow> int \<Rightarrow> CrawlRun \<Rightarrow> CrawlRun" where
  "run_tallies dFound dEmitted dRejected r =
     r\<lparr>cr_SliceCount := cr_SliceCount r + 1, cr_JobsFound := cr_JobsFound r + dFound,
       cr_JobsEmitted := cr_JobsEmitted r + dEmitted, cr_JobsRejected := cr_JobsRejected r + dRejected\<rparr>"

definition Progress :: "time \<Rightarrow> string \<Rightarrow> string \<Rightarrow> int \<Rightarrow> string \<Rightarrow> duration \<Rightarrow> (crawldb, unit) sql" where
  "Progress now i cursor pageIdx lastURL leaseTTL = run_update i (\<lambda>r.
     (run_position cursor pageIdx lastURL r)\<lparr>cr_LastProgressAt := now, cr_LeaseExpiresAt := Some (now + leaseTTL), cr_UpdatedAt := now\<rparr>)"

definition Yield :: "time \<Rightarrow> string \<Rightarrow> string \<Rightarrow> int \<Rightarrow> string \<Rightarrow> duration \<Rightarrow> int \<Rightarrow> int \<Rightarrow> int \<Rightarrow> (crawldb, unit) sql" where
  "Yield now i cursor pageIdx lastURL leaseTTL dFound dEmitted dRejected = run_update i (\<lambda>r.
     (run_tallies dFound dEmitted dRejected (run_position cursor pageIdx lastURL r))
       \<lparr>cr_Status := CrawlRunRunning, cr_Owner := [], cr_LeaseExpiresAt := Some (now + leaseTTL), cr_Attempt := cr_Attempt r + 1,
        cr_LastProgressAt := now, cr_UpdatedAt := now\<rparr>)"

definition Runs_Complete :: "time \<Rightarrow> string \<Rightarrow> string \<Rightarrow> int \<Rightarrow> string \<Rightarrow> int \<Rightarrow> int \<Rightarrow> int \<Rightarrow> (crawldb, unit) sql" where
  "Runs_Complete now i cursor pageIdx lastURL dFound dEmitted dRejected = run_update i (\<lambda>r.
     (run_tallies dFound dEmitted dRejected (run_position cursor pageIdx lastURL r))
       \<lparr>cr_Status := CrawlRunCompleted, cr_Owner := [], cr_LeaseExpiresAt := None, cr_CompletedAt := Some now,
        cr_LastProgressAt := now, cr_UpdatedAt := now\<rparr>)"

definition Runs_Fail :: "time \<Rightarrow> string \<Rightarrow> string \<Rightarrow> string \<Rightarrow> int \<Rightarrow> int \<Rightarrow> int \<Rightarrow> (crawldb, unit) sql" where
  "Runs_Fail now i code message dFound dEmitted dRejected = run_update i (\<lambda>r.
     (run_tallies dFound dEmitted dRejected r)
       \<lparr>cr_Status := CrawlRunFailed, cr_Owner := [], cr_LeaseExpiresAt := None, cr_ErrorCode := code, cr_ErrorMessage := message,
        cr_LastProgressAt := now, cr_UpdatedAt := now\<rparr>)"

section \<open>The watchdog's operations\<close>

definition ListRuns :: "string \<Rightarrow> int \<Rightarrow> (crawldb, CrawlRun list) sql" where
  "ListRuns sourceID limit = sql_query (\<lambda>d.
     take (nat (if limit \<le> 0 then 100 else limit)) (sort_key (\<lambda>r. - cr_UpdatedAt r)
       (filter (\<lambda>r. run_live r \<and> (sourceID \<noteq> [] \<longrightarrow> cr_SourceID r = sourceID)) (crawl_runs d))))"

definition TouchLease :: "time \<Rightarrow> string \<Rightarrow> duration \<Rightarrow> (crawldb, unit) sql" where
  "TouchLease now i leaseTTL = void (run_Updates (\<lambda>r. cr_ID r = i \<and> run_active r)
     (\<lambda>r. r\<lparr>cr_LeaseExpiresAt := Some (now + leaseTTL), cr_UpdatedAt := now\<rparr>))"

definition lapsed :: "time \<Rightarrow> CrawlRun \<Rightarrow> bool" where
  "lapsed now r \<longleftrightarrow> run_active r \<and> (case cr_LeaseExpiresAt r of None \<Rightarrow> True | Some t \<Rightarrow> t < now)"

definition FindResumable :: "time \<Rightarrow> int \<Rightarrow> (crawldb, CrawlRun list) sql" where
  "FindResumable now limit = sql_query (\<lambda>d.
     gorm_limit limit (sort_key cr_LastProgressAt (filter (\<lambda>r. run_live r \<and> lapsed now r) (crawl_runs d))))"

section \<open>One active run per source\<close>

definition runs_inv :: "crawldb \<Rightarrow> bool" where
  "runs_inv d \<longleftrightarrow> distinct (map cr_ID (crawl_runs d)) \<and> active_unique (crawl_runs d)"

text \<open>
  What a history keeps of a run: its identity and start, with slices and attempts that only grow; and
  beyond that its tallies of jobs, which only grow when the increments are not negative.
\<close>

definition run_keeps :: "CrawlRun \<Rightarrow> CrawlRun \<Rightarrow> bool" where
  "run_keeps r r' \<longleftrightarrow> cr_ID r' = cr_ID r \<and> cr_SourceID r' = cr_SourceID r \<and> cr_DeletedAt r' = cr_DeletedAt r \<and>
     cr_ScheduledAt r' = cr_ScheduledAt r \<and> cr_StartedAt r' = cr_StartedAt r \<and>
     cr_SliceCount r \<le> cr_SliceCount r' \<and> cr_Attempt r \<le> cr_Attempt r'"

definition run_evolves :: "CrawlRun \<Rightarrow> CrawlRun \<Rightarrow> bool" where
  "run_evolves r r' \<longleftrightarrow> run_keeps r r' \<and> cr_JobsFound r \<le> cr_JobsFound r' \<and> cr_JobsEmitted r \<le> cr_JobsEmitted r' \<and>
     cr_JobsRejected r \<le> cr_JobsRejected r'"

definition runs_rel :: "(CrawlRun \<Rightarrow> CrawlRun \<Rightarrow> bool) \<Rightarrow> crawldb \<Rightarrow> crawldb \<Rightarrow> bool" where
  "runs_rel E d d' \<longleftrightarrow> (runs_inv d \<longrightarrow> runs_inv d') \<and> rows_evolve E (crawl_runs d) (crawl_runs d')"

lemma preserves_void: "preserves R m \<Longrightarrow> preserves R (void m)"
  by (simp add: void_def preserves_def)

locale run_history =
  fixes E :: "CrawlRun \<Rightarrow> CrawlRun \<Rightarrow> bool"
  assumes E_refl: "E r r" and E_trans: "E a b \<Longrightarrow> E b c \<Longrightarrow> E a c" and E_id: "E a b \<Longrightarrow> cr_ID b = cr_ID a"
begin

lemma runs_rel_refl: "runs_rel E d d"
  by (simp add: runs_rel_def rows_evolve_refl E_refl)

lemma runs_rel_trans: "runs_rel E s t \<Longrightarrow> runs_rel E t u \<Longrightarrow> runs_rel E s u"
  unfolding runs_rel_def using rows_evolve_trans[of E] E_trans by blast

end

sublocale run_history \<subseteq> rel: sql_preorder "runs_rel E"
  by unfold_locales (rule runs_rel_refl, erule (1) runs_rel_trans)

context run_history
begin

lemma run_Updates_rel:
  assumes "\<And>r. E r (f r)"
  shows "preserves (runs_rel E) (run_Updates P f)"
  unfolding run_Updates_def
proof (rule rel.preserves_stmt)
  fix s s' :: crawldb and x
  let ?rows = "update_where (\<lambda>r. run_live r \<and> P r) f (crawl_runs s)"
  assume run: "(let rows = ?rows in if active_unique rows
     then (Inr (int (length (filter (\<lambda>r. run_live r \<and> P r) (crawl_runs s)))), s\<lparr>crawl_runs := rows\<rparr>)
     else (Inl (ErrConstraint ''idx_crawl_runs_active''), s)) = (Inr x, s')"
  then have u: "active_unique ?rows" and s': "s' = s\<lparr>crawl_runs := ?rows\<rparr>"
    by (auto simp: Let_def split: if_splits)
  have k: "map cr_ID ?rows = map cr_ID (crawl_runs s)" using assms E_id by (intro map_update_where) blast
  have e: "rows_evolve E (crawl_runs s) ?rows" using assms by (intro rows_evolve_update E_refl)
  from u s' k e show "runs_rel E s s'" by (simp add: runs_rel_def runs_inv_def)
qed

lemma run_update_rel: "(\<And>r. E r (f r)) \<Longrightarrow> preserves (runs_rel E) (run_update i f)"
  unfolding run_update_def by (intro preserves_void run_Updates_rel)

lemma insert_run_rel: "insert_run r d = (n, d') \<Longrightarrow> runs_rel E d d'"
  by (auto simp: insert_run_def runs_rel_def runs_inv_def row_simps list_ex_iff rows_evolve_refl rows_evolve_append E_refl split: if_splits)

lemma StartRun_rel: "preserves (runs_rel E) (StartRun newID now sourceID scheduledAt owner leaseTTL)"
  unfolding StartRun_def Let_def GetActiveBySource_def run_first_def
  by (intro rel.preserves_rules rel.preserves_stmt) (auto split: prod.splits dest: insert_run_rel)

end

interpretation keep: run_history run_keeps
  by unfold_locales (auto simp: run_keeps_def)

interpretation grow: run_history run_evolves
  by unfold_locales (auto simp: run_evolves_def run_keeps_def)

abbreviation runs_ok :: "crawldb \<Rightarrow> crawldb \<Rightarrow> bool" where
  "runs_ok \<equiv> runs_rel run_keeps"

abbreviation runs_grow :: "crawldb \<Rightarrow> crawldb \<Rightarrow> bool" where
  "runs_grow \<equiv> runs_rel run_evolves"

lemmas runs_ok_def = runs_rel_def[of run_keeps]

lemma Runs_Claim_ok: "preserves runs_ok (Runs_Claim now i owner leaseTTL)"
  unfolding Runs_Claim_def Runs_GetByID_def run_first_def
  by (intro keep.rel.preserves_rules keep.run_Updates_rel) (simp add: run_keeps_def)

lemma TouchLease_ok: "preserves runs_ok (TouchLease now i leaseTTL)"
  unfolding TouchLease_def by (intro preserves_void keep.run_Updates_rel) (simp add: run_keeps_def)

lemma slices_ok:
  "preserves runs_ok (Progress now i cursor pageIdx lastURL leaseTTL)"
  "preserves runs_ok (Yield now i cursor pageIdx lastURL leaseTTL dFound dEmitted dRejected)"
  "preserves runs_ok (Runs_Complete now i cursor pageIdx lastURL dFound dEmitted dRejected)"
  "preserves runs_ok (Runs_Fail now i code message dFound dEmitted dRejected)"
  unfolding Progress_def Yield_def Runs_Complete_def Runs_Fail_def
  by (rule keep.run_update_rel; simp add: run_keeps_def run_position_def run_tallies_def)+

lemmas StartRun_ok = keep.StartRun_rel

lemmas run_ops_ok = StartRun_ok Runs_Claim_ok TouchLease_ok slices_ok

lemma lease_ops_grow:
  "preserves runs_grow (Runs_Claim now i owner leaseTTL)"
  "preserves runs_grow (TouchLease now i leaseTTL)"
  "preserves runs_grow (Progress now i cursor pageIdx lastURL leaseTTL)"
  unfolding Runs_Claim_def Runs_GetByID_def run_first_def TouchLease_def Progress_def
  by (intro grow.rel.preserves_rules preserves_void grow.run_Updates_rel grow.run_update_rel;
      simp add: run_evolves_def run_keeps_def run_position_def)+

lemma slices_grow:
  assumes "0 \<le> dFound" "0 \<le> dEmitted" "0 \<le> dRejected"
  shows "preserves runs_grow (Yield now i cursor pageIdx lastURL leaseTTL dFound dEmitted dRejected)"
    and "preserves runs_grow (Runs_Complete now i cursor pageIdx lastURL dFound dEmitted dRejected)"
    and "preserves runs_grow (Runs_Fail now i code message dFound dEmitted dRejected)"
  unfolding Yield_def Runs_Complete_def Runs_Fail_def
  by (rule grow.run_update_rel; use assms in \<open>simp add: run_evolves_def run_keeps_def run_position_def run_tallies_def\<close>)+

lemma FindResumable_ok: "preserves runs_ok (FindResumable now limit)"
  unfolding FindResumable_def by (rule keep.rel.preserves_query)

end
