(* ===== verification/Crawl_Accept.thy ===== *)
theory Crawl_Accept
  imports Sources Worker Frontier "HOL-Library.Word"
begin

text \<open>
  What counts as a storable opportunity: the kind registry and its verification
  (\<open>pkg/opportunity\<close>), the gazetteer (\<open>pkg/geocode\<close>), the normaliser (\<open>pkg/normalize\<close>) and the accept
  path that both crawlers share (\<open>pkg/crawlaccept\<close>).

  \<open>accept_codec\<close> holds what these packages call: \<open>ac_html\<close> is \<open>publish.DescriptionHTML\<close> and
  \<open>ac_text\<close> is \<open>content.ToCleanText\<close> (HTML through third-party parsers), \<open>ac_detect\<close> the language a
  reliable detection gives, \<open>ac_parse\<close> is \<open>url.Parse\<close>, \<open>ac_escapedPath\<close> \<open>(*URL).EscapedPath\<close>,
  \<open>ac_RFC3339\<close> the formatting of a time, \<open>ac_sha256hex\<close> a digest in hexadecimal.  Attributes that are
  nil read like empty ones; messages are rendered without quotation marks.
\<close>

section \<open>Opportunities\<close>

record Location =
  lo_Country :: string
  lo_Region :: string
  lo_City :: string
  lo_Lat :: real
  lo_Lon :: real

record ExternalOpportunity =
  eo_Kind :: string
  eo_SourceID :: string
  eo_ExternalID :: string
  eo_SourceURL :: string
  eo_Title :: string
  eo_Description :: string
  eo_HowToApply :: string
  eo_IssuingEntity :: string
  eo_ApplyURL :: string
  eo_AnchorLocation :: "Location option"
  eo_LocationText :: string
  eo_Remote :: bool
  eo_GeoScope :: string
  eo_PostedAt :: "time option"
  eo_Deadline :: "time option"
  eo_AmountMin :: real
  eo_AmountMax :: real
  eo_Currency :: string
  eo_Categories :: "string list"
  eo_Attributes :: gomap
  eo_Source :: string

definition AttrString :: "ExternalOpportunity \<Rightarrow> string \<Rightarrow> string" where
  "AttrString opp key = (case eo_Attributes opp key of Some (AStr s) \<Rightarrow> s | _ \<Rightarrow> [])"

definition AttrStringSlice :: "ExternalOpportunity \<Rightarrow> string \<Rightarrow> string list" where
  "AttrStringSlice opp key = (case eo_Attributes opp key of
      Some (AList vs) \<Rightarrow> concat (map (\<lambda>v. case v of AStr s \<Rightarrow> [s] | _ \<Rightarrow> []) vs) | _ \<Rightarrow> [])"

definition AttrFloat :: "ExternalOpportunity \<Rightarrow> string \<Rightarrow> real" where
  "AttrFloat opp key = (case eo_Attributes opp key of Some (ANum x) \<Rightarrow> x | Some (AInt n) \<Rightarrow> real_of_int n | _ \<Rightarrow> 0)"

definition attrBool :: "ExternalOpportunity \<Rightarrow> string \<Rightarrow> bool" where
  "attrBool opp key = (case eo_Attributes opp key of
      Some (ABool b) \<Rightarrow> b | Some (AStr s) \<Rightarrow> ToLower (TrimSpace s) = ''true'' | _ \<Rightarrow> False)"

section \<open>The kind registry\<close>

record Spec =
  sp_Kind :: string
  sp_DisplayName :: string
  sp_IssuingEntityLabel :: string
  sp_AmountKind :: string
  sp_URLPrefix :: string
  sp_UniversalRequired :: "string list"
  sp_KindRequired :: "string list"
  sp_KindOptional :: "string list"
  sp_Categories :: "string list"
  sp_SearchFacets :: "string list"
  sp_ExtractionPrompt :: string
  sp_OnboardingFlow :: string
  sp_Matcher :: string

definition lower_letter :: "char \<Rightarrow> bool" where
  "lower_letter ch \<longleftrightarrow> 97 \<le> (of_char ch :: nat) \<and> (of_char ch :: nat) \<le> 122"

definition digit_char :: "char \<Rightarrow> bool" where
  "digit_char ch \<longleftrightarrow> 48 \<le> (of_char ch :: nat) \<and> (of_char ch :: nat) \<le> 57"

fun urlPrefixRE :: "string \<Rightarrow> bool" where
  "urlPrefixRE [] \<longleftrightarrow> False"
| "urlPrefixRE (c # cs) \<longleftrightarrow> lower_letter c \<and> list_all (\<lambda>x. lower_letter x \<or> digit_char x \<or> x = CHR ''-'') cs"

definition universalKeys :: "string list" where
  "universalKeys = [''title'', ''description'', ''how_to_apply'', ''issuing_entity'', ''apply_url'', ''deadline'',
     ''anchor_region'', ''anchor_country'', ''anchor_city'']"

definition Spec_Validate :: "Spec \<Rightarrow> go_error option" where
  "Spec_Validate s =
     (if sp_Kind s = [] then Some (ErrNew ''spec: kind is required'')
      else if sp_DisplayName s = [] then Some (ErrNew (''spec '' @ sp_Kind s @ '': display_name is required''))
      else if sp_IssuingEntityLabel s = [] then Some (ErrNew (''spec '' @ sp_Kind s @ '': issuing_entity_label is required''))
      else if \<not> urlPrefixRE (sp_URLPrefix s) then Some (ErrNew (''spec '' @ sp_Kind s @ '': url_prefix must match''))
      else case List.find (\<lambda>k. k \<notin> set universalKeys) (sp_UniversalRequired s) of
        Some k \<Rightarrow> Some (ErrNew (''spec '' @ sp_Kind s @ '': universal_required['' @ k @ ''] is not a known envelope key''))
      | None \<Rightarrow> None)"

text \<open>The map from kinds to specs, as the list of its values; the kinds are distinct.\<close>

type_synonym Registry = "Spec list"

definition Lookup :: "Registry \<Rightarrow> string \<Rightarrow> Spec option" where
  "Lookup reg kind = List.find (\<lambda>s. sp_Kind s = kind) reg"

definition register :: "Spec \<Rightarrow> Registry \<Rightarrow> go_error + Registry" where
  "register s reg =
     (if Lookup reg (sp_Kind s) \<noteq> None then Inl (ErrNew (''duplicate kind '' @ sp_Kind s))
      else if list_ex (\<lambda>x. sp_URLPrefix x = sp_URLPrefix s) reg then Inl (ErrNew (''duplicate url_prefix '' @ sp_URLPrefix s))
      else Inr (reg @ [s]))"

text \<open>Each definition is its name and the spec its YAML text parses to.\<close>

fun load_specs :: "(string \<times> Spec option) list \<Rightarrow> Registry \<Rightarrow> go_error + Registry" where
  "load_specs [] reg = Inr reg"
| "load_specs ((name, None) # es) reg = Inl (ErrNew (''opportunity: parse '' @ name))"
| "load_specs ((name, Some s) # es) reg =
     (case Spec_Validate s of
        Some e \<Rightarrow> Inl (ErrWrap (''opportunity: validate '' @ name) e)
      | None \<Rightarrow> (case register s reg of
          Inl e \<Rightarrow> Inl (ErrWrap (''opportunity: register '' @ name) e)
        | Inr reg' \<Rightarrow> load_specs es reg'))"

definition LoadFromDefinitions :: "(string \<times> Spec option) list \<Rightarrow> go_error + Registry" where
  "LoadFromDefinitions entries = load_specs entries []"

definition Known :: "Registry \<Rightarrow> string list" where
  "Known reg = sort (map sp_Kind reg)"

definition Resolve :: "Registry \<Rightarrow> string \<Rightarrow> Spec" where
  "Resolve reg kind = (case Lookup reg kind of
      Some s \<Rightarrow> s
    | None \<Rightarrow> \<lparr>sp_Kind = kind, sp_DisplayName = kind, sp_IssuingEntityLabel = ''Issuer'', sp_AmountKind = [], sp_URLPrefix = kind,
        sp_UniversalRequired = [], sp_KindRequired = [], sp_KindOptional = [], sp_Categories = [], sp_SearchFacets = [],
        sp_ExtractionPrompt = [], sp_OnboardingFlow = [], sp_Matcher = []\<rparr>)"

text \<open>\<open>hash/fnv\<close>: FNV-1a in 64 and in 32 bits.\<close>

definition fnv64a :: "string \<Rightarrow> 64 word" where
  "fnv64a s = fold (\<lambda>ch h. (Bit_Operations.xor h (of_nat (of_char ch))) * 1099511628211) s 14695981039346656037"

definition fnv32a :: "string \<Rightarrow> 32 word" where
  "fnv32a s = fold (\<lambda>ch h. (Bit_Operations.xor h (of_nat (of_char ch))) * 16777619) s 2166136261"

definition HashCategory :: "string \<Rightarrow> int" where
  "HashCategory s = uint (Bit_Operations.and (fnv64a s) 0x7FFFFFFFFFFFFFFF)"

definition CategoryLabels :: "Registry \<Rightarrow> int \<rightharpoonup> string" where
  "CategoryLabels reg = fold (\<lambda>c m. m(HashCategory c \<mapsto> c)) (concat (map sp_Categories reg)) Map.empty"

section \<open>Verification\<close>

record VerifyResult =
  ver_OK :: bool
  ver_Missing :: "string list"
  ver_Extra :: "string set"
  ver_Mismatch :: string

definition anchored :: "(Location \<Rightarrow> string) \<Rightarrow> ExternalOpportunity \<Rightarrow> bool" where
  "anchored f opp \<longleftrightarrow> (case eo_AnchorLocation opp of None \<Rightarrow> False | Some l \<Rightarrow> f l \<noteq> [])"

definition universalFieldPresent :: "ExternalOpportunity \<Rightarrow> string \<Rightarrow> bool" where
  "universalFieldPresent opp key \<longleftrightarrow>
     (if key = ''title'' then eo_Title opp \<noteq> []
      else if key = ''description'' then length (eo_Description opp) \<ge> 50
      else if key = ''issuing_entity'' then eo_IssuingEntity opp \<noteq> []
      else if key = ''apply_url'' then TrimSpace (eo_ApplyURL opp) \<noteq> []
      else if key = ''deadline'' then eo_Deadline opp \<noteq> None
      else if key = ''anchor_country'' then anchored lo_Country opp
      else if key = ''anchor_region'' then anchored lo_Region opp
      else if key = ''anchor_city'' then anchored lo_City opp
      else False)"

definition attrPresent :: "gomap \<Rightarrow> string \<Rightarrow> bool" where
  "attrPresent attrs key \<longleftrightarrow> (case attrs key of
      None \<Rightarrow> False
    | Some v \<Rightarrow> (case v of AStr s \<Rightarrow> s \<noteq> [] | AList xs \<Rightarrow> xs \<noteq> [] | ANil \<Rightarrow> False | _ \<Rightarrow> True))"

definition missing_fields :: "ExternalOpportunity \<Rightarrow> Source \<Rightarrow> Spec \<Rightarrow> string list" where
  "missing_fields opp src spec =
     filter (\<lambda>k. \<not> universalFieldPresent opp k) (sp_UniversalRequired spec) @
     (if ''apply_url'' \<notin> set (sp_UniversalRequired spec) \<and> \<not> universalFieldPresent opp ''apply_url'' then [''apply_url''] else []) @
     filter (\<lambda>k. \<not> attrPresent (eo_Attributes opp) k) (sp_KindRequired spec) @
     (case src_RequiredAttributesByKind src (eo_Kind opp) of
        None \<Rightarrow> [] | Some extra \<Rightarrow> filter (\<lambda>k. \<not> attrPresent (eo_Attributes opp) k) extra)"

definition Verify :: "ExternalOpportunity \<Rightarrow> Source \<Rightarrow> Registry \<Rightarrow> VerifyResult" where
  "Verify opp src reg =
     (if eo_Kind opp \<notin> set (src_Kinds src)
      then \<lparr>ver_OK = False, ver_Missing = [], ver_Extra = {}, ver_Mismatch = ''kind '' @ eo_Kind opp @ '' not declared by source''\<rparr>
      else case Lookup reg (eo_Kind opp) of
        None \<Rightarrow> \<lparr>ver_OK = False, ver_Missing = [], ver_Extra = {}, ver_Mismatch = ''kind '' @ eo_Kind opp @ '' not in registry''\<rparr>
      | Some spec \<Rightarrow> let missing = missing_fields opp src spec in
          \<lparr>ver_OK = (missing = []), ver_Missing = missing,
           ver_Extra = dom (eo_Attributes opp) - (set (sp_KindRequired spec) \<union> set (sp_KindOptional spec)), ver_Mismatch = []\<rparr>)"

section \<open>The gazetteer\<close>

text \<open>The rows of \<open>cities.tsv\<close> that parse, in order; the first row of a key wins.\<close>

definition Geo_Lookup :: "Location list \<Rightarrow> string \<Rightarrow> string \<Rightarrow> Location option" where
  "Geo_Lookup rows city0 country =
     (let city = TrimSpace city0 in
      if city = [] then None
      else if country \<noteq> []
      then List.find (\<lambda>l. ToLower (lo_City l) @ ''|'' @ lo_Country l = ToLower city @ ''|'' @ ToUpper (TrimSpace country)) rows
      else List.find (\<lambda>l. ToLower (lo_City l) = ToLower city) rows)"

definition HasCoords :: "Location \<Rightarrow> bool" where
  "HasCoords l \<longleftrightarrow> lo_Lat l \<noteq> 0 \<and> lo_Lon l \<noteq> 0"

definition Enrich :: "Location list \<Rightarrow> ExternalOpportunity \<Rightarrow> ExternalOpportunity" where
  "Enrich rows opp =
     (case eo_AnchorLocation opp of
        None \<Rightarrow> opp
      | Some l \<Rightarrow>
          if lo_City l = [] \<or> HasCoords l then opp
          else case Geo_Lookup rows (lo_City l) (lo_Country l) of
            None \<Rightarrow> opp
          | Some g \<Rightarrow> opp\<lparr>eo_AnchorLocation := Some (l\<lparr>lo_Lat := lo_Lat g, lo_Lon := lo_Lon g,
              lo_Region := (if lo_Region l = [] then lo_Region g else lo_Region l)\<rparr>)\<rparr>)"

section \<open>Normalisation\<close>

record accept_codec =
  ac_html :: "string \<Rightarrow> string"
  ac_text :: "string \<Rightarrow> string"
  ac_detect :: "string \<Rightarrow> string option"
  ac_parse :: "string \<Rightarrow> parsed_url option"
  ac_escapedPath :: "parsed_url \<Rightarrow> string"
  ac_RFC3339 :: "time \<Rightarrow> string"
  ac_sha256hex :: "string \<Rightarrow> string"

record JobVariant =
  jv_ExternalID :: string
  jv_SourceID :: string
  jv_HardKey :: string
  jv_SourceURL :: string
  jv_ApplyURL :: string
  jv_Title :: string
  jv_Company :: string
  jv_LocationText :: string
  jv_Country :: string
  jv_Region :: string
  jv_City :: string
  jv_Language :: string
  jv_RemoteType :: string
  jv_EmploymentType :: string
  jv_SalaryMin :: real
  jv_SalaryMax :: real
  jv_Currency :: string
  jv_Description :: string
  jv_HowToApply :: string
  jv_Seniority :: string
  jv_Deadline :: string
  jv_PostedAt :: "time option"
  jv_ScrapedAt :: time
  jv_ContentHash :: string

definition minLangDetectRunes :: nat where "minLangDetectRunes = 200"

definition detectLanguage :: "accept_codec \<Rightarrow> string \<Rightarrow> string \<Rightarrow> string" where
  "detectLanguage ac txt fallback =
     (let fb0 = ToLower (TrimSpace fallback); fb = (if fb0 = [] then ''en'' else fb0) in
      if length txt < minLangDetectRunes then fb
      else case ac_detect ac txt of None \<Rightarrow> fb | Some code \<Rightarrow> if code \<noteq> [] then code else fb)"

definition companySuffixes :: "string list" where
  "companySuffixes = [''Incorporated'', ''Limited'', ''Corp.'', ''Corp'', ''GmbH'', ''Inc.'', ''Inc'', ''Ltd.'', ''Ltd'', ''Pty.'', ''Pty'',
     ''PLC'', ''LLC'']"

definition HasSuffix :: "string \<Rightarrow> string \<Rightarrow> bool" where
  "HasSuffix s suf \<longleftrightarrow> length suf \<le> length s \<and> drop (length s - length suf) s = suf"

definition strip_suffix :: "string \<Rightarrow> string \<Rightarrow> string" where
  "strip_suffix suffix name =
     (if HasSuffix name ('', '' @ suffix) then TrimSpace (take (length name - length ('', '' @ suffix)) name)
      else if HasSuffix name ('' '' @ suffix) then TrimSpace (take (length name - length ('' '' @ suffix)) name)
      else name)"

definition normalizeCompany :: "string \<Rightarrow> string" where
  "normalizeCompany name = Join '' '' (Fields (fold strip_suffix companySuffixes (TrimSpace name)))"

definition regionMap :: "(string \<times> string list) list" where
  "regionMap =
     [(''east_africa'', [''KE'', ''UG'', ''TZ'', ''RW'', ''ET'', ''SO'']),
      (''west_africa'', [''NG'', ''GH'', ''SN'', ''CI'', ''CM'', ''ML'']),
      (''southern_africa'', [''ZA'', ''ZW'', ''BW'', ''MZ'', ''ZM'', ''MW'', ''NA'']),
      (''north_africa'', [''EG'', ''MA'', ''TN'', ''DZ'', ''LY'']),
      (''europe'', [''GB'', ''DE'', ''FR'', ''NL'', ''IE'', ''ES'', ''IT'', ''SE'', ''NO'', ''DK'', ''FI'', ''PL'', ''PT'', ''AT'', ''CH'', ''BE'']),
      (''oceania'', [''AU'', ''NZ'']),
      (''americas'', [''US'', ''CA'', ''BR'', ''MX'']),
      (''asia'', [''IN'', ''SG'', ''JP'', ''CN'', ''AE'', ''IL''])]"

definition DetectRegion :: "string \<Rightarrow> string" where
  "DetectRegion country = (case List.find (\<lambda>(region, codes). ToUpper country \<in> set codes) regionMap of None \<Rightarrow> [] | Some (region, _) \<Rightarrow> region)"

definition sanitizeDescription :: "string \<Rightarrow> string" where
  "sanitizeDescription s = TrimSpace (filter (\<lambda>ch. ch \<noteq> CHR 0x00) s)"

definition contentHash :: "accept_codec \<Rightarrow> string \<Rightarrow> string \<Rightarrow> string \<Rightarrow> string \<Rightarrow> string \<Rightarrow> string" where
  "contentHash ac externalID title company location description =
     ac_sha256hex ac (Join ''|'' [externalID, title, company, location, description])"

definition TrimRight_slash :: "string \<Rightarrow> string" where
  "TrimRight_slash s = rev (dropWhile (\<lambda>ch. ch = CHR ''/'') (rev s))"

definition ApplyURLIdentity :: "accept_codec \<Rightarrow> string \<Rightarrow> string" where
  "ApplyURLIdentity ac raw0 =
     (let raw = TrimSpace raw0 in
      if raw = [] then []
      else case ac_parse ac raw of
        None \<Rightarrow> []
      | Some u \<Rightarrow>
          if pu_Host u = [] then []
          else let path = TrimRight_slash (ac_escapedPath ac u) in
            if path = [] then [] else ToLower (pu_Hostname u) @ path)"

definition nonblank :: "string list \<Rightarrow> string list" where
  "nonblank = filter (\<lambda>s. s \<noteq> [])"

text \<open>The fields of a \<open>JobVariant\<close> that are copied from attributes and that no caller reads are left out.\<close>

definition ExternalToVariant :: "accept_codec \<Rightarrow> ExternalOpportunity \<Rightarrow> string \<Rightarrow> string \<Rightarrow> string \<Rightarrow> time \<Rightarrow> JobVariant" where
  "ExternalToVariant ac ext sourceID country0 language scrapedAt =
     (let title = TrimSpace (eo_Title ext); location0 = TrimSpace (eo_LocationText ext);
          description = sanitizeDescription (ac_html ac (eo_Description ext));
          applyURL = TrimSpace (eo_ApplyURL ext); externalID0 = TrimSpace (eo_ExternalID ext);
          howToApply = sanitizeDescription (ac_html ac (TrimSpace (eo_HowToApply ext)));
          company = normalizeCompany (TrimSpace (eo_IssuingEntity ext));
          declared = ToUpper (TrimSpace country0);
          country = (case eo_AnchorLocation ext of None \<Rightarrow> declared
            | Some l \<Rightarrow> let c = ToUpper (TrimSpace (lo_Country l)) in if c \<noteq> [] then c else declared);
          region0 = (case eo_AnchorLocation ext of None \<Rightarrow> [] | Some l \<Rightarrow> TrimSpace (lo_Region l));
          city = (case eo_AnchorLocation ext of None \<Rightarrow> [] | Some l \<Rightarrow> TrimSpace (lo_City l));
          region = (if region0 = [] then DetectRegion country else region0);
          location = (if location0 = [] then Join '', '' (nonblank [city, region, country]) else location0);
          rt = ToLower (AttrString ext ''remote_type'');
          hash = contentHash ac externalID0 title company location description;
          applyID = ApplyURLIdentity ac applyURL;
          externalID = (if externalID0 = [] then (if applyID \<noteq> [] then applyID else take 16 hash) else externalID0);
          postingKey = (if applyID \<noteq> [] \<and> applyID \<noteq> externalID then externalID @ ''|'' @ applyID else externalID)
      in \<lparr>jv_ExternalID = externalID, jv_SourceID = sourceID,
          jv_HardKey = BuildHardKey (ac_sha256hex ac) company title location postingKey,
          jv_SourceURL = TrimSpace (eo_SourceURL ext), jv_ApplyURL = applyURL, jv_Title = title, jv_Company = company,
          jv_LocationText = location, jv_Country = country, jv_Region = region, jv_City = city,
          jv_Language = detectLanguage ac (ac_text ac description) language,
          jv_RemoteType = (if rt = [] \<and> eo_Remote ext then ''remote'' else rt),
          jv_EmploymentType = ToLower (AttrString ext ''employment_type''),
          jv_SalaryMin = eo_AmountMin ext, jv_SalaryMax = eo_AmountMax ext, jv_Currency = ToUpper (eo_Currency ext),
          jv_Description = description, jv_HowToApply = howToApply,
          jv_Seniority = ToLower (TrimSpace (AttrString ext ''seniority'')),
          jv_Deadline = (case eo_Deadline ext of None \<Rightarrow> [] | Some t \<Rightarrow> if IsZero t then [] else ac_RFC3339 ac t),
          jv_PostedAt = eo_PostedAt ext, jv_ScrapedAt = scrapedAt, jv_ContentHash = hash\<rparr>)"

text \<open>\<open>geocoder\<close> is the gazetteer of the normaliser, if it has one.\<close>

definition Normalizer_Normalize ::
  "accept_codec \<Rightarrow> Location list option \<Rightarrow> ExternalOpportunity \<Rightarrow> string \<Rightarrow> string \<Rightarrow> string \<Rightarrow> time \<Rightarrow> ExternalOpportunity \<times> JobVariant"
where
  "Normalizer_Normalize ac geocoder ext sourceID country language scrapedAt =
     (let ext1 = (case geocoder of None \<Rightarrow> ext | Some rows \<Rightarrow> Enrich rows ext)
      in (ext1, ExternalToVariant ac ext1 sourceID country language scrapedAt))"

section \<open>Accepting a record\<close>

record Reject =
  rj_Kind :: string
  rj_Title :: string
  rj_Reason :: string
  rj_Missing :: "string list"
  rj_Detail :: string

definition prepare_location :: "Source \<Rightarrow> Location option \<Rightarrow> Location option" where
  "prepare_location src l =
     (if src_Country src \<noteq> []
      then (case l of
          None \<Rightarrow> Some \<lparr>lo_Country = src_Country src, lo_Region = [], lo_City = [], lo_Lat = 0, lo_Lon = 0\<rparr>
        | Some x \<Rightarrow> if TrimSpace (lo_Country x) = [] then Some (x\<lparr>lo_Country := src_Country src\<rparr>) else Some x)
      else l)"

definition Prepare :: "Source \<Rightarrow> ExternalOpportunity \<Rightarrow> ExternalOpportunity" where
  "Prepare src opp =
     (let apply = (if TrimSpace (eo_ApplyURL opp) = [] then TrimSpace (eo_SourceURL opp) else eo_ApplyURL opp);
          kind0 = (if TrimSpace (eo_Kind opp) = [] \<and> src_Kinds src \<noteq> [] then hd (src_Kinds src) else eo_Kind opp);
          kind = (if TrimSpace kind0 = [] then ''job'' else kind0);
          loc = prepare_location src (eo_AnchorLocation opp);
          txt = (case loc of
              None \<Rightarrow> eo_LocationText opp
            | Some l \<Rightarrow> if TrimSpace (eo_LocationText opp) = []
                then Join '', '' (nonblank (map TrimSpace [lo_City l, lo_Region l, lo_Country l])) else eo_LocationText opp)
      in opp\<lparr>eo_ApplyURL := apply, eo_Kind := kind, eo_AnchorLocation := loc, eo_LocationText := txt\<rparr>)"

definition RejectionReason :: "VerifyResult \<Rightarrow> string" where
  "RejectionReason r = (if ver_Mismatch r \<noteq> [] then ''mismatch''
     else case ver_Missing r of k # _ \<Rightarrow> ''missing_'' @ k | [] \<Rightarrow> ''unknown'')"

definition rejectDetail :: "VerifyResult \<Rightarrow> string" where
  "rejectDetail r = (if ver_Mismatch r \<noteq> [] then ver_Mismatch r
     else if ver_Missing r \<noteq> [] then ''missing: '' @ Join '','' (ver_Missing r) else ''rejected'')"

definition set_nonempty :: "string \<Rightarrow> string \<Rightarrow> gomap \<Rightarrow> gomap" where
  "set_nonempty key v attrs = (if v \<noteq> [] then attrs(key \<mapsto> AStr v) else attrs)"

definition accept_attrs :: "accept_codec \<Rightarrow> ExternalOpportunity \<Rightarrow> JobVariant \<Rightarrow> gomap" where
  "accept_attrs ac opp v =
     (let a1 = (eo_Attributes opp)(''description'' \<mapsto> AStr (jv_Description v), ''how_to_apply'' := None);
          a2 = a1(''language'' \<mapsto> AStr (jv_Language v), ''remote_type'' \<mapsto> AStr (jv_RemoteType v),
                  ''employment_type'' \<mapsto> AStr (jv_EmploymentType v), ''location_text'' \<mapsto> AStr (jv_LocationText v),
                  ''content_hash'' \<mapsto> AStr (jv_ContentHash v));
          cats = nonblank (map TrimSpace (eo_Categories opp));
          a3 = (if cats \<noteq> [] then a2(''categories'' \<mapsto> AList (map AStr cats)) else a2);
          a4 = set_nonempty ''city'' (jv_City v) (set_nonempty ''region'' (jv_Region v) a3);
          a5 = (case jv_PostedAt v of None \<Rightarrow> a4 | Some t \<Rightarrow> a4(''posted_at'' \<mapsto> AStr (ac_RFC3339 ac t)))
      in set_nonempty ''seniority'' (jv_Seniority v) (set_nonempty ''deadline'' (jv_Deadline v) a5))"

definition StageRaw :: string where "StageRaw = ''raw''"

definition accept_payload :: "accept_codec \<Rightarrow> string \<Rightarrow> Source \<Rightarrow> ExternalOpportunity \<Rightarrow> JobVariant \<Rightarrow> time \<Rightarrow> VariantIngestedV1" where
  "accept_payload ac xid src opp v now =
     \<lparr>vi_VariantID = xid, vi_SourceID = src_ID src, vi_ExternalID = jv_ExternalID v, vi_HardKey = jv_HardKey v,
      vi_Kind = (if eo_Kind opp = [] then ''job'' else eo_Kind opp), vi_Stage = StageRaw, vi_Title = jv_Title v,
      vi_ApplyURL = jv_ApplyURL v, vi_HowToApply = jv_HowToApply v, vi_IssuingEntity = jv_Company v, vi_AnchorCountry = jv_Country v,
      vi_AnchorRegion = jv_Region v, vi_AnchorCity = jv_City v, vi_Remote = (jv_RemoteType v = ''remote''), vi_Currency = jv_Currency v,
      vi_AmountMin = jv_SalaryMin v, vi_AmountMax = jv_SalaryMax v, vi_Attributes = accept_attrs ac opp v, vi_ScrapedAt = now\<rparr>"

text \<open>\<open>Kinds\<close> and \<open>Normalizer\<close> of the input are optional; the source is given.\<close>

definition Accept ::
  "accept_codec \<Rightarrow> Registry option \<Rightarrow> Location list option option \<Rightarrow> string \<Rightarrow> time \<Rightarrow> Source \<Rightarrow> ExternalOpportunity \<Rightarrow>
    Reject + VariantIngestedV1"
where
  "Accept ac kinds normalizer xid now src opp0 =
     (let opp = Prepare src opp0;
          accepted = (let srcCountry = TrimSpace (src_Country src);
              (opp1, v) = (case normalizer of
                  Some geocoder \<Rightarrow> Normalizer_Normalize ac geocoder opp (src_ID src) srcCountry (src_Language src) now
                | None \<Rightarrow> (opp, ExternalToVariant ac opp (src_ID src) srcCountry (src_Language src) now))
            in Inr (accept_payload ac xid src opp1 v now))
      in case kinds of
           None \<Rightarrow> accepted
         | Some reg \<Rightarrow> let res = Verify opp src reg in
             if \<not> ver_OK res
             then Inl \<lparr>rj_Kind = eo_Kind opp, rj_Title = eo_Title opp, rj_Reason = RejectionReason res, rj_Missing = ver_Missing res,
                       rj_Detail = rejectDetail res\<rparr>
             else accepted)"

definition minPeelRunes :: nat where "minPeelRunes = 80"

text \<open>\<open>peel\<close> is the inference call: the public text and the instructions, or an error.\<close>

definition PeelAccepted ::
  "(string \<Rightarrow> string \<Rightarrow> string \<Rightarrow> go_error + string \<times> string) \<Rightarrow> VariantIngestedV1 \<Rightarrow> go_error option \<times> VariantIngestedV1"
where
  "PeelAccepted peel p =
     (if TrimSpace (vi_HowToApply p) \<noteq> [] then (None, p)
      else let desc = TrimSpace (asString (vi_Attributes p) ''description'') in
        if desc = [] \<or> length desc < minPeelRunes then (None, p)
        else case peel (vi_Title p) (vi_Kind p) desc of
          Inl e \<Rightarrow> (Some e, p)
        | Inr (clean0, how0) \<Rightarrow>
            let how = TrimSpace how0; clean = TrimSpace clean0 in
            if how = [] \<or> clean = [] then (None, p)
            else (None, p\<lparr>vi_Attributes := (vi_Attributes p)(''description'' \<mapsto> AStr clean, ''how_to_apply'' := None), vi_HowToApply := how\<rparr>))"

end
