(* ===== verification/Crawler.thy ===== *)
theory Crawler
  imports Crawl_Runs Crawl_Accept
begin

text \<open>
  The crawl request handler of \<open>apps/crawler/service/crawl_request_handler.go\<close>: it resolves how a
  source is crawled, opens or claims the run, drives one bounded slice of pages, and finalises the
  run.

  \<open>crawlworld\<close> joins the databases the handler writes (the crawl tables, the ingestion queue, the
  product catalog when it is separate, the URL frontier) and the events it published.  A publication
  fails like a statement.  \<open>crawl_iter\<close> is what an iterator of a connector or of a recipe executor
  delivers: its pages, and the error it reports after so many of them.  \<open>crawl_deps\<close> holds the
  collaborators that the handler is wired with, \<open>crawl_env\<close> the identifiers it draws and the clock
  readings it takes; items and pages are numbered from zero.
\<close>

section \<open>Events\<close>

record CrawlRequestV1 =
  rq_RequestID :: string
  rq_Source :: string
  rq_Key :: string
  rq_ScheduledAt :: time
  rq_Mode :: string
  rq_Attempt :: int
  rq_RunID :: string
  rq_IsContinuation :: bool

record CrawlPageCompletedV1 =
  pc_RequestID :: string
  pc_SourceID :: string
  pc_URL :: string
  pc_HTTPStatus :: int
  pc_JobsFound :: int
  pc_JobsEmitted :: int
  pc_JobsRejected :: int
  pc_Cursor :: string
  pc_ErrorCode :: string
  pc_ErrorMessage :: string

record VariantRejectedV1 =
  rv_VariantID :: string
  rv_SourceID :: string
  rv_Kind :: string
  rv_Title :: string
  rv_Reasons :: "string list"
  rv_CrawlJobID :: string
  rv_RejectedAt :: time

section \<open>The databases and the published events\<close>

record crawlworld =
  cw_db :: crawldb
  cw_queue :: jobdb
  cw_product :: "jobdb option"
  cw_frontier :: frontdb
  cw_requests :: "CrawlRequestV1 list"
  cw_completed :: "CrawlPageCompletedV1 list"
  cw_regenerates :: "(string \<times> real) list"

definition lift_sql :: "('w \<Rightarrow> 's) \<Rightarrow> ('s \<Rightarrow> 'w \<Rightarrow> 'w) \<Rightarrow> ('s, 'a) sql \<Rightarrow> ('w, 'a) sql" where
  "lift_sql get put m = (\<lambda>(w, fs). case m (get w, fs) of (x, (d, fs')) \<Rightarrow> (x, (put d w, fs')))"

definition on_crawl :: "(crawldb, 'a) sql \<Rightarrow> (crawlworld, 'a) sql" where
  "on_crawl = lift_sql cw_db (\<lambda>d w. w\<lparr>cw_db := d\<rparr>)"

definition on_queue :: "(jobdb, 'a) sql \<Rightarrow> (crawlworld, 'a) sql" where
  "on_queue = lift_sql cw_queue (\<lambda>d w. w\<lparr>cw_queue := d\<rparr>)"

definition on_frontier :: "(frontdb, 'a) sql \<Rightarrow> (crawlworld, 'a) sql" where
  "on_frontier = lift_sql cw_frontier (\<lambda>d w. w\<lparr>cw_frontier := d\<rparr>)"

definition product_of :: "crawlworld \<Rightarrow> jobdb" where
  "product_of w = (case cw_product w of None \<Rightarrow> cw_queue w | Some p \<Rightarrow> p)"

definition set_product :: "jobdb \<Rightarrow> crawlworld \<Rightarrow> crawlworld" where
  "set_product d w = (case cw_product w of None \<Rightarrow> w\<lparr>cw_queue := d\<rparr> | Some _ \<Rightarrow> w\<lparr>cw_product := Some d\<rparr>)"

definition on_catalog :: "(jobdb, 'a) sql \<Rightarrow> (crawlworld, 'a) sql" where
  "on_catalog = lift_sql product_of set_product"

definition emit_request :: "CrawlRequestV1 \<Rightarrow> (crawlworld, unit) sql" where
  "emit_request r = sql_exec (\<lambda>w. w\<lparr>cw_requests := cw_requests w @ [r]\<rparr>)"

definition emit_page_completed :: "CrawlPageCompletedV1 \<Rightarrow> (crawlworld, unit) sql" where
  "emit_page_completed p = sql_exec (\<lambda>w. w\<lparr>cw_completed := cw_completed w @ [p]\<rparr>)"

text \<open>The capacity admitter of \<open>pkg/jobqueue\<close> as the handlers call it.\<close>

record admit_conf =
  ad_MaxDepth :: int
  ad_OldestMax :: duration

definition Admitter_Admit :: "admit_conf \<Rightarrow> time \<Rightarrow> int \<Rightarrow> (crawlworld, int \<times> duration) sql" where
  "Admitter_Admit cfg now want =
     (\<lambda>(w, fs). (Inr (Admit (ad_MaxDepth cfg) (ad_OldestMax cfg) None want now (cw_queue w, fs)), (w, snd (next_fault fs))))"

section \<open>Iterators and collaborators\<close>

record CheckpointState =
  ck_Cursor :: string
  ck_PageIdx :: int
  ck_LastURL :: string

record crawl_page =
  pg_Items :: "ExternalOpportunity list"
  pg_HTTPStatus :: int
  pg_Cursor :: "string option"
  pg_Checkpoint :: "CheckpointState option"

record crawl_iter =
  ci_Pages :: "crawl_page list"
  ci_Err :: "nat \<Rightarrow> go_error option"

record connector =
  cn_Crawl :: "Source \<Rightarrow> crawl_iter"
  cn_Resume :: "(Source \<Rightarrow> CheckpointState \<Rightarrow> crawl_iter) option"

record crawl_deps =
  dp_Owner :: string
  dp_SliceMaxPages :: int
  dp_SliceMaxSeconds :: int
  dp_RunLeaseTTLSec :: int
  dp_RunStuckMaxAttempts :: int
  dp_IngestMaxPending :: int
  dp_IngestMaxOldestAge :: duration
  dp_QueueMaxPending :: int
  dp_Frontier :: bool
  dp_RecipeEnabled :: bool
  dp_Kinds :: "Registry option"
  dp_Normalizer :: "Location list option option"
  dp_HowToApply :: "(string \<Rightarrow> string \<Rightarrow> string \<Rightarrow> go_error + string \<times> string) option"
  dp_Admitter :: "admit_conf option"
  dp_Registry :: "string \<Rightarrow> connector option"
  dp_Executor :: "string \<Rightarrow> Source \<Rightarrow> crawl_iter"
  dp_ExecutorResume :: "string \<Rightarrow> Source \<Rightarrow> string \<Rightarrow> go_error + crawl_iter"
  dp_Stock :: "string \<Rightarrow> (string \<times> string) option"
  dp_acquisition :: "string \<Rightarrow> string option"
  dp_withVersion :: "int \<Rightarrow> string \<Rightarrow> string"
  dp_accept :: accept_codec
  dp_urls :: url_codec
  dp_marshalVariant :: "VariantIngestedV1 \<Rightarrow> goany option"
  dp_marshalReject :: "VariantRejectedV1 \<Rightarrow> goany option"

record crawl_env =
  ev_PauseNow :: time
  ev_RecipeID :: string
  ev_RecipeNow :: time
  ev_RunID :: string
  ev_RunNow :: time
  ev_JobID :: string
  ev_JobNow :: time
  ev_StartNow :: time
  ev_LoopNow :: time
  ev_AcceptNow :: "nat \<Rightarrow> time"
  ev_VariantID :: "nat \<Rightarrow> string"
  ev_IngestID :: "nat \<Rightarrow> string"
  ev_EventID :: "nat \<Rightarrow> string"
  ev_QueueNow :: "nat \<Rightarrow> time"
  ev_URLID :: "nat \<Rightarrow> string"
  ev_FrontierNow :: "nat \<Rightarrow> time"
  ev_ProgressNow :: "nat \<Rightarrow> time"
  ev_PageNow :: "nat \<Rightarrow> time"
  ev_StatsNow :: "nat \<Rightarrow> time"
  ev_FinalNow :: time
  ev_ReconcileNow :: time
  ev_AdmitNow :: time
  ev_RequestID :: string
  ev_FinishNow :: time

section \<open>Resolving how a source is crawled\<close>

datatype crawl_path = UseRecipe string | UseConnector connector | RecipeRequired | NoEngine

definition bootstrapStockRecipe :: "crawl_deps \<Rightarrow> crawl_env \<Rightarrow> string \<Rightarrow> string \<Rightarrow> string \<Rightarrow> (crawlworld, unit) sql" where
  "bootstrapStockRecipe dp env sourceID name rcp =
     sql_bind (sql_try (on_crawl (Recipes_Active (dp_acquisition dp) sourceID))) (\<lambda>active.
       case active of
         Inr (Some _) \<Rightarrow> sql_return ()
       | _ \<Rightarrow> void (sql_try (on_crawl (Recipes_Activate (dp_withVersion dp) (ev_RecipeID env) (ev_RecipeNow env) sourceID rcp 1
                 (''stock:'' @ name) ''stock_bootstrap''))))"

definition resolve_path :: "crawl_deps \<Rightarrow> crawl_env \<Rightarrow> Source \<Rightarrow> (crawlworld, crawl_path) sql" where
  "resolve_path dp env src =
     (let engine = (if RequiresRecipe (src_Type src) then RecipeRequired
            else case dp_Registry dp (src_Type src) of None \<Rightarrow> NoEngine | Some c \<Rightarrow> UseConnector c)
      in if \<not> dp_RecipeEnabled dp then sql_return engine
         else sql_bind (sql_try (on_crawl (Recipes_Active (dp_acquisition dp) (src_ID src)))) (\<lambda>r.
           case r of
             Inr (Some rcp) \<Rightarrow> sql_return (UseRecipe rcp)
           | _ \<Rightarrow> (case dp_Stock dp (src_BaseURL src) of
               Some (name, rcp) \<Rightarrow> sql_bind (bootstrapStockRecipe dp env (src_ID src) name rcp) (\<lambda>_. sql_return (UseRecipe rcp))
             | None \<Rightarrow> sql_return engine)))"

text \<open>The pages of a source that seed the generation of a recipe.\<close>

fun dedup_urls :: "nat \<Rightarrow> string list \<Rightarrow> string list \<Rightarrow> string list" where
  "dedup_urls limit out [] = out"
| "dedup_urls limit out (u # us) =
     (if u \<in> set out then dedup_urls limit out us
      else if length (out @ [u]) \<ge> limit then out @ [u] else dedup_urls limit (out @ [u]) us)"

definition RecentURLs :: "string \<Rightarrow> int \<Rightarrow> (jobdb, string list) sql" where
  "RecentURLs sourceID limit0 =
     (let limit = (if limit0 \<le> 0 then 4 else limit0) in
      sql_query (\<lambda>d. dedup_urls (nat limit) [] (map os_ApplyURL (take (nat (limit * 8))
        (sort_key (\<lambda>s. - os_LastSeenAt s) (filter (\<lambda>s. os_SourceID s = sourceID \<and> os_ApplyURL s \<noteq> []) (opportunity_sources d)))))))"

definition failed_page :: "CrawlRequestV1 \<Rightarrow> string \<Rightarrow> string \<Rightarrow> CrawlPageCompletedV1" where
  "failed_page req url code =
     \<lparr>pc_RequestID = rq_RequestID req, pc_SourceID = rq_Source req, pc_URL = url, pc_HTTPStatus = 0, pc_JobsFound = 0, pc_JobsEmitted = 0,
      pc_JobsRejected = 0, pc_Cursor = [], pc_ErrorCode = code, pc_ErrorMessage = []\<rparr>"

definition emitCompleted :: "CrawlPageCompletedV1 \<Rightarrow> (crawlworld, unit) sql" where
  "emitCompleted p = void (sql_try (emit_page_completed p))"

text \<open>A source without a way to be crawled is paused.\<close>

definition refuse_source :: "crawl_env \<Rightarrow> CrawlRequestV1 \<Rightarrow> Source \<Rightarrow> string \<Rightarrow> (crawlworld, unit) sql" where
  "refuse_source env req src code =
     sql_bind (sql_try (on_crawl (SetStatus (ev_PauseNow env) (src_ID src) SourcePaused))) (\<lambda>_.
     emitCompleted (failed_page req (src_BaseURL src) code))"

definition lease_ttl :: "int \<Rightarrow> duration" where
  "lease_ttl secs = (if secs * Second \<le> 0 then 5 * Minute else secs * Second)"

section \<open>The run and the ledger row\<close>

text \<open>\<open>None\<close> is a delivery that is dropped.\<close>

definition resolve_run :: "crawl_deps \<Rightarrow> crawl_env \<Rightarrow> CrawlRequestV1 \<Rightarrow> Source \<Rightarrow> (crawlworld, CrawlRun option) sql" where
  "resolve_run dp env req src =
     (let ttl = lease_ttl (dp_RunLeaseTTLSec dp) in
      if rq_RunID req \<noteq> []
      then sql_bind (sql_wrap ''crawl.request: claim run'' (on_crawl (Runs_Claim (ev_RunNow env) (rq_RunID req) (dp_Owner dp) ttl))) (\<lambda>(claimed, ok).
             sql_return (if ok then claimed else None))
      else sql_bind (sql_wrap ''crawl.request: start run''
               (on_crawl (StartRun (ev_RunID env) (ev_RunNow env) (src_ID src) (rq_ScheduledAt req) (dp_Owner dp) ttl))) (\<lambda>(opened, started).
             sql_return (if started then opened else None)))"

definition ledger_row :: "crawl_deps \<Rightarrow> crawl_env \<Rightarrow> CrawlRequestV1 \<Rightarrow> Source \<Rightarrow> CrawlJob" where
  "ledger_row dp env req src =
     \<lparr>cj_ID = [], cj_ScheduledAt = (if IsZero (rq_ScheduledAt req) then ev_JobNow env else rq_ScheduledAt req), cj_CreatedAt = 0,
      cj_UpdatedAt = 0, cj_SourceID = src_ID src, cj_StartedAt = None, cj_FinishedAt = None, cj_Status = CrawlScheduled, cj_Attempt = 1,
      cj_IdempotencyKey = (if rq_Key req \<noteq> [] then rq_Key req else if rq_RunID req \<noteq> [] then rq_RequestID req
        else src_ID src @ '':'' @ ac_RFC3339 (dp_accept dp) (rq_ScheduledAt req)),
      cj_ErrorCode = [], cj_ErrorMessage = [], cj_JobsFound = 0, cj_JobsStored = 0\<rparr>"

definition open_job :: "crawl_deps \<Rightarrow> crawl_env \<Rightarrow> CrawlRequestV1 \<Rightarrow> Source \<Rightarrow> (crawlworld, CrawlJob) sql" where
  "open_job dp env req src =
     (let row = ledger_row dp env req src in
      sql_bind (sql_try (on_crawl (CrawlJobs_Create (ev_JobID env) (ev_JobNow env) row))) (\<lambda>created.
      sql_bind (case created of
          Inr job \<Rightarrow> sql_return job
        | Inl e \<Rightarrow> sql_bind (sql_try (on_crawl (GetByIdempotencyKey (cj_IdempotencyKey row)))) (\<lambda>found.
            case found of Inr (Some existing) \<Rightarrow> sql_return existing
            | _ \<Rightarrow> sql_raise (ErrWrap ''crawl.request: open crawl_jobs row'' e))) (\<lambda>job.
      sql_bind (sql_wrap ''crawl.request: mark started'' (on_crawl (CrawlJobs_Start (ev_StartNow env) (cj_ID job)))) (\<lambda>_.
      sql_return job))))"

definition build_iter :: "crawl_deps \<Rightarrow> crawl_path \<Rightarrow> Source \<Rightarrow> CrawlRun \<Rightarrow> crawl_iter" where
  "build_iter dp path src run =
     (let cursor = COALESCE_empty (cr_Cursor run) in
      case path of
        UseRecipe rcp \<Rightarrow>
          if cursor \<noteq> [] then (case dp_ExecutorResume dp rcp src cursor of Inr it \<Rightarrow> it | Inl _ \<Rightarrow> dp_Executor dp rcp src)
          else dp_Executor dp rcp src
      | UseConnector c \<Rightarrow>
          (case cn_Resume c of
             Some resume \<Rightarrow> if cursor \<noteq> []
               then resume src \<lparr>ck_Cursor = cursor, ck_PageIdx = cr_PageIdx run, ck_LastURL = cr_LastURL run\<rparr> else cn_Crawl c src
           | None \<Rightarrow> cn_Crawl c src)
      | _ \<Rightarrow> \<lparr>ci_Pages = [], ci_Err = (\<lambda>_. None)\<rparr>)"

section \<open>One slice\<close>

record slice_acc =
  sa_Found :: nat
  sa_Emitted :: nat
  sa_Rejected :: nat
  sa_LastCursor :: string
  sa_IterErr :: "go_error option"
  sa_Status :: int
  sa_RunCursor :: string
  sa_RunPageIdx :: int
  sa_RunLastURL :: string
  sa_Pages :: nat
  sa_Next :: nat
  sa_Bounded :: bool

definition reject_row :: "crawl_env \<Rightarrow> nat \<Rightarrow> Source \<Rightarrow> string \<Rightarrow> ExternalOpportunity \<Rightarrow> Reject \<Rightarrow> VariantRejectedV1" where
  "reject_row env k src jobID opp rej =
     (let reasons0 = rj_Missing rej @ (if rj_Detail rej \<noteq> [] then [rj_Detail rej] else [])
      in \<lparr>rv_VariantID = ev_VariantID env k, rv_SourceID = src_ID src, rv_Kind = rj_Kind rej, rv_Title = eo_Title opp,
          rv_Reasons = (if reasons0 = [] then [rj_Reason rej] else reasons0), rv_CrawlJobID = jobID, rv_RejectedAt = ev_AcceptNow env k\<rparr>)"

definition publishAcceptReject ::
  "crawl_deps \<Rightarrow> crawl_env \<Rightarrow> nat \<Rightarrow> Source \<Rightarrow> string \<Rightarrow> ExternalOpportunity \<Rightarrow> Reject \<Rightarrow> (crawlworld, unit) sql"
where
  "publishAcceptReject dp env k src jobID opp rej =
     (let row = reject_row env k src jobID opp rej in
      on_queue (RecordRejected (ev_EventID env k) (ev_IngestID env k) (rv_VariantID row) (src_ID src) (dp_marshalReject dp row) (ev_QueueNow env k)))"

definition peeled :: "crawl_deps \<Rightarrow> VariantIngestedV1 \<Rightarrow> VariantIngestedV1" where
  "peeled dp p = (case dp_HowToApply dp of None \<Rightarrow> p | Some peel \<Rightarrow> snd (PeelAccepted peel p))"

definition ingest_request :: "crawl_deps \<Rightarrow> string \<Rightarrow> string \<Rightarrow> VariantIngestedV1 \<Rightarrow> goany \<Rightarrow> EnqueueRequest" where
  "ingest_request dp runID jobID p body =
     \<lparr>rq_VariantID = vi_VariantID p, rq_SourceID = vi_SourceID p, rq_CrawlRunID = runID, rq_CrawlJobID = jobID,
      rq_IdempotencyKey = jobID @ '':'' @ vi_HardKey p, rq_Payload = Some body\<rparr>"

text \<open>The items of one page; the flag says that the loop over the pages is left.\<close>

fun do_items ::
  "crawl_deps \<Rightarrow> crawl_env \<Rightarrow> Source \<Rightarrow> string \<Rightarrow> string \<Rightarrow> ExternalOpportunity list \<Rightarrow> slice_acc \<Rightarrow> (crawlworld, slice_acc \<times> bool) sql"
where
  "do_items dp env src runID jobID [] a = sql_return (a, False)"
| "do_items dp env src runID jobID (opp # opps) a =
     (let k = sa_Found a; a1 = a\<lparr>sa_Found := sa_Found a + 1\<rparr> in
      case Accept (dp_accept dp) (dp_Kinds dp) (dp_Normalizer dp) (ev_VariantID env k) (ev_AcceptNow env k) src opp of
        Inl rej \<Rightarrow>
          sql_bind (sql_try (publishAcceptReject dp env k src jobID opp rej)) (\<lambda>_.
          do_items dp env src runID jobID opps (a1\<lparr>sa_Rejected := sa_Rejected a + 1\<rparr>))
      | Inr p0 \<Rightarrow>
          let p = peeled dp p0 in
          (case dp_marshalVariant dp p of
             None \<Rightarrow> sql_return (a1\<lparr>sa_IterErr := Some (ErrNew ''marshal variant'')\<rparr>, True)
           | Some body \<Rightarrow>
               sql_bind (sql_try (on_queue (Enqueue (dp_QueueMaxPending dp) (ev_IngestID env k) (ev_EventID env k)
                   (ingest_request dp runID jobID p body) (ev_QueueNow env k)))) (\<lambda>r.
               case r of
                 Inr _ \<Rightarrow> do_items dp env src runID jobID opps (a1\<lparr>sa_Emitted := sa_Emitted a + 1\<rparr>)
               | Inl e \<Rightarrow>
                   if errors_Is e ErrCapacity then sql_return (a1\<lparr>sa_Bounded := True\<rparr>, True)
                   else sql_return (a1\<lparr>sa_IterErr := Some (ErrWrap ''durably enqueue variant'' e)\<rparr>, True))))"

text \<open>Discovered URLs of a source that opted into the frontier: how many were enqueued and skipped.\<close>

definition item_url :: "ExternalOpportunity \<Rightarrow> string" where
  "item_url opp = (if eo_SourceURL opp = [] then eo_ApplyURL opp else eo_SourceURL opp)"

definition frontier_batch :: "crawl_deps \<Rightarrow> Source \<Rightarrow> ExternalOpportunity list \<Rightarrow> URL list" where
  "frontier_batch dp src items =
     concat (map (\<lambda>opp. if item_url opp = [] then [] else
       let u = CanonicalizeURL (uc_parse (dp_urls dp)) (uc_render (dp_urls dp)) (item_url opp); host = HostOf (uc_parse (dp_urls dp)) u
       in if host = [] then [] else [\<lparr>u_URLID = [], u_CanonicalURL = u, u_Host = host, u_SourceID = src_ID src,
            u_Priority = src_Score src * (7 / 10) + 1 / 2 * (3 / 10), u_State = [], u_Attempts = 0, u_EnqueuedAt = 0, u_ClaimedAt = None,
            u_NextAttemptAt = None, u_Metadata = []\<rparr>]) items)"

definition enqueueFrontier ::
  "crawl_deps \<Rightarrow> crawl_env \<Rightarrow> nat \<Rightarrow> Source \<Rightarrow> ExternalOpportunity list \<Rightarrow> (crawlworld, nat \<times> nat) sql"
where
  "enqueueFrontier dp env k src items =
     (let batch = frontier_batch dp src items in
      if batch = [] then sql_return (0, length items)
      else on_frontier (\<lambda>z. case Frontier_Enqueue (dp_urls dp) (ev_FrontierNow env k)
               (zip (map (\<lambda>n. ev_URLID env (k + n)) [0..<length batch]) batch) z of
             (acc, z') \<Rightarrow> (Inr (length (ea_results acc), length items - length batch + (length batch - length (ea_results acc))), z')))"

text \<open>\<open>advance\<close>: the position is kept and the lease renewed; the answer is whether the budget is spent.\<close>

definition advance :: "crawl_deps \<Rightarrow> crawl_env \<Rightarrow> string \<Rightarrow> crawl_page \<Rightarrow> slice_acc \<Rightarrow> (crawlworld, slice_acc \<times> bool) sql" where
  "advance dp env runID page a =
     (let n = sa_Pages a;
          maxPages = (if dp_SliceMaxPages dp \<le> 0 then 50 else dp_SliceMaxPages dp);
          maxDur = (if dp_SliceMaxSeconds dp * Second \<le> 0 then 120 * Second else dp_SliceMaxSeconds dp * Second);
          a1 = (case pg_Checkpoint page of None \<Rightarrow> a
            | Some c \<Rightarrow> a\<lparr>sa_RunCursor := ck_Cursor c, sa_RunPageIdx := ck_PageIdx c, sa_RunLastURL := ck_LastURL c\<rparr>);
          a2 = a1\<lparr>sa_Pages := n + 1\<rparr>
      in sql_bind (case pg_Checkpoint page of
             None \<Rightarrow> sql_return ()
           | Some c \<Rightarrow> void (sql_try (on_crawl (Progress (ev_ProgressNow env n) runID (ck_Cursor c) (ck_PageIdx c) (ck_LastURL c)
                 (lease_ttl (dp_RunLeaseTTLSec dp)))))) (\<lambda>_.
         sql_return (a2, int (n + 1) \<ge> maxPages \<or> ev_PageNow env n > ev_LoopNow env + maxDur)))"

definition ingestBacklogged :: "crawl_deps \<Rightarrow> time \<Rightarrow> (crawlworld, bool) sql" where
  "ingestBacklogged dp now =
     sql_bind (sql_try (on_queue (Stats_of now))) (\<lambda>r. sql_return (case r of
         Inl _ \<Rightarrow> True
       | Inr st \<Rightarrow> (dp_IngestMaxPending dp > 0 \<and> st_Pending st \<ge> dp_IngestMaxPending dp) \<or>
           (dp_IngestMaxOldestAge dp > 0 \<and> st_OldestAge st \<ge> dp_IngestMaxOldestAge dp)))"

definition page_cursor :: "crawl_page \<Rightarrow> slice_acc \<Rightarrow> slice_acc" where
  "page_cursor page a = (case pg_Cursor page of None \<Rightarrow> a | Some c \<Rightarrow> a\<lparr>sa_LastCursor := c\<rparr>)"

definition enter_page :: "crawl_page \<Rightarrow> slice_acc \<Rightarrow> slice_acc" where
  "enter_page page a = a\<lparr>sa_Status := pg_HTTPStatus page, sa_Next := sa_Next a + 1\<rparr>"

definition spend :: "slice_acc \<Rightarrow> slice_acc" where
  "spend a = a\<lparr>sa_Bounded := True\<rparr>"

fun do_pages ::
  "crawl_deps \<Rightarrow> crawl_env \<Rightarrow> Source \<Rightarrow> string \<Rightarrow> string \<Rightarrow> crawl_page list \<Rightarrow> slice_acc \<Rightarrow> (crawlworld, slice_acc) sql"
where
  "do_pages dp env src runID jobID [] a = sql_return a"
| "do_pages dp env src runID jobID (page # pages) a =
     (let a0 = enter_page page a in
      if src_FrontierEnabled src \<and> dp_Frontier dp
      then sql_bind (enqueueFrontier dp env (sa_Found a0) src (pg_Items page)) (\<lambda>(enqueued, skipped).
           sql_bind (advance dp env runID page (page_cursor page (a0\<lparr>sa_Found := sa_Found a0 + enqueued + skipped,
               sa_Emitted := sa_Emitted a0 + enqueued, sa_Rejected := sa_Rejected a0 + skipped\<rparr>))) (\<lambda>(a1, spent).
           if spent then sql_return (spend a1) else do_pages dp env src runID jobID pages a1))
      else sql_bind (do_items dp env src runID jobID (pg_Items page) a0) (\<lambda>(a1, left).
           if left then sql_return a1
           else sql_bind (advance dp env runID page (page_cursor page a1)) (\<lambda>(a2, spent).
             if spent then sql_return (spend a2)
             else sql_bind (ingestBacklogged dp (ev_StatsNow env (sa_Pages a1))) (\<lambda>full.
               if full then sql_return (spend a2) else do_pages dp env src runID jobID pages a2))))"

definition start_acc :: "CrawlRun \<Rightarrow> slice_acc" where
  "start_acc run = \<lparr>sa_Found = 0, sa_Emitted = 0, sa_Rejected = 0, sa_LastCursor = [], sa_IterErr = None, sa_Status = 200,
     sa_RunCursor = COALESCE_empty (cr_Cursor run), sa_RunPageIdx = cr_PageIdx run, sa_RunLastURL = cr_LastURL run, sa_Pages = 0,
     sa_Next = 0, sa_Bounded = False\<rparr>"

definition drive_slice :: "crawl_deps \<Rightarrow> crawl_env \<Rightarrow> Source \<Rightarrow> CrawlRun \<Rightarrow> string \<Rightarrow> crawl_iter \<Rightarrow> (crawlworld, slice_acc) sql" where
  "drive_slice dp env src run jobID it =
     sql_bind (do_pages dp env src (cr_ID run) jobID (ci_Pages it) (start_acc run)) (\<lambda>a.
     sql_return (case ci_Err it (sa_Next a) of None \<Rightarrow> a | Some e \<Rightarrow> a\<lparr>sa_IterErr := Some e\<rparr>))"

section \<open>The end of a slice\<close>

definition emitContinuation :: "crawl_deps \<Rightarrow> crawl_env \<Rightarrow> Source \<Rightarrow> string \<Rightarrow> CrawlRequestV1 \<Rightarrow> (crawlworld, unit) sql" where
  "emitContinuation dp env src runID req =
     sql_bind (case dp_Admitter dp of None \<Rightarrow> sql_return 1
       | Some cfg \<Rightarrow> sql_bind (Admitter_Admit cfg (ev_AdmitNow env) 1) (\<lambda>(granted, wait). sql_return granted)) (\<lambda>granted.
     if granted < 1 then sql_return ()
     else void (sql_try (emit_request \<lparr>rq_RequestID = ev_RequestID env, rq_Source = src_ID src, rq_Key = [],
       rq_ScheduledAt = rq_ScheduledAt req, rq_Mode = ''auto'', rq_Attempt = rq_Attempt req + 1, rq_RunID = runID,
       rq_IsContinuation = True\<rparr>)))"

definition yield_run :: "crawl_deps \<Rightarrow> crawl_env \<Rightarrow> CrawlRun \<Rightarrow> slice_acc \<Rightarrow> (crawlworld, unit) sql" where
  "yield_run dp env run a = void (sql_try (on_crawl (Yield (ev_FinalNow env) (cr_ID run) (sa_RunCursor a) (sa_RunPageIdx a) (sa_RunLastURL a)
     (lease_ttl (dp_RunLeaseTTLSec dp)) (int (sa_Found a)) (int (sa_Emitted a)) (int (sa_Rejected a)))))"

definition finalize :: "crawl_deps \<Rightarrow> crawl_env \<Rightarrow> CrawlRequestV1 \<Rightarrow> Source \<Rightarrow> CrawlRun \<Rightarrow> slice_acc \<Rightarrow> (crawlworld, unit) sql" where
  "finalize dp env req src run a =
     (case sa_IterErr a of
        Some e \<Rightarrow>
          if dp_RunStuckMaxAttempts dp > 0 \<and> cr_Attempt run + 1 \<ge> dp_RunStuckMaxAttempts dp
          then void (sql_try (on_crawl (Runs_Fail (ev_FinalNow env) (cr_ID run) ''iterator_failed'' (Error e)
                 (int (sa_Found a)) (int (sa_Emitted a)) (int (sa_Rejected a)))))
          else yield_run dp env run a
      | None \<Rightarrow>
          if sa_Bounded a
          then sql_bind (yield_run dp env run a) (\<lambda>_. emitContinuation dp env src (cr_ID run) req)
          else sql_bind (sql_try (on_crawl (Runs_Complete (ev_FinalNow env) (cr_ID run) (sa_RunCursor a) (sa_RunPageIdx a) (sa_RunLastURL a)
                   (int (sa_Found a)) (int (sa_Emitted a)) (int (sa_Rejected a))))) (\<lambda>r.
               case r of
                 Inl _ \<Rightarrow> sql_return ()
               | Inr _ \<Rightarrow> void (sql_try (on_catalog (reconcile_tx (src_ID src) (cr_StartedAt run) (ev_ReconcileNow env))))))"

definition page_summary :: "CrawlRequestV1 \<Rightarrow> Source \<Rightarrow> slice_acc \<Rightarrow> CrawlPageCompletedV1" where
  "page_summary req src a =
     \<lparr>pc_RequestID = rq_RequestID req, pc_SourceID = src_ID src, pc_URL = src_BaseURL src, pc_HTTPStatus = sa_Status a,
      pc_JobsFound = int (sa_Found a), pc_JobsEmitted = int (sa_Emitted a), pc_JobsRejected = int (sa_Rejected a), pc_Cursor = sa_LastCursor a,
      pc_ErrorCode = (if sa_IterErr a = None then [] else ''iterator_failed''),
      pc_ErrorMessage = (case sa_IterErr a of None \<Rightarrow> [] | Some e \<Rightarrow> Error e)\<rparr>"

definition close_job :: "crawl_env \<Rightarrow> string \<Rightarrow> slice_acc \<Rightarrow> (crawlworld, unit) sql" where
  "close_job env jobID a = void (sql_try (on_crawl (CrawlJobs_Finish (ev_FinishNow env) jobID
     (if sa_IterErr a = None then CrawlSucceeded else CrawlFailed) (int (sa_Found a)) (int (sa_Emitted a))
     (if sa_IterErr a = None then [] else ''iterator_failed'') (case sa_IterErr a of None \<Rightarrow> [] | Some e \<Rightarrow> Error e))))"

definition run_slice :: "crawl_deps \<Rightarrow> crawl_env \<Rightarrow> CrawlRequestV1 \<Rightarrow> Source \<Rightarrow> crawl_path \<Rightarrow> CrawlRun \<Rightarrow> (crawlworld, unit) sql" where
  "run_slice dp env req src path run =
     sql_bind (open_job dp env req src) (\<lambda>job.
     sql_bind (drive_slice dp env src run (cj_ID job) (build_iter dp path src run)) (\<lambda>a.
     sql_bind (finalize dp env req src run a) (\<lambda>_.
     sql_bind (emitCompleted (page_summary req src a)) (\<lambda>_.
     close_job env (cj_ID job) a))))"

section \<open>The handler\<close>

definition default_kinds :: "Source \<Rightarrow> Source" where
  "default_kinds s = (if src_Kinds s = [] then s\<lparr>src_Kinds := [''job'']\<rparr> else s)"

definition crawl_source :: "crawl_deps \<Rightarrow> crawl_env \<Rightarrow> CrawlRequestV1 \<Rightarrow> Source \<Rightarrow> (crawlworld, unit) sql" where
  "crawl_source dp env req src =
     sql_bind (resolve_path dp env src) (\<lambda>path.
       case path of
         RecipeRequired \<Rightarrow> refuse_source env req src ''recipe_required''
       | NoEngine \<Rightarrow> refuse_source env req src ''connector_not_registered''
       | _ \<Rightarrow> sql_bind (resolve_run dp env req src) (\<lambda>run.
           case run of None \<Rightarrow> sql_return () | Some r \<Rightarrow> run_slice dp env req src path r))"

definition CrawlRequest_Execute :: "crawl_deps \<Rightarrow> crawl_env \<Rightarrow> CrawlRequestV1 \<Rightarrow> (crawlworld, unit) sql" where
  "CrawlRequest_Execute dp env req =
     sql_bind (sql_wrap ''crawl.request: GetByID'' (on_crawl (Sources_GetByID (rq_Source req)))) (\<lambda>s.
       case s of
         None \<Rightarrow> emitCompleted (failed_page req [] ''source_not_found'')
       | Some src \<Rightarrow>
           if src_Status src \<noteq> SourceActive \<and> src_Status src \<noteq> SourceDegraded
           then emitCompleted (failed_page req (src_BaseURL src) ''source_not_eligible'')
           else crawl_source dp env req (default_kinds src))"

end
