(* ===== verification/Crawl_Control.thy ===== *)
theory Crawl_Control
  imports Crawler
begin

text \<open>
  The handlers around the crawl: dispatch of scheduled and overdue sources
  (\<open>source_crawl_handler.go\<close>), the watchdogs (\<open>crawl_watchdog.go\<close>), the bookkeeping after a slice
  (\<open>page_completed_handler.go\<close>), discovery of new sources (\<open>source_discovered_handler.go\<close>,
  \<open>source_classify.go\<close>, \<open>pkg/sourceverify/blocklist.go\<close>), maintenance (\<open>source_maintenance.go\<close>) and
  the per-source schedules (\<open>source_schedules.go\<close>, \<open>source_scheduling_handler.go\<close>), all of
  \<open>apps/crawler/service\<close>.

  Requests arrive with the right method.  Each reading of the clock is an argument; a list of readings
  is indexed by the position of the source or run in the batch.  The scheduling service is a record
  of functions over its own state.
\<close>

section \<open>Dispatch\<close>

datatype crawl_reply =
    ReplyError int go_error
  | ReplyNotFound
  | ReplySkipped
  | ReplyThrottled duration
  | ReplyDispatched
  | ReplyOverdue int int bool
  | ReplySweep int int int int
  | ReplyWatchdog bool time duration bool
  | ReplyUpdated int

definition scheduleActive :: "Source \<Rightarrow> bool" where
  "scheduleActive s \<longleftrightarrow> src_Status s = SourceActive \<or> src_Status s = SourceDegraded"

definition Truncate :: "time \<Rightarrow> duration \<Rightarrow> time" where
  "Truncate t d = t - t mod d"

definition tick_request :: "(time \<Rightarrow> string) \<Rightarrow> string \<Rightarrow> string \<Rightarrow> time \<Rightarrow> CrawlRequestV1" where
  "tick_request formatRFC3339 requestID sourceID now =
     \<lparr>rq_RequestID = requestID, rq_Source = sourceID, rq_Key = sourceID @ '':'' @ formatRFC3339 (Truncate now Minute), rq_ScheduledAt = now,
      rq_Mode = ''auto'', rq_Attempt = 1, rq_RunID = [], rq_IsContinuation = False\<rparr>"

definition reply_error :: "int \<Rightarrow> (crawlworld, crawl_reply) sql \<Rightarrow> (crawlworld, crawl_reply) sql" where
  "reply_error code m = sql_bind (sql_try m) (\<lambda>r. sql_return (case r of Inl e \<Rightarrow> ReplyError code e | Inr x \<Rightarrow> x))"

definition SourceCrawlHandler ::
  "(time \<Rightarrow> string) \<Rightarrow> admit_conf \<Rightarrow> time \<Rightarrow> time \<Rightarrow> string \<Rightarrow> string \<Rightarrow> (crawlworld, crawl_reply) sql"
where
  "SourceCrawlHandler formatRFC3339 admit now admitNow requestID i =
     (if i = [] then sql_return (ReplyError 400 (ErrNew ''missing source id''))
      else reply_error 500 (
        sql_bind (on_crawl (Sources_GetByID i)) (\<lambda>s.
          case s of
            None \<Rightarrow> sql_return ReplyNotFound
          | Some src \<Rightarrow>
              if \<not> scheduleActive src then sql_return ReplySkipped
              else sql_bind (Admitter_Admit admit admitNow 1) (\<lambda>(granted, wait).
                if granted < 1 then sql_return (ReplyThrottled wait)
                else sql_bind (emit_request (tick_request formatRFC3339 requestID (src_ID src) now)) (\<lambda>_.
                  sql_return ReplyDispatched)))))"

definition OverdueSlack :: duration where "OverdueSlack = Hour"
definition MinCrawlIntervalHours :: int where "MinCrawlIntervalHours = 12"

record overdue_env =
  ov_Now :: time
  ov_AdmitNow :: "nat \<Rightarrow> time"
  ov_UpdateNow :: "nat \<Rightarrow> time"
  ov_RequestID :: "nat \<Rightarrow> string"

fun dispatch_due ::
  "(time \<Rightarrow> string) \<Rightarrow> admit_conf \<Rightarrow> overdue_env \<Rightarrow> nat \<Rightarrow> Source list \<Rightarrow> int \<Rightarrow> (crawlworld, int \<times> bool) sql"
where
  "dispatch_due formatRFC3339 admit env n [] dispatched = sql_return (dispatched, False)"
| "dispatch_due formatRFC3339 admit env n (src # rest) dispatched =
     (if \<not> scheduleActive src then dispatch_due formatRFC3339 admit env (n + 1) rest dispatched
      else sql_bind (Admitter_Admit admit (ov_AdmitNow env n) 1) (\<lambda>(granted, wait).
        if granted < 1 then sql_return (dispatched, True)
        else sql_bind (sql_try (emit_request (tick_request formatRFC3339 (ov_RequestID env n) (src_ID src) (ov_Now env)))) (\<lambda>r.
          case r of
            Inl _ \<Rightarrow> dispatch_due formatRFC3339 admit env (n + 1) rest dispatched
          | Inr _ \<Rightarrow>
              sql_bind (sql_try (on_crawl (Sources_Update (ov_UpdateNow env n) (src_ID src)
                  (\<lambda>s. s\<lparr>src_NextCrawlAt := ov_Now env + max (src_CrawlIntervalSec src) (MinCrawlIntervalHours * 3600) * Second\<rparr>)))) (\<lambda>_.
              dispatch_due formatRFC3339 admit env (n + 1) rest (dispatched + 1)))))"

definition DispatchOverdue ::
  "(time \<Rightarrow> string) \<Rightarrow> admit_conf \<Rightarrow> overdue_env \<Rightarrow> int \<Rightarrow> duration \<Rightarrow> (crawlworld, int \<times> int \<times> bool) sql"
where
  "DispatchOverdue formatRFC3339 admit env batch slack =
     sql_bind (on_crawl (ListDue (ov_Now env - slack) (if batch \<le> 0 then 25 else batch))) (\<lambda>dueRows.
     sql_bind (dispatch_due formatRFC3339 admit env 0 dueRows 0) (\<lambda>(dispatched, throttled).
     sql_return (dispatched, int (length dueRows), throttled)))"

definition CrawlOverdueHandler ::
  "(time \<Rightarrow> string) \<Rightarrow> admit_conf \<Rightarrow> overdue_env \<Rightarrow> int \<Rightarrow> (crawlworld, crawl_reply) sql"
where
  "CrawlOverdueHandler formatRFC3339 admit env batch =
     reply_error 500 (sql_bind (DispatchOverdue formatRFC3339 admit env batch OverdueSlack) (\<lambda>(dispatched, dueN, throttled).
       sql_return (ReplyOverdue dispatched dueN throttled)))"

section \<open>Watchdogs\<close>

record sweep_env =
  sw_Now :: time
  sw_AdmitNow :: "nat \<Rightarrow> time"
  sw_RunNow :: "nat \<Rightarrow> time"
  sw_RequestID :: "nat \<Rightarrow> string"

definition redrive_request :: "string \<Rightarrow> CrawlRun \<Rightarrow> CrawlRequestV1" where
  "redrive_request requestID run =
     \<lparr>rq_RequestID = requestID, rq_Source = cr_SourceID run, rq_Key = [], rq_ScheduledAt = cr_ScheduledAt run, rq_Mode = ''auto'',
      rq_Attempt = cr_Attempt run + 1, rq_RunID = cr_ID run, rq_IsContinuation = False\<rparr>"

fun sweep_runs ::
  "admit_conf option \<Rightarrow> int \<Rightarrow> duration \<Rightarrow> sweep_env \<Rightarrow> nat \<Rightarrow> CrawlRun list \<Rightarrow> int \<times> int \<times> int \<Rightarrow> (crawlworld, int \<times> int \<times> int) sql"
where
  "sweep_runs admit stuckMax ttl env n [] counts = sql_return counts"
| "sweep_runs admit stuckMax ttl env n (run # rest) (redriven, failed, deferred) =
     (if stuckMax > 0 \<and> cr_Attempt run \<ge> stuckMax
      then sql_bind (sql_try (on_crawl (Runs_Fail (sw_RunNow env n) (cr_ID run) ''stuck'' ''exceeded max attempts without completing'' 0 0 0))) (\<lambda>r.
           sweep_runs admit stuckMax ttl env (n + 1) rest (redriven, (case r of Inl _ \<Rightarrow> failed | Inr _ \<Rightarrow> failed + 1), deferred))
      else sql_bind (case admit of None \<Rightarrow> sql_return 1
             | Some cfg \<Rightarrow> sql_bind (Admitter_Admit cfg (sw_AdmitNow env n) 1) (\<lambda>(granted, wait). sql_return granted)) (\<lambda>granted.
        if granted < 1 then sweep_runs admit stuckMax ttl env (n + 1) rest (redriven, failed, deferred + 1)
        else sql_bind (sql_try (on_crawl (TouchLease (sw_RunNow env n) (cr_ID run) ttl))) (\<lambda>touched.
          case touched of
            Inl _ \<Rightarrow> sweep_runs admit stuckMax ttl env (n + 1) rest (redriven, failed, deferred)
          | Inr _ \<Rightarrow>
              sql_bind (sql_try (emit_request (redrive_request (sw_RequestID env n) run))) (\<lambda>r.
              sweep_runs admit stuckMax ttl env (n + 1) rest ((case r of Inl _ \<Rightarrow> redriven | Inr _ \<Rightarrow> redriven + 1), failed, deferred)))))"

definition CrawlRunWatchdogHandler ::
  "admit_conf option \<Rightarrow> int \<Rightarrow> int \<Rightarrow> int \<Rightarrow> sweep_env \<Rightarrow> (crawlworld, crawl_reply) sql"
where
  "CrawlRunWatchdogHandler admit batch stuckMaxAttempts leaseTTLSec env =
     reply_error 500 (
       sql_bind (on_crawl (FindResumable (sw_Now env) (if batch \<le> 0 then 50 else batch))) (\<lambda>resumable.
       sql_bind (sweep_runs admit stuckMaxAttempts (lease_ttl leaseTTLSec) env 0 resumable (0, 0, 0)) (\<lambda>(redriven, failed, deferred).
       sql_return (ReplySweep (int (length resumable)) redriven failed deferred))))"

definition CrawlStallThreshold :: duration where "CrawlStallThreshold = 3 * Hour"

definition CrawlWatchdogHandler :: "time \<Rightarrow> (crawlworld, crawl_reply) sql" where
  "CrawlWatchdogHandler now =
     reply_error 500 (
       sql_bind (on_crawl LastCrawlAt) (\<lambda>latest.
       sql_bind (on_crawl (ListDue now 1)) (\<lambda>dueRows.
       let sinceLast = (if IsZero latest then 0 else now - latest);
           stalled = (dueRows \<noteq> [] \<and> (IsZero latest \<or> sinceLast > CrawlStallThreshold))
       in sql_return (ReplyWatchdog stalled latest sinceLast (dueRows \<noteq> [])))))"

section \<open>Bookkeeping after a slice\<close>

definition DegradeAfterFailures :: int where "DegradeAfterFailures = 5"

record page_conf =
  pf_EmitRegenerate :: bool
  pf_RegenRejectRate :: real
  pf_RegenMinPages :: int

definition next_crawl :: "Source \<Rightarrow> time \<Rightarrow> time" where
  "next_crawl src now = now + (if src_CrawlIntervalSec src < 12 * 3600 then 12 * 3600 else src_CrawlIntervalSec src) * Second"

definition reject_rate :: "CrawlPageCompletedV1 \<Rightarrow> real" where
  "reject_rate p = (if pc_JobsFound p > 0 then real_of_int (pc_JobsRejected p) / real_of_int (pc_JobsFound p) else 0)"

definition quietly :: "(crawldb, 'a) sql \<Rightarrow> (crawlworld, unit) sql" where
  "quietly m = void (sql_try (on_crawl m))"

text \<open>\<open>stmt n\<close> is the clock at the \<open>n\<close>-th statement.\<close>

definition record_failure :: "(nat \<Rightarrow> time) \<Rightarrow> time \<Rightarrow> Source \<Rightarrow> (crawlworld, unit) sql" where
  "record_failure stmt now src =
     (let h = src_HealthScore src - 2 / 10; newHealth = (if h < 0 then 0 else h); consecutive = src_ConsecutiveFailures src + 1 in
      sql_bind (quietly (RecordFailure (stmt 0) (src_ID src) newHealth consecutive)) (\<lambda>_.
      sql_bind (if consecutive \<ge> DegradeAfterFailures \<and> src_Status src = SourceActive
                then quietly (SetStatus (stmt 1) (src_ID src) SourceDegraded) else sql_return ()) (\<lambda>_.
      quietly (UpdateNextCrawl (stmt 2) (src_ID src) (next_crawl src now) now newHealth))))"

definition record_tuning :: "(nat \<Rightarrow> time) \<Rightarrow> time \<Rightarrow> Source \<Rightarrow> (crawlworld, unit) sql" where
  "record_tuning stmt now src =
     sql_bind (quietly (FlagNeedsTuning (stmt 0) (src_ID src) True)) (\<lambda>_.
     quietly (UpdateNextCrawl (stmt 2) (src_ID src) (next_crawl src now) now (src_HealthScore src)))"

definition record_success :: "(nat \<Rightarrow> time) \<Rightarrow> time \<Rightarrow> real \<Rightarrow> Source \<Rightarrow> (crawlworld, unit) sql" where
  "record_success stmt now rejectRate src =
     (let h = src_HealthScore src + 1 / 10; newHealth = (if h > 1 then 1 else h) in
      sql_bind (quietly (RecordSuccess (stmt 0) (src_ID src) newHealth)) (\<lambda>_.
      sql_bind (if src_NeedsTuning src \<and> rejectRate < 1 / 2 then quietly (FlagNeedsTuning (stmt 1) (src_ID src) False) else sql_return ()) (\<lambda>_.
      sql_bind (if src_Status src = SourceDegraded \<and> newHealth \<ge> 8 / 10
                then quietly (SetStatus (stmt 1) (src_ID src) SourceActive) else sql_return ()) (\<lambda>_.
      quietly (UpdateNextCrawl (stmt 2) (src_ID src) (next_crawl src now) now newHealth)))))"

definition regenerate :: "page_conf \<Rightarrow> CrawlPageCompletedV1 \<Rightarrow> Source \<Rightarrow> (crawlworld, unit) sql" where
  "regenerate cfg p src =
     (if pf_EmitRegenerate cfg \<and> pf_RegenRejectRate cfg > 0 \<and> pc_JobsFound p \<ge> pf_RegenMinPages cfg \<and>
         reject_rate p \<ge> pf_RegenRejectRate cfg \<and> src_ExtractionRecipe src \<noteq> [] \<and> src_ExtractionRecipe src \<noteq> ''{}''
      then void (sql_try (sql_exec (\<lambda>w. w\<lparr>cw_regenerates := cw_regenerates w @ [(src_ID src, reject_rate p)]\<rparr>)))
      else sql_return ())"

definition PageCompleted_Execute :: "page_conf \<Rightarrow> (nat \<Rightarrow> time) \<Rightarrow> time \<Rightarrow> CrawlPageCompletedV1 \<Rightarrow> (crawlworld, unit) sql" where
  "PageCompleted_Execute cfg stmt now p =
     sql_bind (sql_wrap ''page-completed: GetByID'' (on_crawl (Sources_GetByID (pc_SourceID p)))) (\<lambda>s.
       case s of
         None \<Rightarrow> sql_return ()
       | Some src \<Rightarrow>
           sql_bind (if pc_ErrorCode p \<noteq> [] then record_failure stmt now src
                     else if reject_rate p > 8 / 10 \<and> pc_JobsFound p > 0 then record_tuning stmt now src
                     else record_success stmt now (reject_rate p) src) (\<lambda>_.
           regenerate cfg p src))"

definition QualityResetHandler :: "time \<Rightarrow> (crawlworld, crawl_reply) sql" where
  "QualityResetHandler now = reply_error 500 (sql_bind (on_crawl (ResetQualityWindowAll now)) (\<lambda>n. sql_return (ReplyUpdated n)))"

definition HealthDecayHandler :: "time \<Rightarrow> (crawlworld, crawl_reply) sql" where
  "HealthDecayHandler now = reply_error 500 (sql_bind (on_crawl (DecayHealth now (5 / 100))) (\<lambda>n. sql_return (ReplyUpdated n)))"

section \<open>Discovery\<close>

definition BlockedHosts :: "string list" where
  "BlockedHosts = [''google.com'', ''facebook.com'', ''twitter.com'', ''instagram.com'', ''youtube.com'', ''wikipedia.org'',
     ''linkedin.com'', ''github.com'', ''apple.com'', ''play.google.com'', ''apps.apple.com'', ''stawi.org'', ''opportunities.stawi.org'',
     ''jobs.stawi.org'', ''pages.dev'']"

definition TrimPrefix :: "string \<Rightarrow> string \<Rightarrow> string" where
  "TrimPrefix p s = (if hasPrefix p s then drop (length p) s else s)"

definition bare_host :: "string \<Rightarrow> string" where
  "bare_host h = ToLower (TrimPrefix ''www.'' h)"

definition IsBlockedHost :: "string \<Rightarrow> bool" where
  "IsBlockedHost host0 \<longleftrightarrow> (let host = bare_host host0 in
     host \<in> set BlockedHosts \<or> list_ex (\<lambda>b. HasSuffix host (''.'' @ b)) BlockedHosts)"

definition IsBlockedURL :: "(string \<Rightarrow> parsed_url option) \<Rightarrow> string \<Rightarrow> bool" where
  "IsBlockedURL parseURL raw \<longleftrightarrow> (case parseURL raw of
      None \<Rightarrow> True | Some u \<Rightarrow> pu_Host u = [] \<or> IsBlockedHost (pu_Hostname u))"

definition managedATSHosts :: "string list" where
  "managedATSHosts = [''jobs.lever.co'', ''jobs.eu.lever.co'', ''boards.greenhouse.io'', ''job-boards.greenhouse.io'',
     ''job-boards.eu.greenhouse.io'', ''jobs.ashbyhq.com'']"

definition isManagedATSHost :: "string \<Rightarrow> bool" where
  "isManagedATSHost host \<longleftrightarrow> host \<in> set managedATSHosts"

definition classifyATS :: "(parsed_url \<Rightarrow> string) \<Rightarrow> parsed_url \<Rightarrow> (string \<times> string) option" where
  "classifyATS escapedPath target =
     (let host = bare_host (pu_Hostname target);
          first = hd (Split (CHR ''/'') (Trim_char (CHR ''/'') (escapedPath target)));
          withCompany = (\<lambda>t. if first = [] then None else Some (t, ''https://'' @ host @ ''/'' @ first))
      in if host \<in> {''jobs.lever.co'', ''jobs.eu.lever.co''} then withCompany SourceGenericHTML
         else if host \<in> {''boards.greenhouse.io'', ''job-boards.greenhouse.io'', ''job-boards.eu.greenhouse.io''} then withCompany SourceGenericHTML
         else if host \<in> {''careers.smartrecruiters.com'', ''jobs.smartrecruiters.com''} then withCompany SourceSmartRecruitersAPI
         else None)"

record SourceDiscoveredV1 =
  sd_SourceID :: string
  sd_DiscoveredURL :: string
  sd_Country :: string

definition discovered_source :: "string \<Rightarrow> string \<Rightarrow> string \<Rightarrow> Source" where
  "discovered_source srcType baseURL country =
     \<lparr>src_ID = [], src_CreatedAt = 0, src_UpdatedAt = 0, src_DeletedAt = None, src_Type = srcType, src_Name = [], src_BaseURL = baseURL,
      src_Country = country, src_Language = [], src_Status = SourcePending, src_Priority = PriorityNormal, src_CrawlIntervalSec = 7200,
      src_HealthScore = 1, src_ConsecutiveFailures = 0, src_NeedsTuning = False, src_NeedsTuningAt = None, src_Config = ''{}'',
      src_ExtractionRecipe = [], src_ListingPath = [], src_LastSeenAt = None, src_NextCrawlAt = 0, src_Score = 0, src_MinIntervalMinutes = 0,
      src_MaxIntervalMinutes = 0, src_LastVerifiedAt = None, src_LastVerifyStatus = 0, src_QualityWindowStart = None, src_QualityWindowDays = 0,
      src_QualityValidated = 0, src_QualityFlagged = 0, src_Kinds = [''job''], src_RequiredAttributesByKind = Map.empty,
      src_VerificationReport = None, src_ApprovedAt = None, src_ApprovedBy = [], src_RejectionReason = [], src_AutoApprove = False,
      src_LastStoppedAt = None, src_LastStoppedBy = [], src_ExtractionPromptExtension = [], src_FrontierEnabled = False\<rparr>"

text \<open>The type and base URL a discovered URL is registered under, \<open>None\<close> when it is dropped.\<close>

definition discovered_target :: "accept_codec \<Rightarrow> Source \<Rightarrow> SourceDiscoveredV1 \<Rightarrow> (string \<times> string) option" where
  "discovered_target ac origin p =
     (case ac_parse ac (sd_DiscoveredURL p) of
        None \<Rightarrow> None
      | Some target \<Rightarrow>
          let host = bare_host (pu_Hostname target);
              originHost = (case ac_parse ac (src_BaseURL origin) of None \<Rightarrow> [] | Some u \<Rightarrow> bare_host (pu_Hostname u)) in
          if pu_Host target = [] \<or> host = originHost \<or> IsBlockedHost host \<or> isManagedATSHost host then None
          else case classifyATS (ac_escapedPath ac) target of
            Some tu \<Rightarrow> Some tu
          | None \<Rightarrow> Some (SourceSchemaOrg, pu_Scheme target @ ''://'' @ pu_Host target))"

definition SourceDiscovered_Execute ::
  "accept_codec \<Rightarrow> Registry option \<Rightarrow> string \<Rightarrow> time \<Rightarrow> SourceDiscoveredV1 \<Rightarrow> (crawlworld, unit) sql"
where
  "SourceDiscovered_Execute ac reg newID now p =
     sql_bind (sql_wrap ''source-discovered: GetByID'' (on_crawl (Sources_GetByID (sd_SourceID p)))) (\<lambda>o1.
       case o1 of
         None \<Rightarrow> sql_return ()
       | Some origin \<Rightarrow>
           if src_Status origin \<noteq> SourceActive \<and> src_Status origin \<noteq> SourceDegraded then sql_return ()
           else case discovered_target ac origin p of
             None \<Rightarrow> sql_return ()
           | Some (srcType, baseURL) \<Rightarrow>
               if (case reg of None \<Rightarrow> False | Some rg \<Rightarrow> Lookup rg ''job'' = None)
               then sql_raise (ErrNew ''source-discovered: declared kind job is not in registry'')
               else sql_wrap (''source-discovered: upsert '' @ baseURL)
                 (on_crawl (Upsert newID now (discovered_source srcType baseURL (sd_Country p)))))"

section \<open>Schedules\<close>

definition SchedulePrefix :: string where "SchedulePrefix = ''opportunities.source.crawl.''"

definition workflowName :: "string \<Rightarrow> string" where
  "workflowName sourceID = SchedulePrefix @ sourceID"

definition jitter :: "string \<Rightarrow> int \<Rightarrow> int" where
  "jitter sourceID n = (if n \<le> 0 then 0 else uint (fnv32a sourceID) mod n)"

fun digits :: "nat \<Rightarrow> string" where
  "digits n = (if n < 10 then [char_of (48 + n)] else digits (n div 10) @ [char_of (48 + n mod 10)])"

declare digits.simps [simp del]

definition Itoa :: "int \<Rightarrow> string" where
  "Itoa i = (if i < 0 then CHR ''-'' # digits (nat (- i)) else digits (nat i))"

function hour_list :: "int \<Rightarrow> int \<Rightarrow> int list" where
  "hour_list h hours = (if h < 24 \<and> 0 < hours then h # hour_list (h + hours) hours else [])"
  by auto
termination by (relation "measure (\<lambda>(h, hours). nat (24 - h))") auto

declare hour_list.simps [simp del]

definition cron_hours :: "int \<Rightarrow> string \<Rightarrow> int list" where
  "cron_hours crawlIntervalSec sourceID =
     (let secs = (if crawlIntervalSec \<le> 0 then 3600 else crawlIntervalSec);
          hours = max (secs div 3600) MinCrawlIntervalHours
      in if hours \<ge> 24 then [jitter sourceID 24] else hour_list (jitter (sourceID @ '':hour'') hours) hours)"

definition cronForInterval :: "int \<Rightarrow> string \<Rightarrow> string" where
  "cronForInterval crawlIntervalSec sourceID =
     Itoa (jitter sourceID 60) @ '' '' @ Join '','' (map Itoa (cron_hours crawlIntervalSec sourceID)) @ '' * * *''"

definition buildSourceCrawlDSL :: "Source \<Rightarrow> string \<Rightarrow> goany" where
  "buildSourceCrawlDSL s crawlBaseURL =
     AMap [(''version'', AStr ''1.0''), (''name'', AStr (workflowName (src_ID s))),
       (''description'', AStr (''Crawl source '' @ src_ID s @ '' ('' @ src_BaseURL s @ '') on its own cadence.'')),
       (''timeout'', AStr ''2m''), (''on_error'', AMap [(''action'', AStr ''abort'')]),
       (''steps'', AList [AMap [(''id'', AStr ''crawl_source''), (''type'', AStr ''call''), (''name'', AStr ''Invoke per-source crawl''),
          (''timeout'', AStr ''90s''),
          (''retry'', AMap [(''max_attempts'', ANum 3), (''backoff_strategy'', AStr ''exponential''), (''initial_backoff'', AStr ''10s'')]),
          (''call'', AMap [(''action'', AStr ''http.request''),
             (''input'', AMap [(''url'', AStr (crawlBaseURL @ ''/admin/sources/'' @ src_ID s @ ''/crawl'')), (''method'', AStr ''POST''),
                (''headers'', AMap [(''Content-Type'', AStr ''application/json'')]), (''body'', AMap [])]),
             (''output_var'', AStr ''crawl_result'')])]]),
       (''schedules'', AList [AMap [(''name'', AStr (workflowName (src_ID s) @ ''.default'')),
          (''cron_expr'', AStr (cronForInterval (src_CrawlIntervalSec s) (src_ID s))), (''timezone'', AStr ''UTC'')]])]"

text \<open>A missing or differently typed value reads as the zero value of the accessor.\<close>

definition dsl_field :: "goany \<Rightarrow> string \<Rightarrow> goany" where
  "dsl_field v k = (case v of AMap kvs \<Rightarrow> (case map_of kvs k of None \<Rightarrow> ANil | Some x \<Rightarrow> x) | _ \<Rightarrow> ANil)"

definition cronFromDSL :: "goany \<Rightarrow> string" where
  "cronFromDSL dsl = (case dsl_field dsl ''schedules'' of
      AList (first # _) \<Rightarrow> (case dsl_field first ''cron_expr'' of AStr c \<Rightarrow> c | _ \<Rightarrow> []) | _ \<Rightarrow> [])"

datatype WorkflowStatus = WorkflowActive | WorkflowArchived | WorkflowOther

record Workflow =
  wf_Id :: string
  wf_Name :: string
  wf_Status :: WorkflowStatus
  wf_Dsl :: goany

record rpc_failure =
  re_Code :: string
  re_Text :: string

record 'w WorkflowClient =
  wc_List :: "string \<Rightarrow> 'w \<Rightarrow> (rpc_failure + Workflow list) \<times> 'w"
  wc_Create :: "goany \<Rightarrow> 'w \<Rightarrow> (rpc_failure + string) \<times> 'w"
  wc_Activate :: "string \<Rightarrow> 'w \<Rightarrow> (rpc_failure + unit) \<times> 'w"
  wc_Archive :: "string \<Rightarrow> 'w \<Rightarrow> (rpc_failure + unit) \<times> 'w"

definition isAlreadyExistsErr :: "rpc_failure \<Rightarrow> bool" where
  "isAlreadyExistsErr e \<longleftrightarrow> re_Code e = ''already_exists'' \<or>
     Contains ''duplicate key'' (ToLower (re_Text e)) \<or> Contains ''unique constraint'' (ToLower (re_Text e)) \<or> Contains ''23505'' (ToLower (re_Text e))"

fun scan_workflows :: "string \<Rightarrow> Workflow list \<Rightarrow> string \<times> string \<Rightarrow> string \<times> bool \<times> string" where
  "scan_workflows name [] (i, cron) = (i, False, cron)"
| "scan_workflows name (it # its) (i, cron) =
     (if wf_Name it \<noteq> name then scan_workflows name its (i, cron)
      else if wf_Status it = WorkflowActive then (wf_Id it, True, cronFromDSL (wf_Dsl it))
      else if wf_Status it = WorkflowArchived then scan_workflows name its (i, cron)
      else scan_workflows name its (wf_Id it, cronFromDSL (wf_Dsl it)))"

definition findWorkflow :: "'w WorkflowClient \<Rightarrow> string \<Rightarrow> 'w \<Rightarrow> (rpc_failure + string \<times> bool \<times> string) \<times> 'w" where
  "findWorkflow client name w = (case wc_List client name w of
      (Inl e, w') \<Rightarrow> (Inl e, w') | (Inr items, w') \<Rightarrow> (Inr (scan_workflows name items ([], [])), w'))"

definition activate :: "'w WorkflowClient \<Rightarrow> string \<Rightarrow> 'w \<Rightarrow> (rpc_failure + unit) \<times> 'w" where
  "activate client i w =
     (if i = [] then (Inr (), w)
      else case wc_Activate client i w of
        (Inl e, w') \<Rightarrow> (if re_Code e = ''not_found'' then (Inr (), w') else (Inl e, w'))
      | (Inr _, w') \<Rightarrow> (Inr (), w'))"

fun archive_all :: "'w WorkflowClient \<Rightarrow> string \<Rightarrow> Workflow list \<Rightarrow> 'w \<Rightarrow> (rpc_failure + unit) \<times> 'w" where
  "archive_all client name [] w = (Inr (), w)"
| "archive_all client name (it # its) w =
     (if wf_Name it \<noteq> name \<or> wf_Status it = WorkflowArchived then archive_all client name its w
      else case wc_Archive client (wf_Id it) w of (Inl e, w') \<Rightarrow> (Inl e, w') | (Inr _, w') \<Rightarrow> archive_all client name its w')"

definition ArchiveWorkflowByName :: "'w WorkflowClient \<Rightarrow> string \<Rightarrow> 'w \<Rightarrow> (rpc_failure + unit) \<times> 'w" where
  "ArchiveWorkflowByName client name w = (case wc_List client name w of
      (Inl e, w') \<Rightarrow> (Inl e, w') | (Inr items, w') \<Rightarrow> archive_all client name items w')"

definition RemoveSourceSchedule :: "'w WorkflowClient \<Rightarrow> string \<Rightarrow> 'w \<Rightarrow> (rpc_failure + unit) \<times> 'w" where
  "RemoveSourceSchedule client sourceID w = ArchiveWorkflowByName client (workflowName sourceID) w"

definition create_schedule :: "'w WorkflowClient \<Rightarrow> Source \<Rightarrow> string \<Rightarrow> 'w \<Rightarrow> (rpc_failure + unit) \<times> 'w" where
  "create_schedule client s crawlBaseURL w =
     (case wc_Create client (buildSourceCrawlDSL s crawlBaseURL) w of
        (Inr i, w1) \<Rightarrow> activate client i w1
      | (Inl e, w1) \<Rightarrow>
          if \<not> isAlreadyExistsErr e then (Inl e, w1)
          else (case findWorkflow client (workflowName (src_ID s)) w1 of
            (Inl e', w2) \<Rightarrow> (Inl e', w2)
          | (Inr (i, active, _), w2) \<Rightarrow> if active \<or> i = [] then (Inr (), w2) else activate client i w2))"

definition EnsureSourceSchedule :: "'w WorkflowClient \<Rightarrow> Source \<Rightarrow> string \<Rightarrow> 'w \<Rightarrow> (rpc_failure + unit) \<times> 'w" where
  "EnsureSourceSchedule client s crawlBaseURL w =
     (let name = workflowName (src_ID s); desiredCron = cronForInterval (src_CrawlIntervalSec s) (src_ID s);
          recreate = (\<lambda>w1. case ArchiveWorkflowByName client name w1 of
            (Inl e, w2) \<Rightarrow> (Inl e, w2) | (Inr _, w2) \<Rightarrow> create_schedule client s crawlBaseURL w2)
      in case findWorkflow client name w of
           (Inl e, w1) \<Rightarrow> (Inl e, w1)
         | (Inr (i, active, cron), w1) \<Rightarrow>
             if active then (if cron = desiredCron then (Inr (), w1) else recreate w1)
             else if i \<noteq> [] then (if cron = desiredCron then activate client i w1 else recreate w1)
             else create_schedule client s crawlBaseURL w1)"

definition reconcile_one :: "'w WorkflowClient \<Rightarrow> string \<Rightarrow> Source \<Rightarrow> 'w \<Rightarrow> (rpc_failure + unit) \<times> 'w" where
  "reconcile_one client crawlBaseURL s w =
     (if scheduleActive s then EnsureSourceSchedule client s crawlBaseURL w else RemoveSourceSchedule client (src_ID s) w)"

fun ReconcileSourceSchedules :: "'w WorkflowClient \<Rightarrow> string \<Rightarrow> Source list \<Rightarrow> int \<times> int \<times> int \<Rightarrow> 'w \<Rightarrow> (int \<times> int \<times> int) \<times> 'w" where
  "ReconcileSourceSchedules client crawlBaseURL [] counts w = (counts, w)"
| "ReconcileSourceSchedules client crawlBaseURL (s # ss) (ensured, archived, failed) w =
     (case reconcile_one client crawlBaseURL s w of
        (Inl _, w') \<Rightarrow> ReconcileSourceSchedules client crawlBaseURL ss (ensured, archived, failed + 1) w'
      | (Inr _, w') \<Rightarrow> ReconcileSourceSchedules client crawlBaseURL ss
          (if scheduleActive s then (ensured + 1, archived, failed) else (ensured, archived + 1, failed)) w')"

text \<open>The drift backstop: the error of the listing, or the three counts.\<close>

definition ScheduleReconcileHandler ::
  "'w WorkflowClient \<Rightarrow> string \<Rightarrow> crawldb dbstate \<Rightarrow> 'w \<Rightarrow> (go_error + (int \<times> int \<times> int) option) \<times> crawldb dbstate \<times> 'w"
where
  "ScheduleReconcileHandler client crawlBaseURL z w =
     (if crawlBaseURL = [] then (Inr None, z, w)
      else case ListAll z of
        (Inl e, z') \<Rightarrow> (Inl e, z', w)
      | (Inr srcs, z') \<Rightarrow> (case ReconcileSourceSchedules client crawlBaseURL srcs (0, 0, 0) w of (counts, w') \<Rightarrow> (Inr (Some counts), z', w')))"

text \<open>The consumer of \<open>sources.scheduling.changed.v1\<close>: the row decides, not the event.\<close>

definition SourceScheduling_Execute ::
  "'w WorkflowClient \<Rightarrow> string \<Rightarrow> string \<Rightarrow> crawldb dbstate \<Rightarrow> 'w \<Rightarrow> bool \<times> crawldb dbstate \<times> 'w"
where
  "SourceScheduling_Execute client crawlBaseURL sourceID z w =
     (if sourceID = [] then (False, z, w)
      else case Sources_GetByID sourceID z of
        (Inl _, z') \<Rightarrow> (False, z', w)
      | (Inr None, z') \<Rightarrow> (case RemoveSourceSchedule client sourceID w of (r, w') \<Rightarrow> (isl r = False, z', w'))
      | (Inr (Some s), z') \<Rightarrow> (case reconcile_one client crawlBaseURL s w of (r, w') \<Rightarrow> (isl r = False, z', w')))"

end
