(* ===== verification/Crawl_Spec.thy ===== *)
theory Crawl_Spec
  imports Crawl_Control
begin

text \<open>
  What the crawl handlers do to the run table, once for all relations.  The locale \<open>run_relation\<close> is
  the interface of a relation between the crawl tables before and after: it holds when the runs are
  the same.  Its theorems lift a relation that the run operations respect to every handler, whatever
  statements and publications fail.
\<close>

section \<open>Lifting programs to the world\<close>

lemma preserves_lift:
  fixes get :: "'w \<Rightarrow> 's"
  assumes "preserves R m" and "\<And>d w. get (put d w) = d"
  shows "preserves (\<lambda>w w'. R (get w) (get w')) (lift_sql get put m)"
  unfolding preserves_def
proof
  fix z :: "'w dbstate"
  obtain w fs where z: "z = (w, fs)" by (cases z)
  obtain x d fs' where m: "m (get w, fs) = (x, (d, fs'))" by (rule prod_cases3)
  with assms(1) have "R (get w) d" by (rule preserves_run)
  with z m assms(2) show "R (get (fst z)) (get (tables_after (lift_sql get put m) z))"
    by (simp add: tables_after_def lift_sql_def)
qed

definition world_rel :: "(crawldb \<Rightarrow> crawldb \<Rightarrow> bool) \<Rightarrow> crawlworld \<Rightarrow> crawlworld \<Rightarrow> bool" where
  "world_rel R w w' \<longleftrightarrow> R (cw_db w) (cw_db w')"

lemma world_lift: "preserves R m \<Longrightarrow> preserves (world_rel R) (on_crawl m)"
  unfolding on_crawl_def world_rel_def by (rule preserves_lift) simp_all

lemma cw_db_set_product [simp]: "cw_db (set_product d w) = cw_db w"
  by (simp add: set_product_def split: option.splits)

section \<open>The interface\<close>

locale run_relation = sql_preorder R for R :: "crawldb \<Rightarrow> crawldb \<Rightarrow> bool" +
  assumes same_runs: "crawl_runs d' = crawl_runs d \<Longrightarrow> R d d'"
begin

lemma src_UpdateColumn_rel: "preserves R (src_UpdateColumn P f)"
  unfolding src_UpdateColumn_def by (rule preserves_stmt) (auto simp: set_sources_def same_runs)

lemma src_update_rel: "preserves R (src_update now i f)"
  unfolding src_update_def src_Updates_def by (intro preserves_void src_UpdateColumn_rel)

lemma src_first_rel: "preserves R (src_first P)"
  unfolding src_first_def by (rule preserves_query)

lemma Sources_Create_rel: "preserves R (Sources_Create newID now s)"
  unfolding Sources_Create_def by (rule preserves_stmt) (auto simp: Let_def same_runs split: if_splits)

lemma Upsert_rel: "preserves R (Upsert newID now s)"
  unfolding Upsert_def GetByTypeAndURL_def
  by (intro preserves_bind preserves_option src_first_rel Sources_Create_rel preserves_void src_UpdateColumn_rel)

lemma source_ops_rel:
  "preserves R (Sources_GetByID i)" "preserves R (SetStatus now i st)" "preserves R (RecordSuccess now i h)"
  "preserves R (RecordFailure now i h n)" "preserves R (FlagNeedsTuning now i b)" "preserves R (UpdateNextCrawl now i t u h)"
  "preserves R (Sources_Update now i f)" "preserves R (ListDue now limit)" "preserves R LastCrawlAt"
  "preserves R (ResetQualityWindowAll now)" "preserves R (DecayHealth now x)" "preserves R (StopSource now i op t)"
  unfolding Sources_GetByID_def SetStatus_def RecordSuccess_def RecordFailure_def FlagNeedsTuning_def UpdateNextCrawl_def Sources_Update_def
    ListDue_def LastCrawlAt_def ResetQualityWindowAll_def DecayHealth_def StopSource_def src_Updates_def
  by (rule src_first_rel src_update_rel preserves_query src_UpdateColumn_rel)+

lemma ledger_ops_rel:
  "preserves R (CrawlJobs_Create newID now j)" "preserves R (GetByIdempotencyKey key)" "preserves R (CrawlJobs_Start now i)"
  "preserves R (CrawlJobs_Finish now i st a b c m)"
proof -
  show "preserves R (CrawlJobs_Create newID now j)" unfolding CrawlJobs_Create_def
    by (rule preserves_stmt) (auto simp: Let_def same_runs split: if_splits)
qed (unfold GetByIdempotencyKey_def CrawlJobs_Start_def CrawlJobs_Finish_def cj_update_def,
  (rule preserves_query preserves_exec, simp add: same_runs | rule preserves_query)+)

lemma sql_lift_rel: "preserves R (sql_lift r)"
  unfolding sql_lift_def by (intro preserves_sum preserves_raise preserves_return)

lemma Recipes_Active_rel: "preserves R (Recipes_Active acq i)"
  unfolding Recipes_Active_def
  by (intro preserves_bind preserves_option src_first_rel preserves_raise sql_lift_rel)

lemma Recipes_Activate_rel: "preserves R (Recipes_Activate wv newID now i rcp pr model rep)"
  unfolding Recipes_Activate_def supersede_def Let_def
  by (intro preserves_transaction preserves_bind preserves_query preserves_exec preserves_stmt src_update_rel)
    (auto simp: insert_recipe_def set_recipes_def same_runs split: if_splits)

lemma FindResumable_rel: "preserves R (FindResumable now limit)"
  unfolding FindResumable_def by (rule preserves_query)

end

sublocale run_relation \<subseteq> wk: sql_preorder "world_rel R"
proof
  show "world_rel R s s" for s by (simp add: world_rel_def R_refl)
  show "world_rel R s t \<Longrightarrow> world_rel R t u \<Longrightarrow> world_rel R s u" for s t u unfolding world_rel_def by (rule R_trans)
qed

context run_relation
begin

lemma same_db: "(\<And>z. cw_db (tables_after m z) = cw_db (fst z)) \<Longrightarrow> preserves (world_rel R) m"
  unfolding preserves_def world_rel_def by (simp add: R_refl)

lemma on_queue_rel: "preserves (world_rel R) (on_queue m)"
  by (rule same_db) (auto simp: on_queue_def lift_sql_def tables_after_def split: prod.splits)

lemma on_frontier_rel: "preserves (world_rel R) (on_frontier m)"
  by (rule same_db) (auto simp: on_frontier_def lift_sql_def tables_after_def split: prod.splits)

lemma on_catalog_rel: "preserves (world_rel R) (on_catalog m)"
  by (rule same_db) (auto simp: on_catalog_def lift_sql_def tables_after_def split: prod.splits)

lemma Admitter_rel: "preserves (world_rel R) (Admitter_Admit cfg now want)"
  by (rule same_db) (auto simp: Admitter_Admit_def tables_after_def split: prod.splits)

lemma emit_rel: "preserves (world_rel R) (emit_request r)" "preserves (world_rel R) (emitCompleted p)"
  unfolding emit_request_def emitCompleted_def emit_page_completed_def
  by (intro preserves_void wk.preserves_try wk.preserves_exec, simp add: world_rel_def R_refl)+

lemma quiet_rel: "preserves R m \<Longrightarrow> preserves (world_rel R) (void (sql_try (on_crawl m)))"
  by (intro preserves_void wk.preserves_try world_lift)

lemma try_rel: "preserves R m \<Longrightarrow> preserves (world_rel R) (sql_try (on_crawl m))"
  by (intro wk.preserves_try world_lift)

lemma prod_rel: "(\<And>a b. preserves (world_rel R) (m a b)) \<Longrightarrow> preserves (world_rel R) (case p of (a, b) \<Rightarrow> m a b)"
  by (cases p) simp

lemmas world_rules = wk.preserves_return wk.preserves_raise wk.preserves_bind wk.preserves_wrap wk.preserves_if wk.preserves_option
  wk.preserves_sum prod_rel quiet_rel try_rel

lemma bootstrap_rel: "preserves (world_rel R) (bootstrapStockRecipe dp env i name rcp)"
  unfolding bootstrapStockRecipe_def by (intro world_rules Recipes_Active_rel Recipes_Activate_rel)

lemma resolve_path_rel: "preserves (world_rel R) (resolve_path dp env src)"
  unfolding resolve_path_def Let_def by (intro world_rules Recipes_Active_rel bootstrap_rel)

lemma refuse_rel: "preserves (world_rel R) (refuse_source env req src code)"
  unfolding refuse_source_def by (intro world_rules source_ops_rel emit_rel)

lemma open_job_rel: "preserves (world_rel R) (open_job dp env req src)"
  unfolding open_job_def Let_def by (intro world_rules world_lift ledger_ops_rel)

lemma close_job_rel: "preserves (world_rel R) (close_job env j a)"
  unfolding close_job_def by (intro world_rules ledger_ops_rel)

lemma do_items_rel: "preserves (world_rel R) (do_items dp env src runID jobID items a)"
proof (induction items arbitrary: a)
  case (Cons opp items)
  show ?case unfolding do_items.simps Let_def
    by (intro world_rules wk.preserves_try Cons.IH) (auto simp: publishAcceptReject_def Let_def intro: on_queue_rel)
qed (simp add: wk.preserves_return)

lemma enqueueFrontier_rel: "preserves (world_rel R) (enqueueFrontier dp env k src items)"
  unfolding enqueueFrontier_def Let_def by (intro world_rules on_frontier_rel)

lemma backlogged_rel: "preserves (world_rel R) (ingestBacklogged dp now)"
  unfolding ingestBacklogged_def by (intro world_rules wk.preserves_try on_queue_rel)

lemma emitContinuation_rel: "preserves (world_rel R) (emitContinuation dp env src i req)"
  unfolding emitContinuation_def by (intro world_rules wk.preserves_try Admitter_rel emit_rel preserves_void)

text \<open>A slice of run \<open>i\<close>, when its writes to the run respect the relation.\<close>

lemma do_pages_rel:
  assumes "\<And>t c p u ttl. preserves R (Progress t runID c p u ttl)"
  shows "preserves (world_rel R) (do_pages dp env src runID jobID pages a)"
proof (induction pages arbitrary: a)
  case (Cons page pages)
  have adv: "preserves (world_rel R) (advance dp env runID page a)" for a
    unfolding advance_def Let_def by (intro world_rules assms)
  show ?case unfolding do_pages.simps Let_def
    by (intro world_rules Cons.IH enqueueFrontier_rel do_items_rel adv backlogged_rel)
qed (simp add: wk.preserves_return)

lemma run_slice_rel:
  assumes "\<And>t c p u ttl. preserves R (Progress t (cr_ID run) c p u ttl)"
    and "\<And>t c p u ttl f e r. 0 \<le> f \<Longrightarrow> 0 \<le> e \<Longrightarrow> 0 \<le> r \<Longrightarrow> preserves R (Yield t (cr_ID run) c p u ttl f e r)"
    and "\<And>t c p u f e r. 0 \<le> f \<Longrightarrow> 0 \<le> e \<Longrightarrow> 0 \<le> r \<Longrightarrow> preserves R (Runs_Complete t (cr_ID run) c p u f e r)"
    and "\<And>t c m f e r. 0 \<le> f \<Longrightarrow> 0 \<le> e \<Longrightarrow> 0 \<le> r \<Longrightarrow> preserves R (Runs_Fail t (cr_ID run) c m f e r)"
  shows "preserves (world_rel R) (run_slice dp env req src path run)"
proof -
  have "preserves (world_rel R) (finalize dp env req src run a)" for a
    unfolding finalize_def yield_run_def Let_def
    by (intro world_rules assms emitContinuation_rel wk.preserves_try preserves_void on_catalog_rel of_nat_0_le_iff)
  then show ?thesis unfolding run_slice_def drive_slice_def
    by (intro world_rules open_job_rel do_pages_rel assms emit_rel close_job_rel)
qed

lemma crawl_path_rel: "(\<And>p. preserves (world_rel R) (m p)) \<Longrightarrow> preserves (world_rel R) n \<Longrightarrow> preserves (world_rel R) n' \<Longrightarrow>
    preserves (world_rel R) (case p of RecipeRequired \<Rightarrow> n | NoEngine \<Rightarrow> n' | _ \<Rightarrow> m p)"
  by (cases p) auto

lemma Execute_rel:
  assumes "\<And>t i own ttl. preserves R (Runs_Claim t i own ttl)" and "\<And>n t i u own ttl. preserves R (StartRun n t i u own ttl)"
    and "\<And>t i c p u ttl. preserves R (Progress t i c p u ttl)"
    and "\<And>t i c p u ttl f e r. 0 \<le> f \<Longrightarrow> 0 \<le> e \<Longrightarrow> 0 \<le> r \<Longrightarrow> preserves R (Yield t i c p u ttl f e r)"
    and "\<And>t i c p u f e r. 0 \<le> f \<Longrightarrow> 0 \<le> e \<Longrightarrow> 0 \<le> r \<Longrightarrow> preserves R (Runs_Complete t i c p u f e r)"
    and "\<And>t i c m f e r. 0 \<le> f \<Longrightarrow> 0 \<le> e \<Longrightarrow> 0 \<le> r \<Longrightarrow> preserves R (Runs_Fail t i c m f e r)"
  shows "preserves (world_rel R) (CrawlRequest_Execute dp env req)"
proof -
  have "preserves (world_rel R) (resolve_run dp env req src)" for src
    unfolding resolve_run_def Let_def by (intro world_rules world_lift assms)
  then have "preserves (world_rel R) (crawl_source dp env req src)" for src
    unfolding crawl_source_def
    by (intro world_rules resolve_path_rel) (auto intro!: world_rules refuse_rel run_slice_rel assms split: crawl_path.splits)
  then show ?thesis unfolding CrawlRequest_Execute_def
    by (intro world_rules world_lift source_ops_rel emit_rel)
qed

lemma sweep_rel:
  assumes "\<And>t i ttl. preserves R (TouchLease t i ttl)"
    and "\<And>run t c m. run \<in> set runs \<Longrightarrow> stuckMax > 0 \<and> cr_Attempt run \<ge> stuckMax \<Longrightarrow> preserves R (Runs_Fail t (cr_ID run) c m 0 0 0)"
  shows "preserves (world_rel R) (sweep_runs admit stuckMax ttl env n runs counts)"
  using assms(2)
proof (induction runs arbitrary: n counts)
  case (Cons run runs)
  obtain a b c where counts: "counts = (a, b, c)" by (rule prod_cases3)
  have rest: "preserves (world_rel R) (sweep_runs admit stuckMax ttl env k runs cs)" for k cs
    using Cons.prems by (intro Cons.IH) auto
  have stuck: "preserves (world_rel R) (sweep_runs admit stuckMax ttl env n (run # runs) counts)"
    if "stuckMax > 0 \<and> cr_Attempt run \<ge> stuckMax"
    using that Cons.prems unfolding counts sweep_runs.simps by (simp add: wk.preserves_bind try_rel rest)
  show ?case
  proof (cases "stuckMax > 0 \<and> cr_Attempt run \<ge> stuckMax")
    case False
    then show ?thesis unfolding counts sweep_runs.simps if_not_P[OF False]
      by (intro world_rules rest assms(1) Admitter_rel emit_rel wk.preserves_try)
  qed (rule stuck)
qed (auto simp: wk.preserves_return)

lemma reply_rel: "preserves (world_rel R) m \<Longrightarrow> preserves (world_rel R) (reply_error code m)"
  unfolding reply_error_def by (intro world_rules wk.preserves_try)

lemma watchdog_rel:
  assumes "\<And>t i ttl. preserves R (TouchLease t i ttl)" and "\<And>t i c m. preserves R (Runs_Fail t i c m 0 0 0)"
  shows "preserves (world_rel R) (CrawlRunWatchdogHandler admit batch stuckMax ttlSec env)"
  unfolding CrawlRunWatchdogHandler_def by (intro reply_rel world_rules world_lift FindResumable_rel sweep_rel assms)

lemma dispatch_rel: "preserves (world_rel R) (dispatch_due fmt admit env n srcs k)"
proof (induction srcs arbitrary: n k)
  case (Cons src srcs)
  show ?case unfolding dispatch_due.simps
    by (intro world_rules Cons.IH Admitter_rel wk.preserves_try emit_rel source_ops_rel)
qed (simp add: wk.preserves_return)

lemma control_rel:
  "preserves (world_rel R) (SourceCrawlHandler fmt ad now t rid i)"
  "preserves (world_rel R) (CrawlOverdueHandler fmt ad oenv batch)"
  "preserves (world_rel R) (DispatchOverdue fmt ad oenv batch slack)"
  "preserves (world_rel R) (CrawlWatchdogHandler now)"
  "preserves (world_rel R) (PageCompleted_Execute cfg stmt now p)"
  "preserves (world_rel R) (QualityResetHandler now)"
  "preserves (world_rel R) (HealthDecayHandler now)"
  "preserves (world_rel R) (SourceDiscovered_Execute ac reg newID now ev)"
proof -
  show d: "preserves (world_rel R) (DispatchOverdue fmt ad oenv batch slack)" for slack
    unfolding DispatchOverdue_def by (intro world_rules world_lift source_ops_rel dispatch_rel)
  show "preserves (world_rel R) (CrawlOverdueHandler fmt ad oenv batch)"
    unfolding CrawlOverdueHandler_def by (intro reply_rel world_rules d)
  show "preserves (world_rel R) (SourceCrawlHandler fmt ad now t rid i)"
    unfolding SourceCrawlHandler_def by (intro reply_rel world_rules world_lift source_ops_rel Admitter_rel emit_rel)
  show "preserves (world_rel R) (CrawlWatchdogHandler now)"
    unfolding CrawlWatchdogHandler_def Let_def by (intro reply_rel world_rules world_lift source_ops_rel)
  show "preserves (world_rel R) (PageCompleted_Execute cfg stmt now p)"
    unfolding PageCompleted_Execute_def record_failure_def record_tuning_def record_success_def regenerate_def quietly_def Let_def
    by (intro world_rules world_lift source_ops_rel preserves_void wk.preserves_try wk.preserves_exec) (simp add: world_rel_def R_refl)
  show "preserves (world_rel R) (QualityResetHandler now)" "preserves (world_rel R) (HealthDecayHandler now)"
    unfolding QualityResetHandler_def HealthDecayHandler_def by (intro reply_rel world_rules world_lift source_ops_rel)+
  show "preserves (world_rel R) (SourceDiscovered_Execute ac reg newID now ev)"
    unfolding SourceDiscovered_Execute_def by (intro world_rules world_lift source_ops_rel Upsert_rel)
qed

end

end
