(* ===== verification/Crawl_Leases.thy ===== *)
theory Crawl_Leases
  imports Crawl_Spec
begin

text \<open>
  Leases of crawl runs: one active run per source along any history of the handlers, exclusion of a
  second consumer while a lease is held, and the run of a dead process, which the watchdog keeps
  alive without ever letting another process resume it.
\<close>

section \<open>Histories of the handlers\<close>

interpretation cr: run_relation runs_grow
  by unfold_locales (simp add: runs_rel_def runs_inv_def rows_evolve_refl grow.E_refl)

text \<open>One event or request handled, with any outcomes of its statements and publications.\<close>

inductive crawl_step :: "crawlworld \<Rightarrow> crawlworld \<Rightarrow> bool" where
  crawl: "crawl_step w (tables_after (CrawlRequest_Execute dp env req) (w, fs))"
| watchdog: "crawl_step w (tables_after (CrawlRunWatchdogHandler admit batch stuckMax ttlSec senv) (w, fs))"
| tick: "crawl_step w (tables_after (SourceCrawlHandler fmt cfg now admitNow rid i) (w, fs))"
| overdue: "crawl_step w (tables_after (DispatchOverdue fmt cfg oenv batch slack) (w, fs))"
| completed: "crawl_step w (tables_after (PageCompleted_Execute pcfg stmt now p) (w, fs))"
| discovered: "crawl_step w (tables_after (SourceDiscovered_Execute ac reg newID now ev) (w, fs))"

lemma crawl_step_grow: "crawl_step w w' \<Longrightarrow> runs_grow (cw_db w) (cw_db w')"
proof (induction rule: crawl_step.induct)
  case (crawl w dp env req fs)
  show ?case using preservesD[OF cr.Execute_rel[OF lease_ops_grow(1) grow.StartRun_rel lease_ops_grow(3) slices_grow]] unfolding world_rel_def .
next
  case (watchdog w admit batch stuckMax ttlSec senv fs)
  show ?case using preservesD[OF cr.watchdog_rel[OF lease_ops_grow(2) slices_grow(3)]] unfolding world_rel_def by simp
qed (use preservesD[OF cr.control_rel(1)] preservesD[OF cr.control_rel(3)] preservesD[OF cr.control_rel(5)]
    preservesD[OF cr.control_rel(8)] in \<open>simp_all add: world_rel_def\<close>)

interpretation cs: transition_system crawl_step "\<lambda>w. runs_inv (cw_db w)"
  by unfold_locales (use crawl_step_grow in \<open>auto simp: runs_rel_def\<close>)

lemma crawl_steps_grow: "crawl_step\<^sup>*\<^sup>* w w' \<Longrightarrow> runs_inv (cw_db w) \<Longrightarrow> runs_grow (cw_db w) (cw_db w')"
  using cs.run_preorder[where R = "\<lambda>w w'. runs_grow (cw_db w) (cw_db w')"] grow.runs_rel_refl grow.runs_rel_trans crawl_step_grow by blast

lemma active_unique_one:
  assumes "active_unique rows"
  shows "length (filter (\<lambda>r. run_active r \<and> cr_SourceID r = s) rows) \<le> 1"
proof -
  have "filter (\<lambda>r. run_active r \<and> cr_SourceID r = s) rows = filter (\<lambda>r. cr_SourceID r = s) (filter run_active rows)"
    by (induction rows) auto
  moreover have "length (filter (\<lambda>r. cr_SourceID r = s) xs) \<le> 1" if "distinct (map cr_SourceID xs)" for xs
    using that by (induction xs) (auto simp: filter_empty_conv image_iff)
  ultimately show ?thesis using assms unfolding active_unique_def by metis
qed

section \<open>One run under the operations\<close>

definition run_of :: "string \<Rightarrow> crawldb \<Rightarrow> CrawlRun option" where
  "run_of i d = List.find (\<lambda>r. cr_ID r = i) (crawl_runs d)"

lemma run_of_same: "crawl_runs d' = crawl_runs d \<Longrightarrow> run_of i d' = run_of i d"
  by (simp add: run_of_def)

lemma find_update_key:
  assumes "\<And>r. k (f r) = k r"
  shows "List.find (\<lambda>r. k r = i) (update_where P f rows) = map_option (\<lambda>r. if P r then f r else r) (List.find (\<lambda>r. k r = i) rows)"
  using assms by (induction rows) auto

lemma run_of_Updates:
  assumes "run_Updates P f (d, fs) = (x, (d', fs'))" and "\<And>r. cr_ID (f r) = cr_ID r"
  shows "run_of i d' = run_of i d \<or> run_of i d' = map_option (\<lambda>r. if run_live r \<and> P r then f r else r) (run_of i d)"
  using assms(1) unfolding run_Updates_def
  by (cases rule: sql_stmt_cases) (auto simp: Let_def run_of_def find_update_key[of cr_ID f, OF assms(2)] split: if_splits)

lemma run_of_mem: "runs_inv d \<Longrightarrow> run_of i d = Some r \<Longrightarrow> x \<in> set (crawl_runs d) \<Longrightarrow> cr_ID x = i \<Longrightarrow> x = r"
  unfolding runs_inv_def run_of_def by (elim conjE) (rule find_key_unique)

text \<open>Run \<open>i\<close> is active and leased by \<open>own\<close> at least until \<open>L\<close>.\<close>

definition leased :: "string \<Rightarrow> time \<Rightarrow> CrawlRun \<Rightarrow> bool" where
  "leased own L r \<longleftrightarrow> run_live r \<and> run_active r \<and> cr_Owner r = own \<and> (case cr_LeaseExpiresAt r of None \<Rightarrow> False | Some t \<Rightarrow> L \<le> t)"

definition held :: "string \<Rightarrow> string \<Rightarrow> time \<Rightarrow> crawldb \<Rightarrow> bool" where
  "held i own L d \<longleftrightarrow> runs_inv d \<and> (case run_of i d of None \<Rightarrow> False | Some r \<Rightarrow> leased own L r)"

lemma Claim_refused:
  assumes h: "held i own L d" and c: "Runs_Claim t i other ttl (d, fs) = (x, (d', fs'))"
    and t: "t \<le> L" "other \<noteq> own" "own \<noteq> []"
  shows "crawl_runs d' = crawl_runs d \<and> (x = Inr (None, False) \<or> (\<exists>e. x = Inl e))"
proof -
  let ?P = "\<lambda>r. run_live r \<and> cr_ID r = i \<and> run_active r \<and> lease_free t other r"
  from h obtain r where r: "run_of i d = Some r" "cr_Owner r = own" "\<exists>e. cr_LeaseExpiresAt r = Some e \<and> L \<le> e"
    by (auto simp: held_def leased_def split: option.splits)
  have none: "\<not> ?P y" if "y \<in> set (crawl_runs d)" for y
    using run_of_mem[OF _ r(1) that] h r t by (auto simp: held_def lease_free_def)
  have "update_where ?P f (crawl_runs d) = crawl_runs d" for f by (rule update_where_none) (rule none)
  moreover have "filter ?P (crawl_runs d) = []" using none by (simp add: filter_empty_conv)
  ultimately show ?thesis using c unfolding Runs_Claim_def run_Updates_def
    by (auto simp: sql_bind_def sql_return_def sql_stmt_def Let_def split: prod.splits sum.splits bool.splits if_splits)
qed

section \<open>Exclusion\<close>

text \<open>
  What may happen to the tables while process \<open>own\<close> drives run \<open>i\<close>, which it took at \<open>t0\<close> for \<open>ttl\<close>:
  its own progress, claims by anybody before the lease ends, starts of runs, renewals by the watchdog,
  anything done to other runs.
\<close>

inductive while_driven :: "string \<Rightarrow> string \<Rightarrow> time \<Rightarrow> duration \<Rightarrow> crawldb \<Rightarrow> crawldb \<Rightarrow> bool" for i own t0 ttl where
  progress: "t \<ge> t0 \<Longrightarrow> while_driven i own t0 ttl d (tables_after (Progress t i cursor page url ttl) (d, fs))"
| touch: "t \<ge> t0 \<Longrightarrow> while_driven i own t0 ttl d (tables_after (TouchLease t i ttl) (d, fs))"
| claim: "t \<le> t0 + ttl \<Longrightarrow> other \<noteq> own \<Longrightarrow> while_driven i own t0 ttl d (tables_after (Runs_Claim t i other ttl') (d, fs))"
| start: "while_driven i own t0 ttl d (tables_after (StartRun newID t src sched other ttl') (d, fs))"
| claim_other: "j \<noteq> i \<Longrightarrow> while_driven i own t0 ttl d (tables_after (Runs_Claim t j other ttl') (d, fs))"
| progress_other: "j \<noteq> i \<Longrightarrow> while_driven i own t0 ttl d (tables_after (Progress t j cursor page url ttl') (d, fs))"
| yield_other: "j \<noteq> i \<Longrightarrow> while_driven i own t0 ttl d (tables_after (Yield t j cursor page url ttl' nf ne nr) (d, fs))"
| complete_other: "j \<noteq> i \<Longrightarrow> while_driven i own t0 ttl d (tables_after (Runs_Complete t j cursor page url nf ne nr) (d, fs))"
| fail_other: "j \<noteq> i \<Longrightarrow> while_driven i own t0 ttl d (tables_after (Runs_Fail t j code message nf ne nr) (d, fs))"
| sources: "crawl_runs d' = crawl_runs d \<Longrightarrow> while_driven i own t0 ttl d d'"

lemma held_inv: "held i own L d \<Longrightarrow> runs_ok d d' \<Longrightarrow> run_of i d' = run_of i d \<Longrightarrow> held i own L d'"
  by (simp add: held_def runs_ok_def)

lemma tables_void [simp]: "tables_after (void m) z = tables_after m z"
  by (simp add: void_def)

lemma run_update_after:
  assumes "\<And>r. cr_ID (f r) = cr_ID r"
  shows "run_of i (tables_after (run_Updates P f) (d, fs)) \<in>
    {run_of i d, map_option (\<lambda>r. if run_live r \<and> P r then f r else r) (run_of i d)}"
  using run_of_Updates[of P f d fs _ _ _ i, OF _ assms] by (cases "run_Updates P f (d, fs)") (auto simp: tables_after_def)

lemma held_Updates:
  assumes "held i own L d" and "runs_ok d d'" and "d' = tables_after (run_Updates P f) (d, fs)" and "\<And>r. cr_ID (f r) = cr_ID r"
    and "\<And>r. leased own L r \<Longrightarrow> leased own L (f r)"
  shows "held i own L d'"
proof -
  from assms(1) obtain r where r: "run_of i d = Some r" "leased own L r" by (auto simp: held_def split: option.splits)
  with run_update_after[of f i P d fs, OF assms(4)] assms(3,5) obtain r' where "run_of i d' = Some r'" "leased own L r'"
    by (cases "run_live r \<and> P r") auto
  with assms(1,2) show ?thesis by (simp add: held_def runs_ok_def)
qed

lemma run_of_other:
  assumes "j \<noteq> i" and "\<And>r. cr_ID (f r) = cr_ID r" and "\<And>r. P r \<Longrightarrow> cr_ID r = j"
  shows "run_of i (tables_after (run_Updates P f) (d, fs)) = run_of i d"
proof (cases "run_of i d")
  case (Some r)
  then have "\<not> P r" using assms(1,3) by (auto simp: run_of_def dest!: find_SomeD)
  with run_update_after[of f i P d fs, OF assms(2)] Some show ?thesis by auto
qed (use run_update_after[of f i P d fs, OF assms(2)] in auto)

lemma StartRun_keeps:
  assumes "run_of i d = Some r"
  shows "run_of i (tables_after (StartRun newID t src sched other ttl) (d, fs)) = Some r"
proof -
  have "run_of i d' = Some r" if "insert_run run d = (n, d')" for run n d'
    using assms that by (auto simp: insert_run_def run_of_def find_snoc split: if_splits)
  then show ?thesis using assms
    by (auto simp: StartRun_def Let_def tables_after_def sql_bind_def sql_stmt_def sql_return_def GetActiveBySource_def run_first_def
        sql_query_def split: prod.splits sum.splits bool.splits if_splits)
qed

lemma Claim_keeps_other:
  assumes "j \<noteq> i"
  shows "run_of i (tables_after (Runs_Claim t j other ttl) (d, fs)) = run_of i d"
proof -
  let ?m = "run_Updates (\<lambda>r. cr_ID r = j \<and> run_active r \<and> lease_free t other r)
       (\<lambda>r. r\<lparr>cr_Owner := other, cr_LeaseExpiresAt := Some (t + ttl), cr_Status := CrawlRunRunning, cr_UpdatedAt := t\<rparr>)"
  have eq: "tables_after (Runs_Claim t j other ttl) (d, fs) = tables_after ?m (d, fs)"
    unfolding Runs_Claim_def Runs_GetByID_def run_first_def
    by (auto simp: tables_after_def sql_bind_def sql_return_def sql_query_def sql_stmt_def split: prod.splits sum.splits bool.splits)
  show ?thesis unfolding eq by (rule run_of_other[OF assms]) simp_all
qed

lemma held_other:
  assumes "held i own L d" and "j \<noteq> i" and "preserves runs_ok m" and "m = run_update j f" and "\<And>r. cr_ID (f r) = cr_ID r"
  shows "held i own L (tables_after m (d, fs))"
proof -
  have "run_of i (tables_after m (d, fs)) = run_of i d"
    unfolding assms(4) run_update_def tables_void by (rule run_of_other[OF assms(2,5)])
  with assms(1) preservesD[OF assms(3)] show ?thesis by (rule held_inv)
qed

lemma while_driven_held:
  assumes "while_driven i own t0 ttl d d'" and "held i own (t0 + ttl) d" and "own \<noteq> []"
  shows "held i own (t0 + ttl) d'"
  using assms
proof (induction rule: while_driven.induct)
  case (progress t d cursor page url fs)
  show ?case
    by (rule held_Updates[OF progress(2) preservesD[OF slices_ok(1)]], simp add: Progress_def run_update_def, simp add: run_position_def)
      (use progress(1) in \<open>simp add: leased_def run_position_def run_live_def run_active_def\<close>)
next
  case (touch t d fs)
  show ?case
    by (rule held_Updates[OF touch(2) preservesD[OF TouchLease_ok]], simp add: TouchLease_def, simp)
      (use touch(1) in \<open>simp add: leased_def run_live_def run_active_def\<close>)
next
  case (claim t other d ttl' fs)
  obtain x d' fs' where c: "Runs_Claim t i other ttl' (d, fs) = (x, (d', fs'))" by (rule prod_cases3)
  from Claim_refused[OF claim(3) c claim(1,2,4)] have "crawl_runs d' = crawl_runs d" by blast
  with claim(3) c show ?case by (simp add: tables_after_def held_def runs_inv_def run_of_def)
next
  case (start d newID t src sched other ttl' fs)
  from start(1) obtain r where "run_of i d = Some r" by (auto simp: held_def split: option.splits)
  with start(1) show ?case using StartRun_keeps preservesD[OF StartRun_ok] by (metis held_inv)
next
  case (claim_other j d t other ttl' fs)
  then show ?case using Claim_keeps_other preservesD[OF Runs_Claim_ok] by (metis held_inv)
next
  case (progress_other j d t cursor page url ttl' fs)
  show ?case by (rule held_other[OF progress_other(2,1) slices_ok(1) Progress_def]) (simp add: run_position_def)
next
  case (yield_other j d t cursor page url ttl' nf ne nr fs)
  show ?case by (rule held_other[OF yield_other(2,1) slices_ok(2) Yield_def]) (simp add: run_position_def run_tallies_def)
next
  case (complete_other j d t cursor page url nf ne nr fs)
  show ?case by (rule held_other[OF complete_other(2,1) slices_ok(3) Runs_Complete_def]) (simp add: run_position_def run_tallies_def)
next
  case (fail_other j d t code message nf ne nr fs)
  show ?case by (rule held_other[OF fail_other(2,1) slices_ok(4) Runs_Fail_def]) (simp add: run_tallies_def)
next
  case (sources d' d)
  then show ?case by (simp add: held_def runs_inv_def run_of_def)
qed

lemma while_driven_run: "(while_driven i own t0 ttl)\<^sup>*\<^sup>* d d' \<Longrightarrow> held i own (t0 + ttl) d \<Longrightarrow> own \<noteq> [] \<Longrightarrow> held i own (t0 + ttl) d'"
  by (induction rule: rtranclp_induct) (auto intro: while_driven_held)

text \<open>A claim that was granted.\<close>

lemma Claim_granted:
  assumes inv: "runs_inv d" and c: "Runs_Claim t0 i own ttl (d, fs) = (Inr (Some r, True), (d', fs'))"
  shows "held i own (t0 + ttl) d'"
proof -
  let ?f = "\<lambda>r. r\<lparr>cr_Owner := own, cr_LeaseExpiresAt := Some (t0 + ttl), cr_Status := CrawlRunRunning, cr_UpdatedAt := t0\<rparr>"
  let ?P = "\<lambda>r. run_live r \<and> cr_ID r = i \<and> run_active r \<and> lease_free t0 own r"
  from c have rows: "crawl_runs d' = update_where ?P ?f (crawl_runs d)" and some: "filter ?P (crawl_runs d) \<noteq> []"
    unfolding Runs_Claim_def run_Updates_def Runs_GetByID_def run_first_def
    by (auto simp: sql_bind_def sql_return_def sql_stmt_def sql_query_def Let_def split: prod.splits sum.splits bool.splits if_splits)
  from preserves_run[OF Runs_Claim_ok c] inv have inv': "runs_inv d'" by (simp add: runs_ok_def)
  from some obtain y where y: "y \<in> set (crawl_runs d)" "?P y" by (auto simp: filter_empty_conv)
  then have "?f y \<in> set (crawl_runs d')" unfolding rows set_update_where by (force simp: image_iff)
  moreover have "distinct (map cr_ID (crawl_runs d'))" using inv' by (simp add: runs_inv_def)
  ultimately have "run_of (cr_ID (?f y)) d' = Some (?f y)" unfolding run_of_def by (intro distinct_key_find)
  with y inv' show ?thesis by (simp add: held_def leased_def run_live_def run_active_def ActiveCrawlRunStatuses_def)
qed

section \<open>Deliveries that are dropped\<close>

definition runs_same :: "crawldb \<Rightarrow> crawldb \<Rightarrow> bool" where
  "runs_same d d' \<longleftrightarrow> crawl_runs d' = crawl_runs d"

interpretation sr: run_relation runs_same
  by unfold_locales (simp_all add: runs_same_def)

lemma first_row_mem:
  assumes "first_row k rows = Some r"
  shows "r \<in> set rows"
proof -
  from assms obtain rs where "sort_key k rows = r # rs" by (auto simp: first_row_def split: list.splits)
  then have "r \<in> set (sort_key k rows)" by simp
  then show ?thesis by (simp only: set_sort)
qed

lemma on_crawl_InrD: "on_crawl m (w, fs) = (Inr x, (w', fs')) \<Longrightarrow> m (cw_db w, fs) = (Inr x, (cw_db w', fs'))"
  by (auto simp: on_crawl_def lift_sql_def split: prod.splits)

lemma Sources_GetByID_id:
  assumes "on_crawl (Sources_GetByID i) (w, fs) = (Inr (Some src), (w', fs'))"
  shows "src_ID src = i"
proof -
  from sql_query_InrD[OF on_crawl_InrD[OF assms, unfolded Sources_GetByID_def src_first_def]]
  have "first_row src_ID (src_where (\<lambda>s. src_ID s = i) (cw_db w)) = Some src" by simp
  from first_row_mem[OF this] show ?thesis by (simp add: src_where_def)
qed

text \<open>When the run of a request cannot be opened or claimed, the handler leaves the runs alone.\<close>

lemma Execute_dropped:
  assumes H: "H (cw_db w)" and same: "\<And>d d'. crawl_runs d' = crawl_runs d \<Longrightarrow> H d \<Longrightarrow> H d'"
    and drop: "\<And>w fs x w' fs' src. H (cw_db w) \<Longrightarrow> src_ID src = rq_Source req \<Longrightarrow> resolve_run dp env req src (w, fs) = (x, (w', fs')) \<Longrightarrow>
       crawl_runs (cw_db w') = crawl_runs (cw_db w) \<and> (x = Inr None \<or> (\<exists>e. x = Inl e))"
  shows "crawl_runs (cw_db (tables_after (CrawlRequest_Execute dp env req) (w, fs))) = crawl_runs (cw_db w)"
proof -
  let ?R = "world_rel runs_same"
  have src: "?R w1 (tables_after (crawl_source dp env req src) (w1, fs1))" if h1: "H (cw_db w1)" and i: "src_ID src = rq_Source req" for w1 fs1 src
    unfolding crawl_source_def
  proof (rule sr.wk.after_bind, intro conjI allI impI)
    fix x w2 fs2 path
    assume p: "resolve_path dp env src (w1, fs1) = (x, (w2, fs2))"
    from preserves_run[OF sr.resolve_path_rel p] show "?R w1 w2" .
    then have h2: "H (cw_db w2)" using same h1 by (auto simp: world_rel_def runs_same_def)
    have "?R w2 (tables_after (sql_bind (resolve_run dp env req src) (\<lambda>run. case run of None \<Rightarrow> sql_return () | Some r \<Rightarrow> run_slice dp env req src path r)) (w2, fs2))" for path
    proof (rule sr.wk.after_bind)
      fix y w3 fs3
      assume "resolve_run dp env req src (w2, fs2) = (y, (w3, fs3))"
      from drop[OF h2 i this] show "?R w2 w3 \<and> (\<forall>r. y = Inr r \<longrightarrow>
          ?R w3 (tables_after (case r of None \<Rightarrow> sql_return () | Some r \<Rightarrow> run_slice dp env req src path r) (w3, fs3)))"
        by (auto simp: world_rel_def runs_same_def tables_after_def sql_return_def)
    qed
    then show "?R w2 (tables_after (case path of RecipeRequired \<Rightarrow> refuse_source env req src ''recipe_required''
       | NoEngine \<Rightarrow> refuse_source env req src ''connector_not_registered''
       | _ \<Rightarrow> sql_bind (resolve_run dp env req src) (\<lambda>run. case run of None \<Rightarrow> sql_return () | Some r \<Rightarrow> run_slice dp env req src path r)) (w2, fs2))"
      using preservesD[OF sr.refuse_rel] by (cases path) auto
  qed
  have "?R w (tables_after (CrawlRequest_Execute dp env req) (w, fs))"
    unfolding CrawlRequest_Execute_def
  proof (rule sr.wk.after_bind, intro conjI allI impI)
    fix x w1 fs1 s
    assume g: "sql_wrap ''crawl.request: GetByID'' (on_crawl (Sources_GetByID (rq_Source req))) (w, fs) = (x, (w1, fs1))"
    from preserves_run[OF sr.wk.preserves_wrap[OF world_lift[OF sr.source_ops_rel(1)]] g] show r1: "?R w w1" .
    assume s: "x = Inr s"
    have i: "src_ID src = rq_Source req" if "s = Some src" for src
      using g Sources_GetByID_id unfolding s that sql_wrap_Inr by blast
    have h1: "H (cw_db w1)" using same H r1 by (auto simp: world_rel_def runs_same_def)
    show "?R w1 (tables_after (case s of None \<Rightarrow> emitCompleted (failed_page req [] ''source_not_found'')
       | Some src \<Rightarrow> if src_Status src \<noteq> SourceActive \<and> src_Status src \<noteq> SourceDegraded
           then emitCompleted (failed_page req (src_BaseURL src) ''source_not_eligible'') else crawl_source dp env req (default_kinds src)) (w1, fs1))"
      using preservesD[OF sr.emit_rel(2)] i src[OF h1] by (cases s) (auto simp: default_kinds_def)
  qed
  then show ?thesis by (simp add: world_rel_def runs_same_def)
qed

lemma claim_dropped:
  assumes "held i own L (cw_db w)" and "rq_RunID req = i" "i \<noteq> []" "dp_Owner dp \<noteq> own" "own \<noteq> []" "ev_RunNow env \<le> L"
    and r: "resolve_run dp env req src (w, fs) = (x, (w', fs'))"
  shows "crawl_runs (cw_db w') = crawl_runs (cw_db w) \<and> (x = Inr None \<or> (\<exists>e. x = Inl e))"
proof -
  obtain y d' fs1 where c: "Runs_Claim (ev_RunNow env) i (dp_Owner dp) (lease_ttl (dp_RunLeaseTTLSec dp)) (cw_db w, fs) = (y, (d', fs1))"
    by (rule prod_cases3)
  from Claim_refused[OF assms(1) c assms(6,4,5)] have "crawl_runs d' = crawl_runs (cw_db w)" "y = Inr (None, False) \<or> (\<exists>e. y = Inl e)" by auto
  with r c assms(2,3) show ?thesis
    by (auto simp: resolve_run_def sql_bind_def sql_wrap_def sql_return_def on_crawl_def lift_sql_def split: prod.splits sum.splits)
qed

lemma start_dropped:
  assumes inv: "run_of i (cw_db w) = Some row" "run_active row" "cr_SourceID row = s"
    and req: "rq_RunID req = []" "src_ID src = s"
    and r: "resolve_run dp env req src (w, fs) = (x, (w', fs'))"
  shows "crawl_runs (cw_db w') = crawl_runs (cw_db w) \<and> (x = Inr None \<or> (\<exists>e. x = Inl e))"
proof -
  have mem: "row \<in> set (crawl_runs (cw_db w))" using inv(1) by (auto simp: run_of_def dest: find_SomeD)
  have "\<not> active_unique (crawl_runs (cw_db w) @ [new_run n t s u q l])" for n t u q l
    using mem inv(2,3) by (force simp: active_unique_def new_run_def run_active_def ActiveCrawlRunStatuses_def image_iff)
  then have "insert_run (new_run n t s u q l) (cw_db w) = (0, cw_db w)" for n t u q l by (simp add: insert_run_def)
  with r req show ?thesis
    by (auto simp: resolve_run_def StartRun_def Let_def sql_bind_def sql_wrap_def sql_return_def on_crawl_def lift_sql_def sql_stmt_def
        GetActiveBySource_def run_first_def sql_query_def split: prod.splits sum.splits bool.splits)
qed

section \<open>The run of a dead process\<close>

definition orphan :: "string \<Rightarrow> string \<Rightarrow> string \<Rightarrow> int \<Rightarrow> crawldb \<Rightarrow> bool" where
  "orphan i own s a d \<longleftrightarrow> runs_inv d \<and> (case run_of i d of None \<Rightarrow> False
     | Some r \<Rightarrow> run_live r \<and> run_active r \<and> cr_Owner r = own \<and> cr_SourceID r = s \<and> cr_Attempt r = a \<and> cr_LeaseExpiresAt r \<noteq> None)"

definition lease_runs :: "time \<Rightarrow> string \<Rightarrow> crawldb \<Rightarrow> bool" where
  "lease_runs t i d \<longleftrightarrow> (case run_of i d of None \<Rightarrow> False | Some r \<Rightarrow> (case cr_LeaseExpiresAt r of None \<Rightarrow> False | Some L \<Rightarrow> t \<le> L))"

text \<open>
  What happens to the run after its process died: sweeps of the watchdog, continuations that another
  process takes up while the lease renewed by the sweep still runs, scheduled ticks of the source, and
  the bookkeeping and dispatch of the other handlers.
\<close>

inductive orphan_step :: "string \<Rightarrow> string \<Rightarrow> string \<Rightarrow> int \<Rightarrow> crawlworld \<Rightarrow> crawlworld \<Rightarrow> bool" for i own s stuckMax where
  sweep: "orphan_step i own s stuckMax w (tables_after (CrawlRunWatchdogHandler admit batch stuckMax ttlSec senv) (w, fs))"
| continuation: "rq_RunID req = i \<Longrightarrow> dp_Owner dp \<noteq> own \<Longrightarrow> lease_runs (ev_RunNow env) i (cw_db w) \<Longrightarrow>
    orphan_step i own s stuckMax w (tables_after (CrawlRequest_Execute dp env req) (w, fs))"
| tick: "rq_RunID req = [] \<Longrightarrow> rq_Source req = s \<Longrightarrow> orphan_step i own s stuckMax w (tables_after (CrawlRequest_Execute dp env req) (w, fs))"
| dispatched: "orphan_step i own s stuckMax w (tables_after (SourceCrawlHandler fmt cfg now admitNow rid j) (w, fs))"
| completed: "orphan_step i own s stuckMax w (tables_after (PageCompleted_Execute pcfg stmt now p) (w, fs))"

definition orphan_rel :: "string \<Rightarrow> string \<Rightarrow> string \<Rightarrow> int \<Rightarrow> crawldb \<Rightarrow> crawldb \<Rightarrow> bool" where
  "orphan_rel i own s a d d' \<longleftrightarrow> (orphan i own s a d \<longrightarrow> orphan i own s a d')"

lemma orphan_same: "crawl_runs d' = crawl_runs d \<Longrightarrow> orphan i own s a d \<Longrightarrow> orphan i own s a d'"
  by (simp add: orphan_def runs_inv_def run_of_def)

interpretation op: run_relation "orphan_rel i own s a" for i own s a
  by unfold_locales (auto simp: orphan_rel_def intro: orphan_same)

lemma orphan_touch: "preserves (orphan_rel i own s a) (TouchLease t j ttl)"
  unfolding preserves_def orphan_rel_def
proof (intro allI impI)
  fix z :: "crawldb dbstate"
  assume o: "orphan i own s a (fst z)"
  obtain d fs where z: "z = (d, fs)" by (cases z)
  from preservesD[OF TouchLease_ok, of d t j ttl fs] have ok: "runs_ok d (tables_after (TouchLease t j ttl) (d, fs))" .
  from o z obtain r where r: "run_of i d = Some r" "orphan i own s a d" by (auto simp: orphan_def split: option.splits)
  with ok show "orphan i own s a (tables_after (TouchLease t j ttl) z)" unfolding z
    using run_update_after[of "\<lambda>r. r\<lparr>cr_LeaseExpiresAt := Some (t + ttl), cr_UpdatedAt := t\<rparr>" i "\<lambda>r. cr_ID r = j \<and> run_active r" d fs]
    by (auto simp: TouchLease_def orphan_def runs_ok_def run_live_def run_active_def)
qed

lemma orphan_fail: "j \<noteq> i \<Longrightarrow> preserves (orphan_rel i own s a) (Runs_Fail t j c m f e r)"
  unfolding preserves_def orphan_rel_def
proof (intro allI impI)
  fix z :: "crawldb dbstate"
  assume j: "j \<noteq> i" and o: "orphan i own s a (fst z)"
  obtain d fs where z: "z = (d, fs)" by (cases z)
  have "run_of i (tables_after (Runs_Fail t j c m f e r) (d, fs)) = run_of i d"
    unfolding Runs_Fail_def run_update_def tables_void by (rule run_of_other[OF j]) (simp_all add: run_tallies_def)
  moreover from preservesD[OF slices_ok(4)] have "runs_ok d (tables_after (Runs_Fail t j c m f e r) (d, fs))" .
  ultimately show "orphan i own s a (tables_after (Runs_Fail t j c m f e r) z)" using o z by (simp add: orphan_def runs_ok_def)
qed

lemma FindResumable_sub:
  assumes "on_crawl (FindResumable t n) (w, fs) = (Inr runs, (w', fs'))"
  shows "set runs \<subseteq> set (crawl_runs (cw_db w))"
proof -
  from sql_query_InrD[OF on_crawl_InrD[OF assms, unfolded FindResumable_def]] have
    "runs = gorm_limit n (sort_key cr_LastProgressAt (filter (\<lambda>r. run_live r \<and> lapsed t r) (crawl_runs (cw_db w))))" by simp
  then have "set runs \<subseteq> set (sort_key cr_LastProgressAt (filter (\<lambda>r. run_live r \<and> lapsed t r) (crawl_runs (cw_db w))))"
    by (auto simp: gorm_limit_def dest: in_set_takeD)
  then show ?thesis by auto
qed

lemma orphan_sweep:
  assumes o: "orphan i own s a (cw_db w)" and st: "stuckMax \<le> 0 \<or> a < stuckMax"
  shows "orphan i own s a (cw_db (tables_after (CrawlRunWatchdogHandler admit batch stuckMax ttlSec env) (w, fs)))"
proof -
  let ?R = "world_rel (orphan_rel i own s a)"
  let ?find = "on_crawl (FindResumable (sw_Now env) (if batch \<le> 0 then 50 else batch))"
  have "?R w (tables_after (sql_bind ?find (\<lambda>runs. sql_bind (sweep_runs admit stuckMax (lease_ttl ttlSec) env 0 runs (0, 0, 0)) (\<lambda>(redriven, failed, deferred).
       sql_return (ReplySweep (int (length runs)) redriven failed deferred)))) (w, fs))"
  proof (rule op.wk.after_bind, intro conjI allI impI)
    fix x w1 fs1 runs
    assume f: "?find (w, fs) = (x, (w1, fs1))"
    from preserves_run[OF world_lift[OF op.FindResumable_rel] f] show "?R w w1" .
    assume x: "x = Inr runs"
    have sub: "set runs \<subseteq> set (crawl_runs (cw_db w))" using f unfolding x by (rule FindResumable_sub)
    have "cr_Attempt run = a" if "run \<in> set runs" "cr_ID run = i" for run
      using o run_of_mem[of "cw_db w" i _ run] sub that by (auto simp: orphan_def split: option.splits)
    then have "cr_ID run \<noteq> i" if "run \<in> set runs" "stuckMax > 0 \<and> cr_Attempt run \<ge> stuckMax" for run
      using st that by force
    then have "preserves ?R (sweep_runs admit stuckMax (lease_ttl ttlSec) env 0 runs (0, 0, 0))"
      by (intro op.sweep_rel orphan_touch orphan_fail)
    then show "?R w1 (tables_after (sql_bind (sweep_runs admit stuckMax (lease_ttl ttlSec) env 0 runs (0, 0, 0)) (\<lambda>(redriven, failed, deferred).
       sql_return (ReplySweep (int (length runs)) redriven failed deferred))) (w1, fs1))"
      by (rule preservesD[OF op.wk.preserves_bind]) (intro op.world_rules)
  qed
  with o show ?thesis unfolding CrawlRunWatchdogHandler_def reply_error_def by (simp add: world_rel_def orphan_rel_def)
qed

lemma orphan_held: "orphan i own s a d \<Longrightarrow> lease_runs t i d \<Longrightarrow> held i own t d"
  by (auto simp: orphan_def lease_runs_def held_def leased_def split: option.splits)

lemma lease_runs_same: "crawl_runs d' = crawl_runs d \<Longrightarrow> held i own t d \<Longrightarrow> held i own t d'"
  by (simp add: held_def runs_inv_def run_of_def)

lemma orphan_step_keeps:
  assumes "orphan_step i own s stuckMax w w'" and "orphan i own s a (cw_db w)" and "stuckMax \<le> 0 \<or> a < stuckMax" "i \<noteq> []" "own \<noteq> []"
  shows "orphan i own s a (cw_db w')"
  using assms
proof (induction rule: orphan_step.induct)
  case (sweep w admit batch ttlSec senv fs)
  then show ?case by (intro orphan_sweep)
next
  case (continuation req dp env w fs)
  have "crawl_runs (cw_db (tables_after (CrawlRequest_Execute dp env req) (w, fs))) = crawl_runs (cw_db w)"
  proof (rule Execute_dropped[where H = "held i own (ev_RunNow env)"])
    fix w1 fs1 x w2 fs2 src
    assume "held i own (ev_RunNow env) (cw_db w1)" and "resolve_run dp env req src (w1, fs1) = (x, (w2, fs2))"
    then show "crawl_runs (cw_db w2) = crawl_runs (cw_db w1) \<and> (x = Inr None \<or> (\<exists>e. x = Inl e))"
      by (rule claim_dropped[OF _ continuation(1,6,2,7) order_refl])
  qed (use continuation orphan_held in \<open>auto intro: lease_runs_same\<close>)
  then show ?case using continuation(4) by (rule orphan_same)
next
  case (tick req w dp env fs)
  have "crawl_runs (cw_db (tables_after (CrawlRequest_Execute dp env req) (w, fs))) = crawl_runs (cw_db w)"
  proof (rule Execute_dropped[where H = "orphan i own s a"])
    fix w1 fs1 x w2 fs2 src
    assume "orphan i own s a (cw_db w1)" "src_ID src = rq_Source req" "resolve_run dp env req src (w1, fs1) = (x, (w2, fs2))"
    then show "crawl_runs (cw_db w2) = crawl_runs (cw_db w1) \<and> (x = Inr None \<or> (\<exists>e. x = Inl e))"
      using start_dropped[of i w1 _ s req src] tick(1,2) by (fastforce simp: orphan_def split: option.splits)
  qed (use tick in \<open>auto intro: orphan_same\<close>)
  then show ?case using tick(3) by (rule orphan_same)
next
  case (dispatched w fmt cfg now admitNow rid j fs)
  then show ?case using preservesD[OF op.control_rel(1)] unfolding world_rel_def orphan_rel_def by blast
next
  case (completed w pcfg stmt now p fs)
  then show ?case using preservesD[OF op.control_rel(5)] unfolding world_rel_def orphan_rel_def by blast
qed

lemma orphan_run:
  assumes "(orphan_step i own s stuckMax)\<^sup>*\<^sup>* w w'" and "orphan i own s a (cw_db w)" and "stuckMax \<le> 0 \<or> a < stuckMax" "i \<noteq> []" "own \<noteq> []"
  shows "orphan i own s a (cw_db w')"
  using assms by (induction rule: rtranclp_induct) (auto intro: orphan_step_keeps)

end
