(* ===== verification/Crawl_Properties.thy ===== *)
theory Crawl_Properties
  imports Crawl_Leases
begin

text \<open>
  Properties of the crawl control plane: one run per source, exclusion by the lease, the run of a dead
  process, and what the handlers do to the status of a source.
\<close>

section \<open>Sample data\<close>

definition sample_source :: "string \<Rightarrow> string \<Rightarrow> Source" where
  "sample_source i status = (discovered_source SourceSchemaOrg ''https://a.example'' ''KE'')\<lparr>src_ID := i, src_Name := ''A'', src_Status := status\<rparr>"

definition sample_run :: "string \<Rightarrow> string \<Rightarrow> CrawlRun" where
  "sample_run i own = new_run i 0 ''s'' 0 own (300 * Second)"

definition empty_jobs :: jobdb where
  "empty_jobs = \<lparr>job_ingest_queue = [], job_ingest_events = [], opportunity_identities = [], opportunities = [], opportunity_sources = []\<rparr>"

definition sample_world :: "Source list \<Rightarrow> CrawlRun list \<Rightarrow> crawlworld" where
  "sample_world srcs runs = \<lparr>cw_db = \<lparr>sources = srcs, crawl_runs = runs, crawl_jobs = [], source_recipes = []\<rparr>, cw_queue = empty_jobs,
     cw_product = None, cw_frontier = \<lparr>url_frontier = [], host_state = []\<rparr>, cw_requests = [], cw_completed = [], cw_regenerates = []\<rparr>"

definition sample_codec :: accept_codec where
  "sample_codec = \<lparr>ac_html = (\<lambda>s. s), ac_text = (\<lambda>s. s), ac_detect = (\<lambda>_. None),
     ac_parse = (\<lambda>s. Some \<lparr>pu_Scheme = ''https'', pu_Host = drop 8 s, pu_Hostname = drop 8 s, pu_Path = [], pu_Query = [], pu_Fragment = []\<rparr>),
     ac_escapedPath = pu_Path, ac_RFC3339 = (\<lambda>_. []), ac_sha256hex = (\<lambda>s. s)\<rparr>"

definition sample_deps :: "string \<Rightarrow> crawl_iter \<Rightarrow> crawl_deps" where
  "sample_deps own it = \<lparr>dp_Owner = own, dp_SliceMaxPages = 50, dp_SliceMaxSeconds = 120, dp_RunLeaseTTLSec = 300, dp_RunStuckMaxAttempts = 5,
     dp_IngestMaxPending = 0, dp_IngestMaxOldestAge = 0, dp_QueueMaxPending = 0, dp_Frontier = False, dp_RecipeEnabled = False, dp_Kinds = None,
     dp_Normalizer = None, dp_HowToApply = None, dp_Admitter = None, dp_Registry = (\<lambda>_. Some \<lparr>cn_Crawl = (\<lambda>_. it), cn_Resume = None\<rparr>),
     dp_Executor = (\<lambda>_ _. it), dp_ExecutorResume = (\<lambda>_ _ _. Inr it), dp_Stock = (\<lambda>_. None), dp_acquisition = (\<lambda>_. None),
     dp_withVersion = (\<lambda>_ s. s), dp_accept = sample_codec,
     dp_urls = \<lparr>uc_parse = ac_parse sample_codec, uc_render = (\<lambda>u. pu_Host u), uc_sha256hex = (\<lambda>s. s)\<rparr>,
     dp_marshalVariant = (\<lambda>p. Some (AStr (vi_HardKey p))), dp_marshalReject = (\<lambda>_. Some ANil)\<rparr>"

definition sample_env :: "time \<Rightarrow> crawl_env" where
  "sample_env t = \<lparr>ev_PauseNow = t, ev_RecipeID = ''rc'', ev_RecipeNow = t, ev_RunID = ''new'', ev_RunNow = t, ev_JobID = ''j'', ev_JobNow = t,
     ev_StartNow = t, ev_LoopNow = t, ev_AcceptNow = (\<lambda>_. t), ev_VariantID = (\<lambda>n. ''v'' @ digits n), ev_IngestID = (\<lambda>n. ''i'' @ digits n),
     ev_EventID = (\<lambda>n. ''e'' @ digits n), ev_QueueNow = (\<lambda>_. t), ev_URLID = (\<lambda>n. ''u'' @ digits n), ev_FrontierNow = (\<lambda>_. t),
     ev_ProgressNow = (\<lambda>_. t), ev_PageNow = (\<lambda>_. t), ev_StatsNow = (\<lambda>_. t), ev_FinalNow = t, ev_ReconcileNow = t, ev_AdmitNow = t,
     ev_RequestID = ''next'', ev_FinishNow = t\<rparr>"

definition sample_iter :: crawl_iter where
  "sample_iter = \<lparr>ci_Pages = [], ci_Err = (\<lambda>_. None)\<rparr>"

definition tick_of :: "string \<Rightarrow> time \<Rightarrow> CrawlRequestV1" where
  "tick_of i t = tick_request (\<lambda>_. []) ''q'' i t"

definition sweep_at :: "time \<Rightarrow> sweep_env" where
  "sweep_at t = \<lparr>sw_Now = t, sw_AdmitNow = (\<lambda>_. t), sw_RunNow = (\<lambda>_. t), sw_RequestID = (\<lambda>_. ''q'')\<rparr>"

lemmas sample_defs = sample_source_def sample_run_def sample_world_def empty_jobs_def sample_deps_def sample_env_def sample_iter_def tick_of_def
  sweep_at_def discovered_source_def

lemma sample_runs_inv: "runs_inv (cw_db (sample_world srcs [sample_run i own]))" "runs_inv (cw_db (sample_world srcs []))"
  by (simp_all add: runs_inv_def active_unique_def sample_world_def)

lemma three_steps: "R a b \<Longrightarrow> R b c \<Longrightarrow> R c d \<Longrightarrow> R\<^sup>*\<^sup>* a d"
  by (rule converse_rtranclp_into_rtranclp, assumption)+ (rule rtranclp.rtrancl_refl)

section \<open>One run per source\<close>

text \<open>
  C6. Whatever sequence of crawl requests, sweeps, ticks, overdue dispatches, page completions and
  discoveries is handled, with whatever failures, a source never has two active runs; no run
  disappears, and every run keeps its identity and its start, while its slice count, its attempts and its tallies of jobs
  found, emitted and rejected never decrease.
\<close>

theorem one_run_per_source:
  assumes "crawl_step\<^sup>*\<^sup>* w w'" and "runs_inv (cw_db w)"
  shows "length (filter (\<lambda>r. run_active r \<and> cr_SourceID r = s) (crawl_runs (cw_db w'))) \<le> 1 \<and>
    (\<forall>r \<in> set (crawl_runs (cw_db w)). \<exists>r' \<in> set (crawl_runs (cw_db w')). run_evolves r r')"
proof
  from crawl_steps_grow[OF assms] have ok: "runs_grow (cw_db w) (cw_db w')" .
  with assms(2) show "length (filter (\<lambda>r. run_active r \<and> cr_SourceID r = s) (crawl_runs (cw_db w'))) \<le> 1"
    by (intro active_unique_one) (simp add: runs_rel_def runs_inv_def)
  from ok show "\<forall>r \<in> set (crawl_runs (cw_db w)). \<exists>r' \<in> set (crawl_runs (cw_db w')). run_evolves r r'"
    by (auto simp: runs_rel_def elim: rows_evolve_mem)
qed

text \<open>Two ticks of one source and a sweep of the watchdog, on a source with a run.\<close>

definition busy_world :: crawlworld where
  "busy_world = sample_world [sample_source ''s'' SourceActive] [sample_run ''r'' ''p'']"

definition ticked :: "crawlworld \<Rightarrow> crawlworld" where
  "ticked w = tables_after (CrawlRequest_Execute (sample_deps ''p'' sample_iter) (sample_env 5) (tick_of ''s'' 5)) (w, [])"

definition swept :: "time \<Rightarrow> crawlworld \<Rightarrow> crawlworld" where
  "swept t w = tables_after (CrawlRunWatchdogHandler None 50 5 300 (sweep_at t)) (w, [])"

theorem one_run_per_source_witness:
  "length (filter (\<lambda>r. run_active r \<and> cr_SourceID r = ''s'') (crawl_runs (cw_db (ticked (swept (400 * Second) (ticked busy_world)))))) \<le> 1 \<and>
   (\<exists>r' \<in> set (crawl_runs (cw_db (ticked (swept (400 * Second) (ticked busy_world))))). run_evolves (sample_run ''r'' ''p'') r')"
proof -
  have tick: "crawl_step w (ticked w)" and sweep: "crawl_step w (swept (400 * Second) w)" for w
    unfolding ticked_def swept_def by (rule crawl_step.intros)+
  have "crawl_step\<^sup>*\<^sup>* busy_world (ticked (swept (400 * Second) (ticked busy_world)))"
    by (rule three_steps) (rule tick sweep)+
  moreover have "runs_inv (cw_db busy_world)" by (simp add: busy_world_def sample_runs_inv)
  moreover have "sample_run ''r'' ''p'' \<in> set (crawl_runs (cw_db busy_world))" by (simp add: busy_world_def sample_world_def)
  ultimately show ?thesis using one_run_per_source by blast
qed

section \<open>The lease\<close>

text \<open>
  C7. After a process has claimed a run, a claim by another process at a time inside the lease is refused and changes no
  run, when what happened in between is progress of the run, renewals of its lease, claims by others inside the lease, starts of
  runs, any operation on other runs and any change of other tables.  A yield, completion or failure of the run itself ends the lease:
  the code checks no owner there, so one by a process that lost the run would let the other claim succeed.
\<close>

theorem lease_excludes:
  assumes "runs_inv d" and "Runs_Claim t0 i own ttl (d, fs) = (Inr (Some r, True), (d1, fs1))" and "own \<noteq> []"
    and "(while_driven i own t0 ttl)\<^sup>*\<^sup>* d1 d2" and "other \<noteq> own" and "t \<le> t0 + ttl"
    and "Runs_Claim t i other ttl' (d2, gs) = (x, (d3, gs'))"
  shows "crawl_runs d3 = crawl_runs d2 \<and> (x = Inr (None, False) \<or> (\<exists>e. x = Inl e))"
proof -
  from Claim_granted[OF assms(1,2)] while_driven_run[OF assms(4) _ assms(3)] have "held i own (t0 + ttl) d2" by blast
  from Claim_refused[OF this assms(7,6,5,3)] show ?thesis .
qed

definition yielded_run :: CrawlRun where
  "yielded_run = (sample_run ''r'' [])\<lparr>cr_Attempt := 1\<rparr>"

definition claimed_db :: crawldb where
  "claimed_db = tables_after (Runs_Claim 10 ''r'' ''p'' 300) (cw_db (sample_world [] [yielded_run]), [])"

definition progressed_db :: crawldb where
  "progressed_db = tables_after (Progress 20 ''r'' ''c'' 1 [] 300) (claimed_db, [])"

theorem lease_excludes_witness:
  "fst (Runs_Claim 10 ''r'' ''p'' 300 (cw_db (sample_world [] [yielded_run]), [])) \<noteq> Inr (None, False) \<and>
   crawl_runs (tables_after (Runs_Claim 300 ''r'' ''other'' 300) (progressed_db, [])) = crawl_runs progressed_db"
proof -
  have granted: "Runs_Claim 10 ''r'' ''p'' 300 (cw_db (sample_world [] [yielded_run]), []) =
      (Inr (Some (yielded_run\<lparr>cr_Owner := ''p'', cr_LeaseExpiresAt := Some 310, cr_Status := CrawlRunRunning, cr_UpdatedAt := 10\<rparr>), True), (claimed_db, []))"
    unfolding claimed_db_def
    by (simp add: sql_simps Runs_Claim_def run_Updates_def Runs_GetByID_def run_first_def tables_after_def sample_world_def yielded_run_def
        sample_run_def new_run_def run_live_def run_active_def ActiveCrawlRunStatuses_def lease_free_def active_unique_def first_row_def)
  have inv: "runs_inv (cw_db (sample_world [] [yielded_run]))" by (simp add: runs_inv_def active_unique_def sample_world_def)
  have "while_driven ''r'' ''p'' 10 300 claimed_db progressed_db" unfolding progressed_db_def by (rule while_driven.progress) simp
  then have run: "(while_driven ''r'' ''p'' 10 300)\<^sup>*\<^sup>* claimed_db progressed_db" by (rule r_into_rtranclp)
  obtain x d3 gs' where c: "Runs_Claim 300 ''r'' ''other'' 300 (progressed_db, []) = (x, (d3, gs'))" by (rule prod_cases3)
  from lease_excludes[OF inv granted _ run _ _ c] granted c show ?thesis by (simp add: tables_after_def)
qed

section \<open>The run of a dead process\<close>

text \<open>
  C37. When a process dies while it drives a run whose attempt count is below the limit of the watchdog (or with no limit),
  no other process resumes the run as long as continuations are taken up before the lease lapses again: the watchdog renews the lease without
  clearing the owner, so the claim of the continuation it emits is refused; the attempt count does not
  grow, so the run is not given up either, and every tick of the source is dropped because the run
  still counts as active.
\<close>

theorem orphaned_run_never_resumed:
  assumes "orphan i own s a (cw_db w)" and "i \<noteq> []" "own \<noteq> []" and "stuckMax \<le> 0 \<or> a < stuckMax"
    and "(orphan_step i own s stuckMax)\<^sup>*\<^sup>* w w'"
  shows "\<exists>r. run_of i (cw_db w') = Some r \<and> run_active r \<and> cr_Owner r = own \<and> cr_SourceID r = s \<and> cr_Attempt r = a"
  using orphan_run[OF assms(5,1,4,2,3)] by (auto simp: orphan_def split: option.splits)

text \<open>
  A run of process \<open>dead\<close> whose lease ended after five minutes; the watchdog sweeps at minute six,
  process \<open>p\<close> takes up the continuation a minute later, and the source ticks again.
\<close>

definition dead_world :: crawlworld where
  "dead_world = sample_world [sample_source ''s'' SourceActive] [sample_run ''r'' ''dead'']"

definition redriven :: "crawlworld \<Rightarrow> crawlworld" where
  "redriven w = tables_after (CrawlRequest_Execute (sample_deps ''p'' sample_iter) (sample_env (420 * Second))
     (redrive_request ''q'' (sample_run ''r'' ''dead''))) (w, [])"

lemma sweep_renews: "lease_runs (420 * Second) ''r'' (cw_db (swept (360 * Second) dead_world))"
  by (simp add: swept_def CrawlRunWatchdogHandler_def reply_error_def tables_after_def dead_world_def sample_world_def FindResumable_def
      sweep_at_def sql_simps on_crawl_def lift_sql_def lapsed_def sample_run_def new_run_def run_live_def run_active_def
      ActiveCrawlRunStatuses_def TouchLease_def run_Updates_def lease_ttl_def emit_request_def redrive_request_def lease_runs_def run_of_def
      active_unique_def Second_def gorm_limit_def void_def)

theorem orphaned_run_never_resumed_witness:
  "\<exists>r. run_of ''r'' (cw_db (ticked (redriven (swept (360 * Second) dead_world)))) = Some r \<and> run_active r \<and> cr_Owner r = ''dead'' \<and>
     cr_SourceID r = ''s'' \<and> cr_Attempt r = 0"
proof -
  let ?st = "orphan_step ''r'' ''dead'' ''s'' 5"
  have s1: "?st dead_world (swept (360 * Second) dead_world)" unfolding swept_def by (rule orphan_step.sweep)
  have s2: "?st (swept (360 * Second) dead_world) (redriven (swept (360 * Second) dead_world))" unfolding redriven_def
    by (rule orphan_step.continuation)
      (use sweep_renews in \<open>simp_all add: redrive_request_def sample_run_def new_run_def sample_deps_def sample_env_def\<close>)
  have s3: "?st w (ticked w)" for w unfolding ticked_def by (rule orphan_step.tick) (simp_all add: tick_of_def tick_request_def)
  have run: "?st\<^sup>*\<^sup>* dead_world (ticked (redriven (swept (360 * Second) dead_world)))"
    by (rule three_steps) (rule s1 s2 s3)+
  have "orphan ''r'' ''dead'' ''s'' 0 (cw_db dead_world)"
    by (simp add: orphan_def dead_world_def sample_runs_inv)
      (simp add: run_of_def sample_world_def sample_run_def new_run_def run_live_def run_active_def ActiveCrawlRunStatuses_def)
  from orphaned_run_never_resumed[OF this _ _ _ run] show ?thesis by simp
qed

end
