(* ===== verification/Crawl_Schedules.thy ===== *)
theory Crawl_Schedules
  imports Crawl_Properties
begin

text \<open>
  The schedules of sources: the hours at which a source is crawled, and what a reconciliation leaves
  in the workflow service.
\<close>

section \<open>The hours of a schedule\<close>

text \<open>The interval of a schedule in hours, and the hours between its fires, the last one into the next day.\<close>

definition interval_hours :: "int \<Rightarrow> int" where
  "interval_hours crawlIntervalSec = max ((if crawlIntervalSec \<le> 0 then 3600 else crawlIntervalSec) div 3600) MinCrawlIntervalHours"

definition day_gaps :: "int list \<Rightarrow> int list" where
  "day_gaps hs = map2 (\<lambda>a b. b - a) hs (tl hs @ [hd hs + 24])"

lemma jitter_bounds: "0 < n \<Longrightarrow> 0 \<le> jitter i n \<and> jitter i n < n"
  by (simp add: jitter_def)

lemma hour_list_end: "24 \<le> h \<Longrightarrow> hour_list h hours = []"
  by (simp add: hour_list.simps)

lemma hour_list_half:
  assumes "12 \<le> hours" "hours < 24" "0 \<le> p" "p < hours"
  shows "hour_list p hours = (if p + hours < 24 then [p, p + hours] else [p])"
  using assms by (simp add: hour_list.simps[of p] hour_list.simps[of "p + hours"] hour_list_end)

lemma cron_hours_cases:
  "cron_hours secs i = (let hours = interval_hours secs; p = jitter (i @ '':hour'') hours
     in if 24 \<le> hours then [jitter i 24] else if p + hours < 24 then [p, p + hours] else [p])"
proof -
  have "12 \<le> interval_hours secs" by (simp add: interval_hours_def MinCrawlIntervalHours_def)
  moreover have "cron_hours secs i = (if 24 \<le> interval_hours secs then [jitter i 24]
      else hour_list (jitter (i @ '':hour'') (interval_hours secs)) (interval_hours secs))"
    by (simp only: cron_hours_def interval_hours_def Let_def)
  ultimately show ?thesis using jitter_bounds[of "interval_hours secs" "i @ '':hour''"] by (simp add: Let_def hour_list_half)
qed

text \<open>
  Every schedule names at least one hour of the day, in increasing order.  Its fires keep the
  floor of twelve hours exactly when the interval is twelve hours or a day and more, or when the phase
  of the source leaves room for one fire a day only: an interval between thirteen and twenty-three
  hours that fires twice is followed by a shorter gap over midnight.
\<close>

theorem schedule_floor:
  "cron_hours secs i \<noteq> [] \<and> sorted_wrt (<) (cron_hours secs i) \<and> list_all (\<lambda>h. 0 \<le> h \<and> h < 24) (cron_hours secs i) \<and>
   (list_all (\<lambda>g. MinCrawlIntervalHours \<le> g) (day_gaps (cron_hours secs i)) \<longleftrightarrow>
      interval_hours secs = 12 \<or> 24 \<le> interval_hours secs \<or> 24 \<le> jitter (i @ '':hour'') (interval_hours secs) + interval_hours secs)"
proof -
  have h: "12 \<le> interval_hours secs" by (simp add: interval_hours_def MinCrawlIntervalHours_def)
  with jitter_bounds[of "interval_hours secs" "i @ '':hour''"] jitter_bounds[of 24 i] show ?thesis
    by (auto simp: cron_hours_cases Let_def day_gaps_def MinCrawlIntervalHours_def)
qed

section \<open>Schedules in the workflow service\<close>

text \<open>
  What the handlers rely on of the workflow service, over the workflows it holds: a listing by name is
  complete; creation adds a workflow under the name of its definition that is not active yet, and is
  refused as existing only when a workflow of that name that is not archived exists; activation and archiving change the
  status of the workflow with the identifier, and activation reports \<open>not_found\<close> only for an unknown one.
\<close>

definition dsl_name :: "goany \<Rightarrow> string" where
  "dsl_name dsl = (case dsl_field dsl ''name'' of AStr n \<Rightarrow> n | _ \<Rightarrow> [])"

definition set_status :: "string \<Rightarrow> WorkflowStatus \<Rightarrow> Workflow list \<Rightarrow> Workflow list" where
  "set_status i st flows = update_where (\<lambda>f. wf_Id f = i) (\<lambda>f. f\<lparr>wf_Status := st\<rparr>) flows"

definition workflow_service :: "'w WorkflowClient \<Rightarrow> ('w \<Rightarrow> Workflow list) \<Rightarrow> bool" where
  "workflow_service client flows \<longleftrightarrow>
     (\<forall>name w fs w'. wc_List client name w = (Inr fs, w') \<longrightarrow> flows w' = flows w \<and> filter (\<lambda>f. wf_Name f = name) fs = filter (\<lambda>f. wf_Name f = name) (flows w)) \<and>
     (\<forall>dsl w i w'. wc_Create client dsl w = (Inr i, w') \<longrightarrow> i \<noteq> [] \<and> i \<notin> wf_Id ` set (flows w) \<and>
        flows w' = flows w @ [\<lparr>wf_Id = i, wf_Name = dsl_name dsl, wf_Status = WorkflowOther, wf_Dsl = dsl\<rparr>]) \<and>
     (\<forall>dsl w e w'. wc_Create client dsl w = (Inl e, w') \<longrightarrow> isAlreadyExistsErr e \<longrightarrow>
        (\<exists>f \<in> set (flows w). wf_Name f = dsl_name dsl \<and> wf_Status f \<noteq> WorkflowArchived)) \<and>
     (\<forall>i w u w'. wc_Activate client i w = (Inr u, w') \<longrightarrow> flows w' = set_status i WorkflowActive (flows w)) \<and>
     (\<forall>i w e w'. wc_Activate client i w = (Inl e, w') \<longrightarrow> re_Code e = ''not_found'' \<longrightarrow> i \<notin> wf_Id ` set (flows w)) \<and>
     (\<forall>i w u w'. wc_Archive client i w = (Inr u, w') \<longrightarrow> flows w' = set_status i WorkflowArchived (flows w))"

lemma cron_roundtrip: "cronFromDSL (buildSourceCrawlDSL s url) = cronForInterval (src_CrawlIntervalSec s) (src_ID s)"
  by (simp add: cronFromDSL_def buildSourceCrawlDSL_def dsl_field_def)

lemma dsl_name_build: "dsl_name (buildSourceCrawlDSL s url) = workflowName (src_ID s)"
  by (simp add: dsl_name_def buildSourceCrawlDSL_def dsl_field_def)

lemma workflow_list:
  "workflow_service client flows \<Longrightarrow> wc_List client name w = (Inr fs, w') \<Longrightarrow>
    flows w' = flows w \<and> filter (\<lambda>f. wf_Name f = name) fs = filter (\<lambda>f. wf_Name f = name) (flows w)"
  by (simp add: workflow_service_def)

lemma workflow_create:
  "workflow_service client flows \<Longrightarrow> wc_Create client dsl w = (Inr i, w') \<Longrightarrow> i \<noteq> [] \<and> i \<notin> wf_Id ` set (flows w) \<and>
    flows w' = flows w @ [\<lparr>wf_Id = i, wf_Name = dsl_name dsl, wf_Status = WorkflowOther, wf_Dsl = dsl\<rparr>]"
  by (simp add: workflow_service_def)

lemma workflow_exists:
  "workflow_service client flows \<Longrightarrow> wc_Create client dsl w = (Inl e, w') \<Longrightarrow> isAlreadyExistsErr e \<Longrightarrow>
    \<exists>f \<in> set (flows w). wf_Name f = dsl_name dsl \<and> wf_Status f \<noteq> WorkflowArchived"
  unfolding workflow_service_def by metis

lemma workflow_archive:
  "workflow_service client flows \<Longrightarrow> wc_Archive client i w = (Inr u, w') \<Longrightarrow> flows w' = set_status i WorkflowArchived (flows w)"
  unfolding workflow_service_def by metis

lemma workflow_activate:
  assumes "workflow_service client flows" and "activate client i w = (Inr u, w')" and "i \<noteq> []" and "i \<in> wf_Id ` set (flows w)"
  shows "flows w' = set_status i WorkflowActive (flows w)"
proof (cases "wc_Activate client i w")
  case (Pair r w1)
  have "re_Code e \<noteq> ''not_found''" if "r = Inl e" for e
    using assms(1,4) Pair that unfolding workflow_service_def by metis
  moreover have "flows w1 = set_status i WorkflowActive (flows w)" if "r = Inr v" for v
    using assms(1) Pair that unfolding workflow_service_def by metis
  ultimately show ?thesis using assms(2,3) Pair by (auto simp: activate_def split: sum.splits if_splits)
qed

text \<open>The scan of a listing.\<close>

lemma scan_filter: "scan_workflows name fs acc = scan_workflows name (filter (\<lambda>f. wf_Name f = name) fs) acc"
  by (induction name fs acc rule: scan_workflows.induct) auto

lemma scan_found:
  "scan_workflows name fs acc = (i, active, cron) \<Longrightarrow>
    (acc = (i, cron) \<and> \<not> active \<and> (\<forall>f \<in> set fs. wf_Name f = name \<longrightarrow> wf_Status f = WorkflowArchived)) \<or>
    (\<exists>f \<in> set fs. wf_Name f = name \<and> wf_Id f = i \<and> cron = cronFromDSL (wf_Dsl f) \<and> wf_Status f \<noteq> WorkflowArchived \<and>
      (active \<longrightarrow> wf_Status f = WorkflowActive))"
  by (induction name fs acc rule: scan_workflows.induct) (auto split: if_splits)

lemma findWorkflow_found:
  assumes "workflow_service client flows" and "findWorkflow client name w = (Inr (i, active, cron), w')" and "[] \<notin> wf_Id ` set (flows w)"
  shows "flows w' = flows w \<and> (if i = [] then \<not> active \<and> (\<forall>f \<in> set (flows w). wf_Name f = name \<longrightarrow> wf_Status f = WorkflowArchived)
    else \<exists>f \<in> set (flows w). wf_Name f = name \<and> wf_Id f = i \<and> cron = cronFromDSL (wf_Dsl f) \<and> (active \<longrightarrow> wf_Status f = WorkflowActive))"
proof -
  from assms(2) obtain fs where l: "wc_List client name w = (Inr fs, w')" and s: "scan_workflows name fs ([], []) = (i, active, cron)"
    by (auto simp: findWorkflow_def split: prod.splits sum.splits)
  from workflow_list[OF assms(1) l] have eq: "flows w' = flows w" "filter (\<lambda>f. wf_Name f = name) fs = filter (\<lambda>f. wf_Name f = name) (flows w)"
    by auto
  from s have "scan_workflows name (flows w) ([], []) = (i, active, cron)" by (metis eq(2) scan_filter)
  from scan_found[OF this] eq(1) assms(3) show ?thesis by (auto simp: image_iff)
qed

text \<open>\<open>own_id\<close>: the identifier is not that of a workflow with another name.\<close>

definition own_id :: "string \<Rightarrow> string \<Rightarrow> Workflow list \<Rightarrow> bool" where
  "own_id name i flows \<longleftrightarrow> (\<forall>f \<in> set flows. wf_Id f = i \<longrightarrow> wf_Name f = name)"

definition others :: "string \<Rightarrow> Workflow list \<Rightarrow> Workflow list" where
  "others name flows = filter (\<lambda>f. wf_Name f \<noteq> name) flows"

lemma others_set_status: "own_id name i flows \<Longrightarrow> others name (set_status i st flows) = others name flows"
  by (induction flows) (auto simp: others_def set_status_def own_id_def)

lemma own_id_set_status [simp]: "own_id name j (set_status i st flows) = own_id name j flows"
  by (induction flows) (simp_all add: own_id_def set_status_def)

lemma ids_set_status [simp]: "map wf_Id (set_status i st flows) = map wf_Id flows"
  by (simp add: set_status_def map_update_where)

lemma ids_image_set_status [simp]: "wf_Id ` set (set_status i st flows) = wf_Id ` set flows"
  by (metis ids_set_status set_map)

lemma own_id_distinct: "distinct (map wf_Id flows) \<Longrightarrow> f \<in> set flows \<Longrightarrow> wf_Name f = name \<Longrightarrow> wf_Id f = i \<Longrightarrow> own_id name i flows"
  by (auto simp: own_id_def distinct_map dest: inj_onD)

lemma archive_all_archives:
  assumes "workflow_service client flows" and "archive_all client name items w = (Inr u, w')"
    and "\<forall>f \<in> set items. wf_Name f = name \<longrightarrow> own_id name (wf_Id f) (flows w)"
    and "\<forall>f \<in> set (flows w). wf_Name f = name \<and> wf_Status f \<noteq> WorkflowArchived \<longrightarrow>
      (\<exists>it \<in> set items. wf_Name it = name \<and> wf_Id it = wf_Id f \<and> wf_Status it \<noteq> WorkflowArchived)"
  shows "map wf_Id (flows w') = map wf_Id (flows w) \<and> others name (flows w') = others name (flows w) \<and>
    (\<forall>f \<in> set (flows w'). wf_Name f = name \<longrightarrow> wf_Status f = WorkflowArchived)"
  using assms(2-4)
proof (induction items arbitrary: w)
  case (Cons it items)
  show ?case
  proof (cases "wf_Name it \<noteq> name \<or> wf_Status it = WorkflowArchived")
    case True
    with Cons show ?thesis by (intro Cons.IH) auto
  next
    case False
    with Cons.prems obtain v w1 where a: "wc_Archive client (wf_Id it) w = (Inr v, w1)" and r: "archive_all client name items w1 = (Inr u, w')"
      by (auto split: prod.splits sum.splits)
    from workflow_archive[OF assms(1) a] have w1: "flows w1 = set_status (wf_Id it) WorkflowArchived (flows w)" .
    from Cons.prems(2) have p1: "\<forall>f \<in> set items. wf_Name f = name \<longrightarrow> own_id name (wf_Id f) (flows w1)" by (simp add: w1)
    from Cons.prems(3) have p2: "\<forall>f \<in> set (flows w1). wf_Name f = name \<and> wf_Status f \<noteq> WorkflowArchived \<longrightarrow>
        (\<exists>it \<in> set items. wf_Name it = name \<and> wf_Id it = wf_Id f \<and> wf_Status it \<noteq> WorkflowArchived)"
      unfolding w1 by (auto simp: set_status_def set_update_where)
    from False Cons.prems(2) have "own_id name (wf_Id it) (flows w)" by simp
    with Cons.IH[OF r p1 p2] w1 show ?thesis by (simp add: others_set_status)
  qed
qed auto

lemma ArchiveWorkflowByName_archives:
  assumes "workflow_service client flows" and "ArchiveWorkflowByName client name w = (Inr u, w')" and "distinct (map wf_Id (flows w))"
  shows "map wf_Id (flows w') = map wf_Id (flows w) \<and> others name (flows w') = others name (flows w) \<and>
    (\<forall>f \<in> set (flows w'). wf_Name f = name \<longrightarrow> wf_Status f = WorkflowArchived)"
proof -
  from assms(2) obtain fs w1 where l: "wc_List client name w = (Inr fs, w1)" and a: "archive_all client name fs w1 = (Inr u, w')"
    by (auto simp: ArchiveWorkflowByName_def split: prod.splits sum.splits)
  from workflow_list[OF assms(1) l] have eq: "flows w1 = flows w"
    and sets: "set (filter (\<lambda>f. wf_Name f = name) fs) = set (filter (\<lambda>f. wf_Name f = name) (flows w))" by simp_all
  from sets have eq2: "f \<in> set fs \<and> wf_Name f = name \<longleftrightarrow> f \<in> set (flows w) \<and> wf_Name f = name" for f
    by (metis (mono_tags, lifting) mem_Collect_eq set_filter)
  from archive_all_archives[OF assms(1) a] show ?thesis unfolding eq
    using eq2 assms(3) by (metis own_id_distinct)
qed

definition scheduled_at :: "string \<Rightarrow> string \<Rightarrow> Workflow list \<Rightarrow> bool" where
  "scheduled_at name cron flows \<longleftrightarrow> (\<exists>f \<in> set flows. wf_Name f = name \<and> wf_Status f = WorkflowActive \<and> cronFromDSL (wf_Dsl f) = cron)"

lemma activate_schedules:
  assumes "workflow_service client flows" and "activate client i w = (Inr u, w')" and "i \<noteq> []" and "own_id name i (flows w)"
    and "f \<in> set (flows w)" "wf_Id f = i" "wf_Name f = name" "cronFromDSL (wf_Dsl f) = cron"
  shows "scheduled_at name cron (flows w') \<and> others name (flows w') = others name (flows w)"
proof -
  from assms have w': "flows w' = set_status i WorkflowActive (flows w)" by (intro workflow_activate) auto
  from assms(5,6) have "f\<lparr>wf_Status := WorkflowActive\<rparr> \<in> set (flows w')" by (auto simp: w' set_status_def set_update_where)
  with assms(4,7,8) show ?thesis by (auto simp: w' others_set_status scheduled_at_def intro!: bexI[of _ "f\<lparr>wf_Status := WorkflowActive\<rparr>"])
qed

lemma create_schedule_schedules:
  assumes "workflow_service client flows" and "create_schedule client s url w = (Inr u, w')"
    and "\<forall>f \<in> set (flows w). wf_Name f = workflowName (src_ID s) \<longrightarrow> wf_Status f = WorkflowArchived"
  shows "scheduled_at (workflowName (src_ID s)) (cronForInterval (src_CrawlIntervalSec s) (src_ID s)) (flows w') \<and>
    others (workflowName (src_ID s)) (flows w') = others (workflowName (src_ID s)) (flows w)"
proof -
  let ?dsl = "buildSourceCrawlDSL s url" and ?name = "workflowName (src_ID s)"
  have "\<not> isAlreadyExistsErr e" if "wc_Create client ?dsl w = (Inl e, w1)" for e w1
    using workflow_exists[OF assms(1) that] assms(3) by (auto simp: dsl_name_build)
  with assms(2) obtain i w1 where c: "wc_Create client ?dsl w = (Inr i, w1)" and a: "activate client i w1 = (Inr u, w')"
    by (auto simp: create_schedule_def split: prod.splits sum.splits if_splits)
  from workflow_create[OF assms(1) c] have i: "i \<noteq> []" "i \<notin> wf_Id ` set (flows w)"
    and w1: "flows w1 = flows w @ [\<lparr>wf_Id = i, wf_Name = ?name, wf_Status = WorkflowOther, wf_Dsl = ?dsl\<rparr>]"
    by (auto simp: dsl_name_build)
  from i(2) have "own_id ?name i (flows w1)" by (auto simp: w1 own_id_def)
  from activate_schedules[OF assms(1) a i(1) this, where f = "\<lparr>wf_Id = i, wf_Name = ?name, wf_Status = WorkflowOther, wf_Dsl = ?dsl\<rparr>"]
  show ?thesis by (simp add: w1 others_def cron_roundtrip)
qed

text \<open>
  C36. When the reconciliation of a source succeeds, the workflow service holds an active schedule
  under the name of the source at the cadence of its interval if the source is to be crawled, and no
  schedule of that name that is not archived otherwise; the schedules of other sources are untouched.
\<close>

theorem reconcile_converges:
  assumes "workflow_service client flows" and "distinct (map wf_Id (flows w))" and "[] \<notin> wf_Id ` set (flows w)"
    and "reconcile_one client url s w = (Inr u, w')"
  shows "(if scheduleActive s then scheduled_at (workflowName (src_ID s)) (cronForInterval (src_CrawlIntervalSec s) (src_ID s)) (flows w')
      else list_all (\<lambda>f. wf_Name f = workflowName (src_ID s) \<longrightarrow> wf_Status f = WorkflowArchived) (flows w')) \<and>
    others (workflowName (src_ID s)) (flows w') = others (workflowName (src_ID s)) (flows w)"
proof (cases "scheduleActive s")
  case False
  with ArchiveWorkflowByName_archives[OF assms(1) _ assms(2)] assms(4) show ?thesis
    by (auto simp: reconcile_one_def RemoveSourceSchedule_def list_all_iff)
next
  case True
  let ?name = "workflowName (src_ID s)" and ?cron = "cronForInterval (src_CrawlIntervalSec s) (src_ID s)"
  from assms(4) True obtain i active cron w1 where f: "findWorkflow client ?name w = (Inr (i, active, cron), w1)"
    by (auto simp: reconcile_one_def EnsureSourceSchedule_def Let_def split: prod.splits sum.splits)
  from findWorkflow_found[OF assms(1) f assms(3)] have w1: "flows w1 = flows w" by simp
  have e: "(if active then (if cron = ?cron then (Inr (), w1) else
        (case ArchiveWorkflowByName client ?name w1 of (Inl e, w2) \<Rightarrow> (Inl e, w2) | (Inr _, w2) \<Rightarrow> create_schedule client s url w2))
      else if i \<noteq> [] then (if cron = ?cron then activate client i w1 else
        (case ArchiveWorkflowByName client ?name w1 of (Inl e, w2) \<Rightarrow> (Inl e, w2) | (Inr _, w2) \<Rightarrow> create_schedule client s url w2))
      else create_schedule client s url w1) = (Inr u, w')"
    using assms(4) True f by (simp add: reconcile_one_def EnsureSourceSchedule_def Let_def)
  show ?thesis
  proof (cases "i = [] \<or> cron \<noteq> ?cron")
    case True
    have again: ?thesis if "ArchiveWorkflowByName client ?name w1 = (Inr v, w2)" "create_schedule client s url w2 = (Inr u, w')" for v w2
      using ArchiveWorkflowByName_archives[OF assms(1) that(1)] create_schedule_schedules[OF assms(1) that(2)] assms(2) \<open>scheduleActive s\<close>
      by (simp add: w1)
    from findWorkflow_found[OF assms(1) f assms(3)] create_schedule_schedules[OF assms(1), of s url w1 u w'] True e again \<open>scheduleActive s\<close> show ?thesis
      by (auto simp: w1 split: if_splits prod.splits sum.splits)
  next
    case False
    with findWorkflow_found[OF assms(1) f assms(3)] obtain x where x: "x \<in> set (flows w1)" "wf_Name x = ?name" "wf_Id x = i"
      "cronFromDSL (wf_Dsl x) = ?cron" "active \<longrightarrow> wf_Status x = WorkflowActive" by (auto simp: w1)
    with assms(2) have "own_id ?name i (flows w1)" by (auto simp: w1 intro: own_id_distinct)
    with activate_schedules[OF assms(1), of i w1 u w' ?name x ?cron] False x
    have "activate client i w1 = (Inr u, w') \<Longrightarrow> scheduled_at ?name ?cron (flows w') \<and> others ?name (flows w') = others ?name (flows w)"
      by (simp add: w1)
    moreover have "active \<Longrightarrow> scheduled_at ?name ?cron (flows w)" using x by (auto simp: w1 scheduled_at_def)
    ultimately show ?thesis using e False \<open>scheduleActive s\<close> w1 by (auto split: if_splits)
  qed
qed

text \<open>A service that keeps its workflows in a list; the stale schedule of a source is replaced.\<close>

definition list_service :: "Workflow list WorkflowClient" where
  "list_service = \<lparr>wc_List = (\<lambda>name w. (Inr w, w)),
     wc_Create = (\<lambda>dsl w. let i = CHR ''w'' # concat (map wf_Id w) in
       (Inr i, w @ [\<lparr>wf_Id = i, wf_Name = dsl_name dsl, wf_Status = WorkflowOther, wf_Dsl = dsl\<rparr>])),
     wc_Activate = (\<lambda>i w. (Inr (), set_status i WorkflowActive w)), wc_Archive = (\<lambda>i w. (Inr (), set_status i WorkflowArchived w))\<rparr>"

lemma list_service_lawful: "workflow_service list_service (\<lambda>w. w)"
proof -
  have "CHR ''w'' # concat (map wf_Id w) \<noteq> wf_Id f" if "f \<in> set w" for f w
  proof -
    from that have "length (wf_Id f) \<le> length (concat (map wf_Id w))" by (auto simp: length_concat intro!: member_le_sum_list)
    then show ?thesis by (metis impossible_Cons)
  qed
  then show ?thesis by (auto simp: workflow_service_def list_service_def Let_def image_iff)
qed

definition stale_flow :: Workflow where
  "stale_flow = \<lparr>wf_Id = ''1'', wf_Name = workflowName ''s'', wf_Status = WorkflowActive, wf_Dsl = ANil\<rparr>"

definition other_flow :: Workflow where
  "other_flow = \<lparr>wf_Id = ''2'', wf_Name = workflowName ''t'', wf_Status = WorkflowActive, wf_Dsl = ANil\<rparr>"

theorem reconcile_converges_witness:
  "scheduled_at (workflowName ''s'') (cronForInterval 7200 ''s'')
     (snd (reconcile_one list_service ''http://c'' (sample_source ''s'' SourceActive) [stale_flow, other_flow])) \<and>
   others (workflowName ''s'') (snd (reconcile_one list_service ''http://c'' (sample_source ''s'' SourceActive) [stale_flow, other_flow])) = [other_flow]"
proof -
  let ?s = "sample_source ''s'' SourceActive"
  have run: "\<exists>w'. reconcile_one list_service url s w = (Inr (), w')" for url s and w :: "Workflow list"
  proof -
    have "\<exists>w'. archive_all list_service name items v = (Inr (), w')" for name items v
      by (induction items arbitrary: v) (auto simp: list_service_def)
    then show ?thesis
      by (auto simp: reconcile_one_def RemoveSourceSchedule_def EnsureSourceSchedule_def Let_def ArchiveWorkflowByName_def findWorkflow_def
          create_schedule_def activate_def list_service_def split: prod.splits sum.splits) (metis Pair_inject sum.distinct(1))+
  qed
  obtain w' where w': "reconcile_one list_service ''http://c'' ?s [stale_flow, other_flow] = (Inr (), w')" using run by blast
  have s: "scheduleActive ?s" "src_ID ?s = ''s''" "src_CrawlIntervalSec ?s = 7200" by (simp_all add: sample_source_def discovered_source_def scheduleActive_def)
  from reconcile_converges[OF list_service_lawful _ _ w'] w' s show ?thesis
    by (simp add: stale_flow_def other_flow_def others_def workflowName_def)
qed

end
