(* ===== verification/Flags.thy ===== *)
theory Flags
  imports Crawl_Control
begin

text \<open>
  Moderation of the catalog: the flags of users (\<open>pkg/domain/flag.go\<close>, \<open>pkg/repository/flag.go\<close>), the
  handlers of \<open>apps/api/cmd/flags_admin.go\<close> and the operator's edits of opportunities
  (\<open>apps/api/cmd/jobs_admin.go\<close>).

  \<open>adminworld\<close> adds the flag table and the published scheduling events to the tables of the crawl.  The
  service has one connection pool, so the opportunities it edits are those of the database that also
  holds the sources and the queue.  \<open>clk n\<close> is the \<open>n\<close>-th reading of the clock during a request.  The
  optional dependencies are wired.  A reply is a status with a problem code, or a status with the fields
  of its body; lengths of columns are not limited.
\<close>

section \<open>Flags\<close>

definition FlagScam :: string where "FlagScam = ''scam''"
definition FlagExpired :: string where "FlagExpired = ''expired''"
definition FlagDuplicate :: string where "FlagDuplicate = ''duplicate''"
definition FlagSpam :: string where "FlagSpam = ''spam''"
definition FlagOther :: string where "FlagOther = ''other''"

definition IsKnownFlagReason :: "string \<Rightarrow> bool" where
  "IsKnownFlagReason r \<longleftrightarrow> r \<in> {FlagScam, FlagExpired, FlagDuplicate, FlagSpam, FlagOther}"

definition FlagActionIgnore :: string where "FlagActionIgnore = ''ignore''"
definition FlagActionHide :: string where "FlagActionHide = ''hide''"
definition FlagActionBanSource :: string where "FlagActionBanSource = ''ban_source''"

definition IsKnownFlagAction :: "string \<Rightarrow> bool" where
  "IsKnownFlagAction a \<longleftrightarrow> a \<in> {FlagActionIgnore, FlagActionHide, FlagActionBanSource}"

definition FlagDescriptionMaxLen :: nat where "FlagDescriptionMaxLen = 1000"
definition FlagAutoActionThreshold :: int where "FlagAutoActionThreshold = 3"

record OpportunityFlag =
  fg_ID :: string
  fg_CreatedAt :: time
  fg_UpdatedAt :: time
  fg_DeletedAt :: "time option"
  fg_OpportunitySlug :: string
  fg_OpportunityKind :: string
  fg_SubmittedBy :: string
  fg_Reason :: string
  fg_Description :: string
  fg_ResolvedAt :: "time option"
  fg_ResolvedBy :: string
  fg_ResolutionAction :: string

record adminworld =
  aw_world :: crawlworld
  aw_flags :: "OpportunityFlag list"
  aw_scheduling :: "string list"

definition on_world :: "(crawlworld, 'a) sql \<Rightarrow> (adminworld, 'a) sql" where
  "on_world = lift_sql aw_world (\<lambda>w a. a\<lparr>aw_world := w\<rparr>)"

definition flag_live :: "OpportunityFlag \<Rightarrow> bool" where
  "flag_live f \<longleftrightarrow> fg_DeletedAt f = None"

definition flags_where :: "(OpportunityFlag \<Rightarrow> bool) \<Rightarrow> adminworld \<Rightarrow> OpportunityFlag list" where
  "flags_where P w = filter (\<lambda>f. flag_live f \<and> P f) (aw_flags w)"

text \<open>The index \<open>idx_flag_slug_user\<close> covers all rows, also soft-deleted ones.\<close>

definition Flags_Create :: "string \<Rightarrow> time \<Rightarrow> OpportunityFlag \<Rightarrow> (adminworld, OpportunityFlag) sql" where
  "Flags_Create newID now f = sql_stmt (\<lambda>w.
     let row = f\<lparr>fg_ID := (if fg_ID f = [] then newID else fg_ID f), fg_CreatedAt := now, fg_UpdatedAt := now\<rparr> in
     if list_ex (\<lambda>x. fg_ID x = fg_ID row) (aw_flags w) then (Inl (ErrConstraint ''opportunity_flags_pkey''), w)
     else if list_ex (\<lambda>x. fg_OpportunitySlug x = fg_OpportunitySlug row \<and> fg_SubmittedBy x = fg_SubmittedBy row) (aw_flags w)
     then (Inl (ErrConstraint ''idx_flag_slug_user''), w)
     else (Inr row, w\<lparr>aw_flags := aw_flags w @ [row]\<rparr>))"

definition Flags_GetByID :: "string \<Rightarrow> (adminworld, OpportunityFlag option) sql" where
  "Flags_GetByID i = sql_query (\<lambda>w. first_row fg_ID (flags_where (\<lambda>f. fg_ID f = i) w))"

definition ExistsForUser :: "string \<Rightarrow> string \<Rightarrow> (adminworld, bool) sql" where
  "ExistsForUser slug submittedBy = sql_query (\<lambda>w.
     length (flags_where (\<lambda>f. fg_OpportunitySlug f = slug \<and> fg_SubmittedBy f = submittedBy) w) > 0)"

definition ListByOpportunity :: "string \<Rightarrow> (adminworld, OpportunityFlag list) sql" where
  "ListByOpportunity slug = sql_query (\<lambda>w. sort_key (\<lambda>f. - fg_CreatedAt f) (flags_where (\<lambda>f. fg_OpportunitySlug f = slug) w))"

definition flag_page_limit :: "int \<Rightarrow> int \<Rightarrow> int \<Rightarrow> nat" where
  "flag_page_limit dflt cap limit =
     (let l = (if limit \<le> 0 then dflt else limit) in nat (if l > cap then cap else l))"

text \<open>\<open>Offset(n)\<close> is dropped by the ORM when \<open>n\<close> is not positive.\<close>

definition ListUnresolved :: "string \<Rightarrow> string \<Rightarrow> int \<Rightarrow> int \<Rightarrow> (adminworld, OpportunityFlag list) sql" where
  "ListUnresolved reason slug limit offset = sql_query (\<lambda>w.
     take (flag_page_limit 50 500 limit) (drop (nat offset) (sort_key (\<lambda>f. - fg_CreatedAt f)
       (flags_where (\<lambda>f. fg_ResolvedAt f = None \<and> (reason \<noteq> [] \<longrightarrow> fg_Reason f = reason) \<and> (slug \<noteq> [] \<longrightarrow> fg_OpportunitySlug f = slug)) w))))"

definition scam_open :: "string \<Rightarrow> OpportunityFlag \<Rightarrow> bool" where
  "scam_open slug f \<longleftrightarrow> fg_OpportunitySlug f = slug \<and> fg_Reason f = FlagScam \<and> fg_ResolvedAt f = None"

definition CountUnresolvedByOpportunity :: "string \<Rightarrow> (adminworld, int) sql" where
  "CountUnresolvedByOpportunity slug = sql_query (\<lambda>w. int (length (flags_where (scam_open slug) w)))"

definition resolve_row :: "time \<Rightarrow> time \<Rightarrow> string \<Rightarrow> string \<Rightarrow> OpportunityFlag \<Rightarrow> OpportunityFlag" where
  "resolve_row stmt stamp operator action f =
     f\<lparr>fg_ResolvedAt := Some stamp, fg_ResolvedBy := operator, fg_ResolutionAction := action, fg_UpdatedAt := stmt\<rparr>"

definition set_flags :: "(OpportunityFlag \<Rightarrow> bool) \<Rightarrow> (OpportunityFlag \<Rightarrow> OpportunityFlag) \<Rightarrow> (adminworld, int) sql" where
  "set_flags P f = sql_stmt (\<lambda>w. (Inr (int (length (flags_where P w))),
     w\<lparr>aw_flags := update_where (\<lambda>x. flag_live x \<and> P x) f (aw_flags w)\<rparr>))"

definition Flags_Resolve :: "time \<Rightarrow> time \<Rightarrow> string \<Rightarrow> string \<Rightarrow> string \<Rightarrow> (adminworld, unit) sql" where
  "Flags_Resolve stmt stamp i operator action = void (set_flags (\<lambda>f. fg_ID f = i) (resolve_row stmt stamp operator action))"

definition ResolveAllForOpportunity :: "time \<Rightarrow> time \<Rightarrow> string \<Rightarrow> string \<Rightarrow> string \<Rightarrow> (adminworld, int) sql" where
  "ResolveAllForOpportunity stmt stamp slug operator action =
     set_flags (\<lambda>f. fg_OpportunitySlug f = slug \<and> fg_ResolvedAt f = None) (resolve_row stmt stamp operator action)"

record TopFlaggedRow =
  tf_OpportunitySlug :: string
  tf_Kind :: string
  tf_FlagCount :: int

definition flag_group :: "OpportunityFlag \<Rightarrow> string \<times> string" where
  "flag_group f = (fg_OpportunitySlug f, fg_OpportunityKind f)"

definition TopFlagged :: "int \<Rightarrow> (adminworld, TopFlaggedRow list) sql" where
  "TopFlagged limit = sql_query (\<lambda>w.
     let open = flags_where (\<lambda>f. fg_ResolvedAt f = None) w;
         rows = map (\<lambda>g. \<lparr>tf_OpportunitySlug = fst g, tf_Kind = snd g, tf_FlagCount = int (length (filter (\<lambda>f. flag_group f = g) open))\<rparr>)
           (remdups (map flag_group open))
     in take (flag_page_limit 20 200 limit) (sort_key (\<lambda>r. - tf_FlagCount r) rows))"

section \<open>Replies\<close>

datatype 'a admin_reply = Refused int string | Answered int 'a

definition orRefuse :: "int \<Rightarrow> string \<Rightarrow> ('s, 'a) sql \<Rightarrow> ('a \<Rightarrow> ('s, 'b admin_reply) sql) \<Rightarrow> ('s, 'b admin_reply) sql" where
  "orRefuse status code m k = sql_bind (sql_try m) (\<lambda>r. case r of Inl _ \<Rightarrow> sql_return (Refused status code) | Inr x \<Rightarrow> k x)"

text \<open>What the token of a request says: a bearer token is present, its verified roles, its unverified subject.\<close>

record admin_auth =
  au_Bearer :: bool
  au_Roles :: "string list option"
  au_Sub :: string

definition containsRole :: "string list \<Rightarrow> string \<Rightarrow> bool" where
  "containsRole roles want \<longleftrightarrow> want \<in> set roles"

definition requireAdmin :: "('s, 'a admin_reply) sql \<Rightarrow> admin_auth \<Rightarrow> ('s, 'a admin_reply) sql" where
  "requireAdmin h auth =
     (if \<not> au_Bearer auth then sql_return (Refused 401 ''unauthorized'')
      else case au_Roles auth of
          None \<Rightarrow> sql_return (Refused 401 ''unauthorized'')
        | Some roles \<Rightarrow> if \<not> containsRole roles ''admin'' then sql_return (Refused 403 ''forbidden'') else h)"

definition operator_of :: "admin_auth \<Rightarrow> string" where
  "operator_of auth = (if au_Sub auth = [] then ''anonymous'' else au_Sub auth)"

fun isUniqueViolation :: "go_error \<Rightarrow> bool" where
  "isUniqueViolation (ErrConstraint c) = True"
| "isUniqueViolation (ErrWrap msg e) = isUniqueViolation e"
| "isUniqueViolation (ErrWith e msg) = isUniqueViolation e"
| "isUniqueViolation e = False"

section \<open>Hiding a listing\<close>

definition set_opportunities :: "string \<Rightarrow> (OpportunityRecord \<Rightarrow> OpportunityRecord) \<Rightarrow> (adminworld, nat) sql" where
  "set_opportunities slug f = on_world (on_queue (sql_stmt (\<lambda>d.
     (Inr (length (filter (\<lambda>p. o_Slug p = slug) (opportunities d))),
      d\<lparr>opportunities := update_where (\<lambda>p. o_Slug p = slug) f (opportunities d)\<rparr>))))"

definition hide_row :: "time \<Rightarrow> string \<Rightarrow> OpportunityRecord \<Rightarrow> OpportunityRecord" where
  "hide_row now reason p = p\<lparr>o_Hidden := True, o_HiddenReason := Some reason, o_UpdatedAt := now\<rparr>"

definition Hide :: "time \<Rightarrow> string \<Rightarrow> string \<Rightarrow> (adminworld, unit) sql" where
  "Hide now slug reason = sql_bind (set_opportunities slug (hide_row now reason)) (\<lambda>n.
     if n \<noteq> 1 then sql_raise ErrRecordNotFound else sql_return ())"

text \<open>\<open>GetBySlug\<close> of \<open>jobs_backend.go\<close>, of which the caller reads the kind.\<close>

definition GetBySlug :: "string \<Rightarrow> (adminworld, OpportunityRecord option) sql" where
  "GetBySlug slug = (if slug = [] then sql_return None
     else on_world (on_queue (sql_query (\<lambda>d. List.find (\<lambda>p. o_Slug p = slug \<or> o_CanonicalID p = slug) (opportunities d)))))"

section \<open>The flag routes\<close>

record userFlagRequest =
  uf_Reason :: string
  uf_Description :: string

record flag_created =
  fc_ID :: string
  fc_Slug :: string
  fc_Kind :: string
  fc_Reason :: string
  fc_AutoActioned :: bool

definition hideAutoFlag :: "time \<Rightarrow> string \<Rightarrow> (adminworld, bool) sql" where
  "hideAutoFlag now slug = sql_bind (sql_try (Hide now slug ''scam flag threshold'')) (\<lambda>r.
     sql_return (case r of Inl _ \<Rightarrow> False | Inr _ \<Rightarrow> True))"

definition new_flag :: "string \<Rightarrow> string \<Rightarrow> string \<Rightarrow> userFlagRequest \<Rightarrow> OpportunityFlag" where
  "new_flag slug kind profileID req =
     \<lparr>fg_ID = [], fg_CreatedAt = 0, fg_UpdatedAt = 0, fg_DeletedAt = None, fg_OpportunitySlug = slug, fg_OpportunityKind = kind,
      fg_SubmittedBy = profileID, fg_Reason = uf_Reason req, fg_Description = uf_Description req, fg_ResolvedAt = None,
      fg_ResolvedBy = [], fg_ResolutionAction = []\<rparr>"

definition autoAction :: "time \<Rightarrow> string \<Rightarrow> string \<Rightarrow> (adminworld, bool) sql" where
  "autoAction now reason slug =
     (if reason \<noteq> FlagScam then sql_return False
      else sql_bind (sql_try (CountUnresolvedByOpportunity slug)) (\<lambda>r.
        case r of
          Inl _ \<Rightarrow> sql_return False
        | Inr n \<Rightarrow> if n \<ge> FlagAutoActionThreshold then hideAutoFlag now slug else sql_return False))"

definition handleUserFlag ::
  "string \<Rightarrow> (nat \<Rightarrow> time) \<Rightarrow> string \<Rightarrow> string \<Rightarrow> userFlagRequest option \<Rightarrow> (adminworld, flag_created admin_reply) sql"
where
  "handleUserFlag newID clk profileID slug body =
     (if profileID = [] then sql_return (Refused 401 ''unauthorized'')
      else if slug = [] then sql_return (Refused 400 ''missing_slug'')
      else case body of
        None \<Rightarrow> sql_return (Refused 400 ''bad_json'')
      | Some req \<Rightarrow>
          if \<not> IsKnownFlagReason (uf_Reason req) then sql_return (Refused 400 ''invalid_reason'')
          else if length (uf_Description req) > FlagDescriptionMaxLen then sql_return (Refused 400 ''description_too_long'')
          else orRefuse 500 ''lookup_failed'' (ExistsForUser slug profileID) (\<lambda>exists.
            if exists then sql_return (Refused 409 ''already_flagged'')
            else sql_bind (sql_try (GetBySlug slug)) (\<lambda>j.
              let kind = (case j of Inr (Some p) \<Rightarrow> o_Kind p | _ \<Rightarrow> []) in
              sql_bind (sql_try (Flags_Create newID (clk 0) (new_flag slug kind profileID req))) (\<lambda>c.
              case c of
                Inl e \<Rightarrow> sql_return (if isUniqueViolation e then Refused 409 ''already_flagged'' else Refused 500 ''create_failed'')
              | Inr flag \<Rightarrow>
                  sql_bind (autoAction (clk 1) (uf_Reason req) slug) (\<lambda>auto.
                  sql_return (Answered 201 \<lparr>fc_ID = fg_ID flag, fc_Slug = slug, fc_Kind = kind, fc_Reason = fg_Reason flag,
                    fc_AutoActioned = auto\<rparr>))))))"

record resolveRequest =
  rs_Action :: string
  rs_Note :: string
  rs_SourceID :: string

record resolve_reply =
  rr_Action :: string
  rr_Note :: string
  rr_Hidden :: "bool option"
  rr_BannedSourceID :: "string option"
  rr_BulkResolved :: "int option"

definition hide_reason :: "string \<Rightarrow> string" where
  "hide_reason note = (if TrimSpace note \<noteq> [] then ''flag_resolved_hide: '' @ TrimSpace note else ''flag_resolved_hide'')"

definition resolve_hide :: "time \<Rightarrow> string \<Rightarrow> resolveRequest \<Rightarrow> resolve_reply \<Rightarrow> (adminworld, resolve_reply) sql" where
  "resolve_hide now slug req resp =
     (if rs_Action req \<noteq> FlagActionHide then sql_return resp
      else sql_bind (sql_try (Hide now slug (hide_reason (rs_Note req)))) (\<lambda>r.
        sql_return (resp\<lparr>rr_Hidden := Some (case r of Inl _ \<Rightarrow> False | Inr _ \<Rightarrow> True)\<rparr>)))"

definition resolve_ban :: "(nat \<Rightarrow> time) \<Rightarrow> string \<Rightarrow> string \<Rightarrow> resolveRequest \<Rightarrow> resolve_reply \<Rightarrow> (adminworld, resolve_reply) sql" where
  "resolve_ban clk operator slug req resp =
     (if rs_Action req \<noteq> FlagActionBanSource then sql_return resp
      else sql_bind (if rs_SourceID req = [] then sql_return resp
          else sql_bind (sql_try (on_world (on_crawl (StopSource (clk 3) (rs_SourceID req) operator (clk 2))))) (\<lambda>r.
            sql_return (case r of Inl _ \<Rightarrow> resp | Inr _ \<Rightarrow> resp\<lparr>rr_BannedSourceID := Some (rs_SourceID req)\<rparr>))) (\<lambda>resp1.
        sql_bind (sql_try (ResolveAllForOpportunity (clk 5) (clk 4) slug operator (rs_Action req))) (\<lambda>r.
        sql_return (resp1\<lparr>rr_BulkResolved := Some (case r of Inl _ \<Rightarrow> 0 | Inr n \<Rightarrow> n)\<rparr>))))"

definition handleResolve ::
  "(nat \<Rightarrow> time) \<Rightarrow> admin_auth \<Rightarrow> string \<Rightarrow> resolveRequest option \<Rightarrow> (adminworld, resolve_reply admin_reply) sql"
where
  "handleResolve clk auth i body =
     (case body of
        None \<Rightarrow> sql_return (Refused 400 ''bad_json'')
      | Some req \<Rightarrow>
          if \<not> IsKnownFlagAction (rs_Action req) then sql_return (Refused 400 ''invalid_action'')
          else orRefuse 500 ''load_failed'' (Flags_GetByID i) (\<lambda>o1.
            case o1 of
              None \<Rightarrow> sql_return (Refused 404 ''not_found'')
            | Some flag \<Rightarrow>
                orRefuse 500 ''resolve_failed'' (Flags_Resolve (clk 1) (clk 0) i (operator_of auth) (rs_Action req)) (\<lambda>_.
                sql_bind (resolve_hide (clk 2) (fg_OpportunitySlug flag) req
                    \<lparr>rr_Action = rs_Action req, rr_Note = rs_Note req, rr_Hidden = None, rr_BannedSourceID = None, rr_BulkResolved = None\<rparr>) (\<lambda>r1.
                sql_bind (resolve_ban clk (operator_of auth) (fg_OpportunitySlug flag) req r1) (\<lambda>r2.
                sql_return (Answered 200 r2))))))"

definition handleListUnresolved :: "string \<Rightarrow> string \<Rightarrow> int \<Rightarrow> int \<Rightarrow> (adminworld, OpportunityFlag list admin_reply) sql" where
  "handleListUnresolved reason slug limit offset =
     (if reason \<noteq> [] \<and> \<not> IsKnownFlagReason reason then sql_return (Refused 400 ''invalid_reason'')
      else orRefuse 500 ''list_failed'' (ListUnresolved reason slug limit offset) (\<lambda>flags. sql_return (Answered 200 flags)))"

definition handleGetFlag :: "string \<Rightarrow> (adminworld, OpportunityFlag admin_reply) sql" where
  "handleGetFlag i = orRefuse 500 ''load_failed'' (Flags_GetByID i) (\<lambda>o1.
     sql_return (case o1 of None \<Rightarrow> Refused 404 ''not_found'' | Some flag \<Rightarrow> Answered 200 flag))"

definition handleListForOpportunity :: "string \<Rightarrow> (adminworld, OpportunityFlag list admin_reply) sql" where
  "handleListForOpportunity slug = orRefuse 500 ''list_failed'' (ListByOpportunity slug) (\<lambda>flags. sql_return (Answered 200 flags))"

definition handleTopFlagged :: "int \<Rightarrow> (adminworld, TopFlaggedRow list admin_reply) sql" where
  "handleTopFlagged limit = orRefuse 500 ''list_failed'' (TopFlagged limit) (\<lambda>rows. sql_return (Answered 200 rows))"

section \<open>The operator's edits\<close>

definition loadBySlug :: "string \<Rightarrow> (adminworld, OpportunityRecord option) sql" where
  "loadBySlug slug = on_world (on_queue (sql_query (\<lambda>d.
     case List.find (\<lambda>p. o_Slug p = slug) (opportunities d) of None \<Rightarrow> None | Some p \<Rightarrow> if o_Slug p = [] then None else Some p)))"

definition opportunity_handleGet :: "string \<Rightarrow> (adminworld, OpportunityRecord admin_reply) sql" where
  "opportunity_handleGet slug =
     (if slug = [] then sql_return (Refused 400 ''bad_request'')
      else orRefuse 500 ''load_failed'' (loadBySlug slug) (\<lambda>r.
        sql_return (case r of None \<Rightarrow> Refused 404 ''not_found'' | Some row \<Rightarrow> Answered 200 row)))"

record opportunityPatch =
  op_Title :: "string option"
  op_Description :: "string option"
  op_IssuingEntity :: "string option"
  op_ApplyURL :: "string option"
  op_Country :: "string option"
  op_Region :: "string option"
  op_City :: "string option"
  op_Currency :: "string option"
  op_EmploymentType :: "string option"
  op_Seniority :: "string option"
  op_GeoScope :: "string option"
  op_ClearFields :: "string list"
  op_ClearAttributes :: "string list"
  op_SetAttributes :: "(string \<times> goany) list"
  op_Hide :: "bool option"
  op_HiddenReason :: "string option"

text \<open>An assignment of the \<open>UPDATE\<close>: the column and what it does to the row.\<close>

type_synonym assignment = "string \<times> (OpportunityRecord \<Rightarrow> OpportunityRecord)"

definition setStr :: "string \<Rightarrow> (string \<Rightarrow> OpportunityRecord \<Rightarrow> OpportunityRecord) \<Rightarrow> string option \<Rightarrow> assignment list" where
  "setStr col f p = (case p of None \<Rightarrow> [] | Some s \<Rightarrow> if TrimSpace s = [] then [] else [(col, f (TrimSpace s))])"

definition patch_strings :: "opportunityPatch \<Rightarrow> assignment list" where
  "patch_strings req =
     setStr ''title'' (\<lambda>v p. p\<lparr>o_Title := v\<rparr>) (op_Title req) @
     setStr ''description'' (\<lambda>v p. p\<lparr>o_Description := Some v\<rparr>) (op_Description req) @
     setStr ''issuing_entity'' (\<lambda>v p. p\<lparr>o_IssuingEntity := Some v\<rparr>) (op_IssuingEntity req) @
     setStr ''country'' (\<lambda>v p. p\<lparr>o_Country := Some v\<rparr>) (op_Country req) @
     setStr ''region'' (\<lambda>v p. p\<lparr>o_Region := Some v\<rparr>) (op_Region req) @
     setStr ''city'' (\<lambda>v p. p\<lparr>o_City := Some v\<rparr>) (op_City req) @
     setStr ''currency'' (\<lambda>v p. p\<lparr>o_Currency := Some v\<rparr>) (op_Currency req) @
     setStr ''employment_type'' (\<lambda>v p. p\<lparr>o_EmploymentType := Some v\<rparr>) (op_EmploymentType req) @
     setStr ''seniority'' (\<lambda>v p. p\<lparr>o_Seniority := Some v\<rparr>) (op_Seniority req) @
     setStr ''geo_scope'' (\<lambda>v p. p\<lparr>o_GeoScope := Some v\<rparr>) (op_GeoScope req)"

definition clearableFields :: "assignment list" where
  "clearableFields =
     [(''description'', \<lambda>p. p\<lparr>o_Description := None\<rparr>), (''issuing_entity'', \<lambda>p. p\<lparr>o_IssuingEntity := None\<rparr>),
      (''region'', \<lambda>p. p\<lparr>o_Region := None\<rparr>), (''city'', \<lambda>p. p\<lparr>o_City := None\<rparr>), (''currency'', \<lambda>p. p\<lparr>o_Currency := None\<rparr>),
      (''amount_min'', \<lambda>p. p\<lparr>o_AmountMin := None\<rparr>), (''amount_max'', \<lambda>p. p\<lparr>o_AmountMax := None\<rparr>),
      (''employment_type'', \<lambda>p. p\<lparr>o_EmploymentType := None\<rparr>), (''seniority'', \<lambda>p. p\<lparr>o_Seniority := None\<rparr>),
      (''geo_scope'', \<lambda>p. p\<lparr>o_GeoScope := None\<rparr>), (''deadline'', \<lambda>p. p\<lparr>o_Deadline := None\<rparr>),
      (''posted_at'', \<lambda>p. p\<lparr>o_PostedAt := None\<rparr>)]"

fun clear_assignments :: "string list \<Rightarrow> assignment list option" where
  "clear_assignments [] = Some []"
| "clear_assignments (f # fs) =
     (case map_of clearableFields (ToLower (TrimSpace f)) of
        None \<Rightarrow> None
      | Some g \<Rightarrow> (case clear_assignments fs of None \<Rightarrow> None | Some as \<Rightarrow> Some ((ToLower (TrimSpace f), g) # as)))"

text \<open>
  The attribute bag.  A JSON \<open>null\<close> in the column turns the map into nil, on which a deletion does
  nothing and an assignment panics: \<open>None\<close>.  An array in the column leaves the map empty.  The
  entries of \<open>set_attributes\<close> come in the order in which the map is iterated.
\<close>

definition read_attrs :: "jsonb \<Rightarrow> gomap option" where
  "read_attrs j = (case j of JNull \<Rightarrow> None | JObject m \<Rightarrow> Some m | JArray _ \<Rightarrow> Some Map.empty)"

definition clear_attr :: "string \<Rightarrow> gomap option \<times> bool \<Rightarrow> gomap option \<times> bool" where
  "clear_attr k mb = (if TrimSpace k = [] then mb else (map_option (\<lambda>m. m(TrimSpace k := None)) (fst mb), True))"

fun set_attrs :: "(string \<times> goany) list \<Rightarrow> gomap option \<times> bool \<Rightarrow> (gomap option \<times> bool) option" where
  "set_attrs [] mb = Some mb"
| "set_attrs ((k, v) # kvs) mb =
     (if TrimSpace k = [] then set_attrs kvs mb
      else if v = ANil then set_attrs kvs (map_option (\<lambda>m. m(TrimSpace k := None)) (fst mb), True)
      else case fst mb of None \<Rightarrow> None | Some m \<Rightarrow> set_attrs kvs (Some (m(TrimSpace k \<mapsto> v)), True))"

definition patch_hide :: "opportunityPatch \<Rightarrow> assignment list" where
  "patch_hide req = (case op_Hide req of
       None \<Rightarrow> []
     | Some True \<Rightarrow>
         let reason = (case op_HiddenReason req of None \<Rightarrow> ''operator_sanitize''
             | Some r \<Rightarrow> if TrimSpace r = [] then ''operator_sanitize'' else TrimSpace r)
         in [(''hidden'', \<lambda>p. p\<lparr>o_Hidden := True\<rparr>), (''hidden_reason'', \<lambda>p. p\<lparr>o_HiddenReason := Some reason\<rparr>)]
     | Some False \<Rightarrow> [(''hidden'', \<lambda>p. p\<lparr>o_Hidden := False\<rparr>), (''hidden_reason'', \<lambda>p. p\<lparr>o_HiddenReason := None\<rparr>)])"

datatype patch_plan = PlanRefused string | PlanPanics | PlanSets "assignment list"

definition plan_patch :: "OpportunityRecord \<Rightarrow> opportunityPatch \<Rightarrow> patch_plan" where
  "plan_patch row req =
     (if (case op_ApplyURL req of None \<Rightarrow> False | Some u \<Rightarrow> TrimSpace u = []) then PlanRefused ''invalid_apply_url''
      else case clear_assignments (op_ClearFields req) of
        None \<Rightarrow> PlanRefused ''invalid_clear_field''
      | Some clears \<Rightarrow>
          (case set_attrs (op_SetAttributes req) (fold clear_attr (op_ClearAttributes req) (read_attrs (o_Attributes row), False)) of
             None \<Rightarrow> PlanPanics
           | Some (attrs, changed) \<Rightarrow>
               PlanSets (patch_strings req @
                 (case op_ApplyURL req of None \<Rightarrow> [] | Some u \<Rightarrow> [(''apply_url'', \<lambda>p. p\<lparr>o_ApplyURL := TrimSpace u\<rparr>)]) @
                 clears @
                 (if changed then [(''attributes'', \<lambda>p. p\<lparr>o_Attributes := marshal_attrs attrs\<rparr>)] else []) @
                 patch_hide req)))"

text \<open>PostgreSQL refuses an \<open>UPDATE\<close> that assigns a column twice.\<close>

definition apply_assignments :: "time \<Rightarrow> string \<Rightarrow> assignment list \<Rightarrow> (adminworld, nat) sql" where
  "apply_assignments now slug sets =
     (if \<not> distinct (map fst sets) then on_world (on_queue (sql_stmt (\<lambda>d. (Inl (ErrNew ''multiple assignments to same column''), d))))
      else set_opportunities slug (\<lambda>p. (fold (\<lambda>a. snd a) sets p)\<lparr>o_UpdatedAt := now\<rparr>))"

datatype patch_reply = PatchedRow OpportunityRecord | PatchedOK | PatchPanicked

definition handlePatch :: "(nat \<Rightarrow> time) \<Rightarrow> string \<Rightarrow> opportunityPatch option \<Rightarrow> (adminworld, patch_reply admin_reply) sql" where
  "handlePatch clk slug body =
     (if slug = [] then sql_return (Refused 400 ''bad_request'')
      else case body of
        None \<Rightarrow> sql_return (Refused 400 ''bad_json'')
      | Some req \<Rightarrow>
          orRefuse 500 ''load_failed'' (loadBySlug slug) (\<lambda>r.
            case r of
              None \<Rightarrow> sql_return (Refused 404 ''not_found'')
            | Some row \<Rightarrow>
                (case plan_patch row req of
                   PlanRefused code \<Rightarrow> sql_return (Refused 400 code)
                 | PlanPanics \<Rightarrow> sql_return (Answered 500 PatchPanicked)
                 | PlanSets sets \<Rightarrow>
                     if sets = [] then sql_return (Answered 200 (PatchedRow row))
                     else orRefuse 500 ''update_failed'' (apply_assignments (clk 0) slug sets) (\<lambda>n.
                       if n \<noteq> 1 then sql_return (Refused 404 ''not_found'')
                       else sql_bind (sql_try (loadBySlug slug)) (\<lambda>u.
                         sql_return (Answered 200 (case u of Inr (Some x) \<Rightarrow> PatchedRow x | _ \<Rightarrow> PatchedOK)))))))"

definition set_visibility ::
  "string \<Rightarrow> string \<Rightarrow> (OpportunityRecord \<Rightarrow> OpportunityRecord) \<Rightarrow> 'a \<Rightarrow> (adminworld, 'a admin_reply) sql"
where
  "set_visibility code slug f answer =
     (if slug = [] then sql_return (Refused 400 ''bad_request'')
      else orRefuse 500 code (set_opportunities slug f) (\<lambda>n.
        sql_return (if n \<noteq> 1 then Refused 404 ''not_found'' else Answered 200 answer)))"

text \<open>\<open>DELETE\<close> answers with the reason it stored, the reversal with nothing but the slug.\<close>

definition handleDelete :: "(nat \<Rightarrow> time) \<Rightarrow> string \<Rightarrow> string \<Rightarrow> (adminworld, string admin_reply) sql" where
  "handleDelete clk slug reason0 =
     (let reason = (if TrimSpace reason0 = [] then ''operator_removed'' else TrimSpace reason0)
      in set_visibility ''delete_failed'' slug (hide_row (clk 0) reason) reason)"

definition handleUnhide :: "(nat \<Rightarrow> time) \<Rightarrow> string \<Rightarrow> (adminworld, unit admin_reply) sql" where
  "handleUnhide clk slug =
     set_visibility ''unhide_failed'' slug (\<lambda>p. p\<lparr>o_Hidden := False, o_HiddenReason := None, o_UpdatedAt := clk 0\<rparr>) ()"

end
