(* ===== verification/Crawl_Status.thy ===== *)
theory Crawl_Status
  imports Crawl_Properties
begin

text \<open>
  What the handlers do to the status and the configuration of a source: requests for a stopped
  source and discoveries of a known one.
\<close>

section \<open>Lookups and updates of one source\<close>

definition source_of :: "string \<Rightarrow> crawldb \<Rightarrow> Source option" where
  "source_of i d = List.find (\<lambda>s. src_live s \<and> src_ID s = i) (sources d)"

lemma sort_key_same: "(\<And>r. r \<in> set rows \<Longrightarrow> k r = i) \<Longrightarrow> sort_key k rows = rows"
  by (induction rows) (simp_all add: insort_is_Cons)

lemma find_filter: "List.find P rows = (case filter P rows of [] \<Rightarrow> None | r # _ \<Rightarrow> Some r)"
  by (induction rows) auto

lemma Source_GetByID_ok [sql_simps]: "Sources_GetByID i (d, []) = (Inr (source_of i d), (d, []))"
proof -
  have "sort_key src_ID (src_where (\<lambda>s. src_ID s = i) d) = src_where (\<lambda>s. src_ID s = i) d"
    by (rule sort_key_same[where i = i]) (simp add: src_where_def)
  then show ?thesis by (simp add: Sources_GetByID_def src_first_def sql_simps first_row_def source_of_def src_where_def find_filter)
qed

lemma src_update_apply [sql_simps]:
  "src_update now i f (d, []) = (Inr (), (set_sources (\<lambda>s. src_ID s = i) (\<lambda>s. (f s)\<lparr>src_UpdatedAt := now\<rparr>) d, []))"
  by (simp add: src_update_def src_Updates_def src_UpdateColumn_def void_def sql_simps)

lemma source_of_set_sources:
  assumes "\<And>s. src_ID (f s) = src_ID s" and "\<And>s. src_DeletedAt (f s) = src_DeletedAt s"
  shows "source_of i (set_sources (\<lambda>s. src_ID s = j) f d) = (if i = j then map_option f (source_of i d) else source_of i d)"
proof -
  have "List.find (\<lambda>s. src_live s \<and> src_ID s = i) (update_where (\<lambda>s. src_live s \<and> src_ID s = j) f rows) =
      (if i = j then map_option f (List.find (\<lambda>s. src_live s \<and> src_ID s = i) rows) else List.find (\<lambda>s. src_live s \<and> src_ID s = i) rows)" for rows
    using assms by (induction rows) (auto simp: src_live_def)
  then show ?thesis by (simp add: source_of_def set_sources_def)
qed

lemma source_of_id: "source_of i d = Some s \<Longrightarrow> src_ID s = i"
  by (auto simp: source_of_def dest: find_SomeD)

lemma on_crawl_apply [sql_simps]: "on_crawl m (w, fs) = (case m (cw_db w, fs) of (x, (d, fs')) \<Rightarrow> (x, (w\<lparr>cw_db := d\<rparr>, fs')))"
  by (simp add: on_crawl_def lift_sql_def)

lemma quietly_update [sql_simps]:
  "quietly (src_update now i f) (w, []) = (Inr (), (w\<lparr>cw_db := set_sources (\<lambda>s. src_ID s = i) (\<lambda>s. (f s)\<lparr>src_UpdatedAt := now\<rparr>) (cw_db w)\<rparr>, []))"
  by (simp add: quietly_def void_def sql_simps)

section \<open>Requests for a stopped source\<close>

lemma Execute_ineligible:
  assumes "source_of (rq_Source req) (cw_db w) = Some s" and "\<not> scheduleActive s"
  shows "CrawlRequest_Execute dp env req (w, []) =
    (Inr (), (w\<lparr>cw_completed := cw_completed w @ [failed_page req (src_BaseURL s) ''source_not_eligible'']\<rparr>, []))"
  using assms by (simp add: CrawlRequest_Execute_def sql_simps scheduleActive_def emitCompleted_def void_def emit_page_completed_def)

lemma record_failure_status:
  assumes "source_of (src_ID s) (cw_db w) = Some s" and "record_failure stmt now s (w, []) = (x, (w', fs'))" and "\<not> scheduleActive s"
  shows "fs' = [] \<and> cw_completed w' = cw_completed w \<and> (\<exists>s'. source_of (src_ID s) (cw_db w') = Some s' \<and> src_ID s' = src_ID s \<and>
     src_Status s' = failure_status (src_ConsecutiveFailures s + 1) (src_Status s) \<and> src_ConsecutiveFailures s' = src_ConsecutiveFailures s + 1)"
  using assms by (auto simp: record_failure_def Let_def RecordFailure_def SetStatus_def UpdateNextCrawl_def sql_simps source_of_set_sources
      scheduleActive_def)

lemma regenerate_nothing: "pc_JobsFound p = 0 \<Longrightarrow> regenerate cfg p src = sql_return ()"
  by (auto simp: regenerate_def reject_rate_def)

lemma PageCompleted_failure:
  assumes "source_of (pc_SourceID p) (cw_db w) = Some s" and "pc_ErrorCode p \<noteq> []" and "pc_JobsFound p = 0"
  shows "PageCompleted_Execute cfg stmt now p (w, []) = (case record_failure stmt now s (w, []) of (_, z) \<Rightarrow> (Inr (), z))"
  using assms by (simp add: PageCompleted_Execute_def sql_simps regenerate_nothing record_failure_def Let_def RecordFailure_def SetStatus_def
      UpdateNextCrawl_def)

text \<open>One delivered request for a source and the bookkeeping of the event it publishes.\<close>

record delivery =
  dl_Env :: crawl_env
  dl_Request :: CrawlRequestV1
  dl_Stmt :: "nat \<Rightarrow> time"
  dl_Now :: time

definition deliver_request :: "crawl_deps \<Rightarrow> page_conf \<Rightarrow> delivery \<Rightarrow> crawlworld \<Rightarrow> crawlworld" where
  "deliver_request dp cfg dl w =
     (let w1 = tables_after (CrawlRequest_Execute dp (dl_Env dl) (dl_Request dl)) (w, [])
      in tables_after (PageCompleted_Execute cfg (dl_Stmt dl) (dl_Now dl) (last (cw_completed w1))) (w1, []))"

lemma deliver_ineligible:
  assumes "source_of (rq_Source (dl_Request dl)) (cw_db w) = Some s" and "\<not> scheduleActive s"
  shows "\<exists>s'. source_of (rq_Source (dl_Request dl)) (cw_db (deliver_request dp cfg dl w)) = Some s' \<and>
     src_Status s' = failure_status (src_ConsecutiveFailures s + 1) (src_Status s) \<and> src_ConsecutiveFailures s' = src_ConsecutiveFailures s + 1"
proof -
  let ?p = "failed_page (dl_Request dl) (src_BaseURL s) ''source_not_eligible''"
  let ?w1 = "w\<lparr>cw_completed := cw_completed w @ [?p]\<rparr>"
  have w1: "tables_after (CrawlRequest_Execute dp (dl_Env dl) (dl_Request dl)) (w, []) = ?w1"
    by (simp add: tables_after_def Execute_ineligible[OF assms(1,2)])
  have s: "source_of (pc_SourceID ?p) (cw_db ?w1) = Some s" "source_of (src_ID s) (cw_db ?w1) = Some s"
    using assms(1) source_of_id[OF assms(1)] by (simp_all add: failed_page_def)
  obtain x w' fs' where f: "record_failure (dl_Stmt dl) (dl_Now dl) s (?w1, []) = (x, (w', fs'))" by (rule prod_cases3)
  have "deliver_request dp cfg dl w = w'"
    unfolding deliver_request_def w1 Let_def
    using PageCompleted_failure[OF s(1), of cfg "dl_Stmt dl" "dl_Now dl"] f by (simp add: tables_after_def failed_page_def)
  with record_failure_status[OF s(2) f assms(2)] source_of_id[OF assms(1)] show ?thesis by auto
qed

text \<open>
  C38. A stop does not last while requests for the source are still queued: each of them is answered
  with an error event, the bookkeeping counts it as a failure of the source, and the third failure in
  a row writes the status \<open>degraded\<close> over \<open>disabled\<close>, whatever the operator set; from then on the
  dispatcher sends the source out again.
\<close>

theorem stop_undone:
  assumes "source_of i (cw_db w) = Some s" and "\<not> scheduleActive s"
    and "\<And>dl. dl \<in> set dls \<Longrightarrow> rq_Source (dl_Request dl) = i" and "src_ConsecutiveFailures s + int (length dls) = 3" and "dls \<noteq> []"
  shows "\<exists>s'. source_of i (cw_db (fold (deliver_request dp cfg) dls w)) = Some s' \<and> src_Status s' = SourceDegraded \<and> scheduleActive s'"
  using assms
proof (induction dls arbitrary: w s)
  case (Cons dl dls)
  from Cons.prems have i: "rq_Source (dl_Request dl) = i" by simp
  with deliver_ineligible[of dl w s dp cfg] Cons.prems obtain s1 where s1:
    "source_of i (cw_db (deliver_request dp cfg dl w)) = Some s1" "src_ConsecutiveFailures s1 = src_ConsecutiveFailures s + 1"
    "src_Status s1 = failure_status (src_ConsecutiveFailures s + 1) (src_Status s)" by auto
  show ?case
  proof (cases "dls = []")
    case True
    with s1 Cons.prems(4) show ?thesis by (auto simp: failure_status_def scheduleActive_def)
  next
    case False
    then have "\<not> scheduleActive s1" using s1 Cons.prems(2,4)
      by (auto simp: failure_status_def scheduleActive_def neq_Nil_conv)
    from Cons.IH[OF s1(1) this _ _ False] Cons.prems(3,4) s1(2) show ?thesis by simp
  qed
qed simp

definition stopped_world :: crawlworld where
  "stopped_world = (sample_world [] [])\<lparr>cw_db := tables_after (StopSource 7 ''s'' ''op'' 7)
     (cw_db (sample_world [(sample_source ''s'' SourceActive)\<lparr>src_ConsecutiveFailures := 1\<rparr>] []), [])\<rparr>"

definition stale :: "time \<Rightarrow> delivery" where
  "stale t = \<lparr>dl_Env = sample_env t, dl_Request = tick_of ''s'' 5, dl_Stmt = (\<lambda>_. t), dl_Now = t\<rparr>"

theorem stop_undone_witness:
  "\<exists>s'. source_of ''s'' (cw_db (fold (deliver_request (sample_deps ''p'' sample_iter)
      \<lparr>pf_EmitRegenerate = False, pf_RegenRejectRate = 0, pf_RegenMinPages = 20\<rparr>) [stale 8, stale 9] stopped_world)) = Some s' \<and>
     src_Status s' = SourceDegraded \<and> scheduleActive s'"
proof -
  have stopped: "source_of ''s'' (cw_db stopped_world) = Some ((sample_source ''s'' SourceDisabled)\<lparr>src_ConsecutiveFailures := 1, src_LastStoppedAt := Some 7,
      src_LastStoppedBy := ''op'', src_UpdatedAt := 7\<rparr>)"
    by (simp add: stopped_world_def StopSource_def tables_after_def sql_simps source_of_set_sources sample_world_def)
      (simp add: source_of_def sample_source_def discovered_source_def src_live_def)
  have "rq_Source (dl_Request dl) = ''s''" if "dl \<in> set [stale 8, stale 9]" for dl
    using that by (auto simp: stale_def tick_of_def tick_request_def)
  then show ?thesis by (intro stop_undone[OF stopped]) (simp_all add: sample_source_def discovered_source_def scheduleActive_def)
qed

section \<open>Discovery of a known source\<close>

lemma source_of_distinct: "distinct (map src_ID (sources d)) \<Longrightarrow> s \<in> set (sources d) \<Longrightarrow> src_live s \<Longrightarrow> source_of (src_ID s) d = Some s"
proof -
  assume a: "distinct (map src_ID (sources d))" "s \<in> set (sources d)" "src_live s"
  have "distinct (map src_ID rows) \<Longrightarrow> s \<in> set rows \<Longrightarrow> List.find (\<lambda>x. src_live x \<and> src_ID x = src_ID s) rows = Some s" for rows
    using a(3) by (induction rows) (auto simp: image_iff)
  with a show ?thesis by (simp add: source_of_def)
qed

text \<open>
  A link from one approved source to another takes the other one out of the crawl: when the
  discovered URL resolves to the type and base URL of a source that exists, the discovery writes the
  status \<open>pending\<close> over \<open>active\<close> and replaces the name, language, kinds, required attributes and
  interval that the operator configured; the next request of the source is refused.
\<close>

theorem rediscovery_demotes:
  assumes "distinct (map src_ID (sources (cw_db w)))"
    and "GetByTypeAndURL (src_Type e) (src_BaseURL e) (cw_db w, []) = (Inr (Some e), (cw_db w, []))"
    and "source_of (sd_SourceID p) (cw_db w) = Some origin" and "scheduleActive origin"
    and "discovered_target ac origin p = Some (src_Type e, src_BaseURL e)"
    and "SourceDiscovered_Execute ac None newID now p (w, []) = (x, (w', fs))" and "rq_Source req = src_ID e"
  shows "source_of (src_ID e) (cw_db w') = Some (e\<lparr>src_Status := SourcePending, src_Name := [], src_Language := [], src_Country := sd_Country p,
      src_Priority := PriorityNormal, src_CrawlIntervalSec := 7200, src_Kinds := [''job''], src_RequiredAttributesByKind := Map.empty,
      src_AutoApprove := False, src_ListingPath := [], src_UpdatedAt := now\<rparr>) \<and>
    fst (snd (CrawlRequest_Execute dp env req (w', []))) =
      w'\<lparr>cw_completed := cw_completed w' @ [failed_page req (src_BaseURL e) ''source_not_eligible'']\<rparr>"
proof -
  let ?new = "discovered_source (src_Type e) (src_BaseURL e) (sd_Country p)"
  have "first_row src_ID (src_where (\<lambda>s. src_Type s = src_Type e \<and> src_BaseURL s = src_BaseURL e) (cw_db w)) = Some e"
    using assms(2) by (simp add: GetByTypeAndURL_def src_first_def sql_simps)
  from first_row_mem[OF this] assms(1) have e: "source_of (src_ID e) (cw_db w) = Some e"
    by (auto simp: src_where_def intro: source_of_distinct)
  have "Upsert newID now ?new (cw_db w, []) = (Inr (), (set_sources (\<lambda>s. src_ID s = src_ID e) (seed_fields ?new now) (cw_db w), []))"
    using assms(2) by (simp add: Upsert_def sql_bind_apply src_UpdateColumn_def void_def sql_simps discovered_source_def)
  then have "w' = w\<lparr>cw_db := set_sources (\<lambda>s. src_ID s = src_ID e) (seed_fields ?new now) (cw_db w)\<rparr>"
    using assms(3-6) by (auto simp: SourceDiscovered_Execute_def sql_bind_apply sql_wrap_apply on_crawl_apply Source_GetByID_ok scheduleActive_def)
  with e have e': "source_of (src_ID e) (cw_db w') = Some (seed_fields ?new now e)"
    by (simp add: source_of_set_sources seed_fields_def)
  then have "\<not> scheduleActive (seed_fields ?new now e)" by (simp add: scheduleActive_def seed_fields_def discovered_source_def)
  from e' Execute_ineligible[OF _ this, of req w' dp env] assms(7) show ?thesis by (simp add: seed_fields_def discovered_source_def)
qed

definition linked_world :: crawlworld where
  "linked_world = sample_world [sample_source ''a'' SourceActive,
     (sample_source ''b'' SourceActive)\<lparr>src_BaseURL := ''https://b.example'', src_Name := ''B'', src_Language := ''sw'', src_Kinds := [''scholarship'']\<rparr>] []"

theorem rediscovery_demotes_witness:
  "\<exists>s. source_of ''b'' (cw_db (tables_after (SourceDiscovered_Execute sample_codec None ''n'' 9
       \<lparr>sd_SourceID = ''a'', sd_DiscoveredURL = ''https://b.example'', sd_Country = ''UG''\<rparr>) (linked_world, []))) = Some s \<and>
     src_Status s = SourcePending \<and> src_Name s = [] \<and> src_Kinds s = [''job'']"
proof -
  let ?e = "(sample_source ''b'' SourceActive)\<lparr>src_BaseURL := ''https://b.example'', src_Name := ''B'', src_Language := ''sw'', src_Kinds := [''scholarship'']\<rparr>"
  let ?p = "\<lparr>sd_SourceID = ''a'', sd_DiscoveredURL = ''https://b.example'', sd_Country = ''UG''\<rparr>"
  obtain x w' fs where d: "SourceDiscovered_Execute sample_codec None ''n'' 9 ?p (linked_world, []) = (x, (w', fs))" by (rule prod_cases3)
  have known: "GetByTypeAndURL (src_Type ?e) (src_BaseURL ?e) (cw_db linked_world, []) = (Inr (Some ?e), (cw_db linked_world, []))"
    by (simp add: GetByTypeAndURL_def src_first_def sql_simps src_where_def first_row_def linked_world_def sample_world_def sample_source_def
        discovered_source_def src_live_def)
  have origin: "source_of (sd_SourceID ?p) (cw_db linked_world) = Some (sample_source ''a'' SourceActive)"
    by (simp add: source_of_def linked_world_def sample_world_def sample_source_def discovered_source_def src_live_def)
  have target: "discovered_target sample_codec (sample_source ''a'' SourceActive) ?p = Some (src_Type ?e, src_BaseURL ?e)"
    by (simp add: sample_source_def discovered_source_def) code_simp
  have "distinct (map src_ID (sources (cw_db linked_world)))"
    by (simp add: linked_world_def sample_world_def sample_source_def discovered_source_def)
  from rediscovery_demotes[OF this known origin _ target d, where req = "tick_of ''b'' 10"] d show ?thesis
    by (simp add: sample_source_def scheduleActive_def tables_after_def tick_of_def tick_request_def)
qed

end
