(* ===== verification/Flags_Properties.thy ===== *)
theory Flags_Properties
  imports Flags Crawl_Status
begin

text \<open>
  Properties of moderation: a user counts once per listing in every history, three users hide it, and the
  next delivery of a listing that was hidden makes it public again.
\<close>

section \<open>One flag per user and listing\<close>

definition flag_key :: "OpportunityFlag \<Rightarrow> string \<times> string" where
  "flag_key f = (fg_OpportunitySlug f, fg_SubmittedBy f)"

definition flags_inv :: "adminworld \<Rightarrow> bool" where
  "flags_inv w \<longleftrightarrow> distinct (map fg_ID (aw_flags w)) \<and> distinct (map flag_key (aw_flags w))"

definition flags_kept :: "adminworld \<Rightarrow> adminworld \<Rightarrow> bool" where
  "flags_kept w w' \<longleftrightarrow> (flags_inv w \<longrightarrow> flags_inv w')"

interpretation fl: sql_preorder flags_kept
  by unfold_locales (auto simp: flags_kept_def)

lemma on_world_flags: "preserves flags_kept (on_world m)"
  by (auto simp: preserves_def tables_after_def on_world_def lift_sql_def flags_kept_def flags_inv_def split: prod.splits)

lemma set_flags_kept: "preserves flags_kept (set_flags P (resolve_row s t b a))"
  unfolding set_flags_def
proof (rule fl.preserves_stmt)
  fix w x w'
  assume "(Inr (int (length (flags_where P w))),
     w\<lparr>aw_flags := update_where (\<lambda>x. flag_live x \<and> P x) (resolve_row s t b a) (aw_flags w)\<rparr>) = (Inr x, w')"
  then show "flags_kept w w'"
    by (auto simp: flags_kept_def flags_inv_def update_where_def resolve_row_def flag_key_def[abs_def] comp_def if_distrib cong: if_cong)
qed

lemma Flags_Create_kept: "preserves flags_kept (Flags_Create i now f)"
  unfolding Flags_Create_def
  by (rule fl.preserves_stmt) (auto simp: flags_kept_def flags_inv_def Let_def list_ex_iff flag_key_def image_iff split: if_splits)

lemma orRefuse_kept: "preserves flags_kept m \<Longrightarrow> (\<And>x. preserves flags_kept (k x)) \<Longrightarrow> preserves flags_kept (orRefuse s c m k)"
  unfolding orRefuse_def by (intro fl.preserves_bind fl.preserves_try fl.preserves_sum fl.preserves_return)

lemmas flags_kept_rules = fl.preserves_return fl.preserves_raise fl.preserves_bind fl.preserves_try fl.preserves_query fl.preserves_if
  fl.preserves_option fl.preserves_sum on_world_flags set_flags_kept Flags_Create_kept orRefuse_kept

lemma Hide_kept: "preserves flags_kept (Hide now slug reason)"
  unfolding Hide_def set_opportunities_def by (intro flags_kept_rules)

lemma GetBySlug_kept: "preserves flags_kept (GetBySlug slug)"
  unfolding GetBySlug_def by (intro flags_kept_rules)

lemma handleUserFlag_kept: "preserves flags_kept (handleUserFlag i clk u slug body)"
  unfolding handleUserFlag_def autoAction_def hideAutoFlag_def ExistsForUser_def CountUnresolvedByOpportunity_def Let_def
  by (intro flags_kept_rules Hide_kept GetBySlug_kept)

lemma handleResolve_kept: "preserves flags_kept (handleResolve clk auth i body)"
  unfolding handleResolve_def resolve_hide_def resolve_ban_def Flags_GetByID_def Flags_Resolve_def ResolveAllForOpportunity_def void_def
  by (intro flags_kept_rules Hide_kept)

text \<open>A history: the two handlers that write flags with any failures, and anything that leaves the flags alone.\<close>

inductive admin_step :: "adminworld \<Rightarrow> adminworld \<Rightarrow> bool" where
  flag: "admin_step w (tables_after (handleUserFlag i clk u slug body) (w, fs))"
| resolve: "admin_step w (tables_after (handleResolve clk auth i body') (w, fs))"
| other: "aw_flags w' = aw_flags w \<Longrightarrow> admin_step w w'"

lemma admin_step_inv: "admin_step w w' \<Longrightarrow> flags_inv w \<Longrightarrow> flags_inv w'"
  by (induction rule: admin_step.induct)
    (use preservesD[OF handleUserFlag_kept] preservesD[OF handleResolve_kept] in \<open>auto simp: flags_kept_def flags_inv_def\<close>)

interpretation ad: transition_system admin_step flags_inv
  by unfold_locales (rule admin_step_inv)

text \<open>The users with an open scam report on a listing, written out over the table: a row that is neither resolved nor deleted.\<close>

definition reporters :: "string \<Rightarrow> adminworld \<Rightarrow> string set" where
  "reporters slug w = {fg_SubmittedBy f |f. f \<in> set (aw_flags w) \<and> fg_OpportunitySlug f = slug \<and> fg_Reason f = FlagScam \<and>
     fg_ResolvedAt f = None \<and> fg_DeletedAt f = None}"

lemma reporters_rows: "reporters slug w = fg_SubmittedBy ` set (flags_where (scam_open slug) w)"
  by (auto simp: reporters_def flags_where_def flag_live_def scam_open_def)

lemma count_reporters: "flags_inv w \<Longrightarrow> length (flags_where (scam_open slug) w) = card (reporters slug w)"
proof -
  assume "flags_inv w"
  then have "distinct (map flag_key (flags_where (scam_open slug) w))"
    by (simp add: flags_inv_def flags_where_def distinct_map_filter)
  then have "distinct (map fg_SubmittedBy (flags_where (scam_open slug) w))"
    by (auto simp: distinct_map inj_on_def flag_key_def flags_where_def scam_open_def)
  from distinct_card[OF this] show ?thesis by (simp add: reporters_rows)
qed

section \<open>Hiding at the threshold\<close>

abbreviation listings :: "adminworld \<Rightarrow> OpportunityRecord list" where
  "listings w \<equiv> opportunities (cw_queue (aw_world w))"

lemma on_listing: "on_world (on_queue m) (w, fs) =
    (case m (cw_queue (aw_world w), fs) of (x, (d, fs')) \<Rightarrow> (x, (w\<lparr>aw_world := aw_world w\<lparr>cw_queue := d\<rparr>\<rparr>, fs')))"
  by (simp add: on_world_def on_queue_def lift_sql_def split: prod.splits)

lemma one_listing: "distinct (map o_Slug ps) \<Longrightarrow> length (filter (\<lambda>p. o_Slug p = slug) ps) = (if slug \<in> o_Slug ` set ps then 1 else 0)"
  by (induction ps) (auto simp: image_iff filter_empty_conv)

definition hidden_at :: "time \<Rightarrow> string \<Rightarrow> string \<Rightarrow> adminworld \<Rightarrow> adminworld" where
  "hidden_at now slug reason w = w\<lparr>aw_world := aw_world w\<lparr>cw_queue := (cw_queue (aw_world w))
     \<lparr>opportunities := update_where (\<lambda>p. o_Slug p = slug) (hide_row now reason) (listings w)\<rparr>\<rparr>\<rparr>"

lemma hidden_at_sel:
  "aw_flags (hidden_at now slug reason w) = aw_flags w"
  "listings (hidden_at now slug reason w) = update_where (\<lambda>p. o_Slug p = slug) (hide_row now reason) (listings w)"
  by (simp_all add: hidden_at_def)

lemma Hide_works:
  "Hide now slug reason (w, []) =
     (if length (filter (\<lambda>p. o_Slug p = slug) (listings w)) = 1 then Inr () else Inl ErrRecordNotFound, (hidden_at now slug reason w, []))"
  by (simp add: Hide_def set_opportunities_def sql_simps on_listing hidden_at_def)

lemma Hide_success:
  assumes "Hide now slug reason (w, fs) = (Inr (), (w', fs'))"
  shows "w' = hidden_at now slug reason w \<and> (\<exists>p \<in> set (listings w). o_Slug p = slug)"
proof -
  have "length (filter (\<lambda>p. o_Slug p = slug) (listings w)) = 1 \<and> w' = hidden_at now slug reason w"
    using assms by (auto simp: Hide_def set_opportunities_def sql_bind_def sql_raise_def sql_return_def on_listing sql_stmt_def hidden_at_def
        split: prod.splits sum.splits if_splits bool.splits)
  moreover from this have "filter (\<lambda>p. o_Slug p = slug) (listings w) \<noteq> []" by auto
  ultimately show ?thesis by (auto simp: filter_empty_conv)
qed

lemma autoAction_works:
  "autoAction now FlagScam slug (w, []) =
     (if 3 \<le> length (flags_where (scam_open slug) w)
      then (Inr (length (filter (\<lambda>p. o_Slug p = slug) (listings w)) = 1), (hidden_at now slug ''scam flag threshold'' w, []))
      else (Inr False, (w, [])))"
  by (auto simp: autoAction_def hideAutoFlag_def CountUnresolvedByOpportunity_def sql_simps Hide_works FlagAutoActionThreshold_def)

lemma new_report:
  assumes "uf_Reason req = FlagScam"
  shows "reporters slug (w\<lparr>aw_flags := aw_flags w @ [(new_flag slug kind u req)\<lparr>fg_ID := i, fg_CreatedAt := t, fg_UpdatedAt := t\<rparr>]\<rparr>) =
    insert u (reporters slug w)"
  using assms by (simp add: reporters_rows flags_where_def new_flag_def flag_live_def scam_open_def)

text \<open>
  C39. Reports count by user and by slug.  In every history, when a user who has not flagged a listing under the slug reports it
  under that slug as a scam, on a working database with distinct slugs, the answer says that the listing was hidden exactly when at least
  three different users, this one included, have an open scam report under the slug, neither resolved nor deleted, and the listing
  exists under that slug.  In that case it is hidden; otherwise every listing stays as it is.
\<close>

theorem auto_hide_threshold:
  assumes "admin_step\<^sup>*\<^sup>* w0 w" and "aw_flags w0 = []" and "distinct (map o_Slug (listings w))"
    and "u \<noteq> []" and "slug \<noteq> []" and "uf_Reason req = FlagScam" and "length (uf_Description req) \<le> FlagDescriptionMaxLen"
    and "(slug, u) \<notin> flag_key ` set (aw_flags w)" and "i \<noteq> []" and "i \<notin> fg_ID ` set (aw_flags w)"
  shows "\<exists>c w'. handleUserFlag i clk u slug (Some req) (w, []) = (Inr (Answered 201 c), (w', [])) \<and>
    (fc_AutoActioned c \<longleftrightarrow> 3 \<le> card (insert u (reporters slug w)) \<and> slug \<in> o_Slug ` set (listings w)) \<and>
    (if fc_AutoActioned c then \<forall>p \<in> set (listings w'). o_Slug p = slug \<longrightarrow> o_Hidden p else listings w' = listings w)"
proof -
  have inv: "flags_inv w" using ad.run_inv[OF assms(1)] assms(2) by (simp add: flags_inv_def)
  obtain r where g: "GetBySlug slug (w, []) = (Inr r, (w, []))" by (simp add: GetBySlug_def assms(5) on_listing sql_simps)
  let ?kind = "case r of None \<Rightarrow> [] | Some p \<Rightarrow> o_Kind p"
  let ?f = "(new_flag slug ?kind u req)\<lparr>fg_ID := i, fg_CreatedAt := clk 0, fg_UpdatedAt := clk 0\<rparr>"
  let ?w1 = "w\<lparr>aw_flags := aw_flags w @ [?f]\<rparr>"
  have no: "flags_where (\<lambda>f. fg_OpportunitySlug f = slug \<and> fg_SubmittedBy f = u) w = []"
    using assms(8) by (auto simp: flags_where_def filter_empty_conv flag_key_def image_iff)
  have sel: "fg_ID (new_flag slug k u req) = []" "fg_OpportunitySlug (new_flag slug k u req) = slug" "fg_SubmittedBy (new_flag slug k u req) = u"
    "fg_Reason (new_flag slug k u req) = uf_Reason req" for k
    by (simp_all add: new_flag_def)
  have cr: "Flags_Create i (clk 0) (new_flag slug ?kind u req) (w, []) = (Inr ?f, (?w1, []))"
    using assms(8,10) by (auto simp: Flags_Create_def sql_simps Let_def sel list_ex_iff flag_key_def image_iff)
  have inv1: "flags_inv ?w1"
    using inv assms(8,10) by (auto simp: flags_inv_def flag_key_def new_flag_def)
  have kind: "(case Inr r of Inr (Some p) \<Rightarrow> o_Kind p | _ \<Rightarrow> []) = ?kind" by (cases r) auto
  have run: "handleUserFlag i clk u slug (Some req) (w, []) =
      (case autoAction (clk 1) FlagScam slug (?w1, []) of (x, z) \<Rightarrow> (case x of Inl e \<Rightarrow> Inl e | Inr a \<Rightarrow> Inr (Answered 201
         \<lparr>fc_ID = i, fc_Slug = slug, fc_Kind = ?kind, fc_Reason = FlagScam, fc_AutoActioned = a\<rparr>), z))"
    using assms(4-7) no cr g kind
    by (simp add: handleUserFlag_def IsKnownFlagReason_def orRefuse_def ExistsForUser_def sql_simps sql_bind_def sel Let_def
        split: prod.splits sum.splits)
  have n: "length (flags_where (scam_open slug) ?w1) = card (insert u (reporters slug w))"
    using count_reporters[OF inv1] new_report[OF assms(6)] by simp
  have l: "listings ?w1 = listings w" by simp
  have same: "update_where (\<lambda>p. o_Slug p = slug) f (listings w) = listings w" if "slug \<notin> o_Slug ` set (listings w)" for f
    by (rule update_where_none) (use that in auto)
  show ?thesis unfolding run autoAction_works n l one_listing[OF assms(3)]
    by (auto simp: hidden_at_sel hide_row_def same elim!: update_where_memE)
qed

section \<open>A hidden listing comes back\<close>

lemma auto_hidden:
  assumes "handleUserFlag i clk u slug body (w, fs) = (Inr (Answered 201 c), (w', fs'))" and "fc_AutoActioned c"
  obtains w1 where "w' = hidden_at (clk 1) slug ''scam flag threshold'' w1" "aw_world w1 = aw_world w"
    "3 \<le> length (flags_where (scam_open slug) w1)" "\<exists>p \<in> set (listings w1). o_Slug p = slug"
proof -
  have auto: "\<exists>fs1. Hide now slug ''scam flag threshold'' (w1, fs1) = (Inr (), z) \<and> 3 \<le> length (flags_where (scam_open slug) w1)"
    if "autoAction now reason slug (w1, fs1) = (Inr True, z)" for now reason w1 fs1 z
    using that by (auto simp: autoAction_def hideAutoFlag_def CountUnresolvedByOpportunity_def sql_query_def sql_stmt_def sql_try_def
        sql_bind_def sql_return_def FlagAutoActionThreshold_def split: prod.splits sum.splits if_splits bool.splits)
  obtain w1 fs1 reason where "autoAction (clk 1) reason slug (w1, fs1) = (Inr True, (w', fs'))" "aw_world w1 = aw_world w"
    using assms
    by (auto simp: handleUserFlag_def orRefuse_def ExistsForUser_def GetBySlug_def Flags_Create_def sql_query_def sql_stmt_def sql_try_def on_listing
        sql_bind_def sql_return_def Let_def split: prod.splits sum.splits if_splits bool.splits option.splits)
  with auto[of "clk 1" reason w1 fs1] Hide_success that show thesis by metis
qed

text \<open>No full crawl that started after the delivery was seen has switched off its lineage.\<close>

definition seen_again :: "string \<Rightarrow> Canonical \<Rightarrow> jobdb \<Rightarrow> bool" where
  "seen_again cid c d \<longleftrightarrow> list_all (\<lambda>l. lineage_key l = (cid, c_SourceID c, c_ExternalID c) \<longrightarrow>
     (case os_InactiveAfter l of None \<Rightarrow> True | Some t \<Rightarrow> t \<le> c_SeenAt c)) (opportunity_sources d)"

lemma delivery_publishes:
  assumes "productWrite h item c now (d, fs) = (Inr cid, (d', fs'))" and "p \<in> set (opportunities d)" and "o_CanonicalID p = cid"
    and fresh: "seen_again cid c d"
  shows "\<exists>p' \<in> set (opportunities d'). o_Slug p' = o_Slug p \<and> \<not> o_Hidden p' \<and> o_HiddenReason p' = None"
  using assms(1)
proof (cases rule: productWrite_run)
  case (1 d1 d2 d3)
  let ?ex = "excluded_row cid (makeSlug h (c_Kind c) (c_Title c) (c_IssuingEntity c) cid) c (marshal_attrs (c_Attributes c)) now"
  let ?sx = "excluded_source cid item c"
  have d1: "opportunities d1 = opportunities d" "opportunity_sources d1 = opportunity_sources d"
    using upsert_identity_cases[OF 1(1)] by simp_all
  have "list_ex (\<lambda>q. o_CanonicalID q = o_CanonicalID ?ex) (opportunities d1)"
    using assms(2,3) d1 by (auto simp: list_ex_iff excluded_row_def)
  then have "merge_opportunity ?ex now p \<in> set (opportunities d2)"
    using 1(2) assms(2,3) d1 by (auto simp: upsert_opportunity_def set_update_where excluded_row_def split: if_splits intro!: image_eqI[of _ _ p])
  then have p3: "merge_opportunity ?ex now p \<in> set (opportunities d3)" using upsert_source_frame[OF 1(3)] by simp
  have src: "opportunity_sources d2 = opportunity_sources d" using upsert_opportunity_frame[OF 1(2)] d1 by simp
  have "has_active (opportunity_sources d3) cid"
  proof (cases "list_ex (same_lineage ?sx) (opportunity_sources d)")
    case True
    then obtain s where s: "s \<in> set (opportunity_sources d)" "same_lineage ?sx s" by (auto simp: list_ex_iff)
    then have "os_Active (merge_source ?sx s)" using fresh s(1)
      by (auto simp: seen_again_def list_all_iff merge_source_def same_lineage_def excluded_source_def lineage_key_def Let_def split: option.splits)
    moreover have "merge_source ?sx s \<in> set (opportunity_sources d3)"
      using 1(3) True s src by (auto simp: upsert_source_def set_update_where split: if_splits intro!: image_eqI[of _ _ s])
    moreover have "os_CanonicalID (merge_source ?sx s) = cid"
      using s(2) by (simp add: merge_source_def same_lineage_def excluded_source_def Let_def)
    ultimately show ?thesis by (auto simp: has_active_def list_ex_iff)
  next
    case False
    then show ?thesis using 1(3) src
      by (auto simp: upsert_source_def has_active_def excluded_source_def Let_def split: if_splits)
  qed
  moreover obtain q where q: "q \<in> set (opportunities d3)" "o_CanonicalID q = cid" "o_Slug q = o_Slug p"
    using p3 assms(3) by (auto simp: merge_opportunity_def)
  ultimately have "q\<lparr>o_Hidden := False, o_HiddenReason := None\<rparr> \<in> set (opportunities d')"
    using 1(4) by (auto simp: refresh_visibility_def set_update_where intro!: image_eqI[of _ _ q])
  with q(3) show ?thesis by (auto intro!: bexI[of _ "q\<lparr>o_Hidden := False, o_HiddenReason := None\<rparr>"])
qed

text \<open>
  C40. Hiding a scam does not last.  When the report of a user hides a listing, at least three scam
  reports are open and the listing is hidden with that reason; the next delivery of the same listing
  by a crawl makes it public again, with the reports still open, unless a later full crawl has
  already missed the listing.
\<close>

theorem scam_listing_republished:
  assumes "handleUserFlag i clk u slug body (w, fs) = (Inr (Answered 201 c), (w', fs'))" and "fc_AutoActioned c"
    and "productWrite h item k now (cw_queue (aw_world w'), gs) = (Inr cid, (d', gs'))"
    and "p \<in> set (listings w)" and "o_Slug p = slug" and "o_CanonicalID p = cid"
    and "seen_again cid k (cw_queue (aw_world w'))"
  shows "hide_row (clk 1) ''scam flag threshold'' p \<in> set (listings w') \<and> 3 \<le> length (flags_where (scam_open slug) w') \<and>
    (\<exists>p' \<in> set (opportunities d'). o_Slug p' = slug \<and> \<not> o_Hidden p' \<and> o_HiddenReason p' = None)"
proof -
  obtain w1 where w': "w' = hidden_at (clk 1) slug ''scam flag threshold'' w1" "aw_world w1 = aw_world w"
    "3 \<le> length (flags_where (scam_open slug) w1)" using auto_hidden[OF assms(1,2)] by blast
  let ?p = "hide_row (clk 1) ''scam flag threshold'' p"
  have p: "?p \<in> set (listings w')" using w'(1,2) assms(4,5)
    by (auto simp: hidden_at_sel set_update_where intro!: image_eqI[of _ _ p])
  moreover have "flags_where (scam_open slug) w' = flags_where (scam_open slug) w1" using w'(1) by (simp add: flags_where_def hidden_at_sel)
  moreover have "o_Slug ?p = slug" "o_CanonicalID ?p = cid" using assms(5,6) by (simp_all add: hide_row_def)
  ultimately show ?thesis using delivery_publishes[OF assms(3) p] assms(7) w'(3) by (metis (no_types, lifting))
qed

section \<open>Sample reports\<close>

definition sample_listing :: OpportunityRecord where
  "sample_listing = excluded_row ''A'' ''nurse'' (sample_canonical ''A'') (JObject Map.empty) 7"

text \<open>A catalog with one listing, written by a crawl.\<close>

definition listed_world :: adminworld where
  "listed_world = \<lparr>aw_world = (sample_world [] [])\<lparr>cw_queue := empty_jobs\<lparr>
     opportunity_identities := [\<lparr>oi_HardKey = ''hk'', oi_CanonicalID = ''A'', oi_CreatedAt = 7\<rparr>], opportunities := [sample_listing],
     opportunity_sources := [excluded_source ''A'' (sample_item ''i'' ''v'') (sample_canonical ''A'')]\<rparr>\<rparr>, aw_flags = [], aw_scheduling = []\<rparr>"

definition scam_report :: userFlagRequest where
  "scam_report = \<lparr>uf_Reason = FlagScam, uf_Description = []\<rparr>"

definition reported :: "string \<Rightarrow> string \<Rightarrow> adminworld \<Rightarrow> adminworld" where
  "reported i u w = tables_after (handleUserFlag i (\<lambda>_. 8) u ''nurse'' (Some scam_report)) (w, [])"

definition twice_reported :: adminworld where
  "twice_reported = reported ''f2'' ''u2'' (reported ''f1'' ''u1'' listed_world)"

definition sample_flag :: "string \<Rightarrow> string \<Rightarrow> OpportunityFlag" where
  "sample_flag i u = (new_flag ''nurse'' ''job'' u scam_report)\<lparr>fg_ID := i, fg_CreatedAt := 8, fg_UpdatedAt := 8\<rparr>"

lemma sample_listing_sel: "o_Slug sample_listing = ''nurse''" "o_Kind sample_listing = ''job''" "o_CanonicalID sample_listing = ''A''"
  by (simp_all add: sample_listing_def excluded_row_def sample_canonical_def)

lemmas report_simps = handleUserFlag_def scam_report_def IsKnownFlagReason_def orRefuse_def ExistsForUser_def GetBySlug_def Flags_Create_def
  autoAction_works sql_simps on_listing Let_def flags_where_def scam_open_def flag_live_def new_flag_def sample_listing_sel

lemma twice_reported_eq: "twice_reported = listed_world\<lparr>aw_flags := [sample_flag ''f1'' ''u1'', sample_flag ''f2'' ''u2'']\<rparr>"
proof -
  have "reported ''f1'' ''u1'' listed_world = listed_world\<lparr>aw_flags := [sample_flag ''f1'' ''u1'']\<rparr>"
    by (simp add: reported_def listed_world_def sample_world_def empty_jobs_def sample_flag_def tables_after_def report_simps)
  moreover have "reported ''f2'' ''u2'' (listed_world\<lparr>aw_flags := [sample_flag ''f1'' ''u1'']\<rparr>) =
      listed_world\<lparr>aw_flags := [sample_flag ''f1'' ''u1'', sample_flag ''f2'' ''u2'']\<rparr>"
    by (simp add: reported_def listed_world_def sample_world_def empty_jobs_def sample_flag_def tables_after_def report_simps)
  ultimately show ?thesis by (simp add: twice_reported_def)
qed

lemma twice_reported_reachable: "admin_step\<^sup>*\<^sup>* listed_world twice_reported"
proof -
  have "admin_step w (reported i u w)" for i u w unfolding reported_def by (rule admin_step.flag)
  then show ?thesis unfolding twice_reported_def by (meson r_into_rtranclp rtranclp_trans)
qed

lemma third_report:
  "\<exists>c w'. handleUserFlag ''f3'' (\<lambda>_. 8) ''u3'' ''nurse'' (Some scam_report) (twice_reported, []) = (Inr (Answered 201 c), (w', [])) \<and>
     fc_AutoActioned c \<and> opportunity_identities (cw_queue (aw_world w')) = opportunity_identities (cw_queue (aw_world listed_world)) \<and>
     opportunity_sources (cw_queue (aw_world w')) = opportunity_sources (cw_queue (aw_world listed_world)) \<and>
     listings w' = [hide_row 8 ''scam flag threshold'' sample_listing]"
  by (simp add: twice_reported_eq listed_world_def sample_world_def empty_jobs_def sample_flag_def report_simps hidden_at_def)

text \<open>Two users have reported the listing; the report of a third one hides it.\<close>

theorem auto_hide_threshold_witness:
  "\<exists>c w'. handleUserFlag ''f3'' (\<lambda>_. 8) ''u3'' ''nurse'' (Some scam_report) (twice_reported, []) = (Inr (Answered 201 c), (w', [])) \<and>
     fc_AutoActioned c"
proof -
  let ?w = twice_reported
  have "aw_flags listed_world = []" "distinct (map o_Slug (listings ?w))" "''nurse'' \<in> o_Slug ` set (listings ?w)"
    by (simp_all add: twice_reported_eq listed_world_def sample_listing_sel)
  moreover have "reporters ''nurse'' ?w = {''u1'', ''u2''}"
    by (simp add: twice_reported_eq reporters_rows flags_where_def sample_flag_def new_flag_def scam_report_def scam_open_def flag_live_def)
  moreover have "(''nurse'', ''u3'') \<notin> flag_key ` set (aw_flags ?w)" "''f3'' \<notin> fg_ID ` set (aw_flags ?w)"
    by (simp_all add: twice_reported_eq sample_flag_def new_flag_def flag_key_def)
  moreover have "uf_Reason scam_report = FlagScam" "length (uf_Description scam_report) \<le> FlagDescriptionMaxLen"
    by (simp_all add: scam_report_def)
  ultimately show ?thesis
    using auto_hide_threshold[OF twice_reported_reachable, of "''u3''" "''nurse''" scam_report "''f3''" "\<lambda>_. 8"] by auto
qed

lemma sample_redelivery:
  assumes "opportunity_identities d = opportunity_identities (cw_queue (aw_world listed_world))"
    "opportunity_sources d = opportunity_sources (cw_queue (aw_world listed_world))"
    "opportunities d = [hide_row 8 ''scam flag threshold'' sample_listing]"
  shows "\<exists>d'. productWrite (\<lambda>x. x) (sample_item ''i'' ''v'') (sample_canonical ''B'') 9 (d, []) = (Inr ''A'', (d', []))"
  using assms by (simp add: productWrite_def sql_simps Let_def upsert_identity_def upsert_opportunity_def upsert_source_def listed_world_def
      hide_row_def sample_listing_sel sample_canonical_def url_blank_def excluded_row_def excluded_source_def same_lineage_def)

text \<open>The listing that three users reported is delivered again.\<close>

theorem scam_listing_republished_witness:
  "\<exists>c w' d' p'. handleUserFlag ''f3'' (\<lambda>_. 8) ''u3'' ''nurse'' (Some scam_report) (twice_reported, []) = (Inr (Answered 201 c), (w', [])) \<and>
     fc_AutoActioned c \<and>
     productWrite (\<lambda>x. x) (sample_item ''i'' ''v'') (sample_canonical ''B'') 9 (cw_queue (aw_world w'), []) = (Inr ''A'', (d', [])) \<and>
     3 \<le> length (flags_where (scam_open ''nurse'') w') \<and> p' \<in> set (opportunities d') \<and> o_Slug p' = ''nurse'' \<and> \<not> o_Hidden p'"
proof -
  obtain c w' where r: "handleUserFlag ''f3'' (\<lambda>_. 8) ''u3'' ''nurse'' (Some scam_report) (twice_reported, []) = (Inr (Answered 201 c), (w', []))"
    "fc_AutoActioned c" "opportunity_identities (cw_queue (aw_world w')) = opportunity_identities (cw_queue (aw_world listed_world))"
    "opportunity_sources (cw_queue (aw_world w')) = opportunity_sources (cw_queue (aw_world listed_world))"
    "listings w' = [hide_row 8 ''scam flag threshold'' sample_listing]" using third_report by blast
  obtain d' where d: "productWrite (\<lambda>x. x) (sample_item ''i'' ''v'') (sample_canonical ''B'') 9 (cw_queue (aw_world w'), []) = (Inr ''A'', (d', []))"
    using sample_redelivery[OF r(3-5)] by blast
  have "sample_listing \<in> set (listings twice_reported)" by (simp add: twice_reported_eq listed_world_def)
  moreover have "seen_again ''A'' (sample_canonical ''B'') (cw_queue (aw_world w'))"
    by (simp add: seen_again_def r(4) listed_world_def excluded_source_def Let_def)
  ultimately show ?thesis using scam_listing_republished[OF r(1,2) d _ sample_listing_sel(1,3)] r(1,2) d by blast
qed

end
