(* ===== verification/Frontier_Worker.thy ===== *)
theory Frontier_Worker
  imports Crawl_Control
begin

text \<open>
  The frontier worker of \<open>apps/frontier-worker/service/handler.go\<close>: it claims URLs of the frontier,
  fetches them, passes the job postings of the page through the accept path and queues what is
  accepted, then completes or fails the URL.

  \<open>wd_Fetch\<close> is the HTTP client and \<open>wd_Postings\<close> the postings that the JSON-LD extraction maps from a
  page.  \<open>url_env\<close> holds the identifiers and clock readings of one URL, by the number of the posting,
  and \<open>batch_env\<close> those of one turn of the loop.  The mutex makes a worker run one drain at a time.
\<close>

record worker_deps =
  wd_WorkerID :: string
  wd_IngestMaxPending :: int
  wd_IngestMaxOldestAge :: duration
  wd_QueueMaxPending :: int
  wd_Kinds :: "Registry option"
  wd_Normalizer :: "Location list option option"
  wd_HowToApply :: "(string \<Rightarrow> string \<Rightarrow> string \<Rightarrow> go_error + string \<times> string) option"
  wd_Fetch :: "string \<Rightarrow> go_error + string \<times> int"
  wd_Postings :: "string \<Rightarrow> ExternalOpportunity list"
  wd_DequeueBatch :: int
  wd_MaxAttempts :: int
  wd_accept :: accept_codec
  wd_marshalVariant :: "VariantIngestedV1 \<Rightarrow> goany option"
  wd_marshalReject :: "VariantRejectedV1 \<Rightarrow> goany option"
  wd_Frontier :: PostgresFrontier
  wd_oor :: int

record url_env =
  ue_VariantID :: "nat \<Rightarrow> string"
  ue_AcceptNow :: "nat \<Rightarrow> time"
  ue_RejectID :: "nat \<Rightarrow> string"
  ue_RejectAt :: "nat \<Rightarrow> time"
  ue_IngestID :: "nat \<Rightarrow> string"
  ue_EventID :: "nat \<Rightarrow> string"
  ue_QueueNow :: "nat \<Rightarrow> time"
  ue_Settle :: time

record batch_env =
  be_Now :: time
  be_StatsNow :: time
  be_LockedHosts :: "string list"
  be_LockedURLs :: "string list"
  be_ReclaimNow :: time
  be_ClaimNow :: time
  be_ClaimWall :: time
  be_URL :: "nat \<Rightarrow> url_env"

definition NewHandler :: "worker_deps \<Rightarrow> worker_deps" where
  "NewHandler dp = dp\<lparr>wd_DequeueBatch := (if wd_DequeueBatch dp \<le> 0 then 5 else wd_DequeueBatch dp),
     wd_MaxAttempts := (if wd_MaxAttempts dp \<le> 0 then 5 else wd_MaxAttempts dp)\<rparr>"

section \<open>One URL\<close>

definition page_items :: "worker_deps \<Rightarrow> Source \<Rightarrow> URL \<Rightarrow> string \<Rightarrow> ExternalOpportunity list" where
  "page_items dp src u body =
     map (\<lambda>opp. opp\<lparr>eo_Source := src_Type src, eo_SourceURL := u_CanonicalURL u,
            eo_ApplyURL := (if TrimSpace (eo_ApplyURL opp) = [] then u_CanonicalURL u else eo_ApplyURL opp)\<rparr>)
       (filter (\<lambda>opp. TrimSpace (eo_Title opp) \<noteq> [] \<and> TrimSpace (eo_IssuingEntity opp) \<noteq> []) (wd_Postings dp body))"

definition worker_accept :: "worker_deps \<Rightarrow> url_env \<Rightarrow> Source \<Rightarrow> nat \<Rightarrow> ExternalOpportunity \<Rightarrow> Reject + VariantIngestedV1" where
  "worker_accept dp env src k opp =
     (case Accept (wd_accept dp) (wd_Kinds dp) (wd_Normalizer dp) (ue_VariantID env k) (ue_AcceptNow env k) src opp of
        Inl rej \<Rightarrow> Inl rej
      | Inr p \<Rightarrow> Inr (case wd_HowToApply dp of None \<Rightarrow> p | Some peel \<Rightarrow> snd (PeelAccepted peel p)))"

definition worker_reject :: "url_env \<Rightarrow> nat \<Rightarrow> Source \<Rightarrow> ExternalOpportunity \<Rightarrow> Reject \<Rightarrow> VariantRejectedV1" where
  "worker_reject env k src opp rej =
     \<lparr>rv_VariantID = ue_RejectID env k, rv_SourceID = src_ID src, rv_Kind = rj_Kind rej, rv_Title = eo_Title opp,
      rv_Reasons = [rj_Detail rej], rv_CrawlJobID = [], rv_RejectedAt = ue_RejectAt env k\<rparr>"

definition frontier_key :: "URL \<Rightarrow> VariantIngestedV1 \<Rightarrow> string" where
  "frontier_key u p = ''frontier:'' @ u_URLID u @ '':'' @ vi_HardKey p"

definition url_item :: "URL \<Rightarrow> ExternalOpportunity \<Rightarrow> ExternalOpportunity" where
  "url_item u item = item\<lparr>eo_SourceURL := u_CanonicalURL u, eo_ApplyURL := (if eo_ApplyURL item = [] then u_CanonicalURL u else eo_ApplyURL item)\<rparr>"

text \<open>The postings of a page; the result is the last error.\<close>

fun emit_items ::
  "worker_deps \<Rightarrow> url_env \<Rightarrow> Source \<Rightarrow> URL \<Rightarrow> nat \<Rightarrow> ExternalOpportunity list \<Rightarrow> go_error option \<Rightarrow> (crawlworld, go_error option) sql"
where
  "emit_items dp env src u k [] emitErr = sql_return emitErr"
| "emit_items dp env src u k (item # items) emitErr =
     (let opp = url_item u item in
      case worker_accept dp env src k opp of
        Inl rej \<Rightarrow>
          sql_bind (sql_try (on_queue (RecordRejected (ue_EventID env k) (ue_IngestID env k) (ue_RejectID env k) (src_ID src)
              (wd_marshalReject dp (worker_reject env k src opp rej)) (ue_QueueNow env k)))) (\<lambda>_.
          emit_items dp env src u (k + 1) items emitErr)
      | Inr p \<Rightarrow>
          (case wd_marshalVariant dp p of
             None \<Rightarrow> emit_items dp env src u (k + 1) items (Some (ErrNew ''marshal variant''))
           | Some body \<Rightarrow>
               sql_bind (sql_try (on_queue (Enqueue (wd_QueueMaxPending dp) (ue_IngestID env k) (ue_EventID env k)
                   \<lparr>rq_VariantID = vi_VariantID p, rq_SourceID = vi_SourceID p, rq_CrawlRunID = [], rq_CrawlJobID = [],
                    rq_IdempotencyKey = frontier_key u p, rq_Payload = Some body\<rparr> (ue_QueueNow env k)))) (\<lambda>r.
               emit_items dp env src u (k + 1) items (case r of Inl e \<Rightarrow> Some e | Inr _ \<Rightarrow> emitErr))))"

definition fail_url :: "worker_deps \<Rightarrow> url_env \<Rightarrow> URL \<Rightarrow> string \<Rightarrow> (crawlworld, unit) sql" where
  "fail_url dp env u msg = void (sql_try (on_frontier (Frontier_Fail (wd_Frontier dp) (wd_oor dp) (u_URLID u) msg (wd_MaxAttempts dp) (ue_Settle env))))"

definition complete_url :: "url_env \<Rightarrow> URL \<Rightarrow> (crawlworld, unit) sql" where
  "complete_url env u = void (sql_try (on_frontier (Frontier_Complete (u_URLID u) (ue_Settle env))))"

definition process_page :: "worker_deps \<Rightarrow> url_env \<Rightarrow> URL \<Rightarrow> Source \<Rightarrow> string \<Rightarrow> (crawlworld, unit) sql" where
  "process_page dp env u src body =
     (let items = page_items dp src u body in
      if items = [] then complete_url env u
      else sql_bind (emit_items dp env src u 0 items None) (\<lambda>emitErr.
        case emitErr of Some e \<Rightarrow> fail_url dp env u (Error e) | None \<Rightarrow> complete_url env u))"

definition runOne :: "worker_deps \<Rightarrow> url_env \<Rightarrow> URL \<Rightarrow> (crawlworld, unit) sql" where
  "runOne dp env u =
     (case wd_Fetch dp (u_CanonicalURL u) of
        Inl e \<Rightarrow> fail_url dp env u (Error e)
      | Inr (body, status) \<Rightarrow>
          if status < 200 \<or> status \<ge> 300 then fail_url dp env u (''HTTP '' @ Itoa status)
          else sql_bind (sql_try (on_crawl (Sources_GetByID (u_SourceID u)))) (\<lambda>r.
            case r of
              Inl e \<Rightarrow> fail_url dp env u (Error e)
            | Inr None \<Rightarrow> fail_url dp env u (''source '' @ u_SourceID u @ '' not found (possible replica lag)'')
            | Inr (Some src) \<Rightarrow> process_page dp env u src body))"

section \<open>Draining\<close>

definition drainMaxBatches :: nat where "drainMaxBatches = 20"
definition drainBudget :: duration where "drainBudget = 2 * Minute"

fun run_urls :: "worker_deps \<Rightarrow> (nat \<Rightarrow> url_env) \<Rightarrow> nat \<Rightarrow> URL list \<Rightarrow> (crawlworld, unit) sql" where
  "run_urls dp env n [] = sql_return ()"
| "run_urls dp env n (u # us) = sql_bind (runOne dp (env n) u) (\<lambda>_. run_urls dp env (n + 1) us)"

definition backlogged :: "worker_deps \<Rightarrow> Stats \<Rightarrow> bool" where
  "backlogged dp st \<longleftrightarrow> (wd_IngestMaxPending dp > 0 \<and> st_Pending st \<ge> wd_IngestMaxPending dp) \<or>
     (wd_IngestMaxOldestAge dp > 0 \<and> st_OldestAge st \<ge> wd_IngestMaxOldestAge dp)"

text \<open>\<open>turns\<close> is the number of batches that are left.\<close>

fun drain_batches :: "worker_deps \<Rightarrow> time \<Rightarrow> nat \<Rightarrow> (nat \<Rightarrow> batch_env) \<Rightarrow> (crawlworld, unit) sql" where
  "drain_batches dp deadline 0 env = sql_return ()"
| "drain_batches dp deadline (Suc turns) env =
     (let b = env turns in
      if be_Now b > deadline then sql_return ()
      else sql_bind (sql_wrap ''frontier ingest backlog'' (on_queue (Stats_of (be_StatsNow b)))) (\<lambda>st.
        if backlogged dp st then sql_return ()
        else sql_bind (sql_wrap ''frontier dequeue'' (on_frontier (Dequeue (be_LockedHosts b) (be_LockedURLs b) (wd_DequeueBatch dp)
               (wd_WorkerID dp) (be_ReclaimNow b) (be_ClaimNow b) (be_ClaimWall b)))) (\<lambda>urls.
          if urls = [] then sql_return ()
          else sql_bind (run_urls dp (be_URL b) 0 urls) (\<lambda>_. drain_batches dp deadline turns env))))"

definition drain_frontier :: "worker_deps \<Rightarrow> time \<Rightarrow> (nat \<Rightarrow> batch_env) \<Rightarrow> (crawlworld, unit) sql" where
  "drain_frontier dp start env = drain_batches dp (start + drainBudget) drainMaxBatches env"

end
