(* ===== verification/Crawl_Slices.thy ===== *)
theory Crawl_Slices
  imports Crawl_Properties
begin

text \<open>
  One slice of a crawl: what its counters say, and that the position it leaves behind never passes a
  record that is not in the ingestion queue.  Also what the accept path lets through.
\<close>

section \<open>Records in the queue\<close>

definition queue_keys :: "crawlworld \<Rightarrow> string set" where
  "queue_keys w = q_IdempotencyKey ` set (job_ingest_queue (cw_queue w))"

lemma queue_step_keys:
  assumes "sql_try (on_queue m) (w, fs) = (Inr r, (w', fs'))" and "preserves job_history m"
  shows "queue_keys w \<subseteq> queue_keys w' \<and> m (cw_queue w, fs) = (r, (cw_queue w', fs'))"
proof -
  from assms(1) have m: "m (cw_queue w, fs) = (r, (cw_queue w', fs'))"
    by (auto simp: sql_try_def on_queue_def lift_sql_def split: prod.splits)
  then have "job_history (cw_queue w) (cw_queue w')" by (rule preserves_run[OF assms(2)])
  then have "rows_evolve queue_row_evolves (job_ingest_queue (cw_queue w)) (job_ingest_queue (cw_queue w'))" by (simp only: job_history_def)
  then have "queue_keys w \<subseteq> queue_keys w'" unfolding queue_keys_def
    by (intro subsetI) (erule rows_evolve_key, simp_all add: queue_row_evolves_def)
  with m show ?thesis by simp
qed

lemma sql_tryE: obtains r s' fs' where "sql_try m (s, fs) = (Inr r, (s', fs'))"
  by (cases "m (s, fs)") (auto simp: sql_try_def)

definition record_stored :: "crawl_deps \<Rightarrow> crawl_env \<Rightarrow> Source \<Rightarrow> string \<Rightarrow> crawlworld \<Rightarrow> nat \<Rightarrow> ExternalOpportunity \<Rightarrow> bool" where
  "record_stored dp env src jobID w k opp \<longleftrightarrow>
     (case Accept (dp_accept dp) (dp_Kinds dp) (dp_Normalizer dp) (ev_VariantID env k) (ev_AcceptNow env k) src opp of
        Inl _ \<Rightarrow> True | Inr p \<Rightarrow> jobID @ '':'' @ vi_HardKey (peeled dp p) \<in> queue_keys w)"

lemma record_stored_mono: "record_stored dp env src jobID w k opp \<Longrightarrow> queue_keys w \<subseteq> queue_keys w' \<Longrightarrow> record_stored dp env src jobID w' k opp"
  by (auto simp: record_stored_def split: sum.splits)

section \<open>The items of a page\<close>

definition balanced :: "slice_acc \<Rightarrow> bool" where
  "balanced a \<longleftrightarrow> sa_Found a = sa_Emitted a + sa_Rejected a"

definition position :: "slice_acc \<Rightarrow> string \<times> int \<times> string" where
  "position a = (sa_RunCursor a, sa_RunPageIdx a, sa_RunLastURL a)"

definition items_done :: "slice_acc \<Rightarrow> slice_acc \<Rightarrow> bool" where
  "items_done a a' \<longleftrightarrow> sa_Pages a' = sa_Pages a \<and> position a' = position a \<and>
     (balanced a \<longrightarrow> sa_Emitted a' + sa_Rejected a' \<le> sa_Found a' \<and> sa_Found a' \<le> sa_Emitted a' + sa_Rejected a' + 1)"

lemma do_items_stored:
  assumes "do_items dp env src runID jobID items a (w, fs) = (Inr (a', left), (w', fs'))"
  shows "queue_keys w \<subseteq> queue_keys w' \<and> items_done a a' \<and>
    (\<not> left \<longrightarrow> sa_Found a' = sa_Found a + length items \<and> (balanced a \<longrightarrow> balanced a') \<and>
       (\<forall>j < length items. record_stored dp env src jobID w' (sa_Found a + j) (items ! j)))"
  using assms
proof (induction items arbitrary: a w fs)
  case (Cons opp items)
  let ?k = "sa_Found a"
  let ?a1 = "a\<lparr>sa_Found := sa_Found a + 1\<rparr>"
  have step: ?case if e: "do_items dp env src runID jobID items b (w1, fs1) = (Inr (a', left), (w', fs'))"
    and g: "queue_keys w \<subseteq> queue_keys w1" and s: "record_stored dp env src jobID w1 ?k opp"
    and b: "sa_Found b = Suc (sa_Found a)" "sa_Pages b = sa_Pages a" "position b = position a" "balanced a \<longrightarrow> balanced b" for b w1 fs1
  proof -
    note ih = Cons.IH[OF e]
    then have g': "queue_keys w1 \<subseteq> queue_keys w'" by simp
    from record_stored_mono[OF s g'] have "record_stored dp env src jobID w' ?k opp" .
    with ih g b show ?thesis by (auto simp: items_done_def less_Suc_eq_0_disj)
  qed
  show ?case
  proof (cases "Accept (dp_accept dp) (dp_Kinds dp) (dp_Normalizer dp) (ev_VariantID env ?k) (ev_AcceptNow env ?k) src opp")
    case (Inl rej)
    obtain r w1 fs1 where m: "sql_try (publishAcceptReject dp env ?k src jobID opp rej) (w, fs) = (Inr r, (w1, fs1))"
      by (rule sql_tryE)
    have g: "queue_keys w \<subseteq> queue_keys w1"
      using queue_step_keys[OF m[unfolded publishAcceptReject_def Let_def] RecordRejected_history] by simp
    show ?thesis using Cons.prems m Inl
      by (intro step[OF _ g, of "?a1\<lparr>sa_Rejected := sa_Rejected a + 1\<rparr>" fs1]) (simp_all add: Let_def sql_bind_apply record_stored_def position_def balanced_def)
  next
    case (Inr p)
    have stop: ?thesis if "queue_keys w \<subseteq> queue_keys w'" "left" "sa_Found a' = Suc (sa_Found a)" "sa_Emitted a' = sa_Emitted a"
        "sa_Rejected a' = sa_Rejected a" "sa_Pages a' = sa_Pages a" "position a' = position a"
      using that by (simp add: items_done_def balanced_def)
    show ?thesis
    proof (cases "dp_marshalVariant dp (peeled dp p)")
      case None
      with Cons.prems Inr show ?thesis by (intro stop) (auto simp: Let_def sql_return_def position_def)
    next
      case (Some body)
      let ?m = "Enqueue (dp_QueueMaxPending dp) (ev_IngestID env ?k) (ev_EventID env ?k) (ingest_request dp runID jobID (peeled dp p) body) (ev_QueueNow env ?k)"
      obtain r w1 fs1 where m: "sql_try (on_queue ?m) (w, fs) = (Inr r, (w1, fs1))" by (rule sql_tryE)
      from queue_step_keys[OF m Enqueue_history] have g: "queue_keys w \<subseteq> queue_keys w1"
        and e: "?m (cw_queue w, fs) = (r, (cw_queue w1, fs1))" by simp_all
      show ?thesis
      proof (cases r)
        case (Inl e)
        with Cons.prems Inr Some m g show ?thesis
          by (intro stop) (auto simp: Let_def sql_bind_apply sql_return_def position_def split: if_splits)
      next
        case (Inr u)
        then have "r = Inr ()" by simp
        from Enqueue_stores(1)[OF e[unfolded this]] have "jobID @ '':'' @ vi_HardKey (peeled dp p) \<in> queue_keys w1"
          by (simp add: queue_keys_def ingest_request_def)
        then show ?thesis using Cons.prems m \<open>Accept _ _ _ _ _ _ _ = Inr p\<close> Some Inr
          by (intro step[OF _ g, of "?a1\<lparr>sa_Emitted := sa_Emitted a + 1\<rparr>" fs1])
            (simp_all add: Let_def sql_bind_apply record_stored_def position_def balanced_def)
      qed
    qed
  qed
qed (auto simp: sql_return_def items_done_def balanced_def)

section \<open>The pages of a slice\<close>

definition checkpoint :: "crawl_page \<Rightarrow> string \<times> int \<times> string \<Rightarrow> string \<times> int \<times> string" where
  "checkpoint page pos = (case pg_Checkpoint page of None \<Rightarrow> pos | Some c \<Rightarrow> (ck_Cursor c, ck_PageIdx c, ck_LastURL c))"

abbreviation items_of :: "crawl_page list \<Rightarrow> ExternalOpportunity list" where
  "items_of pages \<equiv> concat (map pg_Items pages)"

lemma advance_page:
  assumes "advance dp env runID page a (w, fs) = (x, (w', fs'))"
  obtains a' spent where "x = Inr (a', spent)" "queue_keys w' = queue_keys w" "sa_Pages a' = Suc (sa_Pages a)"
    "position a' = checkpoint page (position a)" "sa_Found a' = sa_Found a" "sa_Emitted a' = sa_Emitted a" "sa_Rejected a' = sa_Rejected a"
proof -
  let ?a = "(case pg_Checkpoint page of None \<Rightarrow> a
    | Some c \<Rightarrow> a\<lparr>sa_RunCursor := ck_Cursor c, sa_RunPageIdx := ck_PageIdx c, sa_RunLastURL := ck_LastURL c\<rparr>)\<lparr>sa_Pages := Suc (sa_Pages a)\<rparr>"
  have "\<exists>spent. x = Inr (?a, spent)" and "queue_keys w' = queue_keys w"
  proof (atomize (full), cases "pg_Checkpoint page")
    case None
    with assms show "(\<exists>spent. x = Inr (?a, spent)) \<and> queue_keys w' = queue_keys w" unfolding advance_def Let_def by (simp add: sql_simps) metis
  next
    case (Some c)
    let ?m = "on_crawl (Progress (ev_ProgressNow env (sa_Pages a)) runID (ck_Cursor c) (ck_PageIdx c) (ck_LastURL c) (lease_ttl (dp_RunLeaseTTLSec dp)))"
    obtain r w1 fs1 where m: "sql_try ?m (w, fs) = (Inr r, (w1, fs1))" by (rule sql_tryE)
    then have "cw_queue w1 = cw_queue w" by (auto simp: sql_try_def on_crawl_def lift_sql_def split: prod.splits)
    with assms m Some show "(\<exists>spent. x = Inr (?a, spent)) \<and> queue_keys w' = queue_keys w"
      unfolding advance_def Let_def by (simp add: void_def sql_bind_apply sql_return_def queue_keys_def) metis
  qed
  then show ?thesis using that by (auto simp: position_def checkpoint_def split: option.splits)
qed

lemma backlogged_quiet:
  assumes "ingestBacklogged dp now (w, fs) = (x, (w', fs'))"
  obtains full where "x = Inr full" "queue_keys w' = queue_keys w"
proof -
  obtain r w1 fs1 where m: "sql_try (on_queue (Stats_of now)) (w, fs) = (Inr r, (w1, fs1))" by (rule sql_tryE)
  then have "cw_queue w1 = cw_queue w"
    by (auto simp: sql_try_def on_queue_def lift_sql_def Stats_of_def sql_query_def sql_stmt_def split: prod.splits bool.splits)
  moreover from assms m have "\<exists>full. x = Inr full" "w' = w1" unfolding ingestBacklogged_def by (simp_all add: sql_bind_apply sql_return_def) metis
  ultimately show ?thesis using that by (auto simp: queue_keys_def)
qed

text \<open>\<open>prefix_stored\<close>: the counters agree with the pages that were finished, and their records are queued.\<close>

definition prefix_stored ::
  "crawl_deps \<Rightarrow> crawl_env \<Rightarrow> Source \<Rightarrow> string \<Rightarrow> string \<times> int \<times> string \<Rightarrow> crawl_page list \<Rightarrow> slice_acc \<Rightarrow> crawlworld \<Rightarrow> bool"
where
  "prefix_stored dp env src jobID pos0 pages a w \<longleftrightarrow> sa_Pages a = length pages \<and> position a = fold checkpoint pages pos0 \<and>
     (\<forall>k < length (items_of pages). record_stored dp env src jobID w k (items_of pages ! k))"

definition roughly_balanced :: "slice_acc \<Rightarrow> bool" where
  "roughly_balanced a \<longleftrightarrow> sa_Emitted a + sa_Rejected a \<le> sa_Found a \<and> sa_Found a \<le> sa_Emitted a + sa_Rejected a + 1"

lemma balanced_roughly: "balanced a \<Longrightarrow> roughly_balanced a"
  by (simp add: balanced_def roughly_balanced_def)

lemma prefix_stored_mono:
  "prefix_stored dp env src jobID pos0 pages a w \<Longrightarrow> queue_keys w \<subseteq> queue_keys w' \<Longrightarrow> sa_Pages a' = sa_Pages a \<Longrightarrow> position a' = position a \<Longrightarrow>
    prefix_stored dp env src jobID pos0 pages a' w'"
  by (auto simp: prefix_stored_def intro: record_stored_mono)

lemma prefix_stored_page:
  assumes "prefix_stored dp env src jobID pos0 finished a w" and "sa_Found a = length (items_of finished)"
    and "\<forall>j < length (pg_Items page). record_stored dp env src jobID w' (sa_Found a + j) (pg_Items page ! j)" and "queue_keys w \<subseteq> queue_keys w'"
    and "sa_Pages a' = Suc (sa_Pages a)" "position a' = checkpoint page (position a)"
  shows "prefix_stored dp env src jobID pos0 (finished @ [page]) a' w'"
proof -
  have "record_stored dp env src jobID w' k (items_of (finished @ [page]) ! k)" if "k < length (items_of (finished @ [page]))" for k
  proof (cases "k < length (items_of finished)")
    case True
    with assms(1) have "record_stored dp env src jobID w k (items_of finished ! k)" by (simp add: prefix_stored_def)
    with record_stored_mono[OF this assms(4)] True show ?thesis by (simp add: nth_append)
  next
    case False
    with that assms(3)[rule_format, of "k - length (items_of finished)"] show ?thesis by (simp add: nth_append assms(2))
  qed
  with assms(1,5,6) show ?thesis by (simp add: prefix_stored_def)
qed

lemma do_pages_stored:
  assumes "do_pages dp env src runID jobID pages a (w, fs) = (Inr a', (w', fs'))" and "\<not> (src_FrontierEnabled src \<and> dp_Frontier dp)"
    and "prefix_stored dp env src jobID pos0 finished a w" "balanced a" "sa_Found a = length (items_of finished)"
  shows "\<exists>n. prefix_stored dp env src jobID pos0 (finished @ take n pages) a' w' \<and> n \<le> length pages \<and> roughly_balanced a'"
  using assms(1,3-5)
proof (induction pages arbitrary: finished a w fs)
  case Nil
  then show ?case by (auto simp: sql_return_def balanced_roughly)
next
  case (Cons page pages)
  let ?a0 = "enter_page page a"
  have a0: "sa_Pages ?a0 = sa_Pages a" "position ?a0 = position a" "sa_Found ?a0 = sa_Found a" "balanced ?a0"
    using Cons.prems(3) by (simp_all add: enter_page_def position_def balanced_def)
  obtain x w1 fs1 where i: "do_items dp env src runID jobID (pg_Items page) ?a0 (w, fs) = (x, (w1, fs1))" by (rule prod_cases3)
  with Cons.prems(1) assms(2) obtain a1 left where x: "x = Inr (a1, left)" by (cases x) (auto simp: Let_def sql_bind_apply)
  note items = do_items_stored[OF i[unfolded x]]
  show ?case
  proof (cases left)
    case True
    then have "a' = a1" "w' = w1" using Cons.prems(1) assms(2) i x by (simp_all add: Let_def sql_bind_apply sql_return_def)
    moreover have "prefix_stored dp env src jobID pos0 finished a1 w1"
      using prefix_stored_mono[OF Cons.prems(2)] items a0 by (simp add: items_done_def)
    ultimately show ?thesis using items a0 by (intro exI[of _ 0]) (simp add: items_done_def roughly_balanced_def)
  next
    case False
    obtain y w2 fs2 where v: "advance dp env runID page (page_cursor page a1) (w1, fs1) = (y, (w2, fs2))" by (rule prod_cases3)
    from v obtain a2 spent where y: "y = Inr (a2, spent)" and a2: "queue_keys w2 = queue_keys w1" "sa_Pages a2 = Suc (sa_Pages (page_cursor page a1))"
      "position a2 = checkpoint page (position (page_cursor page a1))" "sa_Found a2 = sa_Found (page_cursor page a1)"
      "sa_Emitted a2 = sa_Emitted (page_cursor page a1)" "sa_Rejected a2 = sa_Rejected (page_cursor page a1)" by (rule advance_page)
    have pc: "sa_Pages (page_cursor page a1) = sa_Pages a" "position (page_cursor page a1) = position a" "sa_Found (page_cursor page a1) = sa_Found a1"
      "sa_Emitted (page_cursor page a1) = sa_Emitted a1" "sa_Rejected (page_cursor page a1) = sa_Rejected a1"
      using items a0 by (auto simp: page_cursor_def position_def items_done_def split: option.splits)
    from False items a0 Cons.prems(4) have f: "sa_Found a2 = length (items_of (finished @ [page]))" "balanced a2"
      by (auto simp: a2 pc balanced_def)
    have page: "prefix_stored dp env src jobID pos0 (finished @ [page]) a2 w1"
      using False items a0 a2 pc by (intro prefix_stored_page[OF Cons.prems(2,4)]) (simp_all add: items_done_def)
    then have page2: "prefix_stored dp env src jobID pos0 (finished @ [page]) (b :: slice_acc) v"
      if "sa_Pages b = sa_Pages a2" "position b = position a2" "queue_keys v = queue_keys w1" for b v
      by (rule prefix_stored_mono) (simp_all add: that)
    have stop: ?thesis if "a' = spend a2" "queue_keys w' = queue_keys w1"
      using page2[of "spend a2" w'] that f by (intro exI[of _ 1]) (simp add: spend_def position_def roughly_balanced_def balanced_def)
    show ?thesis
    proof (cases spent)
      case True
      then show ?thesis using Cons.prems(1) assms(2) i x v y False a2(1)
        by (intro stop) (simp_all add: Let_def sql_bind_apply sql_return_def)
    next
      case no: False
      obtain z w3 fs3 where b: "ingestBacklogged dp (ev_StatsNow env (sa_Pages a1)) (w2, fs2) = (z, (w3, fs3))" by (rule prod_cases3)
      from b obtain full where z: "z = Inr full" "queue_keys w3 = queue_keys w2" by (rule backlogged_quiet)
      show ?thesis
      proof (cases full)
        case True
        then show ?thesis using Cons.prems(1) assms(2) i x v y False no b z a2(1)
          by (intro stop) (simp_all add: Let_def sql_bind_apply sql_return_def)
      next
        case go: False
        then have "do_pages dp env src runID jobID pages a2 (w3, fs3) = (Inr a', (w', fs'))"
          using Cons.prems(1) assms(2) i x v y False no b z by (simp add: Let_def sql_bind_apply)
        from Cons.IH[OF this page2 f(2,1)] z a2(1) obtain n where
          "prefix_stored dp env src jobID pos0 ((finished @ [page]) @ take n pages) a' w'" "n \<le> length pages" "roughly_balanced a'" by auto
        then show ?thesis by (intro exI[of _ "Suc n"]) simp
      qed
    qed
  qed
qed

section \<open>A slice always ends\<close>

definition never_fails :: "('s, 'a) sql \<Rightarrow> bool" where
  "never_fails m \<longleftrightarrow> (\<forall>z. \<exists>y z'. m z = (Inr y, z'))"

lemma never_fails_return: "never_fails (sql_return x)"
  by (simp add: never_fails_def sql_return_def)

lemma never_fails_try: "never_fails (sql_try m)"
  by (simp add: never_fails_def sql_try_apply)

lemma never_fails_bind:
  assumes "never_fails m" and "\<And>x. never_fails (k x)"
  shows "never_fails (sql_bind m k)"
  unfolding never_fails_def
proof
  fix z
  from assms(1) obtain y z' where m: "m z = (Inr y, z')" unfolding never_fails_def by blast
  from assms(2)[of y] obtain x z'' where "k y z' = (Inr x, z'')" unfolding never_fails_def by blast
  with m show "\<exists>y z'. sql_bind m k z = (Inr y, z')" by (simp add: sql_bind_apply)
qed

lemmas never_fails_rules = never_fails_return never_fails_try never_fails_bind

lemma do_items_total: "never_fails (do_items dp env src runID jobID items a)"
  by (induction items arbitrary: a) (auto simp: Let_def intro!: never_fails_rules split: sum.splits option.splits)

lemma advance_total: "never_fails (advance dp env runID page a)" "never_fails (ingestBacklogged dp now)"
  unfolding advance_def ingestBacklogged_def void_def Let_def by (auto intro!: never_fails_rules split: option.splits)

lemma do_pages_total:
  assumes "\<not> (src_FrontierEnabled src \<and> dp_Frontier dp)"
  shows "never_fails (do_pages dp env src runID jobID pages a)"
proof (induction pages arbitrary: a)
  case (Cons page pages)
  with assms show ?case by (auto simp: Let_def intro!: never_fails_rules do_items_total advance_total split: prod.splits)
qed (simp add: never_fails_return)

section \<open>The budget of a slice\<close>

definition slice_pages :: "crawl_deps \<Rightarrow> int" where
  "slice_pages dp = (if dp_SliceMaxPages dp \<le> 0 then 50 else dp_SliceMaxPages dp)"

lemma advance_budget:
  assumes "advance dp env runID page a z = (Inr (a', spent), z')"
  shows "sa_Pages a' = Suc (sa_Pages a) \<and> (\<not> spent \<longrightarrow> int (sa_Pages a') < slice_pages dp)"
  using assms unfolding advance_def Let_def
  by (auto simp: sql_bind_apply sql_return_def slice_pages_def split: prod.splits sum.splits option.splits if_splits)

lemma do_items_pages: "do_items dp env src runID jobID items a (w, fs) = (Inr (a', left), (w', fs')) \<Longrightarrow> sa_Pages a' = sa_Pages a"
  by (drule do_items_stored) (simp add: items_done_def)

lemma page_cursor_pages [simp]: "sa_Pages (page_cursor page a) = sa_Pages a" "sa_Pages (enter_page page a) = sa_Pages a"
  by (simp_all add: page_cursor_def enter_page_def split: option.splits)

text \<open>Pages beyond the budget are never read.\<close>

lemma do_pages_take:
  "int (sa_Pages a) < slice_pages dp \<Longrightarrow> m = nat (slice_pages dp) - sa_Pages a \<Longrightarrow>
   do_pages dp env src runID jobID pages a z = do_pages dp env src runID jobID (take m pages) a z"
proof (induction pages arbitrary: a m z)
  case (Cons page pages)
  have "0 < m" using Cons.prems by simp
  then obtain k where m: "m = Suc k" using gr0_implies_Suc by blast
  have rest: "do_pages dp env src runID jobID pages b y = do_pages dp env src runID jobID (take k pages) b y"
    if "advance dp env runID page c x = (Inr (b, False), y)" "sa_Pages c = sa_Pages a" for b c x y
    using advance_budget[OF that(1)] that(2) Cons.prems(2) m by (intro Cons.IH) simp_all
  have front: "sql_bind (advance dp env runID page c) (\<lambda>(a1, spent). if spent then sql_return (spend a1) else do_pages dp env src runID jobID pages a1) x =
      sql_bind (advance dp env runID page c) (\<lambda>(a1, spent). if spent then sql_return (spend a1) else do_pages dp env src runID jobID (take k pages) a1) x"
    if "sa_Pages c = sa_Pages a" for c x
    using rest[OF _ that] by (auto simp: sql_bind_apply split: prod.splits sum.splits)
  have direct: "sql_bind (advance dp env runID page c) (\<lambda>(a2, spent). if spent then sql_return (spend a2)
        else sql_bind (ingestBacklogged dp t) (\<lambda>full. if full then sql_return (spend a2) else do_pages dp env src runID jobID pages a2)) x =
      sql_bind (advance dp env runID page c) (\<lambda>(a2, spent). if spent then sql_return (spend a2)
        else sql_bind (ingestBacklogged dp t) (\<lambda>full. if full then sql_return (spend a2) else do_pages dp env src runID jobID (take k pages) a2)) x"
    if "sa_Pages c = sa_Pages a" for c x t
  proof -
    have "do_pages dp env src runID jobID pages b y = do_pages dp env src runID jobID (take k pages) b y"
      if "advance dp env runID page c x = (Inr (b, False), x')" for b y x'
      using advance_budget[OF that] \<open>sa_Pages c = sa_Pages a\<close> Cons.prems(2) m by (intro Cons.IH) simp_all
    then show ?thesis by (auto simp: sql_bind_apply split: prod.splits sum.splits)
  qed
  show ?case
  proof (cases "src_FrontierEnabled src \<and> dp_Frontier dp")
    case True
    then show ?thesis unfolding m using front by (auto simp: Let_def sql_bind_apply[of "enqueueFrontier _ _ _ _ _"] split: prod.splits sum.splits)
  next
    case False
    obtain x y where i: "do_items dp env src runID jobID (pg_Items page) (enter_page page a) z = (x, y)" by (rule prod.exhaust)
    have p: "sa_Pages b = sa_Pages a" if "x = Inr (b, left)" for b left
      using do_items_pages[of dp env src runID jobID "pg_Items page" "enter_page page a" "fst z" "snd z" b left "fst y" "snd y"] i that by simp
    show ?thesis unfolding m using False i p direct
      by (auto simp: Let_def sql_bind_apply[of "do_items _ _ _ _ _ _ _"] split: sum.splits prod.splits)
  qed
qed simp

lemma drive_slice_take:
  assumes "take (nat (slice_pages dp)) (ci_Pages it') = take (nat (slice_pages dp)) (ci_Pages it)" and "ci_Err it' = ci_Err it"
  shows "drive_slice dp env src run jobID it' z = drive_slice dp env src run jobID it z"
proof -
  have "do_pages dp env src r jobID ps (start_acc run) y = do_pages dp env src r jobID (take (nat (slice_pages dp)) ps) (start_acc run) y" for r ps y
    by (rule do_pages_take) (simp_all add: start_acc_def slice_pages_def)
  from this[of "cr_ID run" "ci_Pages it'" z] this[of "cr_ID run" "ci_Pages it" z] assms show ?thesis
    by (simp add: drive_slice_def sql_bind_apply)
qed

text \<open>
  C4. A slice of a source that is not crawled through the frontier never loses a record to its position: the cursor,
  page index and URL with which it yields or completes are those of the last checkpoint among the pages it finished, and every
  record of these pages that the accept path lets through has a row in the ingestion queue under the key
  of the slice and the record.  It finishes at most as many pages as its page budget (50 when none is configured) and its outcome does
  not depend on any page after them, so it ends on an iterator that has no end.  Its counters add up: everything found was queued or rejected, but at
  most the record at which it stopped.
\<close>

theorem cursor_behind_queue:
  assumes "\<not> (src_FrontierEnabled src \<and> dp_Frontier dp)"
  shows "\<exists>a w' fs'. drive_slice dp env src run jobID it (w, fs) = (Inr a, (w', fs')) \<and>
    (sa_RunCursor a, sa_RunPageIdx a, sa_RunLastURL a) =
      fold checkpoint (take (sa_Pages a) (ci_Pages it)) (COALESCE_empty (cr_Cursor run), cr_PageIdx run, cr_LastURL run) \<and>
    (\<forall>k < length (items_of (take (sa_Pages a) (ci_Pages it))). record_stored dp env src jobID w' k (items_of (take (sa_Pages a) (ci_Pages it)) ! k)) \<and>
    sa_Emitted a + sa_Rejected a \<le> sa_Found a \<and> sa_Found a \<le> sa_Emitted a + sa_Rejected a + 1 \<and>
    int (sa_Pages a) \<le> slice_pages dp \<and>
    (\<forall>it'. take (nat (slice_pages dp)) (ci_Pages it') = take (nat (slice_pages dp)) (ci_Pages it) \<and> ci_Err it' = ci_Err it \<longrightarrow>
      drive_slice dp env src run jobID it' (w, fs) = (Inr a, (w', fs')))"
proof -
  let ?pos = "(COALESCE_empty (cr_Cursor run), cr_PageIdx run, cr_LastURL run)"
  let ?pages = "take (nat (slice_pages dp)) (ci_Pages it)"
  from do_pages_total[OF assms] obtain a1 w' fs' where
    p: "do_pages dp env src (cr_ID run) jobID ?pages (start_acc run) (w, fs) = (Inr a1, (w', fs'))" unfolding never_fails_def by force
  obtain a where run: "drive_slice dp env src run jobID (it\<lparr>ci_Pages := ?pages\<rparr>) (w, fs) = (Inr a, (w', fs'))"
    and a: "sa_Pages a = sa_Pages a1" "position a = position a1" "sa_Found a = sa_Found a1" "sa_Emitted a = sa_Emitted a1" "sa_Rejected a = sa_Rejected a1"
    using p by (cases "ci_Err it (sa_Next a1)") (simp_all add: drive_slice_def sql_bind_apply sql_return_def position_def)
  have same: "drive_slice dp env src run jobID it' (w, fs) = (Inr a, (w', fs'))"
    if "take (nat (slice_pages dp)) (ci_Pages it') = ?pages" "ci_Err it' = ci_Err it" for it'
    using drive_slice_take[of dp it' "it\<lparr>ci_Pages := ?pages\<rparr>"] that run by simp
  have "prefix_stored dp env src jobID ?pos [] (start_acc run) w" "balanced (start_acc run)" "sa_Found (start_acc run) = length (items_of [])"
    by (simp_all add: prefix_stored_def start_acc_def position_def balanced_def)
  from do_pages_stored[OF p assms this] obtain n where n: "prefix_stored dp env src jobID ?pos (take n ?pages) a1 w'" "n \<le> length ?pages"
    "roughly_balanced a1" by auto
  then have k: "sa_Pages a1 = n" by (simp add: prefix_stored_def)
  have "0 \<le> slice_pages dp" by (simp add: slice_pages_def)
  with k have t: "take n ?pages = take (sa_Pages a) (ci_Pages it)" and le: "int (sa_Pages a) \<le> slice_pages dp"
    using n(2) a(1) by (auto simp: le_nat_iff min_absorb1)
  have "drive_slice dp env src run jobID it (w, fs) = (Inr a, (w', fs'))" by (rule same) simp_all
  moreover have "(sa_RunCursor a, sa_RunPageIdx a, sa_RunLastURL a) = fold checkpoint (take (sa_Pages a) (ci_Pages it)) ?pos"
    using n(1) a t by (simp add: prefix_stored_def position_def)
  moreover have "\<forall>k < length (items_of (take (sa_Pages a) (ci_Pages it))). record_stored dp env src jobID w' k (items_of (take (sa_Pages a) (ci_Pages it)) ! k)"
    using n(1) t by (simp add: prefix_stored_def)
  moreover have "sa_Emitted a + sa_Rejected a \<le> sa_Found a" "sa_Found a \<le> sa_Emitted a + sa_Rejected a + 1"
    using n(3) a by (simp_all add: roughly_balanced_def)
  ultimately show ?thesis using same le by blast
qed

section \<open>What the accept path lets through\<close>

lemma filter_none: "filter (\<lambda>k. \<not> P k) ks = [] \<longleftrightarrow> list_all P ks"
  by (induction ks) auto

lemma missing_none:
  "missing_fields opp src spec = [] \<longleftrightarrow> list_all (universalFieldPresent opp) (''apply_url'' # sp_UniversalRequired spec) \<and>
     list_all (attrPresent (eo_Attributes opp)) (sp_KindRequired spec @ (case src_RequiredAttributesByKind src (eo_Kind opp) of None \<Rightarrow> [] | Some ks \<Rightarrow> ks))"
  by (auto simp: missing_fields_def filter_none list_all_iff split: option.splits if_splits)

lemma ExternalToVariant_apply: "jv_ApplyURL (ExternalToVariant ac ext i c l t) = TrimSpace (eo_ApplyURL ext)"
  by (simp add: ExternalToVariant_def Let_def)

lemma Enrich_keeps: "eo_ApplyURL (Enrich rows opp) = eo_ApplyURL opp" "eo_Kind (Enrich rows opp) = eo_Kind opp"
  by (simp_all add: Enrich_def split: option.splits)

lemma accept_attrs_public: "accept_attrs ac opp v ''how_to_apply'' = None"
  by (simp add: accept_attrs_def Let_def set_nonempty_def split: option.splits)

lemma Prepare_kind: "eo_Kind (Prepare src opp) \<noteq> []"
  by (auto simp: Prepare_def Let_def TrimSpace_def)

lemma dropWhile_all: "list_all P (dropWhile P xs) \<longleftrightarrow> dropWhile P xs = []"
  by (induction xs) auto

lemma TrimSpace_twice: "TrimSpace (TrimSpace s) = [] \<longleftrightarrow> TrimSpace s = []"
proof -
  have "TrimSpace t = [] \<longleftrightarrow> list_all isSpace t" for t
  proof -
    have "TrimSpace t = [] \<longleftrightarrow> list_all isSpace (dropWhile isSpace t)" by (simp add: TrimSpace_def dropWhile_eq_Nil_conv list_all_iff)
    also have "\<dots> \<longleftrightarrow> dropWhile isSpace t = []" by (rule dropWhile_all)
    also have "\<dots> \<longleftrightarrow> list_all isSpace t" by (simp add: dropWhile_eq_Nil_conv list_all_iff)
    finally show ?thesis .
  qed
  moreover have "list_all isSpace (TrimSpace s) \<longleftrightarrow> TrimSpace s = []"
    using dropWhile_all[of isSpace "rev (dropWhile isSpace s)"] by (simp add: TrimSpace_def)
  ultimately show ?thesis by simp
qed

text \<open>The payload of an admitted record.\<close>

definition admitted :: "accept_codec \<Rightarrow> Location list option option \<Rightarrow> string \<Rightarrow> time \<Rightarrow> Source \<Rightarrow> ExternalOpportunity \<Rightarrow> VariantIngestedV1" where
  "admitted ac normalizer xid now src opp =
     (let srcCountry = TrimSpace (src_Country src);
          (opp1, v) = (case normalizer of
              Some geocoder \<Rightarrow> Normalizer_Normalize ac geocoder opp (src_ID src) srcCountry (src_Language src) now
            | None \<Rightarrow> (opp, ExternalToVariant ac opp (src_ID src) srcCountry (src_Language src) now))
      in accept_payload ac xid src opp1 v now)"

lemma Accept_admitted:
  "Accept ac (Some reg) normalizer xid now src opp0 = (let opp = Prepare src opp0; res = Verify opp src reg in
     if ver_OK res then Inr (admitted ac normalizer xid now src opp)
     else Inl \<lparr>rj_Kind = eo_Kind opp, rj_Title = eo_Title opp, rj_Reason = RejectionReason res, rj_Missing = ver_Missing res, rj_Detail = rejectDetail res\<rparr>)"
  by (simp add: Accept_def admitted_def Let_def split: prod.splits)

lemma admitted_fields:
  "vi_Kind (admitted ac normalizer xid now src opp) = (if eo_Kind opp = [] then ''job'' else eo_Kind opp)"
  "vi_SourceID (admitted ac normalizer xid now src opp) = src_ID src"
  "vi_ApplyURL (admitted ac normalizer xid now src opp) = TrimSpace (eo_ApplyURL opp)"
  "vi_Attributes (admitted ac normalizer xid now src opp) ''how_to_apply'' = None"
  by (simp_all add: admitted_def accept_payload_def Normalizer_Normalize_def Let_def ExternalToVariant_apply Enrich_keeps accept_attrs_public
      split: option.splits prod.splits)

lemma peel_public: "vi_Attributes p ''how_to_apply'' = None \<Longrightarrow> vi_Attributes (snd (PeelAccepted peel p)) ''how_to_apply'' = None"
  by (simp add: PeelAccepted_def Let_def split: sum.splits prod.splits)

definition admissible :: "Registry \<Rightarrow> Source \<Rightarrow> ExternalOpportunity \<Rightarrow> bool" where
  "admissible reg src opp \<longleftrightarrow> eo_Kind opp \<in> set (src_Kinds src) \<and>
     (case Lookup reg (eo_Kind opp) of None \<Rightarrow> False
      | Some spec \<Rightarrow> list_all (universalFieldPresent opp) (''apply_url'' # sp_UniversalRequired spec) \<and>
          list_all (attrPresent (eo_Attributes opp))
            (sp_KindRequired spec @ (case src_RequiredAttributesByKind src (eo_Kind opp) of None \<Rightarrow> [] | Some ks \<Rightarrow> ks)))"

text \<open>
  C33. The accept path admits a record exactly when the source declares its kind, the registry knows
  the kind, the record has an apply URL, every universal field the kind requires, and every attribute
  that the kind or the source requires.  An admitted record carries that kind, the source, an apply URL
  that is not blank, and no \<open>how_to_apply\<close> among its public attributes, also after the instructions were
  peeled off its description.
\<close>

theorem accept_gate:
  "((\<exists>p. Accept ac (Some reg) normalizer xid now src opp = Inr p) \<longleftrightarrow> admissible reg src (Prepare src opp)) \<and>
   (case Accept ac (Some reg) normalizer xid now src opp of Inl _ \<Rightarrow> True
    | Inr p \<Rightarrow> vi_Kind p = eo_Kind (Prepare src opp) \<and> vi_SourceID p = src_ID src \<and> TrimSpace (vi_ApplyURL p) \<noteq> [] \<and>
        vi_Attributes p ''how_to_apply'' = None \<and> vi_Attributes (snd (PeelAccepted peel p)) ''how_to_apply'' = None)"
proof -
  let ?opp = "Prepare src opp"
  have ok: "ver_OK (Verify ?opp src reg) \<longleftrightarrow> admissible reg src ?opp"
    unfolding admissible_def missing_none[symmetric] by (auto simp: Verify_def Let_def split: option.splits)
  have url: "admissible reg src ?opp \<Longrightarrow> TrimSpace (eo_ApplyURL ?opp) \<noteq> []"
    by (auto simp: admissible_def universalFieldPresent_def split: option.splits)
  show ?thesis unfolding Accept_admitted Let_def ok
    using url Prepare_kind[of src opp] by (auto simp: admitted_fields peel_public TrimSpace_twice)
qed

text \<open>A page of one record: the slice finishes it, keeps its checkpoint and has queued the record.\<close>

definition sample_record :: "string \<Rightarrow> ExternalOpportunity" where
  "sample_record url = \<lparr>eo_Kind = [], eo_SourceID = [], eo_ExternalID = ''x'', eo_SourceURL = [], eo_Title = ''Nurse'', eo_Description = [],
     eo_HowToApply = [], eo_IssuingEntity = ''Clinic'', eo_ApplyURL = url, eo_AnchorLocation = None, eo_LocationText = [], eo_Remote = False,
     eo_GeoScope = [], eo_PostedAt = None, eo_Deadline = None, eo_AmountMin = 0, eo_AmountMax = 0, eo_Currency = [], eo_Categories = [],
     eo_Attributes = Map.empty, eo_Source = []\<rparr>"

definition sample_page :: crawl_page where
  "sample_page = \<lparr>pg_Items = [sample_record ''https://a''], pg_HTTPStatus = 200, pg_Cursor = None,
     pg_Checkpoint = Some \<lparr>ck_Cursor = ''c2'', ck_PageIdx = 2, ck_LastURL = []\<rparr>\<rparr>"

definition sample_slice :: "(crawlworld, slice_acc) sql" where
  "sample_slice = drive_slice (sample_deps ''p'' sample_iter) (sample_env 5) (sample_source ''s'' SourceActive) (sample_run ''r'' ''p'') ''j''
      \<lparr>ci_Pages = [sample_page], ci_Err = (\<lambda>_. None)\<rparr>"

lemma sample_accept:
  "\<exists>p. Accept ac None normalizer i now src opp = Inr p \<and> vi_VariantID p = i \<and> vi_SourceID p = src_ID src"
  by (simp add: Accept_def accept_payload_def Let_def split: prod.splits option.splits)

lemma sample_slice_pages: "\<exists>a w. sample_slice (busy_world, []) = (Inr a, (w, [])) \<and> sa_Pages a = 1"
proof -
  let ?s = "sample_source ''s'' SourceActive"
  obtain p where p: "Accept sample_codec None None (CHR ''v'' # digits 0) 5 ?s (sample_record ''https://a'') = Inr p"
      "vi_VariantID p = CHR ''v'' # digits 0" "vi_SourceID p = ''s''"
    using sample_accept[of sample_codec None "CHR ''v'' # digits 0" 5 ?s] by (auto simp: sample_source_def discovered_source_def)
  have f: "\<not> src_FrontierEnabled ?s" by (simp add: sample_source_def discovered_source_def)
  show ?thesis
    by (simp add: sample_slice_def drive_slice_def sample_page_def f start_acc_def enter_page_def sample_deps_def sample_env_def p peeled_def
        sql_simps on_queue_def on_crawl_def lift_sql_def busy_world_def sample_world_def Enqueue_def enqueue_insert_def insert_queue_def
        new_queue_row_def queue_appendEvent_def empty_jobs_def advance_def page_cursor_def ingestBacklogged_def void_def Progress_def
        run_Updates_def run_update_def ingest_request_def Stats_of_def run_live_def active_unique_def sample_run_def spend_def Let_def)
qed

theorem cursor_behind_queue_witness:
  "\<exists>a w. sample_slice (busy_world, []) = (Inr a, (w, [])) \<and> sa_RunCursor a = ''c2'' \<and> sa_RunPageIdx a = 2 \<and>
     record_stored (sample_deps ''p'' sample_iter) (sample_env 5) (sample_source ''s'' SourceActive) ''j'' w 0 (sample_record ''https://a'')"
proof -
  obtain a w where run: "sample_slice (busy_world, []) = (Inr a, (w, []))" "sa_Pages a = 1" using sample_slice_pages by blast
  from cursor_behind_queue[of "sample_source ''s'' SourceActive" "sample_deps ''p'' sample_iter" "sample_env 5" "sample_run ''r'' ''p''" "''j''"
      "\<lparr>ci_Pages = [sample_page], ci_Err = (\<lambda>_. None)\<rparr>" busy_world "[]"] run
  show ?thesis by (simp add: sample_slice_def[symmetric]) (auto simp: sample_deps_def sample_page_def checkpoint_def)
qed

end
