(* ===== verification/Frontier_Worker_Properties.thy ===== *)
theory Frontier_Worker_Properties
  imports Frontier_Worker Crawl_Status Crawl_Slices Frontier_Properties
begin

text \<open>
  Properties of the frontier worker: it settles only URLs it holds, so that the accounting of the
  frontier survives whole drains, and it marks a URL done only after every posting that passes the
  accept path is in the ingestion queue.
\<close>

section \<open>What one URL does to the frontier\<close>

lemma on_frontier_after [simp]: "cw_frontier (tables_after (on_frontier m) (w, fs)) = tables_after m (cw_frontier w, fs)"
  by (simp add: on_frontier_def lift_sql_def tables_after_def split: prod.splits)

definition settles :: "string \<Rightarrow> frontdb \<Rightarrow> frontdb \<Rightarrow> bool" where
  "settles i d d' \<longleftrightarrow> (\<exists>wall fs. d' = tables_after (Frontier_Complete i wall) (d, fs)) \<or>
     (\<exists>pf oor msg maxA wall fs. d' = tables_after (Frontier_Fail pf oor i msg maxA wall) (d, fs))"

definition settling :: "string \<Rightarrow> (crawlworld, 'a) sql \<Rightarrow> bool" where
  "settling i m \<longleftrightarrow> (\<forall>w fs. settles i (cw_frontier w) (cw_frontier (tables_after m (w, fs))))"

text \<open>A part of the program that never fails and leaves the frontier alone.\<close>

definition quiet_part :: "(crawlworld, 'a) sql \<Rightarrow> bool" where
  "quiet_part m \<longleftrightarrow> (\<forall>w fs. \<exists>y w' fs'. m (w, fs) = (Inr y, (w', fs')) \<and> cw_frontier w' = cw_frontier w)"

lemma settle_ops: "settling (u_URLID u) (fail_url dp env u msg)" "settling (u_URLID u) (complete_url env u)"
  unfolding settling_def settles_def fail_url_def complete_url_def by (simp_all, blast+)

lemma quiet_partE:
  assumes "quiet_part m"
  obtains y w' fs' where "m (w, fs) = (Inr y, (w', fs'))" "cw_frontier w' = cw_frontier w"
  using assms unfolding quiet_part_def by blast

lemma settling_bind:
  assumes "quiet_part n" and "\<And>y. settling i (k y)"
  shows "settling i (sql_bind n k)"
  unfolding settling_def
proof (intro allI)
  fix w fs
  from assms(1) obtain y w' fs' where n: "n (w, fs) = (Inr y, (w', fs'))" "cw_frontier w' = cw_frontier w" by (rule quiet_partE)
  then have "tables_after (sql_bind n k) (w, fs) = tables_after (k y) (w', fs')" by (simp add: tables_after_def sql_bind_apply)
  moreover have "settles i (cw_frontier w') (cw_frontier (tables_after (k y) (w', fs')))" using assms(2) by (simp only: settling_def)
  ultimately show "settles i (cw_frontier w) (cw_frontier (tables_after (sql_bind n k) (w, fs)))" using n(2) by simp
qed

lemma quiet_try:
  "quiet_part (sql_try (on_queue m))" "quiet_part (sql_try (on_crawl n))"
  by (simp_all add: quiet_part_def sql_try_def on_queue_def on_crawl_def lift_sql_def split: prod.splits)

lemma quiet_bind:
  assumes "quiet_part m" and "\<And>y. quiet_part (k y)"
  shows "quiet_part (sql_bind m k)"
  unfolding quiet_part_def
proof (intro allI)
  fix w fs
  from assms(1) obtain y w1 fs1 where m: "m (w, fs) = (Inr y, (w1, fs1))" "cw_frontier w1 = cw_frontier w" by (rule quiet_partE)
  from assms(2) obtain z w2 fs2 where "k y (w1, fs1) = (Inr z, (w2, fs2))" "cw_frontier w2 = cw_frontier w1" by (rule quiet_partE)
  with m show "\<exists>z w' fs'. sql_bind m k (w, fs) = (Inr z, (w', fs')) \<and> cw_frontier w' = cw_frontier w" by (simp add: sql_bind_apply)
qed

lemma quiet_return: "quiet_part (sql_return x)"
  by (simp add: quiet_part_def sql_return_def)

lemma emit_items_quiet: "quiet_part (emit_items dp env src u k items emitErr)"
  by (induction dp env src u k items emitErr rule: emit_items.induct)
    (auto simp: Let_def quiet_return intro!: quiet_bind quiet_try split: sum.splits option.splits)

lemma runOne_settles: "settling (u_URLID u) (runOne dp env u)"
  unfolding runOne_def process_page_def Let_def
  by (auto intro!: settling_bind quiet_try emit_items_quiet settle_ops split: sum.splits option.splits prod.splits)

text \<open>Settling one URL leaves the others in flight.\<close>

definition still_flying :: "string \<Rightarrow> frontdb \<Rightarrow> frontdb \<Rightarrow> bool" where
  "still_flying j d d' \<longleftrightarrow> (flying_url d j \<longrightarrow> flying_url d' j)"

interpretation fly: sql_preorder "still_flying j" for j
  by unfold_locales (auto simp: still_flying_def)

lemma fly_update_url: "j \<noteq> i \<Longrightarrow> (\<And>r. f_URLID (f r) = f_URLID r) \<Longrightarrow> still_flying j d (update_url i f d)"
  by (auto simp: still_flying_def flying_url_def rows_update_url bex_update_where)

lemma fly_update_host: "still_flying j d (update_host h f d)"
  by (simp add: still_flying_def flying_url_def update_host_def)

lemma fly_first_by: "preserves (still_flying j) (first_by P)"
  unfolding first_by_def by (rule fly.preserves_stmt) (auto simp: still_flying_def)

lemma fail_row_id: "f_URLID (fail_row pf oor msg m wall a r) = f_URLID r"
  by (simp add: fail_row_def)

lemma settle_fly:
  assumes "j \<noteq> i"
  shows "preserves (still_flying j) (Frontier_Complete i wall)" "preserves (still_flying j) (Frontier_Fail pf oor i msg m wall)"
  unfolding Frontier_Complete_def Frontier_Fail_def Let_def
  by (intro fly.preserves_rules fly.preserves_exec fly_first_by fly_update_host fly_update_url; simp add: assms fail_row_id)+

lemma settles_flying: "settles i d d' \<Longrightarrow> j \<noteq> i \<Longrightarrow> flying_url d j \<Longrightarrow> flying_url d' j"
  using preservesD[OF settle_fly(1)] preservesD[OF settle_fly(2)] unfolding settles_def still_flying_def by blast

lemma settles_inv:
  assumes "settles i d d'" and "frontier_inv d" "flying_url d i"
  shows "frontier_inv d'"
proof -
  have c: "frontier_inv (tables_after (Frontier_Complete i wall) (d, fs))" for wall fs
    using Complete_inv[OF _ assms(2,3)] by (metis prod.collapse tables_after_def)
  have f: "frontier_inv (tables_after (Frontier_Fail pf oor i msg maxA wall) (d, fs))" for pf oor msg maxA wall fs
    using Fail_inv[OF _ assms(2,3)] by (metis prod.collapse tables_after_def)
  from assms(1) c f show ?thesis by (auto simp: settles_def)
qed

section \<open>Whole drains\<close>

lemma run_urls_inv:
  assumes "frontier_inv (cw_frontier w)" and "distinct (map u_URLID us)" and "\<forall>u \<in> set us. flying_url (cw_frontier w) (u_URLID u)"
  shows "frontier_inv (cw_frontier (tables_after (run_urls dp env n us) (w, fs)))"
  using assms
proof (induction us arbitrary: w fs n)
  case (Cons u us)
  obtain x w1 fs1 where r: "runOne dp (env n) u (w, fs) = (x, (w1, fs1))" by (rule prod_cases3)
  from runOne_settles[of u dp "env n"] r have s: "settles (u_URLID u) (cw_frontier w) (cw_frontier w1)"
    unfolding settling_def tables_after_def by (metis fst_conv snd_conv)
  from s Cons.prems have inv: "frontier_inv (cw_frontier w1)" by (auto intro: settles_inv)
  have "\<forall>v \<in> set us. flying_url (cw_frontier w1) (u_URLID v)"
  proof
    fix v
    assume "v \<in> set us"
    with Cons.prems have "u_URLID v \<noteq> u_URLID u" "flying_url (cw_frontier w) (u_URLID v)" by (auto simp: image_iff)
    with s show "flying_url (cw_frontier w1) (u_URLID v)" by (rule settles_flying)
  qed
  with Cons.IH[OF inv] Cons.prems(2) inv r show ?case by (cases x) (auto simp: tables_after_def sql_bind_apply)
qed (simp add: tables_after_def sql_return_def)

lemma Dequeue_out:
  assumes "Dequeue lockedH lockedU n wid now0 now wall (d, fs) = (Inr out, (d', fs'))" and "frontier_inv d"
  shows "distinct (map u_URLID out) \<and> (\<forall>u \<in> set out. flying_url d' (u_URLID u))"
  using assms(1)
proof (cases rule: Dequeue_cases)
  case (claim fs1)
  have inv: "frontier_inv (reclaimStale now0 d)" by (rule reclaim_inv[OF assms(2)])
  then have k: "front_keys (reclaimStale now0 d)" by (simp add: frontier_inv_def)
  from dequeue_tx_run[OF claim(2) k] obtain picks where p: "out = map (claimed_url wall) picks" "d' = claimed_db picks wid now wall (reclaimStale now0 d)"
      "\<And>r. r \<in> set picks \<Longrightarrow> r \<in> set (url_frontier (reclaimStale now0 d))" "distinct (map f_Host picks)" by metis
  have "distinct (map f_URLID picks)" using p(3,4) k unfolding front_keys_def distinct_map inj_on_def by blast
  moreover have "flying_url d' (f_URLID r)" if "r \<in> set picks" for r
    using that p(3)[OF that] by (auto simp: p(2) claimed_db_def flying_url_def bex_update_where flip_row_def)
  ultimately show ?thesis by (simp add: p(1) claimed_url_def o_def)
qed simp

definition frontier_kept :: "crawlworld \<Rightarrow> crawlworld \<Rightarrow> bool" where
  "frontier_kept w w' \<longleftrightarrow> (frontier_inv (cw_frontier w) \<longrightarrow> frontier_inv (cw_frontier w'))"

interpretation fk: sql_preorder frontier_kept
  by unfold_locales (auto simp: frontier_kept_def)

lemma queue_kept_frontier: "preserves frontier_kept (on_queue m)"
  by (simp add: preserves_def frontier_kept_def tables_after_def on_queue_def lift_sql_def split: prod.splits)

lemma batch_kept:
  assumes "preserves frontier_kept k"
  shows "preserves frontier_kept (sql_bind (sql_wrap msg (on_frontier (Dequeue lockedH lockedU n wid now0 now wall)))
    (\<lambda>urls. if urls = [] then sql_return () else sql_bind (run_urls dp env i urls) (\<lambda>_. k)))" (is "preserves _ (sql_bind (sql_wrap msg (on_frontier ?dq)) ?rest)")
  unfolding preserves_def
proof
  fix z :: "crawlworld dbstate"
  obtain w fs where z: "z = (w, fs)" by (rule prod.exhaust)
  obtain x d' fs' where dq: "?dq (cw_frontier w, fs) = (x, (d', fs'))" by (rule prod_cases3)
  let ?w' = "w\<lparr>cw_frontier := d'\<rparr>"
  show "frontier_kept (fst z) (tables_after (sql_bind (sql_wrap msg (on_frontier ?dq)) ?rest) z)"
    unfolding frontier_kept_def z fst_conv
  proof
    assume inv: "frontier_inv (cw_frontier w)"
    from Dequeue_inv[OF dq inv] have inv': "frontier_inv (cw_frontier ?w')" by simp
    show "frontier_inv (cw_frontier (tables_after (sql_bind (sql_wrap msg (on_frontier ?dq)) ?rest) (w, fs)))"
    proof (cases x)
      case (Inl e)
      with dq inv' show ?thesis by (simp add: tables_after_def sql_bind_apply sql_wrap_apply on_frontier_def lift_sql_def)
    next
      case (Inr urls)
      from Dequeue_out[OF dq[unfolded Inr] inv] have u: "distinct (map u_URLID urls)" "\<forall>u \<in> set urls. flying_url (cw_frontier ?w') (u_URLID u)" by simp_all
      have "tables_after (sql_bind (sql_wrap msg (on_frontier ?dq)) ?rest) (w, fs) = tables_after (?rest urls) (?w', fs')"
        using dq Inr by (simp add: tables_after_def sql_bind_apply sql_wrap_apply on_frontier_def lift_sql_def)
      moreover obtain y w2 fs2 where r: "run_urls dp env i urls (?w', fs') = (y, (w2, fs2))" by (rule prod_cases3)
      moreover from run_urls_inv[OF inv' u, of dp env i fs'] r have "frontier_inv (cw_frontier w2)" by (simp add: tables_after_def)
      moreover from this have "frontier_inv (cw_frontier (tables_after k (w2, fs2)))"
        using preservesD[OF assms, of w2 fs2] by (simp add: frontier_kept_def)
      ultimately show ?thesis using inv' by (cases y) (auto simp: tables_after_def sql_bind_apply sql_return_def)
    qed
  qed
qed

lemma drain_kept: "preserves frontier_kept (drain_batches dp deadline turns env)"
proof (induction turns)
  case (Suc turns)
  show ?case unfolding drain_batches.simps Let_def
    by (intro fk.preserves_if fk.preserves_return fk.preserves_bind[OF fk.preserves_wrap[OF queue_kept_frontier]] batch_kept Suc)
qed (simp add: fk.preserves_return)

text \<open>
  C34. Whole drains of the frontier worker, with whatever failures of fetches and statements, keep the
  slot accounting of the frontier: the worker completes or fails each URL it claimed exactly once, and
  only while the URL is in flight.
\<close>

theorem worker_keeps_accounting:
  assumes "frontier_inv (cw_frontier w)"
  shows "frontier_inv (cw_frontier (tables_after (drain_frontier dp start env) (w, fs)))"
  using preservesD[OF drain_kept] assms by (simp add: drain_frontier_def frontier_kept_def)

section \<open>Done means stored\<close>

definition done_url :: "string \<Rightarrow> frontdb \<Rightarrow> bool" where
  "done_url i d \<longleftrightarrow> (\<exists>r \<in> set (url_frontier d). f_URLID r = i \<and> f_State r = StateDone)"

definition not_done :: "string \<Rightarrow> frontdb \<Rightarrow> frontdb \<Rightarrow> bool" where
  "not_done i d d' \<longleftrightarrow> (done_url i d' \<longrightarrow> done_url i d)"

interpretation nd: sql_preorder "not_done i" for i
  by unfold_locales (auto simp: not_done_def)

lemma nd_first_by: "preserves (not_done i) (first_by P)"
  unfolding first_by_def by (rule nd.preserves_stmt) (auto simp: not_done_def)

lemma nd_fail_row: "not_done i d (update_url i (fail_row pf oor msg m wall a) d)"
  by (auto simp: not_done_def done_url_def rows_update_url bex_update_where fail_row_def StateDone_def StateFailed_def StatePending_def split: if_splits)

lemma nd_Fail: "preserves (not_done i) (Frontier_Fail pf oor i msg m wall)"
  unfolding Frontier_Fail_def Let_def
  by (intro nd.preserves_rules nd.preserves_exec nd_first_by nd_fail_row) (simp add: not_done_def done_url_def update_host_def)

lemma fail_url_not_done: "done_url (u_URLID u) (cw_frontier (tables_after (fail_url dp env u msg) (w, fs))) \<Longrightarrow> done_url (u_URLID u) (cw_frontier w)"
  using preservesD[OF nd_Fail] by (simp add: fail_url_def not_done_def)

definition item_stored :: "worker_deps \<Rightarrow> url_env \<Rightarrow> Source \<Rightarrow> URL \<Rightarrow> crawlworld \<Rightarrow> nat \<Rightarrow> ExternalOpportunity \<Rightarrow> bool" where
  "item_stored dp env src u w k item \<longleftrightarrow> (case worker_accept dp env src k (url_item u item) of Inl _ \<Rightarrow> True | Inr p \<Rightarrow> frontier_key u p \<in> queue_keys w)"

lemma item_stored_mono: "item_stored dp env src u w k item \<Longrightarrow> queue_keys w \<subseteq> queue_keys w' \<Longrightarrow> item_stored dp env src u w' k item"
  by (auto simp: item_stored_def split: sum.splits)

lemma emit_items_stored:
  assumes "emit_items dp env src u k items emitErr (w, fs) = (Inr None, (w', fs'))"
  shows "emitErr = None \<and> queue_keys w \<subseteq> queue_keys w' \<and> (\<forall>j < length items. item_stored dp env src u w' (k + j) (items ! j))"
  using assms
proof (induction items arbitrary: k emitErr w fs)
  case (Cons item items)
  have step: ?case if e: "emit_items dp env src u (k + 1) items err1 (w1, fs1) = (Inr None, (w', fs'))"
    and g: "queue_keys w \<subseteq> queue_keys w1" and s: "err1 = None \<Longrightarrow> emitErr = None \<and> item_stored dp env src u w1 k item" for err1 w1 fs1
  proof -
    from Cons.IH[OF e] have ih: "err1 = None" "queue_keys w1 \<subseteq> queue_keys w'" "\<forall>j < length items. item_stored dp env src u w' (k + 1 + j) (items ! j)" by simp_all
    from s[OF ih(1)] item_stored_mono[OF _ ih(2)] have "emitErr = None" "item_stored dp env src u w' k item" by auto
    with ih g show ?thesis by (auto simp: less_Suc_eq_0_disj)
  qed
  show ?case
  proof (cases "worker_accept dp env src k (url_item u item)")
    case (Inl rej)
    let ?m = "RecordRejected (ue_EventID env k) (ue_IngestID env k) (ue_RejectID env k) (src_ID src)
      (wd_marshalReject dp (worker_reject env k src (url_item u item) rej)) (ue_QueueNow env k)"
    obtain r w1 fs1 where m: "sql_try (on_queue ?m) (w, fs) = (Inr r, (w1, fs1))"
      by (rule quiet_partE[OF quiet_try(1)])
    from queue_step_keys[OF m RecordRejected_history] have g: "queue_keys w \<subseteq> queue_keys w1" by simp
    show ?thesis using Cons.prems m Inl
      by (intro step[OF _ g, of emitErr fs1]) (simp_all add: Let_def sql_bind_apply item_stored_def)
  next
    case (Inr p)
    show ?thesis
    proof (cases "wd_marshalVariant dp p")
      case None
      with Cons.prems Inr show ?thesis by (intro step[of "Some (ErrNew ''marshal variant'')" w fs]) simp_all
    next
      case (Some body)
      let ?r = "\<lparr>rq_VariantID = vi_VariantID p, rq_SourceID = vi_SourceID p, rq_CrawlRunID = [], rq_CrawlJobID = [],
        rq_IdempotencyKey = frontier_key u p, rq_Payload = Some body\<rparr>"
      let ?m = "Enqueue (wd_QueueMaxPending dp) (ue_IngestID env k) (ue_EventID env k) ?r (ue_QueueNow env k)"
      obtain r w1 fs1 where m: "sql_try (on_queue ?m) (w, fs) = (Inr r, (w1, fs1))"
        by (rule quiet_partE[OF quiet_try(1)])
      from queue_step_keys[OF m Enqueue_history] have g: "queue_keys w \<subseteq> queue_keys w1"
        and e: "?m (cw_queue w, fs) = (r, (cw_queue w1, fs1))" by simp_all
      have "frontier_key u p \<in> queue_keys w1" if "r = Inr ()" using Enqueue_stores(1)[OF e[unfolded that]] by (simp add: queue_keys_def)
      then show ?thesis using Cons.prems m Inr Some
        by (intro step[OF _ g, of "case r of Inl e \<Rightarrow> Some e | Inr _ \<Rightarrow> emitErr" fs1])
          (auto simp: Let_def sql_bind_apply item_stored_def split: sum.splits)
    qed
  qed
qed (simp add: sql_return_def)

text \<open>
  C35. The worker marks a URL done only after its page was fetched with a status of success and every
  posting on it that the accept path lets through has a row in the ingestion queue under the key of
  the URL and the posting; a failure on the way leaves the URL to be retried.
\<close>

theorem done_means_stored:
  assumes "\<not> done_url (u_URLID u) (cw_frontier w)" and "runOne dp env u (w, fs) = (x, (w', fs'))" and "done_url (u_URLID u) (cw_frontier w')"
  shows "\<exists>body status src. wd_Fetch dp (u_CanonicalURL u) = Inr (body, status) \<and> 200 \<le> status \<and> status < 300 \<and>
    src \<in> set (sources (cw_db w)) \<and> src_ID src = u_SourceID u \<and>
    (\<forall>k < length (page_items dp src u body). item_stored dp env src u w' k (page_items dp src u body ! k))"
proof -
  have nf: "runOne dp env u (w, fs) \<noteq> fail_url dp env u msg (v, gs)" if "cw_frontier v = cw_frontier w" for msg v gs
  proof
    assume "runOne dp env u (w, fs) = fail_url dp env u msg (v, gs)"
    with assms(2) have "tables_after (fail_url dp env u msg) (v, gs) = w'" by (simp add: tables_after_def)
    with fail_url_not_done[of u dp env msg v gs] assms(1,3) that show False by simp
  qed
  from nf[OF refl] obtain body status where f: "wd_Fetch dp (u_CanonicalURL u) = Inr (body, status)" "200 \<le> status" "status < 300"
    by (cases "wd_Fetch dp (u_CanonicalURL u)") (force simp: runOne_def split: if_splits)+
  obtain r w1 fs1 where g: "sql_try (on_crawl (Sources_GetByID (u_SourceID u))) (w, fs) = (Inr r, (w1, fs1))"
    and w1: "cw_frontier w1 = cw_frontier w" by (rule quiet_partE[OF quiet_try(2)])
  have run: "runOne dp env u (w, fs) = (case r of Inl e \<Rightarrow> fail_url dp env u (Error e)
      | Inr None \<Rightarrow> fail_url dp env u (''source '' @ u_SourceID u @ '' not found (possible replica lag)'')
      | Inr (Some src) \<Rightarrow> process_page dp env u src body) (w1, fs1)"
    using f g by (simp add: runOne_def sql_bind_apply del: append.simps)
  with nf[OF w1] obtain src where r: "r = Inr (Some src)" by (cases r) (auto split: option.splits)
  have "Sources_GetByID (u_SourceID u) (cw_db w, fs) = (Inr (Some src), (cw_db w1, fs1))"
    using g r by (auto simp: on_crawl_def lift_sql_def sql_try_def split: prod.splits)
  then have "first_row src_ID (src_where (\<lambda>s. src_ID s = u_SourceID u) (cw_db w)) = Some src"
    by (auto simp: Sources_GetByID_def src_first_def dest!: sql_query_InrD)
  from first_row_mem[OF this] have s: "src \<in> set (sources (cw_db w))" "src_ID src = u_SourceID u" by (auto simp: src_where_def)
  have "item_stored dp env src u w' k (page_items dp src u body ! k)" if "k < length (page_items dp src u body)" for k
  proof -
    from that have ne: "page_items dp src u body \<noteq> []" by auto
    obtain err w2 fs2 where e: "emit_items dp env src u 0 (page_items dp src u body) None (w1, fs1) = (Inr err, (w2, fs2))"
      and w2: "cw_frontier w2 = cw_frontier w1" by (rule quiet_partE[OF emit_items_quiet])
    have run2: "runOne dp env u (w, fs) = (case err of Some e \<Rightarrow> fail_url dp env u (Error e) | None \<Rightarrow> complete_url env u) (w2, fs2)"
      using run r ne e by (simp add: process_page_def Let_def sql_bind_apply)
    with nf[of w2] w1 w2 have none: "err = None" by (cases err) auto
    have "queue_keys w' = queue_keys w2" using assms(2) run2 none
      by (auto simp: complete_url_def void_def sql_bind_apply sql_try_apply on_frontier_def lift_sql_def sql_return_def queue_keys_def split: prod.splits)
    moreover have "item_stored dp env src u w2 k (page_items dp src u body ! k)" using emit_items_stored[OF e[unfolded none]] that by simp
    ultimately show ?thesis by (simp add: item_stored_mono)
  qed
  with f s show ?thesis by blast
qed

section \<open>Sample page\<close>

definition sample_posting :: ExternalOpportunity where
  "sample_posting = \<lparr>eo_Kind = ''job'', eo_SourceID = [], eo_ExternalID = [], eo_SourceURL = [], eo_Title = ''Nurse'', eo_Description = [],
     eo_HowToApply = [], eo_IssuingEntity = ''Clinic'', eo_ApplyURL = [], eo_AnchorLocation = None, eo_LocationText = [], eo_Remote = False,
     eo_GeoScope = [], eo_PostedAt = None, eo_Deadline = None, eo_AmountMin = 0, eo_AmountMax = 0, eo_Currency = [], eo_Categories = [],
     eo_Attributes = Map.empty, eo_Source = []\<rparr>"

definition sample_worker :: worker_deps where
  "sample_worker = \<lparr>wd_WorkerID = ''w'', wd_IngestMaxPending = 0, wd_IngestMaxOldestAge = 0, wd_QueueMaxPending = 0, wd_Kinds = None,
     wd_Normalizer = None, wd_HowToApply = None, wd_Fetch = (\<lambda>_. Inr (''page'', 200)), wd_Postings = (\<lambda>_. [sample_posting]),
     wd_DequeueBatch = 5, wd_MaxAttempts = 5, wd_accept = Crawl_Properties.sample_codec, wd_marshalVariant = (\<lambda>_. Some ANil),
     wd_marshalReject = (\<lambda>_. Some ANil), wd_Frontier = NewPostgresFrontier, wd_oor = 0\<rparr>"

definition sample_url_env :: url_env where
  "sample_url_env = \<lparr>ue_VariantID = (\<lambda>n. ''v''), ue_AcceptNow = (\<lambda>_. 5), ue_RejectID = (\<lambda>_. ''r''), ue_RejectAt = (\<lambda>_. 5),
     ue_IngestID = (\<lambda>_. ''i''), ue_EventID = (\<lambda>_. ''e''), ue_QueueNow = (\<lambda>_. 6), ue_Settle = 7\<rparr>"

definition flying_row :: frow where
  "flying_row = (sample_row ''u'' 1)\<lparr>f_SourceID := ''s'', f_State := StateInFlight, f_ClaimedAt := Some 4, f_ClaimedBy := Some ''w''\<rparr>"

definition flying_world :: crawlworld where
  "flying_world = (sample_world [sample_source ''s'' SourceActive] [])\<lparr>cw_frontier :=
     \<lparr>url_frontier = [flying_row], host_state = [(new_host ''h'' 1 1)\<lparr>h_ConcurrencyNow := 1\<rparr>]\<rparr>\<rparr>"

definition flying_sample :: URL where
  "flying_sample = claimed_url 4 flying_row"

lemma page_sample: "page_items sample_worker src flying_sample ''page'' =
    [sample_posting\<lparr>eo_Source := src_Type src, eo_SourceURL := ''u'', eo_ApplyURL := ''u''\<rparr>]"
  by (simp add: page_items_def sample_worker_def sample_posting_def TrimSpace_def flying_sample_def claimed_url_def flying_row_def sample_row_def) code_simp

lemma accept_sample: "\<exists>p. worker_accept sample_worker sample_url_env src k opp = Inr p \<and> vi_VariantID p = ''v'' \<and> vi_SourceID p = src_ID src"
  by (simp add: worker_accept_def sample_worker_def sample_url_env_def Accept_def accept_payload_def Let_def)

theorem done_means_stored_witness:
  "item_stored sample_worker sample_url_env (sample_source ''s'' SourceActive) flying_sample
     (tables_after (runOne sample_worker sample_url_env flying_sample) (flying_world, []))
     0 (sample_posting\<lparr>eo_Source := SourceSchemaOrg, eo_SourceURL := ''u'', eo_ApplyURL := ''u''\<rparr>)"
proof -
  let ?s = "sample_source ''s'' SourceActive"
  obtain x w' fs' where r: "runOne sample_worker sample_url_env flying_sample (flying_world, []) = (x, (w', fs'))" by (rule prod_cases3)
  have id: "u_URLID flying_sample = ''u''" "u_SourceID flying_sample = ''s''" "src_Type ?s = SourceSchemaOrg" "src_ID ?s = ''s''"
    by (simp_all add: flying_sample_def claimed_url_def flying_row_def sample_row_def sample_source_def discovered_source_def)
  have sources: "sources (cw_db flying_world) = [?s]" by (simp add: flying_world_def sample_world_def)
  then have src: "source_of ''s'' (cw_db flying_world) = Some ?s"
    by (simp add: source_of_def sample_source_def discovered_source_def src_live_def)
  obtain p where p: "worker_accept sample_worker sample_url_env ?s 0 (url_item flying_sample
      (sample_posting\<lparr>eo_Source := SourceSchemaOrg, eo_SourceURL := ''u'', eo_ApplyURL := ''u''\<rparr>)) = Inr p" "vi_VariantID p = ''v''" "vi_SourceID p = ''s''"
    using accept_sample id(4) by metis
  have q: "cw_queue flying_world = empty_jobs" by (simp add: flying_world_def sample_world_def)
  have worker: "wd_Fetch sample_worker x = Inr (''page'', 200)" "wd_marshalVariant sample_worker y = Some ANil" "wd_QueueMaxPending sample_worker = 0" for x y
    by (simp_all add: sample_worker_def)
  let ?item = "sample_posting\<lparr>eo_Source := SourceSchemaOrg, eo_SourceURL := ''u'', eo_ApplyURL := ''u''\<rparr>"
  obtain d where stored: "emit_items sample_worker sample_url_env ?s flying_sample 0 [?item] None (flying_world, []) =
      (Inr None, (flying_world\<lparr>cw_queue := d\<rparr>, []))"
    using p by (simp add: Let_def worker sql_simps on_queue_def lift_sql_def q Enqueue_def enqueue_insert_def insert_queue_def new_queue_row_def
        queue_appendEvent_def empty_jobs_def frontier_key_def)
  have "runOne sample_worker sample_url_env flying_sample (flying_world, []) = complete_url sample_url_env flying_sample (flying_world\<lparr>cw_queue := d\<rparr>, [])"
    using stored by (simp add: runOne_def worker sql_bind_apply sql_try_apply on_crawl_apply Source_GetByID_ok id src process_page_def page_sample Let_def
        del: emit_items.simps)
  then have "done_url ''u'' (cw_frontier w')"
    using r by (auto simp: complete_url_def void_def sql_simps on_frontier_def lift_sql_def id flying_world_def flying_row_def Frontier_Complete_def
        first_by_def update_url_def update_host_def sample_row_def done_url_def)
  moreover have "\<not> done_url ''u'' (cw_frontier flying_world)"
    by (simp add: done_url_def flying_world_def flying_row_def sample_row_def StateDone_def StateInFlight_def)
  ultimately show ?thesis using done_means_stored[OF _ r] id sources r page_sample[of ?s]
    by (auto simp: tables_after_def sample_worker_def)
qed

definition pending_world :: crawlworld where
  "pending_world = (sample_world [sample_source ''s'' SourceActive] [])\<lparr>cw_frontier :=
     \<lparr>url_frontier = [(sample_row ''u'' 1)\<lparr>f_SourceID := ''s''\<rparr>, (sample_row ''v'' 2)\<lparr>f_SourceID := ''gone''\<rparr>], host_state = [new_host ''h'' 1 1]\<rparr>\<rparr>"

definition sample_batch :: batch_env where
  "sample_batch = \<lparr>be_Now = 1, be_StatsNow = 1, be_LockedHosts = [], be_LockedURLs = [], be_ReclaimNow = 2, be_ClaimNow = 2, be_ClaimWall = 2,
     be_URL = (\<lambda>_. sample_url_env)\<rparr>"

theorem worker_keeps_accounting_witness:
  "frontier_inv (cw_frontier (tables_after (drain_frontier sample_worker 0 (\<lambda>_. sample_batch)) (pending_world, [False, True])))"
  by (rule worker_keeps_accounting)
    (simp add: pending_world_def frontier_inv_def front_keys_def accounting_def sample_row_def new_host_def in_flight_def flying_def StatePending_def
      StateInFlight_def)

end
