(* ===== verification/Spec2Isabelle.thy ===== *)
theory Spec2Isabelle
  imports Application_Routes Application_Pages Jobqueue_Leases Worker Frontier_Properties Calendar_Properties
    Matching_Properties Billing_Reconcile Ats_Booking Ats_Background Crawl_Schedules Flags_Properties
    Frontier_Worker_Properties
begin

text \<open>
  Verification of the stawi.opportunities platform.

  \<^bold>\<open>The program.\<close>  The platform finds opportunities (jobs, scholarships, tenders) on the web, keeps
  them in a catalog, matches them with candidates, tracks the applications of candidates, sells
  subscriptions, and offers employers a hiring pipeline with interviews booked in a calendar.  It is
  a set of Go services over PostgreSQL.

  \<^item> A \<^emph>\<open>crawler\<close> (\<open>apps/crawler\<close>) keeps a table of sources and a schedule for each of them.  A
    crawl request opens or claims the run of a source, reads pages through a connector, passes
    every record through the accept path (\<open>pkg/crawlaccept\<close>) and puts what is admitted into the
    ingestion queue (\<open>pkg/jobqueue\<close>).  Links go to the URL frontier (\<open>pkg/frontier\<close>), which
    \<open>apps/frontier-worker\<close> drains into the same queue.
  \<^item> A \<^emph>\<open>worker\<close> (\<open>apps/worker\<close>) drains the ingestion queue into the catalog of opportunities.
  \<^item> The \<^emph>\<open>matching engine\<close> (\<open>pkg/matching\<close>, \<open>apps/matching\<close>) relates opportunities and candidates.
    The rows of candidates (\<open>pkg/repository/candidate.go\<close>) carry the subscription that \<^emph>\<open>billing\<close>
    (\<open>pkg/billing\<close>) activates.
  \<^item> Users report listings and operators moderate them through the \<^emph>\<open>API service\<close> (\<open>apps/api\<close>).
  \<^item> \<^emph>\<open>Applications\<close> (\<open>apps/applications\<close>, \<open>pkg/applications\<close>) is the tracker of one candidate.
  \<^item> The \<^emph>\<open>employer service\<close> (\<open>apps/ats\<close>) publishes jobs into the catalog, moves applicants through a
    pipeline and books interview panels through the \<^emph>\<open>calendar\<close> (\<open>apps/calendar\<close>).
\<close>

text \<open>
  \<^bold>\<open>Theories and sources.\<close>

  Shared: \<open>Prelude\<close> (Go values, tables as lists, the locale \<open>transition_system\<close> with the induction
  over histories), \<open>Sql\<close> (programs over a transactional database whose statements may fail, and the
  locale \<open>sql_preorder\<close> of relations that the combinators respect), \<open>Domain\<close> (slugs and hard keys of
  \<open>pkg/domain/models.go\<close> and \<open>pkg/jobqueue/slug.go\<close>).

  Applications.
  \<^item> \<open>Applications\<close>: the statuses of \<open>state.go\<close> and the rules document of \<open>rules.go\<close>.
  \<^item> \<open>Application_Store\<close>: the tables and stores of \<open>pkg/applications\<close>.  \<open>Application_Spec\<close>: the
    abstract steps \<open>owned_step\<close> and the invariant \<open>service_inv\<close>.
  \<^item> \<open>Application_Http\<close>: the handlers of \<open>apps/applications/service/http/v1\<close>, that each of them refines
    the abstract steps, and from this the history of an application and one
    application per candidate and opportunity.  \<open>Application_Views\<close>: what a response shows and what a request
    leaves alone, isolation of candidates.  \<open>Application_Pages\<close>: cursor pagination.
  \<^item> \<open>Idempotency\<close>: \<open>pkg/httpmw/idempotency.go\<close> over the contract \<open>idempotency_store\<close>, which the
    store of \<open>pkg/applications/idempotency.go\<close> fulfils; a successful keyed request is not run again before
    its record expires, whatever keyed requests and purges come between (the contract \<open>replay_store\<close>).
  \<^item> \<open>Application_Routes\<close>: \<open>router.go\<close>, the handlers inside the middleware.  The databases of the mounted service
    are those of the handlers on a subsequence of the requests, so the invariants and histories carry over.

  Ingestion.
  \<^item> \<open>Jobqueue\<close>: every operation of \<open>pkg/jobqueue/store.go\<close> in single and dual database mode and
    \<open>admitter.go\<close>.  \<open>Jobqueue_Spec\<close>: \<open>queue_inv\<close>, \<open>catalog_inv\<close>, \<open>job_history\<close> and their preservation.
    \<open>Jobqueue_Properties\<close>, \<open>Jobqueue_Catalog\<close>: stable identities, atomic completion, redelivery.
    \<open>Jobqueue_Leases\<close>: no row is claimed twice inside a lease, over histories of store operations.
  \<^item> \<open>Worker\<close>: \<open>normalize.go\<close> and \<open>postgres_processor.go\<close> of \<open>apps/worker/service\<close>; a drain settles what it
    claims, and ingestion never puts the paid text of a listing into its public attributes.

  Frontier.
  \<^item> \<open>Frontier\<close>: \<open>pkg/frontier\<close> (canonical URLs, claim, completion, failure, politeness, operator
    surface).  \<open>Frontier_Spec\<close>: \<open>frontier_inv\<close> along \<open>front_step\<close>, the protocol in which workers complete
    only what they hold and operators requeue only what nobody holds; the code does not enforce it.
    \<open>Frontier_Properties\<close>: slot accounting along the protocol and two ways to break it outside, politeness, the
    retry delay in 64-bit arithmetic.
  \<^item> \<open>Frontier_Worker\<close>: \<open>apps/frontier-worker/service/handler.go\<close>.  \<open>Frontier_Worker_Properties\<close>: its
    drains are histories of the frontier in the sense above, and a URL is done only when its
    postings are stored.

  Crawl control plane.
  \<^item> \<open>Sources\<close>: \<open>pkg/repository/source.go\<close>, \<open>crawl.go\<close>, \<open>recipe.go\<close> and \<open>pkg/freshness\<close>.
  \<^item> \<open>Crawl_Runs\<close>: the leased runs of \<open>pkg/repository/crawl_run.go\<close> and how a run may evolve (the locale \<open>run_history\<close>).
  \<^item> \<open>Crawl_Accept\<close>: \<open>pkg/opportunity\<close>, \<open>pkg/geocode\<close>, \<open>pkg/normalize\<close>, \<open>pkg/crawlaccept\<close>.
  \<^item> \<open>Crawler\<close>: \<open>crawl_request_handler.go\<close> over the crawl tables, the queue, the catalog and the
    frontier.  \<open>Crawl_Control\<close>: the other handlers of \<open>apps/crawler/service\<close> (dispatch, watchdogs,
    page bookkeeping, discovery, maintenance, schedules).
  \<^item> \<open>Crawl_Spec\<close>: the locale \<open>run_relation\<close>, which lifts a relation of run tables to every handler.
    \<open>Crawl_Leases\<close> interprets it three times; \<open>Crawl_Properties\<close> concludes: one active run per
    source, exclusion by the lease, and the fate of the run of a dead process.
  \<^item> \<open>Crawl_Status\<close> (what handlers do to the status of a source), \<open>Crawl_Schedules\<close> (hours of a
    schedule, convergence of a reconciliation), \<open>Crawl_Slices\<close> (a slice never moves its position past
    a record that is not queued and depends on no page past its budget; what the accept path admits).

  Moderation.
  \<^item> \<open>Flags\<close>: the flags of users (\<open>pkg/domain/flag.go\<close>, \<open>pkg/repository/flag.go\<close>), the routes of
    \<open>apps/api/cmd/flags_admin.go\<close> and the operator's edits of a listing (\<open>jobs_admin.go\<close>).
    \<open>Flags_Properties\<close>: one flag per user and listing in every history, three users hide a listing,
    and the next delivery of it by a crawl makes it public again.

  Calendar.
  \<^item> \<open>Calendar_Slots\<close>: \<open>models/slots.go\<close>.  \<open>Calendar_Slots_Spec\<close>: \<open>ComputeSlots\<close> against a declarative
    specification.
  \<^item> \<open>Calendar\<close>: tables, repositories, iCalendar text.  \<open>Calendar_Service\<close>: \<open>business/service.go\<close> and
    \<open>sync.go\<close>.  \<open>Calendar_Spec\<close>, \<open>Calendar_Steps\<close>: the capacity invariant along \<open>cal_step\<close>.
    \<open>Calendar_Properties\<close>: no overbooking, the interleaving that overbooks, bookable slots, escaping.

  Matching, candidates, billing.
  \<^item> \<open>Matching_Score\<close> (\<open>score.go\<close>), \<open>Matching_Store\<close> (the stores and nearest-neighbour queries),
    \<open>Matching_Paths\<close> (\<open>fanout.go\<close>, \<open>gapfill.go\<close>, \<open>invoke.go\<close>, \<open>candidate_change.go\<close>, \<open>rerank.go\<close> and the
    handlers that change a match).  \<open>Matching_Spec\<close>, \<open>Matching_Properties\<close>: how a match may change,
    weekly caps, quality floor, budgets.
  \<^item> \<open>Candidates\<close>: \<open>pkg/repository/candidate.go\<close>.  \<open>Billing\<close>: \<open>pkg/billing\<close>.  \<open>Billing_Http\<close>: the
    billing routes of \<open>apps/matching/service/http/v1\<close> and the fulfilment of the CV report, with the scorer, the
    placement summary, the list of matched jobs and the notification service as arguments.  \<open>Billing_Spec\<close>, \<open>Billing_Properties\<close>,
    \<open>Billing_Reconcile\<close>: who can be paid, what a sweep activates, and the failures that no sweep repairs.

  Employer service.
  \<^item> \<open>Ats\<close> (jobs, applications, \<open>Advance\<close>, \<open>Hire\<close>, talent), \<open>Ats_Interviews\<close> (the bridge to the calendar,
    interviews, outbox, the idempotency interceptor): \<open>apps/ats/service\<close>.
  \<^item> \<open>Ats_Spec\<close> (the graph of stages and the invariant), \<open>Ats_Steps\<close> (the locale \<open>ats_relation\<close>, which
    lifts a relation of tables to every request), \<open>Ats_Reads\<close> (every reading procedure answers from the rows of the
    partition of its caller alone), \<open>Ats_Properties\<close> (histories, isolation of tenants, a
    lost outcome, the depth of \<open>Hire\<close>), \<open>Ats_Background\<close> (talent, outbox).
  \<^item> \<open>Ats_Booking\<close> composes the service with the calendar: the contract \<open>panel_calendar\<close> is fulfilled by
    the capacity invariant, hence the calendar never holds two live bookings of an interviewer at once.
\<close>

text \<open>
  \<^bold>\<open>Modelling conventions.\<close>

  \<^item> An operation is a function of its arguments and the database; every SQL statement consumes one
    outcome of a fault list, so that theorems over all fault lists cover every failure of a
    statement, and theorems that assume working statements say so.  \<open>transaction\<close> discards the
    changes of a body that fails.
  \<^item> Requests are atomic with respect to each other unless a theorem interleaves statements itself.
    Rows read by a program are not changed under it before it writes them.
  \<^item> Times and durations are integers in nanoseconds.  Clock readings and drawn identifiers are
    arguments.  Go integers that are counters are \<open>nat\<close> or \<open>int\<close>; the retry delay of the frontier
    and the FNV hashes of the accept path are kept at their width, since they wrap.  Floating point values are
    reals.  Strings are lists of characters, and letter case and word tests are those of ASCII; a text cut at a number of
    bytes (\<open>Retry\<close>) is cut at that number of characters and stays valid.
  \<^item> What the ORM stamps on a row (identifier, tenant, times) and the defaults it stores for zero
    values are arguments or written out.  Reads of a replica see the primary.
  \<^item> Nearest-neighbour order is exact (the index of the database is approximate).
  \<^item> Unique indexes and checks of the tables are modelled; lengths of columns are not limited.
  \<^item> Error messages are kept only where the code reads them or stores them.
  \<^item> Code outside the repository, and code that calls remote services, is an argument: HTTP clients,
    connectors, the payment provider, external calendars, the workflow service, HTML and URL parsers.

  \<^bold>\<open>Loops and bounds.\<close>  Loops over rows and records are structural recursions.  \<open>Hire\<close> calls itself
  after an advance; it takes a depth, and two levels are shown to be enough in every state.  The
  loop over hours of a schedule has a termination measure.  The drains of the frontier worker run at
  most \<open>drainMaxBatches\<close> turns.  The iterator of a crawl is a finite list of pages; since the outcome of a slice is shown
  not to depend on the pages past its budget, this loses no behaviour of an iterator without end.

  \<^bold>\<open>Not modelled.\<close>
  \<^item> Remote calls: the S3 blob store, the embedding service, the payment client, the HTTP calendar
    providers, the connectors and the execution of recipes, source verification probes.
  \<^item> Text processing over third-party parsers or language models: HTML cleaning, language
    detection, extraction of postings from JSON-LD, the chat of \<open>me_chat.go\<close>, the heuristic texts of the
    employer assistant, extraction of CVs.
  \<^item> Authentication, HTTP and RPC wire formats, the conversion of protocol messages, generated code.
  \<^item> Scheduling of goroutines: poll loops, the pool of the worker (its sequential branch is
    modelled), and the retention procedure that deletes old rows of the ingestion queue.
  \<^item> The public search API, the operator's listing and dashboard, the administration API of sources,
    the command line tools and the wiring in the \<open>main\<close> packages.
\<close>

end
